(* ===== verification/Prelude.thy ===== *)
theory Prelude
  imports "HOL-Library.Word"
begin

text \<open>
  Shared vocabulary of the development: the fixed-width integer types of the C code, the limits
  of \<open><stdint.h>\<close> the code compares with, the collections the component theories fill
  (\<open>rd_ops\<close>, \<open>rd_checked\<close>, \<open>rd_sticky\<close>, \<open>rd_parses\<close>, \<open>pk_writes\<close>), and the generic lemmas on lists and words.

  Conventions. An \<open>intN_t\<close> or \<open>uintN_t\<close> of the source is an \<open>N word\<close>; a comparison
  the source makes on the signed type goes through \<^const>\<open>sint\<close>, one on the unsigned type
  through \<^const>\<open>uint\<close> or \<^const>\<open>unat\<close>. A C cast between integer types is
  \<^const>\<open>ucast\<close> (truncation, zero extension, and reinterpretation at one width) or
  \<^const>\<open>scast\<close> (sign extension). A \<open>float\<close> or \<open>double\<close> is the word of its
  IEEE 754 bits. A \<open>size_t\<close> is a \<^typ>\<open>nat\<close>; every place where the source guards a
  \<open>size_t\<close> computation against wrap-around keeps that guard, with \<open>SIZE_MAX\<close> the value
  of a 64-bit target. A protocol number (\<open>int\<close>, only ever compared) is an \<^typ>\<open>int\<close>.
\<close>

unbundle bit_operations_syntax

type_synonym u8 = "8 word"
type_synonym u16 = "16 word"
type_synonym u32 = "32 word"
type_synonym u64 = "64 word"
type_synonym i8 = "8 word"
type_synonym i16 = "16 word"
type_synonym i32 = "32 word"
type_synonym i64 = "64 word"
type_synonym f32 = "32 word"
type_synonym f64 = "64 word"

named_theorems rd_ops \<open>operations on a reader that keep its bounds\<close>
named_theorems rd_checked \<open>operations on a reader whose every failure is recorded\<close>
named_theorems rd_sticky \<open>operations on a reader that do nothing after a failure\<close>
named_theorems rd_parses \<open>byte sequences a reader operation accepts\<close>
named_theorems pk_writes \<open>byte sequences a writer operation appends\<close>

definition SIZE_MAX :: nat where
  "SIZE_MAX = 18446744073709551615"

definition INT32_MAX :: nat where
  "INT32_MAX = 2147483647"

definition UINT_MAX :: nat where
  "UINT_MAX = 4294967295"

lemma SIZE_MAX_bounds [simp]: "INT32_MAX < SIZE_MAX" "UINT_MAX < SIZE_MAX"
  by (simp_all add: SIZE_MAX_def INT32_MAX_def UINT_MAX_def)

subsection \<open>Byte buffers handed over by a caller\<close>

text \<open>
  A \<open>(pointer, size)\<close> argument of the public interface: either a null pointer with the size the
  caller claims, or a valid pointer to exactly the bytes it points to.
\<close>

datatype buffer = NullBuf nat | Buf "u8 list"

fun buf_size :: "buffer \<Rightarrow> nat" where
  "buf_size (NullBuf n) = n"
| "buf_size (Buf xs) = length xs"

fun buf_null :: "buffer \<Rightarrow> bool" where
  "buf_null (NullBuf n) = True"
| "buf_null (Buf xs) = False"

fun buf_bytes :: "buffer \<Rightarrow> u8 list" where
  "buf_bytes (NullBuf n) = []"
| "buf_bytes (Buf xs) = xs"

subsection \<open>Generic list lemmas\<close>

lemma take_drop_append_prefix:
  "drop k xs = ys @ zs \<Longrightarrow> take (length ys) (drop k xs) = ys"
  by simp

lemma drop_append_length:
  "drop k xs = ys @ zs \<Longrightarrow> drop (k + length ys) xs = zs"
  by (metis add.commute append_eq_conv_conj drop_drop)

lemma drop_append_bound:
  assumes "drop k xs = ys @ zs" and "k \<le> length xs"
  shows "k + length ys \<le> length xs"
proof -
  have "length (drop k xs) = length ys + length zs" using assms(1) by simp
  then show ?thesis using assms(2) by simp
qed

subsection \<open>The bit masks of the wire format\<close>

text \<open>The simplifier reads the bits of a numeral word as those of the integer.\<close>

lemma bit_7f [simp]: "bit (0x7f :: int) n \<longleftrightarrow> n < 7"
proof -
  have "(0x7f :: int) = mask 7" by (simp add: mask_eq_exp_minus_1)
  then show ?thesis by (simp only: bit_mask_iff) auto
qed

lemma bit_80 [simp]: "bit (0x80 :: int) n \<longleftrightarrow> n = 7"
proof -
  have "(0x80 :: int) = 2 ^ 7" by simp
  then show ?thesis by (simp only: bit_exp_iff) auto
qed

lemma bit_f0 [simp]: "bit (0xf0 :: int) n \<longleftrightarrow> 4 \<le> n \<and> n < 8"
proof -
  have "(0xf0 :: int) = push_bit 4 (mask 4)" by (simp add: mask_eq_exp_minus_1 push_bit_eq_mult)
  then show ?thesis by (simp only: bit_push_bit_iff bit_mask_iff) auto
qed

lemma bit_fe [simp]: "bit (0xfe :: int) n \<longleftrightarrow> 1 \<le> n \<and> n < 8"
proof -
  have "(0xfe :: int) = push_bit 1 (mask 7)" by (simp add: mask_eq_exp_minus_1 push_bit_eq_mult)
  then show ?thesis by (simp only: bit_push_bit_iff bit_mask_iff) auto
qed

end
