(* ===== verification/Catalogs.thy ===== *)
theory Catalogs
  imports Prelude
begin

text \<open>
  The generated packet catalogs of \<open>api.c\<close>: for every supported release the packet names of each
  state and direction, in the order of their wire identifiers. A name table is a list indexed by
  the packet identifier; a release is a \<open>mc_packet_catalog\<close> of six tables, with \<open>PACKET_MAP_NONE\<close> the
  empty one. The two status tables are shared by every release.
\<close>

type_synonym mc_packet_map = "string list"

record mc_packet_catalog =
  cat_protocol :: int
  cat_login_serverbound :: mc_packet_map
  cat_login_clientbound :: mc_packet_map
  cat_configuration_serverbound :: mc_packet_map
  cat_configuration_clientbound :: mc_packet_map
  cat_play_serverbound :: mc_packet_map
  cat_play_clientbound :: mc_packet_map

subsection \<open>Name tables\<close>

definition packet_names_status_serverbound :: mc_packet_map where
  "packet_names_status_serverbound =
    [''ping_start'', ''ping'']"

definition packet_names_status_clientbound :: mc_packet_map where
  "packet_names_status_clientbound =
    [''server_info'', ''ping'']"

definition packet_names_0_login_serverbound :: mc_packet_map where
  "packet_names_0_login_serverbound =
    [''login_start'', ''encryption_begin'']"

definition packet_names_0_login_clientbound :: mc_packet_map where
  "packet_names_0_login_clientbound =
    [''disconnect'', ''encryption_begin'', ''success'']"

definition packet_names_0_play_serverbound :: mc_packet_map where
  "packet_names_0_play_serverbound =
    [''keep_alive'', ''chat'', ''use_entity'', ''flying'', ''position'', ''look'',
    ''position_look'', ''block_dig'', ''block_place'', ''held_item_slot'', ''arm_animation'',
    ''entity_action'', ''steer_vehicle'', ''close_window'', ''window_click'', ''transaction'',
    ''set_creative_slot'', ''enchant_item'', ''update_sign'', ''abilities'', ''tab_complete'',
    ''settings'', ''client_command'', ''custom_payload'']"

definition packet_names_0_play_clientbound :: mc_packet_map where
  "packet_names_0_play_clientbound =
    [''keep_alive'', ''login'', ''chat'', ''update_time'', ''entity_equipment'',
    ''spawn_position'', ''update_health'', ''respawn'', ''position'', ''held_item_slot'', ''bed'',
    ''animation'', ''named_entity_spawn'', ''collect'', ''spawn_entity'', ''spawn_entity_living'',
    ''spawn_entity_painting'', ''spawn_entity_experience_orb'', ''entity_velocity'',
    ''entity_destroy'', ''entity'', ''rel_entity_move'', ''entity_look'', ''entity_move_look'',
    ''entity_teleport'', ''entity_head_rotation'', ''entity_status'', ''attach_entity'',
    ''entity_metadata'', ''entity_effect'', ''remove_entity_effect'', ''experience'',
    ''update_attributes'', ''map_chunk'', ''multi_block_change'', ''block_change'',
    ''block_action'', ''block_break_animation'', ''map_chunk_bulk'', ''explosion'',
    ''world_event'', ''named_sound_effect'', ''world_particles'', ''game_state_change'',
    ''spawn_entity_weather'', ''open_window'', ''close_window'', ''set_slot'', ''window_items'',
    ''craft_progress_bar'', ''transaction'', ''update_sign'', ''map'', ''tile_entity_data'',
    ''open_sign_entity'', ''statistics'', ''player_info'', ''abilities'', ''tab_complete'',
    ''scoreboard_objective'', ''scoreboard_score'', ''scoreboard_display_objective'',
    ''scoreboard_team'', ''custom_payload'', ''kick_disconnect'']"

definition packet_names_1_login_serverbound :: mc_packet_map where
  "packet_names_1_login_serverbound =
    [''login_start'', ''encryption_begin'']"

definition packet_names_1_login_clientbound :: mc_packet_map where
  "packet_names_1_login_clientbound =
    [''disconnect'', ''encryption_begin'', ''success'', ''compress'']"

definition packet_names_1_play_serverbound :: mc_packet_map where
  "packet_names_1_play_serverbound =
    [''keep_alive'', ''chat'', ''use_entity'', ''flying'', ''position'', ''look'',
    ''position_look'', ''block_dig'', ''block_place'', ''held_item_slot'', ''arm_animation'',
    ''entity_action'', ''steer_vehicle'', ''close_window'', ''window_click'', ''transaction'',
    ''set_creative_slot'', ''enchant_item'', ''update_sign'', ''abilities'', ''tab_complete'',
    ''settings'', ''client_command'', ''custom_payload'', ''spectate'', ''resource_pack_receive'']"

definition packet_names_1_play_clientbound :: mc_packet_map where
  "packet_names_1_play_clientbound =
    [''keep_alive'', ''login'', ''chat'', ''update_time'', ''entity_equipment'',
    ''spawn_position'', ''update_health'', ''respawn'', ''position'', ''held_item_slot'', ''bed'',
    ''animation'', ''named_entity_spawn'', ''collect'', ''spawn_entity'', ''spawn_entity_living'',
    ''spawn_entity_painting'', ''spawn_entity_experience_orb'', ''entity_velocity'',
    ''entity_destroy'', ''entity'', ''rel_entity_move'', ''entity_look'', ''entity_move_look'',
    ''entity_teleport'', ''entity_head_rotation'', ''entity_status'', ''attach_entity'',
    ''entity_metadata'', ''entity_effect'', ''remove_entity_effect'', ''experience'',
    ''update_attributes'', ''map_chunk'', ''multi_block_change'', ''block_change'',
    ''block_action'', ''block_break_animation'', ''map_chunk_bulk'', ''explosion'',
    ''world_event'', ''named_sound_effect'', ''world_particles'', ''game_state_change'',
    ''spawn_entity_weather'', ''open_window'', ''close_window'', ''set_slot'', ''window_items'',
    ''craft_progress_bar'', ''transaction'', ''update_sign'', ''map'', ''tile_entity_data'',
    ''open_sign_entity'', ''statistics'', ''player_info'', ''abilities'', ''tab_complete'',
    ''scoreboard_objective'', ''scoreboard_score'', ''scoreboard_display_objective'',
    ''scoreboard_team'', ''custom_payload'', ''kick_disconnect'', ''difficulty'',
    ''combat_event'', ''camera'', ''world_border'', ''title'', ''set_compression'',
    ''playerlist_header'', ''resource_pack_send'', ''update_entity_nbt'']"

definition packet_names_2_login_serverbound :: mc_packet_map where
  "packet_names_2_login_serverbound =
    [''login_start'', ''encryption_begin'']"

definition packet_names_2_login_clientbound :: mc_packet_map where
  "packet_names_2_login_clientbound =
    [''disconnect'', ''encryption_begin'', ''success'', ''compress'']"

definition packet_names_2_play_serverbound :: mc_packet_map where
  "packet_names_2_play_serverbound =
    [''teleport_confirm'', ''tab_complete'', ''chat'', ''client_command'', ''settings'',
    ''transaction'', ''enchant_item'', ''window_click'', ''close_window'', ''custom_payload'',
    ''use_entity'', ''keep_alive'', ''position'', ''position_look'', ''look'', ''flying'',
    ''vehicle_move'', ''steer_boat'', ''abilities'', ''block_dig'', ''entity_action'',
    ''steer_vehicle'', ''resource_pack_receive'', ''held_item_slot'', ''set_creative_slot'',
    ''update_sign'', ''arm_animation'', ''spectate'', ''block_place'', ''use_item'']"

definition packet_names_2_play_clientbound :: mc_packet_map where
  "packet_names_2_play_clientbound =
    [''spawn_entity'', ''spawn_entity_experience_orb'', ''spawn_entity_weather'',
    ''spawn_entity_living'', ''spawn_entity_painting'', ''named_entity_spawn'', ''animation'',
    ''statistics'', ''block_break_animation'', ''tile_entity_data'', ''block_action'',
    ''block_change'', ''boss_bar'', ''difficulty'', ''tab_complete'', ''chat'',
    ''multi_block_change'', ''transaction'', ''close_window'', ''open_window'', ''window_items'',
    ''craft_progress_bar'', ''set_slot'', ''set_cooldown'', ''custom_payload'',
    ''named_sound_effect'', ''kick_disconnect'', ''entity_status'', ''explosion'',
    ''unload_chunk'', ''game_state_change'', ''keep_alive'', ''map_chunk'', ''world_event'',
    ''world_particles'', ''login'', ''map'', ''rel_entity_move'', ''entity_move_look'',
    ''entity_look'', ''entity'', ''vehicle_move'', ''open_sign_entity'', ''abilities'',
    ''combat_event'', ''player_info'', ''position'', ''bed'', ''entity_destroy'',
    ''remove_entity_effect'', ''resource_pack_send'', ''respawn'', ''entity_head_rotation'',
    ''world_border'', ''camera'', ''held_item_slot'', ''scoreboard_display_objective'',
    ''entity_metadata'', ''attach_entity'', ''entity_velocity'', ''entity_equipment'',
    ''experience'', ''update_health'', ''scoreboard_objective'', ''set_passengers'', ''teams'',
    ''scoreboard_score'', ''spawn_position'', ''update_time'', ''title'', ''update_sign'',
    ''sound_effect'', ''playerlist_header'', ''collect'', ''entity_teleport'',
    ''entity_update_attributes'', ''entity_effect'']"

definition packet_names_3_login_serverbound :: mc_packet_map where
  "packet_names_3_login_serverbound =
    [''login_start'', ''encryption_begin'']"

definition packet_names_3_login_clientbound :: mc_packet_map where
  "packet_names_3_login_clientbound =
    [''disconnect'', ''encryption_begin'', ''success'', ''compress'']"

definition packet_names_3_play_serverbound :: mc_packet_map where
  "packet_names_3_play_serverbound =
    [''teleport_confirm'', ''tab_complete'', ''chat'', ''client_command'', ''settings'',
    ''transaction'', ''enchant_item'', ''window_click'', ''close_window'', ''custom_payload'',
    ''use_entity'', ''keep_alive'', ''position'', ''position_look'', ''look'', ''flying'',
    ''vehicle_move'', ''steer_boat'', ''abilities'', ''block_dig'', ''entity_action'',
    ''steer_vehicle'', ''resource_pack_receive'', ''held_item_slot'', ''set_creative_slot'',
    ''update_sign'', ''arm_animation'', ''spectate'', ''block_place'', ''use_item'']"

definition packet_names_3_play_clientbound :: mc_packet_map where
  "packet_names_3_play_clientbound =
    [''spawn_entity'', ''spawn_entity_experience_orb'', ''spawn_entity_weather'',
    ''spawn_entity_living'', ''spawn_entity_painting'', ''named_entity_spawn'', ''animation'',
    ''statistics'', ''block_break_animation'', ''tile_entity_data'', ''block_action'',
    ''block_change'', ''boss_bar'', ''difficulty'', ''tab_complete'', ''chat'',
    ''multi_block_change'', ''transaction'', ''close_window'', ''open_window'', ''window_items'',
    ''craft_progress_bar'', ''set_slot'', ''set_cooldown'', ''custom_payload'',
    ''named_sound_effect'', ''kick_disconnect'', ''entity_status'', ''explosion'',
    ''unload_chunk'', ''game_state_change'', ''keep_alive'', ''map_chunk'', ''world_event'',
    ''world_particles'', ''login'', ''map'', ''rel_entity_move'', ''entity_move_look'',
    ''entity_look'', ''entity'', ''vehicle_move'', ''open_sign_entity'', ''abilities'',
    ''combat_event'', ''player_info'', ''position'', ''bed'', ''entity_destroy'',
    ''remove_entity_effect'', ''resource_pack_send'', ''respawn'', ''entity_head_rotation'',
    ''world_border'', ''camera'', ''held_item_slot'', ''scoreboard_display_objective'',
    ''entity_metadata'', ''attach_entity'', ''entity_velocity'', ''entity_equipment'',
    ''experience'', ''update_health'', ''scoreboard_objective'', ''set_passengers'', ''teams'',
    ''scoreboard_score'', ''spawn_position'', ''update_time'', ''title'', ''sound_effect'',
    ''playerlist_header'', ''collect'', ''entity_teleport'', ''entity_update_attributes'',
    ''entity_effect'']"

definition packet_names_4_login_serverbound :: mc_packet_map where
  "packet_names_4_login_serverbound =
    [''login_start'', ''encryption_begin'']"

definition packet_names_4_login_clientbound :: mc_packet_map where
  "packet_names_4_login_clientbound =
    [''disconnect'', ''encryption_begin'', ''success'', ''compress'']"

definition packet_names_4_play_serverbound :: mc_packet_map where
  "packet_names_4_play_serverbound =
    [''teleport_confirm'', ''prepare_crafting_grid'', ''tab_complete'', ''chat'',
    ''client_command'', ''settings'', ''transaction'', ''enchant_item'', ''window_click'',
    ''close_window'', ''custom_payload'', ''use_entity'', ''keep_alive'', ''flying'',
    ''position'', ''position_look'', ''look'', ''vehicle_move'', ''steer_boat'', ''abilities'',
    ''block_dig'', ''entity_action'', ''steer_vehicle'', ''crafting_book_data'',
    ''resource_pack_receive'', ''advancement_tab'', ''held_item_slot'', ''set_creative_slot'',
    ''update_sign'', ''arm_animation'', ''spectate'', ''block_place'', ''use_item'']"

definition packet_names_4_play_clientbound :: mc_packet_map where
  "packet_names_4_play_clientbound =
    [''spawn_entity'', ''spawn_entity_experience_orb'', ''spawn_entity_weather'',
    ''spawn_entity_living'', ''spawn_entity_painting'', ''named_entity_spawn'', ''animation'',
    ''statistics'', ''block_break_animation'', ''tile_entity_data'', ''block_action'',
    ''block_change'', ''boss_bar'', ''difficulty'', ''tab_complete'', ''chat'',
    ''multi_block_change'', ''transaction'', ''close_window'', ''open_window'', ''window_items'',
    ''craft_progress_bar'', ''set_slot'', ''set_cooldown'', ''custom_payload'',
    ''named_sound_effect'', ''kick_disconnect'', ''entity_status'', ''explosion'',
    ''unload_chunk'', ''game_state_change'', ''keep_alive'', ''map_chunk'', ''world_event'',
    ''world_particles'', ''login'', ''map'', ''entity'', ''rel_entity_move'',
    ''entity_move_look'', ''entity_look'', ''vehicle_move'', ''open_sign_entity'', ''abilities'',
    ''combat_event'', ''player_info'', ''position'', ''bed'', ''unlock_recipes'',
    ''entity_destroy'', ''remove_entity_effect'', ''resource_pack_send'', ''respawn'',
    ''entity_head_rotation'', ''select_advancement_tab'', ''world_border'', ''camera'',
    ''held_item_slot'', ''scoreboard_display_objective'', ''entity_metadata'', ''attach_entity'',
    ''entity_velocity'', ''entity_equipment'', ''experience'', ''update_health'',
    ''scoreboard_objective'', ''set_passengers'', ''teams'', ''scoreboard_score'',
    ''spawn_position'', ''update_time'', ''title'', ''sound_effect'', ''playerlist_header'',
    ''collect'', ''entity_teleport'', ''advancements'', ''entity_update_attributes'',
    ''entity_effect'']"

definition packet_names_5_login_serverbound :: mc_packet_map where
  "packet_names_5_login_serverbound =
    [''login_start'', ''encryption_begin'']"

definition packet_names_5_login_clientbound :: mc_packet_map where
  "packet_names_5_login_clientbound =
    [''disconnect'', ''encryption_begin'', ''success'', ''compress'']"

definition packet_names_5_play_serverbound :: mc_packet_map where
  "packet_names_5_play_serverbound =
    [''teleport_confirm'', ''tab_complete'', ''chat'', ''client_command'', ''settings'',
    ''transaction'', ''enchant_item'', ''window_click'', ''close_window'', ''custom_payload'',
    ''use_entity'', ''keep_alive'', ''flying'', ''position'', ''position_look'', ''look'',
    ''vehicle_move'', ''steer_boat'', ''craft_recipe_request'', ''abilities'', ''block_dig'',
    ''entity_action'', ''steer_vehicle'', ''crafting_book_data'', ''resource_pack_receive'',
    ''advancement_tab'', ''held_item_slot'', ''set_creative_slot'', ''update_sign'',
    ''arm_animation'', ''spectate'', ''block_place'', ''use_item'']"

definition packet_names_5_play_clientbound :: mc_packet_map where
  "packet_names_5_play_clientbound =
    [''spawn_entity'', ''spawn_entity_experience_orb'', ''spawn_entity_weather'',
    ''spawn_entity_living'', ''spawn_entity_painting'', ''named_entity_spawn'', ''animation'',
    ''statistics'', ''block_break_animation'', ''tile_entity_data'', ''block_action'',
    ''block_change'', ''boss_bar'', ''difficulty'', ''tab_complete'', ''chat'',
    ''multi_block_change'', ''transaction'', ''close_window'', ''open_window'', ''window_items'',
    ''craft_progress_bar'', ''set_slot'', ''set_cooldown'', ''custom_payload'',
    ''named_sound_effect'', ''kick_disconnect'', ''entity_status'', ''explosion'',
    ''unload_chunk'', ''game_state_change'', ''keep_alive'', ''map_chunk'', ''world_event'',
    ''world_particles'', ''login'', ''map'', ''entity'', ''rel_entity_move'',
    ''entity_move_look'', ''entity_look'', ''vehicle_move'', ''open_sign_entity'',
    ''craft_recipe_response'', ''abilities'', ''combat_event'', ''player_info'', ''position'',
    ''bed'', ''unlock_recipes'', ''entity_destroy'', ''remove_entity_effect'',
    ''resource_pack_send'', ''respawn'', ''entity_head_rotation'', ''select_advancement_tab'',
    ''world_border'', ''camera'', ''held_item_slot'', ''scoreboard_display_objective'',
    ''entity_metadata'', ''attach_entity'', ''entity_velocity'', ''entity_equipment'',
    ''experience'', ''update_health'', ''scoreboard_objective'', ''set_passengers'', ''teams'',
    ''scoreboard_score'', ''spawn_position'', ''update_time'', ''title'', ''sound_effect'',
    ''playerlist_header'', ''collect'', ''entity_teleport'', ''advancements'',
    ''entity_update_attributes'', ''entity_effect'']"

definition packet_names_6_login_serverbound :: mc_packet_map where
  "packet_names_6_login_serverbound =
    [''login_start'', ''encryption_begin'', ''login_plugin_response'']"

definition packet_names_6_login_clientbound :: mc_packet_map where
  "packet_names_6_login_clientbound =
    [''disconnect'', ''encryption_begin'', ''success'', ''compress'', ''login_plugin_request'']"

definition packet_names_6_play_serverbound :: mc_packet_map where
  "packet_names_6_play_serverbound =
    [''teleport_confirm'', ''query_block_nbt'', ''chat'', ''client_command'', ''settings'',
    ''tab_complete'', ''transaction'', ''enchant_item'', ''window_click'', ''close_window'',
    ''custom_payload'', ''edit_book'', ''query_entity_nbt'', ''use_entity'', ''keep_alive'',
    ''flying'', ''position'', ''position_look'', ''look'', ''vehicle_move'', ''steer_boat'',
    ''pick_item'', ''craft_recipe_request'', ''abilities'', ''block_dig'', ''entity_action'',
    ''steer_vehicle'', ''crafting_book_data'', ''name_item'', ''resource_pack_receive'',
    ''advancement_tab'', ''select_trade'', ''set_beacon_effect'', ''held_item_slot'',
    ''update_command_block'', ''update_command_block_minecart'', ''set_creative_slot'',
    ''update_structure_block'', ''update_sign'', ''arm_animation'', ''spectate'', ''block_place'',
    ''use_item'']"

definition packet_names_6_play_clientbound :: mc_packet_map where
  "packet_names_6_play_clientbound =
    [''spawn_entity'', ''spawn_entity_experience_orb'', ''spawn_entity_weather'',
    ''spawn_entity_living'', ''spawn_entity_painting'', ''named_entity_spawn'', ''animation'',
    ''statistics'', ''block_break_animation'', ''tile_entity_data'', ''block_action'',
    ''block_change'', ''boss_bar'', ''difficulty'', ''chat'', ''multi_block_change'',
    ''tab_complete'', ''declare_commands'', ''transaction'', ''close_window'', ''open_window'',
    ''window_items'', ''craft_progress_bar'', ''set_slot'', ''set_cooldown'', ''custom_payload'',
    ''named_sound_effect'', ''kick_disconnect'', ''entity_status'', ''nbt_query_response'',
    ''explosion'', ''unload_chunk'', ''game_state_change'', ''keep_alive'', ''map_chunk'',
    ''world_event'', ''world_particles'', ''login'', ''map'', ''entity'', ''rel_entity_move'',
    ''entity_move_look'', ''entity_look'', ''vehicle_move'', ''open_sign_entity'',
    ''craft_recipe_response'', ''abilities'', ''combat_event'', ''player_info'', ''face_player'',
    ''position'', ''bed'', ''unlock_recipes'', ''entity_destroy'', ''remove_entity_effect'',
    ''resource_pack_send'', ''respawn'', ''entity_head_rotation'', ''select_advancement_tab'',
    ''world_border'', ''camera'', ''held_item_slot'', ''scoreboard_display_objective'',
    ''entity_metadata'', ''attach_entity'', ''entity_velocity'', ''entity_equipment'',
    ''experience'', ''update_health'', ''scoreboard_objective'', ''set_passengers'', ''teams'',
    ''scoreboard_score'', ''spawn_position'', ''update_time'', ''title'', ''stop_sound'',
    ''sound_effect'', ''playerlist_header'', ''collect'', ''entity_teleport'', ''advancements'',
    ''entity_update_attributes'', ''entity_effect'', ''declare_recipes'', ''tags'']"

definition packet_names_7_login_serverbound :: mc_packet_map where
  "packet_names_7_login_serverbound =
    [''login_start'', ''encryption_begin'', ''login_plugin_response'']"

definition packet_names_7_login_clientbound :: mc_packet_map where
  "packet_names_7_login_clientbound =
    [''disconnect'', ''encryption_begin'', ''success'', ''compress'', ''login_plugin_request'']"

definition packet_names_7_play_serverbound :: mc_packet_map where
  "packet_names_7_play_serverbound =
    [''teleport_confirm'', ''query_block_nbt'', ''set_difficulty'', ''chat'', ''client_command'',
    ''settings'', ''tab_complete'', ''transaction'', ''enchant_item'', ''window_click'',
    ''close_window'', ''custom_payload'', ''edit_book'', ''query_entity_nbt'', ''use_entity'',
    ''keep_alive'', ''lock_difficulty'', ''position'', ''position_look'', ''look'', ''flying'',
    ''vehicle_move'', ''steer_boat'', ''pick_item'', ''craft_recipe_request'', ''abilities'',
    ''block_dig'', ''entity_action'', ''steer_vehicle'', ''crafting_book_data'', ''name_item'',
    ''resource_pack_receive'', ''advancement_tab'', ''select_trade'', ''set_beacon_effect'',
    ''held_item_slot'', ''update_command_block'', ''update_command_block_minecart'',
    ''set_creative_slot'', ''update_jigsaw_block'', ''update_structure_block'', ''update_sign'',
    ''arm_animation'', ''spectate'', ''block_place'', ''use_item'']"

definition packet_names_7_play_clientbound :: mc_packet_map where
  "packet_names_7_play_clientbound =
    [''spawn_entity'', ''spawn_entity_experience_orb'', ''spawn_entity_weather'',
    ''spawn_entity_living'', ''spawn_entity_painting'', ''named_entity_spawn'', ''animation'',
    ''statistics'', ''block_break_animation'', ''tile_entity_data'', ''block_action'',
    ''block_change'', ''boss_bar'', ''difficulty'', ''chat'', ''multi_block_change'',
    ''tab_complete'', ''declare_commands'', ''transaction'', ''close_window'', ''window_items'',
    ''craft_progress_bar'', ''set_slot'', ''set_cooldown'', ''custom_payload'',
    ''named_sound_effect'', ''kick_disconnect'', ''entity_status'', ''explosion'',
    ''unload_chunk'', ''game_state_change'', ''open_horse_window'', ''keep_alive'', ''map_chunk'',
    ''world_event'', ''world_particles'', ''update_light'', ''login'', ''map'', ''trade_list'',
    ''rel_entity_move'', ''entity_move_look'', ''entity_look'', ''entity'', ''vehicle_move'',
    ''open_book'', ''open_window'', ''open_sign_entity'', ''craft_recipe_response'',
    ''abilities'', ''combat_event'', ''player_info'', ''face_player'', ''position'',
    ''unlock_recipes'', ''entity_destroy'', ''remove_entity_effect'', ''resource_pack_send'',
    ''respawn'', ''entity_head_rotation'', ''select_advancement_tab'', ''world_border'',
    ''camera'', ''held_item_slot'', ''update_view_position'', ''update_view_distance'',
    ''scoreboard_display_objective'', ''entity_metadata'', ''attach_entity'', ''entity_velocity'',
    ''entity_equipment'', ''experience'', ''update_health'', ''scoreboard_objective'',
    ''set_passengers'', ''teams'', ''scoreboard_score'', ''spawn_position'', ''update_time'',
    ''title'', ''entity_sound_effect'', ''sound_effect'', ''stop_sound'', ''playerlist_header'',
    ''nbt_query_response'', ''collect'', ''entity_teleport'', ''advancements'',
    ''entity_update_attributes'', ''entity_effect'', ''declare_recipes'', ''tags'']"

definition packet_names_8_login_serverbound :: mc_packet_map where
  "packet_names_8_login_serverbound =
    [''login_start'', ''encryption_begin'', ''login_plugin_response'']"

definition packet_names_8_login_clientbound :: mc_packet_map where
  "packet_names_8_login_clientbound =
    [''disconnect'', ''encryption_begin'', ''success'', ''compress'', ''login_plugin_request'']"

definition packet_names_8_play_serverbound :: mc_packet_map where
  "packet_names_8_play_serverbound =
    [''teleport_confirm'', ''query_block_nbt'', ''set_difficulty'', ''chat'', ''client_command'',
    ''settings'', ''tab_complete'', ''transaction'', ''enchant_item'', ''window_click'',
    ''close_window'', ''custom_payload'', ''edit_book'', ''query_entity_nbt'', ''use_entity'',
    ''keep_alive'', ''lock_difficulty'', ''position'', ''position_look'', ''look'', ''flying'',
    ''vehicle_move'', ''steer_boat'', ''pick_item'', ''craft_recipe_request'', ''abilities'',
    ''block_dig'', ''entity_action'', ''steer_vehicle'', ''crafting_book_data'', ''name_item'',
    ''resource_pack_receive'', ''advancement_tab'', ''select_trade'', ''set_beacon_effect'',
    ''held_item_slot'', ''update_command_block'', ''update_command_block_minecart'',
    ''set_creative_slot'', ''update_jigsaw_block'', ''update_structure_block'', ''update_sign'',
    ''arm_animation'', ''spectate'', ''block_place'', ''use_item'']"

definition packet_names_8_play_clientbound :: mc_packet_map where
  "packet_names_8_play_clientbound =
    [''spawn_entity'', ''spawn_entity_experience_orb'', ''spawn_entity_weather'',
    ''spawn_entity_living'', ''spawn_entity_painting'', ''named_entity_spawn'', ''animation'',
    ''statistics'', ''block_break_animation'', ''tile_entity_data'', ''block_action'',
    ''block_change'', ''boss_bar'', ''difficulty'', ''chat'', ''multi_block_change'',
    ''tab_complete'', ''declare_commands'', ''transaction'', ''close_window'', ''window_items'',
    ''craft_progress_bar'', ''set_slot'', ''set_cooldown'', ''custom_payload'',
    ''named_sound_effect'', ''kick_disconnect'', ''entity_status'', ''explosion'',
    ''unload_chunk'', ''game_state_change'', ''open_horse_window'', ''keep_alive'', ''map_chunk'',
    ''world_event'', ''world_particles'', ''update_light'', ''login'', ''map'', ''trade_list'',
    ''rel_entity_move'', ''entity_move_look'', ''entity_look'', ''entity'', ''vehicle_move'',
    ''open_book'', ''open_window'', ''open_sign_entity'', ''craft_recipe_response'',
    ''abilities'', ''combat_event'', ''player_info'', ''face_player'', ''position'',
    ''unlock_recipes'', ''entity_destroy'', ''remove_entity_effect'', ''resource_pack_send'',
    ''respawn'', ''entity_head_rotation'', ''select_advancement_tab'', ''world_border'',
    ''camera'', ''held_item_slot'', ''update_view_position'', ''update_view_distance'',
    ''scoreboard_display_objective'', ''entity_metadata'', ''attach_entity'', ''entity_velocity'',
    ''entity_equipment'', ''experience'', ''update_health'', ''scoreboard_objective'',
    ''set_passengers'', ''teams'', ''scoreboard_score'', ''spawn_position'', ''update_time'',
    ''title'', ''entity_sound_effect'', ''sound_effect'', ''stop_sound'', ''playerlist_header'',
    ''nbt_query_response'', ''collect'', ''entity_teleport'', ''advancements'',
    ''entity_update_attributes'', ''entity_effect'', ''declare_recipes'', ''tags'',
    ''acknowledge_player_digging'']"

definition packet_names_9_login_serverbound :: mc_packet_map where
  "packet_names_9_login_serverbound =
    [''login_start'', ''encryption_begin'', ''login_plugin_response'']"

definition packet_names_9_login_clientbound :: mc_packet_map where
  "packet_names_9_login_clientbound =
    [''disconnect'', ''encryption_begin'', ''success'', ''compress'', ''login_plugin_request'']"

definition packet_names_9_play_serverbound :: mc_packet_map where
  "packet_names_9_play_serverbound =
    [''teleport_confirm'', ''query_block_nbt'', ''set_difficulty'', ''chat'', ''client_command'',
    ''settings'', ''tab_complete'', ''transaction'', ''enchant_item'', ''window_click'',
    ''close_window'', ''custom_payload'', ''edit_book'', ''query_entity_nbt'', ''use_entity'',
    ''keep_alive'', ''lock_difficulty'', ''position'', ''position_look'', ''look'', ''flying'',
    ''vehicle_move'', ''steer_boat'', ''pick_item'', ''craft_recipe_request'', ''abilities'',
    ''block_dig'', ''entity_action'', ''steer_vehicle'', ''crafting_book_data'', ''name_item'',
    ''resource_pack_receive'', ''advancement_tab'', ''select_trade'', ''set_beacon_effect'',
    ''held_item_slot'', ''update_command_block'', ''update_command_block_minecart'',
    ''set_creative_slot'', ''update_jigsaw_block'', ''update_structure_block'', ''update_sign'',
    ''arm_animation'', ''spectate'', ''block_place'', ''use_item'']"

definition packet_names_9_play_clientbound :: mc_packet_map where
  "packet_names_9_play_clientbound =
    [''spawn_entity'', ''spawn_entity_experience_orb'', ''spawn_entity_weather'',
    ''spawn_entity_living'', ''spawn_entity_painting'', ''named_entity_spawn'', ''animation'',
    ''statistics'', ''acknowledge_player_digging'', ''block_break_animation'',
    ''tile_entity_data'', ''block_action'', ''block_change'', ''boss_bar'', ''difficulty'',
    ''chat'', ''multi_block_change'', ''tab_complete'', ''declare_commands'', ''transaction'',
    ''close_window'', ''window_items'', ''craft_progress_bar'', ''set_slot'', ''set_cooldown'',
    ''custom_payload'', ''named_sound_effect'', ''kick_disconnect'', ''entity_status'',
    ''explosion'', ''unload_chunk'', ''game_state_change'', ''open_horse_window'', ''keep_alive'',
    ''map_chunk'', ''world_event'', ''world_particles'', ''update_light'', ''login'', ''map'',
    ''trade_list'', ''rel_entity_move'', ''entity_move_look'', ''entity_look'', ''entity'',
    ''vehicle_move'', ''open_book'', ''open_window'', ''open_sign_entity'',
    ''craft_recipe_response'', ''abilities'', ''combat_event'', ''player_info'', ''face_player'',
    ''position'', ''unlock_recipes'', ''entity_destroy'', ''remove_entity_effect'',
    ''resource_pack_send'', ''respawn'', ''entity_head_rotation'', ''select_advancement_tab'',
    ''world_border'', ''camera'', ''held_item_slot'', ''update_view_position'',
    ''update_view_distance'', ''scoreboard_display_objective'', ''entity_metadata'',
    ''attach_entity'', ''entity_velocity'', ''entity_equipment'', ''experience'',
    ''update_health'', ''scoreboard_objective'', ''set_passengers'', ''teams'',
    ''scoreboard_score'', ''spawn_position'', ''update_time'', ''title'', ''entity_sound_effect'',
    ''sound_effect'', ''stop_sound'', ''playerlist_header'', ''nbt_query_response'', ''collect'',
    ''entity_teleport'', ''advancements'', ''entity_update_attributes'', ''entity_effect'',
    ''declare_recipes'', ''tags'']"

definition packet_names_10_login_serverbound :: mc_packet_map where
  "packet_names_10_login_serverbound =
    [''login_start'', ''encryption_begin'', ''login_plugin_response'']"

definition packet_names_10_login_clientbound :: mc_packet_map where
  "packet_names_10_login_clientbound =
    [''disconnect'', ''encryption_begin'', ''success'', ''compress'', ''login_plugin_request'']"

definition packet_names_10_play_serverbound :: mc_packet_map where
  "packet_names_10_play_serverbound =
    [''teleport_confirm'', ''query_block_nbt'', ''set_difficulty'', ''chat'', ''client_command'',
    ''settings'', ''tab_complete'', ''transaction'', ''enchant_item'', ''window_click'',
    ''close_window'', ''custom_payload'', ''edit_book'', ''query_entity_nbt'', ''use_entity'',
    ''generate_structure'', ''keep_alive'', ''lock_difficulty'', ''position'', ''position_look'',
    ''look'', ''flying'', ''vehicle_move'', ''steer_boat'', ''pick_item'',
    ''craft_recipe_request'', ''abilities'', ''block_dig'', ''entity_action'', ''steer_vehicle'',
    ''crafting_book_data'', ''name_item'', ''resource_pack_receive'', ''advancement_tab'',
    ''select_trade'', ''set_beacon_effect'', ''held_item_slot'', ''update_command_block'',
    ''update_command_block_minecart'', ''set_creative_slot'', ''update_jigsaw_block'',
    ''update_structure_block'', ''update_sign'', ''arm_animation'', ''spectate'', ''block_place'',
    ''use_item'']"

definition packet_names_10_play_clientbound :: mc_packet_map where
  "packet_names_10_play_clientbound =
    [''spawn_entity'', ''spawn_entity_experience_orb'', ''spawn_entity_living'',
    ''spawn_entity_painting'', ''named_entity_spawn'', ''animation'', ''statistics'',
    ''acknowledge_player_digging'', ''block_break_animation'', ''tile_entity_data'',
    ''block_action'', ''block_change'', ''boss_bar'', ''difficulty'', ''chat'',
    ''multi_block_change'', ''tab_complete'', ''declare_commands'', ''transaction'',
    ''close_window'', ''window_items'', ''craft_progress_bar'', ''set_slot'', ''set_cooldown'',
    ''custom_payload'', ''named_sound_effect'', ''kick_disconnect'', ''entity_status'',
    ''explosion'', ''unload_chunk'', ''game_state_change'', ''open_horse_window'', ''keep_alive'',
    ''map_chunk'', ''world_event'', ''world_particles'', ''update_light'', ''login'', ''map'',
    ''trade_list'', ''rel_entity_move'', ''entity_move_look'', ''entity_look'', ''entity'',
    ''vehicle_move'', ''open_book'', ''open_window'', ''open_sign_entity'',
    ''craft_recipe_response'', ''abilities'', ''combat_event'', ''player_info'', ''face_player'',
    ''position'', ''unlock_recipes'', ''entity_destroy'', ''remove_entity_effect'',
    ''resource_pack_send'', ''respawn'', ''entity_head_rotation'', ''select_advancement_tab'',
    ''world_border'', ''camera'', ''held_item_slot'', ''update_view_position'',
    ''update_view_distance'', ''spawn_position'', ''scoreboard_display_objective'',
    ''entity_metadata'', ''attach_entity'', ''entity_velocity'', ''entity_equipment'',
    ''experience'', ''update_health'', ''scoreboard_objective'', ''set_passengers'', ''teams'',
    ''scoreboard_score'', ''update_time'', ''title'', ''entity_sound_effect'', ''sound_effect'',
    ''stop_sound'', ''playerlist_header'', ''nbt_query_response'', ''collect'',
    ''entity_teleport'', ''advancements'', ''entity_update_attributes'', ''entity_effect'',
    ''declare_recipes'', ''tags'']"

definition packet_names_11_login_serverbound :: mc_packet_map where
  "packet_names_11_login_serverbound =
    [''login_start'', ''encryption_begin'', ''login_plugin_response'']"

definition packet_names_11_login_clientbound :: mc_packet_map where
  "packet_names_11_login_clientbound =
    [''disconnect'', ''encryption_begin'', ''success'', ''compress'', ''login_plugin_request'']"

definition packet_names_11_play_serverbound :: mc_packet_map where
  "packet_names_11_play_serverbound =
    [''teleport_confirm'', ''query_block_nbt'', ''set_difficulty'', ''chat'', ''client_command'',
    ''settings'', ''tab_complete'', ''transaction'', ''enchant_item'', ''window_click'',
    ''close_window'', ''custom_payload'', ''edit_book'', ''query_entity_nbt'', ''use_entity'',
    ''generate_structure'', ''keep_alive'', ''lock_difficulty'', ''position'', ''position_look'',
    ''look'', ''flying'', ''vehicle_move'', ''steer_boat'', ''pick_item'',
    ''craft_recipe_request'', ''abilities'', ''block_dig'', ''entity_action'', ''steer_vehicle'',
    ''recipe_book'', ''displayed_recipe'', ''name_item'', ''resource_pack_receive'',
    ''advancement_tab'', ''select_trade'', ''set_beacon_effect'', ''held_item_slot'',
    ''update_command_block'', ''update_command_block_minecart'', ''set_creative_slot'',
    ''update_jigsaw_block'', ''update_structure_block'', ''update_sign'', ''arm_animation'',
    ''spectate'', ''block_place'', ''use_item'']"

definition packet_names_11_play_clientbound :: mc_packet_map where
  "packet_names_11_play_clientbound =
    [''spawn_entity'', ''spawn_entity_experience_orb'', ''spawn_entity_living'',
    ''spawn_entity_painting'', ''named_entity_spawn'', ''animation'', ''statistics'',
    ''acknowledge_player_digging'', ''block_break_animation'', ''tile_entity_data'',
    ''block_action'', ''block_change'', ''boss_bar'', ''difficulty'', ''chat'', ''tab_complete'',
    ''declare_commands'', ''transaction'', ''close_window'', ''window_items'',
    ''craft_progress_bar'', ''set_slot'', ''set_cooldown'', ''custom_payload'',
    ''named_sound_effect'', ''kick_disconnect'', ''entity_status'', ''explosion'',
    ''unload_chunk'', ''game_state_change'', ''open_horse_window'', ''keep_alive'', ''map_chunk'',
    ''world_event'', ''world_particles'', ''update_light'', ''login'', ''map'', ''trade_list'',
    ''rel_entity_move'', ''entity_move_look'', ''entity_look'', ''entity'', ''vehicle_move'',
    ''open_book'', ''open_window'', ''open_sign_entity'', ''craft_recipe_response'',
    ''abilities'', ''combat_event'', ''player_info'', ''face_player'', ''position'',
    ''unlock_recipes'', ''entity_destroy'', ''remove_entity_effect'', ''resource_pack_send'',
    ''respawn'', ''entity_head_rotation'', ''multi_block_change'', ''select_advancement_tab'',
    ''world_border'', ''camera'', ''held_item_slot'', ''update_view_position'',
    ''update_view_distance'', ''spawn_position'', ''scoreboard_display_objective'',
    ''entity_metadata'', ''attach_entity'', ''entity_velocity'', ''entity_equipment'',
    ''experience'', ''update_health'', ''scoreboard_objective'', ''set_passengers'', ''teams'',
    ''scoreboard_score'', ''update_time'', ''title'', ''entity_sound_effect'', ''sound_effect'',
    ''stop_sound'', ''playerlist_header'', ''nbt_query_response'', ''collect'',
    ''entity_teleport'', ''advancements'', ''entity_update_attributes'', ''entity_effect'',
    ''declare_recipes'', ''tags'']"

definition packet_names_12_login_serverbound :: mc_packet_map where
  "packet_names_12_login_serverbound =
    [''login_start'', ''encryption_begin'', ''login_plugin_response'']"

definition packet_names_12_login_clientbound :: mc_packet_map where
  "packet_names_12_login_clientbound =
    [''disconnect'', ''encryption_begin'', ''success'', ''compress'', ''login_plugin_request'']"

definition packet_names_12_play_serverbound :: mc_packet_map where
  "packet_names_12_play_serverbound =
    [''teleport_confirm'', ''query_block_nbt'', ''set_difficulty'', ''chat'', ''client_command'',
    ''settings'', ''tab_complete'', ''enchant_item'', ''window_click'', ''close_window'',
    ''custom_payload'', ''edit_book'', ''query_entity_nbt'', ''use_entity'',
    ''generate_structure'', ''keep_alive'', ''lock_difficulty'', ''position'', ''position_look'',
    ''look'', ''flying'', ''vehicle_move'', ''steer_boat'', ''pick_item'',
    ''craft_recipe_request'', ''abilities'', ''block_dig'', ''entity_action'', ''steer_vehicle'',
    ''pong'', ''recipe_book'', ''displayed_recipe'', ''name_item'', ''resource_pack_receive'',
    ''advancement_tab'', ''select_trade'', ''set_beacon_effect'', ''held_item_slot'',
    ''update_command_block'', ''update_command_block_minecart'', ''set_creative_slot'',
    ''update_jigsaw_block'', ''update_structure_block'', ''update_sign'', ''arm_animation'',
    ''spectate'', ''block_place'', ''use_item'']"

definition packet_names_12_play_clientbound :: mc_packet_map where
  "packet_names_12_play_clientbound =
    [''spawn_entity'', ''spawn_entity_experience_orb'', ''spawn_entity_living'',
    ''spawn_entity_painting'', ''named_entity_spawn'', ''sculk_vibration_signal'', ''animation'',
    ''statistics'', ''acknowledge_player_digging'', ''block_break_animation'',
    ''tile_entity_data'', ''block_action'', ''block_change'', ''boss_bar'', ''difficulty'',
    ''chat'', ''clear_titles'', ''tab_complete'', ''declare_commands'', ''close_window'',
    ''window_items'', ''craft_progress_bar'', ''set_slot'', ''set_cooldown'', ''custom_payload'',
    ''named_sound_effect'', ''kick_disconnect'', ''entity_status'', ''explosion'',
    ''unload_chunk'', ''game_state_change'', ''open_horse_window'', ''initialize_world_border'',
    ''keep_alive'', ''map_chunk'', ''world_event'', ''world_particles'', ''update_light'',
    ''login'', ''map'', ''trade_list'', ''rel_entity_move'', ''entity_move_look'',
    ''entity_look'', ''vehicle_move'', ''open_book'', ''open_window'', ''open_sign_entity'',
    ''ping'', ''craft_recipe_response'', ''abilities'', ''end_combat_event'',
    ''enter_combat_event'', ''death_combat_event'', ''player_info'', ''face_player'',
    ''position'', ''unlock_recipes'', ''destroy_entity'', ''remove_entity_effect'',
    ''resource_pack_send'', ''respawn'', ''entity_head_rotation'', ''multi_block_change'',
    ''select_advancement_tab'', ''action_bar'', ''world_border_center'',
    ''world_border_lerp_size'', ''world_border_size'', ''world_border_warning_delay'',
    ''world_border_warning_reach'', ''camera'', ''held_item_slot'', ''update_view_position'',
    ''update_view_distance'', ''spawn_position'', ''scoreboard_display_objective'',
    ''entity_metadata'', ''attach_entity'', ''entity_velocity'', ''entity_equipment'',
    ''experience'', ''update_health'', ''scoreboard_objective'', ''set_passengers'', ''teams'',
    ''scoreboard_score'', ''set_title_subtitle'', ''update_time'', ''set_title_text'',
    ''set_title_time'', ''entity_sound_effect'', ''sound_effect'', ''stop_sound'',
    ''playerlist_header'', ''nbt_query_response'', ''collect'', ''entity_teleport'',
    ''advancements'', ''entity_update_attributes'', ''entity_effect'', ''declare_recipes'',
    ''tags'']"

definition packet_names_13_login_serverbound :: mc_packet_map where
  "packet_names_13_login_serverbound =
    [''login_start'', ''encryption_begin'', ''login_plugin_response'']"

definition packet_names_13_login_clientbound :: mc_packet_map where
  "packet_names_13_login_clientbound =
    [''disconnect'', ''encryption_begin'', ''success'', ''compress'', ''login_plugin_request'']"

definition packet_names_13_play_serverbound :: mc_packet_map where
  "packet_names_13_play_serverbound =
    [''teleport_confirm'', ''query_block_nbt'', ''set_difficulty'', ''chat'', ''client_command'',
    ''settings'', ''tab_complete'', ''enchant_item'', ''window_click'', ''close_window'',
    ''custom_payload'', ''edit_book'', ''query_entity_nbt'', ''use_entity'',
    ''generate_structure'', ''keep_alive'', ''lock_difficulty'', ''position'', ''position_look'',
    ''look'', ''flying'', ''vehicle_move'', ''steer_boat'', ''pick_item'',
    ''craft_recipe_request'', ''abilities'', ''block_dig'', ''entity_action'', ''steer_vehicle'',
    ''pong'', ''recipe_book'', ''displayed_recipe'', ''name_item'', ''resource_pack_receive'',
    ''advancement_tab'', ''select_trade'', ''set_beacon_effect'', ''held_item_slot'',
    ''update_command_block'', ''update_command_block_minecart'', ''set_creative_slot'',
    ''update_jigsaw_block'', ''update_structure_block'', ''update_sign'', ''arm_animation'',
    ''spectate'', ''block_place'', ''use_item'']"

definition packet_names_13_play_clientbound :: mc_packet_map where
  "packet_names_13_play_clientbound =
    [''spawn_entity'', ''spawn_entity_experience_orb'', ''spawn_entity_living'',
    ''spawn_entity_painting'', ''named_entity_spawn'', ''sculk_vibration_signal'', ''animation'',
    ''statistics'', ''acknowledge_player_digging'', ''block_break_animation'',
    ''tile_entity_data'', ''block_action'', ''block_change'', ''boss_bar'', ''difficulty'',
    ''chat'', ''clear_titles'', ''tab_complete'', ''declare_commands'', ''close_window'',
    ''window_items'', ''craft_progress_bar'', ''set_slot'', ''set_cooldown'', ''custom_payload'',
    ''named_sound_effect'', ''kick_disconnect'', ''entity_status'', ''explosion'',
    ''unload_chunk'', ''game_state_change'', ''open_horse_window'', ''initialize_world_border'',
    ''keep_alive'', ''map_chunk'', ''world_event'', ''world_particles'', ''update_light'',
    ''login'', ''map'', ''trade_list'', ''rel_entity_move'', ''entity_move_look'',
    ''entity_look'', ''vehicle_move'', ''open_book'', ''open_window'', ''open_sign_entity'',
    ''ping'', ''craft_recipe_response'', ''abilities'', ''end_combat_event'',
    ''enter_combat_event'', ''death_combat_event'', ''player_info'', ''face_player'',
    ''position'', ''unlock_recipes'', ''entity_destroy'', ''remove_entity_effect'',
    ''resource_pack_send'', ''respawn'', ''entity_head_rotation'', ''multi_block_change'',
    ''select_advancement_tab'', ''action_bar'', ''world_border_center'',
    ''world_border_lerp_size'', ''world_border_size'', ''world_border_warning_delay'',
    ''world_border_warning_reach'', ''camera'', ''held_item_slot'', ''update_view_position'',
    ''update_view_distance'', ''spawn_position'', ''scoreboard_display_objective'',
    ''entity_metadata'', ''attach_entity'', ''entity_velocity'', ''entity_equipment'',
    ''experience'', ''update_health'', ''scoreboard_objective'', ''set_passengers'', ''teams'',
    ''scoreboard_score'', ''set_title_subtitle'', ''update_time'', ''set_title_text'',
    ''set_title_time'', ''entity_sound_effect'', ''sound_effect'', ''stop_sound'',
    ''playerlist_header'', ''nbt_query_response'', ''collect'', ''entity_teleport'',
    ''advancements'', ''entity_update_attributes'', ''entity_effect'', ''declare_recipes'',
    ''tags'']"

definition packet_names_14_login_serverbound :: mc_packet_map where
  "packet_names_14_login_serverbound =
    [''login_start'', ''encryption_begin'', ''login_plugin_response'']"

definition packet_names_14_login_clientbound :: mc_packet_map where
  "packet_names_14_login_clientbound =
    [''disconnect'', ''encryption_begin'', ''success'', ''compress'', ''login_plugin_request'']"

definition packet_names_14_play_serverbound :: mc_packet_map where
  "packet_names_14_play_serverbound =
    [''teleport_confirm'', ''query_block_nbt'', ''set_difficulty'', ''chat'', ''client_command'',
    ''settings'', ''tab_complete'', ''enchant_item'', ''window_click'', ''close_window'',
    ''custom_payload'', ''edit_book'', ''query_entity_nbt'', ''use_entity'',
    ''generate_structure'', ''keep_alive'', ''lock_difficulty'', ''position'', ''position_look'',
    ''look'', ''flying'', ''vehicle_move'', ''steer_boat'', ''pick_item'',
    ''craft_recipe_request'', ''abilities'', ''block_dig'', ''entity_action'', ''steer_vehicle'',
    ''pong'', ''recipe_book'', ''displayed_recipe'', ''name_item'', ''resource_pack_receive'',
    ''advancement_tab'', ''select_trade'', ''set_beacon_effect'', ''held_item_slot'',
    ''update_command_block'', ''update_command_block_minecart'', ''set_creative_slot'',
    ''update_jigsaw_block'', ''update_structure_block'', ''update_sign'', ''arm_animation'',
    ''spectate'', ''block_place'', ''use_item'']"

definition packet_names_14_play_clientbound :: mc_packet_map where
  "packet_names_14_play_clientbound =
    [''spawn_entity'', ''spawn_entity_experience_orb'', ''spawn_entity_living'',
    ''spawn_entity_painting'', ''named_entity_spawn'', ''sculk_vibration_signal'', ''animation'',
    ''statistics'', ''acknowledge_player_digging'', ''block_break_animation'',
    ''tile_entity_data'', ''block_action'', ''block_change'', ''boss_bar'', ''difficulty'',
    ''chat'', ''clear_titles'', ''tab_complete'', ''declare_commands'', ''close_window'',
    ''window_items'', ''craft_progress_bar'', ''set_slot'', ''set_cooldown'', ''custom_payload'',
    ''named_sound_effect'', ''kick_disconnect'', ''entity_status'', ''explosion'',
    ''unload_chunk'', ''game_state_change'', ''open_horse_window'', ''initialize_world_border'',
    ''keep_alive'', ''map_chunk'', ''world_event'', ''world_particles'', ''update_light'',
    ''login'', ''map'', ''trade_list'', ''rel_entity_move'', ''entity_move_look'',
    ''entity_look'', ''vehicle_move'', ''open_book'', ''open_window'', ''open_sign_entity'',
    ''ping'', ''craft_recipe_response'', ''abilities'', ''end_combat_event'',
    ''enter_combat_event'', ''death_combat_event'', ''player_info'', ''face_player'',
    ''position'', ''unlock_recipes'', ''entity_destroy'', ''remove_entity_effect'',
    ''resource_pack_send'', ''respawn'', ''entity_head_rotation'', ''multi_block_change'',
    ''select_advancement_tab'', ''action_bar'', ''world_border_center'',
    ''world_border_lerp_size'', ''world_border_size'', ''world_border_warning_delay'',
    ''world_border_warning_reach'', ''camera'', ''held_item_slot'', ''update_view_position'',
    ''update_view_distance'', ''spawn_position'', ''scoreboard_display_objective'',
    ''entity_metadata'', ''attach_entity'', ''entity_velocity'', ''entity_equipment'',
    ''experience'', ''update_health'', ''scoreboard_objective'', ''set_passengers'', ''teams'',
    ''scoreboard_score'', ''simulation_distance'', ''set_title_subtitle'', ''update_time'',
    ''set_title_text'', ''set_title_time'', ''entity_sound_effect'', ''sound_effect'',
    ''stop_sound'', ''playerlist_header'', ''nbt_query_response'', ''collect'',
    ''entity_teleport'', ''advancements'', ''entity_update_attributes'', ''entity_effect'',
    ''declare_recipes'', ''tags'']"

definition packet_names_15_login_serverbound :: mc_packet_map where
  "packet_names_15_login_serverbound =
    [''login_start'', ''encryption_begin'', ''login_plugin_response'']"

definition packet_names_15_login_clientbound :: mc_packet_map where
  "packet_names_15_login_clientbound =
    [''disconnect'', ''encryption_begin'', ''success'', ''compress'', ''login_plugin_request'']"

definition packet_names_15_play_serverbound :: mc_packet_map where
  "packet_names_15_play_serverbound =
    [''teleport_confirm'', ''query_block_nbt'', ''set_difficulty'', ''chat_command'',
    ''chat_message'', ''chat_preview'', ''client_command'', ''settings'', ''tab_complete'',
    ''enchant_item'', ''window_click'', ''close_window'', ''custom_payload'', ''edit_book'',
    ''query_entity_nbt'', ''use_entity'', ''generate_structure'', ''keep_alive'',
    ''lock_difficulty'', ''position'', ''position_look'', ''look'', ''flying'', ''vehicle_move'',
    ''steer_boat'', ''pick_item'', ''craft_recipe_request'', ''abilities'', ''block_dig'',
    ''entity_action'', ''steer_vehicle'', ''pong'', ''recipe_book'', ''displayed_recipe'',
    ''name_item'', ''resource_pack_receive'', ''advancement_tab'', ''select_trade'',
    ''set_beacon_effect'', ''held_item_slot'', ''update_command_block'',
    ''update_command_block_minecart'', ''set_creative_slot'', ''update_jigsaw_block'',
    ''update_structure_block'', ''update_sign'', ''arm_animation'', ''spectate'', ''block_place'',
    ''use_item'']"

definition packet_names_15_play_clientbound :: mc_packet_map where
  "packet_names_15_play_clientbound =
    [''spawn_entity'', ''spawn_entity_experience_orb'', ''named_entity_spawn'', ''animation'',
    ''statistics'', ''acknowledge_player_digging'', ''block_break_animation'',
    ''tile_entity_data'', ''block_action'', ''block_change'', ''boss_bar'', ''difficulty'',
    ''chat_preview'', ''clear_titles'', ''tab_complete'', ''declare_commands'', ''close_window'',
    ''window_items'', ''craft_progress_bar'', ''set_slot'', ''set_cooldown'', ''custom_payload'',
    ''named_sound_effect'', ''kick_disconnect'', ''entity_status'', ''explosion'',
    ''unload_chunk'', ''game_state_change'', ''open_horse_window'', ''initialize_world_border'',
    ''keep_alive'', ''map_chunk'', ''world_event'', ''world_particles'', ''update_light'',
    ''login'', ''map'', ''trade_list'', ''rel_entity_move'', ''entity_move_look'',
    ''entity_look'', ''vehicle_move'', ''open_book'', ''open_window'', ''open_sign_entity'',
    ''ping'', ''craft_recipe_response'', ''abilities'', ''player_chat'', ''end_combat_event'',
    ''enter_combat_event'', ''death_combat_event'', ''player_info'', ''face_player'',
    ''position'', ''unlock_recipes'', ''entity_destroy'', ''remove_entity_effect'',
    ''resource_pack_send'', ''respawn'', ''entity_head_rotation'', ''multi_block_change'',
    ''select_advancement_tab'', ''server_data'', ''action_bar'', ''world_border_center'',
    ''world_border_lerp_size'', ''world_border_size'', ''world_border_warning_delay'',
    ''world_border_warning_reach'', ''camera'', ''held_item_slot'', ''update_view_position'',
    ''update_view_distance'', ''spawn_position'', ''should_display_chat_preview'',
    ''scoreboard_display_objective'', ''entity_metadata'', ''attach_entity'', ''entity_velocity'',
    ''entity_equipment'', ''experience'', ''update_health'', ''scoreboard_objective'',
    ''set_passengers'', ''teams'', ''scoreboard_score'', ''simulation_distance'',
    ''set_title_subtitle'', ''update_time'', ''set_title_text'', ''set_title_time'',
    ''entity_sound_effect'', ''sound_effect'', ''stop_sound'', ''system_chat'',
    ''playerlist_header'', ''nbt_query_response'', ''collect'', ''entity_teleport'',
    ''advancements'', ''entity_update_attributes'', ''entity_effect'', ''declare_recipes'',
    ''tags'']"

definition packet_names_16_login_serverbound :: mc_packet_map where
  "packet_names_16_login_serverbound =
    [''login_start'', ''encryption_begin'', ''login_plugin_response'']"

definition packet_names_16_login_clientbound :: mc_packet_map where
  "packet_names_16_login_clientbound =
    [''disconnect'', ''encryption_begin'', ''success'', ''compress'', ''login_plugin_request'']"

definition packet_names_16_play_serverbound :: mc_packet_map where
  "packet_names_16_play_serverbound =
    [''teleport_confirm'', ''query_block_nbt'', ''set_difficulty'', ''message_acknowledgement'',
    ''chat_command'', ''chat_message'', ''chat_preview'', ''client_command'', ''settings'',
    ''tab_complete'', ''enchant_item'', ''window_click'', ''close_window'', ''custom_payload'',
    ''edit_book'', ''query_entity_nbt'', ''use_entity'', ''generate_structure'', ''keep_alive'',
    ''lock_difficulty'', ''position'', ''position_look'', ''look'', ''flying'', ''vehicle_move'',
    ''steer_boat'', ''pick_item'', ''craft_recipe_request'', ''abilities'', ''block_dig'',
    ''entity_action'', ''steer_vehicle'', ''pong'', ''recipe_book'', ''displayed_recipe'',
    ''name_item'', ''resource_pack_receive'', ''advancement_tab'', ''select_trade'',
    ''set_beacon_effect'', ''held_item_slot'', ''update_command_block'',
    ''update_command_block_minecart'', ''set_creative_slot'', ''update_jigsaw_block'',
    ''update_structure_block'', ''update_sign'', ''arm_animation'', ''spectate'', ''block_place'',
    ''use_item'']"

definition packet_names_16_play_clientbound :: mc_packet_map where
  "packet_names_16_play_clientbound =
    [''spawn_entity'', ''spawn_entity_experience_orb'', ''named_entity_spawn'', ''animation'',
    ''statistics'', ''acknowledge_player_digging'', ''block_break_animation'',
    ''tile_entity_data'', ''block_action'', ''block_change'', ''boss_bar'', ''difficulty'',
    ''chat_preview'', ''clear_titles'', ''tab_complete'', ''declare_commands'', ''close_window'',
    ''window_items'', ''craft_progress_bar'', ''set_slot'', ''set_cooldown'',
    ''chat_suggestions'', ''custom_payload'', ''named_sound_effect'', ''hide_message'',
    ''kick_disconnect'', ''entity_status'', ''explosion'', ''unload_chunk'',
    ''game_state_change'', ''open_horse_window'', ''initialize_world_border'', ''keep_alive'',
    ''map_chunk'', ''world_event'', ''world_particles'', ''update_light'', ''login'', ''map'',
    ''trade_list'', ''rel_entity_move'', ''entity_move_look'', ''entity_look'', ''vehicle_move'',
    ''open_book'', ''open_window'', ''open_sign_entity'', ''ping'', ''craft_recipe_response'',
    ''abilities'', ''message_header'', ''player_chat'', ''end_combat_event'',
    ''enter_combat_event'', ''death_combat_event'', ''player_info'', ''face_player'',
    ''position'', ''unlock_recipes'', ''entity_destroy'', ''remove_entity_effect'',
    ''resource_pack_send'', ''respawn'', ''entity_head_rotation'', ''multi_block_change'',
    ''select_advancement_tab'', ''server_data'', ''action_bar'', ''world_border_center'',
    ''world_border_lerp_size'', ''world_border_size'', ''world_border_warning_delay'',
    ''world_border_warning_reach'', ''camera'', ''held_item_slot'', ''update_view_position'',
    ''update_view_distance'', ''spawn_position'', ''should_display_chat_preview'',
    ''scoreboard_display_objective'', ''entity_metadata'', ''attach_entity'', ''entity_velocity'',
    ''entity_equipment'', ''experience'', ''update_health'', ''scoreboard_objective'',
    ''set_passengers'', ''teams'', ''scoreboard_score'', ''simulation_distance'',
    ''set_title_subtitle'', ''update_time'', ''set_title_text'', ''set_title_time'',
    ''entity_sound_effect'', ''sound_effect'', ''stop_sound'', ''system_chat'',
    ''playerlist_header'', ''nbt_query_response'', ''collect'', ''entity_teleport'',
    ''advancements'', ''entity_update_attributes'', ''entity_effect'', ''declare_recipes'',
    ''tags'']"

definition packet_names_17_login_serverbound :: mc_packet_map where
  "packet_names_17_login_serverbound =
    [''login_start'', ''encryption_begin'', ''login_plugin_response'']"

definition packet_names_17_login_clientbound :: mc_packet_map where
  "packet_names_17_login_clientbound =
    [''disconnect'', ''encryption_begin'', ''success'', ''compress'', ''login_plugin_request'']"

definition packet_names_17_play_serverbound :: mc_packet_map where
  "packet_names_17_play_serverbound =
    [''teleport_confirm'', ''query_block_nbt'', ''set_difficulty'', ''message_acknowledgement'',
    ''chat_command'', ''chat_message'', ''client_command'', ''settings'', ''tab_complete'',
    ''enchant_item'', ''window_click'', ''close_window'', ''custom_payload'', ''edit_book'',
    ''query_entity_nbt'', ''use_entity'', ''generate_structure'', ''keep_alive'',
    ''lock_difficulty'', ''position'', ''position_look'', ''look'', ''flying'', ''vehicle_move'',
    ''steer_boat'', ''pick_item'', ''craft_recipe_request'', ''abilities'', ''block_dig'',
    ''entity_action'', ''steer_vehicle'', ''pong'', ''chat_session_update'', ''recipe_book'',
    ''displayed_recipe'', ''name_item'', ''resource_pack_receive'', ''advancement_tab'',
    ''select_trade'', ''set_beacon_effect'', ''held_item_slot'', ''update_command_block'',
    ''update_command_block_minecart'', ''set_creative_slot'', ''update_jigsaw_block'',
    ''update_structure_block'', ''update_sign'', ''arm_animation'', ''spectate'', ''block_place'',
    ''use_item'']"

definition packet_names_17_play_clientbound :: mc_packet_map where
  "packet_names_17_play_clientbound =
    [''spawn_entity'', ''spawn_entity_experience_orb'', ''named_entity_spawn'', ''animation'',
    ''statistics'', ''acknowledge_player_digging'', ''block_break_animation'',
    ''tile_entity_data'', ''block_action'', ''block_change'', ''boss_bar'', ''difficulty'',
    ''clear_titles'', ''tab_complete'', ''declare_commands'', ''close_window'', ''window_items'',
    ''craft_progress_bar'', ''set_slot'', ''set_cooldown'', ''chat_suggestions'',
    ''custom_payload'', ''hide_message'', ''kick_disconnect'', ''profileless_chat'',
    ''entity_status'', ''explosion'', ''unload_chunk'', ''game_state_change'',
    ''open_horse_window'', ''initialize_world_border'', ''keep_alive'', ''map_chunk'',
    ''world_event'', ''world_particles'', ''update_light'', ''login'', ''map'', ''trade_list'',
    ''rel_entity_move'', ''entity_move_look'', ''entity_look'', ''vehicle_move'', ''open_book'',
    ''open_window'', ''open_sign_entity'', ''ping'', ''craft_recipe_response'', ''abilities'',
    ''player_chat'', ''end_combat_event'', ''enter_combat_event'', ''death_combat_event'',
    ''player_remove'', ''player_info'', ''face_player'', ''position'', ''unlock_recipes'',
    ''entity_destroy'', ''remove_entity_effect'', ''resource_pack_send'', ''respawn'',
    ''entity_head_rotation'', ''multi_block_change'', ''select_advancement_tab'', ''server_data'',
    ''action_bar'', ''world_border_center'', ''world_border_lerp_size'', ''world_border_size'',
    ''world_border_warning_delay'', ''world_border_warning_reach'', ''camera'',
    ''held_item_slot'', ''update_view_position'', ''update_view_distance'', ''spawn_position'',
    ''scoreboard_display_objective'', ''entity_metadata'', ''attach_entity'', ''entity_velocity'',
    ''entity_equipment'', ''experience'', ''update_health'', ''scoreboard_objective'',
    ''set_passengers'', ''teams'', ''scoreboard_score'', ''simulation_distance'',
    ''set_title_subtitle'', ''update_time'', ''set_title_text'', ''set_title_time'',
    ''entity_sound_effect'', ''sound_effect'', ''stop_sound'', ''system_chat'',
    ''playerlist_header'', ''nbt_query_response'', ''collect'', ''entity_teleport'',
    ''advancements'', ''entity_update_attributes'', ''feature_flags'', ''entity_effect'',
    ''declare_recipes'', ''tags'']"

definition packet_names_18_login_serverbound :: mc_packet_map where
  "packet_names_18_login_serverbound =
    [''login_start'', ''encryption_begin'', ''login_plugin_response'']"

definition packet_names_18_login_clientbound :: mc_packet_map where
  "packet_names_18_login_clientbound =
    [''disconnect'', ''encryption_begin'', ''success'', ''compress'', ''login_plugin_request'']"

definition packet_names_18_play_serverbound :: mc_packet_map where
  "packet_names_18_play_serverbound =
    [''teleport_confirm'', ''query_block_nbt'', ''set_difficulty'', ''message_acknowledgement'',
    ''chat_command'', ''chat_message'', ''chat_session_update'', ''client_command'', ''settings'',
    ''tab_complete'', ''enchant_item'', ''window_click'', ''close_window'', ''custom_payload'',
    ''edit_book'', ''query_entity_nbt'', ''use_entity'', ''generate_structure'', ''keep_alive'',
    ''lock_difficulty'', ''position'', ''position_look'', ''look'', ''flying'', ''vehicle_move'',
    ''steer_boat'', ''pick_item'', ''craft_recipe_request'', ''abilities'', ''block_dig'',
    ''entity_action'', ''steer_vehicle'', ''pong'', ''recipe_book'', ''displayed_recipe'',
    ''name_item'', ''resource_pack_receive'', ''advancement_tab'', ''select_trade'',
    ''set_beacon_effect'', ''held_item_slot'', ''update_command_block'',
    ''update_command_block_minecart'', ''set_creative_slot'', ''update_jigsaw_block'',
    ''update_structure_block'', ''update_sign'', ''arm_animation'', ''spectate'', ''block_place'',
    ''use_item'']"

definition packet_names_18_play_clientbound :: mc_packet_map where
  "packet_names_18_play_clientbound =
    [''bundle_delimiter'', ''spawn_entity'', ''spawn_entity_experience_orb'',
    ''named_entity_spawn'', ''animation'', ''statistics'', ''acknowledge_player_digging'',
    ''block_break_animation'', ''tile_entity_data'', ''block_action'', ''block_change'',
    ''boss_bar'', ''difficulty'', ''chunk_biomes'', ''clear_titles'', ''tab_complete'',
    ''declare_commands'', ''close_window'', ''window_items'', ''craft_progress_bar'',
    ''set_slot'', ''set_cooldown'', ''chat_suggestions'', ''custom_payload'', ''damage_event'',
    ''hide_message'', ''kick_disconnect'', ''profileless_chat'', ''entity_status'', ''explosion'',
    ''unload_chunk'', ''game_state_change'', ''open_horse_window'', ''hurt_animation'',
    ''initialize_world_border'', ''keep_alive'', ''map_chunk'', ''world_event'',
    ''world_particles'', ''update_light'', ''login'', ''map'', ''trade_list'',
    ''rel_entity_move'', ''entity_move_look'', ''entity_look'', ''vehicle_move'', ''open_book'',
    ''open_window'', ''open_sign_entity'', ''ping'', ''craft_recipe_response'', ''abilities'',
    ''player_chat'', ''end_combat_event'', ''enter_combat_event'', ''death_combat_event'',
    ''player_remove'', ''player_info'', ''face_player'', ''position'', ''unlock_recipes'',
    ''entity_destroy'', ''remove_entity_effect'', ''resource_pack_send'', ''respawn'',
    ''entity_head_rotation'', ''multi_block_change'', ''select_advancement_tab'', ''server_data'',
    ''action_bar'', ''world_border_center'', ''world_border_lerp_size'', ''world_border_size'',
    ''world_border_warning_delay'', ''world_border_warning_reach'', ''camera'',
    ''held_item_slot'', ''update_view_position'', ''update_view_distance'', ''spawn_position'',
    ''scoreboard_display_objective'', ''entity_metadata'', ''attach_entity'', ''entity_velocity'',
    ''entity_equipment'', ''experience'', ''update_health'', ''scoreboard_objective'',
    ''set_passengers'', ''teams'', ''scoreboard_score'', ''simulation_distance'',
    ''set_title_subtitle'', ''update_time'', ''set_title_text'', ''set_title_time'',
    ''entity_sound_effect'', ''sound_effect'', ''stop_sound'', ''system_chat'',
    ''playerlist_header'', ''nbt_query_response'', ''collect'', ''entity_teleport'',
    ''advancements'', ''entity_update_attributes'', ''feature_flags'', ''entity_effect'',
    ''declare_recipes'', ''tags'']"

definition packet_names_19_login_serverbound :: mc_packet_map where
  "packet_names_19_login_serverbound =
    [''login_start'', ''encryption_begin'', ''login_plugin_response'', ''login_acknowledged'']"

definition packet_names_19_login_clientbound :: mc_packet_map where
  "packet_names_19_login_clientbound =
    [''disconnect'', ''encryption_begin'', ''success'', ''compress'', ''login_plugin_request'']"

definition packet_names_19_configuration_serverbound :: mc_packet_map where
  "packet_names_19_configuration_serverbound =
    [''settings'', ''custom_payload'', ''finish_configuration'', ''keep_alive'', ''pong'',
    ''resource_pack_receive'']"

definition packet_names_19_configuration_clientbound :: mc_packet_map where
  "packet_names_19_configuration_clientbound =
    [''custom_payload'', ''disconnect'', ''finish_configuration'', ''keep_alive'', ''ping'',
    ''registry_data'', ''resource_pack_send'', ''feature_flags'', ''tags'']"

definition packet_names_19_play_serverbound :: mc_packet_map where
  "packet_names_19_play_serverbound =
    [''teleport_confirm'', ''query_block_nbt'', ''set_difficulty'', ''message_acknowledgement'',
    ''chat_command'', ''chat_message'', ''chat_session_update'', ''chunk_batch_received'',
    ''client_command'', ''settings'', ''tab_complete'', ''configuration_acknowledged'',
    ''enchant_item'', ''window_click'', ''close_window'', ''custom_payload'', ''edit_book'',
    ''query_entity_nbt'', ''use_entity'', ''generate_structure'', ''keep_alive'',
    ''lock_difficulty'', ''position'', ''position_look'', ''look'', ''flying'', ''vehicle_move'',
    ''steer_boat'', ''pick_item'', ''ping_request'', ''craft_recipe_request'', ''abilities'',
    ''block_dig'', ''entity_action'', ''steer_vehicle'', ''pong'', ''recipe_book'',
    ''displayed_recipe'', ''name_item'', ''resource_pack_receive'', ''advancement_tab'',
    ''select_trade'', ''set_beacon_effect'', ''held_item_slot'', ''update_command_block'',
    ''update_command_block_minecart'', ''set_creative_slot'', ''update_jigsaw_block'',
    ''update_structure_block'', ''update_sign'', ''arm_animation'', ''spectate'', ''block_place'',
    ''use_item'']"

definition packet_names_19_play_clientbound :: mc_packet_map where
  "packet_names_19_play_clientbound =
    [''bundle_delimiter'', ''spawn_entity'', ''spawn_entity_experience_orb'', ''animation'',
    ''statistics'', ''acknowledge_player_digging'', ''block_break_animation'',
    ''tile_entity_data'', ''block_action'', ''block_change'', ''boss_bar'', ''difficulty'',
    ''chunk_batch_finished'', ''chunk_batch_start'', ''chunk_biomes'', ''clear_titles'',
    ''tab_complete'', ''declare_commands'', ''close_window'', ''window_items'',
    ''craft_progress_bar'', ''set_slot'', ''set_cooldown'', ''chat_suggestions'',
    ''custom_payload'', ''damage_event'', ''hide_message'', ''kick_disconnect'',
    ''profileless_chat'', ''entity_status'', ''explosion'', ''unload_chunk'',
    ''game_state_change'', ''open_horse_window'', ''hurt_animation'', ''initialize_world_border'',
    ''keep_alive'', ''map_chunk'', ''world_event'', ''world_particles'', ''update_light'',
    ''login'', ''map'', ''trade_list'', ''rel_entity_move'', ''entity_move_look'',
    ''entity_look'', ''vehicle_move'', ''open_book'', ''open_window'', ''open_sign_entity'',
    ''ping'', ''ping_response'', ''craft_recipe_response'', ''abilities'', ''player_chat'',
    ''end_combat_event'', ''enter_combat_event'', ''death_combat_event'', ''player_remove'',
    ''player_info'', ''face_player'', ''position'', ''unlock_recipes'', ''entity_destroy'',
    ''remove_entity_effect'', ''resource_pack_send'', ''respawn'', ''entity_head_rotation'',
    ''multi_block_change'', ''select_advancement_tab'', ''server_data'', ''action_bar'',
    ''world_border_center'', ''world_border_lerp_size'', ''world_border_size'',
    ''world_border_warning_delay'', ''world_border_warning_reach'', ''camera'',
    ''held_item_slot'', ''update_view_position'', ''update_view_distance'', ''spawn_position'',
    ''scoreboard_display_objective'', ''entity_metadata'', ''attach_entity'', ''entity_velocity'',
    ''entity_equipment'', ''experience'', ''update_health'', ''scoreboard_objective'',
    ''set_passengers'', ''teams'', ''scoreboard_score'', ''simulation_distance'',
    ''set_title_subtitle'', ''update_time'', ''set_title_text'', ''set_title_time'',
    ''entity_sound_effect'', ''sound_effect'', ''start_configuration'', ''stop_sound'',
    ''system_chat'', ''playerlist_header'', ''nbt_query_response'', ''collect'',
    ''entity_teleport'', ''advancements'', ''entity_update_attributes'', ''entity_effect'',
    ''declare_recipes'', ''tags'']"

definition packet_names_20_login_serverbound :: mc_packet_map where
  "packet_names_20_login_serverbound =
    [''login_start'', ''encryption_begin'', ''login_plugin_response'', ''login_acknowledged'']"

definition packet_names_20_login_clientbound :: mc_packet_map where
  "packet_names_20_login_clientbound =
    [''disconnect'', ''encryption_begin'', ''success'', ''compress'', ''login_plugin_request'']"

definition packet_names_20_configuration_serverbound :: mc_packet_map where
  "packet_names_20_configuration_serverbound =
    [''settings'', ''custom_payload'', ''finish_configuration'', ''keep_alive'', ''pong'',
    ''resource_pack_receive'']"

definition packet_names_20_configuration_clientbound :: mc_packet_map where
  "packet_names_20_configuration_clientbound =
    [''custom_payload'', ''disconnect'', ''finish_configuration'', ''keep_alive'', ''ping'',
    ''registry_data'', ''remove_resource_pack'', ''add_resource_pack'', ''feature_flags'',
    ''tags'']"

definition packet_names_20_play_serverbound :: mc_packet_map where
  "packet_names_20_play_serverbound =
    [''teleport_confirm'', ''query_block_nbt'', ''set_difficulty'', ''message_acknowledgement'',
    ''chat_command'', ''chat_message'', ''chat_session_update'', ''chunk_batch_received'',
    ''client_command'', ''settings'', ''tab_complete'', ''configuration_acknowledged'',
    ''enchant_item'', ''window_click'', ''close_window'', ''set_slot_state'', ''custom_payload'',
    ''edit_book'', ''query_entity_nbt'', ''use_entity'', ''generate_structure'', ''keep_alive'',
    ''lock_difficulty'', ''position'', ''position_look'', ''look'', ''flying'', ''vehicle_move'',
    ''steer_boat'', ''pick_item'', ''ping_request'', ''craft_recipe_request'', ''abilities'',
    ''block_dig'', ''entity_action'', ''steer_vehicle'', ''pong'', ''recipe_book'',
    ''displayed_recipe'', ''name_item'', ''resource_pack_receive'', ''advancement_tab'',
    ''select_trade'', ''set_beacon_effect'', ''held_item_slot'', ''update_command_block'',
    ''update_command_block_minecart'', ''set_creative_slot'', ''update_jigsaw_block'',
    ''update_structure_block'', ''update_sign'', ''arm_animation'', ''spectate'', ''block_place'',
    ''use_item'']"

definition packet_names_20_play_clientbound :: mc_packet_map where
  "packet_names_20_play_clientbound =
    [''bundle_delimiter'', ''spawn_entity'', ''spawn_entity_experience_orb'', ''animation'',
    ''statistics'', ''acknowledge_player_digging'', ''block_break_animation'',
    ''tile_entity_data'', ''block_action'', ''block_change'', ''boss_bar'', ''difficulty'',
    ''chunk_batch_finished'', ''chunk_batch_start'', ''chunk_biomes'', ''clear_titles'',
    ''tab_complete'', ''declare_commands'', ''close_window'', ''window_items'',
    ''craft_progress_bar'', ''set_slot'', ''set_cooldown'', ''chat_suggestions'',
    ''custom_payload'', ''damage_event'', ''hide_message'', ''kick_disconnect'',
    ''profileless_chat'', ''entity_status'', ''explosion'', ''unload_chunk'',
    ''game_state_change'', ''open_horse_window'', ''hurt_animation'', ''initialize_world_border'',
    ''keep_alive'', ''map_chunk'', ''world_event'', ''world_particles'', ''update_light'',
    ''login'', ''map'', ''trade_list'', ''rel_entity_move'', ''entity_move_look'',
    ''entity_look'', ''vehicle_move'', ''open_book'', ''open_window'', ''open_sign_entity'',
    ''ping'', ''ping_response'', ''craft_recipe_response'', ''abilities'', ''player_chat'',
    ''end_combat_event'', ''enter_combat_event'', ''death_combat_event'', ''player_remove'',
    ''player_info'', ''face_player'', ''position'', ''unlock_recipes'', ''entity_destroy'',
    ''remove_entity_effect'', ''reset_score'', ''remove_resource_pack'', ''add_resource_pack'',
    ''respawn'', ''entity_head_rotation'', ''multi_block_change'', ''select_advancement_tab'',
    ''server_data'', ''action_bar'', ''world_border_center'', ''world_border_lerp_size'',
    ''world_border_size'', ''world_border_warning_delay'', ''world_border_warning_reach'',
    ''camera'', ''held_item_slot'', ''update_view_position'', ''update_view_distance'',
    ''spawn_position'', ''scoreboard_display_objective'', ''entity_metadata'', ''attach_entity'',
    ''entity_velocity'', ''entity_equipment'', ''experience'', ''update_health'',
    ''scoreboard_objective'', ''set_passengers'', ''teams'', ''scoreboard_score'',
    ''simulation_distance'', ''set_title_subtitle'', ''update_time'', ''set_title_text'',
    ''set_title_time'', ''entity_sound_effect'', ''sound_effect'', ''start_configuration'',
    ''stop_sound'', ''system_chat'', ''playerlist_header'', ''nbt_query_response'', ''collect'',
    ''entity_teleport'', ''set_ticking_state'', ''step_tick'', ''advancements'',
    ''entity_update_attributes'', ''entity_effect'', ''declare_recipes'', ''tags'']"

definition packet_names_21_login_serverbound :: mc_packet_map where
  "packet_names_21_login_serverbound =
    [''login_start'', ''encryption_begin'', ''login_plugin_response'', ''login_acknowledged'',
    ''cookie_response'']"

definition packet_names_21_login_clientbound :: mc_packet_map where
  "packet_names_21_login_clientbound =
    [''disconnect'', ''encryption_begin'', ''success'', ''compress'', ''login_plugin_request'',
    ''cookie_request'']"

definition packet_names_21_configuration_serverbound :: mc_packet_map where
  "packet_names_21_configuration_serverbound =
    [''settings'', ''cookie_response'', ''custom_payload'', ''finish_configuration'',
    ''keep_alive'', ''pong'', ''resource_pack_receive'', ''select_known_packs'']"

definition packet_names_21_configuration_clientbound :: mc_packet_map where
  "packet_names_21_configuration_clientbound =
    [''cookie_request'', ''custom_payload'', ''disconnect'', ''finish_configuration'',
    ''keep_alive'', ''ping'', ''reset_chat'', ''registry_data'', ''remove_resource_pack'',
    ''add_resource_pack'', ''store_cookie'', ''transfer'', ''feature_flags'', ''tags'',
    ''select_known_packs'']"

definition packet_names_21_play_serverbound :: mc_packet_map where
  "packet_names_21_play_serverbound =
    [''teleport_confirm'', ''query_block_nbt'', ''set_difficulty'', ''message_acknowledgement'',
    ''chat_command'', ''chat_command_signed'', ''chat_message'', ''chat_session_update'',
    ''chunk_batch_received'', ''client_command'', ''settings'', ''tab_complete'',
    ''configuration_acknowledged'', ''enchant_item'', ''window_click'', ''close_window'',
    ''set_slot_state'', ''cookie_response'', ''custom_payload'', ''debug_sample_subscription'',
    ''edit_book'', ''query_entity_nbt'', ''use_entity'', ''generate_structure'', ''keep_alive'',
    ''lock_difficulty'', ''position'', ''position_look'', ''look'', ''flying'', ''vehicle_move'',
    ''steer_boat'', ''pick_item'', ''ping_request'', ''craft_recipe_request'', ''abilities'',
    ''block_dig'', ''entity_action'', ''steer_vehicle'', ''pong'', ''recipe_book'',
    ''displayed_recipe'', ''name_item'', ''resource_pack_receive'', ''advancement_tab'',
    ''select_trade'', ''set_beacon_effect'', ''held_item_slot'', ''update_command_block'',
    ''update_command_block_minecart'', ''set_creative_slot'', ''update_jigsaw_block'',
    ''update_structure_block'', ''update_sign'', ''arm_animation'', ''spectate'', ''block_place'',
    ''use_item'']"

definition packet_names_21_play_clientbound :: mc_packet_map where
  "packet_names_21_play_clientbound =
    [''bundle_delimiter'', ''spawn_entity'', ''spawn_entity_experience_orb'', ''animation'',
    ''statistics'', ''acknowledge_player_digging'', ''block_break_animation'',
    ''tile_entity_data'', ''block_action'', ''block_change'', ''boss_bar'', ''difficulty'',
    ''chunk_batch_finished'', ''chunk_batch_start'', ''chunk_biomes'', ''clear_titles'',
    ''tab_complete'', ''declare_commands'', ''close_window'', ''window_items'',
    ''craft_progress_bar'', ''set_slot'', ''cookie_request'', ''set_cooldown'',
    ''chat_suggestions'', ''custom_payload'', ''damage_event'', ''debug_sample'',
    ''hide_message'', ''kick_disconnect'', ''profileless_chat'', ''entity_status'', ''explosion'',
    ''unload_chunk'', ''game_state_change'', ''open_horse_window'', ''hurt_animation'',
    ''initialize_world_border'', ''keep_alive'', ''map_chunk'', ''world_event'',
    ''world_particles'', ''update_light'', ''login'', ''map'', ''trade_list'',
    ''rel_entity_move'', ''entity_move_look'', ''entity_look'', ''vehicle_move'', ''open_book'',
    ''open_window'', ''open_sign_entity'', ''ping'', ''ping_response'', ''craft_recipe_response'',
    ''abilities'', ''player_chat'', ''end_combat_event'', ''enter_combat_event'',
    ''death_combat_event'', ''player_remove'', ''player_info'', ''face_player'', ''position'',
    ''unlock_recipes'', ''entity_destroy'', ''remove_entity_effect'', ''reset_score'',
    ''remove_resource_pack'', ''add_resource_pack'', ''respawn'', ''entity_head_rotation'',
    ''multi_block_change'', ''select_advancement_tab'', ''server_data'', ''action_bar'',
    ''world_border_center'', ''world_border_lerp_size'', ''world_border_size'',
    ''world_border_warning_delay'', ''world_border_warning_reach'', ''camera'',
    ''held_item_slot'', ''update_view_position'', ''update_view_distance'', ''spawn_position'',
    ''scoreboard_display_objective'', ''entity_metadata'', ''attach_entity'', ''entity_velocity'',
    ''entity_equipment'', ''experience'', ''update_health'', ''scoreboard_objective'',
    ''set_passengers'', ''teams'', ''scoreboard_score'', ''simulation_distance'',
    ''set_title_subtitle'', ''update_time'', ''set_title_text'', ''set_title_time'',
    ''entity_sound_effect'', ''sound_effect'', ''start_configuration'', ''stop_sound'',
    ''store_cookie'', ''system_chat'', ''playerlist_header'', ''nbt_query_response'', ''collect'',
    ''entity_teleport'', ''set_ticking_state'', ''step_tick'', ''transfer'', ''advancements'',
    ''entity_update_attributes'', ''entity_effect'', ''declare_recipes'', ''tags'',
    ''set_projectile_power'']"

definition packet_names_22_login_serverbound :: mc_packet_map where
  "packet_names_22_login_serverbound =
    [''login_start'', ''encryption_begin'', ''login_plugin_response'', ''login_acknowledged'',
    ''cookie_response'']"

definition packet_names_22_login_clientbound :: mc_packet_map where
  "packet_names_22_login_clientbound =
    [''disconnect'', ''encryption_begin'', ''success'', ''compress'', ''login_plugin_request'',
    ''cookie_request'']"

definition packet_names_22_configuration_serverbound :: mc_packet_map where
  "packet_names_22_configuration_serverbound =
    [''settings'', ''cookie_response'', ''custom_payload'', ''finish_configuration'',
    ''keep_alive'', ''pong'', ''resource_pack_receive'', ''select_known_packs'',
    ''custom_report_details'', ''server_links'']"

definition packet_names_22_configuration_clientbound :: mc_packet_map where
  "packet_names_22_configuration_clientbound =
    [''cookie_request'', ''custom_payload'', ''disconnect'', ''finish_configuration'',
    ''keep_alive'', ''ping'', ''reset_chat'', ''registry_data'', ''remove_resource_pack'',
    ''add_resource_pack'', ''store_cookie'', ''transfer'', ''feature_flags'', ''tags'',
    ''select_known_packs'', ''custom_report_details'', ''server_links'']"

definition packet_names_22_play_serverbound :: mc_packet_map where
  "packet_names_22_play_serverbound =
    [''teleport_confirm'', ''query_block_nbt'', ''set_difficulty'', ''message_acknowledgement'',
    ''chat_command'', ''chat_command_signed'', ''chat_message'', ''chat_session_update'',
    ''chunk_batch_received'', ''client_command'', ''settings'', ''tab_complete'',
    ''configuration_acknowledged'', ''enchant_item'', ''window_click'', ''close_window'',
    ''set_slot_state'', ''cookie_response'', ''custom_payload'', ''debug_sample_subscription'',
    ''edit_book'', ''query_entity_nbt'', ''use_entity'', ''generate_structure'', ''keep_alive'',
    ''lock_difficulty'', ''position'', ''position_look'', ''look'', ''flying'', ''vehicle_move'',
    ''steer_boat'', ''pick_item'', ''ping_request'', ''craft_recipe_request'', ''abilities'',
    ''block_dig'', ''entity_action'', ''steer_vehicle'', ''pong'', ''recipe_book'',
    ''displayed_recipe'', ''name_item'', ''resource_pack_receive'', ''advancement_tab'',
    ''select_trade'', ''set_beacon_effect'', ''held_item_slot'', ''update_command_block'',
    ''update_command_block_minecart'', ''set_creative_slot'', ''update_jigsaw_block'',
    ''update_structure_block'', ''update_sign'', ''arm_animation'', ''spectate'', ''block_place'',
    ''use_item'']"

definition packet_names_22_play_clientbound :: mc_packet_map where
  "packet_names_22_play_clientbound =
    [''bundle_delimiter'', ''spawn_entity'', ''spawn_entity_experience_orb'', ''animation'',
    ''statistics'', ''acknowledge_player_digging'', ''block_break_animation'',
    ''tile_entity_data'', ''block_action'', ''block_change'', ''boss_bar'', ''difficulty'',
    ''chunk_batch_finished'', ''chunk_batch_start'', ''chunk_biomes'', ''clear_titles'',
    ''tab_complete'', ''declare_commands'', ''close_window'', ''window_items'',
    ''craft_progress_bar'', ''set_slot'', ''cookie_request'', ''set_cooldown'',
    ''chat_suggestions'', ''custom_payload'', ''damage_event'', ''debug_sample'',
    ''hide_message'', ''kick_disconnect'', ''profileless_chat'', ''entity_status'', ''explosion'',
    ''unload_chunk'', ''game_state_change'', ''open_horse_window'', ''hurt_animation'',
    ''initialize_world_border'', ''keep_alive'', ''map_chunk'', ''world_event'',
    ''world_particles'', ''update_light'', ''login'', ''map'', ''trade_list'',
    ''rel_entity_move'', ''entity_move_look'', ''entity_look'', ''vehicle_move'', ''open_book'',
    ''open_window'', ''open_sign_entity'', ''ping'', ''ping_response'', ''craft_recipe_response'',
    ''abilities'', ''player_chat'', ''end_combat_event'', ''enter_combat_event'',
    ''death_combat_event'', ''player_remove'', ''player_info'', ''face_player'', ''position'',
    ''unlock_recipes'', ''entity_destroy'', ''remove_entity_effect'', ''reset_score'',
    ''remove_resource_pack'', ''add_resource_pack'', ''respawn'', ''entity_head_rotation'',
    ''multi_block_change'', ''select_advancement_tab'', ''server_data'', ''action_bar'',
    ''world_border_center'', ''world_border_lerp_size'', ''world_border_size'',
    ''world_border_warning_delay'', ''world_border_warning_reach'', ''camera'',
    ''held_item_slot'', ''update_view_position'', ''update_view_distance'', ''spawn_position'',
    ''scoreboard_display_objective'', ''entity_metadata'', ''attach_entity'', ''entity_velocity'',
    ''entity_equipment'', ''experience'', ''update_health'', ''scoreboard_objective'',
    ''set_passengers'', ''teams'', ''scoreboard_score'', ''simulation_distance'',
    ''set_title_subtitle'', ''update_time'', ''set_title_text'', ''set_title_time'',
    ''entity_sound_effect'', ''sound_effect'', ''start_configuration'', ''stop_sound'',
    ''store_cookie'', ''system_chat'', ''playerlist_header'', ''nbt_query_response'', ''collect'',
    ''entity_teleport'', ''set_ticking_state'', ''step_tick'', ''transfer'', ''advancements'',
    ''entity_update_attributes'', ''entity_effect'', ''declare_recipes'', ''tags'',
    ''set_projectile_power'', ''custom_report_details'', ''server_links'']"

definition packet_names_23_login_serverbound :: mc_packet_map where
  "packet_names_23_login_serverbound =
    [''login_start'', ''encryption_begin'', ''login_plugin_response'', ''login_acknowledged'',
    ''cookie_response'']"

definition packet_names_23_login_clientbound :: mc_packet_map where
  "packet_names_23_login_clientbound =
    [''disconnect'', ''encryption_begin'', ''success'', ''compress'', ''login_plugin_request'',
    ''cookie_request'']"

definition packet_names_23_configuration_serverbound :: mc_packet_map where
  "packet_names_23_configuration_serverbound =
    [''settings'', ''cookie_response'', ''custom_payload'', ''finish_configuration'',
    ''keep_alive'', ''pong'', ''resource_pack_receive'', ''select_known_packs'',
    ''custom_report_details'', ''server_links'']"

definition packet_names_23_configuration_clientbound :: mc_packet_map where
  "packet_names_23_configuration_clientbound =
    [''cookie_request'', ''custom_payload'', ''disconnect'', ''finish_configuration'',
    ''keep_alive'', ''ping'', ''reset_chat'', ''registry_data'', ''remove_resource_pack'',
    ''add_resource_pack'', ''store_cookie'', ''transfer'', ''feature_flags'', ''tags'',
    ''select_known_packs'', ''custom_report_details'', ''server_links'']"

definition packet_names_23_play_serverbound :: mc_packet_map where
  "packet_names_23_play_serverbound =
    [''teleport_confirm'', ''query_block_nbt'', ''select_bundle_item'', ''set_difficulty'',
    ''message_acknowledgement'', ''chat_command'', ''chat_command_signed'', ''chat_message'',
    ''chat_session_update'', ''chunk_batch_received'', ''client_command'', ''tick_end'',
    ''settings'', ''tab_complete'', ''configuration_acknowledged'', ''enchant_item'',
    ''window_click'', ''close_window'', ''set_slot_state'', ''cookie_response'',
    ''custom_payload'', ''debug_sample_subscription'', ''edit_book'', ''query_entity_nbt'',
    ''use_entity'', ''generate_structure'', ''keep_alive'', ''lock_difficulty'', ''position'',
    ''position_look'', ''look'', ''flying'', ''vehicle_move'', ''steer_boat'', ''pick_item'',
    ''ping_request'', ''craft_recipe_request'', ''abilities'', ''block_dig'', ''entity_action'',
    ''player_input'', ''pong'', ''recipe_book'', ''displayed_recipe'', ''name_item'',
    ''resource_pack_receive'', ''advancement_tab'', ''select_trade'', ''set_beacon_effect'',
    ''held_item_slot'', ''update_command_block'', ''update_command_block_minecart'',
    ''set_creative_slot'', ''update_jigsaw_block'', ''update_structure_block'', ''update_sign'',
    ''arm_animation'', ''spectate'', ''block_place'', ''use_item'']"

definition packet_names_23_play_clientbound :: mc_packet_map where
  "packet_names_23_play_clientbound =
    [''bundle_delimiter'', ''spawn_entity'', ''spawn_entity_experience_orb'', ''animation'',
    ''statistics'', ''acknowledge_player_digging'', ''block_break_animation'',
    ''tile_entity_data'', ''block_action'', ''block_change'', ''boss_bar'', ''difficulty'',
    ''chunk_batch_finished'', ''chunk_batch_start'', ''chunk_biomes'', ''clear_titles'',
    ''tab_complete'', ''declare_commands'', ''close_window'', ''window_items'',
    ''craft_progress_bar'', ''set_slot'', ''cookie_request'', ''set_cooldown'',
    ''chat_suggestions'', ''custom_payload'', ''damage_event'', ''debug_sample'',
    ''hide_message'', ''kick_disconnect'', ''profileless_chat'', ''entity_status'',
    ''sync_entity_position'', ''explosion'', ''unload_chunk'', ''game_state_change'',
    ''open_horse_window'', ''hurt_animation'', ''initialize_world_border'', ''keep_alive'',
    ''map_chunk'', ''world_event'', ''world_particles'', ''update_light'', ''login'', ''map'',
    ''trade_list'', ''rel_entity_move'', ''entity_move_look'', ''move_minecart'', ''entity_look'',
    ''vehicle_move'', ''open_book'', ''open_window'', ''open_sign_entity'', ''ping'',
    ''ping_response'', ''craft_recipe_response'', ''abilities'', ''player_chat'',
    ''end_combat_event'', ''enter_combat_event'', ''death_combat_event'', ''player_remove'',
    ''player_info'', ''face_player'', ''position'', ''player_rotation'', ''recipe_book_add'',
    ''recipe_book_remove'', ''recipe_book_settings'', ''entity_destroy'',
    ''remove_entity_effect'', ''reset_score'', ''remove_resource_pack'', ''add_resource_pack'',
    ''respawn'', ''entity_head_rotation'', ''multi_block_change'', ''select_advancement_tab'',
    ''server_data'', ''action_bar'', ''world_border_center'', ''world_border_lerp_size'',
    ''world_border_size'', ''world_border_warning_delay'', ''world_border_warning_reach'',
    ''camera'', ''update_view_position'', ''update_view_distance'', ''set_cursor_item'',
    ''spawn_position'', ''scoreboard_display_objective'', ''entity_metadata'', ''attach_entity'',
    ''entity_velocity'', ''entity_equipment'', ''experience'', ''update_health'',
    ''held_item_slot'', ''scoreboard_objective'', ''set_passengers'', ''set_player_inventory'',
    ''teams'', ''scoreboard_score'', ''simulation_distance'', ''set_title_subtitle'',
    ''update_time'', ''set_title_text'', ''set_title_time'', ''entity_sound_effect'',
    ''sound_effect'', ''start_configuration'', ''stop_sound'', ''store_cookie'', ''system_chat'',
    ''playerlist_header'', ''nbt_query_response'', ''collect'', ''entity_teleport'',
    ''set_ticking_state'', ''step_tick'', ''transfer'', ''advancements'',
    ''entity_update_attributes'', ''entity_effect'', ''declare_recipes'', ''tags'',
    ''set_projectile_power'', ''custom_report_details'', ''server_links'']"

definition packet_names_24_login_serverbound :: mc_packet_map where
  "packet_names_24_login_serverbound =
    [''login_start'', ''encryption_begin'', ''login_plugin_response'', ''login_acknowledged'',
    ''cookie_response'']"

definition packet_names_24_login_clientbound :: mc_packet_map where
  "packet_names_24_login_clientbound =
    [''disconnect'', ''encryption_begin'', ''success'', ''compress'', ''login_plugin_request'',
    ''cookie_request'']"

definition packet_names_24_configuration_serverbound :: mc_packet_map where
  "packet_names_24_configuration_serverbound =
    [''settings'', ''cookie_response'', ''custom_payload'', ''finish_configuration'',
    ''keep_alive'', ''pong'', ''resource_pack_receive'', ''select_known_packs'',
    ''custom_report_details'', ''server_links'']"

definition packet_names_24_configuration_clientbound :: mc_packet_map where
  "packet_names_24_configuration_clientbound =
    [''cookie_request'', ''custom_payload'', ''disconnect'', ''finish_configuration'',
    ''keep_alive'', ''ping'', ''reset_chat'', ''registry_data'', ''remove_resource_pack'',
    ''add_resource_pack'', ''store_cookie'', ''transfer'', ''feature_flags'', ''tags'',
    ''select_known_packs'', ''custom_report_details'', ''server_links'']"

definition packet_names_24_play_serverbound :: mc_packet_map where
  "packet_names_24_play_serverbound =
    [''teleport_confirm'', ''query_block_nbt'', ''select_bundle_item'', ''set_difficulty'',
    ''message_acknowledgement'', ''chat_command'', ''chat_command_signed'', ''chat_message'',
    ''chat_session_update'', ''chunk_batch_received'', ''client_command'', ''tick_end'',
    ''settings'', ''tab_complete'', ''configuration_acknowledged'', ''enchant_item'',
    ''window_click'', ''close_window'', ''set_slot_state'', ''cookie_response'',
    ''custom_payload'', ''debug_sample_subscription'', ''edit_book'', ''query_entity_nbt'',
    ''use_entity'', ''generate_structure'', ''keep_alive'', ''lock_difficulty'', ''position'',
    ''position_look'', ''look'', ''flying'', ''vehicle_move'', ''steer_boat'',
    ''pick_item_from_block'', ''pick_item_from_entity'', ''ping_request'',
    ''craft_recipe_request'', ''abilities'', ''block_dig'', ''entity_action'', ''player_input'',
    ''player_loaded'', ''pong'', ''recipe_book'', ''displayed_recipe'', ''name_item'',
    ''resource_pack_receive'', ''advancement_tab'', ''select_trade'', ''set_beacon_effect'',
    ''held_item_slot'', ''update_command_block'', ''update_command_block_minecart'',
    ''set_creative_slot'', ''update_jigsaw_block'', ''update_structure_block'', ''update_sign'',
    ''arm_animation'', ''spectate'', ''block_place'', ''use_item'']"

definition packet_names_24_play_clientbound :: mc_packet_map where
  "packet_names_24_play_clientbound =
    [''bundle_delimiter'', ''spawn_entity'', ''spawn_entity_experience_orb'', ''animation'',
    ''statistics'', ''acknowledge_player_digging'', ''block_break_animation'',
    ''tile_entity_data'', ''block_action'', ''block_change'', ''boss_bar'', ''difficulty'',
    ''chunk_batch_finished'', ''chunk_batch_start'', ''chunk_biomes'', ''clear_titles'',
    ''tab_complete'', ''declare_commands'', ''close_window'', ''window_items'',
    ''craft_progress_bar'', ''set_slot'', ''cookie_request'', ''set_cooldown'',
    ''chat_suggestions'', ''custom_payload'', ''damage_event'', ''debug_sample'',
    ''hide_message'', ''kick_disconnect'', ''profileless_chat'', ''entity_status'',
    ''sync_entity_position'', ''explosion'', ''unload_chunk'', ''game_state_change'',
    ''open_horse_window'', ''hurt_animation'', ''initialize_world_border'', ''keep_alive'',
    ''map_chunk'', ''world_event'', ''world_particles'', ''update_light'', ''login'', ''map'',
    ''trade_list'', ''rel_entity_move'', ''entity_move_look'', ''move_minecart'', ''entity_look'',
    ''vehicle_move'', ''open_book'', ''open_window'', ''open_sign_entity'', ''ping'',
    ''ping_response'', ''craft_recipe_response'', ''abilities'', ''player_chat'',
    ''end_combat_event'', ''enter_combat_event'', ''death_combat_event'', ''player_remove'',
    ''player_info'', ''face_player'', ''position'', ''player_rotation'', ''recipe_book_add'',
    ''recipe_book_remove'', ''recipe_book_settings'', ''entity_destroy'',
    ''remove_entity_effect'', ''reset_score'', ''remove_resource_pack'', ''add_resource_pack'',
    ''respawn'', ''entity_head_rotation'', ''multi_block_change'', ''select_advancement_tab'',
    ''server_data'', ''action_bar'', ''world_border_center'', ''world_border_lerp_size'',
    ''world_border_size'', ''world_border_warning_delay'', ''world_border_warning_reach'',
    ''camera'', ''update_view_position'', ''update_view_distance'', ''set_cursor_item'',
    ''spawn_position'', ''scoreboard_display_objective'', ''entity_metadata'', ''attach_entity'',
    ''entity_velocity'', ''entity_equipment'', ''experience'', ''update_health'',
    ''held_item_slot'', ''scoreboard_objective'', ''set_passengers'', ''set_player_inventory'',
    ''teams'', ''scoreboard_score'', ''simulation_distance'', ''set_title_subtitle'',
    ''update_time'', ''set_title_text'', ''set_title_time'', ''entity_sound_effect'',
    ''sound_effect'', ''start_configuration'', ''stop_sound'', ''store_cookie'', ''system_chat'',
    ''playerlist_header'', ''nbt_query_response'', ''collect'', ''entity_teleport'',
    ''set_ticking_state'', ''step_tick'', ''transfer'', ''advancements'',
    ''entity_update_attributes'', ''entity_effect'', ''declare_recipes'', ''tags'',
    ''set_projectile_power'', ''custom_report_details'', ''server_links'']"

definition packet_names_25_login_serverbound :: mc_packet_map where
  "packet_names_25_login_serverbound =
    [''login_start'', ''encryption_begin'', ''login_plugin_response'', ''login_acknowledged'',
    ''cookie_response'']"

definition packet_names_25_login_clientbound :: mc_packet_map where
  "packet_names_25_login_clientbound =
    [''disconnect'', ''encryption_begin'', ''success'', ''compress'', ''login_plugin_request'',
    ''cookie_request'']"

definition packet_names_25_configuration_serverbound :: mc_packet_map where
  "packet_names_25_configuration_serverbound =
    [''settings'', ''cookie_response'', ''custom_payload'', ''finish_configuration'',
    ''keep_alive'', ''pong'', ''resource_pack_receive'', ''select_known_packs'',
    ''custom_report_details'', ''server_links'']"

definition packet_names_25_configuration_clientbound :: mc_packet_map where
  "packet_names_25_configuration_clientbound =
    [''cookie_request'', ''custom_payload'', ''disconnect'', ''finish_configuration'',
    ''keep_alive'', ''ping'', ''reset_chat'', ''registry_data'', ''remove_resource_pack'',
    ''add_resource_pack'', ''store_cookie'', ''transfer'', ''feature_flags'', ''tags'',
    ''select_known_packs'', ''custom_report_details'', ''server_links'']"

definition packet_names_25_play_serverbound :: mc_packet_map where
  "packet_names_25_play_serverbound =
    [''teleport_confirm'', ''query_block_nbt'', ''select_bundle_item'', ''set_difficulty'',
    ''message_acknowledgement'', ''chat_command'', ''chat_command_signed'', ''chat_message'',
    ''chat_session_update'', ''chunk_batch_received'', ''client_command'', ''tick_end'',
    ''settings'', ''tab_complete'', ''configuration_acknowledged'', ''enchant_item'',
    ''window_click'', ''close_window'', ''set_slot_state'', ''cookie_response'',
    ''custom_payload'', ''debug_sample_subscription'', ''edit_book'', ''query_entity_nbt'',
    ''use_entity'', ''generate_structure'', ''keep_alive'', ''lock_difficulty'', ''position'',
    ''position_look'', ''look'', ''flying'', ''vehicle_move'', ''steer_boat'',
    ''pick_item_from_block'', ''pick_item_from_entity'', ''ping_request'',
    ''craft_recipe_request'', ''abilities'', ''block_dig'', ''entity_action'', ''player_input'',
    ''player_loaded'', ''pong'', ''recipe_book'', ''displayed_recipe'', ''name_item'',
    ''resource_pack_receive'', ''advancement_tab'', ''select_trade'', ''set_beacon_effect'',
    ''held_item_slot'', ''update_command_block'', ''update_command_block_minecart'',
    ''set_creative_slot'', ''update_jigsaw_block'', ''update_structure_block'',
    ''set_test_block'', ''update_sign'', ''arm_animation'', ''spectate'',
    ''test_instance_block_action'', ''block_place'', ''use_item'']"

definition packet_names_25_play_clientbound :: mc_packet_map where
  "packet_names_25_play_clientbound =
    [''bundle_delimiter'', ''spawn_entity'', ''animation'', ''statistics'',
    ''acknowledge_player_digging'', ''block_break_animation'', ''tile_entity_data'',
    ''block_action'', ''block_change'', ''boss_bar'', ''difficulty'', ''chunk_batch_finished'',
    ''chunk_batch_start'', ''chunk_biomes'', ''clear_titles'', ''tab_complete'',
    ''declare_commands'', ''close_window'', ''window_items'', ''craft_progress_bar'',
    ''set_slot'', ''cookie_request'', ''set_cooldown'', ''chat_suggestions'', ''custom_payload'',
    ''damage_event'', ''debug_sample'', ''hide_message'', ''kick_disconnect'',
    ''profileless_chat'', ''entity_status'', ''sync_entity_position'', ''explosion'',
    ''unload_chunk'', ''game_state_change'', ''open_horse_window'', ''hurt_animation'',
    ''initialize_world_border'', ''keep_alive'', ''map_chunk'', ''world_event'',
    ''world_particles'', ''update_light'', ''login'', ''map'', ''trade_list'',
    ''rel_entity_move'', ''entity_move_look'', ''move_minecart'', ''entity_look'',
    ''vehicle_move'', ''open_book'', ''open_window'', ''open_sign_entity'', ''ping'',
    ''ping_response'', ''craft_recipe_response'', ''abilities'', ''player_chat'',
    ''end_combat_event'', ''enter_combat_event'', ''death_combat_event'', ''player_remove'',
    ''player_info'', ''face_player'', ''position'', ''player_rotation'', ''recipe_book_add'',
    ''recipe_book_remove'', ''recipe_book_settings'', ''entity_destroy'',
    ''remove_entity_effect'', ''reset_score'', ''remove_resource_pack'', ''add_resource_pack'',
    ''respawn'', ''entity_head_rotation'', ''multi_block_change'', ''select_advancement_tab'',
    ''server_data'', ''action_bar'', ''world_border_center'', ''world_border_lerp_size'',
    ''world_border_size'', ''world_border_warning_delay'', ''world_border_warning_reach'',
    ''camera'', ''update_view_position'', ''update_view_distance'', ''set_cursor_item'',
    ''spawn_position'', ''scoreboard_display_objective'', ''entity_metadata'', ''attach_entity'',
    ''entity_velocity'', ''entity_equipment'', ''experience'', ''update_health'',
    ''held_item_slot'', ''scoreboard_objective'', ''set_passengers'', ''set_player_inventory'',
    ''teams'', ''scoreboard_score'', ''simulation_distance'', ''set_title_subtitle'',
    ''update_time'', ''set_title_text'', ''set_title_time'', ''entity_sound_effect'',
    ''sound_effect'', ''start_configuration'', ''stop_sound'', ''store_cookie'', ''system_chat'',
    ''playerlist_header'', ''nbt_query_response'', ''collect'', ''entity_teleport'',
    ''test_instance_block_status'', ''set_ticking_state'', ''step_tick'', ''transfer'',
    ''advancements'', ''entity_update_attributes'', ''entity_effect'', ''declare_recipes'',
    ''tags'', ''set_projectile_power'', ''custom_report_details'', ''server_links'']"

definition packet_names_26_login_serverbound :: mc_packet_map where
  "packet_names_26_login_serverbound =
    [''login_start'', ''encryption_begin'', ''login_plugin_response'', ''login_acknowledged'',
    ''cookie_response'']"

definition packet_names_26_login_clientbound :: mc_packet_map where
  "packet_names_26_login_clientbound =
    [''disconnect'', ''encryption_begin'', ''success'', ''compress'', ''login_plugin_request'',
    ''cookie_request'']"

definition packet_names_26_configuration_serverbound :: mc_packet_map where
  "packet_names_26_configuration_serverbound =
    [''settings'', ''cookie_response'', ''custom_payload'', ''finish_configuration'',
    ''keep_alive'', ''pong'', ''resource_pack_receive'', ''select_known_packs'',
    ''custom_click_action'']"

definition packet_names_26_configuration_clientbound :: mc_packet_map where
  "packet_names_26_configuration_clientbound =
    [''cookie_request'', ''custom_payload'', ''disconnect'', ''finish_configuration'',
    ''keep_alive'', ''ping'', ''reset_chat'', ''registry_data'', ''remove_resource_pack'',
    ''add_resource_pack'', ''store_cookie'', ''transfer'', ''feature_flags'', ''tags'',
    ''select_known_packs'', ''custom_report_details'', ''server_links'', ''clear_dialog'',
    ''show_dialog'']"

definition packet_names_26_play_serverbound :: mc_packet_map where
  "packet_names_26_play_serverbound =
    [''teleport_confirm'', ''query_block_nbt'', ''select_bundle_item'', ''set_difficulty'',
    ''change_gamemode'', ''message_acknowledgement'', ''chat_command'', ''chat_command_signed'',
    ''chat_message'', ''chat_session_update'', ''chunk_batch_received'', ''client_command'',
    ''tick_end'', ''settings'', ''tab_complete'', ''configuration_acknowledged'',
    ''enchant_item'', ''window_click'', ''close_window'', ''set_slot_state'', ''cookie_response'',
    ''custom_payload'', ''debug_sample_subscription'', ''edit_book'', ''query_entity_nbt'',
    ''use_entity'', ''generate_structure'', ''keep_alive'', ''lock_difficulty'', ''position'',
    ''position_look'', ''look'', ''flying'', ''vehicle_move'', ''steer_boat'',
    ''pick_item_from_block'', ''pick_item_from_entity'', ''ping_request'',
    ''craft_recipe_request'', ''abilities'', ''block_dig'', ''entity_action'', ''player_input'',
    ''player_loaded'', ''pong'', ''recipe_book'', ''displayed_recipe'', ''name_item'',
    ''resource_pack_receive'', ''advancement_tab'', ''select_trade'', ''set_beacon_effect'',
    ''held_item_slot'', ''update_command_block'', ''update_command_block_minecart'',
    ''set_creative_slot'', ''update_jigsaw_block'', ''update_structure_block'',
    ''set_test_block'', ''update_sign'', ''arm_animation'', ''spectate'',
    ''test_instance_block_action'', ''block_place'', ''use_item'', ''custom_click_action'']"

definition packet_names_26_play_clientbound :: mc_packet_map where
  "packet_names_26_play_clientbound =
    [''bundle_delimiter'', ''spawn_entity'', ''animation'', ''statistics'',
    ''acknowledge_player_digging'', ''block_break_animation'', ''tile_entity_data'',
    ''block_action'', ''block_change'', ''boss_bar'', ''difficulty'', ''chunk_batch_finished'',
    ''chunk_batch_start'', ''chunk_biomes'', ''clear_titles'', ''tab_complete'',
    ''declare_commands'', ''close_window'', ''window_items'', ''craft_progress_bar'',
    ''set_slot'', ''cookie_request'', ''set_cooldown'', ''chat_suggestions'', ''custom_payload'',
    ''damage_event'', ''debug_sample'', ''hide_message'', ''kick_disconnect'',
    ''profileless_chat'', ''entity_status'', ''sync_entity_position'', ''explosion'',
    ''unload_chunk'', ''game_state_change'', ''open_horse_window'', ''hurt_animation'',
    ''initialize_world_border'', ''keep_alive'', ''map_chunk'', ''world_event'',
    ''world_particles'', ''update_light'', ''login'', ''map'', ''trade_list'',
    ''rel_entity_move'', ''entity_move_look'', ''move_minecart'', ''entity_look'',
    ''vehicle_move'', ''open_book'', ''open_window'', ''open_sign_entity'', ''ping'',
    ''ping_response'', ''craft_recipe_response'', ''abilities'', ''player_chat'',
    ''end_combat_event'', ''enter_combat_event'', ''death_combat_event'', ''player_remove'',
    ''player_info'', ''face_player'', ''position'', ''player_rotation'', ''recipe_book_add'',
    ''recipe_book_remove'', ''recipe_book_settings'', ''entity_destroy'',
    ''remove_entity_effect'', ''reset_score'', ''remove_resource_pack'', ''add_resource_pack'',
    ''respawn'', ''entity_head_rotation'', ''multi_block_change'', ''select_advancement_tab'',
    ''server_data'', ''action_bar'', ''world_border_center'', ''world_border_lerp_size'',
    ''world_border_size'', ''world_border_warning_delay'', ''world_border_warning_reach'',
    ''camera'', ''update_view_position'', ''update_view_distance'', ''set_cursor_item'',
    ''spawn_position'', ''scoreboard_display_objective'', ''entity_metadata'', ''attach_entity'',
    ''entity_velocity'', ''entity_equipment'', ''experience'', ''update_health'',
    ''held_item_slot'', ''scoreboard_objective'', ''set_passengers'', ''set_player_inventory'',
    ''teams'', ''scoreboard_score'', ''simulation_distance'', ''set_title_subtitle'',
    ''update_time'', ''set_title_text'', ''set_title_time'', ''entity_sound_effect'',
    ''sound_effect'', ''start_configuration'', ''stop_sound'', ''store_cookie'', ''system_chat'',
    ''playerlist_header'', ''nbt_query_response'', ''collect'', ''entity_teleport'',
    ''test_instance_block_status'', ''set_ticking_state'', ''step_tick'', ''transfer'',
    ''advancements'', ''entity_update_attributes'', ''entity_effect'', ''declare_recipes'',
    ''tags'', ''set_projectile_power'', ''custom_report_details'', ''server_links'',
    ''tracked_waypoint'', ''clear_dialog'', ''show_dialog'']"

definition packet_names_27_login_serverbound :: mc_packet_map where
  "packet_names_27_login_serverbound =
    [''login_start'', ''encryption_begin'', ''login_plugin_response'', ''login_acknowledged'',
    ''cookie_response'']"

definition packet_names_27_login_clientbound :: mc_packet_map where
  "packet_names_27_login_clientbound =
    [''disconnect'', ''encryption_begin'', ''success'', ''compress'', ''login_plugin_request'',
    ''cookie_request'']"

definition packet_names_27_configuration_serverbound :: mc_packet_map where
  "packet_names_27_configuration_serverbound =
    [''settings'', ''cookie_response'', ''custom_payload'', ''finish_configuration'',
    ''keep_alive'', ''pong'', ''resource_pack_receive'', ''select_known_packs'',
    ''custom_click_action'', ''accept_code_of_conduct'']"

definition packet_names_27_configuration_clientbound :: mc_packet_map where
  "packet_names_27_configuration_clientbound =
    [''cookie_request'', ''custom_payload'', ''disconnect'', ''finish_configuration'',
    ''keep_alive'', ''ping'', ''reset_chat'', ''registry_data'', ''remove_resource_pack'',
    ''add_resource_pack'', ''store_cookie'', ''transfer'', ''feature_flags'', ''tags'',
    ''select_known_packs'', ''custom_report_details'', ''server_links'', ''clear_dialog'',
    ''show_dialog'', ''code_of_conduct'']"

definition packet_names_27_play_serverbound :: mc_packet_map where
  "packet_names_27_play_serverbound =
    [''teleport_confirm'', ''query_block_nbt'', ''select_bundle_item'', ''set_difficulty'',
    ''change_gamemode'', ''message_acknowledgement'', ''chat_command'', ''chat_command_signed'',
    ''chat_message'', ''chat_session_update'', ''chunk_batch_received'', ''client_command'',
    ''tick_end'', ''settings'', ''tab_complete'', ''configuration_acknowledged'',
    ''enchant_item'', ''window_click'', ''close_window'', ''set_slot_state'', ''cookie_response'',
    ''custom_payload'', ''debug_subscription_request'', ''edit_book'', ''query_entity_nbt'',
    ''use_entity'', ''generate_structure'', ''keep_alive'', ''lock_difficulty'', ''position'',
    ''position_look'', ''look'', ''flying'', ''vehicle_move'', ''steer_boat'',
    ''pick_item_from_block'', ''pick_item_from_entity'', ''ping_request'',
    ''craft_recipe_request'', ''abilities'', ''block_dig'', ''entity_action'', ''player_input'',
    ''player_loaded'', ''pong'', ''recipe_book'', ''displayed_recipe'', ''name_item'',
    ''resource_pack_receive'', ''advancement_tab'', ''select_trade'', ''set_beacon_effect'',
    ''held_item_slot'', ''update_command_block'', ''update_command_block_minecart'',
    ''set_creative_slot'', ''update_jigsaw_block'', ''update_structure_block'',
    ''set_test_block'', ''update_sign'', ''arm_animation'', ''spectate'',
    ''test_instance_block_action'', ''block_place'', ''use_item'', ''custom_click_action'']"

definition packet_names_27_play_clientbound :: mc_packet_map where
  "packet_names_27_play_clientbound =
    [''bundle_delimiter'', ''spawn_entity'', ''animation'', ''statistics'',
    ''acknowledge_player_digging'', ''block_break_animation'', ''tile_entity_data'',
    ''block_action'', ''block_change'', ''boss_bar'', ''difficulty'', ''chunk_batch_finished'',
    ''chunk_batch_start'', ''chunk_biomes'', ''clear_titles'', ''tab_complete'',
    ''declare_commands'', ''close_window'', ''window_items'', ''craft_progress_bar'',
    ''set_slot'', ''cookie_request'', ''set_cooldown'', ''chat_suggestions'', ''custom_payload'',
    ''damage_event'', ''debug_block_value'', ''debug_chunk_value'', ''debug_entity_value'',
    ''debug_event'', ''debug_sample'', ''hide_message'', ''kick_disconnect'',
    ''profileless_chat'', ''entity_status'', ''sync_entity_position'', ''explosion'',
    ''unload_chunk'', ''game_state_change'', ''game_test_highlight_pos'', ''open_horse_window'',
    ''hurt_animation'', ''initialize_world_border'', ''keep_alive'', ''map_chunk'',
    ''world_event'', ''world_particles'', ''update_light'', ''login'', ''map'', ''trade_list'',
    ''rel_entity_move'', ''entity_move_look'', ''move_minecart'', ''entity_look'',
    ''vehicle_move'', ''open_book'', ''open_window'', ''open_sign_entity'', ''ping'',
    ''ping_response'', ''craft_recipe_response'', ''abilities'', ''player_chat'',
    ''end_combat_event'', ''enter_combat_event'', ''death_combat_event'', ''player_remove'',
    ''player_info'', ''face_player'', ''position'', ''player_rotation'', ''recipe_book_add'',
    ''recipe_book_remove'', ''recipe_book_settings'', ''entity_destroy'',
    ''remove_entity_effect'', ''reset_score'', ''remove_resource_pack'', ''add_resource_pack'',
    ''respawn'', ''entity_head_rotation'', ''multi_block_change'', ''select_advancement_tab'',
    ''server_data'', ''action_bar'', ''world_border_center'', ''world_border_lerp_size'',
    ''world_border_size'', ''world_border_warning_delay'', ''world_border_warning_reach'',
    ''camera'', ''update_view_position'', ''update_view_distance'', ''set_cursor_item'',
    ''spawn_position'', ''scoreboard_display_objective'', ''entity_metadata'', ''attach_entity'',
    ''entity_velocity'', ''entity_equipment'', ''experience'', ''update_health'',
    ''held_item_slot'', ''scoreboard_objective'', ''set_passengers'', ''set_player_inventory'',
    ''teams'', ''scoreboard_score'', ''simulation_distance'', ''set_title_subtitle'',
    ''update_time'', ''set_title_text'', ''set_title_time'', ''entity_sound_effect'',
    ''sound_effect'', ''start_configuration'', ''stop_sound'', ''store_cookie'', ''system_chat'',
    ''playerlist_header'', ''nbt_query_response'', ''collect'', ''entity_teleport'',
    ''test_instance_block_status'', ''set_ticking_state'', ''step_tick'', ''transfer'',
    ''advancements'', ''entity_update_attributes'', ''entity_effect'', ''declare_recipes'',
    ''tags'', ''set_projectile_power'', ''custom_report_details'', ''server_links'',
    ''tracked_waypoint'', ''clear_dialog'', ''show_dialog'']"

definition packet_names_28_login_serverbound :: mc_packet_map where
  "packet_names_28_login_serverbound =
    [''login_start'', ''encryption_begin'', ''login_plugin_response'', ''login_acknowledged'',
    ''cookie_response'']"

definition packet_names_28_login_clientbound :: mc_packet_map where
  "packet_names_28_login_clientbound =
    [''disconnect'', ''encryption_begin'', ''success'', ''compress'', ''login_plugin_request'',
    ''cookie_request'']"

definition packet_names_28_configuration_serverbound :: mc_packet_map where
  "packet_names_28_configuration_serverbound =
    [''settings'', ''cookie_response'', ''custom_payload'', ''finish_configuration'',
    ''keep_alive'', ''pong'', ''resource_pack_receive'', ''select_known_packs'',
    ''custom_click_action'', ''accept_code_of_conduct'']"

definition packet_names_28_configuration_clientbound :: mc_packet_map where
  "packet_names_28_configuration_clientbound =
    [''cookie_request'', ''custom_payload'', ''disconnect'', ''finish_configuration'',
    ''keep_alive'', ''ping'', ''reset_chat'', ''registry_data'', ''remove_resource_pack'',
    ''add_resource_pack'', ''store_cookie'', ''transfer'', ''feature_flags'', ''tags'',
    ''select_known_packs'', ''custom_report_details'', ''server_links'', ''clear_dialog'',
    ''show_dialog'', ''code_of_conduct'']"

definition packet_names_28_play_serverbound :: mc_packet_map where
  "packet_names_28_play_serverbound =
    [''teleport_confirm'', ''attack'', ''query_block_nbt'', ''select_bundle_item'',
    ''set_difficulty'', ''change_gamemode'', ''message_acknowledgement'', ''chat_command'',
    ''chat_command_signed'', ''chat_message'', ''chat_session_update'', ''chunk_batch_received'',
    ''client_command'', ''tick_end'', ''settings'', ''tab_complete'',
    ''configuration_acknowledged'', ''enchant_item'', ''window_click'', ''close_window'',
    ''set_slot_state'', ''cookie_response'', ''custom_payload'', ''debug_subscription_request'',
    ''edit_book'', ''query_entity_nbt'', ''use_entity'', ''generate_structure'', ''keep_alive'',
    ''lock_difficulty'', ''position'', ''position_look'', ''look'', ''flying'', ''vehicle_move'',
    ''steer_boat'', ''pick_item_from_block'', ''pick_item_from_entity'', ''ping_request'',
    ''craft_recipe_request'', ''abilities'', ''block_dig'', ''entity_action'', ''player_input'',
    ''player_loaded'', ''pong'', ''recipe_book'', ''displayed_recipe'', ''name_item'',
    ''resource_pack_receive'', ''advancement_tab'', ''select_trade'', ''set_beacon_effect'',
    ''held_item_slot'', ''update_command_block'', ''update_command_block_minecart'',
    ''set_creative_slot'', ''set_game_rule'', ''update_jigsaw_block'', ''update_structure_block'',
    ''set_test_block'', ''update_sign'', ''spectate_entity'', ''arm_animation'', ''spectate'',
    ''test_instance_block_action'', ''block_place'', ''use_item'', ''custom_click_action'']"

definition packet_names_28_play_clientbound :: mc_packet_map where
  "packet_names_28_play_clientbound =
    [''bundle_delimiter'', ''spawn_entity'', ''animation'', ''statistics'',
    ''acknowledge_player_digging'', ''block_break_animation'', ''tile_entity_data'',
    ''block_action'', ''block_change'', ''boss_bar'', ''difficulty'', ''chunk_batch_finished'',
    ''chunk_batch_start'', ''chunk_biomes'', ''clear_titles'', ''tab_complete'',
    ''declare_commands'', ''close_window'', ''window_items'', ''craft_progress_bar'',
    ''set_slot'', ''cookie_request'', ''set_cooldown'', ''chat_suggestions'', ''custom_payload'',
    ''damage_event'', ''debug_block_value'', ''debug_chunk_value'', ''debug_entity_value'',
    ''debug_event'', ''debug_sample'', ''hide_message'', ''kick_disconnect'',
    ''profileless_chat'', ''entity_status'', ''sync_entity_position'', ''explosion'',
    ''unload_chunk'', ''game_state_change'', ''game_rule_values'', ''game_test_highlight_pos'',
    ''open_horse_window'', ''hurt_animation'', ''initialize_world_border'', ''keep_alive'',
    ''map_chunk'', ''world_event'', ''world_particles'', ''update_light'', ''login'',
    ''low_disk_space_warning'', ''map'', ''trade_list'', ''rel_entity_move'',
    ''entity_move_look'', ''move_minecart'', ''entity_look'', ''vehicle_move'', ''open_book'',
    ''open_window'', ''open_sign_entity'', ''ping'', ''ping_response'', ''craft_recipe_response'',
    ''abilities'', ''player_chat'', ''end_combat_event'', ''enter_combat_event'',
    ''death_combat_event'', ''player_remove'', ''player_info'', ''face_player'', ''position'',
    ''player_rotation'', ''recipe_book_add'', ''recipe_book_remove'', ''recipe_book_settings'',
    ''entity_destroy'', ''remove_entity_effect'', ''reset_score'', ''remove_resource_pack'',
    ''add_resource_pack'', ''respawn'', ''entity_head_rotation'', ''multi_block_change'',
    ''select_advancement_tab'', ''server_data'', ''action_bar'', ''world_border_center'',
    ''world_border_lerp_size'', ''world_border_size'', ''world_border_warning_delay'',
    ''world_border_warning_reach'', ''camera'', ''update_view_position'',
    ''update_view_distance'', ''set_cursor_item'', ''spawn_position'',
    ''scoreboard_display_objective'', ''entity_metadata'', ''attach_entity'', ''entity_velocity'',
    ''entity_equipment'', ''experience'', ''update_health'', ''held_item_slot'',
    ''scoreboard_objective'', ''set_passengers'', ''set_player_inventory'', ''teams'',
    ''scoreboard_score'', ''simulation_distance'', ''set_title_subtitle'', ''update_time'',
    ''set_title_text'', ''set_title_time'', ''entity_sound_effect'', ''sound_effect'',
    ''start_configuration'', ''stop_sound'', ''store_cookie'', ''system_chat'',
    ''playerlist_header'', ''nbt_query_response'', ''collect'', ''entity_teleport'',
    ''test_instance_block_status'', ''set_ticking_state'', ''step_tick'', ''transfer'',
    ''advancements'', ''entity_update_attributes'', ''entity_effect'', ''declare_recipes'',
    ''tags'', ''set_projectile_power'', ''custom_report_details'', ''server_links'',
    ''tracked_waypoint'', ''clear_dialog'', ''show_dialog'']"

definition packet_names_29_login_serverbound :: mc_packet_map where
  "packet_names_29_login_serverbound =
    [''login_start'', ''encryption_begin'', ''login_plugin_response'', ''login_acknowledged'',
    ''cookie_response'']"

definition packet_names_29_login_clientbound :: mc_packet_map where
  "packet_names_29_login_clientbound =
    [''disconnect'', ''encryption_begin'', ''success'', ''compress'', ''login_plugin_request'',
    ''cookie_request'']"

definition packet_names_29_configuration_serverbound :: mc_packet_map where
  "packet_names_29_configuration_serverbound =
    [''settings'', ''cookie_response'', ''custom_payload'', ''finish_configuration'',
    ''keep_alive'', ''pong'', ''resource_pack_receive'', ''select_known_packs'',
    ''custom_click_action'', ''accept_code_of_conduct'']"

definition packet_names_29_configuration_clientbound :: mc_packet_map where
  "packet_names_29_configuration_clientbound =
    [''cookie_request'', ''custom_payload'', ''disconnect'', ''finish_configuration'',
    ''keep_alive'', ''ping'', ''reset_chat'', ''registry_data'', ''remove_resource_pack'',
    ''add_resource_pack'', ''store_cookie'', ''transfer'', ''feature_flags'', ''tags'',
    ''select_known_packs'', ''custom_report_details'', ''server_links'', ''clear_dialog'',
    ''show_dialog'', ''code_of_conduct'']"

definition packet_names_29_play_serverbound :: mc_packet_map where
  "packet_names_29_play_serverbound =
    [''teleport_confirm'', ''attack'', ''query_block_nbt'', ''select_bundle_item'',
    ''set_difficulty'', ''change_gamemode'', ''message_acknowledgement'', ''chat_command'',
    ''chat_command_signed'', ''chat_message'', ''chat_session_update'', ''chunk_batch_received'',
    ''client_command'', ''tick_end'', ''settings'', ''tab_complete'',
    ''configuration_acknowledged'', ''enchant_item'', ''window_click'', ''close_window'',
    ''set_slot_state'', ''cookie_response'', ''custom_payload'', ''debug_subscription_request'',
    ''edit_book'', ''query_entity_nbt'', ''use_entity'', ''generate_structure'', ''keep_alive'',
    ''lock_difficulty'', ''position'', ''position_look'', ''look'', ''flying'', ''vehicle_move'',
    ''steer_boat'', ''pick_item_from_block'', ''pick_item_from_entity'', ''ping_request'',
    ''craft_recipe_request'', ''abilities'', ''block_dig'', ''entity_action'', ''player_input'',
    ''player_loaded'', ''pong'', ''recipe_book'', ''displayed_recipe'', ''name_item'',
    ''resource_pack_receive'', ''advancement_tab'', ''select_trade'', ''set_beacon_effect'',
    ''held_item_slot'', ''update_command_block'', ''update_command_block_minecart'',
    ''set_creative_slot'', ''set_game_rule'', ''update_jigsaw_block'', ''update_structure_block'',
    ''set_test_block'', ''update_sign'', ''spectator_action'', ''arm_animation'', ''spectate'',
    ''test_instance_block_action'', ''block_place'', ''use_item'', ''custom_click_action'']"

definition packet_names_29_play_clientbound :: mc_packet_map where
  "packet_names_29_play_clientbound =
    [''bundle_delimiter'', ''spawn_entity'', ''animation'', ''statistics'',
    ''acknowledge_player_digging'', ''block_break_animation'', ''tile_entity_data'',
    ''block_action'', ''block_change'', ''boss_bar'', ''difficulty'', ''chunk_batch_finished'',
    ''chunk_batch_start'', ''chunk_biomes'', ''clear_titles'', ''tab_complete'',
    ''declare_commands'', ''close_window'', ''window_items'', ''craft_progress_bar'',
    ''set_slot'', ''cookie_request'', ''set_cooldown'', ''chat_suggestions'', ''custom_payload'',
    ''damage_event'', ''debug_block_value'', ''debug_chunk_value'', ''debug_entity_value'',
    ''debug_event'', ''debug_sample'', ''hide_message'', ''kick_disconnect'',
    ''profileless_chat'', ''entity_status'', ''sync_entity_position'', ''explosion'',
    ''unload_chunk'', ''game_state_change'', ''game_rule_values'', ''game_test_highlight_pos'',
    ''open_horse_window'', ''hurt_animation'', ''initialize_world_border'', ''keep_alive'',
    ''map_chunk'', ''world_event'', ''world_particles'', ''update_light'', ''login'',
    ''low_disk_space_warning'', ''map'', ''trade_list'', ''rel_entity_move'',
    ''entity_move_look'', ''move_minecart'', ''entity_look'', ''vehicle_move'', ''open_book'',
    ''open_window'', ''open_sign_entity'', ''ping'', ''ping_response'', ''craft_recipe_response'',
    ''abilities'', ''player_chat'', ''end_combat_event'', ''enter_combat_event'',
    ''death_combat_event'', ''player_remove'', ''player_info'', ''face_player'', ''position'',
    ''player_rotation'', ''recipe_book_add'', ''recipe_book_remove'', ''recipe_book_settings'',
    ''entity_destroy'', ''remove_entity_effect'', ''reset_score'', ''remove_resource_pack'',
    ''add_resource_pack'', ''respawn'', ''entity_head_rotation'', ''multi_block_change'',
    ''select_advancement_tab'', ''server_data'', ''action_bar'', ''world_border_center'',
    ''world_border_lerp_size'', ''world_border_size'', ''world_border_warning_delay'',
    ''world_border_warning_reach'', ''camera'', ''update_view_position'',
    ''update_view_distance'', ''set_cursor_item'', ''spawn_position'',
    ''scoreboard_display_objective'', ''entity_metadata'', ''attach_entity'', ''entity_velocity'',
    ''entity_equipment'', ''experience'', ''update_health'', ''held_item_slot'',
    ''scoreboard_objective'', ''set_passengers'', ''set_player_inventory'', ''teams'',
    ''scoreboard_score'', ''simulation_distance'', ''set_title_subtitle'', ''update_time'',
    ''set_title_text'', ''set_title_time'', ''entity_sound_effect'', ''sound_effect'',
    ''start_configuration'', ''stop_sound'', ''store_cookie'', ''system_chat'',
    ''playerlist_header'', ''nbt_query_response'', ''collect'', ''entity_teleport'',
    ''test_instance_block_status'', ''set_ticking_state'', ''step_tick'', ''transfer'',
    ''advancements'', ''entity_update_attributes'', ''entity_effect'', ''declare_recipes'',
    ''tags'', ''set_projectile_power'', ''custom_report_details'', ''server_links'',
    ''tracked_waypoint'', ''clear_dialog'', ''show_dialog'']"

definition packet_names_30_login_serverbound :: mc_packet_map where
  "packet_names_30_login_serverbound =
    [''login_start'', ''encryption_begin'', ''login_plugin_response'', ''login_acknowledged'',
    ''cookie_response'']"

definition packet_names_30_login_clientbound :: mc_packet_map where
  "packet_names_30_login_clientbound =
    [''disconnect'', ''encryption_begin'', ''success'', ''compress'', ''login_plugin_request'',
    ''cookie_request'']"

definition packet_names_30_configuration_serverbound :: mc_packet_map where
  "packet_names_30_configuration_serverbound =
    [''settings'', ''cookie_response'', ''custom_payload'', ''finish_configuration'',
    ''keep_alive'', ''pong'', ''resource_pack_receive'', ''select_known_packs'',
    ''custom_click_action'', ''accept_code_of_conduct'']"

definition packet_names_30_configuration_clientbound :: mc_packet_map where
  "packet_names_30_configuration_clientbound =
    [''cookie_request'', ''custom_payload'', ''disconnect'', ''finish_configuration'',
    ''keep_alive'', ''ping'', ''reset_chat'', ''registry_data'', ''remove_resource_pack'',
    ''add_resource_pack'', ''post_effects'', ''store_cookie'', ''transfer'', ''feature_flags'',
    ''tags'', ''select_known_packs'', ''custom_report_details'', ''server_links'',
    ''clear_dialog'', ''show_dialog'', ''code_of_conduct'']"

definition packet_names_30_play_serverbound :: mc_packet_map where
  "packet_names_30_play_serverbound =
    [''teleport_confirm'', ''attack'', ''query_block_nbt'', ''select_bundle_item'',
    ''set_difficulty'', ''change_gamemode'', ''message_acknowledgement'', ''chat_command'',
    ''chat_command_signed'', ''chat_message'', ''chat_session_update'', ''chunk_batch_received'',
    ''client_command'', ''tick_end'', ''settings'', ''tab_complete'',
    ''configuration_acknowledged'', ''enchant_item'', ''window_click'', ''close_window'',
    ''set_slot_state'', ''cookie_response'', ''custom_payload'', ''debug_subscription_request'',
    ''edit_book'', ''query_entity_nbt'', ''use_entity'', ''generate_structure'', ''keep_alive'',
    ''lock_difficulty'', ''position'', ''position_look'', ''look'', ''flying'', ''vehicle_move'',
    ''steer_boat'', ''pick_item_from_block'', ''pick_item_from_entity'', ''ping_request'',
    ''craft_recipe_request'', ''abilities'', ''block_dig'', ''entity_action'', ''player_input'',
    ''player_loaded'', ''pong'', ''punch'', ''recipe_book'', ''displayed_recipe'', ''name_item'',
    ''resource_pack_receive'', ''advancement_tab'', ''select_trade'', ''set_beacon_effect'',
    ''held_item_slot'', ''update_command_block'', ''update_command_block_minecart'',
    ''set_creative_slot'', ''set_game_rule'', ''update_jigsaw_block'', ''update_structure_block'',
    ''set_test_block'', ''update_sign'', ''spectator_action'', ''spectate'',
    ''test_instance_block_action'', ''block_place'', ''use_item'', ''custom_click_action'']"

definition packet_names_30_play_clientbound :: mc_packet_map where
  "packet_names_30_play_clientbound =
    [''bundle_delimiter'', ''spawn_entity'', ''animation'', ''statistics'',
    ''acknowledge_player_digging'', ''block_break_animation'', ''tile_entity_data'',
    ''block_action'', ''block_change'', ''boss_bar'', ''difficulty'', ''chunk_batch_finished'',
    ''chunk_batch_start'', ''chunk_biomes'', ''clear_titles'', ''tab_complete'',
    ''declare_commands'', ''close_window'', ''window_items'', ''craft_progress_bar'',
    ''set_slot'', ''cookie_request'', ''set_cooldown'', ''chat_suggestions'', ''custom_payload'',
    ''damage_event'', ''debug_block_value'', ''debug_chunk_value'', ''debug_entity_value'',
    ''debug_event'', ''debug_sample'', ''hide_message'', ''kick_disconnect'',
    ''profileless_chat'', ''entity_status'', ''sync_entity_position'', ''explosion'',
    ''add_transient_block'', ''unload_chunk'', ''game_state_change'', ''game_rule_values'',
    ''game_test_highlight_pos'', ''open_horse_window'', ''hurt_animation'',
    ''initialize_world_border'', ''keep_alive'', ''map_chunk'', ''world_event'',
    ''world_particles'', ''update_light'', ''login'', ''low_disk_space_warning'', ''map'',
    ''trade_list'', ''rel_entity_move'', ''entity_move_look'', ''move_minecart'', ''entity_look'',
    ''vehicle_move'', ''open_book'', ''open_window'', ''open_sign_entity'', ''ping'',
    ''ping_response'', ''craft_recipe_response'', ''abilities'', ''player_chat'',
    ''end_combat_event'', ''enter_combat_event'', ''death_combat_event'', ''player_remove'',
    ''player_info'', ''face_player'', ''position'', ''player_rotation'', ''recipe_book_add'',
    ''recipe_book_remove'', ''recipe_book_settings'', ''entity_destroy'',
    ''remove_entity_effect'', ''reset_score'', ''remove_resource_pack'', ''add_resource_pack'',
    ''post_effects'', ''respawn'', ''entity_head_rotation'', ''multi_block_change'',
    ''select_advancement_tab'', ''server_data'', ''action_bar'', ''world_border_center'',
    ''world_border_lerp_size'', ''world_border_size'', ''world_border_warning_delay'',
    ''world_border_warning_reach'', ''camera'', ''update_view_position'',
    ''update_view_distance'', ''set_cursor_item'', ''spawn_position'',
    ''scoreboard_display_objective'', ''entity_metadata'', ''attach_entity'', ''entity_velocity'',
    ''entity_equipment'', ''experience'', ''update_health'', ''held_item_slot'',
    ''scoreboard_objective'', ''set_passengers'', ''set_player_inventory'', ''teams'',
    ''scoreboard_score'', ''simulation_distance'', ''set_title_subtitle'', ''update_time'',
    ''set_title_text'', ''set_title_time'', ''entity_sound_effect'', ''sound_effect'',
    ''start_configuration'', ''stop_sound'', ''store_cookie'', ''swing_animation'',
    ''system_chat'', ''playerlist_header'', ''nbt_query_response'', ''collect'',
    ''entity_teleport'', ''test_instance_block_status'', ''set_ticking_state'', ''step_tick'',
    ''transfer'', ''advancements'', ''entity_update_attributes'', ''entity_effect'',
    ''declare_recipes'', ''tags'', ''set_projectile_power'', ''custom_report_details'',
    ''server_links'', ''tracked_waypoint'', ''clear_dialog'', ''show_dialog'']"

subsection \<open>Releases\<close>

definition packet_catalogs :: "mc_packet_catalog list" where
  "packet_catalogs =
   [
    \<lparr>cat_protocol = 4,
      cat_login_serverbound = packet_names_0_login_serverbound, cat_login_clientbound = packet_names_0_login_clientbound,
      cat_configuration_serverbound = [],
      cat_configuration_clientbound = [],
      cat_play_serverbound = packet_names_0_play_serverbound, cat_play_clientbound = packet_names_0_play_clientbound\<rparr>,
    \<lparr>cat_protocol = 5,
      cat_login_serverbound = packet_names_0_login_serverbound, cat_login_clientbound = packet_names_0_login_clientbound,
      cat_configuration_serverbound = [],
      cat_configuration_clientbound = [],
      cat_play_serverbound = packet_names_0_play_serverbound, cat_play_clientbound = packet_names_0_play_clientbound\<rparr>,
    \<lparr>cat_protocol = 47,
      cat_login_serverbound = packet_names_1_login_serverbound, cat_login_clientbound = packet_names_1_login_clientbound,
      cat_configuration_serverbound = [],
      cat_configuration_clientbound = [],
      cat_play_serverbound = packet_names_1_play_serverbound, cat_play_clientbound = packet_names_1_play_clientbound\<rparr>,
    \<lparr>cat_protocol = 107,
      cat_login_serverbound = packet_names_2_login_serverbound, cat_login_clientbound = packet_names_2_login_clientbound,
      cat_configuration_serverbound = [],
      cat_configuration_clientbound = [],
      cat_play_serverbound = packet_names_2_play_serverbound, cat_play_clientbound = packet_names_2_play_clientbound\<rparr>,
    \<lparr>cat_protocol = 108,
      cat_login_serverbound = packet_names_2_login_serverbound, cat_login_clientbound = packet_names_2_login_clientbound,
      cat_configuration_serverbound = [],
      cat_configuration_clientbound = [],
      cat_play_serverbound = packet_names_2_play_serverbound, cat_play_clientbound = packet_names_2_play_clientbound\<rparr>,
    \<lparr>cat_protocol = 109,
      cat_login_serverbound = packet_names_2_login_serverbound, cat_login_clientbound = packet_names_2_login_clientbound,
      cat_configuration_serverbound = [],
      cat_configuration_clientbound = [],
      cat_play_serverbound = packet_names_2_play_serverbound, cat_play_clientbound = packet_names_2_play_clientbound\<rparr>,
    \<lparr>cat_protocol = 110,
      cat_login_serverbound = packet_names_3_login_serverbound, cat_login_clientbound = packet_names_3_login_clientbound,
      cat_configuration_serverbound = [],
      cat_configuration_clientbound = [],
      cat_play_serverbound = packet_names_3_play_serverbound, cat_play_clientbound = packet_names_3_play_clientbound\<rparr>,
    \<lparr>cat_protocol = 210,
      cat_login_serverbound = packet_names_3_login_serverbound, cat_login_clientbound = packet_names_3_login_clientbound,
      cat_configuration_serverbound = [],
      cat_configuration_clientbound = [],
      cat_play_serverbound = packet_names_3_play_serverbound, cat_play_clientbound = packet_names_3_play_clientbound\<rparr>,
    \<lparr>cat_protocol = 315,
      cat_login_serverbound = packet_names_3_login_serverbound, cat_login_clientbound = packet_names_3_login_clientbound,
      cat_configuration_serverbound = [],
      cat_configuration_clientbound = [],
      cat_play_serverbound = packet_names_3_play_serverbound, cat_play_clientbound = packet_names_3_play_clientbound\<rparr>,
    \<lparr>cat_protocol = 316,
      cat_login_serverbound = packet_names_3_login_serverbound, cat_login_clientbound = packet_names_3_login_clientbound,
      cat_configuration_serverbound = [],
      cat_configuration_clientbound = [],
      cat_play_serverbound = packet_names_3_play_serverbound, cat_play_clientbound = packet_names_3_play_clientbound\<rparr>,
    \<lparr>cat_protocol = 335,
      cat_login_serverbound = packet_names_4_login_serverbound, cat_login_clientbound = packet_names_4_login_clientbound,
      cat_configuration_serverbound = [],
      cat_configuration_clientbound = [],
      cat_play_serverbound = packet_names_4_play_serverbound, cat_play_clientbound = packet_names_4_play_clientbound\<rparr>,
    \<lparr>cat_protocol = 338,
      cat_login_serverbound = packet_names_5_login_serverbound, cat_login_clientbound = packet_names_5_login_clientbound,
      cat_configuration_serverbound = [],
      cat_configuration_clientbound = [],
      cat_play_serverbound = packet_names_5_play_serverbound, cat_play_clientbound = packet_names_5_play_clientbound\<rparr>,
    \<lparr>cat_protocol = 340,
      cat_login_serverbound = packet_names_5_login_serverbound, cat_login_clientbound = packet_names_5_login_clientbound,
      cat_configuration_serverbound = [],
      cat_configuration_clientbound = [],
      cat_play_serverbound = packet_names_5_play_serverbound, cat_play_clientbound = packet_names_5_play_clientbound\<rparr>,
    \<lparr>cat_protocol = 393,
      cat_login_serverbound = packet_names_6_login_serverbound, cat_login_clientbound = packet_names_6_login_clientbound,
      cat_configuration_serverbound = [],
      cat_configuration_clientbound = [],
      cat_play_serverbound = packet_names_6_play_serverbound, cat_play_clientbound = packet_names_6_play_clientbound\<rparr>,
    \<lparr>cat_protocol = 401,
      cat_login_serverbound = packet_names_6_login_serverbound, cat_login_clientbound = packet_names_6_login_clientbound,
      cat_configuration_serverbound = [],
      cat_configuration_clientbound = [],
      cat_play_serverbound = packet_names_6_play_serverbound, cat_play_clientbound = packet_names_6_play_clientbound\<rparr>,
    \<lparr>cat_protocol = 404,
      cat_login_serverbound = packet_names_6_login_serverbound, cat_login_clientbound = packet_names_6_login_clientbound,
      cat_configuration_serverbound = [],
      cat_configuration_clientbound = [],
      cat_play_serverbound = packet_names_6_play_serverbound, cat_play_clientbound = packet_names_6_play_clientbound\<rparr>,
    \<lparr>cat_protocol = 477,
      cat_login_serverbound = packet_names_7_login_serverbound, cat_login_clientbound = packet_names_7_login_clientbound,
      cat_configuration_serverbound = [],
      cat_configuration_clientbound = [],
      cat_play_serverbound = packet_names_7_play_serverbound, cat_play_clientbound = packet_names_7_play_clientbound\<rparr>,
    \<lparr>cat_protocol = 480,
      cat_login_serverbound = packet_names_7_login_serverbound, cat_login_clientbound = packet_names_7_login_clientbound,
      cat_configuration_serverbound = [],
      cat_configuration_clientbound = [],
      cat_play_serverbound = packet_names_7_play_serverbound, cat_play_clientbound = packet_names_7_play_clientbound\<rparr>,
    \<lparr>cat_protocol = 485,
      cat_login_serverbound = packet_names_7_login_serverbound, cat_login_clientbound = packet_names_7_login_clientbound,
      cat_configuration_serverbound = [],
      cat_configuration_clientbound = [],
      cat_play_serverbound = packet_names_7_play_serverbound, cat_play_clientbound = packet_names_7_play_clientbound\<rparr>,
    \<lparr>cat_protocol = 490,
      cat_login_serverbound = packet_names_7_login_serverbound, cat_login_clientbound = packet_names_7_login_clientbound,
      cat_configuration_serverbound = [],
      cat_configuration_clientbound = [],
      cat_play_serverbound = packet_names_7_play_serverbound, cat_play_clientbound = packet_names_7_play_clientbound\<rparr>,
    \<lparr>cat_protocol = 498,
      cat_login_serverbound = packet_names_8_login_serverbound, cat_login_clientbound = packet_names_8_login_clientbound,
      cat_configuration_serverbound = [],
      cat_configuration_clientbound = [],
      cat_play_serverbound = packet_names_8_play_serverbound, cat_play_clientbound = packet_names_8_play_clientbound\<rparr>,
    \<lparr>cat_protocol = 573,
      cat_login_serverbound = packet_names_9_login_serverbound, cat_login_clientbound = packet_names_9_login_clientbound,
      cat_configuration_serverbound = [],
      cat_configuration_clientbound = [],
      cat_play_serverbound = packet_names_9_play_serverbound, cat_play_clientbound = packet_names_9_play_clientbound\<rparr>,
    \<lparr>cat_protocol = 575,
      cat_login_serverbound = packet_names_9_login_serverbound, cat_login_clientbound = packet_names_9_login_clientbound,
      cat_configuration_serverbound = [],
      cat_configuration_clientbound = [],
      cat_play_serverbound = packet_names_9_play_serverbound, cat_play_clientbound = packet_names_9_play_clientbound\<rparr>,
    \<lparr>cat_protocol = 578,
      cat_login_serverbound = packet_names_9_login_serverbound, cat_login_clientbound = packet_names_9_login_clientbound,
      cat_configuration_serverbound = [],
      cat_configuration_clientbound = [],
      cat_play_serverbound = packet_names_9_play_serverbound, cat_play_clientbound = packet_names_9_play_clientbound\<rparr>,
    \<lparr>cat_protocol = 735,
      cat_login_serverbound = packet_names_10_login_serverbound, cat_login_clientbound = packet_names_10_login_clientbound,
      cat_configuration_serverbound = [],
      cat_configuration_clientbound = [],
      cat_play_serverbound = packet_names_10_play_serverbound, cat_play_clientbound = packet_names_10_play_clientbound\<rparr>,
    \<lparr>cat_protocol = 736,
      cat_login_serverbound = packet_names_10_login_serverbound, cat_login_clientbound = packet_names_10_login_clientbound,
      cat_configuration_serverbound = [],
      cat_configuration_clientbound = [],
      cat_play_serverbound = packet_names_10_play_serverbound, cat_play_clientbound = packet_names_10_play_clientbound\<rparr>,
    \<lparr>cat_protocol = 751,
      cat_login_serverbound = packet_names_11_login_serverbound, cat_login_clientbound = packet_names_11_login_clientbound,
      cat_configuration_serverbound = [],
      cat_configuration_clientbound = [],
      cat_play_serverbound = packet_names_11_play_serverbound, cat_play_clientbound = packet_names_11_play_clientbound\<rparr>,
    \<lparr>cat_protocol = 753,
      cat_login_serverbound = packet_names_11_login_serverbound, cat_login_clientbound = packet_names_11_login_clientbound,
      cat_configuration_serverbound = [],
      cat_configuration_clientbound = [],
      cat_play_serverbound = packet_names_11_play_serverbound, cat_play_clientbound = packet_names_11_play_clientbound\<rparr>,
    \<lparr>cat_protocol = 754,
      cat_login_serverbound = packet_names_11_login_serverbound, cat_login_clientbound = packet_names_11_login_clientbound,
      cat_configuration_serverbound = [],
      cat_configuration_clientbound = [],
      cat_play_serverbound = packet_names_11_play_serverbound, cat_play_clientbound = packet_names_11_play_clientbound\<rparr>,
    \<lparr>cat_protocol = 755,
      cat_login_serverbound = packet_names_12_login_serverbound, cat_login_clientbound = packet_names_12_login_clientbound,
      cat_configuration_serverbound = [],
      cat_configuration_clientbound = [],
      cat_play_serverbound = packet_names_12_play_serverbound, cat_play_clientbound = packet_names_12_play_clientbound\<rparr>,
    \<lparr>cat_protocol = 756,
      cat_login_serverbound = packet_names_13_login_serverbound, cat_login_clientbound = packet_names_13_login_clientbound,
      cat_configuration_serverbound = [],
      cat_configuration_clientbound = [],
      cat_play_serverbound = packet_names_13_play_serverbound, cat_play_clientbound = packet_names_13_play_clientbound\<rparr>,
    \<lparr>cat_protocol = 757,
      cat_login_serverbound = packet_names_14_login_serverbound, cat_login_clientbound = packet_names_14_login_clientbound,
      cat_configuration_serverbound = [],
      cat_configuration_clientbound = [],
      cat_play_serverbound = packet_names_14_play_serverbound, cat_play_clientbound = packet_names_14_play_clientbound\<rparr>,
    \<lparr>cat_protocol = 758,
      cat_login_serverbound = packet_names_14_login_serverbound, cat_login_clientbound = packet_names_14_login_clientbound,
      cat_configuration_serverbound = [],
      cat_configuration_clientbound = [],
      cat_play_serverbound = packet_names_14_play_serverbound, cat_play_clientbound = packet_names_14_play_clientbound\<rparr>,
    \<lparr>cat_protocol = 759,
      cat_login_serverbound = packet_names_15_login_serverbound, cat_login_clientbound = packet_names_15_login_clientbound,
      cat_configuration_serverbound = [],
      cat_configuration_clientbound = [],
      cat_play_serverbound = packet_names_15_play_serverbound, cat_play_clientbound = packet_names_15_play_clientbound\<rparr>,
    \<lparr>cat_protocol = 760,
      cat_login_serverbound = packet_names_16_login_serverbound, cat_login_clientbound = packet_names_16_login_clientbound,
      cat_configuration_serverbound = [],
      cat_configuration_clientbound = [],
      cat_play_serverbound = packet_names_16_play_serverbound, cat_play_clientbound = packet_names_16_play_clientbound\<rparr>,
    \<lparr>cat_protocol = 761,
      cat_login_serverbound = packet_names_17_login_serverbound, cat_login_clientbound = packet_names_17_login_clientbound,
      cat_configuration_serverbound = [],
      cat_configuration_clientbound = [],
      cat_play_serverbound = packet_names_17_play_serverbound, cat_play_clientbound = packet_names_17_play_clientbound\<rparr>,
    \<lparr>cat_protocol = 762,
      cat_login_serverbound = packet_names_18_login_serverbound, cat_login_clientbound = packet_names_18_login_clientbound,
      cat_configuration_serverbound = [],
      cat_configuration_clientbound = [],
      cat_play_serverbound = packet_names_18_play_serverbound, cat_play_clientbound = packet_names_18_play_clientbound\<rparr>,
    \<lparr>cat_protocol = 763,
      cat_login_serverbound = packet_names_18_login_serverbound, cat_login_clientbound = packet_names_18_login_clientbound,
      cat_configuration_serverbound = [],
      cat_configuration_clientbound = [],
      cat_play_serverbound = packet_names_18_play_serverbound, cat_play_clientbound = packet_names_18_play_clientbound\<rparr>,
    \<lparr>cat_protocol = 764,
      cat_login_serverbound = packet_names_19_login_serverbound, cat_login_clientbound = packet_names_19_login_clientbound,
      cat_configuration_serverbound = packet_names_19_configuration_serverbound,
      cat_configuration_clientbound = packet_names_19_configuration_clientbound,
      cat_play_serverbound = packet_names_19_play_serverbound, cat_play_clientbound = packet_names_19_play_clientbound\<rparr>,
    \<lparr>cat_protocol = 765,
      cat_login_serverbound = packet_names_20_login_serverbound, cat_login_clientbound = packet_names_20_login_clientbound,
      cat_configuration_serverbound = packet_names_20_configuration_serverbound,
      cat_configuration_clientbound = packet_names_20_configuration_clientbound,
      cat_play_serverbound = packet_names_20_play_serverbound, cat_play_clientbound = packet_names_20_play_clientbound\<rparr>,
    \<lparr>cat_protocol = 766,
      cat_login_serverbound = packet_names_21_login_serverbound, cat_login_clientbound = packet_names_21_login_clientbound,
      cat_configuration_serverbound = packet_names_21_configuration_serverbound,
      cat_configuration_clientbound = packet_names_21_configuration_clientbound,
      cat_play_serverbound = packet_names_21_play_serverbound, cat_play_clientbound = packet_names_21_play_clientbound\<rparr>,
    \<lparr>cat_protocol = 767,
      cat_login_serverbound = packet_names_22_login_serverbound, cat_login_clientbound = packet_names_22_login_clientbound,
      cat_configuration_serverbound = packet_names_22_configuration_serverbound,
      cat_configuration_clientbound = packet_names_22_configuration_clientbound,
      cat_play_serverbound = packet_names_22_play_serverbound, cat_play_clientbound = packet_names_22_play_clientbound\<rparr>,
    \<lparr>cat_protocol = 768,
      cat_login_serverbound = packet_names_23_login_serverbound, cat_login_clientbound = packet_names_23_login_clientbound,
      cat_configuration_serverbound = packet_names_23_configuration_serverbound,
      cat_configuration_clientbound = packet_names_23_configuration_clientbound,
      cat_play_serverbound = packet_names_23_play_serverbound, cat_play_clientbound = packet_names_23_play_clientbound\<rparr>,
    \<lparr>cat_protocol = 769,
      cat_login_serverbound = packet_names_24_login_serverbound, cat_login_clientbound = packet_names_24_login_clientbound,
      cat_configuration_serverbound = packet_names_24_configuration_serverbound,
      cat_configuration_clientbound = packet_names_24_configuration_clientbound,
      cat_play_serverbound = packet_names_24_play_serverbound, cat_play_clientbound = packet_names_24_play_clientbound\<rparr>,
    \<lparr>cat_protocol = 770,
      cat_login_serverbound = packet_names_25_login_serverbound, cat_login_clientbound = packet_names_25_login_clientbound,
      cat_configuration_serverbound = packet_names_25_configuration_serverbound,
      cat_configuration_clientbound = packet_names_25_configuration_clientbound,
      cat_play_serverbound = packet_names_25_play_serverbound, cat_play_clientbound = packet_names_25_play_clientbound\<rparr>,
    \<lparr>cat_protocol = 771,
      cat_login_serverbound = packet_names_26_login_serverbound, cat_login_clientbound = packet_names_26_login_clientbound,
      cat_configuration_serverbound = packet_names_26_configuration_serverbound,
      cat_configuration_clientbound = packet_names_26_configuration_clientbound,
      cat_play_serverbound = packet_names_26_play_serverbound, cat_play_clientbound = packet_names_26_play_clientbound\<rparr>,
    \<lparr>cat_protocol = 772,
      cat_login_serverbound = packet_names_26_login_serverbound, cat_login_clientbound = packet_names_26_login_clientbound,
      cat_configuration_serverbound = packet_names_26_configuration_serverbound,
      cat_configuration_clientbound = packet_names_26_configuration_clientbound,
      cat_play_serverbound = packet_names_26_play_serverbound, cat_play_clientbound = packet_names_26_play_clientbound\<rparr>,
    \<lparr>cat_protocol = 773,
      cat_login_serverbound = packet_names_27_login_serverbound, cat_login_clientbound = packet_names_27_login_clientbound,
      cat_configuration_serverbound = packet_names_27_configuration_serverbound,
      cat_configuration_clientbound = packet_names_27_configuration_clientbound,
      cat_play_serverbound = packet_names_27_play_serverbound, cat_play_clientbound = packet_names_27_play_clientbound\<rparr>,
    \<lparr>cat_protocol = 774,
      cat_login_serverbound = packet_names_27_login_serverbound, cat_login_clientbound = packet_names_27_login_clientbound,
      cat_configuration_serverbound = packet_names_27_configuration_serverbound,
      cat_configuration_clientbound = packet_names_27_configuration_clientbound,
      cat_play_serverbound = packet_names_27_play_serverbound, cat_play_clientbound = packet_names_27_play_clientbound\<rparr>,
    \<lparr>cat_protocol = 775,
      cat_login_serverbound = packet_names_28_login_serverbound, cat_login_clientbound = packet_names_28_login_clientbound,
      cat_configuration_serverbound = packet_names_28_configuration_serverbound,
      cat_configuration_clientbound = packet_names_28_configuration_clientbound,
      cat_play_serverbound = packet_names_28_play_serverbound, cat_play_clientbound = packet_names_28_play_clientbound\<rparr>,
    \<lparr>cat_protocol = 776,
      cat_login_serverbound = packet_names_29_login_serverbound, cat_login_clientbound = packet_names_29_login_clientbound,
      cat_configuration_serverbound = packet_names_29_configuration_serverbound,
      cat_configuration_clientbound = packet_names_29_configuration_clientbound,
      cat_play_serverbound = packet_names_29_play_serverbound, cat_play_clientbound = packet_names_29_play_clientbound\<rparr>,
    \<lparr>cat_protocol = 777,
      cat_login_serverbound = packet_names_30_login_serverbound, cat_login_clientbound = packet_names_30_login_clientbound,
      cat_configuration_serverbound = packet_names_30_configuration_serverbound,
      cat_configuration_clientbound = packet_names_30_configuration_clientbound,
      cat_play_serverbound = packet_names_30_play_serverbound, cat_play_clientbound = packet_names_30_play_clientbound\<rparr>]"

end
