(* ===== verification/Errors.thy ===== *)
theory Errors
  imports Prelude
begin

text \<open>
  The error model of \<open>api.h\<close> and \<open>api.c\<close>: the error codes, the connection states and packet
  directions an error record carries, the caller-owned error record \<open>McError\<close>, its clearing,
  the stable code names, and the rule that the first recorded error wins.

  An enumeration of the source that some code fills from an untrusted byte (\<open>McState\<close>,
  \<open>McPacketDirection\<close>, \<open>McDecodeMode\<close>) has one more constructor, for an integer outside the
  enumeration.
\<close>

datatype mc_error_code =
    MC_ERROR_NONE | MC_ERROR_INVALID_ARGUMENT | MC_ERROR_UNSUPPORTED_PROTOCOL
  | MC_ERROR_INVALID_STATE | MC_ERROR_INVALID_DIRECTION | MC_ERROR_UNKNOWN_PACKET
  | MC_ERROR_PARTIAL_INPUT | MC_ERROR_VARINT_OVERFLOW | MC_ERROR_VARINT_NON_CANONICAL
  | MC_ERROR_FRAME_TOO_LARGE | MC_ERROR_BUFFER_LIMIT | MC_ERROR_DECOMPRESSED_TOO_LARGE
  | MC_ERROR_COMPRESSION_HEADER | MC_ERROR_COMPRESSION_THRESHOLD | MC_ERROR_ZLIB
  | MC_ERROR_TRAILING_BYTES | MC_ERROR_INVALID_BOOLEAN | MC_ERROR_STRING_TOO_LARGE
  | MC_ERROR_NBT_DEPTH | MC_ERROR_NBT_LENGTH | MC_ERROR_INVALID_LENGTH
  | MC_ERROR_INTEGER_OVERFLOW | MC_ERROR_INVALID_PACKET_BODY | MC_ERROR_OUT_OF_MEMORY
  | MC_ERROR_IO | MC_ERROR_TIMEOUT | MC_ERROR_INTERNAL

datatype mc_state =
    MC_STATE_UNKNOWN | MC_STATE_DISCONNECTED | MC_STATE_LOGIN | MC_STATE_CONFIGURATION
  | MC_STATE_PLAY | MC_STATE_STATUS | MC_STATE_OTHER int

datatype mc_direction =
    MC_PACKET_DIRECTION_UNKNOWN | MC_PACKET_SERVERBOUND | MC_PACKET_CLIENTBOUND
  | MC_PACKET_DIRECTION_OTHER int

datatype mc_decode_mode = MC_DECODE_VANILLA_COMPAT | MC_DECODE_STRICT | MC_DECODE_OTHER int

text \<open>The casts \<open>(McState)n\<close> and \<open>(McPacketDirection)n\<close>.\<close>

definition mc_state_of :: "int \<Rightarrow> mc_state" where
  "mc_state_of n =
     (if n = -1 then MC_STATE_UNKNOWN else if n = 0 then MC_STATE_DISCONNECTED
      else if n = 1 then MC_STATE_LOGIN else if n = 2 then MC_STATE_CONFIGURATION
      else if n = 3 then MC_STATE_PLAY else if n = 4 then MC_STATE_STATUS
      else MC_STATE_OTHER n)"

definition mc_direction_of :: "int \<Rightarrow> mc_direction" where
  "mc_direction_of n =
     (if n = -1 then MC_PACKET_DIRECTION_UNKNOWN else if n = 0 then MC_PACKET_SERVERBOUND
      else if n = 1 then MC_PACKET_CLIENTBOUND else MC_PACKET_DIRECTION_OTHER n)"

record mc_error =
  er_code :: mc_error_code
  er_offset :: nat
  er_protocol :: int
  er_state :: mc_state
  er_direction :: mc_direction
  er_packet_id :: i32

definition MC_ERROR_OFFSET_UNKNOWN :: nat where
  "MC_ERROR_OFFSET_UNKNOWN = SIZE_MAX"

text \<open>
  \<open>mc_error_clear\<close> overwrites every field of the record, so it is the value it stores. A null
  error pointer is \<^term>\<open>None\<close> wherever a record may be absent.
\<close>

definition mc_error_clear :: mc_error where
  "mc_error_clear =
     \<lparr>er_code = MC_ERROR_NONE, er_offset = MC_ERROR_OFFSET_UNKNOWN, er_protocol = -1,
      er_state = MC_STATE_UNKNOWN, er_direction = MC_PACKET_DIRECTION_UNKNOWN,
      er_packet_id = -1\<rparr>"

fun mc_error_name :: "mc_error_code \<Rightarrow> string" where
  "mc_error_name MC_ERROR_NONE = ''MC_ERROR_NONE''"
| "mc_error_name MC_ERROR_INVALID_ARGUMENT = ''MC_ERROR_INVALID_ARGUMENT''"
| "mc_error_name MC_ERROR_UNSUPPORTED_PROTOCOL = ''MC_ERROR_UNSUPPORTED_PROTOCOL''"
| "mc_error_name MC_ERROR_INVALID_STATE = ''MC_ERROR_INVALID_STATE''"
| "mc_error_name MC_ERROR_INVALID_DIRECTION = ''MC_ERROR_INVALID_DIRECTION''"
| "mc_error_name MC_ERROR_UNKNOWN_PACKET = ''MC_ERROR_UNKNOWN_PACKET''"
| "mc_error_name MC_ERROR_PARTIAL_INPUT = ''MC_ERROR_PARTIAL_INPUT''"
| "mc_error_name MC_ERROR_VARINT_OVERFLOW = ''MC_ERROR_VARINT_OVERFLOW''"
| "mc_error_name MC_ERROR_VARINT_NON_CANONICAL = ''MC_ERROR_VARINT_NON_CANONICAL''"
| "mc_error_name MC_ERROR_FRAME_TOO_LARGE = ''MC_ERROR_FRAME_TOO_LARGE''"
| "mc_error_name MC_ERROR_BUFFER_LIMIT = ''MC_ERROR_BUFFER_LIMIT''"
| "mc_error_name MC_ERROR_DECOMPRESSED_TOO_LARGE = ''MC_ERROR_DECOMPRESSED_TOO_LARGE''"
| "mc_error_name MC_ERROR_COMPRESSION_HEADER = ''MC_ERROR_COMPRESSION_HEADER''"
| "mc_error_name MC_ERROR_COMPRESSION_THRESHOLD = ''MC_ERROR_COMPRESSION_THRESHOLD''"
| "mc_error_name MC_ERROR_ZLIB = ''MC_ERROR_ZLIB''"
| "mc_error_name MC_ERROR_TRAILING_BYTES = ''MC_ERROR_TRAILING_BYTES''"
| "mc_error_name MC_ERROR_INVALID_BOOLEAN = ''MC_ERROR_INVALID_BOOLEAN''"
| "mc_error_name MC_ERROR_STRING_TOO_LARGE = ''MC_ERROR_STRING_TOO_LARGE''"
| "mc_error_name MC_ERROR_NBT_DEPTH = ''MC_ERROR_NBT_DEPTH''"
| "mc_error_name MC_ERROR_NBT_LENGTH = ''MC_ERROR_NBT_LENGTH''"
| "mc_error_name MC_ERROR_INVALID_LENGTH = ''MC_ERROR_INVALID_LENGTH''"
| "mc_error_name MC_ERROR_INTEGER_OVERFLOW = ''MC_ERROR_INTEGER_OVERFLOW''"
| "mc_error_name MC_ERROR_INVALID_PACKET_BODY = ''MC_ERROR_INVALID_PACKET_BODY''"
| "mc_error_name MC_ERROR_OUT_OF_MEMORY = ''MC_ERROR_OUT_OF_MEMORY''"
| "mc_error_name MC_ERROR_IO = ''MC_ERROR_IO''"
| "mc_error_name MC_ERROR_TIMEOUT = ''MC_ERROR_TIMEOUT''"
| "mc_error_name MC_ERROR_INTERNAL = ''MC_ERROR_INTERNAL''"

text \<open>\<open>record_error\<close> stores a code and its offset unless a code is already stored.\<close>

definition record_error :: "mc_error_code \<Rightarrow> nat \<Rightarrow> mc_error \<Rightarrow> mc_error" where
  "record_error code off e =
     (if er_code e \<noteq> MC_ERROR_NONE then e else e\<lparr>er_code := code, er_offset := off\<rparr>)"

lemma record_error_first_wins:
  "er_code e \<noteq> MC_ERROR_NONE \<Longrightarrow> record_error code off e = e"
  by (simp add: record_error_def)

lemma record_error_code:
  "code \<noteq> MC_ERROR_NONE \<Longrightarrow> er_code (record_error code off e) \<noteq> MC_ERROR_NONE"
  by (simp add: record_error_def)

lemma mc_error_clear_code [simp]: "er_code mc_error_clear = MC_ERROR_NONE"
  by (simp add: mc_error_clear_def)

end
