(* ===== verification/Profiles.thy ===== *)
theory Profiles
  imports Errors
begin

text \<open>
  The protocol profiles of \<open>api.c\<close>: the table of the supported releases with the packet
  identifiers the connection maintenance uses and the wire-shape flags, the tables of protocol
  numbers and release names, and the lookups of the public registry.
\<close>

subsection \<open>Feature flags\<close>

definition MC_PROTOCOL_FEATURE_COMPRESSION :: u32 where
  "MC_PROTOCOL_FEATURE_COMPRESSION = push_bit 0 1"

definition MC_PROTOCOL_FEATURE_LOGIN_KEY :: u32 where
  "MC_PROTOCOL_FEATURE_LOGIN_KEY = push_bit 1 1"

definition MC_PROTOCOL_FEATURE_OPTIONAL_UUID :: u32 where
  "MC_PROTOCOL_FEATURE_OPTIONAL_UUID = push_bit 2 1"

definition MC_PROTOCOL_FEATURE_REQUIRED_UUID :: u32 where
  "MC_PROTOCOL_FEATURE_REQUIRED_UUID = push_bit 3 1"

definition MC_PROTOCOL_FEATURE_CONFIGURATION :: u32 where
  "MC_PROTOCOL_FEATURE_CONFIGURATION = push_bit 4 1"

definition MC_PROTOCOL_FEATURE_POSITION_DELTA :: u32 where
  "MC_PROTOCOL_FEATURE_POSITION_DELTA = push_bit 5 1"

definition MC_PROTOCOL_FEATURE_KEEP_ALIVE_I64 :: u32 where
  "MC_PROTOCOL_FEATURE_KEEP_ALIVE_I64 = push_bit 6 1"

definition MC_PROTOCOL_FEATURE_CHAT_LAST_SEEN :: u32 where
  "MC_PROTOCOL_FEATURE_CHAT_LAST_SEEN = push_bit 7 1"

definition MC_PROTOCOL_FEATURE_CHAT_ACKNOWLEDGED :: u32 where
  "MC_PROTOCOL_FEATURE_CHAT_ACKNOWLEDGED = push_bit 8 1"

subsection \<open>Tables\<close>

record mc_profile =
  pf_protocol :: int
  pf_join_game :: int
  pf_keep_alive :: int
  pf_player_position :: int
  pf_teleport_confirm :: int
  pf_keep_alive_response :: int
  pf_flags :: u32

text \<open>One row of the table, the macro \<open>P\<close> of the source.\<close>

definition profile_row :: "int \<Rightarrow> int \<Rightarrow> int \<Rightarrow> int \<Rightarrow> int \<Rightarrow> int \<Rightarrow> u32 \<Rightarrow> mc_profile" where
  "profile_row v j k p t r f =
     \<lparr>pf_protocol = v, pf_join_game = j, pf_keep_alive = k, pf_player_position = p,
      pf_teleport_confirm = t, pf_keep_alive_response = r, pf_flags = f\<rparr>"

definition profiles :: "mc_profile list" where
  "profiles =
    (let C = MC_PROTOCOL_FEATURE_COMPRESSION; K = MC_PROTOCOL_FEATURE_KEEP_ALIVE_I64;
         L = MC_PROTOCOL_FEATURE_LOGIN_KEY; O' = MC_PROTOCOL_FEATURE_OPTIONAL_UUID;
         R = MC_PROTOCOL_FEATURE_REQUIRED_UUID; F = MC_PROTOCOL_FEATURE_CONFIGURATION;
         D = MC_PROTOCOL_FEATURE_POSITION_DELTA; S = MC_PROTOCOL_FEATURE_CHAT_LAST_SEEN;
         A = MC_PROTOCOL_FEATURE_CHAT_ACKNOWLEDGED
     in
     [
      profile_row 4 1 0 8 (-1) 0 0,
      profile_row 5 1 0 8 (-1) 0 0,
      profile_row 47 1 0 8 (-1) 0 C,
      profile_row 107 35 31 46 0 11 C,
      profile_row 108 35 31 46 0 11 C,
      profile_row 109 35 31 46 0 11 C,
      profile_row 110 35 31 46 0 11 C,
      profile_row 210 35 31 46 0 11 C,
      profile_row 315 35 31 46 0 11 C,
      profile_row 316 35 31 46 0 11 C,
      profile_row 335 35 31 46 0 12 C,
      profile_row 338 35 31 47 0 11 C,
      profile_row 340 35 31 47 0 11 (C OR K),
      profile_row 393 37 33 50 0 14 (C OR K),
      profile_row 401 37 33 50 0 14 (C OR K),
      profile_row 404 37 33 50 0 14 (C OR K),
      profile_row 477 37 32 53 0 15 (C OR K),
      profile_row 480 37 32 53 0 15 (C OR K),
      profile_row 485 37 32 53 0 15 (C OR K),
      profile_row 490 37 32 53 0 15 (C OR K),
      profile_row 498 37 32 53 0 15 (C OR K),
      profile_row 573 38 33 54 0 15 (C OR K),
      profile_row 575 38 33 54 0 15 (C OR K),
      profile_row 578 38 33 54 0 15 (C OR K),
      profile_row 735 37 32 53 0 16 (C OR K),
      profile_row 736 37 32 53 0 16 (C OR K),
      profile_row 751 36 31 52 0 16 (C OR K),
      profile_row 753 36 31 52 0 16 (C OR K),
      profile_row 754 36 31 52 0 16 (C OR K),
      profile_row 755 38 33 56 0 15 (C OR K),
      profile_row 756 38 33 56 0 15 (C OR K),
      profile_row 757 38 33 56 0 15 (C OR K),
      profile_row 758 38 33 56 0 15 (C OR K),
      profile_row 759 35 30 54 0 17 (C OR (K OR L)),
      profile_row 760 37 32 57 0 18 (C OR (K OR (L OR (O' OR S)))),
      profile_row 761 36 31 56 0 17 (C OR (K OR (O' OR A))),
      profile_row 762 40 35 60 0 18 (C OR (K OR (O' OR A))),
      profile_row 763 40 35 60 0 18 (C OR (K OR (O' OR A))),
      profile_row 764 41 36 62 0 20 (C OR (K OR (R OR (F OR A)))),
      profile_row 765 41 36 62 0 21 (C OR (K OR (R OR (F OR A)))),
      profile_row 766 43 38 64 0 24 (C OR (K OR (R OR F))),
      profile_row 767 43 38 64 0 24 (C OR (K OR (R OR F))),
      profile_row 768 44 39 66 0 26 (C OR (K OR (R OR (F OR D)))),
      profile_row 769 44 39 66 0 26 (C OR (K OR (R OR (F OR D)))),
      profile_row 770 43 38 65 0 26 (C OR (K OR (R OR (F OR D)))),
      profile_row 771 43 38 65 0 27 (C OR (K OR (R OR (F OR D)))),
      profile_row 772 43 38 65 0 27 (C OR (K OR (R OR (F OR D)))),
      profile_row 773 48 43 70 0 27 (C OR (K OR (R OR (F OR D)))),
      profile_row 774 48 43 70 0 27 (C OR (K OR (R OR (F OR D)))),
      profile_row 775 49 44 72 0 28 (C OR (K OR (R OR (F OR D)))),
      profile_row 776 49 44 72 0 28 (C OR (K OR (R OR (F OR D)))),
      profile_row 777 50 45 73 0 28 (C OR (K OR (R OR (F OR D))))])"

definition protocol_ids :: "int list" where
  "protocol_ids =
    [4, 5, 47, 107, 108, 109, 110, 210, 315, 316, 335, 338, 340, 393, 401, 404, 477, 480, 485,
    490, 498, 573, 575, 578, 735, 736, 751, 753, 754, 755, 756, 757, 758, 759, 760, 761, 762,
    763, 764, 765, 766, 767, 768, 769, 770, 771, 772, 773, 774, 775, 776, 777]"

definition protocol_names :: "string list" where
  "protocol_names =
    [''1.7.5'', ''1.7.10'', ''1.8.9'', ''1.9'', ''1.9.1'', ''1.9.2'', ''1.9.4'', ''1.10.2'',
    ''1.11'', ''1.11.2'', ''1.12'', ''1.12.1'', ''1.12.2'', ''1.13'', ''1.13.1'', ''1.13.2'',
    ''1.14'', ''1.14.1'', ''1.14.2'', ''1.14.3'', ''1.14.4'', ''1.15'', ''1.15.1'', ''1.15.2'',
    ''1.16'', ''1.16.1'', ''1.16.2'', ''1.16.3'', ''1.16.5'', ''1.17'', ''1.17.1'', ''1.18.1'',
    ''1.18.2'', ''1.19'', ''1.19.2'', ''1.19.3'', ''1.19.4'', ''1.20.1'', ''1.20.2'',
    ''1.20.4'', ''1.20.6'', ''1.21.1'', ''1.21.3'', ''1.21.4'', ''1.21.5'', ''1.21.6'',
    ''1.21.8'', ''1.21.10'', ''1.21.11'', ''26.1.2'', ''26.2'', ''26.3'']"

subsection \<open>Lookups\<close>

definition find_profile :: "int \<Rightarrow> mc_profile option" where
  "find_profile protocol = find (\<lambda>profile. pf_protocol profile = protocol) profiles"

definition mc_supported_protocols :: "int list" where
  "mc_supported_protocols = protocol_ids"

definition mc_protocol_supported :: "int \<Rightarrow> bool" where
  "mc_protocol_supported protocol \<longleftrightarrow> find_profile protocol \<noteq> None"

text \<open>The index loops over the two aligned tables; \<open>strcmp\<close> is equality of names.\<close>

fun name_of_protocol :: "int list \<Rightarrow> string list \<Rightarrow> int \<Rightarrow> string option" where
  "name_of_protocol (i # is) (n # ns) protocol = (if i = protocol then Some n else name_of_protocol is ns protocol)"
| "name_of_protocol _ _ protocol = None"

fun protocol_of_name :: "int list \<Rightarrow> string list \<Rightarrow> string \<Rightarrow> int" where
  "protocol_of_name (i # is) (n # ns) release_name = (if n = release_name then i else protocol_of_name is ns release_name)"
| "protocol_of_name _ _ release_name = -1"

definition mc_protocol_name :: "int \<Rightarrow> string option" where
  "mc_protocol_name protocol = name_of_protocol protocol_ids protocol_names protocol"

definition mc_protocol_by_name :: "string option \<Rightarrow> int" where
  "mc_protocol_by_name release_name =
     (case release_name of None \<Rightarrow> -1 | Some name \<Rightarrow> protocol_of_name protocol_ids protocol_names name)"

definition mc_protocol_features :: "int \<Rightarrow> u32" where
  "mc_protocol_features protocol = (case find_profile protocol of Some profile \<Rightarrow> pf_flags profile | None \<Rightarrow> 0)"

subsection \<open>The tables are aligned\<close>

lemma profile_protocols: "map pf_protocol profiles = protocol_ids"
  by (simp add: profiles_def protocol_ids_def profile_row_def Let_def)

lemma protocol_ids_sorted: "sorted_wrt (<) protocol_ids"
  by (simp add: protocol_ids_def)

lemma supported_iff: "mc_protocol_supported protocol \<longleftrightarrow> protocol \<in> set protocol_ids"
proof -
  have "mc_protocol_supported protocol \<longleftrightarrow> protocol \<in> pf_protocol ` set profiles"
    by (auto simp: mc_protocol_supported_def find_profile_def find_None_iff)
  then show ?thesis by (simp flip: profile_protocols)
qed

lemma name_of_protocol_iff:
  "length is = length ns \<Longrightarrow> distinct is \<Longrightarrow>
     name_of_protocol is ns p = Some n \<longleftrightarrow> (\<exists>k < length is. is ! k = p \<and> ns ! k = n)"
proof (induction "is" ns p rule: name_of_protocol.induct)
  case (1 i "is" n' ns p)
  show ?case
  proof (cases "i = p")
    case True
    then have "\<not> (\<exists>k < length is. is ! k = p)" using 1 by (auto simp: in_set_conv_nth)
    then show ?thesis using True by (auto simp: less_Suc_eq_0_disj)
  next
    case False
    then show ?thesis using 1 by (auto simp: less_Suc_eq_0_disj)
  qed
qed auto

lemma protocol_of_name_found:
  "length is = length ns \<Longrightarrow> distinct ns \<Longrightarrow> k < length ns \<Longrightarrow> protocol_of_name is ns (ns ! k) = is ! k"
proof (induction "is" ns "ns ! k" arbitrary: k rule: protocol_of_name.induct)
  case (1 i "is" n ns)
  then show ?case by (cases k) auto
qed auto

lemma protocol_names_distinct: "distinct protocol_names"
  by (simp add: protocol_names_def)

lemma protocol_tables_length: "length protocol_ids = length protocol_names"
  by (simp add: protocol_ids_def protocol_names_def)

lemma protocol_name_by_name:
  assumes "mc_protocol_name protocol = Some name"
  shows "mc_protocol_by_name (Some name) = protocol"
proof -
  have "distinct protocol_ids" using protocol_ids_sorted by (simp add: strict_sorted_iff)
  from assms obtain k where "k < length protocol_ids" "protocol_ids ! k = protocol" "protocol_names ! k = name"
    by (auto simp: mc_protocol_name_def name_of_protocol_iff [OF protocol_tables_length \<open>distinct protocol_ids\<close>])
  then show ?thesis
    using protocol_of_name_found [OF protocol_tables_length protocol_names_distinct, of k]
    by (auto simp: mc_protocol_by_name_def protocol_tables_length)
qed

lemma supported_has_name: "mc_protocol_supported protocol \<longleftrightarrow> mc_protocol_name protocol \<noteq> None"
proof -
  have "distinct protocol_ids" using protocol_ids_sorted by (simp add: strict_sorted_iff)
  then show ?thesis
    using name_of_protocol_iff [OF protocol_tables_length \<open>distinct protocol_ids\<close>, of protocol]
    by (auto simp: supported_iff mc_protocol_name_def in_set_conv_nth)
qed

text \<open>The supported range, as the version tests of the packet code use it.\<close>

lemma supported_bounds: "mc_protocol_supported protocol \<Longrightarrow> 4 \<le> protocol \<and> protocol \<le> 777"
  by (auto simp: supported_iff protocol_ids_def)

end
