(* ===== verification/Registry.thy ===== *)
theory Registry
  imports Catalogs Profiles
begin

text \<open>
  The packet registry of \<open>api.c\<close>: the lookup of a release's catalog and of the name table of a
  state and direction, the enumeration of every packet of a release, the conversions between a
  packet's name and its wire identifier, and the version-stable packet families.

  \<open>find_packet_catalog\<close> and \<open>packet_map\<close> return a null pointer as \<^term>\<open>None\<close>; a name is
  compared with \<open>strcmp\<close>, which is equality of the names.
\<close>

record mc_packet_info =
  pi_state :: mc_state
  pi_direction :: mc_direction
  pi_id :: i32
  pi_name :: string

datatype mc_packet_family =
    MC_FAMILY_UNKNOWN | MC_FAMILY_PLAYER_MOVEMENT | MC_FAMILY_PLAYER_INPUT
  | MC_FAMILY_ENTITY_ACTION | MC_FAMILY_ABILITIES | MC_FAMILY_VEHICLE_MOVE
  | MC_FAMILY_STEER_VEHICLE | MC_FAMILY_USE_ENTITY | MC_FAMILY_ATTACK | MC_FAMILY_ARM_ANIMATION
  | MC_FAMILY_BLOCK_DIG | MC_FAMILY_BLOCK_PLACE | MC_FAMILY_USE_ITEM | MC_FAMILY_HELD_ITEM_SLOT
  | MC_FAMILY_TELEPORT_CONFIRM | MC_FAMILY_WINDOW_CLICK | MC_FAMILY_SET_CREATIVE_SLOT
  | MC_FAMILY_CLIENT_COMMAND | MC_FAMILY_CLOSE_WINDOW | MC_FAMILY_SERVER_POSITION
  | MC_FAMILY_ENTITY_VELOCITY | MC_FAMILY_EXPLOSION | MC_FAMILY_ENTITY_EFFECT
  | MC_FAMILY_REMOVE_ENTITY_EFFECT | MC_FAMILY_UPDATE_ATTRIBUTES
  | MC_FAMILY_RELATIVE_ENTITY_MOVE | MC_FAMILY_ENTITY_MOVE_LOOK | MC_FAMILY_ENTITY_TELEPORT
  | MC_FAMILY_ENTITY_HEAD_ROTATION | MC_FAMILY_ENTITY_METADATA | MC_FAMILY_ATTACH_ENTITY
  | MC_FAMILY_SET_PASSENGERS | MC_FAMILY_BLOCK_CHANGE | MC_FAMILY_MULTI_BLOCK_CHANGE
  | MC_FAMILY_MAP_CHUNK | MC_FAMILY_UNLOAD_CHUNK | MC_FAMILY_SET_SLOT | MC_FAMILY_WINDOW_ITEMS
  | MC_FAMILY_RESPAWN | MC_FAMILY_GAME_STATE_CHANGE | MC_FAMILY_JOIN_GAME
  | MC_FAMILY_UPDATE_TIME

subsection \<open>Lookups\<close>

definition find_packet_catalog :: "int \<Rightarrow> mc_packet_catalog option" where
  "find_packet_catalog protocol = find (\<lambda>catalog. cat_protocol catalog = protocol) packet_catalogs"

definition packet_map ::
  "mc_packet_catalog option \<Rightarrow> mc_state \<Rightarrow> mc_direction \<Rightarrow> mc_packet_map option" where
  "packet_map catalog state direction =
     (case catalog of None \<Rightarrow> None
      | Some c \<Rightarrow>
          if direction \<noteq> MC_PACKET_SERVERBOUND \<and> direction \<noteq> MC_PACKET_CLIENTBOUND then None
          else
            let serverbound = (direction = MC_PACKET_SERVERBOUND) in
            (case state of
               MC_STATE_LOGIN \<Rightarrow>
                 Some (if serverbound then cat_login_serverbound c else cat_login_clientbound c)
             | MC_STATE_CONFIGURATION \<Rightarrow>
                 Some (if serverbound then cat_configuration_serverbound c
                       else cat_configuration_clientbound c)
             | MC_STATE_PLAY \<Rightarrow>
                 Some (if serverbound then cat_play_serverbound c else cat_play_clientbound c)
             | MC_STATE_STATUS \<Rightarrow>
                 Some (if serverbound then packet_names_status_serverbound
                       else packet_names_status_clientbound)
             | _ \<Rightarrow> None))"

definition mc_packet_count :: "int \<Rightarrow> nat" where
  "mc_packet_count protocol =
     (case find_packet_catalog protocol of None \<Rightarrow> 0
      | Some c \<Rightarrow>
          length (cat_login_serverbound c) + length (cat_login_clientbound c)
          + length (cat_configuration_serverbound c) + length (cat_configuration_clientbound c)
          + length (cat_play_serverbound c) + length (cat_play_clientbound c)
          + length packet_names_status_serverbound + length packet_names_status_clientbound)"

text \<open>
  \<open>mc_packet_at\<close> walks the three parallel arrays \<open>maps\<close>, \<open>states\<close> and \<open>directions\<close>, here one list
  of rows, taking the size of each table it passes off the index.
\<close>

fun packet_at_loop ::
  "(mc_packet_map \<times> mc_state \<times> mc_direction) list \<Rightarrow> nat \<Rightarrow> mc_packet_info option" where
  "packet_at_loop [] index = None"
| "packet_at_loop ((names, state, direction) # rows) index =
     (if index < length names
      then Some \<lparr>pi_state = state, pi_direction = direction, pi_id = of_nat index,
                 pi_name = names ! index\<rparr>
      else packet_at_loop rows (index - length names))"

definition packet_at_rows :: "mc_packet_catalog \<Rightarrow> (mc_packet_map \<times> mc_state \<times> mc_direction) list" where
  "packet_at_rows c =
     [(cat_login_serverbound c, MC_STATE_LOGIN, MC_PACKET_SERVERBOUND),
      (cat_login_clientbound c, MC_STATE_LOGIN, MC_PACKET_CLIENTBOUND),
      (cat_configuration_serverbound c, MC_STATE_CONFIGURATION, MC_PACKET_SERVERBOUND),
      (cat_configuration_clientbound c, MC_STATE_CONFIGURATION, MC_PACKET_CLIENTBOUND),
      (cat_play_serverbound c, MC_STATE_PLAY, MC_PACKET_SERVERBOUND),
      (cat_play_clientbound c, MC_STATE_PLAY, MC_PACKET_CLIENTBOUND),
      (packet_names_status_serverbound, MC_STATE_STATUS, MC_PACKET_SERVERBOUND),
      (packet_names_status_clientbound, MC_STATE_STATUS, MC_PACKET_CLIENTBOUND)]"

definition mc_packet_at :: "int \<Rightarrow> nat \<Rightarrow> mc_packet_info option" where
  "mc_packet_at protocol index =
     (case find_packet_catalog protocol of None \<Rightarrow> None
      | Some c \<Rightarrow> packet_at_loop (packet_at_rows c) index)"

definition mc_packet_name :: "int \<Rightarrow> mc_state \<Rightarrow> mc_direction \<Rightarrow> i32 \<Rightarrow> string option" where
  "mc_packet_name protocol state direction packet_id =
     (case packet_map (find_packet_catalog protocol) state direction of None \<Rightarrow> None
      | Some names \<Rightarrow>
          if sint packet_id < 0 \<or> unat packet_id \<ge> length names then None
          else Some (names ! unat packet_id))"

fun packet_id_loop :: "string list \<Rightarrow> nat \<Rightarrow> string \<Rightarrow> i32" where
  "packet_id_loop [] index name = -1"
| "packet_id_loop (n # ns) index name =
     (if n = name then of_nat index else packet_id_loop ns (index + 1) name)"

definition mc_packet_id :: "int \<Rightarrow> mc_state \<Rightarrow> mc_direction \<Rightarrow> string option \<Rightarrow> i32" where
  "mc_packet_id protocol state direction name =
     (case (packet_map (find_packet_catalog protocol) state direction, name) of
        (Some names, Some n) \<Rightarrow> packet_id_loop names 0 n
      | _ \<Rightarrow> -1)"

subsection \<open>Families\<close>

fun packet_family_from_table :: "string \<Rightarrow> (string \<times> mc_packet_family) list \<Rightarrow> mc_packet_family" where
  "packet_family_from_table name [] = MC_FAMILY_UNKNOWN"
| "packet_family_from_table name ((n, family) # table) =
     (if name = n then family else packet_family_from_table name table)"

definition serverbound_families :: "(string \<times> mc_packet_family) list" where
  "serverbound_families =
    [
      (''flying'', MC_FAMILY_PLAYER_MOVEMENT), (''position'', MC_FAMILY_PLAYER_MOVEMENT),
      (''look'', MC_FAMILY_PLAYER_MOVEMENT), (''position_look'', MC_FAMILY_PLAYER_MOVEMENT),
      (''player_input'', MC_FAMILY_PLAYER_INPUT), (''entity_action'', MC_FAMILY_ENTITY_ACTION),
      (''abilities'', MC_FAMILY_ABILITIES), (''vehicle_move'', MC_FAMILY_VEHICLE_MOVE),
      (''steer_vehicle'', MC_FAMILY_STEER_VEHICLE), (''use_entity'', MC_FAMILY_USE_ENTITY),
      (''attack'', MC_FAMILY_ATTACK), (''arm_animation'', MC_FAMILY_ARM_ANIMATION),
      (''punch'', MC_FAMILY_ARM_ANIMATION), (''block_dig'', MC_FAMILY_BLOCK_DIG),
      (''block_place'', MC_FAMILY_BLOCK_PLACE), (''use_item'', MC_FAMILY_USE_ITEM),
      (''held_item_slot'', MC_FAMILY_HELD_ITEM_SLOT),
      (''teleport_confirm'', MC_FAMILY_TELEPORT_CONFIRM),
      (''window_click'', MC_FAMILY_WINDOW_CLICK),
      (''set_creative_slot'', MC_FAMILY_SET_CREATIVE_SLOT),
      (''client_command'', MC_FAMILY_CLIENT_COMMAND), (''close_window'', MC_FAMILY_CLOSE_WINDOW)]"

definition clientbound_families :: "(string \<times> mc_packet_family) list" where
  "clientbound_families =
    [
      (''login'', MC_FAMILY_JOIN_GAME), (''position'', MC_FAMILY_SERVER_POSITION),
      (''entity_velocity'', MC_FAMILY_ENTITY_VELOCITY), (''explosion'', MC_FAMILY_EXPLOSION),
      (''abilities'', MC_FAMILY_ABILITIES), (''entity_effect'', MC_FAMILY_ENTITY_EFFECT),
      (''remove_entity_effect'', MC_FAMILY_REMOVE_ENTITY_EFFECT),
      (''update_attributes'', MC_FAMILY_UPDATE_ATTRIBUTES),
      (''entity_update_attributes'', MC_FAMILY_UPDATE_ATTRIBUTES),
      (''rel_entity_move'', MC_FAMILY_RELATIVE_ENTITY_MOVE),
      (''entity_move_look'', MC_FAMILY_ENTITY_MOVE_LOOK),
      (''entity_teleport'', MC_FAMILY_ENTITY_TELEPORT),
      (''sync_entity_position'', MC_FAMILY_ENTITY_TELEPORT),
      (''entity_head_rotation'', MC_FAMILY_ENTITY_HEAD_ROTATION),
      (''entity_metadata'', MC_FAMILY_ENTITY_METADATA),
      (''attach_entity'', MC_FAMILY_ATTACH_ENTITY),
      (''set_passengers'', MC_FAMILY_SET_PASSENGERS),
      (''block_change'', MC_FAMILY_BLOCK_CHANGE),
      (''multi_block_change'', MC_FAMILY_MULTI_BLOCK_CHANGE),
      (''map_chunk'', MC_FAMILY_MAP_CHUNK), (''unload_chunk'', MC_FAMILY_UNLOAD_CHUNK),
      (''set_slot'', MC_FAMILY_SET_SLOT), (''window_items'', MC_FAMILY_WINDOW_ITEMS),
      (''close_window'', MC_FAMILY_CLOSE_WINDOW),
      (''held_item_slot'', MC_FAMILY_HELD_ITEM_SLOT), (''respawn'', MC_FAMILY_RESPAWN),
      (''game_state_change'', MC_FAMILY_GAME_STATE_CHANGE),
      (''update_time'', MC_FAMILY_UPDATE_TIME)]"

definition mc_packet_family :: "int \<Rightarrow> mc_state \<Rightarrow> mc_direction \<Rightarrow> i32 \<Rightarrow> mc_packet_family" where
  "mc_packet_family protocol state direction packet_id =
     (case mc_packet_name protocol state direction packet_id of None \<Rightarrow> MC_FAMILY_UNKNOWN
      | Some name \<Rightarrow>
          if state \<noteq> MC_STATE_PLAY then MC_FAMILY_UNKNOWN
          else if direction = MC_PACKET_SERVERBOUND
          then packet_family_from_table name serverbound_families
          else if direction \<noteq> MC_PACKET_CLIENTBOUND then MC_FAMILY_UNKNOWN
          else packet_family_from_table name clientbound_families)"

text \<open>The name table is indexed by the value of the enumeration.\<close>

fun mc_packet_family_name :: "mc_packet_family \<Rightarrow> string" where
  "mc_packet_family_name MC_FAMILY_UNKNOWN = ''unknown''"
| "mc_packet_family_name MC_FAMILY_PLAYER_MOVEMENT = ''player_movement''"
| "mc_packet_family_name MC_FAMILY_PLAYER_INPUT = ''player_input''"
| "mc_packet_family_name MC_FAMILY_ENTITY_ACTION = ''entity_action''"
| "mc_packet_family_name MC_FAMILY_ABILITIES = ''abilities''"
| "mc_packet_family_name MC_FAMILY_VEHICLE_MOVE = ''vehicle_move''"
| "mc_packet_family_name MC_FAMILY_STEER_VEHICLE = ''steer_vehicle''"
| "mc_packet_family_name MC_FAMILY_USE_ENTITY = ''use_entity''"
| "mc_packet_family_name MC_FAMILY_ATTACK = ''attack''"
| "mc_packet_family_name MC_FAMILY_ARM_ANIMATION = ''arm_animation''"
| "mc_packet_family_name MC_FAMILY_BLOCK_DIG = ''block_dig''"
| "mc_packet_family_name MC_FAMILY_BLOCK_PLACE = ''block_place''"
| "mc_packet_family_name MC_FAMILY_USE_ITEM = ''use_item''"
| "mc_packet_family_name MC_FAMILY_HELD_ITEM_SLOT = ''held_item_slot''"
| "mc_packet_family_name MC_FAMILY_TELEPORT_CONFIRM = ''teleport_confirm''"
| "mc_packet_family_name MC_FAMILY_WINDOW_CLICK = ''window_click''"
| "mc_packet_family_name MC_FAMILY_SET_CREATIVE_SLOT = ''set_creative_slot''"
| "mc_packet_family_name MC_FAMILY_CLIENT_COMMAND = ''client_command''"
| "mc_packet_family_name MC_FAMILY_CLOSE_WINDOW = ''close_window''"
| "mc_packet_family_name MC_FAMILY_SERVER_POSITION = ''server_position''"
| "mc_packet_family_name MC_FAMILY_ENTITY_VELOCITY = ''entity_velocity''"
| "mc_packet_family_name MC_FAMILY_EXPLOSION = ''explosion''"
| "mc_packet_family_name MC_FAMILY_ENTITY_EFFECT = ''entity_effect''"
| "mc_packet_family_name MC_FAMILY_REMOVE_ENTITY_EFFECT = ''remove_entity_effect''"
| "mc_packet_family_name MC_FAMILY_UPDATE_ATTRIBUTES = ''update_attributes''"
| "mc_packet_family_name MC_FAMILY_RELATIVE_ENTITY_MOVE = ''relative_entity_move''"
| "mc_packet_family_name MC_FAMILY_ENTITY_MOVE_LOOK = ''entity_move_look''"
| "mc_packet_family_name MC_FAMILY_ENTITY_TELEPORT = ''entity_teleport''"
| "mc_packet_family_name MC_FAMILY_ENTITY_HEAD_ROTATION = ''entity_head_rotation''"
| "mc_packet_family_name MC_FAMILY_ENTITY_METADATA = ''entity_metadata''"
| "mc_packet_family_name MC_FAMILY_ATTACH_ENTITY = ''attach_entity''"
| "mc_packet_family_name MC_FAMILY_SET_PASSENGERS = ''set_passengers''"
| "mc_packet_family_name MC_FAMILY_BLOCK_CHANGE = ''block_change''"
| "mc_packet_family_name MC_FAMILY_MULTI_BLOCK_CHANGE = ''multi_block_change''"
| "mc_packet_family_name MC_FAMILY_MAP_CHUNK = ''map_chunk''"
| "mc_packet_family_name MC_FAMILY_UNLOAD_CHUNK = ''unload_chunk''"
| "mc_packet_family_name MC_FAMILY_SET_SLOT = ''set_slot''"
| "mc_packet_family_name MC_FAMILY_WINDOW_ITEMS = ''window_items''"
| "mc_packet_family_name MC_FAMILY_RESPAWN = ''respawn''"
| "mc_packet_family_name MC_FAMILY_GAME_STATE_CHANGE = ''game_state_change''"
| "mc_packet_family_name MC_FAMILY_JOIN_GAME = ''join_game''"
| "mc_packet_family_name MC_FAMILY_UPDATE_TIME = ''update_time''"


subsection \<open>The catalogs cover the supported releases\<close>

lemma catalog_protocols: "map cat_protocol packet_catalogs = protocol_ids"
  by (simp only: packet_catalogs_def protocol_ids_def list.map mc_packet_catalog.simps)

lemma find_packet_catalog_iff: "find_packet_catalog protocol \<noteq> None \<longleftrightarrow> mc_protocol_supported protocol"
proof -
  have "find_packet_catalog protocol \<noteq> None \<longleftrightarrow> protocol \<in> cat_protocol ` set packet_catalogs"
    by (auto simp: find_packet_catalog_def find_None_iff)
  then show ?thesis by (simp add: supported_iff flip: catalog_protocols)
qed

lemma find_packet_catalog_mem: "find_packet_catalog protocol = Some c \<Longrightarrow> c \<in> set packet_catalogs"
  by (auto simp: find_packet_catalog_def find_Some_iff)

subsection \<open>The size of the tables\<close>

text \<open>No table is large enough for an index to leave the range of the packet identifiers.\<close>

definition cat_tables :: "mc_packet_catalog \<Rightarrow> mc_packet_map list" where
  "cat_tables c =
     [cat_login_serverbound c, cat_login_clientbound c, cat_configuration_serverbound c,
      cat_configuration_clientbound c, cat_play_serverbound c, cat_play_clientbound c,
      packet_names_status_serverbound, packet_names_status_clientbound]"

lemma packet_map_cat_tables:
  "packet_map (Some c) state direction = Some names \<Longrightarrow> names \<in> set (cat_tables c)"
  by (auto simp: packet_map_def cat_tables_def Let_def split: if_splits mc_state.splits)

lemmas packet_table_defs =
  packet_names_status_serverbound_def packet_names_status_clientbound_def
  packet_names_0_login_serverbound_def packet_names_0_login_clientbound_def
  packet_names_0_play_serverbound_def packet_names_0_play_clientbound_def
  packet_names_1_login_serverbound_def packet_names_1_login_clientbound_def
  packet_names_1_play_serverbound_def packet_names_1_play_clientbound_def
  packet_names_2_login_serverbound_def packet_names_2_login_clientbound_def
  packet_names_2_play_serverbound_def packet_names_2_play_clientbound_def
  packet_names_3_login_serverbound_def packet_names_3_login_clientbound_def
  packet_names_3_play_serverbound_def packet_names_3_play_clientbound_def
  packet_names_4_login_serverbound_def packet_names_4_login_clientbound_def
  packet_names_4_play_serverbound_def packet_names_4_play_clientbound_def
  packet_names_5_login_serverbound_def packet_names_5_login_clientbound_def
  packet_names_5_play_serverbound_def packet_names_5_play_clientbound_def
  packet_names_6_login_serverbound_def packet_names_6_login_clientbound_def
  packet_names_6_play_serverbound_def packet_names_6_play_clientbound_def
  packet_names_7_login_serverbound_def packet_names_7_login_clientbound_def
  packet_names_7_play_serverbound_def packet_names_7_play_clientbound_def
  packet_names_8_login_serverbound_def packet_names_8_login_clientbound_def
  packet_names_8_play_serverbound_def packet_names_8_play_clientbound_def
  packet_names_9_login_serverbound_def packet_names_9_login_clientbound_def
  packet_names_9_play_serverbound_def packet_names_9_play_clientbound_def
  packet_names_10_login_serverbound_def packet_names_10_login_clientbound_def
  packet_names_10_play_serverbound_def packet_names_10_play_clientbound_def
  packet_names_11_login_serverbound_def packet_names_11_login_clientbound_def
  packet_names_11_play_serverbound_def packet_names_11_play_clientbound_def
  packet_names_12_login_serverbound_def packet_names_12_login_clientbound_def
  packet_names_12_play_serverbound_def packet_names_12_play_clientbound_def
  packet_names_13_login_serverbound_def packet_names_13_login_clientbound_def
  packet_names_13_play_serverbound_def packet_names_13_play_clientbound_def
  packet_names_14_login_serverbound_def packet_names_14_login_clientbound_def
  packet_names_14_play_serverbound_def packet_names_14_play_clientbound_def
  packet_names_15_login_serverbound_def packet_names_15_login_clientbound_def
  packet_names_15_play_serverbound_def packet_names_15_play_clientbound_def
  packet_names_16_login_serverbound_def packet_names_16_login_clientbound_def
  packet_names_16_play_serverbound_def packet_names_16_play_clientbound_def
  packet_names_17_login_serverbound_def packet_names_17_login_clientbound_def
  packet_names_17_play_serverbound_def packet_names_17_play_clientbound_def
  packet_names_18_login_serverbound_def packet_names_18_login_clientbound_def
  packet_names_18_play_serverbound_def packet_names_18_play_clientbound_def
  packet_names_19_login_serverbound_def packet_names_19_login_clientbound_def
  packet_names_19_configuration_serverbound_def packet_names_19_configuration_clientbound_def
  packet_names_19_play_serverbound_def packet_names_19_play_clientbound_def
  packet_names_20_login_serverbound_def packet_names_20_login_clientbound_def
  packet_names_20_configuration_serverbound_def packet_names_20_configuration_clientbound_def
  packet_names_20_play_serverbound_def packet_names_20_play_clientbound_def
  packet_names_21_login_serverbound_def packet_names_21_login_clientbound_def
  packet_names_21_configuration_serverbound_def packet_names_21_configuration_clientbound_def
  packet_names_21_play_serverbound_def packet_names_21_play_clientbound_def
  packet_names_22_login_serverbound_def packet_names_22_login_clientbound_def
  packet_names_22_configuration_serverbound_def packet_names_22_configuration_clientbound_def
  packet_names_22_play_serverbound_def packet_names_22_play_clientbound_def
  packet_names_23_login_serverbound_def packet_names_23_login_clientbound_def
  packet_names_23_configuration_serverbound_def packet_names_23_configuration_clientbound_def
  packet_names_23_play_serverbound_def packet_names_23_play_clientbound_def
  packet_names_24_login_serverbound_def packet_names_24_login_clientbound_def
  packet_names_24_configuration_serverbound_def packet_names_24_configuration_clientbound_def
  packet_names_24_play_serverbound_def packet_names_24_play_clientbound_def
  packet_names_25_login_serverbound_def packet_names_25_login_clientbound_def
  packet_names_25_configuration_serverbound_def packet_names_25_configuration_clientbound_def
  packet_names_25_play_serverbound_def packet_names_25_play_clientbound_def
  packet_names_26_login_serverbound_def packet_names_26_login_clientbound_def
  packet_names_26_configuration_serverbound_def packet_names_26_configuration_clientbound_def
  packet_names_26_play_serverbound_def packet_names_26_play_clientbound_def
  packet_names_27_login_serverbound_def packet_names_27_login_clientbound_def
  packet_names_27_configuration_serverbound_def packet_names_27_configuration_clientbound_def
  packet_names_27_play_serverbound_def packet_names_27_play_clientbound_def
  packet_names_28_login_serverbound_def packet_names_28_login_clientbound_def
  packet_names_28_configuration_serverbound_def packet_names_28_configuration_clientbound_def
  packet_names_28_play_serverbound_def packet_names_28_play_clientbound_def
  packet_names_29_login_serverbound_def packet_names_29_login_clientbound_def
  packet_names_29_configuration_serverbound_def packet_names_29_configuration_clientbound_def
  packet_names_29_play_serverbound_def packet_names_29_play_clientbound_def
  packet_names_30_login_serverbound_def packet_names_30_login_clientbound_def
  packet_names_30_configuration_serverbound_def packet_names_30_configuration_clientbound_def
  packet_names_30_play_serverbound_def packet_names_30_play_clientbound_def

lemma catalog_table_sizes:
  "list_all (\<lambda>c. list_all (\<lambda>names. length names < 256) (cat_tables c)) packet_catalogs"
  by (simp only: packet_catalogs_def list.pred_inject cat_tables_def mc_packet_catalog.simps)
     (simp add: packet_table_defs)

lemma packet_map_size:
  assumes "packet_map (find_packet_catalog protocol) state direction = Some names"
  shows "length names < 256"
proof -
  obtain c where c: "find_packet_catalog protocol = Some c"
    using assms by (auto simp: packet_map_def split: option.splits)
  then have "names \<in> set (cat_tables c)" using assms packet_map_cat_tables by simp
  moreover have "c \<in> set packet_catalogs" by (rule find_packet_catalog_mem [OF c])
  ultimately show ?thesis using catalog_table_sizes by (auto simp: list_all_iff)
qed

subsection \<open>Names and identifiers\<close>

lemma packet_id_loop_found:
  "index + length ns < 2 ^ 31 \<Longrightarrow> n \<in> set ns \<Longrightarrow>
     \<exists>k < length ns. packet_id_loop ns index n = of_nat (index + k) \<and> ns ! k = n
       \<and> (\<forall>j < k. ns ! j \<noteq> n)"
proof (induction ns arbitrary: index)
  case (Cons m ns)
  show ?case
  proof (cases "m = n")
    case False
    then obtain k where "k < length ns" "packet_id_loop ns (index + 1) n = of_nat (index + 1 + k)"
      "ns ! k = n" "\<forall>j < k. ns ! j \<noteq> n"
      using Cons.IH [of "index + 1"] Cons.prems by auto
    then show ?thesis using False by (intro exI [of _ "Suc k"]) (auto simp: less_Suc_eq_0_disj)
  qed auto
qed simp

lemma packet_id_loop_absent: "n \<notin> set ns \<Longrightarrow> packet_id_loop ns index n = -1"
  by (induction ns arbitrary: index) auto

lemma small_id: "k < 256 \<Longrightarrow> unat (of_nat k :: i32) = k \<and> 0 \<le> sint (of_nat k :: i32)"
proof -
  assume k: "k < 256"
  have u: "unat (of_nat k :: i32) = k" using k by (simp add: unat_of_nat take_bit_nat_eq_self)
  have "uint (of_nat k :: i32) = int k" using u by (metis uint_nat)
  then have "sint (of_nat k :: i32) = int k" using k
    by (simp add: sint_uint signed_take_bit_int_eq_self)
  then show ?thesis using u by simp
qed


text \<open>What a successful lookup of a name, and of an identifier, says of the table.\<close>

lemma packet_id_cases:
  "mc_packet_id protocol state direction (Some name) = -1
   \<or> (\<exists>names k. packet_map (find_packet_catalog protocol) state direction = Some names
        \<and> k < length names \<and> k < 256 \<and> names ! k = name
        \<and> mc_packet_id protocol state direction (Some name) = of_nat k)"
proof (cases "packet_map (find_packet_catalog protocol) state direction")
  case (Some names)
  have small: "length names < 256" by (rule packet_map_size [OF Some])
  show ?thesis
  proof (cases "name \<in> set names")
    case True
    then obtain k where "k < length names" "packet_id_loop names 0 name = of_nat k" "names ! k = name"
      using packet_id_loop_found [of 0 names name] small by auto
    then show ?thesis using Some small by (auto simp: mc_packet_id_def)
  next
    case False
    then show ?thesis using Some by (simp add: mc_packet_id_def packet_id_loop_absent)
  qed
qed (simp add: mc_packet_id_def)

lemma name_of_packet_id:
  assumes "mc_packet_id protocol state direction (Some name) = packet_id" and "packet_id \<noteq> -1"
  shows "mc_packet_name protocol state direction packet_id = Some name"
proof -
  obtain names k where k: "packet_map (find_packet_catalog protocol) state direction = Some names"
    "k < length names" "k < 256" "names ! k = name" "packet_id = of_nat k"
    using packet_id_cases [of protocol state direction name] assms by auto
  then have "unat packet_id = k \<and> 0 \<le> sint packet_id" using small_id by simp
  then show ?thesis using k(1,2,4) by (simp add: mc_packet_name_def)
qed

lemma packet_name_Some:
  "mc_packet_name protocol state direction packet_id = Some name \<longleftrightarrow>
     (\<exists>names. packet_map (find_packet_catalog protocol) state direction = Some names
       \<and> unat packet_id < length names \<and> names ! unat packet_id = name)"
proof (cases "packet_map (find_packet_catalog protocol) state direction")
  case (Some names)
  have "unat packet_id < length names \<Longrightarrow> 0 \<le> sint packet_id"
    using packet_map_size [OF Some] small_id [of "unat packet_id"] by simp
  then show ?thesis using Some by (auto simp: mc_packet_name_def)
qed (simp add: mc_packet_name_def)

lemma packet_id_known:
  assumes "mc_packet_name protocol state direction packet_id = Some name"
  shows "mc_packet_id protocol state direction (Some name) \<noteq> -1
    \<and> unat (mc_packet_id protocol state direction (Some name)) \<le> unat packet_id"
proof -
  from assms obtain names where names: "packet_map (find_packet_catalog protocol) state direction = Some names"
    and j: "unat packet_id < length names" "names ! unat packet_id = name"
    by (auto simp: packet_name_Some)
  have small: "length names < 256" by (rule packet_map_size [OF names])
  from j have "name \<in> set names" by auto
  then obtain k where k: "k < length names" "packet_id_loop names 0 name = of_nat k"
      "\<forall>i < k. names ! i \<noteq> name"
    using packet_id_loop_found [of 0 names name] small by auto
  have "k \<le> unat packet_id" using j(2) k(3) by (metis not_le_imp_less)
  moreover have "unat (of_nat k :: i32) = k" using small_id [of k] k(1) small by simp
  moreover have "(of_nat k :: i32) \<noteq> -1" using small_id [of k] k(1) small by auto
  ultimately show ?thesis using names k by (simp add: mc_packet_id_def)
qed

subsection \<open>The enumeration\<close>

abbreviation row_tables :: "(mc_packet_map \<times> mc_state \<times> mc_direction) list \<Rightarrow> nat" where
  "row_tables rows \<equiv> sum_list (map (\<lambda>row. length (fst row)) rows)"

lemma packet_at_loop_iff:
  "packet_at_loop rows index = Some info \<longleftrightarrow>
     (\<exists>pre names post k. rows = pre @ (names, pi_state info, pi_direction info) # post
        \<and> index = row_tables pre + k \<and> k < length names
        \<and> pi_id info = of_nat k \<and> pi_name info = names ! k)"
proof (induction rows arbitrary: index)
  case (Cons row rows)
  obtain names state direction where row: "row = (names, state, direction)" by (cases row)
  show ?case
  proof (cases "index < length names")
    case True
    show ?thesis (is "?l \<longleftrightarrow> ?r")
    proof
      assume ?l
      then have "info = \<lparr>pi_state = state, pi_direction = direction, pi_id = of_nat index,
          pi_name = names ! index\<rparr>" using True row by simp
      then show ?r using True row
        by (intro exI [of _ "[]"] exI [of _ names] exI [of _ rows] exI [of _ index]) simp
    next
      assume ?r
      then obtain pre names' post k where *:
        "row # rows = pre @ (names', pi_state info, pi_direction info) # post"
        "index = row_tables pre + k" "k < length names'" "pi_id info = of_nat k"
        "pi_name info = names' ! k" by blast
      have "pre = []" using * True row by (cases pre) auto
      then show ?l using * row True by (cases info) simp
    qed
  next
    case False
    show ?thesis (is "?l \<longleftrightarrow> ?r")
    proof
      assume ?l
      then have "packet_at_loop rows (index - length names) = Some info" using False row by simp
      then obtain pre names' post k where *:
        "rows = pre @ (names', pi_state info, pi_direction info) # post"
        "index - length names = row_tables pre + k" "k < length names'" "pi_id info = of_nat k"
        "pi_name info = names' ! k" using Cons.IH by blast
      then show ?r using False row
        by (intro exI [of _ "row # pre"] exI [of _ names'] exI [of _ post] exI [of _ k]) simp
    next
      assume ?r
      then obtain pre names' post k where *:
        "row # rows = pre @ (names', pi_state info, pi_direction info) # post"
        "index = row_tables pre + k" "k < length names'" "pi_id info = of_nat k"
        "pi_name info = names' ! k" by blast
      then obtain pre' where pre: "pre = row # pre'" using False row by (cases pre) auto
      then have "packet_at_loop rows (index - length names) = Some info"
        unfolding Cons.IH using * row by (intro exI [of _ pre']) auto
      then show ?l using False row by simp
    qed
  qed
qed simp

lemma packet_at_loop_total: "packet_at_loop rows index \<noteq> None \<longleftrightarrow> index < row_tables rows"
  by (induction rows index rule: packet_at_loop.induct) auto

lemma packet_at_total: "mc_packet_at protocol index \<noteq> None \<longleftrightarrow> index < mc_packet_count protocol"
  by (auto simp: mc_packet_at_def mc_packet_count_def packet_at_loop_total packet_at_rows_def
      split: option.splits)


text \<open>A row of the walk is a table of \<open>packet_map\<close>, and the other way round.\<close>

lemma packet_at_rows_map:
  "(names, state, direction) \<in> set (packet_at_rows c) \<longleftrightarrow> packet_map (Some c) state direction = Some names"
  by (cases state; cases direction) (auto simp: packet_at_rows_def packet_map_def)

lemma packet_at_iff:
  "(\<exists>index. mc_packet_at protocol index = Some info) \<longleftrightarrow>
     mc_packet_name protocol (pi_state info) (pi_direction info) (pi_id info) = Some (pi_name info)"
proof (cases "find_packet_catalog protocol")
  case (Some c)
  show ?thesis (is "?l \<longleftrightarrow> ?r")
  proof
    assume ?l
    then obtain pre names post k where rows: "packet_at_rows c = pre @ (names, pi_state info, pi_direction info) # post"
      and k: "k < length names" "pi_id info = of_nat k" "pi_name info = names ! k"
      using Some by (auto simp: mc_packet_at_def packet_at_loop_iff)
    have "(names, pi_state info, pi_direction info) \<in> set (packet_at_rows c)" by (simp add: rows)
    then have names: "packet_map (find_packet_catalog protocol) (pi_state info) (pi_direction info) = Some names"
      using Some by (simp add: packet_at_rows_map)
    have "unat (pi_id info) = k" using k packet_map_size [OF names] small_id by simp
    then show ?r unfolding packet_name_Some using names k by simp
  next
    assume ?r
    then obtain names where names: "packet_map (Some c) (pi_state info) (pi_direction info) = Some names"
      and k: "unat (pi_id info) < length names" "names ! unat (pi_id info) = pi_name info"
      using Some by (auto simp: packet_name_Some)
    then obtain pre post where "packet_at_rows c = pre @ (names, pi_state info, pi_direction info) # post"
      by (metis packet_at_rows_map split_list)
    then have "packet_at_loop (packet_at_rows c) (row_tables pre + unat (pi_id info)) = Some info"
      unfolding packet_at_loop_iff using k by (intro exI) auto
    then show ?l using Some by (auto simp: mc_packet_at_def)
  qed
qed (simp add: mc_packet_at_def mc_packet_name_def packet_map_def)

subsection \<open>The profiles name the packets they mean\<close>

definition table_entry :: "mc_packet_map \<Rightarrow> int \<Rightarrow> string \<Rightarrow> bool" where
  "table_entry names i name \<longleftrightarrow> 0 \<le> i \<and> nat i < length names \<and> names ! nat i = name"

definition profile_matches :: "mc_profile \<Rightarrow> mc_packet_catalog \<Rightarrow> bool" where
  "profile_matches p c \<longleftrightarrow>
     table_entry (cat_play_clientbound c) (pf_join_game p) ''login''
     \<and> table_entry (cat_play_clientbound c) (pf_keep_alive p) ''keep_alive''
     \<and> table_entry (cat_play_clientbound c) (pf_player_position p) ''position''
     \<and> (pf_teleport_confirm p \<noteq> -1 \<longrightarrow>
          table_entry (cat_play_serverbound c) (pf_teleport_confirm p) ''teleport_confirm'')
     \<and> table_entry (cat_play_serverbound c) (pf_keep_alive_response p) ''keep_alive''"

text \<open>The rows are evaluated in four passes, so that each stays short.\<close>

lemma profiles_in_tables:
  "list_all2 (\<lambda>p c. 0 \<le> pf_join_game p \<and> 0 \<le> pf_keep_alive p \<and> 0 \<le> pf_player_position p
      \<and> -1 \<le> pf_teleport_confirm p \<and> 0 \<le> pf_keep_alive_response p
      \<and> pf_join_game p < 60 \<and> pf_keep_alive p < 60 \<and> pf_teleport_confirm p < 20
      \<and> nat (pf_player_position p) < length (cat_play_clientbound c)
      \<and> 60 < length (cat_play_clientbound c)
      \<and> nat (pf_keep_alive_response p) < length (cat_play_serverbound c)
      \<and> 20 < length (cat_play_serverbound c)) profiles packet_catalogs"
  by (simp only: profiles_def packet_catalogs_def list.rel_inject Let_def
        profile_row_def mc_profile.simps mc_packet_catalog.simps)
     (simp add: packet_table_defs)

lemma profiles_clientbound:
  "list_all2 (\<lambda>p c. cat_play_clientbound c ! nat (pf_join_game p) = ''login''
      \<and> cat_play_clientbound c ! nat (pf_keep_alive p) = ''keep_alive'') profiles packet_catalogs"
  by (simp only: profiles_def packet_catalogs_def list.rel_inject Let_def
        profile_row_def mc_profile.simps mc_packet_catalog.simps)
     (simp add: packet_table_defs)

lemma profiles_position:
  "list_all2 (\<lambda>p c. cat_play_clientbound c ! nat (pf_player_position p) = ''position'') profiles packet_catalogs"
  by (simp only: profiles_def packet_catalogs_def list.rel_inject Let_def
        profile_row_def mc_profile.simps mc_packet_catalog.simps)
     (simp add: packet_table_defs)

lemma profiles_serverbound:
  "list_all2 (\<lambda>p c.
      (pf_teleport_confirm p \<noteq> -1 \<longrightarrow>
         cat_play_serverbound c ! nat (pf_teleport_confirm p) = ''teleport_confirm'')
      \<and> cat_play_serverbound c ! nat (pf_keep_alive_response p) = ''keep_alive'') profiles packet_catalogs"
  by (simp only: profiles_def packet_catalogs_def list.rel_inject Let_def
        profile_row_def mc_profile.simps mc_packet_catalog.simps)
     (simp add: packet_table_defs)

lemma list_all2_conj:
  "list_all2 P xs ys \<Longrightarrow> list_all2 Q xs ys \<Longrightarrow> list_all2 (\<lambda>x y. P x y \<and> Q x y) xs ys"
  by (simp add: list_all2_conv_all_nth)

lemma profiles_match: "list_all2 profile_matches profiles packet_catalogs"
  by (rule list_all2_mono [OF list_all2_conj [OF list_all2_conj [OF list_all2_conj
        [OF profiles_in_tables profiles_clientbound] profiles_position] profiles_serverbound]])
     (auto simp: profile_matches_def table_entry_def)

lemma find_aligned:
  "list_all2 R xs ys \<Longrightarrow> map f xs = map g ys \<Longrightarrow> find (\<lambda>x. f x = k) xs = Some x \<Longrightarrow>
     \<exists>y. find (\<lambda>y. g y = k) ys = Some y \<and> R x y"
  by (induction xs ys rule: list_all2_induct) (auto split: if_splits)

lemma profile_catalog:
  assumes "find_profile protocol = Some p"
  shows "\<exists>c. find_packet_catalog protocol = Some c \<and> profile_matches p c"
  unfolding find_packet_catalog_def
  by (rule find_aligned [OF profiles_match _ assms [unfolded find_profile_def]])
     (simp add: profile_protocols catalog_protocols)

lemma table_entry_name:
  assumes "table_entry names i name" and "packet_map (find_packet_catalog protocol) state direction = Some names"
  shows "mc_packet_name protocol state direction (word_of_int i) = Some name"
proof -
  have i: "0 \<le> i" "nat i < length names" "names ! nat i = name"
    using assms(1) by (auto simp: table_entry_def)
  have "(word_of_int i :: i32) = of_nat (nat i)" using i(1) by (metis nat_0_le of_int_of_nat_eq)
  moreover have "nat i < 256" using i(2) packet_map_size [OF assms(2)] by (rule less_trans)
  ultimately have "unat (word_of_int i :: i32) = nat i" using small_id [of "nat i"] by metis
  then show ?thesis unfolding packet_name_Some using assms(2) i(2,3) by auto
qed

end
