(* ===== verification/Reader.thy ===== *)
theory Reader
  imports Errors
begin

text \<open>
  The packet reader \<open>McReader\<close> of \<open>api.c\<close> (section READER / WRITER CODEC): a bounded cursor over
  borrowed bytes with a sticky failure bit, a decode mode and an optional error record.

  State. \<open>rd_data\<close> is the input (\<open>size\<close> is its length), \<open>rd_offset\<close> the cursor. The reader
  pointer is valid. A borrowed view \<open>McBytes\<close> into the input is the list of the bytes it covers.
  An operation is a function from the reader to the value stored through the out pointer
  (\<^term>\<open>None\<close> when the C function returns false) and the reader left behind; the branch each
  operation takes on a null out pointer is \<open>reader_null_out\<close>.

  Interfaces. \<open>reader_op\<close> is what every operation keeps: input, mode and sink unchanged, cursor
  inside the input and never moving back, a failure never undone, a success independent of the
  bytes behind the cursor. \<open>checked_op\<close> adds that \<^term>\<open>None\<close> means failed with a recorded
  code, \<open>sticky_op\<close> that nothing succeeds after a failure, \<open>field_reader\<close> both.
\<close>

record mc_reader =
  rd_data :: "u8 list"
  rd_offset :: nat
  rd_failed :: bool
  rd_mode :: mc_decode_mode
  rd_error :: "mc_error option"

type_synonym 'a rd = "mc_reader \<Rightarrow> 'a option \<times> mc_reader"

abbreviation rd_size :: "mc_reader \<Rightarrow> nat" where
  "rd_size r \<equiv> length (rd_data r)"

subsection \<open>Control flow\<close>

text \<open>\<open>rd_bind\<close> is \<^verbatim>\<open>if (!m) return false; ...\<close>\<close>

definition rd_bind :: "'a rd \<Rightarrow> ('a \<Rightarrow> 'b rd) \<Rightarrow> 'b rd" where
  "rd_bind m f r = (case m r of (None, r') \<Rightarrow> (None, r') | (Some x, r') \<Rightarrow> f x r')"

definition rd_return :: "'a \<Rightarrow> 'a rd" where
  "rd_return x r = (Some x, r)"

text \<open>\<^verbatim>\<open>if (!m) return handler;\<close> where the handler itself returns false.\<close>

definition rd_orelse :: "'a rd \<Rightarrow> 'b rd \<Rightarrow> 'a rd" where
  "rd_orelse m h r = (case m r of (None, r') \<Rightarrow> (None, snd (h r')) | (Some x, r') \<Rightarrow> (Some x, r'))"

text \<open>A condition inside such a chain of \<^verbatim>\<open>||\<close>: it changes nothing.\<close>

definition rd_test :: "bool \<Rightarrow> unit rd" where
  "rd_test c r = (if c then Some () else None, r)"

definition rd_when :: "bool \<Rightarrow> 'a \<Rightarrow> 'a rd \<Rightarrow> 'a rd" where
  "rd_when c dflt m = (if c then m else rd_return dflt)"

definition rd_here :: "(nat \<Rightarrow> 'a rd) \<Rightarrow> 'a rd" where
  "rd_here f r = f (rd_offset r) r"

definition rd_strict :: "(bool \<Rightarrow> 'a rd) \<Rightarrow> 'a rd" where
  "rd_strict f r = f (rd_mode r = MC_DECODE_STRICT) r"

text \<open>
  \<^verbatim>\<open>start = reader->offset; ...; {reader->data + start, reader->offset - start}\<close>: the view
  of the bytes an operation consumed.
\<close>

definition rd_capture :: "'a rd \<Rightarrow> ('a \<times> u8 list) rd" where
  "rd_capture m r =
     (case m r of (None, r') \<Rightarrow> (None, r')
      | (Some x, r') \<Rightarrow>
          (Some (x, take (rd_offset r' - rd_offset r) (drop (rd_offset r) (rd_data r'))), r'))"

subsection \<open>Failure\<close>

text \<open>\<open>reader_fail\<close> always returns false; \<open>reader_fail_state\<close> is its effect on the reader.\<close>

definition reader_fail_state :: "mc_error_code \<Rightarrow> nat \<Rightarrow> mc_reader \<Rightarrow> mc_reader" where
  "reader_fail_state code off r =
     (if rd_failed r then r
      else r\<lparr>rd_error := map_option (record_error code off) (rd_error r), rd_failed := True\<rparr>)"

definition reader_fail :: "mc_error_code \<Rightarrow> nat \<Rightarrow> 'a rd" where
  "reader_fail code off r = (None, reader_fail_state code off r)"

definition reader_fail_protocol :: "mc_error_code \<Rightarrow> nat \<Rightarrow> int \<Rightarrow> 'a rd" where
  "reader_fail_protocol code off protocol r =
     (let r' = reader_fail_state code off r
      in (None, r'\<lparr>rd_error := map_option (\<lambda>e. e\<lparr>er_protocol := protocol\<rparr>) (rd_error r')\<rparr>))"

text \<open>\<^verbatim>\<open>reader->failed = true; return false;\<close> with no code recorded.\<close>

definition reader_mark_failed :: "'a rd" where
  "reader_mark_failed r = (None, r\<lparr>rd_failed := True\<rparr>)"

text \<open>The guard every public operation starts with, on a null out pointer.\<close>

definition reader_null_out :: "'a rd" where
  "reader_null_out r =
     (if rd_failed r then (None, r) else reader_fail MC_ERROR_INVALID_ARGUMENT (rd_offset r) r)"

definition mc_reader_init_mode :: "buffer \<Rightarrow> mc_decode_mode \<Rightarrow> mc_error option \<Rightarrow> mc_reader" where
  "mc_reader_init_mode data mode error =
     (let r = \<lparr>rd_data = buf_bytes data, rd_offset = 0, rd_failed = False, rd_mode = mode,
               rd_error = map_option (\<lambda>_. mc_error_clear) error\<rparr>
      in if (buf_null data \<and> buf_size data \<noteq> 0)
            \<or> (mode \<noteq> MC_DECODE_VANILLA_COMPAT \<and> mode \<noteq> MC_DECODE_STRICT)
         then reader_fail_state MC_ERROR_INVALID_ARGUMENT MC_ERROR_OFFSET_UNKNOWN r
         else r)"

definition mc_reader_init :: "buffer \<Rightarrow> mc_reader" where
  "mc_reader_init data = mc_reader_init_mode data MC_DECODE_VANILLA_COMPAT None"

definition mc_reader_remaining :: "mc_reader \<Rightarrow> nat" where
  "mc_reader_remaining r =
     (if rd_failed r \<or> rd_offset r > rd_size r then 0 else rd_size r - rd_offset r)"

definition mc_reader_finish :: "unit rd" where
  "mc_reader_finish r =
     (if rd_failed r then (None, r)
      else if rd_offset r \<noteq> rd_size r then reader_fail MC_ERROR_TRAILING_BYTES (rd_offset r) r
      else (Some (), r))"

subsection \<open>Primitive reads\<close>

definition mc_reader_bytes :: "nat \<Rightarrow> u8 list rd" where
  "mc_reader_bytes n r =
     (if rd_failed r then (None, r)
      else if rd_offset r > rd_size r then reader_fail MC_ERROR_INVALID_ARGUMENT (rd_offset r) r
      else if n > rd_size r - rd_offset r then reader_fail MC_ERROR_PARTIAL_INPUT (rd_size r) r
      else (Some (take n (drop (rd_offset r) (rd_data r))),
            r\<lparr>rd_offset := rd_offset r + n\<rparr>))"

definition mc_reader_skip :: "nat \<Rightarrow> unit rd" where
  "mc_reader_skip n = rd_bind (mc_reader_bytes n) (\<lambda>_. rd_return ())"

definition mc_reader_u8 :: "u8 rd" where
  "mc_reader_u8 = rd_bind (mc_reader_bytes 1) (\<lambda>bytes. rd_return (bytes ! 0))"

definition mc_reader_bool :: "bool rd" where
  "mc_reader_bool =
     rd_bind mc_reader_u8 (\<lambda>encoded.
     rd_strict (\<lambda>strict. rd_here (\<lambda>off.
       if strict \<and> encoded > 1 then reader_fail MC_ERROR_INVALID_BOOLEAN (off - 1)
       else rd_return (encoded \<noteq> 0))))"

definition mc_reader_i8 :: "i8 rd" where
  "mc_reader_i8 = rd_bind mc_reader_u8 (\<lambda>encoded. rd_return (ucast encoded))"

definition mc_reader_u16 :: "u16 rd" where
  "mc_reader_u16 = rd_bind (mc_reader_bytes 2) (\<lambda>bytes.
     rd_return (push_bit 8 (ucast (bytes ! 0)) OR ucast (bytes ! 1)))"

definition mc_reader_i16 :: "i16 rd" where
  "mc_reader_i16 = rd_bind mc_reader_u16 (\<lambda>encoded. rd_return (ucast encoded))"

text \<open>The decoding loop of the wider integers: \<^verbatim>\<open>decoded = (decoded << 8) | byte\<close>.\<close>

definition be_fold :: "u8 list \<Rightarrow> 'a::len word" where
  "be_fold bytes = foldl (\<lambda>decoded b. push_bit 8 decoded OR ucast b) 0 bytes"

definition mc_reader_u32 :: "u32 rd" where
  "mc_reader_u32 = rd_bind (mc_reader_bytes 4) (\<lambda>bytes. rd_return (be_fold bytes))"

definition mc_reader_i32 :: "i32 rd" where
  "mc_reader_i32 = rd_bind mc_reader_u32 (\<lambda>encoded. rd_return (ucast encoded))"

definition mc_reader_u64 :: "u64 rd" where
  "mc_reader_u64 = rd_bind (mc_reader_bytes 8) (\<lambda>bytes. rd_return (be_fold bytes))"

definition mc_reader_i64 :: "i64 rd" where
  "mc_reader_i64 = rd_bind mc_reader_u64 (\<lambda>encoded. rd_return (ucast encoded))"

definition mc_reader_float :: "f32 rd" where
  "mc_reader_float = rd_bind mc_reader_u32 rd_return"

definition mc_reader_double :: "f64 rd" where
  "mc_reader_double = rd_bind mc_reader_u64 rd_return"

subsection \<open>Variable-length integers\<close>

text \<open>
  \<open>varint_size_u32\<close> and \<open>varlong_size_u64\<close> are one loop at two widths, and so are
  \<open>mc_reader_varint\<close> and \<open>mc_reader_varlong\<close>: \<open>limit\<close> is the number of bytes (5 or 10), \<open>spare\<close>
  the bits of the last byte beyond the width (0xf0 or 0xfe).
\<close>

lemma drop_bit_7_decreases:
  fixes e :: "'a::len word"
  assumes "drop_bit 7 e \<noteq> 0"
  shows "unat (drop_bit 7 e) < unat e"
proof -
  have "unat (drop_bit 7 e) = unat e div 128"
    by (simp only: unat_drop_bit_eq) (simp add: drop_bit_eq_div)
  moreover from assms have "unat (drop_bit 7 e) \<noteq> 0"
    by (simp add: unat_eq_0)
  ultimately show ?thesis by simp
qed

function leb_size :: "'a::len word \<Rightarrow> nat" where
  "leb_size value = (if drop_bit 7 value = 0 then 1 else Suc (leb_size (drop_bit 7 value)))"
  by pat_completeness auto
termination
  by (relation "measure unat") (auto simp: drop_bit_7_decreases)

declare leb_size.simps [simp del]

definition varint_size_u32 :: "u32 \<Rightarrow> nat" where
  "varint_size_u32 = leb_size"

definition varlong_size_u64 :: "u64 \<Rightarrow> nat" where
  "varlong_size_u64 = leb_size"

function rd_varint_loop :: "nat \<Rightarrow> u8 \<Rightarrow> nat \<Rightarrow> 'a::len word \<Rightarrow> 'a word rd" where
  "rd_varint_loop limit spare index result =
     (if index < limit then
        rd_bind mc_reader_u8 (\<lambda>byte. rd_here (\<lambda>off. rd_strict (\<lambda>strict.
          if index = limit - 1 \<and> byte AND spare \<noteq> 0
          then reader_fail MC_ERROR_VARINT_OVERFLOW (off - 1)
          else
            let result' = result OR push_bit (index * 7) (ucast (byte AND 0x7f)) in
            if byte AND 0x80 = 0 then
              if strict \<and> leb_size result' \<noteq> index + 1
              then reader_fail MC_ERROR_VARINT_NON_CANONICAL (off - 1)
              else rd_return result'
            else rd_varint_loop limit spare (index + 1) result')))
      else rd_here (\<lambda>off. reader_fail MC_ERROR_VARINT_OVERFLOW (off - 1)))"
  by pat_completeness auto
termination
  by (relation "measure (\<lambda>(limit, spare, index, result). limit - index)") auto

declare rd_varint_loop.simps [simp del]

text \<open>
  On a failed reader the source returns before the loop; the loop's first read does the same.
\<close>

definition mc_reader_varint :: "i32 rd" where
  "mc_reader_varint =
     rd_bind (rd_varint_loop 5 0xf0 0 (0 :: u32)) (\<lambda>result. rd_return (ucast result))"

definition mc_reader_varlong :: "i64 rd" where
  "mc_reader_varlong =
     rd_bind (rd_varint_loop 10 0xfe 0 (0 :: u64)) (\<lambda>result. rd_return (ucast result))"

subsection \<open>Length-prefixed buffers and strings\<close>

definition MC_DEFAULT_MAX_STRING_BYTES :: nat where
  "MC_DEFAULT_MAX_STRING_BYTES = 1024 * 1024"

definition mc_reader_buffer_i32 :: "u8 list rd" where
  "mc_reader_buffer_i32 =
     rd_bind mc_reader_i32 (\<lambda>size. rd_here (\<lambda>off.
       if sint size < 0 then reader_fail MC_ERROR_INVALID_LENGTH (off - 4)
       else mc_reader_bytes (unat size)))"

definition mc_reader_buffer_varint :: "u8 list rd" where
  "mc_reader_buffer_varint =
     rd_here (\<lambda>start. rd_bind mc_reader_varint (\<lambda>size.
       if sint size < 0 then reader_fail MC_ERROR_INVALID_LENGTH start
       else mc_reader_bytes (unat size)))"

definition mc_reader_string_bounded :: "nat \<Rightarrow> u8 list rd" where
  "mc_reader_string_bounded max_size =
     rd_here (\<lambda>start. rd_bind mc_reader_varint (\<lambda>size.
       if sint size < 0 then reader_fail MC_ERROR_INVALID_LENGTH start
       else if unat size > max_size then reader_fail MC_ERROR_STRING_TOO_LARGE start
       else mc_reader_bytes (unat size)))"

definition mc_reader_string :: "u8 list rd" where
  "mc_reader_string = mc_reader_string_bounded MC_DEFAULT_MAX_STRING_BYTES"

end
