(* ===== verification/Reader_Laws.thy ===== *)
theory Reader_Laws
  imports Reader
begin

text \<open>
  The interfaces of reader operations, their closure under the control flow of the source, and
  their interpretations on the primitive operations. Later components prove their decoders with
  the collections \<open>rd_ops\<close> and \<open>rd_sticky\<close> filled here.
\<close>

definition rd_ok :: "mc_reader \<Rightarrow> bool" where
  "rd_ok r \<longleftrightarrow> rd_offset r \<le> rd_size r"

definition rd_extend :: "u8 list \<Rightarrow> mc_reader \<Rightarrow> mc_reader" where
  "rd_extend ext r = r\<lparr>rd_data := rd_data r @ ext\<rparr>"

text \<open>The code a reader's error sink holds, if it has a sink.\<close>

definition rd_code :: "mc_reader \<Rightarrow> mc_error_code option" where
  "rd_code r = map_option er_code (rd_error r)"

text \<open>The packet the sink belongs to: no operation of a reader changes it.\<close>

definition rd_place :: "mc_reader \<Rightarrow> (mc_state \<times> mc_direction \<times> i32) option" where
  "rd_place r = map_option (\<lambda>e. (er_state e, er_direction e, er_packet_id e)) (rd_error r)"

text \<open>A failed reader with a sink has a code in it.\<close>

definition rd_reported :: "mc_reader \<Rightarrow> bool" where
  "rd_reported r \<longleftrightarrow> (rd_failed r \<longrightarrow> rd_code r \<noteq> Some MC_ERROR_NONE)"

subsection \<open>What every operation keeps\<close>

locale reader_op =
  fixes m :: "'a rd"
  assumes op_data: "rd_data (snd (m r)) = rd_data r"
    and op_mode: "rd_mode (snd (m r)) = rd_mode r"
    and op_place: "rd_place (snd (m r)) = rd_place r"
    and op_bounds: "rd_ok r \<Longrightarrow> rd_offset r \<le> rd_offset (snd (m r)) \<and> rd_ok (snd (m r))"
    and op_failed: "rd_failed r \<Longrightarrow> rd_failed (snd (m r)) \<and> rd_offset (snd (m r)) = rd_offset r
                                  \<and> rd_code (snd (m r)) = rd_code r"
    and op_success: "fst (m r) \<noteq> None \<Longrightarrow> \<not> rd_failed r
                       \<Longrightarrow> \<not> rd_failed (snd (m r)) \<and> rd_error (snd (m r)) = rd_error r"
    and op_extend: "rd_ok r \<Longrightarrow> m r = (Some x, r')
                      \<Longrightarrow> m (rd_extend ext r) = (Some x, rd_extend ext r')"
begin

lemma op_sink: "rd_error (snd (m r)) = None \<longleftrightarrow> rd_error r = None"
  using op_place [of r] by (cases "rd_error r") (auto simp: rd_place_def)

lemma never_reads_past_end:
  "rd_ok r \<Longrightarrow> rd_offset (snd (m r)) \<le> length (rd_data r)"
  using op_bounds [of r] by (simp add: rd_ok_def op_data)

lemma first_error_wins:
  "rd_failed r \<Longrightarrow> rd_code (snd (m r)) = rd_code r"
  using op_failed by blast

end

locale reporting_op = reader_op +
  assumes op_reported: "rd_reported r \<Longrightarrow> rd_reported (snd (m r))"

locale checked_op = reporting_op +
  assumes op_none: "fst (m r) = None \<Longrightarrow> rd_failed (snd (m r))"
begin

lemma failure_has_code:
  assumes "rd_error r = Some e" and "\<not> rd_failed r" and "fst (m r) = None"
  shows "\<exists>e'. rd_error (snd (m r)) = Some e' \<and> er_code e' \<noteq> MC_ERROR_NONE"
proof -
  have "rd_reported (snd (m r))" using assms(2) by (intro op_reported) (simp add: rd_reported_def)
  moreover have "rd_failed (snd (m r))" using assms(3) by (rule op_none)
  moreover have "rd_error (snd (m r)) \<noteq> None" using assms(1) by (simp add: op_sink)
  ultimately show ?thesis by (auto simp: rd_reported_def rd_code_def)
qed

end

locale sticky_op = reader_op +
  assumes op_sticky: "rd_failed r \<Longrightarrow> fst (m r) = None"

locale field_reader = checked_op + sticky_op
begin

text \<open>After a failure the operation has no effect but for the protocol noted in the sink.\<close>

lemma failed_reader_stays:
  assumes "rd_failed r"
  shows "fst (m r) = None \<and> rd_failed (snd (m r)) \<and> rd_offset (snd (m r)) = rd_offset r
         \<and> rd_code (snd (m r)) = rd_code r"
  using op_sticky [OF assms] op_failed [OF assms] by blast

lemma result_iff_live:
  "(fst (m r) \<noteq> None) = (\<not> rd_failed (snd (m r)))"
proof (cases "rd_failed r")
  case True
  then show ?thesis using op_sticky [of r] op_failed [of r] by simp
next
  case False
  then show ?thesis using op_none [of r] op_success [of r] by blast
qed

end

subsection \<open>Closure under the control flow\<close>

lemma rd_extend_simps [simp]:
  "rd_data (rd_extend ext r) = rd_data r @ ext"
  "rd_offset (rd_extend ext r) = rd_offset r"
  "rd_failed (rd_extend ext r) = rd_failed r"
  "rd_mode (rd_extend ext r) = rd_mode r"
  "rd_error (rd_extend ext r) = rd_error r"
  "rd_ok r \<Longrightarrow> rd_ok (rd_extend ext r)"
  by (simp_all add: rd_extend_def rd_ok_def)

lemma rd_place_simps [simp]:
  "rd_place (r\<lparr>rd_offset := n\<rparr>) = rd_place r" "rd_place (r\<lparr>rd_failed := b\<rparr>) = rd_place r"
  "rd_place (r\<lparr>rd_error := map_option (record_error code off) (rd_error r)\<rparr>) = rd_place r"
  "rd_place (r\<lparr>rd_error := map_option (\<lambda>e. e\<lparr>er_protocol := p\<rparr>) (rd_error r)\<rparr>) = rd_place r"
  by (simp_all add: rd_place_def record_error_def option.map_comp comp_def
      if_distrib cong: if_cong)

lemma reader_op_return [rd_ops]: "reader_op (rd_return x)"
  by unfold_locales (auto simp: rd_return_def)

lemma reader_op_test [rd_ops]: "reader_op (rd_test c)"
  by unfold_locales (auto simp: rd_test_def split: if_splits)

lemma reader_op_fail [rd_ops]: "reader_op (reader_fail code off)"
  by unfold_locales (auto simp: reader_fail_def reader_fail_state_def rd_ok_def)

lemma reader_op_fail_protocol [rd_ops]: "reader_op (reader_fail_protocol code off p)"
  by unfold_locales
    (auto simp: reader_fail_protocol_def reader_fail_def reader_fail_state_def rd_ok_def rd_code_def Let_def
        option.map_comp comp_def)

lemma reader_op_mark_failed [rd_ops]: "reader_op reader_mark_failed"
  by unfold_locales (auto simp: reader_mark_failed_def rd_ok_def rd_code_def)

lemma reader_op_null_out [rd_ops]: "reader_op reader_null_out"
  by unfold_locales
    (auto simp: reader_null_out_def reader_fail_def reader_fail_state_def rd_ok_def split: if_splits)

lemmas reader_op_laws = reader_op.op_data reader_op.op_mode reader_op.op_place reader_op.op_bounds
  reader_op.op_failed reader_op.op_success

lemma rd_bind_cases:
  "rd_bind m f r = (case fst (m r) of None \<Rightarrow> (None, snd (m r)) | Some x \<Rightarrow> f x (snd (m r)))"
  by (simp add: rd_bind_def split: prod.split option.split)

lemma rd_orelse_cases:
  "rd_orelse m h r = (case fst (m r) of None \<Rightarrow> (None, snd (h (snd (m r))))
                      | Some x \<Rightarrow> (Some x, snd (m r)))"
  by (simp add: rd_orelse_def split: prod.split option.split)

lemma reader_op_bind [rd_ops]:
  assumes m: "reader_op m" and f: "\<And>x. reader_op (f x)"
  shows "reader_op (rd_bind m f)"
proof
  fix r
  show "rd_data (snd (rd_bind m f r)) = rd_data r"
    and "rd_mode (snd (rd_bind m f r)) = rd_mode r"
    and "rd_place (snd (rd_bind m f r)) = rd_place r"
    by (simp_all add: rd_bind_cases reader_op_laws(1-3) [OF m] reader_op_laws(1-3) [OF f] split: option.split)
  show "rd_ok r \<Longrightarrow> rd_offset r \<le> rd_offset (snd (rd_bind m f r)) \<and> rd_ok (snd (rd_bind m f r))"
    using reader_op_laws(4) [OF m, of r] reader_op_laws(4) [OF f, of "snd (m r)"]
    by (auto simp: rd_bind_cases split: option.split dest: le_trans)
  show "rd_failed r \<Longrightarrow> rd_failed (snd (rd_bind m f r))
          \<and> rd_offset (snd (rd_bind m f r)) = rd_offset r \<and> rd_code (snd (rd_bind m f r)) = rd_code r"
    using reader_op_laws(5) [OF m, of r] reader_op_laws(5) [OF f, of "snd (m r)"]
    by (simp add: rd_bind_cases split: option.split)
  show "fst (rd_bind m f r) \<noteq> None \<Longrightarrow> \<not> rd_failed r
      \<Longrightarrow> \<not> rd_failed (snd (rd_bind m f r)) \<and> rd_error (snd (rd_bind m f r)) = rd_error r"
    using reader_op_laws(6) [OF m, of r] reader_op_laws(6) [OF f, of _ "snd (m r)"]
    by (cases "fst (m r)") (auto simp: rd_bind_cases)
next
  fix r x r' ext
  assume ok: "rd_ok r" and run: "rd_bind m f r = (Some x, r')"
  then obtain y r1 where y: "m r = (Some y, r1)" and x: "f y r1 = (Some x, r')"
    by (auto simp: rd_bind_def split: prod.splits option.splits)
  have "rd_ok r1" using reader_op_laws(4) [OF m ok] y by simp
  then show "rd_bind m f (rd_extend ext r) = (Some x, rd_extend ext r')"
    by (simp add: rd_bind_def reader_op.op_extend [OF m ok y] reader_op.op_extend [OF f _ x])
qed

lemma reader_op_orelse [rd_ops]:
  assumes m: "reader_op m" and h: "reader_op h"
  shows "reader_op (rd_orelse m h)"
proof
  fix r
  show "rd_data (snd (rd_orelse m h r)) = rd_data r"
    and "rd_mode (snd (rd_orelse m h r)) = rd_mode r"
    and "rd_place (snd (rd_orelse m h r)) = rd_place r"
    by (simp_all add: rd_orelse_cases reader_op_laws(1-3) [OF m] reader_op_laws(1-3) [OF h] split: option.split)
  show "rd_ok r \<Longrightarrow> rd_offset r \<le> rd_offset (snd (rd_orelse m h r)) \<and> rd_ok (snd (rd_orelse m h r))"
    using reader_op_laws(4) [OF m, of r] reader_op_laws(4) [OF h, of "snd (m r)"]
    by (auto simp: rd_orelse_cases split: option.split dest: le_trans)
  show "rd_failed r \<Longrightarrow> rd_failed (snd (rd_orelse m h r))
          \<and> rd_offset (snd (rd_orelse m h r)) = rd_offset r
          \<and> rd_code (snd (rd_orelse m h r)) = rd_code r"
    using reader_op_laws(5) [OF m, of r] reader_op_laws(5) [OF h, of "snd (m r)"]
    by (simp add: rd_orelse_cases split: option.split)
  show "fst (rd_orelse m h r) \<noteq> None \<Longrightarrow> \<not> rd_failed r
      \<Longrightarrow> \<not> rd_failed (snd (rd_orelse m h r)) \<and> rd_error (snd (rd_orelse m h r)) = rd_error r"
    using reader_op_laws(6) [OF m, of r] by (cases "fst (m r)") (auto simp: rd_orelse_cases)
next
  fix r x r' ext
  assume ok: "rd_ok r" and "rd_orelse m h r = (Some x, r')"
  then have "m r = (Some x, r')" by (auto simp: rd_orelse_def split: prod.splits option.splits)
  from reader_op.op_extend [OF m ok this]
  show "rd_orelse m h (rd_extend ext r) = (Some x, rd_extend ext r')"
    by (simp add: rd_orelse_def)
qed

lemma reader_op_here [rd_ops]: "(\<And>off. reader_op (f off)) \<Longrightarrow> reader_op (rd_here f)"
  unfolding reader_op_def rd_here_def by simp

lemma reader_op_strict [rd_ops]: "(\<And>s. reader_op (f s)) \<Longrightarrow> reader_op (rd_strict f)"
  unfolding reader_op_def rd_strict_def by simp

lemma reader_op_if [rd_ops]:
  "(c \<Longrightarrow> reader_op a) \<Longrightarrow> (\<not> c \<Longrightarrow> reader_op b) \<Longrightarrow> reader_op (if c then a else b)"
  by simp

lemma reader_op_when [rd_ops]:
  "(c \<Longrightarrow> reader_op m) \<Longrightarrow> reader_op (rd_when c d m)"
  by (simp add: rd_when_def reader_op_return)

lemma reader_op_capture [rd_ops]:
  assumes m: "reader_op m"
  shows "reader_op (rd_capture m)"
proof -
  have eq: "rd_capture m r = (map_option (\<lambda>x. (x, take (rd_offset (snd (m r)) - rd_offset r)
              (drop (rd_offset r) (rd_data r)))) (fst (m r)), snd (m r))" for r
    using reader_op_laws(1) [OF m, of r]
    by (auto simp: rd_capture_def split: prod.split option.split)
  show ?thesis
  proof
    fix r x r' ext
    assume ok: "rd_ok r" and run: "rd_capture m r = (Some x, r')"
    then obtain y where y: "m r = (Some y, r')"
      by (auto simp: rd_capture_def split: prod.splits option.splits)
    have "rd_offset r' \<le> length (rd_data r)" "rd_offset r \<le> length (rd_data r)"
      using reader_op_laws(4) [OF m ok] reader_op_laws(1) [OF m, of r] y ok by (auto simp: rd_ok_def)
    then show "rd_capture m (rd_extend ext r) = (Some x, rd_extend ext r')"
      using run by (simp add: eq y reader_op.op_extend [OF m ok y])
  qed (use reader_op_laws [OF m] in \<open>simp_all add: eq\<close>)
qed

lemma reader_op_bytes [rd_ops]: "reader_op (mc_reader_bytes n)"
  by unfold_locales (auto simp: mc_reader_bytes_def reader_fail_def reader_fail_state_def rd_ok_def rd_extend_def split: if_splits)

subsection \<open>Closure of the checked and of the sticky interface\<close>

text \<open>
  The rules for \<open>reporting_op\<close>, \<open>checked_op\<close> and for failing handlers are in \<open>rd_checked\<close>, those
  for stickiness in \<open>rd_sticky\<close>: a decoder is a \<open>field_reader\<close> by introduction with the two.
\<close>

definition rd_handler :: "'a rd \<Rightarrow> bool" where
  "rd_handler h \<longleftrightarrow> checked_op h \<and> (\<forall>r. fst (h r) = None)"

definition rd_stops :: "'a rd \<Rightarrow> bool" where
  "rd_stops m \<longleftrightarrow> (\<forall>r. rd_failed r \<longrightarrow> fst (m r) = None)"

lemma reporting_opI:
  "reader_op m \<Longrightarrow> (\<And>r. rd_reported r \<Longrightarrow> rd_reported (snd (m r))) \<Longrightarrow> reporting_op m"
  by (simp add: reporting_op_def reporting_op_axioms_def)

lemma checked_opI:
  "reporting_op m \<Longrightarrow> (\<And>r. fst (m r) = None \<Longrightarrow> rd_failed (snd (m r))) \<Longrightarrow> checked_op m"
  by (simp add: checked_op_def checked_op_axioms_def)

lemma field_readerI: "checked_op m \<Longrightarrow> rd_stops m \<Longrightarrow> field_reader m"
  by (simp add: field_reader_def sticky_op_def sticky_op_axioms_def rd_stops_def checked_op_def
      reporting_op_def)

lemma reporting_reader: "reporting_op m \<Longrightarrow> reader_op m"
  by (simp add: reporting_op_def)

lemma checked_reporting: "checked_op m \<Longrightarrow> reporting_op m"
  by (simp add: checked_op_def)

lemma checked_reader: "checked_op m \<Longrightarrow> reader_op m"
  by (simp add: checked_op_def reporting_op_def)

lemma field_reader_checked: "field_reader m \<Longrightarrow> checked_op m"
  by (simp add: field_reader_def)

lemma field_reader_stops: "field_reader m \<Longrightarrow> rd_stops m"
  by (simp add: field_reader_def sticky_op_def sticky_op_axioms_def rd_stops_def)

lemma rd_reported_fail_state:
  "code \<noteq> MC_ERROR_NONE \<Longrightarrow> rd_reported r \<Longrightarrow> rd_reported (reader_fail_state code off r)"
  by (cases "rd_error r")
    (auto simp: rd_reported_def reader_fail_state_def rd_code_def record_error_def)

lemma rd_failed_fail_state [simp]: "rd_failed (reader_fail_state code off r)"
  by (simp add: reader_fail_state_def)

lemma reporting_return [rd_checked]: "reporting_op (rd_return x)"
  by (intro reporting_opI reader_op_return) (simp add: rd_return_def)

lemma checked_return [rd_checked]: "checked_op (rd_return x)"
  by (intro checked_opI reporting_return) (simp add: rd_return_def)

lemma reporting_test [rd_checked]: "reporting_op (rd_test c)"
  by (intro reporting_opI reader_op_test) (simp add: rd_test_def)

lemma handler_fail [rd_checked]: "code \<noteq> MC_ERROR_NONE \<Longrightarrow> rd_handler (reader_fail code off)"
  unfolding rd_handler_def
  by (intro conjI checked_opI reporting_opI reader_op_fail)
    (simp_all add: reader_fail_def rd_reported_fail_state)

lemma handler_fail_protocol [rd_checked]:
  assumes code: "code \<noteq> MC_ERROR_NONE"
  shows "rd_handler (reader_fail_protocol code off p)"
  unfolding rd_handler_def
proof (intro conjI checked_opI reporting_opI reader_op_fail_protocol)
  fix r assume "rd_reported r"
  with code have "rd_reported (reader_fail_state code off r)" by (rule rd_reported_fail_state)
  then show "rd_reported (snd (reader_fail_protocol code off p r))"
    by (simp add: reader_fail_protocol_def Let_def rd_reported_def rd_code_def
        option.map_comp comp_def)
qed (simp_all add: reader_fail_protocol_def Let_def)

lemma handler_here [rd_checked]: "(\<And>off. rd_handler (f off)) \<Longrightarrow> rd_handler (rd_here f)"
  by (simp add: rd_handler_def rd_here_def reporting_op_def reporting_op_axioms_def checked_op_def
      checked_op_axioms_def reader_op_def)

lemma checked_handler: "rd_handler h \<Longrightarrow> checked_op h"
  by (simp add: rd_handler_def)

lemmas checked_fail [rd_checked] = checked_handler [OF handler_fail]
lemmas checked_fail_protocol [rd_checked] = checked_handler [OF handler_fail_protocol]
lemmas reporting_fail [rd_checked] = checked_reporting [OF checked_fail]
lemmas reporting_fail_protocol [rd_checked] = checked_reporting [OF checked_fail_protocol]

lemma reporting_bind [rd_checked]:
  assumes m: "reporting_op m" and f: "\<And>x. reporting_op (f x)"
  shows "reporting_op (rd_bind m f)"
proof (rule reporting_opI)
  show "reader_op (rd_bind m f)"
    using m f by (intro reader_op_bind) (auto simp: reporting_op_def)
  show "rd_reported r \<Longrightarrow> rd_reported (snd (rd_bind m f r))" for r
    using reporting_op.op_reported [OF m, of r] reporting_op.op_reported [OF f, of "snd (m r)"]
    by (simp add: rd_bind_cases split: option.split)
qed

lemma checked_bind [rd_checked]:
  assumes m: "checked_op m" and f: "\<And>x. checked_op (f x)"
  shows "checked_op (rd_bind m f)"
proof (rule checked_opI)
  show "reporting_op (rd_bind m f)"
    using m f by (intro reporting_bind) (auto simp: checked_op_def)
  show "fst (rd_bind m f r) = None \<Longrightarrow> rd_failed (snd (rd_bind m f r))" for r
    using checked_op.op_none [OF m, of r] checked_op.op_none [OF f]
    by (auto simp: rd_bind_cases split: option.splits)
qed

text \<open>A failing handler repairs a chain whose tests fail without marking the reader.\<close>

lemma reporting_orelse [rd_checked]:
  assumes m: "reporting_op m" and h: "rd_handler h"
  shows "reporting_op (rd_orelse m h)"
proof (rule reporting_opI)
  have c: "checked_op h" using h by (rule checked_handler)
  show "reader_op (rd_orelse m h)"
    using m c by (intro reader_op_orelse) (auto simp: reporting_op_def checked_op_def)
  show "rd_reported r \<Longrightarrow> rd_reported (snd (rd_orelse m h r))" for r
    using reporting_op.op_reported [OF m, of r]
      reporting_op.op_reported [OF checked_reporting [OF c], of "snd (m r)"]
    by (simp add: rd_orelse_cases split: option.split)
qed

lemma checked_orelse [rd_checked]:
  assumes m: "reporting_op m" and h: "rd_handler h"
  shows "checked_op (rd_orelse m h)"
proof (rule checked_opI)
  show "reporting_op (rd_orelse m h)" using m h by (rule reporting_orelse)
  show "fst (rd_orelse m h r) = None \<Longrightarrow> rd_failed (snd (rd_orelse m h r))" for r
    using h checked_op.op_none [OF checked_handler [OF h]]
    by (auto simp: rd_orelse_cases rd_handler_def split: option.splits)
qed

lemma reporting_here [rd_checked]: "(\<And>off. reporting_op (f off)) \<Longrightarrow> reporting_op (rd_here f)"
  by (simp add: rd_here_def reporting_op_def reporting_op_axioms_def reader_op_def)

lemma checked_here [rd_checked]: "(\<And>off. checked_op (f off)) \<Longrightarrow> checked_op (rd_here f)"
  by (simp add: rd_here_def checked_op_def checked_op_axioms_def reporting_op_def
      reporting_op_axioms_def reader_op_def)

lemma reporting_strict [rd_checked]: "(\<And>s. reporting_op (f s)) \<Longrightarrow> reporting_op (rd_strict f)"
  by (simp add: rd_strict_def reporting_op_def reporting_op_axioms_def reader_op_def)

lemma checked_strict [rd_checked]: "(\<And>s. checked_op (f s)) \<Longrightarrow> checked_op (rd_strict f)"
  by (simp add: rd_strict_def checked_op_def checked_op_axioms_def reporting_op_def
      reporting_op_axioms_def reader_op_def)

lemma reporting_if [rd_checked]:
  "(c \<Longrightarrow> reporting_op a) \<Longrightarrow> (\<not> c \<Longrightarrow> reporting_op b) \<Longrightarrow> reporting_op (if c then a else b)"
  by simp

lemma checked_if [rd_checked]:
  "(c \<Longrightarrow> checked_op a) \<Longrightarrow> (\<not> c \<Longrightarrow> checked_op b) \<Longrightarrow> checked_op (if c then a else b)"
  by simp

lemma reporting_when [rd_checked]:
  "(c \<Longrightarrow> reporting_op m) \<Longrightarrow> reporting_op (rd_when c d m)"
  by (simp add: rd_when_def reporting_return)

lemma checked_when [rd_checked]: "(c \<Longrightarrow> checked_op m) \<Longrightarrow> checked_op (rd_when c d m)"
  by (simp add: rd_when_def checked_return)

lemma rd_capture_snd: "snd (rd_capture m r) = snd (m r)"
  by (simp add: rd_capture_def split: prod.split option.split)

lemma rd_capture_fst: "fst (rd_capture m r) = None \<longleftrightarrow> fst (m r) = None"
  by (simp add: rd_capture_def split: prod.split option.split)

lemma reporting_capture [rd_checked]: "reporting_op m \<Longrightarrow> reporting_op (rd_capture m)"
  by (rule reporting_opI)
    (auto simp: reporting_reader rd_capture_snd intro: reader_op_capture reporting_op.op_reported)

lemma checked_capture [rd_checked]: "checked_op m \<Longrightarrow> checked_op (rd_capture m)"
  by (rule checked_opI)
    (auto simp: checked_reporting rd_capture_snd rd_capture_fst
      intro: reporting_capture checked_op.op_none)

lemma stops_bind [rd_sticky]: "rd_stops m \<Longrightarrow> rd_stops (rd_bind m f)"
  by (simp add: rd_stops_def rd_bind_cases)

lemma stops_bind_later:
  "reader_op m \<Longrightarrow> (\<And>x. rd_stops (f x)) \<Longrightarrow> rd_stops (rd_bind m f)"
  using reader_op.op_failed [of m]
  by (auto simp: rd_stops_def rd_bind_cases split: option.split)

lemma stops_orelse [rd_sticky]: "rd_stops m \<Longrightarrow> rd_stops (rd_orelse m h)"
  by (simp add: rd_stops_def rd_orelse_cases)

lemma stops_handler [rd_sticky]:
  "rd_stops (reader_fail code off)" "rd_stops (reader_fail_protocol code off p)"
  "rd_stops reader_mark_failed"
  by (simp_all add: rd_stops_def reader_fail_def reader_fail_protocol_def reader_mark_failed_def Let_def)

lemma stops_here [rd_sticky]: "(\<And>off. rd_stops (f off)) \<Longrightarrow> rd_stops (rd_here f)"
  by (simp add: rd_stops_def rd_here_def)

lemma stops_strict [rd_sticky]: "(\<And>s. rd_stops (f s)) \<Longrightarrow> rd_stops (rd_strict f)"
  by (simp add: rd_stops_def rd_strict_def)

lemma stops_if [rd_sticky]:
  "(c \<Longrightarrow> rd_stops a) \<Longrightarrow> (\<not> c \<Longrightarrow> rd_stops b) \<Longrightarrow> rd_stops (if c then a else b)"
  by simp

lemma stops_capture [rd_sticky]: "rd_stops m \<Longrightarrow> rd_stops (rd_capture m)"
  by (simp add: rd_stops_def rd_capture_fst)

subsection \<open>The primitive operations\<close>

lemma checked_bytes [rd_checked]: "checked_op (mc_reader_bytes n)"
proof (intro checked_opI reporting_opI reader_op_bytes)
  fix r
  show "rd_reported r \<Longrightarrow> rd_reported (snd (mc_reader_bytes n r))"
    by (auto simp: mc_reader_bytes_def reader_fail_def rd_reported_fail_state)
      (simp add: rd_reported_def rd_code_def)
  show "fst (mc_reader_bytes n r) = None \<Longrightarrow> rd_failed (snd (mc_reader_bytes n r))"
    by (auto simp: mc_reader_bytes_def reader_fail_def split: if_splits)
qed

lemma stops_bytes [rd_sticky]: "rd_stops (mc_reader_bytes n)"
  by (simp add: rd_stops_def mc_reader_bytes_def)

lemma checked_skip [rd_checked]: "checked_op (mc_reader_skip n)"
  unfolding mc_reader_skip_def by (intro rd_checked)

lemma checked_u8 [rd_checked]: "checked_op mc_reader_u8"
  unfolding mc_reader_u8_def by (intro rd_checked)

lemma checked_bool [rd_checked]: "checked_op mc_reader_bool"
  unfolding mc_reader_bool_def by (intro rd_checked) simp_all

lemma checked_i8 [rd_checked]: "checked_op mc_reader_i8"
  unfolding mc_reader_i8_def by (intro rd_checked)

lemma checked_u16 [rd_checked]: "checked_op mc_reader_u16"
  unfolding mc_reader_u16_def by (intro rd_checked)

lemma checked_i16 [rd_checked]: "checked_op mc_reader_i16"
  unfolding mc_reader_i16_def by (intro rd_checked)

lemma checked_u32 [rd_checked]: "checked_op mc_reader_u32"
  unfolding mc_reader_u32_def by (intro rd_checked)

lemma checked_i32 [rd_checked]: "checked_op mc_reader_i32"
  unfolding mc_reader_i32_def by (intro rd_checked)

lemma checked_u64 [rd_checked]: "checked_op mc_reader_u64"
  unfolding mc_reader_u64_def by (intro rd_checked)

lemma checked_i64 [rd_checked]: "checked_op mc_reader_i64"
  unfolding mc_reader_i64_def by (intro rd_checked)

lemma checked_float [rd_checked]: "checked_op mc_reader_float"
  unfolding mc_reader_float_def by (intro rd_checked)

lemma checked_double [rd_checked]: "checked_op mc_reader_double"
  unfolding mc_reader_double_def by (intro rd_checked)

lemma checked_varint_loop [rd_checked]: "checked_op (rd_varint_loop limit spare index result)"
proof (induction limit spare index result rule: rd_varint_loop.induct)
  case (1 limit spare index result)
  show ?case
    by (subst rd_varint_loop.simps, unfold Let_def)
      (intro rd_checked; (rule "1.IH")?; simp)
qed

lemma checked_varint [rd_checked]: "checked_op mc_reader_varint"
  unfolding mc_reader_varint_def by (intro rd_checked)

lemma checked_varlong [rd_checked]: "checked_op mc_reader_varlong"
  unfolding mc_reader_varlong_def by (intro rd_checked)

lemma checked_buffer_i32 [rd_checked]: "checked_op mc_reader_buffer_i32"
  unfolding mc_reader_buffer_i32_def by (intro rd_checked) simp_all

lemma checked_buffer_varint [rd_checked]: "checked_op mc_reader_buffer_varint"
  unfolding mc_reader_buffer_varint_def by (intro rd_checked) simp_all

lemma checked_string_bounded [rd_checked]: "checked_op (mc_reader_string_bounded n)"
  unfolding mc_reader_string_bounded_def by (intro rd_checked) simp_all

lemma checked_string [rd_checked]: "checked_op mc_reader_string"
  unfolding mc_reader_string_def by (intro rd_checked)

lemma stops_varint_loop: "index < limit \<Longrightarrow> rd_stops (rd_varint_loop limit spare index result)"
  by (subst rd_varint_loop.simps) (simp add: stops_bind stops_bytes mc_reader_u8_def)

lemma stops_primitives [rd_sticky]:
  "rd_stops (mc_reader_skip n)" "rd_stops mc_reader_u8" "rd_stops mc_reader_bool"
  "rd_stops mc_reader_i8" "rd_stops mc_reader_u16" "rd_stops mc_reader_i16"
  "rd_stops mc_reader_u32" "rd_stops mc_reader_i32" "rd_stops mc_reader_u64"
  "rd_stops mc_reader_i64" "rd_stops mc_reader_float" "rd_stops mc_reader_double"
  "rd_stops mc_reader_varint" "rd_stops mc_reader_varlong" "rd_stops mc_reader_buffer_i32"
  "rd_stops mc_reader_buffer_varint" "rd_stops (mc_reader_string_bounded k)"
  "rd_stops mc_reader_string"
  unfolding mc_reader_skip_def mc_reader_u8_def mc_reader_bool_def mc_reader_i8_def
    mc_reader_u16_def mc_reader_i16_def mc_reader_u32_def mc_reader_i32_def mc_reader_u64_def
    mc_reader_i64_def mc_reader_float_def mc_reader_double_def mc_reader_varint_def
    mc_reader_varlong_def mc_reader_buffer_i32_def mc_reader_buffer_varint_def
    mc_reader_string_bounded_def mc_reader_string_def
  by (intro rd_sticky stops_varint_loop; simp)+

lemmas reporting_primitives [rd_checked] =
  checked_bytes [THEN checked_reporting] checked_skip [THEN checked_reporting]
  checked_u8 [THEN checked_reporting] checked_bool [THEN checked_reporting]
  checked_i8 [THEN checked_reporting] checked_u16 [THEN checked_reporting]
  checked_i16 [THEN checked_reporting] checked_u32 [THEN checked_reporting]
  checked_i32 [THEN checked_reporting] checked_u64 [THEN checked_reporting]
  checked_i64 [THEN checked_reporting] checked_float [THEN checked_reporting]
  checked_double [THEN checked_reporting] checked_varint [THEN checked_reporting]
  checked_varlong [THEN checked_reporting] checked_buffer_i32 [THEN checked_reporting]
  checked_buffer_varint [THEN checked_reporting] checked_string_bounded [THEN checked_reporting]
  checked_string [THEN checked_reporting]

lemmas reader_op_primitives [rd_ops] = reporting_primitives [THEN reporting_reader]

interpretation bytes_rd: field_reader "mc_reader_bytes n" for n
  by (intro field_readerI rd_checked rd_sticky)

interpretation bool_rd: field_reader mc_reader_bool
  by (intro field_readerI rd_checked rd_sticky)

interpretation varint_rd: field_reader mc_reader_varint
  by (intro field_readerI rd_checked rd_sticky)

interpretation varlong_rd: field_reader mc_reader_varlong
  by (intro field_readerI rd_checked rd_sticky)

interpretation string_rd: field_reader "mc_reader_string_bounded n" for n
  by (intro field_readerI rd_checked rd_sticky)

end
