(* ===== verification/Writer.thy ===== *)
theory Writer
  imports Errors
begin

text \<open>
  The packet writer \<open>McPacket\<close> of \<open>api.c\<close> (section READER / WRITER CODEC): a caller-owned
  buffer with a capacity and a sticky failure bit, and the append operations for the wire types.

  State. \<open>pk_buf\<close> is the written prefix of the storage (\<open>data[0 .. length)\<close>), so \<open>length\<close> is its
  length; bytes of the storage beyond it are never read. A writer operation is a function from
  the packet to the C result and the packet left behind. The packet pointer itself is valid; an
  operation with a further pointer argument takes a \<^typ>\<open>buffer\<close>, whose null case is a branch.

  Lemmas. \<open>pk_writes w bs\<close> is the contract of a writer: it appends \<open>bs\<close> and succeeds when they
  fit, and otherwise fails and leaves the failure bit set. It is closed under the sequencing
  \<^verbatim>\<open>a && b\<close> of the source.
\<close>

record mc_packet =
  pk_buf :: "u8 list"
  pk_capacity :: nat
  pk_failed :: bool

type_synonym wr = "mc_packet \<Rightarrow> bool \<times> mc_packet"

subsection \<open>Control flow\<close>

text \<open>\<^verbatim>\<open>a && b\<close>: the second call happens only when the first one succeeded.\<close>

definition pk_and :: "wr \<Rightarrow> wr \<Rightarrow> wr" where
  "pk_and a b p = (case a p of (True, p') \<Rightarrow> b p' | (False, p') \<Rightarrow> (False, p'))"

text \<open>\<^verbatim>\<open>a && b && ...\<close>\<close>

fun pk_all :: "wr list \<Rightarrow> wr" where
  "pk_all [] p = (True, p)"
| "pk_all (w # ws) p = pk_and w (pk_all ws) p"

text \<open>\<^verbatim>\<open>packet->failed = true; return false;\<close>\<close>

definition pk_reject :: wr where
  "pk_reject p = (False, p\<lparr>pk_failed := True\<rparr>)"

text \<open>\<^verbatim>\<open>return true;\<close>\<close>

definition pk_done :: wr where
  "pk_done p = (True, p)"

text \<open>\<^verbatim>\<open>!c || a\<close>: the call happens only under the condition.\<close>

definition pk_when :: "bool \<Rightarrow> wr \<Rightarrow> wr" where
  "pk_when c a = (if c then a else pk_done)"

text \<open>\<^verbatim>\<open>if (!a) { packet->failed = true; return false; }\<close>\<close>

definition pk_or_reject :: "wr \<Rightarrow> wr" where
  "pk_or_reject a p = (case a p of (True, p') \<Rightarrow> (True, p') | (False, p') \<Rightarrow> pk_reject p')"

subsection \<open>Primitive writers\<close>

definition mc_packet_init :: "buffer \<Rightarrow> mc_packet" where
  "mc_packet_init storage =
     \<lparr>pk_buf = [], pk_capacity = buf_size storage,
      pk_failed = (buf_null storage \<and> buf_size storage \<noteq> 0)\<rparr>"

definition mc_packet_bytes :: "buffer \<Rightarrow> wr" where
  "mc_packet_bytes data p =
     (if pk_failed p \<or> length (pk_buf p) > pk_capacity p
         \<or> buf_size data > pk_capacity p - length (pk_buf p)
         \<or> (buf_size data \<noteq> 0 \<and> buf_null data)
      then (False, p\<lparr>pk_failed := True\<rparr>)
      else (True, p\<lparr>pk_buf := pk_buf p @ buf_bytes data\<rparr>))"

definition mc_packet_u8 :: "u8 \<Rightarrow> wr" where
  "mc_packet_u8 value = mc_packet_bytes (Buf [value])"

definition mc_packet_bool :: "bool \<Rightarrow> wr" where
  "mc_packet_bool value = mc_packet_u8 (if value then 1 else 0)"

definition mc_packet_i8 :: "i8 \<Rightarrow> wr" where
  "mc_packet_i8 value = mc_packet_u8 (ucast value)"

definition mc_packet_u16 :: "u16 \<Rightarrow> wr" where
  "mc_packet_u16 value = mc_packet_bytes (Buf [ucast (drop_bit 8 value), ucast value])"

definition mc_packet_i16 :: "i16 \<Rightarrow> wr" where
  "mc_packet_i16 value = mc_packet_u16 (ucast value)"

definition mc_packet_u32 :: "u32 \<Rightarrow> wr" where
  "mc_packet_u32 value =
     mc_packet_bytes (Buf (map (\<lambda>index. ucast (drop_bit ((3 - index) * 8) value)) [0..<4]))"

definition mc_packet_i32 :: "i32 \<Rightarrow> wr" where
  "mc_packet_i32 value = mc_packet_u32 (ucast value)"

definition mc_packet_u64 :: "u64 \<Rightarrow> wr" where
  "mc_packet_u64 value =
     mc_packet_bytes (Buf (map (\<lambda>index. ucast (drop_bit ((7 - index) * 8) value)) [0..<8]))"

definition mc_packet_i64 :: "i64 \<Rightarrow> wr" where
  "mc_packet_i64 value = mc_packet_u64 (ucast value)"

text \<open>The two \<open>memcpy\<close> reinterpretations are the identity on the bits.\<close>

definition mc_packet_float :: "f32 \<Rightarrow> wr" where
  "mc_packet_float value = mc_packet_u32 value"

definition mc_packet_double :: "f64 \<Rightarrow> wr" where
  "mc_packet_double value = mc_packet_u64 value"

subsection \<open>Variable-length integers\<close>

text \<open>
  The \<^verbatim>\<open>do ... while\<close> loop shared, at two widths, by \<open>mc_packet_varint\<close> and
  \<open>mc_packet_varlong\<close>: seven bits per byte, the low ones first, the continuation bit set while
  bits remain. The loop stops because a non-zero \<open>encoded >> 7\<close> is smaller than \<open>encoded\<close>.
\<close>

lemma drop_bit_7_less:
  fixes e :: "'a::len word"
  assumes "drop_bit 7 e \<noteq> 0"
  shows "unat (drop_bit 7 e) < unat e"
proof -
  have "unat (drop_bit 7 e) = unat e div 128"
    by (simp only: unat_drop_bit_eq) (simp add: drop_bit_eq_div)
  moreover from assms have "unat (drop_bit 7 e) \<noteq> 0"
    by (simp add: unat_eq_0)
  ultimately show ?thesis by simp
qed

function pk_varint_loop :: "'a::len word \<Rightarrow> wr" where
  "pk_varint_loop encoded p =
     (let low = ucast (encoded AND 0x7f) :: u8;
          rest = drop_bit 7 encoded;
          byte = (if rest \<noteq> 0 then low OR 0x80 else low)
      in case mc_packet_u8 byte p of
           (False, p') \<Rightarrow> (False, p')
         | (True, p') \<Rightarrow> if rest \<noteq> 0 then pk_varint_loop rest p' else (True, p'))"
  by pat_completeness auto
termination
  by (relation "measure (\<lambda>(e, p). unat e)") (auto simp: drop_bit_7_less)

declare pk_varint_loop.simps [simp del]

definition mc_packet_varint :: "i32 \<Rightarrow> wr" where
  "mc_packet_varint value = pk_varint_loop (ucast value :: u32)"

definition mc_packet_varlong :: "i64 \<Rightarrow> wr" where
  "mc_packet_varlong value = pk_varint_loop (ucast value :: u64)"

subsection \<open>Length-prefixed buffers and strings\<close>

definition mc_packet_buffer_i32 :: "buffer \<Rightarrow> wr" where
  "mc_packet_buffer_i32 value =
     (if buf_size value > INT32_MAX then pk_reject
      else pk_and (mc_packet_i32 (of_nat (buf_size value))) (mc_packet_bytes value))"

definition mc_packet_buffer_varint :: "buffer \<Rightarrow> wr" where
  "mc_packet_buffer_varint value =
     (if buf_size value > INT32_MAX then pk_reject
      else pk_and (mc_packet_varint (of_nat (buf_size value))) (mc_packet_bytes value))"

definition mc_packet_string_n :: "buffer \<Rightarrow> wr" where
  "mc_packet_string_n value =
     (if buf_null value then pk_reject
      else if buf_size value > INT32_MAX then pk_reject
      else pk_and (pk_or_reject (mc_packet_varint (of_nat (buf_size value))))
             (mc_packet_bytes value))"

text \<open>
  A NUL-terminated string argument is the list of its bytes before the terminator, or
  \<^term>\<open>None\<close> for a null pointer; \<open>strlen\<close> is the length of the list.
\<close>

definition mc_packet_string :: "u8 list option \<Rightarrow> wr" where
  "mc_packet_string value =
     (case value of None \<Rightarrow> pk_reject | Some cs \<Rightarrow> mc_packet_string_n (Buf cs))"

subsection \<open>The contract of a writer\<close>

definition pk_ok :: "mc_packet \<Rightarrow> bool" where
  "pk_ok p \<longleftrightarrow> length (pk_buf p) \<le> pk_capacity p"

definition pk_room :: "mc_packet \<Rightarrow> nat" where
  "pk_room p = pk_capacity p - length (pk_buf p)"

definition pk_append :: "u8 list \<Rightarrow> mc_packet \<Rightarrow> mc_packet" where
  "pk_append bs p = p\<lparr>pk_buf := pk_buf p @ bs\<rparr>"

text \<open>
  The contract: on a packet that has not failed, with room for the bytes, the call succeeds and
  appends exactly them; without room it fails and sets the failure bit, so that the packet cannot
  be sent. On a packet that has failed before, the bit stays set, and the call fails too unless it
  had nothing to write. In every case the buffer stays within its capacity.
\<close>

definition pk_contract :: "wr \<Rightarrow> u8 list \<Rightarrow> bool" where
  "pk_contract w bs \<longleftrightarrow>
     (\<forall>p. pk_ok p \<longrightarrow>
        pk_ok (snd (w p)) \<and> pk_capacity (snd (w p)) = pk_capacity p
        \<and> (if pk_failed p then pk_failed (snd (w p)) \<and> (bs \<noteq> [] \<longrightarrow> \<not> fst (w p))
           else if length bs \<le> pk_room p then w p = (True, pk_append bs p)
           else \<not> fst (w p) \<and> pk_failed (snd (w p))))"

lemma pk_contract_fits:
  "pk_contract w bs \<Longrightarrow> pk_ok p \<Longrightarrow> \<not> pk_failed p \<Longrightarrow> length bs \<le> pk_room p
     \<Longrightarrow> w p = (True, pk_append bs p)"
  by (auto simp: pk_contract_def)

lemma pk_contract_overflow:
  "pk_contract w bs \<Longrightarrow> pk_ok p \<Longrightarrow> \<not> pk_failed p \<Longrightarrow> pk_room p < length bs
     \<Longrightarrow> \<not> fst (w p) \<and> pk_failed (snd (w p))"
  by (auto simp: pk_contract_def)

lemma pk_contract_failed:
  "pk_contract w bs \<Longrightarrow> pk_ok p \<Longrightarrow> pk_failed p
     \<Longrightarrow> pk_failed (snd (w p)) \<and> (bs \<noteq> [] \<longrightarrow> \<not> fst (w p))"
  by (auto simp: pk_contract_def)

lemma pk_contract_bounds:
  "pk_contract w bs \<Longrightarrow> pk_ok p
     \<Longrightarrow> pk_ok (snd (w p)) \<and> pk_capacity (snd (w p)) = pk_capacity p"
  by (auto simp: pk_contract_def)

lemma pk_append_simps [simp]:
  "pk_buf (pk_append bs p) = pk_buf p @ bs"
  "pk_capacity (pk_append bs p) = pk_capacity p"
  "pk_failed (pk_append bs p) = pk_failed p"
  "pk_append cs (pk_append bs p) = pk_append (bs @ cs) p"
  "pk_append [] p = p"
  by (simp_all add: pk_append_def)

lemma pk_ok_append: "pk_ok p \<Longrightarrow> length bs \<le> pk_room p \<Longrightarrow> pk_ok (pk_append bs p)"
  by (simp add: pk_ok_def pk_room_def)

lemma pk_room_append [simp]: "pk_room (pk_append bs p) = pk_room p - length bs"
  by (simp add: pk_room_def)

lemma pk_contractI:
  assumes "\<And>p. pk_ok p \<Longrightarrow> pk_ok (snd (w p)) \<and> pk_capacity (snd (w p)) = pk_capacity p"
    and "\<And>p. pk_ok p \<Longrightarrow> pk_failed p
          \<Longrightarrow> pk_failed (snd (w p)) \<and> (bs \<noteq> [] \<longrightarrow> \<not> fst (w p))"
    and "\<And>p. pk_ok p \<Longrightarrow> \<not> pk_failed p \<Longrightarrow> length bs \<le> pk_room p
          \<Longrightarrow> w p = (True, pk_append bs p)"
    and "\<And>p. pk_ok p \<Longrightarrow> \<not> pk_failed p \<Longrightarrow> pk_room p < length bs
          \<Longrightarrow> \<not> fst (w p) \<and> pk_failed (snd (w p))"
  shows "pk_contract w bs"
  unfolding pk_contract_def using assms by (auto simp: not_le)

lemma pk_contract_bytes [pk_writes]: "pk_contract (mc_packet_bytes (Buf bs)) bs"
  by (rule pk_contractI)
    (auto simp: mc_packet_bytes_def pk_ok_def pk_room_def pk_append_def)

lemma pk_contract_done [pk_writes]: "pk_contract pk_done []"
  by (rule pk_contractI) (auto simp: pk_done_def)

lemma pk_contract_and [pk_writes]:
  assumes a: "pk_contract a bs" and b: "pk_contract b cs"
  shows "pk_contract (pk_and a b) (bs @ cs)"
proof (rule pk_contractI)
  fix p assume ok: "pk_ok p"
  note A = pk_contract_bounds [OF a ok]
  obtain res p' where ap: "a p = (res, p')" by (cases "a p")
  then have ok': "pk_ok p'" and cap': "pk_capacity p' = pk_capacity p" using A by auto
  note B = pk_contract_bounds [OF b ok']
  show "pk_ok (snd (pk_and a b p)) \<and> pk_capacity (snd (pk_and a b p)) = pk_capacity p"
    using A B ap cap' by (cases res) (auto simp: pk_and_def)
  {
    assume failed: "pk_failed p"
    have "pk_failed p'" and "bs \<noteq> [] \<longrightarrow> \<not> res"
      using pk_contract_failed [OF a ok failed] ap by auto
    then show "pk_failed (snd (pk_and a b p)) \<and> (bs @ cs \<noteq> [] \<longrightarrow> \<not> fst (pk_and a b p))"
      using pk_contract_failed [OF b ok'] ap by (cases res) (auto simp: pk_and_def)
  next
    assume live: "\<not> pk_failed p" and fits: "length (bs @ cs) \<le> pk_room p"
    have fa: "length bs \<le> pk_room p" using fits by simp
    have "a p = (True, pk_append bs p)" by (rule pk_contract_fits [OF a ok live fa])
    moreover have "b (pk_append bs p) = (True, pk_append cs (pk_append bs p))"
      using fits live by (intro pk_contract_fits [OF b]) (auto intro: pk_ok_append [OF ok fa])
    ultimately show "pk_and a b p = (True, pk_append (bs @ cs) p)"
      by (simp add: pk_and_def)
  next
    assume live: "\<not> pk_failed p" and over: "pk_room p < length (bs @ cs)"
    show "\<not> fst (pk_and a b p) \<and> pk_failed (snd (pk_and a b p))"
    proof (cases "length bs \<le> pk_room p")
      case True
      have "a p = (True, pk_append bs p)" by (rule pk_contract_fits [OF a ok live True])
      moreover have "\<not> fst (b (pk_append bs p)) \<and> pk_failed (snd (b (pk_append bs p)))"
        using over live True
        by (intro pk_contract_overflow [OF b]) (auto intro: pk_ok_append [OF ok True])
      ultimately show ?thesis by (simp add: pk_and_def)
    next
      case False
      then show ?thesis
        using pk_contract_overflow [OF a ok live] by (auto simp: pk_and_def split: prod.splits bool.splits)
    qed
  }
qed

lemma pk_contract_all_Nil [pk_writes]: "pk_contract (pk_all []) []"
  by (rule pk_contractI) auto

lemma pk_contract_all_Cons [pk_writes]:
  assumes "pk_contract w bs" and "pk_contract (pk_all ws) cs"
  shows "pk_contract (pk_all (w # ws)) (bs @ cs)"
proof -
  have "pk_all (w # ws) = pk_and w (pk_all ws)" by (rule ext) simp
  then show ?thesis using pk_contract_and [OF assms] by simp
qed

lemma pk_contract_when [pk_writes]:
  "(c \<Longrightarrow> pk_contract w bs) \<Longrightarrow> pk_contract (pk_when c w) (if c then bs else [])"
  by (auto simp: pk_when_def intro: pk_contract_done)

lemma pk_or_reject_eq:
  "pk_or_reject w p =
     (fst (w p), if fst (w p) then snd (w p) else (snd (w p))\<lparr>pk_failed := True\<rparr>)"
  by (cases "w p") (simp add: pk_or_reject_def pk_reject_def split: bool.split)

lemma pk_contract_or_reject [pk_writes]:
  assumes w: "pk_contract w bs"
  shows "pk_contract (pk_or_reject w) bs"
proof (rule pk_contractI)
  fix p assume ok: "pk_ok p"
  show "pk_ok (snd (pk_or_reject w p)) \<and> pk_capacity (snd (pk_or_reject w p)) = pk_capacity p"
    using pk_contract_bounds [OF w ok] by (simp add: pk_or_reject_eq pk_ok_def)
  show "pk_failed p \<Longrightarrow> pk_failed (snd (pk_or_reject w p))
          \<and> (bs \<noteq> [] \<longrightarrow> \<not> fst (pk_or_reject w p))"
    using pk_contract_failed [OF w ok] by (simp add: pk_or_reject_eq)
  show "\<not> pk_failed p \<Longrightarrow> length bs \<le> pk_room p
          \<Longrightarrow> pk_or_reject w p = (True, pk_append bs p)"
    using pk_contract_fits [OF w ok] by (simp add: pk_or_reject_eq)
  show "\<not> pk_failed p \<Longrightarrow> pk_room p < length bs
          \<Longrightarrow> \<not> fst (pk_or_reject w p) \<and> pk_failed (snd (pk_or_reject w p))"
    using pk_contract_overflow [OF w ok] by (simp add: pk_or_reject_eq)
qed

subsection \<open>Wire representations\<close>

text \<open>
  The bytes of the primitive fields, stated without a buffer: \<open>be_bytes n\<close> is the big-endian
  form on \<open>n\<close> bytes, \<open>leb_bytes\<close> the variable-length form.
\<close>

definition be_bytes :: "nat \<Rightarrow> 'a::len word \<Rightarrow> u8 list" where
  "be_bytes n w = map (\<lambda>index. ucast (drop_bit ((n - 1 - index) * 8) w)) [0..<n]"

lemma length_be_bytes [simp]: "length (be_bytes n w) = n"
  by (simp add: be_bytes_def)

function leb_bytes :: "'a::len word \<Rightarrow> u8 list" where
  "leb_bytes e =
     (if drop_bit 7 e = 0 then [ucast (e AND 0x7f)]
      else (ucast (e AND 0x7f) OR 0x80) # leb_bytes (drop_bit 7 e))"
  by pat_completeness auto
termination
  by (relation "measure unat") (auto simp: drop_bit_7_less)

declare leb_bytes.simps [simp del]

lemma leb_bytes_last: "drop_bit 7 e = 0 \<Longrightarrow> leb_bytes e = [ucast (e AND 0x7f)]"
  by (subst leb_bytes.simps) simp

lemma leb_bytes_more:
  "drop_bit 7 e \<noteq> 0 \<Longrightarrow> leb_bytes e = (ucast (e AND 0x7f) OR 0x80) # leb_bytes (drop_bit 7 e)"
  by (subst leb_bytes.simps) simp

lemma leb_bytes_nonempty [simp]: "leb_bytes e \<noteq> []"
  by (subst leb_bytes.simps) simp

definition varint_bytes :: "i32 \<Rightarrow> u8 list" where
  "varint_bytes v = leb_bytes (ucast v :: u32)"

definition varlong_bytes :: "i64 \<Rightarrow> u8 list" where
  "varlong_bytes v = leb_bytes (ucast v :: u64)"

definition bool_byte :: "bool \<Rightarrow> u8" where
  "bool_byte b = (if b then 1 else 0)"

definition string_bytes :: "u8 list \<Rightarrow> u8 list" where
  "string_bytes bs = varint_bytes (of_nat (length bs)) @ bs"

definition buffer_i32_bytes :: "u8 list \<Rightarrow> u8 list" where
  "buffer_i32_bytes bs = be_bytes 4 (of_nat (length bs) :: u32) @ bs"

lemma pk_contract_u8 [pk_writes]: "pk_contract (mc_packet_u8 v) [v]"
  unfolding mc_packet_u8_def by (rule pk_contract_bytes)

lemma pk_contract_bool [pk_writes]: "pk_contract (mc_packet_bool b) [bool_byte b]"
  using pk_contract_u8 [of "bool_byte b"] by (simp add: mc_packet_bool_def bool_byte_def)

lemma pk_contract_i8 [pk_writes]: "pk_contract (mc_packet_i8 v) [v]"
  using pk_contract_u8 [of v] by (simp add: mc_packet_i8_def)

lemma be_bytes_2: "be_bytes 2 w = [ucast (drop_bit 8 w), ucast w]"
  by (simp add: be_bytes_def upt_rec numeral_2_eq_2)

lemma pk_contract_u16 [pk_writes]: "pk_contract (mc_packet_u16 v) (be_bytes 2 v)"
  unfolding mc_packet_u16_def be_bytes_2 by (rule pk_contract_bytes)

lemma pk_contract_i16 [pk_writes]: "pk_contract (mc_packet_i16 v) (be_bytes 2 v)"
  using pk_contract_u16 [of v] by (simp add: mc_packet_i16_def)

lemma pk_contract_u32 [pk_writes]: "pk_contract (mc_packet_u32 v) (be_bytes 4 v)"
  using pk_contract_bytes [of "be_bytes 4 v"] by (simp add: mc_packet_u32_def be_bytes_def)

lemma pk_contract_i32 [pk_writes]: "pk_contract (mc_packet_i32 v) (be_bytes 4 v)"
  using pk_contract_u32 [of v] by (simp add: mc_packet_i32_def)

lemma pk_contract_u64 [pk_writes]: "pk_contract (mc_packet_u64 v) (be_bytes 8 v)"
  using pk_contract_bytes [of "be_bytes 8 v"] by (simp add: mc_packet_u64_def be_bytes_def)

lemma pk_contract_i64 [pk_writes]: "pk_contract (mc_packet_i64 v) (be_bytes 8 v)"
  using pk_contract_u64 [of v] by (simp add: mc_packet_i64_def)

lemma pk_contract_float [pk_writes]: "pk_contract (mc_packet_float v) (be_bytes 4 v)"
  unfolding mc_packet_float_def by (rule pk_contract_u32)

lemma pk_contract_double [pk_writes]: "pk_contract (mc_packet_double v) (be_bytes 8 v)"
  unfolding mc_packet_double_def by (rule pk_contract_u64)

lemma pk_varint_loop_eq:
  "pk_varint_loop e =
     (if drop_bit 7 e = 0 then mc_packet_u8 (ucast (e AND 0x7f))
      else pk_and (mc_packet_u8 (ucast (e AND 0x7f) OR 0x80)) (pk_varint_loop (drop_bit 7 e)))"
  by (rule ext, subst pk_varint_loop.simps) (auto simp: pk_and_def Let_def split: prod.split bool.split)

lemma pk_contract_varint_loop: "pk_contract (pk_varint_loop e) (leb_bytes e)"
proof (induction e rule: leb_bytes.induct)
  case (1 e)
  show ?case
  proof (cases "drop_bit 7 e = 0")
    case True
    then show ?thesis
      by (simp add: pk_varint_loop_eq [of e] leb_bytes_last pk_contract_u8)
  next
    case False
    with 1 have "pk_contract (pk_varint_loop (drop_bit 7 e)) (leb_bytes (drop_bit 7 e))" by simp
    from pk_contract_and [OF pk_contract_u8 this] False show ?thesis
      by (simp add: pk_varint_loop_eq [of e] leb_bytes_more)
  qed
qed

lemma pk_contract_varint [pk_writes]: "pk_contract (mc_packet_varint v) (varint_bytes v)"
  unfolding mc_packet_varint_def varint_bytes_def by (rule pk_contract_varint_loop)

lemma pk_contract_varlong [pk_writes]: "pk_contract (mc_packet_varlong v) (varlong_bytes v)"
  unfolding mc_packet_varlong_def varlong_bytes_def by (rule pk_contract_varint_loop)

lemma pk_contract_buffer_i32 [pk_writes]:
  "length bs \<le> INT32_MAX
     \<Longrightarrow> pk_contract (mc_packet_buffer_i32 (Buf bs)) (buffer_i32_bytes bs)"
  using pk_contract_and [OF pk_contract_i32 pk_contract_bytes]
  by (simp add: mc_packet_buffer_i32_def buffer_i32_bytes_def)

lemma pk_contract_buffer_varint [pk_writes]:
  "length bs \<le> INT32_MAX
     \<Longrightarrow> pk_contract (mc_packet_buffer_varint (Buf bs)) (string_bytes bs)"
  using pk_contract_and [OF pk_contract_varint pk_contract_bytes]
  by (simp add: mc_packet_buffer_varint_def string_bytes_def)

lemma pk_contract_string_n [pk_writes]:
  "length bs \<le> INT32_MAX
     \<Longrightarrow> pk_contract (mc_packet_string_n (Buf bs)) (string_bytes bs)"
  using pk_contract_and [OF pk_contract_or_reject [OF pk_contract_varint] pk_contract_bytes]
  by (simp add: mc_packet_string_n_def string_bytes_def)

lemma pk_contract_string [pk_writes]:
  "length bs \<le> INT32_MAX
     \<Longrightarrow> pk_contract (mc_packet_string (Some bs)) (string_bytes bs)"
  by (simp add: mc_packet_string_def pk_contract_string_n)

subsection \<open>Rejections\<close>

text \<open>A rejecting call fails, sets the failure bit and writes nothing.\<close>

definition pk_rejects :: "wr \<Rightarrow> bool" where
  "pk_rejects w \<longleftrightarrow> (\<forall>p. w p = (False, p\<lparr>pk_failed := True\<rparr>))"

lemma pk_rejects_reject [simp]: "pk_rejects pk_reject"
  by (simp add: pk_rejects_def pk_reject_def)

lemma pk_rejects_null_string: "pk_rejects (mc_packet_string None)"
  by (simp add: mc_packet_string_def)

lemma pk_rejects_large_buffer:
  "INT32_MAX < buf_size b \<Longrightarrow> pk_rejects (mc_packet_buffer_i32 b)"
  "INT32_MAX < buf_size b \<Longrightarrow> pk_rejects (mc_packet_buffer_varint b)"
  "INT32_MAX < buf_size b \<Longrightarrow> pk_rejects (mc_packet_string_n b)"
  by (simp_all add: mc_packet_buffer_i32_def mc_packet_buffer_varint_def mc_packet_string_n_def)

end
