(* ===== verification/Codec.thy ===== *)
theory Codec
  imports Reader_Laws Writer
begin

text \<open>
  Writers against readers. \<open>rd_parses m bs x\<close> says that a live reader in front of the bytes \<open>bs\<close>
  reads \<open>x\<close> and moves past them. The locale \<open>wire_codec\<close> is the contract of a writer and a reader
  of one field; it gives the round trip through a buffer, the prefix-freeness of the wire form
  and the rejection of every truncation. \<open>canonical_codec\<close> adds that a strict reader accepts only
  the bytes the writer produces. Both are interpreted on the primitive fields.
\<close>

definition rd_advance :: "nat \<Rightarrow> mc_reader \<Rightarrow> mc_reader" where
  "rd_advance n r = r\<lparr>rd_offset := rd_offset r + n\<rparr>"

definition rd_parses :: "'a rd \<Rightarrow> u8 list \<Rightarrow> 'a \<Rightarrow> bool" where
  "rd_parses m bs x \<longleftrightarrow>
     (\<forall>r rest. \<not> rd_failed r \<and> rd_ok r \<and> drop (rd_offset r) (rd_data r) = bs @ rest
        \<longrightarrow> m r = (Some x, rd_advance (length bs) r))"

lemma rd_advance_simps [simp]:
  "rd_data (rd_advance n r) = rd_data r" "rd_offset (rd_advance n r) = rd_offset r + n"
  "rd_failed (rd_advance n r) = rd_failed r" "rd_mode (rd_advance n r) = rd_mode r"
  "rd_error (rd_advance n r) = rd_error r"
  "rd_advance m (rd_advance n r) = rd_advance (n + m) r" "rd_advance 0 r = r"
  by (simp_all add: rd_advance_def ac_simps)

lemma rd_parsesI:
  "(\<And>r rest. \<not> rd_failed r \<Longrightarrow> rd_ok r \<Longrightarrow> drop (rd_offset r) (rd_data r) = bs @ rest
      \<Longrightarrow> m r = (Some x, rd_advance (length bs) r)) \<Longrightarrow> rd_parses m bs x"
  by (simp add: rd_parses_def)

lemma rd_parsesD:
  "rd_parses m bs x \<Longrightarrow> \<not> rd_failed r \<Longrightarrow> rd_ok r \<Longrightarrow> drop (rd_offset r) (rd_data r) = bs @ rest
     \<Longrightarrow> m r = (Some x, rd_advance (length bs) r)"
  by (simp add: rd_parses_def)

lemma rd_ok_advance:
  "rd_ok r \<Longrightarrow> drop (rd_offset r) (rd_data r) = bs @ rest \<Longrightarrow> rd_ok (rd_advance (length bs) r)"
  by (simp add: rd_ok_def drop_append_bound)

lemma drop_advance:
  "drop (rd_offset r) (rd_data r) = bs @ cs
     \<Longrightarrow> drop (rd_offset (rd_advance (length bs) r)) (rd_data (rd_advance (length bs) r)) = cs"
  by (simp add: drop_append_length)

lemma parses_return [rd_parses]: "rd_parses (rd_return x) [] x"
  by (rule rd_parsesI) (simp add: rd_return_def)

lemma parses_bind:
  assumes m: "rd_parses m bs x" and f: "rd_parses (f x) cs y"
  shows "rd_parses (rd_bind m f) (bs @ cs) y"
proof (rule rd_parsesI)
  fix r rest
  assume live: "\<not> rd_failed r" and ok: "rd_ok r"
    and d: "drop (rd_offset r) (rd_data r) = (bs @ cs) @ rest"
  from d have d': "drop (rd_offset r) (rd_data r) = bs @ (cs @ rest)" by simp
  have 1: "m r = (Some x, rd_advance (length bs) r)" by (rule rd_parsesD [OF m live ok d'])
  have 2: "f x (rd_advance (length bs) r) = (Some y, rd_advance (length cs) (rd_advance (length bs) r))"
    by (rule rd_parsesD [OF f _ rd_ok_advance [OF ok d'] drop_advance [OF d']]) (simp add: live)
  show "rd_bind m f r = (Some y, rd_advance (length (bs @ cs)) r)"
    by (simp add: rd_bind_def 1 2)
qed

text \<open>A read followed by operations that consume nothing.\<close>

lemma parses_bind_nil:
  "rd_parses m bs x \<Longrightarrow> rd_parses (f x) [] y \<Longrightarrow> rd_parses (rd_bind m f) bs y"
  using parses_bind [of m bs x f "[]" y] by simp

lemma parses_orelse: "rd_parses m bs x \<Longrightarrow> rd_parses (rd_orelse m h) bs x"
  by (simp add: rd_parses_def rd_orelse_def)

lemma parses_test: "c \<Longrightarrow> rd_parses (rd_test c) [] ()"
  by (rule rd_parsesI) (simp add: rd_test_def)

lemma parses_here: "(\<And>off. rd_parses (f off) bs x) \<Longrightarrow> rd_parses (rd_here f) bs x"
  by (simp add: rd_parses_def rd_here_def)

lemma parses_strict: "(\<And>s. rd_parses (f s) bs x) \<Longrightarrow> rd_parses (rd_strict f) bs x"
  by (simp add: rd_parses_def rd_strict_def)

lemma parses_capture:
  assumes "rd_parses m bs x"
  shows "rd_parses (rd_capture m) bs (x, bs)"
  using assms by (auto simp: rd_parses_def rd_capture_def)

lemma parses_bytes: "rd_parses (mc_reader_bytes (length bs)) bs bs"
proof (rule rd_parsesI)
  fix r rest
  assume a: "\<not> rd_failed r" "rd_ok r" "drop (rd_offset r) (rd_data r) = bs @ rest"
  then have "rd_offset r + length bs \<le> rd_size r"
    by (intro drop_append_bound) (auto simp: rd_ok_def)
  then have "\<not> rd_size r - rd_offset r < length bs" by simp
  with a show "mc_reader_bytes (length bs) r = (Some bs, rd_advance (length bs) r)"
    by (simp add: mc_reader_bytes_def rd_advance_def rd_ok_def)
qed

subsection \<open>The contract of a field\<close>

text \<open>A writer over an empty buffer of a given capacity, and a reader over given bytes.\<close>

abbreviation fresh_packet :: "nat \<Rightarrow> mc_packet" where
  "fresh_packet cap \<equiv> \<lparr>pk_buf = [], pk_capacity = cap, pk_failed = False\<rparr>"

definition valid_mode :: "mc_decode_mode \<Rightarrow> bool" where
  "valid_mode mode \<longleftrightarrow> mode = MC_DECODE_VANILLA_COMPAT \<or> mode = MC_DECODE_STRICT"

lemma mc_packet_init_fresh: "length xs = cap \<Longrightarrow> mc_packet_init (Buf xs) = fresh_packet cap"
  by (simp add: mc_packet_init_def)

lemma mc_reader_init_mode_fields:
  assumes "valid_mode mode"
  shows "rd_data (mc_reader_init_mode (Buf bs) mode e) = bs"
    "rd_offset (mc_reader_init_mode (Buf bs) mode e) = 0"
    "\<not> rd_failed (mc_reader_init_mode (Buf bs) mode e)"
    "rd_mode (mc_reader_init_mode (Buf bs) mode e) = mode"
    "rd_ok (mc_reader_init_mode (Buf bs) mode e)"
    "rd_error (mc_reader_init_mode (Buf bs) mode e) = map_option (\<lambda>_. mc_error_clear) e"
  using assms by (auto simp: mc_reader_init_mode_def valid_mode_def Let_def rd_ok_def)

locale wire_codec = get: field_reader get for get :: "'a rd" +
  fixes put :: "'a \<Rightarrow> wr" and wire :: "'a \<Rightarrow> u8 list" and valid :: "'a \<Rightarrow> bool"
  assumes put_wire: "valid x \<Longrightarrow> pk_contract (put x) (wire x)"
    and get_wire: "valid x \<Longrightarrow> rd_parses get (wire x) x"
begin

text \<open>What fits is written and read back, in either mode, to the last byte.\<close>

lemma round_trip:
  assumes v: "valid x" and fits: "length (wire x) \<le> cap" and mode: "valid_mode mode"
  shows "\<exists>p r. put x (fresh_packet cap) = (True, p) \<and> pk_buf p = wire x \<and> \<not> pk_failed p
           \<and> get (mc_reader_init_mode (Buf (pk_buf p)) mode e) = (Some x, r)
           \<and> mc_reader_finish r = (Some (), r)"
proof -
  let ?r = "mc_reader_init_mode (Buf (wire x)) mode e"
  have "put x (fresh_packet cap) = (True, pk_append (wire x) (fresh_packet cap))"
    using fits by (intro pk_contract_fits [OF put_wire [OF v]]) (auto simp: pk_ok_def pk_room_def)
  moreover have "get ?r = (Some x, rd_advance (length (wire x)) ?r)"
    by (rule rd_parsesD [OF get_wire [OF v], of _ "[]"]) (simp_all add: mc_reader_init_mode_fields [OF mode])
  ultimately show ?thesis
    by (auto simp: mc_reader_finish_def mc_reader_init_mode_fields [OF mode])
qed

text \<open>What does not fit is not written as something shorter.\<close>

lemma overflow_fails:
  assumes "valid x" and "cap < length (wire x)"
  shows "\<not> fst (put x (fresh_packet cap)) \<and> pk_failed (snd (put x (fresh_packet cap)))"
  using assms by (intro pk_contract_overflow [OF put_wire]) (auto simp: pk_ok_def pk_room_def)

lemma prefix_free:
  assumes x: "valid x" and y: "valid y" and eq: "wire x @ s = wire y @ t"
  shows "x = y \<and> s = t"
proof -
  let ?r = "mc_reader_init_mode (Buf (wire x @ s)) MC_DECODE_STRICT None"
  note f = mc_reader_init_mode_fields [of MC_DECODE_STRICT]
  have "get ?r = (Some x, rd_advance (length (wire x)) ?r)"
    by (rule rd_parsesD [OF get_wire [OF x], of _ s]) (simp_all add: f valid_mode_def)
  moreover have "get ?r = (Some y, rd_advance (length (wire y)) ?r)"
    by (rule rd_parsesD [OF get_wire [OF y], of _ t]) (simp_all add: f valid_mode_def eq)
  ultimately show ?thesis using eq by simp
qed

text \<open>A proper prefix of a field is never read as that field or as any other.\<close>

lemma truncation_fails:
  assumes v: "valid x" and cut: "wire x = front @ rear" and ne: "rear \<noteq> []" and mode: "valid_mode mode"
  shows "fst (get (mc_reader_init_mode (Buf front) mode e)) = None
         \<and> rd_failed (snd (get (mc_reader_init_mode (Buf front) mode e)))"
proof -
  let ?r = "mc_reader_init_mode (Buf front) mode e"
  note f = mc_reader_init_mode_fields [OF mode, of front e]
  have "fst (get ?r) = None"
  proof (rule ccontr)
    assume "fst (get ?r) \<noteq> None"
    then obtain y r' where run: "get ?r = (Some y, r')" by (cases "get ?r") auto
    have 1: "get (rd_extend rear ?r) = (Some y, rd_extend rear r')"
      by (rule get.op_extend [OF f(5) run])
    have 2: "get (rd_extend rear ?r) = (Some x, rd_advance (length (wire x)) (rd_extend rear ?r))"
      by (rule rd_parsesD [OF get_wire [OF v], of _ "[]"]) (simp_all add: f cut)
    from 1 2 have "rd_offset r' = length (wire x)"
      by (metis Pair_inject f(2) rd_advance_simps(2) rd_extend_simps(2) add_0)
    moreover have "rd_offset r' \<le> length front"
      using get.never_reads_past_end [OF f(5)] run by (simp add: f)
    ultimately show False using cut ne by simp
  qed
  then show ?thesis using get.op_none by blast
qed

end

locale canonical_codec = wire_codec +
  assumes get_canonical: "rd_ok r \<Longrightarrow> rd_mode r = MC_DECODE_STRICT \<Longrightarrow> get r = (Some x, r')
      \<Longrightarrow> valid x \<and> take (rd_offset r' - rd_offset r) (drop (rd_offset r) (rd_data r)) = wire x"
begin

text \<open>A strict reader accepts one spelling of each value.\<close>

lemma strict_unique:
  assumes a: "get (mc_reader_init_mode (Buf bs) MC_DECODE_STRICT e) = (Some x, r)"
    and b: "get (mc_reader_init_mode (Buf cs) MC_DECODE_STRICT e) = (Some x, s)"
    and fa: "rd_offset r = length bs" and fb: "rd_offset s = length cs"
  shows "bs = cs"
proof -
  note f = mc_reader_init_mode_fields [of MC_DECODE_STRICT]
  have "bs = wire x"
    using get_canonical [OF _ _ a] fa by (simp add: f valid_mode_def)
  moreover have "cs = wire x"
    using get_canonical [OF _ _ b] fb by (simp add: f valid_mode_def)
  ultimately show ?thesis by simp
qed

end

end
