(* ===== verification/Primitives.thy ===== *)
theory Primitives
  imports Codec
begin

text \<open>
  The primitive fields as codecs: big-endian integers, booleans and the variable-length integers
  with their length-prefixed buffers and strings.
\<close>

subsection \<open>Big-endian integers\<close>

lemma be_fold_snoc: "be_fold (bs @ [b]) = push_bit 8 (be_fold bs) OR ucast b"
  by (simp add: be_fold_def)

lemma bit_be_fold:
  "bit (be_fold bs :: 'a::len word) i \<longleftrightarrow>
     i < LENGTH('a) \<and> i < 8 * length bs \<and> bit (bs ! (length bs - 1 - i div 8)) (i mod 8)"
proof (induction bs arbitrary: i rule: rev_induct)
  case Nil
  then show ?case by (simp add: be_fold_def)
next
  case (snoc b bs)
  show ?case
  proof (cases "i < 8")
    case True
    then show ?thesis
      by (simp add: be_fold_snoc bit_simps nth_append)
  next
    case False
    then obtain j where j: "i = j + 8" by (metis add.commute le_Suc_ex not_less)
    have "\<not> bit b i" using False by (simp add: bit_word.rep_eq)
    moreover have "(j + 8) div 8 = Suc (j div 8)" by simp
    ultimately show ?thesis
      using snoc.IH [of j] by (auto simp: be_fold_snoc bit_simps j nth_append)
  qed
qed

lemma be_fold_be_bytes:
  fixes w :: "'a::len word"
  assumes "LENGTH('a) = 8 * n"
  shows "be_fold (be_bytes n w) = w"
proof (rule bit_word_eqI)
  fix i assume i: "i < LENGTH('a)"
  then have "i div 8 < n" using assms by (simp add: div_less_iff_less_mult mult.commute)
  then have "be_bytes n w ! (n - 1 - i div 8) = ucast (drop_bit (i div 8 * 8) w)"
    by (simp add: be_bytes_def)
  then show "bit (be_fold (be_bytes n w) :: 'a word) i = bit w i"
    using i assms \<open>i div 8 < n\<close> by (simp add: bit_be_fold bit_simps)
qed

lemma be_bytes_be_fold:
  assumes "8 * length bs \<le> LENGTH('a::len)"
  shows "be_bytes (length bs) (be_fold bs :: 'a word) = bs"
proof (rule nth_equalityI)
  fix k assume "k < length (be_bytes (length bs) (be_fold bs :: 'a word))"
  then have k: "k < length bs" by simp
  show "be_bytes (length bs) (be_fold bs :: 'a word) ! k = bs ! k"
  proof (rule bit_word_eqI)
    fix b assume b: "b < LENGTH(8)"
    define j where "j = length bs - 1 - k"
    have j: "j < length bs" "length bs - 1 - j = k" using k by (auto simp: j_def)
    have "j * 8 + b < 8 * length bs" using b j by simp
    moreover have "(j * 8 + b) div 8 = j" "(j * 8 + b) mod 8 = b" using b by simp_all
    ultimately have "bit (be_fold bs :: 'a word) (j * 8 + b) = bit (bs ! k) b"
      using assms j by (simp add: bit_be_fold)
    then show "bit (be_bytes (length bs) (be_fold bs :: 'a word) ! k) b = bit (bs ! k) b"
      using k b by (simp add: be_bytes_def bit_simps j_def)
  qed
qed simp

lemma parses_u8 [rd_parses]: "rd_parses mc_reader_u8 [v] v"
  unfolding mc_reader_u8_def
  using parses_bytes [of "[v]"] by (intro parses_bind_nil) (auto intro: parses_return)

lemma parses_be:
  fixes w :: "'a::len word"
  assumes "LENGTH('a) = 8 * n"
  shows "rd_parses (rd_bind (mc_reader_bytes n) (\<lambda>bytes. rd_return (be_fold bytes :: 'a word)))
           (be_bytes n w) w"
proof (rule parses_bind_nil)
  show "rd_parses (mc_reader_bytes n) (be_bytes n w) (be_bytes n w)"
    using parses_bytes [of "be_bytes n w"] by simp
  show "rd_parses (rd_return (be_fold (be_bytes n w) :: 'a word)) [] w"
    by (simp add: be_fold_be_bytes [OF assms] parses_return)
qed

lemma mc_reader_bytes_success:
  "mc_reader_bytes n r = (Some bs, r') \<Longrightarrow>
     \<not> rd_failed r \<and> rd_offset r + n \<le> rd_size r \<and> bs = take n (drop (rd_offset r) (rd_data r))
     \<and> length bs = n \<and> r' = rd_advance n r"
  by (auto simp: mc_reader_bytes_def reader_fail_def rd_advance_def split: if_splits)

lemma u16_be_fold: "mc_reader_u16 = rd_bind (mc_reader_bytes 2) (\<lambda>bytes. rd_return (be_fold bytes))"
proof (rule ext)
  fix r
  have *: "push_bit 8 (ucast (bs ! 0)) OR ucast (bs ! 1) = (be_fold bs :: u16)"
    if "length bs = 2" for bs :: "u8 list"
    using that by (cases bs; cases "tl bs") (auto simp: be_fold_def)
  show "mc_reader_u16 r = rd_bind (mc_reader_bytes 2) (\<lambda>bytes. rd_return (be_fold bytes)) r"
  proof (cases "fst (mc_reader_bytes 2 r)")
    case None
    then show ?thesis by (simp add: mc_reader_u16_def rd_bind_cases)
  next
    case (Some bs)
    then have "mc_reader_bytes 2 r = (Some bs, snd (mc_reader_bytes 2 r))" by (simp add: prod_eq_iff)
    then have "length bs = 2" using mc_reader_bytes_success by blast
    with Some show ?thesis by (simp add: mc_reader_u16_def rd_bind_cases * [unfolded One_nat_def])
  qed
qed

lemma parses_u16 [rd_parses]: "rd_parses mc_reader_u16 (be_bytes 2 v) v"
  unfolding u16_be_fold by (rule parses_be) simp

lemma parses_u32 [rd_parses]: "rd_parses mc_reader_u32 (be_bytes 4 v) v"
  unfolding mc_reader_u32_def by (rule parses_be) simp

lemma parses_u64 [rd_parses]: "rd_parses mc_reader_u64 (be_bytes 8 v) v"
  unfolding mc_reader_u64_def by (rule parses_be) simp

lemma parses_same_width [rd_parses]:
  "rd_parses mc_reader_i8 [v1] v1" "rd_parses mc_reader_i16 (be_bytes 2 v2) v2"
  "rd_parses mc_reader_i32 (be_bytes 4 v4) v4" "rd_parses mc_reader_i64 (be_bytes 8 v8) v8"
  "rd_parses mc_reader_float (be_bytes 4 v4) v4" "rd_parses mc_reader_double (be_bytes 8 v8) v8"
  unfolding mc_reader_i8_def mc_reader_i16_def mc_reader_i32_def mc_reader_i64_def
    mc_reader_float_def mc_reader_double_def
  using parses_return [of v1] parses_return [of v2] parses_return [of v4] parses_return [of v8]
  by (auto intro: parses_bind_nil [OF parses_u8] parses_bind_nil [OF parses_u16]
      parses_bind_nil [OF parses_u32] parses_bind_nil [OF parses_u64])

lemma parses_bool [rd_parses]: "rd_parses mc_reader_bool [bool_byte b] b"
proof -
  have "\<not> bool_byte b > 1" "(bool_byte b \<noteq> 0) = b" by (auto simp: bool_byte_def)
  then show ?thesis
    unfolding mc_reader_bool_def
    by (intro parses_bind_nil [OF parses_u8] parses_strict parses_here) (simp add: parses_return)
qed

subsection \<open>Variable-length integers\<close>

lemma leb_size_last: "drop_bit 7 e = 0 \<Longrightarrow> leb_size e = 1"
  by (subst leb_size.simps) simp

lemma leb_size_more: "drop_bit 7 e \<noteq> 0 \<Longrightarrow> leb_size e = Suc (leb_size (drop_bit 7 e))"
  by (subst leb_size.simps) simp

lemma leb_size_pos: "0 < leb_size e"
  by (subst leb_size.simps) simp

lemma length_leb_bytes: "length (leb_bytes e) = leb_size e"
  by (induction e rule: leb_bytes.induct)
    (metis leb_bytes_last leb_bytes_more leb_size_last leb_size_more length_Cons length_0_conv
      One_nat_def)

text \<open>A value with no bits from \<open>7 * n\<close> on takes at most \<open>n\<close> bytes.\<close>

lemma leb_size_le:
  "0 < n \<Longrightarrow> drop_bit (7 * n) e = 0 \<Longrightarrow> leb_size e \<le> n"
proof (induction n arbitrary: e)
  case (Suc n)
  show ?case
  proof (cases "drop_bit 7 e = 0")
    case True
    then show ?thesis by (simp add: leb_size_last)
  next
    case False
    have "drop_bit (7 * n) (drop_bit 7 e) = 0"
      using Suc.prems by (simp add: add.commute)
    moreover from False this have "0 < n" by (cases n) auto
    ultimately show ?thesis using Suc.IH [of "drop_bit 7 e"] False by (simp add: leb_size_more)
  qed
qed simp

lemma drop_bit_width: "LENGTH('a) \<le> n \<Longrightarrow> drop_bit n (w :: 'a::len word) = 0"
  by (rule bit_word_eqI) (simp add: bit_simps)

lemma leb_size_u32: "leb_size (e :: u32) \<le> 5"
  by (rule leb_size_le) (simp_all add: drop_bit_width)

lemma leb_size_u64: "leb_size (e :: u64) \<le> 10"
  by (rule leb_size_le) (simp_all add: drop_bit_width)

lemma leb_low: "ucast (ucast (e AND 0x7f) :: u8) = (e AND 0x7f :: 'a::len word)"
  by (rule bit_word_eqI) (auto simp: bit_simps)

lemma leb_byte_bits:
  "(ucast (e AND 0x7f) :: u8) AND 0x80 = 0"
  "((ucast (e AND 0x7f) :: u8) OR 0x80) AND 0x80 \<noteq> 0"
  "((ucast (e AND 0x7f) :: u8) OR 0x80) AND 0x7f = ucast (e AND 0x7f)"
  "(ucast (e AND 0x7f) :: u8) AND 0x7f = ucast (e AND 0x7f)"
  for e :: "'a::len word"
proof -
  show "(ucast (e AND 0x7f) :: u8) AND 0x80 = 0"
    by (rule bit_word_eqI) (auto simp: bit_simps)
  show "((ucast (e AND 0x7f) :: u8) OR 0x80) AND 0x7f = ucast (e AND 0x7f)"
    by (rule bit_word_eqI) (auto simp: bit_simps)
  show "(ucast (e AND 0x7f) :: u8) AND 0x7f = ucast (e AND 0x7f)"
    by (rule bit_word_eqI) (auto simp: bit_simps)
  have "bit (((ucast (e AND 0x7f) :: u8) OR 0x80) AND 0x80) 7" by (simp add: bit_simps)
  then show "((ucast (e AND 0x7f) :: u8) OR 0x80) AND 0x80 \<noteq> 0" by (metis bit_0_eq bot_apply bot_bool_def)
qed

text \<open>
  Reading back: the loop at \<open>index\<close> with the accumulated bits \<open>acc\<close> adds the value \<open>e\<close> from bit
  \<open>7 * index\<close> on. The last two hypotheses are that the bytes fit in the loop's limit and that
  the strict test sees the canonical length.
\<close>

lemma varint_value_step:
  "(acc OR push_bit (index * 7) (e AND 0x7f)) OR push_bit ((index + 1) * 7) (drop_bit 7 e)
     = acc OR push_bit (index * 7) (e :: 'a::len word)"
proof (rule bit_word_eqI)
  fix n assume n: "n < LENGTH('a)"
  show "bit ((acc OR push_bit (index * 7) (e AND 0x7f)) OR push_bit ((index + 1) * 7) (drop_bit 7 e)) n
          = bit (acc OR push_bit (index * 7) e) n"
  proof (cases "index * 7 + 7 \<le> n")
    case True
    then have "7 + (n - (7 + index * 7)) = n - index * 7" by simp
    with True n show ?thesis by (auto simp: bit_simps)
  next
    case False
    with n show ?thesis by (auto simp: bit_simps)
  qed
qed

lemma leb_low_all:
  fixes e :: "'a::len word"
  assumes "drop_bit 7 e = 0"
  shows "e AND 0x7f = e"
proof (rule bit_word_eqI)
  fix n assume "n < LENGTH('a)"
  moreover have "\<not> bit e n" if "7 \<le> n"
  proof -
    have "bit (drop_bit 7 e) (n - 7) = bit e n" using that by (simp add: bit_drop_bit_eq)
    then show ?thesis using assms by simp
  qed
  ultimately show "bit (e AND 0x7f) n = bit e n" by (cases "7 \<le> n") (auto simp: bit_simps)
qed

lemma parses_varint_loop:
  "index + leb_size e \<le> limit
     \<Longrightarrow> (index + leb_size e = limit \<longrightarrow> last (leb_bytes e) AND spare = 0)
     \<Longrightarrow> leb_size (acc OR push_bit (index * 7) e) = index + leb_size e
     \<Longrightarrow> rd_parses (rd_varint_loop limit spare index acc) (leb_bytes e)
           (acc OR push_bit (index * 7) e)"
proof (induction e arbitrary: index acc rule: leb_bytes.induct)
  case (1 e)
  let ?low = "ucast (e AND 0x7f) :: u8"
  let ?acc = "acc OR push_bit (index * 7) (e AND 0x7f)"
  have idx: "index < limit" using "1.prems"(1) leb_size_pos [of e] by simp
  show ?case
  proof (cases "drop_bit 7 e = 0")
    case True
    define low where "low = ?low"
    have low: "low AND 0x80 = 0" "ucast (low AND 0x7f) = e" "leb_bytes e = [low]"
      using leb_byte_bits(1,4) [of e] leb_low [of e]
      by (simp_all only: low_def leb_low_all [OF True] leb_bytes_last [OF True])
    have "\<not> (index = limit - 1 \<and> low AND spare \<noteq> 0)"
      using "1.prems"(2) idx by (auto simp: low leb_size_last [OF True])
    moreover have "leb_size (acc OR push_bit (index * 7) e) = index + 1"
      using "1.prems"(3) by (simp add: leb_size_last [OF True])
    ultimately show ?thesis
      unfolding low(3) rd_varint_loop.simps [of limit spare index acc] if_P [OF idx]
      by (intro parses_bind_nil [OF parses_u8] parses_here parses_strict)
        (auto simp: low Let_def parses_return)
  next
    case False
    let ?byte = "?low OR 0x80"
    have size: "leb_size e = Suc (leb_size (drop_bit 7 e))" by (rule leb_size_more [OF False])
    have ni: "index \<noteq> limit - 1"
      using "1.prems"(1) leb_size_pos [of "drop_bit 7 e"] size by simp
    have total: "?acc OR push_bit ((index + 1) * 7) (drop_bit 7 e) = acc OR push_bit (index * 7) e"
      by (rule varint_value_step)
    have rec: "rd_parses (rd_varint_loop limit spare (index + 1) ?acc) (leb_bytes (drop_bit 7 e))
                 (acc OR push_bit (index * 7) e)"
      using "1.IH" [OF False, of "index + 1" ?acc] "1.prems"
      by (simp only: total size leb_bytes_more [OF False]) simp
    define byte where "byte = ?byte"
    have byte: "byte AND 0x80 \<noteq> 0" "ucast (byte AND 0x7f) = e AND 0x7f"
      using leb_byte_bits(2,3) [of e] leb_low [of e] by (simp_all only: byte_def not_False_eq_True)
    have "rd_parses (rd_varint_loop limit spare index acc) ([byte] @ leb_bytes (drop_bit 7 e))
            (acc OR push_bit (index * 7) e)"
      unfolding rd_varint_loop.simps [of limit spare index acc] if_P [OF idx]
      by (intro parses_bind [OF parses_u8] parses_here parses_strict)
        (use ni rec in \<open>simp add: byte Let_def\<close>)
    then show ?thesis by (simp add: leb_bytes_more [OF False] byte_def)
  qed
qed

lemma last_leb_bytes:
  "last (leb_bytes e) = ucast (drop_bit (7 * (leb_size e - 1)) e AND 0x7f)"
proof (induction e rule: leb_bytes.induct)
  case (1 e)
  show ?case
  proof (cases "drop_bit 7 e = 0")
    case True
    then show ?thesis by (simp add: leb_bytes_last leb_size_last)
  next
    case False
    have "7 * (leb_size (drop_bit 7 e) - 1) + 7 = 7 * (leb_size e - 1)"
      using leb_size_pos [of "drop_bit 7 e"] by (simp add: leb_size_more [OF False])
    with 1 [OF False] show ?thesis by (simp add: leb_bytes_more [OF False])
  qed
qed

lemma parses_varint [rd_parses]: "rd_parses mc_reader_varint (varint_bytes v) v"
proof -
  have "last (leb_bytes v) AND 0xf0 = 0" if "leb_size v = 5"
    by (rule bit_word_eqI) (auto simp: last_leb_bytes that bit_simps dest: bit_imp_le_length)
  then have "rd_parses (rd_varint_loop 5 0xf0 0 (0 :: u32)) (leb_bytes v) (0 OR push_bit (0 * 7) v)"
    using leb_size_u32 [of v] by (intro parses_varint_loop) auto
  then show ?thesis
    unfolding mc_reader_varint_def varint_bytes_def
    by (intro parses_bind_nil [of _ _ v]) (simp_all add: parses_return)
qed

lemma parses_varlong [rd_parses]: "rd_parses mc_reader_varlong (varlong_bytes v) v"
proof -
  have "last (leb_bytes v) AND 0xfe = 0" if "leb_size v = 10"
    by (rule bit_word_eqI) (auto simp: last_leb_bytes that bit_simps dest: bit_imp_le_length)
  then have "rd_parses (rd_varint_loop 10 0xfe 0 (0 :: u64)) (leb_bytes v) (0 OR push_bit (0 * 7) v)"
    using leb_size_u64 [of v] by (intro parses_varint_loop) auto
  then show ?thesis
    unfolding mc_reader_varlong_def varlong_bytes_def
    by (intro parses_bind_nil [of _ _ v]) (simp_all add: parses_return)
qed

lemma varint_bytes_length: "0 < length (varint_bytes v)" "length (varint_bytes v) \<le> 5"
  using leb_size_pos [of v] leb_size_u32 [of v] by (simp_all add: varint_bytes_def length_leb_bytes)

lemma varlong_bytes_length: "0 < length (varlong_bytes v)" "length (varlong_bytes v) \<le> 10"
  using leb_size_pos [of v] leb_size_u64 [of v] by (simp_all add: varlong_bytes_def length_leb_bytes)

subsection \<open>Length-prefixed buffers\<close>

lemma length_word:
  assumes "n \<le> INT32_MAX"
  shows "unat (of_nat n :: u32) = n" "\<not> sint (of_nat n :: u32) < 0"
proof -
  have "n < 2 ^ 31" using assms by (simp add: INT32_MAX_def)
  then show "unat (of_nat n :: u32) = n"
    by (simp add: unat_of_nat)
  with \<open>n < 2 ^ 31\<close> have "sint (of_nat n :: u32) = int n"
    by (simp add: sint_uint signed_take_bit_int_eq_self uint_nat)
  then show "\<not> sint (of_nat n :: u32) < 0" by simp
qed

lemma parses_buffer_i32 [rd_parses]:
  assumes "length bs \<le> INT32_MAX"
  shows "rd_parses mc_reader_buffer_i32 (buffer_i32_bytes bs) bs"
  unfolding mc_reader_buffer_i32_def buffer_i32_bytes_def
  by (rule parses_bind [OF parses_same_width(3)], rule parses_here)
    (simp add: length_word [OF assms] parses_bytes)

lemma parses_buffer_varint [rd_parses]:
  assumes "length bs \<le> INT32_MAX"
  shows "rd_parses mc_reader_buffer_varint (string_bytes bs) bs"
  unfolding mc_reader_buffer_varint_def string_bytes_def
  by (rule parses_here, rule parses_bind [OF parses_varint])
    (simp add: length_word [OF assms] parses_bytes)

lemma parses_string_bounded [rd_parses]:
  assumes "length bs \<le> INT32_MAX" and "length bs \<le> n"
  shows "rd_parses (mc_reader_string_bounded n) (string_bytes bs) bs"
  unfolding mc_reader_string_bounded_def string_bytes_def
  using assms(2)
  by (intro parses_here parses_bind [OF parses_varint])
    (simp add: length_word [OF assms(1)] parses_bytes)

lemma parses_string [rd_parses]:
  "length bs \<le> MC_DEFAULT_MAX_STRING_BYTES \<Longrightarrow> rd_parses mc_reader_string (string_bytes bs) bs"
  unfolding mc_reader_string_def
  by (rule parses_string_bounded) (simp_all add: MC_DEFAULT_MAX_STRING_BYTES_def INT32_MAX_def)

subsection \<open>What the loop accepts\<close>

text \<open>
  \<open>leb_pad k e\<close> spells \<open>e\<close> on exactly \<open>k\<close> bytes, padded with zero groups: the lenient reader
  accepts each of these, the strict one only the shortest.
\<close>

fun leb_pad :: "nat \<Rightarrow> 'a::len word \<Rightarrow> u8 list" where
  "leb_pad 0 e = []"
| "leb_pad (Suc 0) e = [ucast (e AND 0x7f)]"
| "leb_pad (Suc (Suc k)) e = (ucast (e AND 0x7f) OR 0x80) # leb_pad (Suc k) (drop_bit 7 e)"

lemma length_leb_pad [simp]: "length (leb_pad k e) = k"
  by (induction k e rule: leb_pad.induct) simp_all

lemma leb_pad_canonical: "leb_pad (leb_size e) e = leb_bytes e"
proof (induction e rule: leb_bytes.induct)
  case (1 e)
  show ?case
  proof (cases "drop_bit 7 e = 0")
    case True
    then show ?thesis by (simp add: leb_size_last leb_bytes_last)
  next
    case False
    obtain k where "leb_size (drop_bit 7 e) = Suc k"
      using leb_size_pos [of "drop_bit 7 e"] by (metis Suc_pred)
    with 1 [OF False] False show ?thesis by (simp add: leb_size_more leb_bytes_more)
  qed
qed

lemma mc_reader_u8_success:
  "mc_reader_u8 r = (Some b, r') \<Longrightarrow>
     \<not> rd_failed r \<and> rd_offset r < rd_size r \<and> b = rd_data r ! rd_offset r \<and> r' = rd_advance 1 r"
  by (auto simp: mc_reader_u8_def rd_bind_def rd_return_def split: prod.splits option.splits
      dest!: mc_reader_bytes_success)

text \<open>The bits a byte contributes, once the spare bits of the last byte are known to be zero.\<close>

definition leb_fits :: "nat \<Rightarrow> 'a::len word \<Rightarrow> bool" where
  "leb_fits index e \<longleftrightarrow> (\<forall>n. bit e n \<longrightarrow> n + 7 * index < LENGTH('a))"

lemma leb_byte_split:
  fixes b :: u8
  shows "b AND 0x80 = 0 \<Longrightarrow> b = b AND 0x7f" and "b AND 0x80 \<noteq> 0 \<Longrightarrow> b = (b AND 0x7f) OR 0x80"
proof -
  have cover: "(b AND 0x7f) OR (b AND 0x80) = b"
    by (rule bit_word_eqI) (auto simp: bit_simps)
  then show "b AND 0x80 = 0 \<Longrightarrow> b = b AND 0x7f" by (metis or.right_neutral)
  assume "b AND 0x80 \<noteq> 0"
  have "bit b 7"
  proof (rule ccontr)
    assume "\<not> bit b 7"
    then have "b AND 0x80 = 0" by (intro bit_word_eqI) (auto simp: bit_simps)
    with \<open>b AND 0x80 \<noteq> 0\<close> show False ..
  qed
  then have "b AND 0x80 = 0x80" by (intro bit_word_eqI) (auto simp: bit_simps)
  with cover show "b = (b AND 0x7f) OR 0x80" by simp
qed

lemma varint_loop_step:
  assumes "rd_varint_loop limit spare index acc r = (Some v, r')"
  obtains b where "index < limit" "\<not> rd_failed r" "rd_offset r < rd_size r"
    "b = rd_data r ! rd_offset r" "index = limit - 1 \<longrightarrow> b AND spare = 0"
    "if b AND 0x80 = 0
     then v = acc OR push_bit (index * 7) (ucast (b AND 0x7f)) \<and> r' = rd_advance 1 r
          \<and> (rd_mode r = MC_DECODE_STRICT \<longrightarrow> leb_size v = index + 1)
     else rd_varint_loop limit spare (index + 1) (acc OR push_bit (index * 7) (ucast (b AND 0x7f)))
            (rd_advance 1 r) = (Some v, r')"
proof -
  from assms have idx: "index < limit"
    by (rule contrapos_pp) (subst rd_varint_loop.simps, simp add: rd_here_def reader_fail_def)
  from assms obtain b r1 where u8: "mc_reader_u8 r = (Some b, r1)"
    by (subst (asm) rd_varint_loop.simps) (auto simp: idx rd_bind_def split: prod.splits option.splits)
  note u8 = mc_reader_u8_success [OF u8] u8
  from assms u8 show thesis
    by (intro that [of b]; subst (asm) rd_varint_loop.simps)
      (auto simp: idx rd_bind_def rd_here_def rd_strict_def rd_return_def reader_fail_def Let_def
        split: if_splits)
qed

lemma leb_fits_byte:
  fixes b :: u8
  assumes width: "(limit - 1) * 7 \<le> LENGTH('a::len)" and idx: "index < limit"
    and spare: "\<And>n. n < 7 \<Longrightarrow> LENGTH('a) \<le> (limit - 1) * 7 + n \<Longrightarrow> bit spare n"
    and last: "index = limit - 1 \<longrightarrow> b AND spare = 0"
  shows "leb_fits index (ucast (b AND 0x7f) :: 'a word)"
  unfolding leb_fits_def
proof (intro allI impI)
  fix n assume "bit (ucast (b AND 0x7f) :: 'a word) n"
  then have n: "n < 7" "bit b n" "n < LENGTH('a)" by (auto simp: bit_simps)
  show "n + 7 * index < LENGTH('a)"
  proof (cases "index = limit - 1")
    case True
    with last have "\<not> bit spare n" using n by (metis bit_and_iff bit_0_eq bot_apply bot_bool_def)
    then have "\<not> LENGTH('a) \<le> (limit - 1) * 7 + n" using spare n by blast
    then show ?thesis by (simp add: True)
  next
    case False
    then have "index + 1 \<le> limit - 1" using idx by simp
    then have "(index + 1) * 7 \<le> (limit - 1) * 7" by (rule mult_le_mono1)
    then show ?thesis using width n by simp
  qed
qed

lemma leb_join:
  fixes low f :: "'a::len word"
  assumes low: "low = low AND 0x7f" and f: "leb_fits (Suc index) f"
  shows "drop_bit 7 (low OR push_bit 7 f) = f" "(low OR push_bit 7 f) AND 0x7f = low"
    "push_bit (index * 7) (low OR push_bit 7 f) = push_bit (index * 7) low OR push_bit (Suc index * 7) f"
proof -
  have hi: "\<not> bit low n" if "7 \<le> n" for n
    using that by (subst low) (simp add: bit_simps)
  show "drop_bit 7 (low OR push_bit 7 f) = f"
  proof (rule bit_word_eqI)
    fix n assume "n < LENGTH('a)"
    show "bit (drop_bit 7 (low OR push_bit 7 f)) n = bit f n"
      using f hi [of "7 + n"] by (auto simp: bit_simps leb_fits_def)
  qed
  show "(low OR push_bit 7 f) AND 0x7f = low"
    by (rule bit_word_eqI) (auto simp: bit_simps, use hi not_le in blast)
  show "push_bit (index * 7) (low OR push_bit 7 f) = push_bit (index * 7) low OR push_bit (Suc index * 7) f"
    by (simp add: push_bit_or push_bit_push_bit add.commute)
qed

lemma take_drop_Suc:
  "k < length xs \<Longrightarrow> take (Suc n) (drop k xs) = xs ! k # take n (drop (Suc k) xs)"
  by (metis Cons_nth_drop_Suc take_Suc_Cons)

lemma varint_loop_accepts:
  assumes run: "rd_varint_loop limit spare index acc r = (Some (v :: 'a::len word), r')"
    and width: "(limit - 1) * 7 \<le> LENGTH('a)" and byte_width: "7 < LENGTH('a)"
    and spare: "\<And>n. n < 7 \<Longrightarrow> LENGTH('a) \<le> (limit - 1) * 7 + n \<Longrightarrow> bit spare n"
  shows "\<exists>k e. 0 < k \<and> r' = rd_advance k r \<and> rd_offset r + k \<le> rd_size r
           \<and> take k (drop (rd_offset r) (rd_data r)) = leb_pad k e
           \<and> v = acc OR push_bit (index * 7) e \<and> leb_fits index e \<and> \<not> rd_failed r
           \<and> (rd_mode r = MC_DECODE_STRICT \<longrightarrow> leb_size v = index + k)"
  using run
proof (induction "limit - index" arbitrary: index acc r)
  case (0 index acc r)
  then show ?case by (auto elim!: varint_loop_step)
next
  case (Suc m index acc r)
  from Suc.prems obtain b where idx: "index < limit" and live: "\<not> rd_failed r"
    and inb: "rd_offset r < rd_size r" and b: "b = rd_data r ! rd_offset r"
    and last: "index = limit - 1 \<longrightarrow> b AND spare = 0"
    and step: "if b AND 0x80 = 0
     then v = acc OR push_bit (index * 7) (ucast (b AND 0x7f)) \<and> r' = rd_advance 1 r
          \<and> (rd_mode r = MC_DECODE_STRICT \<longrightarrow> leb_size v = index + 1)
     else rd_varint_loop limit spare (index + 1) (acc OR push_bit (index * 7) (ucast (b AND 0x7f)))
            (rd_advance 1 r) = (Some v, r')"
    by (rule varint_loop_step)
  let ?low = "ucast (b AND 0x7f) :: 'a word"
  have low: "?low = ?low AND 0x7f" by (rule bit_word_eqI) (auto simp: bit_simps)
  have byte: "ucast ?low = b AND 0x7f"
    using byte_width by (intro bit_word_eqI) (auto simp: bit_simps)
  have fits: "leb_fits index ?low" by (rule leb_fits_byte [OF width idx spare last])
  show ?case
  proof (cases "b AND 0x80 = 0")
    case True
    have "ucast (?low AND 0x7f) = b AND 0x7f"
      using byte_width by (intro bit_word_eqI) (auto simp: bit_simps)
    then have "leb_pad (Suc 0) ?low = [b]"
      using leb_byte_split(1) [OF True] by (simp only: leb_pad.simps)
    then have "take 1 (drop (rd_offset r) (rd_data r)) = leb_pad 1 ?low"
      using take_drop_Suc [OF inb, of 0] by (simp add: b)
    with True step fits live inb show ?thesis
      by (intro exI [of _ 1] exI [of _ ?low]) auto
  next
    case False
    let ?acc = "acc OR push_bit (index * 7) ?low"
    have "rd_varint_loop limit spare (index + 1) ?acc (rd_advance 1 r) = (Some v, r')"
      using step False by simp
    note rest = this
    have m: "m = limit - (index + 1)" using Suc.hyps(2) by simp
    from Suc.hyps(1) [OF m rest] obtain k e where k: "0 < k"
      and r': "r' = rd_advance k (rd_advance 1 r)" and bnd: "rd_offset r + 1 + k \<le> rd_size r"
      and pad: "take k (drop (rd_offset r + 1) (rd_data r)) = leb_pad k e"
      and v: "v = ?acc OR push_bit ((index + 1) * 7) e" and fe: "leb_fits (index + 1) e"
      and st: "rd_mode r = MC_DECODE_STRICT \<longrightarrow> leb_size v = index + 1 + k"
      by (simp only: rd_advance_simps) blast
    let ?e = "?low OR push_bit 7 e"
    have fe': "leb_fits (Suc index) e" using fe by simp
    note join = leb_join [OF low fe']
    obtain k' where k': "k = Suc k'" using k by (cases k) auto
    have "leb_pad (Suc k) ?e = b # leb_pad k e"
      using leb_byte_split(2) [OF False] by (simp only: k' leb_pad.simps join byte)
    then have "take (Suc k) (drop (rd_offset r) (rd_data r)) = leb_pad (Suc k) ?e"
      using take_drop_Suc [OF inb, of k] pad b by simp
    moreover have "v = acc OR push_bit (index * 7) ?e"
      using v by (simp add: join(3) or.assoc del: push_bit_or)
    moreover have "leb_fits index ?e"
      unfolding leb_fits_def
    proof (intro allI impI)
      fix n assume "bit ?e n"
      then consider "bit ?low n" | "7 \<le> n" "bit e (n - 7)" by (auto simp: bit_simps)
      then show "n + 7 * index < LENGTH('a)"
        using fits fe' by cases (auto simp: leb_fits_def)
    qed
    moreover have "r' = rd_advance (Suc k) r" using r' by simp
    ultimately show ?thesis using live bnd st
      by (intro exI [of _ "Suc k"] exI [of _ ?e]) simp
  qed
qed

lemma varint_accepts:
  assumes "mc_reader_varint r = (Some v, r')" and "rd_mode r = MC_DECODE_STRICT"
  shows "r' = rd_advance (length (varint_bytes v)) r
         \<and> take (length (varint_bytes v)) (drop (rd_offset r) (rd_data r)) = varint_bytes v"
proof -
  have run: "rd_varint_loop 5 0xf0 0 (0 :: u32) r = (Some v, r')"
    using assms(1) by (auto simp: mc_reader_varint_def rd_bind_def rd_return_def
        split: prod.splits option.splits)
  have spare: "bit (0xf0 :: u8) n" if "n < 7" "LENGTH(32) \<le> (5 - 1) * 7 + n" for n
    using that by simp
  from varint_loop_accepts [OF run _ _ spare] assms(2) leb_pad_canonical [of v]
  show ?thesis by (auto simp: varint_bytes_def length_leb_bytes)
qed

lemma varlong_accepts:
  assumes "mc_reader_varlong r = (Some v, r')" and "rd_mode r = MC_DECODE_STRICT"
  shows "r' = rd_advance (length (varlong_bytes v)) r
         \<and> take (length (varlong_bytes v)) (drop (rd_offset r) (rd_data r)) = varlong_bytes v"
proof -
  have run: "rd_varint_loop 10 0xfe 0 (0 :: u64) r = (Some v, r')"
    using assms(1) by (auto simp: mc_reader_varlong_def rd_bind_def rd_return_def
        split: prod.splits option.splits)
  have spare: "bit (0xfe :: u8) n" if "n < 7" "LENGTH(64) \<le> (10 - 1) * 7 + n" for n
    using that by simp
  from varint_loop_accepts [OF run _ _ spare] assms(2) leb_pad_canonical [of v]
  show ?thesis by (auto simp: varlong_bytes_def length_leb_bytes)
qed

subsection \<open>The primitive fields are codecs\<close>

lemma wire_codecI:
  assumes "checked_op get" and "rd_stops get"
    and "\<And>x. valid x \<Longrightarrow> pk_contract (put x) (wire x)"
    and "\<And>x. valid x \<Longrightarrow> rd_parses get (wire x) x"
  shows "wire_codec get put wire valid"
  using assms by (intro wire_codec.intro field_readerI) (auto simp: wire_codec_axioms_def)

lemma canonical_codecI:
  assumes "wire_codec get put wire valid"
    and "\<And>r x r'. rd_ok r \<Longrightarrow> rd_mode r = MC_DECODE_STRICT \<Longrightarrow> get r = (Some x, r')
      \<Longrightarrow> valid x \<and> take (rd_offset r' - rd_offset r) (drop (rd_offset r) (rd_data r)) = wire x"
  shows "canonical_codec get put wire valid"
  using assms by (intro canonical_codec.intro) (auto simp: canonical_codec_axioms_def)

interpretation u8_codec: wire_codec mc_reader_u8 mc_packet_u8 "\<lambda>v. [v]" "\<lambda>_. True"
  by (intro wire_codecI rd_checked rd_sticky pk_writes rd_parses)

interpretation u16_codec: wire_codec mc_reader_u16 mc_packet_u16 "be_bytes 2" "\<lambda>_. True"
  by (intro wire_codecI rd_checked rd_sticky pk_writes rd_parses)

interpretation u32_codec: wire_codec mc_reader_u32 mc_packet_u32 "be_bytes 4" "\<lambda>_. True"
  by (intro wire_codecI rd_checked rd_sticky pk_writes rd_parses)

interpretation u64_codec: wire_codec mc_reader_u64 mc_packet_u64 "be_bytes 8" "\<lambda>_. True"
  by (intro wire_codecI rd_checked rd_sticky pk_writes rd_parses)

interpretation i16_codec: wire_codec mc_reader_i16 mc_packet_i16 "be_bytes 2" "\<lambda>_. True"
  by (intro wire_codecI rd_checked rd_sticky pk_writes rd_parses)

interpretation i32_codec: wire_codec mc_reader_i32 mc_packet_i32 "be_bytes 4" "\<lambda>_. True"
  by (intro wire_codecI rd_checked rd_sticky pk_writes rd_parses)

interpretation i64_codec: wire_codec mc_reader_i64 mc_packet_i64 "be_bytes 8" "\<lambda>_. True"
  by (intro wire_codecI rd_checked rd_sticky pk_writes rd_parses)

interpretation float_codec: wire_codec mc_reader_float mc_packet_float "be_bytes 4" "\<lambda>_. True"
  by (intro wire_codecI rd_checked rd_sticky pk_writes rd_parses)

interpretation double_codec: wire_codec mc_reader_double mc_packet_double "be_bytes 8" "\<lambda>_. True"
  by (intro wire_codecI rd_checked rd_sticky pk_writes rd_parses)

interpretation string_codec: wire_codec mc_reader_string "\<lambda>bs. mc_packet_string_n (Buf bs)"
    string_bytes "\<lambda>bs. length bs \<le> MC_DEFAULT_MAX_STRING_BYTES"
  by (intro wire_codecI rd_checked rd_sticky pk_writes rd_parses)
    (simp_all add: MC_DEFAULT_MAX_STRING_BYTES_def INT32_MAX_def)

interpretation buffer_i32_codec: wire_codec mc_reader_buffer_i32 "\<lambda>bs. mc_packet_buffer_i32 (Buf bs)"
    buffer_i32_bytes "\<lambda>bs. length bs \<le> INT32_MAX"
  by (intro wire_codecI rd_checked rd_sticky pk_writes rd_parses)

interpretation buffer_varint_codec: wire_codec mc_reader_buffer_varint
    "\<lambda>bs. mc_packet_buffer_varint (Buf bs)" string_bytes "\<lambda>bs. length bs \<le> INT32_MAX"
  by (intro wire_codecI rd_checked rd_sticky pk_writes rd_parses)

interpretation bool_codec: canonical_codec mc_reader_bool mc_packet_bool "\<lambda>b. [bool_byte b]" "\<lambda>_. True"
proof (rule canonical_codecI)
  show "wire_codec mc_reader_bool mc_packet_bool (\<lambda>b. [bool_byte b]) (\<lambda>_. True)"
    by (intro wire_codecI rd_checked rd_sticky pk_writes rd_parses)
  fix r x r'
  assume "rd_mode r = MC_DECODE_STRICT" and "mc_reader_bool r = (Some x, r')"
  then obtain b where u8: "mc_reader_u8 r = (Some b, r')" and b: "\<not> b > 1" "x = (b \<noteq> 0)"
    by (auto simp: mc_reader_bool_def rd_bind_def rd_strict_def rd_here_def rd_return_def reader_fail_def
        split: prod.splits option.splits if_splits dest: mc_reader_u8_success)
  note u8' = mc_reader_u8_success [OF u8]
  have "b = 0 \<or> b = 1"
  proof -
    have "unat b < 2" using b(1) by (simp add: word_less_nat_alt)
    then have "unat b = 0 \<or> unat b = 1" by auto
    then show ?thesis by (auto simp: word_unat_eq_iff)
  qed
  then have "b = bool_byte x" using b by (auto simp: bool_byte_def)
  then show "True \<and> take (rd_offset r' - rd_offset r) (drop (rd_offset r) (rd_data r)) = [bool_byte x]"
    using u8' take_drop_Suc [of "rd_offset r" "rd_data r" 0] by simp
qed

interpretation varint_codec: canonical_codec mc_reader_varint mc_packet_varint varint_bytes "\<lambda>_. True"
  by (intro canonical_codecI wire_codecI rd_checked rd_sticky pk_writes rd_parses)
    (auto dest: varint_accepts)

interpretation varlong_codec: canonical_codec mc_reader_varlong mc_packet_varlong varlong_bytes "\<lambda>_. True"
  by (intro canonical_codecI wire_codecI rd_checked rd_sticky pk_writes rd_parses)
    (auto dest: varlong_accepts)

end
