(* ===== verification/Nbt.thy ===== *)
theory Nbt
  imports Primitives
begin

text \<open>
  The bounded NBT validator of \<open>api.c\<close> (\<open>nbt_skip_value\<close> and the public \<open>mc_reader_nbt*\<close>) and
  the writer \<open>mc_packet_nbt\<close> that validates with it.

  The recursion of the source is on the nesting depth, which it bounds by 64, with one counted
  loop (lists) and one loop ended by the input (compounds). The second takes fuel, one unit per
  child, and \<open>rd_fuel\<close> gives it one more than the bytes that are left: every child takes at least
  one. \<open>nbt_skip_compound_unfold\<close> is the equation of the unbounded loop of the source.

  The specification is a grammar: \<open>nbt\<close> is the tree, \<open>nbt_bytes\<close> its encoding and \<open>nbt_valid d\<close>
  the limits below depth \<open>d\<close>. The validator accepts exactly the encodings of valid trees.
\<close>

subsection \<open>Loops bounded by the input\<close>

definition rd_fuel :: "(nat \<Rightarrow> 'a rd) \<Rightarrow> 'a rd" where
  "rd_fuel f r = f (Suc (rd_size r - rd_offset r)) r"

text \<open>A result is kept under more fuel.\<close>

definition fuel_mono :: "(nat \<Rightarrow> 'a rd) \<Rightarrow> bool" where
  "fuel_mono f \<longleftrightarrow> (\<forall>n m r x r'. f n r = (Some x, r') \<longrightarrow> n \<le> m \<longrightarrow> f m r = (Some x, r'))"

lemma fuel_monoD:
  "fuel_mono f \<Longrightarrow> f n r = (Some x, r') \<Longrightarrow> n \<le> m \<Longrightarrow> f m r = (Some x, r')"
  unfolding fuel_mono_def by blast

lemma reader_op_fuel:
  assumes f: "\<And>n. reader_op (f n)" and mono: "fuel_mono f"
  shows "reader_op (rd_fuel f)"
proof
  fix r :: mc_reader
  note laws = reader_op_laws [where r = r, OF f]
  show "rd_data (snd (rd_fuel f r)) = rd_data r" unfolding rd_fuel_def by (rule laws(1))
  show "rd_mode (snd (rd_fuel f r)) = rd_mode r" unfolding rd_fuel_def by (rule laws(2))
  show "rd_place (snd (rd_fuel f r)) = rd_place r"
    unfolding rd_fuel_def by (rule laws(3))
  show "rd_ok r \<Longrightarrow> rd_offset r \<le> rd_offset (snd (rd_fuel f r)) \<and> rd_ok (snd (rd_fuel f r))"
    unfolding rd_fuel_def by (rule laws(4))
  show "rd_failed r \<Longrightarrow> rd_failed (snd (rd_fuel f r)) \<and> rd_offset (snd (rd_fuel f r)) = rd_offset r
          \<and> rd_code (snd (rd_fuel f r)) = rd_code r"
    unfolding rd_fuel_def by (rule laws(5))
  show "fst (rd_fuel f r) \<noteq> None \<Longrightarrow> \<not> rd_failed r
      \<Longrightarrow> \<not> rd_failed (snd (rd_fuel f r)) \<and> rd_error (snd (rd_fuel f r)) = rd_error r"
    unfolding rd_fuel_def by (rule laws(6))
next
  fix r x r' ext
  assume ok: "rd_ok r" and "rd_fuel f r = (Some x, r')"
  then have "f (Suc (rd_size r - rd_offset r)) (rd_extend ext r) = (Some x, rd_extend ext r')"
    by (intro reader_op.op_extend [OF f]) (simp_all add: rd_fuel_def)
  then show "rd_fuel f (rd_extend ext r) = (Some x, rd_extend ext r')"
    unfolding rd_fuel_def by (rule fuel_monoD [OF mono]) simp
qed

lemma checked_fuel:
  assumes f: "\<And>n. checked_op (f n)" and mono: "fuel_mono f"
  shows "checked_op (rd_fuel f)"
proof (intro checked_opI reporting_opI reader_op_fuel [OF checked_reader [OF f] mono])
  show "rd_reported r \<Longrightarrow> rd_reported (snd (rd_fuel f r))" for r
    by (simp add: rd_fuel_def reporting_op.op_reported [OF checked_reporting [OF f]])
  show "fst (rd_fuel f r) = None \<Longrightarrow> rd_failed (snd (rd_fuel f r))" for r
    by (simp add: rd_fuel_def checked_op.op_none [OF f])
qed

subsection \<open>The validator\<close>

datatype mc_nbt_type =
    MC_NBT_END | MC_NBT_BYTE | MC_NBT_SHORT | MC_NBT_INT | MC_NBT_LONG | MC_NBT_FLOAT
  | MC_NBT_DOUBLE | MC_NBT_BYTE_ARRAY | MC_NBT_STRING | MC_NBT_LIST | MC_NBT_COMPOUND
  | MC_NBT_INT_ARRAY | MC_NBT_LONG_ARRAY | MC_NBT_OTHER int

definition mc_nbt_type_of :: "int \<Rightarrow> mc_nbt_type" where
  "mc_nbt_type_of n =
     (if 0 \<le> n \<and> n \<le> 12
      then [MC_NBT_END, MC_NBT_BYTE, MC_NBT_SHORT, MC_NBT_INT, MC_NBT_LONG, MC_NBT_FLOAT,
            MC_NBT_DOUBLE, MC_NBT_BYTE_ARRAY, MC_NBT_STRING, MC_NBT_LIST, MC_NBT_COMPOUND,
            MC_NBT_INT_ARRAY, MC_NBT_LONG_ARRAY] ! nat n
      else MC_NBT_OTHER n)"

definition MC_MAX_NBT_DEPTH :: nat where
  "MC_MAX_NBT_DEPTH = 64"

definition MC_MAX_NBT_COLLECTION_COUNT :: nat where
  "MC_MAX_NBT_COLLECTION_COUNT = 1024 * 1024"

definition mc_reader_nbt_name :: "u8 list rd" where
  "mc_reader_nbt_name = rd_bind mc_reader_u16 (\<lambda>size. mc_reader_bytes (unat size))"

definition nbt_skip_array :: "nat \<Rightarrow> unit rd" where
  "nbt_skip_array width =
     rd_here (\<lambda>count_offset. rd_bind mc_reader_i32 (\<lambda>count.
       if sint count < 0 \<or> unat count > MC_MAX_NBT_COLLECTION_COUNT
       then reader_fail MC_ERROR_NBT_LENGTH count_offset
       else if unat count > SIZE_MAX div width
       then reader_fail MC_ERROR_INTEGER_OVERFLOW count_offset
       else mc_reader_skip (unat count * width)))"

text \<open>
  \<open>nbt_skip_list\<close> is the counted loop of the list case and \<open>nbt_skip_compound\<close> the loop of the
  compound case; its branch without fuel is never reached. \<open>reader_fail\<close> leaves a failed reader
  alone, which is the test \<^verbatim>\<open>if (!reader->failed)\<close> of the compound case.
\<close>

function (sequential)
  nbt_skip_value :: "mc_nbt_type \<Rightarrow> nat \<Rightarrow> unit rd"
  and nbt_skip_list :: "nat \<Rightarrow> mc_nbt_type \<Rightarrow> nat \<Rightarrow> unit rd"
  and nbt_skip_compound :: "nat \<Rightarrow> nat \<Rightarrow> unit rd" where
  "nbt_skip_value type depth =
     (if depth > MC_MAX_NBT_DEPTH then rd_here (reader_fail MC_ERROR_NBT_DEPTH)
      else case type of
        MC_NBT_BYTE \<Rightarrow> mc_reader_skip 1
      | MC_NBT_SHORT \<Rightarrow> mc_reader_skip 2
      | MC_NBT_INT \<Rightarrow> mc_reader_skip 4
      | MC_NBT_FLOAT \<Rightarrow> mc_reader_skip 4
      | MC_NBT_LONG \<Rightarrow> mc_reader_skip 8
      | MC_NBT_DOUBLE \<Rightarrow> mc_reader_skip 8
      | MC_NBT_BYTE_ARRAY \<Rightarrow> nbt_skip_array 1
      | MC_NBT_STRING \<Rightarrow> rd_bind mc_reader_nbt_name (\<lambda>ignored. rd_return ())
      | MC_NBT_LIST \<Rightarrow>
          rd_bind mc_reader_u8 (\<lambda>element. rd_here (\<lambda>count_offset.
          rd_bind mc_reader_i32 (\<lambda>count.
            if sint count < 0 \<or> unat count > MC_MAX_NBT_COLLECTION_COUNT
            then reader_fail MC_ERROR_NBT_LENGTH count_offset
            else if element > 12 \<or> (element = 0 \<and> count \<noteq> 0)
            then reader_fail MC_ERROR_INVALID_PACKET_BODY count_offset
            else nbt_skip_list (unat count) (mc_nbt_type_of (uint element)) depth)))
      | MC_NBT_COMPOUND \<Rightarrow> rd_fuel (\<lambda>n. nbt_skip_compound n depth)
      | MC_NBT_INT_ARRAY \<Rightarrow> nbt_skip_array 4
      | MC_NBT_LONG_ARRAY \<Rightarrow> nbt_skip_array 8
      | _ \<Rightarrow> rd_here (reader_fail MC_ERROR_INVALID_PACKET_BODY))"
| "nbt_skip_list 0 type depth = rd_return ()"
| "nbt_skip_list (Suc n) type depth =
     rd_bind (nbt_skip_value type (depth + 1)) (\<lambda>_. nbt_skip_list n type depth)"
| "nbt_skip_compound 0 depth = reader_fail MC_ERROR_INTERNAL 0"
| "nbt_skip_compound (Suc n) depth =
     rd_bind mc_reader_u8 (\<lambda>child.
       if child = 0 then rd_return ()
       else rd_bind
              (rd_orelse
                (rd_bind (rd_test (child \<le> 12)) (\<lambda>_.
                 rd_bind mc_reader_nbt_name (\<lambda>ignored.
                 nbt_skip_value (mc_nbt_type_of (uint child)) (depth + 1))))
                (rd_here (\<lambda>off. reader_fail MC_ERROR_INVALID_PACKET_BODY (off - 1) :: unit rd)))
              (\<lambda>_. nbt_skip_compound n depth))"
  by pat_completeness auto
termination
  by (relation "inv_image (less_than <*lex*> less_than)
    (\<lambda>x. case x of Inl (type, depth) \<Rightarrow> (2 * (65 - depth), 0)
         | Inr (Inl (n, type, depth)) \<Rightarrow> (max 1 (2 * (65 - depth) - 1), n)
         | Inr (Inr (n, depth)) \<Rightarrow> (max 1 (2 * (65 - depth) - 1), n))")
    (auto simp: MC_MAX_NBT_DEPTH_def max_def)

declare nbt_skip_value.simps [simp del]

definition mc_reader_nbt_value :: "mc_nbt_type \<Rightarrow> u8 list rd" where
  "mc_reader_nbt_value type =
     rd_bind (rd_capture (nbt_skip_value type 0)) (\<lambda>(_, encoded). rd_return encoded)"

text \<open>The body of \<open>mc_reader_nbt\<close> between \<open>start\<close> and the view it returns.\<close>

definition nbt_skip_root :: "bool \<Rightarrow> unit rd" where
  "nbt_skip_root named_root =
     rd_bind mc_reader_u8 (\<lambda>root. rd_here (\<lambda>off.
       if root > 12 then reader_fail MC_ERROR_INVALID_PACKET_BODY (off - 1)
       else if root \<noteq> 0
       then rd_bind (rd_when named_root [] mc_reader_nbt_name) (\<lambda>ignored.
            nbt_skip_value (mc_nbt_type_of (uint root)) 0)
       else rd_return ()))"

definition mc_reader_nbt :: "bool \<Rightarrow> u8 list rd" where
  "mc_reader_nbt named_root =
     rd_bind (rd_capture (nbt_skip_root named_root)) (\<lambda>(_, encoded). rd_return encoded)"

definition mc_packet_nbt :: "bool \<Rightarrow> buffer option \<Rightarrow> wr" where
  "mc_packet_nbt named_root encoded p =
     (case encoded of
        None \<Rightarrow> pk_reject p
      | Some e \<Rightarrow>
          if pk_failed p \<or> (buf_size e \<noteq> 0 \<and> buf_null e) then pk_reject p
          else case mc_reader_nbt named_root (mc_reader_init e) of
              (None, _) \<Rightarrow> pk_reject p
            | (Some _, reader) \<Rightarrow>
                if mc_reader_remaining reader \<noteq> 0 then pk_reject p else mc_packet_bytes e p)"

subsection \<open>The validator is a field reader\<close>

lemma checked_nbt_name [rd_checked]: "checked_op mc_reader_nbt_name"
  unfolding mc_reader_nbt_name_def by (intro rd_checked)

lemma checked_nbt_array [rd_checked]: "checked_op (nbt_skip_array width)"
  unfolding nbt_skip_array_def by (intro rd_checked) simp_all

lemmas reporting_nbt [rd_checked] =
  checked_nbt_name [THEN checked_reporting] checked_nbt_array [THEN checked_reporting]

lemma fuel_mono_compound: "fuel_mono (\<lambda>n. nbt_skip_compound n depth)"
proof -
  have "nbt_skip_compound m depth r = (Some x, r')"
    if "nbt_skip_compound n depth r = (Some x, r')" "n \<le> m" for n m r x r'
    using that
  proof (induction n arbitrary: m r)
    case 0
    then show ?case by (simp add: reader_fail_def)
  next
    case (Suc n)
    then obtain m' where m: "m = Suc m'" "n \<le> m'" by (cases m) auto
    show ?case using Suc.prems(1) Suc.IH [OF _ m(2)]
      by (auto simp: m rd_bind_def rd_return_def split: prod.splits option.splits if_splits)
  qed
  then show ?thesis unfolding fuel_mono_def by blast
qed

lemma checked_nbt_children:
  assumes "\<And>type. checked_op (nbt_skip_value type (depth + 1))"
  shows "checked_op (nbt_skip_list n type depth)" "checked_op (nbt_skip_compound n depth)"
proof -
  show "checked_op (nbt_skip_list n type depth)"
    by (induction n) (simp_all only: nbt_skip_list.simps rd_checked assms)
  show "checked_op (nbt_skip_compound n depth)"
  proof (induction n)
    case (Suc n)
    show ?case
      unfolding nbt_skip_compound.simps
      by (intro rd_checked assms [THEN checked_reporting] Suc) simp_all
  qed (simp add: checked_fail)
qed

lemma checked_nbt_value [rd_checked]: "checked_op (nbt_skip_value type depth)"
proof (induction "65 - depth" arbitrary: type depth)
  case 0
  then show ?case
    by (subst nbt_skip_value.simps) (simp add: MC_MAX_NBT_DEPTH_def checked_here checked_fail)
next
  case (Suc k)
  then have "k = 65 - (depth + 1)" by simp
  note IH = Suc.hyps(1) [OF this]
  note children = checked_nbt_children [of depth, OF IH]
  show ?case
    unfolding nbt_skip_value.simps [of type depth]
    by (cases type; simp only: mc_nbt_type.case)
      (intro rd_checked children checked_fuel fuel_mono_compound; simp)+
qed

lemma stops_fuel [rd_sticky]: "(\<And>n. rd_stops (f (Suc n))) \<Longrightarrow> rd_stops (rd_fuel f)"
  by (simp add: rd_stops_def rd_fuel_def)

lemma stops_nbt_name [rd_sticky]: "rd_stops mc_reader_nbt_name"
  unfolding mc_reader_nbt_name_def by (intro rd_sticky)

lemma stops_nbt_array [rd_sticky]: "rd_stops (nbt_skip_array width)"
  unfolding nbt_skip_array_def by (intro rd_sticky)

lemma stops_nbt_compound [rd_sticky]: "rd_stops (nbt_skip_compound (Suc n) depth)"
  unfolding nbt_skip_compound.simps by (intro rd_sticky)

lemma stops_nbt_value [rd_sticky]: "rd_stops (nbt_skip_value type depth)"
  unfolding nbt_skip_value.simps [of type depth]
  by (cases type; simp only: mc_nbt_type.case; intro rd_sticky)

lemma checked_nbt_root [rd_checked]: "checked_op (nbt_skip_root named_root)"
  unfolding nbt_skip_root_def by (intro rd_checked) simp_all

lemma stops_nbt_root [rd_sticky]: "rd_stops (nbt_skip_root named_root)"
  unfolding nbt_skip_root_def by (intro rd_sticky)

lemma checked_view [rd_checked]:
  "checked_op m \<Longrightarrow> checked_op (rd_bind (rd_capture m) (\<lambda>(_, encoded). rd_return encoded))"
  by (intro checked_bind checked_capture) (auto simp: checked_return split: prod.split)

lemma checked_nbt [rd_checked]: "checked_op (mc_reader_nbt named_root)"
  unfolding mc_reader_nbt_def by (intro checked_view checked_nbt_root)

lemma stops_nbt [rd_sticky]: "rd_stops (mc_reader_nbt named_root)"
  unfolding mc_reader_nbt_def by (intro rd_sticky)

lemma checked_nbt_public_value [rd_checked]: "checked_op (mc_reader_nbt_value type)"
  unfolding mc_reader_nbt_value_def by (intro checked_view checked_nbt_value)

lemma stops_nbt_public_value [rd_sticky]: "rd_stops (mc_reader_nbt_value type)"
  unfolding mc_reader_nbt_value_def by (intro rd_sticky)

interpretation nbt_name_rd: field_reader mc_reader_nbt_name
  by (intro field_readerI rd_checked rd_sticky)

interpretation nbt_value_rd: field_reader "nbt_skip_value type depth" for type depth
  by (intro field_readerI rd_checked rd_sticky)

interpretation nbt_rd: field_reader "mc_reader_nbt named_root" for named_root
  by (intro field_readerI rd_checked rd_sticky)

subsection \<open>The fuel is enough\<close>

text \<open>One child of a compound: its type is not the end tag.\<close>

definition nbt_skip_child :: "u8 \<Rightarrow> nat \<Rightarrow> unit rd" where
  "nbt_skip_child child depth =
     rd_orelse
       (rd_bind (rd_test (child \<le> 12)) (\<lambda>_.
        rd_bind mc_reader_nbt_name (\<lambda>ignored.
        nbt_skip_value (mc_nbt_type_of (uint child)) (depth + 1))))
       (rd_here (\<lambda>off. reader_fail MC_ERROR_INVALID_PACKET_BODY (off - 1) :: unit rd))"

lemma checked_nbt_child: "checked_op (nbt_skip_child child depth)"
  unfolding nbt_skip_child_def by (intro rd_checked checked_nbt_value [THEN checked_reporting]) simp_all

lemma nbt_skip_compound_step:
  "nbt_skip_compound (Suc n) depth =
     rd_bind mc_reader_u8 (\<lambda>child. if child = 0 then rd_return ()
       else rd_bind (nbt_skip_child child depth) (\<lambda>_. nbt_skip_compound n depth))"
  unfolding nbt_skip_child_def by (rule nbt_skip_compound.simps)

lemma nbt_compound_fuel:
  assumes "rd_ok r" and "rd_size r - rd_offset r < n" and "rd_size r - rd_offset r < m"
  shows "nbt_skip_compound n depth r = nbt_skip_compound m depth r"
  using assms
proof (induction n arbitrary: m r)
  case (Suc n)
  then obtain m' where m: "m = Suc m'" by (cases m) auto
  have eq: "nbt_skip_compound n depth r2 = nbt_skip_compound m' depth r2"
    if u8: "mc_reader_u8 r = (Some child, r1)" and ch: "nbt_skip_child child depth r1 = (Some (), r2)"
    for child r1 r2
  proof (rule Suc.IH)
    note u8' = mc_reader_u8_success [OF u8]
    have ok1: "rd_ok r1" using u8' by (simp add: rd_ok_def)
    note laws = reader_op_laws [where r = r1, OF checked_reader [OF checked_nbt_child [of child depth]]]
    show "rd_ok r2" using laws(4) [OF ok1] ch by simp
    show "rd_size r2 - rd_offset r2 < n" "rd_size r2 - rd_offset r2 < m'"
      using laws(1) laws(4) [OF ok1] ch u8' Suc.prems m by (auto simp: rd_ok_def)
  qed
  show ?case
    unfolding m nbt_skip_compound_step
    by (auto simp: rd_bind_def eq split: prod.splits option.splits)
qed simp

text \<open>The unbounded loop of the source.\<close>

lemma nbt_compound_unfold:
  assumes "rd_ok r"
  shows "rd_fuel (\<lambda>n. nbt_skip_compound n depth) r =
     rd_bind mc_reader_u8 (\<lambda>child. if child = 0 then rd_return ()
       else rd_bind (nbt_skip_child child depth) (\<lambda>_. rd_fuel (\<lambda>n. nbt_skip_compound n depth))) r"
proof -
  have eq: "nbt_skip_compound (rd_size r - rd_offset r) depth r2
              = nbt_skip_compound (Suc (rd_size r2 - rd_offset r2)) depth r2"
    if u8: "mc_reader_u8 r = (Some child, r1)" and ch: "nbt_skip_child child depth r1 = (Some (), r2)"
    for child r1 r2
  proof (rule nbt_compound_fuel)
    note u8' = mc_reader_u8_success [OF u8]
    have ok1: "rd_ok r1" using u8' by (simp add: rd_ok_def)
    note laws = reader_op_laws [where r = r1, OF checked_reader [OF checked_nbt_child [of child depth]]]
    show "rd_ok r2" using laws(4) [OF ok1] ch by simp
    show "rd_size r2 - rd_offset r2 < rd_size r - rd_offset r"
      using laws(1) laws(4) [OF ok1] ch u8' by (auto simp: rd_ok_def)
  qed simp
  show ?thesis
    unfolding rd_fuel_def nbt_skip_compound_step [of "rd_size r - rd_offset r"]
    by (auto simp: rd_bind_def eq simp del: nbt_skip_compound.simps split: prod.splits option.splits)
qed

subsection \<open>The grammar\<close>

datatype nbt =
    Nbt_Byte u8 | Nbt_Short u16 | Nbt_Int u32 | Nbt_Long u64 | Nbt_Float f32 | Nbt_Double f64
  | Nbt_Byte_Array "u8 list" | Nbt_String "u8 list" | Nbt_List mc_nbt_type "nbt list"
  | Nbt_Compound "(u8 list \<times> nbt) list" | Nbt_Int_Array "u32 list" | Nbt_Long_Array "u64 list"

fun nbt_type :: "nbt \<Rightarrow> mc_nbt_type" where
  "nbt_type (Nbt_Byte v) = MC_NBT_BYTE"
| "nbt_type (Nbt_Short v) = MC_NBT_SHORT"
| "nbt_type (Nbt_Int v) = MC_NBT_INT"
| "nbt_type (Nbt_Long v) = MC_NBT_LONG"
| "nbt_type (Nbt_Float v) = MC_NBT_FLOAT"
| "nbt_type (Nbt_Double v) = MC_NBT_DOUBLE"
| "nbt_type (Nbt_Byte_Array vs) = MC_NBT_BYTE_ARRAY"
| "nbt_type (Nbt_String vs) = MC_NBT_STRING"
| "nbt_type (Nbt_List ty xs) = MC_NBT_LIST"
| "nbt_type (Nbt_Compound kids) = MC_NBT_COMPOUND"
| "nbt_type (Nbt_Int_Array vs) = MC_NBT_INT_ARRAY"
| "nbt_type (Nbt_Long_Array vs) = MC_NBT_LONG_ARRAY"

fun nbt_tag :: "mc_nbt_type \<Rightarrow> u8" where
  "nbt_tag MC_NBT_END = 0"
| "nbt_tag MC_NBT_BYTE = 1"
| "nbt_tag MC_NBT_SHORT = 2"
| "nbt_tag MC_NBT_INT = 3"
| "nbt_tag MC_NBT_LONG = 4"
| "nbt_tag MC_NBT_FLOAT = 5"
| "nbt_tag MC_NBT_DOUBLE = 6"
| "nbt_tag MC_NBT_BYTE_ARRAY = 7"
| "nbt_tag MC_NBT_STRING = 8"
| "nbt_tag MC_NBT_LIST = 9"
| "nbt_tag MC_NBT_COMPOUND = 10"
| "nbt_tag MC_NBT_INT_ARRAY = 11"
| "nbt_tag MC_NBT_LONG_ARRAY = 12"
| "nbt_tag (MC_NBT_OTHER n) = word_of_int n"

fun nbt_known :: "mc_nbt_type \<Rightarrow> bool" where
  "nbt_known (MC_NBT_OTHER n) = False"
| "nbt_known ty = True"

definition nbt_name_bytes :: "u8 list \<Rightarrow> u8 list" where
  "nbt_name_bytes name = be_bytes 2 (of_nat (length name) :: u16) @ name"

definition nbt_count_bytes :: "nat \<Rightarrow> u8 list" where
  "nbt_count_bytes n = be_bytes 4 (of_nat n :: i32)"

fun nbt_bytes :: "nbt \<Rightarrow> u8 list" where
  "nbt_bytes (Nbt_Byte v) = [v]"
| "nbt_bytes (Nbt_Short v) = be_bytes 2 v"
| "nbt_bytes (Nbt_Int v) = be_bytes 4 v"
| "nbt_bytes (Nbt_Long v) = be_bytes 8 v"
| "nbt_bytes (Nbt_Float v) = be_bytes 4 v"
| "nbt_bytes (Nbt_Double v) = be_bytes 8 v"
| "nbt_bytes (Nbt_Byte_Array vs) = nbt_count_bytes (length vs) @ vs"
| "nbt_bytes (Nbt_String vs) = nbt_name_bytes vs"
| "nbt_bytes (Nbt_List ty xs) =
     nbt_tag ty # nbt_count_bytes (length xs) @ concat (map nbt_bytes xs)"
| "nbt_bytes (Nbt_Compound kids) =
     concat (map (\<lambda>(name, x). nbt_tag (nbt_type x) # nbt_name_bytes name @ nbt_bytes x) kids) @ [0]"
| "nbt_bytes (Nbt_Int_Array vs) = nbt_count_bytes (length vs) @ concat (map (be_bytes 4) vs)"
| "nbt_bytes (Nbt_Long_Array vs) = nbt_count_bytes (length vs) @ concat (map (be_bytes 8) vs)"

text \<open>The limits: nesting, collection sizes, name lengths, one element type per list.\<close>

fun nbt_valid :: "nat \<Rightarrow> nbt \<Rightarrow> bool" where
  "nbt_valid d (Nbt_Byte_Array vs) = (d \<le> 64 \<and> length vs \<le> 1048576)"
| "nbt_valid d (Nbt_String vs) = (d \<le> 64 \<and> length vs < 65536)"
| "nbt_valid d (Nbt_List ty xs) =
     (d \<le> 64 \<and> nbt_known ty \<and> length xs \<le> 1048576
      \<and> list_all (\<lambda>x. nbt_type x = ty \<and> nbt_valid (d + 1) x) xs)"
| "nbt_valid d (Nbt_Compound kids) =
     (d \<le> 64 \<and> list_all (\<lambda>(name, x). length name < 65536 \<and> nbt_valid (d + 1) x) kids)"
| "nbt_valid d (Nbt_Int_Array vs) = (d \<le> 64 \<and> length vs \<le> 1048576)"
| "nbt_valid d (Nbt_Long_Array vs) = (d \<le> 64 \<and> length vs \<le> 1048576)"
| "nbt_valid d x = (d \<le> 64)"

lemma nbt_tag_of: "b \<le> 12 \<Longrightarrow> nbt_tag (mc_nbt_type_of (uint b)) = b \<and> nbt_known (mc_nbt_type_of (uint b))"
proof -
  assume "b \<le> 12"
  then have "unat b \<le> 12" by (simp add: word_le_nat_alt)
  then have "unat b = 0 \<or> unat b = 1 \<or> unat b = 2 \<or> unat b = 3 \<or> unat b = 4 \<or> unat b = 5
    \<or> unat b = 6 \<or> unat b = 7 \<or> unat b = 8 \<or> unat b = 9 \<or> unat b = 10 \<or> unat b = 11 \<or> unat b = 12"
    by arith
  then have "b = 0 \<or> b = 1 \<or> b = 2 \<or> b = 3 \<or> b = 4 \<or> b = 5 \<or> b = 6 \<or> b = 7 \<or> b = 8 \<or> b = 9
    \<or> b = 10 \<or> b = 11 \<or> b = 12"
    by (simp add: word_unat_eq_iff)
  then show ?thesis by (auto simp: mc_nbt_type_of_def)
qed

lemma nbt_type_tag:
  "nbt_known ty \<Longrightarrow> mc_nbt_type_of (uint (nbt_tag ty)) = ty \<and> nbt_tag ty \<le> 12 \<and> (nbt_tag ty = 0 \<longleftrightarrow> ty = MC_NBT_END)"
  by (cases ty) (simp_all add: mc_nbt_type_of_def)

lemma nbt_known_type [simp]: "nbt_known (nbt_type x)" "nbt_type x \<noteq> MC_NBT_END"
  by (cases x; simp)+

lemma nbt_valid_depth: "nbt_valid d x \<Longrightarrow> d \<le> 64"
  by (cases x) simp_all

subsection \<open>Valid encodings are accepted\<close>

lemma parses_skip: "length bs = n \<Longrightarrow> rd_parses (mc_reader_skip n) bs ()"
  unfolding mc_reader_skip_def
  using parses_bytes [of bs] by (intro parses_bind_nil) (auto intro: parses_return)

lemma unat_of_nat_bound:
  "n < 2 ^ LENGTH('a) \<Longrightarrow> unat (of_nat n :: 'a::len word) = n"
  by (simp add: unat_of_nat take_bit_nat_eq_self)

lemma parses_nbt_name: "length name < 65536 \<Longrightarrow> rd_parses mc_reader_nbt_name (nbt_name_bytes name) name"
  unfolding mc_reader_nbt_name_def nbt_name_bytes_def
  by (intro parses_bind [OF parses_u16]) (simp add: unat_of_nat_bound parses_bytes)

lemma count_guard:
  assumes "n \<le> 1048576"
  shows "\<not> sint (of_nat n :: i32) < 0" "unat (of_nat n :: i32) = n"
    "\<not> n > MC_MAX_NBT_COLLECTION_COUNT"
  using length_word [of n] assms by (simp_all add: MC_MAX_NBT_COLLECTION_COUNT_def INT32_MAX_def)

lemma parses_nbt_array:
  assumes "n \<le> 1048576" and "length bs = n * width" and "width = 1 \<or> width = 4 \<or> width = 8"
  shows "rd_parses (nbt_skip_array width) (nbt_count_bytes n @ bs) ()"
proof -
  have "\<not> SIZE_MAX div width < n" using assms(1,3) by (auto simp: SIZE_MAX_def)
  with assms(2) show ?thesis
    unfolding nbt_skip_array_def nbt_count_bytes_def
    by (intro parses_here parses_bind [OF parses_same_width(3)]) (simp add: count_guard [OF assms(1)] parses_skip)
qed

lemma parses_nbt_list:
  assumes "list_all (\<lambda>x. rd_parses (nbt_skip_value type (depth + 1)) (f x) ()) xs"
  shows "rd_parses (nbt_skip_list (length xs) type depth) (concat (map f xs)) ()"
  using assms
proof (induction xs)
  case (Cons x xs)
  then show ?case by (auto intro!: parses_bind)
qed (simp add: parses_return)

lemma parses_nbt_child:
  assumes "length name < 65536" and "rd_parses (nbt_skip_value (nbt_type x) (depth + 1)) (nbt_bytes x) ()"
  shows "rd_parses (nbt_skip_child (nbt_tag (nbt_type x)) depth) (nbt_name_bytes name @ nbt_bytes x) ()"
proof -
  have tag: "mc_nbt_type_of (uint (nbt_tag (nbt_type x))) = nbt_type x" "nbt_tag (nbt_type x) \<le> 12"
    using nbt_type_tag [of "nbt_type x"] by simp_all
  have "rd_parses (rd_bind (rd_test (nbt_tag (nbt_type x) \<le> 12)) (\<lambda>_.
        rd_bind mc_reader_nbt_name (\<lambda>ignored.
        nbt_skip_value (mc_nbt_type_of (uint (nbt_tag (nbt_type x)))) (depth + 1))))
      ([] @ nbt_name_bytes name @ nbt_bytes x) ()"
    by (intro parses_bind [OF parses_test] parses_bind [OF parses_nbt_name]) (simp_all only: tag assms)
  then show ?thesis unfolding nbt_skip_child_def by (intro parses_orelse) simp
qed

lemma parses_nbt_compound:
  assumes "list_all (\<lambda>(name, x). length name < 65536
             \<and> rd_parses (nbt_skip_value (nbt_type x) (depth + 1)) (nbt_bytes x) ()) kids"
  shows "rd_parses (nbt_skip_compound (Suc (length kids)) depth) (nbt_bytes (Nbt_Compound kids)) ()"
  using assms
proof (induction kids)
  case Nil
  show ?case unfolding nbt_skip_compound_step list.size
    by (rule parses_bind_nil [where x = 0]) (simp_all add: parses_u8 parses_return)
next
  case (Cons kid kids)
  obtain name x where kid: "kid = (name, x)" by (cases kid)
  have "rd_parses (nbt_skip_child (nbt_tag (nbt_type x)) depth) (nbt_name_bytes name @ nbt_bytes x) ()"
    using Cons.prems by (intro parses_nbt_child) (simp_all add: kid)
  moreover have "rd_parses (nbt_skip_compound (Suc (length kids)) depth) (nbt_bytes (Nbt_Compound kids)) ()"
    using Cons by simp
  ultimately have "rd_parses (rd_bind (nbt_skip_child (nbt_tag (nbt_type x)) depth)
      (\<lambda>_. nbt_skip_compound (Suc (length kids)) depth))
      ((nbt_name_bytes name @ nbt_bytes x) @ nbt_bytes (Nbt_Compound kids)) ()"
    by (rule parses_bind)
  moreover have "nbt_tag (nbt_type x) \<noteq> 0" using nbt_type_tag [of "nbt_type x"] by simp
  ultimately have "rd_parses (nbt_skip_compound (Suc (Suc (length kids))) depth)
      ([nbt_tag (nbt_type x)] @ (nbt_name_bytes name @ nbt_bytes x) @ nbt_bytes (Nbt_Compound kids)) ()"
    unfolding nbt_skip_compound_step [of "Suc (length kids)"]
    by (intro parses_bind [OF parses_u8]) (simp del: nbt_skip_compound.simps)
  then show ?case by (simp add: kid)
qed

lemma parses_fuel:
  assumes mono: "fuel_mono f" and p: "rd_parses (f n) bs x" and n: "n \<le> Suc (length bs)"
  shows "rd_parses (rd_fuel f) bs x"
proof (rule rd_parsesI)
  fix r rest
  assume r: "\<not> rd_failed r" "rd_ok r" "drop (rd_offset r) (rd_data r) = bs @ rest"
  have "length (drop (rd_offset r) (rd_data r)) = length (bs @ rest)" using r(3) by simp
  then have "length bs \<le> rd_size r - rd_offset r" by simp
  then show "rd_fuel f r = (Some x, rd_advance (length bs) r)"
    unfolding rd_fuel_def using n by (intro fuel_monoD [OF mono rd_parsesD [OF p r]]) simp
qed

lemma length_nbt_compound: "length kids \<le> length (nbt_bytes (Nbt_Compound kids))"
  by (induction kids) auto

lemma parses_nbt_value: "nbt_valid d x \<Longrightarrow> rd_parses (nbt_skip_value (nbt_type x) d) (nbt_bytes x) ()"
proof (induction d x rule: nbt_valid.induct)
  case (3 d ty xs)
  have tag: "mc_nbt_type_of (uint (nbt_tag ty)) = ty" "nbt_tag ty \<le> 12"
    using nbt_type_tag [of ty] 3 by simp_all
  have empty: "xs = []" if "nbt_tag ty = 0"
    using that nbt_type_tag [of ty] 3 by (cases xs) (auto simp: nbt_known_type(2) [symmetric] dest: sym)
  have kids: "rd_parses (nbt_skip_list (length xs) ty d) (concat (map nbt_bytes xs)) ()"
    using 3 by (intro parses_nbt_list) (auto simp: list_all_iff)
  have len: "length xs \<le> 1048576" using 3 by simp
  have "rd_parses (nbt_skip_value MC_NBT_LIST d)
      ([nbt_tag ty] @ nbt_count_bytes (length xs) @ concat (map nbt_bytes xs)) ()"
    using 3 kids tag empty unfolding nbt_skip_value.simps [of _ d] nbt_count_bytes_def
    by (simp only: mc_nbt_type.case MC_MAX_NBT_DEPTH_def nbt_valid.simps not_less [symmetric] if_False)
      (intro parses_bind [OF parses_u8] parses_here parses_bind [OF parses_same_width(3)];
        auto simp: count_guard [OF len] not_less)
  then show ?case by simp
next
  case (4 d kids)
  have "rd_parses (nbt_skip_compound (Suc (length kids)) d) (nbt_bytes (Nbt_Compound kids)) ()"
    using 4 by (intro parses_nbt_compound) (auto simp: list_all_iff split: prod.splits)
  then have "rd_parses (rd_fuel (\<lambda>n. nbt_skip_compound n d)) (nbt_bytes (Nbt_Compound kids)) ()"
    by (rule parses_fuel [OF fuel_mono_compound]) (use length_nbt_compound [of kids] in simp)
  then show ?case using 4 by (simp add: nbt_skip_value.simps MC_MAX_NBT_DEPTH_def)
qed (auto simp: nbt_skip_value.simps MC_MAX_NBT_DEPTH_def length_concat comp_def sum_list_triv
    intro!: parses_skip parses_nbt_array parses_bind_nil [OF parses_nbt_name] parses_return)

subsection \<open>Only valid encodings are accepted\<close>

text \<open>\<open>rd_accepts m P\<close>: a success read \<open>x\<close> from exactly some bytes \<open>bs\<close> with \<open>P bs x\<close>.\<close>

definition rd_accepts :: "'a rd \<Rightarrow> (u8 list \<Rightarrow> 'a \<Rightarrow> bool) \<Rightarrow> bool" where
  "rd_accepts m P \<longleftrightarrow>
     (\<forall>r x r'. rd_ok r \<longrightarrow> m r = (Some x, r') \<longrightarrow>
        (\<exists>bs. P bs x \<and> r' = rd_advance (length bs) r
              \<and> drop (rd_offset r) (rd_data r) = bs @ drop (rd_offset r') (rd_data r)))"

lemma rd_acceptsI:
  "(\<And>r x r'. rd_ok r \<Longrightarrow> m r = (Some x, r') \<Longrightarrow>
      \<exists>bs. P bs x \<and> r' = rd_advance (length bs) r
           \<and> drop (rd_offset r) (rd_data r) = bs @ drop (rd_offset r') (rd_data r)) \<Longrightarrow> rd_accepts m P"
  by (simp add: rd_accepts_def)

lemma accepts_weaken: "rd_accepts m P \<Longrightarrow> (\<And>bs x. P bs x \<Longrightarrow> Q bs x) \<Longrightarrow> rd_accepts m Q"
  unfolding rd_accepts_def by blast

lemma accepts_never: "(\<And>r. fst (m r) = None) \<Longrightarrow> rd_accepts m P"
  by (rule rd_acceptsI) (metis fst_conv option.distinct(1))

lemma accepts_fail: "rd_accepts (reader_fail code off) P"
  by (rule accepts_never) (simp add: reader_fail_def)

lemma accepts_return: "P [] x \<Longrightarrow> rd_accepts (rd_return x) P"
  by (rule rd_acceptsI) (auto simp: rd_return_def)

lemma accepts_here: "(\<And>off. rd_accepts (f off) P) \<Longrightarrow> rd_accepts (rd_here f) P"
  by (auto simp: rd_accepts_def rd_here_def)

lemma accepts_if:
  "(c \<Longrightarrow> rd_accepts a P) \<Longrightarrow> (\<not> c \<Longrightarrow> rd_accepts b P) \<Longrightarrow> rd_accepts (if c then a else b) P"
  by simp

lemma accepts_test: "rd_accepts (rd_test c) (\<lambda>bs x. bs = [] \<and> c)"
  by (rule rd_acceptsI) (auto simp: rd_test_def split: if_splits)

lemma accepts_orelse: "rd_accepts m P \<Longrightarrow> rd_accepts (rd_orelse m h) P"
  unfolding rd_accepts_def
  by (auto simp: rd_orelse_def split: prod.splits option.splits)

lemma accepts_bind:
  assumes m: "rd_accepts m P" and f: "\<And>bs x. P bs x \<Longrightarrow> rd_accepts (f x) (\<lambda>cs y. Q (bs @ cs) y)"
  shows "rd_accepts (rd_bind m f) Q"
proof (rule rd_acceptsI)
  fix r y r'
  assume ok: "rd_ok r" and run: "rd_bind m f r = (Some y, r')"
  then obtain x r1 where x: "m r = (Some x, r1)" and y: "f x r1 = (Some y, r')"
    by (auto simp: rd_bind_def split: prod.splits option.splits)
  obtain bs where bs: "P bs x" "r1 = rd_advance (length bs) r"
    "drop (rd_offset r) (rd_data r) = bs @ drop (rd_offset r1) (rd_data r)"
    using m ok x unfolding rd_accepts_def by blast
  have "rd_ok r1" unfolding bs(2) by (rule rd_ok_advance [OF ok bs(3)])
  then obtain cs where cs: "Q (bs @ cs) y" "r' = rd_advance (length cs) r1"
    "drop (rd_offset r1) (rd_data r1) = cs @ drop (rd_offset r') (rd_data r1)"
    using f [OF bs(1)] y unfolding rd_accepts_def by blast
  show "\<exists>bs. Q bs y \<and> r' = rd_advance (length bs) r
          \<and> drop (rd_offset r) (rd_data r) = bs @ drop (rd_offset r') (rd_data r)"
    using bs cs by (intro exI [of _ "bs @ cs"]) simp
qed

lemma accepts_bytes: "rd_accepts (mc_reader_bytes n) (\<lambda>bs x. bs = x \<and> length x = n)"
proof (rule rd_acceptsI)
  fix r x r' assume "mc_reader_bytes n r = (Some x, r')"
  note s = mc_reader_bytes_success [OF this]
  then have "n \<le> rd_size r - rd_offset r" by linarith
  with s show "\<exists>bs. (bs = x \<and> length x = n) \<and> r' = rd_advance (length bs) r
          \<and> drop (rd_offset r) (rd_data r) = bs @ drop (rd_offset r') (rd_data r)"
    by (intro exI [of _ x]) (simp add: add.commute drop_drop [symmetric] del: drop_drop)
qed

lemma accepts_be:
  assumes "LENGTH('a::len) = 8 * n"
  shows "rd_accepts (rd_bind (mc_reader_bytes n) (\<lambda>bytes. rd_return (be_fold bytes :: 'a word)))
           (\<lambda>bs x. bs = be_bytes n x)"
  by (rule accepts_bind [OF accepts_bytes], rule accepts_return)
    (use assms be_bytes_be_fold [where 'a = 'a] in auto)

lemma accepts_u8: "rd_accepts mc_reader_u8 (\<lambda>bs x. bs = [x])"
proof -
  have one: "bs = [bs ! 0]" if "length bs = Suc 0" for bs :: "u8 list"
    using that by (cases bs) auto
  show ?thesis
    unfolding mc_reader_u8_def
    by (rule accepts_bind [OF accepts_bytes], rule accepts_return) (use one in auto)
qed

lemma accepts_u16: "rd_accepts mc_reader_u16 (\<lambda>bs x. bs = be_bytes 2 x)"
  unfolding u16_be_fold by (rule accepts_be) simp

lemma accepts_u32: "rd_accepts mc_reader_u32 (\<lambda>bs x. bs = be_bytes 4 x)"
  unfolding mc_reader_u32_def by (rule accepts_be) simp

lemma accepts_i32: "rd_accepts mc_reader_i32 (\<lambda>bs x. bs = be_bytes 4 x)"
  unfolding mc_reader_i32_def
  by (rule accepts_bind [OF accepts_u32], rule accepts_return) simp

lemma accepts_skip: "rd_accepts (mc_reader_skip n) (\<lambda>bs _. length bs = n)"
  unfolding mc_reader_skip_def
  by (rule accepts_bind [OF accepts_bytes], rule accepts_return) simp

lemma accepts_nbt_name:
  "rd_accepts mc_reader_nbt_name (\<lambda>bs x. length x < 65536 \<and> bs = nbt_name_bytes x)"
  unfolding mc_reader_nbt_name_def
proof (rule accepts_bind [OF accepts_u16], rule accepts_weaken [OF accepts_bytes])
  fix bs cs :: "u8 list" and x y
  assume "bs = be_bytes 2 x" and "cs = y \<and> length y = unat (x :: u16)"
  moreover have "unat x < 2 ^ LENGTH(16)" by (rule unsigned_less)
  ultimately show "length y < 65536 \<and> bs @ cs = nbt_name_bytes y"
    by (simp add: nbt_name_bytes_def)
qed

lemma accepts_nbt_array:
  "rd_accepts (nbt_skip_array width)
     (\<lambda>bs _. \<exists>n cs. n \<le> 1048576 \<and> bs = nbt_count_bytes n @ cs \<and> length cs = n * width)"
  unfolding nbt_skip_array_def
proof (intro accepts_here accepts_bind [OF accepts_i32] accepts_if accepts_fail)
  fix bs and count :: i32
  assume a: "bs = be_bytes 4 count"
    and n: "\<not> (sint count < 0 \<or> MC_MAX_NBT_COLLECTION_COUNT < unat count)"
  show "rd_accepts (mc_reader_skip (unat count * width)) (\<lambda>cs y. \<exists>n cs'. n \<le> 1048576
          \<and> bs @ cs = nbt_count_bytes n @ cs' \<and> length cs' = n * width)"
    by (rule accepts_weaken [OF accepts_skip])
      (use a n in \<open>auto intro!: exI [of _ "unat count"] simp: nbt_count_bytes_def MC_MAX_NBT_COLLECTION_COUNT_def\<close>)
qed

lemma split_elements:
  fixes bs :: "u8 list"
  assumes "length bs = n * w" and "LENGTH('a::len) = 8 * w"
  shows "\<exists>xs :: 'a word list. length xs = n \<and> bs = concat (map (be_bytes w) xs)"
  using assms(1)
proof (induction n arbitrary: bs)
  case (Suc n)
  then have "length (drop w bs) = n * w" by simp
  from Suc.IH [OF this] obtain xs :: "'a word list"
    where xs: "length xs = n" "drop w bs = concat (map (be_bytes w) xs)" by blast
  have "be_bytes w (be_fold (take w bs) :: 'a word) = take w bs"
    using be_bytes_be_fold [of "take w bs", where 'a = 'a] Suc.prems assms(2) by simp
  then have "bs = concat (map (be_bytes w) (be_fold (take w bs) # xs))"
    using xs(2) by simp (metis append_take_drop_id)
  then show ?case using xs(1) by (intro exI [of _ "be_fold (take w bs) # xs"]) simp
qed simp

lemma nbt_list_accepts:
  assumes "rd_accepts (nbt_skip_value ty (d + 1)) (\<lambda>bs _. \<exists>x. nbt_valid (d + 1) x \<and> nbt_type x = ty \<and> bs = nbt_bytes x)"
  shows "rd_accepts (nbt_skip_list n ty d)
     (\<lambda>bs _. \<exists>xs. length xs = n \<and> list_all (\<lambda>x. nbt_type x = ty \<and> nbt_valid (d + 1) x) xs
              \<and> bs = concat (map nbt_bytes xs))"
proof (induction n)
  case (Suc n)
  show ?case
    unfolding nbt_skip_list.simps
  proof (rule accepts_bind [OF assms], rule accepts_weaken [OF Suc], goal_cases)
    case (1 bs x cs y)
    then obtain x xs where "nbt_valid (d + 1) x" "nbt_type x = ty" "bs = nbt_bytes x" "length xs = n"
      "list_all (\<lambda>x. nbt_type x = ty \<and> nbt_valid (d + 1) x) xs" "cs = concat (map nbt_bytes xs)"
      by blast
    then show ?case by (intro exI [of _ "x # xs"]) simp
  qed
qed (simp add: accepts_return)

lemma nbt_child_accepts:
  assumes "child \<noteq> 0" and "\<And>ty. rd_accepts (nbt_skip_value ty (d + 1))
      (\<lambda>bs _. \<exists>x. nbt_valid (d + 1) x \<and> nbt_type x = ty \<and> bs = nbt_bytes x)"
  shows "rd_accepts (nbt_skip_child child d)
     (\<lambda>bs _. \<exists>name x. length name < 65536 \<and> nbt_valid (d + 1) x \<and> nbt_tag (nbt_type x) = child
              \<and> bs = nbt_name_bytes name @ nbt_bytes x)"
  unfolding nbt_skip_child_def
proof (rule accepts_orelse, rule accepts_bind [OF accepts_test], rule accepts_bind [OF accepts_nbt_name],
    rule accepts_weaken [OF assms(2)], goal_cases)
  case (1 bs u cs name ds v)
  then obtain x where "nbt_valid (d + 1) x" "nbt_type x = mc_nbt_type_of (uint child)" "ds = nbt_bytes x"
    by blast
  then show ?case using 1(1,2) nbt_tag_of [of child] by (intro exI [of _ name] exI [of _ x]) simp
qed

lemma nbt_compound_accepts:
  assumes "\<And>ty. rd_accepts (nbt_skip_value ty (d + 1))
      (\<lambda>bs _. \<exists>x. nbt_valid (d + 1) x \<and> nbt_type x = ty \<and> bs = nbt_bytes x)"
  shows "rd_accepts (nbt_skip_compound n d)
     (\<lambda>bs _. \<exists>kids. list_all (\<lambda>(name, x). length name < 65536 \<and> nbt_valid (d + 1) x) kids
              \<and> bs = nbt_bytes (Nbt_Compound kids))"
proof (induction n)
  case 0
  show ?case by (simp add: accepts_fail)
next
  case (Suc n)
  show ?case
    unfolding nbt_skip_compound_step
  proof (rule accepts_bind [OF accepts_u8], rule accepts_if, goal_cases)
    case (1 bs child)
    then show ?case by (intro accepts_return exI [of _ "[]"]) simp
  next
    case (2 bs child)
    show ?case
    proof (rule accepts_bind [OF nbt_child_accepts [OF 2(2) assms]], rule accepts_weaken [OF Suc], goal_cases)
      case (1 cs u ds v)
      then obtain name x kids where "length name < 65536" "nbt_valid (d + 1) x"
        "nbt_tag (nbt_type x) = child" "cs = nbt_name_bytes name @ nbt_bytes x"
        "list_all (\<lambda>(name, x). length name < 65536 \<and> nbt_valid (d + 1) x) kids"
        "ds = nbt_bytes (Nbt_Compound kids)" by blast
      then show ?case using 2(1) by (intro exI [of _ "(name, x) # kids"]) simp
    qed
  qed
qed

lemma accepts_fuel: "(\<And>n. rd_accepts (f n) P) \<Longrightarrow> rd_accepts (rd_fuel f) P"
  unfolding rd_accepts_def rd_fuel_def by blast

text \<open>The payload of a scalar or array is the payload of some tree.\<close>

lemma payload_scalar:
  "length bs = 1 \<Longrightarrow> \<exists>v. bs = nbt_bytes (Nbt_Byte v)"
  "length bs = 2 \<Longrightarrow> \<exists>v. bs = nbt_bytes (Nbt_Short v)"
  "length bs = 4 \<Longrightarrow> \<exists>v. bs = nbt_bytes (Nbt_Int v)"
  "length bs = 4 \<Longrightarrow> \<exists>v. bs = nbt_bytes (Nbt_Float v)"
  "length bs = 8 \<Longrightarrow> \<exists>v. bs = nbt_bytes (Nbt_Long v)"
  "length bs = 8 \<Longrightarrow> \<exists>v. bs = nbt_bytes (Nbt_Double v)"
  using be_bytes_be_fold [of bs, where 'a = 16] be_bytes_be_fold [of bs, where 'a = 32]
    be_bytes_be_fold [of bs, where 'a = 64] by (auto simp: length_Suc_conv intro: sym)

lemma nbt_scalar_accepts:
  assumes "\<And>bs. length bs = n \<Longrightarrow> \<exists>v. bs = nbt_bytes (C v)"
    and "\<And>v. nbt_type (C v) = ty" and "\<And>v. nbt_valid d (C v)"
  shows "rd_accepts (mc_reader_skip n) (\<lambda>bs _. \<exists>x. nbt_valid d x \<and> nbt_type x = ty \<and> bs = nbt_bytes x)"
  by (rule accepts_weaken [OF accepts_skip]) (use assms in blast)

lemma nbt_value_accepts:
  "rd_accepts (nbt_skip_value ty d) (\<lambda>bs _. \<exists>x. nbt_valid d x \<and> nbt_type x = ty \<and> bs = nbt_bytes x)"
proof (induction "65 - d" arbitrary: d ty)
  case 0
  then show ?case
    unfolding nbt_skip_value.simps [of ty d]
    by (simp add: MC_MAX_NBT_DEPTH_def accepts_here accepts_fail)
next
  case (Suc k)
  then have "k = 65 - (d + 1)" by simp
  note IH = Suc.hyps(1) [OF this]
  have d: "\<not> MC_MAX_NBT_DEPTH < d" and d': "d \<le> 64" using Suc.hyps(2) by (simp_all add: MC_MAX_NBT_DEPTH_def)
  note eqs = nbt_skip_value.simps [of _ d] mc_nbt_type.case if_not_P [OF d]
  show ?case
  proof (cases ty)
    case MC_NBT_LIST
    show ?thesis
      unfolding MC_NBT_LIST eqs
    proof (intro accepts_bind [OF accepts_u8] accepts_here accepts_bind [OF accepts_i32] accepts_if accepts_fail,
        rule accepts_weaken [OF nbt_list_accepts [OF IH]], goal_cases)
      case (1 bs element off cs count ds u)
      then obtain xs where "length xs = unat count"
        "list_all (\<lambda>x. nbt_type x = mc_nbt_type_of (uint element) \<and> nbt_valid (d + 1) x) xs"
        "ds = concat (map nbt_bytes xs)" by blast
      then show ?case
        using 1(1-4) d' nbt_tag_of [of element]
        by (intro exI [of _ "Nbt_List (mc_nbt_type_of (uint element)) xs"])
          (simp add: nbt_count_bytes_def MC_MAX_NBT_COLLECTION_COUNT_def not_less)
    qed
  next
    case MC_NBT_COMPOUND
    show ?thesis
      unfolding MC_NBT_COMPOUND eqs
    proof (rule accepts_weaken [OF accepts_fuel [OF nbt_compound_accepts [OF IH]]], goal_cases)
      case (1 bs u)
      then obtain kids where "list_all (\<lambda>(name, x). length name < 65536 \<and> nbt_valid (d + 1) x) kids"
        "bs = nbt_bytes (Nbt_Compound kids)" by blast
      then show ?case using d' by (intro exI [of _ "Nbt_Compound kids"]) simp
    qed
  next
    case MC_NBT_BYTE_ARRAY
    show ?thesis
      unfolding MC_NBT_BYTE_ARRAY eqs
    proof (rule accepts_weaken [OF accepts_nbt_array], goal_cases)
      case (1 bs u)
      then obtain n cs where "n \<le> 1048576" "bs = nbt_count_bytes n @ cs" "length cs = n" by auto
      then show ?case using d' by (intro exI [of _ "Nbt_Byte_Array cs"]) simp
    qed
  next
    case MC_NBT_INT_ARRAY
    show ?thesis
      unfolding MC_NBT_INT_ARRAY eqs
    proof (rule accepts_weaken [OF accepts_nbt_array], goal_cases)
      case (1 bs u)
      then obtain n cs where n: "n \<le> 1048576" "bs = nbt_count_bytes n @ cs" "length cs = n * 4" by blast
      with split_elements [of cs n 4, where 'a = 32] obtain xs :: "u32 list"
        where "length xs = n" "cs = concat (map (be_bytes 4) xs)" by auto
      with n show ?case using d' by (intro exI [of _ "Nbt_Int_Array xs"]) simp
    qed
  next
    case MC_NBT_LONG_ARRAY
    show ?thesis
      unfolding MC_NBT_LONG_ARRAY eqs
    proof (rule accepts_weaken [OF accepts_nbt_array], goal_cases)
      case (1 bs u)
      then obtain n cs where n: "n \<le> 1048576" "bs = nbt_count_bytes n @ cs" "length cs = n * 8" by blast
      with split_elements [of cs n 8, where 'a = 64] obtain xs :: "u64 list"
        where "length xs = n" "cs = concat (map (be_bytes 8) xs)" by auto
      with n show ?case using d' by (intro exI [of _ "Nbt_Long_Array xs"]) simp
    qed
  next
    case MC_NBT_STRING
    show ?thesis
      unfolding MC_NBT_STRING eqs
      by (rule accepts_bind [OF accepts_nbt_name], rule accepts_return)
        (use d' in \<open>auto intro!: exI [of _ "Nbt_String _"]\<close>)
  next
    case MC_NBT_BYTE
    then show ?thesis
      by (simp only: eqs) (rule nbt_scalar_accepts [where C = Nbt_Byte]; simp add: payload_scalar [simplified] d')
  next
    case MC_NBT_SHORT
    then show ?thesis
      by (simp only: eqs) (rule nbt_scalar_accepts [where C = Nbt_Short]; simp add: payload_scalar [simplified] d')
  next
    case MC_NBT_INT
    then show ?thesis
      by (simp only: eqs) (rule nbt_scalar_accepts [where C = Nbt_Int]; simp add: payload_scalar [simplified] d')
  next
    case MC_NBT_LONG
    then show ?thesis
      by (simp only: eqs) (rule nbt_scalar_accepts [where C = Nbt_Long]; simp add: payload_scalar [simplified] d')
  next
    case MC_NBT_FLOAT
    then show ?thesis
      by (simp only: eqs) (rule nbt_scalar_accepts [where C = Nbt_Float]; simp add: payload_scalar [simplified] d')
  next
    case MC_NBT_DOUBLE
    then show ?thesis
      by (simp only: eqs) (rule nbt_scalar_accepts [where C = Nbt_Double]; simp add: payload_scalar [simplified] d')
  next
    case MC_NBT_END
    then show ?thesis by (simp only: eqs) (rule accepts_here accepts_fail)+
  next
    case (MC_NBT_OTHER n)
    then show ?thesis by (simp only: eqs) (rule accepts_here accepts_fail)+
  qed
qed

subsection \<open>Complete documents\<close>

text \<open>
  A document is the end tag alone, or a tag, a name when the root is named, and a payload.
\<close>

datatype nbt_root = Nbt_Empty | Nbt_Root "u8 list" nbt

fun nbt_root_bytes :: "bool \<Rightarrow> nbt_root \<Rightarrow> u8 list" where
  "nbt_root_bytes named Nbt_Empty = [0]"
| "nbt_root_bytes named (Nbt_Root name x) =
     nbt_tag (nbt_type x) # (if named then nbt_name_bytes name else []) @ nbt_bytes x"

fun nbt_root_valid :: "nbt_root \<Rightarrow> bool" where
  "nbt_root_valid Nbt_Empty = True"
| "nbt_root_valid (Nbt_Root name x) = (length name < 65536 \<and> nbt_valid 0 x)"

lemma parses_view:
  "rd_parses m bs x \<Longrightarrow> rd_parses (rd_bind (rd_capture m) (\<lambda>(_, encoded). rd_return encoded)) bs bs"
  by (rule parses_bind_nil [OF parses_capture]) (simp_all add: parses_return)

lemma accepts_view:
  assumes "rd_accepts m (\<lambda>bs _. P bs)"
  shows "rd_accepts (rd_bind (rd_capture m) (\<lambda>(_, encoded). rd_return encoded)) (\<lambda>bs v. v = bs \<and> P bs)"
proof (rule rd_acceptsI)
  fix r x r'
  assume ok: "rd_ok r" and "rd_bind (rd_capture m) (\<lambda>(_, encoded). rd_return encoded) r = (Some x, r')"
  then obtain u where m: "m r = (Some u, r')"
    and x: "x = take (rd_offset r' - rd_offset r) (drop (rd_offset r) (rd_data r'))"
    by (auto simp: rd_bind_def rd_capture_def rd_return_def split: prod.splits option.splits)
  from assms ok m obtain bs where "P bs" "r' = rd_advance (length bs) r"
    "drop (rd_offset r) (rd_data r) = bs @ drop (rd_offset r') (rd_data r)"
    unfolding rd_accepts_def by blast
  with x show "\<exists>bs. (x = bs \<and> P bs) \<and> r' = rd_advance (length bs) r
      \<and> drop (rd_offset r) (rd_data r) = bs @ drop (rd_offset r') (rd_data r)"
    by (intro exI [of _ bs]) simp
qed

lemma parses_nbt_root:
  assumes "nbt_root_valid root"
  shows "rd_parses (nbt_skip_root named) (nbt_root_bytes named root) ()"
proof (cases root)
  case Nbt_Empty
  have "rd_parses (nbt_skip_root named) ([0] @ []) ()"
    unfolding nbt_skip_root_def
    by (intro parses_bind [OF parses_u8] parses_here) (simp add: parses_return)
  then show ?thesis by (simp add: Nbt_Empty)
next
  case (Nbt_Root name x)
  then have name: "length name < 65536" and x: "nbt_valid 0 x" using assms by simp_all
  have tag: "mc_nbt_type_of (uint (nbt_tag (nbt_type x))) = nbt_type x"
    "\<not> nbt_tag (nbt_type x) > 12" "nbt_tag (nbt_type x) \<noteq> 0"
    using nbt_type_tag [of "nbt_type x"] by (simp_all add: not_less)
  have n: "rd_parses (rd_when named [] mc_reader_nbt_name) (if named then nbt_name_bytes name else [])
             (if named then name else [])"
    using name by (simp add: rd_when_def parses_nbt_name parses_return)
  have "rd_parses (nbt_skip_root named)
      ([nbt_tag (nbt_type x)] @ (if named then nbt_name_bytes name else []) @ nbt_bytes x) ()"
    unfolding nbt_skip_root_def
    by (intro parses_bind [OF parses_u8] parses_here)
      (simp only: tag if_False if_True not_False_eq_True parses_bind [OF n parses_nbt_value [OF x]])
  then show ?thesis by (simp add: Nbt_Root)
qed

lemma accepts_when_name:
  "rd_accepts (rd_when named [] mc_reader_nbt_name)
     (\<lambda>bs name. length name < 65536 \<and> bs = (if named then nbt_name_bytes name else []))"
  by (simp add: rd_when_def accepts_nbt_name accepts_return)

lemma accepts_nbt_root:
  "rd_accepts (nbt_skip_root named) (\<lambda>bs _. \<exists>root. nbt_root_valid root \<and> bs = nbt_root_bytes named root)"
  unfolding nbt_skip_root_def
proof (intro accepts_bind [OF accepts_u8] accepts_here accepts_if accepts_fail
    accepts_bind [OF accepts_when_name], goal_cases)
  case (1 bs tag off cs name)
  show ?case
  proof (rule accepts_weaken [OF nbt_value_accepts], goal_cases)
    case (1 ds u)
    then obtain x where "nbt_valid 0 x" "nbt_type x = mc_nbt_type_of (uint tag)" "ds = nbt_bytes x" by blast
    then show ?case
      using \<open>bs = [tag]\<close> \<open>\<not> 12 < tag\<close> \<open>length name < 65536 \<and> _\<close> nbt_tag_of [of tag]
      by (intro exI [of _ "Nbt_Root name x"]) (simp add: not_less)
  qed
next
  case (2 bs tag off)
  then show ?case by (intro accepts_return exI [of _ Nbt_Empty]) simp
qed

lemma parses_nbt:
  "nbt_root_valid root \<Longrightarrow> rd_parses (mc_reader_nbt named) (nbt_root_bytes named root) (nbt_root_bytes named root)"
  unfolding mc_reader_nbt_def by (rule parses_view [OF parses_nbt_root])

lemma accepts_nbt:
  "rd_accepts (mc_reader_nbt named)
     (\<lambda>bs v. v = bs \<and> (\<exists>root. nbt_root_valid root \<and> bs = nbt_root_bytes named root))"
  unfolding mc_reader_nbt_def by (intro accepts_view accepts_nbt_root)

lemma nbt_accepts_iff:
  assumes mode: "valid_mode mode"
  shows "fst (mc_reader_nbt named (mc_reader_init_mode (Buf bs) mode e)) = Some v \<longleftrightarrow>
    (\<exists>root rest. nbt_root_valid root \<and> v = nbt_root_bytes named root \<and> bs = v @ rest)"
proof
  let ?r = "mc_reader_init_mode (Buf bs) mode e"
  note f = mc_reader_init_mode_fields [OF mode, of bs e]
  {
    assume "fst (mc_reader_nbt named ?r) = Some v"
    then obtain r' where "mc_reader_nbt named ?r = (Some v, r')" by (cases "mc_reader_nbt named ?r") auto
    with accepts_nbt [of named] f(5) obtain root where "nbt_root_valid root" "v = nbt_root_bytes named root"
      "drop (rd_offset ?r) (rd_data ?r) = v @ drop (rd_offset r') (rd_data ?r)"
      unfolding rd_accepts_def by blast
    then show "\<exists>root rest. nbt_root_valid root \<and> v = nbt_root_bytes named root \<and> bs = v @ rest"
      by (auto simp: f)
  next
    assume "\<exists>root rest. nbt_root_valid root \<and> v = nbt_root_bytes named root \<and> bs = v @ rest"
    then obtain root rest where root: "nbt_root_valid root" "v = nbt_root_bytes named root" "bs = v @ rest"
      by blast
    have "mc_reader_nbt named ?r = (Some v, rd_advance (length v) ?r)"
      using rd_parsesD [OF parses_nbt [OF root(1)], of ?r named rest] root f by simp
    then show "fst (mc_reader_nbt named ?r) = Some v" by simp
  }
qed

text \<open>The writer accepts a document and nothing else.\<close>

lemma nbt_packet_accepts:
  assumes root: "nbt_root_valid root"
  shows "pk_contract (mc_packet_nbt named (Some (Buf (nbt_root_bytes named root)))) (nbt_root_bytes named root)"
proof -
  let ?bs = "nbt_root_bytes named root"
  let ?r = "mc_reader_init (Buf ?bs)"
  note f = mc_reader_init_mode_fields [of MC_DECODE_VANILLA_COMPAT ?bs None]
  have "mc_reader_nbt named ?r = (Some ?bs, rd_advance (length ?bs) ?r)"
    unfolding mc_reader_init_def
    by (rule rd_parsesD [OF parses_nbt [OF root], where rest = "[]"]) (simp_all add: f valid_mode_def)
  then have "mc_packet_nbt named (Some (Buf ?bs)) p = (if pk_failed p then pk_reject p else mc_packet_bytes (Buf ?bs) p)"
    for p
    by (simp add: mc_packet_nbt_def mc_reader_remaining_def mc_reader_init_def f valid_mode_def)
  moreover have "(if pk_failed p then pk_reject p else mc_packet_bytes (Buf ?bs) p) = mc_packet_bytes (Buf ?bs) p" for p
    by (simp add: mc_packet_bytes_def pk_reject_def)
  ultimately have "mc_packet_nbt named (Some (Buf ?bs)) = mc_packet_bytes (Buf ?bs)" by (intro ext) simp
  then show ?thesis by (simp add: pk_contract_bytes)
qed

lemma nbt_packet_rejects:
  assumes "\<And>root. nbt_root_valid root \<Longrightarrow> bs \<noteq> nbt_root_bytes named root"
  shows "pk_rejects (mc_packet_nbt named (Some (Buf bs)))"
proof -
  let ?r = "mc_reader_init (Buf bs)"
  note f = mc_reader_init_mode_fields [of MC_DECODE_VANILLA_COMPAT bs None]
  have ok: "rd_ok ?r" by (simp add: mc_reader_init_def f valid_mode_def)
  have "mc_reader_remaining r' \<noteq> 0" if run: "mc_reader_nbt named ?r = (Some v, r')" for v r'
  proof
    assume none: "mc_reader_remaining r' = 0"
    from accepts_nbt [of named] ok run obtain root where root: "nbt_root_valid root" "v = nbt_root_bytes named root"
      "r' = rd_advance (length v) ?r"
      "drop (rd_offset ?r) (rd_data ?r) = v @ drop (rd_offset r') (rd_data ?r)"
      unfolding rd_accepts_def by blast
    have "drop (rd_offset r') bs = []"
      using none root(3) ok by (simp add: mc_reader_remaining_def mc_reader_init_def f valid_mode_def split: if_splits)
    then have "bs = v" using root(4) by (simp add: mc_reader_init_def f valid_mode_def)
    with assms root show False by blast
  qed
  then show ?thesis
    unfolding pk_rejects_def mc_packet_nbt_def
    by (auto simp: pk_reject_def split: prod.split option.split)
qed

end
