(* ===== verification/Floats.thy ===== *)
theory Floats
  imports Prelude
begin

text \<open>
  The floating-point operations the packet code uses, on the IEEE 754 bits: classification,
  comparison with a range, conversion to a small integer, and the sum of two finite doubles in
  round-to-nearest-even, computed exactly on integers and rounded once. The target evaluates
  \<open>float\<close> and \<open>double\<close> expressions in their own formats.
\<close>

subsection \<open>Fields\<close>

definition f32_exponent :: "f32 \<Rightarrow> nat" where
  "f32_exponent x = unat (drop_bit 23 x AND 0xff)"

definition f32_fraction :: "f32 \<Rightarrow> nat" where
  "f32_fraction x = unat (x AND 0x7fffff)"

definition f64_exponent :: "f64 \<Rightarrow> nat" where
  "f64_exponent x = unat (drop_bit 52 x AND 0x7ff)"

definition f64_fraction :: "f64 \<Rightarrow> nat" where
  "f64_fraction x = unat (x AND 0xfffffffffffff)"

definition f64_negative :: "f64 \<Rightarrow> bool" where
  "f64_negative x \<longleftrightarrow> bit x 63"

definition f32_isfinite :: "f32 \<Rightarrow> bool" where
  "f32_isfinite x \<longleftrightarrow> f32_exponent x \<noteq> 0xff"

definition f64_isfinite :: "f64 \<Rightarrow> bool" where
  "f64_isfinite x \<longleftrightarrow> f64_exponent x \<noteq> 0x7ff"

subsection \<open>Ranges\<close>

text \<open>\<^verbatim>\<open>x < 0.0F\<close> and \<^verbatim>\<open>x > 1.0F\<close> for a finite \<open>x\<close>; -0.0 is not below zero.\<close>

definition f32_below_zero :: "f32 \<Rightarrow> bool" where
  "f32_below_zero x \<longleftrightarrow> bit x 31 \<and> x AND 0x7fffffff \<noteq> 0"

definition f32_above_one :: "f32 \<Rightarrow> bool" where
  "f32_above_one x \<longleftrightarrow> \<not> bit x 31 \<and> x > 0x3f800000"

text \<open>
  A finite float is \<open>significand * 2 ^ (exponent - 149)\<close>, the exponent at least zero.
\<close>

definition f32_significand :: "f32 \<Rightarrow> nat" where
  "f32_significand x = (if f32_exponent x = 0 then f32_fraction x else f32_fraction x + 2 ^ 23)"

definition f32_scale :: "f32 \<Rightarrow> nat" where
  "f32_scale x = f32_exponent x - 1"

text \<open>
  \<open>f32_sixteenths x\<close> is the integer \<open>n\<close> with \<open>n = x * 16\<close>, for \<open>0 \<le> x \<le> 1\<close>, if there is one: the
  product by a power of two is exact, so the test of the source, that the truncated product
  converts back to the product, asks whether it is an integer.
\<close>

definition f32_sixteenths :: "f32 \<Rightarrow> i8 option" where
  "f32_sixteenths x =
     (let n = f32_significand x * 2 ^ (f32_scale x); d = 2 ^ 145
      in if n mod d = 0 then Some (of_nat (n div d)) else None)"

subsection \<open>Sums of doubles\<close>

text \<open>A finite double times \<open>2 ^ 1074\<close> is an integer.\<close>

definition f64_scaled :: "f64 \<Rightarrow> int" where
  "f64_scaled x =
     (let m = (if f64_exponent x = 0 then f64_fraction x else f64_fraction x + 2 ^ 52) in
      let n = int (m * 2 ^ (f64_exponent x - 1)) in
      if f64_negative x then - n else n)"

fun bit_length :: "nat \<Rightarrow> nat" where
  "bit_length n = (if n = 0 then 0 else Suc (bit_length (n div 2)))"

declare bit_length.simps [simp del]

definition F64_INFINITY :: nat where
  "F64_INFINITY = 0x7ff0000000000000"

text \<open>
  Rounding a positive multiple of \<open>2 ^ -1074\<close> to the bits of a double: 53 significant bits, ties
  to even. A carry out of the significand moves into the exponent field by itself.
\<close>

definition f64_round :: "nat \<Rightarrow> nat" where
  "f64_round a =
     (let shift = bit_length a - 53;
          q = a div 2 ^ shift;
          r = a mod 2 ^ shift;
          up = 2 * r > 2 ^ shift \<or> (2 * r = 2 ^ shift \<and> odd q \<and> shift \<noteq> 0)
      in min F64_INFINITY (shift * 2 ^ 52 + (if up then q + 1 else q)))"

definition f64_add :: "f64 \<Rightarrow> f64 \<Rightarrow> f64" where
  "f64_add x y =
     (let s = f64_scaled x + f64_scaled y;
          sign = (if s = 0 then f64_negative x \<and> f64_negative y else s < 0);
          bits = of_nat (f64_round (nat \<bar>s\<bar>))
      in if sign then bits OR 0x8000000000000000 else bits)"

text \<open>With one operand infinite, the sum is that operand; two infinite operands do not occur.\<close>

definition f64_plus :: "f64 \<Rightarrow> f64 \<Rightarrow> f64" where
  "f64_plus x y = (if \<not> f64_isfinite x then x else if \<not> f64_isfinite y then y else f64_add x y)"

subsection \<open>Sums of floats\<close>

text \<open>A finite float times \<open>2 ^ 149\<close> is an integer.\<close>

definition f32_scaled :: "f32 \<Rightarrow> int" where
  "f32_scaled x =
     (let n = int (f32_significand x * 2 ^ (f32_scale x)) in if bit x 31 then - n else n)"

definition F32_INFINITY :: nat where
  "F32_INFINITY = 0x7f800000"

definition f32_round :: "nat \<Rightarrow> nat" where
  "f32_round a =
     (let shift = bit_length a - 24;
          q = a div 2 ^ shift;
          r = a mod 2 ^ shift;
          up = 2 * r > 2 ^ shift \<or> (2 * r = 2 ^ shift \<and> odd q \<and> shift \<noteq> 0)
      in min F32_INFINITY (shift * 2 ^ 23 + (if up then q + 1 else q)))"

definition f32_plus :: "f32 \<Rightarrow> f32 \<Rightarrow> f32" where
  "f32_plus x y =
     (if \<not> f32_isfinite x then x else if \<not> f32_isfinite y then y
      else
        let s = f32_scaled x + f32_scaled y;
            sign = (if s = 0 then bit x 31 \<and> bit y 31 else s < 0);
            bits = of_nat (f32_round (nat \<bar>s\<bar>))
        in if sign then bits OR 0x80000000 else bits)"

end
