(* ===== verification/Builders.thy ===== *)
theory Builders
  imports Profiles Nbt Floats
begin

text \<open>
  The packet body builders of \<open>api.c\<close>, from \<open>mc_packet_position\<close> to \<open>mc_packet_command\<close>: each checks
  its arguments against the protocol, rejects them by setting the failure bit, and otherwise
  appends the fields of that protocol.

  A value argument is a pointer that may be null, an option; the guard on the packet pointer
  itself is not modelled. The gzip encoder of zlib that the 1.7 item form uses is a parameter.

  Lemmas. \<open>pk_atomic w\<close> says of a builder that it either never succeeds, or has one byte string
  that it appends completely or fails. \<open>pk_sequence_complete\<close> is what the sticky failure bit is
  for: a packet that has not failed after any number of such calls holds all of their bytes.
\<close>

subsection \<open>Control flow\<close>

text \<open>\<^verbatim>\<open>if (c) { packet->failed = true; return false; }\<close>\<close>

definition pk_guard :: "bool \<Rightarrow> wr \<Rightarrow> wr" where
  "pk_guard c w = (if c then pk_reject else w)"

text \<open>A value pointer: null is rejected.\<close>

definition pk_deref :: "'a option \<Rightarrow> ('a \<Rightarrow> wr) \<Rightarrow> wr" where
  "pk_deref value f = (case value of None \<Rightarrow> pk_reject | Some v \<Rightarrow> f v)"

text \<open>An array argument: a null pointer with the count the caller claims, or the elements.\<close>

datatype 'a carray = NullArray nat | Array "'a list"

fun array_count :: "'a carray \<Rightarrow> nat" where
  "array_count (NullArray n) = n"
| "array_count (Array xs) = length xs"

fun array_null :: "'a carray \<Rightarrow> bool" where
  "array_null (NullArray n) = True"
| "array_null (Array xs) = False"

fun array_elements :: "'a carray \<Rightarrow> 'a list" where
  "array_elements (NullArray n) = []"
| "array_elements (Array xs) = xs"

subsection \<open>Positions, identifiers, items\<close>

record mc_position =
  pos_x :: i32
  pos_y :: i32
  pos_z :: i32

definition position_in_range :: "mc_position \<Rightarrow> bool" where
  "position_in_range v \<longleftrightarrow>
     \<not> (sint (pos_x v) < -33554432 \<or> sint (pos_x v) > 33554431
        \<or> sint (pos_y v) < -2048 \<or> sint (pos_y v) > 2047
        \<or> sint (pos_z v) < -33554432 \<or> sint (pos_z v) > 33554431)"

definition position_pack :: "int \<Rightarrow> mc_position \<Rightarrow> u64" where
  "position_pack protocol v =
     (let x = ucast (pos_x v) AND 0x3ffffff;
          y = ucast (pos_y v) AND 0xfff;
          z = ucast (pos_z v) AND 0x3ffffff
      in if protocol \<ge> 477
         then (push_bit 38 x OR push_bit 12 z) OR y
         else (push_bit 38 x OR push_bit 26 y) OR z)"

definition mc_packet_position :: "int \<Rightarrow> mc_position \<Rightarrow> wr" where
  "mc_packet_position protocol value =
     pk_guard (\<not> mc_protocol_supported protocol \<or> \<not> position_in_range value)
       (mc_packet_u64 (position_pack protocol value))"

text \<open>A \<open>McUuid\<close> is the list of its sixteen bytes.\<close>

type_synonym mc_uuid = "u8 list"

definition mc_packet_uuid :: "mc_uuid option \<Rightarrow> wr" where
  "mc_packet_uuid value = pk_deref value (\<lambda>bytes. mc_packet_bytes (Buf bytes))"

definition UINT16_MAX :: int where
  "UINT16_MAX = 65535"

definition UINT8_MAX :: int where
  "UINT8_MAX = 255"

definition INT16_MAX :: int where
  "INT16_MAX = 32767"

definition INT8_MAX :: int where
  "INT8_MAX = 127"

definition mc_packet_plain_item :: "int \<Rightarrow> i32 \<Rightarrow> i32 \<Rightarrow> wr" where
  "mc_packet_plain_item protocol item_id count =
     pk_guard (\<not> mc_protocol_supported protocol \<or> sint count < 0 \<or> sint count > 127
               \<or> (count \<noteq> 0 \<and> sint item_id \<le> 0)
               \<or> (protocol \<le> 401 \<and> sint item_id > UINT16_MAX))
      (if protocol \<le> 340 then
         pk_and (mc_packet_u16 (if count = 0 then 0xffff else ucast item_id))
           (if count = 0 then pk_done
            else pk_all
              [mc_packet_u8 (ucast count), mc_packet_u16 0,
               if protocol \<le> 5 then mc_packet_i16 (-1) else mc_packet_u8 0])
       else if protocol = 393 \<or> protocol = 401 then
         pk_and (mc_packet_u16 (if count = 0 then 0xffff else ucast item_id))
           (pk_when (count \<noteq> 0) (pk_all [mc_packet_u8 (ucast count), mc_packet_u8 0]))
       else if protocol < 766 then
         pk_and (mc_packet_bool (count \<noteq> 0))
           (pk_when (count \<noteq> 0)
             (pk_all [mc_packet_varint item_id, mc_packet_u8 (ucast count), mc_packet_u8 0]))
       else
         pk_and (mc_packet_varint count)
           (pk_when (count \<noteq> 0)
             (pk_all [mc_packet_varint item_id, mc_packet_varint 0, mc_packet_varint 0])))"

definition mc_packet_set_creative_slot_damage :: "int \<Rightarrow> i16 \<Rightarrow> i32 \<Rightarrow> i32 \<Rightarrow> i32 \<Rightarrow> wr" where
  "mc_packet_set_creative_slot_damage protocol slot item_id count damage =
     pk_guard (\<not> mc_protocol_supported protocol \<or> sint count < 0 \<or> sint count > 127
               \<or> sint damage < 0 \<or> sint damage > UINT16_MAX
               \<or> (count \<noteq> 0 \<and> sint item_id \<le> 0)
               \<or> (count = 0 \<and> damage \<noteq> 0)
               \<or> (protocol \<le> 401 \<and> sint item_id > UINT16_MAX)
               \<or> (protocol > 340 \<and> damage \<noteq> 0))
      (pk_and (mc_packet_i16 slot)
        (if protocol > 340 then mc_packet_plain_item protocol item_id count
         else pk_and (mc_packet_u16 (if count = 0 then 0xffff else ucast item_id))
           (if count = 0 then pk_done
            else pk_all
              [mc_packet_u8 (ucast count), mc_packet_u16 (ucast damage),
               if protocol \<le> 5 then mc_packet_i16 (-1) else mc_packet_u8 0])))"

definition mc_packet_set_creative_slot :: "int \<Rightarrow> i16 \<Rightarrow> i32 \<Rightarrow> i32 \<Rightarrow> wr" where
  "mc_packet_set_creative_slot protocol slot item_id count =
     mc_packet_set_creative_slot_damage protocol slot item_id count 0"

definition mc_packet_held_item_slot :: "int \<Rightarrow> i16 \<Rightarrow> wr" where
  "mc_packet_held_item_slot protocol slot =
     pk_guard (\<not> mc_protocol_supported protocol \<or> sint slot < 0 \<or> sint slot > 8)
       (mc_packet_i16 slot)"

subsection \<open>Windows\<close>

record mc_empty_window_click =
  wc_window_id :: i32
  wc_state_id :: i32
  wc_slot :: i16
  wc_mouse_button :: i8
  wc_action_number :: i16
  wc_mode :: i32

record mc_window_click = mc_empty_window_click +
  wc_clicked_item_id :: i32
  wc_clicked_item_count :: i32

definition mc_packet_window_click :: "int \<Rightarrow> mc_window_click option \<Rightarrow> wr" where
  "mc_packet_window_click protocol value = pk_deref value (\<lambda>v.
     pk_guard (\<not> mc_protocol_supported protocol
        \<or> sint (wc_state_id v) < 0 \<or> sint (wc_mode v) < 0 \<or> sint (wc_mode v) > 6
        \<or> sint (wc_clicked_item_count v) < 0 \<or> sint (wc_clicked_item_count v) > 127
        \<or> (wc_clicked_item_count v \<noteq> 0 \<and> sint (wc_clicked_item_id v) \<le> 0)
        \<or> (protocol \<ge> 755 \<and> wc_clicked_item_count v \<noteq> 0)
        \<or> (protocol \<le> 5 \<and> (sint (wc_window_id v) < -128 \<or> sint (wc_window_id v) > INT8_MAX))
        \<or> (protocol \<ge> 47 \<and> protocol \<le> 767
            \<and> (sint (wc_window_id v) < 0 \<or> sint (wc_window_id v) > UINT8_MAX))
        \<or> (protocol \<ge> 768 \<and> sint (wc_window_id v) < 0))
     (pk_all
       [if protocol \<le> 5 then mc_packet_i8 (ucast (wc_window_id v))
        else if protocol \<le> 767 then mc_packet_u8 (ucast (wc_window_id v))
        else mc_packet_varint (wc_window_id v),
        pk_when (protocol \<ge> 756) (mc_packet_varint (wc_state_id v)),
        mc_packet_i16 (wc_slot v),
        mc_packet_i8 (wc_mouse_button v),
        if protocol \<le> 754 then pk_all
          [mc_packet_i16 (wc_action_number v), mc_packet_i8 (ucast (wc_mode v)),
           mc_packet_plain_item protocol (wc_clicked_item_id v) (wc_clicked_item_count v)]
        else pk_all
          [if protocol = 755 then mc_packet_i8 (ucast (wc_mode v)) else mc_packet_varint (wc_mode v),
           mc_packet_varint 0,
           if protocol < 770 then mc_packet_plain_item protocol 0 0 else mc_packet_bool False]]))"

definition mc_packet_close_window :: "int \<Rightarrow> i32 \<Rightarrow> wr" where
  "mc_packet_close_window protocol window_id =
     pk_guard (\<not> mc_protocol_supported protocol \<or> sint window_id < 0
               \<or> (protocol \<le> 767 \<and> sint window_id > UINT8_MAX))
       (if protocol \<le> 767 then mc_packet_u8 (ucast window_id) else mc_packet_varint window_id)"

definition mc_packet_empty_window_click :: "int \<Rightarrow> mc_empty_window_click option \<Rightarrow> wr" where
  "mc_packet_empty_window_click protocol value = pk_deref value (\<lambda>v.
     mc_packet_window_click protocol (Some
       \<lparr>wc_window_id = wc_window_id v, wc_state_id = wc_state_id v, wc_slot = wc_slot v,
        wc_mouse_button = wc_mouse_button v, wc_action_number = wc_action_number v,
        wc_mode = wc_mode v, wc_clicked_item_id = 0, wc_clicked_item_count = 0\<rparr>))"

definition mc_packet_container_button :: "int \<Rightarrow> i32 \<Rightarrow> i32 \<Rightarrow> wr" where
  "mc_packet_container_button protocol window_id button_id =
     pk_guard (\<not> mc_protocol_supported protocol \<or> sint window_id < 0 \<or> sint button_id < 0
               \<or> (protocol \<le> 766 \<and> (sint window_id > INT8_MAX \<or> sint button_id > INT8_MAX))
               \<or> (protocol = 767 \<and> sint window_id > UINT8_MAX))
      (if protocol \<le> 766
       then pk_all [mc_packet_i8 (ucast window_id), mc_packet_i8 (ucast button_id)]
       else pk_all
         [if protocol = 767 then mc_packet_u8 (ucast window_id) else mc_packet_varint window_id,
          mc_packet_varint button_id])"

record mc_item_component_patch =
  cp_type_id :: i32
  cp_data :: buffer

text \<open>
  The two loops of \<open>mc_packet_untrusted_component_item\<close>. A zero count ends the body after the
  count; there \<^verbatim>\<open>count == 0 && !packet->failed\<close> is the result of writing it.
\<close>

definition mc_packet_untrusted_component_item ::
  "int \<Rightarrow> i32 \<Rightarrow> i32 \<Rightarrow> mc_item_component_patch carray \<Rightarrow> i32 carray \<Rightarrow> wr" where
  "mc_packet_untrusted_component_item protocol item_id count added removed =
     pk_guard (\<not> mc_protocol_supported protocol \<or> protocol < 770
               \<or> sint count < 0 \<or> sint count > 127 \<or> (count \<noteq> 0 \<and> sint item_id \<le> 0)
               \<or> array_count added > INT32_MAX \<or> array_count removed > INT32_MAX
               \<or> (array_count added \<noteq> 0 \<and> array_null added)
               \<or> (array_count removed \<noteq> 0 \<and> array_null removed))
      (pk_and (mc_packet_varint count)
        (if count = 0 then pk_done
         else pk_all
           [mc_packet_varint item_id,
            mc_packet_varint (of_nat (array_count added)),
            mc_packet_varint (of_nat (array_count removed)),
            pk_all (map (\<lambda>c. pk_or_reject
                (if sint (cp_type_id c) < 0 \<or> buf_size (cp_data c) > INT32_MAX
                    \<or> (buf_size (cp_data c) \<noteq> 0 \<and> buf_null (cp_data c))
                 then pk_reject
                 else pk_and (mc_packet_varint (cp_type_id c))
                        (mc_packet_buffer_varint (cp_data c))))
              (array_elements added)),
            pk_all (map (\<lambda>id. pk_or_reject
                (if sint id < 0 then pk_reject else mc_packet_varint id))
              (array_elements removed))]))"

subsection \<open>Client settings and player actions\<close>

record mc_client_information =
  ci_locale :: "u8 list option"
  ci_view_distance :: i8
  ci_chat_mode :: i32
  ci_chat_colors :: bool
  ci_skin_parts :: u8
  ci_difficulty :: u8
  ci_show_cape :: bool
  ci_main_hand :: i32
  ci_text_filtering :: bool
  ci_server_listing :: bool
  ci_particle_status :: i32

definition mc_packet_client_information :: "int \<Rightarrow> mc_client_information option \<Rightarrow> wr" where
  "mc_packet_client_information protocol value = pk_deref value (\<lambda>v. pk_deref (ci_locale v) (\<lambda>locale.
     pk_guard (\<not> mc_protocol_supported protocol)
     (pk_guard (length locale = 0 \<or> length locale > 16
        \<or> sint (ci_view_distance v) < 2 \<or> sint (ci_view_distance v) > 32
        \<or> sint (ci_chat_mode v) < 0 \<or> sint (ci_chat_mode v) > 2
        \<or> (protocol \<le> 5 \<and> ci_difficulty v > 3)
        \<or> (protocol \<ge> 107 \<and> (sint (ci_main_hand v) < 0 \<or> sint (ci_main_hand v) > 1))
        \<or> (protocol \<ge> 768 \<and> (sint (ci_particle_status v) < 0 \<or> sint (ci_particle_status v) > 2)))
     (pk_all
       [mc_packet_string_n (Buf locale),
        mc_packet_i8 (ci_view_distance v),
        if protocol \<le> 47 then mc_packet_i8 (ucast (ci_chat_mode v))
        else mc_packet_varint (ci_chat_mode v),
        mc_packet_bool (ci_chat_colors v),
        if protocol \<le> 5
        then pk_all [mc_packet_u8 (ci_difficulty v), mc_packet_bool (ci_show_cape v)]
        else pk_all
          [mc_packet_u8 (ci_skin_parts v),
           pk_when (protocol \<ge> 107) (mc_packet_varint (ci_main_hand v)),
           pk_when (protocol \<ge> 755) (mc_packet_bool (ci_text_filtering v)),
           pk_when (protocol \<ge> 757) (mc_packet_bool (ci_server_listing v)),
           pk_when (\<not> protocol < 768) (mc_packet_varint (ci_particle_status v))]]))))"

datatype mc_entity_action_kind =
    MC_ENTITY_ACTION_START_SNEAKING | MC_ENTITY_ACTION_STOP_SNEAKING
  | MC_ENTITY_ACTION_LEAVE_BED | MC_ENTITY_ACTION_START_SPRINTING
  | MC_ENTITY_ACTION_STOP_SPRINTING | MC_ENTITY_ACTION_START_HORSE_JUMP
  | MC_ENTITY_ACTION_STOP_HORSE_JUMP | MC_ENTITY_ACTION_OPEN_VEHICLE_INVENTORY
  | MC_ENTITY_ACTION_START_ELYTRA_FLYING | MC_ENTITY_ACTION_OTHER int

fun entity_action_id :: "int \<Rightarrow> mc_entity_action_kind \<Rightarrow> i32 option" where
  "entity_action_id protocol MC_ENTITY_ACTION_START_SNEAKING =
     (if protocol \<ge> 771 then None else Some (if protocol \<le> 5 then 1 else 0))"
| "entity_action_id protocol MC_ENTITY_ACTION_STOP_SNEAKING =
     (if protocol \<ge> 771 then None else Some (if protocol \<le> 5 then 2 else 1))"
| "entity_action_id protocol MC_ENTITY_ACTION_LEAVE_BED =
     Some (if protocol \<le> 5 then 3 else if protocol \<ge> 771 then 0 else 2)"
| "entity_action_id protocol MC_ENTITY_ACTION_START_SPRINTING =
     Some (if protocol \<le> 5 then 4 else if protocol \<ge> 771 then 1 else 3)"
| "entity_action_id protocol MC_ENTITY_ACTION_STOP_SPRINTING =
     Some (if protocol \<le> 5 then 5 else if protocol \<ge> 771 then 2 else 4)"
| "entity_action_id protocol MC_ENTITY_ACTION_START_HORSE_JUMP =
     Some (if protocol \<le> 5 then 6 else if protocol \<ge> 771 then 3 else 5)"
| "entity_action_id protocol MC_ENTITY_ACTION_STOP_HORSE_JUMP =
     Some (if protocol \<le> 5 then 7 else if protocol \<ge> 771 then 4 else 6)"
| "entity_action_id protocol MC_ENTITY_ACTION_OPEN_VEHICLE_INVENTORY =
     Some (if protocol \<le> 5 then 8 else if protocol \<ge> 771 then 5 else 7)"
| "entity_action_id protocol MC_ENTITY_ACTION_START_ELYTRA_FLYING =
     (if protocol < 107 then None else Some (if protocol \<ge> 771 then 6 else 8))"
| "entity_action_id protocol (MC_ENTITY_ACTION_OTHER n) = None"

record mc_entity_action =
  ea_entity_id :: i32
  ea_action :: mc_entity_action_kind
  ea_jump_boost :: i32

definition mc_packet_entity_action :: "int \<Rightarrow> mc_entity_action option \<Rightarrow> wr" where
  "mc_packet_entity_action protocol value = pk_deref value (\<lambda>v.
     pk_guard (\<not> mc_protocol_supported protocol
               \<or> sint (ea_entity_id v) < 0 \<or> sint (ea_jump_boost v) < 0)
     (pk_deref (entity_action_id protocol (ea_action v)) (\<lambda>action_id.
       if protocol \<le> 5
       then pk_all [mc_packet_i32 (ea_entity_id v), mc_packet_i8 (ucast action_id),
                    mc_packet_i32 (ea_jump_boost v)]
       else pk_all [mc_packet_varint (ea_entity_id v), mc_packet_varint action_id,
                    mc_packet_varint (ea_jump_boost v)])))"

definition mc_packet_player_input :: "int \<Rightarrow> u8 \<Rightarrow> wr" where
  "mc_packet_player_input protocol flags =
     pk_guard (\<not> mc_protocol_supported protocol \<or> protocol < 768 \<or> flags AND 0x80 \<noteq> 0)
       (mc_packet_u8 flags)"

definition mc_packet_arm_animation :: "int \<Rightarrow> i32 \<Rightarrow> i32 \<Rightarrow> wr" where
  "mc_packet_arm_animation protocol entity_id hand =
     pk_guard (\<not> mc_protocol_supported protocol \<or> (protocol \<le> 5 \<and> sint entity_id < 0)
               \<or> (protocol \<ge> 107 \<and> (sint hand < 0 \<or> sint hand > 1)))
      (if protocol \<le> 5 then pk_all [mc_packet_i32 entity_id, mc_packet_i8 1]
       else if protocol \<ge> 777 then pk_guard (hand \<noteq> 0) pk_done
       else pk_when (protocol \<noteq> 47) (mc_packet_varint hand))"

record mc_player_position =
  pp_x :: f64
  pp_y :: f64
  pp_z :: f64
  pp_yaw :: f32
  pp_pitch :: f32
  pp_on_ground :: bool

text \<open>The double 1.62, the eye height of the 1.7 body.\<close>

definition EYE_HEIGHT :: f64 where
  "EYE_HEIGHT = 0x3FF9EB851EB851EC"

definition mc_packet_player_position :: "int \<Rightarrow> mc_player_position option \<Rightarrow> wr" where
  "mc_packet_player_position protocol value = pk_deref value (\<lambda>v.
     pk_guard (\<not> mc_protocol_supported protocol
        \<or> \<not> f64_isfinite (pp_x v) \<or> \<not> f64_isfinite (pp_y v) \<or> \<not> f64_isfinite (pp_z v)
        \<or> \<not> f32_isfinite (pp_yaw v) \<or> \<not> f32_isfinite (pp_pitch v)
        \<or> (protocol \<le> 5 \<and> \<not> f64_isfinite (f64_add (pp_y v) EYE_HEIGHT)))
     (pk_all
       [mc_packet_double (pp_x v), mc_packet_double (pp_y v),
        pk_when (\<not> protocol > 5) (mc_packet_double (f64_add (pp_y v) EYE_HEIGHT)),
        mc_packet_double (pp_z v), mc_packet_float (pp_yaw v), mc_packet_float (pp_pitch v),
        mc_packet_bool (pp_on_ground v)]))"

record mc_player_abilities =
  pa_flags :: u8
  pa_flying_speed :: f32
  pa_walking_speed :: f32

definition mc_packet_player_abilities :: "int \<Rightarrow> mc_player_abilities option \<Rightarrow> wr" where
  "mc_packet_player_abilities protocol value = pk_deref value (\<lambda>v.
     pk_guard (\<not> mc_protocol_supported protocol)
     (pk_and (mc_packet_u8 (pa_flags v))
       (pk_when (\<not> protocol \<ge> 735)
         (pk_and (mc_packet_float (pa_flying_speed v)) (mc_packet_float (pa_walking_speed v))))))"

subsection \<open>Digging, placing and using\<close>

record mc_block_dig =
  bd_status :: i32
  bd_location :: mc_position
  bd_face :: i8
  bd_sequence :: i32

definition mc_packet_block_dig :: "int \<Rightarrow> mc_block_dig option \<Rightarrow> wr" where
  "mc_packet_block_dig protocol value = pk_deref value (\<lambda>v.
     pk_guard (\<not> mc_protocol_supported protocol
        \<or> sint (bd_status v) < 0 \<or> sint (bd_status v) > 6
        \<or> sint (bd_face v) < 0 \<or> sint (bd_face v) > 5 \<or> sint (bd_sequence v) < 0)
     (if protocol \<le> 5 then
        pk_guard (sint (pos_y (bd_location v)) < 0 \<or> sint (pos_y (bd_location v)) > UINT8_MAX)
          (pk_all
            [mc_packet_i8 (ucast (bd_status v)), mc_packet_i32 (pos_x (bd_location v)),
             mc_packet_u8 (ucast (pos_y (bd_location v))), mc_packet_i32 (pos_z (bd_location v)),
             mc_packet_i8 (bd_face v)])
      else
        let wire_status = (if protocol \<ge> 777 \<and> sint (bd_status v) > 0
                           then bd_status v + 1 else bd_status v)
        in pk_all
            [mc_packet_varint wire_status, mc_packet_position protocol (bd_location v),
             mc_packet_i8 (bd_face v),
             pk_when (\<not> protocol < 759) (mc_packet_varint (bd_sequence v))]))"

text \<open>
  What the 1.7 item form uses of zlib: \<open>compressBound\<close>, and the gzip member that a complete
  \<open>deflate\<close> into a buffer of the given size produces, if it finishes (and memory allows it).
\<close>

record zlib_gzip =
  zg_bound :: "nat \<Rightarrow> nat"
  zg_member :: "nat \<Rightarrow> u8 list \<Rightarrow> u8 list option"

record mc_block_place =
  bp_location :: mc_position
  bp_direction :: i32
  bp_hand :: i32
  bp_held_item_id :: i32
  bp_held_item_count :: i32
  bp_held_item_damage :: i32
  bp_held_item_nbt :: buffer
  bp_cursor_x :: f32
  bp_cursor_y :: f32
  bp_cursor_z :: f32
  bp_inside_block :: bool
  bp_world_border_hit :: bool
  bp_sequence :: i32
  bp_held_item_nbt_compressed :: bool

definition packet_block_place_cursor :: "int \<Rightarrow> f32 \<Rightarrow> f32 \<Rightarrow> f32 \<Rightarrow> wr" where
  "packet_block_place_cursor protocol x y z =
     pk_guard (\<not> f32_isfinite x \<or> \<not> f32_isfinite y \<or> \<not> f32_isfinite z
        \<or> f32_below_zero x \<or> f32_above_one x \<or> f32_below_zero y \<or> f32_above_one y
        \<or> f32_below_zero z \<or> f32_above_one z)
     (if protocol \<le> 210 then
        case (f32_sixteenths x, f32_sixteenths y, f32_sixteenths z) of
          (Some encoded_x, Some encoded_y, Some encoded_z) \<Rightarrow>
            pk_all [mc_packet_i8 encoded_x, mc_packet_i8 encoded_y, mc_packet_i8 encoded_z]
        | _ \<Rightarrow> pk_reject
      else pk_all [mc_packet_float x, mc_packet_float y, mc_packet_float z])"

definition packet_legacy_reported_item :: "zlib_gzip \<Rightarrow> int \<Rightarrow> mc_block_place \<Rightarrow> wr" where
  "packet_legacy_reported_item zlib protocol v =
     pk_guard (bp_held_item_nbt_compressed v)
     (if bp_held_item_count v = 0 then
        pk_guard (bp_held_item_id v \<noteq> 0 \<or> bp_held_item_damage v \<noteq> 0
                  \<or> buf_size (bp_held_item_nbt v) \<noteq> 0)
          (mc_packet_u16 0xffff)
      else pk_guard (sint (bp_held_item_id v) \<le> 0 \<or> sint (bp_held_item_id v) > INT16_MAX
             \<or> sint (bp_held_item_count v) < 0 \<or> sint (bp_held_item_count v) > 127
             \<or> sint (bp_held_item_damage v) < 0 \<or> sint (bp_held_item_damage v) > UINT16_MAX
             \<or> (buf_size (bp_held_item_nbt v) \<noteq> 0 \<and> buf_null (bp_held_item_nbt v)))
       (pk_all
         [mc_packet_u16 (ucast (bp_held_item_id v)),
          mc_packet_u8 (ucast (bp_held_item_count v)),
          mc_packet_u16 (ucast (bp_held_item_damage v)),
          if buf_size (bp_held_item_nbt v) = 0
          then (if protocol \<le> 5 then mc_packet_i16 (-1) else mc_packet_u8 0)
          else case mc_reader_nbt True (mc_reader_init (bp_held_item_nbt v)) of
              (None, _) \<Rightarrow> pk_reject
            | (Some encoded, reader) \<Rightarrow>
                pk_guard (mc_reader_remaining reader \<noteq> 0)
                (if protocol > 5 then mc_packet_bytes (bp_held_item_nbt v)
                 else let bound = zg_bound zlib (buf_size (bp_held_item_nbt v)) + 32 in
                   pk_guard (int bound > INT16_MAX)
                   (pk_or_reject
                     (case zg_member zlib bound (buf_bytes (bp_held_item_nbt v)) of
                        None \<Rightarrow> pk_reject
                      | Some compressed \<Rightarrow>
                          if int (length compressed) \<le> INT16_MAX
                          then pk_and (mc_packet_i16 (of_nat (length compressed)))
                                 (mc_packet_bytes (Buf compressed))
                          else pk_reject)))]))"

definition mc_packet_block_place :: "zlib_gzip \<Rightarrow> int \<Rightarrow> mc_block_place option \<Rightarrow> wr" where
  "mc_packet_block_place zlib protocol value = pk_deref value (\<lambda>v.
     pk_guard (\<not> mc_protocol_supported protocol
        \<or> sint (bp_direction v) < 0 \<or> sint (bp_direction v) > 5
        \<or> sint (bp_hand v) < 0 \<or> sint (bp_hand v) > 1 \<or> sint (bp_sequence v) < 0
        \<or> bp_held_item_nbt_compressed v)
     (pk_and
       (if protocol \<le> 5 then pk_or_reject
          (if sint (pos_y (bp_location v)) < 0 \<or> sint (pos_y (bp_location v)) > UINT8_MAX
           then pk_reject
           else pk_all [mc_packet_i32 (pos_x (bp_location v)),
                        mc_packet_u8 (ucast (pos_y (bp_location v))),
                        mc_packet_i32 (pos_z (bp_location v))])
        else pk_when (protocol \<le> 404) (mc_packet_position protocol (bp_location v)))
       (if protocol \<le> 47 then pk_all
          [mc_packet_i8 (ucast (bp_direction v)),
           packet_legacy_reported_item zlib protocol v,
           packet_block_place_cursor protocol (bp_cursor_x v) (bp_cursor_y v) (bp_cursor_z v)]
        else if protocol \<le> 404 then pk_all
          [mc_packet_varint (bp_direction v), mc_packet_varint (bp_hand v),
           packet_block_place_cursor protocol (bp_cursor_x v) (bp_cursor_y v) (bp_cursor_z v)]
        else pk_all
          [mc_packet_varint (bp_hand v), mc_packet_position protocol (bp_location v),
           mc_packet_varint (bp_direction v),
           packet_block_place_cursor protocol (bp_cursor_x v) (bp_cursor_y v) (bp_cursor_z v),
           mc_packet_bool (bp_inside_block v),
           pk_when (\<not> protocol < 768) (mc_packet_bool (bp_world_border_hit v)),
           pk_when (\<not> protocol < 759) (mc_packet_varint (bp_sequence v))])))"

record mc_use_item =
  ui_hand :: i32
  ui_held_item_id :: i32
  ui_held_item_count :: i32
  ui_held_item_damage :: i32
  ui_held_item_nbt :: buffer
  ui_sequence :: i32
  ui_yaw :: f32
  ui_pitch :: f32
  ui_held_item_nbt_compressed :: bool

text \<open>The \<open>McBlockPlace\<close> the legacy branch builds; every field it leaves out is zero.\<close>

definition use_item_legacy :: "mc_use_item \<Rightarrow> mc_block_place" where
  "use_item_legacy v =
     \<lparr>bp_location = \<lparr>pos_x = 0, pos_y = 0, pos_z = 0\<rparr>, bp_direction = 0, bp_hand = 0,
      bp_held_item_id = ui_held_item_id v, bp_held_item_count = ui_held_item_count v,
      bp_held_item_damage = ui_held_item_damage v, bp_held_item_nbt = ui_held_item_nbt v,
      bp_cursor_x = 0, bp_cursor_y = 0, bp_cursor_z = 0, bp_inside_block = False,
      bp_world_border_hit = False, bp_sequence = 0, bp_held_item_nbt_compressed = False\<rparr>"

definition mc_packet_use_item :: "zlib_gzip \<Rightarrow> int \<Rightarrow> mc_use_item option \<Rightarrow> wr" where
  "mc_packet_use_item zlib protocol value = pk_deref value (\<lambda>v.
     pk_guard (\<not> mc_protocol_supported protocol
        \<or> sint (ui_hand v) < 0 \<or> sint (ui_hand v) > 1 \<or> sint (ui_sequence v) < 0
        \<or> ui_held_item_nbt_compressed v
        \<or> \<not> f32_isfinite (ui_yaw v) \<or> \<not> f32_isfinite (ui_pitch v))
     (if protocol \<le> 47 then pk_all
        [if protocol \<le> 5
         then pk_all [mc_packet_i32 (-1), mc_packet_u8 0xff, mc_packet_i32 (-1)]
         else mc_packet_position protocol \<lparr>pos_x = -1, pos_y = -1, pos_z = -1\<rparr>,
         mc_packet_i8 (-1),
         packet_legacy_reported_item zlib protocol (use_item_legacy v),
         packet_block_place_cursor protocol 0 0 0]
      else pk_all
        [mc_packet_varint (ui_hand v),
         pk_when (\<not> protocol < 759) (mc_packet_varint (ui_sequence v)),
         pk_when (\<not> protocol < 767)
           (pk_and (mc_packet_float (ui_yaw v)) (mc_packet_float (ui_pitch v)))]))"

definition mc_packet_attack_entity :: "int \<Rightarrow> i32 \<Rightarrow> wr" where
  "mc_packet_attack_entity protocol entity_id =
     pk_guard (\<not> mc_protocol_supported protocol \<or> sint entity_id \<le> 0)
      (if protocol \<ge> 775 then mc_packet_varint entity_id
       else if protocol \<le> 5 then pk_and (mc_packet_i32 entity_id) (mc_packet_i8 1)
       else pk_all [mc_packet_varint entity_id, mc_packet_varint 1,
                    pk_when (\<not> protocol < 735) (mc_packet_bool False)])"

definition mc_packet_respawn_request :: "int \<Rightarrow> wr" where
  "mc_packet_respawn_request protocol =
     pk_guard (\<not> mc_protocol_supported protocol)
       (if protocol \<le> 5 then mc_packet_i8 0 else mc_packet_varint 0)"

text \<open>A command string is its bytes before the terminator; one leading slash is dropped.\<close>

definition command_bare :: "u8 list \<Rightarrow> u8 list" where
  "command_bare command =
     (case command of [] \<Rightarrow> [] | c # rest \<Rightarrow> if c = 0x2f then rest else command)"

definition mc_packet_command :: "int \<Rightarrow> u8 list option \<Rightarrow> i64 \<Rightarrow> i64 \<Rightarrow> wr" where
  "mc_packet_command protocol command timestamp_ms salt = pk_deref command (\<lambda>command.
     let bare = command_bare command in
     pk_guard (\<not> mc_protocol_supported protocol)
     (pk_guard (length bare = 0 \<or> length bare > 256)
      (if protocol \<le> 758 then pk_all
         [mc_packet_varint (of_nat (length bare + 1)), mc_packet_u8 0x2f,
          mc_packet_bytes (Buf bare)]
       else pk_and (mc_packet_string_n (Buf bare))
        (if protocol \<ge> 766 then pk_done
         else pk_all
          [mc_packet_i64 timestamp_ms, mc_packet_i64 salt, mc_packet_varint 0,
           if protocol = 759 then mc_packet_bool False
           else if protocol = 760
           then pk_all [mc_packet_bool False, mc_packet_varint 0, mc_packet_bool False]
           else pk_and (mc_packet_varint 0) (mc_packet_bytes (Buf [0, 0, 0]))]))))"

subsection \<open>Builders are atomic\<close>

text \<open>\<open>pk_refuses\<close>: the call never succeeds; it may have written a part, and the bit is set.\<close>

definition pk_refuses :: "wr \<Rightarrow> bool" where
  "pk_refuses w \<longleftrightarrow>
     (\<forall>p. pk_ok p \<longrightarrow> \<not> fst (w p) \<and> pk_failed (snd (w p)) \<and> pk_ok (snd (w p))
                   \<and> pk_capacity (snd (w p)) = pk_capacity p)"

definition pk_atomic :: "wr \<Rightarrow> bool" where
  "pk_atomic w \<longleftrightarrow> pk_refuses w \<or> (\<exists>bs. pk_contract w bs)"

lemma pk_refuses_reject: "pk_refuses pk_reject"
  by (simp add: pk_refuses_def pk_reject_def pk_ok_def)

lemma pk_refuses_rejects: "pk_rejects w \<Longrightarrow> pk_refuses w"
  by (simp add: pk_rejects_def pk_refuses_def pk_ok_def)

lemma pk_refuses_and1: "pk_refuses a \<Longrightarrow> pk_refuses (pk_and a b)"
  by (fastforce simp: pk_refuses_def pk_and_def split: prod.splits bool.splits)

lemma pk_refuses_and2:
  assumes a: "pk_contract a bs" and b: "pk_refuses b"
  shows "pk_refuses (pk_and a b)"
  unfolding pk_refuses_def
proof (intro allI impI)
  fix p assume ok: "pk_ok p"
  obtain res p' where ap: "a p = (res, p')" by (cases "a p")
  have p': "pk_ok p'" "pk_capacity p' = pk_capacity p" using pk_contract_bounds [OF a ok] ap by auto
  have "\<not> res \<Longrightarrow> pk_failed p'"
    using a ok ap by (cases "pk_failed p"; cases "length bs \<le> pk_room p") (auto simp: pk_contract_def)
  then show "\<not> fst (pk_and a b p) \<and> pk_failed (snd (pk_and a b p)) \<and> pk_ok (snd (pk_and a b p))
      \<and> pk_capacity (snd (pk_and a b p)) = pk_capacity p"
    using b p' ap by (cases res) (auto simp: pk_and_def pk_refuses_def)
qed

lemma pk_refuses_or_reject: "pk_refuses w \<Longrightarrow> pk_refuses (pk_or_reject w)"
  unfolding pk_refuses_def pk_or_reject_eq by (auto simp: pk_ok_def)

named_theorems pk_atoms \<open>builders that append one byte string or fail\<close>

lemma atomic_contract: "pk_contract w bs \<Longrightarrow> pk_atomic w"
  by (auto simp: pk_atomic_def)

lemma atomic_reject [pk_atoms]: "pk_atomic pk_reject"
  by (simp add: pk_atomic_def pk_refuses_reject)

lemma atomic_done [pk_atoms]: "pk_atomic pk_done"
  by (rule atomic_contract [OF pk_contract_done])

lemma atomic_and [pk_atoms]: "pk_atomic a \<Longrightarrow> pk_atomic b \<Longrightarrow> pk_atomic (pk_and a b)"
  unfolding pk_atomic_def
  by (blast intro: pk_refuses_and1 pk_refuses_and2 pk_contract_and)

lemma atomic_all_Nil [pk_atoms]: "pk_atomic (pk_all [])"
  by (rule atomic_contract [OF pk_contract_all_Nil])

lemma atomic_all_Cons [pk_atoms]: "pk_atomic w \<Longrightarrow> pk_atomic (pk_all ws) \<Longrightarrow> pk_atomic (pk_all (w # ws))"
proof -
  have "pk_all (w # ws) = pk_and w (pk_all ws)" by (rule ext) simp
  then show "pk_atomic w \<Longrightarrow> pk_atomic (pk_all ws) \<Longrightarrow> pk_atomic (pk_all (w # ws))"
    by (simp add: atomic_and)
qed

lemma atomic_all_map [pk_atoms]:
  assumes "\<And>x. pk_atomic (f x)"
  shows "pk_atomic (pk_all (map f xs))"
proof (induction xs)
  case Nil
  show ?case by (simp only: list.map atomic_all_Nil)
next
  case (Cons x xs)
  show ?case unfolding list.map by (rule atomic_all_Cons [OF assms Cons])
qed

lemma atomic_or_reject [pk_atoms]: "pk_atomic w \<Longrightarrow> pk_atomic (pk_or_reject w)"
  unfolding pk_atomic_def by (blast intro: pk_refuses_or_reject pk_contract_or_reject)

lemma atomic_if [pk_atoms]: "(c \<Longrightarrow> pk_atomic a) \<Longrightarrow> (\<not> c \<Longrightarrow> pk_atomic b) \<Longrightarrow> pk_atomic (if c then a else b)"
  by simp

lemma atomic_when [pk_atoms]: "(c \<Longrightarrow> pk_atomic a) \<Longrightarrow> pk_atomic (pk_when c a)"
  by (simp add: pk_when_def atomic_done)

lemma atomic_guard [pk_atoms]: "(\<not> c \<Longrightarrow> pk_atomic w) \<Longrightarrow> pk_atomic (pk_guard c w)"
  by (simp add: pk_guard_def atomic_reject)

lemma atomic_deref [pk_atoms]: "(\<And>v. value = Some v \<Longrightarrow> pk_atomic (f v)) \<Longrightarrow> pk_atomic (pk_deref value f)"
  by (cases "value") (simp_all add: pk_deref_def atomic_reject)

lemma pk_contract_null: "buf_size b = 0 \<Longrightarrow> pk_contract (mc_packet_bytes b) []"
proof -
  assume "buf_size b = 0"
  then have "mc_packet_bytes b = mc_packet_bytes (Buf [])"
    by (cases b) (auto simp: mc_packet_bytes_def fun_eq_iff)
  then show ?thesis by (simp add: pk_contract_bytes)
qed

lemma atomic_bytes [pk_atoms]: "pk_atomic (mc_packet_bytes b)"
proof (cases b)
  case (NullBuf n)
  show ?thesis
  proof (cases "n = 0")
    case True
    then show ?thesis using pk_contract_null [of b] NullBuf by (intro atomic_contract) simp
  next
    case False
    then have "pk_refuses (mc_packet_bytes b)"
      by (simp add: NullBuf pk_refuses_def mc_packet_bytes_def pk_ok_def)
    then show ?thesis by (simp add: pk_atomic_def)
  qed
qed (auto intro: atomic_contract pk_contract_bytes)

lemmas atomic_fields [pk_atoms] =
  pk_contract_u8 [THEN atomic_contract] pk_contract_bool [THEN atomic_contract]
  pk_contract_i8 [THEN atomic_contract] pk_contract_u16 [THEN atomic_contract]
  pk_contract_i16 [THEN atomic_contract] pk_contract_u32 [THEN atomic_contract]
  pk_contract_i32 [THEN atomic_contract] pk_contract_u64 [THEN atomic_contract]
  pk_contract_i64 [THEN atomic_contract] pk_contract_float [THEN atomic_contract]
  pk_contract_double [THEN atomic_contract] pk_contract_varint [THEN atomic_contract]
  pk_contract_varlong [THEN atomic_contract]

lemma atomic_buffers [pk_atoms]:
  "pk_atomic (mc_packet_buffer_i32 b)" "pk_atomic (mc_packet_buffer_varint b)"
  "pk_atomic (mc_packet_string_n b)"
  unfolding mc_packet_buffer_i32_def mc_packet_buffer_varint_def mc_packet_string_n_def
  by (intro pk_atoms)+

lemma atomic_string [pk_atoms]: "pk_atomic (mc_packet_string value)"
  by (cases "value") (simp_all add: mc_packet_string_def pk_atoms)

lemma atomic_nbt [pk_atoms]: "pk_atomic (mc_packet_nbt named encoded)"
proof (cases encoded)
  case None
  then have "mc_packet_nbt named encoded = pk_reject" by (simp add: mc_packet_nbt_def fun_eq_iff)
  then show ?thesis by (simp add: atomic_reject)
next
  case (Some b)
  show ?thesis
  proof (cases b)
    case (Buf bs)
    show ?thesis
    proof (cases "\<exists>root. nbt_root_valid root \<and> bs = nbt_root_bytes named root")
      case True
      then show ?thesis using Some Buf nbt_packet_accepts atomic_contract by blast
    next
      case False
      then have "pk_rejects (mc_packet_nbt named (Some (Buf bs)))" by (intro nbt_packet_rejects) blast
      then show ?thesis using Some Buf pk_refuses_rejects by (auto simp: pk_atomic_def)
    qed
  next
    case (NullBuf n)
    show ?thesis
    proof (cases "mc_reader_nbt named (mc_reader_init (NullBuf 0))")
      case (Pair res reader)
      have "mc_packet_nbt named encoded = pk_reject
            \<or> mc_packet_nbt named encoded = mc_packet_bytes (NullBuf 0)"
        using Pair
        by (cases "n = 0"; cases res; cases "mc_reader_remaining reader = 0")
          (auto simp: mc_packet_nbt_def Some NullBuf fun_eq_iff mc_packet_bytes_def pk_reject_def)
      then show ?thesis using atomic_reject atomic_bytes [of "NullBuf 0"] by auto
    qed
  qed
qed

lemma atomic_position [pk_atoms]: "pk_atomic (mc_packet_position protocol v)"
  unfolding mc_packet_position_def by (intro pk_atoms)

lemma atomic_uuid [pk_atoms]: "pk_atomic (mc_packet_uuid v)"
  unfolding mc_packet_uuid_def by (intro pk_atoms)

lemma atomic_cursor [pk_atoms]: "pk_atomic (packet_block_place_cursor protocol x y z)"
  unfolding packet_block_place_cursor_def
  by (intro pk_atoms) (auto split: option.split intro: pk_atoms)

lemma atomic_legacy_item [pk_atoms]: "pk_atomic (packet_legacy_reported_item zlib protocol v)"
proof -
  have case_gzip: "pk_atomic (case m of None \<Rightarrow> pk_reject | Some c \<Rightarrow>
      if int (length c) \<le> INT16_MAX then pk_and (mc_packet_i16 (of_nat (length c))) (mc_packet_bytes (Buf c))
      else pk_reject)" for m :: "u8 list option"
    by (cases m) (simp_all add: pk_atoms)
  have case_nbt: "pk_atomic (case res of (None, _) \<Rightarrow> pk_reject | (Some encoded, reader) \<Rightarrow> w encoded reader)"
    if "\<And>encoded reader. pk_atomic (w encoded reader)"
    for res :: "u8 list option \<times> mc_reader" and w
    using that by (auto split: prod.split option.split intro: atomic_reject)
  show ?thesis
    unfolding packet_legacy_reported_item_def Let_def
    by (intro pk_atoms case_nbt case_gzip)
qed

lemma atomic_plain_item [pk_atoms]: "pk_atomic (mc_packet_plain_item protocol item_id count)"
  unfolding mc_packet_plain_item_def by (intro pk_atoms)

lemma atomic_set_creative_slot_damage [pk_atoms]: "pk_atomic (mc_packet_set_creative_slot_damage protocol slot item_id count damage)"
  unfolding mc_packet_set_creative_slot_damage_def by (intro pk_atoms)

lemma atomic_set_creative_slot [pk_atoms]: "pk_atomic (mc_packet_set_creative_slot protocol slot item_id count)"
  unfolding mc_packet_set_creative_slot_def by (intro pk_atoms)

lemma atomic_held_item_slot [pk_atoms]: "pk_atomic (mc_packet_held_item_slot protocol slot)"
  unfolding mc_packet_held_item_slot_def by (intro pk_atoms)

lemma atomic_window_click [pk_atoms]: "pk_atomic (mc_packet_window_click protocol click)"
  unfolding mc_packet_window_click_def by (intro pk_atoms)

lemma atomic_close_window [pk_atoms]: "pk_atomic (mc_packet_close_window protocol window_id)"
  unfolding mc_packet_close_window_def by (intro pk_atoms)

lemma atomic_empty_window_click [pk_atoms]: "pk_atomic (mc_packet_empty_window_click protocol empty_click)"
  unfolding mc_packet_empty_window_click_def by (intro pk_atoms)

lemma atomic_container_button [pk_atoms]: "pk_atomic (mc_packet_container_button protocol window_id button_id)"
  unfolding mc_packet_container_button_def by (intro pk_atoms)

lemma atomic_untrusted_component_item [pk_atoms]: "pk_atomic (mc_packet_untrusted_component_item protocol item_id count added removed)"
  unfolding mc_packet_untrusted_component_item_def by (intro pk_atoms)

lemma atomic_client_information [pk_atoms]: "pk_atomic (mc_packet_client_information protocol info)"
  unfolding mc_packet_client_information_def by (intro pk_atoms)

lemma atomic_entity_action [pk_atoms]: "pk_atomic (mc_packet_entity_action protocol action)"
  unfolding mc_packet_entity_action_def by (intro pk_atoms)

lemma atomic_player_input [pk_atoms]: "pk_atomic (mc_packet_player_input protocol flags)"
  unfolding mc_packet_player_input_def by (intro pk_atoms)

lemma atomic_arm_animation [pk_atoms]: "pk_atomic (mc_packet_arm_animation protocol entity_id hand)"
  unfolding mc_packet_arm_animation_def by (intro pk_atoms)

lemma atomic_player_position [pk_atoms]: "pk_atomic (mc_packet_player_position protocol pos)"
  unfolding mc_packet_player_position_def by (intro pk_atoms)

lemma atomic_player_abilities [pk_atoms]: "pk_atomic (mc_packet_player_abilities protocol abilities)"
  unfolding mc_packet_player_abilities_def by (intro pk_atoms)

lemma atomic_block_dig [pk_atoms]: "pk_atomic (mc_packet_block_dig protocol dig)"
  unfolding mc_packet_block_dig_def Let_def by (intro pk_atoms)

lemma atomic_block_place [pk_atoms]: "pk_atomic (mc_packet_block_place zlib protocol place)"
  unfolding mc_packet_block_place_def by (intro pk_atoms)

lemma atomic_use_item [pk_atoms]: "pk_atomic (mc_packet_use_item zlib protocol item)"
  unfolding mc_packet_use_item_def by (intro pk_atoms)

lemma atomic_attack_entity [pk_atoms]: "pk_atomic (mc_packet_attack_entity protocol entity_id)"
  unfolding mc_packet_attack_entity_def by (intro pk_atoms)

lemma atomic_respawn_request [pk_atoms]: "pk_atomic (mc_packet_respawn_request protocol)"
  unfolding mc_packet_respawn_request_def by (intro pk_atoms)

lemma atomic_command [pk_atoms]: "pk_atomic (mc_packet_command protocol text timestamp salt)"
  unfolding mc_packet_command_def Let_def by (intro pk_atoms)

subsection \<open>Sequences of calls\<close>

text \<open>
  The calls the public interface offers on a packet, and a sequence of them that a caller makes
  without looking at the results.
\<close>

inductive writer_call :: "wr \<Rightarrow> bool" where
  call_bytes: "writer_call (mc_packet_bytes b)"
| call_bool: "writer_call (mc_packet_bool v)"
| call_u8: "writer_call (mc_packet_u8 v)"
| call_i8: "writer_call (mc_packet_i8 v)"
| call_u16: "writer_call (mc_packet_u16 v)"
| call_i16: "writer_call (mc_packet_i16 v)"
| call_u32: "writer_call (mc_packet_u32 v)"
| call_i32: "writer_call (mc_packet_i32 v)"
| call_u64: "writer_call (mc_packet_u64 v)"
| call_i64: "writer_call (mc_packet_i64 v)"
| call_float: "writer_call (mc_packet_float v)"
| call_double: "writer_call (mc_packet_double v)"
| call_varint: "writer_call (mc_packet_varint v)"
| call_varlong: "writer_call (mc_packet_varlong v)"
| call_buffer_i32: "writer_call (mc_packet_buffer_i32 b)"
| call_buffer_varint: "writer_call (mc_packet_buffer_varint b)"
| call_string_n: "writer_call (mc_packet_string_n b)"
| call_string: "writer_call (mc_packet_string text)"
| call_nbt: "writer_call (mc_packet_nbt named encoded)"
| call_position: "writer_call (mc_packet_position protocol v)"
| call_uuid: "writer_call (mc_packet_uuid uuid)"
| call_plain_item: "writer_call (mc_packet_plain_item protocol item_id count)"
| call_set_creative_slot_damage: "writer_call (mc_packet_set_creative_slot_damage protocol slot item_id count damage)"
| call_set_creative_slot: "writer_call (mc_packet_set_creative_slot protocol slot item_id count)"
| call_held_item_slot: "writer_call (mc_packet_held_item_slot protocol slot)"
| call_window_click: "writer_call (mc_packet_window_click protocol click)"
| call_close_window: "writer_call (mc_packet_close_window protocol window_id)"
| call_empty_window_click: "writer_call (mc_packet_empty_window_click protocol empty_click)"
| call_container_button: "writer_call (mc_packet_container_button protocol window_id button_id)"
| call_untrusted_component_item: "writer_call (mc_packet_untrusted_component_item protocol item_id count added removed)"
| call_client_information: "writer_call (mc_packet_client_information protocol info)"
| call_entity_action: "writer_call (mc_packet_entity_action protocol action)"
| call_player_input: "writer_call (mc_packet_player_input protocol flags)"
| call_arm_animation: "writer_call (mc_packet_arm_animation protocol entity_id hand)"
| call_player_position: "writer_call (mc_packet_player_position protocol pos)"
| call_player_abilities: "writer_call (mc_packet_player_abilities protocol abilities)"
| call_block_dig: "writer_call (mc_packet_block_dig protocol dig)"
| call_block_place: "writer_call (mc_packet_block_place zlib protocol place)"
| call_use_item: "writer_call (mc_packet_use_item zlib protocol item)"
| call_attack_entity: "writer_call (mc_packet_attack_entity protocol entity_id)"
| call_respawn_request: "writer_call (mc_packet_respawn_request protocol)"
| call_command: "writer_call (mc_packet_command protocol text timestamp salt)"

lemma writer_call_atomic: "writer_call w \<Longrightarrow> pk_atomic w"
  by (induction rule: writer_call.induct) (rule pk_atoms)+

definition pk_run :: "wr list \<Rightarrow> mc_packet \<Rightarrow> mc_packet" where
  "pk_run ws p = fold (\<lambda>w q. snd (w q)) ws p"

lemma pk_run_Cons: "pk_run (w # ws) p = pk_run ws (snd (w p))"
  by (simp add: pk_run_def)

text \<open>The bit is never cleared.\<close>

lemma atomic_keeps_failed:
  assumes "pk_atomic w" and "pk_ok p"
  shows "pk_ok (snd (w p)) \<and> pk_capacity (snd (w p)) = pk_capacity p
         \<and> (pk_failed p \<longrightarrow> pk_failed (snd (w p)))"
  using assms pk_contract_bounds [of w _ p] pk_contract_failed [of w _ p]
  by (auto simp: pk_atomic_def pk_refuses_def)

lemma atomic_live_result:
  assumes "pk_atomic w" and "pk_ok p" and live: "\<not> pk_failed (snd (w p))"
  shows "\<exists>bs. pk_contract w bs \<and> w p = (True, pk_append bs p) \<and> length bs \<le> pk_room p"
proof -
  from assms obtain bs where c: "pk_contract w bs" by (auto simp: pk_atomic_def pk_refuses_def)
  have "\<not> pk_failed p" using atomic_keeps_failed [OF assms(1,2)] live by blast
  moreover have "length bs \<le> pk_room p"
    using pk_contract_overflow [OF c assms(2) \<open>\<not> pk_failed p\<close>] live by (meson not_less)
  ultimately show ?thesis using c pk_contract_fits [OF c assms(2)] by blast
qed

lemma pk_run_keeps_failed:
  "list_all pk_atomic ws \<Longrightarrow> pk_ok p \<Longrightarrow> pk_failed p \<Longrightarrow> pk_failed (pk_run ws p)"
proof (induction ws arbitrary: p)
  case (Cons w ws)
  then show ?case using atomic_keeps_failed [of w p] by (simp add: pk_run_Cons)
qed (simp add: pk_run_def)

lemma pk_run_complete:
  assumes "list_all pk_atomic ws" and "pk_ok p" and "\<not> pk_failed (pk_run ws p)"
  shows "\<exists>bss. list_all2 pk_contract ws bss \<and> pk_run ws p = pk_append (concat bss) p
           \<and> pk_ok (pk_run ws p)"
  using assms
proof (induction ws arbitrary: p)
  case Nil
  then show ?case by (simp add: pk_run_def)
next
  case (Cons w ws)
  have ok: "pk_ok (snd (w p))" using Cons.prems atomic_keeps_failed [of w p] by simp
  have "\<not> pk_failed (snd (w p))"
    using pk_run_keeps_failed [of ws, OF _ ok] Cons.prems by (auto simp: pk_run_Cons)
  then obtain bs where bs: "pk_contract w bs" "w p = (True, pk_append bs p)"
    using atomic_live_result [of w p] Cons.prems by auto
  from Cons.IH [OF _ ok] Cons.prems obtain bss where
    "list_all2 pk_contract ws bss" "pk_run ws (snd (w p)) = pk_append (concat bss) (snd (w p))"
    "pk_ok (pk_run ws (snd (w p)))" by (auto simp: pk_run_Cons)
  then show ?case using bs by (intro exI [of _ "bs # bss"]) (simp add: pk_run_Cons)
qed

end
