(* ===== verification/Packet_Readers.thy ===== *)
theory Packet_Readers
  imports Builders
begin

text \<open>
  The packet body readers of \<open>api.c\<close>, from \<open>mc_reader_position\<close> to
  \<open>mc_reader_entity_hand_use_metadata\<close>. A reader fills a local record and stores it through the out
  pointer at its end, so it returns the record.

  Two error disciplines. The readers up to the scoreboard ones record a code for every failure:
  they are \<open>field_reader\<close>s. The container, equipment and metadata readers set the failure bit
  themselves and record nothing: they only satisfy \<open>sticky_op\<close>.
\<close>

subsection \<open>Control flow\<close>

text \<open>\<^verbatim>\<open>if (reader->failed) return false;\<close>\<close>

definition rd_live :: "'a rd \<Rightarrow> 'a rd" where
  "rd_live m r = (if rd_failed r then (None, r) else m r)"

text \<open>The entry of a reader: nothing on a failed reader, then the protocol is checked.\<close>

definition rd_supported :: "int \<Rightarrow> 'a rd \<Rightarrow> 'a rd" where
  "rd_supported protocol m =
     rd_live (if \<not> mc_protocol_supported protocol
              then rd_here (\<lambda>off. reader_fail_protocol MC_ERROR_UNSUPPORTED_PROTOCOL off protocol)
              else m)"

text \<open>The other entry: an unsupported protocol sets the failure bit.\<close>

definition rd_ready :: "int \<Rightarrow> 'a rd \<Rightarrow> 'a rd" where
  "rd_ready protocol m = (if \<not> mc_protocol_supported protocol then reader_mark_failed else m)"

text \<open>\<^verbatim>\<open>if (m) { reader->failed = true; return false; }\<close>\<close>

definition rd_mark :: "'a rd \<Rightarrow> 'a rd" where
  "rd_mark m = rd_orelse m (reader_mark_failed :: unit rd)"

definition body_fail_protocol :: "int \<Rightarrow> mc_error_code \<Rightarrow> unit rd" where
  "body_fail_protocol protocol code = rd_here (\<lambda>off. reader_fail_protocol code off protocol)"

definition plain_item_failure :: "unit rd" where
  "plain_item_failure = rd_here (\<lambda>off. reader_fail MC_ERROR_INVALID_PACKET_BODY off)"

text \<open>A read followed by a condition on the value.\<close>

definition rd_such :: "'a rd \<Rightarrow> ('a \<Rightarrow> bool) \<Rightarrow> 'a rd" where
  "rd_such m c = rd_bind m (\<lambda>x. rd_bind (rd_test (c x)) (\<lambda>_. rd_return x))"

subsection \<open>Positions\<close>

definition position_signed :: "u64 \<Rightarrow> nat \<Rightarrow> i32" where
  "position_signed value bits =
     (let sign = push_bit (bits - 1) 1 in
      if value AND sign \<noteq> 0 then ucast (value - push_bit bits 1) else ucast value)"

definition position_unpack :: "int \<Rightarrow> u64 \<Rightarrow> mc_position" where
  "position_unpack protocol packed =
     (if protocol \<ge> 477
      then \<lparr>pos_x = position_signed (drop_bit 38 packed AND 0x3ffffff) 26,
            pos_y = position_signed (packed AND 0xfff) 12,
            pos_z = position_signed (drop_bit 12 packed AND 0x3ffffff) 26\<rparr>
      else \<lparr>pos_x = position_signed (drop_bit 38 packed AND 0x3ffffff) 26,
            pos_y = position_signed (drop_bit 26 packed AND 0xfff) 12,
            pos_z = position_signed (packed AND 0x3ffffff) 26\<rparr>)"

definition mc_reader_position :: "int \<Rightarrow> mc_position rd" where
  "mc_reader_position protocol = rd_supported protocol
     (rd_bind mc_reader_u64 (\<lambda>packed. rd_return (position_unpack protocol packed)))"

record mc_clientbound_player_position =
  cp_position :: mc_player_position
  cp_delta_x :: f64
  cp_delta_y :: f64
  cp_delta_z :: f64
  cp_relative_flags :: u32
  cp_teleport_id :: i32
  cp_has_velocity_delta :: bool
  cp_has_teleport_id :: bool
  cp_dismount_vehicle :: bool

text \<open>The double -1.6200000047683716, subtracted by adding its negation.\<close>

definition NEGATED_STANCE :: f64 where
  "NEGATED_STANCE = 0xbff9eb8520000000"

text \<open>
  The stance is taken off a finite coordinate; the difference of an infinity or a NaN is not
  finite either, and the body is rejected below.
\<close>

definition stance_to_feet :: "f64 \<Rightarrow> f64" where
  "stance_to_feet y = (if f64_isfinite y then f64_add y NEGATED_STANCE else y)"

definition read_position_body :: "(mc_player_position) rd" where
  "read_position_body =
     rd_bind mc_reader_double (\<lambda>x. rd_bind mc_reader_double (\<lambda>y. rd_bind mc_reader_double (\<lambda>z.
     rd_return \<lparr>pp_x = x, pp_y = y, pp_z = z, pp_yaw = 0, pp_pitch = 0, pp_on_ground = False\<rparr>)))"

definition read_rotation :: "mc_player_position \<Rightarrow> mc_player_position rd" where
  "read_rotation v =
     rd_bind mc_reader_float (\<lambda>yaw. rd_bind mc_reader_float (\<lambda>pitch.
     rd_return (v\<lparr>pp_yaw := yaw, pp_pitch := pitch\<rparr>)))"

definition clientbound_position_finite :: "mc_clientbound_player_position \<Rightarrow> bool" where
  "clientbound_position_finite d \<longleftrightarrow>
     f64_isfinite (pp_x (cp_position d)) \<and> f64_isfinite (pp_y (cp_position d))
     \<and> f64_isfinite (pp_z (cp_position d)) \<and> f32_isfinite (pp_yaw (cp_position d))
     \<and> f32_isfinite (pp_pitch (cp_position d)) \<and> f64_isfinite (cp_delta_x d)
     \<and> f64_isfinite (cp_delta_y d) \<and> f64_isfinite (cp_delta_z d)"

definition read_delta_position :: "int \<Rightarrow> mc_clientbound_player_position rd" where
  "read_delta_position protocol = rd_orelse
     (rd_bind mc_reader_varint (\<lambda>teleport_id.
      rd_bind read_position_body (\<lambda>v.
      rd_bind mc_reader_double (\<lambda>dx. rd_bind mc_reader_double (\<lambda>dy. rd_bind mc_reader_double (\<lambda>dz.
      rd_bind (read_rotation v) (\<lambda>position.
      rd_bind (rd_such mc_reader_i32 (\<lambda>flags. \<not> sint flags < 0 \<and> flags AND NOT 0x1ff = 0)) (\<lambda>flags.
      rd_return \<lparr>cp_position = position, cp_delta_x = dx, cp_delta_y = dy, cp_delta_z = dz,
        cp_relative_flags = ucast flags, cp_teleport_id = teleport_id,
        cp_has_velocity_delta = True, cp_has_teleport_id = True, cp_dismount_vehicle = False\<rparr>))))))))
     (body_fail_protocol protocol MC_ERROR_INVALID_PACKET_BODY)"

definition read_legacy_position :: "int \<Rightarrow> mc_clientbound_player_position rd" where
  "read_legacy_position protocol =
     rd_bind (rd_orelse
       (rd_bind read_position_body (\<lambda>v. rd_bind (read_rotation v) (\<lambda>position.
        rd_bind (rd_such mc_reader_u8 (\<lambda>flags. flags AND 0xe0 = 0)) (\<lambda>flags.
        rd_return (position, flags)))))
       (body_fail_protocol protocol MC_ERROR_INVALID_PACKET_BODY)) (\<lambda>(position, flags).
     rd_bind (if protocol \<ge> 107
              then rd_orelse mc_reader_varint (body_fail_protocol protocol MC_ERROR_INVALID_PACKET_BODY)
              else rd_return 0) (\<lambda>teleport_id.
     rd_bind (if protocol \<ge> 755 \<and> protocol \<le> 762
              then rd_orelse (rd_such mc_reader_u8 (\<lambda>dismount. dismount \<le> 1))
                     (body_fail_protocol protocol MC_ERROR_INVALID_BOOLEAN)
              else rd_return 0) (\<lambda>dismount.
     rd_return \<lparr>cp_position = (if protocol \<le> 5 then position\<lparr>pp_y := stance_to_feet (pp_y position)\<rparr>
                              else position),
       cp_delta_x = 0, cp_delta_y = 0, cp_delta_z = 0, cp_relative_flags = ucast flags,
       cp_teleport_id = teleport_id, cp_has_velocity_delta = False,
       cp_has_teleport_id = (protocol \<ge> 107), cp_dismount_vehicle = (dismount \<noteq> 0)\<rparr>)))"

definition mc_reader_clientbound_player_position :: "int \<Rightarrow> mc_clientbound_player_position rd" where
  "mc_reader_clientbound_player_position protocol = rd_supported protocol
     (rd_bind
       (if mc_protocol_features protocol AND MC_PROTOCOL_FEATURE_POSITION_DELTA \<noteq> 0
        then read_delta_position protocol else read_legacy_position protocol) (\<lambda>decoded.
      rd_bind (rd_orelse (rd_test (clientbound_position_finite decoded))
                (body_fail_protocol protocol MC_ERROR_INVALID_PACKET_BODY)) (\<lambda>_.
      rd_return decoded)))"

subsection \<open>Blocks and identifiers\<close>

definition mc_reader_block_change :: "int \<Rightarrow> (mc_position \<times> i32) rd" where
  "mc_reader_block_change protocol = rd_supported protocol
     (if protocol \<le> 5 then rd_orelse
       (rd_bind mc_reader_i32 (\<lambda>x. rd_bind mc_reader_u8 (\<lambda>y. rd_bind mc_reader_i32 (\<lambda>z.
        rd_bind mc_reader_varint (\<lambda>block_id. rd_bind mc_reader_u8 (\<lambda>metadata.
        rd_bind (rd_test (\<not> (sint block_id < 0 \<or> sint block_id > int (INT32_MAX div 16) \<or> metadata > 15)))
          (\<lambda>_. rd_return (\<lparr>pos_x = x, pos_y = ucast y, pos_z = z\<rparr>,
                          push_bit 4 block_id OR ucast metadata))))))))
       (body_fail_protocol protocol MC_ERROR_INVALID_PACKET_BODY)
      else
       rd_bind (mc_reader_position protocol) (\<lambda>position.
       rd_bind (rd_orelse (rd_such mc_reader_varint (\<lambda>state. \<not> sint state < 0))
                 (body_fail_protocol protocol MC_ERROR_INVALID_PACKET_BODY)) (\<lambda>state.
       rd_return (position, state))))"

record mc_clientbound_block_event =
  be_position :: mc_position
  be_block_id :: i32
  be_action :: u8
  be_parameter :: u8

definition mc_reader_clientbound_block_event :: "int \<Rightarrow> mc_clientbound_block_event rd" where
  "mc_reader_clientbound_block_event protocol = rd_supported protocol
     (rd_bind
       (if protocol \<le> 5
        then rd_bind mc_reader_i32 (\<lambda>x. rd_bind mc_reader_i16 (\<lambda>y. rd_bind mc_reader_i32 (\<lambda>z.
             rd_return \<lparr>pos_x = x, pos_y = scast y, pos_z = z\<rparr>)))
        else mc_reader_position protocol) (\<lambda>position.
      rd_bind mc_reader_u8 (\<lambda>action. rd_bind mc_reader_u8 (\<lambda>parameter.
      rd_bind mc_reader_varint (\<lambda>block_id.
      rd_here (\<lambda>off.
        if sint block_id < 0 then reader_fail_protocol MC_ERROR_INVALID_PACKET_BODY off protocol
        else rd_return \<lparr>be_position = position,
          be_block_id = (if protocol \<le> 340 then block_id AND 4095 else block_id),
          be_action = action, be_parameter = parameter\<rparr>))))))"

definition mc_reader_uuid :: "mc_uuid rd" where
  "mc_reader_uuid = rd_bind (mc_reader_bytes 16) rd_return"

subsection \<open>Plain items\<close>

definition mc_reader_plain_item :: "int \<Rightarrow> (i32 \<times> i32) rd" where
  "mc_reader_plain_item protocol = rd_supported protocol
     (if protocol \<le> 401 then
        rd_bind mc_reader_u16 (\<lambda>item.
        if item = 0xffff then rd_return (0, 0)
        else
          rd_bind (rd_orelse
            (rd_such mc_reader_u8 (\<lambda>count. \<not> (item = 0 \<or> count = 0 \<or> count > 127)))
            plain_item_failure) (\<lambda>count.
          rd_bind (if protocol \<le> 340
                   then rd_orelse (rd_such mc_reader_u16 (\<lambda>damage. damage = 0)) plain_item_failure
                   else rd_return 0) (\<lambda>_.
          rd_bind (if protocol \<le> 5
                   then rd_orelse (rd_bind (rd_such mc_reader_i16 (\<lambda>size. size = -1)) (\<lambda>_. rd_return ()))
                          plain_item_failure
                   else rd_orelse (rd_bind (rd_such mc_reader_u8 (\<lambda>root. root = 0)) (\<lambda>_. rd_return ()))
                          plain_item_failure) (\<lambda>_.
          rd_return (ucast item, ucast count)))))
      else if protocol < 766 then
        rd_bind (rd_orelse (rd_such mc_reader_u8 (\<lambda>present. present \<le> 1)) plain_item_failure)
          (\<lambda>present.
        if present = 0 then rd_return (0, 0)
        else rd_orelse
          (rd_bind (rd_such mc_reader_varint (\<lambda>item. \<not> sint item \<le> 0)) (\<lambda>item.
           rd_bind (rd_such mc_reader_u8 (\<lambda>count. \<not> (count = 0 \<or> count > 127))) (\<lambda>count.
           rd_bind (rd_such mc_reader_u8 (\<lambda>root. root = 0)) (\<lambda>_.
           rd_return (item, ucast count)))))
          plain_item_failure)
      else
        rd_bind (rd_orelse (rd_such mc_reader_varint (\<lambda>count. \<not> (sint count < 0 \<or> sint count > 127)))
          plain_item_failure) (\<lambda>count.
        if count = 0 then rd_return (0, 0)
        else rd_orelse
          (rd_bind (rd_such mc_reader_varint (\<lambda>item. \<not> sint item \<le> 0)) (\<lambda>item.
           rd_bind (rd_such mc_reader_varint (\<lambda>added. added = 0)) (\<lambda>_.
           rd_bind (rd_such mc_reader_varint (\<lambda>removed. removed = 0)) (\<lambda>_.
           rd_return (item, count)))))
          plain_item_failure))"


subsection \<open>The interfaces of the control flow\<close>

lemma reader_op_live [rd_ops]: "reader_op m \<Longrightarrow> reader_op (rd_live m)"
  unfolding reader_op_def rd_live_def by auto

lemma checked_live [rd_checked]:
  assumes m: "checked_op m"
  shows "checked_op (rd_live m)"
proof (intro checked_opI reporting_opI)
  show "reader_op (rd_live m)" using m by (intro reader_op_live checked_reader)
  show "rd_reported r \<Longrightarrow> rd_reported (snd (rd_live m r))" for r
    using reporting_op.op_reported [OF checked_reporting [OF m]] by (simp add: rd_live_def)
  show "fst (rd_live m r) = None \<Longrightarrow> rd_failed (snd (rd_live m r))" for r
    using checked_op.op_none [OF m] by (auto simp: rd_live_def split: if_splits)
qed

lemma stops_live [rd_sticky]: "rd_stops (rd_live m)"
  by (simp add: rd_stops_def rd_live_def)

lemma parses_live: "rd_parses m bs x \<Longrightarrow> rd_parses (rd_live m) bs x"
  by (simp add: rd_parses_def rd_live_def)

lemma checked_supported [rd_checked]: "checked_op m \<Longrightarrow> checked_op (rd_supported protocol m)"
  unfolding rd_supported_def by (intro rd_checked) simp_all

lemma stops_supported [rd_sticky]: "rd_stops (rd_supported protocol m)"
  unfolding rd_supported_def by (rule stops_live)

lemma parses_supported:
  "mc_protocol_supported protocol \<Longrightarrow> rd_parses m bs x \<Longrightarrow> rd_parses (rd_supported protocol m) bs x"
  by (simp add: rd_supported_def parses_live)

lemma reader_op_ready [rd_ops]: "reader_op m \<Longrightarrow> reader_op (rd_ready protocol m)"
  unfolding rd_ready_def by (intro rd_ops)

lemma stops_ready [rd_sticky]: "rd_stops m \<Longrightarrow> rd_stops (rd_ready protocol m)"
  unfolding rd_ready_def by (intro rd_sticky)

lemma reader_op_mark [rd_ops]: "reader_op m \<Longrightarrow> reader_op (rd_mark m)"
  unfolding rd_mark_def by (intro rd_ops)

lemma stops_mark [rd_sticky]: "rd_stops m \<Longrightarrow> rd_stops (rd_mark m)"
  unfolding rd_mark_def by (intro rd_sticky)

lemma reader_op_such [rd_ops]: "reader_op m \<Longrightarrow> reader_op (rd_such m c)"
  unfolding rd_such_def by (intro rd_ops)

lemma reporting_such [rd_checked]: "reporting_op m \<Longrightarrow> reporting_op (rd_such m c)"
  unfolding rd_such_def by (intro rd_checked)

lemma stops_such [rd_sticky]: "rd_stops m \<Longrightarrow> rd_stops (rd_such m c)"
  unfolding rd_such_def by (intro rd_sticky)

lemma parses_such: "rd_parses m bs x \<Longrightarrow> c x \<Longrightarrow> rd_parses (rd_such m c) bs x"
  unfolding rd_such_def
  by (rule parses_bind_nil, assumption) (use parses_bind [OF parses_test parses_return] in simp)

lemma handler_body_fail [rd_checked]:
  "code \<noteq> MC_ERROR_NONE \<Longrightarrow> rd_handler (body_fail_protocol protocol code)"
  unfolding body_fail_protocol_def by (intro rd_checked)

lemma handler_plain_item [rd_checked]: "rd_handler plain_item_failure"
  unfolding plain_item_failure_def by (intro rd_checked) simp

lemma checked_split [rd_checked]:
  "(\<And>x y. checked_op (f x y)) \<Longrightarrow> checked_op (case p of (x, y) \<Rightarrow> f x y)"
  by (cases p) simp

lemma reporting_split [rd_checked]:
  "(\<And>x y. reporting_op (f x y)) \<Longrightarrow> reporting_op (case p of (x, y) \<Rightarrow> f x y)"
  by (cases p) simp

subsection \<open>Every failure of these readers is recorded\<close>

lemma checked_position [rd_checked]: "checked_op (mc_reader_position protocol)"
  unfolding mc_reader_position_def by (intro rd_checked)

lemma checked_clientbound_position [rd_checked]:
  "checked_op (mc_reader_clientbound_player_position protocol)"
  unfolding mc_reader_clientbound_player_position_def read_delta_position_def
    read_legacy_position_def read_position_body_def read_rotation_def
  by (intro rd_checked) simp_all

lemma checked_block_change [rd_checked]: "checked_op (mc_reader_block_change protocol)"
  unfolding mc_reader_block_change_def
  by (intro rd_checked checked_position [THEN checked_reporting]) simp_all

lemma checked_block_event [rd_checked]: "checked_op (mc_reader_clientbound_block_event protocol)"
  unfolding mc_reader_clientbound_block_event_def by (intro rd_checked) simp_all

lemma checked_uuid [rd_checked]: "checked_op mc_reader_uuid"
  unfolding mc_reader_uuid_def by (intro rd_checked)

lemma checked_plain_item [rd_checked]: "checked_op (mc_reader_plain_item protocol)"
  unfolding mc_reader_plain_item_def by (intro rd_checked)

lemma stops_packet_readers [rd_sticky]:
  "rd_stops (mc_reader_position protocol)" "rd_stops (mc_reader_clientbound_player_position protocol)"
  "rd_stops (mc_reader_block_change protocol)" "rd_stops (mc_reader_clientbound_block_event protocol)"
  "rd_stops mc_reader_uuid" "rd_stops (mc_reader_plain_item protocol)"
  unfolding mc_reader_position_def mc_reader_clientbound_player_position_def
    mc_reader_block_change_def mc_reader_clientbound_block_event_def mc_reader_uuid_def
    mc_reader_plain_item_def
  by (intro rd_sticky)+

interpretation clientbound_position_rd: field_reader "mc_reader_clientbound_player_position protocol" for protocol
  by (intro field_readerI rd_checked rd_sticky)

interpretation block_change_rd: field_reader "mc_reader_block_change protocol" for protocol
  by (intro field_readerI rd_checked rd_sticky)

interpretation block_event_rd: field_reader "mc_reader_clientbound_block_event protocol" for protocol
  by (intro field_readerI rd_checked rd_sticky)


subsection \<open>Positions come back\<close>

lemma position_signed_mask:
  fixes w :: i32
  assumes n: "0 < n" "n \<le> 31" and range: "- (2 ^ (n - 1)) \<le> sint w" "sint w < 2 ^ (n - 1)"
  shows "position_signed (ucast w AND mask n) n = w"
proof -
  obtain k where k: "n = Suc k" using n(1) by (cases n) auto
  define s where "s = sint w"
  define v :: u64 where "v = ucast w AND mask n"
  have v: "v = word_of_int (s mod 2 ^ n)"
    using n(2) unfolding v_def s_def
    by (intro bit_word_eqI) (auto simp: bit_simps simp flip: take_bit_eq_mod)
  have down: "ucast (word_of_int i :: u64) = (word_of_int i :: i32)" for i
    by (intro bit_word_eqI) (simp add: bit_simps)
  have w: "word_of_int s = w" by (simp add: s_def)
  have "(v AND push_bit k 1 \<noteq> 0) = bit v k"
    by (metis and_exp_eq_0_iff_not_bit push_bit_of_1)
  also have "\<dots> = odd (s div 2 ^ k)"
    using n(2) k unfolding v take_bit_eq_mod [symmetric] bit_iff_odd [symmetric] by (auto simp: bit_simps)
  finally have sign: "(v AND push_bit k 1 \<noteq> 0) = odd (s div 2 ^ k)" .
  have range': "- (2 ^ k) \<le> s" "s < 2 ^ k" using range k by (simp_all add: s_def)
  show ?thesis
  proof (cases "s < 0")
    case False
    then have "s mod 2 ^ n = s" "s div 2 ^ k = 0" using range' k by simp_all
    then have "\<not> v AND push_bit k 1 \<noteq> 0" "ucast v = w" using sign v down w by simp_all
    then show ?thesis unfolding v_def [symmetric] position_signed_def using k by simp
  next
    case True
    have "(s + 2 ^ n) mod 2 ^ n = s + 2 ^ n" using range' k True by (intro mod_pos_pos_trivial) simp_all
    then have m: "s mod 2 ^ n = s + 2 ^ n" by simp
    have "s div 2 ^ k = -1" using True range' by (intro int_div_pos_eq [of _ _ _ "s + 2 ^ k"]) simp_all
    moreover have "(word_of_int (s + 2 ^ n) - push_bit n 1 :: u64) = word_of_int s"
      by (simp add: push_bit_eq_mult)
    ultimately have "v AND push_bit k 1 \<noteq> 0" "ucast (v - push_bit n 1) = w"
      using sign m v down w by simp_all
    then show ?thesis unfolding v_def [symmetric] position_signed_def using k by simp
  qed
qed

lemma masks_26_12: "(0x3ffffff :: u64) = mask 26" "(0xfff :: u64) = mask 12"
  by (simp_all add: mask_eq_exp_minus_1)

text \<open>The three fields of the packed position do not overlap.\<close>

lemma pack_fields:
  fixes a b c :: u64
  assumes m: "m + n + k = 64" and "m \<le> 64"
  defines "w \<equiv> (push_bit (n + k) (a AND mask m) OR push_bit k (b AND mask n)) OR (c AND mask k)"
  shows "drop_bit (n + k) w AND mask m = a AND mask m" "drop_bit k w AND mask n = b AND mask n"
    "w AND mask k = c AND mask k"
  unfolding w_def using m
  by (auto intro!: bit_word_eqI
      simp: bit_simps split: if_splits)

lemma position_unpack_pack:
  assumes "position_in_range v"
  shows "position_unpack protocol (position_pack protocol v) = v"
proof -
  have x: "position_signed (ucast (pos_x v) AND mask 26) 26 = pos_x v"
    and y: "position_signed (ucast (pos_y v) AND mask 12) 12 = pos_y v"
    and z: "position_signed (ucast (pos_z v) AND mask 26) 26 = pos_z v"
    using assms by (auto intro!: position_signed_mask simp: position_in_range_def)
  show ?thesis
    using pack_fields [of 26 26 12 "ucast (pos_x v)" "ucast (pos_z v)" "ucast (pos_y v)"]
      pack_fields [of 26 12 26 "ucast (pos_x v)" "ucast (pos_y v)" "ucast (pos_z v)"] x y z
    by (simp add: position_unpack_def position_pack_def masks_26_12 Let_def)
qed

interpretation position_codec: wire_codec "mc_reader_position protocol" "mc_packet_position protocol"
  "\<lambda>v. be_bytes 8 (position_pack protocol v)" "\<lambda>v. mc_protocol_supported protocol \<and> position_in_range v"
  for protocol
proof (intro wire_codecI rd_checked rd_sticky)
  fix v assume v: "mc_protocol_supported protocol \<and> position_in_range v"
  then show "pk_contract (mc_packet_position protocol v) (be_bytes 8 (position_pack protocol v))"
    by (simp add: mc_packet_position_def pk_guard_def pk_contract_u64)
  have "rd_parses (mc_reader_position protocol) (be_bytes 8 (position_pack protocol v))
      (position_unpack protocol (position_pack protocol v))"
    unfolding mc_reader_position_def using v
    by (intro parses_supported parses_bind_nil [OF parses_u64] parses_return) simp
  then show "rd_parses (mc_reader_position protocol) (be_bytes 8 (position_pack protocol v)) v"
    using v by (simp add: position_unpack_pack)
qed

interpretation uuid_codec: wire_codec mc_reader_uuid "\<lambda>v. mc_packet_uuid (Some v)" "\<lambda>v. v" "\<lambda>v. length v = 16"
proof (intro wire_codecI rd_checked rd_sticky)
  fix v :: mc_uuid assume v: "length v = 16"
  show "pk_contract (mc_packet_uuid (Some v)) v"
    by (simp add: mc_packet_uuid_def pk_deref_def pk_contract_bytes)
  show "rd_parses mc_reader_uuid v v"
    unfolding mc_reader_uuid_def using parses_bind_nil [OF parses_bytes [of v] parses_return] v by simp
qed

subsection \<open>Plain items come back\<close>

text \<open>
  The bytes of an item stack, and the stacks that have such bytes: through 1.13.1 the identifier
  65535 is the marker of an empty slot.
\<close>

definition plain_item_bytes :: "int \<Rightarrow> i32 \<times> i32 \<Rightarrow> u8 list" where
  "plain_item_bytes protocol = (\<lambda>(item, count).
     if protocol \<le> 401 then
       (if count = 0 then be_bytes 2 (0xffff :: u16)
        else be_bytes 2 (ucast item :: u16) @ [ucast count]
          @ (if protocol \<le> 340 then be_bytes 2 (0 :: u16) else [])
          @ (if protocol \<le> 5 then be_bytes 2 (-1 :: i16) else [0]))
     else if protocol < 766 then
       [bool_byte (count \<noteq> 0)] @ (if count = 0 then [] else varint_bytes item @ [ucast count, 0])
     else varint_bytes count
       @ (if count = 0 then [] else varint_bytes item @ varint_bytes 0 @ varint_bytes 0))"

definition plain_item_ok :: "int \<Rightarrow> i32 \<times> i32 \<Rightarrow> bool" where
  "plain_item_ok protocol = (\<lambda>(item, count).
     mc_protocol_supported protocol \<and> 0 \<le> sint count \<and> sint count \<le> 127
     \<and> (if count = 0 then item = 0 else 0 < sint item)
     \<and> (protocol \<le> 401 \<longrightarrow> sint item < 65535))"

lemma supported_340_401:
  "mc_protocol_supported protocol \<Longrightarrow> protocol \<le> 401 \<Longrightarrow> \<not> protocol \<le> 340 \<Longrightarrow> protocol = 393 \<or> protocol = 401"
  by (auto simp: supported_iff protocol_ids_def)

lemma pk_contract_eq: "pk_contract w bs \<Longrightarrow> bs = cs \<Longrightarrow> pk_contract w cs"
  by simp

lemma contract_plain_item:
  assumes "plain_item_ok protocol (item, count)"
  shows "pk_contract (mc_packet_plain_item protocol item count) (plain_item_bytes protocol (item, count))"
proof -
  from assms have supported: "mc_protocol_supported protocol"
    and guard: "\<not> (\<not> mc_protocol_supported protocol \<or> sint count < 0 \<or> sint count > 127
               \<or> (count \<noteq> 0 \<and> sint item \<le> 0) \<or> (protocol \<le> 401 \<and> sint item > UINT16_MAX))"
    by (auto simp: plain_item_ok_def UINT16_MAX_def split: if_splits)
  consider "protocol \<le> 5" | "\<not> protocol \<le> 5" "protocol \<le> 340"
    | "\<not> protocol \<le> 340" "protocol = 393 \<or> protocol = 401"
    | "\<not> protocol \<le> 401" "protocol < 766" | "\<not> protocol < 766"
    using supported_340_401 [OF supported] by linarith
  then show ?thesis
  proof cases
    case 1 then show ?thesis unfolding mc_packet_plain_item_def pk_guard_def if_not_P [OF guard]
      by (cases "count = 0") (auto simp: plain_item_bytes_def pk_when_def intro!: pk_writes pk_contract_eq [OF pk_contract_and] pk_contract_eq [OF pk_contract_all_Cons])
  next
    case 2 then show ?thesis unfolding mc_packet_plain_item_def pk_guard_def if_not_P [OF guard]
      by (cases "count = 0") (auto simp: plain_item_bytes_def pk_when_def intro!: pk_writes pk_contract_eq [OF pk_contract_and] pk_contract_eq [OF pk_contract_all_Cons])
  next
    case 3 then show ?thesis unfolding mc_packet_plain_item_def pk_guard_def if_not_P [OF guard]
      by (cases "count = 0") (auto simp: plain_item_bytes_def pk_when_def intro!: pk_writes pk_contract_eq [OF pk_contract_and] pk_contract_eq [OF pk_contract_all_Cons])
  next
    case 4 then show ?thesis unfolding mc_packet_plain_item_def pk_guard_def if_not_P [OF guard]
      by (cases "count = 0") (auto simp: plain_item_bytes_def pk_when_def intro!: pk_writes pk_contract_eq [OF pk_contract_and] pk_contract_eq [OF pk_contract_all_Cons])
  next
    case 5 then show ?thesis unfolding mc_packet_plain_item_def pk_guard_def if_not_P [OF guard]
      by (cases "count = 0") (auto simp: plain_item_bytes_def pk_when_def intro!: pk_writes pk_contract_eq [OF pk_contract_and] pk_contract_eq [OF pk_contract_all_Cons])
  qed
qed

lemma uint_nonneg_sint:
  fixes w :: i32
  assumes "0 \<le> sint w"
  shows "uint w = sint w"
proof -
  have "take_bit 32 (sint w) = sint w" using assms sint_lt [of w] by (intro take_bit_int_eq_self) simp_all
  then show ?thesis using uint_sint [of w] by simp
qed

lemma narrow_u8:
  fixes w :: i32
  assumes "0 \<le> sint w" "sint w \<le> 127"
  shows "ucast (ucast w :: u8) = w" "(ucast w :: u8) = 0 \<longleftrightarrow> w = 0" "\<not> (ucast w :: u8) > 127"
proof -
  have b: "uint (ucast w :: u8) = sint w"
    using assms uint_nonneg_sint [OF assms(1)] by (simp add: unsigned_ucast_eq take_bit_int_eq_self)
  show w: "ucast (ucast w :: u8) = w"
    by (rule word_uint_eqI) (use uint_nonneg_sint [OF assms(1)] b assms in \<open>simp add: unsigned_ucast_eq unsigned_take_bit_eq take_bit_int_eq_self\<close>)
  then show "(ucast w :: u8) = 0 \<longleftrightarrow> w = 0" by auto
  show "\<not> (ucast w :: u8) > 127" using b assms by (simp add: word_less_def)
qed

lemma narrow_u16:
  fixes w :: i32
  assumes "0 \<le> sint w" "sint w \<le> 65535"
  shows "ucast (ucast w :: u16) = w" "sint w < 65535 \<Longrightarrow> (ucast w :: u16) \<noteq> 0xffff"
    "w \<noteq> 0 \<Longrightarrow> (ucast w :: u16) \<noteq> 0"
proof -
  have b: "uint (ucast w :: u16) = sint w"
    using assms uint_nonneg_sint [OF assms(1)] by (simp add: unsigned_ucast_eq take_bit_int_eq_self)
  show "ucast (ucast w :: u16) = w"
    by (rule word_uint_eqI) (use uint_nonneg_sint [OF assms(1)] b assms in \<open>simp add: unsigned_ucast_eq unsigned_take_bit_eq take_bit_int_eq_self\<close>)
  then show "w \<noteq> 0 \<Longrightarrow> (ucast w :: u16) \<noteq> 0" by auto
  show "sint w < 65535 \<Longrightarrow> (ucast w :: u16) \<noteq> 0xffff" using b by auto
qed

lemma rd_bind_return [simp]: "rd_bind (rd_return x) f = f x"
  by (rule ext) (simp add: rd_bind_def rd_return_def)

lemma parses_if:
  "(c \<Longrightarrow> rd_parses a bs x) \<Longrightarrow> (\<not> c \<Longrightarrow> rd_parses b bs x) \<Longrightarrow> rd_parses (if c then a else b) bs x"
  by simp

text \<open>A field of an item that fails through a handler.\<close>

lemma parses_item_such:
  "rd_parses m bs x \<Longrightarrow> c x \<Longrightarrow> rd_parses (f x) cs y \<Longrightarrow>
     rd_parses (rd_bind (rd_orelse (rd_such m c) h) f) (bs @ cs) y"
  "rd_parses m bs x \<Longrightarrow> c x \<Longrightarrow> rd_parses (f x) cs y \<Longrightarrow>
     rd_parses (rd_bind (rd_such m c) f) (bs @ cs) y"
  by (intro parses_bind [OF parses_orelse [OF parses_such]], assumption+)
     (intro parses_bind [OF parses_such], assumption+)

lemma parses_empty_slot:
  assumes "mc_protocol_supported protocol"
  shows "rd_parses (mc_reader_plain_item protocol) (plain_item_bytes protocol (0, 0)) (0, 0)"
proof -
  consider "protocol \<le> 401" | "\<not> protocol \<le> 401" "protocol < 766" | "\<not> protocol \<le> 401" "\<not> protocol < 766" by linarith
  then show ?thesis
  proof cases
    case 1
    have "rd_parses (mc_reader_plain_item protocol) (be_bytes 2 (0xffff :: u16) @ []) (0, 0)"
      unfolding mc_reader_plain_item_def if_P [OF 1]
      by (intro parses_supported [OF assms] parses_bind [OF parses_u16]) (simp add: parses_return)
    then show ?thesis using 1 by (simp add: plain_item_bytes_def)
  next
    case 2
    have "rd_parses (mc_reader_plain_item protocol) ([0] @ []) (0, 0)"
      unfolding mc_reader_plain_item_def if_not_P [OF 2(1)] if_P [OF 2(2)]
      by (intro parses_supported [OF assms] parses_item_such(1) [OF parses_u8]) (simp_all add: parses_return)
    then show ?thesis using 2 by (simp add: plain_item_bytes_def bool_byte_def)
  next
    case 3
    have "rd_parses (mc_reader_plain_item protocol) (varint_bytes 0 @ []) (0, 0)"
      unfolding mc_reader_plain_item_def if_not_P [OF 3(1)] if_not_P [OF 3(2)]
      by (intro parses_supported [OF assms] parses_item_such(1) [OF parses_varint]) (simp_all add: parses_return)
    then show ?thesis using 3 by (simp add: plain_item_bytes_def)
  qed
qed

lemma parses_full_slot:
  assumes supported: "mc_protocol_supported protocol"
    and item: "0 < sint item" "protocol \<le> 401 \<longrightarrow> sint item < 65535"
    and count: "0 < sint count" "sint count \<le> 127"
  shows "rd_parses (mc_reader_plain_item protocol) (plain_item_bytes protocol (item, count)) (item, count)"
proof -
  have nz: "count \<noteq> 0" "item \<noteq> 0" using item count by auto
  have c: "ucast (ucast count :: u8) = count" "(ucast count :: u8) \<noteq> 0" "\<not> (ucast count :: u8) > 127"
    using narrow_u8 [of count] count nz by auto
  have i: "ucast (ucast item :: u16) = item" "(ucast item :: u16) \<noteq> 0xffff" "(ucast item :: u16) \<noteq> 0"
    if "protocol \<le> 401" using narrow_u16 [of item] item nz that by auto
  note start = parses_supported [OF supported]
  note such = parses_item_such(1) [OF parses_u8] parses_item_such(1) [OF parses_u16]
    parses_item_such(2) [OF parses_u8] parses_item_such(2) [OF parses_same_width(2)]
    parses_item_such(1) [OF parses_varint] parses_item_such(2) [OF parses_varint]
  consider "protocol \<le> 401" "protocol \<le> 340" "protocol \<le> 5"
    | "protocol \<le> 401" "protocol \<le> 340" "\<not> protocol \<le> 5"
    | "protocol \<le> 401" "\<not> protocol \<le> 340" "\<not> protocol \<le> 5"
    | "\<not> protocol \<le> 401" "protocol < 766" | "\<not> protocol \<le> 401" "\<not> protocol < 766" by linarith
  then show ?thesis
  proof cases
    case 1
    have "rd_parses (mc_reader_plain_item protocol) (be_bytes 2 (ucast item :: u16) @ [ucast count]
        @ be_bytes 2 (0 :: u16) @ (be_bytes 2 (-1 :: i16) @ []) @ []) (ucast (ucast item :: u16), ucast (ucast count :: u8))"
      unfolding mc_reader_plain_item_def if_P [OF 1(1)] if_P [OF 1(2)] if_P [OF 1(3)]
      by (intro start parses_bind [OF parses_u16] parses_if such parses_bind [OF parses_orelse [OF such(4)]] parses_return)
        (simp_all add: c i 1 parses_return)
    then show ?thesis using 1 nz c i by (simp add: plain_item_bytes_def)
  next
    case 2
    have "rd_parses (mc_reader_plain_item protocol) (be_bytes 2 (ucast item :: u16) @ [ucast count]
        @ be_bytes 2 (0 :: u16) @ ([0] @ []) @ []) (ucast (ucast item :: u16), ucast (ucast count :: u8))"
      unfolding mc_reader_plain_item_def if_P [OF 2(1)] if_P [OF 2(2)] if_not_P [OF 2(3)]
      by (intro start parses_bind [OF parses_u16] parses_if such parses_bind [OF parses_orelse [OF such(3)]] parses_return)
        (simp_all add: c i 2 parses_return)
    then show ?thesis using 2 nz c i by (simp add: plain_item_bytes_def)
  next
    case 3
    have "rd_parses (mc_reader_plain_item protocol) (be_bytes 2 (ucast item :: u16) @ [ucast count]
        @ ([0] @ []) @ []) (ucast (ucast item :: u16), ucast (ucast count :: u8))"
      unfolding mc_reader_plain_item_def if_P [OF 3(1)] if_not_P [OF 3(2)] if_not_P [OF 3(3)] rd_bind_return
      by (intro start parses_bind [OF parses_u16] parses_if such parses_bind [OF parses_orelse [OF such(3)]] parses_return)
        (simp_all add: c i 3 parses_return)
    then show ?thesis using 3 nz c i by (simp add: plain_item_bytes_def)
  next
    case 4
    have "rd_parses (mc_reader_plain_item protocol) ([1] @ varint_bytes item @ [ucast count] @ [0] @ [])
        (item, ucast (ucast count :: u8))"
      unfolding mc_reader_plain_item_def if_not_P [OF 4(1)] if_P [OF 4(2)]
      by (intro start parses_if such parses_orelse parses_return)
        (use item count in \<open>simp_all add: c parses_return\<close>)
    then show ?thesis using 4 nz c by (simp add: plain_item_bytes_def bool_byte_def)
  next
    case 5
    have "rd_parses (mc_reader_plain_item protocol) (varint_bytes count @ varint_bytes item @ varint_bytes 0
        @ varint_bytes 0 @ []) (item, count)"
      unfolding mc_reader_plain_item_def if_not_P [OF 5(1)] if_not_P [OF 5(2)]
      by (intro start parses_if such parses_orelse parses_return)
        (use item count nz in \<open>simp_all add: parses_return\<close>)
    then show ?thesis using 5 nz by (simp add: plain_item_bytes_def)
  qed
qed

lemma plain_item_ok_cases:
  assumes "plain_item_ok protocol (item, count)"
  shows "(item = 0 \<and> count = 0)
    \<or> (0 < sint item \<and> (protocol \<le> 401 \<longrightarrow> sint item < 65535) \<and> 0 < sint count \<and> sint count \<le> 127)"
proof (cases "count = 0")
  case False
  then have "sint count \<noteq> 0" by (metis signed_0 signed_word_eqI)
  then show ?thesis using assms False by (auto simp: plain_item_ok_def)
qed (use assms in \<open>auto simp: plain_item_ok_def\<close>)

interpretation plain_item_codec: wire_codec "mc_reader_plain_item protocol"
  "\<lambda>(item, count). mc_packet_plain_item protocol item count" "plain_item_bytes protocol"
  "plain_item_ok protocol" for protocol
proof (intro wire_codecI rd_checked rd_sticky)
  fix stack :: "i32 \<times> i32"
  assume ok: "plain_item_ok protocol stack"
  obtain item count where stack: "stack = (item, count)" by (cases stack)
  show "pk_contract ((\<lambda>(item, count). mc_packet_plain_item protocol item count) stack)
      (plain_item_bytes protocol stack)"
    using contract_plain_item ok unfolding stack by simp
  have "mc_protocol_supported protocol" using ok by (auto simp: plain_item_ok_def)
  then show "rd_parses (mc_reader_plain_item protocol) (plain_item_bytes protocol stack) stack"
    using plain_item_ok_cases [OF ok [unfolded stack]] parses_empty_slot parses_full_slot
    unfolding stack by blast
qed

text \<open>
  The identifier the old wire form cannot carry: the writer accepts 65535, the bytes start with the
  marker of the empty slot, and the reader stops after it.
\<close>

lemma sentinel_item_bytes:
  assumes "mc_protocol_supported protocol" and "protocol \<le> 401" and "0 < sint count" "sint count \<le> 127"
  shows "\<exists>bs. pk_contract (mc_packet_plain_item protocol 65535 count) (be_bytes 2 (0xffff :: u16) @ bs)
    \<and> bs \<noteq> [] \<and> length bs \<le> 5"
proof -
  have guard: "\<not> (\<not> mc_protocol_supported protocol \<or> sint count < 0 \<or> sint count > 127
      \<or> (count \<noteq> 0 \<and> sint (65535 :: i32) \<le> 0) \<or> (protocol \<le> 401 \<and> sint (65535 :: i32) > UINT16_MAX))"
    using assms by (simp add: UINT16_MAX_def)
  have nz: "count \<noteq> 0" using assms by auto
  have marker: "(ucast (65535 :: i32) :: u16) = 0xffff" by simp
  have head: "pk_contract (mc_packet_u16 (ucast (65535 :: i32))) (be_bytes 2 (0xffff :: u16))"
    unfolding marker by (rule pk_contract_u16)
  consider "protocol \<le> 340" | "\<not> protocol \<le> 340" "protocol = 393 \<or> protocol = 401"
    using supported_340_401 [OF assms(1,2)] by blast
  then show ?thesis
  proof cases
    case 1
    let ?tail = "if protocol \<le> 5 then be_bytes 2 (-1 :: i16) else [0]"
    have "pk_contract (mc_packet_plain_item protocol 65535 count)
        (be_bytes 2 (0xffff :: u16) @ ([ucast count] @ be_bytes 2 (0 :: u16) @ ?tail @ []))"
      unfolding mc_packet_plain_item_def pk_guard_def if_not_P [OF guard] if_P [OF 1] if_not_P [OF nz]
      by (intro pk_contract_and [OF head] pk_contract_all_Cons pk_contract_u8 pk_contract_u16
          pk_contract_all_Nil) (simp add: pk_contract_i16 pk_contract_u8)
    then show ?thesis by (intro exI conjI) auto
  next
    case 2
    have "pk_contract (mc_packet_plain_item protocol 65535 count)
        (be_bytes 2 (0xffff :: u16) @ ([ucast count] @ [0] @ []))"
      unfolding mc_packet_plain_item_def pk_guard_def if_not_P [OF guard] if_not_P [OF 2(1)]
        if_P [OF 2(2)] if_not_P [OF nz] pk_when_def if_P [OF nz]
      by (intro pk_contract_and [OF head] pk_contract_all_Cons pk_contract_u8 pk_contract_all_Nil)
    then show ?thesis by (intro exI conjI) auto
  qed
qed

end
