(* ===== verification/Container_Readers.thy ===== *)
theory Container_Readers
  imports Packet_Readers
begin

text \<open>
  The container, scoreboard, equipment and hand-use readers of \<open>api.c\<close>, from
  \<open>mc_reader_inventory_slot_update\<close> to \<open>mc_reader_entity_hand_use_metadata\<close>. An array of a C
  structure with its count is the list of the entries filled in.

  The container, equipment and metadata readers set the failure bit on an invalid field without
  recording a code; the scoreboard readers and \<open>mc_reader_container_data\<close> record one.
\<close>

subsection \<open>Containers\<close>

record mc_inventory_slot_update =
  iu_window_id :: i32
  iu_state_id :: i32
  iu_slot :: i32
  iu_item_id :: i32
  iu_count :: i32
  iu_direct_player_inventory :: bool

definition mc_reader_inventory_slot_update :: "int \<Rightarrow> bool \<Rightarrow> mc_inventory_slot_update rd" where
  "mc_reader_inventory_slot_update protocol direct =
     (if \<not> mc_protocol_supported protocol \<or> (direct \<and> protocol < 768) then reader_mark_failed
      else
        rd_bind
          (if direct then
             rd_bind (rd_mark (rd_such mc_reader_varint (\<lambda>slot. \<not> (sint slot < 0 \<or> sint slot > 42)))) (\<lambda>slot.
             rd_return (-1, -1, slot))
           else
             rd_bind mc_reader_u8 (\<lambda>window_id.
             rd_bind (rd_when (protocol \<ge> 756) (-1) (rd_such mc_reader_varint (\<lambda>state_id. \<not> sint state_id < 0)))
               (\<lambda>state_id.
             rd_bind mc_reader_u16 (\<lambda>menu_slot.
             rd_return (ucast window_id, state_id, scast menu_slot)))))
          (\<lambda>(window_id, state_id, slot).
        rd_bind (mc_reader_plain_item protocol) (\<lambda>(item_id, count).
        rd_return \<lparr>iu_window_id = window_id, iu_state_id = state_id, iu_slot = slot,
          iu_item_id = item_id, iu_count = count, iu_direct_player_inventory = direct\<rparr>)))"

record mc_container_open =
  co_window_id :: i32
  co_menu_type :: i32
  co_slot_count :: i32
  co_entity_id :: i32
  co_named_menu_type :: "u8 list"
  co_encoded_title :: "u8 list"
  co_registry_menu_type :: bool
  co_title_is_nbt :: bool
  co_has_entity_id :: bool

definition container_open_start :: mc_container_open where
  "container_open_start =
     \<lparr>co_window_id = -1, co_menu_type = -1, co_slot_count = -1, co_entity_id = -1,
      co_named_menu_type = [], co_encoded_title = [], co_registry_menu_type = False,
      co_title_is_nbt = False, co_has_entity_id = False\<rparr>"

text \<open>The string literal, as the bytes \<open>strlen\<close> and \<open>memcmp\<close> see.\<close>

definition literal_bytes :: "string \<Rightarrow> u8 list" where
  "literal_bytes s = map of_char s"

definition bytes_equal_literal :: "u8 list \<Rightarrow> string \<Rightarrow> bool" where
  "bytes_equal_literal v s \<longleftrightarrow> length v = length (literal_bytes s) \<and> v = literal_bytes s"

definition mc_reader_container_open :: "int \<Rightarrow> mc_container_open rd" where
  "mc_reader_container_open protocol = rd_ready protocol
     (if protocol \<le> 5 then
        rd_bind (rd_mark
          (rd_bind mc_reader_u8 (\<lambda>window_id. rd_bind mc_reader_u8 (\<lambda>menu_type.
           rd_bind mc_reader_string (\<lambda>title. rd_bind mc_reader_u8 (\<lambda>slot_count.
           rd_bind (rd_such mc_reader_u8 (\<lambda>supplied_title. \<not> supplied_title > 1)) (\<lambda>_.
           rd_return (window_id, menu_type, title, slot_count))))))))
          (\<lambda>(window_id, menu_type, title, slot_count).
        rd_bind (rd_when (menu_type = 11) (-1) mc_reader_i32) (\<lambda>entity_id.
        rd_return (container_open_start\<lparr>co_window_id := ucast window_id, co_menu_type := ucast menu_type,
          co_slot_count := ucast slot_count, co_encoded_title := title,
          co_entity_id := entity_id, co_has_entity_id := (menu_type = 11)\<rparr>)))
      else if protocol \<le> 404 then
        rd_bind mc_reader_u8 (\<lambda>window_id. rd_bind mc_reader_string (\<lambda>menu_type.
        rd_bind mc_reader_string (\<lambda>title. rd_bind mc_reader_u8 (\<lambda>slot_count.
        let horse = (bytes_equal_literal menu_type ''EntityHorse''
                     \<or> bytes_equal_literal menu_type ''minecraft:horse'') in
        rd_bind (rd_when horse (-1) mc_reader_i32) (\<lambda>entity_id.
        rd_return (container_open_start\<lparr>co_window_id := ucast window_id, co_named_menu_type := menu_type,
          co_slot_count := ucast slot_count, co_encoded_title := title,
          co_entity_id := entity_id, co_has_entity_id := horse\<rparr>))))))
      else
        rd_bind (rd_mark
          (rd_bind (rd_such mc_reader_varint (\<lambda>window_id. \<not> sint window_id < 0)) (\<lambda>window_id.
           rd_bind (rd_such mc_reader_varint (\<lambda>menu_type. \<not> sint menu_type < 0)) (\<lambda>menu_type.
           rd_return (window_id, menu_type))))) (\<lambda>(window_id, menu_type).
        rd_bind (if protocol \<ge> 765 then mc_reader_nbt False else mc_reader_string) (\<lambda>title.
        rd_return (container_open_start\<lparr>co_window_id := window_id, co_menu_type := menu_type,
          co_registry_menu_type := True, co_encoded_title := title, co_title_is_nbt := (protocol \<ge> 765)\<rparr>))))"

record mc_container_data =
  cd_window_id :: i32
  cd_property :: i16
  cd_value :: i16

definition mc_reader_container_data :: "int \<Rightarrow> mc_container_data rd" where
  "mc_reader_container_data protocol = rd_supported protocol
     (rd_bind
       (if protocol \<ge> 768 then
          rd_bind mc_reader_varint (\<lambda>window_id. rd_here (\<lambda>off.
            if sint window_id < 0 then reader_fail_protocol MC_ERROR_INVALID_PACKET_BODY off protocol
            else rd_return window_id))
        else rd_bind mc_reader_u8 (\<lambda>window_id. rd_return (ucast window_id))) (\<lambda>window_id.
      rd_bind mc_reader_i16 (\<lambda>property. rd_bind mc_reader_i16 (\<lambda>data.
      rd_return \<lparr>cd_window_id = window_id, cd_property = property, cd_value = data\<rparr>))))"

definition MC_CONTAINER_CONTENT_MAX_SLOTS :: nat where
  "MC_CONTAINER_CONTENT_MAX_SLOTS = 128"

record mc_container_content =
  cc_window_id :: i32
  cc_state_id :: i32
  cc_slots :: "(i32 \<times> i32) list"
  cc_carried :: "i32 \<times> i32"
  cc_has_state_id :: bool
  cc_has_carried :: bool

fun read_slots :: "int \<Rightarrow> nat \<Rightarrow> (i32 \<times> i32) list rd" where
  "read_slots protocol 0 = rd_return []"
| "read_slots protocol (Suc n) =
     rd_bind (mc_reader_plain_item protocol) (\<lambda>slot.
     rd_bind (read_slots protocol n) (\<lambda>slots. rd_return (slot # slots)))"

definition mc_reader_container_content :: "int \<Rightarrow> mc_container_content rd" where
  "mc_reader_container_content protocol = rd_ready protocol
     (rd_bind
       (if protocol \<ge> 768 then rd_mark (rd_such mc_reader_varint (\<lambda>window_id. \<not> sint window_id < 0))
        else rd_bind mc_reader_u8 (\<lambda>window_id. rd_return (ucast window_id))) (\<lambda>window_id.
      rd_bind
       (if protocol \<ge> 756 then
          rd_mark (rd_bind (rd_such mc_reader_varint (\<lambda>state_id. \<not> sint state_id < 0)) (\<lambda>state_id.
                   rd_bind (rd_such mc_reader_varint (\<lambda>count. \<not> sint count < 0)) (\<lambda>count.
                   rd_return (state_id, count))))
        else rd_bind mc_reader_u16 (\<lambda>count. rd_return (-1, ucast count))) (\<lambda>(state_id, encoded_count).
      if unat encoded_count > MC_CONTAINER_CONTENT_MAX_SLOTS then reader_mark_failed
      else
      rd_bind (read_slots protocol (unat encoded_count)) (\<lambda>slots.
      rd_bind (rd_when (protocol \<ge> 755) (0, 0) (mc_reader_plain_item protocol)) (\<lambda>carried.
      rd_return \<lparr>cc_window_id = window_id, cc_state_id = state_id, cc_slots = slots,
        cc_carried = carried, cc_has_state_id = (protocol \<ge> 756), cc_has_carried = (protocol \<ge> 755)\<rparr>)))))"

subsection \<open>Equipment\<close>

datatype mc_equipment_slot =
  MC_EQUIPMENT_MAIN_HAND | MC_EQUIPMENT_OFF_HAND | MC_EQUIPMENT_FEET | MC_EQUIPMENT_LEGS
  | MC_EQUIPMENT_CHEST | MC_EQUIPMENT_HEAD | MC_EQUIPMENT_BODY | MC_EQUIPMENT_SADDLE
  | MC_EQUIPMENT_SLOT_COUNT

text \<open>The integer an enumerator stands for, and the enumerators compared by it.\<close>

primrec equipment_index :: "mc_equipment_slot \<Rightarrow> nat" where
  "equipment_index MC_EQUIPMENT_MAIN_HAND = 0"
| "equipment_index MC_EQUIPMENT_OFF_HAND = 1"
| "equipment_index MC_EQUIPMENT_FEET = 2"
| "equipment_index MC_EQUIPMENT_LEGS = 3"
| "equipment_index MC_EQUIPMENT_CHEST = 4"
| "equipment_index MC_EQUIPMENT_HEAD = 5"
| "equipment_index MC_EQUIPMENT_BODY = 6"
| "equipment_index MC_EQUIPMENT_SADDLE = 7"
| "equipment_index MC_EQUIPMENT_SLOT_COUNT = 8"

instantiation mc_equipment_slot :: linorder
begin

definition less_eq_mc_equipment_slot :: "mc_equipment_slot \<Rightarrow> mc_equipment_slot \<Rightarrow> bool" where
  "less_eq_mc_equipment_slot a b \<longleftrightarrow> equipment_index a \<le> equipment_index b"

definition less_mc_equipment_slot :: "mc_equipment_slot \<Rightarrow> mc_equipment_slot \<Rightarrow> bool" where
  "less_mc_equipment_slot a b \<longleftrightarrow> equipment_index a < equipment_index b"

instance
proof
  fix a b :: mc_equipment_slot
  show "a \<le> b \<Longrightarrow> b \<le> a \<Longrightarrow> a = b"
    by (cases a; cases b; simp add: less_eq_mc_equipment_slot_def)
qed (auto simp: less_eq_mc_equipment_slot_def less_mc_equipment_slot_def)

end

definition mc_entity_equipment_slot_supported :: "int \<Rightarrow> mc_equipment_slot \<Rightarrow> bool" where
  "mc_entity_equipment_slot_supported protocol slot =
     (if \<not> mc_protocol_supported protocol \<or> slot < MC_EQUIPMENT_MAIN_HAND
         \<or> slot \<ge> MC_EQUIPMENT_SLOT_COUNT then False
      else if slot = MC_EQUIPMENT_OFF_HAND then protocol \<ge> 107
      else if slot = MC_EQUIPMENT_BODY then protocol \<ge> 766
      else if slot = MC_EQUIPMENT_SADDLE then protocol \<ge> 770
      else True)"

text \<open>The conversion of an integer below the number of slots to the enumeration.\<close>

definition equipment_of_index :: "nat \<Rightarrow> mc_equipment_slot" where
  "equipment_of_index n =
     [MC_EQUIPMENT_MAIN_HAND, MC_EQUIPMENT_OFF_HAND, MC_EQUIPMENT_FEET, MC_EQUIPMENT_LEGS,
      MC_EQUIPMENT_CHEST, MC_EQUIPMENT_HEAD, MC_EQUIPMENT_BODY, MC_EQUIPMENT_SADDLE] ! n"

definition equipment_slot_normalize :: "int \<Rightarrow> i32 \<Rightarrow> mc_equipment_slot option" where
  "equipment_slot_normalize protocol wire_slot =
     (if sint wire_slot < 0 then None
      else if protocol \<le> 47 then
        (if wire_slot = 0 then Some MC_EQUIPMENT_MAIN_HAND
         else if wire_slot = 1 then Some MC_EQUIPMENT_FEET
         else if wire_slot = 2 then Some MC_EQUIPMENT_LEGS
         else if wire_slot = 3 then Some MC_EQUIPMENT_CHEST
         else if wire_slot = 4 then Some MC_EQUIPMENT_HEAD
         else None)
      else if sint wire_slot \<ge> int (equipment_index MC_EQUIPMENT_SLOT_COUNT) then None
      else
        let slot = equipment_of_index (unat wire_slot) in
        if mc_entity_equipment_slot_supported protocol slot then Some slot else None)"

definition MC_ENTITY_EQUIPMENT_MAX_ENTRIES :: nat where
  "MC_ENTITY_EQUIPMENT_MAX_ENTRIES = 8"

record mc_entity_equipment_entry =
  ee_slot :: mc_equipment_slot
  ee_item_id :: i32
  ee_count :: i32

record mc_entity_equipment =
  eq_entity_id :: i32
  eq_entries :: "mc_entity_equipment_entry list"

definition slot_bit :: "mc_equipment_slot \<Rightarrow> u32" where
  "slot_bit slot = push_bit (equipment_index slot) 1"

definition reader_entity_equipment_entry ::
    "int \<Rightarrow> i32 \<Rightarrow> mc_entity_equipment_entry list \<times> u32 \<Rightarrow> (mc_entity_equipment_entry list \<times> u32) rd" where
  "reader_entity_equipment_entry protocol wire_slot = (\<lambda>(entries, seen).
     case equipment_slot_normalize protocol wire_slot of
       None \<Rightarrow> reader_mark_failed
     | Some slot \<Rightarrow>
         rd_bind (rd_mark
           (rd_bind (rd_test (\<not> (length entries \<ge> MC_ENTITY_EQUIPMENT_MAX_ENTRIES
                               \<or> seen AND slot_bit slot \<noteq> 0))) (\<lambda>_.
            mc_reader_plain_item protocol))) (\<lambda>(item_id, count).
         rd_return (entries @ [\<lparr>ee_slot = slot, ee_item_id = item_id, ee_count = count\<rparr>],
                    seen OR slot_bit slot)))"

lemma equipment_entry_length:
  assumes "reader_entity_equipment_entry protocol wire_slot (entries, seen) r = (Some (entries', seen'), r')"
  shows "length entries' = Suc (length entries) \<and> length entries < MC_ENTITY_EQUIPMENT_MAX_ENTRIES"
  using assms
  by (auto simp: reader_entity_equipment_entry_def rd_bind_def rd_mark_def rd_orelse_def rd_test_def
      rd_return_def reader_mark_failed_def split: option.splits prod.splits if_splits)

text \<open>
  One round of the continuation loop returns the byte it read; the loop ends because an array that
  is full refuses the next entry.
\<close>

definition equipment_round ::
    "int \<Rightarrow> mc_entity_equipment_entry list \<times> u32 \<Rightarrow> (u8 \<times> mc_entity_equipment_entry list \<times> u32) rd" where
  "equipment_round protocol acc =
     rd_bind mc_reader_u8 (\<lambda>encoded_slot.
     rd_bind (reader_entity_equipment_entry protocol (ucast (encoded_slot AND 0x7f)) acc) (\<lambda>acc'.
     rd_return (encoded_slot, acc')))"

lemma equipment_round_entry:
  assumes "equipment_round protocol acc r = (Some (encoded_slot, acc'), r')"
  shows "\<exists>wire_slot r''. reader_entity_equipment_entry protocol wire_slot acc r'' = (Some acc', r')"
  using assms by (auto simp: equipment_round_def rd_bind_def rd_return_def split: option.splits prod.splits)

lemma equipment_round_length:
  assumes "equipment_round protocol acc r = (Some (encoded_slot, acc'), r')"
  shows "length (fst acc') = Suc (length (fst acc)) \<and> length (fst acc) < MC_ENTITY_EQUIPMENT_MAX_ENTRIES"
  using equipment_round_entry [OF assms] equipment_entry_length [of _ _ "fst acc" "snd acc" _ "fst acc'" "snd acc'"]
  by auto

function equipment_loop ::
    "int \<Rightarrow> mc_entity_equipment_entry list \<times> u32 \<Rightarrow> (mc_entity_equipment_entry list \<times> u32) rd" where
  "equipment_loop protocol acc r =
     (case equipment_round protocol acc r of
        (None, r') \<Rightarrow> (None, r')
      | (Some (encoded_slot, acc'), r') \<Rightarrow>
          if encoded_slot AND 0x80 \<noteq> 0 then equipment_loop protocol acc' r' else (Some acc', r'))"
  by pat_completeness auto
termination
  by (relation "measure (\<lambda>(protocol, acc, r). Suc MC_ENTITY_EQUIPMENT_MAX_ENTRIES - length (fst acc))")
     (auto dest!: equipment_round_length [OF sym])

declare equipment_loop.simps [simp del]

definition read_equipment_entries :: "int \<Rightarrow> (mc_entity_equipment_entry list \<times> u32) rd" where
  "read_equipment_entries protocol =
     (if protocol \<le> 47 then
        rd_bind mc_reader_u16 (\<lambda>wire_slot.
        reader_entity_equipment_entry protocol (ucast wire_slot) ([], 0))
      else if protocol < 735 then
        rd_bind mc_reader_varint (\<lambda>wire_slot. reader_entity_equipment_entry protocol wire_slot ([], 0))
      else equipment_loop protocol ([], 0))"

definition mc_reader_entity_equipment :: "int \<Rightarrow> mc_entity_equipment rd" where
  "mc_reader_entity_equipment protocol = rd_ready protocol
     (rd_bind (if protocol \<le> 5 then mc_reader_i32 else mc_reader_varint) (\<lambda>entity_id.
      if sint entity_id < 0 then reader_mark_failed
      else
      rd_bind (read_equipment_entries protocol) (\<lambda>(entries, seen).
      rd_return \<lparr>eq_entity_id = entity_id, eq_entries = entries\<rparr>)))"

subsection \<open>Scoreboards\<close>

definition scoreboard_reader_ready :: "int \<Rightarrow> 'a rd \<Rightarrow> 'a rd" where
  "scoreboard_reader_ready protocol m = rd_live
     (if \<not> mc_protocol_supported protocol
      then rd_here (\<lambda>off. reader_fail MC_ERROR_UNSUPPORTED_PROTOCOL off) else m)"

definition scoreboard_failure :: "unit rd" where
  "scoreboard_failure = rd_here (\<lambda>off. reader_fail MC_ERROR_INVALID_PACKET_BODY off)"

definition scoreboard_read_string :: "u8 list rd" where
  "scoreboard_read_string = mc_reader_string_bounded 32767"

text \<open>The format, its component (empty where there is none) and whether there is one.\<close>

definition scoreboard_read_number_format :: "(i32 \<times> u8 list \<times> bool) rd" where
  "scoreboard_read_number_format =
     rd_bind (rd_orelse (rd_such mc_reader_varint (\<lambda>format. \<not> (sint format < 0 \<or> sint format > 2)))
       scoreboard_failure) (\<lambda>format.
     let has_component = (format = 1 \<or> format = 2) in
     rd_bind (rd_when has_component [] (mc_reader_nbt False)) (\<lambda>component.
     rd_return (format, component, has_component)))"

text \<open>\<^verbatim>\<open>if (!mc_reader_bool(reader, &has)) return false; if (has && !...) return false;\<close>\<close>

definition scoreboard_number_format :: "(bool \<times> i32 \<times> u8 list \<times> bool) rd" where
  "scoreboard_number_format =
     rd_bind mc_reader_bool (\<lambda>has_format.
     rd_bind (rd_when has_format (-1, [], False) scoreboard_read_number_format) (\<lambda>format.
     rd_return (has_format, format)))"

record mc_scoreboard_objective =
  so_objective_name :: "u8 list"
  so_display_name :: "u8 list"
  so_render_type_name :: "u8 list"
  so_number_format_component :: "u8 list"
  so_render_type :: i32
  so_number_format :: i32
  so_action :: u8
  so_has_display_name :: bool
  so_display_name_is_nbt :: bool
  so_render_type_is_registry_id :: bool
  so_has_number_format :: bool
  so_has_number_format_component :: bool

definition scoreboard_objective_start :: "u8 list \<Rightarrow> mc_scoreboard_objective" where
  "scoreboard_objective_start name =
     \<lparr>so_objective_name = name, so_display_name = [], so_render_type_name = [],
      so_number_format_component = [], so_render_type = -1, so_number_format = -1, so_action = 0,
      so_has_display_name = False, so_display_name_is_nbt = False,
      so_render_type_is_registry_id = False, so_has_number_format = False,
      so_has_number_format_component = False\<rparr>"

definition mc_reader_scoreboard_objective :: "int \<Rightarrow> mc_scoreboard_objective rd" where
  "mc_reader_scoreboard_objective protocol = scoreboard_reader_ready protocol
     (rd_bind scoreboard_read_string (\<lambda>name.
      let decoded = scoreboard_objective_start name in
      if protocol \<le> 5 then
        rd_bind scoreboard_read_string (\<lambda>display_name.
        rd_bind mc_reader_u8 (\<lambda>action.
        rd_bind (rd_orelse (rd_test (\<not> action > 2)) scoreboard_failure) (\<lambda>_.
        rd_return (decoded\<lparr>so_display_name := display_name, so_action := action,
          so_has_display_name := True\<rparr>))))
      else
        rd_bind (rd_orelse (rd_such mc_reader_u8 (\<lambda>action. \<not> action > 2)) scoreboard_failure) (\<lambda>action.
        if action = 1 then rd_return (decoded\<lparr>so_action := action\<rparr>)
        else
        rd_bind (if protocol \<le> 764 then scoreboard_read_string else mc_reader_nbt False) (\<lambda>display_name.
        rd_bind (if protocol \<le> 340 then rd_bind scoreboard_read_string (\<lambda>s. rd_return (s, -1))
                 else rd_bind (rd_orelse (rd_such mc_reader_varint (\<lambda>render_type. \<not> sint render_type < 0))
                        scoreboard_failure) (\<lambda>render_type. rd_return ([], render_type)))
          (\<lambda>(render_type_name, render_type).
        rd_bind (rd_when (protocol \<ge> 765) (False, -1, [], False) scoreboard_number_format)
          (\<lambda>(has_format, format, component, has_component).
        rd_return (decoded\<lparr>so_action := action, so_has_display_name := True,
          so_display_name := display_name, so_display_name_is_nbt := (protocol > 764),
          so_render_type_name := render_type_name, so_render_type := render_type,
          so_render_type_is_registry_id := (protocol > 340),
          so_has_number_format := has_format, so_number_format := format,
          so_number_format_component := component,
          so_has_number_format_component := has_component\<rparr>)))))))"

record mc_scoreboard_display =
  sdp_objective_name :: "u8 list"
  sdp_slot :: i32

definition mc_reader_scoreboard_display :: "int \<Rightarrow> mc_scoreboard_display rd" where
  "mc_reader_scoreboard_display protocol = scoreboard_reader_ready protocol
     (rd_bind
       (if protocol \<le> 763 then rd_bind mc_reader_u8 (\<lambda>slot. rd_return (ucast slot))
        else rd_orelse (rd_such mc_reader_varint (\<lambda>slot. \<not> sint slot < 0)) scoreboard_failure) (\<lambda>slot.
      rd_bind scoreboard_read_string (\<lambda>name.
      rd_return \<lparr>sdp_objective_name = name, sdp_slot = slot\<rparr>)))"

record mc_scoreboard_score =
  ss_entry_name :: "u8 list"
  ss_objective_name :: "u8 list"
  ss_display_name :: "u8 list"
  ss_number_format_component :: "u8 list"
  ss_value :: i32
  ss_number_format :: i32
  ss_action :: u8
  ss_has_objective_name :: bool
  ss_has_value :: bool
  ss_has_display_name :: bool
  ss_has_number_format :: bool
  ss_has_number_format_component :: bool

definition scoreboard_score_start :: "u8 list \<Rightarrow> mc_scoreboard_score" where
  "scoreboard_score_start name =
     \<lparr>ss_entry_name = name, ss_objective_name = [], ss_display_name = [],
      ss_number_format_component = [], ss_value = 0, ss_number_format = -1, ss_action = 0,
      ss_has_objective_name = False, ss_has_value = False, ss_has_display_name = False,
      ss_has_number_format = False, ss_has_number_format_component = False\<rparr>"

definition mc_reader_scoreboard_score :: "int \<Rightarrow> mc_scoreboard_score rd" where
  "mc_reader_scoreboard_score protocol = scoreboard_reader_ready protocol
     (rd_bind scoreboard_read_string (\<lambda>name.
      let decoded = scoreboard_score_start name in
      if protocol \<le> 5 then
        rd_bind (rd_orelse (rd_such mc_reader_u8 (\<lambda>action. \<not> action > 1)) scoreboard_failure) (\<lambda>action.
        if action = 0 then
          rd_bind scoreboard_read_string (\<lambda>objective_name. rd_bind mc_reader_i32 (\<lambda>v.
          rd_return (decoded\<lparr>ss_action := action, ss_objective_name := objective_name,
            ss_value := v, ss_has_objective_name := True, ss_has_value := True\<rparr>)))
        else rd_return (decoded\<lparr>ss_action := action\<rparr>))
      else if protocol \<le> 764 then
        rd_bind (rd_orelse
          (rd_bind (rd_such mc_reader_varint (\<lambda>action. \<not> (sint action < 0 \<or> sint action > 1))) (\<lambda>action.
           rd_bind scoreboard_read_string (\<lambda>objective_name. rd_return (action, objective_name))))
          scoreboard_failure) (\<lambda>(action, objective_name).
        let action = (ucast action :: u8) in
        rd_bind (rd_when (action = 0) 0 mc_reader_varint) (\<lambda>v.
        rd_return (decoded\<lparr>ss_action := action, ss_objective_name := objective_name,
          ss_has_objective_name := True, ss_value := v, ss_has_value := (action = 0)\<rparr>)))
      else
        rd_bind scoreboard_read_string (\<lambda>objective_name. rd_bind mc_reader_varint (\<lambda>v.
        rd_bind mc_reader_bool (\<lambda>has_display_name.
        rd_bind (rd_when has_display_name [] (mc_reader_nbt False)) (\<lambda>display_name.
        rd_bind scoreboard_number_format (\<lambda>(has_format, format, component, has_component).
        rd_return (decoded\<lparr>ss_objective_name := objective_name, ss_value := v,
          ss_has_objective_name := True, ss_has_value := True,
          ss_has_display_name := has_display_name, ss_display_name := display_name,
          ss_has_number_format := has_format, ss_number_format := format,
          ss_number_format_component := component,
          ss_has_number_format_component := has_component\<rparr>))))))))"

record mc_scoreboard_reset =
  sr_entry_name :: "u8 list"
  sr_objective_name :: "u8 list"
  sr_has_objective_name :: bool

definition mc_reader_scoreboard_reset :: "int \<Rightarrow> mc_scoreboard_reset rd" where
  "mc_reader_scoreboard_reset protocol = scoreboard_reader_ready protocol
     (if protocol < 765 then rd_here (\<lambda>off. reader_fail MC_ERROR_UNSUPPORTED_PROTOCOL off)
      else
      rd_bind scoreboard_read_string (\<lambda>entry_name.
      rd_bind mc_reader_bool (\<lambda>has_objective_name.
      rd_bind (rd_when has_objective_name [] scoreboard_read_string) (\<lambda>objective_name.
      rd_return \<lparr>sr_entry_name = entry_name, sr_objective_name = objective_name,
        sr_has_objective_name = has_objective_name\<rparr>))))"

subsection \<open>Hand use\<close>

definition entity_hand_use_metadata_index :: "int \<Rightarrow> u8" where
  "entity_hand_use_metadata_index protocol =
     (if protocol < 107 then 0
      else if protocol \<le> 110 then 5
      else if protocol \<le> 404 then 6
      else if protocol \<le> 754 then 7
      else 8)"

record mc_entity_hand_use_metadata =
  hu_entity_id :: i32
  hu_metadata_index :: u8
  hu_raw_flags :: u8
  hu_active :: bool
  hu_off_hand :: bool
  hu_uses_living_flags :: bool

definition hand_use_of_flags :: "int \<Rightarrow> i32 \<Rightarrow> u8 \<Rightarrow> mc_entity_hand_use_metadata" where
  "hand_use_of_flags protocol entity_id raw_flags =
     (let uses_living_flags = (protocol \<ge> 107);
          active = (raw_flags AND (if uses_living_flags then 0x01 else 0x10) \<noteq> 0)
      in \<lparr>hu_entity_id = entity_id, hu_metadata_index = entity_hand_use_metadata_index protocol,
          hu_raw_flags = raw_flags, hu_active = active,
          hu_off_hand = (uses_living_flags \<and> active \<and> raw_flags AND 0x02 \<noteq> 0),
          hu_uses_living_flags = uses_living_flags\<rparr>)"

definition mc_reader_entity_hand_use_metadata :: "int \<Rightarrow> mc_entity_hand_use_metadata rd" where
  "mc_reader_entity_hand_use_metadata protocol = rd_ready protocol
     (rd_bind (if protocol \<le> 5 then mc_reader_i32 else mc_reader_varint) (\<lambda>entity_id.
      if sint entity_id < 0 then reader_mark_failed
      else
      rd_bind
       (if protocol \<le> 47 then
          rd_bind (rd_mark (rd_such mc_reader_u8
            (\<lambda>packed_header. packed_header = entity_hand_use_metadata_index protocol))) (\<lambda>_. rd_return ())
        else
          rd_bind (rd_mark (rd_such mc_reader_u8 (\<lambda>index. index = entity_hand_use_metadata_index protocol)))
            (\<lambda>_.
          if protocol \<le> 340
          then rd_bind (rd_mark (rd_such mc_reader_u8 (\<lambda>serializer. serializer = 0))) (\<lambda>_. rd_return ())
          else rd_bind (rd_mark (rd_such mc_reader_varint (\<lambda>serializer. serializer = 0))) (\<lambda>_. rd_return ())))
        (\<lambda>_.
      rd_bind (rd_mark
        (rd_bind mc_reader_u8 (\<lambda>raw_flags.
         rd_bind (rd_such mc_reader_u8 (\<lambda>terminator. terminator = (if protocol \<le> 47 then 0x7f else 0xff)))
           (\<lambda>_. rd_return raw_flags)))) (\<lambda>raw_flags.
      rd_return (hand_use_of_flags protocol entity_id raw_flags)))))"

subsection \<open>Their interfaces\<close>

lemma reader_op_option [rd_ops]:
  "reader_op a \<Longrightarrow> (\<And>x. reader_op (f x)) \<Longrightarrow> reader_op (case v of None \<Rightarrow> a | Some x \<Rightarrow> f x)"
  by (cases v) simp_all

lemma reader_op_split [rd_ops]:
  "(\<And>x y. reader_op (f x y)) \<Longrightarrow> reader_op (case p of (x, y) \<Rightarrow> f x y)"
  by (cases p) simp

lemma reader_op_plain_item [rd_ops]: "reader_op (mc_reader_plain_item protocol)"
  by (intro checked_reader rd_checked)

lemma reader_op_nbt [rd_ops]: "reader_op (mc_reader_nbt named_root)"
  by (intro checked_reader rd_checked)

lemma reader_op_slots [rd_ops]: "reader_op (read_slots protocol n)"
  by (induction n) (auto intro!: rd_ops)

lemma reader_op_equipment_entry [rd_ops]:
  "reader_op (reader_entity_equipment_entry protocol wire_slot acc)"
  unfolding reader_entity_equipment_entry_def by (intro rd_ops)

lemma reader_op_equipment_round [rd_ops]: "reader_op (equipment_round protocol acc)"
  unfolding equipment_round_def by (intro rd_ops)

text \<open>The loop is a round followed by nothing or by the loop.\<close>

lemma equipment_loop_bind:
  "equipment_loop protocol acc = rd_bind (equipment_round protocol acc) (\<lambda>(encoded_slot, acc').
     if encoded_slot AND 0x80 \<noteq> 0 then equipment_loop protocol acc' else rd_return acc')"
  by (rule ext, subst equipment_loop.simps)
     (auto simp: rd_bind_def rd_return_def split: option.splits prod.splits)

lemma rd_bind_cong:
  "(\<And>r x r'. m r = (Some x, r') \<Longrightarrow> f x = g x) \<Longrightarrow> rd_bind m f = rd_bind m g"
  by (rule ext) (auto simp: rd_bind_def split: option.splits prod.splits)

lemma equipment_loop_bounded:
  "equipment_loop protocol acc = rd_bind (equipment_round protocol acc) (\<lambda>(encoded_slot, acc').
     if encoded_slot AND 0x80 \<noteq> 0 \<and> length (fst acc') = Suc (length (fst acc))
        \<and> length (fst acc) < MC_ENTITY_EQUIPMENT_MAX_ENTRIES
     then equipment_loop protocol acc' else rd_return acc')"
  by (subst equipment_loop_bind) (auto intro!: rd_bind_cong dest!: equipment_round_length)

lemma reader_op_equipment_loop [rd_ops]: "reader_op (equipment_loop protocol acc)"
proof (induction "Suc MC_ENTITY_EQUIPMENT_MAX_ENTRIES - length (fst acc)" arbitrary: acc rule: less_induct)
  case less
  then show ?case
    by (subst equipment_loop_bounded) (intro rd_ops; auto intro!: rd_ops)
qed

lemma reader_op_container_readers [rd_ops]:
  "reader_op (mc_reader_inventory_slot_update protocol direct)"
  "reader_op (mc_reader_container_open protocol)" "reader_op (mc_reader_container_content protocol)"
  "reader_op (mc_reader_entity_equipment protocol)"
  "reader_op (mc_reader_entity_hand_use_metadata protocol)"
  unfolding mc_reader_inventory_slot_update_def mc_reader_container_open_def
    mc_reader_container_content_def mc_reader_entity_equipment_def
    mc_reader_entity_hand_use_metadata_def read_equipment_entries_def Let_def
  by (intro rd_ops)+

lemma stops_supported_if [rd_sticky]: "rd_stops m \<Longrightarrow> rd_stops (if c then reader_mark_failed else m)"
  by (simp add: rd_stops_def reader_mark_failed_def)

lemma stops_container_readers [rd_sticky]:
  "rd_stops (mc_reader_inventory_slot_update protocol direct)"
  "rd_stops (mc_reader_container_open protocol)" "rd_stops (mc_reader_container_content protocol)"
  "rd_stops (mc_reader_entity_equipment protocol)"
  "rd_stops (mc_reader_entity_hand_use_metadata protocol)"
  unfolding mc_reader_inventory_slot_update_def mc_reader_container_open_def
    mc_reader_container_content_def mc_reader_entity_equipment_def
    mc_reader_entity_hand_use_metadata_def
  by (intro rd_sticky)+

lemma sticky_opI: "reader_op m \<Longrightarrow> rd_stops m \<Longrightarrow> sticky_op m"
  by (simp add: sticky_op_def sticky_op_axioms_def rd_stops_def)

interpretation inventory_slot_rd: sticky_op "mc_reader_inventory_slot_update protocol direct"
  for protocol direct
  by (intro sticky_opI rd_ops rd_sticky)

interpretation container_open_rd: sticky_op "mc_reader_container_open protocol" for protocol
  by (intro sticky_opI rd_ops rd_sticky)

interpretation container_content_rd: sticky_op "mc_reader_container_content protocol" for protocol
  by (intro sticky_opI rd_ops rd_sticky)

interpretation entity_equipment_rd: sticky_op "mc_reader_entity_equipment protocol" for protocol
  by (intro sticky_opI rd_ops rd_sticky)

interpretation hand_use_rd: sticky_op "mc_reader_entity_hand_use_metadata protocol" for protocol
  by (intro sticky_opI rd_ops rd_sticky)

text \<open>The scoreboard readers and \<open>mc_reader_container_data\<close> record every failure.\<close>

lemma checked_scoreboard_ready [rd_checked]: "checked_op m \<Longrightarrow> checked_op (scoreboard_reader_ready protocol m)"
  unfolding scoreboard_reader_ready_def by (intro rd_checked) simp_all

lemma stops_scoreboard_ready [rd_sticky]: "rd_stops (scoreboard_reader_ready protocol m)"
  unfolding scoreboard_reader_ready_def by (rule stops_live)

lemma handler_scoreboard [rd_checked]: "rd_handler scoreboard_failure"
  unfolding scoreboard_failure_def by (intro rd_checked) simp

lemma checked_scoreboard_string [rd_checked]: "checked_op scoreboard_read_string"
  unfolding scoreboard_read_string_def by (rule checked_string_bounded)

lemmas reporting_scoreboard_string [rd_checked] = checked_reporting [OF checked_scoreboard_string]

lemma checked_number_format [rd_checked]: "checked_op scoreboard_number_format"
  unfolding scoreboard_number_format_def scoreboard_read_number_format_def Let_def by (intro rd_checked)

lemma checked_scoreboard_readers [rd_checked]:
  "checked_op (mc_reader_container_data protocol)" "checked_op (mc_reader_scoreboard_objective protocol)"
  "checked_op (mc_reader_scoreboard_display protocol)" "checked_op (mc_reader_scoreboard_score protocol)"
  "checked_op (mc_reader_scoreboard_reset protocol)"
  unfolding mc_reader_container_data_def mc_reader_scoreboard_objective_def
    mc_reader_scoreboard_display_def mc_reader_scoreboard_score_def mc_reader_scoreboard_reset_def Let_def
  by (intro rd_checked; simp)+

lemma stops_scoreboard_readers [rd_sticky]:
  "rd_stops (mc_reader_container_data protocol)" "rd_stops (mc_reader_scoreboard_objective protocol)"
  "rd_stops (mc_reader_scoreboard_display protocol)" "rd_stops (mc_reader_scoreboard_score protocol)"
  "rd_stops (mc_reader_scoreboard_reset protocol)"
  unfolding mc_reader_container_data_def mc_reader_scoreboard_objective_def
    mc_reader_scoreboard_display_def mc_reader_scoreboard_score_def mc_reader_scoreboard_reset_def
  by (intro rd_sticky)+

interpretation container_data_rd: field_reader "mc_reader_container_data protocol" for protocol
  by (intro field_readerI rd_checked rd_sticky)

interpretation scoreboard_objective_rd: field_reader "mc_reader_scoreboard_objective protocol" for protocol
  by (intro field_readerI rd_checked rd_sticky)

interpretation scoreboard_display_rd: field_reader "mc_reader_scoreboard_display protocol" for protocol
  by (intro field_readerI rd_checked rd_sticky)

interpretation scoreboard_score_rd: field_reader "mc_reader_scoreboard_score protocol" for protocol
  by (intro field_readerI rd_checked rd_sticky)

interpretation scoreboard_reset_rd: field_reader "mc_reader_scoreboard_reset protocol" for protocol
  by (intro field_readerI rd_checked rd_sticky)

subsection \<open>What an equipment body decodes to\<close>

lemma equipment_index_inj: "equipment_index a = equipment_index b \<longleftrightarrow> a = b"
  by (cases a; cases b; simp)

lemma slot_bit_seen: "seen AND slot_bit slot \<noteq> 0 \<longleftrightarrow> bit seen (equipment_index slot)"
  by (metis slot_bit_def and_exp_eq_0_iff_not_bit push_bit_of_1)

lemma bit_slot_bit: "bit (slot_bit slot) n \<longleftrightarrow> n = equipment_index slot"
proof -
  have "equipment_index slot < 32" by (cases slot) simp_all
  then show ?thesis unfolding slot_bit_def by (auto simp: bit_exp_iff)
qed

text \<open>The bit set agrees with the slots of the entries filled in, and the slots are distinct.\<close>

definition equipment_inv :: "int \<Rightarrow> mc_entity_equipment_entry list \<times> u32 \<Rightarrow> bool" where
  "equipment_inv protocol = (\<lambda>(entries, seen).
     (\<forall>slot. bit seen (equipment_index slot) \<longleftrightarrow> slot \<in> ee_slot ` set entries)
     \<and> distinct (map ee_slot entries) \<and> length entries \<le> MC_ENTITY_EQUIPMENT_MAX_ENTRIES
     \<and> (\<forall>e \<in> set entries. mc_entity_equipment_slot_supported protocol (ee_slot e)))"

lemma equipment_inv_start: "equipment_inv protocol ([], 0)"
  by (simp add: equipment_inv_def)

lemma normalize_supported:
  assumes "mc_protocol_supported protocol" and "equipment_slot_normalize protocol wire_slot = Some slot"
  shows "mc_entity_equipment_slot_supported protocol slot"
  using assms
  by (auto simp: equipment_slot_normalize_def mc_entity_equipment_slot_supported_def Let_def
      less_eq_mc_equipment_slot_def less_mc_equipment_slot_def split: if_splits)

lemma equipment_inv_entry:
  assumes "mc_protocol_supported protocol" and "equipment_inv protocol acc"
    and "reader_entity_equipment_entry protocol wire_slot acc r = (Some acc', r')"
  shows "equipment_inv protocol acc'"
proof -
  obtain entries seen where acc: "acc = (entries, seen)" by (cases acc)
  from assms(3) obtain slot item_id count where
    slot: "equipment_slot_normalize protocol wire_slot = Some slot"
    and room: "length entries < MC_ENTITY_EQUIPMENT_MAX_ENTRIES" and fresh: "\<not> bit seen (equipment_index slot)"
    and acc': "acc' = (entries @ [\<lparr>ee_slot = slot, ee_item_id = item_id, ee_count = count\<rparr>], seen OR slot_bit slot)"
    by (auto simp: acc reader_entity_equipment_entry_def rd_bind_def rd_mark_def rd_orelse_def rd_test_def
        rd_return_def reader_mark_failed_def slot_bit_seen split: option.splits prod.splits if_splits)
  show ?thesis
    using assms(2) room fresh normalize_supported [OF assms(1) slot]
    by (auto simp: acc acc' equipment_inv_def bit_or_iff bit_slot_bit equipment_index_inj)
qed

lemma equipment_inv_loop:
  assumes "mc_protocol_supported protocol"
  shows "equipment_inv protocol acc \<Longrightarrow> equipment_loop protocol acc r = (Some acc', r') \<Longrightarrow>
    equipment_inv protocol acc' \<and> fst acc' \<noteq> []"
  using assms
proof (induction protocol acc r rule: equipment_loop.induct)
  case (1 protocol acc r)
  from 1(3) obtain b acc1 r1 where r: "equipment_round protocol acc r = (Some (b, acc1), r1)"
    and rest: "(if b AND 0x80 \<noteq> 0 then equipment_loop protocol acc1 r1 else (Some acc1, r1)) = (Some acc', r')"
    by (subst (asm) equipment_loop.simps) (auto split: option.splits prod.splits)
  have inv: "equipment_inv protocol acc1"
    using equipment_round_entry [OF r] by (blast intro: equipment_inv_entry [OF 1(4,2)])
  have ne: "fst acc1 \<noteq> []" using equipment_round_length [OF r] by auto
  show ?case using rest inv ne 1(1) [OF r [symmetric] refl refl _ inv _ 1(4)] by (auto split: if_splits)
qed

text \<open>
  A decoded body has between one and eight entries, for distinct slots that exist in the protocol,
  and an entity identifier that is not negative.
\<close>

lemma equipment_result:
  assumes "mc_reader_entity_equipment protocol r = (Some d, r')"
  shows "distinct (map ee_slot (eq_entries d)) \<and> eq_entries d \<noteq> []
    \<and> length (eq_entries d) \<le> MC_ENTITY_EQUIPMENT_MAX_ENTRIES \<and> 0 \<le> sint (eq_entity_id d)
    \<and> (\<forall>e \<in> set (eq_entries d). mc_entity_equipment_slot_supported protocol (ee_slot e))"
proof -
  have supported: "mc_protocol_supported protocol"
    using assms by (auto simp: mc_reader_entity_equipment_def rd_ready_def reader_mark_failed_def split: if_splits)
  have single: "equipment_inv protocol acc \<and> fst acc \<noteq> []"
    if "reader_entity_equipment_entry protocol wire_slot ([], 0) r1 = (Some acc, r2)" for wire_slot r1 acc r2
    using equipment_inv_entry [OF supported equipment_inv_start that]
      equipment_entry_length [of protocol wire_slot "[]" 0 r1 "fst acc" "snd acc"] that by (cases acc) auto
  have many: "equipment_inv protocol acc \<and> fst acc \<noteq> []"
    if "equipment_loop protocol ([], 0) r1 = (Some acc, r2)" for r1 acc r2
    using equipment_inv_loop [OF supported equipment_inv_start that] .
  from assms obtain acc where "equipment_inv protocol acc \<and> fst acc \<noteq> []" "eq_entries d = fst acc"
      "0 \<le> sint (eq_entity_id d)"
    using supported single many
    by (fastforce simp: mc_reader_entity_equipment_def read_equipment_entries_def rd_ready_def rd_bind_def
        rd_return_def reader_mark_failed_def split: option.splits prod.splits if_splits)
  then show ?thesis by (auto simp: equipment_inv_def split: prod.splits)
qed

text \<open>
  The bodies themselves. The slot numbers through 1.8 skip the off hand; from 1.16 the top bit of a
  slot announces another entry.
\<close>

definition equipment_wire_slot :: "int \<Rightarrow> mc_equipment_slot \<Rightarrow> nat" where
  "equipment_wire_slot protocol slot =
     (if protocol \<le> 47 \<and> slot \<noteq> MC_EQUIPMENT_MAIN_HAND then equipment_index slot - 1
      else equipment_index slot)"

definition equipment_entry_ok :: "int \<Rightarrow> mc_entity_equipment_entry \<Rightarrow> bool" where
  "equipment_entry_ok protocol e \<longleftrightarrow> mc_entity_equipment_slot_supported protocol (ee_slot e)
     \<and> plain_item_ok protocol (ee_item_id e, ee_count e)"

definition equipment_item_bytes :: "int \<Rightarrow> mc_entity_equipment_entry \<Rightarrow> u8 list" where
  "equipment_item_bytes protocol e = plain_item_bytes protocol (ee_item_id e, ee_count e)"

fun equipment_list_bytes :: "int \<Rightarrow> mc_entity_equipment_entry list \<Rightarrow> u8 list" where
  "equipment_list_bytes protocol [] = []"
| "equipment_list_bytes protocol [e] =
     of_nat (equipment_index (ee_slot e)) # equipment_item_bytes protocol e"
| "equipment_list_bytes protocol (e # es) =
     (of_nat (equipment_index (ee_slot e)) OR 0x80) # equipment_item_bytes protocol e
       @ equipment_list_bytes protocol es"

definition equipment_entries_bytes :: "int \<Rightarrow> mc_entity_equipment_entry list \<Rightarrow> u8 list" where
  "equipment_entries_bytes protocol es =
     (let wire_slot = equipment_wire_slot protocol (ee_slot (hd es)) in
      if protocol \<le> 47 then be_bytes 2 (of_nat wire_slot :: u16) @ equipment_item_bytes protocol (hd es)
      else if protocol < 735 then varint_bytes (of_nat wire_slot) @ equipment_item_bytes protocol (hd es)
      else equipment_list_bytes protocol es)"

definition equipment_bytes :: "int \<Rightarrow> mc_entity_equipment \<Rightarrow> u8 list" where
  "equipment_bytes protocol d =
     (if protocol \<le> 5 then be_bytes 4 (eq_entity_id d) else varint_bytes (eq_entity_id d))
     @ equipment_entries_bytes protocol (eq_entries d)"

definition equipment_ok :: "int \<Rightarrow> mc_entity_equipment \<Rightarrow> bool" where
  "equipment_ok protocol d \<longleftrightarrow> mc_protocol_supported protocol \<and> 0 \<le> sint (eq_entity_id d)
     \<and> eq_entries d \<noteq> [] \<and> distinct (map ee_slot (eq_entries d))
     \<and> (\<forall>e \<in> set (eq_entries d). equipment_entry_ok protocol e)
     \<and> (protocol < 735 \<longrightarrow> length (eq_entries d) = 1)"

lemma normalize_wire:
  assumes "mc_entity_equipment_slot_supported protocol slot"
  shows "equipment_slot_normalize protocol (of_nat (equipment_wire_slot protocol slot)) = Some slot"
  using assms
  by (cases slot; cases "protocol \<le> 47")
     (auto simp: equipment_slot_normalize_def equipment_wire_slot_def equipment_of_index_def
      mc_entity_equipment_slot_supported_def less_eq_mc_equipment_slot_def less_mc_equipment_slot_def Let_def
      split: if_splits)

lemma parses_mark: "rd_parses m bs x \<Longrightarrow> rd_parses (rd_mark m) bs x"
  unfolding rd_mark_def by (rule parses_orelse)

lemma parses_equipment_entry:
  assumes e: "equipment_entry_ok protocol e" and slot: "equipment_slot_normalize protocol w = Some (ee_slot e)"
    and room: "length entries < MC_ENTITY_EQUIPMENT_MAX_ENTRIES"
    and fresh: "\<not> bit seen (equipment_index (ee_slot e))"
  shows "rd_parses (reader_entity_equipment_entry protocol w (entries, seen))
    (equipment_item_bytes protocol e) (entries @ [e], seen OR slot_bit (ee_slot e))"
proof -
  let ?item = "(ee_item_id e, ee_count e)"
  have item: "rd_parses (mc_reader_plain_item protocol) (plain_item_bytes protocol ?item) ?item"
    using plain_item_codec.get_wire [of protocol ?item] e by (simp add: equipment_entry_ok_def)
  have test: "rd_parses (rd_test (\<not> (length entries \<ge> MC_ENTITY_EQUIPMENT_MAX_ENTRIES
      \<or> seen AND slot_bit (ee_slot e) \<noteq> 0))) [] ()"
    using room fresh by (intro parses_test) (simp add: slot_bit_seen)
  have eta: "\<lparr>ee_slot = ee_slot e, ee_item_id = ee_item_id e, ee_count = ee_count e\<rparr> = e" by (cases e) simp
  show ?thesis
    unfolding reader_entity_equipment_entry_def prod.case slot option.case equipment_item_bytes_def
    by (rule parses_bind_nil [OF parses_mark [OF parses_bind [OF test item, unfolded append_Nil]]])
       (simp add: parses_return eta)
qed

lemma slot_byte:
  fixes b :: u8
  assumes "slot < MC_EQUIPMENT_SLOT_COUNT" and "protocol > 47"
  shows "ucast ((of_nat (equipment_index slot) OR 0x80 :: u8) AND 0x7f) = (of_nat (equipment_wire_slot protocol slot) :: i32)"
    "ucast ((of_nat (equipment_index slot) :: u8) AND 0x7f) = (of_nat (equipment_wire_slot protocol slot) :: i32)"
    "(of_nat (equipment_index slot) OR 0x80 :: u8) AND 0x80 \<noteq> 0" "(of_nat (equipment_index slot) :: u8) AND 0x80 = 0"
  using assms by (cases slot; simp add: equipment_wire_slot_def less_mc_equipment_slot_def)+

lemma parses_equipment_round:
  assumes e: "equipment_entry_ok protocol e"
    and slot: "equipment_slot_normalize protocol (ucast (b AND 0x7f)) = Some (ee_slot e)"
    and room: "length entries < MC_ENTITY_EQUIPMENT_MAX_ENTRIES"
    and fresh: "\<not> bit seen (equipment_index (ee_slot e))"
  shows "rd_parses (equipment_round protocol (entries, seen)) (b # equipment_item_bytes protocol e)
    (b, entries @ [e], seen OR slot_bit (ee_slot e))"
  unfolding equipment_round_def
  by (rule parses_bind [OF parses_u8 [of b], unfolded append_Cons append_Nil],
      rule parses_bind_nil [OF parses_equipment_entry [OF e slot room fresh] parses_return])

lemma parses_equipment_loop:
  assumes "protocol > 47"
  shows "es \<noteq> [] \<Longrightarrow> \<forall>e \<in> set es. equipment_entry_ok protocol e \<Longrightarrow> distinct (map ee_slot es)
    \<Longrightarrow> \<forall>e \<in> set es. \<not> bit seen (equipment_index (ee_slot e))
    \<Longrightarrow> length entries + length es \<le> MC_ENTITY_EQUIPMENT_MAX_ENTRIES
    \<Longrightarrow> \<exists>seen'. rd_parses (equipment_loop protocol (entries, seen)) (equipment_list_bytes protocol es)
          (entries @ es, seen')"
proof (induction es arbitrary: entries seen)
  case (Cons e es)
  have e: "equipment_entry_ok protocol e" and room: "length entries < MC_ENTITY_EQUIPMENT_MAX_ENTRIES"
    and fresh: "\<not> bit seen (equipment_index (ee_slot e))"
    using Cons.prems by auto
  have fresh_tail: "\<forall>x \<in> set es. ee_slot x \<noteq> ee_slot e" using Cons.prems(3) by (auto simp: image_iff)
  have below: "ee_slot e < MC_EQUIPMENT_SLOT_COUNT"
    using e by (auto simp: equipment_entry_ok_def mc_entity_equipment_slot_supported_def split: if_splits)
  note wire = normalize_wire [of protocol "ee_slot e"] slot_byte [OF below assms]
  have slots: "equipment_slot_normalize protocol (ucast ((of_nat (equipment_index (ee_slot e)) OR 0x80 :: u8) AND 0x7f))
      = Some (ee_slot e)"
    "equipment_slot_normalize protocol (ucast ((of_nat (equipment_index (ee_slot e)) :: u8) AND 0x7f)) = Some (ee_slot e)"
    using wire e by (simp_all add: equipment_entry_ok_def)
  show ?case
  proof (cases es)
    case Nil
    have "rd_parses (equipment_loop protocol (entries, seen))
        (of_nat (equipment_index (ee_slot e)) # equipment_item_bytes protocol e)
        (entries @ [e], seen OR slot_bit (ee_slot e))"
      by (subst equipment_loop_bind,
          rule parses_bind_nil [OF parses_equipment_round [OF e slots(2) room fresh]])
         (simp add: wire(5) parses_return)
    then show ?thesis using Nil by auto
  next
    case (Cons f fs)
    have "\<exists>seen'. rd_parses (equipment_loop protocol (entries @ [e], seen OR slot_bit (ee_slot e)))
        (equipment_list_bytes protocol es) ((entries @ [e]) @ es, seen')"
      using Cons.prems Cons fresh_tail by (intro Cons.IH) (auto simp: bit_or_iff bit_slot_bit equipment_index_inj)
    then obtain seen' where rest: "rd_parses (equipment_loop protocol (entries @ [e], seen OR slot_bit (ee_slot e)))
        (equipment_list_bytes protocol es) ((entries @ [e]) @ es, seen')" by blast
    have "rd_parses (equipment_loop protocol (entries, seen))
        (((of_nat (equipment_index (ee_slot e)) OR 0x80) # equipment_item_bytes protocol e)
          @ equipment_list_bytes protocol es) ((entries @ [e]) @ es, seen')"
      by (subst equipment_loop_bind,
          rule parses_bind [OF parses_equipment_round [OF e slots(1) room fresh]])
         (use rest wire(4) in simp)
    then show ?thesis using Cons by auto
  qed
qed simp

lemma distinct_slots_bounded:
  assumes "distinct (map ee_slot es)" and "\<forall>e \<in> set es. equipment_entry_ok protocol e"
  shows "length es \<le> MC_ENTITY_EQUIPMENT_MAX_ENTRIES"
proof -
  let ?indices = "map (\<lambda>e. equipment_index (ee_slot e)) es"
  have "distinct ?indices" using assms(1) by (simp add: distinct_map inj_on_def equipment_index_inj)
  moreover have "set ?indices \<subseteq> {..<8}"
    using assms(2) by (fastforce simp: equipment_entry_ok_def mc_entity_equipment_slot_supported_def
        less_mc_equipment_slot_def less_eq_mc_equipment_slot_def split: if_splits)
  ultimately show ?thesis
    using card_mono [of "{..<8 :: nat}" "set ?indices"] distinct_card [of ?indices]
    by (simp add: MC_ENTITY_EQUIPMENT_MAX_ENTRIES_def)
qed

lemma parses_ready: "mc_protocol_supported protocol \<Longrightarrow> rd_parses m bs x \<Longrightarrow> rd_parses (rd_ready protocol m) bs x"
  by (simp add: rd_ready_def)

lemma parses_equipment_entries:
  assumes ok: "equipment_ok protocol d"
  shows "\<exists>seen. rd_parses (read_equipment_entries protocol) (equipment_entries_bytes protocol (eq_entries d))
    (eq_entries d, seen)"
proof -
  have ne: "eq_entries d \<noteq> []" using ok by (simp add: equipment_ok_def)
  let ?e = "hd (eq_entries d)"
  let ?w = "equipment_wire_slot protocol (ee_slot ?e)"
  have e: "equipment_entry_ok protocol ?e" using ok ne by (simp add: equipment_ok_def)
  then have slot: "equipment_slot_normalize protocol (of_nat ?w) = Some (ee_slot ?e)"
    by (simp add: equipment_entry_ok_def normalize_wire)
  have small: "ucast (of_nat ?w :: u16) = (of_nat ?w :: i32)"
    by (cases "ee_slot ?e") (simp_all add: equipment_wire_slot_def)
  have entry: "rd_parses (reader_entity_equipment_entry protocol (of_nat ?w) ([], 0))
      (equipment_item_bytes protocol ?e) ([?e], slot_bit (ee_slot ?e))"
    using parses_equipment_entry [OF e slot, of "[]" 0] by (simp add: MC_ENTITY_EQUIPMENT_MAX_ENTRIES_def)
  have single: "[?e] = eq_entries d" if "protocol < 735"
    using ok that by (cases "eq_entries d") (auto simp: equipment_ok_def)
  consider "protocol \<le> 47" | "\<not> protocol \<le> 47" "protocol < 735" | "\<not> protocol < 735" by linarith
  then show ?thesis
  proof cases
    case 1
    have "rd_parses (rd_bind mc_reader_u16 (\<lambda>wire_slot. reader_entity_equipment_entry protocol (ucast wire_slot) ([], 0)))
        (be_bytes 2 (of_nat ?w :: u16) @ equipment_item_bytes protocol ?e) ([?e], slot_bit (ee_slot ?e))"
      by (rule parses_bind [OF parses_u16]) (simp only: small entry)
    then show ?thesis using 1 single by (auto simp: equipment_entries_bytes_def read_equipment_entries_def)
  next
    case 2
    have "rd_parses (rd_bind mc_reader_varint (\<lambda>wire_slot. reader_entity_equipment_entry protocol wire_slot ([], 0)))
        (varint_bytes (of_nat ?w) @ equipment_item_bytes protocol ?e) ([?e], slot_bit (ee_slot ?e))"
      by (rule parses_bind [OF parses_varint], rule entry)
    then show ?thesis using 2 single by (auto simp: equipment_entries_bytes_def read_equipment_entries_def)
  next
    case 3
    then show ?thesis
      using parses_equipment_loop [of protocol "eq_entries d" 0 "[]"] ok
        distinct_slots_bounded [of "eq_entries d" protocol]
      by (auto simp: equipment_entries_bytes_def read_equipment_entries_def equipment_ok_def)
  qed
qed

lemma parses_equipment:
  assumes ok: "equipment_ok protocol d"
  shows "rd_parses (mc_reader_entity_equipment protocol) (equipment_bytes protocol d) d"
proof -
  have supported: "mc_protocol_supported protocol" and ident: "\<not> sint (eq_entity_id d) < 0"
    using ok by (auto simp: equipment_ok_def)
  have ident_parses: "rd_parses (if protocol \<le> 5 then mc_reader_i32 else mc_reader_varint)
      (if protocol \<le> 5 then be_bytes 4 (eq_entity_id d) else varint_bytes (eq_entity_id d)) (eq_entity_id d)"
    by (simp add: parses_same_width parses_varint)
  have eta: "\<lparr>eq_entity_id = eq_entity_id d, eq_entries = eq_entries d\<rparr> = d" by (cases d) simp
  obtain seen where entries: "rd_parses (read_equipment_entries protocol)
      (equipment_entries_bytes protocol (eq_entries d)) (eq_entries d, seen)"
    using parses_equipment_entries [OF ok] by blast
  show ?thesis
    unfolding mc_reader_entity_equipment_def equipment_bytes_def
    by (rule parses_ready [OF supported parses_bind [OF ident_parses]], simp only: ident if_False,
        rule parses_bind_nil [OF entries]) (simp add: eta parses_return)
qed

subsection \<open>Failures that are not recorded\<close>

lemma not_ready: "\<not> mc_protocol_supported protocol \<Longrightarrow> rd_ready protocol m r = (None, r\<lparr>rd_failed := True\<rparr>)"
  by (simp add: rd_ready_def reader_mark_failed_def)

lemma varint_loop_keeps_error:
  "rd_varint_loop limit spare index result r = (Some x, r') \<Longrightarrow> rd_error r' = rd_error r"
proof (induction limit spare index result arbitrary: r rule: rd_varint_loop.induct)
  case (1 limit spare index result)
  have u8: "rd_error r2 = rd_error r1" if "mc_reader_u8 r1 = (Some b, r2)" for r1 r2 b
    using that by (auto simp: mc_reader_u8_def mc_reader_bytes_def rd_bind_def rd_return_def reader_fail_def
        split: if_splits)
  show ?case
  proof (cases "index < limit")
    case True
    with 1(2) obtain b r1 where b: "mc_reader_u8 r = (Some b, r1)"
      and rest: "r' = r1 \<or> \<not> (index = limit - 1 \<and> b AND spare \<noteq> 0) \<and> b AND 0x80 \<noteq> 0
          \<and> rd_varint_loop limit spare (index + 1)
              (result OR push_bit (index * 7) (ucast (b AND 0x7f))) r1 = (Some x, r')"
      by (subst (asm) rd_varint_loop.simps)
         (auto simp: rd_bind_def rd_here_def rd_strict_def rd_return_def reader_fail_def Let_def
          split: option.splits prod.splits if_splits)
    from rest have "rd_error r' = rd_error r1"
      by (elim disjE conjE) (simp, rule 1(1) [OF True _ refl], assumption+)
    then show ?thesis using u8 [OF b] by simp
  next
    case False
    with 1(2) show ?thesis by (subst (asm) rd_varint_loop.simps) (simp add: rd_here_def reader_fail_def)
  qed
qed

lemma varint_keeps_error: "mc_reader_varint r = (Some w, r') \<Longrightarrow> rd_error r' = rd_error r"
  using varint_loop_keeps_error
  by (fastforce simp: mc_reader_varint_def rd_bind_def rd_return_def split: option.splits prod.splits)

lemma container_open_negative:
  assumes "mc_protocol_supported protocol" and "404 < protocol"
    and "mc_reader_varint r = (Some w, r')" and "sint w < 0"
  shows "mc_reader_container_open protocol r = (None, r'\<lparr>rd_failed := True\<rparr>)"
  using assms
  by (simp add: mc_reader_container_open_def rd_ready_def rd_mark_def rd_such_def rd_bind_def rd_orelse_def
      rd_test_def reader_mark_failed_def)

end
