(* ===== verification/World_Readers.thy ===== *)
theory World_Readers
  imports Container_Readers
begin

text \<open>
  \<open>mc_reader_clientbound_join_game\<close>, \<open>mc_reader_clientbound_respawn\<close> and their helpers in
  \<open>api.c\<close>. The two bodies differ most between the protocols; the readers set the failure bit on an
  invalid field without recording a code.
\<close>

subsection \<open>Shared fields\<close>

definition MC_MAX_PACKET_ARRAY_COUNT :: nat where
  "MC_MAX_PACKET_ARRAY_COUNT = 1024 * 1024"

definition mc_reader_respawn_bool :: "bool rd" where
  "mc_reader_respawn_bool =
     rd_bind (rd_mark (rd_such mc_reader_u8 (\<lambda>encoded. \<not> encoded > 1))) (\<lambda>encoded. rd_return (encoded \<noteq> 0))"

text \<open>The game mode, and the hardcore flag where the game mode carries it (else the one given).\<close>

definition mc_reader_join_game_mode :: "bool \<Rightarrow> bool \<Rightarrow> (u8 \<times> bool) rd" where
  "mc_reader_join_game_mode embedded_hardcore hardcore =
     rd_bind (rd_mark mc_reader_u8) (\<lambda>encoded.
     let normalized = (if embedded_hardcore then encoded AND 0x07 else encoded) in
     if normalized > 3 \<or> (embedded_hardcore \<and> encoded AND NOT 0x0f \<noteq> 0) then reader_mark_failed
     else rd_return (normalized, if embedded_hardcore then encoded AND 0x08 \<noteq> 0 else hardcore))"

text \<open>A text of at most 32767 bytes that is not empty.\<close>

definition reader_identifier :: "u8 list rd" where
  "reader_identifier = rd_such (mc_reader_string_bounded 32767) (\<lambda>name. length name \<noteq> 0)"

fun read_world_names :: "nat \<Rightarrow> unit rd" where
  "read_world_names 0 = rd_return ()"
| "read_world_names (Suc n) = rd_bind (rd_mark reader_identifier) (\<lambda>_. read_world_names n)"

definition mc_reader_join_worlds :: "(u32 \<times> u8 list) rd" where
  "mc_reader_join_worlds =
     rd_bind (rd_mark (rd_such mc_reader_varint (\<lambda>count. \<not> (sint count < 0 \<or> sint count > 16)))) (\<lambda>count.
     rd_bind (rd_capture (read_world_names (unat count))) (\<lambda>(_, world_names).
     rd_return (ucast count, world_names)))"

definition mc_reader_join_nonnegative_varint :: "i32 rd" where
  "mc_reader_join_nonnegative_varint =
     rd_such mc_reader_varint (\<lambda>v. sint v \<ge> 0 \<and> sint v \<le> int MC_MAX_PACKET_ARRAY_COUNT)"

text \<open>The bytes of the location where there is one.\<close>

definition mc_reader_join_death_location :: "int \<Rightarrow> u8 list option rd" where
  "mc_reader_join_death_location protocol =
     rd_bind mc_reader_bool (\<lambda>present.
     if \<not> present then rd_return None
     else
       rd_bind (rd_capture (rd_mark (rd_bind reader_identifier (\<lambda>_. mc_reader_position protocol))))
         (\<lambda>(_, death_location). rd_return (Some death_location)))"

definition mc_reader_game_modes :: "int \<Rightarrow> bool \<Rightarrow> (u8 \<times> bool \<times> i8) rd" where
  "mc_reader_game_modes protocol hardcore =
     (if protocol \<ge> 777 then
        rd_bind (rd_mark
          (rd_bind mc_reader_varint (\<lambda>current. rd_bind mc_reader_varint (\<lambda>prior.
           rd_bind (rd_test (\<not> (sint current < 0 \<or> sint current > 3 \<or> sint prior < 0 \<or> sint prior > 4)))
             (\<lambda>_. rd_return (current, prior)))))) (\<lambda>(current, prior).
        rd_return (ucast current, hardcore, ucast (prior - 1)))
      else
        rd_bind (mc_reader_join_game_mode False hardcore) (\<lambda>(game_mode, hardcore').
        rd_bind (rd_such mc_reader_i8 (\<lambda>previous. sint previous \<ge> -1 \<and> sint previous \<le> 3)) (\<lambda>previous.
        rd_return (game_mode, hardcore', previous))))"

subsection \<open>Join game\<close>

record mc_join_game_packet =
  jg_entity_id :: i32
  jg_dimension_id :: i32
  jg_maximum_players :: i32
  jg_view_distance :: i32
  jg_simulation_distance :: i32
  jg_portal_cooldown :: i32
  jg_sea_level :: i32
  jg_hashed_seed :: i64
  jg_previous_game_mode :: i8
  jg_game_mode :: u8
  jg_difficulty :: u8
  jg_world_count :: u32
  jg_world_names :: "u8 list"
  jg_registry_codec :: "u8 list"
  jg_dimension :: "u8 list"
  jg_world_name :: "u8 list"
  jg_level_type :: "u8 list"
  jg_death_location :: "u8 list"
  jg_hardcore :: bool
  jg_reduced_debug :: bool
  jg_show_respawn_screen :: bool
  jg_limited_crafting :: bool
  jg_debug :: bool
  jg_flat :: bool
  jg_enforces_secure_chat :: bool
  jg_has_dimension_id :: bool
  jg_has_registry_codec :: bool
  jg_has_dimension_data :: bool
  jg_dimension_is_nbt :: bool
  jg_has_world_name :: bool
  jg_has_level_type :: bool
  jg_has_hashed_seed :: bool
  jg_has_previous_game_mode :: bool
  jg_has_view_distance :: bool
  jg_has_simulation_distance :: bool
  jg_has_death_location :: bool
  jg_has_portal_cooldown :: bool
  jg_has_sea_level :: bool
  jg_has_enforces_secure_chat :: bool
  jg_online_mode :: bool
  jg_has_online_mode :: bool

definition join_game_start :: "i32 \<Rightarrow> mc_join_game_packet" where
  "join_game_start entity_id =
     \<lparr>jg_entity_id = entity_id, jg_dimension_id = 0, jg_maximum_players = 0, jg_view_distance = 0,
      jg_simulation_distance = 0, jg_portal_cooldown = 0, jg_sea_level = 0, jg_hashed_seed = 0,
      jg_previous_game_mode = -1, jg_game_mode = 0, jg_difficulty = 0, jg_world_count = 0,
      jg_world_names = [], jg_registry_codec = [], jg_dimension = [], jg_world_name = [],
      jg_level_type = [], jg_death_location = [], jg_hardcore = False, jg_reduced_debug = False,
      jg_show_respawn_screen = False, jg_limited_crafting = False, jg_debug = False, jg_flat = False,
      jg_enforces_secure_chat = False, jg_has_dimension_id = False, jg_has_registry_codec = False,
      jg_has_dimension_data = False, jg_dimension_is_nbt = False, jg_has_world_name = False,
      jg_has_level_type = False, jg_has_hashed_seed = False, jg_has_previous_game_mode = False,
      jg_has_view_distance = False, jg_has_simulation_distance = False, jg_has_death_location = False,
      jg_has_portal_cooldown = False, jg_has_sea_level = False, jg_has_enforces_secure_chat = False,
      jg_online_mode = False, jg_has_online_mode = False\<rparr>"

text \<open>The death location written into the packet under construction.\<close>

definition join_death :: "u8 list option \<Rightarrow> mc_join_game_packet \<Rightarrow> mc_join_game_packet" where
  "join_death death decoded =
     (case death of None \<Rightarrow> decoded
      | Some bytes \<Rightarrow> decoded\<lparr>jg_has_death_location := True, jg_death_location := bytes\<rparr>)"

text \<open>Before 1.16.\<close>

definition join_game_legacy :: "int \<Rightarrow> mc_join_game_packet \<Rightarrow> mc_join_game_packet rd" where
  "join_game_legacy protocol decoded =
     rd_bind (mc_reader_join_game_mode (protocol \<le> 5) False) (\<lambda>(game_mode, hardcore).
     rd_bind (if protocol \<le> 47 \<or> protocol = 107
              then rd_bind mc_reader_i8 (\<lambda>dimension. rd_return (scast dimension))
              else mc_reader_i32) (\<lambda>dimension_id.
     rd_bind (rd_when (protocol \<le> 404) 0 (rd_mark (rd_such mc_reader_u8 (\<lambda>difficulty. \<not> difficulty > 3))))
       (\<lambda>difficulty.
     rd_bind (rd_when (protocol \<ge> 573) 0 mc_reader_i64) (\<lambda>hashed_seed.
     rd_bind (rd_mark
       (rd_bind mc_reader_u8 (\<lambda>maximum.
        rd_bind (rd_such (mc_reader_string_bounded 64) (\<lambda>s. length s \<noteq> 0)) (\<lambda>level_type.
        rd_return (maximum, level_type))))) (\<lambda>(maximum, level_type).
     rd_bind (rd_when (protocol \<ge> 477) 0 (rd_mark mc_reader_join_nonnegative_varint)) (\<lambda>view_distance.
     rd_bind (rd_when (protocol \<ge> 47) False mc_reader_bool) (\<lambda>reduced_debug.
     rd_bind (rd_when (protocol \<ge> 573) False mc_reader_bool) (\<lambda>show_respawn_screen.
     rd_return (decoded\<lparr>jg_game_mode := game_mode, jg_hardcore := hardcore,
       jg_dimension_id := dimension_id, jg_has_dimension_id := True, jg_difficulty := difficulty,
       jg_hashed_seed := hashed_seed, jg_has_hashed_seed := (protocol \<ge> 573),
       jg_maximum_players := ucast maximum, jg_level_type := level_type, jg_has_level_type := True,
       jg_view_distance := view_distance, jg_has_view_distance := (protocol \<ge> 477),
       jg_reduced_debug := reduced_debug, jg_show_respawn_screen := show_respawn_screen\<rparr>)))))))))"

text \<open>From 1.20.2.\<close>

definition join_game_modern :: "int \<Rightarrow> mc_join_game_packet \<Rightarrow> mc_join_game_packet rd" where
  "join_game_modern protocol decoded =
     rd_bind (rd_mark
       (rd_bind mc_reader_bool (\<lambda>hardcore.
        rd_bind mc_reader_join_worlds (\<lambda>(world_count, world_names).
        rd_bind mc_reader_join_nonnegative_varint (\<lambda>maximum_players.
        rd_bind mc_reader_join_nonnegative_varint (\<lambda>view_distance.
        rd_bind mc_reader_join_nonnegative_varint (\<lambda>simulation_distance.
        rd_bind mc_reader_bool (\<lambda>reduced_debug.
        rd_bind mc_reader_bool (\<lambda>show_respawn_screen.
        rd_bind mc_reader_bool (\<lambda>limited_crafting.
        rd_return (decoded\<lparr>jg_hardcore := hardcore, jg_world_count := world_count,
          jg_world_names := world_names, jg_maximum_players := maximum_players,
          jg_view_distance := view_distance, jg_simulation_distance := simulation_distance,
          jg_reduced_debug := reduced_debug, jg_show_respawn_screen := show_respawn_screen,
          jg_limited_crafting := limited_crafting, jg_has_view_distance := True,
          jg_has_simulation_distance := True\<rparr>))))))))))) (\<lambda>decoded.
     rd_bind
       (if protocol \<ge> 766 then
          rd_bind (rd_mark mc_reader_join_nonnegative_varint) (\<lambda>dimension_id.
          rd_return (decoded\<lparr>jg_dimension_id := dimension_id, jg_has_dimension_id := True\<rparr>))
        else
          rd_bind (rd_mark reader_identifier) (\<lambda>dimension.
          rd_return (decoded\<lparr>jg_dimension := dimension, jg_has_dimension_data := True\<rparr>))) (\<lambda>decoded.
     rd_bind (rd_mark
       (rd_bind reader_identifier (\<lambda>world_name.
        rd_bind mc_reader_i64 (\<lambda>hashed_seed.
        rd_bind (mc_reader_game_modes protocol (jg_hardcore decoded)) (\<lambda>(game_mode, hardcore, previous).
        rd_bind mc_reader_bool (\<lambda>debug.
        rd_bind mc_reader_bool (\<lambda>flat.
        rd_bind (mc_reader_join_death_location protocol) (\<lambda>death.
        rd_bind mc_reader_join_nonnegative_varint (\<lambda>portal_cooldown.
        rd_return (join_death death (decoded\<lparr>jg_world_name := world_name, jg_hashed_seed := hashed_seed,
          jg_game_mode := game_mode, jg_hardcore := hardcore, jg_previous_game_mode := previous,
          jg_debug := debug, jg_flat := flat, jg_portal_cooldown := portal_cooldown,
          jg_has_world_name := True, jg_has_hashed_seed := True, jg_has_previous_game_mode := True,
          jg_has_portal_cooldown := True\<rparr>))))))))))) (\<lambda>decoded.
     rd_bind (rd_when (protocol \<ge> 768) 0 mc_reader_varint) (\<lambda>sea_level.
     rd_bind (rd_when (protocol \<ge> 776) False mc_reader_bool) (\<lambda>online_mode.
     rd_bind (rd_when (protocol \<ge> 766) False mc_reader_bool) (\<lambda>enforces_secure_chat.
     rd_return (decoded\<lparr>jg_sea_level := sea_level, jg_has_sea_level := (protocol \<ge> 768),
       jg_online_mode := online_mode, jg_has_online_mode := (protocol \<ge> 776),
       jg_enforces_secure_chat := enforces_secure_chat,
       jg_has_enforces_secure_chat := (protocol \<ge> 766)\<rparr>)))))))"

text \<open>From 1.16 to 1.20.1.\<close>

definition join_game_codec :: "int \<Rightarrow> mc_join_game_packet \<Rightarrow> mc_join_game_packet rd" where
  "join_game_codec protocol decoded =
     rd_bind
       (if protocol \<ge> 751
        then rd_bind mc_reader_bool (\<lambda>hardcore. mc_reader_join_game_mode False hardcore)
        else mc_reader_join_game_mode True False) (\<lambda>(game_mode, hardcore).
     rd_bind (rd_mark
       (rd_bind (rd_such mc_reader_i8 (\<lambda>previous. \<not> (sint previous < -1 \<or> sint previous > 3))) (\<lambda>previous.
        rd_bind mc_reader_join_worlds (\<lambda>(world_count, world_names).
        rd_bind (mc_reader_nbt True) (\<lambda>registry_codec.
        rd_return (decoded\<lparr>jg_game_mode := game_mode, jg_hardcore := hardcore,
          jg_previous_game_mode := previous, jg_world_count := world_count,
          jg_world_names := world_names, jg_registry_codec := registry_codec,
          jg_has_previous_game_mode := True, jg_has_registry_codec := True\<rparr>)))))) (\<lambda>decoded.
     rd_bind
       (if protocol \<le> 736 \<or> protocol \<ge> 759 then
          rd_bind (rd_mark reader_identifier) (\<lambda>dimension.
          rd_return (decoded\<lparr>jg_dimension := dimension, jg_has_dimension_data := True\<rparr>))
        else
          rd_bind (mc_reader_nbt True) (\<lambda>dimension.
          rd_return (decoded\<lparr>jg_dimension := dimension, jg_dimension_is_nbt := True,
            jg_has_dimension_data := True\<rparr>))) (\<lambda>decoded.
     rd_bind (rd_mark
       (rd_bind reader_identifier (\<lambda>world_name.
        rd_bind mc_reader_i64 (\<lambda>hashed_seed.
        rd_return (world_name, hashed_seed))))) (\<lambda>(world_name, hashed_seed).
     rd_bind
       (if protocol \<le> 736 then rd_bind mc_reader_u8 (\<lambda>maximum. rd_return (ucast maximum))
        else rd_mark mc_reader_join_nonnegative_varint) (\<lambda>maximum_players.
     rd_bind (rd_mark mc_reader_join_nonnegative_varint) (\<lambda>view_distance.
     rd_bind (rd_when (protocol \<ge> 757) 0 (rd_mark mc_reader_join_nonnegative_varint)) (\<lambda>simulation_distance.
     rd_bind mc_reader_bool (\<lambda>reduced_debug.
     rd_bind mc_reader_bool (\<lambda>show_respawn_screen.
     rd_bind mc_reader_bool (\<lambda>debug.
     rd_bind mc_reader_bool (\<lambda>flat.
     rd_bind (rd_when (protocol \<ge> 759) None (mc_reader_join_death_location protocol)) (\<lambda>death.
     rd_bind (rd_when (protocol = 763) 0 (rd_mark mc_reader_join_nonnegative_varint)) (\<lambda>portal_cooldown.
     rd_return (join_death death (decoded\<lparr>jg_world_name := world_name, jg_hashed_seed := hashed_seed,
       jg_has_world_name := True, jg_has_hashed_seed := True, jg_maximum_players := maximum_players,
       jg_view_distance := view_distance, jg_has_view_distance := True,
       jg_simulation_distance := simulation_distance, jg_has_simulation_distance := (protocol \<ge> 757),
       jg_reduced_debug := reduced_debug, jg_show_respawn_screen := show_respawn_screen,
       jg_debug := debug, jg_flat := flat, jg_portal_cooldown := portal_cooldown,
       jg_has_portal_cooldown := (protocol = 763)\<rparr>)))))))))))))))"

definition mc_reader_clientbound_join_game :: "int \<Rightarrow> mc_join_game_packet rd" where
  "mc_reader_clientbound_join_game protocol = rd_ready protocol
     (rd_bind mc_reader_i32 (\<lambda>entity_id.
      let decoded = join_game_start entity_id in
      if protocol < 735 then join_game_legacy protocol decoded
      else if protocol \<ge> 764 then join_game_modern protocol decoded
      else join_game_codec protocol decoded))"

subsection \<open>Respawn\<close>

record mc_clientbound_respawn =
  rs_legacy_dimension :: i32
  rs_dimension_type_id :: i32
  rs_dimension_identifier :: "u8 list"
  rs_dimension_nbt :: "u8 list"
  rs_world_name :: "u8 list"
  rs_level_type :: "u8 list"
  rs_last_death_dimension :: "u8 list"
  rs_last_death_position :: mc_position
  rs_hashed_seed :: i64
  rs_portal_cooldown :: i32
  rs_sea_level :: i32
  rs_difficulty :: u8
  rs_game_mode :: u8
  rs_previous_game_mode :: i8
  rs_keep_data_mask :: u8
  rs_has_legacy_dimension :: bool
  rs_has_dimension_type_id :: bool
  rs_has_dimension_identifier :: bool
  rs_has_dimension_nbt :: bool
  rs_has_world_name :: bool
  rs_has_level_type :: bool
  rs_has_hashed_seed :: bool
  rs_has_difficulty :: bool
  rs_has_previous_game_mode :: bool
  rs_debug :: bool
  rs_flat :: bool
  rs_has_last_death_location :: bool
  rs_has_portal_cooldown :: bool
  rs_has_sea_level :: bool

definition respawn_start :: mc_clientbound_respawn where
  "respawn_start =
     \<lparr>rs_legacy_dimension = 0, rs_dimension_type_id = 0, rs_dimension_identifier = [],
      rs_dimension_nbt = [], rs_world_name = [], rs_level_type = [], rs_last_death_dimension = [],
      rs_last_death_position = \<lparr>pos_x = 0, pos_y = 0, pos_z = 0\<rparr>, rs_hashed_seed = 0,
      rs_portal_cooldown = 0, rs_sea_level = 0, rs_difficulty = 0, rs_game_mode = 0,
      rs_previous_game_mode = 0, rs_keep_data_mask = 0, rs_has_legacy_dimension = False,
      rs_has_dimension_type_id = False, rs_has_dimension_identifier = False,
      rs_has_dimension_nbt = False, rs_has_world_name = False, rs_has_level_type = False,
      rs_has_hashed_seed = False, rs_has_difficulty = False, rs_has_previous_game_mode = False,
      rs_debug = False, rs_flat = False, rs_has_last_death_location = False,
      rs_has_portal_cooldown = False, rs_has_sea_level = False\<rparr>"

definition mc_reader_respawn_keep_data :: "int \<Rightarrow> u8 rd" where
  "mc_reader_respawn_keep_data protocol =
     rd_bind (rd_mark mc_reader_u8) (\<lambda>encoded.
     if protocol \<ge> 761 then
       (if encoded AND NOT 3 \<noteq> 0 then reader_mark_failed else rd_return encoded)
     else if encoded > 1 then reader_mark_failed
     else rd_return (if encoded \<noteq> 0 then 3 else 0))"

definition mc_reader_respawn_last_death :: "int \<Rightarrow> mc_clientbound_respawn \<Rightarrow> mc_clientbound_respawn rd" where
  "mc_reader_respawn_last_death protocol decoded =
     rd_bind mc_reader_respawn_bool (\<lambda>present.
     if \<not> present then rd_return (decoded\<lparr>rs_has_last_death_location := False\<rparr>)
     else
       rd_bind mc_reader_string (\<lambda>dimension.
       rd_bind (mc_reader_position protocol) (\<lambda>position.
       rd_return (decoded\<lparr>rs_has_last_death_location := True, rs_last_death_dimension := dimension,
         rs_last_death_position := position\<rparr>))))"

definition mc_reader_respawn_identity_tail :: "int \<Rightarrow> mc_clientbound_respawn \<Rightarrow> mc_clientbound_respawn rd" where
  "mc_reader_respawn_identity_tail protocol decoded =
     rd_bind mc_reader_i64 (\<lambda>hashed_seed.
     rd_bind
       (if protocol \<ge> 777 then
          rd_bind (mc_reader_game_modes protocol False) (\<lambda>(game_mode, ignored_hardcore, previous).
          rd_return (game_mode, previous))
        else
          rd_bind mc_reader_u8 (\<lambda>game_mode. rd_bind mc_reader_i8 (\<lambda>previous.
          rd_return (game_mode, previous)))) (\<lambda>(game_mode, previous).
     rd_bind mc_reader_respawn_bool (\<lambda>debug.
     rd_bind mc_reader_respawn_bool (\<lambda>flat.
     rd_return (decoded\<lparr>rs_hashed_seed := hashed_seed, rs_game_mode := game_mode,
       rs_previous_game_mode := previous, rs_debug := debug, rs_flat := flat\<rparr>)))))"

text \<open>The dimension of a body up to 1.15.2: an integer, with the level type.\<close>

definition respawn_legacy :: "int \<Rightarrow> mc_clientbound_respawn rd" where
  "respawn_legacy protocol = rd_mark
     (rd_bind mc_reader_i32 (\<lambda>legacy_dimension.
      rd_bind (rd_when (protocol > 498) 0 mc_reader_i64) (\<lambda>hashed_seed.
      rd_bind (rd_when (protocol \<le> 404) 0 mc_reader_u8) (\<lambda>difficulty.
      rd_bind mc_reader_u8 (\<lambda>game_mode.
      rd_bind mc_reader_string (\<lambda>level_type.
      rd_return (respawn_start\<lparr>rs_legacy_dimension := legacy_dimension, rs_hashed_seed := hashed_seed,
        rs_difficulty := difficulty, rs_game_mode := game_mode, rs_level_type := level_type,
        rs_has_legacy_dimension := True, rs_has_hashed_seed := (protocol > 498),
        rs_has_difficulty := (protocol \<le> 404), rs_has_level_type := True\<rparr>)))))))"

definition respawn_flags :: "mc_clientbound_respawn \<Rightarrow> mc_clientbound_respawn" where
  "respawn_flags decoded = decoded\<lparr>rs_has_world_name := True, rs_has_hashed_seed := True,
     rs_has_previous_game_mode := True\<rparr>"

text \<open>From 1.16 to 1.18.2: an identifier or a compound, and the data kept.\<close>

definition respawn_identified :: "int \<Rightarrow> mc_clientbound_respawn rd" where
  "respawn_identified protocol = rd_mark
     (rd_bind (if protocol \<le> 736
               then rd_bind mc_reader_string (\<lambda>dimension. rd_return
                 (respawn_start\<lparr>rs_dimension_identifier := dimension, rs_has_dimension_identifier := True\<rparr>))
               else rd_bind (mc_reader_nbt True) (\<lambda>dimension. rd_return
                 (respawn_start\<lparr>rs_dimension_nbt := dimension, rs_has_dimension_nbt := True\<rparr>))) (\<lambda>decoded.
      rd_bind mc_reader_string (\<lambda>world_name.
      rd_bind (mc_reader_respawn_identity_tail protocol (decoded\<lparr>rs_world_name := world_name\<rparr>)) (\<lambda>decoded.
      rd_bind (mc_reader_respawn_keep_data protocol) (\<lambda>mask.
      rd_return (respawn_flags (decoded\<lparr>rs_keep_data_mask := mask\<rparr>)))))))"

text \<open>From 1.19 to 1.20.4.\<close>

definition respawn_death :: "int \<Rightarrow> mc_clientbound_respawn rd" where
  "respawn_death protocol =
     rd_bind (rd_mark
       (rd_bind mc_reader_string (\<lambda>dimension.
        rd_bind mc_reader_string (\<lambda>world_name.
        rd_bind (mc_reader_respawn_identity_tail protocol (respawn_start\<lparr>rs_dimension_identifier := dimension,
          rs_world_name := world_name\<rparr>)) (\<lambda>decoded.
        rd_return (respawn_flags (decoded\<lparr>rs_has_dimension_identifier := True\<rparr>))))))) (\<lambda>decoded.
     rd_bind (rd_when (protocol \<le> 763) (rs_keep_data_mask decoded)
       (rd_mark (mc_reader_respawn_keep_data protocol))) (\<lambda>mask.
     rd_bind (rd_mark (mc_reader_respawn_last_death protocol (decoded\<lparr>rs_keep_data_mask := mask\<rparr>))) (\<lambda>decoded.
     rd_bind (rd_when (protocol \<ge> 763) 0 (rd_mark (rd_such mc_reader_varint (\<lambda>v. \<not> sint v < 0)))) (\<lambda>cooldown.
     rd_bind (rd_when (protocol \<ge> 764) (rs_keep_data_mask decoded)
       (rd_mark (mc_reader_respawn_keep_data protocol))) (\<lambda>mask.
     rd_return (decoded\<lparr>rs_portal_cooldown := cooldown, rs_has_portal_cooldown := (protocol \<ge> 763),
       rs_keep_data_mask := mask\<rparr>))))))"

text \<open>From 1.20.5.\<close>

definition respawn_typed :: "int \<Rightarrow> mc_clientbound_respawn rd" where
  "respawn_typed protocol =
     rd_bind (rd_mark
       (rd_bind (rd_such mc_reader_varint (\<lambda>v. \<not> sint v < 0)) (\<lambda>dimension_type_id.
        rd_bind mc_reader_string (\<lambda>world_name.
        rd_bind (mc_reader_respawn_identity_tail protocol (respawn_start\<lparr>rs_dimension_type_id := dimension_type_id,
          rs_world_name := world_name\<rparr>)) (\<lambda>decoded.
        rd_bind (mc_reader_respawn_last_death protocol decoded) (\<lambda>decoded.
        rd_bind (rd_such mc_reader_varint (\<lambda>v. \<not> sint v < 0)) (\<lambda>cooldown.
        rd_return (respawn_flags (decoded\<lparr>rs_has_dimension_type_id := True, rs_portal_cooldown := cooldown,
          rs_has_portal_cooldown := True\<rparr>))))))))) (\<lambda>decoded.
     rd_bind (rd_when (protocol \<ge> 768) 0 (rd_mark mc_reader_varint)) (\<lambda>sea_level.
     rd_bind (rd_mark (rd_such mc_reader_u8 (\<lambda>mask. \<not> mask AND NOT 3 \<noteq> 0))) (\<lambda>mask.
     rd_return (decoded\<lparr>rs_sea_level := sea_level, rs_has_sea_level := (protocol \<ge> 768),
       rs_keep_data_mask := mask\<rparr>))))"

definition mc_reader_clientbound_respawn :: "int \<Rightarrow> mc_clientbound_respawn rd" where
  "mc_reader_clientbound_respawn protocol = rd_ready protocol
     (rd_bind
       (if protocol \<le> 578 then respawn_legacy protocol
        else if protocol \<le> 758 then respawn_identified protocol
        else if protocol \<le> 765 then respawn_death protocol
        else respawn_typed protocol) (\<lambda>decoded.
      if rs_game_mode decoded > 3
         \<or> (rs_has_previous_game_mode decoded
            \<and> (sint (rs_previous_game_mode decoded) < -1 \<or> sint (rs_previous_game_mode decoded) > 3))
      then reader_mark_failed
      else rd_return decoded))"

subsection \<open>Interfaces\<close>

lemma reader_op_game_mode [rd_ops]:
  "reader_op (mc_reader_join_game_mode embedded hardcore)" "reader_op (mc_reader_game_modes protocol hardcore)"
  unfolding mc_reader_join_game_mode_def mc_reader_game_modes_def Let_def by (intro rd_ops)+

lemma reader_op_position [rd_ops]: "reader_op (mc_reader_position protocol)"
  by (intro checked_reader rd_checked)

lemma reader_op_identifier [rd_ops]: "reader_op reader_identifier"
  unfolding reader_identifier_def by (intro rd_ops)

lemma reader_op_world_names [rd_ops]: "reader_op (read_world_names n)"
  by (induction n) (auto intro!: rd_ops)

lemma reader_op_world_parts [rd_ops]:
  "reader_op mc_reader_join_worlds" "reader_op mc_reader_join_nonnegative_varint"
  "reader_op (mc_reader_join_death_location protocol)" "reader_op mc_reader_respawn_bool"
  unfolding mc_reader_join_worlds_def mc_reader_join_nonnegative_varint_def
    mc_reader_join_death_location_def mc_reader_respawn_bool_def
  by (intro rd_ops)+

lemma reader_op_respawn_parts [rd_ops]:
  "reader_op (mc_reader_respawn_keep_data protocol)" "reader_op (mc_reader_respawn_last_death protocol decoded)"
  "reader_op (mc_reader_respawn_identity_tail protocol decoded)"
  unfolding mc_reader_respawn_keep_data_def mc_reader_respawn_last_death_def
    mc_reader_respawn_identity_tail_def
  by (intro rd_ops)+

lemma reader_op_join_game [rd_ops]: "reader_op (mc_reader_clientbound_join_game protocol)"
  unfolding mc_reader_clientbound_join_game_def join_game_legacy_def join_game_modern_def
    join_game_codec_def Let_def
  by (intro rd_ops)

lemma reader_op_respawn [rd_ops]: "reader_op (mc_reader_clientbound_respawn protocol)"
  unfolding mc_reader_clientbound_respawn_def respawn_legacy_def respawn_identified_def
    respawn_death_def respawn_typed_def
  by (intro rd_ops)

lemma stops_world_readers [rd_sticky]:
  "rd_stops (mc_reader_clientbound_join_game protocol)" "rd_stops (mc_reader_clientbound_respawn protocol)"
  unfolding mc_reader_clientbound_join_game_def mc_reader_clientbound_respawn_def
    respawn_legacy_def respawn_identified_def respawn_death_def respawn_typed_def
  by (intro rd_sticky)+

interpretation join_game_rd: sticky_op "mc_reader_clientbound_join_game protocol" for protocol
  by (intro sticky_opI rd_ops rd_sticky)

interpretation respawn_rd: sticky_op "mc_reader_clientbound_respawn protocol" for protocol
  by (intro sticky_opI rd_ops rd_sticky)

subsection \<open>What they can return\<close>

text \<open>
  \<open>rd_can m x\<close>: the operation returns the value on some reader. \<open>rd_post m P\<close>: all that it can
  return satisfy \<open>P\<close>; the rules \<open>rd_posts\<close> execute an operation symbolically, keeping what each
  read can return as a hypothesis.
\<close>

definition rd_can :: "'a rd \<Rightarrow> 'a \<Rightarrow> bool" where
  "rd_can m x \<longleftrightarrow> (\<exists>r. fst (m r) = Some x)"

definition rd_post :: "'a rd \<Rightarrow> ('a \<Rightarrow> bool) \<Rightarrow> bool" where
  "rd_post m P \<longleftrightarrow> (\<forall>x. rd_can m x \<longrightarrow> P x)"

lemma rd_postD: "rd_post m P \<Longrightarrow> m r = (Some x, r') \<Longrightarrow> P x"
  unfolding rd_can_def rd_post_def by (metis fst_conv)

lemma can_postD: "rd_can m x \<Longrightarrow> rd_post m P \<Longrightarrow> P x"
  by (simp add: rd_post_def)

lemma post_bind:
  "(\<And>x. rd_can m x \<Longrightarrow> rd_post (f x) P) \<Longrightarrow> rd_post (rd_bind m f) P"
  by (auto simp: rd_post_def rd_can_def rd_bind_cases split: option.splits)

lemma rd_bind_assoc: "rd_bind (rd_bind m f) g = rd_bind m (\<lambda>x. rd_bind (f x) g)"
  by (rule ext) (simp add: rd_bind_cases split: option.split)

lemma post_mark: "rd_post m P \<Longrightarrow> rd_post (rd_mark m) P"
  by (auto simp: rd_post_def rd_can_def rd_mark_def rd_orelse_cases split: option.splits)

lemma post_bind_mark: "rd_post (rd_bind m f) P \<Longrightarrow> rd_post (rd_bind (rd_mark m) f) P"
  by (simp add: rd_post_def rd_can_def rd_bind_cases rd_mark_def rd_orelse_cases split: option.splits)

lemma post_bind_bind:
  "rd_post (rd_bind m (\<lambda>x. rd_bind (f x) g)) P \<Longrightarrow> rd_post (rd_bind (rd_bind m f) g) P"
  by (simp add: rd_bind_assoc)

lemma post_return: "P x \<Longrightarrow> rd_post (rd_return x) P"
  by (simp add: rd_post_def rd_can_def rd_return_def)

lemma post_bind_return: "rd_post (f x) P \<Longrightarrow> rd_post (rd_bind (rd_return x) f) P"
  by simp

lemma post_mark_failed: "rd_post reader_mark_failed P"
  by (simp add: rd_post_def rd_can_def reader_mark_failed_def)

lemma post_test: "(c \<Longrightarrow> rd_post (f ()) P) \<Longrightarrow> rd_post (rd_bind (rd_test c) f) P"
  by (simp add: rd_post_def rd_can_def rd_bind_cases rd_test_def)

lemma post_such: "(\<And>x. c x \<Longrightarrow> rd_can m x \<Longrightarrow> rd_post (f x) P) \<Longrightarrow> rd_post (rd_bind (rd_such m c) f) P"
  unfolding rd_such_def rd_bind_assoc by (intro post_bind post_test post_bind_return)

lemma post_if: "(c \<Longrightarrow> rd_post a P) \<Longrightarrow> (\<not> c \<Longrightarrow> rd_post b P) \<Longrightarrow> rd_post (if c then a else b) P"
  by simp

lemma post_split: "rd_post (f x y) P \<Longrightarrow> rd_post (case (x, y) of (x, y) \<Rightarrow> f x y) P"
  by simp

lemma post_bind_pair:
  "(\<And>x y. rd_can m (x, y) \<Longrightarrow> rd_post (f x y) P) \<Longrightarrow> rd_post (rd_bind m (\<lambda>(x, y). f x y)) P"
  by (rule post_bind) auto

lemma post_bind_triple:
  "(\<And>x y z. rd_can m (x, y, z) \<Longrightarrow> rd_post (f x y z) P) \<Longrightarrow> rd_post (rd_bind m (\<lambda>(x, y, z). f x y z)) P"
  by (rule post_bind) auto

lemma post_bind_bind_pair:
  "(\<And>x y. rd_can m (x, y) \<Longrightarrow> rd_post (rd_bind (f x y) g) P)
   \<Longrightarrow> rd_post (rd_bind (rd_bind m (\<lambda>(x, y). f x y)) g) P"
  unfolding rd_bind_assoc by (rule post_bind) auto

lemma post_bind_bind_triple:
  "(\<And>x y z. rd_can m (x, y, z) \<Longrightarrow> rd_post (rd_bind (f x y z) g) P)
   \<Longrightarrow> rd_post (rd_bind (rd_bind m (\<lambda>(x, y, z). f x y z)) g) P"
  unfolding rd_bind_assoc by (rule post_bind) auto

lemma post_bind_split: "rd_post (rd_bind (f x y) g) P \<Longrightarrow> rd_post (rd_bind (case (x, y) of (x, y) \<Rightarrow> f x y) g) P"
  by simp

lemma post_bind_if:
  "(c \<Longrightarrow> rd_post (rd_bind a f) P) \<Longrightarrow> (\<not> c \<Longrightarrow> rd_post (rd_bind b f) P)
   \<Longrightarrow> rd_post (rd_bind (if c then a else b) f) P"
  by simp

lemma post_ready: "(mc_protocol_supported protocol \<Longrightarrow> rd_post m P) \<Longrightarrow> rd_post (rd_ready protocol m) P"
  by (simp add: rd_ready_def post_mark_failed)

lemma post_when: "rd_post m P \<Longrightarrow> P d \<Longrightarrow> rd_post (rd_when c d m) P"
  by (simp add: rd_when_def post_return)

lemmas rd_posts = post_return post_mark_failed post_bind_mark post_bind_return
  post_bind_bind_triple post_bind_bind_pair post_bind_bind
  post_bind_split post_split post_test post_such post_if post_bind_if post_ready
  post_bind_triple post_bind_pair

lemma post_nonnegative:
  "rd_post mc_reader_join_nonnegative_varint (\<lambda>v. 0 \<le> sint v \<and> sint v \<le> int MC_MAX_PACKET_ARRAY_COUNT)"
  unfolding mc_reader_join_nonnegative_varint_def rd_such_def by (rule post_bind post_test post_return | assumption)+

lemma post_worlds: "rd_post mc_reader_join_worlds (\<lambda>(count, names). uint count \<le> 16)"
  unfolding mc_reader_join_worlds_def
  by (rule rd_posts post_bind)+ (use uint_nonneg_sint in \<open>auto simp: not_less\<close>)

lemma post_join_game_mode:
  "rd_post (mc_reader_join_game_mode embedded hardcore) (\<lambda>(game_mode, hardcore'). game_mode \<le> 3)"
  unfolding mc_reader_join_game_mode_def Let_def
  by (rule rd_posts post_bind)+ auto

lemma ucast_mode: "0 \<le> sint v \<Longrightarrow> sint v \<le> 3 \<Longrightarrow> (ucast (v :: i32) :: u8) \<le> 3"
  using uint_nonneg_sint [of v] by (simp add: word_le_def unsigned_ucast_eq take_bit_int_eq_self)

lemma sint_prior:
  fixes v :: i32
  assumes "0 \<le> sint v" "sint v \<le> 4"
  shows "- 1 \<le> sint (ucast (v - 1) :: i8) \<and> sint (ucast (v - 1) :: i8) \<le> 3"
proof -
  have "v = word_of_int (sint v)" by simp
  moreover have "sint v \<in> {0, 1, 2, 3, 4}" using assms by auto
  ultimately consider "v = 0" | "v \<in> {1, 2, 3, 4}" by (metis insert_iff empty_iff of_int_0 of_int_1 of_int_numeral)
  then show ?thesis
  proof cases
    case 1
    have "(ucast (- 1 :: i32) :: i8) = - 1" by (rule bit_word_eqI) (simp add: bit_simps)
    then show ?thesis using 1 by simp
  qed auto
qed

lemma post_game_modes:
  "rd_post (mc_reader_game_modes protocol hardcore)
     (\<lambda>(game_mode, hardcore', previous). game_mode \<le> 3 \<and> -1 \<le> sint previous \<and> sint previous \<le> 3)"
  unfolding mc_reader_game_modes_def
  by (rule rd_posts post_bind | (use can_postD [OF _ post_join_game_mode] in \<open>fastforce simp: ucast_mode sint_prior\<close>))+

text \<open>The packet keeps what every part of a body establishes.\<close>

definition join_game_bounded :: "mc_join_game_packet \<Rightarrow> bool" where
  "join_game_bounded d \<longleftrightarrow> jg_game_mode d \<le> 3
     \<and> -1 \<le> sint (jg_previous_game_mode d) \<and> sint (jg_previous_game_mode d) \<le> 3
     \<and> jg_difficulty d \<le> 3 \<and> uint (jg_world_count d) \<le> 16
     \<and> (\<forall>n \<in> {jg_view_distance d, jg_simulation_distance d, jg_portal_cooldown d, jg_maximum_players d}.
          0 \<le> sint n \<and> sint n \<le> int MC_MAX_PACKET_ARRAY_COUNT)"

lemma join_death_fields [simp]:
  "jg_game_mode (join_death death d) = jg_game_mode d" "jg_difficulty (join_death death d) = jg_difficulty d"
  "jg_previous_game_mode (join_death death d) = jg_previous_game_mode d"
  "jg_world_count (join_death death d) = jg_world_count d"
  "jg_view_distance (join_death death d) = jg_view_distance d"
  "jg_simulation_distance (join_death death d) = jg_simulation_distance d"
  "jg_portal_cooldown (join_death death d) = jg_portal_cooldown d"
  "jg_maximum_players (join_death death d) = jg_maximum_players d"
  by (simp_all add: join_death_def split: option.split)

lemma sint_ucast_u8: "0 \<le> sint (ucast (m :: u8) :: i32) \<and> sint (ucast m :: i32) \<le> int MC_MAX_PACKET_ARRAY_COUNT"
proof -
  have m: "0 \<le> uint m" "uint m < 256" using uint_bounded [of m] by simp_all
  then have "uint (ucast m :: i32) = uint m" by (simp add: unsigned_ucast_eq take_bit_int_eq_self)
  moreover have "signed_take_bit 31 (uint m) = uint m"
    by (rule signed_take_bit_int_eq_self) (use m order_trans [OF _ m(1)] in simp_all)
  ultimately have "sint (ucast m :: i32) = uint m" by (simp only: sint_uint) simp
  then show ?thesis using m(2) by (simp add: MC_MAX_PACKET_ARRAY_COUNT_def)
qed

lemma can_when_mark_nonnegative:
  "rd_can (rd_when c 0 (rd_mark mc_reader_join_nonnegative_varint)) v
     \<Longrightarrow> 0 \<le> sint v \<and> sint v \<le> int MC_MAX_PACKET_ARRAY_COUNT"
  by (erule can_postD) (intro post_when post_mark post_nonnegative; simp)

lemma can_nonnegative:
  "rd_can mc_reader_join_nonnegative_varint v \<Longrightarrow> 0 \<le> sint v \<and> sint v \<le> int MC_MAX_PACKET_ARRAY_COUNT"
  by (erule can_postD) (rule post_nonnegative)

lemma can_difficulty: "rd_can (rd_when c 0 (rd_mark (rd_such mc_reader_u8 (\<lambda>d. \<not> d > 3)))) v \<Longrightarrow> v \<le> 3"
  unfolding rd_such_def
  by (erule can_postD) (intro post_when post_mark post_bind post_test post_return; simp)

lemma can_mode: "rd_can (mc_reader_join_game_mode embedded hardcore) (game_mode, hardcore') \<Longrightarrow> game_mode \<le> 3"
  by (drule can_postD [OF _ post_join_game_mode]) simp

lemma can_worlds: "rd_can mc_reader_join_worlds (count, names) \<Longrightarrow> uint count \<le> 16"
  by (drule can_postD [OF _ post_worlds]) simp

lemma can_game_modes:
  assumes "rd_can (mc_reader_game_modes protocol hardcore) (game_mode, hardcore', previous)"
  shows "game_mode \<le> 3" "-1 \<le> sint previous" "sint previous \<le> 3"
  using can_postD [OF assms post_game_modes] by simp_all

lemmas join_parts = can_when_mark_nonnegative can_nonnegative can_difficulty can_mode sint_ucast_u8
  can_worlds can_game_modes

lemma post_join_game: "rd_post (mc_reader_clientbound_join_game protocol) join_game_bounded"
  unfolding mc_reader_clientbound_join_game_def join_game_legacy_def join_game_modern_def
    join_game_codec_def Let_def
  by ((rule rd_posts post_bind)+, simp add: join_game_bounded_def join_game_start_def join_parts)+

definition respawn_bounded :: "mc_clientbound_respawn \<Rightarrow> bool" where
  "respawn_bounded d \<longleftrightarrow> rs_game_mode d \<le> 3
     \<and> (rs_has_previous_game_mode d \<longrightarrow>
          -1 \<le> sint (rs_previous_game_mode d) \<and> sint (rs_previous_game_mode d) \<le> 3)
     \<and> rs_keep_data_mask d \<le> 3 \<and> 0 \<le> sint (rs_portal_cooldown d)
     \<and> 0 \<le> sint (rs_dimension_type_id d)"

lemma keep_mask: "(m :: u8) AND - 4 = 0 \<Longrightarrow> m \<le> 3"
proof -
  assume "m AND - 4 = 0"
  then have "m AND NOT 3 = 0" by simp
  moreover have "m = (m AND 3) OR (m AND NOT 3)" by (rule bit_word_eqI) (auto simp: bit_simps)
  ultimately have "m = m AND 3" by simp
  then show ?thesis by (metis word_and_le1)
qed

lemma post_keep_data: "rd_post (mc_reader_respawn_keep_data protocol) (\<lambda>m. m \<le> 3)"
  unfolding mc_reader_respawn_keep_data_def by (rule rd_posts post_bind | (simp add: keep_mask; fail))+

lemma can_keep_data:
  "rd_can (mc_reader_respawn_keep_data protocol) m \<Longrightarrow> m \<le> 3"
  "rd_can (rd_when c d (rd_mark (mc_reader_respawn_keep_data protocol))) m \<Longrightarrow> d \<le> 3 \<Longrightarrow> m \<le> 3"
  by (erule can_postD, rule post_keep_data) (erule can_postD, intro post_when post_mark post_keep_data)

lemma can_when_varint:
  "rd_can (rd_when c 0 (rd_mark (rd_such mc_reader_varint (\<lambda>v. \<not> sint v < 0)))) v \<Longrightarrow> 0 \<le> sint v"
  unfolding rd_such_def
  by (erule can_postD) (intro post_when post_mark post_bind post_test post_return; simp)

lemmas respawn_parts = can_keep_data can_when_varint keep_mask

text \<open>What the four layouts leave to the check at the end.\<close>

definition respawn_part :: "mc_clientbound_respawn \<Rightarrow> bool" where
  "respawn_part d \<longleftrightarrow> rs_keep_data_mask d \<le> 3 \<and> 0 \<le> sint (rs_portal_cooldown d)
     \<and> 0 \<le> sint (rs_dimension_type_id d)"

lemma post_respawn_layouts:
  "rd_post (respawn_legacy protocol) respawn_part" "rd_post (respawn_identified protocol) respawn_part"
  "rd_post (respawn_death protocol) respawn_part" "rd_post (respawn_typed protocol) respawn_part"
  unfolding respawn_legacy_def respawn_identified_def respawn_death_def respawn_typed_def
    mc_reader_respawn_identity_tail_def mc_reader_respawn_last_death_def
  by ((rule post_mark)?, (rule rd_posts post_bind)+,
      simp add: respawn_part_def respawn_start_def respawn_flags_def respawn_parts)+

lemma post_respawn: "rd_post (mc_reader_clientbound_respawn protocol) respawn_bounded"
  unfolding mc_reader_clientbound_respawn_def
  by (intro post_ready post_bind post_if post_mark_failed post_return)
     (auto split: if_splits dest!: can_postD [OF _ post_respawn_layouts(1)] can_postD [OF _ post_respawn_layouts(2)]
       can_postD [OF _ post_respawn_layouts(3)] can_postD [OF _ post_respawn_layouts(4)]
       simp: respawn_part_def respawn_bounded_def not_less)

subsection \<open>Unsupported protocols\<close>

lemma unsupported_unrecorded:
  assumes "\<not> mc_protocol_supported protocol"
  shows "mc_reader_container_open protocol r = (None, r\<lparr>rd_failed := True\<rparr>)"
    "mc_reader_container_content protocol r = (None, r\<lparr>rd_failed := True\<rparr>)"
    "mc_reader_entity_equipment protocol r = (None, r\<lparr>rd_failed := True\<rparr>)"
    "mc_reader_entity_hand_use_metadata protocol r = (None, r\<lparr>rd_failed := True\<rparr>)"
    "mc_reader_clientbound_join_game protocol r = (None, r\<lparr>rd_failed := True\<rparr>)"
    "mc_reader_clientbound_respawn protocol r = (None, r\<lparr>rd_failed := True\<rparr>)"
  unfolding mc_reader_container_open_def mc_reader_container_content_def mc_reader_entity_equipment_def
    mc_reader_entity_hand_use_metadata_def mc_reader_clientbound_join_game_def mc_reader_clientbound_respawn_def
  by (rule not_ready [OF assms])+

end
