(* ===== verification/Components.thy ===== *)
theory Components
  imports World_Readers
begin

text \<open>
  The building blocks of the slot component validators of \<open>api.c\<close>
  (\<open>mc_generated_*_component_*\<close>, \<open>mc_derived_777_component_*\<close>). The validators are
  straight-line readers that the schema compiler assembles from a dozen statement patterns; every
  pattern is an operation here, and the validators themselves, one definition for each C function,
  are in the theories \<open>Components_766\<close> to \<open>Components_777\<close>.

  A validator calls others one level deeper, and some of these calls are recursive: a component may
  hold item stacks, which hold components. A \<open>component\<close> is a validator with the recursive calls as
  an argument; \<open>Items\<close> closes the recursion.
\<close>

subsection \<open>Validators\<close>

datatype component_call =
  Slot_component int | Effect_detail int | Nested_item_stack int

type_synonym component_calls = "component_call \<Rightarrow> nat \<Rightarrow> unit rd"

type_synonym component = "component_calls \<Rightarrow> nat \<Rightarrow> unit rd"

definition component_invalid :: "unit rd" where
  "component_invalid = rd_here (\<lambda>off. reader_fail MC_ERROR_INVALID_PACKET_BODY off)"

definition component_length :: "unit rd" where
  "component_length = rd_here (\<lambda>off. reader_fail MC_ERROR_INVALID_LENGTH off)"

text \<open>The entry of every validator: \<^verbatim>\<open>if (depth > MC_MAX_NBT_DEPTH) return reader_fail(...)\<close>.\<close>

definition c_validator :: "component \<Rightarrow> component" where
  "c_validator body calls depth =
     (if depth > MC_MAX_NBT_DEPTH then rd_here (\<lambda>off. reader_fail MC_ERROR_NBT_DEPTH off)
      else body calls depth)"

text \<open>Statements one after the other, each returning false from the validator when it fails.\<close>

fun c_seq :: "component list \<Rightarrow> component" where
  "c_seq [] calls depth = rd_return ()"
| "c_seq (c # cs) calls depth = rd_bind (c calls depth) (\<lambda>_. c_seq cs calls depth)"

text \<open>\<^verbatim>\<open>if (!m) return false;\<close> for a value that nothing uses.\<close>

definition c_field :: "'a rd \<Rightarrow> component" where
  "c_field m calls depth = rd_bind m (\<lambda>_. rd_return ())"

abbreviation c_varint :: component where "c_varint \<equiv> c_field mc_reader_varint"

abbreviation c_i32 :: component where "c_i32 \<equiv> c_field mc_reader_i32"

abbreviation c_string :: component where "c_string \<equiv> c_field mc_reader_string"

abbreviation c_boolean :: component where "c_boolean \<equiv> c_field mc_reader_bool"

abbreviation c_nbt :: component where "c_nbt \<equiv> c_field (mc_reader_nbt False)"

abbreviation c_skip :: "nat \<Rightarrow> component" where "c_skip n \<equiv> c_field (mc_reader_skip n)"

abbreviation c_position :: "int \<Rightarrow> component" where
  "c_position protocol \<equiv> c_field (mc_reader_position protocol)"

text \<open>\<^verbatim>\<open>if (!mc_reader_float(reader, &v)) return false; if (!isfinite(v)) ...\<close>\<close>

definition c_float :: component where
  "c_float calls depth =
     rd_bind mc_reader_float (\<lambda>v. if \<not> f32_isfinite v then component_invalid else rd_return ())"

definition c_double :: component where
  "c_double calls depth =
     rd_bind mc_reader_double (\<lambda>v. if \<not> f64_isfinite v then component_invalid else rd_return ())"

text \<open>\<^verbatim>\<open>if (v != 0 && v != 1 && ... && v != n - 1) return reader_fail(...)\<close>\<close>

definition c_enum :: "nat \<Rightarrow> component" where
  "c_enum n calls depth =
     rd_bind mc_reader_varint (\<lambda>v.
     if \<not> (0 \<le> sint v \<and> sint v < int n) then component_invalid else rd_return ())"

text \<open>
  The same check followed by \<^verbatim>\<open>if (v == 0) { ... } else if (v == 1) { ... } ...\<close>, one branch for
  each accepted value.
\<close>

definition c_choice :: "component list \<Rightarrow> component" where
  "c_choice branches calls depth =
     rd_bind mc_reader_varint (\<lambda>v.
     if \<not> (0 \<le> sint v \<and> sint v < int (length branches)) then component_invalid
     else (branches ! unat v) calls depth)"

text \<open>\<^verbatim>\<open>if (flag == 0) { ... } else if (flag == 1) { ... }\<close>\<close>

definition c_either :: "component \<Rightarrow> component \<Rightarrow> component" where
  "c_either no yes calls depth =
     rd_bind mc_reader_bool (\<lambda>flag. if \<not> flag then no calls depth else yes calls depth)"

text \<open>\<^verbatim>\<open>if (!mc_reader_bool(reader, &present)) return false; if (present) { ... }\<close>\<close>

definition c_optional :: "component \<Rightarrow> component" where
  "c_optional body calls depth =
     rd_bind mc_reader_bool (\<lambda>present. rd_when present () (body calls depth))"

text \<open>The loop \<^verbatim>\<open>for (uint32_t index = 0U; index < count; ++index) { ... }\<close>.\<close>

primrec rd_repeat :: "nat \<Rightarrow> unit rd \<Rightarrow> unit rd" where
  "rd_repeat 0 m = rd_return ()"
| "rd_repeat (Suc n) m = rd_bind m (\<lambda>_. rd_repeat n m)"

text \<open>The check of an element count, and the loop that follows it.\<close>

definition c_elements :: "i32 \<Rightarrow> component \<Rightarrow> component" where
  "c_elements count body calls depth =
     (if sint count < 0 \<or> unat count > MC_MAX_PACKET_ARRAY_COUNT then component_length
      else rd_repeat (unat count) (body calls depth))"

definition c_array :: "component \<Rightarrow> component" where
  "c_array body calls depth =
     rd_bind mc_reader_varint (\<lambda>count. c_elements count body calls depth)"

text \<open>
  A registry entry or a value in place: zero announces the value, a positive number names an entry,
  or in a set counts its members from one.
\<close>

definition c_holder :: "component \<Rightarrow> component" where
  "c_holder base calls depth =
     rd_bind (rd_orelse (rd_such mc_reader_varint (\<lambda>holder. \<not> sint holder < 0)) component_invalid) (\<lambda>holder.
     rd_when (holder = 0) () (base calls depth))"

definition c_holder_set :: "component \<Rightarrow> component \<Rightarrow> component" where
  "c_holder_set base member calls depth =
     rd_bind (rd_orelse (rd_such mc_reader_varint (\<lambda>holder. \<not> sint holder < 0)) component_invalid) (\<lambda>holder.
     if holder = 0 then base calls depth
     else if unat (holder - 1) > MC_MAX_PACKET_ARRAY_COUNT then component_length
     else rd_repeat (unat (holder - 1)) (member calls depth))"

text \<open>A call of another validator, one level deeper: direct, or through the recursion.\<close>

definition c_sub :: "component \<Rightarrow> component" where
  "c_sub callee calls depth = callee calls (depth + 1)"

definition c_call :: "component_call \<Rightarrow> component" where
  "c_call call calls depth = calls call (depth + 1)"

subsection \<open>What a validator guarantees\<close>

text \<open>
  Every failure is recorded if the recursive calls record theirs, and the result depends on the
  recursive calls at greater depths only.
\<close>

definition calls_checked :: "component_calls \<Rightarrow> nat \<Rightarrow> bool" where
  "calls_checked calls depth \<longleftrightarrow> (\<forall>call d. depth < d \<longrightarrow> checked_op (calls call d))"

definition calls_agree :: "component_calls \<Rightarrow> component_calls \<Rightarrow> nat \<Rightarrow> bool" where
  "calls_agree calls calls' depth \<longleftrightarrow> (\<forall>call d. depth < d \<longrightarrow> calls call d = calls' call d)"

definition component_ok :: "component \<Rightarrow> bool" where
  "component_ok c \<longleftrightarrow>
     (\<forall>calls depth. calls_checked calls depth \<longrightarrow> checked_op (c calls depth))
     \<and> (\<forall>calls calls' depth. calls_agree calls calls' depth \<longrightarrow> c calls depth = c calls' depth)"

named_theorems component_rules \<open>component_ok of the building blocks\<close>

lemma component_okI:
  assumes "\<And>calls depth. calls_checked calls depth \<Longrightarrow> checked_op (c calls depth)"
    and "\<And>calls calls' depth. calls_agree calls calls' depth \<Longrightarrow> c calls depth = c calls' depth"
  shows "component_ok c"
  unfolding component_ok_def using assms by blast

lemma component_checked: "component_ok c \<Longrightarrow> calls_checked calls depth \<Longrightarrow> checked_op (c calls depth)"
  unfolding component_ok_def by blast

lemma component_agree: "component_ok c \<Longrightarrow> calls_agree calls calls' depth \<Longrightarrow> c calls depth = c calls' depth"
  unfolding component_ok_def by blast

lemma handler_component [rd_checked]: "rd_handler component_invalid" "rd_handler component_length"
  unfolding component_invalid_def component_length_def by (intro rd_checked; simp)+

lemma checked_component [rd_checked]: "checked_op component_invalid" "checked_op component_length"
  by (intro checked_handler rd_checked)+

lemma checked_repeat [rd_checked]: "checked_op m \<Longrightarrow> checked_op (rd_repeat n m)"
  by (induction n) (auto intro!: rd_checked)

lemma ok_validator [component_rules]:
  assumes "component_ok c" shows "component_ok (c_validator c)"
proof (rule component_okI)
  show "checked_op (c_validator c calls depth)" if "calls_checked calls depth" for calls depth
    unfolding c_validator_def using component_checked [OF assms that] by (intro rd_checked) simp_all
  show "c_validator c calls depth = c_validator c calls' depth" if "calls_agree calls calls' depth"
    for calls calls' depth
    unfolding c_validator_def using component_agree [OF assms that] by simp
qed

lemma ok_seq_Nil [component_rules]: "component_ok (c_seq [])"
  by (rule component_okI) (simp_all add: checked_return)

lemma ok_seq_Cons [component_rules]:
  assumes c: "component_ok c" and cs: "component_ok (c_seq cs)"
  shows "component_ok (c_seq (c # cs))"
  by (rule component_okI)
     (auto intro!: checked_bind component_checked [OF c] component_checked [OF cs]
       simp: component_agree [OF c] component_agree [OF cs])

lemma ok_field [component_rules]: "checked_op m \<Longrightarrow> component_ok (c_field m)"
  by (rule component_okI) (auto simp: c_field_def intro!: rd_checked)

lemma ok_float [component_rules]: "component_ok c_float"
  by (rule component_okI) (auto simp: c_float_def intro!: rd_checked)

lemma ok_double [component_rules]: "component_ok c_double"
  by (rule component_okI) (auto simp: c_double_def intro!: rd_checked)

lemma ok_enum [component_rules]: "component_ok (c_enum n)"
  by (rule component_okI) (auto simp: c_enum_def intro!: rd_checked)

lemma unat_below: "0 \<le> sint (v :: i32) \<Longrightarrow> sint v < int n \<Longrightarrow> unat v < n"
  using uint_nonneg_sint [of v] by (metis nat_less_iff unat_eq_nat_uint uint_ge_0 zless_nat_eq_int_zless)

lemma ok_choice [component_rules]:
  assumes "list_all component_ok branches" shows "component_ok (c_choice branches)"
proof -
  have branch: "component_ok (branches ! unat v)" if "0 \<le> sint (v :: i32)" "sint v < int (length branches)" for v
    using assms unat_below [OF that] by (simp add: list_all_length)
  show ?thesis
  proof (rule component_okI)
    show "checked_op (c_choice branches calls depth)" if "calls_checked calls depth" for calls depth
      unfolding c_choice_def by (intro rd_checked component_checked [OF branch that]) simp_all
    show "c_choice branches calls depth = c_choice branches calls' depth" if "calls_agree calls calls' depth"
      for calls calls' depth
      unfolding c_choice_def by (rule rd_bind_cong) (simp add: component_agree [OF branch that])
  qed
qed

lemma ok_branches [component_rules]:
  "list_all component_ok []"
  "component_ok c \<Longrightarrow> list_all component_ok cs \<Longrightarrow> list_all component_ok (c # cs)"
  "list_all component_ok cs \<Longrightarrow> list_all component_ok ds \<Longrightarrow> list_all component_ok (cs @ ds)"
  by simp_all

lemma ok_either [component_rules]:
  assumes "component_ok no" "component_ok yes" shows "component_ok (c_either no yes)"
proof (rule component_okI)
  show "checked_op (c_either no yes calls depth)" if "calls_checked calls depth" for calls depth
    unfolding c_either_def
    by (intro rd_checked component_checked [OF assms(1) that] component_checked [OF assms(2) that])
  show "c_either no yes calls depth = c_either no yes calls' depth" if "calls_agree calls calls' depth" for calls calls' depth
    using component_agree [OF assms(1) that] component_agree [OF assms(2) that] by (simp add: c_either_def cong: if_cong)
qed

lemma ok_optional [component_rules]:
  assumes "component_ok c" shows "component_ok (c_optional c)"
  by (rule component_okI)
     (auto simp: c_optional_def component_agree [OF assms] intro!: rd_checked component_checked [OF assms])

lemma ok_elements [component_rules]:
  assumes "component_ok c" shows "component_ok (c_elements count c)"
  by (rule component_okI)
     (auto simp: c_elements_def component_agree [OF assms] intro!: rd_checked component_checked [OF assms])

lemma ok_array [component_rules]:
  assumes "component_ok c" shows "component_ok (c_array c)"
  by (rule component_okI)
     (auto simp: c_array_def component_agree [OF ok_elements [OF assms]]
       intro!: rd_checked component_checked [OF ok_elements [OF assms]])

lemma ok_holder [component_rules]:
  assumes "component_ok c" shows "component_ok (c_holder c)"
  by (rule component_okI)
     (auto simp: c_holder_def component_agree [OF assms] intro!: rd_checked component_checked [OF assms])

lemma ok_holder_set [component_rules]:
  assumes "component_ok base" "component_ok member" shows "component_ok (c_holder_set base member)"
proof (rule component_okI)
  show "checked_op (c_holder_set base member calls depth)" if "calls_checked calls depth" for calls depth
    unfolding c_holder_set_def
    by (intro rd_checked component_checked [OF assms(1) that] component_checked [OF assms(2) that])
  show "c_holder_set base member calls depth = c_holder_set base member calls' depth" if "calls_agree calls calls' depth" for calls calls' depth
    using component_agree [OF assms(1) that] component_agree [OF assms(2) that] by (simp add: c_holder_set_def cong: if_cong)
qed

lemma ok_sub [component_rules]:
  assumes "component_ok c" shows "component_ok (c_sub c)"
  by (rule component_okI)
     (auto simp: c_sub_def calls_checked_def calls_agree_def
       intro!: component_checked [OF assms] component_agree [OF assms])

lemma ok_call [component_rules]: "component_ok (c_call call)"
  by (rule component_okI) (auto simp: c_call_def calls_checked_def calls_agree_def)

lemma ok_bind:
  assumes "checked_op m" "\<And>x. component_ok (c x)"
  shows "component_ok (\<lambda>calls depth. rd_bind m (\<lambda>x. c x calls depth))"
  by (rule component_okI)
     (auto simp: component_agree [OF assms(2)] intro!: checked_bind assms(1) component_checked [OF assms(2)])

end
