(* ===== verification/Components_767.thy ===== *)
theory Components_767
  imports Components
begin

text \<open>
  The slot component validators of protocol 767 in \<open>api.c\<close>, in the order of their calls: every
  definition is the C function of its name.
\<close>

definition mc_generated_767_component_armor_trim_material :: component where
  "mc_generated_767_component_armor_trim_material = c_validator
     (c_seq [c_string, c_varint, c_array (c_seq [c_string, c_string]), c_nbt])"

definition mc_generated_767_component_armor_trim_pattern :: component where
  "mc_generated_767_component_armor_trim_pattern = c_validator
     (c_seq [c_string, c_varint, c_nbt, c_boolean])"

definition mc_generated_767_component_banner_pattern :: component where
  "mc_generated_767_component_banner_pattern = c_validator
     (c_seq [c_string, c_string])"

definition mc_generated_767_component_banner_pattern_layer :: component where
  "mc_generated_767_component_banner_pattern_layer = c_validator
     (c_seq [c_holder (c_sub mc_generated_767_component_banner_pattern), c_varint])"

definition mc_generated_767_component_idset :: component where
  "mc_generated_767_component_idset = c_validator
     (c_holder_set c_string c_varint)"

definition mc_generated_767_component_item_sound_event :: component where
  "mc_generated_767_component_item_sound_event = c_validator
     (c_seq [c_string, c_optional c_float])"

definition mc_generated_767_component_item_sound_holder :: component where
  "mc_generated_767_component_item_sound_holder = c_validator
     (c_holder (c_sub mc_generated_767_component_item_sound_event))"

definition mc_generated_767_component_instrument_data :: component where
  "mc_generated_767_component_instrument_data = c_validator
     (c_seq [c_sub mc_generated_767_component_item_sound_holder, c_float, c_float, c_nbt])"

definition mc_generated_767_component_item_block_property :: component where
  "mc_generated_767_component_item_block_property = c_validator
     (c_seq [c_string, c_either (c_seq [c_string, c_string]) c_string])"

definition mc_generated_767_component_item_block_predicate :: component where
  "mc_generated_767_component_item_block_predicate = c_validator
     (c_seq [c_optional (c_holder_set c_string c_varint),
       c_optional (c_array (c_sub mc_generated_767_component_item_block_property)), c_nbt])"

definition mc_generated_767_component_item_book_page :: component where
  "mc_generated_767_component_item_book_page = c_validator
     (c_seq [c_string, c_optional c_string])"

definition mc_generated_767_component_item_effect_detail :: component where
  "mc_generated_767_component_item_effect_detail = c_validator
     (c_seq [c_varint, c_varint, c_boolean, c_boolean, c_boolean,
       c_optional (c_call (Effect_detail 767))])"

definition mc_generated_767_component_item_firework_explosion :: component where
  "mc_generated_767_component_item_firework_explosion = c_validator
     (c_seq [c_enum 5, c_array c_i32, c_array c_i32, c_boolean, c_boolean])"

definition mc_generated_767_component_item_potion_effect :: component where
  "mc_generated_767_component_item_potion_effect = c_validator
     (c_seq [c_varint, c_sub mc_generated_767_component_item_effect_detail])"

definition mc_generated_767_component_item_written_book_page :: component where
  "mc_generated_767_component_item_written_book_page = c_validator
     (c_seq [c_nbt, c_nbt])"

definition mc_generated_767_component_jukebox_song_data :: component where
  "mc_generated_767_component_jukebox_song_data = c_validator
     (c_seq [c_sub mc_generated_767_component_item_sound_holder, c_nbt, c_float, c_varint])"

definition mc_generated_767_components_0_19 :: "component list" where
  "mc_generated_767_components_0_19 =
     [c_nbt,
      c_varint,
      c_varint,
      c_varint,
      c_boolean,
      c_nbt,
      c_nbt,
      c_array c_nbt,
      c_enum 4,
      c_seq [c_array (c_seq [c_varint, c_varint]), c_boolean],
      c_seq [c_array (c_sub mc_generated_767_component_item_block_predicate), c_boolean],
      c_seq [c_array (c_sub mc_generated_767_component_item_block_predicate), c_boolean],
      c_seq [c_array (c_seq [c_varint, c_string, c_double, c_enum 3, c_enum 10]), c_boolean],
      c_varint,
      c_seq [],
      c_seq [],
      c_varint,
      c_seq [],
      c_boolean,
      c_nbt]"

definition mc_generated_767_components_20_30 :: "component list" where
  "mc_generated_767_components_20_30 =
     [c_seq [c_varint, c_float, c_boolean, c_float, c_call (Nested_item_stack 767),
        c_array (c_seq [c_varint, c_float])],
      c_seq [],
      c_seq [c_array (c_seq [c_sub mc_generated_767_component_idset, c_optional c_float,
        c_optional c_boolean]), c_float, c_varint],
      c_seq [c_array (c_seq [c_varint, c_varint]), c_boolean],
      c_seq [c_i32, c_boolean],
      c_i32,
      c_varint,
      c_nbt,
      c_varint,
      c_array (c_call (Nested_item_stack 767)),
      c_array (c_call (Nested_item_stack 767))]"

definition mc_generated_767_components_31_43 :: "component list" where
  "mc_generated_767_components_31_43 =
     [c_seq [c_optional c_varint, c_optional c_i32,
        c_array (c_sub mc_generated_767_component_item_potion_effect), c_optional c_string],
      c_array (c_seq [c_varint, c_varint]),
      c_array (c_sub mc_generated_767_component_item_book_page),
      c_seq [c_string, c_optional c_string, c_string, c_varint,
        c_array (c_sub mc_generated_767_component_item_written_book_page), c_boolean],
      c_seq [c_holder (c_sub mc_generated_767_component_armor_trim_material),
        c_holder (c_sub mc_generated_767_component_armor_trim_pattern), c_boolean],
      c_nbt,
      c_nbt,
      c_nbt,
      c_nbt,
      c_holder (c_sub mc_generated_767_component_instrument_data),
      c_varint,
      c_seq [c_either c_string (c_holder (c_sub mc_generated_767_component_jukebox_song_data)),
        c_boolean],
      c_nbt]"

definition mc_generated_767_components_44_56 :: "component list" where
  "mc_generated_767_components_44_56 =
     [c_seq [c_optional (c_seq [c_string, c_position 767]), c_boolean],
      c_sub mc_generated_767_component_item_firework_explosion,
      c_seq [c_varint, c_array (c_sub mc_generated_767_component_item_firework_explosion)],
      c_seq [c_optional c_string, c_optional (c_skip 16), c_array (c_seq [c_string, c_string,
        c_optional c_string])],
      c_string,
      c_array (c_sub mc_generated_767_component_banner_pattern_layer),
      c_varint,
      c_array c_varint,
      c_array (c_call (Nested_item_stack 767)),
      c_array (c_seq [c_string, c_string]),
      c_array (c_seq [c_nbt, c_varint, c_varint]),
      c_nbt,
      c_nbt]"

definition mc_generated_767_component_slot_component :: component where
  "mc_generated_767_component_slot_component = c_validator
     (c_choice
       (mc_generated_767_components_0_19
        @ mc_generated_767_components_20_30
        @ mc_generated_767_components_31_43
        @ mc_generated_767_components_44_56))"

definition mc_generated_767_component_slot_component_type :: component where
  "mc_generated_767_component_slot_component_type = c_validator
     (c_enum 57)"

lemmas components_767_defs =
  mc_generated_767_component_armor_trim_material_def
    mc_generated_767_component_armor_trim_pattern_def mc_generated_767_component_banner_pattern_def
    mc_generated_767_component_banner_pattern_layer_def mc_generated_767_component_idset_def
    mc_generated_767_component_item_sound_event_def mc_generated_767_component_item_sound_holder_def
    mc_generated_767_component_instrument_data_def
    mc_generated_767_component_item_block_property_def
    mc_generated_767_component_item_block_predicate_def
    mc_generated_767_component_item_book_page_def mc_generated_767_component_item_effect_detail_def
    mc_generated_767_component_item_firework_explosion_def
    mc_generated_767_component_item_potion_effect_def
    mc_generated_767_component_item_written_book_page_def
    mc_generated_767_component_jukebox_song_data_def mc_generated_767_component_slot_component_def
    mc_generated_767_component_slot_component_type_def mc_generated_767_components_0_19_def
    mc_generated_767_components_20_30_def mc_generated_767_components_31_43_def
    mc_generated_767_components_44_56_def

text \<open>They report every failure, and look only at deeper recursive calls.\<close>

lemma components_767_ok [component_rules]:
  "component_ok mc_generated_767_component_slot_component"
  "component_ok mc_generated_767_component_slot_component_type"
  "component_ok mc_generated_767_component_item_effect_detail"
  unfolding components_767_defs by (intro component_rules ok_bind rd_checked)+

end
