(* ===== verification/Components_770.thy ===== *)
theory Components_770
  imports Components
begin

text \<open>
  The slot component validators of protocol 770 in \<open>api.c\<close>, in the order of their calls: every
  definition is the C function of its name.
\<close>

definition mc_generated_770_component_armor_trim_material :: component where
  "mc_generated_770_component_armor_trim_material = c_validator
     (c_seq [c_string, c_array (c_seq [c_string, c_string]), c_nbt])"

definition mc_generated_770_component_armor_trim_pattern :: component where
  "mc_generated_770_component_armor_trim_pattern = c_validator
     (c_seq [c_string, c_nbt, c_boolean])"

definition mc_generated_770_component_banner_pattern :: component where
  "mc_generated_770_component_banner_pattern = c_validator
     (c_seq [c_string, c_string])"

definition mc_generated_770_component_banner_pattern_layer :: component where
  "mc_generated_770_component_banner_pattern_layer = c_validator
     (c_seq [c_holder (c_sub mc_generated_770_component_banner_pattern), c_varint])"

definition mc_generated_770_component_exact_component_matcher :: component where
  "mc_generated_770_component_exact_component_matcher = c_validator
     (c_array (c_call (Slot_component 770)))"

definition mc_generated_770_component_data_component_matchers :: component where
  "mc_generated_770_component_data_component_matchers = c_validator
     (c_seq [c_sub mc_generated_770_component_exact_component_matcher, c_array c_varint])"

definition mc_generated_770_component_entity_metadata_painting_variant :: component where
  "mc_generated_770_component_entity_metadata_painting_variant = c_validator
     (c_seq [c_i32, c_i32, c_string, c_optional c_nbt, c_optional c_nbt])"

definition mc_generated_770_component_idset :: component where
  "mc_generated_770_component_idset = c_validator
     (c_holder_set c_string c_varint)"

definition mc_generated_770_component_item_sound_event :: component where
  "mc_generated_770_component_item_sound_event = c_validator
     (c_seq [c_string, c_optional c_float])"

definition mc_generated_770_component_item_sound_holder :: component where
  "mc_generated_770_component_item_sound_holder = c_validator
     (c_holder (c_sub mc_generated_770_component_item_sound_event))"

definition mc_generated_770_component_instrument_data :: component where
  "mc_generated_770_component_instrument_data = c_validator
     (c_seq [c_sub mc_generated_770_component_item_sound_holder, c_float, c_float, c_nbt])"

definition mc_generated_770_component_item_block_property :: component where
  "mc_generated_770_component_item_block_property = c_validator
     (c_seq [c_string, c_either (c_seq [c_string, c_string]) c_string])"

definition mc_generated_770_component_item_block_predicate :: component where
  "mc_generated_770_component_item_block_predicate = c_validator
     (c_seq [c_optional (c_holder_set c_string c_varint),
       c_optional (c_array (c_sub mc_generated_770_component_item_block_property)), c_nbt,
       c_sub mc_generated_770_component_data_component_matchers])"

definition mc_generated_770_component_item_book_page :: component where
  "mc_generated_770_component_item_book_page = c_validator
     (c_seq [c_string, c_optional c_string])"

definition mc_generated_770_component_item_effect_detail :: component where
  "mc_generated_770_component_item_effect_detail = c_validator
     (c_seq [c_varint, c_varint, c_boolean, c_boolean, c_boolean,
       c_optional (c_call (Effect_detail 770))])"

definition mc_generated_770_component_item_potion_effect :: component where
  "mc_generated_770_component_item_potion_effect = c_validator
     (c_seq [c_varint, c_sub mc_generated_770_component_item_effect_detail])"

definition mc_generated_770_component_item_consume_effect :: component where
  "mc_generated_770_component_item_consume_effect = c_validator
     (c_choice [c_seq [c_array (c_sub mc_generated_770_component_item_potion_effect), c_float],
       c_sub mc_generated_770_component_idset, c_seq [], c_float,
       c_sub mc_generated_770_component_item_sound_holder])"

definition mc_generated_770_component_item_firework_explosion :: component where
  "mc_generated_770_component_item_firework_explosion = c_validator
     (c_seq [c_enum 5, c_array c_i32, c_array c_i32, c_boolean, c_boolean])"

definition mc_generated_770_component_item_written_book_page :: component where
  "mc_generated_770_component_item_written_book_page = c_validator
     (c_seq [c_nbt, c_nbt])"

definition mc_generated_770_component_jukebox_song_data :: component where
  "mc_generated_770_component_jukebox_song_data = c_validator
     (c_seq [c_sub mc_generated_770_component_item_sound_holder, c_nbt, c_float, c_varint])"

definition mc_generated_770_components_0_13 :: "component list" where
  "mc_generated_770_components_0_13 =
     [c_nbt,
      c_varint,
      c_varint,
      c_varint,
      c_seq [],
      c_nbt,
      c_nbt,
      c_string,
      c_array c_nbt,
      c_enum 4,
      c_array (c_seq [c_varint, c_varint]),
      c_array (c_sub mc_generated_770_component_item_block_predicate),
      c_array (c_sub mc_generated_770_component_item_block_predicate),
      c_array (c_seq [c_varint, c_string, c_double, c_enum 3, c_enum 11])]"

definition mc_generated_770_components_14_24 :: "component list" where
  "mc_generated_770_components_14_24 =
     [c_seq [c_array c_float, c_array c_boolean, c_array c_string, c_array c_i32],
      c_seq [c_boolean, c_array c_varint],
      c_varint,
      c_seq [],
      c_boolean,
      c_seq [],
      c_seq [c_varint, c_float, c_boolean],
      c_seq [c_float, c_enum 11, c_sub mc_generated_770_component_item_sound_holder, c_boolean,
        c_array (c_sub mc_generated_770_component_item_consume_effect)],
      c_call (Nested_item_stack 770),
      c_seq [c_float, c_optional c_string],
      c_string]"

definition mc_generated_770_components_25_32 :: "component list" where
  "mc_generated_770_components_25_32 =
     [c_seq [c_array (c_seq [c_sub mc_generated_770_component_idset, c_optional c_float,
        c_optional c_boolean]), c_float, c_varint, c_boolean],
      c_seq [c_varint, c_float],
      c_varint,
      c_seq [c_enum 8, c_sub mc_generated_770_component_item_sound_holder, c_optional c_string,
        c_optional c_string, c_optional (c_sub mc_generated_770_component_idset), c_boolean,
        c_boolean, c_boolean, c_boolean],
      c_sub mc_generated_770_component_idset,
      c_seq [],
      c_string,
      c_array (c_sub mc_generated_770_component_item_consume_effect)]"

definition mc_generated_770_components_33_41 :: "component list" where
  "mc_generated_770_components_33_41 =
     [c_seq [c_float, c_float, c_array (c_seq [c_float,
        c_optional (c_sub mc_generated_770_component_idset), c_float, c_float]), c_float, c_float,
        c_float, c_optional c_string,
        c_optional (c_sub mc_generated_770_component_item_sound_holder),
        c_optional (c_sub mc_generated_770_component_item_sound_holder)],
      c_array (c_seq [c_varint, c_varint]),
      c_i32,
      c_i32,
      c_varint,
      c_nbt,
      c_varint,
      c_array (c_call (Nested_item_stack 770)),
      c_array (c_call (Nested_item_stack 770))]"

definition mc_generated_770_components_42_52 :: "component list" where
  "mc_generated_770_components_42_52 =
     [c_seq [c_optional c_varint, c_optional c_i32,
        c_array (c_sub mc_generated_770_component_item_potion_effect), c_optional c_string],
      c_float,
      c_array (c_seq [c_varint, c_varint]),
      c_array (c_sub mc_generated_770_component_item_book_page),
      c_seq [c_string, c_optional c_string, c_string, c_varint,
        c_array (c_sub mc_generated_770_component_item_written_book_page), c_boolean],
      c_seq [c_holder (c_sub mc_generated_770_component_armor_trim_material),
        c_holder (c_sub mc_generated_770_component_armor_trim_pattern)],
      c_nbt,
      c_nbt,
      c_nbt,
      c_nbt,
      c_either c_string (c_holder (c_sub mc_generated_770_component_instrument_data))]"

definition mc_generated_770_components_53_65 :: "component list" where
  "mc_generated_770_components_53_65 =
     [c_either c_string (c_holder (c_sub mc_generated_770_component_armor_trim_material)),
      c_varint,
      c_either c_string (c_holder (c_sub mc_generated_770_component_jukebox_song_data)),
      c_string,
      c_nbt,
      c_seq [c_optional (c_seq [c_string, c_position 770]), c_boolean],
      c_sub mc_generated_770_component_item_firework_explosion,
      c_seq [c_varint, c_array (c_sub mc_generated_770_component_item_firework_explosion)],
      c_seq [c_optional c_string, c_optional (c_skip 16), c_array (c_seq [c_string, c_string,
        c_optional c_string])],
      c_string,
      c_array (c_sub mc_generated_770_component_banner_pattern_layer),
      c_varint,
      c_array c_varint]"

definition mc_generated_770_components_66_92 :: "component list" where
  "mc_generated_770_components_66_92 =
     [c_array (c_call (Nested_item_stack 770)),
      c_array (c_seq [c_string, c_string]),
      c_array (c_seq [c_nbt, c_varint, c_varint]),
      c_nbt,
      c_nbt,
      c_sub mc_generated_770_component_item_sound_holder,
      c_varint,
      c_varint,
      c_varint,
      c_varint,
      c_varint,
      c_varint,
      c_varint,
      c_varint,
      c_varint,
      c_varint,
      c_varint,
      c_varint,
      c_varint,
      c_varint,
      c_holder c_string,
      c_varint,
      c_varint,
      c_holder (c_sub mc_generated_770_component_entity_metadata_painting_variant),
      c_varint,
      c_varint,
      c_varint]"

definition mc_generated_770_components_93_95 :: "component list" where
  "mc_generated_770_components_93_95 =
     [c_varint,
      c_varint,
      c_varint]"

definition mc_generated_770_component_slot_component :: component where
  "mc_generated_770_component_slot_component = c_validator
     (c_choice
       (mc_generated_770_components_0_13
        @ mc_generated_770_components_14_24
        @ mc_generated_770_components_25_32
        @ mc_generated_770_components_33_41
        @ mc_generated_770_components_42_52
        @ mc_generated_770_components_53_65
        @ mc_generated_770_components_66_92
        @ mc_generated_770_components_93_95))"

definition mc_generated_770_component_slot_component_type :: component where
  "mc_generated_770_component_slot_component_type = c_validator
     (c_enum 96)"

lemmas components_770_defs =
  mc_generated_770_component_armor_trim_material_def
    mc_generated_770_component_armor_trim_pattern_def mc_generated_770_component_banner_pattern_def
    mc_generated_770_component_banner_pattern_layer_def
    mc_generated_770_component_exact_component_matcher_def
    mc_generated_770_component_data_component_matchers_def
    mc_generated_770_component_entity_metadata_painting_variant_def
    mc_generated_770_component_idset_def mc_generated_770_component_item_sound_event_def
    mc_generated_770_component_item_sound_holder_def mc_generated_770_component_instrument_data_def
    mc_generated_770_component_item_block_property_def
    mc_generated_770_component_item_block_predicate_def
    mc_generated_770_component_item_book_page_def mc_generated_770_component_item_effect_detail_def
    mc_generated_770_component_item_potion_effect_def
    mc_generated_770_component_item_consume_effect_def
    mc_generated_770_component_item_firework_explosion_def
    mc_generated_770_component_item_written_book_page_def
    mc_generated_770_component_jukebox_song_data_def mc_generated_770_component_slot_component_def
    mc_generated_770_component_slot_component_type_def mc_generated_770_components_0_13_def
    mc_generated_770_components_14_24_def mc_generated_770_components_25_32_def
    mc_generated_770_components_33_41_def mc_generated_770_components_42_52_def
    mc_generated_770_components_53_65_def mc_generated_770_components_66_92_def
    mc_generated_770_components_93_95_def

text \<open>They report every failure, and look only at deeper recursive calls.\<close>

lemma components_770_ok [component_rules]:
  "component_ok mc_generated_770_component_slot_component"
  "component_ok mc_generated_770_component_slot_component_type"
  "component_ok mc_generated_770_component_item_effect_detail"
  unfolding components_770_defs by (intro component_rules ok_bind rd_checked)+

end
