(* ===== verification/Components_775.thy ===== *)
theory Components_775
  imports Components
begin

text \<open>
  The slot component validators of protocol 775 in \<open>api.c\<close>, in the order of their calls: every
  definition is the C function of its name. Protocol 776 has the same components.
\<close>

definition mc_generated_775_component_armor_trim_material :: component where
  "mc_generated_775_component_armor_trim_material = c_validator
     (c_seq [c_string, c_array (c_seq [c_string, c_string]), c_nbt])"

definition mc_generated_775_component_armor_trim_pattern :: component where
  "mc_generated_775_component_armor_trim_pattern = c_validator
     (c_seq [c_string, c_nbt, c_boolean])"

definition mc_generated_775_component_banner_pattern :: component where
  "mc_generated_775_component_banner_pattern = c_validator
     (c_seq [c_string, c_string])"

definition mc_generated_775_component_banner_pattern_layer :: component where
  "mc_generated_775_component_banner_pattern_layer = c_validator
     (c_seq [c_holder (c_sub mc_generated_775_component_banner_pattern), c_varint])"

definition mc_generated_775_component_damage_type_data :: component where
  "mc_generated_775_component_damage_type_data = c_validator
     (c_seq [c_string, c_enum 3, c_float, c_enum 6, c_enum 3])"

definition mc_generated_775_component_exact_component_matcher :: component where
  "mc_generated_775_component_exact_component_matcher = c_validator
     (c_array (c_call (Slot_component 775)))"

definition mc_generated_775_component_data_component_matchers :: component where
  "mc_generated_775_component_data_component_matchers = c_validator
     (c_seq [c_sub mc_generated_775_component_exact_component_matcher, c_array c_varint])"

definition mc_generated_775_component_dye_color :: component where
  "mc_generated_775_component_dye_color = c_validator
     (c_enum 16)"

definition mc_generated_775_component_entity_metadata_painting_variant :: component where
  "mc_generated_775_component_entity_metadata_painting_variant = c_validator
     (c_seq [c_i32, c_i32, c_string, c_optional c_nbt, c_optional c_nbt])"

definition mc_generated_775_component_game_profile_property :: component where
  "mc_generated_775_component_game_profile_property = c_validator
     (c_seq [c_string, c_string, c_optional c_string])"

definition mc_generated_775_component_game_profile :: component where
  "mc_generated_775_component_game_profile = c_validator
     (c_seq [c_skip 16, c_string, c_array (c_sub mc_generated_775_component_game_profile_property)])"

definition mc_generated_775_component_global_pos :: component where
  "mc_generated_775_component_global_pos = c_validator
     (c_seq [c_string, c_position 775])"

definition mc_generated_775_component_idset :: component where
  "mc_generated_775_component_idset = c_validator
     (c_holder_set c_string c_varint)"

definition mc_generated_775_component_item_sound_event :: component where
  "mc_generated_775_component_item_sound_event = c_validator
     (c_seq [c_string, c_optional c_float])"

definition mc_generated_775_component_item_sound_holder :: component where
  "mc_generated_775_component_item_sound_holder = c_validator
     (c_holder (c_sub mc_generated_775_component_item_sound_event))"

definition mc_generated_775_component_instrument_data :: component where
  "mc_generated_775_component_instrument_data = c_validator
     (c_seq [c_sub mc_generated_775_component_item_sound_holder, c_float, c_float, c_nbt])"

definition mc_generated_775_component_item_block_property :: component where
  "mc_generated_775_component_item_block_property = c_validator
     (c_seq [c_string, c_either (c_seq [c_string, c_string]) c_string])"

definition mc_generated_775_component_item_block_predicate :: component where
  "mc_generated_775_component_item_block_predicate = c_validator
     (c_seq [c_optional (c_holder_set c_string c_varint),
       c_optional (c_array (c_sub mc_generated_775_component_item_block_property)), c_nbt,
       c_sub mc_generated_775_component_data_component_matchers])"

definition mc_generated_775_component_item_book_page :: component where
  "mc_generated_775_component_item_book_page = c_validator
     (c_seq [c_string, c_optional c_string])"

definition mc_generated_775_component_item_effect_detail :: component where
  "mc_generated_775_component_item_effect_detail = c_validator
     (c_seq [c_varint, c_varint, c_boolean, c_boolean, c_boolean,
       c_optional (c_call (Effect_detail 775))])"

definition mc_generated_775_component_item_potion_effect :: component where
  "mc_generated_775_component_item_potion_effect = c_validator
     (c_seq [c_varint, c_sub mc_generated_775_component_item_effect_detail])"

definition mc_generated_775_component_item_consume_effect :: component where
  "mc_generated_775_component_item_consume_effect = c_validator
     (c_choice [c_seq [c_array (c_sub mc_generated_775_component_item_potion_effect), c_float],
       c_sub mc_generated_775_component_idset, c_seq [], c_float,
       c_sub mc_generated_775_component_item_sound_holder])"

definition mc_generated_775_component_item_firework_explosion :: component where
  "mc_generated_775_component_item_firework_explosion = c_validator
     (c_seq [c_enum 5, c_array c_i32, c_array c_i32, c_boolean, c_boolean])"

definition mc_generated_775_component_item_written_book_page :: component where
  "mc_generated_775_component_item_written_book_page = c_validator
     (c_seq [c_nbt, c_nbt])"

definition mc_generated_775_component_jukebox_song_data :: component where
  "mc_generated_775_component_jukebox_song_data = c_validator
     (c_seq [c_sub mc_generated_775_component_item_sound_holder, c_nbt, c_float, c_varint])"

definition mc_generated_775_component_kinetic_weapon_condition :: component where
  "mc_generated_775_component_kinetic_weapon_condition = c_validator
     (c_seq [c_varint, c_float, c_float])"

definition mc_generated_775_component_partial_resolvable_profile :: component where
  "mc_generated_775_component_partial_resolvable_profile = c_validator
     (c_seq [c_optional c_string, c_optional (c_skip 16),
       c_array (c_sub mc_generated_775_component_game_profile_property)])"

definition mc_generated_775_component_player_skin_patch :: component where
  "mc_generated_775_component_player_skin_patch = c_validator
     (c_seq [c_optional c_string, c_optional c_string, c_optional c_string, c_optional (c_enum 2)])"

definition mc_generated_775_component_resolvable_profile :: component where
  "mc_generated_775_component_resolvable_profile = c_validator
     (c_seq [c_choice [c_sub mc_generated_775_component_partial_resolvable_profile,
       c_sub mc_generated_775_component_game_profile],
       c_sub mc_generated_775_component_player_skin_patch])"

definition mc_generated_775_components_0_15 :: "component list" where
  "mc_generated_775_components_0_15 =
     [c_nbt,
      c_varint,
      c_varint,
      c_varint,
      c_seq [],
      c_seq [c_boolean, c_boolean, c_float],
      c_nbt,
      c_float,
      c_either c_string (c_holder (c_sub mc_generated_775_component_damage_type_data)),
      c_nbt,
      c_string,
      c_array c_nbt,
      c_enum 4,
      c_array (c_seq [c_varint, c_varint]),
      c_array (c_sub mc_generated_775_component_item_block_predicate),
      c_array (c_sub mc_generated_775_component_item_block_predicate)]"

definition mc_generated_775_components_16_24 :: "component list" where
  "mc_generated_775_components_16_24 =
     [c_array (c_seq [c_varint, c_string, c_double, c_enum 3, c_enum 11, c_choice [c_seq [],
        c_seq [], c_nbt]]),
      c_seq [c_array c_float, c_array c_boolean, c_array c_string, c_array c_i32],
      c_seq [c_boolean, c_array c_varint],
      c_varint,
      c_seq [],
      c_boolean,
      c_seq [],
      c_seq [c_varint, c_float, c_boolean],
      c_seq [c_float, c_enum 11, c_sub mc_generated_775_component_item_sound_holder, c_boolean,
        c_array (c_sub mc_generated_775_component_item_consume_effect)]]"

definition mc_generated_775_components_25_35 :: "component list" where
  "mc_generated_775_components_25_35 =
     [c_call (Nested_item_stack 775),
      c_seq [c_float, c_optional c_string],
      c_string,
      c_seq [c_array (c_seq [c_sub mc_generated_775_component_idset, c_optional c_float,
        c_optional c_boolean]), c_float, c_varint, c_boolean],
      c_seq [c_varint, c_float],
      c_seq [c_float, c_float, c_float, c_float, c_float, c_float],
      c_varint,
      c_seq [c_enum 8, c_sub mc_generated_775_component_item_sound_holder, c_optional c_string,
        c_optional c_string, c_optional (c_sub mc_generated_775_component_idset), c_boolean,
        c_boolean, c_boolean, c_boolean, c_boolean,
        c_sub mc_generated_775_component_item_sound_holder],
      c_sub mc_generated_775_component_idset,
      c_seq [],
      c_string]"

definition mc_generated_775_components_36_40 :: "component list" where
  "mc_generated_775_components_36_40 =
     [c_array (c_sub mc_generated_775_component_item_consume_effect),
      c_seq [c_float, c_float, c_array (c_seq [c_float,
        c_optional (c_sub mc_generated_775_component_idset), c_float, c_float]), c_float, c_float,
        c_float, c_optional c_string,
        c_optional (c_sub mc_generated_775_component_item_sound_holder),
        c_optional (c_sub mc_generated_775_component_item_sound_holder)],
      c_seq [c_boolean, c_boolean, c_optional (c_sub mc_generated_775_component_item_sound_holder),
        c_optional (c_sub mc_generated_775_component_item_sound_holder)],
      c_seq [c_varint, c_varint,
        c_optional (c_sub mc_generated_775_component_kinetic_weapon_condition),
        c_optional (c_sub mc_generated_775_component_kinetic_weapon_condition),
        c_optional (c_sub mc_generated_775_component_kinetic_weapon_condition), c_float, c_float,
        c_optional (c_sub mc_generated_775_component_item_sound_holder),
        c_optional (c_sub mc_generated_775_component_item_sound_holder)],
      c_seq [c_enum 3, c_varint]]"

definition mc_generated_775_components_41_54 :: "component list" where
  "mc_generated_775_components_41_54 =
     [c_varint,
      c_array (c_seq [c_varint, c_varint]),
      c_sub mc_generated_775_component_dye_color,
      c_i32,
      c_i32,
      c_varint,
      c_nbt,
      c_varint,
      c_array (c_call (Nested_item_stack 775)),
      c_array (c_call (Nested_item_stack 775)),
      c_seq [c_optional c_varint, c_optional c_i32,
        c_array (c_sub mc_generated_775_component_item_potion_effect), c_optional c_string],
      c_float,
      c_array (c_seq [c_varint, c_varint]),
      c_array (c_sub mc_generated_775_component_item_book_page)]"

definition mc_generated_775_components_55_70 :: "component list" where
  "mc_generated_775_components_55_70 =
     [c_seq [c_string, c_optional c_string, c_string, c_varint,
        c_array (c_sub mc_generated_775_component_item_written_book_page), c_boolean],
      c_seq [c_holder (c_sub mc_generated_775_component_armor_trim_material),
        c_holder (c_sub mc_generated_775_component_armor_trim_pattern)],
      c_nbt,
      c_seq [c_varint, c_nbt],
      c_nbt,
      c_seq [c_varint, c_nbt],
      c_either c_string (c_holder (c_sub mc_generated_775_component_instrument_data)),
      c_either c_string (c_holder (c_sub mc_generated_775_component_armor_trim_material)),
      c_varint,
      c_either c_string (c_holder (c_sub mc_generated_775_component_jukebox_song_data)),
      c_string,
      c_nbt,
      c_seq [c_optional (c_sub mc_generated_775_component_global_pos), c_boolean],
      c_sub mc_generated_775_component_item_firework_explosion,
      c_seq [c_varint, c_array (c_sub mc_generated_775_component_item_firework_explosion)],
      c_sub mc_generated_775_component_resolvable_profile]"

definition mc_generated_775_components_71_96 :: "component list" where
  "mc_generated_775_components_71_96 =
     [c_string,
      c_array (c_sub mc_generated_775_component_banner_pattern_layer),
      c_sub mc_generated_775_component_dye_color,
      c_array c_varint,
      c_array (c_call (Nested_item_stack 775)),
      c_array (c_seq [c_string, c_string]),
      c_array (c_seq [c_nbt, c_varint, c_varint]),
      c_nbt,
      c_nbt,
      c_sub mc_generated_775_component_item_sound_holder,
      c_varint,
      c_varint,
      c_varint,
      c_sub mc_generated_775_component_dye_color,
      c_varint,
      c_varint,
      c_varint,
      c_varint,
      c_sub mc_generated_775_component_dye_color,
      c_sub mc_generated_775_component_dye_color,
      c_varint,
      c_varint,
      c_varint,
      c_varint,
      c_varint,
      c_varint]"

definition mc_generated_775_components_97_109 :: "component list" where
  "mc_generated_775_components_97_109 =
     [c_holder c_string,
      c_holder c_string,
      c_holder c_string,
      c_varint,
      c_varint,
      c_holder (c_sub mc_generated_775_component_entity_metadata_painting_variant),
      c_varint,
      c_varint,
      c_varint,
      c_varint,
      c_sub mc_generated_775_component_dye_color,
      c_sub mc_generated_775_component_dye_color,
      c_sub mc_generated_775_component_dye_color]"

definition mc_generated_775_component_slot_component :: component where
  "mc_generated_775_component_slot_component = c_validator
     (c_choice
       (mc_generated_775_components_0_15
        @ mc_generated_775_components_16_24
        @ mc_generated_775_components_25_35
        @ mc_generated_775_components_36_40
        @ mc_generated_775_components_41_54
        @ mc_generated_775_components_55_70
        @ mc_generated_775_components_71_96
        @ mc_generated_775_components_97_109))"

definition mc_generated_775_component_slot_component_type :: component where
  "mc_generated_775_component_slot_component_type = c_validator
     (c_enum 110)"

lemmas components_775_defs =
  mc_generated_775_component_armor_trim_material_def
    mc_generated_775_component_armor_trim_pattern_def mc_generated_775_component_banner_pattern_def
    mc_generated_775_component_banner_pattern_layer_def
    mc_generated_775_component_damage_type_data_def
    mc_generated_775_component_exact_component_matcher_def
    mc_generated_775_component_data_component_matchers_def mc_generated_775_component_dye_color_def
    mc_generated_775_component_entity_metadata_painting_variant_def
    mc_generated_775_component_game_profile_property_def mc_generated_775_component_game_profile_def
    mc_generated_775_component_global_pos_def mc_generated_775_component_idset_def
    mc_generated_775_component_item_sound_event_def mc_generated_775_component_item_sound_holder_def
    mc_generated_775_component_instrument_data_def
    mc_generated_775_component_item_block_property_def
    mc_generated_775_component_item_block_predicate_def
    mc_generated_775_component_item_book_page_def mc_generated_775_component_item_effect_detail_def
    mc_generated_775_component_item_potion_effect_def
    mc_generated_775_component_item_consume_effect_def
    mc_generated_775_component_item_firework_explosion_def
    mc_generated_775_component_item_written_book_page_def
    mc_generated_775_component_jukebox_song_data_def
    mc_generated_775_component_kinetic_weapon_condition_def
    mc_generated_775_component_partial_resolvable_profile_def
    mc_generated_775_component_player_skin_patch_def
    mc_generated_775_component_resolvable_profile_def mc_generated_775_component_slot_component_def
    mc_generated_775_component_slot_component_type_def mc_generated_775_components_0_15_def
    mc_generated_775_components_16_24_def mc_generated_775_components_25_35_def
    mc_generated_775_components_36_40_def mc_generated_775_components_41_54_def
    mc_generated_775_components_55_70_def mc_generated_775_components_71_96_def
    mc_generated_775_components_97_109_def

text \<open>They report every failure, and look only at deeper recursive calls.\<close>

lemma components_775_ok [component_rules]:
  "component_ok mc_generated_775_component_slot_component"
  "component_ok mc_generated_775_component_slot_component_type"
  "component_ok mc_generated_775_component_item_effect_detail"
  unfolding components_775_defs by (intro component_rules ok_bind rd_checked)+

end
