(* ===== verification/Components_777.thy ===== *)
theory Components_777
  imports Components
begin

text \<open>
  The slot component validators of protocol 777 in \<open>api.c\<close>, in the order of their calls: every
  definition is the C function of its name.
\<close>

definition mc_derived_777_component_armor_trim_material26_3 :: component where
  "mc_derived_777_component_armor_trim_material26_3 = c_validator
     (c_seq [c_string, c_nbt])"

definition mc_derived_777_component_armor_trim_pattern :: component where
  "mc_derived_777_component_armor_trim_pattern = c_validator
     (c_seq [c_string, c_nbt, c_boolean])"

definition mc_derived_777_component_banner_pattern :: component where
  "mc_derived_777_component_banner_pattern = c_validator
     (c_seq [c_string, c_string])"

definition mc_derived_777_component_banner_pattern_layer :: component where
  "mc_derived_777_component_banner_pattern_layer = c_validator
     (c_seq [c_holder (c_sub mc_derived_777_component_banner_pattern), c_varint])"

definition mc_derived_777_component_damage_type_data :: component where
  "mc_derived_777_component_damage_type_data = c_validator
     (c_seq [c_string, c_enum 3, c_float, c_enum 6, c_enum 3])"

definition mc_derived_777_component_exact_component_matcher :: component where
  "mc_derived_777_component_exact_component_matcher = c_validator
     (c_array (c_call (Slot_component 777)))"

definition mc_derived_777_component_data_component_matchers :: component where
  "mc_derived_777_component_data_component_matchers = c_validator
     (c_seq [c_sub mc_derived_777_component_exact_component_matcher, c_array c_varint])"

definition mc_derived_777_component_dye_color :: component where
  "mc_derived_777_component_dye_color = c_validator
     (c_enum 16)"

definition mc_derived_777_component_entity_metadata_painting_variant :: component where
  "mc_derived_777_component_entity_metadata_painting_variant = c_validator
     (c_seq [c_i32, c_i32, c_string, c_optional c_nbt, c_optional c_nbt])"

definition mc_derived_777_component_game_profile_property :: component where
  "mc_derived_777_component_game_profile_property = c_validator
     (c_seq [c_string, c_string, c_optional c_string])"

definition mc_derived_777_component_game_profile :: component where
  "mc_derived_777_component_game_profile = c_validator
     (c_seq [c_skip 16, c_string, c_array (c_sub mc_derived_777_component_game_profile_property)])"

definition mc_derived_777_component_global_pos :: component where
  "mc_derived_777_component_global_pos = c_validator
     (c_seq [c_string, c_position 777])"

definition mc_derived_777_component_idset :: component where
  "mc_derived_777_component_idset = c_validator
     (c_holder_set c_string c_varint)"

definition mc_derived_777_component_item_sound_event :: component where
  "mc_derived_777_component_item_sound_event = c_validator
     (c_seq [c_string, c_optional c_float])"

definition mc_derived_777_component_item_sound_holder :: component where
  "mc_derived_777_component_item_sound_holder = c_validator
     (c_holder (c_sub mc_derived_777_component_item_sound_event))"

definition mc_derived_777_component_instrument_data26_3 :: component where
  "mc_derived_777_component_instrument_data26_3 = c_validator
     (c_seq [c_sub mc_derived_777_component_item_sound_holder, c_float, c_float, c_varint, c_nbt])"

definition mc_derived_777_component_item_block_property :: component where
  "mc_derived_777_component_item_block_property = c_validator
     (c_seq [c_string, c_either (c_seq [c_string, c_string]) c_string])"

definition mc_derived_777_component_item_block_predicate :: component where
  "mc_derived_777_component_item_block_predicate = c_validator
     (c_seq [c_optional (c_holder_set c_string c_varint),
       c_optional (c_array (c_sub mc_derived_777_component_item_block_property)), c_nbt,
       c_sub mc_derived_777_component_data_component_matchers])"

definition mc_derived_777_component_item_book_page :: component where
  "mc_derived_777_component_item_book_page = c_validator
     (c_seq [c_string, c_optional c_string])"

definition mc_derived_777_component_item_effect_detail :: component where
  "mc_derived_777_component_item_effect_detail = c_validator
     (c_seq [c_varint, c_varint, c_boolean, c_boolean, c_boolean,
       c_optional (c_call (Effect_detail 777))])"

definition mc_derived_777_component_item_potion_effect :: component where
  "mc_derived_777_component_item_potion_effect = c_validator
     (c_seq [c_varint, c_sub mc_derived_777_component_item_effect_detail])"

definition mc_derived_777_component_item_consume_effect26_3 :: component where
  "mc_derived_777_component_item_consume_effect26_3 = c_validator
     (c_choice [c_seq [c_array (c_sub mc_derived_777_component_item_potion_effect), c_float],
       c_sub mc_derived_777_component_idset, c_seq [], c_seq [c_float, c_boolean],
       c_sub mc_derived_777_component_item_sound_holder])"

definition mc_derived_777_component_item_firework_explosion :: component where
  "mc_derived_777_component_item_firework_explosion = c_validator
     (c_seq [c_enum 5, c_array c_i32, c_array c_i32, c_boolean, c_boolean])"

definition mc_derived_777_component_slot_component_type :: component where
  "mc_derived_777_component_slot_component_type = c_validator
     (c_enum 122)"

definition mc_derived_777_component_item_stack_template :: component where
  "mc_derived_777_component_item_stack_template = c_validator
     (c_seq [c_varint, c_varint,
       (\<lambda>calls depth.
          rd_bind mc_reader_varint (\<lambda>added_component_count.
          rd_bind mc_reader_varint (\<lambda>removed_component_count.
          c_seq [c_elements added_component_count (c_call (Slot_component 777)),
                 c_elements removed_component_count (c_sub mc_derived_777_component_slot_component_type)]
            calls depth)))])"

definition mc_derived_777_component_item_written_book_page :: component where
  "mc_derived_777_component_item_written_book_page = c_validator
     (c_seq [c_nbt, c_nbt])"

definition mc_derived_777_component_jukebox_song_data :: component where
  "mc_derived_777_component_jukebox_song_data = c_validator
     (c_seq [c_sub mc_derived_777_component_item_sound_holder, c_nbt, c_float, c_varint])"

definition mc_derived_777_component_kinetic_weapon_condition :: component where
  "mc_derived_777_component_kinetic_weapon_condition = c_validator
     (c_seq [c_varint, c_float, c_float])"

definition mc_derived_777_component_partial_resolvable_profile :: component where
  "mc_derived_777_component_partial_resolvable_profile = c_validator
     (c_seq [c_optional c_string, c_optional (c_skip 16),
       c_array (c_sub mc_derived_777_component_game_profile_property)])"

definition mc_derived_777_component_player_skin_patch :: component where
  "mc_derived_777_component_player_skin_patch = c_validator
     (c_seq [c_optional c_string, c_optional c_string, c_optional c_string, c_optional (c_enum 2)])"

definition mc_derived_777_component_resolvable_float :: component where
  "mc_derived_777_component_resolvable_float = c_validator
     (c_either c_string c_float)"

definition mc_derived_777_component_resolvable_int :: component where
  "mc_derived_777_component_resolvable_int = c_validator
     (c_either c_string c_i32)"

definition mc_derived_777_component_resolvable_profile :: component where
  "mc_derived_777_component_resolvable_profile = c_validator
     (c_seq [c_choice [c_sub mc_derived_777_component_partial_resolvable_profile,
       c_sub mc_derived_777_component_game_profile],
       c_sub mc_derived_777_component_player_skin_patch])"

definition mc_derived_777_components_0_15 :: "component list" where
  "mc_derived_777_components_0_15 =
     [c_nbt,
      c_varint,
      c_varint,
      c_varint,
      c_seq [],
      c_seq [c_boolean, c_boolean, c_float],
      c_nbt,
      c_float,
      c_either c_string (c_holder (c_sub mc_derived_777_component_damage_type_data)),
      c_nbt,
      c_string,
      c_array c_nbt,
      c_enum 4,
      c_array (c_seq [c_varint, c_varint]),
      c_array (c_sub mc_derived_777_component_item_block_predicate),
      c_array (c_sub mc_derived_777_component_item_block_predicate)]"

definition mc_derived_777_components_16_23 :: "component list" where
  "mc_derived_777_components_16_23 =
     [c_array (c_seq [c_varint, c_string, c_double, c_enum 3, c_enum 11, c_choice [c_seq [],
        c_seq [], c_nbt]]),
      c_seq [c_array c_float, c_array c_boolean, c_array c_string, c_array c_i32],
      c_seq [c_boolean, c_array c_varint],
      c_varint,
      c_seq [],
      c_boolean,
      c_nbt,
      c_seq [c_varint, c_float, c_boolean]]"

definition mc_derived_777_components_24_31 :: "component list" where
  "mc_derived_777_components_24_31 =
     [c_seq [c_float, c_enum 11, c_sub mc_derived_777_component_item_sound_holder, c_boolean,
        c_array (c_sub mc_derived_777_component_item_consume_effect26_3)],
      c_sub mc_derived_777_component_item_stack_template,
      c_seq [c_float, c_optional c_string],
      c_string,
      c_seq [c_array (c_seq [c_sub mc_derived_777_component_idset, c_optional c_float,
        c_optional c_boolean]), c_float, c_varint, c_boolean],
      c_seq [c_varint, c_float],
      c_seq [c_float, c_float, c_float, c_float, c_float, c_float],
      c_varint]"

definition mc_derived_777_components_32_38 :: "component list" where
  "mc_derived_777_components_32_38 =
     [c_seq [c_enum 8, c_sub mc_derived_777_component_item_sound_holder, c_optional c_string,
        c_optional c_string, c_optional (c_sub mc_derived_777_component_idset), c_boolean,
        c_boolean, c_boolean, c_boolean, c_boolean,
        c_sub mc_derived_777_component_item_sound_holder],
      c_sub mc_derived_777_component_idset,
      c_seq [],
      c_string,
      c_array (c_sub mc_derived_777_component_item_consume_effect26_3),
      c_seq [c_float, c_float, c_array (c_seq [c_float,
        c_optional (c_sub mc_derived_777_component_idset), c_float, c_float]), c_float, c_float,
        c_float, c_optional c_string, c_optional (c_sub mc_derived_777_component_item_sound_holder),
        c_optional (c_sub mc_derived_777_component_item_sound_holder)],
      c_seq [c_boolean, c_boolean, c_optional (c_sub mc_derived_777_component_item_sound_holder),
        c_optional (c_sub mc_derived_777_component_item_sound_holder)]]"

definition mc_derived_777_components_39_52 :: "component list" where
  "mc_derived_777_components_39_52 =
     [c_seq [c_varint, c_varint,
        c_optional (c_sub mc_derived_777_component_kinetic_weapon_condition),
        c_optional (c_sub mc_derived_777_component_kinetic_weapon_condition),
        c_optional (c_sub mc_derived_777_component_kinetic_weapon_condition), c_float, c_float,
        c_optional (c_sub mc_derived_777_component_item_sound_holder),
        c_optional (c_sub mc_derived_777_component_item_sound_holder)],
      c_seq [c_enum 3, c_varint],
      c_seq [c_enum 3, c_varint],
      c_varint,
      c_varint,
      c_varint,
      c_array (c_seq [c_varint, c_varint]),
      c_sub mc_derived_777_component_dye_color,
      c_i32,
      c_varint,
      c_nbt,
      c_varint,
      c_array (c_sub mc_derived_777_component_item_stack_template),
      c_array (c_sub mc_derived_777_component_item_stack_template)]"

definition mc_derived_777_components_53_63 :: "component list" where
  "mc_derived_777_components_53_63 =
     [c_seq [c_optional c_varint, c_optional c_i32,
        c_array (c_sub mc_derived_777_component_item_potion_effect), c_optional c_string],
      c_float,
      c_array (c_seq [c_varint, c_varint]),
      c_array (c_sub mc_derived_777_component_item_book_page),
      c_seq [c_string, c_optional c_string, c_string, c_varint,
        c_array (c_sub mc_derived_777_component_item_written_book_page), c_boolean],
      c_seq [c_holder (c_sub mc_derived_777_component_armor_trim_material26_3),
        c_holder (c_sub mc_derived_777_component_armor_trim_pattern)],
      c_nbt,
      c_seq [c_varint, c_nbt],
      c_nbt,
      c_seq [c_varint, c_nbt],
      c_either c_string (c_holder (c_sub mc_derived_777_component_instrument_data26_3))]"

definition mc_derived_777_components_64_78 :: "component list" where
  "mc_derived_777_components_64_78 =
     [c_either c_string (c_holder (c_sub mc_derived_777_component_armor_trim_material26_3)),
      c_varint,
      c_either c_string (c_holder (c_sub mc_derived_777_component_jukebox_song_data)),
      c_string,
      c_nbt,
      c_seq [c_optional (c_sub mc_derived_777_component_global_pos), c_boolean],
      c_sub mc_derived_777_component_item_firework_explosion,
      c_seq [c_varint, c_array (c_sub mc_derived_777_component_item_firework_explosion)],
      c_sub mc_derived_777_component_resolvable_profile,
      c_string,
      c_array (c_sub mc_derived_777_component_banner_pattern_layer),
      c_sub mc_derived_777_component_dye_color,
      c_seq [c_optional (c_sub mc_derived_777_component_item_stack_template),
        c_optional (c_sub mc_derived_777_component_item_stack_template),
        c_optional (c_sub mc_derived_777_component_item_stack_template),
        c_optional (c_sub mc_derived_777_component_item_stack_template)],
      c_array (c_optional (c_sub mc_derived_777_component_item_stack_template)),
      c_array (c_seq [c_string, c_string])]"

definition mc_derived_777_components_79_108 :: "component list" where
  "mc_derived_777_components_79_108 =
     [c_array (c_seq [c_nbt, c_varint, c_varint]),
      c_call (Nested_item_stack 777),
      c_nbt,
      c_nbt,
      c_sub mc_derived_777_component_item_sound_holder,
      c_sub mc_derived_777_component_resolvable_int,
      c_seq [c_sub mc_derived_777_component_resolvable_int,
        c_sub mc_derived_777_component_resolvable_float],
      c_seq [c_sub mc_derived_777_component_resolvable_int,
        c_sub mc_derived_777_component_resolvable_float],
      c_seq [c_sub mc_derived_777_component_idset, c_float],
      c_varint,
      c_varint,
      c_varint,
      c_sub mc_derived_777_component_dye_color,
      c_varint,
      c_varint,
      c_varint,
      c_varint,
      c_sub mc_derived_777_component_dye_color,
      c_sub mc_derived_777_component_dye_color,
      c_varint,
      c_varint,
      c_varint,
      c_varint,
      c_varint,
      c_varint,
      c_holder c_string,
      c_holder c_string,
      c_holder c_string,
      c_varint,
      c_varint]"

definition mc_derived_777_components_109_121 :: "component list" where
  "mc_derived_777_components_109_121 =
     [c_holder (c_sub mc_derived_777_component_entity_metadata_painting_variant),
      c_varint,
      c_varint,
      c_varint,
      c_varint,
      c_sub mc_derived_777_component_dye_color,
      c_sub mc_derived_777_component_dye_color,
      c_sub mc_derived_777_component_dye_color,
      c_varint,
      c_seq [c_nbt, c_nbt, c_nbt, c_nbt, c_optional (c_seq [c_nbt, c_nbt, c_nbt, c_nbt]),
        c_sub mc_derived_777_component_dye_color, c_boolean],
      c_seq [c_nbt, c_nbt, c_nbt, c_nbt, c_optional (c_seq [c_nbt, c_nbt, c_nbt, c_nbt]),
        c_sub mc_derived_777_component_dye_color, c_boolean],
      c_seq [],
      c_sub mc_derived_777_component_dye_color]"

definition mc_derived_777_component_slot_component :: component where
  "mc_derived_777_component_slot_component = c_validator
     (c_choice
       (mc_derived_777_components_0_15
        @ mc_derived_777_components_16_23
        @ mc_derived_777_components_24_31
        @ mc_derived_777_components_32_38
        @ mc_derived_777_components_39_52
        @ mc_derived_777_components_53_63
        @ mc_derived_777_components_64_78
        @ mc_derived_777_components_79_108
        @ mc_derived_777_components_109_121))"

lemmas components_777_defs =
  mc_derived_777_component_armor_trim_material26_3_def
    mc_derived_777_component_armor_trim_pattern_def mc_derived_777_component_banner_pattern_def
    mc_derived_777_component_banner_pattern_layer_def mc_derived_777_component_damage_type_data_def
    mc_derived_777_component_exact_component_matcher_def
    mc_derived_777_component_data_component_matchers_def mc_derived_777_component_dye_color_def
    mc_derived_777_component_entity_metadata_painting_variant_def
    mc_derived_777_component_game_profile_property_def mc_derived_777_component_game_profile_def
    mc_derived_777_component_global_pos_def mc_derived_777_component_idset_def
    mc_derived_777_component_item_sound_event_def mc_derived_777_component_item_sound_holder_def
    mc_derived_777_component_instrument_data26_3_def
    mc_derived_777_component_item_block_property_def
    mc_derived_777_component_item_block_predicate_def mc_derived_777_component_item_book_page_def
    mc_derived_777_component_item_effect_detail_def mc_derived_777_component_item_potion_effect_def
    mc_derived_777_component_item_consume_effect26_3_def
    mc_derived_777_component_item_firework_explosion_def
    mc_derived_777_component_slot_component_type_def
    mc_derived_777_component_item_stack_template_def
    mc_derived_777_component_item_written_book_page_def
    mc_derived_777_component_jukebox_song_data_def
    mc_derived_777_component_kinetic_weapon_condition_def
    mc_derived_777_component_partial_resolvable_profile_def
    mc_derived_777_component_player_skin_patch_def mc_derived_777_component_resolvable_float_def
    mc_derived_777_component_resolvable_int_def mc_derived_777_component_resolvable_profile_def
    mc_derived_777_component_slot_component_def mc_derived_777_components_0_15_def
    mc_derived_777_components_16_23_def mc_derived_777_components_24_31_def
    mc_derived_777_components_32_38_def mc_derived_777_components_39_52_def
    mc_derived_777_components_53_63_def mc_derived_777_components_64_78_def
    mc_derived_777_components_79_108_def mc_derived_777_components_109_121_def

text \<open>They report every failure, and look only at deeper recursive calls.\<close>

lemma components_777_ok [component_rules]:
  "component_ok mc_derived_777_component_slot_component"
  "component_ok mc_derived_777_component_slot_component_type"
  "component_ok mc_derived_777_component_item_effect_detail"
  unfolding components_777_defs by (intro component_rules ok_bind rd_checked)+

end
