(* ===== verification/Items.thy ===== *)
theory Items
  imports Components_766 Components_767 Components_768 Components_769 Components_770 Components_771
    Components_772 Components_773 Components_774 Components_775 Components_777
begin

text \<open>
  The dispatch of the slot component validators, \<open>typed_skip_nested_item_stack\<close> and
  \<open>mc_reader_item_stack\<close> of \<open>api.c\<close>.

  The recursion of the source (components hold stacks, stacks hold components) goes one level deeper
  with every call and stops at depth 64. \<open>component_run\<close> unrolls it: with fuel for 66 levels the
  calls satisfy the equations of the unbounded recursion (\<open>component_calls_unfold\<close>).

  zlib's streaming inflate is a parameter: \<open>gz compressed\<close> is what the successive calls of
  \<open>inflate\<close> with a 4096-byte output buffer return, or \<^term>\<open>None\<close> where \<open>inflateInit2\<close> fails.
\<close>

subsection \<open>Dispatch\<close>

definition MC_MAX_ITEM_COMPONENT_COUNT :: nat where
  "MC_MAX_ITEM_COMPONENT_COUNT = 256"

definition typed_invalid :: "'a rd" where
  "typed_invalid = rd_here (\<lambda>off. reader_fail MC_ERROR_INVALID_PACKET_BODY off)"

definition typed_count :: "i32 \<Rightarrow> nat \<Rightarrow> unit rd" where
  "typed_count v maximum =
     (if sint v < 0 \<or> unat v > maximum then rd_here (\<lambda>off. reader_fail MC_ERROR_INVALID_LENGTH off)
      else rd_return ())"

definition component_unsupported :: component where
  "component_unsupported calls depth = rd_here (\<lambda>off. reader_fail MC_ERROR_UNSUPPORTED_PROTOCOL off)"

definition mc_generated_skip_slot_component :: "int \<Rightarrow> component" where
  "mc_generated_skip_slot_component protocol =
     (if protocol = 766 then mc_generated_766_component_slot_component
      else if protocol = 767 then mc_generated_767_component_slot_component
      else if protocol = 768 then mc_generated_768_component_slot_component
      else if protocol = 769 then mc_generated_769_component_slot_component
      else if protocol = 770 then mc_generated_770_component_slot_component
      else if protocol = 771 then mc_generated_771_component_slot_component
      else if protocol = 772 then mc_generated_772_component_slot_component
      else if protocol = 773 then mc_generated_773_component_slot_component
      else if protocol = 774 then mc_generated_774_component_slot_component
      else if protocol = 775 then mc_generated_775_component_slot_component
      else if protocol = 776 then mc_generated_775_component_slot_component
      else component_unsupported)"

definition mc_generated_skip_slot_component_type :: "int \<Rightarrow> component" where
  "mc_generated_skip_slot_component_type protocol =
     (if protocol = 766 then mc_generated_766_component_slot_component_type
      else if protocol = 767 then mc_generated_767_component_slot_component_type
      else if protocol = 768 then mc_generated_768_component_slot_component_type
      else if protocol = 769 then mc_generated_769_component_slot_component_type
      else if protocol = 770 then mc_generated_770_component_slot_component_type
      else if protocol = 771 then mc_generated_771_component_slot_component_type
      else if protocol = 772 then mc_generated_772_component_slot_component_type
      else if protocol = 773 then mc_generated_773_component_slot_component_type
      else if protocol = 774 then mc_generated_774_component_slot_component_type
      else if protocol = 775 then mc_generated_775_component_slot_component_type
      else if protocol = 776 then mc_generated_775_component_slot_component_type
      else component_unsupported)"

definition component_skip :: "int \<Rightarrow> component" where
  "component_skip protocol =
     (if protocol = 777 then mc_derived_777_component_slot_component
      else mc_generated_skip_slot_component protocol)"

definition component_skip_type :: "int \<Rightarrow> component" where
  "component_skip_type protocol =
     (if protocol = 777 then mc_derived_777_component_slot_component_type
      else mc_generated_skip_slot_component_type protocol)"

text \<open>The stack inside a component: count, item, and its added and removed components.\<close>

definition nested_item_stack :: "int \<Rightarrow> component" where
  "nested_item_stack protocol calls depth =
     (if protocol < 766 then rd_here (\<lambda>off. reader_fail MC_ERROR_INVALID_ARGUMENT off)
      else c_validator (\<lambda>calls depth.
        rd_bind (if protocol = 766 then rd_bind mc_reader_i8 (\<lambda>legacy_count. rd_return (scast legacy_count))
                 else mc_reader_varint) (\<lambda>count.
        if count = 0 then rd_return ()
        else
          rd_bind (rd_orelse
            (rd_bind (rd_test (\<not> (sint count < 0 \<or> sint count > 127))) (\<lambda>_.
             rd_bind (rd_such mc_reader_varint (\<lambda>item_id. \<not> sint item_id \<le> 0)) (\<lambda>_.
             rd_bind mc_reader_varint (\<lambda>added. rd_bind mc_reader_varint (\<lambda>removed.
             rd_bind (typed_count added MC_MAX_ITEM_COMPONENT_COUNT) (\<lambda>_.
             rd_bind (typed_count removed MC_MAX_ITEM_COMPONENT_COUNT) (\<lambda>_.
             rd_bind (rd_test (\<not> unat added + unat removed > MC_MAX_ITEM_COMPONENT_COUNT)) (\<lambda>_.
             rd_return (added, removed)))))))))
            (typed_invalid :: unit rd)) (\<lambda>(added, removed).
          rd_bind (rd_repeat (unat added) (component_skip protocol calls (depth + 1))) (\<lambda>_.
          rd_repeat (unat removed) (component_skip_type protocol calls (depth + 1)))))) calls depth)"

subsection \<open>The recursion\<close>

definition effect_detail :: "int \<Rightarrow> component" where
  "effect_detail protocol =
     (if protocol = 766 then mc_generated_766_component_item_effect_detail
      else if protocol = 767 then mc_generated_767_component_item_effect_detail
      else if protocol = 768 then mc_generated_768_component_item_effect_detail
      else if protocol = 769 then mc_generated_769_component_item_effect_detail
      else if protocol = 770 then mc_generated_770_component_item_effect_detail
      else if protocol = 771 then mc_generated_771_component_item_effect_detail
      else if protocol = 772 then mc_generated_772_component_item_effect_detail
      else if protocol = 773 then mc_generated_773_component_item_effect_detail
      else if protocol = 774 then mc_generated_774_component_item_effect_detail
      else if protocol = 775 then mc_generated_775_component_item_effect_detail
      else if protocol = 777 then mc_derived_777_component_item_effect_detail
      else component_unsupported)"

fun component_target :: "component_call \<Rightarrow> component" where
  "component_target (Slot_component protocol) = component_skip protocol"
| "component_target (Effect_detail protocol) = effect_detail protocol"
| "component_target (Nested_item_stack protocol) = nested_item_stack protocol"

primrec component_run :: "nat \<Rightarrow> component_calls" where
  "component_run 0 call depth = rd_here (\<lambda>off. reader_fail MC_ERROR_NBT_DEPTH off)"
| "component_run (Suc n) call depth = component_target call (component_run n) depth"

definition component_calls :: component_calls where
  "component_calls = component_run (MC_MAX_NBT_DEPTH + 2)"

definition skip_slot_component :: "int \<Rightarrow> nat \<Rightarrow> unit rd" where
  "skip_slot_component protocol = component_skip protocol component_calls"

definition skip_slot_component_type :: "int \<Rightarrow> nat \<Rightarrow> unit rd" where
  "skip_slot_component_type protocol = component_skip_type protocol component_calls"

definition typed_skip_nested_item_stack :: "int \<Rightarrow> nat \<Rightarrow> unit rd" where
  "typed_skip_nested_item_stack protocol = nested_item_stack protocol component_calls"

definition typed_read_component_type :: "int \<Rightarrow> unit rd" where
  "typed_read_component_type protocol = skip_slot_component_type protocol 0"

lemma handler_typed_invalid [rd_checked]: "rd_handler typed_invalid"
  unfolding typed_invalid_def by (intro rd_checked) simp

lemma checked_typed_invalid [rd_checked]: "checked_op typed_invalid"
  by (rule checked_handler [OF handler_typed_invalid])

lemma checked_typed_count [rd_checked]: "checked_op (typed_count v maximum)"
  unfolding typed_count_def by (intro rd_checked) simp_all

lemmas reporting_typed_count [rd_checked] = checked_reporting [OF checked_typed_count]

lemma ok_unsupported [component_rules]: "component_ok component_unsupported"
  by (rule component_okI) (auto simp: component_unsupported_def intro!: rd_checked)

lemma ok_if [component_rules]:
  "component_ok c \<Longrightarrow> component_ok d \<Longrightarrow> component_ok (if b then c else d)"
  by simp

lemma ok_skip [component_rules]:
  "component_ok (component_skip protocol)" "component_ok (component_skip_type protocol)"
  "component_ok (effect_detail protocol)"
  unfolding component_skip_def component_skip_type_def effect_detail_def
    mc_generated_skip_slot_component_def mc_generated_skip_slot_component_type_def
  by (intro component_rules)+

lemma ok_nested [component_rules]: "component_ok (nested_item_stack protocol)"
proof (rule component_okI)
  have skip: "calls_checked calls depth \<Longrightarrow> calls_checked calls (depth + 1)"
    "calls_agree calls calls' depth \<Longrightarrow> calls_agree calls calls' (depth + 1)" for calls calls' depth
    by (auto simp: calls_checked_def calls_agree_def)
  show "checked_op (nested_item_stack protocol calls depth)" if "calls_checked calls depth" for calls depth
    unfolding nested_item_stack_def c_validator_def
    by (intro rd_checked component_checked [OF ok_skip(1) skip(1)] component_checked [OF ok_skip(2) skip(1)] that)
       simp_all
  show "nested_item_stack protocol calls depth = nested_item_stack protocol calls' depth"
    if "calls_agree calls calls' depth" for calls calls' depth
    unfolding nested_item_stack_def c_validator_def
      component_agree [OF ok_skip(1) skip(2) [OF that]] component_agree [OF ok_skip(2) skip(2) [OF that]] ..
qed

lemma ok_target: "component_ok (component_target call)"
  by (cases call) (simp_all add: ok_skip ok_nested)

text \<open>Below the greatest depth nothing is left to the calls.\<close>

lemma target_too_deep:
  assumes "depth > MC_MAX_NBT_DEPTH"
  shows "component_target call calls depth = component_target call calls' depth"
proof -
  have c: "c_validator body calls depth = c_validator body calls' depth" for body
    using assms by (simp add: c_validator_def)
  show ?thesis
  proof (cases call)
    case (Slot_component protocol)
    then show ?thesis
      by (simp add: component_skip_def mc_generated_skip_slot_component_def component_unsupported_def
          components_766_defs components_767_defs components_768_defs components_769_defs components_770_defs
          components_771_defs components_772_defs components_773_defs components_774_defs components_775_defs
          components_777_defs c)
  next
    case (Effect_detail protocol)
    then show ?thesis
      by (simp add: effect_detail_def component_unsupported_def
          components_766_defs components_767_defs components_768_defs components_769_defs components_770_defs
          components_771_defs components_772_defs components_773_defs components_774_defs components_775_defs
          components_777_defs c)
  next
    case (Nested_item_stack protocol)
    then show ?thesis using assms by (simp add: nested_item_stack_def c_validator_def)
  qed
qed

lemma component_run_fuel:
  assumes "0 < n" "0 < m" "MC_MAX_NBT_DEPTH + 2 \<le> n + depth" "MC_MAX_NBT_DEPTH + 2 \<le> m + depth"
  shows "component_run n call depth = component_run m call depth"
  using assms
proof (induction n arbitrary: m depth call)
  case (Suc a)
  then obtain b where m: "m = Suc b" by (cases m) auto
  show ?case
  proof (cases "depth > MC_MAX_NBT_DEPTH")
    case True
    then show ?thesis unfolding m component_run.simps by (rule target_too_deep)
  next
    case False
    have "calls_agree (component_run a) (component_run b) depth"
      unfolding calls_agree_def using Suc False m by (intro allI impI Suc.IH) auto
    then show ?thesis unfolding m component_run.simps by (rule component_agree [OF ok_target])
  qed
qed simp

text \<open>The recursion of the source.\<close>

lemma component_calls_unfold: "component_calls call depth = component_target call component_calls depth"
proof -
  have "component_calls call depth = component_run (Suc (MC_MAX_NBT_DEPTH + 2)) call depth"
    unfolding component_calls_def by (rule component_run_fuel) simp_all
  then show ?thesis by (simp add: component_calls_def)
qed

lemma nested_item_stack_unfold:
  "component_calls (Nested_item_stack protocol) depth = typed_skip_nested_item_stack protocol depth"
  "component_calls (Slot_component protocol) depth = skip_slot_component protocol depth"
  unfolding typed_skip_nested_item_stack_def skip_slot_component_def
  by (subst component_calls_unfold, simp)+

lemma checked_component_run [rd_checked]: "checked_op (component_run n call depth)"
  by (induction n arbitrary: call depth)
     (auto intro!: rd_checked component_checked [OF ok_target] simp: calls_checked_def)

lemma calls_checked_run: "calls_checked component_calls depth"
  by (simp add: calls_checked_def component_calls_def checked_component_run del: component_run.simps)

lemma checked_skip_component [rd_checked]:
  "checked_op (skip_slot_component protocol depth)" "checked_op (skip_slot_component_type protocol depth)"
  "checked_op (typed_skip_nested_item_stack protocol depth)" "checked_op (typed_read_component_type protocol)"
  unfolding skip_slot_component_def skip_slot_component_type_def typed_skip_nested_item_stack_def
    typed_read_component_type_def
  by (intro component_checked [OF _ calls_checked_run] ok_skip ok_nested)+

lemmas reporting_skip_component [rd_checked] = checked_skip_component [THEN checked_reporting]

subsection \<open>Compressed NBT\<close>

datatype gz_status = GZ_OK | GZ_STREAM_END | GZ_FAILED

text \<open>One call of \<open>inflate\<close>: its result, the bytes it produced, and the input left.\<close>

type_synonym gz_call = "gz_status \<times> u8 list \<times> nat"

type_synonym gz_inflate = "u8 list \<Rightarrow> gz_call list option"

definition gz_done :: "gz_status \<Rightarrow> nat \<Rightarrow> nat \<Rightarrow> bool \<Rightarrow> unit rd" where
  "gz_done result avail_in produced first =
     (if result = GZ_STREAM_END \<and> avail_in = 0 \<and> produced \<noteq> 0 \<and> \<not> first then rd_return ()
      else rd_here (\<lambda>off. reader_fail MC_ERROR_ZLIB off))"

fun gz_loop :: "gz_call list \<Rightarrow> nat \<Rightarrow> bool \<Rightarrow> unit rd" where
  "gz_loop [] produced first = gz_done GZ_FAILED 0 produced first"
| "gz_loop ((result, out, avail_in) # calls) produced first =
     (if first \<and> length out \<noteq> 0 \<and> out ! 0 \<noteq> 10 then typed_invalid
      else if length out > MC_DEFAULT_MAX_STRING_BYTES - produced
      then rd_here (\<lambda>off. reader_fail MC_ERROR_NBT_LENGTH off)
      else
        let first = (first \<and> length out = 0); produced = produced + length out in
        if length out \<noteq> 4096 \<and> result = GZ_OK \<and> avail_in = 0 then gz_done result avail_in produced first
        else if result = GZ_OK then gz_loop calls produced first
        else gz_done result avail_in produced first)"

definition typed_validate_gzip_nbt :: "gz_inflate \<Rightarrow> u8 list \<Rightarrow> unit rd" where
  "typed_validate_gzip_nbt gz compressed =
     (if length compressed < 10 \<or> length compressed > UINT_MAX \<or> compressed ! 0 \<noteq> 0x1f
         \<or> compressed ! 1 \<noteq> 0x8b \<or> compressed ! 2 \<noteq> 8 then typed_invalid
      else case gz compressed of
          None \<Rightarrow> rd_here (\<lambda>off. reader_fail MC_ERROR_ZLIB off)
        | Some calls \<Rightarrow> gz_loop calls 0 True)"

lemma checked_gz_loop [rd_checked]: "checked_op (gz_loop calls produced first)"
proof (induction calls produced first rule: gz_loop.induct)
  case (1 produced first)
  then show ?case by (auto simp: gz_done_def intro!: rd_checked)
next
  case (2 result out avail_in calls produced first)
  then show ?case unfolding gz_loop.simps Let_def gz_done_def by (intro rd_checked) simp_all
qed

lemma checked_gzip [rd_checked]: "checked_op (typed_validate_gzip_nbt gz compressed)"
  unfolding typed_validate_gzip_nbt_def by (auto intro!: rd_checked split: option.split)

lemmas reporting_gzip [rd_checked] = checked_reporting [OF checked_gzip]

subsection \<open>Item stacks\<close>

datatype mc_item_wire_kind = MC_ITEM_WIRE_FULL | MC_ITEM_WIRE_UNTRUSTED | MC_ITEM_WIRE_HASHED

record mc_item_stack_view =
  is_present :: bool
  is_nbt_compressed :: bool
  is_component_values_length_prefixed :: bool
  is_wire_kind :: mc_item_wire_kind
  is_item_id :: i32
  is_count :: i32
  is_damage :: i32
  is_added_component_count :: u32
  is_removed_component_count :: u32
  is_nbt :: "u8 list"
  is_components :: "u8 list"
  is_encoded :: "u8 list"

definition item_stack_start :: "mc_item_wire_kind \<Rightarrow> mc_item_stack_view" where
  "item_stack_start wire_kind =
     \<lparr>is_present = False, is_nbt_compressed = False, is_component_values_length_prefixed = False,
      is_wire_kind = wire_kind, is_item_id = 0, is_count = 0, is_damage = 0,
      is_added_component_count = 0, is_removed_component_count = 0, is_nbt = [], is_components = [],
      is_encoded = []\<rparr>"

definition item_stack_hashed :: "int \<Rightarrow> mc_item_stack_view \<Rightarrow> mc_item_stack_view rd" where
  "item_stack_hashed protocol decoded =
     rd_bind mc_reader_bool (\<lambda>present.
     if \<not> present then rd_return decoded
     else
       rd_bind (rd_orelse
         (rd_bind mc_reader_varint (\<lambda>item_id. rd_bind mc_reader_varint (\<lambda>count.
          rd_bind mc_reader_varint (\<lambda>added.
          rd_bind (rd_test (\<not> (sint item_id \<le> 0 \<or> sint count \<le> 0 \<or> sint count > 127))) (\<lambda>_.
          rd_bind (typed_count added MC_MAX_ITEM_COMPONENT_COUNT) (\<lambda>_.
          rd_return (item_id, count, added)))))))
         (typed_invalid :: unit rd)) (\<lambda>(item_id, count, added).
       rd_bind (rd_capture
         (rd_bind (rd_repeat (unat added) (rd_orelse
            (rd_bind (typed_read_component_type protocol) (\<lambda>_. rd_bind mc_reader_i32 (\<lambda>hash. rd_return ())))
            (typed_invalid :: unit rd))) (\<lambda>_.
          rd_bind (rd_orelse
            (rd_bind mc_reader_varint (\<lambda>removed.
             rd_bind (typed_count removed MC_MAX_ITEM_COMPONENT_COUNT) (\<lambda>_.
             rd_bind (rd_test (\<not> unat added + unat removed > MC_MAX_ITEM_COMPONENT_COUNT)) (\<lambda>_.
             rd_return removed))))
            (typed_invalid :: unit rd)) (\<lambda>removed.
          rd_bind (rd_repeat (unat removed)
            (rd_orelse (typed_read_component_type protocol) (typed_invalid :: unit rd))) (\<lambda>_.
          rd_return removed))))) (\<lambda>(removed, components).
       rd_return (decoded\<lparr>is_present := True, is_item_id := item_id, is_count := count,
         is_added_component_count := ucast added, is_removed_component_count := ucast removed,
         is_components := components\<rparr>))))"

definition item_stack_legacy :: "gz_inflate \<Rightarrow> int \<Rightarrow> mc_item_stack_view \<Rightarrow> mc_item_stack_view rd" where
  "item_stack_legacy gz protocol decoded =
     rd_bind mc_reader_u16 (\<lambda>wire_id.
     if wire_id = 0xffff then rd_return decoded
     else
       rd_bind (rd_orelse
         (rd_bind (rd_test (\<not> (wire_id = 0 \<or> wire_id > 0x7fff))) (\<lambda>_.
          rd_bind (rd_such mc_reader_u8 (\<lambda>count. \<not> (count = 0 \<or> count > 127))) (\<lambda>count.
          rd_bind (rd_when (protocol \<le> 340) 0 mc_reader_u16) (\<lambda>damage.
          rd_return (count, damage)))))
         (typed_invalid :: unit rd)) (\<lambda>(count, damage).
       let decoded = decoded\<lparr>is_present := True, is_item_id := ucast wire_id, is_count := ucast count,
             is_damage := ucast damage\<rparr> in
       if protocol \<le> 5 then
         rd_bind mc_reader_i16 (\<lambda>compressed_size.
         if sint compressed_size < -1 then typed_invalid
         else if sint compressed_size > 0 then
           rd_bind (mc_reader_bytes (unat compressed_size)) (\<lambda>nbt.
           rd_bind (typed_validate_gzip_nbt gz nbt) (\<lambda>_.
           rd_return (decoded\<lparr>is_nbt := nbt, is_nbt_compressed := True\<rparr>)))
         else if compressed_size = 0 then typed_invalid
         else rd_return decoded)
       else
         rd_bind (mc_reader_nbt True) (\<lambda>nbt. rd_return (decoded\<lparr>is_nbt := nbt\<rparr>))))"

definition item_stack_present :: "int \<Rightarrow> mc_item_stack_view \<Rightarrow> mc_item_stack_view rd" where
  "item_stack_present protocol decoded =
     rd_bind mc_reader_bool (\<lambda>present.
     if \<not> present then rd_return decoded
     else
       rd_bind (rd_orelse
         (rd_bind mc_reader_varint (\<lambda>item_id. rd_bind mc_reader_u8 (\<lambda>count.
          rd_bind (rd_test (\<not> (sint item_id \<le> 0 \<or> count = 0 \<or> count > 127))) (\<lambda>_.
          rd_bind (mc_reader_nbt (protocol < 764)) (\<lambda>nbt.
          rd_return (item_id, count, nbt))))))
         (typed_invalid :: unit rd)) (\<lambda>(item_id, count, nbt).
       rd_return (decoded\<lparr>is_present := True, is_item_id := item_id, is_count := ucast count,
         is_nbt := nbt\<rparr>)))"

definition item_stack_components :: "int \<Rightarrow> mc_item_wire_kind \<Rightarrow> mc_item_stack_view \<Rightarrow> mc_item_stack_view rd" where
  "item_stack_components protocol wire_kind decoded =
     rd_bind (if wire_kind = MC_ITEM_WIRE_FULL \<and> protocol = 766
              then rd_bind mc_reader_i8 (\<lambda>legacy_count. rd_return (scast legacy_count))
              else mc_reader_varint) (\<lambda>count.
     if sint count < 0 \<or> sint count > 127 then typed_invalid
     else if count = 0 then rd_return decoded
     else
       rd_bind (rd_orelse
         (rd_bind mc_reader_varint (\<lambda>item_id. rd_bind mc_reader_varint (\<lambda>added.
          rd_bind mc_reader_varint (\<lambda>removed.
          rd_bind (rd_test (\<not> sint item_id \<le> 0)) (\<lambda>_.
          rd_bind (typed_count added MC_MAX_ITEM_COMPONENT_COUNT) (\<lambda>_.
          rd_bind (typed_count removed MC_MAX_ITEM_COMPONENT_COUNT) (\<lambda>_.
          rd_bind (rd_test (\<not> unat added + unat removed > MC_MAX_ITEM_COMPONENT_COUNT)) (\<lambda>_.
          rd_return (item_id, added, removed)))))))))
         (typed_invalid :: unit rd)) (\<lambda>(item_id, added, removed).
       rd_bind (rd_capture
         (rd_bind
           (if wire_kind = MC_ITEM_WIRE_UNTRUSTED
            then rd_repeat (unat added) (rd_orelse
              (rd_bind (typed_read_component_type protocol) (\<lambda>_.
               rd_bind mc_reader_buffer_varint (\<lambda>bytes. rd_return ())))
              (typed_invalid :: unit rd))
            else rd_repeat (unat added) (skip_slot_component protocol 0)) (\<lambda>_.
          rd_repeat (unat removed)
            (rd_orelse (typed_read_component_type protocol) (typed_invalid :: unit rd))))) (\<lambda>(_, components).
       rd_return (decoded\<lparr>is_present := True, is_count := count, is_item_id := item_id,
         is_added_component_count := ucast added, is_removed_component_count := ucast removed,
         is_component_values_length_prefixed := (wire_kind = MC_ITEM_WIRE_UNTRUSTED),
         is_components := components\<rparr>))))"

definition mc_reader_item_stack :: "gz_inflate \<Rightarrow> int \<Rightarrow> mc_item_wire_kind \<Rightarrow> mc_item_stack_view rd" where
  "mc_reader_item_stack gz protocol wire_kind = rd_supported protocol
     (rd_bind (rd_capture
       (let decoded = item_stack_start wire_kind in
        if wire_kind = MC_ITEM_WIRE_HASHED then item_stack_hashed protocol decoded
        else if protocol \<le> 401 then item_stack_legacy gz protocol decoded
        else if protocol < 766 then item_stack_present protocol decoded
        else item_stack_components protocol wire_kind decoded)) (\<lambda>(decoded, encoded).
      rd_return (decoded\<lparr>is_encoded := encoded\<rparr>)))"

lemmas reporting_nbt_view [rd_checked] = checked_reporting [OF checked_nbt]

lemma checked_item_stack [rd_checked]: "checked_op (mc_reader_item_stack gz protocol wire_kind)"
  unfolding mc_reader_item_stack_def item_stack_hashed_def item_stack_legacy_def item_stack_present_def
    item_stack_components_def Let_def
  by (intro rd_checked)

lemma stops_item_stack [rd_sticky]: "rd_stops (mc_reader_item_stack gz protocol wire_kind)"
  unfolding mc_reader_item_stack_def by (intro rd_sticky)

interpretation item_stack_rd: field_reader "mc_reader_item_stack gz protocol wire_kind" for gz protocol wire_kind
  by (intro field_readerI rd_checked rd_sticky)

end
