(* ===== verification/Item_Laws.thy ===== *)
theory Item_Laws
  imports Items
begin

text \<open>
  What \<open>mc_reader_item_stack\<close> guarantees: it reads the stacks that the writer of plain items
  produces, except for the identifiers above 32767 of the old protocols, and whatever it returns
  has its identifier, count and component counts in range.
\<close>

subsection \<open>Plain stacks\<close>

text \<open>What the reader of item stacks makes of the bytes of a plain item.\<close>

definition plain_view :: "int \<Rightarrow> i32 \<times> i32 \<Rightarrow> mc_item_stack_view" where
  "plain_view protocol = (\<lambda>(item, count).
     (item_stack_start MC_ITEM_WIRE_FULL)\<lparr>is_present := count \<noteq> 0, is_item_id := item, is_count := count,
       is_nbt := (if count \<noteq> 0 \<and> 5 < protocol \<and> protocol < 766 then [0] else []),
       is_encoded := plain_item_bytes protocol (item, count)\<rparr>)"

lemma parses_empty_nbt: "rd_parses (mc_reader_nbt named) [0] [0]"
  using parses_nbt [of Nbt_Empty named] by simp

lemma parses_count [rd_parses]: "0 \<le> sint v \<Longrightarrow> unat v \<le> maximum \<Longrightarrow> rd_parses (typed_count v maximum) [] ()"
  by (simp add: typed_count_def parses_return)

lemma parses_stack_capture:
  "rd_parses m bs decoded \<Longrightarrow>
     rd_parses (rd_bind (rd_capture m) (\<lambda>(decoded, encoded). rd_return (decoded\<lparr>is_encoded := encoded\<rparr>))) bs
       (decoded\<lparr>is_encoded := bs\<rparr>)"
  by (rule parses_bind_nil [OF parses_capture], assumption) (simp add: parses_return)


text \<open>The body of the reader, by the age of the protocol.\<close>

definition stack_body :: "gz_inflate \<Rightarrow> int \<Rightarrow> mc_item_stack_view rd" where
  "stack_body gz protocol =
     (let decoded = item_stack_start MC_ITEM_WIRE_FULL in
      if protocol \<le> 401 then item_stack_legacy gz protocol decoded
      else if protocol < 766 then item_stack_present protocol decoded
      else item_stack_components protocol MC_ITEM_WIRE_FULL decoded)"

lemma parses_stack:
  assumes "mc_protocol_supported protocol" and "rd_parses (stack_body gz protocol) bs decoded"
  shows "rd_parses (mc_reader_item_stack gz protocol MC_ITEM_WIRE_FULL) bs (decoded\<lparr>is_encoded := bs\<rparr>)"
  unfolding mc_reader_item_stack_def
  by (rule parses_supported [OF assms(1) parses_stack_capture])
     (use assms(2) in \<open>simp add: stack_body_def Let_def\<close>)

lemma parses_bind_test: "c \<Longrightarrow> rd_parses m bs x \<Longrightarrow> rd_parses (rd_bind (rd_test c) (\<lambda>_. m)) bs x"
  by (simp add: rd_parses_def rd_bind_def rd_test_def)

lemma single_varint:
  assumes "0 \<le> sint (count :: i32)" "sint count \<le> 127"
  shows "varint_bytes count = [ucast count]" "scast (ucast count :: i8) = count"
proof -
  have u: "uint count = sint count" "uint (ucast count :: u8) = sint count"
    using assms uint_nonneg_sint [OF assms(1)] by (simp_all add: unsigned_ucast_eq take_bit_int_eq_self)
  have "drop_bit 7 count = 0"
    by (rule word_uint_eqI) (use u assms in \<open>simp add: uint_div drop_bit_eq_div\<close>)
  moreover have "take_bit 7 (uint count) = uint count" using u assms by (simp add: take_bit_int_eq_self)
  ultimately show "varint_bytes count = [ucast count]"
    by (auto simp: varint_bytes_def leb_bytes.simps [of count] intro!: word_uint_eqI
        simp: unsigned_ucast_eq uint_and mask_eq_exp_minus_1 take_bit_eq_mask)
  have "sint (ucast count :: i8) = sint count"
    by (subst sint_uint) (use u assms in \<open>simp del: sint_uint add: signed_take_bit_int_eq_self\<close>)
  then show "scast (ucast count :: i8) = count"
    by (simp add: scast_eq)
qed

lemma parses_component_count:
  assumes "0 \<le> sint count" "sint count \<le> 127"
  shows "rd_parses (if protocol = 766 then rd_bind mc_reader_i8 (\<lambda>legacy_count. rd_return (scast legacy_count))
      else mc_reader_varint) (varint_bytes count) count"
  using parses_bind_nil [OF parses_same_width(1) [of "ucast count"], of "\<lambda>legacy_count. rd_return (scast legacy_count)"
      count] single_varint [OF assms] parses_varint [of count]
  by (simp add: parses_return)

lemma parses_empty_stack:
  assumes "mc_protocol_supported protocol"
  shows "rd_parses (stack_body gz protocol) (plain_item_bytes protocol (0, 0)) (item_stack_start MC_ITEM_WIRE_FULL)"
proof -
  consider "protocol \<le> 401" | "\<not> protocol \<le> 401" "protocol < 766" | "\<not> protocol \<le> 401" "\<not> protocol < 766" by linarith
  then show ?thesis
  proof cases
    case 1
    then show ?thesis
      by (auto simp: stack_body_def item_stack_legacy_def plain_item_bytes_def Let_def parses_return
          intro!: parses_bind_nil [OF parses_u16])
  next
    case 2
    then show ?thesis
      by (auto simp: stack_body_def item_stack_present_def plain_item_bytes_def Let_def parses_return
          intro!: parses_bind_nil [OF parses_bool])
  next
    case 3
    have "rd_parses (item_stack_components protocol MC_ITEM_WIRE_FULL (item_stack_start MC_ITEM_WIRE_FULL))
        (varint_bytes 0) (item_stack_start MC_ITEM_WIRE_FULL)"
      unfolding item_stack_components_def
      by (rule parses_bind_nil [of _ _ 0]) (use parses_component_count [of 0 protocol] in \<open>simp_all add: parses_return\<close>)
    with 3 show ?thesis by (simp add: stack_body_def plain_item_bytes_def Let_def)
  qed
qed

lemma u16_below:
  assumes "0 < sint (item :: i32)" "sint item \<le> 32767"
  shows "\<not> (ucast item :: u16) > 0x7fff"
  using assms uint_nonneg_sint [of item] by (simp add: word_less_def unsigned_ucast_eq take_bit_int_eq_self)

lemma parses_full_stack:
  assumes supported: "mc_protocol_supported protocol"
    and item: "0 < sint item" "protocol \<le> 401 \<longrightarrow> sint item \<le> 32767"
    and count: "0 < sint count" "sint count \<le> 127"
  shows "rd_parses (stack_body gz protocol) (plain_item_bytes protocol (item, count))
    ((item_stack_start MC_ITEM_WIRE_FULL)\<lparr>is_present := True, is_item_id := item, is_count := count,
       is_nbt := (if 5 < protocol \<and> protocol < 766 then [0] else [])\<rparr>)"
proof -
  let ?start = "item_stack_start MC_ITEM_WIRE_FULL"
  have nz: "count \<noteq> 0" "item \<noteq> 0" using item count by auto
  have c: "ucast (ucast count :: u8) = count" "(ucast count :: u8) \<noteq> 0" "\<not> (ucast count :: u8) > 127"
    using narrow_u8 [of count] count nz by auto
  have i: "ucast (ucast item :: u16) = item" "(ucast item :: u16) \<noteq> 0xffff" "(ucast item :: u16) \<noteq> 0"
      "\<not> (ucast item :: u16) > 0x7fff"
    if "protocol \<le> 401" using narrow_u16 [of item] item nz that u16_below [of item] by auto
  consider "protocol \<le> 401" | "\<not> protocol \<le> 401" "protocol < 766" | "\<not> protocol \<le> 401" "\<not> protocol < 766" by linarith
  then show ?thesis
  proof cases
    case 1
    let ?damage = "if protocol \<le> 340 then be_bytes 2 (0 :: u16) else []"
    let ?tail = "if protocol \<le> 5 then be_bytes 2 (-1 :: i16) else [0]"
    have damage: "rd_parses (rd_when (protocol \<le> 340) 0 mc_reader_u16) ?damage 0"
      by (simp add: rd_when_def parses_return parses_u16)
    have slot: "rd_parses (rd_bind (rd_test (\<not> ((ucast item :: u16) = 0 \<or> (ucast item :: u16) > 0x7fff))) (\<lambda>_.
          rd_bind (rd_such mc_reader_u8 (\<lambda>count. \<not> (count = 0 \<or> count > 127))) (\<lambda>count.
          rd_bind (rd_when (protocol \<le> 340) 0 mc_reader_u16) (\<lambda>damage. rd_return (count, damage)))))
        ([ucast count] @ ?damage @ []) (ucast count, 0)"
      using c i [OF 1]
      by (intro parses_bind_test parses_item_such(2) [OF parses_u8] parses_bind [OF damage] parses_return) simp_all
    have "rd_parses (item_stack_legacy gz protocol ?start)
       (be_bytes 2 (ucast item :: u16) @ ([ucast count] @ ?damage @ []) @ ?tail)
       (?start\<lparr>is_present := True, is_item_id := item, is_count := count,
         is_nbt := (if 5 < protocol then [0] else [])\<rparr>)"
      unfolding item_stack_legacy_def
      by (rule parses_bind [OF parses_u16], simp only: i(2) [OF 1] if_False, rule parses_bind [OF parses_orelse [OF slot]])
        (use c i(1) [OF 1] in \<open>auto simp: parses_return item_stack_start_def Let_def
          intro!: parses_bind_nil [OF parses_same_width(2)] parses_bind_nil [OF parses_empty_nbt]\<close>)
    then show ?thesis using 1 nz by (simp add: stack_body_def plain_item_bytes_def)
  next
    case 2
    have slot: "rd_parses
        (rd_bind mc_reader_varint (\<lambda>item_id. rd_bind mc_reader_u8 (\<lambda>count.
          rd_bind (rd_test (\<not> (sint item_id \<le> 0 \<or> count = 0 \<or> count > 127))) (\<lambda>_.
          rd_bind (mc_reader_nbt (protocol < 764)) (\<lambda>nbt. rd_return (item_id, count, nbt))))))
        (varint_bytes item @ [ucast count] @ [0] @ []) (item, ucast count, [0])"
      by (intro parses_bind [OF parses_varint] parses_bind [OF parses_u8] parses_bind_test
          parses_bind [OF parses_empty_nbt] parses_return) (use item c in simp_all)
    have "rd_parses (item_stack_present protocol ?start)
        ([bool_byte True] @ (varint_bytes item @ [ucast count] @ [0] @ []) @ [])
       (?start\<lparr>is_present := True, is_item_id := item, is_count := count, is_nbt := [0]\<rparr>)"
      unfolding item_stack_present_def
      by (rule parses_bind [OF parses_bool], simp only: not_True_eq_False if_False,
          rule parses_bind [OF parses_orelse [OF slot]]) (simp add: parses_return c)
    then show ?thesis using 2 nz by (simp add: stack_body_def plain_item_bytes_def bool_byte_def)
  next
    case 3
    have range: "\<not> (sint count < 0 \<or> sint count > 127)" using count by simp
    have slot: "rd_parses
        (rd_bind mc_reader_varint (\<lambda>item_id. rd_bind mc_reader_varint (\<lambda>added.
          rd_bind mc_reader_varint (\<lambda>removed.
          rd_bind (rd_test (\<not> sint item_id \<le> 0)) (\<lambda>_.
          rd_bind (typed_count added MC_MAX_ITEM_COMPONENT_COUNT) (\<lambda>_.
          rd_bind (typed_count removed MC_MAX_ITEM_COMPONENT_COUNT) (\<lambda>_.
          rd_bind (rd_test (\<not> unat added + unat removed > MC_MAX_ITEM_COMPONENT_COUNT)) (\<lambda>_.
          rd_return (item_id, added, removed)))))))))
        (varint_bytes item @ varint_bytes 0 @ varint_bytes 0 @ []) (item, 0, 0)"
      by (intro parses_bind [OF parses_varint] parses_bind_test parses_bind_nil [OF parses_count] parses_return)
        (use item in simp_all)
    have body: "rd_parses (rd_capture (rd_return ())) [] ((), [])"
      by (rule parses_capture [OF parses_return])
    have counted: "rd_parses (if MC_ITEM_WIRE_FULL = MC_ITEM_WIRE_FULL \<and> protocol = 766
          then rd_bind mc_reader_i8 (\<lambda>legacy_count. rd_return (scast legacy_count)) else mc_reader_varint)
        (varint_bytes count) count"
      using parses_component_count [of count protocol] count by simp
    have "rd_parses (item_stack_components protocol MC_ITEM_WIRE_FULL ?start)
       (varint_bytes count @ (varint_bytes item @ varint_bytes 0 @ varint_bytes 0 @ []) @ [] @ [])
       (?start\<lparr>is_present := True, is_item_id := item, is_count := count, is_nbt := []\<rparr>)"
      unfolding item_stack_components_def
      by (rule parses_bind [OF counted], simp only: if_not_P [OF range] if_not_P [OF nz(1)],
          rule parses_bind [OF parses_orelse [OF slot]])
        (simp add: item_stack_start_def, rule parses_bind_nil [OF body], simp add: parses_return)
    then show ?thesis using 3 nz by (simp add: stack_body_def plain_item_bytes_def)
  qed
qed
lemma parses_plain_stack:
  assumes ok: "plain_item_ok protocol (item, count)" and small: "protocol \<le> 401 \<longrightarrow> sint item \<le> 32767"
  shows "rd_parses (mc_reader_item_stack gz protocol MC_ITEM_WIRE_FULL)
    (plain_item_bytes protocol (item, count)) (plain_view protocol (item, count))"
proof -
  have supported: "mc_protocol_supported protocol" using ok by (simp add: plain_item_ok_def)
  from plain_item_ok_cases [OF ok] show ?thesis
  proof
    assume empty: "item = 0 \<and> count = 0"
    show ?thesis
      using parses_stack [OF supported parses_empty_stack [OF supported], of gz]
      by (simp add: empty plain_view_def item_stack_start_def)
  next
    assume full: "0 < sint item \<and> (protocol \<le> 401 \<longrightarrow> sint item < 65535) \<and> 0 < sint count \<and> sint count \<le> 127"
    then have "count \<noteq> 0" by auto
    then show ?thesis
      using parses_stack [OF supported parses_full_stack [OF supported _ small], of count gz] full
      by (simp add: plain_view_def item_stack_start_def)
  qed
qed

text \<open>Above 32767 the reader rejects what the writer of plain items accepts.\<close>

lemma large_legacy_stack:
  assumes "mc_protocol_supported protocol" "protocol \<le> 401" "32767 < sint (item :: i32)" "sint item < 65535"
    and "\<not> rd_failed r" "rd_ok r" "drop (rd_offset r) (rd_data r) = be_bytes 2 (ucast item :: u16) @ rest"
  shows "fst (mc_reader_item_stack gz protocol MC_ITEM_WIRE_FULL r) = None"
proof -
  have big: "(ucast item :: u16) > 0x7fff" "(ucast item :: u16) \<noteq> 0xffff"
    using narrow_u16 [of item] assms(3,4) uint_nonneg_sint [of item]
    by (simp_all add: word_less_def unsigned_ucast_eq take_bit_int_eq_self)
  show ?thesis
    unfolding mc_reader_item_stack_def
    using assms(1,2,5) rd_parsesD [OF parses_u16 assms(5-7)] big
    by (simp add: rd_supported_def rd_live_def rd_bind_def rd_capture_def Let_def item_stack_legacy_def rd_orelse_def
        rd_test_def typed_invalid_def rd_here_def reader_fail_def)
qed

subsection \<open>Bounds\<close>

definition item_stack_bounded :: "mc_item_stack_view \<Rightarrow> bool" where
  "item_stack_bounded v \<longleftrightarrow>
     unat (is_added_component_count v) + unat (is_removed_component_count v) \<le> MC_MAX_ITEM_COMPONENT_COUNT
     \<and> (is_present v \<longrightarrow> 0 < sint (is_item_id v) \<and> 0 < sint (is_count v) \<and> sint (is_count v) \<le> 127)
     \<and> (\<not> is_present v \<longrightarrow> is_added_component_count v = 0 \<and> is_removed_component_count v = 0
          \<and> is_nbt v = [] \<and> is_components v = [])"

lemma post_fail: "rd_post (rd_here (\<lambda>off. reader_fail code (g off))) P" "rd_post typed_invalid P"
  by (auto simp: rd_post_def rd_can_def rd_here_def reader_fail_def typed_invalid_def)

lemma post_start: "item_stack_bounded (item_stack_start wire_kind)"
  by (simp add: item_stack_bounded_def item_stack_start_def)

lemma post_bind_orelse: "rd_post (rd_bind m f) P \<Longrightarrow> rd_post (rd_bind (rd_orelse m h) f) P"
  by (auto simp: rd_post_def rd_can_def rd_bind_cases rd_orelse_cases split: option.splits)

lemma can_capture: "rd_can (rd_capture m) (x, bs) \<Longrightarrow> rd_can m x"
proof -
  assume "rd_can (rd_capture m) (x, bs)"
  then obtain r where "fst (rd_capture m r) = Some (x, bs)" by (auto simp: rd_can_def)
  then have "fst (m r) = Some x" by (cases "m r") (auto simp: rd_capture_def split: option.splits)
  then show ?thesis by (auto simp: rd_can_def)
qed

lemma post_bind_capture:
  assumes "\<And>x bs. rd_can m x \<Longrightarrow> rd_post (f (x, bs)) P"
  shows "rd_post (rd_bind (rd_capture m) f) P"
proof (rule post_bind)
  show "rd_post (f y) P" if "rd_can (rd_capture m) y" for y
    using that assms can_capture [of m "fst y" "snd y"] by (cases y) simp
qed

lemma post_count:
  "(0 \<le> sint v \<Longrightarrow> unat v \<le> maximum \<Longrightarrow> rd_post (f ()) P) \<Longrightarrow> rd_post (rd_bind (typed_count v maximum) f) P"
  by (cases "sint v < 0 \<or> unat v > maximum")
     (auto simp: typed_count_def not_less rd_post_def rd_can_def rd_here_def reader_fail_def rd_bind_cases)

lemmas item_posts = post_bind_orelse post_count post_bind_capture post_start post_fail rd_posts

lemma sint_ucast_small:
  assumes "LENGTH('a) < LENGTH('b)" shows "sint (ucast (b :: 'a::len word) :: 'b::len word) = uint b"
proof -
  have b: "uint b < 2 ^ LENGTH('a)" by (rule uint_lt2p)
  also have "\<dots> \<le> 2 ^ (LENGTH('b) - 1)" using assms by (intro power_increasing) auto
  finally have "uint b < 2 ^ (LENGTH('b) - 1)" .
  moreover have "uint (ucast b :: 'b word) = uint b" using assms by (simp add: uint_up_ucast is_up)
  ultimately show ?thesis
    by (subst sint_uint) (simp add: signed_take_bit_int_eq_self [OF order_trans [OF _ uint_ge_0]])
qed

lemma word_positive:
  "w \<noteq> 0 \<Longrightarrow> 0 < uint w" "\<not> sint w < 0 \<Longrightarrow> w \<noteq> 0 \<Longrightarrow> 0 < sint w"
  by (simp add: uint_0_iff order_less_le, metis linorder_neqE signed_0 signed_word_eqI not_less order_less_le)

lemma post_supported: "rd_post m P \<Longrightarrow> rd_post (rd_supported protocol m) P"
  by (auto simp: rd_supported_def rd_live_def rd_post_def rd_can_def reader_fail_protocol_def Let_def rd_here_def reader_fail_def)

lemma post_hashed_parts:
  "rd_post
     (rd_bind (rd_repeat n m) (\<lambda>_.
      rd_bind (rd_orelse
        (rd_bind mc_reader_varint (\<lambda>removed.
         rd_bind (typed_count removed MC_MAX_ITEM_COMPONENT_COUNT) (\<lambda>_.
         rd_bind (rd_test (\<not> k + unat removed > MC_MAX_ITEM_COMPONENT_COUNT)) (\<lambda>_. rd_return removed))))
        (typed_invalid :: unit rd)) (\<lambda>removed.
      rd_bind (rd_repeat (unat removed) q) (\<lambda>_. rd_return removed))))
     (\<lambda>removed. k + unat removed \<le> MC_MAX_ITEM_COMPONENT_COUNT)"
  by (rule item_posts post_bind)+ simp

lemma post_hashed: "rd_post (item_stack_hashed protocol (item_stack_start wire_kind)) item_stack_bounded"
  unfolding item_stack_hashed_def
  by ((rule item_posts post_bind)+, (use can_postD [OF _ post_hashed_parts] in
      \<open>fastforce simp: item_stack_bounded_def item_stack_start_def not_less\<close>))+

lemma post_present: "rd_post (item_stack_present protocol (item_stack_start wire_kind)) item_stack_bounded"
  unfolding item_stack_present_def
  by ((rule item_posts post_bind)+, simp add: item_stack_bounded_def item_stack_start_def sint_ucast_small word_less_def
      word_positive not_le not_less)+

lemma post_legacy: "rd_post (item_stack_legacy gz protocol (item_stack_start wire_kind)) item_stack_bounded"
  unfolding item_stack_legacy_def Let_def
  by ((rule item_posts post_bind)+, simp add: item_stack_bounded_def item_stack_start_def sint_ucast_small word_less_def
      word_positive not_less)+

lemma post_components: "rd_post (item_stack_components protocol kind (item_stack_start wire_kind)) item_stack_bounded"
  unfolding item_stack_components_def
  by ((rule item_posts post_bind)+, simp add: item_stack_bounded_def item_stack_start_def word_positive)+

lemma item_stack_result: "rd_post (mc_reader_item_stack gz protocol wire_kind) item_stack_bounded"
proof -
  have keep: "item_stack_bounded (decoded\<lparr>is_encoded := encoded\<rparr>)" if "item_stack_bounded decoded" for decoded encoded
    using that by (simp add: item_stack_bounded_def)
  have body: "rd_post
      (let decoded = item_stack_start wire_kind in
       if wire_kind = MC_ITEM_WIRE_HASHED then item_stack_hashed protocol decoded
       else if protocol \<le> 401 then item_stack_legacy gz protocol decoded
       else if protocol < 766 then item_stack_present protocol decoded
       else item_stack_components protocol wire_kind decoded) item_stack_bounded"
    by (simp add: Let_def post_hashed post_legacy post_present post_components)
  have "rd_post (rd_bind (rd_capture m) (\<lambda>(decoded, encoded). rd_return (decoded\<lparr>is_encoded := encoded\<rparr>)))
      item_stack_bounded" if "rd_post m item_stack_bounded" for m
    by (rule post_bind_capture) (simp add: post_return keep can_postD [OF _ that])
  from this [OF body] show ?thesis
    unfolding mc_reader_item_stack_def by (rule post_supported)
qed
end
