(* ===== verification/Stream.thy ===== *)
theory Stream
  imports Primitives
begin

text \<open>
  The incremental frame decoder of \<open>api.c\<close> (section STREAM FRAMING): the state \<open>McStreamDecoder\<close>,
  its buffers and their growth, the frame decoding with and without compression, and the public
  operations create, reset, set\_compression, feed, finish with the readiness probe.

  State. \<open>sd_buffer\<close> holds the \<open>buffer_size\<close> buffered bytes and \<open>sd_output\<close> the \<open>output_size\<close> bytes
  of output; both capacities are kept. A payload view of an emitted frame points into the output
  allocation: the pointer is the number of the allocation (\<open>sd_block\<close> counts them) and an offset,
  so that a view left behind by a reallocation would be seen. \<open>McDecodedFrame\<close> entries are the
  list of the frames written so far.

  Environment. Whether an allocation of a given size succeeds and what zlib's \<open>inflate\<close> does are
  parameters: \<open>env_inflate input n\<close> is the result of one \<open>inflate(Z_FINISH)\<close> of \<open>input\<close> into \<open>n\<close>
  bytes, the output and the number of input bytes left if it reached the end of the zlib stream.
\<close>

record mc_stream_decoder_config =
  cf_max_frame_size :: nat
  cf_max_decompressed_size :: nat
  cf_max_buffered_size :: nat
  cf_max_output_size :: nat
  cf_mode :: mc_decode_mode

record mc_stream_decoder =
  sd_config :: mc_stream_decoder_config
  sd_buffer :: "u8 list"
  sd_buffer_capacity :: nat
  sd_output :: "u8 list"
  sd_output_capacity :: nat
  sd_block :: nat
  sd_stream_offset :: nat
  sd_compression_threshold :: int
  sd_transition_ready :: bool
  sd_failed :: bool
  sd_last_error :: mc_error

record mc_decoded_frame =
  df_packet_id :: i32
  df_block :: nat
  df_offset :: nat
  df_size :: nat
  df_compressed :: bool

record stream_env =
  env_alloc :: "nat \<Rightarrow> bool"
  env_inflate :: "u8 list \<Rightarrow> nat \<Rightarrow> (u8 list \<times> nat) option"

definition saturating_add :: "nat \<Rightarrow> nat \<Rightarrow> nat" where
  "saturating_add left right = (if right > SIZE_MAX - left then SIZE_MAX else left + right)"

definition stream_absolute_offset :: "mc_stream_decoder \<Rightarrow> nat \<Rightarrow> nat" where
  "stream_absolute_offset d relative = saturating_add (sd_stream_offset d) relative"

text \<open>
  \<open>stream_fail\<close> returns -1; the error it copies to the caller is the last error of the decoder it
  leaves. \<open>copy_error\<close> is the same copy on an already failed decoder.
\<close>

definition stream_fail :: "mc_error_code \<Rightarrow> nat \<Rightarrow> mc_stream_decoder \<Rightarrow> mc_stream_decoder" where
  "stream_fail code off d =
     (if sd_failed d then d
      else d\<lparr>sd_last_error := mc_error_clear\<lparr>er_code := code, er_offset := off\<rparr>, sd_failed := True\<rparr>)"

subsection \<open>Variable-length integers in a buffer\<close>

datatype varint_status =
    MC_VARINT_COMPLETE i32 nat
  | MC_VARINT_PARTIAL
  | MC_VARINT_INVALID mc_error_code nat

function stream_varint_loop :: "u8 list \<Rightarrow> mc_decode_mode \<Rightarrow> nat \<Rightarrow> u32 \<Rightarrow> varint_status" where
  "stream_varint_loop data mode index result =
     (if index < min (length data) 5 then
        let byte = data ! index in
        if index = 4 \<and> byte AND 0xf0 \<noteq> 0 then MC_VARINT_INVALID MC_ERROR_VARINT_OVERFLOW index
        else
          let result' = result OR push_bit (index * 7) (ucast (byte AND 0x7f)) in
          if byte AND 0x80 = 0 then
            if mode = MC_DECODE_STRICT \<and> varint_size_u32 result' \<noteq> index + 1
            then MC_VARINT_INVALID MC_ERROR_VARINT_NON_CANONICAL index
            else MC_VARINT_COMPLETE (ucast result') (index + 1)
          else stream_varint_loop data mode (index + 1) result'
      else if length data < 5 then MC_VARINT_PARTIAL
      else MC_VARINT_INVALID MC_ERROR_VARINT_OVERFLOW 4)"
  by pat_completeness auto
termination
  by (relation "measure (\<lambda>(data, mode, index, result). 5 - index)") auto

declare stream_varint_loop.simps [simp del]

definition stream_varint :: "u8 list \<Rightarrow> mc_decode_mode \<Rightarrow> varint_status" where
  "stream_varint data mode = stream_varint_loop data mode 0 0"

subsection \<open>Growing the buffers\<close>

text \<open>The doubling loop that \<open>stream_reserve\<close> and \<open>stream_reserve_output\<close> share.\<close>

function stream_grow :: "nat \<Rightarrow> nat \<Rightarrow> nat \<Rightarrow> nat" where
  "stream_grow needed maximum grown =
     (if grown < needed then
        let grown' = (if grown > maximum div 2 then maximum else grown * 2) in
        if grown' \<le> grown then needed else stream_grow needed maximum grown'
      else grown)"
  by pat_completeness auto
termination
  by (relation "measure (\<lambda>(needed, maximum, grown). needed - grown)") (auto simp: Let_def split: if_splits)

declare stream_grow.simps [simp del]

definition stream_grown :: "nat \<Rightarrow> nat \<Rightarrow> nat \<Rightarrow> nat" where
  "stream_grown capacity needed maximum =
     (let grown = (if capacity = 0 then 4096 else capacity);
          grown' = (if grown > maximum then maximum else grown)
      in stream_grow needed maximum grown')"

text \<open>\<open>stream_reserve\<close> on the input buffer: the new capacity, or \<^term>\<open>None\<close> when it returns false.\<close>

definition stream_reserve :: "stream_env \<Rightarrow> nat \<Rightarrow> nat \<Rightarrow> nat \<Rightarrow> nat option" where
  "stream_reserve env capacity needed maximum =
     (if needed > maximum then None
      else if needed \<le> capacity then Some capacity
      else let grown = stream_grown capacity needed maximum
           in if env_alloc env grown then Some grown else None)"

text \<open>
  \<open>stream_reserve_output\<close> moves the output to a new allocation and every payload view with it.
\<close>

definition stream_reserve_output :: "stream_env \<Rightarrow> nat \<Rightarrow> mc_stream_decoder \<Rightarrow> mc_decoded_frame list
    \<Rightarrow> (mc_stream_decoder \<times> mc_decoded_frame list) option" where
  "stream_reserve_output env needed d frames =
     (if needed > cf_max_output_size (sd_config d) then None
      else if needed \<le> sd_output_capacity d then Some (d, frames)
      else let grown = stream_grown (sd_output_capacity d) needed (cf_max_output_size (sd_config d))
           in if env_alloc env grown
              then Some (d\<lparr>sd_block := sd_block d + 1, sd_output_capacity := grown\<rparr>,
                         map (\<lambda>f. f\<lparr>df_block := sd_block d + 1\<rparr>) frames)
              else None)"

subsection \<open>Decoding one frame\<close>

text \<open>
  The functions below return the C result (true for 0), the decoder and the frames.
  \<open>stream_finish_packet\<close> receives the bytes its caller has written at \<open>output + start\<close>, where
  \<open>start\<close> is the output size.
\<close>

type_synonym emit_result = "bool \<times> mc_stream_decoder \<times> mc_decoded_frame list"

definition stream_finish_packet ::
  "mc_stream_decoder \<Rightarrow> u8 list \<Rightarrow> bool \<Rightarrow> mc_decoded_frame list \<Rightarrow> nat \<Rightarrow> emit_result" where
  "stream_finish_packet d packet compressed frames packet_offset =
     (if packet = [] then (False, stream_fail MC_ERROR_INVALID_PACKET_BODY packet_offset d, frames)
      else case stream_varint packet (cf_mode (sd_config d)) of
          MC_VARINT_COMPLETE packet_id id_size \<Rightarrow>
            if sint packet_id < 0
            then (False, stream_fail MC_ERROR_INVALID_PACKET_BODY (saturating_add packet_offset 0) d, frames)
            else (True, d\<lparr>sd_output := sd_output d @ packet\<rparr>,
                  frames @ [\<lparr>df_packet_id = packet_id, df_block = sd_block d,
                             df_offset = length (sd_output d) + id_size,
                             df_size = length packet - id_size, df_compressed = compressed\<rparr>])
        | MC_VARINT_INVALID code off \<Rightarrow>
            (False, stream_fail code (saturating_add packet_offset off) d, frames)
        | MC_VARINT_PARTIAL \<Rightarrow>
            (False, stream_fail MC_ERROR_INVALID_PACKET_BODY (saturating_add packet_offset 0) d, frames))"

definition stream_emit_uncompressed ::
  "stream_env \<Rightarrow> mc_stream_decoder \<Rightarrow> u8 list \<Rightarrow> bool \<Rightarrow> mc_decoded_frame list \<Rightarrow> nat \<Rightarrow> emit_result" where
  "stream_emit_uncompressed env d packet compressed frames packet_offset =
     (if length packet > SIZE_MAX - length (sd_output d)
      then (False, stream_fail MC_ERROR_INTEGER_OVERFLOW packet_offset d, frames)
      else
        let needed = length (sd_output d) + length packet in
        if needed > cf_max_output_size (sd_config d)
        then (False, stream_fail MC_ERROR_BUFFER_LIMIT packet_offset d, frames)
        else case stream_reserve_output env needed d frames of
            None \<Rightarrow> (False, stream_fail MC_ERROR_OUT_OF_MEMORY packet_offset d, frames)
          | Some (d', frames') \<Rightarrow> stream_finish_packet d' packet compressed frames' packet_offset)"

definition stream_emit_compressed ::
  "stream_env \<Rightarrow> mc_stream_decoder \<Rightarrow> u8 list \<Rightarrow> nat \<Rightarrow> mc_decoded_frame list \<Rightarrow> nat \<Rightarrow> emit_result" where
  "stream_emit_compressed env d compressed declared_size frames packet_offset =
     (if length compressed > UINT_MAX \<or> declared_size > UINT_MAX
      then (False, stream_fail MC_ERROR_INTEGER_OVERFLOW packet_offset d, frames)
      else if declared_size > SIZE_MAX - length (sd_output d)
      then (False, stream_fail MC_ERROR_INTEGER_OVERFLOW packet_offset d, frames)
      else
        let needed = length (sd_output d) + declared_size in
        if needed > cf_max_output_size (sd_config d)
        then (False, stream_fail MC_ERROR_BUFFER_LIMIT packet_offset d, frames)
        else case stream_reserve_output env needed d frames of
            None \<Rightarrow> (False, stream_fail MC_ERROR_OUT_OF_MEMORY packet_offset d, frames)
          | Some (d', frames') \<Rightarrow>
              (case env_inflate env compressed declared_size of
                 None \<Rightarrow> (False, stream_fail MC_ERROR_ZLIB packet_offset d', frames')
               | Some (packet, trailing) \<Rightarrow>
                   if length packet \<noteq> declared_size
                      \<or> (cf_mode (sd_config d') = MC_DECODE_STRICT \<and> trailing \<noteq> 0)
                   then (False, stream_fail MC_ERROR_ZLIB packet_offset d', frames')
                   else stream_finish_packet d' packet True frames' packet_offset))"

definition stream_decode_frame ::
  "stream_env \<Rightarrow> mc_stream_decoder \<Rightarrow> u8 list \<Rightarrow> mc_decoded_frame list \<Rightarrow> nat \<Rightarrow> emit_result" where
  "stream_decode_frame env d frame frames frame_offset =
     (if sd_compression_threshold d < 0
      then stream_emit_uncompressed env d frame False frames frame_offset
      else case stream_varint frame (cf_mode (sd_config d)) of
          MC_VARINT_INVALID code off \<Rightarrow>
            (False, stream_fail code (saturating_add frame_offset off) d, frames)
        | MC_VARINT_PARTIAL \<Rightarrow>
            (False, stream_fail MC_ERROR_COMPRESSION_HEADER (saturating_add frame_offset 0) d, frames)
        | MC_VARINT_COMPLETE declared header_size \<Rightarrow>
            if sint declared < 0
            then (False, stream_fail MC_ERROR_COMPRESSION_HEADER (saturating_add frame_offset 0) d, frames)
            else
              let body = drop header_size frame;
                  body_offset = saturating_add frame_offset header_size
              in if declared = 0 then
                   if cf_mode (sd_config d) = MC_DECODE_STRICT
                      \<and> length body \<ge> nat (sd_compression_threshold d)
                   then (False, stream_fail MC_ERROR_COMPRESSION_THRESHOLD frame_offset d, frames)
                   else stream_emit_uncompressed env d body False frames body_offset
                 else if unat declared > cf_max_decompressed_size (sd_config d)
                 then (False, stream_fail MC_ERROR_DECOMPRESSED_TOO_LARGE frame_offset d, frames)
                 else if cf_mode (sd_config d) = MC_DECODE_STRICT
                         \<and> sint declared < sd_compression_threshold d
                 then (False, stream_fail MC_ERROR_COMPRESSION_THRESHOLD frame_offset d, frames)
                 else stream_emit_compressed env d body (unat declared) frames body_offset)"

subsection \<open>The public operations\<close>

definition mc_stream_decoder_config_init :: mc_stream_decoder_config where
  "mc_stream_decoder_config_init =
     \<lparr>cf_max_frame_size = 16 * 1024 * 1024, cf_max_decompressed_size = 16 * 1024 * 1024,
      cf_max_buffered_size = 64 * 1024 * 1024, cf_max_output_size = 32 * 1024 * 1024,
      cf_mode = MC_DECODE_VANILLA_COMPAT\<rparr>"

text \<open>The condition \<open>create\<close> rejects a configuration on.\<close>

definition stream_config_invalid :: "mc_stream_decoder_config \<Rightarrow> bool" where
  "stream_config_invalid effective =
     (let invalid_mode = (cf_mode effective \<noteq> MC_DECODE_VANILLA_COMPAT
                          \<and> cf_mode effective \<noteq> MC_DECODE_STRICT);
          frame_overflow = (cf_max_frame_size effective > SIZE_MAX - 5)
      in cf_max_frame_size effective = 0
         \<or> cf_max_frame_size effective > INT32_MAX
         \<or> cf_max_decompressed_size effective = 0
         \<or> cf_max_decompressed_size effective > INT32_MAX
         \<or> cf_max_buffered_size effective = 0
         \<or> cf_max_output_size effective = 0
         \<or> cf_max_output_size effective < cf_max_decompressed_size effective
         \<or> frame_overflow
         \<or> (\<not> frame_overflow \<and> cf_max_buffered_size effective < cf_max_frame_size effective + 5)
         \<or> invalid_mode)"

text \<open>
  \<open>calloc_ok\<close> says whether the decoder could be allocated. The result is the decoder, if any, and
  the error of the caller.
\<close>

definition mc_stream_decoder_create ::
  "bool \<Rightarrow> mc_stream_decoder_config option \<Rightarrow> mc_stream_decoder option \<times> mc_error" where
  "mc_stream_decoder_create calloc_ok config =
     (let effective = (case config of None \<Rightarrow> mc_stream_decoder_config_init | Some c \<Rightarrow> c)
      in if stream_config_invalid effective
         then (None, record_error MC_ERROR_INVALID_ARGUMENT MC_ERROR_OFFSET_UNKNOWN mc_error_clear)
         else if \<not> calloc_ok
         then (None, record_error MC_ERROR_OUT_OF_MEMORY MC_ERROR_OFFSET_UNKNOWN mc_error_clear)
         else (Some \<lparr>sd_config = effective, sd_buffer = [], sd_buffer_capacity = 0, sd_output = [],
                     sd_output_capacity = 0, sd_block = 0, sd_stream_offset = 0,
                     sd_compression_threshold = -1, sd_transition_ready = False,
                     sd_failed = False, sd_last_error = mc_error_clear\<rparr>,
               mc_error_clear))"

definition mc_stream_decoder_reset :: "mc_stream_decoder \<Rightarrow> mc_stream_decoder" where
  "mc_stream_decoder_reset d =
     d\<lparr>sd_buffer := [], sd_output := [], sd_stream_offset := 0, sd_compression_threshold := -1,
       sd_transition_ready := False, sd_failed := False, sd_last_error := mc_error_clear\<rparr>"

definition mc_stream_decoder_buffered_size :: "mc_stream_decoder option \<Rightarrow> nat" where
  "mc_stream_decoder_buffered_size d = (case d of None \<Rightarrow> 0 | Some d \<Rightarrow> length (sd_buffer d))"

definition mc_stream_decoder_retained_size :: "mc_stream_decoder option \<Rightarrow> nat" where
  "mc_stream_decoder_retained_size d =
     (case d of None \<Rightarrow> 0 | Some d \<Rightarrow> saturating_add (sd_buffer_capacity d) (sd_output_capacity d))"

definition mc_stream_decoder_set_compression ::
  "mc_stream_decoder \<Rightarrow> int \<Rightarrow> bool \<times> mc_stream_decoder \<times> mc_error" where
  "mc_stream_decoder_set_compression d threshold =
     (if threshold < -1
      then (False, d, record_error MC_ERROR_INVALID_ARGUMENT
              (stream_absolute_offset d (length (sd_buffer d))) mc_error_clear)
      else if sd_failed d then (False, d, sd_last_error d)
      else if sd_buffer d \<noteq> [] \<and> \<not> sd_transition_ready d
      then (False, d, record_error MC_ERROR_INVALID_STATE
              (stream_absolute_offset d (length (sd_buffer d))) mc_error_clear)
      else (True, d\<lparr>sd_compression_threshold := threshold, sd_transition_ready := False\<rparr>,
            mc_error_clear))"

definition stream_consume :: "nat \<Rightarrow> mc_stream_decoder \<Rightarrow> mc_stream_decoder" where
  "stream_consume consumed d =
     (if consumed = 0 then d
      else d\<lparr>sd_buffer := drop consumed (sd_buffer d),
             sd_stream_offset := saturating_add (sd_stream_offset d) consumed\<rparr>)"

lemma stream_varint_loop_size:
  "stream_varint_loop data mode index result = MC_VARINT_COMPLETE v n
     \<Longrightarrow> index < n \<and> n \<le> length data \<and> n \<le> 5"
proof (induction data mode index result rule: stream_varint_loop.induct)
  case (1 data mode index result)
  show ?case
    using "1.prems" "1.IH" [OF _ refl _ refl]
    unfolding stream_varint_loop.simps [of data mode index result] Let_def
    by (auto split: if_splits)
qed

lemma stream_varint_size:
  "stream_varint data mode = MC_VARINT_COMPLETE v n \<Longrightarrow> 0 < n \<and> n \<le> length data \<and> n \<le> 5"
  unfolding stream_varint_def using stream_varint_loop_size by blast

text \<open>
  The loop of \<open>feed\<close>. \<open>buf\<close> is the buffer, which the loop only reads; \<open>consumed\<close> grows by at least
  one byte per frame. The exits through an error consume what was decoded before they fail.
\<close>

function stream_feed_loop :: "stream_env \<Rightarrow> u8 list \<Rightarrow> nat \<Rightarrow> nat \<Rightarrow> mc_stream_decoder
    \<Rightarrow> mc_decoded_frame list \<Rightarrow> bool \<times> nat \<times> mc_stream_decoder \<times> mc_decoded_frame list" where
  "stream_feed_loop env buf frame_capacity consumed d frames =
     (if length frames < frame_capacity \<and> consumed < length buf then
        case stream_varint (drop consumed buf) (cf_mode (sd_config d)) of
          MC_VARINT_PARTIAL \<Rightarrow> (True, consumed, d, frames)
        | MC_VARINT_INVALID code off \<Rightarrow>
            let d' = stream_consume consumed d
            in (False, 0, stream_fail code (stream_absolute_offset d' off) d', frames)
        | MC_VARINT_COMPLETE encoded_size header_size \<Rightarrow>
            if sint encoded_size \<le> 0 then
              let d' = stream_consume consumed d
              in (False, 0, stream_fail MC_ERROR_INVALID_LENGTH (stream_absolute_offset d' 0) d', frames)
            else if unat encoded_size > cf_max_frame_size (sd_config d) then
              let d' = stream_consume consumed d
              in (False, 0, stream_fail MC_ERROR_FRAME_TOO_LARGE (stream_absolute_offset d' 0) d', frames)
            else if length buf - consumed - header_size < unat encoded_size
            then (True, consumed, d, frames)
            else
              case stream_decode_frame env d
                  (take (unat encoded_size) (drop (consumed + header_size) buf)) frames
                  (stream_absolute_offset d (consumed + header_size)) of
                (False, d', frames') \<Rightarrow> (False, 0, stream_consume consumed d', frames')
              | (True, d', frames') \<Rightarrow>
                  stream_feed_loop env buf frame_capacity
                    (consumed + (header_size + unat encoded_size)) d' frames'
      else (True, consumed, d, frames))"
  by pat_completeness auto
termination
  by (relation "measure (\<lambda>(env, buf, frame_capacity, consumed, d, frames). length buf - consumed)")
    (auto dest!: stream_varint_size)

declare stream_feed_loop.simps [simp del]

text \<open>
  \<open>mc_stream_decoder_feed\<close> with valid pointers; \<open>NullBuf n\<close> with \<open>n > 0\<close> is the null data pointer.
  The result is the C result, the decoder and the frames; the count is their number and the
  caller's error is the last error of the decoder.
\<close>

definition mc_stream_decoder_feed :: "stream_env \<Rightarrow> mc_stream_decoder \<Rightarrow> buffer \<Rightarrow> nat
    \<Rightarrow> bool \<times> mc_stream_decoder \<times> mc_decoded_frame list" where
  "mc_stream_decoder_feed env d data frame_capacity =
     (if buf_size data \<noteq> 0 \<and> buf_null data
      then (False, stream_fail MC_ERROR_INVALID_ARGUMENT
              (stream_absolute_offset d (length (sd_buffer d))) d, [])
      else if sd_failed d then (False, d, [])
      else
        let d1 = d\<lparr>sd_transition_ready := False, sd_output := []\<rparr> in
        if buf_size data > cf_max_buffered_size (sd_config d1) - length (sd_buffer d1)
        then (False, stream_fail MC_ERROR_BUFFER_LIMIT
                (stream_absolute_offset d1 (length (sd_buffer d1))) d1, [])
        else case stream_reserve env (sd_buffer_capacity d1)
                 (length (sd_buffer d1) + buf_size data) (cf_max_buffered_size (sd_config d1)) of
            None \<Rightarrow> (False, stream_fail MC_ERROR_OUT_OF_MEMORY
                     (stream_absolute_offset d1 (length (sd_buffer d1))) d1, [])
          | Some capacity \<Rightarrow>
              let d2 = d1\<lparr>sd_buffer_capacity := capacity, sd_buffer := sd_buffer d1 @ buf_bytes data\<rparr>
              in case stream_feed_loop env (sd_buffer d2) frame_capacity 0 d2 [] of
                  (False, _, d3, frames) \<Rightarrow> (False, d3, frames)
                | (True, consumed, d3, frames) \<Rightarrow>
                    let d4 = stream_consume consumed d3
                    in (True, d4\<lparr>sd_transition_ready :=
                                  (frames \<noteq> [] \<and> length frames = frame_capacity \<and> sd_buffer d4 \<noteq> [])\<rparr>,
                        frames))"

definition mc_stream_decoder_finish :: "mc_stream_decoder \<Rightarrow> bool \<times> mc_stream_decoder" where
  "mc_stream_decoder_finish d =
     (if sd_failed d then (False, d)
      else if sd_buffer d \<noteq> []
      then (False, stream_fail MC_ERROR_PARTIAL_INPUT (stream_absolute_offset d (length (sd_buffer d))) d)
      else (True, d))"

definition stream_decoder_frame_ready :: "mc_stream_decoder \<Rightarrow> bool" where
  "stream_decoder_frame_ready d =
     (if sd_failed d then True
      else if sd_buffer d = [] then False
      else case stream_varint (sd_buffer d) (cf_mode (sd_config d)) of
          MC_VARINT_INVALID code off \<Rightarrow> True
        | MC_VARINT_PARTIAL \<Rightarrow> False
        | MC_VARINT_COMPLETE encoded_size header_size \<Rightarrow>
            if sint encoded_size \<le> 0 \<or> unat encoded_size > cf_max_frame_size (sd_config d) then True
            else length (sd_buffer d) - header_size \<ge> unat encoded_size)"

text \<open>The bytes a payload view shows.\<close>

definition frame_payload :: "mc_stream_decoder \<Rightarrow> mc_decoded_frame \<Rightarrow> u8 list" where
  "frame_payload d f = take (df_size f) (drop (df_offset f) (sd_output d))"

end
