(* ===== verification/Stream_Laws.thy ===== *)
theory Stream_Laws
  imports Stream
begin

text \<open>
  What the stream decoder keeps and what it delivers. \<open>stream_wf\<close> is the invariant of the decoder,
  kept by every public operation and so true of every reachable decoder; \<open>frames_ok\<close> says that the
  payload views of a call lie, disjoint and in order, inside the current output allocation.

  The specification has no buffers: \<open>stream_step\<close> takes the next frame off a byte sequence and
  \<open>stream_decodes\<close> takes frames off it one by one. A feed refines it: the bytes buffered before it
  and the bytes fed are the frames it returns followed by the bytes buffered after it.
\<close>

subsection \<open>The two variable-length integer readers agree\<close>

text \<open>What \<open>stream_varint\<close> reports for a run of the packet reader.\<close>

definition varint_report :: "i32 option \<times> mc_reader \<Rightarrow> varint_status" where
  "varint_report res =
     (case res of
        (Some v, r) \<Rightarrow> MC_VARINT_COMPLETE v (rd_offset r)
      | (None, r) \<Rightarrow>
          (case rd_error r of
             Some e \<Rightarrow> if er_code e = MC_ERROR_PARTIAL_INPUT then MC_VARINT_PARTIAL
                       else MC_VARINT_INVALID (er_code e) (er_offset e)
           | None \<Rightarrow> MC_VARINT_PARTIAL))"

lemma mc_reader_u8_live:
  assumes "\<not> rd_failed r" and "rd_offset r < rd_size r"
  shows "mc_reader_u8 r = (Some (rd_data r ! rd_offset r), rd_advance 1 r)"
proof -
  have "take 1 (drop (rd_offset r) (rd_data r)) = [rd_data r ! rd_offset r]"
    using take_drop_Suc [OF assms(2), of 0] by simp
  then show ?thesis
    using assms by (simp add: mc_reader_u8_def rd_bind_def rd_return_def mc_reader_bytes_def rd_advance_def)
qed

lemma mc_reader_u8_end:
  assumes "\<not> rd_failed r" and "rd_offset r = rd_size r"
  shows "mc_reader_u8 r = reader_fail MC_ERROR_PARTIAL_INPUT (rd_size r) r"
  using assms by (simp add: mc_reader_u8_def rd_bind_def mc_reader_bytes_def reader_fail_def)

lemma stream_varint_loop_reader:
  assumes "\<not> rd_failed r" and "rd_offset r = index" and "rd_data r = data" and "rd_mode r = mode"
    and "rd_error r = Some mc_error_clear" and "index \<le> length data" and "index \<le> 5"
  shows "stream_varint_loop data mode index acc
    = varint_report (rd_bind (rd_varint_loop 5 0xf0 index acc) (\<lambda>result. rd_return (ucast result)) r)"
  using assms
proof (induction data mode index acc arbitrary: r rule: stream_varint_loop.induct)
  case (1 data mode index acc)
  consider "index < 5" "index < length data" | "index < 5" "index = length data" | "index = 5"
    using "1.prems" by linarith
  then show ?case
  proof cases
    case 1
    define b where "b = data ! index"
    define acc' where "acc' = acc OR push_bit (index * 7) (ucast (b AND 0x7f))"
    define r1 where "r1 = rd_advance 1 r"
    have u8: "mc_reader_u8 r = (Some b, r1)"
      using mc_reader_u8_live [of r] "1.prems" 1 by (simp add: b_def r1_def)
    have adv: "\<not> rd_failed r1" "rd_offset r1 = index + 1" "rd_data r1 = data" "rd_mode r1 = mode"
      "rd_error r1 = Some mc_error_clear" "index + 1 \<le> length data" "index + 1 \<le> 5"
      using "1.prems" 1 by (simp_all add: r1_def)
    have idx: "index < min (length data) 5" using 1 by simp
    have left: "stream_varint_loop data mode index acc =
        (if index = 4 \<and> b AND 0xf0 \<noteq> 0 then MC_VARINT_INVALID MC_ERROR_VARINT_OVERFLOW index
         else if b AND 0x80 = 0
         then (if mode = MC_DECODE_STRICT \<and> leb_size acc' \<noteq> index + 1
               then MC_VARINT_INVALID MC_ERROR_VARINT_NON_CANONICAL index
               else MC_VARINT_COMPLETE (ucast acc') (index + 1))
         else stream_varint_loop data mode (index + 1) acc')"
      unfolding stream_varint_loop.simps [of data mode index acc] if_P [OF idx] Let_def
      by (simp only: b_def acc'_def varint_size_u32_def)
    have right: "rd_varint_loop 5 0xf0 index acc r =
        (if index = 4 \<and> b AND 0xf0 \<noteq> 0 then reader_fail MC_ERROR_VARINT_OVERFLOW index r1
         else if b AND 0x80 = 0
         then (if mode = MC_DECODE_STRICT \<and> leb_size acc' \<noteq> index + 1
               then reader_fail MC_ERROR_VARINT_NON_CANONICAL index r1
               else (Some acc', r1))
         else rd_varint_loop 5 0xf0 (index + 1) acc' r1)"
      unfolding rd_varint_loop.simps [of 5 _ index acc] if_P [OF 1(1)] rd_bind_def u8
      by (simp add: rd_here_def rd_strict_def rd_return_def Let_def adv flip: acc'_def)
    consider "index = 4 \<and> b AND 0xf0 \<noteq> 0" | "\<not> (index = 4 \<and> b AND 0xf0 \<noteq> 0)" "b AND 0x80 = 0"
      | "\<not> (index = 4 \<and> b AND 0xf0 \<noteq> 0)" "b AND 0x80 \<noteq> 0" by blast
    then show ?thesis
    proof cases
      case 1
      with adv show ?thesis
        unfolding rd_bind_def left right if_P [OF 1]
        by (simp add: varint_report_def reader_fail_def reader_fail_state_def record_error_def)
    next
      case 2
      with adv show ?thesis
        unfolding rd_bind_def left right if_not_P [OF 2(1)] if_P [OF 2(2)]
        by (simp add: rd_return_def varint_report_def reader_fail_def
            reader_fail_state_def record_error_def)
    next
      case 3
      have "stream_varint_loop data mode (index + 1) acc'
          = varint_report (rd_bind (rd_varint_loop 5 0xf0 (index + 1) acc') (\<lambda>result. rd_return (ucast result)) r1)"
        using "1.IH" [OF idx b_def 3(1) acc'_def 3(2) adv] .
      then show ?thesis
        unfolding rd_bind_def left right if_not_P [OF 3(1)] if_not_P [OF 3(2)] .
    qed
  next
    case 2
    then have "mc_reader_u8 r = reader_fail MC_ERROR_PARTIAL_INPUT (rd_size r) r"
      using mc_reader_u8_end [of r] "1.prems" by simp
    with 2 "1.prems" show ?thesis
      unfolding stream_varint_loop.simps [of data mode index acc] rd_varint_loop.simps [of 5 _ index acc]
      by (simp add: rd_bind_def varint_report_def reader_fail_def reader_fail_state_def record_error_def)
  next
    case 3
    with "1.prems" show ?thesis
      unfolding stream_varint_loop.simps [of data mode index acc] rd_varint_loop.simps [of 5 _ index acc]
      by (simp add: rd_bind_def rd_here_def varint_report_def reader_fail_def reader_fail_state_def record_error_def)
  qed
qed

lemma stream_varint_reader:
  assumes "valid_mode mode"
  shows "stream_varint data mode = varint_report (mc_reader_varint (mc_reader_init_mode (Buf data) mode (Some e)))"
  unfolding stream_varint_def mc_reader_varint_def
  by (rule stream_varint_loop_reader) (simp_all add: mc_reader_init_mode_fields [OF assms])

text \<open>What follows a complete or invalid integer does not change it.\<close>

lemma stream_varint_loop_extend:
  "stream_varint_loop data mode index acc \<noteq> MC_VARINT_PARTIAL
     \<Longrightarrow> stream_varint_loop (data @ ext) mode index acc = stream_varint_loop data mode index acc"
proof (induction data mode index acc rule: stream_varint_loop.induct)
  case (1 data mode index acc)
  consider "index < min (length data) 5" | "5 \<le> length data" "5 \<le> index" | "length data < 5" "\<not> index < length data"
    by linarith
  then show ?case
  proof cases
    case 1
    then have "(data @ ext) ! index = data ! index" "index < min (length (data @ ext)) 5"
      by (simp_all add: nth_append)
    with 1 "1.IH" [OF 1 refl _ refl] "1.prems" show ?thesis
      unfolding stream_varint_loop.simps [of data mode index acc]
        stream_varint_loop.simps [of "data @ ext" mode index acc] Let_def
      by (simp only: if_True split: if_splits) auto
  next
    case 2
    then show ?thesis by (simp add: stream_varint_loop.simps)
  next
    case 3
    then show ?thesis using "1.prems" by (simp add: stream_varint_loop.simps [of data])
  qed
qed

lemma stream_varint_extend:
  "stream_varint data mode \<noteq> MC_VARINT_PARTIAL
     \<Longrightarrow> stream_varint (data @ ext) mode = stream_varint data mode"
  unfolding stream_varint_def by (rule stream_varint_loop_extend)

subsection \<open>Buffer growth\<close>

lemma stream_grow_bounds:
  assumes "needed \<le> maximum" and "grown \<le> maximum"
  shows "needed \<le> stream_grow needed maximum grown \<and> stream_grow needed maximum grown \<le> maximum
         \<and> grown \<le> stream_grow needed maximum grown"
  using assms
proof (induction needed maximum grown rule: stream_grow.induct)
  case (1 needed maximum grown)
  let ?next = "if grown > maximum div 2 then maximum else grown * 2"
  have next_le: "?next \<le> maximum" by auto
  show ?case
  proof (cases "grown < needed \<and> \<not> ?next \<le> grown")
    case True
    then show ?thesis
      using "1.IH" [OF _ refl, of] next_le "1.prems"
      by (subst (1 2 3) stream_grow.simps) (auto simp: Let_def)
  next
    case False
    then show ?thesis using "1.prems" by (subst (1 2 3) stream_grow.simps) (auto simp: Let_def)
  qed
qed

lemma stream_grown_bounds:
  assumes "needed \<le> maximum"
  shows "needed \<le> stream_grown capacity needed maximum \<and> stream_grown capacity needed maximum \<le> maximum"
proof -
  define g where "g = (if capacity = 0 then 4096 else capacity)"
  have "stream_grown capacity needed maximum = stream_grow needed maximum (if g > maximum then maximum else g)"
    by (simp add: stream_grown_def g_def Let_def)
  then show ?thesis using stream_grow_bounds [OF assms, of "if g > maximum then maximum else g"] by simp
qed

subsection \<open>The invariant\<close>

definition stream_wf :: "mc_stream_decoder \<Rightarrow> bool" where
  "stream_wf d \<longleftrightarrow>
     \<not> stream_config_invalid (sd_config d)
     \<and> length (sd_buffer d) \<le> sd_buffer_capacity d
     \<and> sd_buffer_capacity d \<le> cf_max_buffered_size (sd_config d)
     \<and> length (sd_output d) \<le> sd_output_capacity d
     \<and> sd_output_capacity d \<le> cf_max_output_size (sd_config d)
     \<and> -1 \<le> sd_compression_threshold d
     \<and> (sd_failed d \<longleftrightarrow> er_code (sd_last_error d) \<noteq> MC_ERROR_NONE)"

text \<open>What decoding a frame leaves alone on success.\<close>

definition stream_same :: "mc_stream_decoder \<Rightarrow> mc_stream_decoder \<Rightarrow> bool" where
  "stream_same d d' \<longleftrightarrow>
     sd_config d' = sd_config d \<and> sd_buffer d' = sd_buffer d
     \<and> sd_buffer_capacity d' = sd_buffer_capacity d \<and> sd_stream_offset d' = sd_stream_offset d
     \<and> sd_compression_threshold d' = sd_compression_threshold d
     \<and> sd_transition_ready d' = sd_transition_ready d"

lemma stream_same_refl [simp]: "stream_same d d"
  by (simp add: stream_same_def)

lemma stream_same_trans: "stream_same d d' \<Longrightarrow> stream_same d' d'' \<Longrightarrow> stream_same d d''"
  by (simp add: stream_same_def)

lemma stream_same_fail [simp]: "stream_same d (stream_fail code off d') \<longleftrightarrow> stream_same d d'"
  by (simp add: stream_same_def stream_fail_def)

lemma stream_fail_simps [simp]:
  "sd_config (stream_fail code off d) = sd_config d" "sd_buffer (stream_fail code off d) = sd_buffer d"
  "sd_output (stream_fail code off d) = sd_output d" "sd_block (stream_fail code off d) = sd_block d"
  "sd_buffer_capacity (stream_fail code off d) = sd_buffer_capacity d"
  "sd_output_capacity (stream_fail code off d) = sd_output_capacity d"
  "sd_failed (stream_fail code off d)"
  "sd_compression_threshold (stream_fail code off d) = sd_compression_threshold d"
  by (simp_all add: stream_fail_def)

lemma stream_wf_fail: "stream_wf d \<Longrightarrow> code \<noteq> MC_ERROR_NONE \<Longrightarrow> stream_wf (stream_fail code off d)"
  by (auto simp: stream_wf_def stream_fail_def)

lemma stream_varint_code:
  "stream_varint_loop data mode index acc = MC_VARINT_INVALID code off \<Longrightarrow> code \<noteq> MC_ERROR_NONE"
proof (induction data mode index acc rule: stream_varint_loop.induct)
  case (1 data mode index acc)
  show ?case
    using "1.prems" "1.IH" [OF _ refl _ refl]
    unfolding stream_varint_loop.simps [of data mode index acc] Let_def
    by (auto split: if_splits)
qed

lemma stream_varint_invalid_code:
  "stream_varint data mode = MC_VARINT_INVALID code off \<Longrightarrow> code \<noteq> MC_ERROR_NONE"
  unfolding stream_varint_def by (rule stream_varint_code)

subsection \<open>Payload views\<close>

definition frames_ok :: "mc_stream_decoder \<Rightarrow> mc_decoded_frame list \<Rightarrow> bool" where
  "frames_ok d frames \<longleftrightarrow>
     (\<forall>f \<in> set frames. df_block f = sd_block d \<and> df_offset f + df_size f \<le> length (sd_output d)
                       \<and> 0 \<le> sint (df_packet_id f))
     \<and> sorted_wrt (\<lambda>f g. df_offset f + df_size f \<le> df_offset g) frames"

text \<open>A frame as the specification sees it: identifier, compressed, payload.\<close>

type_synonym frame_view = "i32 \<times> bool \<times> u8 list"

definition frame_view :: "mc_stream_decoder \<Rightarrow> mc_decoded_frame \<Rightarrow> frame_view" where
  "frame_view d f = (df_packet_id f, df_compressed f, frame_payload d f)"

text \<open>The decoding of one packet and of one frame, without buffers.\<close>

definition packet_spec :: "mc_decode_mode \<Rightarrow> bool \<Rightarrow> u8 list \<Rightarrow> frame_view option" where
  "packet_spec mode compressed packet =
     (case stream_varint packet mode of
        MC_VARINT_COMPLETE packet_id id_size \<Rightarrow>
          if sint packet_id < 0 then None else Some (packet_id, compressed, drop id_size packet)
      | _ \<Rightarrow> None)"

definition frame_spec :: "(u8 list \<Rightarrow> nat \<Rightarrow> (u8 list \<times> nat) option) \<Rightarrow> mc_stream_decoder_config \<Rightarrow> int
    \<Rightarrow> u8 list \<Rightarrow> frame_view option" where
  "frame_spec inflate cfg threshold frame =
     (let mode = cf_mode cfg in
      if threshold < 0 then packet_spec mode False frame
      else case stream_varint frame mode of
          MC_VARINT_COMPLETE declared header_size \<Rightarrow>
            let body = drop header_size frame in
            if sint declared < 0 then None
            else if declared = 0 then
              if mode = MC_DECODE_STRICT \<and> length body \<ge> nat threshold then None
              else packet_spec mode False body
            else if unat declared > cf_max_decompressed_size cfg
                    \<or> (mode = MC_DECODE_STRICT \<and> sint declared < threshold) then None
            else (case inflate body (unat declared) of
                    None \<Rightarrow> None
                  | Some (packet, trailing) \<Rightarrow>
                      if length packet \<noteq> unat declared \<or> (mode = MC_DECODE_STRICT \<and> trailing \<noteq> 0) then None
                      else packet_spec mode True packet)
        | _ \<Rightarrow> None)"

text \<open>What is not the input's fault: memory and the configured limits of the buffers.\<close>

definition resource_code :: "mc_error_code \<Rightarrow> bool" where
  "resource_code code \<longleftrightarrow> code = MC_ERROR_OUT_OF_MEMORY \<or> code = MC_ERROR_BUFFER_LIMIT
     \<or> code = MC_ERROR_INTEGER_OVERFLOW"

text \<open>
  The result of decoding a frame, or a part of it, against the specified result: what stays the
  same, that the invariant and the views are kept, and the frame added or the reason of the failure.
\<close>

definition emit_ok :: "mc_stream_decoder \<Rightarrow> mc_decoded_frame list \<Rightarrow> frame_view option \<Rightarrow> emit_result \<Rightarrow> bool" where
  "emit_ok d frames spec res =
     (case res of (ok, d', frames') \<Rightarrow>
        stream_same d d' \<and> stream_wf d' \<and> frames_ok d' frames'
        \<and> (if ok then \<not> sd_failed d' \<and> (\<exists>v. spec = Some v
                         \<and> map (frame_view d') frames' = map (frame_view d) frames @ [v])
           else sd_failed d' \<and> map (frame_view d') frames' = map (frame_view d) frames
                \<and> (spec = None \<or> resource_code (er_code (sd_last_error d')))))"

lemma frame_view_append:
  "df_offset f + df_size f \<le> length (sd_output d)
     \<Longrightarrow> frame_view (d\<lparr>sd_output := sd_output d @ xs\<rparr>) f = frame_view d f"
  by (simp add: frame_view_def frame_payload_def)

lemma frames_ok_view_append:
  "frames_ok d frames \<Longrightarrow>
     map (frame_view (d\<lparr>sd_output := sd_output d @ xs\<rparr>)) frames = map (frame_view d) frames"
  by (auto simp: frames_ok_def frame_view_append)

lemma frame_view_fail [simp]: "frame_view (stream_fail code off d) = frame_view d"
  by (simp add: frame_view_def frame_payload_def fun_eq_iff)

lemma frames_ok_fail [simp]: "frames_ok (stream_fail code off d) frames = frames_ok d frames"
  by (simp add: frames_ok_def)

lemma emit_ok_fail:
  assumes "stream_same d d'" "stream_wf d'" "frames_ok d' frames'" "\<not> sd_failed d'"
    and "map (frame_view d') frames' = map (frame_view d) frames"
    and "code \<noteq> MC_ERROR_NONE" and "spec = None \<or> resource_code code"
  shows "emit_ok d frames spec (False, stream_fail code off d', frames')"
proof -
  have "er_code (sd_last_error (stream_fail code off d')) = code"
    using assms(4) by (simp add: stream_fail_def)
  with assms stream_wf_fail [of d' code off] show ?thesis by (simp add: emit_ok_def)
qed

lemma finish_packet_ok:
  assumes wf: "stream_wf d'" and fr: "frames_ok d' frames'" and live: "\<not> sd_failed d'"
    and same: "stream_same d d'" and views: "map (frame_view d') frames' = map (frame_view d) frames"
    and room: "length (sd_output d') + length packet \<le> sd_output_capacity d'"
  shows "emit_ok d frames (packet_spec (cf_mode (sd_config d')) compressed packet)
           (stream_finish_packet d' packet compressed frames' off)"
proof (cases "packet = []")
  case True
  have "stream_varint [] m = MC_VARINT_PARTIAL" for m
    by (simp add: stream_varint_def stream_varint_loop.simps)
  then show ?thesis
    using True assms by (simp add: stream_finish_packet_def packet_spec_def emit_ok_fail)
next
  case False
  show ?thesis
  proof (cases "stream_varint packet (cf_mode (sd_config d'))")
    case (MC_VARINT_COMPLETE id n)
    note n = stream_varint_size [OF MC_VARINT_COMPLETE]
    show ?thesis
    proof (cases "sint id < 0")
      case True
      then show ?thesis
        using False MC_VARINT_COMPLETE assms by (simp add: stream_finish_packet_def packet_spec_def emit_ok_fail)
    next
      case id: False
      let ?f = "\<lparr>df_packet_id = id, df_block = sd_block d', df_offset = length (sd_output d') + n,
                 df_size = length packet - n, df_compressed = compressed\<rparr>"
      let ?d = "d'\<lparr>sd_output := sd_output d' @ packet\<rparr>"
      have "frames_ok ?d (frames' @ [?f])"
        using fr n id unfolding frames_ok_def by (fastforce simp: sorted_wrt_append)
      moreover have "frame_view ?d ?f = (id, compressed, drop n packet)"
        using n by (simp add: frame_view_def frame_payload_def)
      moreover have "stream_wf ?d" using wf room by (simp add: stream_wf_def)
      moreover have "stream_same d ?d" using same by (simp add: stream_same_def)
      ultimately show ?thesis
        using False MC_VARINT_COMPLETE id live views frames_ok_view_append [OF fr, of packet]
        by (simp add: stream_finish_packet_def packet_spec_def emit_ok_def)
    qed
  qed (use False assms in \<open>auto simp: stream_finish_packet_def packet_spec_def intro!: emit_ok_fail
      dest: stream_varint_invalid_code\<close>)
qed

lemma reserve_output_ok:
  assumes wf: "stream_wf d" and fr: "frames_ok d frames"
    and res: "stream_reserve_output env needed d frames = Some (d', frames')"
  shows "stream_wf d' \<and> frames_ok d' frames' \<and> stream_same d d' \<and> sd_failed d' = sd_failed d
         \<and> sd_output d' = sd_output d
         \<and> map (frame_view d') frames' = map (frame_view d) frames \<and> needed \<le> sd_output_capacity d'"
proof (cases "needed \<le> sd_output_capacity d")
  case True
  then show ?thesis using assms by (auto simp: stream_reserve_output_def split: if_splits)
next
  case False
  let ?g = "stream_grown (sd_output_capacity d) needed (cf_max_output_size (sd_config d))"
  from False res have d': "d' = d\<lparr>sd_block := sd_block d + 1, sd_output_capacity := ?g\<rparr>"
    and f': "frames' = map (\<lambda>f. f\<lparr>df_block := sd_block d + 1\<rparr>) frames"
    and max: "needed \<le> cf_max_output_size (sd_config d)"
    by (auto simp: stream_reserve_output_def Let_def split: if_splits)
  note g = stream_grown_bounds [OF max, of "sd_output_capacity d"]
  have "frames_ok d' frames'"
    using fr by (simp add: frames_ok_def d' f' sorted_wrt_map)
  moreover have "map (frame_view d') frames' = map (frame_view d) frames"
    by (simp add: d' f' frame_view_def frame_payload_def)
  moreover have "stream_wf d'"
    using wf False g by (simp add: stream_wf_def d')
  ultimately show ?thesis using g by (simp add: d' stream_same_def)
qed

lemma reserve_output_fails:
  "stream_reserve_output env needed d frames = None \<Longrightarrow> needed \<le> cf_max_output_size (sd_config d)
     \<Longrightarrow> sd_output_capacity d < needed"
  by (auto simp: stream_reserve_output_def split: if_splits)

lemma emit_uncompressed_ok:
  assumes wf: "stream_wf d" and fr: "frames_ok d frames" and live: "\<not> sd_failed d"
  shows "emit_ok d frames (packet_spec (cf_mode (sd_config d)) compressed packet)
           (stream_emit_uncompressed env d packet compressed frames off)"
proof (cases "stream_reserve_output env (length (sd_output d) + length packet) d frames")
  case None
  then show ?thesis
    using assms by (simp add: stream_emit_uncompressed_def Let_def emit_ok_fail resource_code_def)
next
  case (Some a)
  obtain d' frames' where a: "a = (d', frames')" by (cases a)
  note r = reserve_output_ok [OF wf fr Some [unfolded a]]
  have "emit_ok d frames (packet_spec (cf_mode (sd_config d')) compressed packet)
           (stream_finish_packet d' packet compressed frames' off)"
    using r live by (intro finish_packet_ok) simp_all
  moreover have "sd_config d' = sd_config d" using r by (simp add: stream_same_def)
  ultimately show ?thesis
    using assms by (simp add: stream_emit_uncompressed_def Let_def Some a emit_ok_fail resource_code_def)
qed

definition inflated_spec :: "stream_env \<Rightarrow> mc_decode_mode \<Rightarrow> u8 list \<Rightarrow> nat \<Rightarrow> frame_view option" where
  "inflated_spec env mode body declared =
     (case env_inflate env body declared of
        None \<Rightarrow> None
      | Some (packet, trailing) \<Rightarrow>
          if length packet \<noteq> declared \<or> (mode = MC_DECODE_STRICT \<and> trailing \<noteq> 0) then None
          else packet_spec mode True packet)"

lemma emit_compressed_ok:
  assumes wf: "stream_wf d" and fr: "frames_ok d frames" and live: "\<not> sd_failed d"
  shows "emit_ok d frames (inflated_spec env (cf_mode (sd_config d)) body declared)
           (stream_emit_compressed env d body declared frames off)"
proof (cases "stream_reserve_output env (length (sd_output d) + declared) d frames")
  case None
  then show ?thesis
    using assms by (simp add: stream_emit_compressed_def Let_def emit_ok_fail resource_code_def)
next
  case (Some a)
  obtain d' frames' where a: "a = (d', frames')" by (cases a)
  note r = reserve_output_ok [OF wf fr Some [unfolded a]]
  have cfg: "sd_config d' = sd_config d" using r by (simp add: stream_same_def)
  show ?thesis
  proof (cases "env_inflate env body declared")
    case None
    then show ?thesis
      using assms r Some a
      by (simp add: stream_emit_compressed_def Let_def inflated_spec_def emit_ok_fail resource_code_def)
  next
    case inf: (Some b)
    obtain packet trailing where b: "b = (packet, trailing)" by (cases b)
    have fin: "emit_ok d frames (packet_spec (cf_mode (sd_config d')) True packet)
           (stream_finish_packet d' packet True frames' off)" if "length packet = declared"
      using r live that by (intro finish_packet_ok) simp_all
    show ?thesis
      using assms r fin
      by (simp add: stream_emit_compressed_def Let_def inflated_spec_def Some a inf b cfg emit_ok_fail
          resource_code_def)
  qed
qed

lemma decode_frame_ok:
  assumes wf: "stream_wf d" and fr: "frames_ok d frames" and live: "\<not> sd_failed d"
  shows "emit_ok d frames (frame_spec (env_inflate env) (sd_config d) (sd_compression_threshold d) frame)
           (stream_decode_frame env d frame frames off)"
proof (cases "sd_compression_threshold d < 0")
  case True
  then show ?thesis
    using emit_uncompressed_ok [OF assms] by (simp add: stream_decode_frame_def frame_spec_def)
next
  case False
  show ?thesis
  proof (cases "stream_varint frame (cf_mode (sd_config d))")
    case (MC_VARINT_COMPLETE declared n)
    note fail = emit_ok_fail [OF stream_same_refl wf fr live refl]
    note unc = emit_uncompressed_ok [OF wf fr live, of False "drop n frame" env]
    note cmp = emit_compressed_ok [OF wf fr live, of env "drop n frame" "unat declared", unfolded inflated_spec_def]
    show ?thesis
      unfolding stream_decode_frame_def frame_spec_def MC_VARINT_COMPLETE varint_status.case Let_def if_not_P [OF False]
      using fail unc cmp by (simp split del: option.split split: if_split)
  next
    case MC_VARINT_PARTIAL
    then show ?thesis using False assms by (simp add: stream_decode_frame_def frame_spec_def emit_ok_fail)
  next
    case (MC_VARINT_INVALID code off)
    then show ?thesis
      using False assms stream_varint_invalid_code [OF MC_VARINT_INVALID]
      by (simp add: stream_decode_frame_def frame_spec_def emit_ok_fail)
  qed
qed

subsection \<open>The specification of the stream\<close>

datatype stream_next = Next_Partial | Next_Bad | Next_Frame frame_view nat

definition stream_step :: "(u8 list \<Rightarrow> nat \<Rightarrow> (u8 list \<times> nat) option) \<Rightarrow> mc_stream_decoder_config \<Rightarrow> int
    \<Rightarrow> u8 list \<Rightarrow> stream_next" where
  "stream_step inflate cfg threshold bytes =
     (case stream_varint bytes (cf_mode cfg) of
        MC_VARINT_PARTIAL \<Rightarrow> Next_Partial
      | MC_VARINT_INVALID code off \<Rightarrow> Next_Bad
      | MC_VARINT_COMPLETE len header \<Rightarrow>
          if sint len \<le> 0 \<or> unat len > cf_max_frame_size cfg then Next_Bad
          else if length bytes - header < unat len then Next_Partial
          else case frame_spec inflate cfg threshold (take (unat len) (drop header bytes)) of
              None \<Rightarrow> Next_Bad
            | Some v \<Rightarrow> Next_Frame v (header + unat len))"

inductive stream_decodes :: "(u8 list \<Rightarrow> nat \<Rightarrow> (u8 list \<times> nat) option) \<Rightarrow> mc_stream_decoder_config
    \<Rightarrow> int \<Rightarrow> u8 list \<Rightarrow> frame_view list \<Rightarrow> u8 list \<Rightarrow> bool"
  for inflate cfg threshold where
  decodes_done: "stream_decodes inflate cfg threshold bytes [] bytes"
| decodes_frame: "stream_step inflate cfg threshold bytes = Next_Frame v n
     \<Longrightarrow> stream_decodes inflate cfg threshold (drop n bytes) vs rest
     \<Longrightarrow> stream_decodes inflate cfg threshold bytes (v # vs) rest"

inductive_cases decodes_NilE: "stream_decodes inflate cfg threshold bytes [] rest"
inductive_cases decodes_ConsE: "stream_decodes inflate cfg threshold bytes (v # vs) rest"

lemma stream_step_size:
  "stream_step inflate cfg threshold bytes = Next_Frame v n \<Longrightarrow> 0 < n \<and> n \<le> length bytes"
  using stream_varint_size [of bytes "cf_mode cfg"]
  by (auto simp: stream_step_def split: varint_status.splits if_splits option.splits)

lemma stream_step_extend:
  assumes "stream_step inflate cfg threshold bytes \<noteq> Next_Partial"
  shows "stream_step inflate cfg threshold (bytes @ ext) = stream_step inflate cfg threshold bytes"
proof -
  have v: "stream_varint (bytes @ ext) (cf_mode cfg) = stream_varint bytes (cf_mode cfg)"
    using assms by (intro stream_varint_extend) (auto simp: stream_step_def)
  show ?thesis
  proof (cases "stream_varint bytes (cf_mode cfg)")
    case (MC_VARINT_COMPLETE len h)
    note n = stream_varint_size [OF this]
    show ?thesis
      using assms n v by (auto simp: stream_step_def MC_VARINT_COMPLETE split: if_splits)
  qed (simp_all add: stream_step_def v)
qed

lemma decodes_extend:
  "stream_decodes inflate cfg threshold bytes vs rest
     \<Longrightarrow> stream_decodes inflate cfg threshold (bytes @ ext) vs (rest @ ext)"
proof (induction rule: stream_decodes.induct)
  case (decodes_frame bytes v n vs rest)
  have "stream_step inflate cfg threshold (bytes @ ext) = Next_Frame v n"
    using stream_step_extend [of inflate cfg threshold bytes ext] decodes_frame by simp
  moreover have "drop n (bytes @ ext) = drop n bytes @ ext"
    using stream_step_size [OF decodes_frame(1)] by simp
  ultimately show ?case using decodes_frame by (metis stream_decodes.decodes_frame)
qed (rule stream_decodes.decodes_done)

lemma decodes_trans:
  "stream_decodes inflate cfg threshold a vs b \<Longrightarrow> stream_decodes inflate cfg threshold b ws c
     \<Longrightarrow> stream_decodes inflate cfg threshold a (vs @ ws) c"
  by (induction rule: stream_decodes.induct) (auto intro: stream_decodes.intros)

text \<open>Two runs that end in front of an incomplete frame took the same frames.\<close>

lemma decodes_deterministic:
  "stream_decodes inflate cfg threshold bytes vs rest \<Longrightarrow> stream_step inflate cfg threshold rest = Next_Partial
     \<Longrightarrow> stream_decodes inflate cfg threshold bytes ws rest'
     \<Longrightarrow> stream_step inflate cfg threshold rest' = Next_Partial \<Longrightarrow> vs = ws \<and> rest = rest'"
proof (induction arbitrary: ws rule: stream_decodes.induct)
  case (decodes_done bytes)
  then show ?case by (cases ws) (auto elim: decodes_NilE decodes_ConsE)
next
  case (decodes_frame bytes v n vs rest)
  then obtain w ws' where ws: "ws = w # ws'" by (cases ws) (auto elim: decodes_NilE)
  from decodes_frame.prems(2) decodes_frame.hyps(1) have "w = v" "stream_decodes inflate cfg threshold (drop n bytes) ws' rest'"
    unfolding ws by (auto elim: decodes_ConsE)
  with decodes_frame.IH decodes_frame.prems ws show ?case by blast
qed

subsection \<open>The feed refines the specification\<close>

definition decoder_step :: "stream_env \<Rightarrow> mc_stream_decoder \<Rightarrow> u8 list \<Rightarrow> stream_next" where
  "decoder_step env d = stream_step (env_inflate env) (sd_config d) (sd_compression_threshold d)"

definition decoder_decodes :: "stream_env \<Rightarrow> mc_stream_decoder \<Rightarrow> u8 list \<Rightarrow> frame_view list \<Rightarrow> u8 list \<Rightarrow> bool" where
  "decoder_decodes env d = stream_decodes (env_inflate env) (sd_config d) (sd_compression_threshold d)"

lemma decoder_same:
  "stream_same d d' \<Longrightarrow> decoder_step env d' = decoder_step env d \<and> decoder_decodes env d' = decoder_decodes env d"
  by (simp add: stream_same_def decoder_step_def decoder_decodes_def)

definition loop_ok :: "stream_env \<Rightarrow> u8 list \<Rightarrow> nat \<Rightarrow> nat \<Rightarrow> mc_stream_decoder \<Rightarrow> mc_decoded_frame list
    \<Rightarrow> bool \<times> nat \<times> mc_stream_decoder \<times> mc_decoded_frame list \<Rightarrow> bool" where
  "loop_ok env buf cap consumed d frames res =
     (case res of (ok, c, d', frames') \<Rightarrow>
        stream_wf d' \<and> frames_ok d' frames' \<and> length frames' \<le> cap
        \<and> sd_config d' = sd_config d \<and> sd_compression_threshold d' = sd_compression_threshold d
        \<and> (if ok then stream_same d d' \<and> \<not> sd_failed d' \<and> c \<le> length buf
             \<and> (\<exists>vs. map (frame_view d') frames' = map (frame_view d) frames @ vs
                     \<and> decoder_decodes env d (drop consumed buf) vs (drop c buf))
             \<and> (length frames' < cap \<longrightarrow> decoder_step env d (drop c buf) = Next_Partial)
           else sd_failed d'
             \<and> (\<exists>vs. map (frame_view d') frames' = map (frame_view d) frames @ vs
                     \<and> decoder_decodes env d (drop consumed buf) vs (sd_buffer d'))
             \<and> (decoder_step env d (sd_buffer d') = Next_Bad \<or> resource_code (er_code (sd_last_error d')))))"

lemma stream_consume_simps [simp]:
  "sd_config (stream_consume c d) = sd_config d" "sd_buffer (stream_consume c d) = drop c (sd_buffer d)"
  "sd_output (stream_consume c d) = sd_output d" "sd_block (stream_consume c d) = sd_block d"
  "sd_buffer_capacity (stream_consume c d) = sd_buffer_capacity d"
  "sd_output_capacity (stream_consume c d) = sd_output_capacity d"
  "sd_failed (stream_consume c d) = sd_failed d" "sd_last_error (stream_consume c d) = sd_last_error d"
  "sd_compression_threshold (stream_consume c d) = sd_compression_threshold d"
  by (simp_all add: stream_consume_def)

lemma stream_wf_consume: "stream_wf d \<Longrightarrow> stream_wf (stream_consume c d)"
  by (auto simp: stream_wf_def)

lemma frames_ok_consume [simp]: "frames_ok (stream_consume c d) frames = frames_ok d frames"
  by (simp add: frames_ok_def)

lemma frame_view_consume [simp]: "frame_view (stream_consume c d) = frame_view d"
  by (simp add: frame_view_def frame_payload_def fun_eq_iff)

lemma step_empty: "decoder_step env d [] = Next_Partial"
  by (simp add: decoder_step_def stream_step_def stream_varint_def stream_varint_loop.simps)

lemma decodes_refl [simp]: "decoder_decodes env d bytes [] bytes"
  by (simp add: decoder_decodes_def stream_decodes.decodes_done)

text \<open>The loop stops for the lack of input, or at the capacity.\<close>

lemma loop_ok_stop:
  assumes "stream_wf d" "frames_ok d frames" "\<not> sd_failed d" "length frames \<le> cap" "consumed \<le> length buf"
    and "length frames < cap \<Longrightarrow> decoder_step env d (drop consumed buf) = Next_Partial"
  shows "loop_ok env buf cap consumed d frames (True, consumed, d, frames)"
  using assms by (auto simp: loop_ok_def)

text \<open>The loop stops at a bad length.\<close>

lemma loop_ok_bad:
  assumes "stream_wf d" "frames_ok d frames" "\<not> sd_failed d" "length frames \<le> cap" "sd_buffer d = buf"
    and "decoder_step env d (drop consumed buf) = Next_Bad" and "code \<noteq> MC_ERROR_NONE"
  shows "loop_ok env buf cap consumed d frames (False, 0, stream_fail code off (stream_consume consumed d), frames)"
  using assms stream_wf_fail [OF stream_wf_consume [OF assms(1)] assms(7)]
  by (auto simp: loop_ok_def)

text \<open>One more frame in front of a run of the loop.\<close>

lemma loop_ok_step:
  assumes step: "decoder_step env d (drop consumed buf) = Next_Frame v n"
    and same: "stream_same d d1" and views: "map (frame_view d1) frames1 = map (frame_view d) frames @ [v]"
    and rest: "loop_ok env buf cap (consumed + n) d1 frames1 res"
  shows "loop_ok env buf cap consumed d frames res"
proof -
  obtain ok c d' frames' where res: "res = (ok, c, d', frames')" by (cases res)
  have cfg: "sd_config d1 = sd_config d" "sd_compression_threshold d1 = sd_compression_threshold d"
    using same by (simp_all add: stream_same_def)
  have more: "decoder_decodes env d (drop consumed buf) (v # vs) t"
    if "decoder_decodes env d1 (drop (consumed + n) buf) vs t" for vs t
    using that step decoder_same [OF same, of env]
    by (auto simp: decoder_decodes_def decoder_step_def cfg add.commute intro!: stream_decodes.decodes_frame)
  show ?thesis
    using rest more views decoder_same [OF same, of env] cfg stream_same_trans [OF same]
    unfolding loop_ok_def res prod.case
    by (cases ok) (simp_all, (metis append.assoc append_Cons append_Nil)+)
qed

lemma stream_loop_refines:
  assumes "stream_wf d" "frames_ok d frames" "\<not> sd_failed d" "length frames \<le> cap"
    "consumed \<le> length buf" "sd_buffer d = buf"
  shows "loop_ok env buf cap consumed d frames (stream_feed_loop env buf cap consumed d frames)"
  using assms
proof (induction "length buf - consumed" arbitrary: consumed d frames rule: less_induct)
  case less
  note loop = stream_feed_loop.simps [of env buf cap consumed d frames]
  show ?case
  proof (cases "length frames < cap \<and> consumed < length buf")
    case False
    have "decoder_step env d (drop consumed buf) = Next_Partial" if "length frames < cap"
      using that False less.prems step_empty by simp
    then show ?thesis
      unfolding loop if_not_P [OF False] by (intro loop_ok_stop less.prems)
  next
    case True
    note loop = loop [unfolded if_P [OF True]]
    show ?thesis
    proof (cases "stream_varint (drop consumed buf) (cf_mode (sd_config d))")
      case MC_VARINT_PARTIAL
      then have "decoder_step env d (drop consumed buf) = Next_Partial"
        by (simp add: decoder_step_def stream_step_def)
      then show ?thesis using loop_ok_stop less.prems MC_VARINT_PARTIAL by (simp add: loop)
    next
      case (MC_VARINT_INVALID code off)
      then have "decoder_step env d (drop consumed buf) = Next_Bad"
        by (simp add: decoder_step_def stream_step_def)
      then show ?thesis
        using loop_ok_bad less.prems stream_varint_invalid_code [OF MC_VARINT_INVALID]
        by (simp add: loop MC_VARINT_INVALID Let_def)
    next
      case (MC_VARINT_COMPLETE len h)
      note h = stream_varint_size [OF MC_VARINT_COMPLETE]
      let ?frame = "take (unat len) (drop (consumed + h) buf)"
      let ?off = "stream_absolute_offset d (consumed + h)"
      have frame: "take (unat len) (drop h (drop consumed buf)) = ?frame" by (simp add: add.commute)
      consider (bad) "sint len \<le> 0 \<or> unat len > cf_max_frame_size (sd_config d)"
        | (short) "\<not> sint len \<le> 0" "\<not> unat len > cf_max_frame_size (sd_config d)"
          "length buf - consumed - h < unat len"
        | (full) "\<not> sint len \<le> 0" "\<not> unat len > cf_max_frame_size (sd_config d)"
          "\<not> length buf - consumed - h < unat len" by blast
      then show ?thesis
      proof cases
        case bad
        then have "decoder_step env d (drop consumed buf) = Next_Bad"
          by (simp add: decoder_step_def stream_step_def MC_VARINT_COMPLETE)
        then show ?thesis using loop_ok_bad less.prems bad by (auto simp: loop MC_VARINT_COMPLETE Let_def)
      next
        case short
        then have "decoder_step env d (drop consumed buf) = Next_Partial"
          by (simp add: decoder_step_def stream_step_def MC_VARINT_COMPLETE)
        then show ?thesis using loop_ok_stop less.prems short by (simp add: loop MC_VARINT_COMPLETE)
      next
        case full
        have pos: "0 < unat len" using full(1) by (cases "len = 0") (auto simp: unat_gt_0)
        obtain ok d1 frames1 where dec: "stream_decode_frame env d ?frame frames ?off = (ok, d1, frames1)"
          by (cases "stream_decode_frame env d ?frame frames ?off")
        note e = decode_frame_ok [OF less.prems(1-3), of env ?frame ?off, unfolded dec emit_ok_def prod.case]
        have run: "stream_feed_loop env buf cap consumed d frames =
            (if ok then stream_feed_loop env buf cap (consumed + (h + unat len)) d1 frames1
             else (False, 0, stream_consume consumed d1, frames1))"
          using full by (simp add: loop MC_VARINT_COMPLETE dec)
        have step: "decoder_step env d (drop consumed buf) =
            (case frame_spec (env_inflate env) (sd_config d) (sd_compression_threshold d) ?frame of
               None \<Rightarrow> Next_Bad | Some v \<Rightarrow> Next_Frame v (h + unat len))"
          using full by (simp add: decoder_step_def stream_step_def MC_VARINT_COMPLETE frame del: drop_drop)
        show ?thesis
        proof (cases ok)
          case False
          have "sd_buffer d1 = buf" using e less.prems(6) by (simp add: stream_same_def)
          then show ?thesis
            using e False step less.prems stream_wf_consume [of d1 consumed]
            by (auto simp: run loop_ok_def stream_same_def dest!: map_eq_imp_length_eq)
        next
          case True
          with e obtain v where v: "frame_spec (env_inflate env) (sd_config d) (sd_compression_threshold d) ?frame = Some v"
            "map (frame_view d1) frames1 = map (frame_view d) frames @ [v]" by auto
          have same: "stream_same d d1" using e by simp
          have len1: "length frames1 = Suc (length frames)"
            using arg_cong [OF v(2), of length] by simp
          have "loop_ok env buf cap (consumed + (h + unat len)) d1 frames1
              (stream_feed_loop env buf cap (consumed + (h + unat len)) d1 frames1)"
            using e True full h pos \<open>length frames < cap \<and> consumed < length buf\<close> less.prems(5,6) same len1
            by (intro less.hyps) (auto simp: stream_same_def)
          from loop_ok_step [OF _ same v(2) this] step v(1) True show ?thesis by (simp add: run)
        qed
      qed
    qed
  qed
qed

lemma reserve_ok:
  assumes "stream_reserve env capacity needed maximum = Some capacity'" and "capacity \<le> maximum"
  shows "needed \<le> capacity' \<and> capacity' \<le> maximum"
  using assms stream_grown_bounds [of needed maximum capacity]
  by (auto simp: stream_reserve_def Let_def split: if_splits)

text \<open>The decoder a feed starts its loop with.\<close>

definition feed_start :: "mc_stream_decoder \<Rightarrow> nat \<Rightarrow> u8 list \<Rightarrow> mc_stream_decoder" where
  "feed_start d capacity data =
     d\<lparr>sd_transition_ready := False, sd_output := [], sd_buffer_capacity := capacity,
       sd_buffer := sd_buffer d @ data\<rparr>"

lemma feed_cases:
  assumes "mc_stream_decoder_feed env d (Buf data) cap = (ok, d', frames)"
  obtains (failed) "sd_failed d" "\<not> ok" "d' = d" "frames = []"
  | (limit) code off where "\<not> sd_failed d" "\<not> ok" "frames = []" "resource_code code" "code \<noteq> MC_ERROR_NONE"
      "d' = stream_fail code off (d\<lparr>sd_transition_ready := False, sd_output := []\<rparr>)"
  | (bad) capacity c where "\<not> sd_failed d" "\<not> ok" "length (sd_buffer d) + length data \<le> capacity"
      "sd_buffer_capacity d \<le> cf_max_buffered_size (sd_config d) \<longrightarrow> capacity \<le> cf_max_buffered_size (sd_config d)"
      "stream_feed_loop env (sd_buffer d @ data) cap 0 (feed_start d capacity data) [] = (False, c, d', frames)"
  | (good) capacity c d3 where "\<not> sd_failed d" "ok" "length (sd_buffer d) + length data \<le> capacity"
      "sd_buffer_capacity d \<le> cf_max_buffered_size (sd_config d) \<longrightarrow> capacity \<le> cf_max_buffered_size (sd_config d)"
      "stream_feed_loop env (sd_buffer d @ data) cap 0 (feed_start d capacity data) [] = (True, c, d3, frames)"
      "d' = (stream_consume c d3)\<lparr>sd_transition_ready :=
               frames \<noteq> [] \<and> length frames = cap \<and> sd_buffer (stream_consume c d3) \<noteq> []\<rparr>"
proof -
  let ?d1 = "d\<lparr>sd_transition_ready := False, sd_output := []\<rparr>"
  consider (f) "sd_failed d"
    | (l) "\<not> sd_failed d" "length data > cf_max_buffered_size (sd_config d) - length (sd_buffer d)"
    | (r) "\<not> sd_failed d" "\<not> length data > cf_max_buffered_size (sd_config d) - length (sd_buffer d)"
    by blast
  then show thesis
  proof cases
    case f
    then show ?thesis using assms by (intro failed) (auto simp: mc_stream_decoder_feed_def)
  next
    case l
    then show ?thesis using assms
      by (intro limit [of MC_ERROR_BUFFER_LIMIT "stream_absolute_offset ?d1 (length (sd_buffer d))"]) (auto simp: mc_stream_decoder_feed_def Let_def resource_code_def)
  next
    case r
    show ?thesis
    proof (cases "stream_reserve env (sd_buffer_capacity d) (length (sd_buffer d) + length data)
        (cf_max_buffered_size (sd_config d))")
      case None
      then show ?thesis using assms r
        by (intro limit [of MC_ERROR_OUT_OF_MEMORY "stream_absolute_offset ?d1 (length (sd_buffer d))"]) (auto simp: mc_stream_decoder_feed_def Let_def resource_code_def)
    next
      case (Some capacity)
      have cap1: "length (sd_buffer d) + length data \<le> capacity"
        using Some stream_grown_bounds [of "length (sd_buffer d) + length data" "cf_max_buffered_size (sd_config d)"
            "sd_buffer_capacity d"]
        by (auto simp: stream_reserve_def Let_def split: if_splits)
      have cap2: "sd_buffer_capacity d \<le> cf_max_buffered_size (sd_config d)
          \<longrightarrow> capacity \<le> cf_max_buffered_size (sd_config d)"
        using reserve_ok [OF Some] by blast
      obtain lok c d3 fr where loop:
        "stream_feed_loop env (sd_buffer d @ data) cap 0 (feed_start d capacity data) [] = (lok, c, d3, fr)"
        by (cases "stream_feed_loop env (sd_buffer d @ data) cap 0 (feed_start d capacity data) []")
      note loop' = loop [unfolded feed_start_def]
      show ?thesis
      proof (cases lok)
        case True
        then show ?thesis using assms r Some loop' loop cap1 cap2
          by (intro good [of capacity c d3]) (auto simp: mc_stream_decoder_feed_def Let_def)
      next
        case False
        then show ?thesis using assms r Some loop' loop cap1 cap2
          by (intro bad [of capacity c]) (auto simp: mc_stream_decoder_feed_def Let_def)
      qed
    qed
  qed
qed

lemma feed_start_ok:
  assumes "stream_wf d" "\<not> sd_failed d" "length (sd_buffer d) + length data \<le> capacity"
    "sd_buffer_capacity d \<le> cf_max_buffered_size (sd_config d) \<longrightarrow> capacity \<le> cf_max_buffered_size (sd_config d)"
  shows "loop_ok env (sd_buffer d @ data) cap 0 (feed_start d capacity data) []
     (stream_feed_loop env (sd_buffer d @ data) cap 0 (feed_start d capacity data) [])"
  using assms by (intro stream_loop_refines) (auto simp: stream_wf_def frames_ok_def feed_start_def)

lemma feed_start_simps [simp]:
  "sd_config (feed_start d capacity data) = sd_config d"
  "sd_compression_threshold (feed_start d capacity data) = sd_compression_threshold d"
  "sd_buffer (feed_start d capacity data) = sd_buffer d @ data"
  by (simp_all add: feed_start_def)

lemma decoder_feed_start [simp]:
  "decoder_step env (feed_start d capacity data) = decoder_step env d"
  "decoder_decodes env (feed_start d capacity data) = decoder_decodes env d"
  by (simp_all add: decoder_step_def decoder_decodes_def feed_start_def)

definition same_settings :: "mc_stream_decoder \<Rightarrow> mc_stream_decoder \<Rightarrow> bool" where
  "same_settings d d' \<longleftrightarrow>
     sd_config d' = sd_config d \<and> sd_compression_threshold d' = sd_compression_threshold d"

lemma decoder_settings:
  "same_settings d d' \<Longrightarrow> decoder_step env d' = decoder_step env d \<and> decoder_decodes env d' = decoder_decodes env d"
  by (simp add: same_settings_def decoder_step_def decoder_decodes_def)

lemma frame_view_transition [simp]:
  "frame_view (d\<lparr>sd_transition_ready := b\<rparr>) = frame_view d"
  "frames_ok (d\<lparr>sd_transition_ready := b\<rparr>) frames = frames_ok d frames"
  "stream_wf (d\<lparr>sd_transition_ready := b\<rparr>) = stream_wf d"
  by (simp_all add: frame_view_def frame_payload_def fun_eq_iff frames_ok_def stream_wf_def)

text \<open>The refinement.\<close>

lemma feed_refines:
  assumes wf: "stream_wf d" and feed: "mc_stream_decoder_feed env d (Buf data) cap = (ok, d', frames)"
  shows "stream_wf d'" "frames_ok d' frames" "length frames \<le> cap" "same_settings d d'"
    "ok \<Longrightarrow> \<not> sd_failed d \<and> \<not> sd_failed d'
       \<and> decoder_decodes env d (sd_buffer d @ data) (map (frame_view d') frames) (sd_buffer d')
       \<and> (length frames < cap \<longrightarrow> decoder_step env d (sd_buffer d') = Next_Partial)"
    "\<not> ok \<Longrightarrow> sd_failed d' \<and> (if sd_failed d then d' = d \<and> frames = [] else
       resource_code (er_code (sd_last_error d'))
       \<or> decoder_decodes env d (sd_buffer d @ data) (map (frame_view d') frames) (sd_buffer d')
         \<and> decoder_step env d (sd_buffer d') = Next_Bad)"
proof -
  have "stream_wf d' \<and> frames_ok d' frames \<and> length frames \<le> cap \<and> same_settings d d'
    \<and> (ok \<longrightarrow> \<not> sd_failed d \<and> \<not> sd_failed d'
       \<and> decoder_decodes env d (sd_buffer d @ data) (map (frame_view d') frames) (sd_buffer d')
       \<and> (length frames < cap \<longrightarrow> decoder_step env d (sd_buffer d') = Next_Partial))
    \<and> (\<not> ok \<longrightarrow> sd_failed d' \<and> (if sd_failed d then d' = d \<and> frames = [] else
       resource_code (er_code (sd_last_error d'))
       \<or> decoder_decodes env d (sd_buffer d @ data) (map (frame_view d') frames) (sd_buffer d')
         \<and> decoder_step env d (sd_buffer d') = Next_Bad))"
    using feed
  proof (cases rule: feed_cases)
    case failed
    then show ?thesis using wf by (auto simp: frames_ok_def same_settings_def)
  next
    case (limit code off)
    have "stream_wf (d\<lparr>sd_transition_ready := False, sd_output := []\<rparr>)" using wf by (auto simp: stream_wf_def)
    from stream_wf_fail [OF this, of code off] limit show ?thesis
      by (auto simp: frames_ok_def same_settings_def stream_fail_def)
  next
    case (bad capacity c)
    note l = feed_start_ok [OF wf bad(1,3,4), of env cap, unfolded bad(5) loop_ok_def prod.case]
    then show ?thesis using bad by (auto simp: same_settings_def)
  next
    case (good capacity c d3)
    note l = feed_start_ok [OF wf good(1,3,4), of env cap, unfolded good(5) loop_ok_def prod.case]
    have buf: "sd_buffer d3 = sd_buffer d @ data" using l by (simp add: stream_same_def)
    have "stream_wf d3" using l by blast
    from stream_wf_consume [OF this, of c] have wf': "stream_wf d'" by (simp add: good(6))
    then show ?thesis using l good buf by (auto simp: same_settings_def)
  qed
  then show "stream_wf d'" "frames_ok d' frames" "length frames \<le> cap" "same_settings d d'"
    "ok \<Longrightarrow> \<not> sd_failed d \<and> \<not> sd_failed d'
       \<and> decoder_decodes env d (sd_buffer d @ data) (map (frame_view d') frames) (sd_buffer d')
       \<and> (length frames < cap \<longrightarrow> decoder_step env d (sd_buffer d') = Next_Partial)"
    "\<not> ok \<Longrightarrow> sd_failed d' \<and> (if sd_failed d then d' = d \<and> frames = [] else
       resource_code (er_code (sd_last_error d'))
       \<or> decoder_decodes env d (sd_buffer d @ data) (map (frame_view d') frames) (sd_buffer d')
         \<and> decoder_step env d (sd_buffer d') = Next_Bad)"
    by blast+
qed

subsection \<open>Reachable decoders\<close>

inductive stream_reachable :: "mc_stream_decoder \<Rightarrow> bool" where
  reach_create: "mc_stream_decoder_create calloc_ok config = (Some d, error) \<Longrightarrow> stream_reachable d"
| reach_reset: "stream_reachable d \<Longrightarrow> stream_reachable (mc_stream_decoder_reset d)"
| reach_compression: "stream_reachable d \<Longrightarrow> mc_stream_decoder_set_compression d threshold = (ok, d', error)
     \<Longrightarrow> stream_reachable d'"
| reach_feed: "stream_reachable d \<Longrightarrow> mc_stream_decoder_feed env d data cap = (ok, d', frames)
     \<Longrightarrow> stream_reachable d'"
| reach_finish: "stream_reachable d \<Longrightarrow> mc_stream_decoder_finish d = (ok, d') \<Longrightarrow> stream_reachable d'"

lemma create_wf: "mc_stream_decoder_create calloc_ok config = (Some d, error) \<Longrightarrow> stream_wf d"
  by (cases config) (auto simp: mc_stream_decoder_create_def Let_def stream_wf_def split: if_splits)

lemma feed_wf:
  assumes "stream_wf d" and "mc_stream_decoder_feed env d data cap = (ok, d', frames)"
  shows "stream_wf d' \<and> frames_ok d' frames"
proof (cases data)
  case (Buf bs)
  then show ?thesis using feed_refines(1,2) [of d env bs cap ok d' frames] assms by blast
next
  case (NullBuf n)
  show ?thesis
  proof (cases "n = 0")
    case True
    then have "mc_stream_decoder_feed env d data cap = mc_stream_decoder_feed env d (Buf []) cap"
      unfolding mc_stream_decoder_feed_def NullBuf by (simp only: buf_size.simps buf_null.simps buf_bytes.simps) simp
    then show ?thesis using feed_refines(1,2) [of d env "[]" cap ok d' frames] assms by simp
  next
    case False
    then show ?thesis using assms stream_wf_fail [OF assms(1)]
      by (auto simp: mc_stream_decoder_feed_def NullBuf frames_ok_def)
  qed
qed

lemma reachable_wf: "stream_reachable d \<Longrightarrow> stream_wf d"
proof (induction rule: stream_reachable.induct)
  case (reach_reset d)
  then show ?case by (simp add: stream_wf_def mc_stream_decoder_reset_def)
next
  case (reach_compression d threshold ok d' error)
  then show ?case by (auto simp: stream_wf_def mc_stream_decoder_set_compression_def split: if_splits)
next
  case (reach_finish d ok d')
  then show ?case using stream_wf_fail [of d MC_ERROR_PARTIAL_INPUT]
    by (auto simp: mc_stream_decoder_finish_def split: if_splits)
qed (use create_wf feed_wf in blast)+

subsection \<open>Sequences of feeds\<close>

text \<open>
  A client that feeds chunks one after the other and reads the frames of each feed before the next:
  the views in order and the decoder at the end, if every feed succeeded.
\<close>

fun stream_run :: "stream_env \<Rightarrow> mc_stream_decoder \<Rightarrow> (u8 list \<times> nat) list
    \<Rightarrow> (frame_view list \<times> mc_stream_decoder) option" where
  "stream_run env d [] = Some ([], d)"
| "stream_run env d ((data, cap) # chunks) =
     (case mc_stream_decoder_feed env d (Buf data) cap of
        (False, _, _) \<Rightarrow> None
      | (True, d', frames) \<Rightarrow>
          (case stream_run env d' chunks of
             None \<Rightarrow> None
           | Some (views, d'') \<Rightarrow> Some (map (frame_view d') frames @ views, d'')))"

lemma stream_run_refines:
  assumes "stream_wf d" and "stream_run env d chunks = Some (views, d')"
  shows "stream_wf d' \<and> same_settings d d'
         \<and> decoder_decodes env d (sd_buffer d @ concat (map fst chunks)) views (sd_buffer d')"
  using assms
proof (induction chunks arbitrary: d views)
  case Nil
  then show ?case by (simp add: same_settings_def)
next
  case (Cons chunk chunks)
  obtain data cap where chunk: "chunk = (data, cap)" by (cases chunk)
  obtain d1 frames vs where feed: "mc_stream_decoder_feed env d (Buf data) cap = (True, d1, frames)"
    and rest: "stream_run env d1 chunks = Some (vs, d')" and views: "views = map (frame_view d1) frames @ vs"
    using Cons.prems(2) by (auto simp: chunk split: prod.splits bool.splits option.splits)
  note f = feed_refines [OF Cons.prems(1) feed]
  note IH = Cons.IH [OF f(1) rest]
  have "decoder_decodes env d ((sd_buffer d @ data) @ concat (map fst chunks))
      (map (frame_view d1) frames) (sd_buffer d1 @ concat (map fst chunks))"
    using f(5) decodes_extend unfolding decoder_decodes_def by blast
  moreover have "decoder_decodes env d (sd_buffer d1 @ concat (map fst chunks)) vs (sd_buffer d')"
    using IH decoder_settings [OF f(4), of env] by simp
  ultimately show ?case
    using IH f(4) decodes_trans unfolding decoder_decodes_def views chunk same_settings_def by fastforce
qed

subsection \<open>The readiness probe\<close>

lemma frame_ready_step:
  "\<not> sd_failed d \<Longrightarrow> stream_decoder_frame_ready d \<longleftrightarrow> decoder_step env d (sd_buffer d) \<noteq> Next_Partial"
  using step_empty [of env d]
  by (auto simp: stream_decoder_frame_ready_def decoder_step_def stream_step_def not_le
      split: varint_status.splits option.splits)

lemma feed_partial:
  assumes wf: "stream_wf d" and live: "\<not> sd_failed d"
    and step: "decoder_step env d (sd_buffer d) = Next_Partial"
  shows "\<exists>d'. mc_stream_decoder_feed env d (Buf []) cap = (True, d', [])"
proof -
  have res: "stream_reserve env (sd_buffer_capacity d) (length (sd_buffer d)) (cf_max_buffered_size (sd_config d))
      = Some (sd_buffer_capacity d)"
    using wf by (auto simp: stream_wf_def stream_reserve_def)
  have loop: "stream_feed_loop env (sd_buffer d) cap 0 x [] = (True, 0, x, [])"
    if "sd_config x = sd_config d" for x
    using step that
    by (subst stream_feed_loop.simps)
      (auto simp: decoder_step_def stream_step_def split: varint_status.splits if_splits option.splits)
  show ?thesis
    using live res by (simp add: mc_stream_decoder_feed_def Let_def loop)
qed

lemma frame_ready_feed:
  assumes wf: "stream_wf d"
  shows "stream_decoder_frame_ready d
    \<longleftrightarrow> (\<forall>d'. mc_stream_decoder_feed env d (Buf []) 1 \<noteq> (True, d', []))"
proof (cases "sd_failed d")
  case True
  then show ?thesis by (simp add: stream_decoder_frame_ready_def mc_stream_decoder_feed_def)
next
  case live: False
  show ?thesis
  proof (cases "decoder_step env d (sd_buffer d) = Next_Partial")
    case True
    then show ?thesis using feed_partial [OF wf live True] frame_ready_step [OF live, of env] by blast
  next
    case False
    have "mc_stream_decoder_feed env d (Buf []) 1 \<noteq> (True, d', [])" for d'
    proof
      assume "mc_stream_decoder_feed env d (Buf []) 1 = (True, d', [])"
      from feed_refines(5) [OF wf this] have "decoder_decodes env d (sd_buffer d) [] (sd_buffer d')"
        "decoder_step env d (sd_buffer d') = Next_Partial" by simp_all
      then show False using False unfolding decoder_decodes_def by (auto elim: decodes_NilE)
    qed
    then show ?thesis using frame_ready_step [OF live, of env] False by blast
  qed
qed

text \<open>Two ways of cutting one byte sequence into chunks deliver the same frames.\<close>

lemma chunking_irrelevant:
  assumes wf: "stream_wf d"
    and a: "stream_run env d chunks_a = Some (views_a, da)"
    and b: "stream_run env d chunks_b = Some (views_b, db)"
    and same: "concat (map fst chunks_a) = concat (map fst chunks_b)"
    and drained: "\<not> stream_decoder_frame_ready da" "\<not> stream_decoder_frame_ready db"
  shows "views_a = views_b \<and> sd_buffer da = sd_buffer db"
proof -
  note ra = stream_run_refines [OF wf a] and rb = stream_run_refines [OF wf b]
  have "decoder_step env d (sd_buffer d') = Next_Partial"
    if "same_settings d d'" "\<not> stream_decoder_frame_ready d'" for d'
  proof -
    have "\<not> sd_failed d'" using that(2) by (auto simp: stream_decoder_frame_ready_def)
    with that(2) have "decoder_step env d' (sd_buffer d') = Next_Partial"
      using frame_ready_step by blast
    then show ?thesis using decoder_settings [OF that(1), of env] by simp
  qed
  with ra rb same drained show ?thesis
    using decodes_deterministic unfolding decoder_decodes_def decoder_step_def by metis
qed

subsection \<open>Failure and reset\<close>

lemma failed_feed_stays:
  assumes "sd_failed d" and "\<not> (buf_size data \<noteq> 0 \<and> buf_null data)"
  shows "mc_stream_decoder_feed env d data cap = (False, d, [])"
  using assms by (auto simp: mc_stream_decoder_feed_def)

lemma failed_feed_null:
  "sd_failed d \<Longrightarrow> mc_stream_decoder_feed env d data cap = (False, d, [])"
  by (auto simp: mc_stream_decoder_feed_def stream_fail_def)

end
