(* ===== verification/Framing.thy ===== *)
theory Framing
  imports Stream_Laws
begin

text \<open>
  Frames on a connection (\<open>api.c\<close>, section FRAMING / COMPRESSION): \<open>encode_varint\<close>,
  \<open>encode_frame\<close>, \<open>copy_decoded_frame\<close> and \<open>read_frame\<close>, and the round trip of the encoder with
  the incremental decoder.

  The client contributes its compression threshold. Allocation and zlib's \<open>compress2\<close> are
  parameters; of zlib the round trip relies on one documented fact, \<open>zlib_inverse\<close>: what
  \<open>compress2\<close> produced inflates to the input when the output size is the input's, with no input
  left. The bytes a socket delivers are a list of chunks; its end is a receive error. The text of
  error messages is not modelled.
\<close>

record frame_env =
  fe_alloc :: "nat \<Rightarrow> bool"
  fe_compress2 :: "u8 list \<Rightarrow> u8 list option"

definition MC_MAX_PACKET :: nat where
  "MC_MAX_PACKET = 16 * 1024 * 1024"

function encode_varint_loop :: "u32 \<Rightarrow> u8 list" where
  "encode_varint_loop encoded =
     (let byte = ucast (encoded AND 0x7f);
          rest = drop_bit 7 encoded
      in if rest \<noteq> 0 then (byte OR 0x80) # encode_varint_loop rest else [byte])"
  by pat_completeness auto
termination
  by (relation "measure unat") (auto simp: drop_bit_7_less)

declare encode_varint_loop.simps [simp del]

definition encode_varint :: "i32 \<Rightarrow> u8 list" where
  "encode_varint value = encode_varint_loop (ucast value)"

text \<open>The buffer of \<open>compress2\<close> and the three other allocations may fail.\<close>

definition encode_frame :: "frame_env \<Rightarrow> int \<Rightarrow> i32 \<Rightarrow> buffer \<Rightarrow> u8 list option" where
  "encode_frame env threshold packet_id payload =
     (if sint packet_id < 0 \<or> buf_size payload > MC_MAX_PACKET
         \<or> (buf_size payload \<noteq> 0 \<and> buf_null payload)
      then None
      else
        let plain = encode_varint packet_id @ buf_bytes payload in
        if \<not> fe_alloc env (length plain) then None
        else case
          (if threshold \<ge> 0 then
             if length plain \<ge> nat threshold then
               (case fe_compress2 env plain of
                  None \<Rightarrow> None
                | Some compressed \<Rightarrow> Some (encode_varint (of_nat (length plain)), compressed))
             else Some ([0], plain)
           else Some ([], plain)) of
            None \<Rightarrow> None
          | Some (data_length, inner) \<Rightarrow>
              let framed_size = length data_length + length inner in
              if framed_size > INT32_MAX then None
              else
                let frame_length = encode_varint (of_nat framed_size) in
                if \<not> fe_alloc env (length frame_length + framed_size) then None
                else Some (frame_length @ data_length @ inner))"

text \<open>\<open>copy_decoded_frame\<close> writes the identifier again in front of the payload.\<close>

definition copy_decoded_frame :: "frame_env \<Rightarrow> mc_stream_decoder \<Rightarrow> mc_decoded_frame \<Rightarrow> u8 list option" where
  "copy_decoded_frame env d decoded =
     (let packet_id = encode_varint (df_packet_id decoded) in
      if df_size decoded > SIZE_MAX - length packet_id then None
      else if \<not> fe_alloc env (length packet_id + df_size decoded) then None
      else Some (packet_id @ frame_payload d decoded))"

text \<open>
  \<open>read_frame\<close>: the result (\<^term>\<open>None\<close> for an error), the decoder and the chunks not received yet.
  A feed with capacity one returns at most one frame.
\<close>

fun read_frame :: "frame_env \<Rightarrow> stream_env \<Rightarrow> mc_stream_decoder \<Rightarrow> u8 list list
    \<Rightarrow> u8 list option \<times> mc_stream_decoder \<times> u8 list list" where
  "read_frame fenv env d chunks =
     (case mc_stream_decoder_feed env d (NullBuf 0) 1 of
        (False, d', _) \<Rightarrow> (None, d', chunks)
      | (True, d', [decoded]) \<Rightarrow> (copy_decoded_frame fenv d' decoded, d', chunks)
      | (True, d', _) \<Rightarrow>
          (case chunks of
             [] \<Rightarrow> (None, d', [])
           | chunk # chunks' \<Rightarrow>
               (case mc_stream_decoder_feed env d' (Buf chunk) 1 of
                  (False, d'', _) \<Rightarrow> (None, d'', chunks')
                | (True, d'', [decoded]) \<Rightarrow> (copy_decoded_frame fenv d'' decoded, d'', chunks')
                | (True, d'', _) \<Rightarrow> read_frame fenv env d'' chunks')))"

declare read_frame.simps [simp del]

subsection \<open>Encoded frames\<close>

lemma encode_varint_loop_leb: "encode_varint_loop e = leb_bytes e"
proof (induction e rule: encode_varint_loop.induct)
  case (1 e)
  show ?case
  proof (cases "drop_bit 7 e = 0")
    case True
    then show ?thesis by (subst encode_varint_loop.simps) (simp add: leb_bytes_last)
  next
    case False
    then show ?thesis using 1 by (subst encode_varint_loop.simps) (simp add: leb_bytes_more)
  qed
qed

lemma encode_varint_bytes: "encode_varint v = varint_bytes v"
  by (simp add: encode_varint_def varint_bytes_def encode_varint_loop_leb)

lemma encode_varint_size: "0 < length (encode_varint v)" "length (encode_varint v) \<le> 5"
  unfolding encode_varint_bytes by (rule varint_bytes_length)+

lemma stream_varint_encoded:
  assumes "valid_mode mode"
  shows "stream_varint (encode_varint v @ rest) mode = MC_VARINT_COMPLETE v (length (encode_varint v))"
proof -
  let ?r = "mc_reader_init_mode (Buf (varint_bytes v @ rest)) mode (Some mc_error_clear)"
  have "mc_reader_varint ?r = (Some v, rd_advance (length (varint_bytes v)) ?r)"
    by (rule rd_parsesD [OF parses_varint, of _ _ rest]) (simp_all add: mc_reader_init_mode_fields [OF assms])
  then show ?thesis
    by (simp add: stream_varint_reader [OF assms, of _ mc_error_clear] encode_varint_bytes
        varint_report_def mc_reader_init_mode_fields [OF assms])
qed

definition zlib_inverse :: "(u8 list \<Rightarrow> u8 list option) \<Rightarrow> (u8 list \<Rightarrow> nat \<Rightarrow> (u8 list \<times> nat) option) \<Rightarrow> bool" where
  "zlib_inverse compress2 inflate \<longleftrightarrow>
     (\<forall>plain compressed. compress2 plain = Some compressed \<longrightarrow> inflate compressed (length plain) = Some (plain, 0))"

text \<open>Whether the encoder compresses a packet.\<close>

definition frame_compressed :: "int \<Rightarrow> i32 \<Rightarrow> u8 list \<Rightarrow> bool" where
  "frame_compressed threshold packet_id payload \<longleftrightarrow>
     threshold \<ge> 0 \<and> length (encode_varint packet_id @ payload) \<ge> nat threshold"

text \<open>The size of the packet before compression fits the decoder's limits.\<close>

definition frame_fits :: "mc_stream_decoder_config \<Rightarrow> int \<Rightarrow> i32 \<Rightarrow> u8 list \<Rightarrow> u8 list \<Rightarrow> bool" where
  "frame_fits cfg threshold packet_id payload wire \<longleftrightarrow>
     length wire \<le> cf_max_frame_size cfg
     \<and> (frame_compressed threshold packet_id payload
        \<longrightarrow> length (encode_varint packet_id @ payload) \<le> cf_max_decompressed_size cfg)"

lemma packet_spec_encoded:
  assumes "valid_mode mode" and "0 \<le> sint packet_id"
  shows "packet_spec mode c (encode_varint packet_id @ payload) = Some (packet_id, c, payload)"
  using assms by (simp add: packet_spec_def stream_varint_encoded not_less)

lemma length_word_int:
  assumes "n \<le> INT32_MAX"
  shows "unat (of_nat n :: i32) = n" "sint (of_nat n :: i32) = int n"
proof -
  show u: "unat (of_nat n :: i32) = n" using length_word [OF assms] by simp
  have "n < 2 ^ 31" using assms by (simp add: INT32_MAX_def)
  then show "sint (of_nat n :: i32) = int n"
    using u by (simp add: sint_uint signed_take_bit_int_eq_self uint_nat)
qed

lemma encode_varint_zero: "encode_varint 0 = [0]"
  by (simp add: encode_varint_bytes varint_bytes_def leb_bytes_last)

text \<open>The part of a frame behind its length, read back.\<close>

lemma frame_spec_plain:
  assumes "valid_mode (cf_mode cfg)" and "0 \<le> sint packet_id" and "threshold < 0"
  shows "frame_spec inflate cfg threshold (encode_varint packet_id @ payload) = Some (packet_id, False, payload)"
  using assms by (simp add: frame_spec_def packet_spec_encoded Let_def)

lemma frame_spec_below:
  assumes "valid_mode (cf_mode cfg)" and "0 \<le> sint packet_id" and "0 \<le> threshold"
    and "length (encode_varint packet_id @ payload) < nat threshold"
  shows "frame_spec inflate cfg threshold ([0] @ encode_varint packet_id @ payload) = Some (packet_id, False, payload)"
proof -
  have "stream_varint ([0] @ encode_varint packet_id @ payload) (cf_mode cfg) = MC_VARINT_COMPLETE 0 1"
    using stream_varint_encoded [OF assms(1), of 0 "encode_varint packet_id @ payload"] by (simp add: encode_varint_zero)
  then show ?thesis
    using assms packet_spec_encoded [OF assms(1,2), of False payload] by (simp add: frame_spec_def Let_def not_le)
qed

lemma frame_spec_compressed:
  assumes mode: "valid_mode (cf_mode cfg)" and id: "0 \<le> sint packet_id" and thr: "0 \<le> threshold"
    and plain: "plain = encode_varint packet_id @ payload" and large: "nat threshold \<le> length plain"
    and fits: "length plain \<le> cf_max_decompressed_size cfg" and len: "length plain \<le> INT32_MAX"
    and inf: "inflate compressed (length plain) = Some (plain, 0)"
  shows "frame_spec inflate cfg threshold (encode_varint (of_nat (length plain)) @ compressed)
      = Some (packet_id, True, payload)"
proof -
  note n = length_word_int [OF len]
  have pos: "0 < length plain" using encode_varint_size(1) [of packet_id] by (simp add: plain)
  have "stream_varint (encode_varint (of_nat (length plain)) @ compressed) (cf_mode cfg)
      = MC_VARINT_COMPLETE (of_nat (length plain)) (length (encode_varint (of_nat (length plain))))"
    by (rule stream_varint_encoded [OF mode])
  moreover have "(of_nat (length plain) :: i32) \<noteq> 0" using n(1) pos by (metis unat_0 less_irrefl)
  moreover have "packet_spec (cf_mode cfg) True plain = Some (packet_id, True, payload)"
    unfolding plain by (rule packet_spec_encoded [OF mode id])
  moreover have "\<not> int (length plain) < threshold" using large thr by simp
  ultimately show ?thesis
    using thr large fits inf n by (simp add: frame_spec_def Let_def)
qed

lemma encoded_frame_step:
  assumes enc: "encode_frame env threshold packet_id (Buf payload) = Some wire"
    and mode: "valid_mode (cf_mode cfg)" and fits: "frame_fits cfg threshold packet_id payload wire"
    and zlib: "zlib_inverse (fe_compress2 env) inflate"
  shows "stream_step inflate cfg threshold wire
           = Next_Frame (packet_id, frame_compressed threshold packet_id payload, payload) (length wire)"
proof -
  define plain where "plain = encode_varint packet_id @ payload"
  have id: "0 \<le> sint packet_id" using enc by (auto simp: encode_frame_def Let_def split: if_splits)
  have pay: "length payload \<le> MC_MAX_PACKET" using enc by (auto simp: encode_frame_def Let_def split: if_splits)
  then have plain_len: "length plain \<le> INT32_MAX"
    using encode_varint_size(2) [of packet_id] by (simp add: plain_def MC_MAX_PACKET_def INT32_MAX_def)
  obtain data_length inner where parts:
    "(if threshold \<ge> 0 then
             if length plain \<ge> nat threshold then
               (case fe_compress2 env plain of
                  None \<Rightarrow> None
                | Some compressed \<Rightarrow> Some (encode_varint (of_nat (length plain)), compressed))
             else Some ([0], plain)
           else Some ([], plain)) = Some (data_length, inner)"
    and size: "length data_length + length inner \<le> INT32_MAX"
    and wire: "wire = encode_varint (of_nat (length data_length + length inner)) @ data_length @ inner"
    using enc unfolding encode_frame_def plain_def Let_def
    by (auto split: if_splits option.splits prod.splits)
  have spec: "frame_spec inflate cfg threshold (data_length @ inner)
      = Some (packet_id, frame_compressed threshold packet_id payload, payload)"
  proof (cases "threshold \<ge> 0")
    case False
    then show ?thesis
      using parts frame_spec_plain [OF mode id] by (auto simp: frame_compressed_def plain_def not_le)
  next
    case True
    show ?thesis
    proof (cases "nat threshold \<le> length plain")
      case large: False
      then show ?thesis
        using True parts frame_spec_below [OF mode id True]
        by (auto simp: frame_compressed_def plain_def not_le)
    next
      case large: True
      with True parts obtain compressed where c: "fe_compress2 env plain = Some compressed"
        "data_length = encode_varint (of_nat (length plain))" "inner = compressed"
        by (auto split: option.splits)
      have "inflate compressed (length plain) = Some (plain, 0)"
        using zlib c(1) by (simp add: zlib_inverse_def)
      moreover have comp: "frame_compressed threshold packet_id payload"
        using True large by (simp add: frame_compressed_def plain_def)
      moreover have "length plain \<le> cf_max_decompressed_size cfg"
        using fits comp by (simp add: frame_fits_def plain_def)
      ultimately show ?thesis
        using frame_spec_compressed [OF mode id True plain_def large _ plain_len] c by simp
    qed
  qed
  let ?n = "length data_length + length inner"
  note n = length_word_int [OF size]
  have "0 < ?n"
    using parts encode_varint_size(1) encode_varint_size(1) [of packet_id]
    by (auto simp: plain_def split: if_splits option.splits)
  moreover have "?n \<le> cf_max_frame_size cfg" using fits by (simp add: frame_fits_def wire)
  moreover have "stream_varint wire (cf_mode cfg) = MC_VARINT_COMPLETE (of_nat ?n) (length (encode_varint (of_nat ?n)))"
    unfolding wire by (rule stream_varint_encoded [OF mode])
  ultimately show ?thesis
    using n spec by (simp add: stream_step_def wire del: of_nat_add)
qed

subsection \<open>A conversation\<close>

text \<open>The frames a sender encodes one after the other, as bytes and as views.\<close>

fun encode_frames :: "frame_env \<Rightarrow> int \<Rightarrow> (i32 \<times> u8 list) list \<Rightarrow> u8 list list option" where
  "encode_frames env threshold [] = Some []"
| "encode_frames env threshold ((packet_id, payload) # packets) =
     (case encode_frame env threshold packet_id (Buf payload) of
        None \<Rightarrow> None
      | Some wire \<Rightarrow>
          (case encode_frames env threshold packets of
             None \<Rightarrow> None
           | Some wires \<Rightarrow> Some (wire # wires)))"

definition packet_view :: "int \<Rightarrow> i32 \<times> u8 list \<Rightarrow> frame_view" where
  "packet_view threshold packet =
     (fst packet, frame_compressed threshold (fst packet) (snd packet), snd packet)"

lemma encoded_frames_decode:
  assumes "encode_frames env threshold packets = Some wires" and "valid_mode (cf_mode cfg)"
    and "list_all2 (\<lambda>(packet_id, payload) wire. frame_fits cfg threshold packet_id payload wire) packets wires"
    and "zlib_inverse (fe_compress2 env) inflate"
  shows "stream_decodes inflate cfg threshold (concat wires) (map (packet_view threshold) packets) []"
  using assms
proof (induction packets arbitrary: wires)
  case Nil
  then show ?case by (simp add: stream_decodes.decodes_done)
next
  case (Cons packet packets)
  obtain packet_id payload where packet: "packet = (packet_id, payload)" by (cases packet)
  from Cons.prems(1) obtain wire ws where enc: "encode_frame env threshold packet_id (Buf payload) = Some wire"
    and ws: "encode_frames env threshold packets = Some ws" "wires = wire # ws"
    by (auto simp: packet split: option.splits)
  have step: "stream_step inflate cfg threshold wire
      = Next_Frame (packet_id, frame_compressed threshold packet_id payload, payload) (length wire)"
    using Cons.prems by (intro encoded_frame_step [OF enc]) (simp_all add: packet ws)
  then have "stream_step inflate cfg threshold (wire @ concat ws)
      = Next_Frame (packet_id, frame_compressed threshold packet_id payload, payload) (length wire)"
    by (subst stream_step_extend) simp_all
  moreover have "stream_decodes inflate cfg threshold (concat ws) (map (packet_view threshold) packets) []"
    using Cons.IH [OF ws(1)] Cons.prems by (simp add: ws)
  ultimately show ?case
    using stream_decodes.decodes_frame [of inflate cfg threshold "concat wires"]
    by (simp add: ws packet packet_view_def [of threshold "(packet_id, payload)"])
qed

text \<open>
  Whatever the chunks the bytes arrive in, the receiver gets the packets the sender sent, provided
  that its feeds succeed and it has taken every complete frame.
\<close>

lemma conversation:
  assumes wf: "stream_wf d" and empty: "sd_buffer d = []"
    and enc: "encode_frames fenv (sd_compression_threshold d) packets = Some wires"
    and fits: "list_all2 (\<lambda>(packet_id, payload) wire.
        frame_fits (sd_config d) (sd_compression_threshold d) packet_id payload wire) packets wires"
    and zlib: "zlib_inverse (fe_compress2 fenv) (env_inflate env)"
    and run: "stream_run env d chunks = Some (views, d')"
    and bytes: "concat (map fst chunks) = concat wires" and drained: "\<not> stream_decoder_frame_ready d'"
  shows "views = map (packet_view (sd_compression_threshold d)) packets \<and> sd_buffer d' = []"
proof -
  have mode: "valid_mode (cf_mode (sd_config d))"
    using wf by (auto simp: stream_wf_def stream_config_invalid_def valid_mode_def Let_def)
  note r = stream_run_refines [OF wf run]
  have "\<not> sd_failed d'" using drained by (auto simp: stream_decoder_frame_ready_def)
  then have "decoder_step env d (sd_buffer d') = Next_Partial"
    using drained frame_ready_step [of d' env] decoder_settings [of d d' env] r by simp
  moreover have "decoder_decodes env d (concat wires) (map (packet_view (sd_compression_threshold d)) packets) []"
    using encoded_frames_decode [OF enc mode fits zlib] by (simp add: decoder_decodes_def)
  ultimately show ?thesis
    using r bytes empty step_empty [of env d] decodes_deterministic
    unfolding decoder_decodes_def decoder_step_def by fastforce
qed

subsection \<open>Reading one frame\<close>

lemma feed_null_zero: "mc_stream_decoder_feed env d (NullBuf 0) cap = mc_stream_decoder_feed env d (Buf []) cap"
  unfolding mc_stream_decoder_feed_def by (simp only: buf_size.simps buf_null.simps buf_bytes.simps) simp

lemma copy_frame_view:
  "copy_decoded_frame fenv d f = Some data \<Longrightarrow>
     data = encode_varint (fst (frame_view d f)) @ snd (snd (frame_view d f))"
  by (auto simp: copy_decoded_frame_def frame_view_def Let_def split: if_splits)

lemma feed_one:
  assumes wf: "stream_wf d" and feed: "mc_stream_decoder_feed env d (Buf chunk) 1 = (True, d', frames)"
  shows "stream_wf d' \<and> same_settings d d'
    \<and> decoder_decodes env d (sd_buffer d @ chunk) (map (frame_view d') frames) (sd_buffer d')
    \<and> (frames = [] \<or> (\<exists>f. frames = [f]))"
  using feed_refines [OF wf feed] by (cases frames) auto

lemma read_frame_next:
  assumes "stream_wf d" and "read_frame fenv env d chunks = (Some data, d', rest)"
  shows "\<exists>used v. chunks = used @ rest \<and> data = encode_varint (fst v) @ snd (snd v)
    \<and> decoder_decodes env d (sd_buffer d @ concat used) [v] (sd_buffer d') \<and> stream_wf d' \<and> same_settings d d'"
  using assms
proof (induction chunks arbitrary: d)
  have first: "\<exists>v. data = encode_varint (fst v) @ snd (snd v)
      \<and> decoder_decodes env d (sd_buffer d @ chunk) [v] (sd_buffer d') \<and> stream_wf d' \<and> same_settings d d'"
    if "stream_wf d" "mc_stream_decoder_feed env d (Buf chunk) 1 = (True, d', [f])"
      "copy_decoded_frame fenv d' f = Some data" for d d' f chunk
    using feed_one [OF that(1,2)] copy_frame_view [OF that(3)] by (intro exI [of _ "frame_view d' f"]) auto
  {
    case Nil
    then show ?case
      using first [of d "[]" d'] feed_one [OF Nil(1), of env "[]"]
      by (subst (asm) read_frame.simps)
        (auto simp: feed_null_zero split: prod.splits bool.splits list.splits)
  next
    case (Cons chunk chunks)
    obtain ok d1 fr1 where f1: "mc_stream_decoder_feed env d (Buf []) 1 = (ok, d1, fr1)"
      by (cases "mc_stream_decoder_feed env d (Buf []) 1")
    have ok: "ok" using Cons.prems(2) f1
      by (subst (asm) read_frame.simps) (auto simp: feed_null_zero split: bool.splits)
    note o1 = feed_one [OF Cons.prems(1) f1 [unfolded eqTrueI [OF ok]]]
    show ?case
    proof (cases fr1)
      case (Cons f fs)
      with o1 have "fr1 = [f]" by auto
      then have "rest = chunk # chunks" "d' = d1" "copy_decoded_frame fenv d1 f = Some data"
        using Cons.prems(2) f1 ok
        by (subst (asm) read_frame.simps, simp add: feed_null_zero)+
      then show ?thesis using first [OF Cons.prems(1), of "[]" d1 f] f1 ok \<open>fr1 = [f]\<close>
        by (intro exI [of _ "[]"]) auto
    next
      case Nil
      have "decoder_decodes env d (sd_buffer d) [] (sd_buffer d1)" using o1 Nil by simp
      then have buf: "sd_buffer d1 = sd_buffer d" unfolding decoder_decodes_def by (auto elim: decodes_NilE)
      have wf1: "stream_wf d1" and set1: "same_settings d d1" using o1 by auto
      obtain ok2 d2 fr2 where f2: "mc_stream_decoder_feed env d1 (Buf chunk) 1 = (ok2, d2, fr2)"
        by (cases "mc_stream_decoder_feed env d1 (Buf chunk) 1")
      have run: "(case (ok2, d2, fr2) of
                  (False, d'', _) \<Rightarrow> (None, d'', chunks)
                | (True, d'', [decoded]) \<Rightarrow> (copy_decoded_frame fenv d'' decoded, d'', chunks)
                | (True, d'', _) \<Rightarrow> read_frame fenv env d'' chunks) = (Some data, d', rest)"
        using Cons.prems(2) f1 f2 ok Nil by (subst (asm) read_frame.simps) (simp add: feed_null_zero)
      then have ok2: "ok2" by (auto split: bool.splits)
      note o2 = feed_one [OF wf1 f2 [unfolded eqTrueI [OF ok2]]]
      note dec = decoder_settings [OF set1, of env]
      show ?thesis
      proof (cases fr2)
        case (Cons f fs)
        with o2 have fr2: "fr2 = [f]" by auto
        then have "rest = chunks" "d' = d2" "copy_decoded_frame fenv d2 f = Some data"
          using run ok2 by auto
        then show ?thesis
          using first [OF wf1, of chunk d2 f] f2 ok2 fr2 dec buf set1
          by (intro exI [of _ "[chunk]"]) (auto simp: same_settings_def)
      next
        case fr2: Nil
        then have "read_frame fenv env d2 chunks = (Some data, d', rest)" using run ok2 by simp
        from Cons.IH [OF _ this] o2 obtain used v where u: "chunks = used @ rest"
          "data = encode_varint (fst v) @ snd (snd v)"
          "decoder_decodes env d2 (sd_buffer d2 @ concat used) [v] (sd_buffer d')"
          "stream_wf d'" "same_settings d2 d'" by blast
        have "decoder_decodes env d1 (sd_buffer d1 @ chunk) [] (sd_buffer d2)" using o2 fr2 by simp
        then have "sd_buffer d2 = sd_buffer d @ chunk"
          unfolding decoder_decodes_def buf by (auto elim: decodes_NilE)
        moreover have "same_settings d d2" using set1 o2 by (simp add: same_settings_def)
        ultimately show ?thesis
          using u decoder_settings [of d d2 env]
          by (intro exI [of _ "chunk # used"] exI [of _ v]) (simp add: same_settings_def)
      qed
    qed
  }
qed

end
