(* ===== verification/Stream_Progress.thy ===== *)
theory Stream_Progress
  imports Framing
begin

text \<open>
  Progress of the frame reader: when memory can be allocated and the configuration leaves room for
  one chunk beside an incomplete frame, a feed for one frame fails only in front of a malformed
  frame, and \<open>read_frame\<close> returns every packet that was encoded, in order, whatever the chunks the
  bytes arrive in.
\<close>

subsection \<open>A frame is rejected only when it is malformed\<close>

lemma finish_packet_result:
  "fst (stream_finish_packet d packet compressed frames off)
     \<longleftrightarrow> packet_spec (cf_mode (sd_config d)) compressed packet \<noteq> None"
proof -
  have "stream_varint [] mode = MC_VARINT_PARTIAL" for mode
    by (simp add: stream_varint_def stream_varint_loop.simps)
  then show ?thesis
    by (auto simp: stream_finish_packet_def packet_spec_def split: varint_status.splits)
qed

lemma reserve_output_some:
  assumes "\<And>n. env_alloc env n" and "needed \<le> cf_max_output_size (sd_config d)"
  shows "\<exists>d' frames'. stream_reserve_output env needed d frames = Some (d', frames')
    \<and> sd_config d' = sd_config d"
  using assms by (auto simp: stream_reserve_output_def Let_def)

lemma emit_uncompressed_result:
  assumes alloc: "\<And>n. env_alloc env n" and out: "sd_output d = []"
    and fits: "length packet \<le> cf_max_output_size (sd_config d)" "length packet \<le> SIZE_MAX"
  shows "fst (stream_emit_uncompressed env d packet compressed frames off)
    \<longleftrightarrow> packet_spec (cf_mode (sd_config d)) compressed packet \<noteq> None"
proof -
  obtain d' frames' where r: "stream_reserve_output env (length packet) d frames = Some (d', frames')"
    and cfg: "sd_config d' = sd_config d"
    using reserve_output_some [OF alloc fits(1), of frames] by blast
  have "stream_emit_uncompressed env d packet compressed frames off
      = stream_finish_packet d' packet compressed frames' off"
    using fits out by (simp add: stream_emit_uncompressed_def Let_def r)
  then show ?thesis by (simp add: finish_packet_result cfg)
qed

lemma emit_compressed_result:
  assumes alloc: "\<And>n. env_alloc env n" and out: "sd_output d = []"
    and fits: "declared \<le> cf_max_output_size (sd_config d)" "declared \<le> UINT_MAX" "length body \<le> UINT_MAX"
  shows "fst (stream_emit_compressed env d body declared frames off)
    \<longleftrightarrow> inflated_spec env (cf_mode (sd_config d)) body declared \<noteq> None"
proof -
  obtain d' frames' where r: "stream_reserve_output env declared d frames = Some (d', frames')"
    and cfg: "sd_config d' = sd_config d"
    using reserve_output_some [OF alloc fits(1), of frames] by blast
  have "declared \<le> SIZE_MAX" using fits(2) SIZE_MAX_bounds(2) by linarith
  then show ?thesis
    using fits out
    by (auto simp: stream_emit_compressed_def Let_def r cfg inflated_spec_def finish_packet_result
        split: option.splits)
qed

lemma decode_frame_result:
  assumes wf: "stream_wf d" and alloc: "\<And>n. env_alloc env n" and out: "sd_output d = []"
    and size: "length frame \<le> cf_max_frame_size (sd_config d)"
    and room: "cf_max_frame_size (sd_config d) \<le> cf_max_output_size (sd_config d)"
  shows "fst (stream_decode_frame env d frame frames off)
    \<longleftrightarrow> frame_spec (env_inflate env) (sd_config d) (sd_compression_threshold d) frame \<noteq> None"
proof -
  from wf have limits: "cf_max_frame_size (sd_config d) \<le> INT32_MAX"
      "cf_max_decompressed_size (sd_config d) \<le> INT32_MAX"
      "cf_max_decompressed_size (sd_config d) \<le> cf_max_output_size (sd_config d)"
    by (auto simp: stream_wf_def stream_config_invalid_def Let_def)
  have U: "INT32_MAX \<le> UINT_MAX" by (simp add: INT32_MAX_def UINT_MAX_def)
  have plain: "fst (stream_emit_uncompressed env d packet False frames off')
      \<longleftrightarrow> packet_spec (cf_mode (sd_config d)) False packet \<noteq> None"
    if "length packet \<le> length frame" for packet off'
  proof (rule emit_uncompressed_result [OF alloc out])
    show "length packet \<le> cf_max_output_size (sd_config d)" using that size room by linarith
    have "length packet \<le> INT32_MAX" using that size limits(1) by linarith
    then show "length packet \<le> SIZE_MAX" using SIZE_MAX_bounds(1) by linarith
  qed
  have comp: "fst (stream_emit_compressed env d (drop h frame) (unat declared) frames off')
      \<longleftrightarrow> inflated_spec env (cf_mode (sd_config d)) (drop h frame) (unat declared) \<noteq> None"
    if "unat declared \<le> cf_max_decompressed_size (sd_config d)" for h and declared :: i32 and off'
    using that size limits U by (intro emit_compressed_result [OF alloc out]) auto
  show ?thesis
  proof (cases "sd_compression_threshold d < 0")
    case True
    then show ?thesis by (simp add: stream_decode_frame_def frame_spec_def plain)
  next
    case False
    show ?thesis
    proof (cases "stream_varint frame (cf_mode (sd_config d))")
      case (MC_VARINT_COMPLETE declared h)
      show ?thesis
        unfolding stream_decode_frame_def frame_spec_def MC_VARINT_COMPLETE varint_status.case Let_def if_not_P [OF False]
        using plain [of "drop h frame"] comp [of declared h, unfolded inflated_spec_def]
        by (simp add: not_less split del: option.split split: if_split)
    qed (use False in \<open>simp_all add: stream_decode_frame_def frame_spec_def\<close>)
  qed
qed

subsection \<open>A feed for one frame\<close>

definition feed_room :: "mc_stream_decoder \<Rightarrow> nat \<Rightarrow> bool" where
  "feed_room d n \<longleftrightarrow> cf_max_frame_size (sd_config d) \<le> cf_max_output_size (sd_config d)
     \<and> length (sd_buffer d) + n \<le> cf_max_buffered_size (sd_config d)"

lemma feed_loop_one:
  assumes wf: "stream_wf d" and alloc: "\<And>n. env_alloc env n" and out: "sd_output d = []"
    and room: "cf_max_frame_size (sd_config d) \<le> cf_max_output_size (sd_config d)" and live: "\<not> sd_failed d"
  shows "fst (stream_feed_loop env buf 1 0 d []) \<longleftrightarrow> decoder_step env d buf \<noteq> Next_Bad"
proof (cases "buf = []")
  case True
  then show ?thesis by (simp add: stream_feed_loop.simps step_empty)
next
  case False
  show ?thesis
  proof (cases "stream_varint buf (cf_mode (sd_config d))")
    case (MC_VARINT_COMPLETE len h)
    let ?frame = "take (unat len) (drop h buf)"
    have fr: "frames_ok d []" by (simp add: frames_ok_def)
    obtain ok d' frames' where dec: "stream_decode_frame env d ?frame [] (stream_absolute_offset d h) = (ok, d', frames')"
      by (cases "stream_decode_frame env d ?frame [] (stream_absolute_offset d h)")
    note e = decode_frame_ok [OF wf fr live, of env ?frame "stream_absolute_offset d h", unfolded dec emit_ok_def prod.case]
    have last: "fst (stream_feed_loop env buf 1 n d' frames')" if ok for n
    proof -
      have "length (map (frame_view d') frames') = 1" using e that by auto
      then show ?thesis by (simp add: stream_feed_loop.simps)
    qed
    have "ok \<longleftrightarrow> frame_spec (env_inflate env) (sd_config d) (sd_compression_threshold d) ?frame \<noteq> None"
      if "unat len \<le> cf_max_frame_size (sd_config d)"
      using decode_frame_result [OF wf alloc out _ room, of ?frame "[]" "stream_absolute_offset d h"] that
      by (simp add: dec)
    then show ?thesis
      using False MC_VARINT_COMPLETE last
      by (subst stream_feed_loop.simps)
        (auto simp: dec decoder_step_def stream_step_def Let_def not_less split: option.splits bool.splits)
  qed (use False in \<open>subst stream_feed_loop.simps, simp add: decoder_step_def stream_step_def Let_def\<close>)+
qed

lemma feed_one_total:
  assumes wf: "stream_wf d" and live: "\<not> sd_failed d" and alloc: "\<And>n. env_alloc env n"
    and room: "feed_room d (length data)"
  shows "fst (mc_stream_decoder_feed env d (Buf data) 1) \<longleftrightarrow> decoder_step env d (sd_buffer d @ data) \<noteq> Next_Bad"
proof -
  let ?max = "cf_max_buffered_size (sd_config d)" and ?needed = "length (sd_buffer d) + length data"
  have "stream_reserve env (sd_buffer_capacity d) ?needed ?max \<noteq> None"
    using room alloc by (simp add: stream_reserve_def feed_room_def Let_def)
  then obtain capacity where res: "stream_reserve env (sd_buffer_capacity d) ?needed ?max = Some capacity"
    by blast
  have "sd_buffer_capacity d \<le> ?max" using wf by (simp add: stream_wf_def)
  from reserve_ok [OF res this] have c: "?needed \<le> capacity" "capacity \<le> ?max" by auto
  have "stream_wf (feed_start d capacity data)"
    using wf c by (auto simp: stream_wf_def feed_start_def)
  from feed_loop_one [OF this alloc, of "sd_buffer d @ data"]
  have "fst (stream_feed_loop env (sd_buffer d @ data) 1 0 (feed_start d capacity data) [])
      \<longleftrightarrow> decoder_step env d (sd_buffer d @ data) \<noteq> Next_Bad"
    using room live by (simp add: feed_room_def) (simp add: feed_start_def)
  moreover have "fst (mc_stream_decoder_feed env d (Buf data) 1)
      = fst (stream_feed_loop env (sd_buffer d @ data) 1 0 (feed_start d capacity data) [])"
  proof -
    have "\<not> ?max - length (sd_buffer d) < length data" using room by (auto simp: feed_room_def)
    then show ?thesis using live res
      by (simp add: mc_stream_decoder_feed_def Let_def feed_start_def split: prod.split bool.split)
  qed
  ultimately show ?thesis by simp
qed


text \<open>What such a feed returns, by the specification of the bytes in the buffer.\<close>

lemma feed_one_result:
  assumes wf: "stream_wf d" and live: "\<not> sd_failed d" and alloc: "\<And>n. env_alloc env n"
    and room: "feed_room d (length data)"
    and step: "decoder_step env d (sd_buffer d @ data) \<noteq> Next_Bad"
  obtains (none) d' where "mc_stream_decoder_feed env d (Buf data) 1 = (True, d', [])"
      "decoder_step env d (sd_buffer d @ data) = Next_Partial" "sd_buffer d' = sd_buffer d @ data"
      "stream_wf d'" "\<not> sd_failed d'" "same_settings d d'"
  | (one) d' f n where "mc_stream_decoder_feed env d (Buf data) 1 = (True, d', [f])"
      "decoder_step env d (sd_buffer d @ data) = Next_Frame (frame_view d' f) n"
      "sd_buffer d' = drop n (sd_buffer d @ data)"
      "stream_wf d'" "\<not> sd_failed d'" "same_settings d d'" "frames_ok d' [f]"
proof -
  obtain d' frames where feed: "mc_stream_decoder_feed env d (Buf data) 1 = (True, d', frames)"
    using feed_one_total [OF wf live alloc room] step
    by (cases "mc_stream_decoder_feed env d (Buf data) 1") auto
  note f = feed_refines [OF wf feed]
  from f(5) have dec: "stream_decodes (env_inflate env) (sd_config d) (sd_compression_threshold d)
      (sd_buffer d @ data) (map (frame_view d') frames) (sd_buffer d')"
    by (simp add: decoder_decodes_def)
  show thesis
  proof (cases frames)
    case Nil
    with dec have "sd_buffer d' = sd_buffer d @ data" by (auto elim: decodes_NilE)
    then show ?thesis using none [of d'] feed f Nil by simp
  next
    case (Cons fr rest)
    with f(3) have rest: "rest = []" by simp
    from dec Cons rest obtain n where
      "stream_step (env_inflate env) (sd_config d) (sd_compression_threshold d) (sd_buffer d @ data)
         = Next_Frame (frame_view d' fr) n" "sd_buffer d' = drop n (sd_buffer d @ data)"
      by (auto elim!: decodes_ConsE decodes_NilE)
    then show ?thesis using one [of d' fr n] feed f Cons rest by (simp add: decoder_step_def)
  qed
qed

lemma partial_size:
  "decoder_step env d bytes = Next_Partial \<Longrightarrow> length bytes < cf_max_frame_size (sd_config d) + 5"
proof -
  assume step: "decoder_step env d bytes = Next_Partial"
  show ?thesis
  proof (cases "stream_varint bytes (cf_mode (sd_config d))")
    case (MC_VARINT_COMPLETE len h)
    then show ?thesis
      using step stream_varint_size [OF MC_VARINT_COMPLETE]
      by (auto simp: decoder_step_def stream_step_def not_le split: if_splits option.splits)
  next
    case MC_VARINT_PARTIAL
    have "length bytes < 5" if "stream_varint_loop bytes mode index acc = MC_VARINT_PARTIAL" for mode index acc
      using that
    proof (induction bytes mode index acc rule: stream_varint_loop.induct)
      case (1 data mode index result)
      then show ?case
        by (subst (asm) stream_varint_loop.simps) (auto simp: Let_def split: if_splits)
    qed
    then show ?thesis using MC_VARINT_PARTIAL unfolding stream_varint_def by fastforce
  qed (use step in \<open>simp add: decoder_step_def stream_step_def\<close>)
qed

subsection \<open>\<open>read_frame\<close> returns\<close>

text \<open>
  The configuration leaves room for one chunk beside an incomplete frame; the copy of a packet with
  its identifier does not wrap around.
\<close>

definition reader_room :: "mc_stream_decoder_config \<Rightarrow> nat \<Rightarrow> bool" where
  "reader_room cfg chunk_size \<longleftrightarrow>
     cf_max_frame_size cfg \<le> cf_max_output_size cfg
     \<and> cf_max_frame_size cfg + 5 + chunk_size \<le> cf_max_buffered_size cfg
     \<and> cf_max_output_size cfg + 5 \<le> SIZE_MAX"

lemma copy_frame_total:
  assumes "stream_wf d" and "frames_ok d [f]" and "\<And>n. fe_alloc fenv n"
    and "reader_room (sd_config d) chunk_size"
  shows "copy_decoded_frame fenv d f
    = Some (encode_varint (fst (frame_view d f)) @ snd (snd (frame_view d f)))"
proof -
  have "df_size f \<le> length (sd_output d)" using assms(2) by (simp add: frames_ok_def)
  also have "\<dots> \<le> cf_max_output_size (sd_config d)" using assms(1) by (simp add: stream_wf_def)
  finally have "df_size f + length (encode_varint (df_packet_id f)) \<le> SIZE_MAX"
    using assms(4) encode_varint_size(2) [of "df_packet_id f"] by (simp add: reader_room_def)
  then have "\<not> df_size f > SIZE_MAX - length (encode_varint (df_packet_id f))" by linarith
  then show ?thesis using assms(3) by (simp add: copy_decoded_frame_def frame_view_def)
qed

lemma read_frame_total:
  assumes "stream_wf d" and "\<not> sd_failed d" and "\<And>n. env_alloc env n" and "\<And>n. fe_alloc fenv n"
    and "reader_room (sd_config d) chunk_size" and "\<forall>chunk \<in> set chunks. length chunk \<le> chunk_size"
    and "decoder_step env d (sd_buffer d @ concat chunks) = Next_Frame v n"
  shows "\<exists>d' rest. read_frame fenv env d chunks = (Some (encode_varint (fst v) @ snd (snd v)), d', rest)
    \<and> stream_wf d' \<and> \<not> sd_failed d' \<and> same_settings d d' \<and> set rest \<subseteq> set chunks
    \<and> sd_buffer d' @ concat rest = drop n (sd_buffer d @ concat chunks)"
  using assms
proof (induction chunks arbitrary: d)
  have extend: "decoder_step env d b \<noteq> Next_Partial \<Longrightarrow> decoder_step env d (b @ ext) = decoder_step env d b"
    for d :: mc_stream_decoder and b ext
    unfolding decoder_step_def by (rule stream_step_extend)
  have taken: "\<exists>d' f. mc_stream_decoder_feed env d (Buf data) 1 = (True, d', [f])
      \<and> copy_decoded_frame fenv d' f = Some (encode_varint (fst v) @ snd (snd v))
      \<and> stream_wf d' \<and> \<not> sd_failed d' \<and> same_settings d d' \<and> sd_buffer d' = drop n (sd_buffer d @ data)
      \<and> n \<le> length (sd_buffer d @ data)"
    if "stream_wf d" "\<not> sd_failed d" "feed_room d (length data)" "reader_room (sd_config d) chunk_size"
      "decoder_step env d (sd_buffer d @ data) = Next_Frame v n" for d data
  proof -
    have n: "n \<le> length (sd_buffer d @ data)"
      using that(5) stream_step_size unfolding decoder_step_def by blast
    have "decoder_step env d (sd_buffer d @ data) \<noteq> Next_Bad" using that(5) by simp
    from that(1,2) assms(3) that(3) this show ?thesis
    proof (cases rule: feed_one_result)
      case none
      then show ?thesis using that(5) by simp
    next
      case (one d' f m)
      have "reader_room (sd_config d') chunk_size" using that(4) one by (simp add: same_settings_def)
      from copy_frame_total [OF _ _ assms(4) this] one that(5) n show ?thesis by auto
    qed
  qed
  {
    case Nil
    then have "feed_room d (length [])" by (simp add: feed_room_def reader_room_def stream_wf_def)
    from taken [OF Nil(1,2) this Nil(5)] Nil(7) show ?case
      by (subst read_frame.simps) (auto simp del: One_nat_def simp: feed_null_zero)
  next
    case (Cons c cs)
    have room0: "feed_room d (length [])" using Cons.prems by (simp add: feed_room_def reader_room_def stream_wf_def)
    show ?case
    proof (cases "decoder_step env d (sd_buffer d) = Next_Partial")
      case False
      then have "decoder_step env d (sd_buffer d @ []) = Next_Frame v n"
        using extend [of d "sd_buffer d" "concat (c # cs)"] Cons.prems(7) by simp
      from taken [OF Cons.prems(1,2) room0 Cons.prems(5) this] show ?thesis
        by (subst read_frame.simps) (auto simp del: One_nat_def simp: feed_null_zero)
    next
      case True
      obtain d1 where f1: "mc_stream_decoder_feed env d (Buf []) 1 = (True, d1, [])"
        and d1: "sd_buffer d1 = sd_buffer d" "stream_wf d1" "\<not> sd_failed d1" "same_settings d d1"
        using feed_one_result [OF Cons.prems(1,2) assms(3) room0] True by auto
      have step1: "decoder_step env d1 = decoder_step env d" using decoder_settings [OF d1(4)] by simp
      have rr: "reader_room (sd_config d1) chunk_size" using Cons.prems(5) d1 by (simp add: same_settings_def)
      have room1: "feed_room d1 (length c)"
        using partial_size [OF True] Cons.prems(5,6) d1 by (simp add: feed_room_def reader_room_def same_settings_def)
      show ?thesis
      proof (cases "decoder_step env d (sd_buffer d @ c) = Next_Partial")
        case False
        then have "decoder_step env d1 (sd_buffer d1 @ c) = Next_Frame v n"
          using extend [of d "sd_buffer d @ c" "concat cs"] Cons.prems(7) d1 step1 by simp
        from taken [OF d1(2,3) room1 rr this] d1 show ?thesis
          by (subst read_frame.simps) (auto simp del: One_nat_def simp: feed_null_zero f1 same_settings_def)
      next
        case part: True
        obtain d2 where f2: "mc_stream_decoder_feed env d1 (Buf c) 1 = (True, d2, [])"
          and d2: "sd_buffer d2 = sd_buffer d @ c" "stream_wf d2" "\<not> sd_failed d2" "same_settings d1 d2"
          using feed_one_result [OF d1(2,3) assms(3) room1] part d1 step1 by auto
        have step2: "decoder_step env d2 = decoder_step env d" using decoder_settings [OF d2(4)] step1 by simp
        have "\<exists>d' rest. read_frame fenv env d2 cs = (Some (encode_varint (fst v) @ snd (snd v)), d', rest)
            \<and> stream_wf d' \<and> \<not> sd_failed d' \<and> same_settings d2 d' \<and> set rest \<subseteq> set cs
            \<and> sd_buffer d' @ concat rest = drop n (sd_buffer d2 @ concat cs)"
          using Cons.prems d1 d2 step2 by (intro Cons.IH) (auto simp: same_settings_def)
        then show ?thesis using d1 d2
          by (subst read_frame.simps) (auto simp del: One_nat_def simp: feed_null_zero f1 f2 same_settings_def)
      qed
    qed
  }
qed


subsection \<open>Every packet is delivered\<close>

text \<open>The calls of \<open>read_frame\<close> a receive loop makes, while they return a packet.\<close>

fun read_packets :: "frame_env \<Rightarrow> stream_env \<Rightarrow> mc_stream_decoder \<Rightarrow> u8 list list \<Rightarrow> nat
    \<Rightarrow> u8 list list option" where
  "read_packets fenv env d chunks 0 = Some []"
| "read_packets fenv env d chunks (Suc n) =
     (case read_frame fenv env d chunks of
        (Some data, d', rest) \<Rightarrow> map_option (Cons data) (read_packets fenv env d' rest n)
      | (None, d', rest) \<Rightarrow> None)"

definition packet_bytes :: "i32 \<times> u8 list \<Rightarrow> u8 list" where
  "packet_bytes packet = encode_varint (fst packet) @ snd packet"

lemma packets_delivered:
  assumes "stream_wf d" and "\<not> sd_failed d" and "\<And>n. env_alloc env n" and "\<And>n. fe_alloc fenv n"
    and "reader_room (sd_config d) chunk_size" and "\<forall>chunk \<in> set chunks. length chunk \<le> chunk_size"
    and "encode_frames senv (sd_compression_threshold d) packets = Some wires"
    and "list_all2 (\<lambda>(packet_id, payload) wire.
        frame_fits (sd_config d) (sd_compression_threshold d) packet_id payload wire) packets wires"
    and zlib: "zlib_inverse (fe_compress2 senv) (env_inflate env)"
    and "sd_buffer d @ concat chunks = concat wires @ tail"
  shows "read_packets fenv env d chunks (length packets) = Some (map packet_bytes packets)"
  using assms(1,2,5-8,10)
proof (induction packets arbitrary: d chunks wires)
  case (Cons packet packets)
  obtain packet_id payload where packet: "packet = (packet_id, payload)" by (cases packet)
  from Cons.prems(5) obtain wire ws where
    enc: "encode_frame senv (sd_compression_threshold d) packet_id (Buf payload) = Some wire"
    and ws: "encode_frames senv (sd_compression_threshold d) packets = Some ws" "wires = wire # ws"
    by (auto simp: packet split: option.splits)
  have mode: "valid_mode (cf_mode (sd_config d))"
    using Cons.prems(1) by (auto simp: stream_wf_def stream_config_invalid_def valid_mode_def Let_def)
  let ?v = "(packet_id, frame_compressed (sd_compression_threshold d) packet_id payload, payload)"
  have "stream_step (env_inflate env) (sd_config d) (sd_compression_threshold d) wire = Next_Frame ?v (length wire)"
    using Cons.prems(6) by (intro encoded_frame_step [OF enc mode _ zlib]) (simp add: packet ws)
  then have "decoder_step env d (sd_buffer d @ concat chunks) = Next_Frame ?v (length wire)"
    unfolding decoder_step_def Cons.prems(7) ws by (simp add: stream_step_extend)
  from read_frame_total [OF Cons.prems(1,2) assms(3,4) Cons.prems(3,4) this] obtain d' rest where
    r: "read_frame fenv env d chunks = (Some (encode_varint packet_id @ payload), d', rest)"
    and d': "stream_wf d'" "\<not> sd_failed d'" "same_settings d d'" "set rest \<subseteq> set chunks"
      "sd_buffer d' @ concat rest = drop (length wire) (sd_buffer d @ concat chunks)" by auto
  have "read_packets fenv env d' rest (length packets) = Some (map packet_bytes packets)"
  proof (rule Cons.IH)
    show "sd_buffer d' @ concat rest = concat ws @ tail" using d'(5) Cons.prems(7) by (simp add: ws)
  qed (use d' Cons.prems ws in \<open>auto simp: same_settings_def\<close>)
  then show ?case by (simp add: r packet packet_bytes_def)
qed simp

end
