(* ===== verification/Uuid.thy ===== *)
theory Uuid
  imports Prelude
begin

text \<open>
  UUIDs and offline identities (\<open>api.c\<close>, section AUTH / UUID / LOGIN HELPERS): parsing and
  formatting, the single-block MD5, the name rule and the version-3 UUID of an offline player.

  A UUID is the list of its sixteen bytes; a C string is the list of its bytes before the
  terminator, \<^term>\<open>None\<close> a null pointer.
\<close>

subsection \<open>Text form\<close>

definition uuid_hex_value :: "u8 \<Rightarrow> int" where
  "uuid_hex_value v =
     (if 0x30 \<le> v \<and> v \<le> 0x39 then uint (v - 0x30)
      else if 0x61 \<le> v \<and> v \<le> 0x66 then uint (v - 0x61) + 10
      else if 0x41 \<le> v \<and> v \<le> 0x46 then uint (v - 0x41) + 10
      else -1)"

text \<open>
  The loop of \<open>mc_uuid_parse\<close>: \<open>remaining\<close> output bytes are still to come, \<open>input\<close> is the
  position in the text. The reads stay inside the text because of the length that was checked.
\<close>

fun uuid_parse_loop :: "u8 list \<Rightarrow> nat \<Rightarrow> nat \<Rightarrow> (nat \<times> u8 list) option" where
  "uuid_parse_loop text 0 input = Some (input, [])"
| "uuid_parse_loop text (Suc remaining) input =
     (let dash = (length text = 36 \<and> (input = 8 \<or> input = 13 \<or> input = 18 \<or> input = 23)) in
      if dash \<and> text ! input \<noteq> 0x2d then None
      else
        let input' = (if dash then input + 1 else input);
            high = uuid_hex_value (text ! input');
            low = uuid_hex_value (text ! (input' + 1))
        in if high < 0 \<or> low < 0 then None
           else (case uuid_parse_loop text remaining (input' + 2) of
               None \<Rightarrow> None
             | Some (fin, bytes) \<Rightarrow>
                 Some (fin, ucast (push_bit 4 (word_of_int high :: u32) OR word_of_int low) # bytes)))"

definition mc_uuid_parse :: "u8 list option \<Rightarrow> u8 list option" where
  "mc_uuid_parse text =
     (case text of
        None \<Rightarrow> None
      | Some cs \<Rightarrow>
          if length cs \<noteq> 32 \<and> length cs \<noteq> 36 then None
          else (case uuid_parse_loop cs 16 0 of
              None \<Rightarrow> None
            | Some (fin, bytes) \<Rightarrow> if fin \<noteq> length cs then None else Some bytes))"

definition hexadecimal :: "u8 list" where
  "hexadecimal = [0x30, 0x31, 0x32, 0x33, 0x34, 0x35, 0x36, 0x37, 0x38, 0x39,
                  0x61, 0x62, 0x63, 0x64, 0x65, 0x66]"

definition uuid_format_byte :: "nat \<Rightarrow> u8 \<Rightarrow> u8 list" where
  "uuid_format_byte input b =
     (if input = 4 \<or> input = 6 \<or> input = 8 \<or> input = 10 then [0x2d] else [])
     @ [hexadecimal ! unat (drop_bit 4 b), hexadecimal ! unat (b AND 0x0f)]"

text \<open>The text without its terminator; a null UUID is the empty text.\<close>

definition mc_uuid_format :: "u8 list option \<Rightarrow> u8 list" where
  "mc_uuid_format uuid =
     (case uuid of
        None \<Rightarrow> []
      | Some bytes \<Rightarrow> concat (map (\<lambda>input. uuid_format_byte input (bytes ! input)) [0..<16]))"

subsection \<open>MD5 of one block\<close>

definition rotate_left :: "u32 \<Rightarrow> nat \<Rightarrow> u32" where
  "rotate_left w shift = push_bit shift w OR drop_bit (32 - shift) w"

definition md5_shifts :: "nat list" where
  "md5_shifts =
    [7, 12, 17, 22, 7, 12, 17, 22, 7, 12, 17, 22, 7, 12, 17, 22,
     5, 9, 14, 20, 5, 9, 14, 20, 5, 9, 14, 20, 5, 9, 14, 20,
     4, 11, 16, 23, 4, 11, 16, 23, 4, 11, 16, 23, 4, 11, 16, 23,
     6, 10, 15, 21, 6, 10, 15, 21, 6, 10, 15, 21, 6, 10, 15, 21]"

definition md5_constants :: "u32 list" where
  "md5_constants =
    [0xd76aa478, 0xe8c7b756, 0x242070db, 0xc1bdceee, 0xf57c0faf, 0x4787c62a, 0xa8304613, 0xfd469501,
    0x698098d8, 0x8b44f7af, 0xffff5bb1, 0x895cd7be, 0x6b901122, 0xfd987193, 0xa679438e, 0x49b40821,
    0xf61e2562, 0xc040b340, 0x265e5a51, 0xe9b6c7aa, 0xd62f105d, 0x02441453, 0xd8a1e681, 0xe7d3fbc8,
    0x21e1cde6, 0xc33707d6, 0xf4d50d87, 0x455a14ed, 0xa9e3e905, 0xfcefa3f8, 0x676f02d9, 0x8d2a4c8a,
    0xfffa3942, 0x8771f681, 0x6d9d6122, 0xfde5380c, 0xa4beea44, 0x4bdecfa9, 0xf6bb4b60, 0xbebfbc70,
    0x289b7ec6, 0xeaa127fa, 0xd4ef3085, 0x04881d05, 0xd9d4d039, 0xe6db99e5, 0x1fa27cf8, 0xc4ac5665,
    0xf4292244, 0x432aff97, 0xab9423a7, 0xfc93a039, 0x655b59c3, 0x8f0ccc92, 0xffeff47d, 0x85845dd1,
    0x6fa87e4f, 0xfe2ce6e0, 0xa3014314, 0x4e0811a1, 0xf7537e82, 0xbd3af235, 0x2ad7d2bb, 0xeb86d391]"

text \<open>The padded block, for an input shorter than 56 bytes.\<close>

definition md5_block :: "u8 list \<Rightarrow> u8 list" where
  "md5_block input =
     (let padded = input @ [0x80] @ replicate (63 - length input) 0;
          bits = of_nat (length input) * 8 :: u64
      in take 56 padded @ map (\<lambda>index. ucast (drop_bit (index * 8) bits)) [0..<8])"

definition md5_words :: "u8 list \<Rightarrow> u32 list" where
  "md5_words block =
     map (\<lambda>index. let off = index * 4 in
         ucast (block ! off) OR push_bit 8 (ucast (block ! (off + 1)))
         OR push_bit 16 (ucast (block ! (off + 2))) OR push_bit 24 (ucast (block ! (off + 3))))
       [0..<16]"

type_synonym md5_state = "u32 \<times> u32 \<times> u32 \<times> u32"

definition md5_round :: "u32 list \<Rightarrow> nat \<Rightarrow> md5_state \<Rightarrow> md5_state" where
  "md5_round words index = (\<lambda>(a, b, c, d).
     let (mixed, word) =
           (if index < 16 then ((b AND c) OR (NOT b AND d), index)
            else if index < 32 then ((d AND b) OR (NOT d AND c), (5 * index + 1) mod 16)
            else if index < 48 then (b XOR c XOR d, (3 * index + 5) mod 16)
            else (c XOR (b OR NOT d), (7 * index) mod 16))
     in (d, b + rotate_left (a + mixed + md5_constants ! index + words ! word) (md5_shifts ! index), b, c))"

definition md5_single_block :: "u8 list \<Rightarrow> u8 list" where
  "md5_single_block input =
     (let words = md5_words (md5_block input);
          initial = (0x67452301, 0xefcdab89, 0x98badcfe, 0x10325476);
          (a, b, c, d) = fold (md5_round words) [0..<64] initial;
          state = [0x67452301 + a, 0xefcdab89 + b, 0x98badcfe + c, 0x10325476 + d] :: u32 list
      in concat (map (\<lambda>w. [ucast w, ucast (drop_bit 8 w), ucast (drop_bit 16 w), ucast (drop_bit 24 w)]) state))"

subsection \<open>Offline players\<close>

definition username_byte :: "u8 \<Rightarrow> bool" where
  "username_byte v \<longleftrightarrow> (0x61 \<le> v \<and> v \<le> 0x7a) \<or> (0x41 \<le> v \<and> v \<le> 0x5a)
     \<or> (0x30 \<le> v \<and> v \<le> 0x39) \<or> v = 0x5f"

definition valid_username :: "u8 list option \<Rightarrow> bool" where
  "valid_username username =
     (case username of
        None \<Rightarrow> False
      | Some cs \<Rightarrow> \<not> (length cs = 0 \<or> length cs > 16) \<and> list_all username_byte cs)"

definition offline_prefix :: "u8 list" where
  "offline_prefix = [0x4f, 0x66, 0x66, 0x6c, 0x69, 0x6e, 0x65, 0x50, 0x6c, 0x61, 0x79, 0x65, 0x72, 0x3a]"

definition mc_offline_uuid :: "u8 list option \<Rightarrow> u8 list option" where
  "mc_offline_uuid username =
     (if \<not> valid_username username then None
      else
        let digest = md5_single_block (offline_prefix @ the username);
            uuid = digest[6 := (digest ! 6 AND 0x0f) OR 0x30];
            uuid' = uuid[8 := (uuid ! 8 AND 0x3f) OR 0x80]
        in Some uuid')"

subsection \<open>Lemmas\<close>

lemma hex_value_digit: "k < 16 \<Longrightarrow> uuid_hex_value (hexadecimal ! k) = int k"
proof -
  assume "k < 16"
  then have "k \<in> set [0..<16]" by simp
  then show ?thesis
    unfolding hexadecimal_def uuid_hex_value_def
    by (simp add: upt_rec) (elim disjE; simp)
qed

lemma nibbles_join:
  fixes b :: u8
  shows "ucast (push_bit 4 (of_nat (unat (drop_bit 4 b)) :: u32) OR of_nat (unat (b AND 0x0f))) = b"
proof -
  have hi: "(of_nat (unat (drop_bit 4 b)) :: u32) = ucast (drop_bit 4 b)" by (simp add: unsigned_ucast_eq)
  have lo: "(of_nat (unat (b AND 0x0f)) :: u32) = ucast (b AND 0x0f)" by (simp add: unsigned_ucast_eq)
  have mask: "bit (0x0f :: int) n \<longleftrightarrow> n < 4" for n
  proof -
    have "(0x0f :: int) = mask 4" by (simp add: mask_eq_exp_minus_1)
    then show ?thesis by (simp only: bit_mask_iff) auto
  qed
  show ?thesis
    unfolding hi lo by (rule bit_word_eqI) (auto simp: bit_simps mask)
qed

lemma nibble_less: "unat (drop_bit 4 (b :: u8)) < 16" "unat (b AND 0x0f) < 16"
proof -
  have "unat (drop_bit 4 b) = unat b div 16"
    by (simp only: unat_drop_bit_eq) (simp add: drop_bit_eq_div)
  moreover have "unat b < 2 ^ LENGTH(8)" by (rule unsigned_less)
  ultimately show "unat (drop_bit 4 b) < 16" by simp
  have "b AND 0x0f \<le> 0x0f" by (rule word_and_le1)
  then show "unat (b AND 0x0f) < 16" by (simp add: word_le_nat_alt)
qed

lemma parse_digits:
  fixes b :: u8
  shows "uuid_hex_value (hexadecimal ! unat (drop_bit 4 b)) = int (unat (drop_bit 4 b))"
    "uuid_hex_value (hexadecimal ! unat (b AND 0x0f)) = int (unat (b AND 0x0f))"
  by (simp_all only: hex_value_digit nibble_less)

text \<open>One step of the parser over what the formatter wrote for one byte.\<close>

lemma parse_loop_byte:
  assumes fmt: "drop input text = uuid_format_byte k b @ rest" and len: "length text = 36"
    and pos: "k \<in> {4, 6, 8, 10} \<longleftrightarrow> input \<in> {8, 13, 18, 23}"
  shows "uuid_parse_loop text (Suc remaining) input =
     map_option (\<lambda>(fin, bytes). (fin, b # bytes))
       (uuid_parse_loop text remaining (input + length (uuid_format_byte k b)))"
proof -
  define hi where "hi = hexadecimal ! unat (drop_bit 4 b)"
  define lo where "lo = hexadecimal ! unat (b AND 0x0f)"
  have at: "text ! (input + j) = (uuid_format_byte k b @ rest) ! j" if "input + j < 36" for j
    using fmt len that by (metis nth_drop less_imp_le_nat le_add1 order_trans)
  have room: "input + length (uuid_format_byte k b) \<le> 36"
  proof -
    have "length (drop input text) = length (uuid_format_byte k b @ rest)" by (simp add: fmt)
    moreover have "input \<le> 36" using fmt len by (cases "input \<le> 36") (auto simp: uuid_format_byte_def)
    ultimately show ?thesis using len by simp
  qed
  have val: "uuid_hex_value hi = int (unat (drop_bit 4 b))" "uuid_hex_value lo = int (unat (b AND 0x0f))"
    using parse_digits by (simp_all add: hi_def lo_def)
  have join: "ucast (push_bit 4 (word_of_int (uuid_hex_value hi) :: u32) OR word_of_int (uuid_hex_value lo)) = b"
    using nibbles_join [of b] by (simp only: val of_int_of_nat_eq)
  show ?thesis
  proof (cases "k \<in> {4, 6, 8, 10}")
    case True
    then have fb: "uuid_format_byte k b = [0x2d, hi, lo]" by (auto simp: uuid_format_byte_def hi_def lo_def)
    have nths: "text ! input = 0x2d" "text ! (input + 1) = hi" "text ! (input + 1 + 1) = lo"
      using at [of 0] at [of 1] at [of 2] room by (simp_all add: fb)
    have dash: "length text = 36 \<and> (input = 8 \<or> input = 13 \<or> input = 18 \<or> input = 23)"
      using True pos len by auto
    show ?thesis
      using join unfolding uuid_parse_loop.simps Let_def if_P [OF dash] nths fb
      by (simp add: val dash split: option.split)
  next
    case False
    then have fb: "uuid_format_byte k b = [hi, lo]" by (auto simp: uuid_format_byte_def hi_def lo_def)
    have nths: "text ! input = hi" "text ! (input + 1) = lo"
      using at [of 0] at [of 1] room by (simp_all add: fb)
    have dash: "\<not> (length text = 36 \<and> (input = 8 \<or> input = 13 \<or> input = 18 \<or> input = 23))"
      using False pos len by auto
    show ?thesis
      using join unfolding uuid_parse_loop.simps Let_def if_not_P [OF dash] nths fb
      by (simp add: val dash split: option.split)
  qed
qed

text \<open>Where byte \<open>k\<close> starts in the text, its dash included.\<close>

definition uuid_offset :: "nat \<Rightarrow> nat" where
  "uuid_offset k = 2 * k + (if k \<le> 4 then 0 else if k \<le> 6 then 1 else if k \<le> 8 then 2 else if k \<le> 10 then 3 else 4)"

lemma uuid_offset_Suc: "uuid_offset (Suc k) = uuid_offset k + length (uuid_format_byte k b)"
  by (simp add: uuid_offset_def uuid_format_byte_def)

lemma uuid_offset_dash: "k < 16 \<Longrightarrow> k \<in> {4, 6, 8, 10} \<longleftrightarrow> uuid_offset k \<in> {8, 13, 18, 23}"
  by (auto simp: uuid_offset_def split: if_splits)

lemma format_tail:
  assumes "k \<le> 16"
  shows "drop (uuid_offset k) (mc_uuid_format (Some bytes))
           = concat (map (\<lambda>i. uuid_format_byte i (bytes ! i)) [k..<16])"
  using assms
proof (induction k)
  case 0
  then show ?case by (simp add: uuid_offset_def mc_uuid_format_def)
next
  case (Suc k)
  then have "drop (uuid_offset k) (mc_uuid_format (Some bytes))
      = uuid_format_byte k (bytes ! k) @ concat (map (\<lambda>i. uuid_format_byte i (bytes ! i)) [Suc k..<16])"
    by (simp add: upt_conv_Cons)
  then show ?case
    unfolding uuid_offset_Suc [of k "bytes ! k"] by (rule drop_append_length)
qed

lemma format_length: "length (mc_uuid_format (Some bytes)) = 36"
proof -
  have "length (concat (map (\<lambda>i. uuid_format_byte i (bytes ! i)) [0..<k])) = uuid_offset k" for k
  proof (induction k)
    case (Suc k)
    then show ?case by (simp add: uuid_offset_Suc [of k "bytes ! k"])
  qed (simp add: uuid_offset_def)
  from this [of 16] show ?thesis by (simp add: mc_uuid_format_def uuid_offset_def)
qed

lemma parse_format_loop:
  assumes "length bytes = 16" and "remaining \<le> 16"
  shows "uuid_parse_loop (mc_uuid_format (Some bytes)) remaining (uuid_offset (16 - remaining))
           = Some (36, drop (16 - remaining) bytes)"
  using assms(2)
proof (induction remaining)
  case 0
  then show ?case using assms(1) by (simp add: uuid_offset_def)
next
  case (Suc remaining)
  let ?k = "16 - Suc remaining"
  have k: "?k < 16" "Suc ?k = 16 - remaining" using Suc.prems by simp_all
  have "drop (uuid_offset ?k) (mc_uuid_format (Some bytes))
      = uuid_format_byte ?k (bytes ! ?k) @ concat (map (\<lambda>i. uuid_format_byte i (bytes ! i)) [Suc ?k..<16])"
    using k format_tail [of ?k bytes] by (simp add: upt_conv_Cons)
  from parse_loop_byte [OF this format_length uuid_offset_dash [OF k(1)]]
  have "uuid_parse_loop (mc_uuid_format (Some bytes)) (Suc remaining) (uuid_offset ?k) =
     map_option (\<lambda>(fin, bs). (fin, bytes ! ?k # bs))
       (uuid_parse_loop (mc_uuid_format (Some bytes)) remaining (uuid_offset (16 - remaining)))"
    by (simp only: uuid_offset_Suc [symmetric] k(2))
  also have "\<dots> = Some (36, bytes ! ?k # drop (Suc ?k) bytes)"
    using Suc k by simp
  also have "bytes ! ?k # drop (Suc ?k) bytes = drop ?k bytes"
    using k(1) assms(1) by (simp add: Cons_nth_drop_Suc)
  finally show ?case .
qed

lemma parse_format:
  assumes "length bytes = 16"
  shows "mc_uuid_parse (Some (mc_uuid_format (Some bytes))) = Some bytes"
  using parse_format_loop [OF assms, of 16]
  by (simp add: mc_uuid_parse_def format_length uuid_offset_def)

lemma parse_loop_length:
  "uuid_parse_loop text n input = Some (fin, bytes) \<Longrightarrow> length bytes = n"
proof (induction "text" n input arbitrary: fin bytes rule: uuid_parse_loop.induct)
  case (2 cs n pos)
  then show ?case by (fastforce simp: Let_def split: if_splits option.splits)
qed simp

lemma parse_length: "mc_uuid_parse text = Some bytes \<Longrightarrow> length bytes = 16"
  by (auto simp: mc_uuid_parse_def split: option.splits if_splits dest: parse_loop_length)

lemma md5_length: "length (md5_single_block input) = 16"
  by (simp add: md5_single_block_def Let_def split: prod.split)

lemma offline_uuid_shape:
  assumes "mc_offline_uuid (Some name) = Some uuid"
  shows "length uuid = 16 \<and> drop_bit 4 (uuid ! 6) = 3 \<and> drop_bit 6 (uuid ! 8) = 2"
proof -
  let ?d = "md5_single_block (offline_prefix @ name)"
  have u: "uuid = (?d[6 := (?d ! 6 AND 0x0f) OR 0x30])[8 := (?d ! 8 AND 0x3f) OR 0x80]"
    using assms by (auto simp: mc_offline_uuid_def Let_def split: if_splits)
  have "drop_bit 4 ((x AND 0x0f) OR 0x30) = 3" for x :: u8
  proof -
    have "drop_bit 4 (x AND 0x0f) = 0"
      using nibble_less(2) [of x] by (simp only: word_unat_eq_iff unat_drop_bit_eq) (simp add: drop_bit_eq_div)
    then show ?thesis by simp
  qed
  moreover have "drop_bit 6 ((x AND 0x3f) OR 0x80) = 2" for x :: u8
  proof -
    have "x AND 0x3f \<le> 0x3f" by (rule word_and_le1)
    then have "unat (x AND 0x3f) < 64" by (simp add: word_le_nat_alt)
    then have "drop_bit 6 (x AND 0x3f) = 0"
      by (simp only: word_unat_eq_iff unat_drop_bit_eq) (simp add: drop_bit_eq_div)
    then show ?thesis by simp
  qed
  ultimately show ?thesis by (simp add: u md5_length)
qed

text \<open>The name fits the buffer of 40 characters and the single block.\<close>

lemma offline_name_fits:
  "valid_username (Some name) \<Longrightarrow> length (offline_prefix @ name) \<le> 30"
  by (simp add: valid_username_def offline_prefix_def)

end
