(* ===== verification/Quantities.thy ===== *)
theory Quantities
  imports Item_Laws Registry
begin

text \<open>
  The rest of the arithmetic on \<open>float\<close> and \<open>double\<close> that the typed packet decoders of \<open>api.c\<close>
  use, on the IEEE 754 bits: comparisons, differences, products, quotients by a constant and
  conversions, each computed exactly and rounded once to nearest, ties to even; and the two error
  idioms of these decoders.
\<close>

subsection \<open>Comparisons\<close>

definition f32_isnan :: "f32 \<Rightarrow> bool" where
  "f32_isnan x \<longleftrightarrow> f32_exponent x = 0xff \<and> f32_fraction x \<noteq> 0"

definition f64_isnan :: "f64 \<Rightarrow> bool" where
  "f64_isnan x \<longleftrightarrow> f64_exponent x = 0x7ff \<and> f64_fraction x \<noteq> 0"

text \<open>
  The bits without the sign order the numbers of one sign, infinities included; both zeros have
  order 0. A NaN compares with nothing.
\<close>

definition f32_order :: "f32 \<Rightarrow> int" where
  "f32_order x = (if bit x 31 then - uint (x AND 0x7fffffff) else uint (x AND 0x7fffffff))"

definition f64_order :: "f64 \<Rightarrow> int" where
  "f64_order x =
     (if f64_negative x then - uint (x AND 0x7fffffffffffffff) else uint (x AND 0x7fffffffffffffff))"

definition f32_less :: "f32 \<Rightarrow> f32 \<Rightarrow> bool" where
  "f32_less x y \<longleftrightarrow> \<not> f32_isnan x \<and> \<not> f32_isnan y \<and> f32_order x < f32_order y"

definition f64_less :: "f64 \<Rightarrow> f64 \<Rightarrow> bool" where
  "f64_less x y \<longleftrightarrow> \<not> f64_isnan x \<and> \<not> f64_isnan y \<and> f64_order x < f64_order y"

text \<open>\<^verbatim>\<open>x != 0.0F\<close>: a NaN differs from zero.\<close>

definition f32_nonzero :: "f32 \<Rightarrow> bool" where
  "f32_nonzero x \<longleftrightarrow> x AND 0x7fffffff \<noteq> 0"

definition fabsf :: "f32 \<Rightarrow> f32" where
  "fabsf x = x AND 0x7fffffff"

definition F32_ONE :: f32 where
  "F32_ONE = 0x3f800000"

definition F32_NINETY :: f32 where
  "F32_NINETY = 0x42b40000"

definition F32_MINUS_NINETY :: f32 where
  "F32_MINUS_NINETY = 0xc2b40000"

subsection \<open>Quotients, products and differences\<close>

text \<open>
  The double nearest to \<open>n / d\<close>, as \<open>f64_round\<close>, with the remainder of the division taken into
  the rounding; and the float.
\<close>

definition f64_ratio_bits :: "nat \<Rightarrow> nat \<Rightarrow> nat" where
  "f64_ratio_bits n d =
     (let a = n * 2 ^ 1074;
          shift = bit_length (a div d) - 53;
          step = d * 2 ^ shift;
          q = a div step;
          r = a mod step;
          up = 2 * r > step \<or> (2 * r = step \<and> odd q)
      in min F64_INFINITY (shift * 2 ^ 52 + (if up then q + 1 else q)))"

definition f32_ratio_bits :: "nat \<Rightarrow> nat \<Rightarrow> nat" where
  "f32_ratio_bits n d =
     (let a = n * 2 ^ 149;
          shift = bit_length (a div d) - 24;
          step = d * 2 ^ shift;
          q = a div step;
          r = a mod step;
          up = 2 * r > step \<or> (2 * r = step \<and> odd q)
      in min F32_INFINITY (shift * 2 ^ 23 + (if up then q + 1 else q)))"

text \<open>\<^verbatim>\<open>(double)n / d\<close> for an integer \<open>n\<close> that a double represents and a positive constant.\<close>

definition f64_quotient :: "int \<Rightarrow> nat \<Rightarrow> f64" where
  "f64_quotient n d =
     (let bits = of_nat (f64_ratio_bits (nat \<bar>n\<bar>) d)
      in if n < 0 then bits OR 0x8000000000000000 else bits)"

definition f32_quotient :: "int \<Rightarrow> nat \<Rightarrow> f32" where
  "f32_quotient n d =
     (let bits = of_nat (f32_ratio_bits (nat \<bar>n\<bar>) d)
      in if n < 0 then bits OR 0x80000000 else bits)"

text \<open>\<^verbatim>\<open>x / d\<close> and \<^verbatim>\<open>x * y\<close> for finite doubles.\<close>

definition f64_divide :: "f64 \<Rightarrow> nat \<Rightarrow> f64" where
  "f64_divide x d =
     (let bits = of_nat (f64_ratio_bits (nat \<bar>f64_scaled x\<bar>) (d * 2 ^ 1074))
      in if f64_negative x then bits OR 0x8000000000000000 else bits)"

definition f64_times :: "f64 \<Rightarrow> f64 \<Rightarrow> f64" where
  "f64_times x y =
     (let bits = of_nat (f64_ratio_bits (nat \<bar>f64_scaled x * f64_scaled y\<bar>) (2 ^ 2148))
      in if f64_negative x \<noteq> f64_negative y then bits OR 0x8000000000000000 else bits)"

text \<open>\<^verbatim>\<open>x - y\<close> for a finite \<open>x\<close>: a NaN stays one, an infinity changes its sign.\<close>

definition f64_minus :: "f64 \<Rightarrow> f64 \<Rightarrow> f64" where
  "f64_minus x y =
     (if f64_isnan y then y else f64_plus x (y XOR 0x8000000000000000))"

text \<open>\<^verbatim>\<open>(double)x\<close> for a \<open>float\<close>; the payload of a NaN is not observed.\<close>

definition f64_of_f32 :: "f32 \<Rightarrow> f64" where
  "f64_of_f32 x =
     (let bits =
        (if f32_isnan x then 0x7ff8000000000000
         else if \<not> f32_isfinite x then 0x7ff0000000000000
         else of_nat (f64_ratio_bits (nat \<bar>f32_scaled x\<bar>) (2 ^ 149)))
      in if bit x 31 then bits OR 0x8000000000000000 else bits)"

text \<open>A rotation sent as a byte: \<^verbatim>\<open>(float)raw * (360.0F / 256.0F)\<close>.\<close>

definition angle_of_byte :: "u8 \<Rightarrow> f32" where
  "angle_of_byte raw = f32_quotient (uint raw * 45) 32"

subsection \<open>Error idioms\<close>

text \<open>\<^verbatim>\<open>if (!m || ...) return typed_invalid(reader);\<close>\<close>

definition rd_valid :: "'a rd \<Rightarrow> 'a rd" where
  "rd_valid m = rd_orelse m (typed_invalid :: unit rd)"

text \<open>\<^verbatim>\<open>if (!c) return typed_invalid(reader);\<close>\<close>

definition rd_check :: "bool \<Rightarrow> unit rd" where
  "rd_check c = (if c then rd_return () else typed_invalid)"

subsection \<open>Their laws\<close>

lemmas reporting_invalid [rd_checked] = checked_reporting [OF checked_typed_invalid]

lemma reader_op_invalid [rd_ops]: "reader_op typed_invalid"
  by (rule checked_reader [OF checked_typed_invalid])

lemma checked_valid [rd_checked]: "reporting_op m \<Longrightarrow> checked_op (rd_valid m)"
  unfolding rd_valid_def by (intro rd_checked)

lemmas reporting_valid [rd_checked] = checked_reporting [OF checked_valid]

lemma reader_op_valid [rd_ops]: "reader_op m \<Longrightarrow> reader_op (rd_valid m)"
  unfolding rd_valid_def by (intro rd_ops)

lemma stops_valid [rd_sticky]: "rd_stops m \<Longrightarrow> rd_stops (rd_valid m)"
  unfolding rd_valid_def by (intro rd_sticky)

lemma parses_valid: "rd_parses m bs x \<Longrightarrow> rd_parses (rd_valid m) bs x"
  unfolding rd_valid_def by (rule parses_orelse)

lemma checked_check [rd_checked]: "checked_op (rd_check c)"
  unfolding rd_check_def by (intro rd_checked)

lemmas reporting_check [rd_checked] = checked_reporting [OF checked_check]

lemma reader_op_check [rd_ops]: "reader_op (rd_check c)"
  unfolding rd_check_def by (intro rd_ops)

lemma parses_check: "c \<Longrightarrow> rd_parses (rd_check c) [] ()"
  by (simp add: rd_check_def parses_return)

lemma post_valid: "rd_post m P \<Longrightarrow> rd_post (rd_valid m) P"
  by (auto simp: rd_post_def rd_can_def rd_valid_def rd_orelse_cases split: option.splits)

lemma post_bind_valid: "rd_post (rd_bind m f) P \<Longrightarrow> rd_post (rd_bind (rd_valid m) f) P"
  unfolding rd_valid_def by (rule post_bind_orelse)

lemma post_check: "(c \<Longrightarrow> rd_post (f ()) P) \<Longrightarrow> rd_post (rd_bind (rd_check c) f) P"
  by (cases c) (auto simp: rd_check_def rd_post_def rd_can_def rd_bind_cases typed_invalid_def rd_here_def
      reader_fail_def)

lemma post_here: "(\<And>off. rd_post (f off) P) \<Longrightarrow> rd_post (rd_here f) P"
  by (auto simp: rd_post_def rd_can_def rd_here_def)

lemma post_strict: "(\<And>s. rd_post (f s) P) \<Longrightarrow> rd_post (rd_strict f) P"
  by (auto simp: rd_post_def rd_can_def rd_strict_def)

lemma post_bind_strict: "(\<And>s. rd_post (rd_bind (f s) g) P) \<Longrightarrow> rd_post (rd_bind (rd_strict f) g) P"
  by (auto simp: rd_post_def rd_can_def rd_strict_def rd_bind_def)

lemmas typed_posts = post_bind_valid post_valid post_check post_here post_bind_strict post_strict
  post_supported item_posts

end
