(* ===== verification/Typed_Serverbound.thy ===== *)
theory Typed_Serverbound
  imports Quantities
begin

text \<open>
  The typed decoders of the serverbound play packets in \<open>api.c\<close> (section TYPED PACKET CODECS, from
  \<open>typed_finite_rotation\<close> to \<open>typed_decode_close_window\<close>). A decoder fills a local record and
  stores it through the out pointer at its end, so it returns the record.
\<close>

subsection \<open>Movement\<close>

definition MC_MOVE_HAS_POSITION :: u32 where "MC_MOVE_HAS_POSITION = 1"
definition MC_MOVE_HAS_ROTATION :: u32 where "MC_MOVE_HAS_ROTATION = 2"
definition MC_MOVE_HAS_ON_GROUND :: u32 where "MC_MOVE_HAS_ON_GROUND = 4"
definition MC_MOVE_HAS_TELEPORT_ID :: u32 where "MC_MOVE_HAS_TELEPORT_ID = 8"
definition MC_MOVE_HAS_DELTA :: u32 where "MC_MOVE_HAS_DELTA = 16"
definition MC_MOVE_HAS_STANCE_Y :: u32 where "MC_MOVE_HAS_STANCE_Y = 32"
definition MC_MOVE_HAS_HORIZONTAL_COLLISION :: u32 where "MC_MOVE_HAS_HORIZONTAL_COLLISION = 64"

record mc_player_movement =
  mv_x :: f64
  mv_y :: f64
  mv_z :: f64
  mv_wire_y :: f64
  mv_yaw :: f32
  mv_pitch :: f32
  mv_on_ground :: bool
  mv_horizontal_collision :: bool
  mv_wire_y_is_stance :: bool
  mv_presence :: u32
  mv_raw_flags :: u32

definition movement_start :: mc_player_movement where
  "movement_start = \<lparr>mv_x = 0, mv_y = 0, mv_z = 0, mv_wire_y = 0, mv_yaw = 0, mv_pitch = 0,
     mv_on_ground = False, mv_horizontal_collision = False, mv_wire_y_is_stance = False,
     mv_presence = 0, mv_raw_flags = 0\<rparr>"

definition typed_finite_rotation :: "f32 \<Rightarrow> f32 \<Rightarrow> unit rd" where
  "typed_finite_rotation yaw pitch = rd_strict (\<lambda>strict.
     rd_check (\<not> (\<not> f32_isfinite yaw \<or> \<not> f32_isfinite pitch
       \<or> (strict \<and> (f32_less pitch F32_MINUS_NINETY \<or> f32_less F32_NINETY pitch)))))"

text \<open>The doubles 0.1 and 1.65, the bounds of the stance above the feet.\<close>

definition STANCE_MINIMUM :: f64 where "STANCE_MINIMUM = 0x3fb999999999999a"
definition STANCE_MAXIMUM :: f64 where "STANCE_MAXIMUM = 0x3ffa666666666666"

definition movement_position :: "int \<Rightarrow> mc_player_movement \<Rightarrow> mc_player_movement rd" where
  "movement_position protocol v =
     rd_bind mc_reader_double (\<lambda>x. rd_bind mc_reader_double (\<lambda>y.
     rd_bind (if protocol \<le> 5 then
                rd_bind mc_reader_double (\<lambda>wire_y. rd_strict (\<lambda>strict.
                let stance = f64_minus wire_y y in
                rd_bind (rd_check (\<not> (\<not> f64_isfinite wire_y
                   \<or> (strict \<and> (f64_less stance STANCE_MINIMUM \<or> f64_less STANCE_MAXIMUM stance)))))
                  (\<lambda>_. rd_return wire_y)))
              else rd_return y) (\<lambda>wire_y.
     rd_bind (rd_valid (rd_such mc_reader_double
       (\<lambda>z. f64_isfinite x \<and> f64_isfinite y \<and> f64_isfinite z))) (\<lambda>z.
     rd_return (v\<lparr>mv_x := x, mv_y := y, mv_z := z, mv_wire_y := wire_y,
       mv_wire_y_is_stance := protocol \<le> 5,
       mv_presence := mv_presence v OR MC_MOVE_HAS_POSITION
         OR (if protocol \<le> 5 then MC_MOVE_HAS_STANCE_Y else 0)\<rparr>)))))"

definition movement_rotation :: "mc_player_movement \<Rightarrow> mc_player_movement rd" where
  "movement_rotation v =
     rd_bind mc_reader_float (\<lambda>yaw. rd_bind mc_reader_float (\<lambda>pitch.
     rd_bind (typed_finite_rotation yaw pitch) (\<lambda>_.
     rd_return (v\<lparr>mv_yaw := yaw, mv_pitch := pitch,
       mv_presence := mv_presence v OR MC_MOVE_HAS_ROTATION\<rparr>))))"

definition movement_ground :: "int \<Rightarrow> mc_player_movement \<Rightarrow> mc_player_movement rd" where
  "movement_ground protocol v =
     (if protocol \<ge> 768 then
        rd_bind (rd_valid (rd_such mc_reader_u8 (\<lambda>flags. flags AND 0xfc = 0))) (\<lambda>flags.
        rd_return (v\<lparr>mv_raw_flags := ucast flags, mv_on_ground := (flags AND 1 \<noteq> 0),
          mv_horizontal_collision := (flags AND 2 \<noteq> 0),
          mv_presence := mv_presence v OR MC_MOVE_HAS_ON_GROUND
            OR MC_MOVE_HAS_HORIZONTAL_COLLISION\<rparr>))
      else
        rd_bind mc_reader_bool (\<lambda>on_ground.
        rd_return (v\<lparr>mv_on_ground := on_ground, mv_raw_flags := (if on_ground then 1 else 0),
          mv_presence := mv_presence v OR MC_MOVE_HAS_ON_GROUND\<rparr>)))"

definition typed_decode_movement :: "int \<Rightarrow> string \<Rightarrow> mc_player_movement rd" where
  "typed_decode_movement protocol name =
     (let has_position = (name = ''position'' \<or> name = ''position_look'');
          has_rotation = (name = ''look'' \<or> name = ''position_look'')
      in rd_bind (rd_when has_position movement_start (movement_position protocol movement_start)) (\<lambda>v.
         rd_bind (rd_when has_rotation v (movement_rotation v)) (\<lambda>v'.
         movement_ground protocol v')))"

subsection \<open>Input, actions and abilities\<close>

record mc_player_input =
  pi_sideways :: f32
  pi_forward :: f32
  pi_flags :: u8
  pi_bitset :: bool

definition typed_decode_player_input :: "int \<Rightarrow> bool \<Rightarrow> mc_player_input rd" where
  "typed_decode_player_input protocol bitset =
     (if bitset then
        rd_bind (rd_valid (rd_such mc_reader_u8 (\<lambda>flags. flags AND 0x80 = 0))) (\<lambda>flags.
        rd_return \<lparr>pi_sideways = 0, pi_forward = 0, pi_flags = flags, pi_bitset = True\<rparr>)
      else
        rd_bind mc_reader_float (\<lambda>sideways. rd_bind mc_reader_float (\<lambda>forward.
        rd_bind (if protocol \<le> 5 then
                   rd_bind mc_reader_bool (\<lambda>jump. rd_bind mc_reader_bool (\<lambda>unmount.
                   rd_return ((if jump then 1 else 0) OR (if unmount then 2 else 0))))
                 else mc_reader_u8) (\<lambda>flags.
        rd_bind (rd_check (\<not> (\<not> f32_isfinite sideways \<or> \<not> f32_isfinite forward
            \<or> f32_less F32_ONE (fabsf sideways) \<or> f32_less F32_ONE (fabsf forward)
            \<or> flags AND 0xfc \<noteq> 0))) (\<lambda>_.
        rd_return \<lparr>pi_sideways = sideways, pi_forward = forward, pi_flags = flags,
          pi_bitset = False\<rparr>)))))"

text \<open>The candidates of the search, in the order of the enumeration.\<close>

definition entity_action_kinds :: "mc_entity_action_kind list" where
  "entity_action_kinds =
     [MC_ENTITY_ACTION_START_SNEAKING, MC_ENTITY_ACTION_STOP_SNEAKING, MC_ENTITY_ACTION_LEAVE_BED,
      MC_ENTITY_ACTION_START_SPRINTING, MC_ENTITY_ACTION_STOP_SPRINTING,
      MC_ENTITY_ACTION_START_HORSE_JUMP, MC_ENTITY_ACTION_STOP_HORSE_JUMP,
      MC_ENTITY_ACTION_OPEN_VEHICLE_INVENTORY, MC_ENTITY_ACTION_START_ELYTRA_FLYING]"

definition entity_action_of_wire :: "int \<Rightarrow> i32 \<Rightarrow> mc_entity_action_kind option" where
  "entity_action_of_wire protocol action =
     List.find (\<lambda>candidate. entity_action_id protocol candidate = Some action) entity_action_kinds"

definition typed_decode_entity_action :: "int \<Rightarrow> mc_entity_action rd" where
  "typed_decode_entity_action protocol =
     rd_bind
       (if protocol \<le> 5 then
          rd_bind mc_reader_i32 (\<lambda>entity_id. rd_bind mc_reader_i8 (\<lambda>legacy_action.
          rd_bind mc_reader_i32 (\<lambda>jump_boost. rd_return (entity_id, scast legacy_action, jump_boost))))
        else
          rd_bind mc_reader_varint (\<lambda>entity_id. rd_bind mc_reader_varint (\<lambda>action.
          rd_bind mc_reader_varint (\<lambda>jump_boost. rd_return (entity_id, action, jump_boost)))))
       (\<lambda>(entity_id, action, jump_boost). rd_strict (\<lambda>strict.
        case entity_action_of_wire protocol action of
          None \<Rightarrow> typed_invalid
        | Some canonical \<Rightarrow>
            rd_bind (rd_check (\<not> (sint entity_id < 0 \<or> sint jump_boost < 0
                                   \<or> (strict \<and> sint jump_boost > 100)))) (\<lambda>_.
            rd_return \<lparr>ea_entity_id = entity_id, ea_action = canonical, ea_jump_boost = jump_boost\<rparr>)))"

definition typed_decode_abilities :: "int \<Rightarrow> mc_direction \<Rightarrow> mc_player_abilities rd" where
  "typed_decode_abilities protocol direction =
     rd_bind (rd_valid (rd_such mc_reader_u8 (\<lambda>flags. flags AND 0xf0 = 0))) (\<lambda>flags.
     if direction = MC_PACKET_CLIENTBOUND \<or> protocol < 735 then
       rd_strict (\<lambda>strict. rd_valid
         (rd_bind mc_reader_float (\<lambda>flying_speed. rd_bind mc_reader_float (\<lambda>walking_speed.
          rd_bind (rd_test (\<not> (\<not> f32_isfinite flying_speed \<or> \<not> f32_isfinite walking_speed
             \<or> f32_below_zero flying_speed \<or> f32_below_zero walking_speed
             \<or> (strict \<and> (f32_above_one flying_speed \<or> f32_above_one walking_speed))))) (\<lambda>_.
          rd_return \<lparr>pa_flags = flags, pa_flying_speed = flying_speed,
            pa_walking_speed = walking_speed\<rparr>)))))
     else rd_return \<lparr>pa_flags = flags, pa_flying_speed = 0, pa_walking_speed = 0\<rparr>)"

record mc_vehicle_move =
  vm_x :: f64
  vm_y :: f64
  vm_z :: f64
  vm_yaw :: f32
  vm_pitch :: f32
  vm_on_ground :: bool
  vm_presence :: u32

definition typed_decode_vehicle_move :: "int \<Rightarrow> mc_vehicle_move rd" where
  "typed_decode_vehicle_move protocol = rd_valid
     (rd_bind mc_reader_double (\<lambda>x. rd_bind mc_reader_double (\<lambda>y. rd_bind mc_reader_double (\<lambda>z.
      rd_bind mc_reader_float (\<lambda>yaw. rd_bind mc_reader_float (\<lambda>pitch.
      rd_bind (rd_test (f64_isfinite x \<and> f64_isfinite y \<and> f64_isfinite z)) (\<lambda>_.
      rd_bind (typed_finite_rotation yaw pitch) (\<lambda>_.
      rd_bind (rd_when (protocol \<ge> 770) False mc_reader_bool) (\<lambda>on_ground.
      rd_return \<lparr>vm_x = x, vm_y = y, vm_z = z, vm_yaw = yaw, vm_pitch = pitch,
        vm_on_ground = on_ground,
        vm_presence = (if protocol \<ge> 770 then MC_MOVE_HAS_ON_GROUND else 0)\<rparr>)))))))))"

subsection \<open>Entities\<close>

definition MC_USE_ENTITY_HAS_TARGET :: u32 where "MC_USE_ENTITY_HAS_TARGET = 1"
definition MC_USE_ENTITY_HAS_HAND :: u32 where "MC_USE_ENTITY_HAS_HAND = 2"
definition MC_USE_ENTITY_HAS_SNEAKING :: u32 where "MC_USE_ENTITY_HAS_SNEAKING = 4"

record mc_use_entity =
  ue_entity_id :: i32
  ue_action :: i32
  ue_target_x :: f32
  ue_target_y :: f32
  ue_target_z :: f32
  ue_hand :: i32
  ue_sneaking :: bool
  ue_presence :: u32

definition use_entity_head :: "int \<Rightarrow> bool \<Rightarrow> (i32 \<times> i32) rd" where
  "use_entity_head protocol dedicated_attack =
     (if dedicated_attack then rd_bind mc_reader_varint (\<lambda>entity_id. rd_return (entity_id, 1))
      else if protocol \<le> 5 then
        rd_bind mc_reader_i32 (\<lambda>entity_id. rd_bind mc_reader_i8 (\<lambda>action.
        rd_return (entity_id, scast action)))
      else
        rd_bind mc_reader_varint (\<lambda>entity_id. rd_bind mc_reader_varint (\<lambda>action.
        rd_return (entity_id, action))))"

definition typed_decode_use_entity :: "int \<Rightarrow> bool \<Rightarrow> mc_use_entity rd" where
  "typed_decode_use_entity protocol dedicated_attack =
     rd_bind (use_entity_head protocol dedicated_attack) (\<lambda>(entity_id, action).
     let has_target = (\<not> dedicated_attack \<and> action = 2);
         has_hand = (\<not> dedicated_attack \<and> protocol \<ge> 107 \<and> (action = 0 \<or> action = 2));
         has_sneaking = (\<not> dedicated_attack \<and> protocol \<ge> 735) in
     rd_bind (rd_when has_target (0, 0, 0) (rd_valid
       (rd_bind mc_reader_float (\<lambda>x. rd_bind mc_reader_float (\<lambda>y. rd_bind mc_reader_float (\<lambda>z.
        rd_bind (rd_test (f32_isfinite x \<and> f32_isfinite y \<and> f32_isfinite z)) (\<lambda>_.
        rd_return (x, y, z)))))))) (\<lambda>(x, y, z).
     rd_bind (rd_when has_hand 0 (rd_valid
       (rd_such mc_reader_varint (\<lambda>hand. \<not> (sint hand < 0 \<or> sint hand > 1))))) (\<lambda>hand.
     rd_bind (rd_when has_sneaking False mc_reader_bool) (\<lambda>sneaking.
     rd_bind (rd_check (\<not> (sint entity_id \<le> 0 \<or> sint action < 0 \<or> sint action > 2))) (\<lambda>_.
     rd_return \<lparr>ue_entity_id = entity_id, ue_action = action, ue_target_x = x, ue_target_y = y,
       ue_target_z = z, ue_hand = hand, ue_sneaking = sneaking,
       ue_presence = (if has_target then MC_USE_ENTITY_HAS_TARGET else 0)
         OR (if has_hand then MC_USE_ENTITY_HAS_HAND else 0)
         OR (if has_sneaking then MC_USE_ENTITY_HAS_SNEAKING else 0)\<rparr>)))))"

record mc_arm_animation =
  aa_entity_id :: i32
  aa_hand :: i32

definition typed_decode_arm_animation :: "int \<Rightarrow> mc_arm_animation rd" where
  "typed_decode_arm_animation protocol =
     (if protocol \<le> 5 then rd_valid
        (rd_bind mc_reader_i32 (\<lambda>entity_id. rd_bind mc_reader_i8 (\<lambda>animation.
         rd_bind (rd_test (\<not> (sint entity_id < 0 \<or> animation \<noteq> 1))) (\<lambda>_.
         rd_return \<lparr>aa_entity_id = entity_id, aa_hand = 0\<rparr>))))
      else if protocol \<ge> 777 then rd_return \<lparr>aa_entity_id = 0, aa_hand = 0\<rparr>
      else if protocol \<ge> 107 then
        rd_bind (rd_valid (rd_such mc_reader_varint (\<lambda>hand. \<not> (sint hand < 0 \<or> sint hand > 1))))
          (\<lambda>hand. rd_return \<lparr>aa_entity_id = 0, aa_hand = hand\<rparr>)
      else rd_return \<lparr>aa_entity_id = 0, aa_hand = 0\<rparr>)"

subsection \<open>Blocks and items\<close>

text \<open>From 26.3 on the wire has status 1 and 8 in addition; the others above 1 are shifted.\<close>

definition block_dig_status :: "int \<Rightarrow> i32 \<Rightarrow> i32 rd" where
  "block_dig_status protocol status =
     (if protocol \<ge> 777 then
        rd_bind (rd_check (\<not> (status = 1 \<or> sint status > 7))) (\<lambda>_.
        rd_return (if sint status > 1 then status - 1 else status))
      else rd_return status)"

definition typed_decode_block_dig :: "int \<Rightarrow> mc_block_dig rd" where
  "typed_decode_block_dig protocol =
     rd_bind
       (if protocol \<le> 5 then
          rd_bind mc_reader_i8 (\<lambda>status. rd_bind mc_reader_i32 (\<lambda>x. rd_bind mc_reader_u8 (\<lambda>y.
          rd_bind mc_reader_i32 (\<lambda>z. rd_bind mc_reader_i8 (\<lambda>face.
          rd_return \<lparr>bd_status = scast status, bd_location = \<lparr>pos_x = x, pos_y = ucast y, pos_z = z\<rparr>,
            bd_face = face, bd_sequence = 0\<rparr>)))))
        else
          rd_bind mc_reader_varint (\<lambda>status. rd_bind (mc_reader_position protocol) (\<lambda>location.
          rd_bind mc_reader_i8 (\<lambda>face. rd_bind (rd_when (protocol \<ge> 759) 0 mc_reader_varint) (\<lambda>sequence.
          rd_return \<lparr>bd_status = status, bd_location = location, bd_face = face,
            bd_sequence = sequence\<rparr>))))) (\<lambda>wire.
     rd_bind (block_dig_status protocol (bd_status wire)) (\<lambda>status.
     rd_bind (rd_check (\<not> (sint status < 0 \<or> sint status > 6
         \<or> sint (bd_face wire) < 0 \<or> sint (bd_face wire) > 5 \<or> sint (bd_sequence wire) < 0))) (\<lambda>_.
     rd_return (wire\<lparr>bd_status := status\<rparr>))))"

text \<open>Item, count, damage, NBT view and whether that is gzip data.\<close>

type_synonym legacy_item = "i32 \<times> i32 \<times> i32 \<times> buffer \<times> bool"

definition typed_read_legacy_item :: "int \<Rightarrow> legacy_item rd" where
  "typed_read_legacy_item protocol =
     rd_bind mc_reader_u16 (\<lambda>wire_id.
     if wire_id = 0xffff then rd_return (0, 0, 0, NullBuf 0, False)
     else
       rd_bind (rd_valid
         (rd_bind (rd_test (\<not> (wire_id = 0 \<or> wire_id > 0x7fff))) (\<lambda>_.
          rd_bind (rd_such mc_reader_u8 (\<lambda>count. \<not> (count = 0 \<or> count > 127))) (\<lambda>count.
          rd_bind mc_reader_u16 (\<lambda>damage. rd_return (count, damage)))))) (\<lambda>(count, damage).
       if protocol \<le> 5 then
         rd_bind mc_reader_i16 (\<lambda>size.
         if size = -1 then rd_return (ucast wire_id, ucast count, ucast damage, NullBuf 0, False)
         else
           rd_bind (rd_valid
             (rd_bind (rd_test (\<not> sint size \<le> 0)) (\<lambda>_.
              rd_such (mc_reader_bytes (unat size))
                (\<lambda>nbt. \<not> length nbt < 10 \<and> nbt ! 0 = 0x1f \<and> nbt ! 1 = 0x8b \<and> nbt ! 2 = 8)))) (\<lambda>nbt.
           rd_return (ucast wire_id, ucast count, ucast damage, Buf nbt, True)))
       else
         rd_bind (mc_reader_nbt True) (\<lambda>nbt.
         rd_return (ucast wire_id, ucast count, ucast damage, Buf nbt, False))))"

definition f32_of_sixteenths :: "u8 \<Rightarrow> f32" where
  "f32_of_sixteenths wire = f32_quotient (uint wire) 16"

definition typed_read_cursor :: "int \<Rightarrow> (f32 \<times> f32 \<times> f32) rd" where
  "typed_read_cursor protocol = rd_valid
     (if protocol \<le> 210 then
        rd_bind mc_reader_u8 (\<lambda>x. rd_bind mc_reader_u8 (\<lambda>y. rd_bind mc_reader_u8 (\<lambda>z.
        rd_bind (rd_test (\<not> (x > 16 \<or> y > 16 \<or> z > 16))) (\<lambda>_.
        rd_return (f32_of_sixteenths x, f32_of_sixteenths y, f32_of_sixteenths z)))))
      else
        rd_bind mc_reader_float (\<lambda>x. rd_bind mc_reader_float (\<lambda>y. rd_bind mc_reader_float (\<lambda>z.
        rd_bind (rd_test (\<not> (\<not> f32_isfinite x \<or> \<not> f32_isfinite y \<or> \<not> f32_isfinite z
           \<or> f32_below_zero x \<or> f32_above_one x \<or> f32_below_zero y \<or> f32_above_one y
           \<or> f32_below_zero z \<or> f32_above_one z))) (\<lambda>_.
        rd_return (x, y, z))))))"

text \<open>\<open>sentinel_mode\<close>: 0 forbids the position (-1, -1, -1), 1 requires it, 2 allows it.\<close>

definition legacy_place_sentinel :: "nat \<Rightarrow> mc_block_place \<Rightarrow> bool" where
  "legacy_place_sentinel sentinel_mode d =
     (let is_sentinel = (bp_location d = \<lparr>pos_x = -1, pos_y = -1, pos_z = -1\<rparr> \<and> bp_direction d = -1) in
      if sentinel_mode = 1 \<or> (sentinel_mode = 2 \<and> is_sentinel)
      then is_sentinel \<and> \<not> f32_nonzero (bp_cursor_x d) \<and> \<not> f32_nonzero (bp_cursor_y d)
           \<and> \<not> f32_nonzero (bp_cursor_z d)
      else \<not> ((sentinel_mode = 0 \<and> is_sentinel) \<or> sint (bp_direction d) < 0 \<or> sint (bp_direction d) > 5))"

definition typed_decode_legacy_place :: "int \<Rightarrow> nat \<Rightarrow> mc_block_place rd" where
  "typed_decode_legacy_place protocol sentinel_mode =
     rd_bind
       (if protocol \<le> 5 then
          rd_bind mc_reader_i32 (\<lambda>x. rd_bind mc_reader_u8 (\<lambda>y. rd_bind mc_reader_i32 (\<lambda>z.
          rd_return \<lparr>pos_x = x,
            pos_y = (if sentinel_mode \<noteq> 0 \<and> y = 0xff then -1 else ucast y), pos_z = z\<rparr>)))
        else mc_reader_position protocol) (\<lambda>location.
     rd_bind mc_reader_i8 (\<lambda>direction.
     rd_bind (typed_read_legacy_item protocol) (\<lambda>(item_id, count, damage, nbt, compressed).
     rd_bind (typed_read_cursor protocol) (\<lambda>(cursor_x, cursor_y, cursor_z).
     let decoded = \<lparr>bp_location = location, bp_direction = scast direction, bp_hand = 0,
           bp_held_item_id = item_id, bp_held_item_count = count, bp_held_item_damage = damage,
           bp_held_item_nbt = nbt, bp_cursor_x = cursor_x, bp_cursor_y = cursor_y,
           bp_cursor_z = cursor_z, bp_inside_block = False, bp_world_border_hit = False,
           bp_sequence = 0, bp_held_item_nbt_compressed = compressed\<rparr> in
     rd_bind (rd_check (legacy_place_sentinel sentinel_mode decoded)) (\<lambda>_.
     rd_return decoded)))))"

definition typed_decode_block_place :: "int \<Rightarrow> mc_block_place rd" where
  "typed_decode_block_place protocol =
     (if protocol \<le> 47 then typed_decode_legacy_place protocol 2
      else
        rd_bind
          (if protocol \<le> 404 then
             rd_bind (mc_reader_position protocol) (\<lambda>location.
             rd_bind mc_reader_varint (\<lambda>direction. rd_bind mc_reader_varint (\<lambda>hand.
             rd_return (hand, location, direction))))
           else
             rd_bind mc_reader_varint (\<lambda>hand. rd_bind (mc_reader_position protocol) (\<lambda>location.
             rd_bind mc_reader_varint (\<lambda>direction. rd_return (hand, location, direction)))))
          (\<lambda>(hand, location, direction).
        rd_bind (typed_read_cursor protocol) (\<lambda>(cursor_x, cursor_y, cursor_z).
        rd_bind (rd_when (protocol \<ge> 477) False mc_reader_bool) (\<lambda>inside_block.
        rd_bind (rd_when (protocol \<ge> 768) False mc_reader_bool) (\<lambda>world_border_hit.
        rd_bind (rd_when (protocol \<ge> 759) 0 mc_reader_varint) (\<lambda>sequence.
        rd_bind (rd_check (\<not> (sint hand < 0 \<or> sint hand > 1 \<or> sint direction < 0
            \<or> sint direction > 5 \<or> sint sequence < 0))) (\<lambda>_.
        rd_return \<lparr>bp_location = location, bp_direction = direction, bp_hand = hand,
          bp_held_item_id = 0, bp_held_item_count = 0, bp_held_item_damage = 0,
          bp_held_item_nbt = NullBuf 0, bp_cursor_x = cursor_x, bp_cursor_y = cursor_y,
          bp_cursor_z = cursor_z, bp_inside_block = inside_block,
          bp_world_border_hit = world_border_hit, bp_sequence = sequence,
          bp_held_item_nbt_compressed = False\<rparr>)))))))"

definition use_item_fields :: "int \<Rightarrow> mc_use_item rd" where
  "use_item_fields protocol =
     (if protocol \<le> 47 then
        rd_bind (typed_decode_legacy_place protocol 1) (\<lambda>legacy.
        rd_return \<lparr>ui_hand = 0, ui_held_item_id = bp_held_item_id legacy,
          ui_held_item_count = bp_held_item_count legacy,
          ui_held_item_damage = bp_held_item_damage legacy,
          ui_held_item_nbt = bp_held_item_nbt legacy, ui_sequence = 0, ui_yaw = 0, ui_pitch = 0,
          ui_held_item_nbt_compressed = bp_held_item_nbt_compressed legacy\<rparr>)
      else
        rd_bind mc_reader_varint (\<lambda>hand.
        rd_bind (rd_when (protocol \<ge> 759) 0 mc_reader_varint) (\<lambda>sequence.
        rd_bind (rd_when (protocol \<ge> 767) 0 mc_reader_float) (\<lambda>yaw.
        rd_bind (rd_when (protocol \<ge> 767) 0 mc_reader_float) (\<lambda>pitch.
        rd_return \<lparr>ui_hand = hand, ui_held_item_id = 0, ui_held_item_count = 0,
          ui_held_item_damage = 0, ui_held_item_nbt = NullBuf 0, ui_sequence = sequence,
          ui_yaw = yaw, ui_pitch = pitch, ui_held_item_nbt_compressed = False\<rparr>)))))"

definition typed_decode_use_item :: "int \<Rightarrow> mc_use_item rd" where
  "typed_decode_use_item protocol =
     rd_bind (use_item_fields protocol) (\<lambda>decoded.
     rd_bind (rd_valid
       (rd_bind (rd_test (\<not> (sint (ui_hand decoded) < 0 \<or> sint (ui_hand decoded) > 1
           \<or> sint (ui_sequence decoded) < 0))) (\<lambda>_.
        typed_finite_rotation (ui_yaw decoded) (ui_pitch decoded)))) (\<lambda>_.
     rd_return decoded))"

subsection \<open>Small packets\<close>

definition typed_decode_held_item_slot :: "mc_direction \<Rightarrow> int \<Rightarrow> i32 rd" where
  "typed_decode_held_item_slot direction protocol =
     rd_bind
       (if direction = MC_PACKET_SERVERBOUND
        then rd_bind mc_reader_i16 (\<lambda>slot. rd_return (scast slot))
        else if protocol \<ge> 770 then mc_reader_varint
        else rd_bind mc_reader_i8 (\<lambda>slot. rd_return (scast slot))) (\<lambda>slot.
     rd_bind (rd_check (\<not> (sint slot < 0 \<or> sint slot > 8))) (\<lambda>_. rd_return slot))"

record mc_teleport_confirm =
  tc_teleport_id :: i32
  tc_x :: f64
  tc_y :: f64
  tc_z :: f64
  tc_yaw :: f32
  tc_pitch :: f32
  tc_has_position :: bool

definition typed_decode_teleport_confirm :: "int \<Rightarrow> mc_teleport_confirm rd" where
  "typed_decode_teleport_confirm protocol =
     rd_bind mc_reader_varint (\<lambda>teleport_id.
     rd_bind (rd_check (\<not> sint teleport_id < 0)) (\<lambda>_.
     if protocol \<ge> 777 then
       rd_bind mc_reader_double (\<lambda>x. rd_bind mc_reader_double (\<lambda>y. rd_bind mc_reader_double (\<lambda>z.
       rd_bind mc_reader_float (\<lambda>yaw. rd_bind mc_reader_float (\<lambda>pitch.
       rd_bind (rd_check (\<not> (\<not> f64_isfinite x \<or> \<not> f64_isfinite y \<or> \<not> f64_isfinite z
           \<or> \<not> f32_isfinite yaw \<or> \<not> f32_isfinite pitch))) (\<lambda>_.
       rd_return \<lparr>tc_teleport_id = teleport_id, tc_x = x, tc_y = y, tc_z = z, tc_yaw = yaw,
         tc_pitch = pitch, tc_has_position = True\<rparr>))))))
     else rd_return \<lparr>tc_teleport_id = teleport_id, tc_x = 0, tc_y = 0, tc_z = 0, tc_yaw = 0,
            tc_pitch = 0, tc_has_position = False\<rparr>))"

definition typed_decode_client_command :: "int \<Rightarrow> i32 rd" where
  "typed_decode_client_command protocol =
     rd_bind
       (if protocol \<le> 5 then rd_bind mc_reader_i8 (\<lambda>action. rd_return (scast action))
        else mc_reader_varint) (\<lambda>action.
     rd_bind (rd_check (\<not> (sint action < 0 \<or> sint action > 2))) (\<lambda>_. rd_return action))"

definition typed_decode_close_window :: "int \<Rightarrow> i32 rd" where
  "typed_decode_close_window protocol =
     rd_bind
       (if protocol \<le> 767 then rd_bind mc_reader_u8 (\<lambda>window. rd_return (ucast window))
        else mc_reader_varint) (\<lambda>window_id.
     rd_bind (rd_check (\<not> sint window_id < 0)) (\<lambda>_. rd_return window_id))"

subsection \<open>Every failure is recorded\<close>

lemma checked_rotation [rd_checked]: "checked_op (typed_finite_rotation yaw pitch)"
  unfolding typed_finite_rotation_def by (intro rd_checked)

lemmas reporting_rotation [rd_checked] = checked_reporting [OF checked_rotation]

lemma checked_option [rd_checked]:
  "checked_op h \<Longrightarrow> (\<And>x. checked_op (f x)) \<Longrightarrow> checked_op (case p of None \<Rightarrow> h | Some x \<Rightarrow> f x)"
  by (cases p) simp_all

lemma checked_movement [rd_checked]: "checked_op (typed_decode_movement protocol name)"
  unfolding typed_decode_movement_def movement_position_def movement_rotation_def movement_ground_def
    Let_def
  by (intro rd_checked)

lemma checked_input [rd_checked]: "checked_op (typed_decode_player_input protocol bitset)"
  unfolding typed_decode_player_input_def by (intro rd_checked)

lemma checked_entity_action [rd_checked]: "checked_op (typed_decode_entity_action protocol)"
  unfolding typed_decode_entity_action_def by (intro rd_checked)

lemma checked_abilities [rd_checked]: "checked_op (typed_decode_abilities protocol direction)"
  unfolding typed_decode_abilities_def by (intro rd_checked)

lemma checked_vehicle_move [rd_checked]: "checked_op (typed_decode_vehicle_move protocol)"
  unfolding typed_decode_vehicle_move_def by (intro rd_checked)

lemma checked_use_entity [rd_checked]: "checked_op (typed_decode_use_entity protocol dedicated_attack)"
  unfolding typed_decode_use_entity_def use_entity_head_def Let_def by (intro rd_checked)

lemma checked_arm_animation [rd_checked]: "checked_op (typed_decode_arm_animation protocol)"
  unfolding typed_decode_arm_animation_def by (intro rd_checked)

lemma checked_block_dig [rd_checked]: "checked_op (typed_decode_block_dig protocol)"
  unfolding typed_decode_block_dig_def block_dig_status_def by (intro rd_checked)

lemma checked_legacy_item [rd_checked]: "checked_op (typed_read_legacy_item protocol)"
  unfolding typed_read_legacy_item_def by (intro rd_checked)

lemma checked_cursor [rd_checked]: "checked_op (typed_read_cursor protocol)"
  unfolding typed_read_cursor_def by (intro rd_checked)

lemma checked_legacy_place [rd_checked]: "checked_op (typed_decode_legacy_place protocol sentinel_mode)"
  unfolding typed_decode_legacy_place_def Let_def by (intro rd_checked)

lemma checked_block_place [rd_checked]: "checked_op (typed_decode_block_place protocol)"
  unfolding typed_decode_block_place_def by (intro rd_checked)

lemma checked_use_item [rd_checked]: "checked_op (typed_decode_use_item protocol)"
  unfolding typed_decode_use_item_def use_item_fields_def by (intro rd_checked)

lemma checked_small_packets [rd_checked]:
  "checked_op (typed_decode_held_item_slot direction protocol)"
  "checked_op (typed_decode_teleport_confirm protocol)"
  "checked_op (typed_decode_client_command protocol)"
  "checked_op (typed_decode_close_window protocol)"
  unfolding typed_decode_held_item_slot_def typed_decode_teleport_confirm_def
    typed_decode_client_command_def typed_decode_close_window_def
  by (intro rd_checked)+

end
