(* ===== verification/Typed_Entities.thy ===== *)
theory Typed_Entities
  imports Typed_Serverbound
begin

text \<open>
  The typed decoders of \<open>api.c\<close> for the movement of entities, from \<open>typed_unpack_lp_velocity\<close> to
  \<open>typed_decode_block_change\<close>.
\<close>

subsection \<open>Low-precision velocities\<close>

definition F64_MINUS_ONE :: f64 where "F64_MINUS_ONE = 0xbff0000000000000"

definition typed_unpack_lp_velocity :: "u64 \<Rightarrow> nat \<Rightarrow> u64 \<Rightarrow> f64" where
  "typed_unpack_lp_velocity packed shift scale =
     (let field = drop_bit shift packed AND 0x7fff;
          quantized = (if field > 32766 then 32766 else field)
      in f64_times (f64_add (f64_quotient (uint quantized * 2) 32766) F64_MINUS_ONE)
           (f64_quotient (uint scale) 1))"

record mc_entity_velocity =
  ev_entity_id :: i32
  ev_velocity_x_raw :: i16
  ev_velocity_y_raw :: i16
  ev_velocity_z_raw :: i16
  ev_velocity_x :: f64
  ev_velocity_y :: f64
  ev_velocity_z :: f64
  ev_velocity_packed :: u64
  ev_velocity_scale :: u64
  ev_velocity_wire :: "u8 list"
  ev_low_precision_encoding :: bool

definition entity_velocity_start :: mc_entity_velocity where
  "entity_velocity_start = \<lparr>ev_entity_id = 0, ev_velocity_x_raw = 0, ev_velocity_y_raw = 0,
     ev_velocity_z_raw = 0, ev_velocity_x = 0, ev_velocity_y = 0, ev_velocity_z = 0,
     ev_velocity_packed = 0, ev_velocity_scale = 0, ev_velocity_wire = [],
     ev_low_precision_encoding = False\<rparr>"

text \<open>The scale: two bits of the first byte, and with its bit 2 the bits above in a VarInt.\<close>

definition lp_scale :: "u8 \<Rightarrow> u64 rd" where
  "lp_scale low =
     (let scale = ucast (low AND 3) in
      if low AND 4 \<noteq> 0 then
        rd_bind (rd_valid (rd_such mc_reader_varint (\<lambda>continuation. \<not> sint continuation < 0)))
          (\<lambda>continuation. rd_strict (\<lambda>strict.
        rd_bind (rd_check (\<not> (strict \<and> continuation = 0))) (\<lambda>_.
        rd_return (scale + ucast continuation * 4))))
      else rd_strict (\<lambda>strict.
        rd_bind (rd_check (\<not> (strict \<and> scale = 0))) (\<lambda>_. rd_return scale)))"

definition lp_vector :: "mc_entity_velocity \<Rightarrow> mc_entity_velocity rd" where
  "lp_vector value =
     rd_bind mc_reader_u8 (\<lambda>low.
     if low = 0 then rd_return value
     else
       rd_bind mc_reader_u8 (\<lambda>middle. rd_bind mc_reader_u32 (\<lambda>high.
       let packed = (push_bit 16 (ucast high) OR push_bit 8 (ucast middle)) OR ucast low in
       rd_bind (lp_scale low) (\<lambda>scale.
       rd_return (value\<lparr>ev_velocity_packed := packed, ev_velocity_scale := scale,
         ev_velocity_x := typed_unpack_lp_velocity packed 3 scale,
         ev_velocity_y := typed_unpack_lp_velocity packed 18 scale,
         ev_velocity_z := typed_unpack_lp_velocity packed 33 scale\<rparr>)))))"

definition typed_read_lp_velocity :: "mc_entity_velocity \<Rightarrow> mc_entity_velocity rd" where
  "typed_read_lp_velocity value =
     rd_bind (rd_capture (lp_vector (value\<lparr>ev_low_precision_encoding := True\<rparr>))) (\<lambda>(decoded, wire).
     rd_return (decoded\<lparr>ev_velocity_wire := wire\<rparr>))"

text \<open>An entity id is an int through 1.7 and a VarInt later.\<close>

definition read_entity_id :: "int \<Rightarrow> i32 rd" where
  "read_entity_id protocol = (if protocol \<le> 5 then mc_reader_i32 else mc_reader_varint)"

definition typed_decode_entity_velocity :: "int \<Rightarrow> mc_entity_velocity rd" where
  "typed_decode_entity_velocity protocol =
     rd_bind (read_entity_id protocol) (\<lambda>entity_id.
     rd_bind (rd_check (\<not> sint entity_id < 0)) (\<lambda>_.
     let decoded = entity_velocity_start\<lparr>ev_entity_id := entity_id\<rparr> in
     if protocol \<ge> 773 then typed_read_lp_velocity decoded
     else
       rd_bind mc_reader_i16 (\<lambda>x. rd_bind mc_reader_i16 (\<lambda>y. rd_bind mc_reader_i16 (\<lambda>z.
       rd_return (decoded\<lparr>ev_velocity_x_raw := x, ev_velocity_y_raw := y, ev_velocity_z_raw := z,
         ev_velocity_x := f64_quotient (sint x) 8000, ev_velocity_y := f64_quotient (sint y) 8000,
         ev_velocity_z := f64_quotient (sint z) 8000\<rparr>))))))"

subsection \<open>Relative moves\<close>

text \<open>
  \<^verbatim>\<open>if (count > mc_reader_remaining(reader) / width) return typed_invalid(reader);\<close>
\<close>

definition rd_room :: "nat \<Rightarrow> nat \<Rightarrow> unit rd" where
  "rd_room count width r =
     (if count > mc_reader_remaining r div width then typed_invalid r else (Some (), r))"

type_synonym delta_sum = "i32 \<times> i32 \<times> i32"

definition read_delta :: "(i16 \<times> i16 \<times> i16) rd" where
  "read_delta =
     rd_bind mc_reader_i16 (\<lambda>x. rd_bind mc_reader_i16 (\<lambda>y. rd_bind mc_reader_i16 (\<lambda>z.
     rd_return (x, y, z))))"

fun vec_delta_steps :: "nat \<Rightarrow> delta_sum \<Rightarrow> delta_sum rd" where
  "vec_delta_steps 0 moved = rd_return moved"
| "vec_delta_steps (Suc n) (sx, sy, sz) =
     rd_bind mc_reader_varint (\<lambda>ticks. rd_bind (rd_check (\<not> sint ticks < 0)) (\<lambda>_.
     rd_bind read_delta (\<lambda>(x, y, z).
     vec_delta_steps n (sx + scast x, sy + scast y, sz + scast z))))"

text \<open>The ground flag, the summed steps and their number.\<close>

definition read_vec_delta_777 :: "(bool \<times> delta_sum \<times> u32) rd" where
  "read_vec_delta_777 =
     rd_bind mc_reader_varint (\<lambda>properties.
     rd_bind (rd_check (\<not> sint properties < 0)) (\<lambda>_.
     let on_ground = (properties AND 1 \<noteq> 0); count = drop_bit 1 (ucast properties) in
     if count = 0 then
       rd_bind read_delta (\<lambda>(x, y, z). rd_return (on_ground, (scast x, scast y, scast z), count))
     else
       rd_bind (rd_check (\<not> unat count > MC_MAX_PACKET_ARRAY_COUNT)) (\<lambda>_.
       rd_bind (rd_room (unat count) 7) (\<lambda>_.
       rd_bind (vec_delta_steps (unat count) (0, 0, 0)) (\<lambda>moved.
       rd_return (on_ground, moved, count))))))"

definition saturate_i16 :: "i32 \<Rightarrow> i16" where
  "saturate_i16 value =
     (if sint value > 32767 then 32767 else if sint value < -32768 then -32768 else ucast value)"

record mc_entity_move =
  em_entity_id :: i32
  em_delta_x_raw :: i16
  em_delta_y_raw :: i16
  em_delta_z_raw :: i16
  em_delta_x :: f64
  em_delta_y :: f64
  em_delta_z :: f64
  em_yaw_raw :: u8
  em_pitch_raw :: u8
  em_yaw :: f32
  em_pitch :: f32
  em_on_ground :: bool
  em_presence :: u32
  em_step_count :: u32

definition entity_move_start :: "i32 \<Rightarrow> mc_entity_move" where
  "entity_move_start entity_id = \<lparr>em_entity_id = entity_id, em_delta_x_raw = 0, em_delta_y_raw = 0,
     em_delta_z_raw = 0, em_delta_x = 0, em_delta_y = 0, em_delta_z = 0, em_yaw_raw = 0,
     em_pitch_raw = 0, em_yaw = 0, em_pitch = 0, em_on_ground = False, em_presence = 0,
     em_step_count = 0\<rparr>"

definition move_rotation :: "bool \<Rightarrow> mc_entity_move \<Rightarrow> mc_entity_move rd" where
  "move_rotation with_rotation v = rd_when with_rotation v
     (rd_bind mc_reader_u8 (\<lambda>yaw. rd_bind mc_reader_u8 (\<lambda>pitch.
      rd_return (v\<lparr>em_yaw_raw := yaw, em_pitch_raw := pitch, em_yaw := angle_of_byte yaw,
        em_pitch := angle_of_byte pitch, em_presence := em_presence v OR MC_MOVE_HAS_ROTATION\<rparr>))))"

definition move_stepped :: "bool \<Rightarrow> mc_entity_move \<Rightarrow> mc_entity_move rd" where
  "move_stepped with_rotation v =
     rd_bind read_vec_delta_777 (\<lambda>(on_ground, moved, steps). case moved of (sx, sy, sz) \<Rightarrow>
     move_rotation with_rotation
       (v\<lparr>em_on_ground := on_ground, em_step_count := steps, em_delta_x_raw := saturate_i16 sx,
          em_delta_y_raw := saturate_i16 sy, em_delta_z_raw := saturate_i16 sz,
          em_delta_x := f64_quotient (sint sx) 4096, em_delta_y := f64_quotient (sint sy) 4096,
          em_delta_z := f64_quotient (sint sz) 4096,
          em_presence := MC_MOVE_HAS_DELTA OR MC_MOVE_HAS_ON_GROUND\<rparr>))"

definition move_delta :: "int \<Rightarrow> mc_entity_move \<Rightarrow> mc_entity_move rd" where
  "move_delta protocol v =
     (if protocol \<le> 47 then
        rd_bind mc_reader_i8 (\<lambda>x. rd_bind mc_reader_i8 (\<lambda>y. rd_bind mc_reader_i8 (\<lambda>z.
        rd_return (v\<lparr>em_delta_x_raw := scast x, em_delta_y_raw := scast y, em_delta_z_raw := scast z,
          em_delta_x := f64_quotient (sint x) 32, em_delta_y := f64_quotient (sint y) 32,
          em_delta_z := f64_quotient (sint z) 32, em_presence := MC_MOVE_HAS_DELTA\<rparr>))))
      else
        rd_bind read_delta (\<lambda>(x, y, z).
        rd_return (v\<lparr>em_delta_x_raw := x, em_delta_y_raw := y, em_delta_z_raw := z,
          em_delta_x := f64_quotient (sint x) 4096, em_delta_y := f64_quotient (sint y) 4096,
          em_delta_z := f64_quotient (sint z) 4096, em_presence := MC_MOVE_HAS_DELTA\<rparr>)))"

definition typed_decode_entity_move :: "int \<Rightarrow> bool \<Rightarrow> mc_entity_move rd" where
  "typed_decode_entity_move protocol with_rotation =
     rd_bind (read_entity_id protocol) (\<lambda>entity_id.
     rd_bind
       (if protocol \<ge> 777 then move_stepped with_rotation (entity_move_start entity_id)
        else
          rd_bind (move_delta protocol (entity_move_start entity_id)) (\<lambda>v.
          rd_bind (move_rotation with_rotation v) (\<lambda>v'.
          if protocol > 5 then
            rd_bind mc_reader_bool (\<lambda>on_ground.
            rd_return (v'\<lparr>em_on_ground := on_ground,
              em_presence := em_presence v' OR MC_MOVE_HAS_ON_GROUND\<rparr>))
          else rd_return v'))) (\<lambda>decoded.
     rd_bind (rd_check (\<not> sint entity_id < 0)) (\<lambda>_. rd_return decoded)))"

subsection \<open>Teleports\<close>

record mc_entity_teleport =
  et_entity_id :: i32
  et_x :: f64
  et_y :: f64
  et_z :: f64
  et_delta_x :: f64
  et_delta_y :: f64
  et_delta_z :: f64
  et_yaw_raw :: u8
  et_pitch_raw :: u8
  et_yaw :: f32
  et_pitch :: f32
  et_on_ground :: bool
  et_presence :: u32
  et_step_count :: u32

definition entity_teleport_start :: "i32 \<Rightarrow> mc_entity_teleport" where
  "entity_teleport_start entity_id = \<lparr>et_entity_id = entity_id, et_x = 0, et_y = 0, et_z = 0,
     et_delta_x = 0, et_delta_y = 0, et_delta_z = 0, et_yaw_raw = 0, et_pitch_raw = 0, et_yaw = 0,
     et_pitch = 0, et_on_ground = False, et_presence = 0, et_step_count = 0\<rparr>"

definition read_point :: "(f64 \<times> f64 \<times> f64) rd" where
  "read_point =
     rd_bind mc_reader_double (\<lambda>x. rd_bind mc_reader_double (\<lambda>y. rd_bind mc_reader_double (\<lambda>z.
     rd_return (x, y, z))))"

definition teleport_at :: "f64 \<times> f64 \<times> f64 \<Rightarrow> mc_entity_teleport \<Rightarrow> mc_entity_teleport" where
  "teleport_at p v = (case p of (x, y, z) \<Rightarrow> v\<lparr>et_x := x, et_y := y, et_z := z\<rparr>)"

definition point_finite :: "f64 \<times> f64 \<times> f64 \<Rightarrow> bool" where
  "point_finite p \<longleftrightarrow> (case p of (x, y, z) \<Rightarrow> f64_isfinite x \<and> f64_isfinite y \<and> f64_isfinite z)"

fun teleport_points :: "nat \<Rightarrow> f64 \<times> f64 \<times> f64 \<Rightarrow> (f64 \<times> f64 \<times> f64) rd" where
  "teleport_points 0 final = rd_return final"
| "teleport_points (Suc n) final =
     rd_bind read_point (\<lambda>p. rd_bind mc_reader_varint (\<lambda>ticks.
     rd_bind (rd_check (\<not> sint ticks < 0 \<and> point_finite p)) (\<lambda>_.
     teleport_points n p)))"

definition teleport_path :: "mc_entity_teleport \<Rightarrow> mc_entity_teleport rd" where
  "teleport_path v =
     rd_bind mc_reader_varint (\<lambda>path.
     if path = 0 then rd_bind read_point (\<lambda>p. rd_return (teleport_at p v))
     else if path = 1 then
       rd_bind mc_reader_varint (\<lambda>points.
       rd_bind (rd_check (\<not> (sint points < 1 \<or> unat points > MC_MAX_PACKET_ARRAY_COUNT))) (\<lambda>_.
       rd_bind (rd_room (unat points) 25) (\<lambda>_.
       rd_bind (teleport_points (unat points) (0, 0, 0)) (\<lambda>p.
       rd_return (teleport_at p (v\<lparr>et_step_count := ucast points\<rparr>))))))
     else typed_invalid)"

definition teleport_float_rotation :: "mc_entity_teleport \<Rightarrow> mc_entity_teleport rd" where
  "teleport_float_rotation v =
     rd_bind mc_reader_float (\<lambda>yaw. rd_bind mc_reader_float (\<lambda>pitch. rd_bind mc_reader_bool (\<lambda>on_ground.
     rd_return (v\<lparr>et_yaw := yaw, et_pitch := pitch, et_on_ground := on_ground\<rparr>))))"

definition teleport_byte_rotation :: "bool \<Rightarrow> mc_entity_teleport \<Rightarrow> mc_entity_teleport rd" where
  "teleport_byte_rotation ground v =
     rd_bind mc_reader_u8 (\<lambda>yaw. rd_bind mc_reader_u8 (\<lambda>pitch.
     rd_bind (rd_when ground False mc_reader_bool) (\<lambda>on_ground.
     rd_return (v\<lparr>et_yaw_raw := yaw, et_pitch_raw := pitch, et_on_ground := on_ground,
       et_yaw := angle_of_byte yaw, et_pitch := angle_of_byte pitch,
       et_presence := (MC_MOVE_HAS_POSITION OR MC_MOVE_HAS_ROTATION)
         OR (if ground then MC_MOVE_HAS_ON_GROUND else 0)\<rparr>))))"

definition teleport_fields :: "int \<Rightarrow> string \<Rightarrow> mc_entity_teleport \<Rightarrow> mc_entity_teleport rd" where
  "teleport_fields protocol name v =
     (if name = ''sync_entity_position'' \<and> protocol \<ge> 777 then
        rd_bind (teleport_path v) (\<lambda>v'.
        teleport_float_rotation (v'\<lparr>et_presence := MC_MOVE_HAS_POSITION OR MC_MOVE_HAS_ROTATION
          OR MC_MOVE_HAS_ON_GROUND\<rparr>))
      else if name = ''sync_entity_position'' then
        rd_bind read_point (\<lambda>p. rd_bind read_point (\<lambda>(dx, dy, dz).
        teleport_float_rotation ((teleport_at p v)\<lparr>et_delta_x := dx, et_delta_y := dy,
          et_delta_z := dz, et_presence := MC_MOVE_HAS_POSITION OR MC_MOVE_HAS_DELTA
            OR MC_MOVE_HAS_ROTATION OR MC_MOVE_HAS_ON_GROUND\<rparr>)))
      else if protocol \<le> 47 then
        rd_bind mc_reader_i32 (\<lambda>x. rd_bind mc_reader_i32 (\<lambda>y. rd_bind mc_reader_i32 (\<lambda>z.
        teleport_byte_rotation (protocol = 47)
          (v\<lparr>et_x := f64_quotient (sint x) 32, et_y := f64_quotient (sint y) 32,
             et_z := f64_quotient (sint z) 32\<rparr>))))
      else
        rd_bind read_point (\<lambda>p. teleport_byte_rotation True (teleport_at p v)))"

definition typed_decode_entity_teleport :: "int \<Rightarrow> string \<Rightarrow> mc_entity_teleport rd" where
  "typed_decode_entity_teleport protocol name =
     rd_bind (read_entity_id protocol) (\<lambda>entity_id.
     rd_bind (teleport_fields protocol name (entity_teleport_start entity_id)) (\<lambda>decoded.
     rd_bind (rd_valid
       (rd_bind (rd_test (\<not> sint entity_id < 0
           \<and> point_finite (et_x decoded, et_y decoded, et_z decoded)
           \<and> point_finite (et_delta_x decoded, et_delta_y decoded, et_delta_z decoded))) (\<lambda>_.
        typed_finite_rotation (et_yaw decoded) (et_pitch decoded)))) (\<lambda>_.
     rd_return decoded)))"

record mc_entity_head_rotation =
  hr_entity_id :: i32
  hr_yaw_raw :: u8
  hr_yaw :: f32

definition typed_decode_entity_head_rotation :: "int \<Rightarrow> mc_entity_head_rotation rd" where
  "typed_decode_entity_head_rotation protocol =
     rd_bind (read_entity_id protocol) (\<lambda>entity_id. rd_bind mc_reader_u8 (\<lambda>yaw.
     rd_bind (rd_check (\<not> sint entity_id < 0)) (\<lambda>_.
     rd_return \<lparr>hr_entity_id = entity_id, hr_yaw_raw = yaw, hr_yaw = angle_of_byte yaw\<rparr>)))"

record mc_block_change =
  bc_position :: mc_position
  bc_state_id :: i32

definition typed_decode_block_change :: "int \<Rightarrow> mc_block_change rd" where
  "typed_decode_block_change protocol =
     rd_bind (mc_reader_block_change protocol) (\<lambda>(position, state_id).
     rd_return \<lparr>bc_position = position, bc_state_id = state_id\<rparr>)"

subsection \<open>Every failure is recorded\<close>

lemma reader_op_room [rd_ops]: "reader_op (rd_room count width)"
proof -
  have mono: "mc_reader_remaining r \<le> mc_reader_remaining (rd_extend ext r)" for r ext
    by (auto simp: mc_reader_remaining_def)
  then have grow: "count \<le> mc_reader_remaining r div width
      \<Longrightarrow> count \<le> mc_reader_remaining (rd_extend ext r) div width" for r ext
    by (meson div_le_mono order_trans)
  show ?thesis
  proof
    show "rd_ok r \<Longrightarrow> rd_room count width r = (Some x, r')
      \<Longrightarrow> rd_room count width (rd_extend ext r) = (Some x, rd_extend ext r')" for r x r' ext
      using grow [of r ext]
      by (auto simp: rd_room_def typed_invalid_def rd_here_def reader_fail_def not_less split: if_splits)
  qed (auto simp: rd_room_def reader_op_laws [OF reader_op_invalid])
qed

lemma checked_room [rd_checked]: "checked_op (rd_room count width)"
proof (intro checked_opI reporting_opI reader_op_room)
  show "rd_reported r \<Longrightarrow> rd_reported (snd (rd_room count width r))" for r
    using reporting_op.op_reported [OF reporting_invalid, of r] by (auto simp: rd_room_def)
  show "fst (rd_room count width r) = None \<Longrightarrow> rd_failed (snd (rd_room count width r))" for r
    by (auto simp: rd_room_def typed_invalid_def rd_here_def reader_fail_def split: if_splits)
qed

lemmas reporting_room [rd_checked] = checked_reporting [OF checked_room]

lemma checked_entity_id [rd_checked]: "checked_op (read_entity_id protocol)"
  unfolding read_entity_id_def by (intro rd_checked)

lemma checked_lp_velocity [rd_checked]: "checked_op (typed_read_lp_velocity value)"
  unfolding typed_read_lp_velocity_def lp_vector_def lp_scale_def Let_def by (intro rd_checked)

lemma checked_entity_velocity [rd_checked]: "checked_op (typed_decode_entity_velocity protocol)"
  unfolding typed_decode_entity_velocity_def Let_def by (intro rd_checked)

lemma checked_delta [rd_checked]: "checked_op read_delta"
  unfolding read_delta_def by (intro rd_checked)

lemma checked_vec_steps [rd_checked]: "checked_op (vec_delta_steps n moved)"
  by (induction n moved rule: vec_delta_steps.induct) (simp_all, (intro rd_checked; simp)+)

lemma checked_vec_delta [rd_checked]: "checked_op read_vec_delta_777"
  unfolding read_vec_delta_777_def Let_def by (intro rd_checked)

lemma checked_entity_move [rd_checked]: "checked_op (typed_decode_entity_move protocol with_rotation)"
  unfolding typed_decode_entity_move_def move_stepped_def move_delta_def move_rotation_def
  by (intro rd_checked)

lemma checked_point [rd_checked]: "checked_op read_point"
  unfolding read_point_def by (intro rd_checked)

lemma checked_points [rd_checked]: "checked_op (teleport_points n final)"
  by (induction n final rule: teleport_points.induct) (simp_all, (intro rd_checked; simp)+)

lemma checked_entity_teleport [rd_checked]: "checked_op (typed_decode_entity_teleport protocol name)"
  unfolding typed_decode_entity_teleport_def teleport_fields_def teleport_path_def
    teleport_float_rotation_def teleport_byte_rotation_def
  by (intro rd_checked)

lemma checked_head_rotation [rd_checked]: "checked_op (typed_decode_entity_head_rotation protocol)"
  unfolding typed_decode_entity_head_rotation_def by (intro rd_checked)

lemma checked_typed_block_change [rd_checked]: "checked_op (typed_decode_block_change protocol)"
  unfolding typed_decode_block_change_def by (intro rd_checked)

end
