(* ===== verification/Typed_Containers.thy ===== *)
theory Typed_Containers
  imports Typed_Entities
begin

text \<open>
  The typed decoders of \<open>api.c\<close> for windows, slots and block changes, from
  \<open>typed_read_container_id\<close> to \<open>mc_block_change_iterator_next\<close>, with the iterators over the views
  they validated. An iterator is a record of its own strict reader and what is left; a step returns
  the element, if there is one, and the iterator left behind. The pointers are valid, so a step
  fails on exhaustion or on input it does not accept.
\<close>

subsection \<open>Windows\<close>

definition MC_MAX_CONTAINER_SLOTS :: nat where
  "MC_MAX_CONTAINER_SLOTS = 4096"

definition typed_read_container_id :: "int \<Rightarrow> bool \<Rightarrow> i32 rd" where
  "typed_read_container_id protocol signed_legacy =
     (if protocol \<ge> 768 then mc_reader_varint
      else if signed_legacy then rd_bind mc_reader_i8 (\<lambda>v. rd_return (scast v))
      else rd_bind mc_reader_u8 (\<lambda>v. rd_return (ucast v)))"

text \<open>The state id, where the protocol has one.\<close>

definition read_state_id :: "int \<Rightarrow> i32 rd" where
  "read_state_id protocol = rd_when (protocol \<ge> 756) 0
     (rd_valid (rd_such mc_reader_varint (\<lambda>state_id. \<not> sint state_id < 0)))"

record mc_window_click_packet =
  wc_window_id :: i32
  wc_state_id :: i32
  wc_slot :: i16
  wc_mouse_button :: i8
  wc_action_number :: i16
  wc_mode :: i32
  wc_changed_slot_count :: u32
  wc_changed_slots :: "u8 list"
  wc_carried_item :: mc_item_stack_view
  wc_has_state_id :: bool
  wc_has_action_number :: bool
  wc_hashed_slots :: bool

text \<open>Mode, item, action number, changed slots: through 1.16.4, and later.\<close>

definition window_click_legacy :: "gz_inflate \<Rightarrow> int \<Rightarrow> mc_window_click_packet \<Rightarrow> mc_window_click_packet rd" where
  "window_click_legacy gz protocol v =
     rd_bind mc_reader_i16 (\<lambda>action_number. rd_bind mc_reader_i8 (\<lambda>mode.
     rd_bind (mc_reader_item_stack gz protocol MC_ITEM_WIRE_FULL) (\<lambda>item.
     rd_return (v\<lparr>wc_has_action_number := True, wc_action_number := action_number,
       wc_mode := scast mode, wc_carried_item := item\<rparr>))))"

definition window_click_changed :: "gz_inflate \<Rightarrow> int \<Rightarrow> mc_window_click_packet \<Rightarrow> mc_window_click_packet rd" where
  "window_click_changed gz protocol v =
     (let hashed = (protocol \<ge> 770);
          wire_kind = (if hashed then MC_ITEM_WIRE_HASHED else MC_ITEM_WIRE_FULL) in
     rd_bind (if protocol = 755 then rd_bind mc_reader_i8 (\<lambda>mode. rd_return (scast mode))
              else mc_reader_varint) (\<lambda>mode.
     rd_bind mc_reader_varint (\<lambda>changed. rd_bind (typed_count changed MC_MAX_CONTAINER_SLOTS) (\<lambda>_.
     rd_bind (rd_capture (rd_repeat (unat changed) (rd_valid
       (rd_bind (rd_such mc_reader_i16 (\<lambda>slot. \<not> sint slot < 0)) (\<lambda>slot.
        rd_bind (mc_reader_item_stack gz protocol wire_kind) (\<lambda>ignored. rd_return ())))))) (\<lambda>(_, changed_slots).
     rd_bind (mc_reader_item_stack gz protocol wire_kind) (\<lambda>item.
     rd_return (v\<lparr>wc_mode := mode, wc_changed_slot_count := ucast changed,
       wc_changed_slots := changed_slots, wc_hashed_slots := hashed, wc_carried_item := item\<rparr>)))))))"

definition typed_decode_window_click :: "gz_inflate \<Rightarrow> int \<Rightarrow> mc_window_click_packet rd" where
  "typed_decode_window_click gz protocol =
     rd_bind (typed_read_container_id protocol (protocol \<le> 5)) (\<lambda>window_id.
     rd_bind (read_state_id protocol) (\<lambda>state_id.
     rd_bind mc_reader_i16 (\<lambda>slot. rd_bind mc_reader_i8 (\<lambda>mouse_button.
     let v = \<lparr>wc_window_id = window_id, wc_state_id = state_id, wc_slot = slot,
           wc_mouse_button = mouse_button, wc_action_number = 0, wc_mode = 0,
           wc_changed_slot_count = 0, wc_changed_slots = [],
           wc_carried_item = item_stack_start MC_ITEM_WIRE_FULL,
           wc_has_state_id = (protocol \<ge> 756), wc_has_action_number = False,
           wc_hashed_slots = False\<rparr> in
     rd_bind (if protocol \<le> 754 then window_click_legacy gz protocol v
              else window_click_changed gz protocol v) (\<lambda>decoded.
     rd_bind (rd_check (\<not> (sint (wc_mode decoded) < 0 \<or> sint (wc_mode decoded) > 6
         \<or> sint window_id < (if protocol \<le> 5 then -128 else 0)))) (\<lambda>_.
     rd_return decoded))))))"

record mc_set_creative_slot_packet =
  cs_slot :: i16
  cs_item :: mc_item_stack_view

definition typed_decode_set_creative_slot :: "gz_inflate \<Rightarrow> int \<Rightarrow> mc_set_creative_slot_packet rd" where
  "typed_decode_set_creative_slot gz protocol =
     rd_bind mc_reader_i16 (\<lambda>slot.
     rd_bind (mc_reader_item_stack gz protocol
       (if protocol \<ge> 770 then MC_ITEM_WIRE_UNTRUSTED else MC_ITEM_WIRE_FULL)) (\<lambda>item.
     rd_bind (rd_check (\<not> (sint slot < -1 \<or> sint slot > 53))) (\<lambda>_.
     rd_return \<lparr>cs_slot = slot, cs_item = item\<rparr>)))"

record mc_set_slot_packet =
  ss_window_id :: i32
  ss_state_id :: i32
  ss_slot :: i16
  ss_item :: mc_item_stack_view
  ss_has_state_id :: bool

definition typed_decode_set_slot :: "gz_inflate \<Rightarrow> int \<Rightarrow> mc_set_slot_packet rd" where
  "typed_decode_set_slot gz protocol =
     rd_bind (typed_read_container_id protocol True) (\<lambda>window_id.
     rd_bind (read_state_id protocol) (\<lambda>state_id. rd_bind mc_reader_i16 (\<lambda>slot.
     rd_bind (mc_reader_item_stack gz protocol MC_ITEM_WIRE_FULL) (\<lambda>item.
     rd_return \<lparr>ss_window_id = window_id, ss_state_id = state_id, ss_slot = slot, ss_item = item,
       ss_has_state_id = (protocol \<ge> 756)\<rparr>))))"

record mc_window_items_packet =
  wi_window_id :: i32
  wi_state_id :: i32
  wi_item_count :: u32
  wi_items :: "u8 list"
  wi_carried_item :: mc_item_stack_view
  wi_item_wire_kind :: mc_item_wire_kind
  wi_has_state_id :: bool
  wi_has_carried_item :: bool

definition typed_read_window_item_count :: "int \<Rightarrow> i32 rd" where
  "typed_read_window_item_count protocol =
     (if protocol \<ge> 756 then mc_reader_varint
      else rd_bind mc_reader_u16 (\<lambda>wire. rd_return (ucast wire)))"

definition typed_decode_window_items :: "gz_inflate \<Rightarrow> int \<Rightarrow> mc_window_items_packet rd" where
  "typed_decode_window_items gz protocol =
     rd_bind (typed_read_container_id protocol False) (\<lambda>window_id.
     rd_bind (read_state_id protocol) (\<lambda>state_id.
     rd_bind (typed_read_window_item_count protocol) (\<lambda>count.
     rd_bind (typed_count count MC_MAX_CONTAINER_SLOTS) (\<lambda>_.
     rd_bind (rd_capture (rd_repeat (unat count)
       (rd_bind (mc_reader_item_stack gz protocol MC_ITEM_WIRE_FULL) (\<lambda>ignored. rd_return ()))))
       (\<lambda>(_, items).
     rd_bind (rd_when (protocol \<ge> 755) (item_stack_start MC_ITEM_WIRE_FULL)
       (mc_reader_item_stack gz protocol MC_ITEM_WIRE_FULL)) (\<lambda>item.
     rd_return \<lparr>wi_window_id = window_id, wi_state_id = state_id, wi_item_count = ucast count,
       wi_items = items, wi_carried_item = item, wi_item_wire_kind = MC_ITEM_WIRE_FULL,
       wi_has_state_id = (protocol \<ge> 756), wi_has_carried_item = (protocol \<ge> 755)\<rparr>))))))"

subsection \<open>Iterators over items\<close>

record mc_item_iterator =
  ii_reader :: mc_reader
  ii_protocol :: int
  ii_wire_kind :: mc_item_wire_kind
  ii_remaining :: u32

text \<open>The strict reader over a view that an iterator starts with.\<close>

definition view_reader :: "u8 list \<Rightarrow> mc_reader" where
  "view_reader view = mc_reader_init_mode (Buf view) MC_DECODE_STRICT None"

definition mc_window_items_iterator :: "mc_window_items_packet \<Rightarrow> int \<Rightarrow> mc_item_iterator option" where
  "mc_window_items_iterator packet protocol =
     (if \<not> mc_protocol_supported protocol \<or> unat (wi_item_count packet) > MC_MAX_CONTAINER_SLOTS
      then None
      else Some \<lparr>ii_reader = view_reader (wi_items packet), ii_protocol = protocol,
             ii_wire_kind = wi_item_wire_kind packet, ii_remaining = wi_item_count packet\<rparr>)"

text \<open>After the last element nothing may be left of the view.\<close>

definition last_of_view :: "bool \<Rightarrow> unit rd" where
  "last_of_view final r =
     (if final \<and> mc_reader_remaining r \<noteq> 0 then typed_invalid r else (Some (), r))"

definition mc_item_iterator_next ::
  "gz_inflate \<Rightarrow> mc_item_iterator \<Rightarrow> mc_item_stack_view option \<times> mc_item_iterator" where
  "mc_item_iterator_next gz it =
     (if ii_remaining it = 0 then (None, it)
      else case mc_reader_item_stack gz (ii_protocol it) (ii_wire_kind it) (ii_reader it) of
          (None, reader) \<Rightarrow> (None, it\<lparr>ii_reader := reader\<rparr>)
        | (Some decoded, reader) \<Rightarrow>
            let remaining = ii_remaining it - 1 in
            case last_of_view (remaining = 0) reader of
              (None, reader') \<Rightarrow> (None, it\<lparr>ii_reader := reader', ii_remaining := remaining\<rparr>)
            | (Some _, reader') \<Rightarrow> (Some decoded, it\<lparr>ii_reader := reader', ii_remaining := remaining\<rparr>))"

record mc_item_component_view =
  ic_type_id :: i32
  ic_data :: "u8 list"
  ic_removed :: bool

record mc_item_component_iterator =
  ci_reader :: mc_reader
  ci_protocol :: int
  ci_remaining_added :: u32
  ci_remaining_removed :: u32
  ci_values_length_prefixed :: bool

definition mc_item_components_iterator ::
  "mc_item_stack_view \<Rightarrow> int \<Rightarrow> mc_item_component_iterator option" where
  "mc_item_components_iterator item protocol =
     (let added = is_added_component_count item; removed = is_removed_component_count item in
      if protocol < 766 \<or> \<not> mc_protocol_supported protocol
         \<or> (is_wire_kind item \<noteq> MC_ITEM_WIRE_FULL \<and> is_wire_kind item \<noteq> MC_ITEM_WIRE_UNTRUSTED)
         \<or> (is_wire_kind item = MC_ITEM_WIRE_UNTRUSTED \<and> protocol < 770)
         \<or> unat added > MC_MAX_ITEM_COMPONENT_COUNT \<or> unat removed > MC_MAX_ITEM_COMPONENT_COUNT
         \<or> unat (added + removed) > MC_MAX_ITEM_COMPONENT_COUNT
         \<or> (added = 0 \<and> removed = 0 \<and> length (is_components item) \<noteq> 0)
         \<or> (is_wire_kind item = MC_ITEM_WIRE_FULL \<and> is_component_values_length_prefixed item)
         \<or> (is_wire_kind item = MC_ITEM_WIRE_UNTRUSTED \<and> added \<noteq> 0
            \<and> \<not> is_component_values_length_prefixed item)
      then None
      else Some \<lparr>ci_reader = view_reader (is_components item), ci_protocol = protocol,
             ci_remaining_added = added, ci_remaining_removed = removed,
             ci_values_length_prefixed = is_component_values_length_prefixed item\<rparr>)"

text \<open>
  The value of one entry: nothing for a removed one, the buffer behind the type where values have a
  length, the bytes behind the type otherwise. \<open>after_type\<close> is the offset behind the type.
\<close>

definition component_entry :: "mc_item_component_iterator \<Rightarrow> nat \<Rightarrow> u8 list rd" where
  "component_entry it after_type =
     (let removed = (ci_remaining_added it = 0) in
      if removed \<or> ci_values_length_prefixed it then
        rd_bind (typed_read_component_type (ci_protocol it)) (\<lambda>_.
        if removed then rd_return [] else mc_reader_buffer_varint)
      else
        rd_bind (skip_slot_component (ci_protocol it) 0) (\<lambda>_ r.
        (Some (take (rd_offset r - after_type) (drop after_type (rd_data r))), r)))"

definition mc_item_component_iterator_next ::
  "mc_item_component_iterator \<Rightarrow> mc_item_component_view option \<times> mc_item_component_iterator" where
  "mc_item_component_iterator_next it =
     (let added = ci_remaining_added it; removed = ci_remaining_removed it in
      if rd_failed (ci_reader it) \<or> (added = 0 \<and> removed = 0) then (None, it)
      else case mc_reader_varint (ci_reader it) of
          (None, typ) \<Rightarrow> (None, it\<lparr>ci_reader := typ\<rparr>)
        | (Some type_id, typ) \<Rightarrow>
            case rd_bind (component_entry it (rd_offset typ)) (\<lambda>bytes.
                 rd_bind (last_of_view (added + removed = 1)) (\<lambda>_. rd_return bytes)) (ci_reader it) of
              (None, reader) \<Rightarrow> (None, it\<lparr>ci_reader := reader\<rparr>)
            | (Some bytes, reader) \<Rightarrow>
                (Some \<lparr>ic_type_id = type_id, ic_data = bytes, ic_removed = (added = 0)\<rparr>,
                 it\<lparr>ci_reader := reader,
                    ci_remaining_added := (if added = 0 then added else added - 1),
                    ci_remaining_removed := (if added = 0 then removed - 1 else removed)\<rparr>))"

subsection \<open>Multi block changes\<close>

datatype mc_multi_block_record_format =
    MC_MULTI_BLOCK_RECORD_LEGACY_1_7 | MC_MULTI_BLOCK_RECORD_CHUNK
  | MC_MULTI_BLOCK_RECORD_SECTION_VARLONG | MC_MULTI_BLOCK_RECORD_SECTION_VARINT

record mc_multi_block_change =
  mb_chunk_x :: i32
  mb_chunk_z :: i32
  mb_section_y :: i32
  mb_record_count :: u32
  mb_records :: "u8 list"
  mb_format :: mc_multi_block_record_format
  mb_suppress_light_updates :: bool
  mb_has_light_update_flag :: bool

definition typed_sign_extend :: "u64 \<Rightarrow> nat \<Rightarrow> i32" where
  "typed_sign_extend v bits =
     (let sign = push_bit (bits - 1) 1;
          mask = push_bit bits 1 - 1;
          truncated = v AND mask
      in ucast ((truncated XOR sign) - sign))"

definition multi_block_head :: "int \<Rightarrow> (i32 \<times> mc_multi_block_change) rd" where
  "multi_block_head protocol =
     (let v = \<lparr>mb_chunk_x = 0, mb_chunk_z = 0, mb_section_y = 0, mb_record_count = 0,
           mb_records = [], mb_format = MC_MULTI_BLOCK_RECORD_LEGACY_1_7,
           mb_suppress_light_updates = False, mb_has_light_update_flag = False\<rparr> in
      if protocol \<le> 5 then rd_valid
        (rd_bind mc_reader_i32 (\<lambda>x. rd_bind mc_reader_i32 (\<lambda>z. rd_bind mc_reader_u16 (\<lambda>wire_count.
         rd_bind mc_reader_i32 (\<lambda>data_length.
         rd_bind (rd_test (\<not> (sint data_length < 0 \<or> unat data_length \<noteq> unat wire_count * 4))) (\<lambda>_.
         rd_return (ucast wire_count, v\<lparr>mb_chunk_x := x, mb_chunk_z := z\<rparr>)))))))
      else if protocol < 751 then
        rd_bind mc_reader_i32 (\<lambda>x. rd_bind mc_reader_i32 (\<lambda>z. rd_bind mc_reader_varint (\<lambda>count.
        rd_return (count, v\<lparr>mb_chunk_x := x, mb_chunk_z := z,
          mb_format := MC_MULTI_BLOCK_RECORD_CHUNK\<rparr>))))
      else
        rd_bind mc_reader_u64 (\<lambda>section.
        rd_bind (rd_when (protocol \<le> 762) False mc_reader_bool) (\<lambda>suppress.
        rd_bind mc_reader_varint (\<lambda>count.
        rd_return (count, v\<lparr>mb_chunk_x := typed_sign_extend (drop_bit 42 section) 22,
          mb_chunk_z := typed_sign_extend (drop_bit 20 section) 22,
          mb_section_y := typed_sign_extend section 20,
          mb_has_light_update_flag := (protocol \<le> 762), mb_suppress_light_updates := suppress,
          mb_format := (if protocol \<le> 758 then MC_MULTI_BLOCK_RECORD_SECTION_VARLONG
                        else MC_MULTI_BLOCK_RECORD_SECTION_VARINT)\<rparr>)))))"

definition multi_block_record :: "mc_multi_block_record_format \<Rightarrow> unit rd" where
  "multi_block_record format =
     (case format of
        MC_MULTI_BLOCK_RECORD_LEGACY_1_7 \<Rightarrow> mc_reader_skip 4
      | MC_MULTI_BLOCK_RECORD_CHUNK \<Rightarrow> rd_valid
          (rd_bind (mc_reader_skip 2) (\<lambda>_.
           rd_bind (rd_such mc_reader_varint (\<lambda>state. \<not> sint state < 0)) (\<lambda>_. rd_return ())))
      | MC_MULTI_BLOCK_RECORD_SECTION_VARLONG \<Rightarrow> rd_valid
          (rd_bind (rd_such mc_reader_varlong (\<lambda>block. \<not> sint block < 0)) (\<lambda>_. rd_return ()))
      | MC_MULTI_BLOCK_RECORD_SECTION_VARINT \<Rightarrow> rd_valid
          (rd_bind (rd_such mc_reader_varint (\<lambda>block. \<not> sint block < 0)) (\<lambda>_. rd_return ())))"

definition typed_decode_multi_block_change :: "int \<Rightarrow> mc_multi_block_change rd" where
  "typed_decode_multi_block_change protocol =
     rd_bind (multi_block_head protocol) (\<lambda>(count, v).
     rd_bind (typed_count count MC_MAX_PACKET_ARRAY_COUNT) (\<lambda>_.
     rd_bind (rd_capture (rd_repeat (unat count) (multi_block_record (mb_format v)))) (\<lambda>(_, records).
     rd_return (v\<lparr>mb_record_count := ucast count, mb_records := records\<rparr>))))"

record mc_block_change_record =
  br_position :: mc_position
  br_state_id :: i32
  br_raw_record :: u64

record mc_block_change_iterator =
  bi_reader :: mc_reader
  bi_packet :: mc_multi_block_change
  bi_remaining :: u32

definition mc_multi_block_change_iterator :: "mc_multi_block_change \<Rightarrow> mc_block_change_iterator option" where
  "mc_multi_block_change_iterator packet =
     (if unat (mb_record_count packet) > MC_MAX_PACKET_ARRAY_COUNT then None
      else Some \<lparr>bi_reader = view_reader (mb_records packet), bi_packet = packet,
             bi_remaining = mb_record_count packet\<rparr>)"

text \<open>The column of a record in the two older formats; the products wrap around.\<close>

definition block_in_chunk :: "mc_multi_block_change \<Rightarrow> u8 \<Rightarrow> u8 \<Rightarrow> mc_position" where
  "block_in_chunk p horizontal y =
     \<lparr>pos_x = mb_chunk_x p * 16 + ucast (drop_bit 4 horizontal), pos_y = ucast y,
      pos_z = mb_chunk_z p * 16 + ucast (horizontal AND 0x0f)\<rparr>"

definition block_in_section :: "mc_multi_block_change \<Rightarrow> u64 \<Rightarrow> mc_position" where
  "block_in_section p packed =
     \<lparr>pos_x = mb_chunk_x p * 16 + ucast (drop_bit 8 packed AND 0x0f),
      pos_y = mb_section_y p * 16 + ucast (packed AND 0x0f),
      pos_z = mb_chunk_z p * 16 + ucast (drop_bit 4 packed AND 0x0f)\<rparr>"

definition block_change_body :: "mc_multi_block_change \<Rightarrow> mc_block_change_record rd" where
  "block_change_body p =
     (case mb_format p of
        MC_MULTI_BLOCK_RECORD_LEGACY_1_7 \<Rightarrow>
          rd_bind mc_reader_u8 (\<lambda>horizontal. rd_bind mc_reader_u8 (\<lambda>y. rd_bind mc_reader_u16 (\<lambda>state.
          rd_return \<lparr>br_position = block_in_chunk p horizontal y, br_state_id = ucast state,
            br_raw_record = (push_bit 24 (ucast horizontal) OR push_bit 16 (ucast y)) OR ucast state\<rparr>)))
      | MC_MULTI_BLOCK_RECORD_CHUNK \<Rightarrow>
          rd_bind mc_reader_u8 (\<lambda>horizontal. rd_bind mc_reader_u8 (\<lambda>y.
          rd_bind (rd_such mc_reader_varint (\<lambda>state. \<not> sint state < 0)) (\<lambda>state.
          rd_return \<lparr>br_position = block_in_chunk p horizontal y, br_state_id = state,
            br_raw_record = push_bit 8 (ucast horizontal) OR ucast y\<rparr>)))
      | _ \<Rightarrow>
          rd_bind
            (if mb_format p = MC_MULTI_BLOCK_RECORD_SECTION_VARLONG
             then rd_bind (rd_such mc_reader_varlong (\<lambda>block. \<not> sint block < 0)) (\<lambda>block.
                  rd_return (ucast block))
             else rd_bind (rd_such mc_reader_varint (\<lambda>block. \<not> sint block < 0)) (\<lambda>block.
                  rd_return (ucast block))) (\<lambda>packed.
          rd_bind (rd_check (\<not> unat (drop_bit 12 packed) > INT32_MAX)) (\<lambda>_.
          rd_return \<lparr>br_position = block_in_section p packed, br_state_id = ucast (drop_bit 12 packed),
            br_raw_record = packed\<rparr>)))"

definition mc_block_change_iterator_next ::
  "mc_block_change_iterator \<Rightarrow> mc_block_change_record option \<times> mc_block_change_iterator" where
  "mc_block_change_iterator_next it =
     (if bi_remaining it = 0 then (None, it)
      else case block_change_body (bi_packet it) (bi_reader it) of
          (None, reader) \<Rightarrow> (None, it\<lparr>bi_reader := reader\<rparr>)
        | (Some decoded, reader) \<Rightarrow>
            let remaining = bi_remaining it - 1 in
            case last_of_view (remaining = 0) reader of
              (None, reader') \<Rightarrow> (None, it\<lparr>bi_reader := reader', bi_remaining := remaining\<rparr>)
            | (Some _, reader') \<Rightarrow> (Some decoded, it\<lparr>bi_reader := reader', bi_remaining := remaining\<rparr>))"

subsection \<open>Every failure is recorded\<close>

lemma checked_container_id [rd_checked]: "checked_op (typed_read_container_id protocol signed_legacy)"
  unfolding typed_read_container_id_def by (intro rd_checked)

lemma checked_state_id [rd_checked]: "checked_op (read_state_id protocol)"
  unfolding read_state_id_def by (intro rd_checked)

lemmas reporting_item_stack [rd_checked] = checked_reporting [OF checked_item_stack]

lemma checked_window_click [rd_checked]: "checked_op (typed_decode_window_click gz protocol)"
  unfolding typed_decode_window_click_def window_click_legacy_def window_click_changed_def Let_def
  by (intro rd_checked)

lemma checked_slots [rd_checked]:
  "checked_op (typed_decode_set_creative_slot gz protocol)" "checked_op (typed_decode_set_slot gz protocol)"
  "checked_op (typed_decode_window_items gz protocol)"
  unfolding typed_decode_set_creative_slot_def typed_decode_set_slot_def typed_decode_window_items_def
    typed_read_window_item_count_def
  by (intro rd_checked)+

lemma checked_multi_record [rd_checked]: "checked_op (multi_block_record format)"
  unfolding multi_block_record_def mc_reader_skip_def by (cases format; simp; intro rd_checked)

lemma checked_multi_block_change [rd_checked]: "checked_op (typed_decode_multi_block_change protocol)"
  unfolding typed_decode_multi_block_change_def multi_block_head_def Let_def
  by (intro rd_checked)

end
