(* ===== verification/Typed_Metadata.thy ===== *)
theory Typed_Metadata
  imports Typed_Containers
begin

text \<open>
  Particles and entity metadata in \<open>api.c\<close>, from \<open>typed_skip_floats\<close> to
  \<open>mc_entity_metadata_iterator_next\<close>. A validator consumes one value and returns nothing.
\<close>

subsection \<open>Building blocks\<close>

abbreviation rd_ignore :: "'a rd \<Rightarrow> unit rd" where
  "rd_ignore m \<equiv> rd_bind m (\<lambda>_. rd_return ())"

primrec typed_skip_floats :: "nat \<Rightarrow> unit rd" where
  "typed_skip_floats 0 = rd_return ()"
| "typed_skip_floats (Suc n) =
     rd_bind mc_reader_float (\<lambda>v. rd_bind (rd_check (f32_isfinite v)) (\<lambda>_. typed_skip_floats n))"

definition typed_skip_optional :: "unit rd \<Rightarrow> unit rd" where
  "typed_skip_optional payload =
     rd_bind mc_reader_bool (\<lambda>present. if \<not> present then rd_return () else payload)"

definition typed_skip_position_value :: "int \<Rightarrow> unit rd" where
  "typed_skip_position_value protocol = rd_ignore (mc_reader_position protocol)"

definition typed_skip_uuid_value :: "unit rd" where
  "typed_skip_uuid_value = rd_ignore mc_reader_uuid"

definition typed_skip_string_value :: "unit rd" where
  "typed_skip_string_value = rd_ignore (mc_reader_string_bounded 32767)"

definition typed_skip_anonymous_nbt_value :: "unit rd" where
  "typed_skip_anonymous_nbt_value = rd_ignore (mc_reader_nbt False)"

text \<open>\<^verbatim>\<open>return mc_reader_varint(reader, &value) && value >= 0 ? true : typed_invalid(reader);\<close>\<close>

definition skip_nonnegative :: "unit rd" where
  "skip_nonnegative = rd_valid (rd_ignore (rd_such mc_reader_varint (\<lambda>v. \<not> sint v < 0)))"

definition skip_item :: "gz_inflate \<Rightarrow> int \<Rightarrow> unit rd" where
  "skip_item gz protocol = rd_ignore (mc_reader_item_stack gz protocol MC_ITEM_WIRE_FULL)"

definition typed_skip_registry_holder_painting :: "unit rd" where
  "typed_skip_registry_holder_painting =
     rd_bind (rd_valid (rd_such mc_reader_varint (\<lambda>holder. \<not> sint holder < 0))) (\<lambda>holder.
     if holder \<noteq> 0 then rd_return ()
     else rd_valid
       (rd_bind mc_reader_i32 (\<lambda>width. rd_bind mc_reader_i32 (\<lambda>height.
        rd_bind (rd_test (\<not> (sint width \<le> 0 \<or> sint height \<le> 0))) (\<lambda>_.
        rd_bind (rd_such (mc_reader_string_bounded 32767) (\<lambda>asset. length asset \<noteq> 0)) (\<lambda>_.
        rd_bind (typed_skip_optional typed_skip_anonymous_nbt_value) (\<lambda>_.
        typed_skip_optional typed_skip_anonymous_nbt_value)))))))"

subsection \<open>Particles through 1.20.4\<close>

text \<open>The particles with a value; -1 is no particle.\<close>

record old_particles =
  op_block_a :: int
  op_block_b :: int
  op_dust :: int
  op_transition :: int
  op_item :: int
  op_vibration :: int
  op_rotation :: int
  op_shriek :: int

definition old_particle_profile :: "int \<Rightarrow> old_particles" where
  "old_particle_profile protocol =
     (let base = \<lparr>op_block_a = -1, op_block_b = -1, op_dust = -1, op_transition = -1, op_item = -1,
            op_vibration = -1, op_rotation = -1, op_shriek = -1\<rparr> in
      if protocol < 477 then base\<lparr>op_block_a := 3, op_block_b := 20, op_dust := 11, op_item := 27\<rparr>
      else if protocol < 735 then base\<lparr>op_block_a := 3, op_block_b := 23, op_dust := 14, op_item := 32\<rparr>
      else if protocol < 755 then base\<lparr>op_block_a := 3, op_block_b := 23, op_dust := 14, op_item := 34\<rparr>
      else if protocol < 757
      then base\<lparr>op_block_a := 4, op_block_b := 25, op_dust := 15, op_transition := 16,
             op_item := 36, op_vibration := 37\<rparr>
      else if protocol < 759
      then base\<lparr>op_block_a := 2, op_block_b := 24, op_dust := 14, op_transition := 15,
             op_item := 35, op_vibration := 36\<rparr>
      else if protocol < 762
      then base\<lparr>op_block_a := 2, op_block_b := 25, op_dust := 14, op_transition := 15,
             op_rotation := 30, op_item := 39, op_vibration := 40, op_shriek := 92\<rparr>
      else if protocol < 763
      then base\<lparr>op_block_a := 2, op_block_b := 25, op_dust := 14, op_transition := 15,
             op_rotation := 33, op_item := 42, op_vibration := 43, op_shriek := 95\<rparr>
      else base\<lparr>op_block_a := 2, op_block_b := 25, op_dust := 14, op_transition := 15,
             op_rotation := 31, op_item := 40, op_vibration := 41, op_shriek := 93\<rparr>)"

definition skip_entity_source :: "unit rd" where
  "skip_entity_source = rd_valid
     (rd_bind (rd_such mc_reader_varint (\<lambda>entity. \<not> sint entity < 0)) (\<lambda>_.
      rd_bind mc_reader_varint (\<lambda>eye_height.
      rd_ignore (rd_such mc_reader_varint (\<lambda>destination. \<not> sint destination < 0)))))"

definition skip_vibration :: "int \<Rightarrow> unit rd" where
  "skip_vibration protocol =
     rd_bind
       (if protocol < 759 then
          rd_bind (mc_reader_position protocol) (\<lambda>origin.
          rd_bind (mc_reader_string_bounded 64) (\<lambda>kind.
          if bytes_equal_literal kind ''minecraft:block'' then typed_skip_position_value protocol
          else if bytes_equal_literal kind ''minecraft:entity'' then skip_nonnegative
          else typed_invalid))
        else
          rd_bind (mc_reader_string_bounded 64) (\<lambda>kind.
          if bytes_equal_literal kind ''minecraft:entity'' then skip_entity_source
          else if bytes_equal_literal kind ''minecraft:block'' then typed_skip_position_value protocol
          else typed_invalid)) (\<lambda>_.
     skip_nonnegative)"

definition typed_skip_old_particle_value :: "gz_inflate \<Rightarrow> int \<Rightarrow> i32 \<Rightarrow> unit rd" where
  "typed_skip_old_particle_value gz protocol particle =
     (let v = sint particle; profile = old_particle_profile protocol in
      if v < 0 then typed_invalid
      else if v = op_block_a profile \<or> v = op_block_b profile \<or> v = op_shriek profile
      then skip_nonnegative
      else if v = op_dust profile then typed_skip_floats 4
      else if v = op_transition profile then typed_skip_floats 7
      else if v = op_rotation profile then typed_skip_floats 1
      else if v = op_item profile then skip_item gz protocol
      else if v = op_vibration profile then skip_vibration protocol
      else rd_return ())"

definition typed_skip_old_particle :: "gz_inflate \<Rightarrow> int \<Rightarrow> unit rd" where
  "typed_skip_old_particle gz protocol =
     rd_bind mc_reader_varint (typed_skip_old_particle_value gz protocol)"

subsection \<open>Particles from 1.20.5 on\<close>

record particle_profile =
  pf_maximum :: int
  pf_block :: int
  pf_block_marker :: int
  pf_falling_dust :: int
  pf_dust_pillar :: int
  pf_block_crumble :: int
  pf_dust :: int
  pf_transition :: int
  pf_entity_effect :: int
  pf_item :: int
  pf_sculk_charge :: int
  pf_shriek :: int
  pf_vibration :: int
  pf_trail :: int
  pf_tinted_leaves :: int
  pf_dragon_breath :: int
  pf_effect :: int
  pf_instant_effect :: int
  pf_flash :: int

definition typed_particle_profile :: "int \<Rightarrow> particle_profile" where
  "typed_particle_profile protocol =
     (if protocol < 768 then
        particle_profile.make 108 1 2 28 105 (-1) 13 14 20 44 35 99 45 (-1) (-1) 7 15 43 39
      else if protocol = 768 then
        particle_profile.make 110 1 2 28 106 110 13 14 20 44 35 100 45 46 (-1) 7 15 43 39
      else if protocol = 769 then
        particle_profile.make 111 1 2 28 107 111 13 14 20 45 36 101 46 47 (-1) 7 15 44 40
      else if protocol < 773 then
        particle_profile.make 113 1 2 28 108 112 13 14 20 46 37 102 47 48 35 7 15 45 41
      else if protocol < 775 then
        particle_profile.make 114 1 2 29 109 113 14 15 21 47 38 103 48 49 36 8 16 46 42
      else if protocol = 775 then
        particle_profile.make 116 1 2 29 111 115 14 15 21 47 38 105 48 49 36 8 16 46 42
      else if protocol = 776 then
        particle_profile.make 124 1 2 36 118 122 21 22 28 54 45 112 55 56 43 15 23 53 49
      else
        particle_profile.make 127 1 2 36 121 125 21 22 28 57 48 115 58 59 46 15 23 56 52)"

definition skip_modern_vibration :: "int \<Rightarrow> unit rd" where
  "skip_modern_vibration protocol =
     rd_bind (rd_valid (rd_such mc_reader_varint (\<lambda>kind. \<not> (sint kind < 0 \<or> sint kind > 1)))) (\<lambda>kind.
     rd_bind
       (if kind = 0 then typed_skip_position_value protocol
        else rd_valid
          (rd_bind (rd_such mc_reader_varint (\<lambda>entity. \<not> sint entity < 0)) (\<lambda>_. typed_skip_floats 1)))
       (\<lambda>_. skip_nonnegative))"

primrec skip_coordinates :: "nat \<Rightarrow> unit rd" where
  "skip_coordinates 0 = rd_return ()"
| "skip_coordinates (Suc n) =
     rd_bind (rd_valid (rd_such mc_reader_double f64_isfinite)) (\<lambda>_. skip_coordinates n)"

definition typed_skip_modern_particle_value :: "gz_inflate \<Rightarrow> int \<Rightarrow> i32 \<Rightarrow> unit rd" where
  "typed_skip_modern_particle_value gz protocol particle =
     (let v = sint particle; profile = typed_particle_profile protocol in
      if v < 0 \<or> v > pf_maximum profile then typed_invalid
      else if v = pf_block profile \<or> v = pf_block_marker profile \<or> v = pf_falling_dust profile
              \<or> v = pf_dust_pillar profile \<or> v = pf_block_crumble profile \<or> v = pf_shriek profile
      then skip_nonnegative
      else if v = pf_dust profile then
        (if protocol < 768 then typed_skip_floats 4
         else rd_bind mc_reader_i32 (\<lambda>color. typed_skip_floats 1))
      else if v = pf_transition profile then
        (if protocol < 768 then typed_skip_floats 7
         else rd_bind mc_reader_i32 (\<lambda>source. rd_bind mc_reader_i32 (\<lambda>target. typed_skip_floats 1)))
      else if v = pf_entity_effect profile \<or> v = pf_tinted_leaves profile \<or> v = pf_flash profile
      then rd_ignore mc_reader_i32
      else if v = pf_item profile then skip_item gz protocol
      else if v = pf_sculk_charge profile \<or> v = pf_dragon_breath profile then typed_skip_floats 1
      else if v = pf_effect profile \<or> v = pf_instant_effect profile
      then rd_bind mc_reader_i32 (\<lambda>color. typed_skip_floats 1)
      else if v = pf_vibration profile then skip_modern_vibration protocol
      else if v = pf_trail profile then rd_bind (skip_coordinates 3) (\<lambda>_. rd_ignore mc_reader_u8)
      else rd_return ())"

definition typed_skip_modern_particle :: "gz_inflate \<Rightarrow> int \<Rightarrow> unit rd" where
  "typed_skip_modern_particle gz protocol =
     rd_bind mc_reader_varint (typed_skip_modern_particle_value gz protocol)"

subsection \<open>Metadata values\<close>

text \<open>The three enumerations of a villager, and a counted list of particles.\<close>

definition skip_villager :: "unit rd" where
  "skip_villager = rd_repeat 3 skip_nonnegative"

definition skip_particle_list :: "gz_inflate \<Rightarrow> int \<Rightarrow> unit rd" where
  "skip_particle_list gz protocol =
     rd_bind mc_reader_varint (\<lambda>count. rd_bind (typed_count count MC_MAX_PACKET_ARRAY_COUNT) (\<lambda>_.
     rd_repeat (unat count) (typed_skip_modern_particle gz protocol)))"

definition metadata_value_47 :: "gz_inflate \<Rightarrow> int \<Rightarrow> int \<Rightarrow> unit rd" where
  "metadata_value_47 gz protocol typ =
     (if typ = 0 then mc_reader_skip 1
      else if typ = 1 then mc_reader_skip 2
      else if typ = 2 then mc_reader_skip 4
      else if typ = 3 then typed_skip_floats 1
      else if typ = 4 then typed_skip_string_value
      else if typ = 5 then skip_item gz protocol
      else if typ = 6 then mc_reader_skip 12
      else if typ = 7 then typed_skip_floats 3
      else typed_invalid)"

definition metadata_value_340 :: "gz_inflate \<Rightarrow> int \<Rightarrow> int \<Rightarrow> unit rd" where
  "metadata_value_340 gz protocol typ =
     (if typ = 0 then mc_reader_skip 1
      else if typ = 1 \<or> typ = 10 \<or> typ = 12 then rd_ignore mc_reader_varint
      else if typ = 2 then typed_skip_floats 1
      else if typ = 3 \<or> typ = 4 then typed_skip_string_value
      else if typ = 5 then skip_item gz protocol
      else if typ = 6 then rd_ignore mc_reader_bool
      else if typ = 7 then typed_skip_floats 3
      else if typ = 8 then typed_skip_position_value protocol
      else if typ = 9 then typed_skip_optional (typed_skip_position_value protocol)
      else if typ = 11 then typed_skip_optional typed_skip_uuid_value
      else if typ = 13 then rd_ignore (mc_reader_nbt True)
      else typed_invalid)"

definition metadata_value_760 :: "gz_inflate \<Rightarrow> int \<Rightarrow> int \<Rightarrow> unit rd" where
  "metadata_value_760 gz protocol typ =
     (if typ = 2 then typed_skip_floats 1
      else if typ = 3 \<or> typ = 4 then typed_skip_string_value
      else if typ = 5 then typed_skip_optional typed_skip_string_value
      else if typ = 6 then skip_item gz protocol
      else if typ = 7 then rd_ignore mc_reader_bool
      else if typ = 8 then typed_skip_floats 3
      else if typ = 9 then typed_skip_position_value protocol
      else if typ = 10 then typed_skip_optional (typed_skip_position_value protocol)
      else if typ = 11 \<or> typ = 13 \<or> typ = 17 \<or> typ = 18 \<or> typ = 19 \<or> typ = 20 \<or> typ = 22
      then rd_ignore mc_reader_varint
      else if typ = 12 then typed_skip_optional typed_skip_uuid_value
      else if typ = 14 then rd_ignore (mc_reader_nbt True)
      else if typ = 15 then typed_skip_old_particle gz protocol
      else if typ = 16 \<and> protocol \<ge> 477 then skip_villager
      else if typ = 21 \<and> protocol \<ge> 760 then typed_skip_optional typed_skip_string_value
      else typed_invalid)"

definition metadata_value_761 :: "gz_inflate \<Rightarrow> int \<Rightarrow> int \<Rightarrow> unit rd" where
  "metadata_value_761 gz protocol typ =
     (if typ = 14 then skip_nonnegative
      else if typ = 15 then rd_ignore (mc_reader_nbt True)
      else if typ = 16 then typed_skip_old_particle gz protocol
      else if typ = 17 then skip_villager
      else if typ = 18 \<or> typ = 19 \<or> typ = 20 \<or> typ = 21 \<or> typ = 23 then rd_ignore mc_reader_varint
      else if typ = 22 then typed_skip_optional typed_skip_string_value
      else typed_invalid)"

definition metadata_value_later :: "gz_inflate \<Rightarrow> int \<Rightarrow> int \<Rightarrow> unit rd" where
  "metadata_value_later gz protocol typ =
     (if typ = 12 \<or> typ = 14 \<or> typ = 15 then rd_ignore mc_reader_varint
      else if typ = 16 then
        (if protocol \<ge> 773 then typed_skip_modern_particle gz protocol
         else rd_ignore (mc_reader_nbt (protocol < 764)))
      else if typ = 17 then
        (if protocol \<ge> 773 then skip_particle_list gz protocol
         else if protocol \<ge> 766 then typed_skip_modern_particle gz protocol
         else if protocol = 765 then skip_nonnegative
         else typed_skip_old_particle gz protocol)
      else if protocol \<ge> 766 \<and> protocol < 773 \<and> typ = 18 then skip_particle_list gz protocol
      else typed_invalid)"

definition typed_skip_metadata_value :: "gz_inflate \<Rightarrow> int \<Rightarrow> i32 \<Rightarrow> unit rd" where
  "typed_skip_metadata_value gz protocol t =
     (let typ = sint t;
          text = (if protocol \<ge> 765 then typed_skip_anonymous_nbt_value else typed_skip_string_value) in
      if protocol \<le> 47 then metadata_value_47 gz protocol typ
      else if protocol < 393 then metadata_value_340 gz protocol typ
      else if typ = 0 then mc_reader_skip 1
      else if typ = 1 then rd_ignore mc_reader_varint
      else if protocol < 761 then metadata_value_760 gz protocol typ
      else if typ = 2 then rd_ignore mc_reader_varlong
      else if typ = 3 then typed_skip_floats 1
      else if typ = 4 then typed_skip_string_value
      else if typ = 5 then text
      else if typ = 6 then typed_skip_optional text
      else if typ = 7 then skip_item gz protocol
      else if typ = 8 then rd_ignore mc_reader_bool
      else if typ = 9 then typed_skip_floats 3
      else if typ = 10 then typed_skip_position_value protocol
      else if typ = 11 then typed_skip_optional (typed_skip_position_value protocol)
      else if typ = 13 then typed_skip_optional typed_skip_uuid_value
      else if protocol = 761 then metadata_value_761 gz protocol typ
      else metadata_value_later gz protocol typ)"

text \<open>From 1.19.4 on: the layout of the later types, and the value of one type.\<close>

definition named_villager :: "int \<Rightarrow> int" where
  "named_villager protocol = (if protocol \<ge> 773 then 18 else if protocol \<ge> 766 then 19 else 18)"

definition named_optional_global :: "int \<Rightarrow> int" where
  "named_optional_global protocol =
     (if protocol \<ge> 775 then 33 else if protocol \<ge> 774 then 29 else if protocol \<ge> 773 then 28
      else if protocol \<ge> 766 then 25 else 23)"

definition named_vector :: "int \<Rightarrow> int" where
  "named_vector protocol =
     (if protocol \<ge> 775 then 39 else if protocol \<ge> 774 then 35 else if protocol \<ge> 773 then 34
      else if protocol \<ge> 766 then 29 else 26)"

definition skip_optional_global :: "int \<Rightarrow> unit rd" where
  "skip_optional_global protocol =
     rd_bind mc_reader_bool (\<lambda>present.
     if \<not> present then rd_return ()
     else rd_bind typed_skip_string_value (\<lambda>_.
       if protocol \<ge> 773 then typed_skip_position_value protocol else rd_return ()))"

definition typed_skip_named_metadata_value :: "gz_inflate \<Rightarrow> int \<Rightarrow> i32 \<Rightarrow> unit rd" where
  "typed_skip_named_metadata_value gz protocol t =
     (let typ = sint t;
          particles_type = (if protocol \<ge> 773 then 17 else if protocol \<ge> 766 then 18 else -1);
          villager = named_villager protocol;
          optional_uint = villager + 1;
          optional_global = named_optional_global protocol;
          painting = optional_global + 1;
          vector = named_vector protocol in
      if typ \<le> (if protocol \<ge> 773 then 17 else if protocol \<ge> 766 then 18 else 17)
      then typed_skip_metadata_value gz protocol t
      else if typ = particles_type then skip_particle_list gz protocol
      else if typ = villager then skip_villager
      else if typ = optional_uint then skip_nonnegative
      else if typ = optional_global then skip_optional_global protocol
      else if typ = painting then
        (if protocol \<ge> 766 then typed_skip_registry_holder_painting else skip_nonnegative)
      else if typ = vector then typed_skip_floats 3
      else if typ = vector + 1 then typed_skip_floats 4
      else if protocol \<ge> 777 \<and> typ = 41
      then mc_derived_777_component_resolvable_profile component_calls 0
      else if protocol \<ge> 777 \<and> (typ = 42 \<or> typ = 43) then skip_nonnegative
      else if typ \<ge> optional_uint + 1 \<and> typ < vector then skip_nonnegative
      else typed_invalid)"

subsection \<open>Metadata entries\<close>

definition MC_MAX_ENTITY_METADATA_ENTRIES :: nat where
  "MC_MAX_ENTITY_METADATA_ENTRIES = 256"

definition metadata_terminator :: "int \<Rightarrow> u8" where
  "metadata_terminator protocol = (if protocol \<le> 47 then 0x7f else 0xff)"

definition metadata_value :: "gz_inflate \<Rightarrow> int \<Rightarrow> i32 \<Rightarrow> unit rd" where
  "metadata_value gz protocol t =
     (if protocol \<ge> 762 then typed_skip_named_metadata_value gz protocol t
      else typed_skip_metadata_value gz protocol t)"

text \<open>The type of an entry: the high bits of its key, or a VarInt behind it.\<close>

definition metadata_type :: "int \<Rightarrow> u8 \<Rightarrow> i32 rd" where
  "metadata_type protocol key =
     (if protocol \<le> 47 then rd_return (ucast (drop_bit 5 key))
      else rd_valid (rd_such mc_reader_varint (\<lambda>t. \<not> sint t < 0)))"

text \<open>The loop, with the number of entries it still accepts; the result is the number read.\<close>

primrec metadata_loop :: "gz_inflate \<Rightarrow> int \<Rightarrow> nat \<Rightarrow> nat rd" where
  "metadata_loop gz protocol 0 =
     rd_bind mc_reader_u8 (\<lambda>key.
     if key = metadata_terminator protocol then rd_return 0 else typed_invalid)"
| "metadata_loop gz protocol (Suc room) =
     rd_bind mc_reader_u8 (\<lambda>key.
     if key = metadata_terminator protocol then rd_return 0
     else
       rd_bind (metadata_type protocol key) (\<lambda>t. rd_bind (metadata_value gz protocol t) (\<lambda>_.
       rd_bind (metadata_loop gz protocol room) (\<lambda>n. rd_return (Suc n)))))"

definition typed_decode_metadata_entries :: "gz_inflate \<Rightarrow> int \<Rightarrow> (u8 list \<times> u32) rd" where
  "typed_decode_metadata_entries gz protocol =
     rd_bind (rd_capture (metadata_loop gz protocol MC_MAX_ENTITY_METADATA_ENTRIES))
       (\<lambda>(n, entries). rd_return (entries, of_nat n))"

record mc_entity_metadata =
  me_entity_id :: i32
  me_entry_count :: u32
  me_entries :: "u8 list"
  me_terminated :: bool

definition typed_decode_metadata :: "gz_inflate \<Rightarrow> int \<Rightarrow> mc_entity_metadata rd" where
  "typed_decode_metadata gz protocol =
     rd_bind (read_entity_id protocol) (\<lambda>entity_id.
     rd_bind (rd_valid
       (rd_bind (rd_test (\<not> sint entity_id < 0)) (\<lambda>_. typed_decode_metadata_entries gz protocol)))
       (\<lambda>(entries, entry_count).
     rd_return \<lparr>me_entity_id = entity_id, me_entry_count = entry_count, me_entries = entries,
       me_terminated = True\<rparr>))"

subsection \<open>The iterator over the entries\<close>

record mc_entity_metadata_entry =
  mt_index :: u8
  mt_serializer :: i32
  mt_value :: "u8 list"

record mc_entity_metadata_iter =
  mi_reader :: mc_reader
  mi_protocol :: int
  mi_remaining :: u32

text \<open>The terminator and the end of the view.\<close>

definition metadata_end :: "int \<Rightarrow> unit rd" where
  "metadata_end protocol =
     rd_bind (rd_such mc_reader_u8 (\<lambda>actual. actual = metadata_terminator protocol)) (\<lambda>_ r.
     (if mc_reader_remaining r = 0 then Some () else None, r))"

definition mc_entity_metadata_iterator :: "mc_entity_metadata \<Rightarrow> int \<Rightarrow> mc_entity_metadata_iter option" where
  "mc_entity_metadata_iterator packet protocol =
     (if \<not> mc_protocol_supported protocol \<or> \<not> me_terminated packet
         \<or> unat (me_entry_count packet) > MC_MAX_ENTITY_METADATA_ENTRIES
         \<or> length (me_entries packet) = 0 then None
      else
        let it = \<lparr>mi_reader = view_reader (me_entries packet), mi_protocol = protocol,
                  mi_remaining = me_entry_count packet\<rparr> in
        if mi_remaining it = 0 then
          (case metadata_end protocol (mi_reader it) of
             (None, _) \<Rightarrow> None
           | (Some _, reader) \<Rightarrow> Some (it\<lparr>mi_reader := reader\<rparr>))
        else Some it)"

definition metadata_entry :: "gz_inflate \<Rightarrow> int \<Rightarrow> mc_entity_metadata_entry rd" where
  "metadata_entry gz protocol =
     rd_bind mc_reader_u8 (\<lambda>header.
     rd_bind (rd_check (header \<noteq> metadata_terminator protocol)) (\<lambda>_.
     rd_bind (metadata_type protocol header) (\<lambda>serializer.
     rd_bind (rd_capture (metadata_value gz protocol serializer)) (\<lambda>(_, encoded).
     rd_return \<lparr>mt_index = (if protocol \<le> 47 then header AND 0x1f else header),
       mt_serializer = serializer, mt_value = encoded\<rparr>))))"

definition mc_entity_metadata_iterator_next ::
  "gz_inflate \<Rightarrow> mc_entity_metadata_iter \<Rightarrow> mc_entity_metadata_entry option \<times> mc_entity_metadata_iter" where
  "mc_entity_metadata_iterator_next gz it =
     (if mi_remaining it = 0 then (None, it)
      else case metadata_entry gz (mi_protocol it) (mi_reader it) of
          (None, reader) \<Rightarrow> (None, it\<lparr>mi_reader := reader\<rparr>)
        | (Some decoded, reader) \<Rightarrow>
            let remaining = mi_remaining it - 1 in
            case rd_when (remaining = 0) () (rd_valid (metadata_end (mi_protocol it))) reader of
              (None, reader') \<Rightarrow> (None, it\<lparr>mi_reader := reader', mi_remaining := remaining\<rparr>)
            | (Some _, reader') \<Rightarrow> (Some decoded, it\<lparr>mi_reader := reader', mi_remaining := remaining\<rparr>))"

subsection \<open>Every failure is recorded\<close>

lemma checked_floats [rd_checked]: "checked_op (typed_skip_floats n)"
  by (induction n) (auto intro!: rd_checked)

lemma checked_coordinates [rd_checked]: "checked_op (skip_coordinates n)"
  by (induction n) (auto intro!: rd_checked)

lemma checked_optional [rd_checked]: "checked_op payload \<Longrightarrow> checked_op (typed_skip_optional payload)"
  unfolding typed_skip_optional_def by (intro rd_checked)

lemma checked_skips [rd_checked]:
  "checked_op (typed_skip_position_value protocol)" "checked_op typed_skip_uuid_value"
  "checked_op typed_skip_string_value" "checked_op typed_skip_anonymous_nbt_value"
  "checked_op skip_nonnegative" "checked_op (skip_item gz protocol)"
  unfolding typed_skip_position_value_def typed_skip_uuid_value_def typed_skip_string_value_def
    typed_skip_anonymous_nbt_value_def skip_nonnegative_def skip_item_def
  by (intro rd_checked)+

lemmas reporting_skips [rd_checked] = checked_skips [THEN checked_reporting]
lemmas reporting_floats [rd_checked] = checked_reporting [OF checked_floats]
lemmas reporting_optional [rd_checked] = checked_reporting [OF checked_optional]

lemma checked_painting [rd_checked]: "checked_op typed_skip_registry_holder_painting"
  unfolding typed_skip_registry_holder_painting_def by (intro rd_checked)

lemma checked_vibration [rd_checked]: "checked_op (skip_vibration protocol)"
  unfolding skip_vibration_def skip_entity_source_def by (intro rd_checked)

lemma checked_old_particle [rd_checked]:
  "checked_op (typed_skip_old_particle_value gz protocol particle)"
  "checked_op (typed_skip_old_particle gz protocol)"
proof -
  show c: "checked_op (typed_skip_old_particle_value gz protocol particle)" for particle
    unfolding typed_skip_old_particle_value_def Let_def by (intro rd_checked)
  show "checked_op (typed_skip_old_particle gz protocol)"
    unfolding typed_skip_old_particle_def by (intro rd_checked c)
qed

lemma checked_modern_vibration [rd_checked]: "checked_op (skip_modern_vibration protocol)"
  unfolding skip_modern_vibration_def by (intro rd_checked)

lemma checked_modern_particle [rd_checked]:
  "checked_op (typed_skip_modern_particle_value gz protocol particle)"
  "checked_op (typed_skip_modern_particle gz protocol)"
proof -
  show c: "checked_op (typed_skip_modern_particle_value gz protocol particle)" for particle
    unfolding typed_skip_modern_particle_value_def Let_def by (intro rd_checked)
  show "checked_op (typed_skip_modern_particle gz protocol)"
    unfolding typed_skip_modern_particle_def by (intro rd_checked c)
qed

lemma checked_lists [rd_checked]: "checked_op skip_villager" "checked_op (skip_particle_list gz protocol)"
  unfolding skip_villager_def skip_particle_list_def by (intro rd_checked)+

lemma checked_metadata_values:
  "checked_op (metadata_value_47 gz protocol typ)" "checked_op (metadata_value_340 gz protocol typ)"
  "checked_op (metadata_value_760 gz protocol typ)" "checked_op (metadata_value_761 gz protocol typ)"
  "checked_op (metadata_value_later gz protocol typ)"
  unfolding metadata_value_47_def metadata_value_340_def metadata_value_760_def metadata_value_761_def
    metadata_value_later_def
  by (intro rd_checked)+

lemma checked_metadata_value [rd_checked]: "checked_op (typed_skip_metadata_value gz protocol t)"
  unfolding typed_skip_metadata_value_def Let_def by (intro rd_checked checked_metadata_values)

lemma ok_resolvable_profile: "component_ok mc_derived_777_component_resolvable_profile"
  unfolding components_777_defs by (intro component_rules ok_bind rd_checked)+

lemma checked_named_value [rd_checked]: "checked_op (typed_skip_named_metadata_value gz protocol t)"
  unfolding typed_skip_named_metadata_value_def Let_def skip_optional_global_def
  by (intro rd_checked component_checked [OF ok_resolvable_profile calls_checked_run])

lemma checked_metadata_entry [rd_checked]:
  "checked_op (metadata_value gz protocol t)" "checked_op (metadata_type protocol key)"
  unfolding metadata_value_def metadata_type_def by (intro rd_checked)+

lemma checked_metadata_loop [rd_checked]: "checked_op (metadata_loop gz protocol room)"
  by (induction room) (auto intro!: rd_checked)

lemma checked_metadata_entries [rd_checked]: "checked_op (typed_decode_metadata_entries gz protocol)"
  unfolding typed_decode_metadata_entries_def by (intro rd_checked)

lemmas reporting_metadata_entries [rd_checked] = checked_reporting [OF checked_metadata_entries]

lemma checked_metadata [rd_checked]: "checked_op (typed_decode_metadata gz protocol)"
  unfolding typed_decode_metadata_def by (intro rd_checked)

end
