(* ===== verification/Typed_Effects.thy ===== *)
theory Typed_Effects
  imports Typed_Metadata
begin

text \<open>
  Explosions, entity effects and attributes in \<open>api.c\<close>: \<open>typed_skip_sound_holder\<close> to
  \<open>mc_attribute_iterator_next\<close>.
\<close>

subsection \<open>Explosions\<close>

definition typed_skip_sound_holder :: "unit rd" where
  "typed_skip_sound_holder =
     rd_bind (rd_valid (rd_such mc_reader_varint (\<lambda>holder. \<not> sint holder < 0))) (\<lambda>holder.
     if holder \<noteq> 0 then rd_return ()
     else
       rd_bind (rd_valid
         (rd_bind (rd_such (mc_reader_string_bounded 32767) (\<lambda>name. length name \<noteq> 0)) (\<lambda>_.
          mc_reader_bool))) (\<lambda>fixed_range.
       if fixed_range
       then rd_valid (rd_ignore (rd_such mc_reader_float
              (\<lambda>range. f32_isfinite range \<and> \<not> f32_below_zero range)))
       else rd_return ()))"

definition typed_skip_explosion_particle :: "gz_inflate \<Rightarrow> int \<Rightarrow> unit rd" where
  "typed_skip_explosion_particle gz protocol =
     (if protocol \<ge> 766 then typed_skip_modern_particle gz protocol else skip_nonnegative)"

record mc_explosion =
  ex_x :: f64
  ex_y :: f64
  ex_z :: f64
  ex_radius :: f32
  ex_affected_block_count :: u32
  ex_affected_blocks :: "u8 list"
  ex_motion_x :: f64
  ex_motion_y :: f64
  ex_motion_z :: f64
  ex_effects :: "u8 list"
  ex_has_motion :: bool

definition read_float_point :: "(f32 \<times> f32 \<times> f32) rd" where
  "read_float_point =
     rd_bind mc_reader_float (\<lambda>x. rd_bind mc_reader_float (\<lambda>y. rd_bind mc_reader_float (\<lambda>z.
     rd_return (x, y, z))))"

definition float_point_finite :: "f32 \<times> f32 \<times> f32 \<Rightarrow> bool" where
  "float_point_finite p \<longleftrightarrow> (case p of (x, y, z) \<Rightarrow> f32_isfinite x \<and> f32_isfinite y \<and> f32_isfinite z)"

definition widen_point :: "f32 \<times> f32 \<times> f32 \<Rightarrow> f64 \<times> f64 \<times> f64" where
  "widen_point p = (case p of (x, y, z) \<Rightarrow> (f64_of_f32 x, f64_of_f32 y, f64_of_f32 z))"

definition explosion_start :: "f64 \<times> f64 \<times> f64 \<Rightarrow> mc_explosion" where
  "explosion_start p = (case p of (x, y, z) \<Rightarrow>
     \<lparr>ex_x = x, ex_y = y, ex_z = z, ex_radius = 0, ex_affected_block_count = 0,
      ex_affected_blocks = [], ex_motion_x = 0, ex_motion_y = 0, ex_motion_z = 0, ex_effects = [],
      ex_has_motion = False\<rparr>)"

definition explosion_motion :: "f64 \<times> f64 \<times> f64 \<Rightarrow> mc_explosion \<Rightarrow> mc_explosion" where
  "explosion_motion p v = (case p of (x, y, z) \<Rightarrow>
     v\<lparr>ex_motion_x := x, ex_motion_y := y, ex_motion_z := z, ex_has_motion := True\<rparr>)"

definition explosion_radius :: "int \<Rightarrow> mc_explosion \<Rightarrow> mc_explosion rd" where
  "explosion_radius protocol v = rd_when (protocol \<ge> 773) v (rd_valid
     (rd_bind mc_reader_float (\<lambda>radius. rd_bind mc_reader_i32 (\<lambda>block_count.
      rd_bind (rd_test (f32_isfinite radius \<and> \<not> f32_below_zero radius)) (\<lambda>_.
      rd_bind (typed_count block_count MC_MAX_PACKET_ARRAY_COUNT) (\<lambda>_.
      rd_return (v\<lparr>ex_radius := radius, ex_affected_block_count := ucast block_count\<rparr>)))))))"

definition explosion_knockback :: "int \<Rightarrow> mc_explosion \<Rightarrow> mc_explosion rd" where
  "explosion_knockback protocol v =
     rd_bind mc_reader_bool (\<lambda>knockback.
     if \<not> knockback then rd_return v
     else if protocol = 768 then
       rd_bind (rd_valid (rd_such read_float_point float_point_finite)) (\<lambda>p.
       rd_return (explosion_motion (widen_point p) v))
     else
       rd_bind (rd_valid (rd_such read_point point_finite)) (\<lambda>p.
       rd_return (explosion_motion p v)))"

definition explosion_particle_list :: "gz_inflate \<Rightarrow> int \<Rightarrow> unit rd" where
  "explosion_particle_list gz protocol = rd_when (protocol \<ge> 773) ()
     (rd_bind mc_reader_varint (\<lambda>count. rd_bind (typed_count count MC_MAX_PACKET_ARRAY_COUNT) (\<lambda>_.
      rd_repeat (unat count) (rd_valid
        (rd_bind (typed_skip_explosion_particle gz protocol) (\<lambda>_.
         rd_bind (typed_skip_floats 2) (\<lambda>_.
         rd_ignore (rd_such mc_reader_varint (\<lambda>weight. \<not> sint weight < 0)))))))))"

definition explosion_later :: "gz_inflate \<Rightarrow> int \<Rightarrow> mc_explosion \<Rightarrow> mc_explosion rd" where
  "explosion_later gz protocol v =
     rd_bind (explosion_radius protocol v) (\<lambda>v.
     rd_bind (explosion_knockback protocol v) (\<lambda>v.
     rd_bind (typed_skip_explosion_particle gz protocol) (\<lambda>_.
     rd_bind typed_skip_sound_holder (\<lambda>_.
     rd_bind (explosion_particle_list gz protocol) (\<lambda>_.
     rd_bind (rd_when (protocol \<ge> 777) False mc_reader_bool) (\<lambda>play_sound.
     rd_return v))))))"

definition explosion_effects :: "gz_inflate \<Rightarrow> int \<Rightarrow> unit rd" where
  "explosion_effects gz protocol = rd_when (protocol \<ge> 765) () (rd_valid
     (rd_bind (rd_such mc_reader_varint (\<lambda>interaction. \<not> (sint interaction < 0 \<or> sint interaction > 4))) (\<lambda>_.
      rd_bind (typed_skip_explosion_particle gz protocol) (\<lambda>_.
      rd_bind (typed_skip_explosion_particle gz protocol) (\<lambda>_.
      typed_skip_sound_holder)))))"

definition explosion_blocks :: "gz_inflate \<Rightarrow> int \<Rightarrow> mc_explosion \<Rightarrow> mc_explosion rd" where
  "explosion_blocks gz protocol v =
     rd_bind (rd_valid
       (rd_bind mc_reader_float (\<lambda>radius.
        rd_bind (if protocol \<ge> 755 then mc_reader_varint else mc_reader_i32) (\<lambda>count.
        rd_bind (typed_count count MC_MAX_PACKET_ARRAY_COUNT) (\<lambda>_.
        rd_bind (rd_test (point_finite (ex_x v, ex_y v, ex_z v) \<and> f32_isfinite radius
            \<and> \<not> f32_below_zero radius)) (\<lambda>_.
        rd_return (radius, count))))))) (\<lambda>(radius, count). rd_here (\<lambda>off.
     if unat count > SIZE_MAX div 3 then reader_fail MC_ERROR_INTEGER_OVERFLOW off
     else
       rd_bind (mc_reader_bytes (unat count * 3)) (\<lambda>blocks.
       rd_bind (rd_valid (rd_such read_float_point float_point_finite)) (\<lambda>p.
       rd_bind (explosion_effects gz protocol) (\<lambda>_.
       rd_return (explosion_motion (widen_point p)
         (v\<lparr>ex_radius := radius, ex_affected_block_count := ucast count,
            ex_affected_blocks := blocks\<rparr>)))))))"

text \<open>\<open>effects\<close> is the view from the position on; before 1.20.3 there is none.\<close>

definition typed_decode_explosion :: "gz_inflate \<Rightarrow> int \<Rightarrow> mc_explosion rd" where
  "typed_decode_explosion gz protocol =
     rd_bind
       (if protocol \<ge> 761 then read_point
        else rd_bind read_float_point (\<lambda>p. rd_return (widen_point p))) (\<lambda>p.
     let v = explosion_start p in
     rd_bind (rd_capture (if protocol \<ge> 768 then explosion_later gz protocol v
                          else explosion_blocks gz protocol v)) (\<lambda>(decoded, effects).
     rd_return (if protocol \<ge> 765 then decoded\<lparr>ex_effects := effects\<rparr> else decoded)))"

subsection \<open>Entity effects\<close>

record mc_entity_effect =
  ee_entity_id :: i32
  ee_effect_id :: i32
  ee_amplifier :: i32
  ee_duration :: i32
  ee_flags :: u8
  ee_factor_data :: "u8 list"
  ee_has_factor_data :: bool

definition read_effect_id :: "int \<Rightarrow> i32 rd" where
  "read_effect_id protocol =
     (if protocol \<ge> 759 then mc_reader_varint
      else rd_bind mc_reader_u8 (\<lambda>effect. rd_return (ucast effect)))"

definition effect_flags :: "int \<Rightarrow> u8 rd" where
  "effect_flags protocol =
     (if protocol = 47
      then rd_bind mc_reader_bool (\<lambda>hide_particles. rd_return (if hide_particles then 0 else 2))
      else rd_when (protocol \<ge> 107) 0 mc_reader_u8)"

definition effect_factor_data :: "int \<Rightarrow> u8 list option rd" where
  "effect_factor_data protocol = rd_when (protocol \<ge> 759 \<and> protocol < 766) None
     (rd_bind mc_reader_bool (\<lambda>present.
      if \<not> present then rd_return None
      else rd_bind (mc_reader_nbt (protocol < 764)) (\<lambda>nbt. rd_return (Some nbt))))"

definition typed_decode_entity_effect :: "int \<Rightarrow> mc_entity_effect rd" where
  "typed_decode_entity_effect protocol =
     rd_bind (read_entity_id protocol) (\<lambda>entity_id. rd_bind (read_effect_id protocol) (\<lambda>effect_id.
     rd_bind (if protocol \<ge> 766 then mc_reader_varint
              else rd_bind mc_reader_u8 (\<lambda>amplifier. rd_return (ucast amplifier))) (\<lambda>amplifier.
     rd_bind (if protocol \<le> 5 then rd_bind mc_reader_i16 (\<lambda>duration. rd_return (scast duration))
              else mc_reader_varint) (\<lambda>duration.
     rd_bind (effect_flags protocol) (\<lambda>flags. rd_bind (effect_factor_data protocol) (\<lambda>factor_data.
     rd_strict (\<lambda>strict.
     rd_bind (rd_check (\<not> (sint entity_id < 0 \<or> sint effect_id < 0 \<or> sint amplifier < 0
         \<or> sint amplifier > 255 \<or> sint duration < -1 \<or> (strict \<and> flags AND 0xf8 \<noteq> 0)))) (\<lambda>_.
     rd_return \<lparr>ee_entity_id = entity_id, ee_effect_id = effect_id, ee_amplifier = amplifier,
       ee_duration = duration, ee_flags = flags,
       ee_factor_data = (case factor_data of None \<Rightarrow> [] | Some nbt \<Rightarrow> nbt),
       ee_has_factor_data = (factor_data \<noteq> None)\<rparr>))))))))"

record mc_remove_entity_effect =
  re_entity_id :: i32
  re_effect_id :: i32

definition typed_decode_remove_entity_effect :: "int \<Rightarrow> mc_remove_entity_effect rd" where
  "typed_decode_remove_entity_effect protocol =
     rd_bind (read_entity_id protocol) (\<lambda>entity_id. rd_bind (read_effect_id protocol) (\<lambda>effect_id.
     rd_bind (rd_check (\<not> (sint entity_id < 0 \<or> sint effect_id < 0))) (\<lambda>_.
     rd_return \<lparr>re_entity_id = entity_id, re_effect_id = effect_id\<rparr>)))"

subsection \<open>Attributes\<close>

definition MC_MAX_ATTRIBUTE_COUNT :: nat where
  "MC_MAX_ATTRIBUTE_COUNT = 1024"

definition MC_MAX_ATTRIBUTE_MODIFIER_COUNT :: nat where
  "MC_MAX_ATTRIBUTE_MODIFIER_COUNT = 1024"

record mc_update_attributes =
  ua_entity_id :: i32
  ua_attribute_count :: u32
  ua_modifier_count :: u32
  ua_attributes :: "u8 list"

definition typed_attribute_count :: "int \<Rightarrow> i32 rd" where
  "typed_attribute_count protocol = (if protocol \<ge> 755 then mc_reader_varint else mc_reader_i32)"

definition typed_modifier_count :: "int \<Rightarrow> i32 rd" where
  "typed_modifier_count protocol =
     (if protocol > 5 then mc_reader_varint
      else rd_bind mc_reader_i16 (\<lambda>wire. rd_return (scast wire)))"

text \<open>The key of an attribute: the registry number, or the name.\<close>

definition attribute_key :: "int \<Rightarrow> (i32 \<times> u8 list) rd" where
  "attribute_key protocol =
     (if protocol \<ge> 766
      then rd_bind (rd_valid (rd_such mc_reader_varint (\<lambda>key. \<not> sint key < 0))) (\<lambda>key. rd_return (key, []))
      else rd_bind (rd_valid (rd_such (mc_reader_string_bounded 256) (\<lambda>key. length key \<noteq> 0)))
             (\<lambda>key. rd_return (0, key)))"

text \<open>The base value and the number of modifiers, of which \<open>room\<close> are still allowed.\<close>

definition attribute_base :: "int \<Rightarrow> nat \<Rightarrow> (f64 \<times> i32) rd" where
  "attribute_base protocol room = rd_valid
     (rd_bind (rd_such mc_reader_double f64_isfinite) (\<lambda>base.
      rd_bind (typed_modifier_count protocol) (\<lambda>modifier_count.
      rd_bind (typed_count modifier_count MC_MAX_ATTRIBUTE_MODIFIER_COUNT) (\<lambda>_.
      rd_bind (rd_test (\<not> unat modifier_count > room)) (\<lambda>_.
      rd_return (base, modifier_count))))))"

definition attribute_modifier :: "int \<Rightarrow> unit rd" where
  "attribute_modifier protocol =
     rd_bind
       (if protocol \<ge> 767
        then rd_ignore (rd_valid (rd_such (mc_reader_string_bounded 256) (\<lambda>identifier. length identifier \<noteq> 0)))
        else rd_ignore mc_reader_uuid) (\<lambda>_.
     rd_valid
       (rd_bind (rd_such mc_reader_double f64_isfinite) (\<lambda>amount.
        rd_ignore (rd_such mc_reader_i8 (\<lambda>operation. \<not> (sint operation < 0 \<or> sint operation > 2))))))"

text \<open>The loop over the attributes; the result is the number of their modifiers.\<close>

primrec attribute_loop :: "int \<Rightarrow> nat \<Rightarrow> nat \<Rightarrow> nat rd" where
  "attribute_loop protocol 0 modifiers = rd_return modifiers"
| "attribute_loop protocol (Suc n) modifiers =
     rd_bind (attribute_key protocol) (\<lambda>_.
     rd_bind (attribute_base protocol (MC_MAX_ATTRIBUTE_MODIFIER_COUNT - modifiers)) (\<lambda>(base, modifier_count).
     rd_bind (rd_repeat (unat modifier_count) (attribute_modifier protocol)) (\<lambda>_.
     attribute_loop protocol n (modifiers + unat modifier_count))))"

definition typed_decode_attributes :: "int \<Rightarrow> mc_update_attributes rd" where
  "typed_decode_attributes protocol =
     rd_bind (read_entity_id protocol) (\<lambda>entity_id.
     rd_bind (typed_attribute_count protocol) (\<lambda>count.
     rd_bind (typed_count count MC_MAX_ATTRIBUTE_COUNT) (\<lambda>_.
     rd_bind (rd_capture (attribute_loop protocol (unat count) 0)) (\<lambda>(modifiers, attributes).
     rd_bind (rd_check (\<not> sint entity_id < 0)) (\<lambda>_.
     rd_return \<lparr>ua_entity_id = entity_id, ua_attribute_count = ucast count,
       ua_modifier_count = of_nat modifiers, ua_attributes = attributes\<rparr>)))))"

record mc_attribute_view =
  av_key :: "u8 list"
  av_registry_key :: i32
  av_base_value :: f64
  av_modifier_count :: u32
  av_modifiers :: "u8 list"
  av_registry_keyed :: bool

record mc_attribute_iterator =
  ai_reader :: mc_reader
  ai_protocol :: int
  ai_remaining :: u32
  ai_remaining_modifiers :: u32

definition mc_update_attributes_iterator :: "mc_update_attributes \<Rightarrow> int \<Rightarrow> mc_attribute_iterator option" where
  "mc_update_attributes_iterator packet protocol =
     (if \<not> mc_protocol_supported protocol \<or> unat (ua_attribute_count packet) > MC_MAX_ATTRIBUTE_COUNT
         \<or> unat (ua_modifier_count packet) > MC_MAX_ATTRIBUTE_MODIFIER_COUNT
         \<or> (ua_attribute_count packet = 0
            \<and> (ua_modifier_count packet \<noteq> 0 \<or> length (ua_attributes packet) \<noteq> 0))
         \<or> (ua_attribute_count packet \<noteq> 0 \<and> length (ua_attributes packet) = 0)
      then None
      else Some \<lparr>ai_reader = view_reader (ua_attributes packet), ai_protocol = protocol,
             ai_remaining = ua_attribute_count packet,
             ai_remaining_modifiers = ua_modifier_count packet\<rparr>)"

definition attribute_entry :: "int \<Rightarrow> u32 \<Rightarrow> mc_attribute_view rd" where
  "attribute_entry protocol remaining_modifiers =
     rd_bind (attribute_key protocol) (\<lambda>(registry_key, key).
     rd_bind (attribute_base protocol (unat remaining_modifiers)) (\<lambda>(base, modifier_count).
     rd_bind (rd_capture (rd_repeat (unat modifier_count) (attribute_modifier protocol))) (\<lambda>(_, modifiers).
     rd_return \<lparr>av_key = key, av_registry_key = registry_key, av_base_value = base,
       av_modifier_count = ucast modifier_count, av_modifiers = modifiers,
       av_registry_keyed = (protocol \<ge> 766)\<rparr>)))"

definition mc_attribute_iterator_next ::
  "mc_attribute_iterator \<Rightarrow> mc_attribute_view option \<times> mc_attribute_iterator" where
  "mc_attribute_iterator_next it =
     (if ai_remaining it = 0 then (None, it)
      else case attribute_entry (ai_protocol it) (ai_remaining_modifiers it) (ai_reader it) of
          (None, reader) \<Rightarrow> (None, it\<lparr>ai_reader := reader\<rparr>)
        | (Some decoded, reader) \<Rightarrow>
            let remaining = ai_remaining it - 1;
                modifiers = ai_remaining_modifiers it - av_modifier_count decoded;
                it' = it\<lparr>ai_remaining := remaining, ai_remaining_modifiers := modifiers\<rparr> in
            if remaining = 0 \<and> (modifiers \<noteq> 0 \<or> mc_reader_remaining reader \<noteq> 0)
            then (None, it'\<lparr>ai_reader := snd ((typed_invalid :: unit rd) reader)\<rparr>)
            else (Some decoded, it'\<lparr>ai_reader := reader\<rparr>))"

subsection \<open>Every failure is recorded\<close>

lemma checked_sound_holder [rd_checked]: "checked_op typed_skip_sound_holder"
  unfolding typed_skip_sound_holder_def by (intro rd_checked)

lemma checked_explosion_particle [rd_checked]: "checked_op (typed_skip_explosion_particle gz protocol)"
  unfolding typed_skip_explosion_particle_def by (intro rd_checked)

lemma checked_float_point [rd_checked]: "checked_op read_float_point"
  unfolding read_float_point_def by (intro rd_checked)

lemmas reporting_explosion_parts [rd_checked] = checked_reporting [OF checked_sound_holder]
  checked_reporting [OF checked_explosion_particle] checked_reporting [OF checked_float_point]
  checked_reporting [OF checked_point]

lemma checked_explosion [rd_checked]: "checked_op (typed_decode_explosion gz protocol)"
  unfolding typed_decode_explosion_def explosion_later_def explosion_blocks_def explosion_radius_def
    explosion_knockback_def explosion_particle_list_def explosion_effects_def Let_def
  by (intro rd_checked) simp_all

lemma checked_effect_id [rd_checked]: "checked_op (read_effect_id protocol)"
  unfolding read_effect_id_def by (intro rd_checked)

lemma checked_entity_effect [rd_checked]: "checked_op (typed_decode_entity_effect protocol)"
  unfolding typed_decode_entity_effect_def effect_flags_def effect_factor_data_def by (intro rd_checked)

lemma checked_remove_effect [rd_checked]: "checked_op (typed_decode_remove_entity_effect protocol)"
  unfolding typed_decode_remove_entity_effect_def by (intro rd_checked)

lemma checked_modifier_count [rd_checked]: "checked_op (typed_modifier_count protocol)"
  unfolding typed_modifier_count_def by (intro rd_checked)

lemmas reporting_modifier_count [rd_checked] = checked_reporting [OF checked_modifier_count]

lemma checked_attribute_parts [rd_checked]:
  "checked_op (attribute_key protocol)" "checked_op (attribute_base protocol room)"
  "checked_op (attribute_modifier protocol)"
  unfolding attribute_key_def attribute_base_def attribute_modifier_def by (intro rd_checked)+

lemma checked_attribute_loop [rd_checked]: "checked_op (attribute_loop protocol n modifiers)"
  by (induction n arbitrary: modifiers) (auto intro!: rd_checked)

lemma checked_attributes [rd_checked]: "checked_op (typed_decode_attributes protocol)"
  unfolding typed_decode_attributes_def typed_attribute_count_def by (intro rd_checked)

end
