(* ===== verification/Spawn_Readers.thy ===== *)
theory Spawn_Readers
  imports Typed_Effects
begin

text \<open>
  The public readers of the clientbound spawn, particle, removal and status packets in \<open>api.c\<close>, from
  \<open>reader_profile_properties\<close> to \<open>mc_reader_clientbound_entity_status\<close>. A packet of an unsupported
  protocol sets the failure bit and records nothing.
\<close>

subsection \<open>Shared fields\<close>

definition MC_MAX_PROFILE_PROPERTY_COUNT :: nat where
  "MC_MAX_PROFILE_PROPERTY_COUNT = 1024"

definition profile_property :: "unit rd" where
  "profile_property =
     rd_bind (rd_valid
       (rd_bind (rd_such (mc_reader_string_bounded 32767) (\<lambda>name. length name \<noteq> 0)) (\<lambda>_.
        rd_bind (mc_reader_string_bounded 32767) (\<lambda>_. mc_reader_bool)))) (\<lambda>signed_property.
     if signed_property
     then rd_valid (rd_ignore (rd_such (mc_reader_string_bounded 32767) (\<lambda>signature. length signature \<noteq> 0)))
     else rd_return ())"

text \<open>The number of the properties and their view.\<close>

definition reader_profile_properties :: "(u32 \<times> u8 list) rd" where
  "reader_profile_properties =
     rd_bind (rd_valid (rd_such mc_reader_varint
       (\<lambda>count. \<not> (sint count < 0 \<or> unat count > MC_MAX_PROFILE_PROPERTY_COUNT)))) (\<lambda>count.
     rd_bind (rd_capture (rd_repeat (unat count) profile_property)) (\<lambda>(_, properties).
     rd_return (ucast count, properties)))"

text \<open>Coordinates in 1/32 of a block.\<close>

definition read_fixed_point :: "(f64 \<times> f64 \<times> f64) rd" where
  "read_fixed_point =
     rd_bind mc_reader_i32 (\<lambda>x. rd_bind mc_reader_i32 (\<lambda>y. rd_bind mc_reader_i32 (\<lambda>z.
     rd_return (f64_quotient (sint x) 32, f64_quotient (sint y) 32, f64_quotient (sint z) 32))))"

text \<open>A velocity in 1/8000 of a block per tick, with its bytes.\<close>

definition read_short_velocity :: "((f64 \<times> f64 \<times> f64) \<times> u8 list) rd" where
  "read_short_velocity =
     rd_bind (rd_capture read_delta) (\<lambda>(velocity, wire).
     case velocity of (x, y, z) \<Rightarrow>
       rd_return ((f64_quotient (sint x) 8000, f64_quotient (sint y) 8000, f64_quotient (sint z) 8000), wire))"

definition read_lp_vector :: "((f64 \<times> f64 \<times> f64) \<times> u8 list) rd" where
  "read_lp_vector =
     rd_bind (typed_read_lp_velocity entity_velocity_start) (\<lambda>v.
     rd_return ((ev_velocity_x v, ev_velocity_y v, ev_velocity_z v), ev_velocity_wire v))"

definition no_uuid :: mc_uuid where
  "no_uuid = replicate 16 0"

subsection \<open>Players and entities\<close>

record mc_entity_spawn =
  sp_entity_id :: i32
  sp_entity_type :: i32
  sp_data :: i32
  sp_held_item_id :: i32
  sp_profile_id :: mc_uuid
  sp_legacy_profile_id :: "u8 list"
  sp_player_name :: "u8 list"
  sp_properties :: "u8 list"
  sp_metadata :: "u8 list"
  sp_velocity_wire :: "u8 list"
  sp_property_count :: u32
  sp_metadata_entry_count :: u32
  sp_x :: f64
  sp_y :: f64
  sp_z :: f64
  sp_velocity_x :: f64
  sp_velocity_y :: f64
  sp_velocity_z :: f64
  sp_yaw_raw :: u8
  sp_pitch_raw :: u8
  sp_yaw :: f32
  sp_pitch :: f32
  sp_named_player :: bool
  sp_has_binary_profile_id :: bool
  sp_has_player_name :: bool
  sp_has_properties :: bool
  sp_has_metadata :: bool
  sp_has_entity_type :: bool
  sp_has_held_item :: bool
  sp_has_velocity :: bool
  sp_low_precision_velocity :: bool

definition entity_spawn_start :: "i32 \<Rightarrow> mc_entity_spawn" where
  "entity_spawn_start entity_id =
     \<lparr>sp_entity_id = entity_id, sp_entity_type = 0, sp_data = 0, sp_held_item_id = 0,
      sp_profile_id = no_uuid, sp_legacy_profile_id = [], sp_player_name = [], sp_properties = [],
      sp_metadata = [], sp_velocity_wire = [], sp_property_count = 0, sp_metadata_entry_count = 0,
      sp_x = 0, sp_y = 0, sp_z = 0, sp_velocity_x = 0, sp_velocity_y = 0, sp_velocity_z = 0,
      sp_yaw_raw = 0, sp_pitch_raw = 0, sp_yaw = 0, sp_pitch = 0, sp_named_player = False,
      sp_has_binary_profile_id = False, sp_has_player_name = False, sp_has_properties = False,
      sp_has_metadata = False, sp_has_entity_type = False, sp_has_held_item = False,
      sp_has_velocity = False, sp_low_precision_velocity = False\<rparr>"

definition spawn_at :: "f64 \<times> f64 \<times> f64 \<Rightarrow> mc_entity_spawn \<Rightarrow> mc_entity_spawn" where
  "spawn_at p v = (case p of (x, y, z) \<Rightarrow> v\<lparr>sp_x := x, sp_y := y, sp_z := z\<rparr>)"

definition spawn_velocity :: "(f64 \<times> f64 \<times> f64) \<times> u8 list \<Rightarrow> mc_entity_spawn \<Rightarrow> mc_entity_spawn" where
  "spawn_velocity p v = (case p of ((x, y, z), wire) \<Rightarrow>
     v\<lparr>sp_velocity_x := x, sp_velocity_y := y, sp_velocity_z := z, sp_velocity_wire := wire\<rparr>)"

definition spawn_metadata :: "gz_inflate \<Rightarrow> int \<Rightarrow> mc_entity_spawn \<Rightarrow> mc_entity_spawn rd" where
  "spawn_metadata gz protocol v =
     rd_bind (typed_decode_metadata_entries gz protocol) (\<lambda>(entries, n).
     rd_return (v\<lparr>sp_metadata := entries, sp_metadata_entry_count := n, sp_has_metadata := True\<rparr>))"

text \<open>The identity: a profile id and a name in text form through 1.7, then a UUID.\<close>

definition spawn_identity :: "int \<Rightarrow> mc_entity_spawn \<Rightarrow> mc_entity_spawn rd" where
  "spawn_identity protocol v =
     (if protocol \<le> 5 then rd_valid
        (rd_bind (rd_such (mc_reader_string_bounded 36) (\<lambda>profile. length profile = 36)) (\<lambda>profile.
         rd_bind (rd_such (mc_reader_string_bounded 16) (\<lambda>name. length name \<noteq> 0)) (\<lambda>name.
         rd_bind reader_profile_properties (\<lambda>(count, properties).
         rd_return (v\<lparr>sp_legacy_profile_id := profile, sp_player_name := name,
           sp_property_count := count, sp_properties := properties, sp_has_properties := True,
           sp_has_player_name := True\<rparr>)))))
      else
        rd_bind mc_reader_uuid (\<lambda>uuid.
        rd_return (v\<lparr>sp_profile_id := uuid, sp_has_binary_profile_id := True\<rparr>)))"

definition spawn_fixed :: "gz_inflate \<Rightarrow> int \<Rightarrow> mc_entity_spawn \<Rightarrow> mc_entity_spawn rd" where
  "spawn_fixed gz protocol v =
     rd_bind read_fixed_point (\<lambda>p. rd_bind mc_reader_u8 (\<lambda>yaw. rd_bind mc_reader_u8 (\<lambda>pitch.
     rd_bind mc_reader_u16 (\<lambda>held.
     spawn_metadata gz protocol ((spawn_at p v)\<lparr>sp_yaw_raw := yaw, sp_pitch_raw := pitch,
       sp_held_item_id := ucast held, sp_has_held_item := True\<rparr>)))))"

definition spawn_player :: "gz_inflate \<Rightarrow> int \<Rightarrow> mc_entity_spawn \<Rightarrow> mc_entity_spawn rd" where
  "spawn_player gz protocol v =
     rd_bind read_point (\<lambda>p. rd_bind mc_reader_u8 (\<lambda>yaw. rd_bind mc_reader_u8 (\<lambda>pitch.
     let v' = (spawn_at p v)\<lparr>sp_yaw_raw := yaw, sp_pitch_raw := pitch\<rparr> in
     if protocol \<le> 498 then spawn_metadata gz protocol v' else rd_return v')))"

definition spawn_generic :: "int \<Rightarrow> mc_entity_spawn \<Rightarrow> mc_entity_spawn rd" where
  "spawn_generic protocol v =
     rd_bind (rd_valid
       (rd_bind (rd_such mc_reader_varint (\<lambda>t. \<not> sint t < 0)) (\<lambda>entity_type.
        rd_bind read_point (\<lambda>p. rd_return (entity_type, p))))) (\<lambda>(entity_type, p).
     let v' = (spawn_at p v)\<lparr>sp_entity_type := entity_type, sp_has_entity_type := True,
           sp_has_velocity := True\<rparr> in
     rd_bind (if protocol \<ge> 773 then
                rd_bind read_lp_vector (\<lambda>velocity.
                rd_return ((spawn_velocity velocity v')\<lparr>sp_low_precision_velocity := True\<rparr>))
              else rd_return v') (\<lambda>v'.
     rd_bind mc_reader_u8 (\<lambda>pitch. rd_bind mc_reader_u8 (\<lambda>yaw. rd_bind (mc_reader_skip 1) (\<lambda>_.
     rd_bind mc_reader_varint (\<lambda>d.
     let v'' = v'\<lparr>sp_pitch_raw := pitch, sp_yaw_raw := yaw, sp_data := d\<rparr> in
     if protocol \<le> 772 then
       rd_bind read_short_velocity (\<lambda>velocity. rd_return (spawn_velocity velocity v''))
     else rd_return v''))))))"

definition spawn_finite :: "mc_entity_spawn \<Rightarrow> bool" where
  "spawn_finite v \<longleftrightarrow> point_finite (sp_x v, sp_y v, sp_z v)
     \<and> point_finite (sp_velocity_x v, sp_velocity_y v, sp_velocity_z v)"

definition mc_reader_clientbound_entity_spawn :: "gz_inflate \<Rightarrow> int \<Rightarrow> mc_entity_spawn rd" where
  "mc_reader_clientbound_entity_spawn gz protocol = rd_ready protocol
     (rd_bind (rd_valid mc_reader_varint) (\<lambda>entity_id.
      rd_bind (spawn_identity protocol
        ((entity_spawn_start entity_id)\<lparr>sp_named_player := (protocol \<le> 763)\<rparr>)) (\<lambda>v.
      rd_bind (if protocol \<le> 47 then spawn_fixed gz protocol v
               else if protocol \<le> 763 then spawn_player gz protocol v
               else spawn_generic protocol v) (\<lambda>v.
      rd_bind (rd_check (spawn_finite v)) (\<lambda>_.
      rd_return (v\<lparr>sp_yaw := angle_of_byte (sp_yaw_raw v), sp_pitch := angle_of_byte (sp_pitch_raw v)\<rparr>))))))"

subsection \<open>Living entities\<close>

record mc_living_entity_spawn =
  le_entity_id :: i32
  le_entity_type :: i32
  le_entity_uuid :: mc_uuid
  le_metadata :: "u8 list"
  le_velocity_wire :: "u8 list"
  le_x :: f64
  le_y :: f64
  le_z :: f64
  le_velocity_x :: f64
  le_velocity_y :: f64
  le_velocity_z :: f64
  le_metadata_entry_count :: u32
  le_yaw_raw :: u8
  le_pitch_raw :: u8
  le_head_yaw_raw :: u8
  le_yaw :: f32
  le_pitch :: f32
  le_head_yaw :: f32
  le_has_entity_uuid :: bool
  le_fixed_point_position :: bool
  le_varint_entity_type :: bool
  le_has_metadata :: bool

definition living_entity_type :: "int \<Rightarrow> i32 rd" where
  "living_entity_type protocol =
     (if protocol \<le> 210 then rd_bind mc_reader_u8 (\<lambda>t. rd_return (ucast t))
      else rd_valid (rd_such mc_reader_varint (\<lambda>t. \<not> sint t < 0)))"

definition mc_reader_clientbound_living_entity_spawn :: "gz_inflate \<Rightarrow> int \<Rightarrow> mc_living_entity_spawn rd" where
  "mc_reader_clientbound_living_entity_spawn gz protocol =
     (if \<not> mc_protocol_supported protocol \<or> protocol > 758 then reader_mark_failed
      else
        rd_bind (rd_valid (rd_such mc_reader_varint (\<lambda>entity_id. \<not> sint entity_id < 0))) (\<lambda>entity_id.
        rd_bind (rd_when (protocol > 47) no_uuid mc_reader_uuid) (\<lambda>uuid.
        rd_bind (living_entity_type protocol) (\<lambda>entity_type.
        rd_bind (if protocol \<le> 47 then read_fixed_point else read_point) (\<lambda>(x, y, z).
        rd_bind mc_reader_u8 (\<lambda>yaw. rd_bind mc_reader_u8 (\<lambda>pitch. rd_bind mc_reader_u8 (\<lambda>head_yaw.
        rd_bind read_short_velocity (\<lambda>(velocity, wire). case velocity of (vx, vy, vz) \<Rightarrow>
        rd_bind (rd_when (protocol \<le> 498) ([], 0) (typed_decode_metadata_entries gz protocol))
          (\<lambda>(metadata, n).
        rd_bind (rd_check (point_finite (x, y, z) \<and> point_finite (vx, vy, vz))) (\<lambda>_.
        rd_return \<lparr>le_entity_id = entity_id, le_entity_type = entity_type, le_entity_uuid = uuid,
          le_metadata = metadata, le_velocity_wire = wire, le_x = x, le_y = y, le_z = z,
          le_velocity_x = vx, le_velocity_y = vy, le_velocity_z = vz, le_metadata_entry_count = n,
          le_yaw_raw = yaw, le_pitch_raw = pitch, le_head_yaw_raw = head_yaw,
          le_yaw = angle_of_byte yaw, le_pitch = angle_of_byte pitch,
          le_head_yaw = angle_of_byte head_yaw, le_has_entity_uuid = (protocol > 47),
          le_fixed_point_position = (protocol \<le> 47), le_varint_entity_type = (protocol > 210),
          le_has_metadata = (protocol \<le> 498)\<rparr>)))))))))))"

subsection \<open>Objects\<close>

record mc_object_spawn =
  ob_entity_id :: i32
  ob_entity_type :: i32
  ob_data :: i32
  ob_entity_uuid :: mc_uuid
  ob_velocity_wire :: "u8 list"
  ob_x :: f64
  ob_y :: f64
  ob_z :: f64
  ob_velocity_x :: f64
  ob_velocity_y :: f64
  ob_velocity_z :: f64
  ob_yaw_raw :: u8
  ob_pitch_raw :: u8
  ob_head_yaw_raw :: u8
  ob_yaw :: f32
  ob_pitch :: f32
  ob_head_yaw :: f32
  ob_has_entity_uuid :: bool
  ob_has_head_yaw :: bool
  ob_has_velocity :: bool
  ob_low_precision_velocity :: bool

definition object_spawn_start :: "i32 \<Rightarrow> mc_object_spawn" where
  "object_spawn_start entity_id =
     \<lparr>ob_entity_id = entity_id, ob_entity_type = 0, ob_data = 0, ob_entity_uuid = no_uuid,
      ob_velocity_wire = [], ob_x = 0, ob_y = 0, ob_z = 0, ob_velocity_x = 0, ob_velocity_y = 0,
      ob_velocity_z = 0, ob_yaw_raw = 0, ob_pitch_raw = 0, ob_head_yaw_raw = 0, ob_yaw = 0,
      ob_pitch = 0, ob_head_yaw = 0, ob_has_entity_uuid = False, ob_has_head_yaw = False,
      ob_has_velocity = False, ob_low_precision_velocity = False\<rparr>"

definition object_at :: "f64 \<times> f64 \<times> f64 \<Rightarrow> mc_object_spawn \<Rightarrow> mc_object_spawn" where
  "object_at p v = (case p of (x, y, z) \<Rightarrow> v\<lparr>ob_x := x, ob_y := y, ob_z := z\<rparr>)"

definition object_velocity :: "(f64 \<times> f64 \<times> f64) \<times> u8 list \<Rightarrow> mc_object_spawn \<Rightarrow> mc_object_spawn" where
  "object_velocity p v = (case p of ((x, y, z), wire) \<Rightarrow>
     v\<lparr>ob_velocity_x := x, ob_velocity_y := y, ob_velocity_z := z, ob_velocity_wire := wire,
       ob_has_velocity := True\<rparr>)"

definition object_legacy :: "mc_object_spawn \<Rightarrow> mc_object_spawn rd" where
  "object_legacy v =
     rd_bind mc_reader_u8 (\<lambda>entity_type. rd_bind read_fixed_point (\<lambda>p.
     rd_bind mc_reader_u8 (\<lambda>pitch. rd_bind mc_reader_u8 (\<lambda>yaw. rd_bind mc_reader_i32 (\<lambda>d.
     let v' = (object_at p v)\<lparr>ob_entity_type := ucast entity_type, ob_pitch_raw := pitch,
           ob_yaw_raw := yaw, ob_data := d\<rparr> in
     if sint d > 0 then
       rd_bind read_short_velocity (\<lambda>velocity. rd_return (object_velocity velocity v'))
     else rd_return v')))))"

definition object_entity_type :: "int \<Rightarrow> i32 rd" where
  "object_entity_type protocol =
     (if protocol \<le> 404 then rd_bind mc_reader_u8 (\<lambda>t. rd_return (ucast t))
      else rd_valid (rd_such mc_reader_varint (\<lambda>t. \<not> sint t < 0)))"

definition object_generic :: "int \<Rightarrow> mc_object_spawn \<Rightarrow> mc_object_spawn rd" where
  "object_generic protocol v =
     rd_bind mc_reader_uuid (\<lambda>uuid. rd_bind (object_entity_type protocol) (\<lambda>entity_type.
     rd_bind read_point (\<lambda>p.
     let v' = (object_at p v)\<lparr>ob_entity_uuid := uuid, ob_has_entity_uuid := True,
           ob_entity_type := entity_type\<rparr> in
     rd_bind (if protocol \<ge> 773 then
                rd_bind read_lp_vector (\<lambda>velocity.
                rd_return ((object_velocity velocity v')\<lparr>ob_low_precision_velocity := True\<rparr>))
              else rd_return v') (\<lambda>v'.
     rd_bind mc_reader_u8 (\<lambda>pitch. rd_bind mc_reader_u8 (\<lambda>yaw.
     rd_bind (rd_when (protocol \<ge> 761) 0 mc_reader_u8) (\<lambda>head_yaw.
     rd_bind (if protocol \<ge> 761 then mc_reader_varint else mc_reader_i32) (\<lambda>d.
     let v'' = v'\<lparr>ob_pitch_raw := pitch, ob_yaw_raw := yaw, ob_head_yaw_raw := head_yaw,
           ob_has_head_yaw := (protocol \<ge> 761), ob_data := d\<rparr> in
     if protocol \<le> 772 then
       rd_bind read_short_velocity (\<lambda>velocity. rd_return (object_velocity velocity v''))
     else rd_return v''))))))))"

definition object_finite :: "mc_object_spawn \<Rightarrow> bool" where
  "object_finite v \<longleftrightarrow> point_finite (ob_x v, ob_y v, ob_z v)
     \<and> point_finite (ob_velocity_x v, ob_velocity_y v, ob_velocity_z v)"

definition mc_reader_clientbound_object_spawn :: "int \<Rightarrow> mc_object_spawn rd" where
  "mc_reader_clientbound_object_spawn protocol = rd_ready protocol
     (rd_bind (rd_valid (rd_such mc_reader_varint (\<lambda>entity_id. \<not> sint entity_id < 0))) (\<lambda>entity_id.
      let v = object_spawn_start entity_id in
      rd_bind (if protocol \<le> 47 then object_legacy v else object_generic protocol v) (\<lambda>v.
      rd_bind (rd_check (object_finite v)) (\<lambda>_.
      rd_return (v\<lparr>ob_yaw := angle_of_byte (ob_yaw_raw v), ob_pitch := angle_of_byte (ob_pitch_raw v),
        ob_head_yaw := angle_of_byte (ob_head_yaw_raw v)\<rparr>)))))"

subsection \<open>World particles\<close>

definition typed_skip_legacy_world_particle_data :: "i32 \<Rightarrow> unit rd" where
  "typed_skip_legacy_world_particle_data particle =
     rd_repeat (if particle = 36 then 2 else if particle = 37 \<or> particle = 38 then 1 else 0)
       (rd_ignore mc_reader_varint)"

record mc_world_particles =
  wp_particle_name :: "u8 list"
  wp_particle_data :: "u8 list"
  wp_particle_id :: i32
  wp_x :: f64
  wp_y :: f64
  wp_z :: f64
  wp_offset_x :: f32
  wp_offset_y :: f32
  wp_offset_z :: f32
  wp_speed :: f32
  wp_count :: i32
  wp_long_distance :: bool
  wp_always_show :: bool
  wp_named_particle :: bool
  wp_has_long_distance :: bool
  wp_has_always_show :: bool
  wp_double_precision_position :: bool
  wp_particle_after_common_fields :: bool
  wp_speed_y :: f32
  wp_speed_z :: f32
  wp_randomization :: i32
  wp_has_axis_speed :: bool

definition world_particles_start :: mc_world_particles where
  "world_particles_start =
     \<lparr>wp_particle_name = [], wp_particle_data = [], wp_particle_id = -1, wp_x = 0, wp_y = 0, wp_z = 0,
      wp_offset_x = 0, wp_offset_y = 0, wp_offset_z = 0, wp_speed = 0, wp_count = 0,
      wp_long_distance = False, wp_always_show = False, wp_named_particle = False,
      wp_has_long_distance = False, wp_has_always_show = False,
      wp_double_precision_position = False, wp_particle_after_common_fields = False,
      wp_speed_y = 0, wp_speed_z = 0, wp_randomization = 0, wp_has_axis_speed = False\<rparr>"

definition particles_at :: "f64 \<times> f64 \<times> f64 \<Rightarrow> mc_world_particles \<Rightarrow> mc_world_particles" where
  "particles_at p v = (case p of (x, y, z) \<Rightarrow> v\<lparr>wp_x := x, wp_y := y, wp_z := z\<rparr>)"

definition particles_offset :: "f32 \<times> f32 \<times> f32 \<Rightarrow> mc_world_particles \<Rightarrow> mc_world_particles" where
  "particles_offset p v = (case p of (x, y, z) \<Rightarrow>
     v\<lparr>wp_offset_x := x, wp_offset_y := y, wp_offset_z := z\<rparr>)"

definition particles_finite :: "mc_world_particles \<Rightarrow> bool" where
  "particles_finite v \<longleftrightarrow> point_finite (wp_x v, wp_y v, wp_z v)
     \<and> float_point_finite (wp_offset_x v, wp_offset_y v, wp_offset_z v)
     \<and> float_point_finite (wp_speed v, wp_speed_y v, wp_speed_z v)"

definition particles_777 :: "gz_inflate \<Rightarrow> int \<Rightarrow> mc_world_particles rd" where
  "particles_777 gz protocol =
     rd_bind mc_reader_varint (\<lambda>particle_id.
     rd_bind (rd_check (\<not> sint particle_id < 0)) (\<lambda>_.
     rd_bind (rd_capture (typed_skip_modern_particle_value gz protocol particle_id)) (\<lambda>(_, particle_data).
     rd_bind mc_reader_bool (\<lambda>long_distance. rd_bind mc_reader_bool (\<lambda>always_show.
     rd_bind read_point (\<lambda>p. rd_bind read_float_point (\<lambda>q.
     rd_bind read_float_point (\<lambda>(speed, speed_y, speed_z).
     rd_bind mc_reader_varint (\<lambda>count. rd_bind mc_reader_varint (\<lambda>randomization.
     let v = particles_offset q (particles_at p (world_particles_start
           \<lparr>wp_has_long_distance := True, wp_has_always_show := True,
            wp_double_precision_position := True, wp_has_axis_speed := True,
            wp_particle_id := particle_id, wp_particle_data := particle_data,
            wp_long_distance := long_distance, wp_always_show := always_show, wp_speed := speed,
            wp_speed_y := speed_y, wp_speed_z := speed_z, wp_count := count,
            wp_randomization := randomization\<rparr>)) in
     rd_bind (rd_check (\<not> (\<not> particles_finite v \<or> sint count < 0 \<or> sint randomization < 0
         \<or> sint randomization > 2))) (\<lambda>_. rd_return v)))))))))))"

text \<open>The name or the number in front of the common fields.\<close>

definition particles_head :: "int \<Rightarrow> mc_world_particles \<Rightarrow> mc_world_particles rd" where
  "particles_head protocol v =
     (if wp_named_particle v then
        rd_bind (mc_reader_string_bounded 256) (\<lambda>name. rd_return (v\<lparr>wp_particle_name := name\<rparr>))
      else if \<not> wp_particle_after_common_fields v then
        rd_bind (if protocol \<ge> 759 then mc_reader_varint else mc_reader_i32) (\<lambda>particle_id.
        rd_bind (rd_check (\<not> sint particle_id < 0)) (\<lambda>_.
        rd_return (v\<lparr>wp_particle_id := particle_id\<rparr>)))
      else rd_return v)"

definition particles_common :: "int \<Rightarrow> mc_world_particles \<Rightarrow> mc_world_particles rd" where
  "particles_common protocol v =
     rd_bind (rd_when (wp_has_long_distance v) False mc_reader_bool) (\<lambda>long_distance.
     rd_bind (rd_when (wp_has_always_show v) False mc_reader_bool) (\<lambda>always_show.
     rd_bind (if wp_double_precision_position v then read_point
              else rd_bind read_float_point (\<lambda>p. rd_return (widen_point p))) (\<lambda>p.
     rd_bind read_float_point (\<lambda>q. rd_bind mc_reader_float (\<lambda>speed. rd_bind mc_reader_i32 (\<lambda>count.
     let v' = particles_offset q (particles_at p (v\<lparr>wp_long_distance := long_distance,
           wp_always_show := always_show, wp_speed := speed, wp_count := count\<rparr>)) in
     rd_bind (rd_check (particles_finite v')) (\<lambda>_. rd_return v')))))))"

text \<open>The number behind the common fields, and the data of the particle.\<close>

definition particles_data :: "gz_inflate \<Rightarrow> int \<Rightarrow> mc_world_particles \<Rightarrow> mc_world_particles rd" where
  "particles_data gz protocol v =
     (if wp_named_particle v then rd_return v
      else
        rd_bind (rd_when (wp_particle_after_common_fields v) (wp_particle_id v)
          (rd_valid (rd_such mc_reader_varint (\<lambda>particle_id. \<not> sint particle_id < 0)))) (\<lambda>particle_id.
        rd_bind (rd_capture
          (if protocol \<le> 340 then typed_skip_legacy_world_particle_data particle_id
           else if protocol \<ge> 766 then typed_skip_modern_particle_value gz protocol particle_id
           else typed_skip_old_particle_value gz protocol particle_id)) (\<lambda>(_, particle_data).
        rd_return (v\<lparr>wp_particle_id := particle_id, wp_particle_data := particle_data\<rparr>))))"

definition mc_reader_clientbound_world_particles :: "gz_inflate \<Rightarrow> int \<Rightarrow> mc_world_particles rd" where
  "mc_reader_clientbound_world_particles gz protocol = rd_ready protocol
     (if protocol \<ge> 777 then particles_777 gz protocol
      else
        rd_bind (particles_head protocol (world_particles_start
          \<lparr>wp_named_particle := (protocol \<le> 5), wp_has_long_distance := (protocol > 5),
           wp_has_always_show := (protocol \<ge> 769),
           wp_double_precision_position := (protocol \<ge> 573),
           wp_particle_after_common_fields := (protocol \<ge> 766)\<rparr>)) (\<lambda>v.
        rd_bind (particles_common protocol v) (\<lambda>v'.
        particles_data gz protocol v')))"

subsection \<open>Removals and status\<close>

record mc_remove_entities =
  rm_entity_count :: u32
  rm_entity_ids :: "u8 list"
  rm_fixed_i32_ids :: bool

definition read_listed_entity :: "bool \<Rightarrow> i32 rd" where
  "read_listed_entity fixed_i32_ids = rd_valid
     (rd_such (if fixed_i32_ids then mc_reader_i32 else mc_reader_varint) (\<lambda>entity_id. \<not> sint entity_id < 0))"

definition mc_reader_clientbound_remove_entities :: "int \<Rightarrow> mc_remove_entities rd" where
  "mc_reader_clientbound_remove_entities protocol = rd_ready protocol
     (rd_bind
       (if protocol \<le> 5 then rd_bind mc_reader_u8 (\<lambda>count. rd_return (ucast count))
        else if protocol = 755 then rd_return 1
        else mc_reader_varint) (\<lambda>count.
      rd_bind (rd_check (\<not> (sint count < 0 \<or> unat count > MC_MAX_PACKET_ARRAY_COUNT))) (\<lambda>_.
      rd_bind (rd_capture (rd_repeat (unat count) (rd_ignore (read_listed_entity (protocol \<le> 5)))))
        (\<lambda>(_, entity_ids).
      rd_return \<lparr>rm_entity_count = ucast count, rm_entity_ids = entity_ids,
        rm_fixed_i32_ids = (protocol \<le> 5)\<rparr>))))"

record mc_entity_id_iterator =
  ei_reader :: mc_reader
  ei_remaining :: u32
  ei_fixed_i32_ids :: bool

definition mc_remove_entities_iterator :: "mc_remove_entities \<Rightarrow> mc_entity_id_iterator option" where
  "mc_remove_entities_iterator packet =
     (if unat (rm_entity_count packet) > MC_MAX_PACKET_ARRAY_COUNT then None
      else Some \<lparr>ei_reader = view_reader (rm_entity_ids packet),
             ei_remaining = rm_entity_count packet, ei_fixed_i32_ids = rm_fixed_i32_ids packet\<rparr>)"

definition mc_entity_id_iterator_next :: "mc_entity_id_iterator \<Rightarrow> i32 option \<times> mc_entity_id_iterator" where
  "mc_entity_id_iterator_next it =
     (if ei_remaining it = 0 then (None, it)
      else case read_listed_entity (ei_fixed_i32_ids it) (ei_reader it) of
          (None, reader) \<Rightarrow> (None, it\<lparr>ei_reader := reader\<rparr>)
        | (Some decoded, reader) \<Rightarrow>
            let remaining = ei_remaining it - 1 in
            case last_of_view (remaining = 0) reader of
              (None, reader') \<Rightarrow> (None, it\<lparr>ei_reader := reader', ei_remaining := remaining\<rparr>)
            | (Some _, reader') \<Rightarrow> (Some decoded, it\<lparr>ei_reader := reader', ei_remaining := remaining\<rparr>))"

definition mc_reader_clientbound_entity_status :: "int \<Rightarrow> (i32 \<times> u8) rd" where
  "mc_reader_clientbound_entity_status protocol = rd_ready protocol (rd_valid
     (rd_bind (rd_such mc_reader_i32 (\<lambda>entity_id. \<not> sint entity_id < 0)) (\<lambda>entity_id.
      rd_bind mc_reader_u8 (\<lambda>status. rd_return (entity_id, status)))))"

subsection \<open>Laws\<close>

text \<open>Past the check of the protocol, every failure is recorded.\<close>

lemma checked_profile_properties [rd_checked]: "checked_op reader_profile_properties"
  unfolding reader_profile_properties_def profile_property_def by (intro rd_checked)

lemma checked_vectors [rd_checked]:
  "checked_op read_fixed_point" "checked_op read_short_velocity" "checked_op read_lp_vector"
  unfolding read_fixed_point_def read_short_velocity_def read_lp_vector_def by (intro rd_checked)+

lemmas reporting_profile_properties [rd_checked] = checked_reporting [OF checked_profile_properties]

lemma checked_ready [rd_checked]:
  "mc_protocol_supported protocol \<Longrightarrow> checked_op m \<Longrightarrow> checked_op (rd_ready protocol m)"
  by (simp add: rd_ready_def)

lemma checked_entity_spawn [rd_checked]:
  "mc_protocol_supported protocol \<Longrightarrow> checked_op (mc_reader_clientbound_entity_spawn gz protocol)"
  unfolding mc_reader_clientbound_entity_spawn_def spawn_identity_def spawn_fixed_def spawn_player_def
    spawn_generic_def spawn_metadata_def Let_def
  by (intro rd_checked)

lemma checked_living_spawn [rd_checked]:
  "mc_protocol_supported protocol \<Longrightarrow> protocol \<le> 758
   \<Longrightarrow> checked_op (mc_reader_clientbound_living_entity_spawn gz protocol)"
  unfolding mc_reader_clientbound_living_entity_spawn_def living_entity_type_def
  by (intro rd_checked) auto

lemma checked_object_spawn [rd_checked]:
  "mc_protocol_supported protocol \<Longrightarrow> checked_op (mc_reader_clientbound_object_spawn protocol)"
  unfolding mc_reader_clientbound_object_spawn_def object_legacy_def object_generic_def
    object_entity_type_def Let_def
  by (intro rd_checked)

lemma checked_legacy_particle_data [rd_checked]: "checked_op (typed_skip_legacy_world_particle_data particle)"
  unfolding typed_skip_legacy_world_particle_data_def by (intro rd_checked)

lemma checked_world_particles [rd_checked]:
  "mc_protocol_supported protocol \<Longrightarrow> checked_op (mc_reader_clientbound_world_particles gz protocol)"
  unfolding mc_reader_clientbound_world_particles_def particles_777_def particles_head_def
    particles_common_def particles_data_def Let_def
  by (intro rd_checked)

lemma checked_listed_entity [rd_checked]: "checked_op (read_listed_entity fixed)"
  unfolding read_listed_entity_def by (intro rd_checked)

lemma checked_remove_entities [rd_checked]:
  "mc_protocol_supported protocol \<Longrightarrow> checked_op (mc_reader_clientbound_remove_entities protocol)"
  unfolding mc_reader_clientbound_remove_entities_def by (intro rd_checked)

lemma checked_entity_status [rd_checked]:
  "mc_protocol_supported protocol \<Longrightarrow> checked_op (mc_reader_clientbound_entity_status protocol)"
  unfolding mc_reader_clientbound_entity_status_def by (intro rd_checked)

end
