(* ===== verification/Player_Readers.thy ===== *)
theory Player_Readers
  imports Spawn_Readers
begin

text \<open>
  The public readers of the player list, chat, clock and relative movement packets in \<open>api.c\<close>, from
  \<open>reader_player_info_properties\<close> to \<open>mc_reader_clientbound_entity_look\<close>.
\<close>

subsection \<open>Player list entries\<close>

definition MC_PLAYER_INFO_ADD_PLAYER :: u32 where "MC_PLAYER_INFO_ADD_PLAYER = 1"
definition MC_PLAYER_INFO_INITIALIZE_CHAT :: u32 where "MC_PLAYER_INFO_INITIALIZE_CHAT = 2"
definition MC_PLAYER_INFO_UPDATE_GAME_MODE :: u32 where "MC_PLAYER_INFO_UPDATE_GAME_MODE = 4"
definition MC_PLAYER_INFO_UPDATE_LISTED :: u32 where "MC_PLAYER_INFO_UPDATE_LISTED = 8"
definition MC_PLAYER_INFO_UPDATE_LATENCY :: u32 where "MC_PLAYER_INFO_UPDATE_LATENCY = 16"
definition MC_PLAYER_INFO_UPDATE_DISPLAY_NAME :: u32 where "MC_PLAYER_INFO_UPDATE_DISPLAY_NAME = 32"
definition MC_PLAYER_INFO_UPDATE_LIST_ORDER :: u32 where "MC_PLAYER_INFO_UPDATE_LIST_ORDER = 64"
definition MC_PLAYER_INFO_UPDATE_HAT :: u32 where "MC_PLAYER_INFO_UPDATE_HAT = 128"
definition MC_PLAYER_INFO_REMOVE_PLAYER :: u32 where "MC_PLAYER_INFO_REMOVE_PLAYER = 256"

lemmas player_info_flags = MC_PLAYER_INFO_ADD_PLAYER_def MC_PLAYER_INFO_INITIALIZE_CHAT_def
  MC_PLAYER_INFO_UPDATE_GAME_MODE_def MC_PLAYER_INFO_UPDATE_LISTED_def
  MC_PLAYER_INFO_UPDATE_LATENCY_def MC_PLAYER_INFO_UPDATE_DISPLAY_NAME_def
  MC_PLAYER_INFO_UPDATE_LIST_ORDER_def MC_PLAYER_INFO_UPDATE_HAT_def
  MC_PLAYER_INFO_REMOVE_PLAYER_def

record mc_player_info_entry =
  pe_profile_id :: mc_uuid
  pe_player_name :: "u8 list"
  pe_properties :: "u8 list"
  pe_chat_session :: "u8 list"
  pe_display_name :: "u8 list"
  pe_fields :: u32
  pe_property_count :: u32
  pe_game_mode :: i32
  pe_latency :: i32
  pe_list_order :: i32
  pe_listed :: bool
  pe_show_hat :: bool
  pe_has_profile_id :: bool
  pe_has_player_name :: bool
  pe_has_chat_session :: bool
  pe_has_display_name :: bool
  pe_display_name_is_nbt :: bool

definition player_info_entry_start :: "u32 \<Rightarrow> mc_player_info_entry" where
  "player_info_entry_start flags =
     \<lparr>pe_profile_id = no_uuid, pe_player_name = [], pe_properties = [], pe_chat_session = [],
      pe_display_name = [], pe_fields = flags, pe_property_count = 0, pe_game_mode = -1,
      pe_latency = -1, pe_list_order = -1, pe_listed = False, pe_show_hat = False,
      pe_has_profile_id = False, pe_has_player_name = False, pe_has_chat_session = False,
      pe_has_display_name = False, pe_display_name_is_nbt = False\<rparr>"

definition player_info_property :: "unit rd" where
  "player_info_property =
     rd_bind (rd_valid
       (rd_bind (rd_such (mc_reader_string_bounded 32767) (\<lambda>name. length name \<noteq> 0)) (\<lambda>_.
        rd_bind (mc_reader_string_bounded 32767) (\<lambda>_. mc_reader_bool)))) (\<lambda>has_signature.
     if has_signature
     then rd_valid (rd_ignore (rd_such (mc_reader_string_bounded 32767) (\<lambda>signature. length signature \<noteq> 0)))
     else rd_return ())"

definition reader_player_info_properties :: "mc_player_info_entry \<Rightarrow> mc_player_info_entry rd" where
  "reader_player_info_properties v =
     rd_bind (rd_valid (rd_such mc_reader_varint
       (\<lambda>count. \<not> (sint count < 0 \<or> unat count > MC_MAX_PROFILE_PROPERTY_COUNT)))) (\<lambda>count.
     rd_bind (rd_capture (rd_repeat (unat count) player_info_property)) (\<lambda>(_, properties).
     rd_return (v\<lparr>pe_property_count := ucast count, pe_properties := properties\<rparr>)))"

definition reader_player_info_optional_display :: "int \<Rightarrow> mc_player_info_entry \<Rightarrow> mc_player_info_entry rd" where
  "reader_player_info_optional_display protocol v =
     rd_bind mc_reader_bool (\<lambda>present.
     if \<not> present then rd_return (v\<lparr>pe_has_display_name := False\<rparr>)
     else if protocol \<le> 764 then
       rd_bind (mc_reader_string_bounded 32767) (\<lambda>name.
       rd_return (v\<lparr>pe_has_display_name := True, pe_display_name := name\<rparr>))
     else
       rd_bind (mc_reader_nbt False) (\<lambda>name.
       rd_return (v\<lparr>pe_has_display_name := True, pe_display_name_is_nbt := True,
         pe_display_name := name\<rparr>)))"

definition reader_player_info_public_key :: "bool \<Rightarrow> mc_player_info_entry \<Rightarrow> mc_player_info_entry rd" where
  "reader_player_info_public_key has_session_id v =
     rd_bind mc_reader_bool (\<lambda>present.
     if \<not> present then rd_return (v\<lparr>pe_has_chat_session := False, pe_chat_session := []\<rparr>)
     else
       rd_bind (rd_capture (rd_valid
         (rd_bind (rd_when has_session_id no_uuid mc_reader_uuid) (\<lambda>session_id.
          rd_bind mc_reader_i64 (\<lambda>expires_at.
          rd_bind mc_reader_buffer_varint (\<lambda>key. rd_bind mc_reader_buffer_varint (\<lambda>signature.
          rd_test (\<not> (length key = 0 \<or> length signature = 0))))))))) (\<lambda>(_, encoded).
       rd_return (v\<lparr>pe_has_chat_session := True, pe_chat_session := encoded\<rparr>)))"

definition player_info_fields_from_action :: "i32 \<Rightarrow> u32 option" where
  "player_info_fields_from_action action =
     (if action = 0 then Some (MC_PLAYER_INFO_ADD_PLAYER OR MC_PLAYER_INFO_UPDATE_GAME_MODE
        OR MC_PLAYER_INFO_UPDATE_LATENCY OR MC_PLAYER_INFO_UPDATE_DISPLAY_NAME)
      else if action = 1 then Some MC_PLAYER_INFO_UPDATE_GAME_MODE
      else if action = 2 then Some MC_PLAYER_INFO_UPDATE_LATENCY
      else if action = 3 then Some MC_PLAYER_INFO_UPDATE_DISPLAY_NAME
      else if action = 4 then Some MC_PLAYER_INFO_REMOVE_PLAYER
      else None)"

definition player_info_fields_from_mask :: "int \<Rightarrow> u8 \<Rightarrow> u32 option" where
  "player_info_fields_from_mask protocol wire =
     (let allowed = (if protocol \<le> 767 then 0x3f else if protocol = 768 then 0x7f else 0xff);
          decoded = ucast (wire AND 0x3f) in
      if wire AND NOT allowed \<noteq> 0 then None
      else Some
        (if protocol = 768 \<and> wire AND 0x40 \<noteq> 0 then decoded OR MC_PLAYER_INFO_UPDATE_LIST_ORDER
         else if protocol \<ge> 769
         then (decoded OR (if wire AND 0x40 \<noteq> 0 then MC_PLAYER_INFO_UPDATE_HAT else 0))
              OR (if wire AND 0x80 \<noteq> 0 then MC_PLAYER_INFO_UPDATE_LIST_ORDER else 0)
         else decoded))"

definition info_has :: "u32 \<Rightarrow> u32 \<Rightarrow> bool" where
  "info_has flags flag \<longleftrightarrow> flags AND flag \<noteq> 0"

text \<open>The parts of an entry, each present if its flag is set.\<close>

definition entry_player :: "u32 \<Rightarrow> mc_player_info_entry \<Rightarrow> mc_player_info_entry rd" where
  "entry_player flags v = rd_when (info_has flags MC_PLAYER_INFO_ADD_PLAYER) v (rd_valid
     (rd_bind (rd_such (mc_reader_string_bounded 16) (\<lambda>name. length name \<noteq> 0)) (\<lambda>name.
      reader_player_info_properties (v\<lparr>pe_player_name := name, pe_has_player_name := True\<rparr>))))"

definition entry_game_mode :: "u32 \<Rightarrow> mc_player_info_entry \<Rightarrow> mc_player_info_entry rd" where
  "entry_game_mode flags v = rd_when (info_has flags MC_PLAYER_INFO_UPDATE_GAME_MODE) v
     (rd_bind (rd_valid (rd_such mc_reader_varint (\<lambda>mode. \<not> (sint mode < 0 \<or> sint mode > 3)))) (\<lambda>mode.
      rd_return (v\<lparr>pe_game_mode := mode\<rparr>)))"

definition entry_latency :: "u32 \<Rightarrow> mc_player_info_entry \<Rightarrow> mc_player_info_entry rd" where
  "entry_latency flags v = rd_when (info_has flags MC_PLAYER_INFO_UPDATE_LATENCY) v
     (rd_bind (rd_valid (rd_such mc_reader_varint (\<lambda>latency. \<not> sint latency < 0))) (\<lambda>latency.
      rd_return (v\<lparr>pe_latency := latency\<rparr>)))"

definition entry_display :: "int \<Rightarrow> u32 \<Rightarrow> mc_player_info_entry \<Rightarrow> mc_player_info_entry rd" where
  "entry_display protocol flags v =
     rd_when (info_has flags MC_PLAYER_INFO_UPDATE_DISPLAY_NAME) v
       (reader_player_info_optional_display protocol v)"

definition entry_listed :: "u32 \<Rightarrow> mc_player_info_entry \<Rightarrow> mc_player_info_entry rd" where
  "entry_listed flags v = rd_when (info_has flags MC_PLAYER_INFO_UPDATE_LISTED) v
     (rd_bind (rd_valid (rd_such mc_reader_varint (\<lambda>listed. \<not> (sint listed < 0 \<or> sint listed > 1)))) (\<lambda>listed.
      rd_return (v\<lparr>pe_listed := (listed \<noteq> 0)\<rparr>)))"

definition entry_list_order :: "u32 \<Rightarrow> mc_player_info_entry \<Rightarrow> mc_player_info_entry rd" where
  "entry_list_order flags v = rd_when (info_has flags MC_PLAYER_INFO_UPDATE_LIST_ORDER) v
     (rd_bind (rd_valid (rd_such mc_reader_varint (\<lambda>order. \<not> sint order < 0))) (\<lambda>order.
      rd_return (v\<lparr>pe_list_order := order\<rparr>)))"

definition entry_hat :: "u32 \<Rightarrow> mc_player_info_entry \<Rightarrow> mc_player_info_entry rd" where
  "entry_hat flags v = rd_when (info_has flags MC_PLAYER_INFO_UPDATE_HAT) v
     (rd_bind mc_reader_bool (\<lambda>show_hat. rd_return (v\<lparr>pe_show_hat := show_hat\<rparr>)))"

definition entry_legacy_name :: "u32 \<Rightarrow> mc_player_info_entry rd" where
  "entry_legacy_name flags =
     rd_bind (rd_valid
       (rd_bind (rd_such (mc_reader_string_bounded 16) (\<lambda>name. length name \<noteq> 0)) (\<lambda>name.
        rd_bind mc_reader_bool (\<lambda>online. rd_bind mc_reader_i16 (\<lambda>latency.
        rd_return (name, online, latency)))))) (\<lambda>(name, online, latency).
     rd_return ((player_info_entry_start flags)
       \<lparr>pe_player_name := name, pe_has_player_name := True, pe_latency := scast latency,
        pe_listed := online,
        pe_fields := (if online then MC_PLAYER_INFO_ADD_PLAYER OR MC_PLAYER_INFO_UPDATE_LISTED
                        OR MC_PLAYER_INFO_UPDATE_LATENCY
                      else MC_PLAYER_INFO_REMOVE_PLAYER)\<rparr>))"

definition entry_by_action :: "int \<Rightarrow> u32 \<Rightarrow> mc_player_info_entry \<Rightarrow> mc_player_info_entry rd" where
  "entry_by_action protocol flags v =
     rd_bind (entry_player flags v) (\<lambda>v. rd_bind (entry_game_mode flags v) (\<lambda>v.
     rd_bind (entry_latency flags v) (\<lambda>v. rd_bind (entry_display protocol flags v) (\<lambda>v.
     rd_when (info_has flags MC_PLAYER_INFO_ADD_PLAYER \<and> protocol \<ge> 759) v
       (reader_player_info_public_key False v)))))"

text \<open>The list order comes before the hat, whatever the order of their bits in the mask.\<close>

definition entry_by_mask :: "int \<Rightarrow> u32 \<Rightarrow> mc_player_info_entry \<Rightarrow> mc_player_info_entry rd" where
  "entry_by_mask protocol flags v =
     rd_bind (entry_player flags v) (\<lambda>v.
     rd_bind (rd_when (info_has flags MC_PLAYER_INFO_INITIALIZE_CHAT) v
       (reader_player_info_public_key True v)) (\<lambda>v.
     rd_bind (entry_game_mode flags v) (\<lambda>v. rd_bind (entry_listed flags v) (\<lambda>v.
     rd_bind (entry_latency flags v) (\<lambda>v. rd_bind (entry_display protocol flags v) (\<lambda>v.
     rd_bind (entry_list_order flags v) (\<lambda>v. entry_hat flags v)))))))"

definition reader_player_info_entry :: "int \<Rightarrow> u32 \<Rightarrow> bool \<Rightarrow> bool \<Rightarrow> mc_player_info_entry rd" where
  "reader_player_info_entry protocol flags legacy_name_layout field_mask_layout =
     (if legacy_name_layout then entry_legacy_name flags
      else
        rd_bind mc_reader_uuid (\<lambda>uuid.
        let v = (player_info_entry_start flags)\<lparr>pe_profile_id := uuid, pe_has_profile_id := True\<rparr> in
        if \<not> field_mask_layout then entry_by_action protocol flags v
        else entry_by_mask protocol flags v))"

subsection \<open>The player list packet\<close>

record mc_player_info =
  pl_entry_count :: u32
  pl_fields :: u32
  pl_legacy_action :: i32
  pl_entries :: "u8 list"
  pl_legacy_name_layout :: bool
  pl_field_mask_layout :: bool

definition player_info_head :: "int \<Rightarrow> mc_player_info rd" where
  "player_info_head protocol =
     (let v = \<lparr>pl_entry_count = 0, pl_fields = 0, pl_legacy_action = -1, pl_entries = [],
           pl_legacy_name_layout = False, pl_field_mask_layout = False\<rparr>;
          read_count = rd_such mc_reader_varint
            (\<lambda>count. \<not> (sint count < 0 \<or> unat count > MC_MAX_PACKET_ARRAY_COUNT)) in
      if protocol \<le> 5 then rd_return (v\<lparr>pl_entry_count := 1, pl_legacy_name_layout := True\<rparr>)
      else if protocol \<le> 760 then rd_valid
        (rd_bind mc_reader_varint (\<lambda>action.
         case player_info_fields_from_action action of
           None \<Rightarrow> typed_invalid
         | Some flags \<Rightarrow>
             rd_bind read_count (\<lambda>count.
             rd_return (v\<lparr>pl_legacy_action := action, pl_fields := flags,
               pl_entry_count := ucast count\<rparr>))))
      else rd_valid
        (rd_bind mc_reader_u8 (\<lambda>wire.
         case player_info_fields_from_mask protocol wire of
           None \<Rightarrow> typed_invalid
         | Some flags \<Rightarrow>
             rd_bind (rd_test (flags \<noteq> 0)) (\<lambda>_. rd_bind read_count (\<lambda>count.
             rd_return (v\<lparr>pl_fields := flags, pl_entry_count := ucast count,
               pl_field_mask_layout := True\<rparr>))))))"

text \<open>The loop over the entries; in the name layout the one entry determines the fields.\<close>

primrec player_info_loop :: "int \<Rightarrow> mc_player_info \<Rightarrow> nat \<Rightarrow> u32 \<Rightarrow> u32 rd" where
  "player_info_loop protocol v 0 flags = rd_return flags"
| "player_info_loop protocol v (Suc n) flags =
     rd_bind (reader_player_info_entry protocol flags (pl_legacy_name_layout v)
       (pl_field_mask_layout v)) (\<lambda>entry.
     player_info_loop protocol v n (if pl_legacy_name_layout v then pe_fields entry else flags))"

definition mc_reader_clientbound_player_info :: "int \<Rightarrow> mc_player_info rd" where
  "mc_reader_clientbound_player_info protocol = rd_ready protocol
     (rd_bind (player_info_head protocol) (\<lambda>v.
      rd_bind (rd_capture (player_info_loop protocol v (unat (pl_entry_count v)) (pl_fields v)))
        (\<lambda>(flags, entries).
      rd_return (v\<lparr>pl_fields := flags, pl_entries := entries\<rparr>))))"

record mc_player_info_iter =
  pt_reader :: mc_reader
  pt_protocol :: int
  pt_remaining :: u32
  pt_fields :: u32
  pt_legacy_action :: i32
  pt_legacy_name_layout :: bool
  pt_field_mask_layout :: bool

definition mc_player_info_iterator :: "mc_player_info \<Rightarrow> int \<Rightarrow> mc_player_info_iter option" where
  "mc_player_info_iterator packet protocol =
     (if \<not> mc_protocol_supported protocol \<or> unat (pl_entry_count packet) > MC_MAX_PACKET_ARRAY_COUNT
      then None
      else Some \<lparr>pt_reader = view_reader (pl_entries packet), pt_protocol = protocol,
             pt_remaining = pl_entry_count packet, pt_fields = pl_fields packet,
             pt_legacy_action = pl_legacy_action packet,
             pt_legacy_name_layout = pl_legacy_name_layout packet,
             pt_field_mask_layout = pl_field_mask_layout packet\<rparr>)"

definition mc_player_info_iterator_next ::
  "mc_player_info_iter \<Rightarrow> mc_player_info_entry option \<times> mc_player_info_iter" where
  "mc_player_info_iterator_next it =
     (if pt_remaining it = 0 then (None, it)
      else case reader_player_info_entry (pt_protocol it) (pt_fields it) (pt_legacy_name_layout it)
                  (pt_field_mask_layout it) (pt_reader it) of
          (None, reader) \<Rightarrow> (None, it\<lparr>pt_reader := reader\<rparr>)
        | (Some entry, reader) \<Rightarrow>
            let remaining = pt_remaining it - 1 in
            case last_of_view (remaining = 0) reader of
              (None, reader') \<Rightarrow> (None, it\<lparr>pt_reader := reader', pt_remaining := remaining\<rparr>)
            | (Some _, reader') \<Rightarrow> (Some entry, it\<lparr>pt_reader := reader', pt_remaining := remaining\<rparr>))"

record mc_player_remove =
  pr_profile_count :: u32
  pr_profile_ids :: "u8 list"

definition mc_reader_clientbound_player_remove :: "int \<Rightarrow> mc_player_remove rd" where
  "mc_reader_clientbound_player_remove protocol = rd_ready protocol
     (if protocol < 761 then rd_here (\<lambda>off. reader_fail MC_ERROR_UNSUPPORTED_PROTOCOL off)
      else
        rd_bind (rd_valid (rd_such mc_reader_varint
          (\<lambda>count. \<not> (sint count < 0 \<or> unat count > MC_MAX_PACKET_ARRAY_COUNT)))) (\<lambda>count.
        rd_bind (rd_capture (rd_repeat (unat count) (rd_ignore mc_reader_uuid))) (\<lambda>(_, profile_ids).
        rd_return \<lparr>pr_profile_count = ucast count, pr_profile_ids = profile_ids\<rparr>)))"

record mc_uuid_iterator =
  ui_reader :: mc_reader
  ui_remaining :: u32

definition mc_player_remove_iterator :: "mc_player_remove \<Rightarrow> mc_uuid_iterator option" where
  "mc_player_remove_iterator packet =
     (if unat (pr_profile_count packet) > MC_MAX_PACKET_ARRAY_COUNT then None
      else Some \<lparr>ui_reader = view_reader (pr_profile_ids packet),
             ui_remaining = pr_profile_count packet\<rparr>)"

definition mc_uuid_iterator_next :: "mc_uuid_iterator \<Rightarrow> mc_uuid option \<times> mc_uuid_iterator" where
  "mc_uuid_iterator_next it =
     (if ui_remaining it = 0 then (None, it)
      else case mc_reader_uuid (ui_reader it) of
          (None, reader) \<Rightarrow> (None, it\<lparr>ui_reader := reader\<rparr>)
        | (Some profile_id, reader) \<Rightarrow>
            let remaining = ui_remaining it - 1 in
            case last_of_view (remaining = 0) reader of
              (None, reader') \<Rightarrow> (None, it\<lparr>ui_reader := reader', ui_remaining := remaining\<rparr>)
            | (Some _, reader') \<Rightarrow> (Some profile_id, it\<lparr>ui_reader := reader', ui_remaining := remaining\<rparr>))"

subsection \<open>Chat and clocks\<close>

record mc_system_chat =
  sc_content :: "u8 list"
  sc_sender :: mc_uuid
  sc_chat_type :: i32
  sc_position :: u8
  sc_overlay :: bool
  sc_content_is_nbt :: bool
  sc_has_sender :: bool
  sc_has_chat_type :: bool
  sc_has_position :: bool
  sc_has_overlay :: bool

definition mc_reader_clientbound_system_chat :: "int \<Rightarrow> mc_system_chat rd" where
  "mc_reader_clientbound_system_chat protocol = rd_ready protocol
     (rd_bind (if protocol \<ge> 765 then mc_reader_nbt False else mc_reader_string) (\<lambda>content.
      let v = \<lparr>sc_content = content, sc_sender = no_uuid, sc_chat_type = 0, sc_position = 0,
            sc_overlay = False, sc_content_is_nbt = (protocol \<ge> 765), sc_has_sender = False,
            sc_has_chat_type = False, sc_has_position = False, sc_has_overlay = False\<rparr> in
      if protocol \<le> 5 then rd_return v
      else if protocol \<le> 758 then
        rd_bind (rd_valid (rd_such mc_reader_u8 (\<lambda>position. \<not> position > 2))) (\<lambda>position.
        rd_bind (rd_when (protocol \<ge> 735) no_uuid mc_reader_uuid) (\<lambda>sender.
        rd_return (v\<lparr>sc_position := position, sc_has_position := True, sc_sender := sender,
          sc_has_sender := (protocol \<ge> 735)\<rparr>)))
      else if protocol = 759 then
        rd_bind (rd_valid (rd_such mc_reader_varint (\<lambda>chat_type. \<not> sint chat_type < 0))) (\<lambda>chat_type.
        rd_return (v\<lparr>sc_chat_type := chat_type, sc_has_chat_type := True\<rparr>))
      else
        rd_bind mc_reader_bool (\<lambda>overlay.
        rd_return (v\<lparr>sc_overlay := overlay, sc_has_overlay := True\<rparr>))))"

definition MC_MAX_CLOCK_UPDATE_COUNT :: nat where
  "MC_MAX_CLOCK_UPDATE_COUNT = 1024"

record mc_clock_update =
  ck_id :: i32
  ck_total_ticks :: i64
  ck_partial_tick :: f32
  ck_rate :: f32

definition reader_clock_update :: "mc_clock_update rd" where
  "reader_clock_update = rd_valid
     (rd_bind (rd_such mc_reader_varint (\<lambda>v. \<not> sint v < 0)) (\<lambda>clock.
      rd_bind mc_reader_varlong (\<lambda>total_ticks.
      rd_bind mc_reader_float (\<lambda>partial_tick. rd_bind mc_reader_float (\<lambda>rate.
      rd_bind (rd_test (f32_isfinite partial_tick \<and> f32_isfinite rate)) (\<lambda>_.
      rd_return \<lparr>ck_id = clock, ck_total_ticks = total_ticks, ck_partial_tick = partial_tick,
        ck_rate = rate\<rparr>))))))"

record mc_time_update =
  tu_age :: i64
  tu_time_of_day :: i64
  tu_clock_update_count :: u32
  tu_clock_updates :: "u8 list"
  tu_tick_day_time :: bool
  tu_has_time_of_day :: bool
  tu_has_tick_day_time :: bool
  tu_has_clock_updates :: bool

definition mc_reader_clientbound_time_update :: "int \<Rightarrow> mc_time_update rd" where
  "mc_reader_clientbound_time_update protocol = rd_ready protocol
     (rd_bind mc_reader_i64 (\<lambda>age.
      let v = \<lparr>tu_age = age, tu_time_of_day = 0, tu_clock_update_count = 0, tu_clock_updates = [],
            tu_tick_day_time = False, tu_has_time_of_day = False, tu_has_tick_day_time = False,
            tu_has_clock_updates = False\<rparr> in
      if protocol < 775 then
        rd_bind mc_reader_i64 (\<lambda>time_of_day.
        rd_bind (rd_when (protocol \<ge> 768) False mc_reader_bool) (\<lambda>tick_day_time.
        rd_return (v\<lparr>tu_time_of_day := time_of_day, tu_has_time_of_day := True,
          tu_tick_day_time := tick_day_time, tu_has_tick_day_time := (protocol \<ge> 768)\<rparr>)))
      else
        rd_bind mc_reader_varint (\<lambda>count.
        rd_bind (typed_count count MC_MAX_CLOCK_UPDATE_COUNT) (\<lambda>_.
        rd_bind (rd_capture (rd_repeat (unat count) (rd_ignore reader_clock_update))) (\<lambda>(_, clocks).
        rd_return (v\<lparr>tu_clock_update_count := ucast count, tu_has_clock_updates := True,
          tu_clock_updates := clocks\<rparr>))))))"

record mc_clock_iterator =
  kt_reader :: mc_reader
  kt_remaining :: u32

definition mc_time_update_iterator :: "mc_time_update \<Rightarrow> mc_clock_iterator option" where
  "mc_time_update_iterator packet =
     (if \<not> tu_has_clock_updates packet \<or> tu_has_time_of_day packet \<or> tu_has_tick_day_time packet
         \<or> unat (tu_clock_update_count packet) > MC_MAX_CLOCK_UPDATE_COUNT
         \<or> (tu_clock_update_count packet = 0 \<and> length (tu_clock_updates packet) \<noteq> 0)
         \<or> (tu_clock_update_count packet \<noteq> 0 \<and> length (tu_clock_updates packet) = 0)
      then None
      else Some \<lparr>kt_reader = view_reader (tu_clock_updates packet),
             kt_remaining = tu_clock_update_count packet\<rparr>)"

definition mc_time_update_iterator_next :: "mc_clock_iterator \<Rightarrow> mc_clock_update option \<times> mc_clock_iterator" where
  "mc_time_update_iterator_next it =
     (if kt_remaining it = 0 then (None, it)
      else case reader_clock_update (kt_reader it) of
          (None, reader) \<Rightarrow> (None, it\<lparr>kt_reader := reader\<rparr>)
        | (Some decoded, reader) \<Rightarrow>
            let remaining = kt_remaining it - 1 in
            case last_of_view (remaining = 0) reader of
              (None, reader') \<Rightarrow> (None, it\<lparr>kt_reader := reader', kt_remaining := remaining\<rparr>)
            | (Some _, reader') \<Rightarrow> (Some decoded, it\<lparr>kt_reader := reader', kt_remaining := remaining\<rparr>))"

subsection \<open>Relative movement\<close>

record mc_entity_movement =
  mo_entity_id :: i32
  mo_delta_x_raw :: i32
  mo_delta_y_raw :: i32
  mo_delta_z_raw :: i32
  mo_delta_x :: f64
  mo_delta_y :: f64
  mo_delta_z :: f64
  mo_yaw_raw :: u8
  mo_pitch_raw :: u8
  mo_yaw :: f32
  mo_pitch :: f32
  mo_on_ground :: bool
  mo_has_position :: bool
  mo_has_rotation :: bool
  mo_has_on_ground :: bool
  mo_step_count :: u32

definition movement_delta :: "nat \<Rightarrow> delta_sum \<Rightarrow> mc_entity_movement \<Rightarrow> mc_entity_movement" where
  "movement_delta scale moved v = (case moved of (x, y, z) \<Rightarrow>
     v\<lparr>mo_delta_x_raw := x, mo_delta_y_raw := y, mo_delta_z_raw := z,
       mo_delta_x := f64_quotient (sint x) scale, mo_delta_y := f64_quotient (sint y) scale,
       mo_delta_z := f64_quotient (sint z) scale\<rparr>)"

definition movement_rotated :: "bool \<Rightarrow> mc_entity_movement \<Rightarrow> mc_entity_movement rd" where
  "movement_rotated carries_rotation v = rd_when carries_rotation v
     (rd_bind mc_reader_u8 (\<lambda>yaw. rd_bind mc_reader_u8 (\<lambda>pitch.
      rd_return (v\<lparr>mo_yaw_raw := yaw, mo_pitch_raw := pitch, mo_yaw := angle_of_byte yaw,
        mo_pitch := angle_of_byte pitch\<rparr>))))"

definition movement_777 :: "bool \<Rightarrow> bool \<Rightarrow> mc_entity_movement \<Rightarrow> mc_entity_movement rd" where
  "movement_777 carries_position carries_rotation v =
     rd_bind
       (if carries_position then
          rd_bind read_vec_delta_777 (\<lambda>(on_ground, moved, steps).
          rd_return (movement_delta 4096 moved (v\<lparr>mo_on_ground := on_ground, mo_step_count := steps\<rparr>)))
        else
          rd_bind mc_reader_bool (\<lambda>on_ground. rd_return (v\<lparr>mo_on_ground := on_ground\<rparr>))) (\<lambda>v.
     movement_rotated carries_rotation v)"

definition movement_earlier :: "int \<Rightarrow> bool \<Rightarrow> bool \<Rightarrow> mc_entity_movement \<Rightarrow> mc_entity_movement rd" where
  "movement_earlier protocol carries_position carries_rotation v =
     rd_bind
       (if carries_position \<and> protocol \<le> 47 then
          rd_bind mc_reader_i8 (\<lambda>x. rd_bind mc_reader_i8 (\<lambda>y. rd_bind mc_reader_i8 (\<lambda>z.
          rd_return (movement_delta 32 (scast x, scast y, scast z) v))))
        else if carries_position then
          rd_bind read_delta (\<lambda>(x, y, z).
          rd_return (movement_delta 4096 (scast x, scast y, scast z) v))
        else rd_return v) (\<lambda>v.
     rd_bind (movement_rotated carries_rotation v) (\<lambda>v.
     rd_bind (rd_when (mo_has_on_ground v) False mc_reader_bool) (\<lambda>on_ground.
     rd_return (v\<lparr>mo_on_ground := on_ground\<rparr>))))"

definition reader_clientbound_entity_movement :: "int \<Rightarrow> bool \<Rightarrow> bool \<Rightarrow> mc_entity_movement rd" where
  "reader_clientbound_entity_movement protocol carries_position carries_rotation = rd_ready protocol
     (rd_bind (read_entity_id protocol) (\<lambda>entity_id.
      rd_bind (rd_check (\<not> sint entity_id < 0)) (\<lambda>_.
      let v = \<lparr>mo_entity_id = entity_id, mo_delta_x_raw = 0, mo_delta_y_raw = 0, mo_delta_z_raw = 0,
            mo_delta_x = 0, mo_delta_y = 0, mo_delta_z = 0, mo_yaw_raw = 0, mo_pitch_raw = 0,
            mo_yaw = 0, mo_pitch = 0, mo_on_ground = False, mo_has_position = carries_position,
            mo_has_rotation = carries_rotation, mo_has_on_ground = (protocol > 5),
            mo_step_count = 0\<rparr> in
      if protocol \<ge> 777 then movement_777 carries_position carries_rotation v
      else movement_earlier protocol carries_position carries_rotation v)))"

definition mc_reader_clientbound_entity_move :: "int \<Rightarrow> mc_entity_movement rd" where
  "mc_reader_clientbound_entity_move protocol = reader_clientbound_entity_movement protocol True False"

definition mc_reader_clientbound_entity_move_look :: "int \<Rightarrow> mc_entity_movement rd" where
  "mc_reader_clientbound_entity_move_look protocol = reader_clientbound_entity_movement protocol True True"

definition mc_reader_clientbound_entity_look :: "int \<Rightarrow> mc_entity_movement rd" where
  "mc_reader_clientbound_entity_look protocol = reader_clientbound_entity_movement protocol False True"

subsection \<open>Laws\<close>

text \<open>The two readers of profile properties, of a spawn and of the player list, are the same loop.\<close>

lemma player_info_property_profile: "player_info_property = profile_property"
  by (simp add: player_info_property_def profile_property_def)

lemmas reporting_uuid [rd_checked] = checked_reporting [OF checked_uuid]

lemma checked_player_info_parts [rd_checked]:
  "checked_op (reader_player_info_properties v)"
  "checked_op (reader_player_info_optional_display protocol v)"
  "checked_op (reader_player_info_public_key has_session_id v)"
  unfolding reader_player_info_properties_def player_info_property_profile profile_property_def
    reader_player_info_optional_display_def reader_player_info_public_key_def
  by (intro rd_checked)+

lemmas reporting_player_properties [rd_checked] = checked_reporting [OF checked_player_info_parts(1)]

lemma checked_player_info_entry [rd_checked]:
  "checked_op (reader_player_info_entry protocol flags legacy_name_layout field_mask_layout)"
  unfolding reader_player_info_entry_def entry_legacy_name_def entry_by_action_def entry_by_mask_def
    entry_player_def entry_game_mode_def entry_latency_def entry_display_def entry_listed_def
    entry_list_order_def entry_hat_def Let_def
  by (intro rd_checked)

lemma reporting_option [rd_checked]:
  "reporting_op h \<Longrightarrow> (\<And>x. reporting_op (f x)) \<Longrightarrow> reporting_op (case p of None \<Rightarrow> h | Some x \<Rightarrow> f x)"
  by (cases p) simp_all

lemma checked_player_info_head [rd_checked]: "checked_op (player_info_head protocol)"
  unfolding player_info_head_def Let_def by (intro rd_checked)

lemma checked_player_info_loop [rd_checked]: "checked_op (player_info_loop protocol v n flags)"
  by (induction n arbitrary: flags) (auto intro!: rd_checked)

lemma checked_player_info [rd_checked]:
  "mc_protocol_supported protocol \<Longrightarrow> checked_op (mc_reader_clientbound_player_info protocol)"
  unfolding mc_reader_clientbound_player_info_def by (intro rd_checked)

lemma checked_player_remove [rd_checked]:
  "mc_protocol_supported protocol \<Longrightarrow> checked_op (mc_reader_clientbound_player_remove protocol)"
  unfolding mc_reader_clientbound_player_remove_def by (intro rd_checked) simp_all

lemma checked_system_chat [rd_checked]:
  "mc_protocol_supported protocol \<Longrightarrow> checked_op (mc_reader_clientbound_system_chat protocol)"
  unfolding mc_reader_clientbound_system_chat_def Let_def by (intro rd_checked)

lemma checked_clock_update [rd_checked]: "checked_op reader_clock_update"
  unfolding reader_clock_update_def by (intro rd_checked)

lemma checked_time_update [rd_checked]:
  "mc_protocol_supported protocol \<Longrightarrow> checked_op (mc_reader_clientbound_time_update protocol)"
  unfolding mc_reader_clientbound_time_update_def Let_def by (intro rd_checked)

lemma checked_relative_movement [rd_checked]:
  "mc_protocol_supported protocol
   \<Longrightarrow> checked_op (reader_clientbound_entity_movement protocol carries_position carries_rotation)"
  unfolding reader_clientbound_entity_movement_def movement_777_def movement_earlier_def
    movement_rotated_def Let_def
  by (intro rd_checked)

end
