(* ===== verification/Typed_World.thy ===== *)
theory Typed_World
  imports Player_Readers
begin

text \<open>
  The typed decoders of \<open>api.c\<close> for passengers, respawns and chunks, from
  \<open>typed_decode_attach_entity\<close> to \<open>mc_chunk_section_block_state\<close>. \<open>zl\<close> is \<open>inflate\<close> of zlib on the
  chunk data of the 1.7 layout, as \<open>gz\<close> is on gzip data.
\<close>

subsection \<open>Small packets\<close>

record mc_attach_entity =
  at_entity_id :: i32
  at_vehicle_id :: i32
  at_leash :: bool
  at_has_leash :: bool

definition typed_decode_attach_entity :: "int \<Rightarrow> mc_attach_entity rd" where
  "typed_decode_attach_entity protocol =
     rd_bind mc_reader_i32 (\<lambda>entity_id. rd_bind mc_reader_i32 (\<lambda>vehicle_id.
     rd_bind (rd_when (protocol \<le> 47) False mc_reader_bool) (\<lambda>leash.
     rd_return \<lparr>at_entity_id = entity_id, at_vehicle_id = vehicle_id, at_leash = leash,
       at_has_leash = (protocol \<le> 47)\<rparr>)))"

record mc_passengers =
  pg_entity_id :: i32
  pg_passenger_count :: u32
  pg_passengers :: "u8 list"

definition typed_decode_passengers :: "mc_passengers rd" where
  "typed_decode_passengers =
     rd_bind mc_reader_varint (\<lambda>entity_id. rd_bind mc_reader_varint (\<lambda>count.
     rd_bind (typed_count count MC_MAX_PACKET_ARRAY_COUNT) (\<lambda>_.
     rd_bind (rd_capture (rd_repeat (unat count) skip_nonnegative)) (\<lambda>(_, passengers).
     rd_bind (rd_check (\<not> sint entity_id < 0)) (\<lambda>_.
     rd_return \<lparr>pg_entity_id = entity_id, pg_passenger_count = ucast count,
       pg_passengers = passengers\<rparr>)))))"

record mc_unload_chunk =
  uc_chunk_x :: i32
  uc_chunk_z :: i32

definition typed_decode_unload_chunk :: "int \<Rightarrow> mc_unload_chunk rd" where
  "typed_decode_unload_chunk protocol =
     (if protocol \<ge> 764 then
        rd_bind mc_reader_i32 (\<lambda>z. rd_bind mc_reader_i32 (\<lambda>x.
        rd_return \<lparr>uc_chunk_x = x, uc_chunk_z = z\<rparr>))
      else
        rd_bind mc_reader_i32 (\<lambda>x. rd_bind mc_reader_i32 (\<lambda>z.
        rd_return \<lparr>uc_chunk_x = x, uc_chunk_z = z\<rparr>)))"

record mc_game_state_change =
  gs_reason :: u8
  gs_value :: f32

definition typed_decode_game_state :: "mc_game_state_change rd" where
  "typed_decode_game_state = rd_valid
     (rd_bind mc_reader_u8 (\<lambda>reason. rd_bind (rd_such mc_reader_float f32_isfinite) (\<lambda>v.
      rd_return \<lparr>gs_reason = reason, gs_value = v\<rparr>)))"

subsection \<open>Respawn\<close>

record mc_respawn_packet =
  rp_dimension_id :: i32
  rp_dimension :: "u8 list"
  rp_world_name :: "u8 list"
  rp_hashed_seed :: i64
  rp_game_mode :: i32
  rp_previous_game_mode :: i32
  rp_portal_cooldown :: i32
  rp_sea_level :: i32
  rp_raw_flags :: u32
  rp_death_location :: "u8 list"
  rp_has_dimension_id :: bool
  rp_has_dimension_data :: bool
  rp_has_world_name :: bool
  rp_has_hashed_seed :: bool
  rp_has_previous_game_mode :: bool
  rp_has_death_location :: bool
  rp_has_portal_cooldown :: bool
  rp_has_sea_level :: bool

definition respawn_packet_start :: mc_respawn_packet where
  "respawn_packet_start =
     \<lparr>rp_dimension_id = 0, rp_dimension = [], rp_world_name = [], rp_hashed_seed = 0,
      rp_game_mode = 0, rp_previous_game_mode = 0, rp_portal_cooldown = 0, rp_sea_level = 0,
      rp_raw_flags = 0, rp_death_location = [], rp_has_dimension_id = False,
      rp_has_dimension_data = False, rp_has_world_name = False, rp_has_hashed_seed = False,
      rp_has_previous_game_mode = False, rp_has_death_location = False,
      rp_has_portal_cooldown = False, rp_has_sea_level = False\<rparr>"

definition typed_read_death_location :: "int \<Rightarrow> mc_respawn_packet \<Rightarrow> mc_respawn_packet rd" where
  "typed_read_death_location protocol v =
     rd_bind mc_reader_bool (\<lambda>present.
     if \<not> present then rd_return v
     else
       rd_bind (rd_capture (rd_valid
         (rd_bind (rd_such (mc_reader_string_bounded 32767) (\<lambda>dimension. length dimension \<noteq> 0)) (\<lambda>_.
          rd_ignore (mc_reader_position protocol))))) (\<lambda>(_, location).
       rd_return (v\<lparr>rp_has_death_location := True, rp_death_location := location\<rparr>)))"

definition typed_respawn_legacy :: "int \<Rightarrow> mc_respawn_packet rd" where
  "typed_respawn_legacy protocol =
     rd_bind mc_reader_i32 (\<lambda>dimension_id.
     rd_bind (rd_when (protocol \<le> 404) 0
       (rd_valid (rd_such mc_reader_u8 (\<lambda>difficulty. \<not> difficulty > 3)))) (\<lambda>difficulty.
     rd_bind (rd_when (protocol \<ge> 573) 0 mc_reader_i64) (\<lambda>seed.
     rd_bind (rd_valid
       (rd_bind mc_reader_u8 (\<lambda>game_mode.
        rd_bind (rd_such (mc_reader_string_bounded 64) (\<lambda>dimension. length dimension \<noteq> 0)) (\<lambda>dimension.
        rd_return (game_mode, dimension))))) (\<lambda>(game_mode, dimension).
     rd_return (respawn_packet_start
       \<lparr>rp_has_dimension_id := True, rp_dimension_id := dimension_id,
        rp_raw_flags := ucast difficulty, rp_has_hashed_seed := (protocol \<ge> 573),
        rp_hashed_seed := seed, rp_has_dimension_data := True, rp_dimension := dimension,
        rp_game_mode := ucast game_mode\<rparr>)))))"

definition typed_respawn_dimension :: "int \<Rightarrow> mc_respawn_packet rd" where
  "typed_respawn_dimension protocol =
     (let v = respawn_packet_start in
      if protocol \<ge> 766 then
        rd_bind (rd_valid (rd_such mc_reader_varint (\<lambda>dimension. \<not> sint dimension < 0))) (\<lambda>dimension.
        rd_return (v\<lparr>rp_has_dimension_id := True, rp_dimension_id := dimension\<rparr>))
      else if protocol < 751 \<or> protocol \<ge> 759 then
        rd_bind (rd_valid (rd_such (mc_reader_string_bounded 32767)
          (\<lambda>dimension. length dimension \<noteq> 0))) (\<lambda>dimension.
        rd_return (v\<lparr>rp_has_dimension_data := True, rp_dimension := dimension\<rparr>))
      else
        rd_bind (mc_reader_nbt True) (\<lambda>dimension.
        rd_return (v\<lparr>rp_has_dimension_data := True, rp_dimension := dimension\<rparr>)))"

definition respawn_add_flags :: "u32 \<Rightarrow> mc_respawn_packet \<Rightarrow> mc_respawn_packet" where
  "respawn_add_flags flags v = v\<lparr>rp_raw_flags := rp_raw_flags v OR flags\<rparr>"

definition respawn_copy_bool :: "mc_respawn_packet \<Rightarrow> mc_respawn_packet rd" where
  "respawn_copy_bool v =
     rd_bind mc_reader_bool (\<lambda>copy_metadata.
     rd_return (if copy_metadata then respawn_add_flags 0x100 v else v))"

definition respawn_portal :: "mc_respawn_packet \<Rightarrow> mc_respawn_packet rd" where
  "respawn_portal v =
     rd_bind (rd_valid (rd_such mc_reader_varint (\<lambda>cooldown. \<not> sint cooldown < 0))) (\<lambda>cooldown.
     rd_return (v\<lparr>rp_has_portal_cooldown := True, rp_portal_cooldown := cooldown\<rparr>))"

definition typed_respawn_tail :: "int \<Rightarrow> mc_respawn_packet \<Rightarrow> mc_respawn_packet rd" where
  "typed_respawn_tail protocol v =
     (if protocol < 759 then respawn_copy_bool v
      else if protocol \<le> 763 then
        rd_bind mc_reader_bool (\<lambda>copy_metadata.
        rd_bind (typed_read_death_location protocol v) (\<lambda>v.
        let v = (if copy_metadata then respawn_add_flags 0x100 v else v) in
        if protocol = 763 then respawn_portal v else rd_return v))
      else
        rd_bind (typed_read_death_location protocol v) (\<lambda>v.
        rd_bind (respawn_portal v) (\<lambda>v.
        rd_bind (if protocol \<ge> 768 then
                   rd_bind mc_reader_varint (\<lambda>sea_level.
                   rd_return (v\<lparr>rp_has_sea_level := True, rp_sea_level := sea_level\<rparr>))
                 else rd_return v) (\<lambda>v.
        if protocol \<ge> 766 then
          rd_strict (\<lambda>strict.
          rd_bind (rd_valid (rd_such mc_reader_u8 (\<lambda>keep. \<not> (strict \<and> keep AND 0xfc \<noteq> 0)))) (\<lambda>keep.
          rd_return (respawn_add_flags (push_bit 8 (ucast keep)) v)))
        else respawn_copy_bool v))))"

definition typed_respawn_modern :: "int \<Rightarrow> mc_respawn_packet rd" where
  "typed_respawn_modern protocol =
     rd_bind (typed_respawn_dimension protocol) (\<lambda>v.
     rd_bind (rd_valid
       (rd_bind (rd_such (mc_reader_string_bounded 32767) (\<lambda>world. length world \<noteq> 0)) (\<lambda>world.
        rd_bind mc_reader_i64 (\<lambda>seed. rd_bind mc_reader_u8 (\<lambda>game_mode.
        rd_bind mc_reader_u8 (\<lambda>previous. rd_return (world, seed, game_mode, previous))))))) (\<lambda>(world, seed, modes).
     rd_bind mc_reader_bool (\<lambda>debug. rd_bind mc_reader_bool (\<lambda>flat.
     case modes of (game_mode, previous) \<Rightarrow>
     typed_respawn_tail protocol (v\<lparr>rp_world_name := world, rp_has_world_name := True,
       rp_hashed_seed := seed, rp_has_hashed_seed := True, rp_has_previous_game_mode := True,
       rp_game_mode := ucast game_mode,
       rp_previous_game_mode := (if previous = 0xff then -1 else ucast previous),
       rp_raw_flags := (if debug then 1 else 0) OR (if flat then 2 else 0)\<rparr>)))))"

definition typed_decode_respawn :: "int \<Rightarrow> mc_respawn_packet rd" where
  "typed_decode_respawn protocol =
     rd_bind (if protocol < 735 then typed_respawn_legacy protocol else typed_respawn_modern protocol) (\<lambda>v.
     rd_bind (rd_check (\<not> (rp_game_mode v AND NOT 0x0b \<noteq> 0
         \<or> sint (rp_previous_game_mode v) < -1 \<or> sint (rp_previous_game_mode v) > 3))) (\<lambda>_.
     rd_return v))"

subsection \<open>Parts of a chunk\<close>

definition MC_MAX_CHUNK_SECTIONS :: nat where "MC_MAX_CHUNK_SECTIONS = 1024"
definition MC_MAX_CHUNK_BLOCK_ENTITIES :: nat where "MC_MAX_CHUNK_BLOCK_ENTITIES = 65536"
definition MC_MAX_CHUNK_LIGHT_ARRAYS :: nat where "MC_MAX_CHUNK_LIGHT_ARRAYS = 1024"
definition MC_DEFAULT_MAX_DECOMPRESSED_SIZE :: nat where
  "MC_DEFAULT_MAX_DECOMPRESSED_SIZE = 16 * 1024 * 1024"

fun zlib_loop :: "gz_call list \<Rightarrow> nat \<Rightarrow> nat \<Rightarrow> unit rd" where
  "zlib_loop [] maximum produced = rd_here (\<lambda>off. reader_fail MC_ERROR_ZLIB off)"
| "zlib_loop ((result, out, avail_in) # calls) maximum produced =
     (if length out > maximum - produced
      then rd_here (\<lambda>off. reader_fail MC_ERROR_DECOMPRESSED_TOO_LARGE off)
      else if result = GZ_OK \<and> \<not> (length out \<noteq> 4096 \<and> avail_in = 0)
      then zlib_loop calls maximum (produced + length out)
      else if result = GZ_STREAM_END \<and> avail_in = 0 then rd_return ()
      else rd_here (\<lambda>off. reader_fail MC_ERROR_ZLIB off))"

definition typed_validate_zlib_blob :: "gz_inflate \<Rightarrow> u8 list \<Rightarrow> nat \<Rightarrow> unit rd" where
  "typed_validate_zlib_blob zl compressed maximum =
     (if length compressed = 0 \<or> length compressed > UINT_MAX then typed_invalid
      else case zl compressed of
          None \<Rightarrow> rd_here (\<lambda>off. reader_fail MC_ERROR_ZLIB off)
        | Some calls \<Rightarrow> zlib_loop calls maximum 0)"

definition typed_read_nbt_array :: "int \<Rightarrow> nat \<Rightarrow> (u32 \<times> u8 list) rd" where
  "typed_read_nbt_array protocol maximum =
     rd_bind mc_reader_varint (\<lambda>count. rd_bind (typed_count count maximum) (\<lambda>_.
     rd_bind (rd_capture (rd_repeat (unat count) (rd_ignore (mc_reader_nbt (protocol < 764)))))
       (\<lambda>(_, encoded). rd_return (ucast count, encoded))))"

definition chunk_block_entity :: "int \<Rightarrow> unit rd" where
  "chunk_block_entity protocol =
     rd_bind (rd_when (protocol \<ge> 757) () (rd_valid
       (rd_bind (mc_reader_skip 1) (\<lambda>_. rd_bind mc_reader_i16 (\<lambda>y.
        rd_ignore (rd_such mc_reader_varint (\<lambda>t. \<not> sint t < 0))))))) (\<lambda>_.
     rd_ignore (mc_reader_nbt (protocol < 764)))"

definition typed_read_chunk_block_entities :: "int \<Rightarrow> (u32 \<times> u8 list) rd" where
  "typed_read_chunk_block_entities protocol =
     rd_bind mc_reader_varint (\<lambda>count. rd_bind (typed_count count MC_MAX_CHUNK_BLOCK_ENTITIES) (\<lambda>_.
     rd_bind (rd_capture (rd_repeat (unat count) (chunk_block_entity protocol)))
       (\<lambda>(_, encoded). rd_return (ucast count, encoded))))"

primrec read_longs :: "nat \<Rightarrow> u64 list rd" where
  "read_longs 0 = rd_return []"
| "read_longs (Suc n) = rd_bind mc_reader_u64 (\<lambda>w. rd_bind (read_longs n) (\<lambda>ws. rd_return (w # ws)))"

text \<open>The count and the first word, zero if there is none.\<close>

definition typed_read_long_array :: "nat \<Rightarrow> (u32 \<times> u64) rd" where
  "typed_read_long_array maximum =
     rd_bind mc_reader_varint (\<lambda>count. rd_bind (typed_count count maximum) (\<lambda>_.
     rd_bind (read_longs (unat count)) (\<lambda>ws.
     rd_return (ucast count, case ws of [] \<Rightarrow> 0 | w # _ \<Rightarrow> w))))"

definition typed_read_registry_heightmaps :: "u8 list rd" where
  "typed_read_registry_heightmaps =
     rd_bind (rd_capture
       (rd_bind (rd_valid (rd_such mc_reader_varint (\<lambda>count. \<not> (sint count < 0 \<or> sint count > 16)))) (\<lambda>count.
        rd_repeat (unat count) (rd_valid
          (rd_bind (rd_such mc_reader_varint (\<lambda>t. \<not> sint t < 0)) (\<lambda>_.
           rd_ignore (typed_read_long_array 64))))))) (\<lambda>(_, heightmaps). rd_return heightmaps)"

definition chunk_biome_count :: "int \<Rightarrow> bool \<Rightarrow> u32 rd" where
  "chunk_biome_count protocol ground_up =
     (if protocol \<ge> 573 \<and> protocol \<le> 736 then
        (if \<not> ground_up then rd_return 0
         else rd_bind (mc_reader_skip (1024 * 4)) (\<lambda>_. rd_return 1024))
      else if protocol \<ge> 751 \<and> protocol \<le> 756 then
        (if protocol \<le> 754 \<and> \<not> ground_up then rd_return 0
         else
           rd_bind (rd_valid (rd_such mc_reader_varint (\<lambda>count. \<not> (sint count < 0 \<or> sint count > 1024))))
             (\<lambda>count. rd_bind (rd_repeat (unat count) skip_nonnegative) (\<lambda>_. rd_return (ucast count))))
      else rd_return 0)"

definition typed_read_chunk_biomes :: "int \<Rightarrow> bool \<Rightarrow> (u32 \<times> u8 list) rd" where
  "typed_read_chunk_biomes protocol ground_up = rd_capture (chunk_biome_count protocol ground_up)"

definition typed_read_bitset_bytes :: "nat \<Rightarrow> unit rd" where
  "typed_read_bitset_bytes max_bytes =
     rd_bind mc_reader_buffer_varint (\<lambda>bytes. rd_strict (\<lambda>strict.
     rd_check (\<not> (length bytes > max_bytes
       \<or> (strict \<and> length bytes > 0 \<and> bytes ! (length bytes - 1) = 0)))))"

definition typed_read_light_arrays :: "u32 rd" where
  "typed_read_light_arrays =
     rd_bind mc_reader_varint (\<lambda>count. rd_bind (typed_count count MC_MAX_CHUNK_LIGHT_ARRAYS) (\<lambda>_.
     rd_strict (\<lambda>strict.
     rd_bind (rd_repeat (unat count) (rd_valid (rd_ignore (rd_such mc_reader_buffer_varint
       (\<lambda>light. \<not> (length light > 2048 \<or> (strict \<and> length light \<noteq> 2048))))))) (\<lambda>_.
     rd_return (ucast count)))))"

subsection \<open>Chunks\<close>

datatype mc_chunk_heightmap_format =
    MC_CHUNK_HEIGHTMAP_NONE | MC_CHUNK_HEIGHTMAP_NAMED_NBT | MC_CHUNK_HEIGHTMAP_ANONYMOUS_NBT
  | MC_CHUNK_HEIGHTMAP_REGISTRY

record mc_chunk =
  ch_chunk_x :: i32
  ch_chunk_z :: i32
  ch_section_mask :: u64
  ch_section_mask_word_count :: u32
  ch_biome_count :: u32
  ch_block_entity_count :: u32
  ch_sky_light_count :: u32
  ch_block_light_count :: u32
  ch_heightmaps :: "u8 list"
  ch_biomes :: "u8 list"
  ch_chunk_data :: "u8 list"
  ch_block_entities :: "u8 list"
  ch_light_data :: "u8 list"
  ch_heightmap_format :: mc_chunk_heightmap_format
  ch_ground_up :: bool
  ch_ignore_old_data :: bool
  ch_trust_edges :: bool
  ch_has_trust_edges :: bool

definition chunk_start :: "i32 \<Rightarrow> i32 \<Rightarrow> mc_chunk" where
  "chunk_start x z =
     \<lparr>ch_chunk_x = x, ch_chunk_z = z, ch_section_mask = 0, ch_section_mask_word_count = 0,
      ch_biome_count = 0, ch_block_entity_count = 0, ch_sky_light_count = 0,
      ch_block_light_count = 0, ch_heightmaps = [], ch_biomes = [], ch_chunk_data = [],
      ch_block_entities = [], ch_light_data = [], ch_heightmap_format = MC_CHUNK_HEIGHTMAP_NONE,
      ch_ground_up = False, ch_ignore_old_data = False, ch_trust_edges = False,
      ch_has_trust_edges = False\<rparr>"

definition chunk_17 :: "gz_inflate \<Rightarrow> mc_chunk \<Rightarrow> mc_chunk rd" where
  "chunk_17 zl v =
     rd_bind mc_reader_bool (\<lambda>ground_up. rd_bind mc_reader_u16 (\<lambda>sections.
     rd_bind mc_reader_u16 (\<lambda>add_sections. rd_bind mc_reader_buffer_i32 (\<lambda>chunk_data.
     rd_bind (typed_validate_zlib_blob zl chunk_data MC_DEFAULT_MAX_DECOMPRESSED_SIZE) (\<lambda>_.
     rd_return (v\<lparr>ch_ground_up := ground_up, ch_chunk_data := chunk_data,
       ch_section_mask := ucast sections, ch_section_mask_word_count := 1,
       ch_ignore_old_data := (add_sections \<noteq> 0)\<rparr>))))))"

definition chunk_18 :: "mc_chunk \<Rightarrow> mc_chunk rd" where
  "chunk_18 v =
     rd_bind mc_reader_bool (\<lambda>ground_up. rd_bind mc_reader_u16 (\<lambda>sections.
     rd_bind mc_reader_buffer_varint (\<lambda>chunk_data.
     rd_return (v\<lparr>ch_ground_up := ground_up, ch_chunk_data := chunk_data,
       ch_section_mask := ucast sections, ch_section_mask_word_count := 1\<rparr>))))"

definition chunk_sections :: "int \<Rightarrow> mc_chunk \<Rightarrow> mc_chunk rd" where
  "chunk_sections protocol v =
     (if protocol \<le> 754 then
        rd_bind mc_reader_bool (\<lambda>ground_up.
        rd_bind (rd_when (protocol = 735 \<or> protocol = 736) False mc_reader_bool) (\<lambda>ignore_old_data.
        rd_bind (rd_valid (rd_such mc_reader_varint (\<lambda>sections. \<not> sint sections < 0))) (\<lambda>sections.
        rd_return (v\<lparr>ch_ground_up := ground_up, ch_ignore_old_data := ignore_old_data,
          ch_section_mask := ucast sections, ch_section_mask_word_count := 1\<rparr>))))
      else
        rd_bind (typed_read_long_array 64) (\<lambda>(count, first).
        rd_return (v\<lparr>ch_ground_up := True, ch_section_mask_word_count := count,
          ch_section_mask := first\<rparr>)))"

definition chunk_116 :: "int \<Rightarrow> mc_chunk \<Rightarrow> mc_chunk rd" where
  "chunk_116 protocol v =
     rd_bind (chunk_sections protocol v) (\<lambda>v.
     rd_bind (if protocol \<ge> 477 then
                rd_bind (mc_reader_nbt True) (\<lambda>heightmaps.
                rd_return (v\<lparr>ch_heightmap_format := MC_CHUNK_HEIGHTMAP_NAMED_NBT,
                  ch_heightmaps := heightmaps\<rparr>))
              else rd_return v) (\<lambda>v.
     rd_bind (typed_read_chunk_biomes protocol (ch_ground_up v)) (\<lambda>(biome_count, biomes).
     rd_bind mc_reader_buffer_varint (\<lambda>chunk_data.
     rd_bind (rd_when (protocol \<ge> 110) (0, [])
       (typed_read_nbt_array protocol MC_MAX_CHUNK_BLOCK_ENTITIES)) (\<lambda>(entity_count, entities).
     rd_return (v\<lparr>ch_biome_count := biome_count, ch_biomes := biomes, ch_chunk_data := chunk_data,
       ch_block_entity_count := entity_count, ch_block_entities := entities\<rparr>))))))"

definition chunk_light :: "int \<Rightarrow> (bool \<times> u32 \<times> u32) rd" where
  "chunk_light protocol =
     rd_bind (rd_when (protocol \<le> 762) False mc_reader_bool) (\<lambda>trust_edges.
     rd_bind (rd_repeat 4
       (if protocol \<ge> 777 then typed_read_bitset_bytes (MC_MAX_CHUNK_SECTIONS * 8)
        else rd_ignore (typed_read_long_array MC_MAX_CHUNK_SECTIONS))) (\<lambda>_.
     rd_bind typed_read_light_arrays (\<lambda>sky. rd_bind typed_read_light_arrays (\<lambda>block.
     rd_return (trust_edges, sky, block)))))"

definition chunk_118 :: "int \<Rightarrow> mc_chunk \<Rightarrow> mc_chunk rd" where
  "chunk_118 protocol v =
     rd_bind (if protocol \<ge> 770 then typed_read_registry_heightmaps else mc_reader_nbt (protocol < 764))
       (\<lambda>heightmaps.
     rd_bind mc_reader_buffer_varint (\<lambda>chunk_data.
     rd_bind (typed_read_chunk_block_entities protocol) (\<lambda>(entity_count, entities).
     rd_bind (rd_capture (chunk_light protocol)) (\<lambda>(light, light_data). case light of (trust_edges, sky, block) \<Rightarrow>
     rd_return (v\<lparr>ch_ground_up := True,
       ch_heightmap_format := (if protocol \<ge> 770 then MC_CHUNK_HEIGHTMAP_REGISTRY
         else if protocol < 764 then MC_CHUNK_HEIGHTMAP_NAMED_NBT
         else MC_CHUNK_HEIGHTMAP_ANONYMOUS_NBT),
       ch_heightmaps := heightmaps, ch_chunk_data := chunk_data,
       ch_block_entity_count := entity_count, ch_block_entities := entities,
       ch_has_trust_edges := (protocol \<le> 762), ch_trust_edges := trust_edges,
       ch_sky_light_count := sky, ch_block_light_count := block, ch_light_data := light_data\<rparr>)))))"

definition typed_decode_chunk :: "gz_inflate \<Rightarrow> int \<Rightarrow> mc_chunk rd" where
  "typed_decode_chunk zl protocol =
     rd_bind mc_reader_i32 (\<lambda>x. rd_bind mc_reader_i32 (\<lambda>z.
     if protocol \<le> 5 then chunk_17 zl (chunk_start x z)
     else if protocol = 47 then chunk_18 (chunk_start x z)
     else if protocol < 757 then chunk_116 protocol (chunk_start x z)
     else chunk_118 protocol (chunk_start x z)))"

subsection \<open>Chunk sections\<close>

record typed_palette =
  tp_bits :: u8
  tp_palette_count :: u32
  tp_long_count :: u32
  tp_palette :: "u8 list"
  tp_data :: "u8 list"

definition no_palette :: typed_palette where
  "no_palette = \<lparr>tp_bits = 0, tp_palette_count = 0, tp_long_count = 0, tp_palette = [], tp_data = []\<rparr>"

text \<open>The count and the view of the entries; a direct palette has neither.\<close>

definition palette_entries :: "u8 \<Rightarrow> u8 \<Rightarrow> (u32 \<times> u8 list) rd" where
  "palette_entries bits indirect_max_bits =
     (if bits = 0 then
        rd_bind (rd_capture skip_nonnegative) (\<lambda>(_, entries). rd_return (1, entries))
      else if bits \<le> indirect_max_bits then
        rd_bind (rd_valid (rd_such mc_reader_varint
          (\<lambda>count. \<not> (sint count \<le> 0 \<or> unat count > 2 ^ unat bits)))) (\<lambda>count.
        rd_bind (rd_capture (rd_repeat (unat count) skip_nonnegative)) (\<lambda>(_, entries).
        rd_return (ucast count, entries)))
      else rd_return (0, []))"

definition palette_longs :: "nat \<Rightarrow> u8 \<Rightarrow> bool \<Rightarrow> nat" where
  "palette_longs entry_count bits padded_storage =
     (if bits = 0 then 0
      else
        let values_per_long = 64 div unat bits in
        if padded_storage then (entry_count + values_per_long - 1) div values_per_long
        else (entry_count * unat bits + 63) div 64)"

definition palette_long_count :: "nat \<Rightarrow> bool \<Rightarrow> u32 rd" where
  "palette_long_count expected fixed_storage =
     (if fixed_storage then rd_return (of_nat expected)
      else
        rd_bind (rd_valid (rd_such mc_reader_varint
          (\<lambda>count. \<not> (sint count < 0 \<or> unat count > MC_MAX_PACKET_ARRAY_COUNT)))) (\<lambda>count.
        rd_strict (\<lambda>strict.
        rd_bind (rd_check (\<not> (strict \<and> unat count \<noteq> expected))) (\<lambda>_. rd_return (ucast count)))))"

text \<open>The byte count of at most \<open>2 ^ 32\<close> words does not overflow a 64-bit size.\<close>

definition typed_read_palette :: "nat \<Rightarrow> u8 \<Rightarrow> u8 \<Rightarrow> bool \<Rightarrow> bool \<Rightarrow> typed_palette rd" where
  "typed_read_palette entry_count indirect_max_bits direct_max_bits padded_storage fixed_storage =
     rd_bind (rd_valid (rd_such mc_reader_u8 (\<lambda>bits. \<not> bits > direct_max_bits))) (\<lambda>bits.
     rd_bind (palette_entries bits indirect_max_bits) (\<lambda>(palette_count, palette).
     rd_bind (palette_long_count (palette_longs entry_count bits padded_storage) fixed_storage) (\<lambda>long_count.
     rd_bind (rd_capture (rd_orelse (mc_reader_skip (unat long_count * 8))
       (rd_here (\<lambda>off. reader_fail MC_ERROR_INTEGER_OVERFLOW off) :: unit rd))) (\<lambda>(_, bytes).
     rd_return \<lparr>tp_bits = bits, tp_palette_count = palette_count, tp_long_count = long_count,
       tp_palette = palette, tp_data = bytes\<rparr>))))"

record mc_chunk_section =
  se_non_air_block_count :: u16
  se_block_bits_per_entry :: u8
  se_biome_bits_per_entry :: u8
  se_block_palette_count :: u32
  se_biome_palette_count :: u32
  se_block_long_count :: u32
  se_biome_long_count :: u32
  se_block_palette :: "u8 list"
  se_biome_palette :: "u8 list"
  se_block_data :: "u8 list"
  se_biome_data :: "u8 list"
  se_encoded :: "u8 list"
  se_fluid_count :: u16
  se_has_fluid_count :: bool
  se_block_light :: "u8 list"
  se_sky_light :: "u8 list"
  se_has_non_air_block_count :: bool
  se_has_block_light :: bool
  se_has_sky_light :: bool
  se_block_storage_padded :: bool

definition section_light :: "u8 list rd" where
  "section_light =
     rd_bind (rd_capture (rd_valid (mc_reader_skip 2048))) (\<lambda>(_, light). rd_return light)"

definition chunk_section :: "int \<Rightarrow> mc_chunk_section rd" where
  "chunk_section protocol =
     (let fixed_storage = (protocol \<ge> 770) in
     rd_bind (rd_capture
       (rd_bind (rd_valid
          (rd_bind (rd_when (protocol \<ge> 477) 0 (rd_such mc_reader_u16 (\<lambda>n. \<not> n > 4096))) (\<lambda>non_air.
           rd_bind (rd_when (protocol \<ge> 775) 0 (rd_such mc_reader_u16 (\<lambda>n. \<not> n > 4096))) (\<lambda>fluid.
           rd_bind (typed_read_palette 4096 8 15 (protocol \<ge> 735) fixed_storage) (\<lambda>blocks.
           rd_return (non_air, fluid, blocks)))))) (\<lambda>(non_air, fluid, blocks).
        rd_bind (if protocol \<le> 404 then
                   rd_bind section_light (\<lambda>block_light. rd_bind section_light (\<lambda>sky_light.
                   rd_return (block_light, sky_light, no_palette)))
                 else
                   rd_bind (rd_when (protocol \<ge> 757) no_palette
                     (rd_valid (typed_read_palette 64 3 6 True fixed_storage))) (\<lambda>biomes.
                   rd_return ([], [], biomes))) (\<lambda>(block_light, sky_light, biomes).
        rd_strict (\<lambda>strict.
        rd_bind (rd_check (\<not> (strict \<and> tp_bits blocks > 0 \<and> tp_bits blocks < 4))) (\<lambda>_.
        rd_return \<lparr>se_non_air_block_count = non_air, se_block_bits_per_entry = tp_bits blocks,
          se_biome_bits_per_entry = tp_bits biomes, se_block_palette_count = tp_palette_count blocks,
          se_biome_palette_count = tp_palette_count biomes,
          se_block_long_count = tp_long_count blocks, se_biome_long_count = tp_long_count biomes,
          se_block_palette = tp_palette blocks, se_biome_palette = tp_palette biomes,
          se_block_data = tp_data blocks, se_biome_data = tp_data biomes, se_encoded = [],
          se_fluid_count = fluid, se_has_fluid_count = (protocol \<ge> 775),
          se_block_light = block_light, se_sky_light = sky_light,
          se_has_non_air_block_count = (protocol \<ge> 477), se_has_block_light = (protocol \<le> 404),
          se_has_sky_light = (protocol \<le> 404), se_block_storage_padded = (protocol \<ge> 735)\<rparr>))))))
       (\<lambda>(decoded, encoded). rd_return (decoded\<lparr>se_encoded := encoded\<rparr>)))"

record mc_chunk_section_iterator =
  si_reader :: mc_reader
  si_protocol :: int
  si_remaining :: u32

definition mc_chunk_section_iterator_init :: "mc_chunk \<Rightarrow> int \<Rightarrow> u32 \<Rightarrow> mc_chunk_section_iterator option" where
  "mc_chunk_section_iterator_init chunk protocol section_count =
     (if protocol < 107 \<or> \<not> mc_protocol_supported protocol \<or> unat section_count > MC_MAX_CHUNK_SECTIONS
      then None
      else Some \<lparr>si_reader = view_reader (ch_chunk_data chunk), si_protocol = protocol,
             si_remaining = section_count\<rparr>)"

definition mc_chunk_section_iterator_next ::
  "mc_chunk_section_iterator \<Rightarrow> mc_chunk_section option \<times> mc_chunk_section_iterator" where
  "mc_chunk_section_iterator_next it =
     (if si_remaining it = 0 then (None, it)
      else case chunk_section (si_protocol it) (si_reader it) of
          (None, reader) \<Rightarrow> (None, it\<lparr>si_reader := reader\<rparr>)
        | (Some decoded, reader) \<Rightarrow>
            let remaining = si_remaining it - 1 in
            case last_of_view (si_protocol it \<ge> 757 \<and> remaining = 0) reader of
              (None, reader') \<Rightarrow> (None, it\<lparr>si_reader := reader', si_remaining := remaining\<rparr>)
            | (Some _, reader') \<Rightarrow> (Some decoded, it\<lparr>si_reader := reader', si_remaining := remaining\<rparr>))"

subsection \<open>Block states\<close>

text \<open>The loop reads the entries up to the index and keeps the last one.\<close>

primrec palette_walk :: "nat \<Rightarrow> i32 rd" where
  "palette_walk 0 = rd_such mc_reader_varint (\<lambda>entry. \<not> sint entry < 0)"
| "palette_walk (Suc n) =
     rd_bind (rd_such mc_reader_varint (\<lambda>entry. \<not> sint entry < 0)) (\<lambda>_. palette_walk n)"

definition typed_palette_entry :: "u8 list \<Rightarrow> nat \<Rightarrow> i32 option" where
  "typed_palette_entry palette index = fst (palette_walk index (view_reader palette))"

text \<open>The big-endian word at an index of the data.\<close>

definition section_word :: "u8 list \<Rightarrow> nat \<Rightarrow> u64" where
  "section_word bytes index = be_fold (take 8 (drop (index * 8) bytes))"

text \<open>The bits of a block: its word, shifted, with the bits that continue in the next word.\<close>

definition section_packed :: "mc_chunk_section \<Rightarrow> nat \<Rightarrow> u64 option" where
  "section_packed section block_index =
     (let bits = unat (se_block_bits_per_entry section);
          values_per_long = 64 div bits;
          bit_index = block_index * bits;
          padded = se_block_storage_padded section;
          word_index = (if padded then block_index div values_per_long else bit_index div 64);
          shift = (if padded then (block_index mod values_per_long) * bits else bit_index mod 64);
          available = (\<lambda>index. index < unat (se_block_long_count section)
                                \<and> \<not> length (se_block_data section) div 8 \<le> index);
          packed = drop_bit shift (section_word (se_block_data section) word_index) in
      if \<not> available word_index then None
      else if \<not> padded \<and> shift + bits > 64 then
        (if \<not> available (word_index + 1) then None
         else Some (packed OR push_bit (64 - shift) (section_word (se_block_data section) (word_index + 1))))
      else Some packed)"

definition mc_chunk_section_block_state :: "mc_chunk_section \<Rightarrow> nat \<Rightarrow> i32 option" where
  "mc_chunk_section_block_state section block_index =
     (if block_index \<ge> 4096 \<or> se_block_bits_per_entry section > 15 then None
      else if se_block_bits_per_entry section = 0 then
        (if se_block_palette_count section = 1 then typed_palette_entry (se_block_palette section) 0
         else None)
      else case section_packed section block_index of
          None \<Rightarrow> None
        | Some packed \<Rightarrow>
            let raw = packed AND (push_bit (unat (se_block_bits_per_entry section)) 1 - 1) in
            if se_block_palette_count section = 0 then
              (if unat raw > INT32_MAX then None else Some (ucast raw))
            else if unat raw \<ge> unat (se_block_palette_count section) then None
            else typed_palette_entry (se_block_palette section) (unat raw))"

subsection \<open>Every failure is recorded\<close>

lemma checked_small_world [rd_checked]:
  "checked_op (typed_decode_attach_entity protocol)" "checked_op typed_decode_passengers"
  "checked_op (typed_decode_unload_chunk protocol)" "checked_op typed_decode_game_state"
  unfolding typed_decode_attach_entity_def typed_decode_passengers_def typed_decode_unload_chunk_def
    typed_decode_game_state_def
  by (intro rd_checked)+

lemmas reporting_position [rd_checked] = checked_reporting [OF checked_position]

lemma checked_death_location [rd_checked]: "checked_op (typed_read_death_location protocol v)"
  unfolding typed_read_death_location_def by (intro rd_checked)

lemma checked_typed_respawn [rd_checked]: "checked_op (typed_decode_respawn protocol)"
  unfolding typed_decode_respawn_def typed_respawn_legacy_def typed_respawn_modern_def typed_respawn_dimension_def
    typed_respawn_tail_def respawn_copy_bool_def respawn_portal_def Let_def
  by (intro rd_checked)

lemma checked_zlib_loop [rd_checked]: "checked_op (zlib_loop calls maximum produced)"
proof (induction calls maximum produced rule: zlib_loop.induct)
  case (1 maximum produced)
  then show ?case by (auto intro!: rd_checked)
next
  case (2 result out avail_in calls maximum produced)
  then show ?case unfolding zlib_loop.simps by (intro rd_checked) simp_all
qed

lemma checked_zlib_blob [rd_checked]: "checked_op (typed_validate_zlib_blob zl compressed maximum)"
  unfolding typed_validate_zlib_blob_def by (auto intro!: rd_checked split: option.split)

lemma checked_longs [rd_checked]: "checked_op (read_longs n)"
  by (induction n) (auto intro!: rd_checked)

lemma checked_long_array [rd_checked]: "checked_op (typed_read_long_array maximum)"
  unfolding typed_read_long_array_def by (intro rd_checked)

lemmas reporting_long_array [rd_checked] = checked_reporting [OF checked_long_array]

lemma checked_chunk_parts [rd_checked]:
  "checked_op (typed_read_nbt_array protocol maximum)"
  "checked_op (typed_read_chunk_block_entities protocol)" "checked_op typed_read_registry_heightmaps"
  "checked_op (typed_read_chunk_biomes protocol ground_up)"
  "checked_op (typed_read_bitset_bytes max_bytes)" "checked_op typed_read_light_arrays"
  unfolding typed_read_nbt_array_def typed_read_chunk_block_entities_def chunk_block_entity_def
    typed_read_registry_heightmaps_def typed_read_chunk_biomes_def chunk_biome_count_def
    typed_read_bitset_bytes_def typed_read_light_arrays_def
  by (intro rd_checked)+

lemma checked_chunk [rd_checked]: "checked_op (typed_decode_chunk zl protocol)"
  unfolding typed_decode_chunk_def chunk_17_def chunk_18_def chunk_116_def chunk_sections_def
    chunk_118_def chunk_light_def
  by (intro rd_checked)

lemma checked_palette [rd_checked]:
  "checked_op (typed_read_palette entry_count indirect_max direct_max padded fixed)"
  unfolding typed_read_palette_def palette_entries_def palette_long_count_def
  by (intro rd_checked checked_reporting [OF checked_skip]) simp

lemmas reporting_palette [rd_checked] = checked_reporting [OF checked_palette]

lemma checked_section [rd_checked]: "checked_op (chunk_section protocol)"
  unfolding chunk_section_def section_light_def Let_def
  by (intro rd_checked checked_reporting [OF checked_skip])

end
