(* ===== verification/Typed_Dispatch.thy ===== *)
theory Typed_Dispatch
  imports Typed_World
begin

text \<open>
  \<open>mc_decode_packet\<close> of \<open>api.c\<close>: the union \<open>McTypedPacketStorage\<close>, the sizes of its members, the
  dispatch on the family, and the public decoder. A null output is \<^term>\<open>None\<close>, a caller's
  output of \<open>n\<close> bytes is \<^term>\<open>Some n\<close>; \<open>sizes\<close> is \<open>sizeof\<close> of the members, which the compiler
  chooses.
\<close>

subsection \<open>The union and its members\<close>

datatype typed_packet =
    Packet_movement mc_player_movement
  | Packet_input mc_player_input
  | Packet_action mc_entity_action
  | Packet_abilities mc_player_abilities
  | Packet_vehicle mc_vehicle_move
  | Packet_use_entity mc_use_entity
  | Packet_arm mc_arm_animation
  | Packet_dig mc_block_dig
  | Packet_place mc_block_place
  | Packet_use_item mc_use_item
  | Packet_held i32
  | Packet_teleport_confirm mc_teleport_confirm
  | Packet_command i32
  | Packet_close_window i32
  | Packet_server_position mc_clientbound_player_position
  | Packet_velocity mc_entity_velocity
  | Packet_entity_move mc_entity_move
  | Packet_entity_teleport mc_entity_teleport
  | Packet_head_rotation mc_entity_head_rotation
  | Packet_block_change mc_block_change
  | Packet_window_click mc_window_click_packet
  | Packet_creative_slot mc_set_creative_slot_packet
  | Packet_set_slot mc_set_slot_packet
  | Packet_window_items mc_window_items_packet
  | Packet_multi_block_change mc_multi_block_change
  | Packet_explosion mc_explosion
  | Packet_entity_effect mc_entity_effect
  | Packet_remove_entity_effect mc_remove_entity_effect
  | Packet_attributes mc_update_attributes
  | Packet_metadata mc_entity_metadata
  | Packet_attach_entity mc_attach_entity
  | Packet_passengers mc_passengers
  | Packet_unload_chunk mc_unload_chunk
  | Packet_respawn mc_respawn_packet
  | Packet_game_state mc_game_state_change
  | Packet_join_game mc_join_game_packet
  | Packet_time_update mc_time_update
  | Packet_chunk mc_chunk

datatype typed_member =
    Member_movement
  | Member_input
  | Member_action
  | Member_abilities
  | Member_vehicle
  | Member_use_entity
  | Member_arm
  | Member_dig
  | Member_place
  | Member_use_item
  | Member_held
  | Member_teleport_confirm
  | Member_command
  | Member_close_window
  | Member_server_position
  | Member_velocity
  | Member_entity_move
  | Member_entity_teleport
  | Member_head_rotation
  | Member_block_change
  | Member_window_click
  | Member_creative_slot
  | Member_set_slot
  | Member_window_items
  | Member_multi_block_change
  | Member_explosion
  | Member_entity_effect
  | Member_remove_entity_effect
  | Member_attributes
  | Member_metadata
  | Member_attach_entity
  | Member_passengers
  | Member_unload_chunk
  | Member_respawn
  | Member_game_state
  | Member_join_game
  | Member_time_update
  | Member_chunk

text \<open>The member a value is stored in.\<close>

fun member_of :: "typed_packet \<Rightarrow> typed_member" where
  "member_of (Packet_movement v) = Member_movement"
| "member_of (Packet_input v) = Member_input"
| "member_of (Packet_action v) = Member_action"
| "member_of (Packet_abilities v) = Member_abilities"
| "member_of (Packet_vehicle v) = Member_vehicle"
| "member_of (Packet_use_entity v) = Member_use_entity"
| "member_of (Packet_arm v) = Member_arm"
| "member_of (Packet_dig v) = Member_dig"
| "member_of (Packet_place v) = Member_place"
| "member_of (Packet_use_item v) = Member_use_item"
| "member_of (Packet_held v) = Member_held"
| "member_of (Packet_teleport_confirm v) = Member_teleport_confirm"
| "member_of (Packet_command v) = Member_command"
| "member_of (Packet_close_window v) = Member_close_window"
| "member_of (Packet_server_position v) = Member_server_position"
| "member_of (Packet_velocity v) = Member_velocity"
| "member_of (Packet_entity_move v) = Member_entity_move"
| "member_of (Packet_entity_teleport v) = Member_entity_teleport"
| "member_of (Packet_head_rotation v) = Member_head_rotation"
| "member_of (Packet_block_change v) = Member_block_change"
| "member_of (Packet_window_click v) = Member_window_click"
| "member_of (Packet_creative_slot v) = Member_creative_slot"
| "member_of (Packet_set_slot v) = Member_set_slot"
| "member_of (Packet_window_items v) = Member_window_items"
| "member_of (Packet_multi_block_change v) = Member_multi_block_change"
| "member_of (Packet_explosion v) = Member_explosion"
| "member_of (Packet_entity_effect v) = Member_entity_effect"
| "member_of (Packet_remove_entity_effect v) = Member_remove_entity_effect"
| "member_of (Packet_attributes v) = Member_attributes"
| "member_of (Packet_metadata v) = Member_metadata"
| "member_of (Packet_attach_entity v) = Member_attach_entity"
| "member_of (Packet_passengers v) = Member_passengers"
| "member_of (Packet_unload_chunk v) = Member_unload_chunk"
| "member_of (Packet_respawn v) = Member_respawn"
| "member_of (Packet_game_state v) = Member_game_state"
| "member_of (Packet_join_game v) = Member_join_game"
| "member_of (Packet_time_update v) = Member_time_update"
| "member_of (Packet_chunk v) = Member_chunk"

text \<open>The member whose type \<open>mc_packet_decoded_size\<close> measures.\<close>

fun family_member :: "mc_packet_family \<Rightarrow> typed_member option" where
  "family_member MC_FAMILY_PLAYER_MOVEMENT = Some Member_movement"
| "family_member MC_FAMILY_PLAYER_INPUT = Some Member_input"
| "family_member MC_FAMILY_STEER_VEHICLE = Some Member_input"
| "family_member MC_FAMILY_ENTITY_ACTION = Some Member_action"
| "family_member MC_FAMILY_ABILITIES = Some Member_abilities"
| "family_member MC_FAMILY_VEHICLE_MOVE = Some Member_vehicle"
| "family_member MC_FAMILY_USE_ENTITY = Some Member_use_entity"
| "family_member MC_FAMILY_ATTACK = Some Member_use_entity"
| "family_member MC_FAMILY_ARM_ANIMATION = Some Member_arm"
| "family_member MC_FAMILY_BLOCK_DIG = Some Member_dig"
| "family_member MC_FAMILY_BLOCK_PLACE = Some Member_place"
| "family_member MC_FAMILY_USE_ITEM = Some Member_use_item"
| "family_member MC_FAMILY_HELD_ITEM_SLOT = Some Member_held"
| "family_member MC_FAMILY_TELEPORT_CONFIRM = Some Member_teleport_confirm"
| "family_member MC_FAMILY_CLIENT_COMMAND = Some Member_command"
| "family_member MC_FAMILY_CLOSE_WINDOW = Some Member_close_window"
| "family_member MC_FAMILY_SERVER_POSITION = Some Member_server_position"
| "family_member MC_FAMILY_ENTITY_VELOCITY = Some Member_velocity"
| "family_member MC_FAMILY_RELATIVE_ENTITY_MOVE = Some Member_entity_move"
| "family_member MC_FAMILY_ENTITY_MOVE_LOOK = Some Member_entity_move"
| "family_member MC_FAMILY_ENTITY_TELEPORT = Some Member_entity_teleport"
| "family_member MC_FAMILY_ENTITY_HEAD_ROTATION = Some Member_head_rotation"
| "family_member MC_FAMILY_BLOCK_CHANGE = Some Member_block_change"
| "family_member MC_FAMILY_WINDOW_CLICK = Some Member_window_click"
| "family_member MC_FAMILY_SET_CREATIVE_SLOT = Some Member_creative_slot"
| "family_member MC_FAMILY_SET_SLOT = Some Member_set_slot"
| "family_member MC_FAMILY_WINDOW_ITEMS = Some Member_window_items"
| "family_member MC_FAMILY_MULTI_BLOCK_CHANGE = Some Member_multi_block_change"
| "family_member MC_FAMILY_EXPLOSION = Some Member_explosion"
| "family_member MC_FAMILY_ENTITY_EFFECT = Some Member_entity_effect"
| "family_member MC_FAMILY_REMOVE_ENTITY_EFFECT = Some Member_remove_entity_effect"
| "family_member MC_FAMILY_UPDATE_ATTRIBUTES = Some Member_attributes"
| "family_member MC_FAMILY_ENTITY_METADATA = Some Member_metadata"
| "family_member MC_FAMILY_ATTACH_ENTITY = Some Member_attach_entity"
| "family_member MC_FAMILY_SET_PASSENGERS = Some Member_passengers"
| "family_member MC_FAMILY_UNLOAD_CHUNK = Some Member_unload_chunk"
| "family_member MC_FAMILY_RESPAWN = Some Member_respawn"
| "family_member MC_FAMILY_GAME_STATE_CHANGE = Some Member_game_state"
| "family_member MC_FAMILY_JOIN_GAME = Some Member_join_game"
| "family_member MC_FAMILY_UPDATE_TIME = Some Member_time_update"
| "family_member MC_FAMILY_MAP_CHUNK = Some Member_chunk"
| "family_member MC_FAMILY_UNKNOWN = None"

definition mc_packet_decoded_size :: "(typed_member \<Rightarrow> nat) \<Rightarrow> mc_packet_family \<Rightarrow> nat" where
  "mc_packet_decoded_size sizes family =
     (case family_member family of None \<Rightarrow> 0 | Some member \<Rightarrow> sizes member)"

subsection \<open>The dispatch\<close>

definition rd_store :: "('a \<Rightarrow> typed_packet) \<Rightarrow> 'a rd \<Rightarrow> typed_packet rd" where
  "rd_store f m = rd_bind m (\<lambda>x. rd_return (f x))"

fun typed_decode_dispatch ::
  "gz_inflate \<Rightarrow> gz_inflate \<Rightarrow> int \<Rightarrow> mc_direction \<Rightarrow> string \<Rightarrow> mc_packet_family \<Rightarrow> typed_packet rd" where
  "typed_decode_dispatch gz zl protocol direction name MC_FAMILY_PLAYER_MOVEMENT =
     rd_store Packet_movement (typed_decode_movement protocol name)"
| "typed_decode_dispatch gz zl protocol direction name MC_FAMILY_PLAYER_INPUT =
     rd_store Packet_input (typed_decode_player_input protocol True)"
| "typed_decode_dispatch gz zl protocol direction name MC_FAMILY_STEER_VEHICLE =
     rd_store Packet_input (typed_decode_player_input protocol False)"
| "typed_decode_dispatch gz zl protocol direction name MC_FAMILY_ENTITY_ACTION =
     rd_store Packet_action (typed_decode_entity_action protocol)"
| "typed_decode_dispatch gz zl protocol direction name MC_FAMILY_ABILITIES =
     rd_store Packet_abilities (typed_decode_abilities protocol direction)"
| "typed_decode_dispatch gz zl protocol direction name MC_FAMILY_VEHICLE_MOVE =
     rd_store Packet_vehicle (typed_decode_vehicle_move protocol)"
| "typed_decode_dispatch gz zl protocol direction name MC_FAMILY_USE_ENTITY =
     rd_store Packet_use_entity (typed_decode_use_entity protocol False)"
| "typed_decode_dispatch gz zl protocol direction name MC_FAMILY_ATTACK =
     rd_store Packet_use_entity (typed_decode_use_entity protocol True)"
| "typed_decode_dispatch gz zl protocol direction name MC_FAMILY_ARM_ANIMATION =
     rd_store Packet_arm (typed_decode_arm_animation protocol)"
| "typed_decode_dispatch gz zl protocol direction name MC_FAMILY_BLOCK_DIG =
     rd_store Packet_dig (typed_decode_block_dig protocol)"
| "typed_decode_dispatch gz zl protocol direction name MC_FAMILY_BLOCK_PLACE =
     rd_store Packet_place (typed_decode_block_place protocol)"
| "typed_decode_dispatch gz zl protocol direction name MC_FAMILY_USE_ITEM =
     rd_store Packet_use_item (typed_decode_use_item protocol)"
| "typed_decode_dispatch gz zl protocol direction name MC_FAMILY_HELD_ITEM_SLOT =
     rd_store Packet_held (typed_decode_held_item_slot direction protocol)"
| "typed_decode_dispatch gz zl protocol direction name MC_FAMILY_TELEPORT_CONFIRM =
     rd_store Packet_teleport_confirm (typed_decode_teleport_confirm protocol)"
| "typed_decode_dispatch gz zl protocol direction name MC_FAMILY_CLIENT_COMMAND =
     rd_store Packet_command (typed_decode_client_command protocol)"
| "typed_decode_dispatch gz zl protocol direction name MC_FAMILY_CLOSE_WINDOW =
     rd_store Packet_close_window (typed_decode_close_window protocol)"
| "typed_decode_dispatch gz zl protocol direction name MC_FAMILY_SERVER_POSITION =
     rd_store Packet_server_position (mc_reader_clientbound_player_position protocol)"
| "typed_decode_dispatch gz zl protocol direction name MC_FAMILY_ENTITY_VELOCITY =
     rd_store Packet_velocity (typed_decode_entity_velocity protocol)"
| "typed_decode_dispatch gz zl protocol direction name MC_FAMILY_RELATIVE_ENTITY_MOVE =
     rd_store Packet_entity_move (typed_decode_entity_move protocol False)"
| "typed_decode_dispatch gz zl protocol direction name MC_FAMILY_ENTITY_MOVE_LOOK =
     rd_store Packet_entity_move (typed_decode_entity_move protocol True)"
| "typed_decode_dispatch gz zl protocol direction name MC_FAMILY_ENTITY_TELEPORT =
     rd_store Packet_entity_teleport (typed_decode_entity_teleport protocol name)"
| "typed_decode_dispatch gz zl protocol direction name MC_FAMILY_ENTITY_HEAD_ROTATION =
     rd_store Packet_head_rotation (typed_decode_entity_head_rotation protocol)"
| "typed_decode_dispatch gz zl protocol direction name MC_FAMILY_BLOCK_CHANGE =
     rd_store Packet_block_change (typed_decode_block_change protocol)"
| "typed_decode_dispatch gz zl protocol direction name MC_FAMILY_WINDOW_CLICK =
     rd_store Packet_window_click (typed_decode_window_click gz protocol)"
| "typed_decode_dispatch gz zl protocol direction name MC_FAMILY_SET_CREATIVE_SLOT =
     rd_store Packet_creative_slot (typed_decode_set_creative_slot gz protocol)"
| "typed_decode_dispatch gz zl protocol direction name MC_FAMILY_SET_SLOT =
     rd_store Packet_set_slot (typed_decode_set_slot gz protocol)"
| "typed_decode_dispatch gz zl protocol direction name MC_FAMILY_WINDOW_ITEMS =
     rd_store Packet_window_items (typed_decode_window_items gz protocol)"
| "typed_decode_dispatch gz zl protocol direction name MC_FAMILY_MULTI_BLOCK_CHANGE =
     rd_store Packet_multi_block_change (typed_decode_multi_block_change protocol)"
| "typed_decode_dispatch gz zl protocol direction name MC_FAMILY_EXPLOSION =
     rd_store Packet_explosion (typed_decode_explosion gz protocol)"
| "typed_decode_dispatch gz zl protocol direction name MC_FAMILY_ENTITY_EFFECT =
     rd_store Packet_entity_effect (typed_decode_entity_effect protocol)"
| "typed_decode_dispatch gz zl protocol direction name MC_FAMILY_REMOVE_ENTITY_EFFECT =
     rd_store Packet_remove_entity_effect (typed_decode_remove_entity_effect protocol)"
| "typed_decode_dispatch gz zl protocol direction name MC_FAMILY_UPDATE_ATTRIBUTES =
     rd_store Packet_attributes (typed_decode_attributes protocol)"
| "typed_decode_dispatch gz zl protocol direction name MC_FAMILY_ENTITY_METADATA =
     rd_store Packet_metadata (typed_decode_metadata gz protocol)"
| "typed_decode_dispatch gz zl protocol direction name MC_FAMILY_ATTACH_ENTITY =
     rd_store Packet_attach_entity (typed_decode_attach_entity protocol)"
| "typed_decode_dispatch gz zl protocol direction name MC_FAMILY_SET_PASSENGERS =
     rd_store Packet_passengers (typed_decode_passengers)"
| "typed_decode_dispatch gz zl protocol direction name MC_FAMILY_UNLOAD_CHUNK =
     rd_store Packet_unload_chunk (typed_decode_unload_chunk protocol)"
| "typed_decode_dispatch gz zl protocol direction name MC_FAMILY_RESPAWN =
     rd_store Packet_respawn (typed_decode_respawn protocol)"
| "typed_decode_dispatch gz zl protocol direction name MC_FAMILY_GAME_STATE_CHANGE =
     rd_store Packet_game_state (typed_decode_game_state)"
| "typed_decode_dispatch gz zl protocol direction name MC_FAMILY_JOIN_GAME =
     rd_store Packet_join_game (mc_reader_clientbound_join_game protocol)"
| "typed_decode_dispatch gz zl protocol direction name MC_FAMILY_UPDATE_TIME =
     rd_store Packet_time_update (mc_reader_clientbound_time_update protocol)"
| "typed_decode_dispatch gz zl protocol direction name MC_FAMILY_MAP_CHUNK =
     rd_store Packet_chunk (typed_decode_chunk zl protocol)"
| "typed_decode_dispatch gz zl protocol direction name MC_FAMILY_UNKNOWN = typed_invalid"

subsection \<open>The decoder\<close>

definition error_at :: "int \<Rightarrow> mc_state \<Rightarrow> mc_direction \<Rightarrow> i32 \<Rightarrow> mc_error \<Rightarrow> mc_error" where
  "error_at protocol state direction packet_id e =
     e\<lparr>er_protocol := protocol, er_state := state, er_direction := direction,
       er_packet_id := packet_id\<rparr>"

definition typed_error_init ::
  "mc_error option \<Rightarrow> int \<Rightarrow> mc_state \<Rightarrow> mc_direction \<Rightarrow> i32 \<Rightarrow> mc_error option" where
  "typed_error_init error protocol state direction packet_id =
     map_option (\<lambda>_. error_at protocol state direction packet_id mc_error_clear) error"

definition mc_state_listed :: "mc_state \<Rightarrow> bool" where
  "mc_state_listed state \<longleftrightarrow>
     state \<in> {MC_STATE_LOGIN, MC_STATE_CONFIGURATION, MC_STATE_PLAY, MC_STATE_STATUS}"

text \<open>The reader over the payload, with the caller's error record as its sink.\<close>

definition decode_reader ::
  "int \<Rightarrow> mc_state \<Rightarrow> mc_direction \<Rightarrow> i32 \<Rightarrow> buffer \<Rightarrow> mc_decode_mode \<Rightarrow> mc_error option \<Rightarrow> mc_reader" where
  "decode_reader protocol state direction packet_id payload mode error =
     (let r = mc_reader_init_mode payload mode error
      in r\<lparr>rd_error := map_option (error_at protocol state direction packet_id) (rd_error r)\<rparr>)"

text \<open>The result: the packet, what is stored through \<open>family\<close>, and the error record.\<close>

type_synonym decode_result = "typed_packet option \<times> mc_packet_family option \<times> mc_error option"

definition decode_body ::
  "gz_inflate \<Rightarrow> gz_inflate \<Rightarrow> int \<Rightarrow> mc_direction \<Rightarrow> string \<Rightarrow> mc_packet_family \<Rightarrow> mc_reader
   \<Rightarrow> typed_packet option \<times> mc_error option" where
  "decode_body gz zl protocol direction name family r =
     (case rd_bind (typed_decode_dispatch gz zl protocol direction name family)
             (\<lambda>decoded. rd_bind mc_reader_finish (\<lambda>_. rd_return decoded)) r of
        (Some decoded, r') \<Rightarrow> (Some decoded, rd_error r')
      | (None, r') \<Rightarrow>
          (None, map_option (\<lambda>e. if er_code e = MC_ERROR_NONE
             then record_error MC_ERROR_INVALID_PACKET_BODY (rd_offset r') e else e) (rd_error r')))"

definition mc_decode_packet ::
  "gz_inflate \<Rightarrow> gz_inflate \<Rightarrow> (typed_member \<Rightarrow> nat) \<Rightarrow> int \<Rightarrow> mc_state \<Rightarrow> mc_direction \<Rightarrow> i32
   \<Rightarrow> buffer \<Rightarrow> mc_decode_mode \<Rightarrow> nat option \<Rightarrow> bool \<Rightarrow> mc_error option \<Rightarrow> decode_result" where
  "mc_decode_packet gz zl sizes protocol state direction packet_id payload mode out family_out error =
     (let e = typed_error_init error protocol state direction packet_id;
          fail = (\<lambda>family code off. (None, family, map_option (record_error code off) e))
      in if (buf_null payload \<and> buf_size payload \<noteq> 0) \<or> out = None \<or> \<not> family_out
            \<or> (mode \<noteq> MC_DECODE_VANILLA_COMPAT \<and> mode \<noteq> MC_DECODE_STRICT)
         then fail None MC_ERROR_INVALID_ARGUMENT MC_ERROR_OFFSET_UNKNOWN
         else if \<not> mc_protocol_supported protocol
         then fail None MC_ERROR_UNSUPPORTED_PROTOCOL MC_ERROR_OFFSET_UNKNOWN
         else if \<not> mc_state_listed state
         then fail None MC_ERROR_INVALID_STATE MC_ERROR_OFFSET_UNKNOWN
         else if direction \<noteq> MC_PACKET_SERVERBOUND \<and> direction \<noteq> MC_PACKET_CLIENTBOUND
         then fail None MC_ERROR_INVALID_DIRECTION MC_ERROR_OFFSET_UNKNOWN
         else
           (case mc_packet_name protocol state direction packet_id of
              None \<Rightarrow> fail None MC_ERROR_UNKNOWN_PACKET MC_ERROR_OFFSET_UNKNOWN
            | Some name \<Rightarrow>
                let family = mc_packet_family protocol state direction packet_id;
                    required = mc_packet_decoded_size sizes family
                in if required = 0 then fail (Some family) MC_ERROR_UNKNOWN_PACKET 0
                   else if the out < required
                   then fail (Some family) MC_ERROR_INVALID_ARGUMENT MC_ERROR_OFFSET_UNKNOWN
                   else
                     let (decoded, error') = decode_body gz zl protocol direction name family
                           (decode_reader protocol state direction packet_id payload mode e)
                     in (decoded, Some family, error')))"

subsection \<open>Laws\<close>

lemma checked_store [rd_checked]: "checked_op m \<Longrightarrow> checked_op (rd_store f m)"
  unfolding rd_store_def by (intro rd_checked)

lemma reader_op_store: "reader_op m \<Longrightarrow> reader_op (rd_store f m)"
  unfolding rd_store_def by (intro rd_ops)

lemma stored_member:
  "rd_store f m r = (Some p, r') \<Longrightarrow> \<exists>x. p = f x"
  by (auto simp: rd_store_def rd_bind_def rd_return_def split: prod.splits option.splits)

lemma reader_op_dispatch:
  assumes "mc_protocol_supported protocol"
  shows "reader_op (typed_decode_dispatch gz zl protocol direction name family)"
  by (cases family)
    (simp_all only: typed_decode_dispatch.simps,
     (intro reader_op_store reader_op_join_game checked_reader rd_checked assms)+)

lemma dispatch_member:
  "typed_decode_dispatch gz zl protocol direction name family r = (Some p, r')
   \<Longrightarrow> family_member family = Some (member_of p)"
  by (cases family) (auto dest: stored_member simp: typed_invalid_def rd_here_def reader_fail_def)

end
