(* ===== verification/Generated_776.thy ===== *)
theory Generated_776
  imports Typed_Serverbound
begin

text \<open>
  The generated section of \<open>api.h\<close> and \<open>api.c\<close> for release 776: the macros
  \<^verbatim>\<open>MC776_<STATE>_<DIRECTION>_<NAME>\<close>, each as the pair of its name in lower case and its number,
  and the two generated encoder and decoder pairs. That the macros are the rows of the packet
  catalog of the release, and that the pairs invert each other, is shown below.
\<close>

subsection \<open>Packet numbers\<close>

definition MC776_HANDSHAKING_SERVERBOUND :: "(string \<times> i32) list" where
  "MC776_HANDSHAKING_SERVERBOUND =
    [(''set_protocol'', 0), (''legacy_server_list_ping'', 254)]"

definition MC776_STATUS_SERVERBOUND :: "(string \<times> i32) list" where
  "MC776_STATUS_SERVERBOUND =
    [(''ping_start'', 0), (''ping'', 1)]"

definition MC776_STATUS_CLIENTBOUND :: "(string \<times> i32) list" where
  "MC776_STATUS_CLIENTBOUND =
    [(''server_info'', 0), (''ping'', 1)]"

definition MC776_LOGIN_SERVERBOUND :: "(string \<times> i32) list" where
  "MC776_LOGIN_SERVERBOUND =
    [(''login_start'', 0), (''encryption_begin'', 1), (''login_plugin_response'', 2),
    (''login_acknowledged'', 3), (''cookie_response'', 4)]"

definition MC776_LOGIN_CLIENTBOUND :: "(string \<times> i32) list" where
  "MC776_LOGIN_CLIENTBOUND =
    [(''disconnect'', 0), (''encryption_begin'', 1), (''success'', 2), (''compress'', 3),
    (''login_plugin_request'', 4), (''cookie_request'', 5)]"

definition MC776_CONFIGURATION_SERVERBOUND :: "(string \<times> i32) list" where
  "MC776_CONFIGURATION_SERVERBOUND =
    [(''settings'', 0), (''cookie_response'', 1), (''custom_payload'', 2),
    (''finish_configuration'', 3), (''keep_alive'', 4), (''pong'', 5),
    (''resource_pack_receive'', 6), (''select_known_packs'', 7), (''custom_click_action'', 8),
    (''accept_code_of_conduct'', 9)]"

definition MC776_CONFIGURATION_CLIENTBOUND :: "(string \<times> i32) list" where
  "MC776_CONFIGURATION_CLIENTBOUND =
    [(''cookie_request'', 0), (''custom_payload'', 1), (''disconnect'', 2),
    (''finish_configuration'', 3), (''keep_alive'', 4), (''ping'', 5), (''reset_chat'', 6),
    (''registry_data'', 7), (''remove_resource_pack'', 8), (''add_resource_pack'', 9),
    (''store_cookie'', 10), (''transfer'', 11), (''feature_flags'', 12), (''tags'', 13),
    (''select_known_packs'', 14), (''custom_report_details'', 15), (''server_links'', 16),
    (''clear_dialog'', 17), (''show_dialog'', 18), (''code_of_conduct'', 19)]"

definition MC776_PLAY_SERVERBOUND :: "(string \<times> i32) list" where
  "MC776_PLAY_SERVERBOUND =
    [(''teleport_confirm'', 0), (''attack'', 1), (''query_block_nbt'', 2),
    (''select_bundle_item'', 3), (''set_difficulty'', 4), (''change_gamemode'', 5),
    (''message_acknowledgement'', 6), (''chat_command'', 7), (''chat_command_signed'', 8),
    (''chat_message'', 9), (''chat_session_update'', 10), (''chunk_batch_received'', 11),
    (''client_command'', 12), (''tick_end'', 13), (''settings'', 14), (''tab_complete'', 15),
    (''configuration_acknowledged'', 16), (''enchant_item'', 17), (''window_click'', 18),
    (''close_window'', 19), (''set_slot_state'', 20), (''cookie_response'', 21),
    (''custom_payload'', 22), (''debug_subscription_request'', 23), (''edit_book'', 24),
    (''query_entity_nbt'', 25), (''use_entity'', 26), (''generate_structure'', 27),
    (''keep_alive'', 28), (''lock_difficulty'', 29), (''position'', 30), (''position_look'', 31),
    (''look'', 32), (''flying'', 33), (''vehicle_move'', 34), (''steer_boat'', 35),
    (''pick_item_from_block'', 36), (''pick_item_from_entity'', 37), (''ping_request'', 38),
    (''craft_recipe_request'', 39), (''abilities'', 40), (''block_dig'', 41),
    (''entity_action'', 42), (''player_input'', 43), (''player_loaded'', 44), (''pong'', 45),
    (''recipe_book'', 46), (''displayed_recipe'', 47), (''name_item'', 48),
    (''resource_pack_receive'', 49), (''advancement_tab'', 50), (''select_trade'', 51),
    (''set_beacon_effect'', 52), (''held_item_slot'', 53), (''update_command_block'', 54),
    (''update_command_block_minecart'', 55), (''set_creative_slot'', 56),
    (''set_game_rule'', 57), (''update_jigsaw_block'', 58), (''update_structure_block'', 59),
    (''set_test_block'', 60), (''update_sign'', 61), (''spectator_action'', 62),
    (''arm_animation'', 63), (''spectate'', 64), (''test_instance_block_action'', 65),
    (''block_place'', 66), (''use_item'', 67), (''custom_click_action'', 68)]"

definition MC776_PLAY_CLIENTBOUND :: "(string \<times> i32) list" where
  "MC776_PLAY_CLIENTBOUND =
    [(''bundle_delimiter'', 0), (''spawn_entity'', 1), (''animation'', 2), (''statistics'', 3),
    (''acknowledge_player_digging'', 4), (''block_break_animation'', 5),
    (''tile_entity_data'', 6), (''block_action'', 7), (''block_change'', 8), (''boss_bar'', 9),
    (''difficulty'', 10), (''chunk_batch_finished'', 11), (''chunk_batch_start'', 12),
    (''chunk_biomes'', 13), (''clear_titles'', 14), (''tab_complete'', 15),
    (''declare_commands'', 16), (''close_window'', 17), (''window_items'', 18),
    (''craft_progress_bar'', 19), (''set_slot'', 20), (''cookie_request'', 21),
    (''set_cooldown'', 22), (''chat_suggestions'', 23), (''custom_payload'', 24),
    (''damage_event'', 25), (''debug_block_value'', 26), (''debug_chunk_value'', 27),
    (''debug_entity_value'', 28), (''debug_event'', 29), (''debug_sample'', 30),
    (''hide_message'', 31), (''kick_disconnect'', 32), (''profileless_chat'', 33),
    (''entity_status'', 34), (''sync_entity_position'', 35), (''explosion'', 36),
    (''unload_chunk'', 37), (''game_state_change'', 38), (''game_rule_values'', 39),
    (''game_test_highlight_pos'', 40), (''open_horse_window'', 41), (''hurt_animation'', 42),
    (''initialize_world_border'', 43), (''keep_alive'', 44), (''map_chunk'', 45),
    (''world_event'', 46), (''world_particles'', 47), (''update_light'', 48), (''login'', 49),
    (''low_disk_space_warning'', 50), (''map'', 51), (''trade_list'', 52),
    (''rel_entity_move'', 53), (''entity_move_look'', 54), (''move_minecart'', 55),
    (''entity_look'', 56), (''vehicle_move'', 57), (''open_book'', 58), (''open_window'', 59),
    (''open_sign_entity'', 60), (''ping'', 61), (''ping_response'', 62),
    (''craft_recipe_response'', 63), (''abilities'', 64), (''player_chat'', 65),
    (''end_combat_event'', 66), (''enter_combat_event'', 67), (''death_combat_event'', 68),
    (''player_remove'', 69), (''player_info'', 70), (''face_player'', 71), (''position'', 72),
    (''player_rotation'', 73), (''recipe_book_add'', 74), (''recipe_book_remove'', 75),
    (''recipe_book_settings'', 76), (''entity_destroy'', 77), (''remove_entity_effect'', 78),
    (''reset_score'', 79), (''remove_resource_pack'', 80), (''add_resource_pack'', 81),
    (''respawn'', 82), (''entity_head_rotation'', 83), (''multi_block_change'', 84),
    (''select_advancement_tab'', 85), (''server_data'', 86), (''action_bar'', 87),
    (''world_border_center'', 88), (''world_border_lerp_size'', 89), (''world_border_size'', 90),
    (''world_border_warning_delay'', 91), (''world_border_warning_reach'', 92), (''camera'', 93),
    (''update_view_position'', 94), (''update_view_distance'', 95), (''set_cursor_item'', 96),
    (''spawn_position'', 97), (''scoreboard_display_objective'', 98), (''entity_metadata'', 99),
    (''attach_entity'', 100), (''entity_velocity'', 101), (''entity_equipment'', 102),
    (''experience'', 103), (''update_health'', 104), (''held_item_slot'', 105),
    (''scoreboard_objective'', 106), (''set_passengers'', 107), (''set_player_inventory'', 108),
    (''teams'', 109), (''scoreboard_score'', 110), (''simulation_distance'', 111),
    (''set_title_subtitle'', 112), (''update_time'', 113), (''set_title_text'', 114),
    (''set_title_time'', 115), (''entity_sound_effect'', 116), (''sound_effect'', 117),
    (''start_configuration'', 118), (''stop_sound'', 119), (''store_cookie'', 120),
    (''system_chat'', 121), (''playerlist_header'', 122), (''nbt_query_response'', 123),
    (''collect'', 124), (''entity_teleport'', 125), (''test_instance_block_status'', 126),
    (''set_ticking_state'', 127), (''step_tick'', 128), (''transfer'', 129),
    (''advancements'', 130), (''entity_update_attributes'', 131), (''entity_effect'', 132),
    (''declare_recipes'', 133), (''tags'', 134), (''set_projectile_power'', 135),
    (''custom_report_details'', 136), (''server_links'', 137), (''tracked_waypoint'', 138),
    (''clear_dialog'', 139), (''show_dialog'', 140)]"

text \<open>The macros of a state and direction number the names of a catalog from 0 on.\<close>

definition macros_number :: "(string \<times> i32) list \<Rightarrow> mc_packet_map \<Rightarrow> bool" where
  "macros_number macros names \<longleftrightarrow>
     map fst macros = names \<and> map snd macros = map of_nat [0..<length names]"

lemma mc776_numbers:
  "macros_number MC776_STATUS_SERVERBOUND packet_names_status_serverbound"
  "macros_number MC776_STATUS_CLIENTBOUND packet_names_status_clientbound"
  "macros_number MC776_LOGIN_SERVERBOUND packet_names_29_login_serverbound"
  "macros_number MC776_LOGIN_CLIENTBOUND packet_names_29_login_clientbound"
  "macros_number MC776_CONFIGURATION_SERVERBOUND packet_names_29_configuration_serverbound"
  "macros_number MC776_CONFIGURATION_CLIENTBOUND packet_names_29_configuration_clientbound"
  by (simp_all only: macros_number_def MC776_STATUS_SERVERBOUND_def MC776_STATUS_CLIENTBOUND_def
      MC776_LOGIN_SERVERBOUND_def MC776_LOGIN_CLIENTBOUND_def MC776_CONFIGURATION_SERVERBOUND_def
      MC776_CONFIGURATION_CLIENTBOUND_def packet_names_status_serverbound_def
      packet_names_status_clientbound_def packet_names_29_login_serverbound_def
      packet_names_29_login_clientbound_def packet_names_29_configuration_serverbound_def
      packet_names_29_configuration_clientbound_def) (simp_all add: upt_rec)

lemma mc776_play_serverbound_numbers:
  "macros_number MC776_PLAY_SERVERBOUND packet_names_29_play_serverbound"
  unfolding macros_number_def MC776_PLAY_SERVERBOUND_def packet_names_29_play_serverbound_def
  by (simp add: upt_rec)

lemma mc776_play_clientbound_numbers:
  "macros_number MC776_PLAY_CLIENTBOUND packet_names_29_play_clientbound"
  unfolding macros_number_def MC776_PLAY_CLIENTBOUND_def packet_names_29_play_clientbound_def
  by (simp add: upt_rec)

lemma macros_number_nth:
  assumes "macros_number macros names" and "(n, k) \<in> set macros"
  shows "\<exists>i < length names. k = of_nat i \<and> names ! i = n"
proof -
  obtain i where i: "i < length macros" and nk: "macros ! i = (n, k)"
    using assms(2) by (auto simp: in_set_conv_nth)
  have len: "length names = length macros" using assms(1) by (auto simp: macros_number_def)
  have "map fst macros ! i = names ! i" "map snd macros ! i = of_nat i"
    using assms(1) i len by (auto simp: macros_number_def)
  then show ?thesis using i nk len by (intro exI [of _ i]) simp
qed

subsection \<open>The generated pairs\<close>

text \<open>\<^verbatim>\<open>return !packet->failed;\<close> and \<^verbatim>\<open>return mc_reader_remaining(reader) == 0U;\<close>\<close>

definition pk_unfailed :: wr where
  "pk_unfailed p = (\<not> pk_failed p, p)"

definition rd_exhausted :: "unit rd" where
  "rd_exhausted r = (if mc_reader_remaining r = 0 then Some () else None, r)"

record mc776_use_item =
  gu_hand :: i32
  gu_sequence :: i32
  gu_rotation_x :: f32
  gu_rotation_y :: f32

definition mc776_play_serverbound_use_item_encode :: "mc776_use_item \<Rightarrow> wr" where
  "mc776_play_serverbound_use_item_encode v = pk_and
     (pk_all [mc_packet_varint (gu_hand v), mc_packet_varint (gu_sequence v),
        mc_packet_float (gu_rotation_x v), mc_packet_float (gu_rotation_y v)]) pk_unfailed"

definition mc776_play_serverbound_use_item_decode :: "mc776_use_item rd" where
  "mc776_play_serverbound_use_item_decode =
     rd_bind mc_reader_varint (\<lambda>hand. rd_bind mc_reader_varint (\<lambda>sequence.
     rd_bind mc_reader_float (\<lambda>x. rd_bind mc_reader_float (\<lambda>y.
     rd_bind rd_exhausted (\<lambda>_.
     rd_return \<lparr>gu_hand = hand, gu_sequence = sequence, gu_rotation_x = x, gu_rotation_y = y\<rparr>)))))"

text \<open>\<open>Mc776PlayServerboundBlockDig\<close> has the fields of \<open>McBlockDig\<close> and is modelled by its record.\<close>

definition mc776_play_serverbound_block_dig_encode :: "mc_block_dig \<Rightarrow> wr" where
  "mc776_play_serverbound_block_dig_encode v = pk_and
     (pk_all [mc_packet_varint (bd_status v), mc_packet_position 776 (bd_location v),
        mc_packet_i8 (bd_face v), mc_packet_varint (bd_sequence v)]) pk_unfailed"

definition mc776_play_serverbound_block_dig_decode :: "mc_block_dig rd" where
  "mc776_play_serverbound_block_dig_decode =
     rd_bind mc_reader_varint (\<lambda>status. rd_bind (mc_reader_position 776) (\<lambda>location.
     rd_bind mc_reader_i8 (\<lambda>face. rd_bind mc_reader_varint (\<lambda>sequence.
     rd_bind rd_exhausted (\<lambda>_.
     rd_return \<lparr>bd_status = status, bd_location = location, bd_face = face,
       bd_sequence = sequence\<rparr>)))))"

end
