(* ===== verification/Typed_Codecs.thy ===== *)
theory Typed_Codecs
  imports Typed_Dispatch Generated_776
begin

text \<open>
  The serverbound packet builders against the typed decoders of their families: each pair is a
  \<open>wire_codec\<close>, so that what the builder accepts comes back, to the last byte, in both modes; and
  against the generated pairs of release 776. Last, what a decoder of a family parses is what
  \<^term>\<open>mc_decode_packet\<close> returns for a packet of that family.
\<close>

subsection \<open>Digging\<close>

definition dig_wire_status :: "int \<Rightarrow> i32 \<Rightarrow> i32" where
  "dig_wire_status protocol status =
     (if protocol \<ge> 777 \<and> sint status > 0 then status + 1 else status)"

definition dig_bytes :: "int \<Rightarrow> mc_block_dig \<Rightarrow> u8 list" where
  "dig_bytes protocol v =
     (if protocol \<le> 5 then
        [ucast (bd_status v)] @ be_bytes 4 (pos_x (bd_location v)) @ [ucast (pos_y (bd_location v))]
        @ be_bytes 4 (pos_z (bd_location v)) @ [bd_face v]
      else
        varint_bytes (dig_wire_status protocol (bd_status v))
        @ be_bytes 8 (position_pack protocol (bd_location v)) @ [bd_face v]
        @ (if protocol \<ge> 759 then varint_bytes (bd_sequence v) else []))"

definition dig_valid :: "int \<Rightarrow> mc_block_dig \<Rightarrow> bool" where
  "dig_valid protocol v \<longleftrightarrow> mc_protocol_supported protocol
     \<and> 0 \<le> sint (bd_status v) \<and> sint (bd_status v) \<le> 6
     \<and> 0 \<le> sint (bd_face v) \<and> sint (bd_face v) \<le> 5
     \<and> 0 \<le> sint (bd_sequence v) \<and> (protocol < 759 \<longrightarrow> bd_sequence v = 0)
     \<and> (if protocol \<le> 5 then 0 \<le> sint (pos_y (bd_location v)) \<and> sint (pos_y (bd_location v)) \<le> 255
        else position_in_range (bd_location v))"

lemma small_status:
  fixes s :: i32
  assumes "0 \<le> sint s" and "sint s \<le> 6"
  shows "s = 0 \<or> s = 1 \<or> s = 2 \<or> s = 3 \<or> s = 4 \<or> s = 5 \<or> s = 6"
proof -
  have "s = word_of_int (sint s)" by simp
  moreover have "sint s \<in> {0, 1, 2, 3, 4, 5, 6}" using assms by auto
  ultimately show ?thesis by (auto simp del: of_int_sint)
qed

lemma parses_dig_status:
  assumes "0 \<le> sint s" and "sint s \<le> 6"
  shows "rd_parses (block_dig_status protocol (dig_wire_status protocol s)) [] s"
  using small_status [OF assms]
  by (auto simp: block_dig_status_def dig_wire_status_def rd_check_def parses_return)

lemma byte_of_coordinate:
  fixes y :: i32
  assumes "0 \<le> sint y" and "sint y \<le> 255"
  shows "ucast (ucast y :: u8) = y"
proof -
  have "uint y = sint y" using assms by (simp add: uint_nonneg_sint)
  then show ?thesis
    by (intro word_uint_eqI)
      (use assms in \<open>simp add: unsigned_ucast_eq unsigned_take_bit_eq take_bit_int_eq_self\<close>)
qed

lemma byte_of_status:
  assumes "0 \<le> sint s" and "sint s \<le> 6"
  shows "scast (ucast s :: i8) = (s :: i32)"
  using small_status [OF assms] by auto

lemma parses_when: "(c \<Longrightarrow> rd_parses m bs x) \<Longrightarrow> (\<not> c \<Longrightarrow> x = dflt)
  \<Longrightarrow> rd_parses (rd_when c dflt m) (if c then bs else []) x"
  by (simp add: rd_when_def parses_return)

lemma parses_dig_wire:
  assumes v: "dig_valid protocol v"
  shows "rd_parses (if protocol \<le> 5 then
          rd_bind mc_reader_i8 (\<lambda>status. rd_bind mc_reader_i32 (\<lambda>x. rd_bind mc_reader_u8 (\<lambda>y.
          rd_bind mc_reader_i32 (\<lambda>z. rd_bind mc_reader_i8 (\<lambda>face.
          rd_return \<lparr>bd_status = scast status, bd_location = \<lparr>pos_x = x, pos_y = ucast y, pos_z = z\<rparr>,
            bd_face = face, bd_sequence = 0\<rparr>)))))
        else
          rd_bind mc_reader_varint (\<lambda>status. rd_bind (mc_reader_position protocol) (\<lambda>location.
          rd_bind mc_reader_i8 (\<lambda>face. rd_bind (rd_when (protocol \<ge> 759) 0 mc_reader_varint) (\<lambda>sequence.
          rd_return \<lparr>bd_status = status, bd_location = location, bd_face = face,
            bd_sequence = sequence\<rparr>)))))
      (dig_bytes protocol v) (v\<lparr>bd_status := dig_wire_status protocol (bd_status v)\<rparr>)"
proof (cases "protocol \<le> 5")
  case True
  let ?y = "pos_y (bd_location v)"
  have wire: "v\<lparr>bd_status := dig_wire_status protocol (bd_status v)\<rparr>
      = \<lparr>bd_status = scast (ucast (bd_status v) :: i8),
         bd_location = \<lparr>pos_x = pos_x (bd_location v), pos_y = ucast (ucast ?y :: u8),
           pos_z = pos_z (bd_location v)\<rparr>, bd_face = bd_face v, bd_sequence = 0\<rparr>"
    using v True byte_of_coordinate [of ?y] byte_of_status [of "bd_status v"]
    by (simp add: dig_valid_def dig_wire_status_def)
  have bytes: "dig_bytes protocol v = [ucast (bd_status v)] @ be_bytes 4 (pos_x (bd_location v))
      @ [ucast ?y] @ be_bytes 4 (pos_z (bd_location v)) @ [bd_face v] @ []"
    using True by (simp add: dig_bytes_def)
  show ?thesis
    unfolding if_P [OF True] wire bytes
    by (rule parses_bind [OF parses_same_width(1)], rule parses_bind [OF parses_same_width(3)],
        rule parses_bind [OF parses_u8], rule parses_bind [OF parses_same_width(3)],
        rule parses_bind [OF parses_same_width(1)], rule parses_return)
next
  case False
  have wire: "v\<lparr>bd_status := dig_wire_status protocol (bd_status v)\<rparr>
      = \<lparr>bd_status = dig_wire_status protocol (bd_status v), bd_location = bd_location v,
         bd_face = bd_face v, bd_sequence = bd_sequence v\<rparr>"
    by simp
  have bytes: "dig_bytes protocol v = varint_bytes (dig_wire_status protocol (bd_status v))
      @ be_bytes 8 (position_pack protocol (bd_location v)) @ [bd_face v]
      @ (if protocol \<ge> 759 then varint_bytes (bd_sequence v) else []) @ []"
    using False by (simp add: dig_bytes_def)
  have location: "rd_parses (mc_reader_position protocol)
      (be_bytes 8 (position_pack protocol (bd_location v))) (bd_location v)"
    using v False by (intro position_codec.get_wire) (simp add: dig_valid_def)
  have sequence: "rd_parses (rd_when (protocol \<ge> 759) 0 mc_reader_varint)
      (if protocol \<ge> 759 then varint_bytes (bd_sequence v) else []) (bd_sequence v)"
    using v by (intro parses_when parses_varint) (simp add: dig_valid_def)
  show ?thesis
    unfolding if_not_P [OF False] wire bytes
    by (rule parses_bind [OF parses_varint], rule parses_bind [OF location],
        rule parses_bind [OF parses_same_width(1)], rule parses_bind [OF sequence], rule parses_return)
qed

lemma parses_dig:
  assumes v: "dig_valid protocol v"
  shows "rd_parses (typed_decode_block_dig protocol) (dig_bytes protocol v) v"
proof -
  let ?wire = "v\<lparr>bd_status := dig_wire_status protocol (bd_status v)\<rparr>"
  have status: "rd_parses (block_dig_status protocol (bd_status ?wire)) [] (bd_status v)"
    using parses_dig_status v by (simp add: dig_valid_def)
  have rest: "rd_parses (rd_bind (block_dig_status protocol (bd_status ?wire)) (\<lambda>status.
      rd_bind (rd_check (\<not> (sint status < 0 \<or> sint status > 6 \<or> sint (bd_face ?wire) < 0
        \<or> sint (bd_face ?wire) > 5 \<or> sint (bd_sequence ?wire) < 0))) (\<lambda>_.
      rd_return (?wire\<lparr>bd_status := status\<rparr>)))) ([] @ [] @ []) v"
    by (rule parses_bind [OF status], rule parses_bind [OF parses_check])
      (use v in \<open>auto simp: dig_valid_def parses_return\<close>)
  have "rd_parses (typed_decode_block_dig protocol) (dig_bytes protocol v @ [] @ [] @ []) v"
    unfolding typed_decode_block_dig_def by (rule parses_bind [OF parses_dig_wire [OF v]], rule rest)
  then show ?thesis by simp
qed

lemma contract_dig:
  assumes v: "dig_valid protocol v"
  shows "pk_contract (mc_packet_block_dig protocol (Some v)) (dig_bytes protocol v)"
proof (cases "protocol \<le> 5")
  case True
  then show ?thesis
    using v unfolding mc_packet_block_dig_def dig_valid_def
    by (auto simp: pk_deref_def pk_guard_def dig_bytes_def UINT8_MAX_def
        intro!: pk_contract_eq [OF pk_contract_all_Cons] pk_writes)
next
  case False
  have position: "pk_contract (mc_packet_position protocol (bd_location v))
      (be_bytes 8 (position_pack protocol (bd_location v)))"
    using v False by (intro position_codec.put_wire) (simp add: dig_valid_def)
  have "pk_contract (pk_all
      [mc_packet_varint (dig_wire_status protocol (bd_status v)),
       mc_packet_position protocol (bd_location v), mc_packet_i8 (bd_face v),
       pk_when (\<not> protocol < 759) (mc_packet_varint (bd_sequence v))])
     (varint_bytes (dig_wire_status protocol (bd_status v))
        @ be_bytes 8 (position_pack protocol (bd_location v)) @ [bd_face v]
        @ (if \<not> protocol < 759 then varint_bytes (bd_sequence v) else []) @ [])"
    by (intro pk_contract_all_Cons pk_contract_all_Nil pk_contract_varint position pk_contract_i8
        pk_contract_when)
  then show ?thesis
    using v False unfolding mc_packet_block_dig_def dig_valid_def
    by (simp add: pk_deref_def pk_guard_def dig_bytes_def dig_wire_status_def Let_def not_less)
qed

lemma stops_dig [rd_sticky]: "rd_stops (typed_decode_block_dig protocol)"
  unfolding typed_decode_block_dig_def by (intro rd_sticky parses_if)

interpretation dig_codec: wire_codec "typed_decode_block_dig protocol"
  "\<lambda>v. mc_packet_block_dig protocol (Some v)" "dig_bytes protocol" "dig_valid protocol" for protocol
  by (intro wire_codecI rd_checked rd_sticky contract_dig parses_dig)

end
