(* ===== verification/Canonical.thy ===== *)
theory Canonical
  imports Typed_Dispatch
begin

text \<open>
  The canonical packet values of \<open>api.c\<close> (\<open>mc_canonical_header_init\<close> to
  \<open>mc_decode_canonical_block_change\<close>): a header names a packet and keeps its payload; each decoder
  decodes the payload with \<^term>\<open>mc_decode_packet\<close> and projects the packets of one group of families
  onto one record. The source switches on the family and reads the member of that family; here the
  constructor of the packet is that member (\<open>dispatch_member\<close>). \<open>storage\<close> is
  \<open>sizeof(McTypedPacketStorage)\<close>.
\<close>

subsection \<open>Headers\<close>

record canonical_header =
  ch_protocol :: int
  ch_state :: mc_state
  ch_direction :: mc_direction
  ch_packet_id :: i32
  ch_family :: mc_packet_family
  ch_raw_payload :: buffer

text \<open>\<open>header_out\<close> tells whether the output pointer is set.\<close>

definition mc_canonical_header_init ::
  "bool \<Rightarrow> int \<Rightarrow> mc_state \<Rightarrow> mc_direction \<Rightarrow> i32 \<Rightarrow> buffer \<Rightarrow> mc_error option
   \<Rightarrow> canonical_header option \<times> mc_error option" where
  "mc_canonical_header_init header_out protocol state direction packet_id payload error =
     (let e = typed_error_init error protocol state direction packet_id;
          fail = (\<lambda>code. (None, map_option (record_error code MC_ERROR_OFFSET_UNKNOWN) e))
      in if \<not> header_out \<or> (buf_null payload \<and> buf_size payload \<noteq> 0)
         then fail MC_ERROR_INVALID_ARGUMENT
         else if \<not> mc_protocol_supported protocol then fail MC_ERROR_UNSUPPORTED_PROTOCOL
         else if \<not> mc_state_listed state then fail MC_ERROR_INVALID_STATE
         else if direction \<noteq> MC_PACKET_SERVERBOUND \<and> direction \<noteq> MC_PACKET_CLIENTBOUND
         then fail MC_ERROR_INVALID_DIRECTION
         else if mc_packet_name protocol state direction packet_id = None
         then fail MC_ERROR_UNKNOWN_PACKET
         else (Some \<lparr>ch_protocol = protocol, ch_state = state, ch_direction = direction,
                 ch_packet_id = packet_id,
                 ch_family = mc_packet_family protocol state direction packet_id,
                 ch_raw_payload = payload\<rparr>, e))"

definition header_accepted :: "canonical_header \<Rightarrow> bool" where
  "header_accepted h \<longleftrightarrow>
     \<not> (buf_null (ch_raw_payload h) \<and> buf_size (ch_raw_payload h) \<noteq> 0)
     \<and> mc_protocol_supported (ch_protocol h) \<and> mc_state_listed (ch_state h)
     \<and> (ch_direction h = MC_PACKET_SERVERBOUND \<or> ch_direction h = MC_PACKET_CLIENTBOUND)
     \<and> mc_packet_name (ch_protocol h) (ch_state h) (ch_direction h) (ch_packet_id h) \<noteq> None
     \<and> mc_packet_family (ch_protocol h) (ch_state h) (ch_direction h) (ch_packet_id h) = ch_family h"

definition canonical_header_valid ::
  "canonical_header option \<Rightarrow> mc_error option \<Rightarrow> bool \<times> mc_error option" where
  "canonical_header_valid header error =
     (case header of
        None \<Rightarrow> (False, map_option (\<lambda>_.
          record_error MC_ERROR_INVALID_ARGUMENT MC_ERROR_OFFSET_UNKNOWN mc_error_clear) error)
      | Some h \<Rightarrow>
          let e = typed_error_init error (ch_protocol h) (ch_state h) (ch_direction h) (ch_packet_id h)
          in if header_accepted h then (True, e)
             else (False, map_option (record_error MC_ERROR_INVALID_ARGUMENT MC_ERROR_OFFSET_UNKNOWN) e))"

text \<open>The storage is always present where this is called.\<close>

definition canonical_decode_typed ::
  "gz_inflate \<Rightarrow> gz_inflate \<Rightarrow> (typed_member \<Rightarrow> nat) \<Rightarrow> nat \<Rightarrow> canonical_header option
   \<Rightarrow> mc_decode_mode \<Rightarrow> mc_error option \<Rightarrow> (canonical_header \<times> typed_packet) option \<times> mc_error option" where
  "canonical_decode_typed gz zl sizes storage header mode error =
     (let (valid, e) = canonical_header_valid header error in
      case header of None \<Rightarrow> (None, e)
      | Some h \<Rightarrow>
          if \<not> valid then (None, e)
          else
            let (decoded, family, e') = mc_decode_packet gz zl sizes (ch_protocol h) (ch_state h)
                  (ch_direction h) (ch_packet_id h) (ch_raw_payload h) mode (Some storage) True e
            in (case decoded of None \<Rightarrow> (None, e')
                | Some p \<Rightarrow> (if family = Some (ch_family h) then Some (h, p) else None, e')))"

text \<open>
  The frame of the four decoders: \<open>value_out\<close> tells whether the output pointer is set, \<open>null_error\<close>
  is the record a null one leaves, and \<open>normal\<close> the projection; \<^term>\<open>None\<close> is the default branch
  of the switch.
\<close>

definition canonical_decode ::
  "bool \<Rightarrow> (canonical_header \<Rightarrow> typed_packet \<Rightarrow> 'v option) \<Rightarrow> mc_error option
   \<Rightarrow> (canonical_header \<times> typed_packet) option \<times> mc_error option \<Rightarrow> 'v option \<times> mc_error option" where
  "canonical_decode value_out normal null_error decoded =
     (if \<not> value_out
      then (None, map_option (record_error MC_ERROR_INVALID_ARGUMENT MC_ERROR_OFFSET_UNKNOWN) null_error)
      else
        (case decoded of
           (None, e) \<Rightarrow> (None, e)
         | (Some (h, p), e) \<Rightarrow>
             (case normal h p of
                None \<Rightarrow> (None, map_option (record_error MC_ERROR_INVALID_PACKET_BODY 0) e)
              | Some v \<Rightarrow> (Some v, e))))"

subsection \<open>Movement\<close>

record canonical_movement =
  cmv_protocol :: int
  cmv_packet_id :: i32
  cmv_direction :: mc_direction
  cmv_family :: mc_packet_family
  cmv_entity_id :: i32
  cmv_x :: f64
  cmv_y :: f64
  cmv_z :: f64
  cmv_wire_y :: f64
  cmv_yaw :: f32
  cmv_pitch :: f32
  cmv_delta_x :: f64
  cmv_delta_y :: f64
  cmv_delta_z :: f64
  cmv_teleport_id :: i32
  cmv_relative_flags :: u32
  cmv_presence :: u32
  cmv_raw_flags :: u32
  cmv_on_ground :: bool
  cmv_horizontal_collision :: bool
  cmv_wire_y_is_stance :: bool

definition canonical_movement_start :: "canonical_header \<Rightarrow> canonical_movement" where
  "canonical_movement_start h =
     \<lparr>cmv_protocol = ch_protocol h, cmv_packet_id = ch_packet_id h, cmv_direction = ch_direction h,
      cmv_family = ch_family h, cmv_entity_id = 0, cmv_x = 0, cmv_y = 0, cmv_z = 0, cmv_wire_y = 0,
      cmv_yaw = 0, cmv_pitch = 0, cmv_delta_x = 0, cmv_delta_y = 0, cmv_delta_z = 0,
      cmv_teleport_id = 0, cmv_relative_flags = 0, cmv_presence = 0, cmv_raw_flags = 0,
      cmv_on_ground = False, cmv_horizontal_collision = False, cmv_wire_y_is_stance = False\<rparr>"

text \<open>The double 1.6200000047683716.\<close>

definition STANCE :: f64 where
  "STANCE = 0x3ff9eb8520000000"

definition ground_flag :: "bool \<Rightarrow> u32" where
  "ground_flag b = (if b then 1 else 0)"

definition server_position_normal ::
  "canonical_movement \<Rightarrow> mc_clientbound_player_position \<Rightarrow> canonical_movement" where
  "server_position_normal n d =
     (let p = cp_position d; stance = (cmv_protocol n \<le> 5)
      in n\<lparr>cmv_x := pp_x p, cmv_y := pp_y p, cmv_z := pp_z p,
           cmv_wire_y := (if stance then f64_plus (pp_y p) STANCE else pp_y p),
           cmv_wire_y_is_stance := stance, cmv_yaw := pp_yaw p, cmv_pitch := pp_pitch p,
           cmv_on_ground := pp_on_ground p, cmv_delta_x := cp_delta_x d, cmv_delta_y := cp_delta_y d,
           cmv_delta_z := cp_delta_z d, cmv_teleport_id := cp_teleport_id d,
           cmv_relative_flags := cp_relative_flags d, cmv_raw_flags := cp_relative_flags d,
           cmv_presence := MC_MOVE_HAS_POSITION OR MC_MOVE_HAS_ROTATION
             OR (if cp_has_velocity_delta d then MC_MOVE_HAS_DELTA else 0)
             OR (if cp_has_teleport_id d then MC_MOVE_HAS_TELEPORT_ID else 0)
             OR (if stance then MC_MOVE_HAS_STANCE_Y else 0)\<rparr>)"

definition movement_normal :: "canonical_header \<Rightarrow> typed_packet \<Rightarrow> canonical_movement option" where
  "movement_normal h packet =
     (let n = canonical_movement_start h in
      case packet of
        Packet_movement d \<Rightarrow> Some
          (n\<lparr>cmv_x := mv_x d, cmv_y := mv_y d, cmv_z := mv_z d, cmv_wire_y := mv_wire_y d,
             cmv_yaw := mv_yaw d, cmv_pitch := mv_pitch d, cmv_on_ground := mv_on_ground d,
             cmv_horizontal_collision := mv_horizontal_collision d,
             cmv_wire_y_is_stance := mv_wire_y_is_stance d, cmv_presence := mv_presence d,
             cmv_raw_flags := mv_raw_flags d\<rparr>)
      | Packet_vehicle d \<Rightarrow> Some
          (n\<lparr>cmv_x := vm_x d, cmv_y := vm_y d, cmv_z := vm_z d, cmv_wire_y := vm_y d,
             cmv_yaw := vm_yaw d, cmv_pitch := vm_pitch d, cmv_on_ground := vm_on_ground d,
             cmv_presence := vm_presence d, cmv_raw_flags := ground_flag (vm_on_ground d)\<rparr>)
      | Packet_server_position d \<Rightarrow> Some (server_position_normal n d)
      | Packet_entity_move d \<Rightarrow> Some
          (n\<lparr>cmv_entity_id := em_entity_id d, cmv_delta_x := em_delta_x d, cmv_delta_y := em_delta_y d,
             cmv_delta_z := em_delta_z d, cmv_yaw := em_yaw d, cmv_pitch := em_pitch d,
             cmv_on_ground := em_on_ground d, cmv_presence := em_presence d,
             cmv_raw_flags := ground_flag (em_on_ground d)\<rparr>)
      | Packet_entity_teleport d \<Rightarrow> Some
          (n\<lparr>cmv_entity_id := et_entity_id d, cmv_x := et_x d, cmv_y := et_y d, cmv_z := et_z d,
             cmv_wire_y := et_y d, cmv_delta_x := et_delta_x d, cmv_delta_y := et_delta_y d,
             cmv_delta_z := et_delta_z d, cmv_yaw := et_yaw d, cmv_pitch := et_pitch d,
             cmv_on_ground := et_on_ground d, cmv_presence := et_presence d,
             cmv_raw_flags := ground_flag (et_on_ground d)\<rparr>)
      | Packet_head_rotation d \<Rightarrow> Some
          (n\<lparr>cmv_entity_id := hr_entity_id d, cmv_yaw := hr_yaw d,
             cmv_presence := MC_MOVE_HAS_ROTATION\<rparr>)
      | Packet_velocity d \<Rightarrow> Some
          (n\<lparr>cmv_entity_id := ev_entity_id d, cmv_delta_x := ev_velocity_x d,
             cmv_delta_y := ev_velocity_y d, cmv_delta_z := ev_velocity_z d,
             cmv_presence := MC_MOVE_HAS_DELTA\<rparr>)
      | _ \<Rightarrow> None)"

definition mc_decode_canonical_movement ::
  "gz_inflate \<Rightarrow> gz_inflate \<Rightarrow> (typed_member \<Rightarrow> nat) \<Rightarrow> nat \<Rightarrow> canonical_header option \<Rightarrow> bool
   \<Rightarrow> mc_decode_mode \<Rightarrow> mc_error option \<Rightarrow> canonical_movement option \<times> mc_error option" where
  "mc_decode_canonical_movement gz zl sizes storage header value_out mode error =
     canonical_decode value_out movement_normal
       (case header of None \<Rightarrow> map_option (\<lambda>_. mc_error_clear) error
        | Some h \<Rightarrow> typed_error_init error (ch_protocol h) (ch_state h) (ch_direction h) (ch_packet_id h))
       (canonical_decode_typed gz zl sizes storage header mode error)"

subsection \<open>Actions\<close>

definition MC_ACTION_HAS_ENTITY :: u32 where "MC_ACTION_HAS_ENTITY = 1"
definition MC_ACTION_HAS_ACTION :: u32 where "MC_ACTION_HAS_ACTION = 2"
definition MC_ACTION_HAS_HAND :: u32 where "MC_ACTION_HAS_HAND = 4"
definition MC_ACTION_HAS_POSITION :: u32 where "MC_ACTION_HAS_POSITION = 8"
definition MC_ACTION_HAS_TARGET :: u32 where "MC_ACTION_HAS_TARGET = 16"
definition MC_ACTION_HAS_SEQUENCE :: u32 where "MC_ACTION_HAS_SEQUENCE = 32"
definition MC_ACTION_HAS_SLOT :: u32 where "MC_ACTION_HAS_SLOT = 64"
definition MC_ACTION_HAS_FLAGS :: u32 where "MC_ACTION_HAS_FLAGS = 128"
definition MC_ACTION_HAS_SPEEDS :: u32 where "MC_ACTION_HAS_SPEEDS = 256"
definition MC_ACTION_HAS_BOOLEAN :: u32 where "MC_ACTION_HAS_BOOLEAN = 512"

record canonical_action =
  cac_protocol :: int
  cac_packet_id :: i32
  cac_direction :: mc_direction
  cac_family :: mc_packet_family
  cac_entity_id :: i32
  cac_action :: i32
  cac_hand :: i32
  cac_sequence :: i32
  cac_slot :: i32
  cac_position :: mc_position
  cac_target_x :: f32
  cac_target_y :: f32
  cac_target_z :: f32
  cac_sideways :: f32
  cac_forward :: f32
  cac_flying_speed :: f32
  cac_walking_speed :: f32
  cac_presence :: u32
  cac_raw_flags :: u32
  cac_boolean_value :: bool

definition canonical_action_start :: "canonical_header \<Rightarrow> canonical_action" where
  "canonical_action_start h =
     \<lparr>cac_protocol = ch_protocol h, cac_packet_id = ch_packet_id h, cac_direction = ch_direction h,
      cac_family = ch_family h, cac_entity_id = 0, cac_action = 0, cac_hand = 0, cac_sequence = 0,
      cac_slot = 0, cac_position = \<lparr>pos_x = 0, pos_y = 0, pos_z = 0\<rparr>, cac_target_x = 0,
      cac_target_y = 0, cac_target_z = 0, cac_sideways = 0, cac_forward = 0, cac_flying_speed = 0,
      cac_walking_speed = 0, cac_presence = 0, cac_raw_flags = 0, cac_boolean_value = False\<rparr>"

text \<open>The cast of the enumeration to its number.\<close>

fun entity_action_number :: "mc_entity_action_kind \<Rightarrow> i32" where
  "entity_action_number MC_ENTITY_ACTION_START_SNEAKING = 0"
| "entity_action_number MC_ENTITY_ACTION_STOP_SNEAKING = 1"
| "entity_action_number MC_ENTITY_ACTION_LEAVE_BED = 2"
| "entity_action_number MC_ENTITY_ACTION_START_SPRINTING = 3"
| "entity_action_number MC_ENTITY_ACTION_STOP_SPRINTING = 4"
| "entity_action_number MC_ENTITY_ACTION_START_HORSE_JUMP = 5"
| "entity_action_number MC_ENTITY_ACTION_STOP_HORSE_JUMP = 6"
| "entity_action_number MC_ENTITY_ACTION_OPEN_VEHICLE_INVENTORY = 7"
| "entity_action_number MC_ENTITY_ACTION_START_ELYTRA_FLYING = 8"

definition flag_if :: "bool \<Rightarrow> u32 \<Rightarrow> u32" where
  "flag_if c flag = (if c then flag else 0)"

definition use_entity_normal :: "canonical_action \<Rightarrow> mc_use_entity \<Rightarrow> canonical_action" where
  "use_entity_normal n d =
     n\<lparr>cac_entity_id := ue_entity_id d, cac_action := ue_action d, cac_hand := ue_hand d,
       cac_target_x := ue_target_x d, cac_target_y := ue_target_y d, cac_target_z := ue_target_z d,
       cac_boolean_value := ue_sneaking d,
       cac_presence := MC_ACTION_HAS_ENTITY OR MC_ACTION_HAS_ACTION
         OR flag_if (ue_presence d AND MC_USE_ENTITY_HAS_HAND \<noteq> 0) MC_ACTION_HAS_HAND
         OR flag_if (ue_presence d AND MC_USE_ENTITY_HAS_TARGET \<noteq> 0) MC_ACTION_HAS_TARGET
         OR flag_if (ue_presence d AND MC_USE_ENTITY_HAS_SNEAKING \<noteq> 0) MC_ACTION_HAS_BOOLEAN\<rparr>"

definition action_normal :: "canonical_header \<Rightarrow> typed_packet \<Rightarrow> canonical_action option" where
  "action_normal h packet =
     (let n = canonical_action_start h; protocol = ch_protocol h in
      case packet of
        Packet_input d \<Rightarrow> Some
          (n\<lparr>cac_sideways := pi_sideways d, cac_forward := pi_forward d,
             cac_raw_flags := ucast (pi_flags d), cac_presence := MC_ACTION_HAS_FLAGS\<rparr>)
      | Packet_action d \<Rightarrow> Some
          (n\<lparr>cac_entity_id := ea_entity_id d, cac_action := entity_action_number (ea_action d),
             cac_raw_flags := ea_jump_boost d,
             cac_presence := MC_ACTION_HAS_ENTITY OR MC_ACTION_HAS_ACTION\<rparr>)
      | Packet_abilities d \<Rightarrow> Some
          (n\<lparr>cac_raw_flags := ucast (pa_flags d), cac_flying_speed := pa_flying_speed d,
             cac_walking_speed := pa_walking_speed d,
             cac_presence := MC_ACTION_HAS_FLAGS
               OR flag_if (ch_direction h = MC_PACKET_CLIENTBOUND \<or> protocol < 735)
                    MC_ACTION_HAS_SPEEDS\<rparr>)
      | Packet_use_entity d \<Rightarrow> Some (use_entity_normal n d)
      | Packet_arm d \<Rightarrow> Some
          (n\<lparr>cac_entity_id := aa_entity_id d, cac_hand := aa_hand d,
             cac_presence := MC_ACTION_HAS_HAND OR flag_if (protocol \<le> 5) MC_ACTION_HAS_ENTITY\<rparr>)
      | Packet_dig d \<Rightarrow> Some
          (n\<lparr>cac_action := bd_status d, cac_position := bd_location d, cac_sequence := bd_sequence d,
             cac_raw_flags := ucast (bd_face d),
             cac_presence := MC_ACTION_HAS_ACTION OR MC_ACTION_HAS_POSITION OR MC_ACTION_HAS_FLAGS
               OR flag_if (protocol \<ge> 759) MC_ACTION_HAS_SEQUENCE\<rparr>)
      | Packet_place d \<Rightarrow> Some
          (n\<lparr>cac_action := bp_direction d, cac_hand := bp_hand d, cac_position := bp_location d,
             cac_sequence := bp_sequence d, cac_boolean_value := bp_inside_block d,
             cac_presence := MC_ACTION_HAS_ACTION OR MC_ACTION_HAS_POSITION
               OR flag_if (protocol \<ge> 107) MC_ACTION_HAS_HAND
               OR flag_if (protocol \<ge> 759) MC_ACTION_HAS_SEQUENCE
               OR flag_if (protocol \<ge> 477) MC_ACTION_HAS_BOOLEAN\<rparr>)
      | Packet_use_item d \<Rightarrow> Some
          (n\<lparr>cac_hand := ui_hand d, cac_sequence := ui_sequence d,
             cac_presence := MC_ACTION_HAS_HAND OR flag_if (protocol \<ge> 759) MC_ACTION_HAS_SEQUENCE\<rparr>)
      | Packet_held slot \<Rightarrow> Some (n\<lparr>cac_slot := slot, cac_presence := MC_ACTION_HAS_SLOT\<rparr>)
      | Packet_teleport_confirm d \<Rightarrow> Some
          (n\<lparr>cac_sequence := tc_teleport_id d, cac_presence := MC_ACTION_HAS_SEQUENCE\<rparr>)
      | Packet_command action \<Rightarrow> Some
          (n\<lparr>cac_action := action, cac_presence := MC_ACTION_HAS_ACTION\<rparr>)
      | _ \<Rightarrow> None)"

text \<open>The other three decoders clear the record of a null output without naming the packet.\<close>

definition mc_decode_canonical_action ::
  "gz_inflate \<Rightarrow> gz_inflate \<Rightarrow> (typed_member \<Rightarrow> nat) \<Rightarrow> nat \<Rightarrow> canonical_header option \<Rightarrow> bool
   \<Rightarrow> mc_decode_mode \<Rightarrow> mc_error option \<Rightarrow> canonical_action option \<times> mc_error option" where
  "mc_decode_canonical_action gz zl sizes storage header value_out mode error =
     canonical_decode value_out action_normal (map_option (\<lambda>_. mc_error_clear) error)
       (canonical_decode_typed gz zl sizes storage header mode error)"

subsection \<open>Inventories and blocks\<close>

record canonical_inventory =
  civ_protocol :: int
  civ_packet_id :: i32
  civ_direction :: mc_direction
  civ_family :: mc_packet_family
  civ_window_id :: i32
  civ_state_id :: i32
  civ_slot :: i16
  civ_mouse_button :: i8
  civ_action_number :: i16
  civ_mode :: i32
  civ_item_count :: u32
  civ_changed_slot_count :: u32
  civ_item :: mc_item_stack_view
  civ_items :: "u8 list"
  civ_changed_slots :: "u8 list"
  civ_presence :: u32

definition canonical_inventory_start :: "canonical_header \<Rightarrow> canonical_inventory" where
  "canonical_inventory_start h =
     \<lparr>civ_protocol = ch_protocol h, civ_packet_id = ch_packet_id h, civ_direction = ch_direction h,
      civ_family = ch_family h, civ_window_id = 0, civ_state_id = 0, civ_slot = 0,
      civ_mouse_button = 0, civ_action_number = 0, civ_mode = 0, civ_item_count = 0,
      civ_changed_slot_count = 0, civ_item = item_stack_start MC_ITEM_WIRE_FULL, civ_items = [],
      civ_changed_slots = [], civ_presence = 0\<rparr>"

definition inventory_normal :: "canonical_header \<Rightarrow> typed_packet \<Rightarrow> canonical_inventory option" where
  "inventory_normal h packet =
     (let n = canonical_inventory_start h in
      case packet of
        Packet_window_click d \<Rightarrow> Some
          (n\<lparr>civ_window_id := wc_window_id d, civ_state_id := wc_state_id d, civ_slot := wc_slot d,
             civ_mouse_button := wc_mouse_button d, civ_action_number := wc_action_number d,
             civ_mode := wc_mode d, civ_changed_slot_count := wc_changed_slot_count d,
             civ_changed_slots := wc_changed_slots d, civ_item := wc_carried_item d,
             civ_presence := flag_if (wc_has_state_id d) 1 OR flag_if (wc_has_action_number d) 2
               OR flag_if (wc_hashed_slots d) 4\<rparr>)
      | Packet_creative_slot d \<Rightarrow> Some (n\<lparr>civ_slot := cs_slot d, civ_item := cs_item d\<rparr>)
      | Packet_set_slot d \<Rightarrow> Some
          (n\<lparr>civ_window_id := ss_window_id d, civ_state_id := ss_state_id d, civ_slot := ss_slot d,
             civ_item := ss_item d, civ_presence := flag_if (ss_has_state_id d) 1\<rparr>)
      | Packet_window_items d \<Rightarrow> Some
          (n\<lparr>civ_window_id := wi_window_id d, civ_state_id := wi_state_id d,
             civ_item_count := wi_item_count d, civ_items := wi_items d,
             civ_item := wi_carried_item d,
             civ_presence := flag_if (wi_has_state_id d) 1 OR flag_if (wi_has_carried_item d) 2\<rparr>)
      | Packet_close_window window_id \<Rightarrow> Some (n\<lparr>civ_window_id := window_id\<rparr>)
      | _ \<Rightarrow> None)"

definition mc_decode_canonical_inventory ::
  "gz_inflate \<Rightarrow> gz_inflate \<Rightarrow> (typed_member \<Rightarrow> nat) \<Rightarrow> nat \<Rightarrow> canonical_header option \<Rightarrow> bool
   \<Rightarrow> mc_decode_mode \<Rightarrow> mc_error option \<Rightarrow> canonical_inventory option \<times> mc_error option" where
  "mc_decode_canonical_inventory gz zl sizes storage header value_out mode error =
     canonical_decode value_out inventory_normal (map_option (\<lambda>_. mc_error_clear) error)
       (canonical_decode_typed gz zl sizes storage header mode error)"

record canonical_block_change =
  cbc_protocol :: int
  cbc_packet_id :: i32
  cbc_direction :: mc_direction
  cbc_family :: mc_packet_family
  cbc_position :: mc_position
  cbc_state_id :: i32
  cbc_record_count :: u32
  cbc_records :: "u8 list"
  cbc_record_format :: mc_multi_block_record_format
  cbc_suppress_light_updates :: bool

definition block_change_normal :: "canonical_header \<Rightarrow> typed_packet \<Rightarrow> canonical_block_change option" where
  "block_change_normal h packet =
     (let n = \<lparr>cbc_protocol = ch_protocol h, cbc_packet_id = ch_packet_id h,
               cbc_direction = ch_direction h, cbc_family = ch_family h,
               cbc_position = \<lparr>pos_x = 0, pos_y = 0, pos_z = 0\<rparr>, cbc_state_id = 0,
               cbc_record_count = 0, cbc_records = [],
               cbc_record_format = MC_MULTI_BLOCK_RECORD_LEGACY_1_7,
               cbc_suppress_light_updates = False\<rparr> in
      case packet of
        Packet_block_change d \<Rightarrow> Some
          (n\<lparr>cbc_position := bc_position d, cbc_state_id := bc_state_id d, cbc_record_count := 1\<rparr>)
      | Packet_multi_block_change d \<Rightarrow> Some
          (n\<lparr>cbc_record_count := mb_record_count d, cbc_records := mb_records d,
             cbc_record_format := mb_format d,
             cbc_suppress_light_updates := mb_suppress_light_updates d\<rparr>)
      | _ \<Rightarrow> None)"

definition mc_decode_canonical_block_change ::
  "gz_inflate \<Rightarrow> gz_inflate \<Rightarrow> (typed_member \<Rightarrow> nat) \<Rightarrow> nat \<Rightarrow> canonical_header option \<Rightarrow> bool
   \<Rightarrow> mc_decode_mode \<Rightarrow> mc_error option \<Rightarrow> canonical_block_change option \<times> mc_error option" where
  "mc_decode_canonical_block_change gz zl sizes storage header value_out mode error =
     canonical_decode value_out block_change_normal (map_option (\<lambda>_. mc_error_clear) error)
       (canonical_decode_typed gz zl sizes storage header mode error)"

end
