(* ===== verification/Decode_Laws.thy ===== *)
theory Decode_Laws
  imports Typed_Codecs Canonical
begin

text \<open>
  What \<^term>\<open>mc_decode_packet\<close> promises, for every family at once: which requests it passes on to a
  decoder, what a refusal and a failed decoder leave in the error record, and what a success means.
  The decoders enter only through the interface \<open>reader_op\<close>, which the dispatch has.
\<close>

subsection \<open>Evaluation\<close>

text \<open>The equations that run a reader over given bytes.\<close>

lemmas reader_eval = mc_reader_init_mode_def Let_def rd_bind_def rd_return_def rd_orelse_def rd_test_def
  rd_here_def rd_strict_def rd_when_def rd_such_def mc_reader_bytes_def mc_reader_u8_def mc_reader_i8_def
  mc_reader_u16_def mc_reader_i32_def mc_reader_u32_def be_fold_def mc_reader_varint_def
  rd_varint_loop.simps mc_reader_string_def mc_reader_string_bounded_def MC_DEFAULT_MAX_STRING_BYTES_def
  leb_size.simps

subsection \<open>Granted requests\<close>

text \<open>The guards in front of the dispatch; \<open>size\<close> is the size of the caller's buffer.\<close>

definition decode_granted ::
  "(typed_member \<Rightarrow> nat) \<Rightarrow> int \<Rightarrow> mc_state \<Rightarrow> mc_direction \<Rightarrow> i32 \<Rightarrow> buffer \<Rightarrow> mc_decode_mode
   \<Rightarrow> nat option \<Rightarrow> bool \<Rightarrow> bool" where
  "decode_granted sizes protocol state direction packet_id payload mode out family_out \<longleftrightarrow>
     \<not> (buf_null payload \<and> buf_size payload \<noteq> 0) \<and> family_out \<and> valid_mode mode
     \<and> mc_protocol_supported protocol \<and> mc_state_listed state
     \<and> (direction = MC_PACKET_SERVERBOUND \<or> direction = MC_PACKET_CLIENTBOUND)
     \<and> mc_packet_name protocol state direction packet_id \<noteq> None
     \<and> mc_packet_decoded_size sizes (mc_packet_family protocol state direction packet_id) \<noteq> 0
     \<and> (case out of None \<Rightarrow> False
        | Some room \<Rightarrow>
            mc_packet_decoded_size sizes (mc_packet_family protocol state direction packet_id) \<le> room)"

text \<open>The decoder a granted request runs, and its outcome.\<close>

definition decode_granted_body ::
  "gz_inflate \<Rightarrow> gz_inflate \<Rightarrow> int \<Rightarrow> mc_state \<Rightarrow> mc_direction \<Rightarrow> i32 \<Rightarrow> buffer \<Rightarrow> mc_decode_mode
   \<Rightarrow> mc_error option \<Rightarrow> typed_packet option \<times> mc_error option" where
  "decode_granted_body gz zl protocol state direction packet_id payload mode error =
     decode_body gz zl protocol direction (the (mc_packet_name protocol state direction packet_id))
       (mc_packet_family protocol state direction packet_id)
       (decode_reader protocol state direction packet_id payload mode
          (typed_error_init error protocol state direction packet_id))"

lemma decode_granted_run:
  assumes "decode_granted sizes protocol state direction packet_id payload mode out family_out"
  shows "mc_decode_packet gz zl sizes protocol state direction packet_id payload mode out family_out error =
     (fst (decode_granted_body gz zl protocol state direction packet_id payload mode error),
      Some (mc_packet_family protocol state direction packet_id),
      snd (decode_granted_body gz zl protocol state direction packet_id payload mode error))"
proof -
  obtain room where "out = Some room"
    using assms by (auto simp: decode_granted_def split: option.splits)
  then show ?thesis
    using assms
    by (auto simp: mc_decode_packet_def decode_granted_def decode_granted_body_def Let_def valid_mode_def
        split: prod.split)
qed

text \<open>A refused request stores a code and nothing else.\<close>

lemma decode_refused:
  assumes "\<not> decode_granted sizes protocol state direction packet_id payload mode out family_out"
  obtains family code off where "code \<noteq> MC_ERROR_NONE"
    and "mc_decode_packet gz zl sizes protocol state direction packet_id payload mode out family_out error =
      (None, family, map_option (record_error code off)
         (typed_error_init error protocol state direction packet_id))"
proof (cases "(buf_null payload \<and> buf_size payload \<noteq> 0) \<or> out = None \<or> \<not> family_out
      \<or> (mode \<noteq> MC_DECODE_VANILLA_COMPAT \<and> mode \<noteq> MC_DECODE_STRICT)")
  case True
  then show ?thesis
    by (intro that [of MC_ERROR_INVALID_ARGUMENT None MC_ERROR_OFFSET_UNKNOWN])
      (simp_all only: mc_decode_packet_def Let_def if_True, simp)
next
  case args: False
  note run = mc_decode_packet_def [of gz zl sizes protocol state direction packet_id payload mode out
      family_out error, unfolded Let_def if_not_P [OF args]]
  consider "\<not> mc_protocol_supported protocol"
    | "mc_protocol_supported protocol" "\<not> mc_state_listed state"
    | "mc_protocol_supported protocol" "mc_state_listed state"
      "direction \<noteq> MC_PACKET_SERVERBOUND \<and> direction \<noteq> MC_PACKET_CLIENTBOUND"
    | "mc_protocol_supported protocol" "mc_state_listed state"
      "\<not> (direction \<noteq> MC_PACKET_SERVERBOUND \<and> direction \<noteq> MC_PACKET_CLIENTBOUND)"
      "mc_packet_name protocol state direction packet_id = None"
    | name where "mc_protocol_supported protocol" "mc_state_listed state"
      "\<not> (direction \<noteq> MC_PACKET_SERVERBOUND \<and> direction \<noteq> MC_PACKET_CLIENTBOUND)"
      "mc_packet_name protocol state direction packet_id = Some name"
    by (cases "mc_packet_name protocol state direction packet_id") auto
  then show ?thesis
  proof cases
    case 1
    then show ?thesis
      by (intro that [of MC_ERROR_UNSUPPORTED_PROTOCOL None MC_ERROR_OFFSET_UNKNOWN]) (simp_all add: run)
  next
    case 2
    then show ?thesis
      by (intro that [of MC_ERROR_INVALID_STATE None MC_ERROR_OFFSET_UNKNOWN]) (simp_all add: run)
  next
    case 3
    then show ?thesis
      by (intro that [of MC_ERROR_INVALID_DIRECTION None MC_ERROR_OFFSET_UNKNOWN]) (simp_all add: run)
  next
    case 4
    then show ?thesis
      by (intro that [of MC_ERROR_UNKNOWN_PACKET None MC_ERROR_OFFSET_UNKNOWN])
        (simp_all add: run del: de_Morgan_conj)
  next
    case 5
    let ?family = "mc_packet_family protocol state direction packet_id"
    obtain room where room: "out = Some room" using args by auto
    have small: "mc_packet_decoded_size sizes ?family = 0 \<or> room < mc_packet_decoded_size sizes ?family"
      using assms args 5 room by (auto simp: decode_granted_def valid_mode_def not_le)
    show ?thesis
    proof (cases "mc_packet_decoded_size sizes ?family = 0")
      case True
      then show ?thesis using 5
        by (intro that [of MC_ERROR_UNKNOWN_PACKET "Some ?family" 0])
          (simp_all add: run del: de_Morgan_conj)
    next
      case False
      then show ?thesis using 5 small
        by (intro that [of MC_ERROR_INVALID_ARGUMENT "Some ?family" MC_ERROR_OFFSET_UNKNOWN])
          (simp_all add: run [unfolded room] room del: de_Morgan_conj)
    qed
  qed
qed

subsection \<open>Outcomes of the decoder\<close>

lemma decode_reader_fields:
  assumes "valid_mode mode" and "\<not> (buf_null payload \<and> buf_size payload \<noteq> 0)"
  shows "rd_data (decode_reader protocol state direction packet_id payload mode error) = buf_bytes payload"
    "rd_offset (decode_reader protocol state direction packet_id payload mode error) = 0"
    "\<not> rd_failed (decode_reader protocol state direction packet_id payload mode error)"
    "rd_mode (decode_reader protocol state direction packet_id payload mode error) = mode"
    "rd_ok (decode_reader protocol state direction packet_id payload mode error)"
    "rd_error (decode_reader protocol state direction packet_id payload mode error)
       = typed_error_init error protocol state direction packet_id"
    "rd_place (decode_reader protocol state direction packet_id payload mode error)
       = map_option (\<lambda>_. (state, direction, packet_id)) error"
  using assms(1,2)
  by (auto simp: decode_reader_def mc_reader_init_mode_def valid_mode_def Let_def rd_ok_def
      typed_error_init_def rd_place_def error_at_def option.map_comp comp_def)

lemma typed_error_init_again [simp]:
  "typed_error_init (typed_error_init error protocol state direction packet_id) protocol state direction packet_id
     = typed_error_init error protocol state direction packet_id"
  by (simp add: typed_error_init_def option.map_comp comp_def)

abbreviation dispatch_run ::
  "gz_inflate \<Rightarrow> gz_inflate \<Rightarrow> int \<Rightarrow> mc_direction \<Rightarrow> string \<Rightarrow> mc_packet_family \<Rightarrow> typed_packet rd" where
  "dispatch_run gz zl protocol direction name family \<equiv>
     rd_bind (typed_decode_dispatch gz zl protocol direction name family)
       (\<lambda>decoded. rd_bind mc_reader_finish (\<lambda>_. rd_return decoded))"

lemma dispatch_run_place:
  assumes "mc_protocol_supported protocol"
  shows "rd_place (snd (dispatch_run gz zl protocol direction name family r)) = rd_place r"
proof -
  have finish: "rd_place (snd (mc_reader_finish r1)) = rd_place r1" for r1
    by (simp add: mc_reader_finish_def reader_fail_def reader_fail_state_def)
  show ?thesis
    using reader_op_laws(3) [OF reader_op_dispatch [OF assms, of gz zl direction name family], where r = r]
    by (simp add: rd_bind_cases rd_return_def finish split: option.split)
qed

text \<open>Failure: the record has a code, and names the packet it named before.\<close>

lemma decode_body_failure:
  assumes supported: "mc_protocol_supported protocol"
    and none: "fst (decode_body gz zl protocol direction name family r) = None"
    and place: "rd_place r = Some (state, direction', packet_id)"
  shows "\<exists>e. snd (decode_body gz zl protocol direction name family r) = Some e
    \<and> er_code e \<noteq> MC_ERROR_NONE \<and> er_state e = state \<and> er_direction e = direction'
    \<and> er_packet_id e = packet_id"
proof -
  obtain r' where r': "dispatch_run gz zl protocol direction name family r = (None, r')"
    using none by (auto simp: decode_body_def split: prod.splits option.splits)
  have "rd_place r' = Some (state, direction', packet_id)"
    using dispatch_run_place [OF supported, of gz zl direction name family r] place by (simp add: r')
  then obtain e where "rd_error r' = Some e" "er_state e = state" "er_direction e = direction'"
    "er_packet_id e = packet_id"
    by (auto simp: rd_place_def)
  then show ?thesis by (simp add: decode_body_def r' record_error_def)
qed

text \<open>Success: the decoder succeeded at the end of the payload and left the record alone.\<close>

lemma decode_body_success:
  assumes ok: "rd_ok r" "\<not> rd_failed r" and supported: "mc_protocol_supported protocol"
  shows "fst (decode_body gz zl protocol direction name family r) = Some p \<longleftrightarrow>
    (\<exists>r'. typed_decode_dispatch gz zl protocol direction name family r = (Some p, r')
      \<and> rd_offset r' = rd_size r)"
    and "fst (decode_body gz zl protocol direction name family r) = Some p
      \<Longrightarrow> snd (decode_body gz zl protocol direction name family r) = rd_error r"
proof -
  note laws = reader_op_laws [OF reader_op_dispatch [OF supported, of gz zl direction name family], where r = r]
  show "fst (decode_body gz zl protocol direction name family r) = Some p \<longleftrightarrow>
    (\<exists>r'. typed_decode_dispatch gz zl protocol direction name family r = (Some p, r')
      \<and> rd_offset r' = rd_size r)"
    using laws ok
    by (cases "typed_decode_dispatch gz zl protocol direction name family r";
        cases "fst (typed_decode_dispatch gz zl protocol direction name family r)")
      (auto simp: decode_body_def rd_bind_def rd_return_def mc_reader_finish_def reader_fail_def)
  show "fst (decode_body gz zl protocol direction name family r) = Some p
      \<Longrightarrow> snd (decode_body gz zl protocol direction name family r) = rd_error r"
    using laws ok
    by (cases "typed_decode_dispatch gz zl protocol direction name family r";
        cases "fst (typed_decode_dispatch gz zl protocol direction name family r)")
      (auto simp: decode_body_def rd_bind_def rd_return_def mc_reader_finish_def reader_fail_def
        split: if_splits)
qed

text \<open>A decoder that succeeded reads a longer payload the same way, and stops where it stopped.\<close>

lemma decode_body_longer:
  assumes ok: "rd_ok r" "\<not> rd_failed r" and supported: "mc_protocol_supported protocol"
    and some: "fst (decode_body gz zl protocol direction name family r) = Some p" and more: "ext \<noteq> []"
  shows "decode_body gz zl protocol direction name family (rd_extend ext r)
    = (None, map_option (\<lambda>e. if er_code e = MC_ERROR_NONE
         then record_error MC_ERROR_TRAILING_BYTES (rd_size r) e else e) (rd_error r))"
proof -
  note op = reader_op_dispatch [OF supported, of gz zl direction name family]
  obtain r' where r': "typed_decode_dispatch gz zl protocol direction name family r = (Some p, r')"
    and all: "rd_offset r' = rd_size r"
    using some decode_body_success(1) [OF ok supported] by blast
  have long: "typed_decode_dispatch gz zl protocol direction name family (rd_extend ext r)
      = (Some p, rd_extend ext r')"
    by (rule reader_op.op_extend [OF op ok(1) r'])
  have "\<not> rd_failed r'" "rd_error r' = rd_error r" "rd_data r' = rd_data r"
    using reader_op_laws(1,6) [OF op, where r = r] r' ok(2) by simp_all
  then show ?thesis
    using more all
    by (simp add: decode_body_def rd_bind_def long mc_reader_finish_def reader_fail_def
        reader_fail_state_def option.map_comp comp_def record_error_def cong: if_cong)
      (auto intro!: option.map_cong)
qed

lemma decode_reader_extend:
  "decode_reader protocol state direction packet_id (Buf (bs @ ext)) mode error
     = rd_extend ext (decode_reader protocol state direction packet_id (Buf bs) mode error)"
  by (simp add: decode_reader_def mc_reader_init_mode_def rd_extend_def Let_def reader_fail_state_def)

text \<open>What a decoder of the family parses is what the request returns.\<close>

lemma decode_parses:
  assumes granted: "decode_granted sizes protocol state direction packet_id (Buf bs) mode out family_out"
    and name: "mc_packet_name protocol state direction packet_id = Some name"
    and family: "mc_packet_family protocol state direction packet_id = family"
    and parses: "rd_parses (typed_decode_dispatch gz zl protocol direction name family) bs p"
  shows "mc_decode_packet gz zl sizes protocol state direction packet_id (Buf bs) mode out family_out error
    = (Some p, Some family, typed_error_init error protocol state direction packet_id)"
proof -
  let ?e = "typed_error_init error protocol state direction packet_id"
  let ?r = "decode_reader protocol state direction packet_id (Buf bs) mode ?e"
  have mode: "valid_mode mode" and supported: "mc_protocol_supported protocol"
    using granted by (simp_all add: decode_granted_def)
  note r = decode_reader_fields [OF mode, of "Buf bs" protocol state direction packet_id ?e]
  have "typed_decode_dispatch gz zl protocol direction name family ?r = (Some p, rd_advance (length bs) ?r)"
    by (rule rd_parsesD [OF parses, of _ "[]"]) (simp_all add: r)
  then have p: "fst (decode_body gz zl protocol direction name family ?r) = Some p"
    using decode_body_success(1) [of ?r protocol] supported by (simp add: r)
  have "rd_error ?r = ?e" by (simp add: r(6))
  then have "snd (decode_body gz zl protocol direction name family ?r) = ?e"
    using decode_body_success(2) [OF r(5,3) supported p] by simp
  then show ?thesis
    using p name family by (simp add: decode_granted_run [OF granted] decode_granted_body_def)
qed

subsection \<open>The canonical decoders over the typed one\<close>

lemma decode_error_again:
  "mc_decode_packet gz zl sizes protocol state direction packet_id payload mode out family_out
     (typed_error_init error protocol state direction packet_id)
   = mc_decode_packet gz zl sizes protocol state direction packet_id payload mode out family_out error"
  by (simp add: mc_decode_packet_def)

lemma header_made:
  assumes "mc_canonical_header_init True protocol state direction packet_id payload error = (Some h, error')"
  shows "header_accepted h \<and> h = \<lparr>ch_protocol = protocol, ch_state = state, ch_direction = direction,
    ch_packet_id = packet_id, ch_family = mc_packet_family protocol state direction packet_id,
    ch_raw_payload = payload\<rparr>"
  using assms
  by (auto simp: mc_canonical_header_init_def header_accepted_def Let_def split: if_splits)

lemma canonical_typed:
  assumes "header_accepted h"
    and "mc_decode_packet gz zl sizes (ch_protocol h) (ch_state h) (ch_direction h) (ch_packet_id h)
      (ch_raw_payload h) mode (Some storage) True error = (Some p, Some (ch_family h), error')"
  shows "canonical_decode_typed gz zl sizes storage (Some h) mode error = (Some (h, p), error')"
  using assms
  by (simp add: canonical_decode_typed_def canonical_header_valid_def decode_error_again Let_def)

lemma canonical_decode_some:
  "canonical_decode True normal null_error (Some (h, p), error)
   = (normal h p, if normal h p = None then map_option (record_error MC_ERROR_INVALID_PACKET_BODY 0) error
                  else error)"
  by (simp add: canonical_decode_def split: option.split)

text \<open>The members that have a canonical view, in four disjoint groups.\<close>

definition canonical_members :: "typed_member list" where
  "canonical_members =
     [Member_movement, Member_vehicle, Member_server_position, Member_entity_move, Member_entity_teleport,
      Member_head_rotation, Member_velocity, Member_input, Member_action, Member_abilities,
      Member_use_entity, Member_arm, Member_dig, Member_place, Member_use_item, Member_held,
      Member_teleport_confirm, Member_command, Member_window_click, Member_creative_slot,
      Member_set_slot, Member_window_items, Member_close_window, Member_block_change,
      Member_multi_block_change]"

lemma canonical_groups:
  "length (filter id [movement_normal h p \<noteq> None, action_normal h p \<noteq> None,
     inventory_normal h p \<noteq> None, block_change_normal h p \<noteq> None])
   = (if member_of p \<in> set canonical_members then 1 else 0)"
  by (cases p)
    (simp_all add: movement_normal_def action_normal_def inventory_normal_def block_change_normal_def
      canonical_members_def Let_def)

end
