(* ===== verification/Connection.thy ===== *)
theory Connection
  imports Framing Registry Packet_Readers Uuid
begin

text \<open>
  The state \<open>McClient\<close> of \<open>api.c\<close> and its transport: \<open>change_state\<close>, \<open>emit_packet\<close>, \<open>send_all\<close>,
  \<open>receive_some\<close>, \<open>send_frame\<close>, \<open>read_frame\<close>, \<open>send_builder\<close>, \<open>read_protocol_packet\<close> and the small
  operations of the client's life cycle.

  Environment. A socket is the list of the events that its system calls return, in order:
  \<open>cl_waits\<close> for \<open>backend_wait\<close>, \<open>cl_receives\<close> for \<open>recv\<close>, \<open>cl_sends\<close> for \<open>send\<close>. Behind the end of
  a list a wait is ready, a receive finds the connection closed and a send takes everything. On the
  descriptor -1 every call fails.
  \<open>cl_wire\<close> is what the peer has been sent. The application's callbacks and stream transforms are
  functions on the whole client, which they may use, and on the value \<open>cl_userdata\<close> behind their
  user pointer; a null callback is the identity. The text of error messages is not modelled.
\<close>

datatype mc_wait = Wait_ready | Wait_timeout | Wait_failed

datatype mc_recv = Recv_data "u8 list" | Recv_interrupted | Recv_blocked | Recv_failed

datatype mc_send = Send_taken nat | Send_interrupted | Send_failed

record 'u mc_stream_transforms =
  tr_encrypt :: "u8 list \<Rightarrow> 'u \<Rightarrow> u8 list option \<times> 'u"
  tr_decrypt :: "u8 list \<Rightarrow> 'u \<Rightarrow> u8 list option \<times> 'u"

record 'u mc_client =
  cl_socket_fd :: int
  cl_stop :: bool
  cl_profile :: mc_profile
  cl_userdata :: 'u
  cl_state :: mc_state
  cl_compression_threshold :: int
  cl_sent_bytes :: u64
  cl_received_bytes :: u64
  cl_automatic_replies :: u32
  cl_read_timeout_ms :: u32
  cl_transforms :: "'u mc_stream_transforms option"
  cl_stream_decoder :: mc_stream_decoder
  cl_tracked_position :: mc_player_position
  cl_tracked_position_valid :: bool
  cl_player_loaded_sent :: bool
  cl_server_side :: bool
  cl_waits :: "mc_wait list"
  cl_receives :: "mc_recv list"
  cl_sends :: "mc_send list"
  cl_wire :: "u8 list"

record 'u client_env =
  ce_frame :: frame_env
  ce_stream :: stream_env
  ce_zlib :: zlib_gzip
  ce_connect :: "u8 list \<Rightarrow> u16 \<Rightarrow> int option"
  ce_backend_init :: "int \<Rightarrow> bool"
  ce_on_state :: "mc_state \<Rightarrow> mc_state \<Rightarrow> 'u mc_client \<Rightarrow> 'u mc_client"
  ce_on_packet :: "mc_state \<Rightarrow> i32 \<Rightarrow> u8 list \<Rightarrow> 'u mc_client \<Rightarrow> 'u mc_client"

subsection \<open>Control flow\<close>

text \<open>An operation on the client: \<^term>\<open>None\<close> is the return value -1.\<close>

type_synonym ('a, 'u) act = "'u mc_client \<Rightarrow> 'a option \<times> 'u mc_client"

definition act_return :: "'a \<Rightarrow> ('a, 'u) act" where
  "act_return x c = (Some x, c)"

definition act_fail :: "('a, 'u) act" where
  "act_fail c = (None, c)"

text \<open>\<^verbatim>\<open>if (a != 0) return -1;\<close>\<close>

definition act_bind :: "('a, 'u) act \<Rightarrow> ('a \<Rightarrow> ('b, 'u) act) \<Rightarrow> ('b, 'u) act" where
  "act_bind a f c = (case a c of (None, c') \<Rightarrow> (None, c') | (Some x, c') \<Rightarrow> f x c')"

text \<open>A statement that cannot fail.\<close>

definition act_do :: "('u mc_client \<Rightarrow> 'u mc_client) \<Rightarrow> (unit, 'u) act" where
  "act_do f c = (Some (), f c)"

text \<open>\<^verbatim>\<open>if (c) return -1;\<close>\<close>

definition act_guard :: "('u mc_client \<Rightarrow> bool) \<Rightarrow> ('a, 'u) act \<Rightarrow> ('a, 'u) act" where
  "act_guard p a c = (if p c then (None, c) else a c)"

definition act_with :: "('u mc_client \<Rightarrow> ('a, 'u) act) \<Rightarrow> ('a, 'u) act" where
  "act_with f c = f c c"

definition act_when :: "bool \<Rightarrow> (unit, 'u) act \<Rightarrow> (unit, 'u) act" where
  "act_when b a = (if b then a else act_return ())"

text \<open>\<^verbatim>\<open>goto fail\<close>: what follows the label runs, and the result is -1.\<close>

definition act_or_fail :: "('a, 'u) act \<Rightarrow> ('u mc_client \<Rightarrow> 'u mc_client) \<Rightarrow> ('a, 'u) act" where
  "act_or_fail a f c = (case a c of (None, c') \<Rightarrow> (None, f c') | (Some x, c') \<Rightarrow> (Some x, c'))"

subsection \<open>States and sockets\<close>

definition change_state :: "'u client_env \<Rightarrow> mc_state \<Rightarrow> 'u mc_client \<Rightarrow> 'u mc_client" where
  "change_state env state c =
     (if cl_state c = state then c else ce_on_state env (cl_state c) state (c\<lparr>cl_state := state\<rparr>))"

definition emit_packet :: "'u client_env \<Rightarrow> mc_state \<Rightarrow> i32 \<Rightarrow> mc_reader \<Rightarrow> 'u mc_client \<Rightarrow> 'u mc_client" where
  "emit_packet env state packet_id cursor =
     ce_on_packet env state packet_id (drop (rd_offset cursor) (rd_data cursor))"

definition backend_wait :: "'u mc_client \<Rightarrow> mc_wait \<times> 'u mc_client" where
  "backend_wait c =
     (case cl_waits c of [] \<Rightarrow> (Wait_ready, c) | w # ws \<Rightarrow> (w, c\<lparr>cl_waits := ws\<rparr>))"

text \<open>The loop of \<open>send\<close>: whether everything was sent, what was sent, and the events left.\<close>

fun send_loop :: "u8 list \<Rightarrow> mc_send list \<Rightarrow> bool \<times> u8 list \<times> mc_send list" where
  "send_loop wire [] = (True, wire, [])"
| "send_loop wire (event # sends) =
     (if wire = [] then (True, [], event # sends)
      else case event of
          Send_interrupted \<Rightarrow> send_loop wire sends
        | Send_failed \<Rightarrow> (False, [], sends)
        | Send_taken n \<Rightarrow>
            let result = min n (length wire) in
            if result = 0 then (False, [], sends)
            else case send_loop (drop result wire) sends of
                (ok, sent, sends') \<Rightarrow> (ok, take result wire @ sent, sends'))"

definition socket_send :: "u8 list \<Rightarrow> (unit, 'u) act" where
  "socket_send wire c =
     (if cl_socket_fd c < 0 \<and> wire \<noteq> [] then (None, c)
      else case send_loop wire (cl_sends c) of
        (ok, sent, sends) \<Rightarrow>
          (if ok then Some () else None,
           c\<lparr>cl_sends := sends, cl_wire := cl_wire c @ sent,
             cl_sent_bytes := cl_sent_bytes c + of_nat (length sent)\<rparr>))"

definition send_all :: "'u client_env \<Rightarrow> u8 list \<Rightarrow> (unit, 'u) act" where
  "send_all env data c =
     (case cl_transforms c of
        Some transforms \<Rightarrow>
          if data \<noteq> [] then
            if \<not> fe_alloc (ce_frame env) (length data) then (None, c)
            else case tr_encrypt transforms data (cl_userdata c) of
                (None, u) \<Rightarrow> (None, c\<lparr>cl_userdata := u\<rparr>)
              | (Some wire, u) \<Rightarrow> socket_send wire (c\<lparr>cl_userdata := u\<rparr>)
          else socket_send data c
      | None \<Rightarrow> socket_send data c)"

text \<open>
  The loop of \<open>recv\<close> into \<open>capacity\<close> bytes: what was received, if anything, and the events left. An
  empty receive is the end of the connection; bytes beyond the capacity stay in the socket.
\<close>

fun receive_loop :: "nat \<Rightarrow> mc_recv list \<Rightarrow> mc_wait list \<Rightarrow> u8 list option \<times> mc_recv list \<times> mc_wait list" where
  "receive_loop capacity [] waits = (None, [], waits)"
| "receive_loop capacity (event # receives) waits =
     (case event of
        Recv_interrupted \<Rightarrow> receive_loop capacity receives waits
      | Recv_blocked \<Rightarrow>
          (case waits of
             [] \<Rightarrow> receive_loop capacity receives []
           | Wait_ready # ws \<Rightarrow> receive_loop capacity receives ws
           | _ # ws \<Rightarrow> (None, receives, ws))
      | Recv_failed \<Rightarrow> (None, receives, waits)
      | Recv_data bytes \<Rightarrow>
          if bytes = [] then (None, receives, waits)
          else if length bytes \<le> capacity then (Some bytes, receives, waits)
          else (Some (take capacity bytes), Recv_data (drop capacity bytes) # receives, waits))"

definition receive_some :: "nat \<Rightarrow> (u8 list, 'u) act" where
  "receive_some capacity c =
     (if capacity = 0 \<or> cl_socket_fd c < 0 then (None, c)
      else case receive_loop capacity (cl_receives c) (cl_waits c) of
        (received, receives, waits) \<Rightarrow>
          let c' = c\<lparr>cl_receives := receives, cl_waits := waits\<rparr> in
          case received of
            None \<Rightarrow> (None, c')
          | Some bytes \<Rightarrow>
              let c'' = c'\<lparr>cl_received_bytes := cl_received_bytes c' + of_nat (length bytes)\<rparr> in
              (case cl_transforms c'' of
                 None \<Rightarrow> (Some bytes, c'')
               | Some transforms \<Rightarrow>
                   (case tr_decrypt transforms bytes (cl_userdata c'') of
                      (plain, u) \<Rightarrow> (plain, c''\<lparr>cl_userdata := u\<rparr>))))"

text \<open>Every successful receive uses up a part of the events.\<close>

definition recv_load :: "mc_recv list \<Rightarrow> nat" where
  "recv_load receives = (\<Sum>event\<leftarrow>receives. case event of Recv_data bytes \<Rightarrow> 1 + length bytes | _ \<Rightarrow> 1)"

lemma recv_load_simps [simp]:
  "recv_load [] = 0" "recv_load (Recv_data bytes # receives) = 1 + length bytes + recv_load receives"
  "recv_load (Recv_interrupted # receives) = 1 + recv_load receives"
  "recv_load (Recv_blocked # receives) = 1 + recv_load receives"
  "recv_load (Recv_failed # receives) = 1 + recv_load receives"
  by (simp_all add: recv_load_def)

lemma receive_loop_load:
  "receive_loop capacity receives waits = (Some bytes, receives', waits') \<Longrightarrow> 0 < capacity \<Longrightarrow>
     recv_load receives' < recv_load receives"
  by (induction capacity receives waits rule: receive_loop.induct)
     (fastforce split: mc_recv.splits if_splits list.splits mc_wait.splits)+

lemma receive_some_load:
  "receive_some capacity c = (Some bytes, c') \<Longrightarrow> recv_load (cl_receives c') < recv_load (cl_receives c)"
  by (auto simp: receive_some_def Let_def dest!: receive_loop_load split: if_splits prod.splits option.splits)

subsection \<open>Frames\<close>

definition send_frame :: "'u client_env \<Rightarrow> i32 \<Rightarrow> u8 list \<Rightarrow> (unit, 'u) act" where
  "send_frame env packet_id payload c =
     (case encode_frame (ce_frame env) (cl_compression_threshold c) packet_id (Buf payload) of
        None \<Rightarrow> (None, c)
      | Some wire \<Rightarrow> send_all env wire c)"

text \<open>\<open>read_frame\<close> of the source, over the client's socket.\<close>

definition feed_client :: "'u client_env \<Rightarrow> buffer \<Rightarrow> 'u mc_client
    \<Rightarrow> bool \<times> mc_decoded_frame list \<times> 'u mc_client" where
  "feed_client env data c =
     (case mc_stream_decoder_feed (ce_stream env) (cl_stream_decoder c) data 1 of
        (ok, d, frames) \<Rightarrow> (ok, frames, c\<lparr>cl_stream_decoder := d\<rparr>))"

definition copy_frame :: "'u client_env \<Rightarrow> mc_decoded_frame \<Rightarrow> (u8 list, 'u) act" where
  "copy_frame env decoded c = (copy_decoded_frame (ce_frame env) (cl_stream_decoder c) decoded, c)"

lemma feed_client_receives: "feed_client env data c = (ok, frames, c') \<Longrightarrow> cl_receives c' = cl_receives c"
  by (auto simp: feed_client_def split: prod.splits)

function client_read_frame :: "'u client_env \<Rightarrow> (u8 list, 'u) act" where
  "client_read_frame env c =
     (case feed_client env (NullBuf 0) c of
        (False, frames, c1) \<Rightarrow> (None, c1)
      | (True, [decoded], c1) \<Rightarrow> copy_frame env decoded c1
      | (True, _, c1) \<Rightarrow>
          (case receive_some 8192 c1 of
             (None, c2) \<Rightarrow> (None, c2)
           | (Some chunk, c2) \<Rightarrow>
               (case feed_client env (Buf chunk) c2 of
                  (False, frames, c3) \<Rightarrow> (None, c3)
                | (True, [decoded], c3) \<Rightarrow> copy_frame env decoded c3
                | (True, _, c3) \<Rightarrow> client_read_frame env c3)))"
  by pat_completeness auto
termination
  by (relation "measure (\<lambda>(env, c). recv_load (cl_receives c))")
     (auto dest!: sym [THEN feed_client_receives] sym [THEN receive_some_load])

declare client_read_frame.simps [simp del]

definition send_builder :: "'u client_env \<Rightarrow> i32 \<Rightarrow> mc_packet \<Rightarrow> (unit, 'u) act" where
  "send_builder env packet_id packet =
     (if pk_failed packet then act_fail else send_frame env packet_id (pk_buf packet))"

definition read_protocol_packet :: "'u client_env \<Rightarrow> mc_state \<Rightarrow> (i32 \<times> mc_reader, 'u) act" where
  "read_protocol_packet env state =
     act_bind (client_read_frame env) (\<lambda>frame.
       case mc_reader_varint (mc_reader_init (Buf frame)) of
         (None, _) \<Rightarrow> act_fail
       | (Some packet_id, body) \<Rightarrow>
           act_bind (act_do (emit_packet env state packet_id body)) (\<lambda>_. act_return (packet_id, body)))"

end
