(* ===== verification/Session.thy ===== *)
theory Session
  imports Connection
begin

text \<open>
  The life of a client connection (\<open>api.c\<close>, CLIENT LIFECYCLE, CONFIGURATION STATE and PLAY STATE):
  creation and disconnection, the settings, the handshake of \<open>mc_client_open\<close>, the login loop of
  \<open>client_connect_profile\<close>, the configuration exchange, the automatic replies of \<open>handle_play\<close>, and
  \<open>mc_client_poll\<close> and \<open>mc_client_run\<close>.

  The client pointer is valid. The local address and the polling backend are in \<open>Backends\<close>.
\<close>

subsection \<open>Life cycle\<close>

definition MC_AUTOMATIC_KEEP_ALIVE :: u32 where "MC_AUTOMATIC_KEEP_ALIVE = push_bit 0 1"

definition MC_AUTOMATIC_TELEPORT :: u32 where "MC_AUTOMATIC_TELEPORT = push_bit 1 1"

definition MC_AUTOMATIC_PLAYER_LOADED :: u32 where "MC_AUTOMATIC_PLAYER_LOADED = push_bit 2 1"

definition MC_AUTOMATIC_CHUNK_BATCH :: u32 where "MC_AUTOMATIC_CHUNK_BATCH = push_bit 3 1"

definition MC_AUTOMATIC_ALL :: u32 where "MC_AUTOMATIC_ALL = push_bit 4 1 - 1"

definition position_zero :: mc_player_position where
  "position_zero = \<lparr>pp_x = 0, pp_y = 0, pp_z = 0, pp_yaw = 0, pp_pitch = 0, pp_on_ground = False\<rparr>"

text \<open>\<open>alloc\<close> says of the two allocations whether they succeed.\<close>

definition mc_client_create :: "bool \<Rightarrow> bool \<Rightarrow> int \<Rightarrow> 'u \<Rightarrow> 'u mc_client option" where
  "mc_client_create calloc_ok decoder_ok protocol userdata =
     (case find_profile protocol of
        None \<Rightarrow> None
      | Some profile \<Rightarrow>
          if \<not> calloc_ok then None
          else case fst (mc_stream_decoder_create decoder_ok None) of
              None \<Rightarrow> None
            | Some decoder \<Rightarrow>
                Some \<lparr>cl_socket_fd = -1, cl_stop = False, cl_profile = profile, cl_userdata = userdata,
                  cl_state = MC_STATE_DISCONNECTED, cl_compression_threshold = -1, cl_sent_bytes = 0,
                  cl_received_bytes = 0, cl_automatic_replies = MC_AUTOMATIC_ALL,
                  cl_read_timeout_ms = 30000, cl_transforms = None, cl_stream_decoder = decoder,
                  cl_tracked_position = position_zero, cl_tracked_position_valid = False,
                  cl_player_loaded_sent = False, cl_server_side = False, cl_waits = [],
                  cl_receives = [], cl_sends = [], cl_wire = []\<rparr>)"

definition mc_client_disconnect :: "'u client_env \<Rightarrow> 'u mc_client \<Rightarrow> 'u mc_client" where
  "mc_client_disconnect env c =
     change_state env MC_STATE_DISCONNECTED (c\<lparr>cl_stop := True, cl_socket_fd := -1\<rparr>)"

definition mc_client_set_state :: "'u client_env \<Rightarrow> mc_state \<Rightarrow> (unit, 'u) act" where
  "mc_client_set_state env state = act_guard (\<lambda>c. cl_socket_fd c < 0)
     (act_guard (\<lambda>_. state \<noteq> MC_STATE_LOGIN \<and> state \<noteq> MC_STATE_CONFIGURATION
                     \<and> state \<noteq> MC_STATE_PLAY \<and> state \<noteq> MC_STATE_STATUS)
       (act_do (change_state env state)))"

definition mc_client_set_compression :: "int \<Rightarrow> (unit, 'u) act" where
  "mc_client_set_compression threshold = act_guard (\<lambda>c. cl_socket_fd c < 0) (act_guard (\<lambda>_. threshold < -1)
     (\<lambda>c. case mc_stream_decoder_set_compression (cl_stream_decoder c) threshold of
        (False, d, _) \<Rightarrow> (None, c\<lparr>cl_stream_decoder := d\<rparr>)
      | (True, d, _) \<Rightarrow> (Some (), c\<lparr>cl_stream_decoder := d, cl_compression_threshold := threshold\<rparr>)))"

definition mc_client_set_read_timeout :: "u32 \<Rightarrow> (unit, 'u) act" where
  "mc_client_set_read_timeout timeout_ms = act_guard (\<lambda>_. timeout_ms = 0)
     (act_do (\<lambda>c. c\<lparr>cl_read_timeout_ms := timeout_ms\<rparr>))"

text \<open>A transform structure with its two possibly null callbacks.\<close>

definition mc_client_set_stream_transforms ::
  "((u8 list \<Rightarrow> 'u \<Rightarrow> u8 list option \<times> 'u) option \<times> (u8 list \<Rightarrow> 'u \<Rightarrow> u8 list option \<times> 'u) option) option
     \<Rightarrow> (unit, 'u) act" where
  "mc_client_set_stream_transforms transforms = act_guard (\<lambda>c. cl_socket_fd c < 0)
     (case transforms of
        None \<Rightarrow> act_do (\<lambda>c. c\<lparr>cl_transforms := None\<rparr>)
      | Some (Some encrypt, Some decrypt) \<Rightarrow>
          act_do (\<lambda>c. c\<lparr>cl_transforms := Some \<lparr>tr_encrypt = encrypt, tr_decrypt = decrypt\<rparr>\<rparr>)
      | Some _ \<Rightarrow> act_fail)"

definition mc_client_set_automatic_replies :: "u32 \<Rightarrow> (unit, 'u) act" where
  "mc_client_set_automatic_replies replies = act_guard (\<lambda>c. cl_socket_fd c \<ge> 0)
     (act_guard (\<lambda>_. replies AND NOT MC_AUTOMATIC_ALL \<noteq> 0)
       (act_do (\<lambda>c. c\<lparr>cl_automatic_replies := replies\<rparr>)))"

definition mc_client_wait :: "(int, 'u) act" where
  "mc_client_wait = act_guard (\<lambda>c. cl_socket_fd c < 0)
     (\<lambda>c. if stream_decoder_frame_ready (cl_stream_decoder c) then (Some 1, c)
          else case backend_wait c of
              (Wait_failed, c') \<Rightarrow> (None, c')
            | (Wait_ready, c') \<Rightarrow> (Some 1, c')
            | (Wait_timeout, c') \<Rightarrow> (Some 0, c'))"

text \<open>
  \<open>recv\<close> with \<open>MSG_PEEK\<close>, repeated after an interrupt: what it finds, and the events left. Data stays
  in the socket, and so does the end of the connection.
\<close>

fun peek_socket :: "mc_recv list \<Rightarrow> mc_recv \<times> mc_recv list" where
  "peek_socket [] = (Recv_data [], [])"
| "peek_socket (event # receives) =
     (case event of
        Recv_interrupted \<Rightarrow> peek_socket receives
      | Recv_data bytes \<Rightarrow> (event, event # receives)
      | _ \<Rightarrow> (event, receives))"

definition mc_client_wait_closed :: "'u client_env \<Rightarrow> u32 \<Rightarrow> (int, 'u) act" where
  "mc_client_wait_closed env timeout_ms =
     act_guard (\<lambda>c. timeout_ms = 0 \<or> cl_socket_fd c < 0 \<or> cl_state c = MC_STATE_DISCONNECTED)
     (\<lambda>c. if stream_decoder_frame_ready (cl_stream_decoder c) then (Some 0, c)
          else case backend_wait c of
              (Wait_timeout, c') \<Rightarrow> (Some 0, c')
            | (Wait_failed, c') \<Rightarrow> (None, c')
            | (Wait_ready, c') \<Rightarrow>
                (case peek_socket (cl_receives c') of
                   (Recv_data bytes, receives) \<Rightarrow>
                     if bytes \<noteq> [] then (Some 0, c'\<lparr>cl_receives := receives\<rparr>)
                     else (Some 1, mc_client_disconnect env (c'\<lparr>cl_receives := receives\<rparr>))
                 | (_, receives) \<Rightarrow> (None, c'\<lparr>cl_receives := receives\<rparr>)))"

text \<open>The observers accept a null client.\<close>

definition mc_client_protocol :: "'u mc_client option \<Rightarrow> int" where
  "mc_client_protocol client = (case client of None \<Rightarrow> -1 | Some c \<Rightarrow> pf_protocol (cl_profile c))"

definition mc_client_state :: "'u mc_client option \<Rightarrow> mc_state" where
  "mc_client_state client = (case client of None \<Rightarrow> MC_STATE_DISCONNECTED | Some c \<Rightarrow> cl_state c)"

definition mc_client_traffic :: "'u mc_client option \<Rightarrow> u64 \<times> u64" where
  "mc_client_traffic client =
     (case client of None \<Rightarrow> (0, 0) | Some c \<Rightarrow> (cl_sent_bytes c, cl_received_bytes c))"

definition mc_client_send :: "'u client_env \<Rightarrow> i32 \<Rightarrow> u8 list \<Rightarrow> (unit, 'u) act" where
  "mc_client_send env packet_id payload =
     act_guard (\<lambda>c. cl_socket_fd c < 0 \<or> cl_state c = MC_STATE_DISCONNECTED)
       (send_frame env packet_id payload)"

definition mc_client_send_named :: "'u client_env \<Rightarrow> string option \<Rightarrow> u8 list \<Rightarrow> (unit, 'u) act" where
  "mc_client_send_named env packet_name payload =
     act_guard (\<lambda>c. cl_socket_fd c < 0 \<or> cl_state c = MC_STATE_DISCONNECTED)
       (act_with (\<lambda>c.
          let packet_id = mc_packet_id (pf_protocol (cl_profile c)) (cl_state c)
                (if cl_server_side c then MC_PACKET_CLIENTBOUND else MC_PACKET_SERVERBOUND) packet_name
          in if sint packet_id < 0 then act_fail else mc_client_send env packet_id payload))"

subsection \<open>Handshake\<close>

text \<open>A C string: its bytes before the terminator.\<close>

definition MC_DEFAULT_PORT :: u16 where "MC_DEFAULT_PORT = 25565"

text \<open>Builder calls whose results are ignored: the failure bit decides.\<close>

definition pk_body :: "nat \<Rightarrow> wr list \<Rightarrow> mc_packet" where
  "pk_body capacity ws =
     fold (\<lambda>w p. snd (w p)) ws \<lparr>pk_buf = [], pk_capacity = capacity, pk_failed = False\<rparr>"

definition mc_client_open :: "'u client_env \<Rightarrow> u8 list option \<Rightarrow> u16 \<Rightarrow> mc_state \<Rightarrow> (unit, 'u) act" where
  "mc_client_open env host port next_state =
     (case host of None \<Rightarrow> act_fail | Some host \<Rightarrow>
       act_guard (\<lambda>_. host = [] \<or> (next_state \<noteq> MC_STATE_LOGIN \<and> next_state \<noteq> MC_STATE_STATUS))
      (act_guard (\<lambda>c. cl_socket_fd c \<ge> 0)
      (act_bind (act_do (\<lambda>c. c\<lparr>cl_stop := False,
          cl_stream_decoder := mc_stream_decoder_reset (cl_stream_decoder c),
          cl_compression_threshold := -1, cl_player_loaded_sent := False, cl_transforms := None,
          cl_server_side := False\<rparr>)) (\<lambda>_.
       let effective_port = (if port = 0 then MC_DEFAULT_PORT else port) in
       case ce_connect env host effective_port of
         None \<Rightarrow> act_fail
       | Some socket_fd \<Rightarrow>
           if socket_fd < 0 then act_fail
           else
             act_bind (act_do (\<lambda>c. c\<lparr>cl_socket_fd := socket_fd\<rparr>)) (\<lambda>_.
             act_or_fail
               (act_guard (\<lambda>_. \<not> ce_backend_init env socket_fd)
               (act_with (\<lambda>c.
                  let handshake = pk_body 512
                    [mc_packet_varint (word_of_int (pf_protocol (cl_profile c))),
                     mc_packet_string (Some host), mc_packet_u16 effective_port,
                     mc_packet_varint (if next_state = MC_STATE_STATUS then 1 else 2)]
                  in act_bind (send_builder env 0x00 handshake) (\<lambda>_.
                     act_do (change_state env next_state)))))
               (mc_client_disconnect env))))))"

subsection \<open>Configuration\<close>

definition MC_CONFIG_PACKETS :: nat where "MC_CONFIG_PACKETS = 256"

definition MC_LOGIN_PACKETS :: nat where "MC_LOGIN_PACKETS = 16"

definition default_client_information :: mc_client_information where
  "default_client_information =
     \<lparr>ci_locale = Some [0x65, 0x6e, 0x5f, 0x75, 0x73], ci_view_distance = 2, ci_chat_mode = 0,
      ci_chat_colors = True, ci_skin_parts = 0x7f, ci_difficulty = 0, ci_show_cape = True,
      ci_main_hand = 1, ci_text_filtering = False, ci_server_listing = True, ci_particle_status = 0\<rparr>"

text \<open>The settings sent before the first answer (\<open>early\<close>) and with the last one.\<close>

definition configuration_settings :: "'u client_env \<Rightarrow> int \<Rightarrow> mc_client_information option \<Rightarrow> bool \<Rightarrow> (unit, 'u) act" where
  "configuration_settings env protocol requested early =
     (let information = (case requested of Some i \<Rightarrow> i
            | None \<Rightarrow> if early then default_client_information\<lparr>ci_server_listing := False\<rparr>
                      else default_client_information)
      in send_builder env 0x00 (pk_body 128 [mc_packet_client_information protocol (Some information)]))"

definition configuration_selection :: "'u client_env \<Rightarrow> int \<Rightarrow> mc_reader \<Rightarrow> (unit, 'u) act" where
  "configuration_selection env protocol body =
     send_builder env 0x07 (pk_body 1024
       [if protocol \<ge> 776 then mc_packet_bytes (Buf (drop (rd_offset body) (rd_data body)))
        else mc_packet_varint 0])"

definition configuration_finish :: "'u client_env \<Rightarrow> int \<Rightarrow> mc_client_information option \<Rightarrow> bool \<Rightarrow> (unit, 'u) act" where
  "configuration_finish env protocol requested information_sent =
     act_bind (act_when (\<not> information_sent) (configuration_settings env protocol requested False)) (\<lambda>_.
     act_bind (act_when (protocol \<ge> 765 \<and> protocol \<le> 775)
       (send_builder env (if protocol = 765 then 0x05 else 0x06)
         (pk_body 20 [mc_packet_bytes (Buf (replicate 16 0)), mc_packet_varint 0]))) (\<lambda>_.
     act_bind (send_frame env (if protocol \<ge> 766 then 0x03 else 0x02) []) (\<lambda>_.
     act_do (change_state env MC_STATE_PLAY))))"

primrec configuration_loop :: "nat \<Rightarrow> 'u client_env \<Rightarrow> int \<Rightarrow> mc_client_information option \<Rightarrow> bool \<Rightarrow> (unit, 'u) act" where
  "configuration_loop 0 env protocol requested information_sent = act_fail"
| "configuration_loop (Suc n) env protocol requested information_sent =
     (let finish_id = (if protocol \<ge> 766 then 0x03 else 0x02);
          known_packs_id = mc_packet_id protocol MC_STATE_CONFIGURATION MC_PACKET_CLIENTBOUND
            (Some ''select_known_packs'');
          early = (protocol \<ge> 776 \<and> \<not> information_sent)
      in act_bind (read_protocol_packet env MC_STATE_CONFIGURATION) (\<lambda>(packet_id, body).
         act_bind (act_when early (configuration_settings env protocol requested True)) (\<lambda>_.
         act_bind (act_when (protocol \<ge> 766 \<and> \<not> sint known_packs_id < 0 \<and> packet_id = known_packs_id)
           (configuration_selection env protocol body)) (\<lambda>_.
         if packet_id = finish_id
         then configuration_finish env protocol requested (information_sent \<or> early)
         else configuration_loop n env protocol requested (information_sent \<or> early)))))"

definition configuration :: "'u client_env \<Rightarrow> mc_client_information option \<Rightarrow> (unit, 'u) act" where
  "configuration env requested =
     act_bind (act_do (change_state env MC_STATE_CONFIGURATION)) (\<lambda>_.
     act_bind (send_frame env 0x03 []) (\<lambda>_.
     act_with (\<lambda>c. configuration_loop MC_CONFIG_PACKETS env (pf_protocol (cl_profile c)) requested False)))"

subsection \<open>Login\<close>

definition login_body :: "mc_profile \<Rightarrow> u8 list option \<Rightarrow> mc_uuid \<Rightarrow> mc_packet" where
  "login_body profile username profile_id =
     pk_body 512
       ([mc_packet_string username]
        @ (if pf_flags profile AND MC_PROTOCOL_FEATURE_LOGIN_KEY \<noteq> 0 then [mc_packet_u8 0] else [])
        @ (if pf_flags profile AND MC_PROTOCOL_FEATURE_OPTIONAL_UUID \<noteq> 0
           then [mc_packet_u8 1, mc_packet_uuid (Some profile_id)]
           else if pf_flags profile AND MC_PROTOCOL_FEATURE_REQUIRED_UUID \<noteq> 0
           then [mc_packet_uuid (Some profile_id)] else []))"

primrec login_loop :: "nat \<Rightarrow> 'u client_env \<Rightarrow> mc_client_information option \<Rightarrow> (unit, 'u) act" where
  "login_loop 0 env information = act_fail"
| "login_loop (Suc n) env information =
     act_bind (read_protocol_packet env MC_STATE_LOGIN) (\<lambda>(packet_id, body).
       if packet_id = 0x00 then act_fail
       else if packet_id = 0x01 then act_fail
       else if packet_id = 0x03 then
         (case fst (mc_reader_varint body) of
            None \<Rightarrow> act_fail
          | Some threshold \<Rightarrow>
              if sint threshold < 0 then act_fail
              else act_bind (mc_client_set_compression (sint threshold)) (\<lambda>_. login_loop n env information))
       else if packet_id = 0x02 then
         act_with (\<lambda>c.
           if pf_flags (cl_profile c) AND MC_PROTOCOL_FEATURE_CONFIGURATION \<noteq> 0
           then configuration env information
           else act_do (change_state env MC_STATE_PLAY))
       else login_loop n env information)"

definition client_connect_profile :: "'u client_env \<Rightarrow> u8 list option \<Rightarrow> u16 \<Rightarrow> u8 list option
    \<Rightarrow> mc_uuid option \<Rightarrow> mc_client_information option \<Rightarrow> (unit, 'u) act" where
  "client_connect_profile env host port username profile_id information =
     (case profile_id of None \<Rightarrow> act_fail | Some profile_id \<Rightarrow>
       act_guard (\<lambda>_. host = None \<or> host = Some [] \<or> \<not> valid_username username)
      (act_bind (mc_client_open env host port MC_STATE_LOGIN) (\<lambda>_.
       act_or_fail
         (act_with (\<lambda>c.
            act_bind (send_builder env 0x00 (login_body (cl_profile c) username profile_id)) (\<lambda>_.
            login_loop MC_LOGIN_PACKETS env information)))
         (mc_client_disconnect env))))"

definition mc_client_connect_profile :: "'u client_env \<Rightarrow> u8 list option \<Rightarrow> u16 \<Rightarrow> u8 list option
    \<Rightarrow> mc_uuid option \<Rightarrow> mc_client_information option \<Rightarrow> (unit, 'u) act" where
  "mc_client_connect_profile = client_connect_profile"

definition mc_client_connect :: "'u client_env \<Rightarrow> u8 list option \<Rightarrow> u16 \<Rightarrow> u8 list option \<Rightarrow> (unit, 'u) act" where
  "mc_client_connect env host port username =
     (case mc_offline_uuid username of
        None \<Rightarrow> act_fail
      | Some profile_id \<Rightarrow>
          act_guard (\<lambda>_. \<not> valid_username username)
            (client_connect_profile env host port username (Some profile_id) None))"

subsection \<open>Play\<close>

definition movement_packet :: "int \<Rightarrow> int" where
  "movement_packet protocol =
     (if protocol \<le> 47 then 0x06 else if protocol \<le> 316 then 0x0d else if protocol = 335 then 0x0f
      else if protocol \<le> 340 then 0x0e else if protocol \<le> 404 then 0x11 else if protocol \<le> 734 then 0x12
      else if protocol \<le> 754 then 0x13 else if protocol \<le> 758 then 0x12 else if protocol = 759 then 0x14
      else if protocol = 760 then 0x15 else if protocol = 761 then 0x14 else if protocol \<le> 763 then 0x15
      else if protocol = 764 then 0x17 else if protocol = 765 then 0x18 else if protocol \<le> 767 then 0x1b
      else if protocol \<le> 770 then 0x1d else if protocol \<le> 774 then 0x1e else 0x1f)"

definition player_loaded_packet :: "int \<Rightarrow> int" where
  "player_loaded_packet protocol =
     (if protocol \<ge> 775 then 0x2c else if protocol \<ge> 771 then 0x2b else if protocol \<ge> 769 then 0x2a else -1)"

definition batch_response_packet :: "int \<Rightarrow> int" where
  "batch_response_packet protocol =
     (if protocol \<ge> 775 then 0x0b else if protocol \<ge> 771 then 0x0a else if protocol \<ge> 768 then 0x09
      else if protocol \<ge> 766 then 0x08 else if protocol \<ge> 764 then 0x07 else -1)"

definition batch_finished_packet :: "int \<Rightarrow> int" where
  "batch_finished_packet protocol = (if protocol \<ge> 770 then 0x0b else if protocol \<ge> 764 then 0x0c else -1)"

definition automatic :: "'u mc_client \<Rightarrow> u32 \<Rightarrow> bool" where
  "automatic c replies \<longleftrightarrow> cl_automatic_replies c AND replies \<noteq> 0"

text \<open>The relative axes, resolved against the tracked position.\<close>

definition resolve_position :: "u32 \<Rightarrow> mc_player_position \<Rightarrow> mc_player_position \<Rightarrow> mc_player_position" where
  "resolve_position flags tracked absolute =
     absolute\<lparr>pp_x := (if flags AND 0x01 \<noteq> 0 then f64_plus (pp_x absolute) (pp_x tracked) else pp_x absolute),
       pp_y := (if flags AND 0x02 \<noteq> 0 then f64_plus (pp_y absolute) (pp_y tracked) else pp_y absolute),
       pp_z := (if flags AND 0x04 \<noteq> 0 then f64_plus (pp_z absolute) (pp_z tracked) else pp_z absolute),
       pp_yaw := (if flags AND 0x08 \<noteq> 0 then f32_plus (pp_yaw absolute) (pp_yaw tracked) else pp_yaw absolute),
       pp_pitch := (if flags AND 0x10 \<noteq> 0 then f32_plus (pp_pitch absolute) (pp_pitch tracked)
                    else pp_pitch absolute)\<rparr>"

definition play_position :: "'u client_env \<Rightarrow> mc_clientbound_player_position \<Rightarrow> (unit, 'u) act" where
  "play_position env decoded = act_with (\<lambda>c.
     let protocol = pf_protocol (cl_profile c);
         absolute = (if cl_tracked_position_valid c
                     then resolve_position (cp_relative_flags decoded) (cl_tracked_position c) (cp_position decoded)
                     else cp_position decoded);
         loaded = player_loaded_packet protocol
     in
     act_bind (act_do (\<lambda>c. c\<lparr>cl_tracked_position := absolute, cl_tracked_position_valid := True\<rparr>)) (\<lambda>_.
     act_bind (act_when (protocol < 107 \<and> automatic c MC_AUTOMATIC_TELEPORT)
       (send_builder env (word_of_int (movement_packet protocol))
         (pk_body 48 [mc_packet_player_position protocol
            (Some ((cp_position decoded)\<lparr>pp_on_ground := True\<rparr>))]))) (\<lambda>_.
     act_bind (act_when (cp_has_teleport_id decoded \<and> automatic c MC_AUTOMATIC_TELEPORT)
       (send_builder env (word_of_int (pf_teleport_confirm (cl_profile c)))
         (pk_body 48 ([mc_packet_varint (cp_teleport_id decoded)]
           @ (if protocol \<ge> 777
              then [mc_packet_double (pp_x absolute), mc_packet_double (pp_y absolute),
                    mc_packet_double (pp_z absolute), mc_packet_float (pp_yaw absolute),
                    mc_packet_float (pp_pitch absolute)] else []))))) (\<lambda>_.
     act_when (loaded \<ge> 0 \<and> \<not> cl_player_loaded_sent c \<and> automatic c MC_AUTOMATIC_PLAYER_LOADED)
       (act_bind (send_frame env (word_of_int loaded) []) (\<lambda>_.
        act_do (\<lambda>c. c\<lparr>cl_player_loaded_sent := True\<rparr>)))))))"

definition handle_play :: "'u client_env \<Rightarrow> i32 \<Rightarrow> mc_reader \<Rightarrow> (unit, 'u) act" where
  "handle_play env packet_id body = act_with (\<lambda>c.
     let profile = cl_profile c; protocol = pf_protocol profile in
     if packet_id = word_of_int (pf_keep_alive profile) \<and> automatic c MC_AUTOMATIC_KEEP_ALIVE
     then send_frame env (word_of_int (pf_keep_alive_response profile)) (drop (rd_offset body) (rd_data body))
     else
       act_bind
         (if packet_id = word_of_int (pf_player_position profile)
             \<and> automatic c (MC_AUTOMATIC_TELEPORT OR MC_AUTOMATIC_PLAYER_LOADED)
          then case mc_reader_clientbound_player_position protocol body of
              (None, _) \<Rightarrow> act_fail
            | (Some decoded, body') \<Rightarrow>
                if mc_reader_remaining body' \<noteq> 0 then act_fail else play_position env decoded
          else act_return ()) (\<lambda>_.
       if packet_id = word_of_int (batch_finished_packet protocol) \<and> automatic c MC_AUTOMATIC_CHUNK_BATCH
       then send_builder env (word_of_int (batch_response_packet protocol))
              (pk_body 4 [mc_packet_float 0x42800000])
       else act_return ()))"

text \<open>The result of \<open>mc_client_poll\<close> is 0, 1 or -1.\<close>

definition poll_packet :: "'u client_env \<Rightarrow> u32 \<Rightarrow> (int, 'u) act" where
  "poll_packet env timeout_ms = act_with (\<lambda>c.
     let state = cl_state c; saved_timeout = cl_read_timeout_ms c in
     act_bind (act_do (\<lambda>c. c\<lparr>cl_read_timeout_ms := timeout_ms\<rparr>)) (\<lambda>_.
     act_bind (act_or_fail (read_protocol_packet env state)
       (\<lambda>c. mc_client_disconnect env (c\<lparr>cl_read_timeout_ms := saved_timeout\<rparr>))) (\<lambda>(packet_id, body).
     act_bind (act_do (\<lambda>c. c\<lparr>cl_read_timeout_ms := saved_timeout\<rparr>)) (\<lambda>_.
     act_bind (act_or_fail
       (act_with (\<lambda>c.
          if state = MC_STATE_PLAY \<and> cl_state c = MC_STATE_PLAY \<and> cl_socket_fd c \<ge> 0
          then handle_play env packet_id body else act_return ()))
       (mc_client_disconnect env)) (\<lambda>_.
     act_return 1)))))"

definition mc_client_poll :: "'u client_env \<Rightarrow> u32 \<Rightarrow> (int, 'u) act" where
  "mc_client_poll env timeout_ms =
     act_guard (\<lambda>c. cl_socket_fd c < 0 \<or> cl_state c = MC_STATE_DISCONNECTED)
     (\<lambda>c. if cl_stop c then (Some 0, c)
          else if stream_decoder_frame_ready (cl_stream_decoder c) then poll_packet env timeout_ms c
          else case backend_wait c of
              (Wait_timeout, c') \<Rightarrow> (Some 0, c')
            | (Wait_failed, c') \<Rightarrow> (None, mc_client_disconnect env c')
            | (Wait_ready, c') \<Rightarrow> poll_packet env timeout_ms c')"

partial_function (option) mc_client_run :: "'u client_env \<Rightarrow> 'u mc_client \<Rightarrow> (bool \<times> 'u mc_client) option" where
  "mc_client_run env c =
     (if cl_stop c then Some (True, c)
      else case mc_client_poll env 1000 c of
          (None, c') \<Rightarrow> Some (False, c')
        | (Some _, c') \<Rightarrow> mc_client_run env c')"

end
