(* ===== verification/Client_Actions.thy ===== *)
theory Client_Actions
  imports Session
begin

text \<open>
  The client's sending operations (\<open>mc_client_send_command\<close> to \<open>mc_client_request_respawn\<close>,
  \<open>mc_client_send_batch\<close>): each checks that the client plays, builds one body in a buffer on the
  stack, and sends it under the name its release has for it.
\<close>

subsection \<open>Actions\<close>

text \<open>
  What the actions share: the state is checked, the body is built in \<open>capacity\<close> bytes, and the
  packet goes out by name.
\<close>

definition client_playing :: "'u mc_client \<Rightarrow> bool" where
  "client_playing c \<longleftrightarrow> \<not> cl_socket_fd c < 0 \<and> cl_state c = MC_STATE_PLAY"

definition client_body :: "'u client_env \<Rightarrow> nat \<Rightarrow> string \<Rightarrow> wr \<Rightarrow> (unit, 'u) act" where
  "client_body env capacity packet_name builder =
     (case builder \<lparr>pk_buf = [], pk_capacity = capacity, pk_failed = False\<rparr> of
        (False, body) \<Rightarrow> act_fail
      | (True, body) \<Rightarrow> mc_client_send_named env (Some packet_name) (pk_buf body))"

definition client_action :: "'u client_env \<Rightarrow> nat \<Rightarrow> (int \<Rightarrow> string) \<Rightarrow> (int \<Rightarrow> wr) \<Rightarrow> (unit, 'u) act" where
  "client_action env capacity packet_name builder = act_guard (\<lambda>c. \<not> client_playing c)
     (act_with (\<lambda>c. let protocol = pf_protocol (cl_profile c)
        in client_body env capacity (packet_name protocol) (builder protocol)))"

text \<open>\<open>now\<close> is what \<open>clock_gettime\<close> returns: seconds and nanoseconds.\<close>

definition INT64_MAX :: int where "INT64_MAX = 0x7fffffffffffffff"

definition command_timestamp :: "(int \<times> int) option \<Rightarrow> i64 option" where
  "command_timestamp now =
     (case now of None \<Rightarrow> None
      | Some (seconds, nanoseconds) \<Rightarrow>
          let fractional_ms = nanoseconds div 1000000 in
          if seconds < 0 \<or> nanoseconds < 0 \<or> nanoseconds \<ge> 1000000000
             \<or> seconds > (INT64_MAX - fractional_ms) div 1000
          then None else Some (word_of_int (seconds * 1000 + fractional_ms)))"

definition mc_client_send_command :: "'u client_env \<Rightarrow> (int \<times> int) option \<Rightarrow> u8 list option \<Rightarrow> (unit, 'u) act" where
  "mc_client_send_command env now command = act_guard (\<lambda>c. \<not> client_playing c)
     (case command_timestamp now of
        None \<Rightarrow> act_fail
      | Some timestamp_ms \<Rightarrow>
          client_action env 384 (\<lambda>protocol. if protocol \<le> 758 then ''chat'' else ''chat_command'')
            (\<lambda>protocol. mc_packet_command protocol command timestamp_ms 0))"

definition mc_client_send_client_information ::
  "'u client_env \<Rightarrow> mc_client_information option \<Rightarrow> (unit, 'u) act" where
  "mc_client_send_client_information env information =
     act_guard (\<lambda>c. cl_socket_fd c < 0
         \<or> (cl_state c \<noteq> MC_STATE_PLAY \<and> cl_state c \<noteq> MC_STATE_CONFIGURATION))
     (act_with (\<lambda>c. client_body env 64 ''settings''
        (mc_packet_client_information (pf_protocol (cl_profile c)) information)))"

definition mc_client_send_entity_action :: "'u client_env \<Rightarrow> mc_entity_action option \<Rightarrow> (unit, 'u) act" where
  "mc_client_send_entity_action env action =
     client_action env 16 (\<lambda>_. ''entity_action'') (\<lambda>protocol. mc_packet_entity_action protocol action)"

definition mc_client_send_player_input :: "'u client_env \<Rightarrow> u8 \<Rightarrow> (unit, 'u) act" where
  "mc_client_send_player_input env flags =
     client_action env 1 (\<lambda>_. ''player_input'') (\<lambda>protocol. mc_packet_player_input protocol flags)"

definition mc_client_swing_arm :: "'u client_env \<Rightarrow> i32 \<Rightarrow> i32 \<Rightarrow> (unit, 'u) act" where
  "mc_client_swing_arm env entity_id hand =
     client_action env 5 (\<lambda>protocol. if protocol \<ge> 777 then ''punch'' else ''arm_animation'')
       (\<lambda>protocol. mc_packet_arm_animation protocol entity_id hand)"

text \<open>A position that was sent is the tracked one from then on.\<close>

definition mc_client_send_player_position :: "'u client_env \<Rightarrow> mc_player_position option \<Rightarrow> (unit, 'u) act" where
  "mc_client_send_player_position env position =
     act_bind (client_action env 48 (\<lambda>_. ''position_look'')
         (\<lambda>protocol. mc_packet_player_position protocol position)) (\<lambda>_.
     act_do (\<lambda>c. case position of
         None \<Rightarrow> c
       | Some v \<Rightarrow> c\<lparr>cl_tracked_position := v, cl_tracked_position_valid := True\<rparr>))"

definition mc_client_send_player_abilities :: "'u client_env \<Rightarrow> mc_player_abilities option \<Rightarrow> (unit, 'u) act" where
  "mc_client_send_player_abilities env abilities =
     client_action env 9 (\<lambda>_. ''abilities'') (\<lambda>protocol. mc_packet_player_abilities protocol abilities)"

definition mc_client_dig_block :: "'u client_env \<Rightarrow> mc_block_dig option \<Rightarrow> (unit, 'u) act" where
  "mc_client_dig_block env dig =
     client_action env 16 (\<lambda>_. ''block_dig'') (\<lambda>protocol. mc_packet_block_dig protocol dig)"

text \<open>
  The buffer of the two operations that may report an item with data: \<^term>\<open>None\<close> where the data is
  too large. \<open>mc_client_place_block\<close> reads its pointer before any check of it; the model is for a
  valid one.
\<close>

definition item_body_capacity :: "'u client_env \<Rightarrow> int \<Rightarrow> nat \<Rightarrow> nat option" where
  "item_body_capacity env protocol nbt_size =
     (if protocol \<le> 47 \<and> nbt_size \<noteq> 0 then
        if protocol \<le> 5 then
          let bound = zg_bound (ce_zlib env) nbt_size in
          if bound > MC_MAX_PACKET - 64 then None else Some (bound + 64)
        else if nbt_size > MC_MAX_PACKET - 64 then None
        else Some (nbt_size + 64)
      else Some 64)"

definition client_item_action :: "'u client_env \<Rightarrow> nat \<Rightarrow> (int \<Rightarrow> string) \<Rightarrow> (int \<Rightarrow> wr) \<Rightarrow> (unit, 'u) act" where
  "client_item_action env nbt_size packet_name builder = act_guard (\<lambda>c. \<not> client_playing c)
     (act_with (\<lambda>c. let protocol = pf_protocol (cl_profile c) in
        case item_body_capacity env protocol nbt_size of
          None \<Rightarrow> act_fail
        | Some capacity \<Rightarrow>
            if \<not> fe_alloc (ce_frame env) capacity then act_fail
            else client_body env capacity (packet_name protocol) (builder protocol)))"

definition mc_client_place_block :: "'u client_env \<Rightarrow> mc_block_place \<Rightarrow> (unit, 'u) act" where
  "mc_client_place_block env place =
     client_item_action env (buf_size (bp_held_item_nbt place)) (\<lambda>_. ''block_place'')
       (\<lambda>protocol. mc_packet_block_place (ce_zlib env) protocol (Some place))"

definition mc_client_use_item :: "'u client_env \<Rightarrow> mc_use_item option \<Rightarrow> (unit, 'u) act" where
  "mc_client_use_item env use_value =
     (case use_value of None \<Rightarrow> act_fail
      | Some v \<Rightarrow> client_item_action env (buf_size (ui_held_item_nbt v))
          (\<lambda>protocol. if protocol \<le> 47 then ''block_place'' else ''use_item'')
          (\<lambda>protocol. mc_packet_use_item (ce_zlib env) protocol (Some v)))"

definition mc_client_close_window :: "'u client_env \<Rightarrow> i32 \<Rightarrow> (unit, 'u) act" where
  "mc_client_close_window env window_id =
     client_action env 5 (\<lambda>_. ''close_window'') (\<lambda>protocol. mc_packet_close_window protocol window_id)"

definition mc_client_set_creative_slot_damage ::
  "'u client_env \<Rightarrow> i16 \<Rightarrow> i32 \<Rightarrow> i32 \<Rightarrow> i32 \<Rightarrow> (unit, 'u) act" where
  "mc_client_set_creative_slot_damage env slot item_id count damage =
     client_action env 32 (\<lambda>_. ''set_creative_slot'')
       (\<lambda>protocol. mc_packet_set_creative_slot_damage protocol slot item_id count damage)"

definition mc_client_set_creative_slot :: "'u client_env \<Rightarrow> i16 \<Rightarrow> i32 \<Rightarrow> i32 \<Rightarrow> (unit, 'u) act" where
  "mc_client_set_creative_slot env slot item_id count =
     mc_client_set_creative_slot_damage env slot item_id count 0"

definition mc_client_select_hotbar_slot :: "'u client_env \<Rightarrow> i16 \<Rightarrow> (unit, 'u) act" where
  "mc_client_select_hotbar_slot env slot =
     client_action env 2 (\<lambda>_. ''held_item_slot'') (\<lambda>protocol. mc_packet_held_item_slot protocol slot)"

definition mc_client_click_window :: "'u client_env \<Rightarrow> mc_window_click option \<Rightarrow> (unit, 'u) act" where
  "mc_client_click_window env click =
     client_action env 32 (\<lambda>_. ''window_click'') (\<lambda>protocol. mc_packet_window_click protocol click)"

definition mc_client_click_container_button :: "'u client_env \<Rightarrow> i32 \<Rightarrow> i32 \<Rightarrow> (unit, 'u) act" where
  "mc_client_click_container_button env window_id button_id =
     client_action env 10 (\<lambda>_. ''enchant_item'')
       (\<lambda>protocol. mc_packet_container_button protocol window_id button_id)"

definition mc_client_attack_entity :: "'u client_env \<Rightarrow> i32 \<Rightarrow> (unit, 'u) act" where
  "mc_client_attack_entity env entity_id =
     client_action env 16 (\<lambda>protocol. if protocol \<ge> 775 then ''attack'' else ''use_entity'')
       (\<lambda>protocol. mc_packet_attack_entity protocol entity_id)"

definition mc_client_request_respawn :: "'u client_env \<Rightarrow> (unit, 'u) act" where
  "mc_client_request_respawn env = client_action env 5 (\<lambda>_. ''client_command'') mc_packet_respawn_request"

subsection \<open>Batches\<close>

record mc_outbound_packet =
  op_packet_id :: i32
  op_payload :: buffer

text \<open>The capacity after growing by doubling, never below what is needed.\<close>

function batch_grow :: "nat \<Rightarrow> nat \<Rightarrow> nat" where
  "batch_grow needed grown =
     (if grown < needed \<and> grown \<le> SIZE_MAX div 2 \<and> 0 < grown then batch_grow needed (grown * 2)
      else if grown < needed then needed else grown)"
  by pat_completeness auto
termination
  by (relation "measure (\<lambda>(needed, grown). needed - grown)") auto

declare batch_grow.simps [simp del]

primrec batch_loop :: "'u client_env \<Rightarrow> int \<Rightarrow> mc_outbound_packet list \<Rightarrow> u8 list \<Rightarrow> nat \<Rightarrow> u8 list option" where
  "batch_loop env threshold [] batch capacity = Some batch"
| "batch_loop env threshold (packet # packets) batch capacity =
     (case encode_frame (ce_frame env) threshold (op_packet_id packet) (op_payload packet) of
        None \<Rightarrow> None
      | Some frame \<Rightarrow>
          if length frame > SIZE_MAX - length batch then None
          else
            let needed = length batch + length frame in
            if needed > capacity then
              let grown = batch_grow needed (if capacity = 0 then 4096 else capacity) in
              if \<not> fe_alloc (ce_frame env) grown then None
              else batch_loop env threshold packets (batch @ frame) grown
            else batch_loop env threshold packets (batch @ frame) capacity)"

definition mc_client_send_batch :: "'u client_env \<Rightarrow> mc_outbound_packet carray \<Rightarrow> (unit, 'u) act" where
  "mc_client_send_batch env packets =
     act_guard (\<lambda>c. cl_socket_fd c < 0 \<or> cl_state c = MC_STATE_DISCONNECTED)
     (act_guard (\<lambda>_. array_count packets \<noteq> 0 \<and> array_null packets)
     (act_with (\<lambda>c.
        case batch_loop env (cl_compression_threshold c) (array_elements packets) [] 0 of
          None \<Rightarrow> act_fail
        | Some batch \<Rightarrow> if batch = [] then act_return () else send_all env batch)))"

subsection \<open>The end of a connection\<close>

text \<open>\<open>half_closed\<close>: whether \<open>shutdown\<close> of the writing side succeeds; the client itself does not change.\<close>

definition mc_client_shutdown_write :: "bool \<Rightarrow> (unit, 'u) act" where
  "mc_client_shutdown_write half_closed =
     act_guard (\<lambda>c. cl_socket_fd c < 0 \<or> cl_state c = MC_STATE_DISCONNECTED)
     (if half_closed then act_return () else act_fail)"

text \<open>The client as the application's callbacks see it last; then its memory is released.\<close>

definition mc_client_destroy :: "'u client_env \<Rightarrow> 'u mc_client \<Rightarrow> 'u mc_client" where
  "mc_client_destroy = mc_client_disconnect"

end
