(* ===== verification/Server.thy ===== *)
theory Server
  imports Session
begin

text \<open>
  The server's side of the handshake (\<open>accepted_receive\<close>, \<open>accepted_varint\<close>, \<open>mc_server_accept\<close>) and
  the status query (\<open>status_ping_nonce\<close>) of \<open>api.c\<close>.

  The events of the accepted socket are those of the client it becomes: \<open>poll\<close> returns the waits,
  \<open>recv\<close> the receives. Listening sockets, \<open>accept\<close> itself and clocks are parameters.
\<close>

subsection \<open>Accepted connections\<close>

text \<open>
  One receive of at most \<open>capacity\<close> bytes: \<open>poll\<close> first, and both are repeated after an interrupt.
\<close>

fun accepted_recv :: "nat \<Rightarrow> mc_recv list \<Rightarrow> mc_wait list \<Rightarrow> u8 list option \<times> mc_recv list \<times> mc_wait list" where
  "accepted_recv capacity [] waits = (None, [], waits)"
| "accepted_recv capacity (event # receives) waits =
     (case waits of
        Wait_timeout # ws \<Rightarrow> (None, event # receives, ws)
      | Wait_failed # ws \<Rightarrow> (None, event # receives, ws)
      | _ \<Rightarrow>
          let ws = tl waits in
          (case event of
             Recv_interrupted \<Rightarrow> accepted_recv capacity receives ws
           | Recv_blocked \<Rightarrow> (None, receives, ws)
           | Recv_failed \<Rightarrow> (None, receives, ws)
           | Recv_data bytes \<Rightarrow>
               if bytes = [] then (None, receives, ws)
               else if length bytes \<le> capacity then (Some bytes, receives, ws)
               else (Some (take capacity bytes), Recv_data (drop capacity bytes) # receives, ws)))"

lemma accepted_recv_some:
  "accepted_recv capacity receives waits = (Some bytes, receives', waits') \<Longrightarrow> 0 < capacity \<Longrightarrow>
     bytes \<noteq> [] \<and> length bytes \<le> capacity"
  by (induction capacity receives waits rule: accepted_recv.induct)
     (fastforce simp: Let_def split: mc_recv.splits if_splits list.splits mc_wait.splits)+

text \<open>A socket with its events, and the bytes counted so far.\<close>

record accepted =
  ac_receives :: "mc_recv list"
  ac_waits :: "mc_wait list"
  ac_wire_size :: u64

function accepted_receive :: "nat \<Rightarrow> accepted \<Rightarrow> u8 list option \<times> accepted" where
  "accepted_receive wanted a =
     (if wanted = 0 then (Some [], a)
      else case accepted_recv wanted (ac_receives a) (ac_waits a) of
          (None, receives, waits) \<Rightarrow> (None, a\<lparr>ac_receives := receives, ac_waits := waits\<rparr>)
        | (Some bytes, receives, waits) \<Rightarrow>
            let a' = a\<lparr>ac_receives := receives, ac_waits := waits,
                       ac_wire_size := ac_wire_size a + of_nat (length bytes)\<rparr> in
            (case accepted_receive (wanted - length bytes) a' of
               (None, a'') \<Rightarrow> (None, a'')
             | (Some later, a'') \<Rightarrow> (Some (bytes @ later), a'')))"
  by pat_completeness auto
termination
  by (relation "measure fst") (auto dest!: sym [THEN accepted_recv_some])

declare accepted_receive.simps [simp del]

primrec accepted_varint_loop :: "nat \<Rightarrow> u32 \<Rightarrow> accepted \<Rightarrow> i32 option \<times> accepted" where
  "accepted_varint_loop 0 result a = (None, a)"
| "accepted_varint_loop (Suc n) result a =
     (let index = 4 - n in
      case accepted_receive 1 a of
        (Some [byte], a') \<Rightarrow>
          let result' = result OR push_bit (index * 7) (ucast (byte AND 0x7f)) in
          if byte AND 0x80 = 0 then
            if index = 4 \<and> byte AND 0xf0 \<noteq> 0 then (None, a') else (Some (ucast result'), a')
          else accepted_varint_loop n result' a'
      | (_, a') \<Rightarrow> (None, a'))"

definition accepted_varint :: "accepted \<Rightarrow> i32 option \<times> accepted" where
  "accepted_varint = accepted_varint_loop 5 0"

definition MC_HANDSHAKE_HOST_SIZE :: nat where "MC_HANDSHAKE_HOST_SIZE = 256"

record mc_handshake =
  hs_protocol :: int
  hs_host :: "u8 list"
  hs_port :: u16
  hs_next_state :: mc_state

text \<open>The body of the handshake: every check of the source is one of the reader's tests.\<close>

definition handshake_body :: "(i32 \<times> u8 list \<times> u16 \<times> i32) rd" where
  "handshake_body =
     rd_bind (rd_such mc_reader_varint (\<lambda>packet_id. packet_id = 0)) (\<lambda>_.
     rd_bind mc_reader_varint (\<lambda>protocol.
     rd_bind (rd_such mc_reader_string (\<lambda>host. \<not> (length host = 0 \<or> length host \<ge> MC_HANDSHAKE_HOST_SIZE))) (\<lambda>host.
     rd_bind mc_reader_u16 (\<lambda>port.
     rd_bind (rd_such mc_reader_varint (\<lambda>next_state. next_state = 1 \<or> next_state = 2)) (\<lambda>next_state.
     rd_return (protocol, host, port, next_state))))))"

definition parse_handshake :: "u8 list \<Rightarrow> mc_handshake option" where
  "parse_handshake frame =
     (case handshake_body (mc_reader_init (Buf frame)) of
        (None, _) \<Rightarrow> None
      | (Some (protocol, host, port, next_state), reader) \<Rightarrow>
          if mc_reader_remaining reader \<noteq> 0 then None
          else Some \<lparr>hs_protocol = sint protocol, hs_host = host, hs_port = port,
                 hs_next_state = (if next_state = 1 then MC_STATE_STATUS else MC_STATE_LOGIN)\<rparr>)"

definition accepted_frame :: "accepted \<Rightarrow> u8 list option \<times> accepted" where
  "accepted_frame a =
     (case accepted_varint a of
        (None, a') \<Rightarrow> (None, a')
      | (Some frame_size, a') \<Rightarrow>
          if sint frame_size \<le> 0 \<or> sint frame_size > 512 then (None, a')
          else accepted_receive (unat frame_size) a')"

text \<open>
  The result is \<^term>\<open>Some None\<close> when no connection arrived in time, \<^term>\<open>None\<close> for -1. \<open>listening\<close>
  is what \<open>poll\<close> on the server's socket returns, \<open>accept_fd\<close> the result of \<open>accept\<close>.
\<close>

definition mc_server_accept :: "'u client_env \<Rightarrow> mc_wait \<Rightarrow> int \<Rightarrow> bool \<Rightarrow> bool \<Rightarrow> 'u \<Rightarrow> mc_recv list \<Rightarrow> mc_wait list
    \<Rightarrow> ('u mc_client \<times> mc_handshake) option option" where
  "mc_server_accept env listening accept_fd calloc_ok decoder_ok userdata receives waits =
     (case listening of
        Wait_timeout \<Rightarrow> Some None
      | Wait_failed \<Rightarrow> None
      | Wait_ready \<Rightarrow>
          if accept_fd < 0 then None
          else case accepted_frame \<lparr>ac_receives = receives, ac_waits = waits, ac_wire_size = 0\<rparr> of
              (None, _) \<Rightarrow> None
            | (Some frame, a) \<Rightarrow>
                (case parse_handshake frame of
                   None \<Rightarrow> None
                 | Some handshake \<Rightarrow>
                     (case mc_client_create calloc_ok decoder_ok (hs_protocol handshake) userdata of
                        None \<Rightarrow> None
                      | Some client \<Rightarrow>
                          if \<not> ce_backend_init env accept_fd then None
                          else Some (Some
                            (change_state env (hs_next_state handshake)
                               (client\<lparr>cl_server_side := True, cl_automatic_replies := 0,
                                  cl_received_bytes := ac_wire_size a, cl_socket_fd := accept_fd,
                                  cl_receives := ac_receives a, cl_waits := ac_waits a\<rparr>),
                             handshake)))))"

subsection \<open>Status\<close>

definition status_read_packet :: "'u client_env \<Rightarrow> (i32 \<times> mc_reader, 'u) act" where
  "status_read_packet env =
     act_bind (\<lambda>c. if stream_decoder_frame_ready (cl_stream_decoder c) then (Some (), c)
                   else case backend_wait c of (Wait_ready, c') \<Rightarrow> (Some (), c') | (_, c') \<Rightarrow> (None, c')) (\<lambda>_.
     act_bind (client_read_frame env) (\<lambda>frame.
       case mc_reader_varint (mc_reader_init (Buf frame)) of
         (None, _) \<Rightarrow> act_fail
       | (Some packet_id, body) \<Rightarrow> act_return (packet_id, body)))"

definition status_response :: "nat \<Rightarrow> i32 \<Rightarrow> mc_reader \<Rightarrow> u8 list option" where
  "status_response json_capacity packet_id body =
     (if packet_id \<noteq> 0x00 then None
      else case mc_reader_string body of
          (None, _) \<Rightarrow> None
        | (Some response, body') \<Rightarrow>
            if mc_reader_remaining body' \<noteq> 0 \<or> length response \<ge> json_capacity then None else Some response)"

definition status_pong :: "i64 \<Rightarrow> i32 \<Rightarrow> mc_reader \<Rightarrow> bool" where
  "status_pong nonce packet_id body \<longleftrightarrow>
     packet_id = 0x01 \<and>
     (case mc_reader_i64 body of
        (None, _) \<Rightarrow> False
      | (Some echoed, body') \<Rightarrow> echoed = nonce \<and> mc_reader_remaining body' = 0)"

text \<open>
  The query on a connected client; its result is the JSON text. \<open>started\<close> and \<open>finished\<close> are the
  readings of the clock around the ping, and the second result is the latency.
\<close>

definition status_exchange :: "'u client_env \<Rightarrow> int \<Rightarrow> u8 list \<Rightarrow> u16 \<Rightarrow> i64 \<Rightarrow> nat \<Rightarrow> nat \<Rightarrow> nat
    \<Rightarrow> (u8 list \<times> nat, 'u) act" where
  "status_exchange env protocol host effective_port nonce json_capacity started finished =
     act_bind (send_builder env 0x00 (pk_body 512
       [mc_packet_varint (word_of_int protocol), mc_packet_string (Some host), mc_packet_u16 effective_port,
        mc_packet_varint 1])) (\<lambda>_.
     act_bind (send_frame env 0x00 []) (\<lambda>_.
     act_bind (status_read_packet env) (\<lambda>(packet_id, body).
     (case status_response json_capacity packet_id body of
        None \<Rightarrow> act_fail
      | Some response \<Rightarrow>
          act_bind (send_builder env 0x01 (pk_body 512 [mc_packet_i64 nonce])) (\<lambda>_.
          act_bind (status_read_packet env) (\<lambda>(packet_id, body).
          if \<not> status_pong nonce packet_id body then act_fail
          else act_return (response, if finished \<ge> started then finished - started else 0)))))))"

definition status_ping_nonce :: "'u client_env \<Rightarrow> bool \<Rightarrow> bool \<Rightarrow> 'u \<Rightarrow> mc_recv list \<Rightarrow> mc_wait list \<Rightarrow> mc_send list
    \<Rightarrow> int \<Rightarrow> u8 list option \<Rightarrow> u16 \<Rightarrow> u32 \<Rightarrow> i64 \<Rightarrow> nat \<Rightarrow> nat \<Rightarrow> nat \<Rightarrow> (u8 list \<times> nat) option" where
  "status_ping_nonce env calloc_ok decoder_ok userdata receives waits sends
     protocol host port timeout_ms nonce json_capacity started finished =
     (case host of None \<Rightarrow> None | Some host \<Rightarrow>
        if \<not> mc_protocol_supported protocol \<or> host = [] \<or> timeout_ms = 0 \<or> json_capacity = 0 then None
        else case mc_client_create calloc_ok decoder_ok protocol userdata of
            None \<Rightarrow> None
          | Some client \<Rightarrow>
              let effective_port = (if port = 0 then MC_DEFAULT_PORT else port) in
              (case ce_connect env host effective_port of
                 None \<Rightarrow> None
               | Some socket_fd \<Rightarrow>
                   if socket_fd < 0 \<or> \<not> ce_backend_init env socket_fd then None
                   else fst (status_exchange env protocol host effective_port nonce json_capacity started finished
                     (client\<lparr>cl_read_timeout_ms := timeout_ms, cl_socket_fd := socket_fd,
                        cl_receives := receives, cl_waits := waits, cl_sends := sends\<rparr>))))"

definition mc_status_ping_nonce :: "'u client_env \<Rightarrow> bool \<Rightarrow> bool \<Rightarrow> 'u \<Rightarrow> mc_recv list \<Rightarrow> mc_wait list \<Rightarrow> mc_send list
    \<Rightarrow> int \<Rightarrow> u8 list option \<Rightarrow> u16 \<Rightarrow> u32 \<Rightarrow> i64 \<Rightarrow> nat \<Rightarrow> nat \<Rightarrow> nat \<Rightarrow> (u8 list \<times> nat) option" where
  "mc_status_ping_nonce = status_ping_nonce"

text \<open>\<open>now\<close> is what the monotonic clock says in milliseconds.\<close>

definition mc_status_ping :: "'u client_env \<Rightarrow> bool \<Rightarrow> bool \<Rightarrow> 'u \<Rightarrow> mc_recv list \<Rightarrow> mc_wait list \<Rightarrow> mc_send list
    \<Rightarrow> int \<Rightarrow> u8 list option \<Rightarrow> u16 \<Rightarrow> u32 \<Rightarrow> u64 \<Rightarrow> nat \<Rightarrow> nat \<Rightarrow> nat \<Rightarrow> (u8 list \<times> nat) option" where
  "mc_status_ping env calloc_ok decoder_ok userdata receives waits sends protocol host port timeout_ms now =
     status_ping_nonce env calloc_ok decoder_ok userdata receives waits sends protocol host port timeout_ms (ucast now)"

end
