(* ===== verification/Client_Laws.thy ===== *)
theory Client_Laws
  imports Client_Actions Server
begin

text \<open>
  What every operation of a client keeps. The locales are the interface between the client's
  primitive updates and its operations: a reflexive and transitive relation that contains every
  update of the state contains every operation. \<open>receive_relation\<close> is about what reading a packet
  updates, \<open>transfer_relation\<close> adds sending, and with it the actions and the automatic replies,
  \<open>login_relation\<close> the changes of state of login and configuration, \<open>client_relation\<close> everything up to
  \<open>mc_client_run\<close>. Their interpretations give the invariant of the client (\<open>client_inv\<close>), that nothing
  on the wire is taken back, and what login and play leave alone. Callbacks are the application's:
  each relation asks of them what it shows of the client.
\<close>

named_theorems act_keeps \<open>operations inside a relation on the client\<close>

definition act_within :: "('u mc_client \<Rightarrow> 'u mc_client \<Rightarrow> bool) \<Rightarrow> ('a, 'u) act \<Rightarrow> bool" where
  "act_within R a \<longleftrightarrow> (\<forall>c. R c (snd (a c)))"

lemma act_withinI: "(\<And>c. R c (snd (a c))) \<Longrightarrow> act_within R a"
  by (simp add: act_within_def)

lemma act_withinD: "act_within R a \<Longrightarrow> a c = (x, c') \<Longrightarrow> R c c'"
  unfolding act_within_def by (metis snd_conv)

subsection \<open>Receiving\<close>

locale receive_relation =
  fixes env :: "'u client_env" and R :: "'u mc_client \<Rightarrow> 'u mc_client \<Rightarrow> bool"
  assumes R_refl: "R c c" and R_trans: "R c c' \<Longrightarrow> R c' c'' \<Longrightarrow> R c c''"
    and R_on_packet: "R c (ce_on_packet env state packet_id payload c)"
    and R_userdata: "R c (c\<lparr>cl_userdata := u\<rparr>)"
    and R_events: "R c (c\<lparr>cl_receives := receives, cl_waits := waits\<rparr>)"
    and R_received: "R c (c\<lparr>cl_received_bytes := count\<rparr>)"
    and R_feed: "mc_stream_decoder_feed (ce_stream env) (cl_stream_decoder c) data 1 = (ok, d, frames)
        \<Longrightarrow> R c (c\<lparr>cl_stream_decoder := d\<rparr>)"
begin

lemma within_return [act_keeps]: "act_within R (act_return x)"
  by (simp add: act_within_def act_return_def R_refl)

lemma within_fail [act_keeps]: "act_within R act_fail"
  by (simp add: act_within_def act_fail_def R_refl)

lemma within_bind [act_keeps]: "act_within R a \<Longrightarrow> (\<And>x. act_within R (f x)) \<Longrightarrow> act_within R (act_bind a f)"
  unfolding act_within_def act_bind_def by (auto split: prod.split option.split) (metis R_trans snd_conv)+

lemma within_do [act_keeps]: "(\<And>c. R c (f c)) \<Longrightarrow> act_within R (act_do f)"
  by (simp add: act_within_def act_do_def)

lemma within_guard [act_keeps]: "act_within R a \<Longrightarrow> act_within R (act_guard p a)"
  by (simp add: act_within_def act_guard_def R_refl)

lemma within_guard_fact: "(\<not> p \<Longrightarrow> act_within R a) \<Longrightarrow> act_within R (act_guard (\<lambda>_. p) a)"
  by (simp add: act_within_def act_guard_def R_refl)

lemma within_with [act_keeps]: "(\<And>c. act_within R (f c)) \<Longrightarrow> act_within R (act_with f)"
  by (simp add: act_within_def act_with_def)

lemma within_when [act_keeps]: "act_within R a \<Longrightarrow> act_within R (act_when b a)"
  by (simp add: act_within_def act_when_def act_return_def R_refl)

lemma within_if [act_keeps]: "act_within R a \<Longrightarrow> act_within R b \<Longrightarrow> act_within R (if p then a else b)"
  by simp

lemma within_or_fail [act_keeps]:
  "act_within R a \<Longrightarrow> (\<And>c. R c (f c)) \<Longrightarrow> act_within R (act_or_fail a f)"
  unfolding act_within_def act_or_fail_def by (auto split: prod.split option.split) (metis R_trans snd_conv)+

lemma within_split [act_keeps]:
  "(\<And>x y. act_within R (f x y)) \<Longrightarrow> act_within R (case p of (x, y) \<Rightarrow> f x y)"
  by (cases p) simp

lemma within_option [act_keeps]:
  "act_within R a \<Longrightarrow> (\<And>x. act_within R (f x)) \<Longrightarrow> act_within R (case o' of None \<Rightarrow> a | Some x \<Rightarrow> f x)"
  by (cases o') simp_all

lemma R_emit: "R c (emit_packet env state packet_id cursor c)"
  unfolding emit_packet_def by (rule R_on_packet)

lemma R_events_received: "R c (c\<lparr>cl_receives := receives, cl_waits := waits, cl_received_bytes := count\<rparr>)"
proof -
  have "c\<lparr>cl_receives := receives, cl_waits := waits, cl_received_bytes := count\<rparr>
      = c\<lparr>cl_receives := receives, cl_waits := waits\<rparr>\<lparr>cl_received_bytes := count\<rparr>" by simp
  then show ?thesis using R_trans [OF R_events R_received] by metis
qed

lemma within_receive_some [act_keeps]: "act_within R (receive_some capacity)"
  by (rule act_withinI)
     (auto simp: receive_some_def Let_def R_refl R_events R_events_received R_trans [OF R_events_received R_userdata]
       split: option.split prod.split)

lemma R_waits: "R c (c\<lparr>cl_waits := waits\<rparr>)"
proof -
  have "c\<lparr>cl_waits := waits\<rparr> = c\<lparr>cl_receives := cl_receives c, cl_waits := waits\<rparr>" by simp
  then show ?thesis using R_events by metis
qed

lemma R_backend_wait: "backend_wait c = (w, c') \<Longrightarrow> R c c'"
  by (auto simp: backend_wait_def R_refl R_waits split: list.splits)

lemma R_feed_client: "feed_client env data c = (ok, frames, c') \<Longrightarrow> R c c'"
  by (auto simp: feed_client_def R_feed split: prod.splits)

lemma within_read_frame [act_keeps]: "act_within R (client_read_frame env)"
proof (rule act_withinI)
  show "R c (snd (client_read_frame env c))" for c
  proof (induction "(env, c)" arbitrary: c rule: measure_induct_rule
      [of "\<lambda>(env, c). recv_load (cl_receives c)"])
    case (less c)
    obtain ok frames c1 where feed1: "feed_client env (NullBuf 0) c = (ok, frames, c1)" by (cases "feed_client env (NullBuf 0) c")
    obtain chunk c2 where receive: "receive_some 8192 c1 = (chunk, c2)" by (cases "receive_some 8192 c1")
    obtain ok' frames' c3 where feed2: "feed_client env (Buf (the chunk)) c2 = (ok', frames', c3)"
      by (cases "feed_client env (Buf (the chunk)) c2")
    note r1 = R_feed_client [OF feed1]
    note r2 = R_trans [OF r1 act_withinD [OF within_receive_some receive]]
    note r3 = R_trans [OF r2 R_feed_client [OF feed2]]
    have again: "R c (snd (client_read_frame env c3))" if "chunk = Some bytes" for bytes
      using R_trans [OF r3 less.hyps] receive_some_load [of 8192 c1 bytes c2]
        feed_client_receives [OF feed1] feed_client_receives [OF feed2] receive that by simp
    show ?case
      using feed1 receive feed2 r1 r2 r3 again
      by (subst client_read_frame.simps)
         (auto simp: copy_frame_def split: bool.split list.split option.split)
  qed
qed

lemma within_read_protocol_packet [act_keeps]: "act_within R (read_protocol_packet env state)"
  unfolding read_protocol_packet_def by (intro act_keeps R_emit)

lemma within_wait [act_keeps]: "act_within R mc_client_wait"
  unfolding mc_client_wait_def
  by (intro act_keeps act_withinI)
     (auto simp: R_refl dest: R_backend_wait split: prod.split mc_wait.split)

end

subsection \<open>Sending\<close>

locale transfer_relation = receive_relation env R for env :: "'u client_env" and R +
  assumes R_sent: "R c (c\<lparr>cl_sends := sends, cl_wire := cl_wire c @ bytes,
        cl_sent_bytes := cl_sent_bytes c + of_nat (length bytes)\<rparr>)"
    and R_tracked: "R c (c\<lparr>cl_tracked_position := position, cl_tracked_position_valid := True\<rparr>)"
    and R_loaded: "R c (c\<lparr>cl_player_loaded_sent := True\<rparr>)"
begin

lemma within_socket_send [act_keeps]: "act_within R (socket_send wire)"
  by (rule act_withinI) (auto simp: socket_send_def R_refl R_sent split: prod.split)

lemma within_send_all [act_keeps]: "act_within R (send_all env data)"
proof (rule act_withinI)
  note sent = act_withinD [OF within_socket_send]
  show "R c (snd (send_all env data c))" for c
    unfolding send_all_def
    by (auto split: option.split prod.split simp: R_refl R_userdata
        intro: R_trans [OF R_userdata] act_withinD [OF within_socket_send] prod.collapse [symmetric])
qed

lemma within_send_frame [act_keeps]: "act_within R (send_frame env packet_id payload)"
proof (rule act_withinI)
  show "R c (snd (send_frame env packet_id payload c))" for c
    using within_send_all by (auto simp: send_frame_def act_within_def R_refl split: option.split)
qed

lemma within_send_builder [act_keeps]: "act_within R (send_builder env packet_id packet)"
  unfolding send_builder_def by (intro act_keeps)

lemma within_send [act_keeps]: "act_within R (mc_client_send env packet_id payload)"
  unfolding mc_client_send_def by (intro act_keeps)

lemma within_send_named [act_keeps]: "act_within R (mc_client_send_named env packet_name payload)"
  unfolding mc_client_send_named_def Let_def by (intro act_keeps)

lemma within_play_position [act_keeps]: "act_within R (play_position env decoded)"
  unfolding play_position_def Let_def by (intro act_keeps R_tracked R_loaded)

lemma within_handle_play [act_keeps]: "act_within R (handle_play env packet_id body)"
  unfolding handle_play_def Let_def by (intro act_keeps)

lemma within_body [act_keeps]: "act_within R (client_body env capacity packet_name builder)"
  by (auto simp: client_body_def intro!: act_keeps split: prod.split bool.split)

lemma within_action [act_keeps]: "act_within R (client_action env capacity packet_name builder)"
  unfolding client_action_def Let_def by (intro act_keeps)

lemma within_item_action [act_keeps]: "act_within R (client_item_action env nbt_size packet_name builder)"
  unfolding client_item_action_def Let_def by (intro act_keeps)

lemma within_batch [act_keeps]: "act_within R (mc_client_send_batch env packets)"
  unfolding mc_client_send_batch_def by (intro act_keeps)

lemma within_actions [act_keeps]:
  "act_within R (mc_client_send_command env now command)"
  "act_within R (mc_client_send_client_information env information)"
  "act_within R (mc_client_send_entity_action env action)"
  "act_within R (mc_client_send_player_input env flags)"
  "act_within R (mc_client_swing_arm env entity_id hand)"
  "act_within R (mc_client_send_player_abilities env abilities)"
  "act_within R (mc_client_dig_block env dig)"
  "act_within R (mc_client_place_block env place)"
  "act_within R (mc_client_use_item env use_value)"
  "act_within R (mc_client_close_window env window_id)"
  "act_within R (mc_client_set_creative_slot_damage env slot item_id count damage)"
  "act_within R (mc_client_set_creative_slot env slot item_id count)"
  "act_within R (mc_client_select_hotbar_slot env slot)"
  "act_within R (mc_client_click_window env click)"
  "act_within R (mc_client_click_container_button env window_id button_id)"
  "act_within R (mc_client_attack_entity env entity_id)"
  "act_within R (mc_client_request_respawn env)"
  unfolding mc_client_send_command_def mc_client_send_client_information_def
    mc_client_send_entity_action_def mc_client_send_player_input_def mc_client_swing_arm_def
    mc_client_send_player_abilities_def mc_client_dig_block_def mc_client_place_block_def
    mc_client_use_item_def mc_client_close_window_def mc_client_set_creative_slot_def
    mc_client_set_creative_slot_damage_def mc_client_select_hotbar_slot_def mc_client_click_window_def
    mc_client_click_container_button_def mc_client_attack_entity_def mc_client_request_respawn_def
  by (intro act_keeps)+

lemma within_send_position [act_keeps]: "act_within R (mc_client_send_player_position env position)"
  unfolding mc_client_send_player_position_def
  by (intro act_keeps) (auto split: option.split simp: R_refl R_tracked)

end

subsection \<open>Login\<close>

locale login_relation = transfer_relation env R for env :: "'u client_env" and R +
  assumes R_state: "R c (c\<lparr>cl_state := state\<rparr>)"
    and R_on_state: "R c (ce_on_state env previous current c)"
    and R_compression: "mc_stream_decoder_set_compression (cl_stream_decoder c) threshold = (True, d, error)
        \<Longrightarrow> R c (c\<lparr>cl_stream_decoder := d, cl_compression_threshold := threshold\<rparr>)"
begin

lemma R_change_state: "R c (change_state env state c)"
  unfolding change_state_def by (auto intro: R_refl R_trans [OF R_state R_on_state])

lemma within_set_compression [act_keeps]: "act_within R (mc_client_set_compression threshold)"
proof -
  have "R c (snd (case mc_stream_decoder_set_compression (cl_stream_decoder c) threshold of
        (False, d, _) \<Rightarrow> (None, c\<lparr>cl_stream_decoder := d\<rparr>)
      | (True, d, _) \<Rightarrow> (Some (), c\<lparr>cl_stream_decoder := d, cl_compression_threshold := threshold\<rparr>)))" for c
  proof (cases "fst (mc_stream_decoder_set_compression (cl_stream_decoder c) threshold)")
    case True
    then show ?thesis using R_compression by (auto split: prod.split)
  next
    case False
    then have "fst (snd (mc_stream_decoder_set_compression (cl_stream_decoder c) threshold)) = cl_stream_decoder c"
      by (simp add: mc_stream_decoder_set_compression_def split: if_splits)
    with False show ?thesis by (auto simp: R_refl split: prod.splits)
  qed
  then show ?thesis unfolding mc_client_set_compression_def by (intro act_keeps act_withinI)
qed

lemma within_settings [act_keeps]: "act_within R (configuration_settings env protocol requested early)"
  "act_within R (configuration_selection env protocol body)"
  unfolding configuration_settings_def configuration_selection_def Let_def by (intro act_keeps)+

lemma within_finish [act_keeps]: "act_within R (configuration_finish env protocol requested information_sent)"
  unfolding configuration_finish_def by (intro act_keeps R_change_state)

lemma within_configuration_loop [act_keeps]:
  "act_within R (configuration_loop n env protocol requested information_sent)"
  by (induction n arbitrary: information_sent)
     (unfold configuration_loop.simps Let_def, intro act_keeps, (intro act_keeps | assumption)+)

lemma within_configuration [act_keeps]: "act_within R (configuration env requested)"
  unfolding configuration_def by (intro act_keeps R_change_state)

lemma within_login_loop [act_keeps]: "act_within R (login_loop n env information)"
  by (induction n) (unfold login_loop.simps, intro act_keeps, (intro act_keeps R_change_state | assumption)+)

lemma within_set_state [act_keeps]: "act_within R (mc_client_set_state env state)"
  unfolding mc_client_set_state_def by (intro act_keeps R_change_state)

end

subsection \<open>The whole client\<close>

locale client_relation = login_relation env R for env :: "'u client_env" and R +
  assumes R_disconnect: "R c (c\<lparr>cl_stop := True, cl_socket_fd := -1\<rparr>)"
    and R_open: "R c (c\<lparr>cl_stop := False,
          cl_stream_decoder := mc_stream_decoder_reset (cl_stream_decoder c),
          cl_compression_threshold := -1, cl_player_loaded_sent := False, cl_transforms := None,
          cl_server_side := False\<rparr>)"
    and R_socket: "0 \<le> socket_fd \<Longrightarrow> R c (c\<lparr>cl_socket_fd := socket_fd\<rparr>)"
    and R_all_events: "R c (c\<lparr>cl_waits := waits, cl_receives := receives, cl_sends := sends\<rparr>)"
    and R_timeout: "R c (c\<lparr>cl_read_timeout_ms := timeout_ms\<rparr>)"
    and R_transforms: "R c (c\<lparr>cl_transforms := transforms\<rparr>)"
    and R_automatic: "replies AND NOT MC_AUTOMATIC_ALL = 0 \<Longrightarrow> R c (c\<lparr>cl_automatic_replies := replies\<rparr>)"
begin

lemma R_client_disconnect: "R c (mc_client_disconnect env c)"
  unfolding mc_client_disconnect_def by (rule R_trans [OF R_disconnect R_change_state])

lemma within_set_read_timeout [act_keeps]: "act_within R (mc_client_set_read_timeout timeout_ms)"
  unfolding mc_client_set_read_timeout_def by (intro act_keeps R_timeout)

lemma within_set_stream_transforms [act_keeps]: "act_within R (mc_client_set_stream_transforms transforms)"
  unfolding mc_client_set_stream_transforms_def
  by (auto intro!: act_keeps R_transforms split: option.split)

lemma within_set_automatic_replies [act_keeps]: "act_within R (mc_client_set_automatic_replies replies)"
  unfolding mc_client_set_automatic_replies_def
  by (rule within_guard, rule within_guard_fact, rule within_do, rule R_automatic) simp

lemma within_open [act_keeps]: "act_within R (mc_client_open env host port next_state)"
proof -
  have socket: "act_within R (if socket_fd < 0 then act_fail
      else act_bind (act_do (\<lambda>c. c\<lparr>cl_socket_fd := socket_fd\<rparr>)) f)"
    if "\<And>x. act_within R (f x)" for socket_fd and f :: "unit \<Rightarrow> ('a, 'u) act"
    using that R_socket by (cases "socket_fd < 0") (auto intro!: act_keeps)
  show ?thesis
    unfolding mc_client_open_def Let_def
    by (intro act_keeps socket R_open R_change_state R_client_disconnect)
qed

lemma within_connect_profile [act_keeps]:
  "act_within R (client_connect_profile env host port username profile_id information)"
  unfolding client_connect_profile_def by (intro act_keeps R_client_disconnect)

lemma within_connect [act_keeps]: "act_within R (mc_client_connect env host port username)"
  "act_within R (mc_client_connect_profile env host port username profile_id information)"
  unfolding mc_client_connect_def mc_client_connect_profile_def by (intro act_keeps)+

lemma within_poll_packet [act_keeps]: "act_within R (poll_packet env timeout_ms)"
  unfolding poll_packet_def Let_def
  by (intro act_keeps R_timeout R_trans [OF R_timeout R_client_disconnect] R_client_disconnect)

lemma within_poll [act_keeps]: "act_within R (mc_client_poll env timeout_ms)"
proof -
  note packet = within_poll_packet [unfolded act_within_def, rule_format]
  show ?thesis
    unfolding mc_client_poll_def
    by (intro act_keeps act_withinI)
       (auto simp: R_refl packet split: prod.split mc_wait.split
         intro: R_trans [OF R_backend_wait packet] R_trans [OF R_backend_wait R_client_disconnect] R_backend_wait)
qed

lemma R_peek: "R c (c\<lparr>cl_receives := receives\<rparr>)"
proof -
  have "c\<lparr>cl_receives := receives\<rparr> = c\<lparr>cl_receives := receives, cl_waits := cl_waits c\<rparr>" by simp
  then show ?thesis using R_events by metis
qed

lemma within_wait_closed [act_keeps]: "act_within R (mc_client_wait_closed env timeout_ms)"
  unfolding mc_client_wait_closed_def
  by (intro act_keeps act_withinI)
     (auto simp: R_refl R_peek intro: R_backend_wait R_trans [OF R_backend_wait R_peek]
        R_trans [OF R_backend_wait R_trans [OF R_peek R_client_disconnect]]
      split: prod.split mc_wait.split mc_recv.split)

lemma R_run: "mc_client_run env c = Some y \<Longrightarrow> R c (snd y)"
proof -
  have "mc_client_run env' c = Some y \<Longrightarrow> env' = env \<longrightarrow> R c (snd y)" for env' c y
    by (rule mc_client_run.raw_induct [where P = "\<lambda>env' c y. env' = env \<longrightarrow> R c (snd y)"])
       (auto simp: R_refl split: if_splits prod.splits option.splits
         intro: act_withinD [OF within_poll] R_trans [OF act_withinD [OF within_poll]])
  then show "mc_client_run env c = Some y \<Longrightarrow> R c (snd y)" by simp
qed

end

end
