(* ===== verification/Client_Invariant.thy ===== *)
theory Client_Invariant
  imports Client_Laws "HOL-Library.Sublist"
begin

text \<open>
  The steps of a client, its reachable states and what holds in each of them: the invariant
  \<open>client_inv\<close> between the client's fields, and that the bytes on the wire are never taken back.
  Both are interpretations of \<open>client_relation\<close>. The application's callbacks are arbitrary up to
  keeping the same; a callback that only calls operations of the client does.
\<close>

subsection \<open>Steps\<close>

inductive client_step :: "'u client_env \<Rightarrow> 'u mc_client \<Rightarrow> 'u mc_client \<Rightarrow> bool" for env where
  step_events: "client_step env c (c\<lparr>cl_waits := waits, cl_receives := receives, cl_sends := sends\<rparr>)"
| step_disconnect: "client_step env c (mc_client_disconnect env c)"
| step_state: "client_step env c (snd (mc_client_set_state env state c))"
| step_compression: "client_step env c (snd (mc_client_set_compression threshold c))"
| step_timeout: "client_step env c (snd (mc_client_set_read_timeout timeout_ms c))"
| step_transforms: "client_step env c (snd (mc_client_set_stream_transforms transforms c))"
| step_automatic: "client_step env c (snd (mc_client_set_automatic_replies replies c))"
| step_wait: "client_step env c (snd (mc_client_wait c))"
| step_wait_closed: "client_step env c (snd (mc_client_wait_closed env timeout_ms c))"
| step_send: "client_step env c (snd (mc_client_send env packet_id payload c))"
| step_send_named: "client_step env c (snd (mc_client_send_named env packet_name payload c))"
| step_batch: "client_step env c (snd (mc_client_send_batch env packets c))"
| step_connect: "client_step env c (snd (mc_client_connect env host port username c))"
| step_connect_profile:
    "client_step env c (snd (mc_client_connect_profile env host port username profile_id information c))"
| step_open: "client_step env c (snd (mc_client_open env host port next_state c))"
| step_poll: "client_step env c (snd (mc_client_poll env timeout_ms c))"
| step_command: "client_step env c (snd (mc_client_send_command env now command c))"
| step_information: "client_step env c (snd (mc_client_send_client_information env client_information c))"
| step_entity_action: "client_step env c (snd (mc_client_send_entity_action env entity_action c))"
| step_input: "client_step env c (snd (mc_client_send_player_input env flags c))"
| step_swing: "client_step env c (snd (mc_client_swing_arm env entity_id hand c))"
| step_position: "client_step env c (snd (mc_client_send_player_position env position c))"
| step_abilities: "client_step env c (snd (mc_client_send_player_abilities env abilities c))"
| step_dig: "client_step env c (snd (mc_client_dig_block env dig c))"
| step_place: "client_step env c (snd (mc_client_place_block env place c))"
| step_use: "client_step env c (snd (mc_client_use_item env use_value c))"
| step_close: "client_step env c (snd (mc_client_close_window env window_id c))"
| step_creative: "client_step env c (snd (mc_client_set_creative_slot env slot item_id count c))"
| step_creative_damage:
    "client_step env c (snd (mc_client_set_creative_slot_damage env slot item_id count damage c))"
| step_hotbar: "client_step env c (snd (mc_client_select_hotbar_slot env slot c))"
| step_click: "client_step env c (snd (mc_client_click_window env click c))"
| step_button: "client_step env c (snd (mc_client_click_container_button env window_id button_id c))"
| step_attack: "client_step env c (snd (mc_client_attack_entity env entity_id c))"
| step_respawn: "client_step env c (snd (mc_client_request_respawn env c))"

text \<open>The states of a client that was created, or accepted by a server.\<close>

inductive client_reachable :: "'u client_env \<Rightarrow> 'u mc_client \<Rightarrow> bool" for env where
  reachable_create: "mc_client_create calloc_ok decoder_ok protocol u = Some c \<Longrightarrow> client_reachable env c"
| reachable_accept:
    "mc_server_accept env listening accept_fd calloc_ok decoder_ok u receives waits = Some (Some (c, handshake))
       \<Longrightarrow> client_reachable env c"
| reachable_step: "client_reachable env c \<Longrightarrow> client_step env c c' \<Longrightarrow> client_reachable env c'"



context client_relation
begin

lemma R_snd: "act_within R a \<Longrightarrow> R c (snd (a c))"
  by (simp add: act_within_def)

lemma R_step: "client_step env c c' \<Longrightarrow> R c c'"
  by (erule client_step.cases; hypsubst; (rule R_snd, rule act_keeps)?; (rule R_all_events R_client_disconnect)?)

lemma R_steps: "(client_step env)\<^sup>*\<^sup>* c c' \<Longrightarrow> R c c'"
  by (induction rule: rtranclp_induct) (auto intro: R_refl R_trans dest: R_step)

end

subsection \<open>The invariant\<close>

definition client_inv :: "'u mc_client \<Rightarrow> bool" where
  "client_inv c \<longleftrightarrow>
     stream_reachable (cl_stream_decoder c)
     \<and> cl_compression_threshold c = sd_compression_threshold (cl_stream_decoder c)
     \<and> cl_sent_bytes c = of_nat (length (cl_wire c))
     \<and> find_profile (pf_protocol (cl_profile c)) = Some (cl_profile c)
     \<and> cl_automatic_replies c AND NOT MC_AUTOMATIC_ALL = 0"

lemma feed_threshold:
  assumes "stream_reachable d" and "mc_stream_decoder_feed env d data cap = (ok, d', frames)"
  shows "sd_compression_threshold d' = sd_compression_threshold d"
proof (cases data)
  case (Buf bytes)
  then show ?thesis
    using feed_refines(4) [OF reachable_wf [OF assms(1)]] assms(2) by (auto simp: same_settings_def)
next
  case (NullBuf n)
  then show ?thesis
  proof (cases "n = 0")
    case True
    then show ?thesis
      using feed_refines(4) [OF reachable_wf [OF assms(1)]] assms(2) NullBuf
      by (auto simp: same_settings_def feed_null_zero)
  next
    case False
    then show ?thesis using assms(2) NullBuf by (auto simp: mc_stream_decoder_feed_def)
  qed
qed

lemma compression_threshold:
  "mc_stream_decoder_set_compression d threshold = (True, d', error) \<Longrightarrow> sd_compression_threshold d' = threshold"
  by (auto simp: mc_stream_decoder_set_compression_def split: if_splits)

lemma find_profile_protocol: "find_profile protocol = Some profile \<Longrightarrow> pf_protocol profile = protocol"
  by (auto simp: find_profile_def find_Some_iff)

text \<open>The callbacks of the application keep a property of the client.\<close>

definition callbacks_keep :: "'u client_env \<Rightarrow> ('u mc_client \<Rightarrow> bool) \<Rightarrow> bool" where
  "callbacks_keep env P \<longleftrightarrow>
     (\<forall>c previous current. P c \<longrightarrow> P (ce_on_state env previous current c))
     \<and> (\<forall>c state packet_id payload. P c \<longrightarrow> P (ce_on_packet env state packet_id payload c))"

definition keeps_inv :: "'u client_env \<Rightarrow> 'u mc_client \<Rightarrow> 'u mc_client \<Rightarrow> bool" where
  "keeps_inv env c c' \<longleftrightarrow> (callbacks_keep env client_inv \<longrightarrow> client_inv c \<longrightarrow> client_inv c')"

interpretation invariant: client_relation env "keeps_inv env" for env
proof unfold_locales
  fix data ok d frames and c :: "'a mc_client"
  assume "mc_stream_decoder_feed (ce_stream env) (cl_stream_decoder c) data 1 = (ok, d, frames)"
  then show "keeps_inv env c (c\<lparr>cl_stream_decoder := d\<rparr>)"
    by (auto simp: keeps_inv_def client_inv_def feed_threshold intro: reach_feed)
next
  fix threshold d error and c :: "'a mc_client"
  assume "mc_stream_decoder_set_compression (cl_stream_decoder c) threshold = (True, d, error)"
  then show "keeps_inv env c (c\<lparr>cl_stream_decoder := d, cl_compression_threshold := threshold\<rparr>)"
    by (auto simp: keeps_inv_def client_inv_def compression_threshold intro: reach_compression)
next
  fix c :: "'a mc_client"
  show "keeps_inv env c (c\<lparr>cl_stop := False,
          cl_stream_decoder := mc_stream_decoder_reset (cl_stream_decoder c),
          cl_compression_threshold := -1, cl_player_loaded_sent := False, cl_transforms := None,
          cl_server_side := False\<rparr>)"
    by (auto simp: keeps_inv_def client_inv_def mc_stream_decoder_reset_def [of "cl_stream_decoder c"]
      dest: reach_reset [of "cl_stream_decoder c", unfolded mc_stream_decoder_reset_def])
qed (auto simp: keeps_inv_def callbacks_keep_def client_inv_def)

lemma created_inv:
  "mc_client_create calloc_ok decoder_ok protocol u = Some c \<Longrightarrow> client_inv c"
proof -
  assume create: "mc_client_create calloc_ok decoder_ok protocol u = Some c"
  obtain d error where decoder: "mc_stream_decoder_create decoder_ok None = (Some d, error)"
    and d: "cl_stream_decoder c = d" "cl_compression_threshold c = -1" "cl_sent_bytes c = 0" "cl_wire c = []"
      "find_profile protocol = Some (cl_profile c)" "cl_automatic_replies c = MC_AUTOMATIC_ALL"
    using create
    by (cases "mc_stream_decoder_create decoder_ok None")
       (auto simp: mc_client_create_def split: option.splits if_splits)
  have "sd_compression_threshold d = -1"
    using decoder by (auto simp: mc_stream_decoder_create_def Let_def split: if_splits)
  then show ?thesis
    using reach_create [OF decoder] d find_profile_protocol [OF d(5)]
    by (simp add: client_inv_def MC_AUTOMATIC_ALL_def)
qed

lemma reachable_inv:
  assumes "callbacks_keep env client_inv" and "client_reachable env c"
  shows "client_inv c"
  using assms(2)
proof induction
  case (reachable_create calloc_ok decoder_ok protocol u c)
  then show ?case by (rule created_inv)
next
  case (reachable_accept listening accept_fd calloc_ok decoder_ok u receives waits c handshake)
  then obtain client and a :: accepted where create: "mc_client_create calloc_ok decoder_ok (hs_protocol handshake) u = Some client"
    and c: "c = change_state env (hs_next_state handshake)
       (client\<lparr>cl_server_side := True, cl_automatic_replies := 0,
          cl_received_bytes := ac_wire_size a, cl_socket_fd := accept_fd,
          cl_receives := ac_receives a, cl_waits := ac_waits a\<rparr>)"
    by (auto simp: mc_server_accept_def split: mc_wait.splits if_splits prod.splits option.splits)
  show ?case
    using created_inv [OF create] assms(1)
    by (auto simp: c change_state_def client_inv_def callbacks_keep_def)
next
  case (reachable_step c c')
  then show ?case using invariant.R_step [of env c c'] assms(1) by (simp add: keeps_inv_def)
qed

subsection \<open>The wire\<close>

text \<open>Every operation only adds to what was sent, and leaves the profile and the settings made before.\<close>

definition wire_grows :: "'u mc_client \<Rightarrow> 'u mc_client \<Rightarrow> bool" where
  "wire_grows c c' \<longleftrightarrow> prefix (cl_wire c) (cl_wire c') \<and> cl_profile c' = cl_profile c"

definition callbacks_within :: "'u client_env \<Rightarrow> ('u mc_client \<Rightarrow> 'u mc_client \<Rightarrow> bool) \<Rightarrow> bool" where
  "callbacks_within env R \<longleftrightarrow>
     (\<forall>c previous current. R c (ce_on_state env previous current c))
     \<and> (\<forall>c state packet_id payload. R c (ce_on_packet env state packet_id payload c))"

definition grows_wire :: "'u client_env \<Rightarrow> 'u mc_client \<Rightarrow> 'u mc_client \<Rightarrow> bool" where
  "grows_wire env c c' \<longleftrightarrow> (callbacks_within env wire_grows \<longrightarrow> wire_grows c c')"

interpretation wire: client_relation env "grows_wire env" for env
  by unfold_locales (auto simp: grows_wire_def callbacks_within_def wire_grows_def intro: prefix_order.trans)

end
