(* ===== verification/Client_Play.thy ===== *)
theory Client_Play
  imports Client_Invariant
begin

text \<open>
  What login and play do to the connection: the outcome of \<open>mc_client_connect_profile\<close>, the outcome of
  \<open>mc_client_poll\<close> and what it may send, and the automatic answer to a keep-alive. The callbacks are
  those of an application that only observes: \<open>observing\<close>.
\<close>

subsection \<open>Callbacks that observe\<close>

definition observing :: "'u client_env \<Rightarrow> bool" where
  "observing env \<longleftrightarrow> callbacks_within env (\<lambda>c c'. \<exists>u. c' = c\<lparr>cl_userdata := u\<rparr>)"

lemma observing_state: "observing env \<Longrightarrow> \<exists>u. ce_on_state env previous current c = c\<lparr>cl_userdata := u\<rparr>"
  by (simp add: observing_def callbacks_within_def)

lemma observing_packet: "observing env \<Longrightarrow> \<exists>u. ce_on_packet env state packet_id payload c = c\<lparr>cl_userdata := u\<rparr>"
  by (simp add: observing_def callbacks_within_def)

text \<open>What reading and sending leave alone.\<close>

definition same_session :: "'u mc_client \<Rightarrow> 'u mc_client \<Rightarrow> bool" where
  "same_session c c' \<longleftrightarrow> cl_socket_fd c' = cl_socket_fd c \<and> cl_stop c' = cl_stop c
     \<and> cl_read_timeout_ms c' = cl_read_timeout_ms c \<and> cl_profile c' = cl_profile c
     \<and> cl_automatic_replies c' = cl_automatic_replies c"

definition same_play :: "'u mc_client \<Rightarrow> 'u mc_client \<Rightarrow> bool" where
  "same_play c c' \<longleftrightarrow> same_session c c' \<and> cl_state c' = cl_state c"

definition same_wire :: "'u mc_client \<Rightarrow> 'u mc_client \<Rightarrow> bool" where
  "same_wire c c' \<longleftrightarrow> same_play c c' \<and> cl_wire c' = cl_wire c \<and> cl_sends c' = cl_sends c
     \<and> cl_compression_threshold c' = cl_compression_threshold c \<and> cl_transforms c' = cl_transforms c"

lemmas same_defs = same_wire_def same_play_def same_session_def

definition when_observing :: "'u client_env \<Rightarrow> ('u mc_client \<Rightarrow> 'u mc_client \<Rightarrow> bool) \<Rightarrow> 'u mc_client \<Rightarrow> 'u mc_client \<Rightarrow> bool" where
  "when_observing env R c c' \<longleftrightarrow> (observing env \<longrightarrow> R c c')"

interpretation session: login_relation env "when_observing env same_session" for env
proof unfold_locales
  fix state packet_id payload previous current and c :: "'a mc_client"
  show "when_observing env same_session c (ce_on_packet env state packet_id payload c)"
    using observing_packet [of env state packet_id payload c] by (auto simp: when_observing_def same_defs)
  show "when_observing env same_session c (ce_on_state env previous current c)"
    using observing_state [of env previous current c] by (auto simp: when_observing_def same_defs)
qed (auto simp: when_observing_def same_defs)

interpretation play: transfer_relation env "when_observing env same_play" for env
proof unfold_locales
  fix state packet_id payload and c :: "'a mc_client"
  show "when_observing env same_play c (ce_on_packet env state packet_id payload c)"
    using observing_packet [of env state packet_id payload c] by (auto simp: when_observing_def same_defs)
qed (auto simp: when_observing_def same_defs)

interpretation reading: receive_relation env "when_observing env same_wire" for env
proof unfold_locales
  fix state packet_id payload and c :: "'a mc_client"
  show "when_observing env same_wire c (ce_on_packet env state packet_id payload c)"
    using observing_packet [of env state packet_id payload c] by (auto simp: when_observing_def same_defs)
qed (auto simp: when_observing_def same_defs)

lemma change_state_observing:
  assumes "observing env"
  shows "\<exists>u. change_state env state c = c\<lparr>cl_state := state, cl_userdata := u\<rparr>"
proof (cases "cl_state c = state")
  case True
  then have "change_state env state c = c\<lparr>cl_state := state, cl_userdata := cl_userdata c\<rparr>"
    by (auto simp: change_state_def)
  then show ?thesis ..
next
  case False
  then show ?thesis
    using observing_state [OF assms, of "cl_state c" state "c\<lparr>cl_state := state\<rparr>"] by (auto simp: change_state_def)
qed

definition client_closed :: "'u mc_client \<Rightarrow> bool" where
  "client_closed c \<longleftrightarrow> cl_state c = MC_STATE_DISCONNECTED \<and> cl_socket_fd c = -1"

lemma disconnect_closes: "observing env \<Longrightarrow> client_closed (mc_client_disconnect env c)"
  using change_state_observing [of env MC_STATE_DISCONNECTED "c\<lparr>cl_stop := True, cl_socket_fd := -1\<rparr>"]
  by (auto simp: mc_client_disconnect_def client_closed_def)

text \<open>How an operation ends, for each of its two results.\<close>

definition act_ends :: "('u mc_client \<Rightarrow> bool) \<Rightarrow> ('a, 'u) act \<Rightarrow> ('a \<Rightarrow> 'u mc_client \<Rightarrow> bool) \<Rightarrow> ('u mc_client \<Rightarrow> bool) \<Rightarrow> bool" where
  "act_ends P a Q E \<longleftrightarrow> (\<forall>c. P c \<longrightarrow> (case a c of (None, c') \<Rightarrow> E c' | (Some x, c') \<Rightarrow> Q x c'))"

named_theorems act_rules \<open>rules for the ends of an operation\<close>

lemma ends_return [act_rules]: "(\<And>c. P c \<Longrightarrow> Q x c) \<Longrightarrow> act_ends P (act_return x) Q E"
  by (simp add: act_ends_def act_return_def)

lemma ends_fail [act_rules]: "(\<And>c. P c \<Longrightarrow> E c) \<Longrightarrow> act_ends P act_fail Q E"
  by (simp add: act_ends_def act_fail_def)

lemma ends_bind:
  assumes a: "act_ends P a Q' E" and f: "\<And>x. act_ends (Q' x) (f x) Q E"
  shows "act_ends P (act_bind a f) Q E"
  unfolding act_ends_def
proof (intro allI impI)
  fix c
  assume "P c"
  then have first: "case a c of (None, c') \<Rightarrow> E c' | (Some x, c') \<Rightarrow> Q' x c'" using a by (simp add: act_ends_def)
  obtain r c' where run: "a c = (r, c')" by (cases "a c")
  show "case act_bind a f c of (None, c') \<Rightarrow> E c' | (Some x, c') \<Rightarrow> Q x c'"
    using first f by (cases r) (simp_all add: run act_bind_def act_ends_def)
qed

lemma ends_do [act_rules]: "(\<And>c. P c \<Longrightarrow> Q () (f c)) \<Longrightarrow> act_ends P (act_do f) Q E"
  by (simp add: act_ends_def act_do_def)

lemma ends_guard [act_rules]:
  "(\<And>c. P c \<Longrightarrow> p c \<Longrightarrow> E c) \<Longrightarrow> act_ends (\<lambda>c. P c \<and> \<not> p c) a Q E \<Longrightarrow> act_ends P (act_guard p a) Q E"
  by (simp add: act_ends_def act_guard_def)

lemma ends_with [act_rules]: "(\<And>c. P c \<Longrightarrow> act_ends (\<lambda>c'. c' = c) (f c) Q E) \<Longrightarrow> act_ends P (act_with f) Q E"
  by (simp add: act_ends_def act_with_def)

lemma ends_or_fail [act_rules]:
  "act_ends P a Q (\<lambda>c. E (f c)) \<Longrightarrow> act_ends P (act_or_fail a f) Q E"
  unfolding act_ends_def act_or_fail_def by (auto split: prod.splits option.splits)

lemma ends_if [act_rules]:
  "(p \<Longrightarrow> act_ends P a Q E) \<Longrightarrow> (\<not> p \<Longrightarrow> act_ends P b Q E) \<Longrightarrow> act_ends P (if p then a else b) Q E"
  by simp

lemma ends_weaken: "act_ends P a Q E \<Longrightarrow> (\<And>c. P' c \<Longrightarrow> P c) \<Longrightarrow> act_ends P' a Q E"
  by (simp add: act_ends_def)

lemma ends_within:
  assumes "act_within R a" and "\<And>c c'. P c \<Longrightarrow> R c c' \<Longrightarrow> I c'"
  shows "act_ends P a (\<lambda>_. I) I"
  using assms by (fastforce simp: act_ends_def act_within_def split: prod.splits option.splits)

lemma ends_mono:
  "act_ends P a Q E \<Longrightarrow> (\<And>x c. Q x c \<Longrightarrow> Q' x c) \<Longrightarrow> (\<And>c. E c \<Longrightarrow> E' c) \<Longrightarrow> act_ends P a Q' E'"
  by (fastforce simp: act_ends_def split: prod.splits option.splits)

lemma ends_split: "(\<And>x y. act_ends P (f x y) Q E) \<Longrightarrow> act_ends P (case p of (x, y) \<Rightarrow> f x y) Q E"
  by (cases p) simp

lemma ends_option:
  "act_ends P a Q E \<Longrightarrow> (\<And>x. act_ends P (f x) Q E) \<Longrightarrow> act_ends P (case o' of None \<Rightarrow> a | Some x \<Rightarrow> f x) Q E"
  by (cases o') simp_all

lemma ends_with_any: "(\<And>c. act_ends P (f c) Q E) \<Longrightarrow> act_ends P (act_with f) Q E"
  by (simp add: act_ends_def act_with_def)

lemma ends_any: "act_ends P a (\<lambda>_ _. True) (\<lambda>_. True)"
  by (auto simp: act_ends_def split: prod.splits option.splits)

subsection \<open>Login\<close>

text \<open>The socket stays open while the connection is set up.\<close>

definition connecting :: "'u mc_client \<Rightarrow> bool" where
  "connecting c \<longleftrightarrow> 0 \<le> cl_socket_fd c \<and> \<not> cl_stop c"

definition playing :: "'u mc_client \<Rightarrow> bool" where
  "playing c \<longleftrightarrow> connecting c \<and> cl_state c = MC_STATE_PLAY"

lemma connecting_within:
  assumes "observing env" and "act_within (when_observing env same_session) a"
  shows "act_ends connecting a (\<lambda>_. connecting) (\<lambda>_. True)"
proof -
  have "act_ends connecting a (\<lambda>_. connecting) connecting"
    by (rule ends_within [OF assms(2)])
      (use assms(1) in \<open>auto simp: when_observing_def same_session_def connecting_def\<close>)
  then show ?thesis by (rule ends_mono) simp_all
qed

lemma connecting_then:
  assumes "observing env" and "act_within (when_observing env same_session) a"
    and "\<And>x. act_ends connecting (f x) Q (\<lambda>_. True)"
  shows "act_ends connecting (act_bind a f) Q (\<lambda>_. True)"
  by (rule ends_bind [OF connecting_within [OF assms(1,2)] assms(3)])

lemma play_state: "observing env \<Longrightarrow> act_ends connecting (act_do (change_state env MC_STATE_PLAY)) (\<lambda>_. playing) (\<lambda>_. True)"
proof (rule ends_do)
  fix c :: "'a mc_client"
  assume "observing env" "connecting c"
  then show "playing (change_state env MC_STATE_PLAY c)"
    using change_state_observing [of env MC_STATE_PLAY c] by (auto simp: playing_def connecting_def)
qed

lemma finish_plays:
  assumes "observing env"
  shows "act_ends connecting (configuration_finish env protocol requested sent) (\<lambda>_. playing) (\<lambda>_. True)"
  unfolding configuration_finish_def
  by (intro connecting_then [OF assms] play_state [OF assms] act_keeps)

lemma configuration_loop_plays:
  assumes "observing env"
  shows "act_ends connecting (configuration_loop n env protocol requested sent) (\<lambda>_. playing) (\<lambda>_. True)"
proof (induction n arbitrary: sent)
  case 0
  show ?case by (simp add: ends_fail)
next
  case (Suc n)
  show ?case
    unfolding configuration_loop.simps Let_def
    by (intro connecting_then [OF assms] act_keeps session.R_change_state ends_split ends_if finish_plays [OF assms] Suc.IH)
qed

lemma configuration_plays:
  assumes "observing env"
  shows "act_ends connecting (configuration env requested) (\<lambda>_. playing) (\<lambda>_. True)"
  unfolding configuration_def
  by (intro connecting_then [OF assms] act_keeps session.R_change_state ends_with_any configuration_loop_plays [OF assms])

lemma login_plays:
  assumes "observing env"
  shows "act_ends connecting (login_loop n env information) (\<lambda>_. playing) (\<lambda>_. True)"
proof (induction n)
  case 0
  show ?case by (simp add: ends_fail)
next
  case (Suc n)
  show ?case
    unfolding login_loop.simps
    by (intro connecting_then [OF assms] act_keeps session.R_change_state ends_split ends_if ends_option ends_with_any
        play_state [OF assms] configuration_plays [OF assms] Suc.IH ends_fail TrueI)
qed

lemma ends_guard_any: "(\<And>c. P c \<Longrightarrow> E c) \<Longrightarrow> act_ends P a Q E \<Longrightarrow> act_ends P (act_guard p a) Q E"
  by (simp add: act_ends_def act_guard_def)

lemma ends_or_close:
  "observing env \<Longrightarrow> act_ends P a Q (\<lambda>_. True) \<Longrightarrow>
     act_ends P (act_or_fail a (mc_client_disconnect env)) Q client_closed"
  by (rule ends_or_fail) (auto elim!: ends_mono intro: disconnect_closes)

lemma open_connects:
  assumes "observing env"
  shows "act_ends client_closed (mc_client_open env host port next_state) (\<lambda>_. connecting) client_closed"
proof -
  have handshake: "act_ends connecting
      (act_or_fail (act_guard (\<lambda>_. \<not> ce_backend_init env fd) (act_with (\<lambda>c. act_bind (send_builder env 0 (body c)) (\<lambda>_.
         act_do (change_state env next_state))))) (mc_client_disconnect env))
      (\<lambda>_. connecting) client_closed" for fd body
    by (intro ends_or_close [OF assms] ends_guard_any ends_with_any connecting_then [OF assms]
        connecting_within [OF assms] act_keeps session.R_change_state TrueI)
  have socket: "act_ends client_closed (act_bind (act_do (\<lambda>c. c\<lparr>cl_stop := False,
          cl_stream_decoder := mc_stream_decoder_reset (cl_stream_decoder c),
          cl_compression_threshold := -1, cl_player_loaded_sent := False, cl_transforms := None,
          cl_server_side := False\<rparr>)) f) Q client_closed"
    if "\<And>x. act_ends (\<lambda>c. client_closed c \<and> \<not> cl_stop c) (f x) Q client_closed" for f Q
    by (rule ends_bind [OF ends_do that]) (simp add: client_closed_def)
  have opened: "act_ends (\<lambda>c. client_closed c \<and> \<not> cl_stop c)
      (if fd < 0 then act_fail else act_bind (act_do (\<lambda>c. c\<lparr>cl_socket_fd := fd\<rparr>)) f) Q client_closed"
    if "\<And>x. act_ends connecting (f x) Q client_closed" for fd f Q
    by (rule ends_if [OF ends_fail ends_bind [OF ends_do that]]) (simp_all add: connecting_def)
  show ?thesis
    unfolding mc_client_open_def Let_def
    by (intro ends_option ends_guard_any ends_fail socket opened handshake) simp_all
qed

lemma connect_ends:
  assumes "observing env"
  shows "act_ends client_closed (mc_client_connect_profile env host port username profile_id information)
    (\<lambda>_. playing) client_closed"
proof -
  have login: "act_ends connecting
      (act_or_fail (act_with (\<lambda>c. act_bind (send_builder env 0 (body c)) (\<lambda>_. login_loop n env information)))
         (mc_client_disconnect env)) (\<lambda>_. playing) client_closed" for body n
    by (intro ends_or_close [OF assms] ends_with_any connecting_then [OF assms] login_plays [OF assms] act_keeps)
  show ?thesis
    unfolding mc_client_connect_profile_def client_connect_profile_def
    by (intro ends_option ends_guard_any ends_fail ends_bind [OF open_connects [OF assms]] login) simp_all
qed

subsection \<open>Polling\<close>

lemma disconnect_wire: "observing env \<Longrightarrow> cl_wire (mc_client_disconnect env c) = cl_wire c"
  using change_state_observing [of env MC_STATE_DISCONNECTED "c\<lparr>cl_stop := True, cl_socket_fd := -1\<rparr>"]
  by (auto simp: mc_client_disconnect_def)

lemma handle_play_quiet: "cl_automatic_replies c = 0 \<Longrightarrow> handle_play env packet_id body c = (Some (), c)"
  by (simp add: handle_play_def act_with_def automatic_def Let_def act_bind_def act_return_def)

lemma read_packet_same:
  "observing env \<Longrightarrow> read_protocol_packet env state c = (r, c') \<Longrightarrow> same_wire c c'"
  by (drule act_withinD [OF reading.within_read_protocol_packet]) (simp add: when_observing_def)

lemma handle_play_same: "observing env \<Longrightarrow> handle_play env packet_id body c = (r, c') \<Longrightarrow> same_play c c'"
  by (drule act_withinD [OF play.within_handle_play]) (simp add: when_observing_def)

text \<open>The two halves of a poll: the packet that was read, and what is answered.\<close>

lemma poll_packet_cases:
  assumes "poll_packet env timeout_ms c = (r, c')"
  obtains (broken) c2 where "read_protocol_packet env (cl_state c) (c\<lparr>cl_read_timeout_ms := timeout_ms\<rparr>) = (None, c2)"
      "r = None" "c' = mc_client_disconnect env (c2\<lparr>cl_read_timeout_ms := cl_read_timeout_ms c\<rparr>)"
  | (idle) packet_id body c2 where
      "read_protocol_packet env (cl_state c) (c\<lparr>cl_read_timeout_ms := timeout_ms\<rparr>) = (Some (packet_id, body), c2)"
      "\<not> (cl_state c = MC_STATE_PLAY \<and> cl_state c2 = MC_STATE_PLAY \<and> cl_socket_fd c2 \<ge> 0)"
      "r = Some 1" "c' = c2\<lparr>cl_read_timeout_ms := cl_read_timeout_ms c\<rparr>"
  | (answered) packet_id body c2 h c3 where
      "read_protocol_packet env (cl_state c) (c\<lparr>cl_read_timeout_ms := timeout_ms\<rparr>) = (Some (packet_id, body), c2)"
      "cl_state c = MC_STATE_PLAY \<and> cl_state c2 = MC_STATE_PLAY \<and> cl_socket_fd c2 \<ge> 0"
      "handle_play env packet_id body (c2\<lparr>cl_read_timeout_ms := cl_read_timeout_ms c\<rparr>) = (h, c3)"
      "(r, c') = (case h of None \<Rightarrow> (None, mc_client_disconnect env c3) | Some _ \<Rightarrow> (Some 1, c3))"
proof -
  obtain p c2 where read: "read_protocol_packet env (cl_state c) (c\<lparr>cl_read_timeout_ms := timeout_ms\<rparr>) = (p, c2)"
    by (cases "read_protocol_packet env (cl_state c) (c\<lparr>cl_read_timeout_ms := timeout_ms\<rparr>)")
  note run = assms [unfolded poll_packet_def Let_def act_with_def act_bind_def act_do_def act_or_fail_def
      act_return_def, simplified, unfolded read, simplified]
  show ?thesis
  proof (cases p)
    case None
    then show ?thesis using run broken read by simp
  next
    case (Some packet)
    obtain packet_id body where packet: "packet = (packet_id, body)" by (cases packet)
    obtain h c3 where handled: "handle_play env packet_id body (c2\<lparr>cl_read_timeout_ms := cl_read_timeout_ms c\<rparr>) = (h, c3)"
      by (cases "handle_play env packet_id body (c2\<lparr>cl_read_timeout_ms := cl_read_timeout_ms c\<rparr>)")
    show ?thesis
      using run idle answered read Some packet handled
      by (cases h; cases "cl_state c = MC_STATE_PLAY \<and> cl_state c2 = MC_STATE_PLAY \<and> cl_socket_fd c2 \<ge> 0")
        (auto split: if_splits)
  qed
qed

lemma poll_packet_ends:
  assumes obs: "observing env" and poll: "poll_packet env timeout_ms c = (r, c')"
  shows "(case r of None \<Rightarrow> client_closed c' | Some n \<Rightarrow> n = 1 \<and> same_play c c')
    \<and> (cl_state c \<noteq> MC_STATE_PLAY \<or> cl_automatic_replies c = 0 \<longrightarrow> cl_wire c' = cl_wire c)"
  using poll
proof (cases rule: poll_packet_cases)
  case (broken c2)
  then show ?thesis
    using read_packet_same [OF obs broken(1)] disconnect_closes [OF obs] disconnect_wire [OF obs]
    by (simp add: same_defs)
next
  case (idle packet_id body c2)
  then show ?thesis using read_packet_same [OF obs idle(1)] by (simp add: same_defs)
next
  case (answered packet_id body c2 h c3)
  note read = read_packet_same [OF obs answered(1)]
  have quiet: "c3 = c2\<lparr>cl_read_timeout_ms := cl_read_timeout_ms c\<rparr>" if "cl_automatic_replies c = 0"
    using handle_play_quiet [of "c2\<lparr>cl_read_timeout_ms := cl_read_timeout_ms c\<rparr>" env packet_id body]
      that read answered(3) by (auto simp: same_defs)
  show ?thesis
    using answered read handle_play_same [OF obs answered(3)] quiet disconnect_closes [OF obs] disconnect_wire [OF obs]
    by (cases h) (auto simp: same_defs)
qed

lemma poll_ends:
  assumes obs: "observing env" and poll: "mc_client_poll env timeout_ms c = (r, c')"
    and live: "0 \<le> cl_socket_fd c" "cl_state c \<noteq> MC_STATE_DISCONNECTED"
  shows "(case r of None \<Rightarrow> client_closed c' | Some n \<Rightarrow> n \<in> {0, 1} \<and> same_play c c')
    \<and> (cl_state c \<noteq> MC_STATE_PLAY \<or> cl_automatic_replies c = 0 \<or> r = Some 0 \<longrightarrow> cl_wire c' = cl_wire c)"
proof -
  obtain w c1 where wait: "backend_wait c = (w, c1)" by (cases "backend_wait c")
  then have same: "same_wire c c1" by (auto simp: backend_wait_def same_defs split: list.splits)
  consider (stop) "r = Some 0" "c' = c" | (ready) "poll_packet env timeout_ms c = (r, c')"
    | (timeout) "r = Some 0" "c' = c1" | (failed) "r = None" "c' = mc_client_disconnect env c1"
    | (waited) "poll_packet env timeout_ms c1 = (r, c')"
  proof -
    have guarded: "mc_client_poll env timeout_ms c =
        (if cl_stop c then (Some 0, c) else if stream_decoder_frame_ready (cl_stream_decoder c)
         then poll_packet env timeout_ms c
         else case w of Wait_timeout \<Rightarrow> (Some 0, c1) | Wait_failed \<Rightarrow> (None, mc_client_disconnect env c1)
           | Wait_ready \<Rightarrow> poll_packet env timeout_ms c1)"
      using live by (simp add: mc_client_poll_def act_guard_def wait)
    show ?thesis
      using poll unfolding guarded by (cases w) (auto split: if_splits intro: that)
  qed
  then show ?thesis
  proof cases
    case stop
    then show ?thesis by (simp add: same_defs)
  next
    case ready
    show ?thesis using poll_packet_ends [OF obs ready] by (auto split: option.splits)
  next
    case timeout
    then show ?thesis using same by (simp add: same_defs)
  next
    case failed
    then show ?thesis using same disconnect_closes [OF obs] disconnect_wire [OF obs] by (simp add: same_defs)
  next
    case waited
    show ?thesis using poll_packet_ends [OF obs waited] same by (auto simp: same_defs split: option.splits)
  qed
qed

text \<open>\<open>handle_play\<close> calls no callback, so the timeout is restored whatever the callbacks did before.\<close>

definition silent :: "'u client_env \<Rightarrow> 'u client_env" where
  "silent env = env\<lparr>ce_on_packet := \<lambda>_ _ _ c. c, ce_on_state := \<lambda>_ _ c. c\<rparr>"

lemma send_silent: "send_frame (silent env) = send_frame env" "send_builder (silent env) = send_builder env"
proof -
  have same: "ce_frame (silent env) = ce_frame env" by (simp add: silent_def)
  have all: "send_all (silent env) = send_all env" unfolding fun_eq_iff send_all_def same by (rule allI)+ (rule refl)
  show frame: "send_frame (silent env) = send_frame env"
    unfolding fun_eq_iff send_frame_def same all by (rule allI)+ (rule refl)
  show "send_builder (silent env) = send_builder env"
    unfolding fun_eq_iff send_builder_def frame by (rule allI)+ (rule refl)
qed

lemma handle_play_silent: "handle_play (silent env) packet_id body = handle_play env packet_id body"
proof -
  have "play_position (silent env) = play_position env" 
    unfolding fun_eq_iff play_position_def send_silent by (rule allI)+ (rule refl)
  then show ?thesis unfolding handle_play_def send_silent by (simp only:)
qed

lemma silent_observing: "observing (silent env)"
proof -
  have "\<exists>u. c = c\<lparr>cl_userdata := u\<rparr>" for c :: "'a mc_client" by (rule exI [of _ "cl_userdata c"]) simp
  then show ?thesis by (simp add: observing_def callbacks_within_def silent_def)
qed

lemma handle_play_timeout:
  "handle_play env packet_id body c = (r, c') \<Longrightarrow> cl_read_timeout_ms c' = cl_read_timeout_ms c"
  using handle_play_same [OF silent_observing, of env packet_id body c r c']
  by (simp add: handle_play_silent same_defs)

lemma poll_packet_timeout:
  "poll_packet env timeout_ms c = (Some n, c') \<Longrightarrow> cl_read_timeout_ms c' = cl_read_timeout_ms c"
  by (erule poll_packet_cases) (auto dest: handle_play_timeout split: option.splits)

lemma poll_timeout:
  assumes "mc_client_poll env timeout_ms c = (Some n, c')"
  shows "cl_read_timeout_ms c' = cl_read_timeout_ms c"
proof -
  have "cl_read_timeout_ms c1 = cl_read_timeout_ms c" if "backend_wait c = (w, c1)" for w c1
    using that by (auto simp: backend_wait_def split: list.splits)
  then show ?thesis
    using assms poll_packet_timeout
    by (fastforce simp: mc_client_poll_def act_guard_def split: if_splits prod.splits mc_wait.splits)
qed

subsection \<open>Keep-alive\<close>

lemma socket_send_all:
  "cl_sends c = [] \<Longrightarrow> 0 \<le> cl_socket_fd c \<Longrightarrow> socket_send wire c =
     (Some (), c\<lparr>cl_wire := cl_wire c @ wire, cl_sent_bytes := cl_sent_bytes c + of_nat (length wire)\<rparr>)"
  by (simp add: socket_send_def)

lemma send_frame_plain:
  assumes "cl_sends c = []" "0 \<le> cl_socket_fd c" "cl_transforms c = None"
    and "encode_frame (ce_frame env) (cl_compression_threshold c) packet_id (Buf payload) = Some wire"
  shows "send_frame env packet_id payload c =
     (Some (), c\<lparr>cl_wire := cl_wire c @ wire, cl_sent_bytes := cl_sent_bytes c + of_nat (length wire)\<rparr>)"
  using assms by (simp add: send_frame_def send_all_def socket_send_all)

lemma keep_alive_reply:
  assumes obs: "observing env" and state: "playing c" and plain: "cl_transforms c = None" "cl_sends c = []"
    and auto: "automatic c MC_AUTOMATIC_KEEP_ALIVE"
    and ready: "stream_decoder_frame_ready (cl_stream_decoder c) \<or> cl_waits c = []"
    and read: "fst (client_read_frame env (c\<lparr>cl_read_timeout_ms := timeout_ms\<rparr>)) = Some frame"
    and varint: "mc_reader_varint (mc_reader_init (Buf frame)) = (Some packet_id, body)"
    and keep_alive: "packet_id = word_of_int (pf_keep_alive (cl_profile c))"
    and reply: "encode_frame (ce_frame env) (cl_compression_threshold c)
        (word_of_int (pf_keep_alive_response (cl_profile c))) (Buf (drop (rd_offset body) (rd_data body))) = Some wire"
  shows "\<exists>c'. mc_client_poll env timeout_ms c = (Some 1, c') \<and> cl_wire c' = cl_wire c @ wire \<and> playing c'"
proof -
  obtain c1 where c1: "client_read_frame env (c\<lparr>cl_read_timeout_ms := timeout_ms\<rparr>) = (Some frame, c1)"
    using read by (cases "client_read_frame env (c\<lparr>cl_read_timeout_ms := timeout_ms\<rparr>)") auto
  have packet: "read_protocol_packet env (cl_state c) (c\<lparr>cl_read_timeout_ms := timeout_ms\<rparr>)
      = (Some (packet_id, body), emit_packet env (cl_state c) packet_id body c1)" (is "_ = (_, ?c2)")
    by (simp add: read_protocol_packet_def act_bind_def c1 varint act_do_def act_return_def)
  note same = read_packet_same [OF obs packet]
  define c3 where "c3 = ?c2\<lparr>cl_read_timeout_ms := cl_read_timeout_ms c\<rparr>"
  have c3: "cl_sends c3 = []" "0 \<le> cl_socket_fd c3" "cl_transforms c3 = None" "cl_profile c3 = cl_profile c"
    "cl_compression_threshold c3 = cl_compression_threshold c" "cl_wire c3 = cl_wire c" "\<not> cl_stop c3"
    "cl_automatic_replies c3 = cl_automatic_replies c" "cl_state c3 = MC_STATE_PLAY"
    using same state plain by (simp_all add: c3_def same_defs playing_def connecting_def)
  have handled: "handle_play env packet_id body c3 =
      (Some (), c3\<lparr>cl_wire := cl_wire c @ wire, cl_sent_bytes := cl_sent_bytes c3 + of_nat (length wire)\<rparr>)"
    using auto keep_alive reply c3
    by (simp add: handle_play_def act_with_def Let_def automatic_def send_frame_plain)
  have "poll_packet env timeout_ms c =
      (Some 1, c3\<lparr>cl_wire := cl_wire c @ wire, cl_sent_bytes := cl_sent_bytes c3 + of_nat (length wire)\<rparr>)"
    using packet handled c3 state
    by (simp add: poll_packet_def Let_def act_with_def act_bind_def act_do_def act_or_fail_def act_return_def
        playing_def connecting_def c3_def)
  moreover have "mc_client_poll env timeout_ms c = poll_packet env timeout_ms c"
    using ready state by (auto simp: mc_client_poll_def act_guard_def backend_wait_def playing_def connecting_def)
  ultimately show ?thesis using c3 by (simp add: playing_def connecting_def)
qed

end
