(* ===== verification/Handshake.thy ===== *)
theory Handshake
  imports Client_Play
begin

text \<open>
  The two ends of a connection against each other: what \<open>mc_client_open\<close> writes is what
  \<open>mc_server_accept\<close> reads, in whatever chunks it arrives, and nothing of what follows is lost.
\<close>

subsection \<open>The socket as a stream\<close>

text \<open>The bytes that a socket will deliver, without errors: the chunks are not empty.\<close>

definition delivers :: "mc_recv list \<Rightarrow> u8 list \<Rightarrow> bool" where
  "delivers receives bytes \<longleftrightarrow>
     (\<exists>chunks. receives = map Recv_data chunks \<and> [] \<notin> set chunks \<and> concat chunks = bytes)"

definition ac_stream :: "accepted \<Rightarrow> u8 list \<Rightarrow> bool" where
  "ac_stream a bytes \<longleftrightarrow> ac_waits a = [] \<and> delivers (ac_receives a) bytes"

lemma delivers_cases:
  assumes "delivers receives bytes" and "bytes \<noteq> []"
  obtains b receives' bytes' where "receives = Recv_data b # receives'" "b \<noteq> []" "bytes = b @ bytes'"
    "delivers receives' bytes'"
  using assms unfolding delivers_def by (metis concat.simps list.set_intros list.simps(9) neq_Nil_conv)

lemma delivers_Cons: "b \<noteq> [] \<Longrightarrow> delivers receives bytes \<Longrightarrow> delivers (Recv_data b # receives) (b @ bytes)"
  unfolding delivers_def
proof (elim exE conjE)
  fix chunks
  assume "b \<noteq> []" "receives = map Recv_data chunks" "[] \<notin> set chunks" "concat chunks = bytes"
  then show "\<exists>chunks. Recv_data b # receives = map Recv_data chunks \<and> [] \<notin> set chunks \<and> concat chunks = b @ bytes"
    by (intro exI [of _ "b # chunks"]) auto
qed

lemma accepted_receive_stream:
  "ac_stream a (bs @ later) \<Longrightarrow> \<exists>a'. accepted_receive (length bs) a = (Some bs, a') \<and> ac_stream a' later"
proof (induction "length bs" arbitrary: bs a rule: less_induct)
  case less
  show ?case
  proof (cases "bs = []")
    case True
    then show ?thesis using less.prems by (subst accepted_receive.simps) auto
  next
    case False
    obtain b receives' bytes' where stream: "ac_receives a = Recv_data b # receives'" "b \<noteq> []"
      "bs @ later = b @ bytes'" "delivers receives' bytes'" and waits: "ac_waits a = []"
      using less.prems False by (auto simp: ac_stream_def elim: delivers_cases)
    let ?next = "\<lambda>part receives. a\<lparr>ac_receives := receives, ac_waits := [],
        ac_wire_size := ac_wire_size a + of_nat (length part)\<rparr>"
    show ?thesis
    proof (cases "length b \<le> length bs")
      case True
      then obtain bs' where bs: "bs = b @ bs'" "bytes' = bs' @ later"
        using stream(3) by (metis append_eq_append_conv_if append_eq_conv_conj)
      obtain a' where a': "accepted_receive (length bs') (?next b receives') = (Some bs', a')" "ac_stream a' later"
        using less.hyps [of bs' "?next b receives'"] stream(2,4) by (auto simp: bs ac_stream_def)
      have "accepted_receive (length bs) a = (Some bs, a')"
        using a' stream(1,2) waits
        by (subst accepted_receive.simps) (simp add: Let_def bs)
      then show ?thesis using a'(2) by blast
    next
      case short: False
      define rear where "rear = drop (length bs) b"
      have "bs = take (length bs) b" "later = rear @ bytes'"
        using stream(3) short by (simp_all add: rear_def append_eq_append_conv_if)
      moreover have "rear \<noteq> []" using short by (simp add: rear_def)
      ultimately have b: "b = bs @ rear" "rear \<noteq> []" "later = rear @ bytes'"
        using append_take_drop_id [of "length bs" b] by (simp_all add: rear_def)
      have "accepted_receive (length bs) a = (Some bs, ?next bs (Recv_data rear # receives'))"
        using stream(1,2) waits False b(2)
        by (subst accepted_receive.simps) (simp add: Let_def b accepted_receive.simps [of 0])
      moreover have "ac_stream (?next bs (Recv_data rear # receives')) later"
        using delivers_Cons [OF b(2) stream(4)] by (simp add: ac_stream_def b(3))
      ultimately show ?thesis by blast
    qed
  qed
qed

lemma accepted_varint_stream:
  "ac_stream a (leb_bytes e @ later) \<Longrightarrow> leb_size e \<le> n \<Longrightarrow> n \<le> 5 \<Longrightarrow>
     (leb_size e = n \<longrightarrow> last (leb_bytes e) AND 0xf0 = 0) \<Longrightarrow>
     \<exists>a'. accepted_varint_loop n acc a = (Some (ucast (acc OR push_bit ((5 - n) * 7) e)), a') \<and> ac_stream a' later"
proof (induction e arbitrary: n acc a rule: leb_bytes.induct)
  case (1 e)
  obtain m where n: "n = Suc m" using "1.prems"(2) leb_size_pos [of e] by (cases n) auto
  have index: "5 - n = 4 - m" "(4 - m) * 7 + 7 = (5 - m) * 7" using n "1.prems"(3) by auto
  show ?case
  proof (cases "drop_bit 7 e = 0")
    case True
    define byte where "byte = (ucast (e AND 0x7f) :: u8)"
    have byte: "byte AND 0x80 = 0" "ucast (byte AND 0x7f) = e" "leb_bytes e = [byte]"
      using leb_byte_bits(1,4) [of e] leb_low [of e]
      by (simp_all only: byte_def leb_low_all [OF True] leb_bytes_last [OF True])
    obtain a' where a': "accepted_receive 1 a = (Some [byte], a')" "ac_stream a' later"
      using accepted_receive_stream [of a "[byte]" later] "1.prems"(1) by (auto simp: byte)
    have "\<not> (4 - m = 4 \<and> byte AND 0xf0 \<noteq> 0)" using "1.prems" n by (auto simp: byte leb_size_last [OF True])
    then have "accepted_varint_loop n acc a = (Some (ucast (acc OR push_bit ((4 - m) * 7) e)), a')"
      using a'(1) byte(1,2) by (simp add: n Let_def)
    then show ?thesis using a'(2) index by auto
  next
    case False
    define byte where "byte = (ucast (e AND 0x7f) :: u8) OR 0x80"
    have byte: "byte AND 0x80 \<noteq> 0" "ucast (byte AND 0x7f) = e AND 0x7f" "leb_bytes e = byte # leb_bytes (drop_bit 7 e)"
      using leb_byte_bits(2,3) [of e] leb_low [of e]
      by (simp_all only: byte_def leb_bytes_more [OF False] not_False_eq_True)
    have size: "leb_size e = Suc (leb_size (drop_bit 7 e))" by (rule leb_size_more [OF False])
    obtain a' where a': "accepted_receive 1 a = (Some [byte], a')" "ac_stream a' (leb_bytes (drop_bit 7 e) @ later)"
      using accepted_receive_stream [of a "[byte]" "leb_bytes (drop_bit 7 e) @ later"] "1.prems"(1) by (auto simp: byte)
    have tail: "last (leb_bytes e) = last (leb_bytes (drop_bit 7 e))"
      using leb_size_pos [of "drop_bit 7 e"] by (auto simp: byte length_leb_bytes [symmetric])
    have "\<exists>a''. accepted_varint_loop m (acc OR push_bit ((5 - n) * 7) (e AND 0x7f)) a'
        = (Some (ucast ((acc OR push_bit ((5 - n) * 7) (e AND 0x7f)) OR push_bit ((5 - m) * 7) (drop_bit 7 e))), a'')
        \<and> ac_stream a'' later"
      using "1.prems" by (intro "1.IH" [OF False a'(2)]) (auto simp: n size tail)
    moreover have "((acc OR push_bit ((5 - n) * 7) (e AND 0x7f)) OR push_bit ((5 - m) * 7) (drop_bit 7 e))
        = acc OR push_bit ((5 - n) * 7) e"
      using varint_value_step [of acc "5 - n" e] index n by (simp add: add.commute)
    ultimately show ?thesis using a'(1) byte(1,2) index(1) by (simp add: n Let_def)
  qed
qed

lemma accepted_frame_stream:
  assumes "ac_stream a (varint_bytes (of_nat (length frame)) @ frame @ later)" and "frame \<noteq> []" "length frame \<le> 512"
  shows "\<exists>a'. accepted_frame a = (Some frame, a') \<and> ac_stream a' later"
proof -
  define v where "v = (of_nat (length frame) :: i32)"
  have v: "unat v = length frame" "sint v = int (length frame)"
    using assms(3) by (simp_all add: v_def unat_of_nat sint_uint signed_take_bit_int_eq_self uint_nat)
  have "last (leb_bytes v) AND 0xf0 = 0" if "leb_size v = 5"
    by (rule bit_word_eqI) (auto simp: last_leb_bytes that bit_simps dest: bit_imp_le_length)
  then obtain a' where a': "accepted_varint a = (Some v, a')" "ac_stream a' (frame @ later)"
    using accepted_varint_stream [of a v "frame @ later" 5 0] assms(1) leb_size_u32 [of v]
    by (auto simp: accepted_varint_def v_def varint_bytes_def)
  from accepted_receive_stream [OF a'(2)] obtain a'' where
    "accepted_receive (length frame) a' = (Some frame, a'')" "ac_stream a'' later" by blast
  then show ?thesis using a'(1) v assms(2,3) by (auto simp: accepted_frame_def)
qed

subsection \<open>The body of the handshake\<close>

definition handshake_bytes :: "i32 \<Rightarrow> u8 list \<Rightarrow> u16 \<Rightarrow> i32 \<Rightarrow> u8 list" where
  "handshake_bytes protocol host port next_state =
     varint_bytes protocol @ string_bytes host @ be_bytes 2 port @ varint_bytes next_state"

lemma fold_contract:
  "list_all2 pk_contract ws bss \<Longrightarrow> pk_ok p \<Longrightarrow> \<not> pk_failed p \<Longrightarrow> length (concat bss) \<le> pk_room p \<Longrightarrow>
     fold (\<lambda>w p. snd (w p)) ws p = pk_append (concat bss) p"
proof (induction ws bss arbitrary: p rule: list_all2_induct)
  case (Cons w ws bs bss)
  have fits: "length bs \<le> pk_room p" using Cons.prems by simp
  have "w p = (True, pk_append bs p)" using Cons.prems fits by (intro pk_contract_fits [OF Cons.hyps(1)])
  moreover have "fold (\<lambda>w p. snd (w p)) ws (pk_append bs p) = pk_append (concat bss) (pk_append bs p)"
    using Cons.prems by (intro Cons.IH) (auto intro: pk_ok_append [OF _ fits])
  ultimately show ?case by simp
qed simp

lemma pk_body_contract:
  assumes "list_all2 pk_contract ws bss" and "length (concat bss) \<le> capacity"
  shows "pk_body capacity ws = \<lparr>pk_buf = concat bss, pk_capacity = capacity, pk_failed = False\<rparr>"
  unfolding pk_body_def
  by (subst fold_contract [OF assms(1)]) (use assms(2) in \<open>simp_all add: pk_ok_def pk_room_def pk_append_def\<close>)

lemma handshake_written:
  assumes "length host < 256"
  shows "pk_body 512 [mc_packet_varint protocol, mc_packet_string (Some host), mc_packet_u16 port, mc_packet_varint next_state]
    = \<lparr>pk_buf = handshake_bytes protocol host port next_state, pk_capacity = 512, pk_failed = False\<rparr>"
proof -
  have string: "pk_contract (mc_packet_string (Some host)) (string_bytes host)"
    using assms by (simp add: mc_packet_string_def pk_contract_string_n INT32_MAX_def)
  have size: "length (handshake_bytes protocol host port next_state) \<le> 512"
    using varint_bytes_length(2) [of protocol] varint_bytes_length(2) [of next_state]
      varint_bytes_length(2) [of "of_nat (length host)"] assms
    by (simp add: handshake_bytes_def string_bytes_def)
  show ?thesis
    using pk_body_contract [of _ "[varint_bytes protocol, string_bytes host, be_bytes 2 port, varint_bytes next_state]"]
      string size
    by (simp add: handshake_bytes_def pk_contract_varint pk_contract_u16)
qed

lemma handshake_parsed:
  assumes "host \<noteq> []" "length host < MC_HANDSHAKE_HOST_SIZE" "next_state = 1 \<or> next_state = 2"
  shows "parse_handshake (0 # handshake_bytes protocol host port next_state) =
    Some \<lparr>hs_protocol = sint protocol, hs_host = host, hs_port = port,
      hs_next_state = (if next_state = 1 then MC_STATE_STATUS else MC_STATE_LOGIN)\<rparr>"
proof -
  have string: "length host \<le> MC_DEFAULT_MAX_STRING_BYTES"
    using assms(2) by (simp add: MC_HANDSHAKE_HOST_SIZE_def MC_DEFAULT_MAX_STRING_BYTES_def)
  have body: "rd_parses handshake_body
      (varint_bytes 0 @ varint_bytes protocol @ string_bytes host @ be_bytes 2 port @ varint_bytes next_state @ [])
      (protocol, host, port, next_state)"
    unfolding handshake_body_def
    by (intro parses_bind [OF parses_such [OF parses_varint]] parses_bind [OF parses_varint]
        parses_bind [OF parses_such [OF parses_string [OF string]]] parses_bind [OF parses_u16]
        parses_return) (use assms in auto)
  have zero: "varint_bytes 0 = [0]" by (simp add: varint_bytes_def leb_bytes_last)
  let ?r = "mc_reader_init (Buf (0 # handshake_bytes protocol host port next_state))"
  have "handshake_body ?r = (Some (protocol, host, port, next_state),
      rd_advance (length (0 # handshake_bytes protocol host port next_state)) ?r)"
    using rd_parsesD [OF body, of ?r "[]"]
    by (simp add: zero handshake_bytes_def mc_reader_init_def mc_reader_init_mode_fields valid_mode_def)
  then show ?thesis
    by (simp add: parse_handshake_def mc_reader_remaining_def mc_reader_init_def mc_reader_init_mode_fields valid_mode_def)
qed

subsection \<open>Both ends\<close>

lemma send_loop_all: "send_loop wire sends = (True, sent, sends') \<Longrightarrow> sent = wire"
  by (induction wire sends arbitrary: sent rule: send_loop.induct)
     (auto simp: Let_def split: if_splits mc_send.splits prod.splits, metis append_take_drop_id)

lemma send_frame_wire:
  assumes "send_frame env packet_id payload c = (Some (), c')" and "cl_transforms c = None"
  shows "\<exists>wire. encode_frame (ce_frame env) (cl_compression_threshold c) packet_id (Buf payload) = Some wire
    \<and> cl_wire c' = cl_wire c @ wire"
  using assms by (auto simp: send_frame_def send_all_def socket_send_def split: option.splits if_splits prod.splits
      dest: send_loop_all)

definition effective_port :: "u16 \<Rightarrow> u16" where
  "effective_port port = (if port = 0 then MC_DEFAULT_PORT else port)"

definition state_code :: "mc_state \<Rightarrow> i32" where
  "state_code next_state = (if next_state = MC_STATE_STATUS then 1 else 2)"

lemma open_written:
  assumes obs: "observing env" and run: "mc_client_open env (Some host) port next_state c = (Some (), c')"
    and host: "length host < 256"
  shows "\<exists>wire. encode_frame (ce_frame env) (-1) 0 (Buf (handshake_bytes (word_of_int (pf_protocol (cl_profile c)))
        host (effective_port port) (state_code next_state))) = Some wire
    \<and> cl_wire c' = cl_wire c @ wire \<and> host \<noteq> [] \<and> (next_state = MC_STATE_LOGIN \<or> next_state = MC_STATE_STATUS)"
proof -
  obtain fd where fd: "ce_connect env host (effective_port port) = Some fd" "\<not> fd < 0"
    and host': "host \<noteq> []" "next_state = MC_STATE_LOGIN \<or> next_state = MC_STATE_STATUS"
    and closed: "\<not> cl_socket_fd c \<ge> 0"
    using run by (auto simp: mc_client_open_def act_guard_def act_bind_def act_do_def act_fail_def Let_def
        effective_port_def split: if_splits option.splits)
  let ?c = "c\<lparr>cl_stop := False, cl_stream_decoder := mc_stream_decoder_reset (cl_stream_decoder c),
      cl_compression_threshold := -1, cl_player_loaded_sent := False, cl_transforms := None,
      cl_server_side := False, cl_socket_fd := fd\<rparr>"
  obtain c2 where sent: "send_frame env 0 (handshake_bytes (word_of_int (pf_protocol (cl_profile c))) host
        (effective_port port) (state_code next_state)) ?c = (Some (), c2)"
    and c': "c' = change_state env next_state c2"
    using run fd host' closed handshake_written [OF host]
    by (auto simp: mc_client_open_def act_guard_def act_bind_def act_do_def act_fail_def Let_def act_or_fail_def
        act_with_def send_builder_def effective_port_def state_code_def split: if_splits option.splits prod.splits)
  from send_frame_wire [OF sent] obtain wire where wire: "encode_frame (ce_frame env) (-1) 0
      (Buf (handshake_bytes (word_of_int (pf_protocol (cl_profile c))) host (effective_port port)
        (state_code next_state))) = Some wire" "cl_wire c2 = cl_wire c @ wire" by auto
  moreover have "cl_wire c' = cl_wire c2" using change_state_observing [OF obs, of next_state c2] c' by auto
  ultimately show ?thesis using host' by auto
qed

lemma encode_plain:
  assumes "encode_frame env (-1) 0 (Buf payload) = Some wire"
  shows "wire = varint_bytes (of_nat (length (0 # payload))) @ 0 # payload"
  using assms encode_varint_zero
  by (auto simp: encode_frame_def Let_def encode_varint_bytes split: if_splits)

lemma handshake_length:
  "length host < 256 \<Longrightarrow> length (0 # handshake_bytes protocol host port next_state) \<le> 512"
  using varint_bytes_length(2) [of protocol] varint_bytes_length(2) [of next_state]
    varint_bytes_length(2) [of "of_nat (length host)"]
  by (simp add: handshake_bytes_def string_bytes_def)

lemma supported_sint: "mc_protocol_supported protocol \<Longrightarrow> sint (word_of_int protocol :: i32) = protocol"
  by (auto simp: supported_iff protocol_ids_def)

lemma config_init_ok: "\<not> stream_config_invalid mc_stream_decoder_config_init"
  by (simp add: stream_config_invalid_def mc_stream_decoder_config_init_def INT32_MAX_def SIZE_MAX_def MC_MAX_PACKET_def)

lemma server_accepts:
  assumes obs: "observing env" and supported: "mc_protocol_supported protocol"
    and host: "host \<noteq> []" "length host < MC_HANDSHAKE_HOST_SIZE"
    and state: "next_state = MC_STATE_LOGIN \<or> next_state = MC_STATE_STATUS"
    and fd: "0 \<le> accept_fd" "ce_backend_init env accept_fd"
    and receives: "delivers receives (varint_bytes (of_nat (length frame)) @ frame @ later)"
    and frame: "frame = 0 # handshake_bytes (word_of_int protocol) host port (state_code next_state)"
  shows "\<exists>server. mc_server_accept env Wait_ready accept_fd True True u receives [] =
      Some (Some (server, \<lparr>hs_protocol = protocol, hs_host = host, hs_port = port, hs_next_state = next_state\<rparr>))
    \<and> cl_state server = next_state \<and> cl_socket_fd server = accept_fd \<and> delivers (cl_receives server) later"
proof -
  let ?a = "\<lparr>ac_receives = receives, ac_waits = [], ac_wire_size = 0\<rparr>"
  have "ac_stream ?a (varint_bytes (of_nat (length frame)) @ frame @ later)"
    using receives by (simp add: ac_stream_def)
  then obtain a' where a': "accepted_frame ?a = (Some frame, a')" "ac_stream a' later"
    using accepted_frame_stream handshake_length [of host] host(2) frame
    by (metis MC_HANDSHAKE_HOST_SIZE_def list.distinct(1))
  have parsed: "parse_handshake frame = Some \<lparr>hs_protocol = protocol, hs_host = host, hs_port = port, hs_next_state = next_state\<rparr>"
    using handshake_parsed [OF host, of "state_code next_state" "word_of_int protocol" port] state supported_sint [OF supported]
    by (auto simp: frame state_code_def)
  obtain client where client: "mc_client_create True True protocol u = Some client"
    using supported
    by (auto simp: mc_client_create_def mc_protocol_supported_def mc_stream_decoder_create_def Let_def config_init_ok
        split: option.splits)
  let ?c = "client\<lparr>cl_server_side := True, cl_automatic_replies := 0, cl_received_bytes := ac_wire_size a',
      cl_socket_fd := accept_fd, cl_receives := ac_receives a', cl_waits := ac_waits a'\<rparr>"
  have "mc_server_accept env Wait_ready accept_fd True True u receives [] =
      Some (Some (change_state env next_state ?c,
        \<lparr>hs_protocol = protocol, hs_host = host, hs_port = port, hs_next_state = next_state\<rparr>))"
    using fd by (simp add: mc_server_accept_def a' parsed client)
  then show ?thesis
    using change_state_observing [OF obs, of next_state ?c] a'(2) by (auto simp: ac_stream_def)
qed

end
