(* ===== verification/Client_Frames.thy ===== *)
theory Client_Frames
  imports Handshake Stream_Progress
begin

text \<open>
  The client's frames: \<open>client_read_frame\<close> on a working socket is the \<open>read_frame\<close> of \<open>Framing\<close>, so
  that everything a peer sends is read; and a batch writes what its packets write one by one.
\<close>

subsection \<open>Reading\<close>

text \<open>A socket that delivers chunks of at most a receive's size, between interrupted calls.\<close>

definition plain_receives :: "mc_recv list \<Rightarrow> bool" where
  "plain_receives receives \<longleftrightarrow> (\<forall>event \<in> set receives.
     (case event of Recv_data bytes \<Rightarrow> bytes \<noteq> [] \<and> length bytes \<le> 8192 | Recv_interrupted \<Rightarrow> True | _ \<Rightarrow> False))"

definition socket_chunks :: "mc_recv list \<Rightarrow> u8 list list" where
  "socket_chunks receives = concat (map (\<lambda>event. case event of Recv_data bytes \<Rightarrow> [bytes] | _ \<Rightarrow> []) receives)"

lemma socket_chunks_simps [simp]:
  "socket_chunks [] = []" "socket_chunks (Recv_data bytes # receives) = bytes # socket_chunks receives"
  "socket_chunks (Recv_interrupted # receives) = socket_chunks receives"
  by (simp_all add: socket_chunks_def)

lemma plain_receives_simps [simp]:
  "plain_receives []"
  "plain_receives (Recv_data bytes # receives) \<longleftrightarrow> bytes \<noteq> [] \<and> length bytes \<le> 8192 \<and> plain_receives receives"
  "plain_receives (Recv_interrupted # receives) = plain_receives receives"
  "\<not> plain_receives (Recv_blocked # receives)" "\<not> plain_receives (Recv_failed # receives)"
  by (simp_all add: plain_receives_def)

lemma plain_receive_loop:
  assumes "plain_receives receives"
  shows "\<exists>receives'. plain_receives receives' \<and> receive_loop 8192 receives waits =
    (case socket_chunks receives of [] \<Rightarrow> None | bytes # _ \<Rightarrow> Some bytes, receives', waits)
    \<and> socket_chunks receives' = tl (socket_chunks receives)"
  using assms
proof (induction receives)
  case (Cons event receives)
  then show ?case by (cases event) auto
qed simp

text \<open>What a client needs for its receives to be plain ones.\<close>

definition plain_client :: "'u mc_client \<Rightarrow> bool" where
  "plain_client c \<longleftrightarrow> 0 \<le> cl_socket_fd c \<and> cl_transforms c = None \<and> plain_receives (cl_receives c)"

lemma plain_receive:
  assumes "plain_client c"
  shows "\<exists>c'. receive_some 8192 c = (case socket_chunks (cl_receives c) of [] \<Rightarrow> None | bytes # _ \<Rightarrow> Some bytes, c')
    \<and> socket_chunks (cl_receives c') = tl (socket_chunks (cl_receives c)) \<and> plain_client c'
    \<and> cl_stream_decoder c' = cl_stream_decoder c"
proof -
  obtain receives where loop: "plain_receives receives" "receive_loop 8192 (cl_receives c) (cl_waits c) =
      (case socket_chunks (cl_receives c) of [] \<Rightarrow> None | bytes # _ \<Rightarrow> Some bytes, receives, cl_waits c)"
    "socket_chunks receives = tl (socket_chunks (cl_receives c))"
    using plain_receive_loop [of "cl_receives c" "cl_waits c"] assms by (auto simp: plain_client_def)
  show ?thesis
    using loop assms by (cases "socket_chunks (cl_receives c)") (auto simp: receive_some_def plain_client_def Let_def)
qed

lemma feed_client_decoder:
  "feed_client env data c = (ok, frames, c') \<longleftrightarrow>
     (\<exists>d. mc_stream_decoder_feed (ce_stream env) (cl_stream_decoder c) data 1 = (ok, d, frames)
        \<and> c' = c\<lparr>cl_stream_decoder := d\<rparr>)"
  by (auto simp: feed_client_def split: prod.splits)

text \<open>A feed of capacity one returned no frame: the third branch of the source's test.\<close>

definition several :: "mc_decoded_frame list \<Rightarrow> bool" where
  "several frames \<longleftrightarrow> (\<nexists>f. frames = [f])"

lemma several_case:
  assumes "several frames"
  shows "(case (True, frames, x) of (False, fs, y) \<Rightarrow> A y | (True, [f], y) \<Rightarrow> B f y | (True, _, y) \<Rightarrow> C y) = C x"
    "(case (True, x, frames) of (False, y, fs) \<Rightarrow> A y | (True, y, [f]) \<Rightarrow> B f y | (True, y, _) \<Rightarrow> C y) = C x"
  using assms by (cases frames; cases "tl frames"; auto simp: several_def)+

lemma several_list:
  "several frames \<Longrightarrow> (case frames of [] \<Rightarrow> c | f # fs \<Rightarrow> (case fs of [] \<Rightarrow> B f | _ # _ \<Rightarrow> c)) = c"
  by (cases frames; cases "tl frames") (auto simp: several_def)

lemma client_reads:
  assumes "plain_client c" and "client_read_frame env c = (r, c')"
  shows "read_frame (ce_frame env) (ce_stream env) (cl_stream_decoder c) (socket_chunks (cl_receives c))
      = (r, cl_stream_decoder c', socket_chunks (cl_receives c')) \<and> plain_client c'"
  using assms
proof (induction "recv_load (cl_receives c)" arbitrary: c rule: less_induct)
  case less
  obtain ok d1 frames where feed1:
    "mc_stream_decoder_feed (ce_stream env) (cl_stream_decoder c) (NullBuf 0) 1 = (ok, d1, frames)"
    by (cases "mc_stream_decoder_feed (ce_stream env) (cl_stream_decoder c) (NullBuf 0) 1")
  let ?c1 = "c\<lparr>cl_stream_decoder := d1\<rparr>"
  have fc1: "feed_client env (NullBuf 0) c = (ok, frames, ?c1)" using feed1 by (simp add: feed_client_decoder)
  have plain1: "plain_client ?c1" using less.prems(1) by (simp add: plain_client_def)
  obtain c2 where receive: "receive_some 8192 ?c1 =
      (case socket_chunks (cl_receives c) of [] \<Rightarrow> None | bytes # _ \<Rightarrow> Some bytes, c2)"
    and c2: "socket_chunks (cl_receives c2) = tl (socket_chunks (cl_receives c))" "plain_client c2"
      "cl_stream_decoder c2 = d1"
    using plain_receive [OF plain1] by auto
  note run = less.prems(2) [unfolded client_read_frame.simps [of env c] fc1]
  note spec = read_frame.simps [of "ce_frame env" "ce_stream env" "cl_stream_decoder c" "socket_chunks (cl_receives c)",
      unfolded feed1]
  consider (failed) "\<not> ok" | (one) f where "ok" "frames = [f]" | (again) "ok" "several frames" by (auto simp: several_def)
  then show ?case
  proof cases
    case failed
    then show ?thesis using run spec plain1 by auto
  next
    case one
    then show ?thesis using run spec plain1 by (auto simp: copy_frame_def)
  next
    case again
    note run = run [unfolded eqTrueI [OF again(1)] several_case [OF again(2)] receive]
      and spec = spec [unfolded eqTrueI [OF again(1)] several_case [OF again(2)]]
    show ?thesis
    proof (cases "socket_chunks (cl_receives c)")
      case Nil
      then show ?thesis using run spec c2 by auto
    next
      case (Cons chunk chunks)
      obtain ok' d3 frames' where feed2:
        "mc_stream_decoder_feed (ce_stream env) d1 (Buf chunk) 1 = (ok', d3, frames')"
        by (cases "mc_stream_decoder_feed (ce_stream env) d1 (Buf chunk) 1")
      let ?c3 = "c2\<lparr>cl_stream_decoder := d3\<rparr>"
      have fc2: "feed_client env (Buf chunk) c2 = (ok', frames', ?c3)" using feed2 c2(3) by (simp add: feed_client_decoder)
      have plain3: "plain_client ?c3" using c2(2) by (simp add: plain_client_def)
      have chunks3: "socket_chunks (cl_receives ?c3) = chunks" using c2(1) Cons by simp
      note run = run [unfolded Cons list.case prod.case option.case fc2]
        and spec = spec [unfolded Cons list.case prod.case option.case feed2]
      consider (failed) "\<not> ok'" | (one) f where "ok'" "frames' = [f]" | (again) "ok'" "several frames'"
        by (auto simp: several_def)
      then show ?thesis
      proof cases
        case failed
        then show ?thesis using run spec plain3 chunks3 Cons by auto
      next
        case one
        then show ?thesis using run spec plain3 chunks3 Cons by (auto simp: copy_frame_def)
      next
        case again2: again
        have "recv_load (cl_receives ?c3) < recv_load (cl_receives c)"
          using receive_some_load [of 8192 ?c1 chunk c2] receive Cons by simp
        from less.hyps [OF this plain3] run spec chunks3 Cons again2 show ?thesis
          by (simp add: several_list)
      qed
    qed
  qed
qed

text \<open>The calls of a receive loop on the client, while they return a packet.\<close>

fun client_packets :: "'u client_env \<Rightarrow> nat \<Rightarrow> 'u mc_client \<Rightarrow> u8 list list option" where
  "client_packets env 0 c = Some []"
| "client_packets env (Suc n) c =
     (case client_read_frame env c of
        (Some data, c') \<Rightarrow> map_option (Cons data) (client_packets env n c')
      | (None, c') \<Rightarrow> None)"

lemma client_packets_read:
  "plain_client c \<Longrightarrow> client_packets env n c =
     read_packets (ce_frame env) (ce_stream env) (cl_stream_decoder c) (socket_chunks (cl_receives c)) n"
proof (induction n arbitrary: c)
  case (Suc n)
  obtain r c' where run: "client_read_frame env c = (r, c')" by (cases "client_read_frame env c")
  then show ?case
    using client_reads [OF Suc.prems run] Suc.IH
    by (cases r) (simp_all only: client_packets.simps read_packets.simps prod.case option.case)
qed (simp only: client_packets.simps read_packets.simps)

lemma chunk_sizes: "plain_receives receives \<Longrightarrow> \<forall>chunk \<in> set (socket_chunks receives). length chunk \<le> 8192"
proof (induction receives)
  case (Cons event receives)
  then show ?case by (cases event) auto
qed simp

subsection \<open>Batches\<close>

lemma batch_loop_frames:
  "batch_loop env threshold packets batch capacity = Some wire \<Longrightarrow>
     \<exists>frames. list_all2 (\<lambda>packet frame. encode_frame (ce_frame env) threshold (op_packet_id packet) (op_payload packet)
        = Some frame) packets frames \<and> wire = batch @ concat frames"
proof (induction packets arbitrary: batch capacity)
  case (Cons packet packets)
  obtain frame capacity' where frame: "encode_frame (ce_frame env) threshold (op_packet_id packet) (op_payload packet) = Some frame"
    and rest: "batch_loop env threshold packets (batch @ frame) capacity' = Some wire"
    using Cons.prems by (auto simp: Let_def split: option.splits if_splits)
  from Cons.IH [OF rest] obtain frames where "list_all2 (\<lambda>packet frame.
      encode_frame (ce_frame env) threshold (op_packet_id packet) (op_payload packet) = Some frame) packets frames"
    "wire = (batch @ frame) @ concat frames" by blast
  with frame show ?case by (intro exI [of _ "frame # frames"]) simp
qed simp

lemma batch_loop_refused:
  "\<exists>packet \<in> set packets. encode_frame (ce_frame env) threshold (op_packet_id packet) (op_payload packet) = None \<Longrightarrow>
     batch_loop env threshold packets batch capacity = None"
  by (induction packets arbitrary: batch capacity) (auto simp: Let_def split: option.split)

definition batch_frames :: "'u client_env \<Rightarrow> 'u mc_client \<Rightarrow> mc_outbound_packet list \<Rightarrow> u8 list list \<Rightarrow> bool" where
  "batch_frames env c = list_all2 (\<lambda>packet frame.
     encode_frame (ce_frame env) (cl_compression_threshold c) (op_packet_id packet) (op_payload packet) = Some frame)"

lemma batch_sent:
  assumes "mc_client_send_batch env packets c = (r, c')" and "cl_transforms c = None"
  shows "r = Some () \<longrightarrow> (\<exists>frames. batch_frames env c (array_elements packets) frames \<and> cl_wire c' = cl_wire c @ concat frames)"
    and "(\<exists>packet \<in> set (array_elements packets). encode_frame (ce_frame env) (cl_compression_threshold c)
        (op_packet_id packet) (op_payload packet) = None) \<longrightarrow> r = None \<and> c' = c"
proof -
  show "r = Some () \<longrightarrow> (\<exists>frames. batch_frames env c (array_elements packets) frames \<and> cl_wire c' = cl_wire c @ concat frames)"
  proof
    assume "r = Some ()"
    then obtain batch where batch: "batch_loop env (cl_compression_threshold c) (array_elements packets) [] 0 = Some batch"
      and wire: "cl_wire c' = cl_wire c @ batch"
      using assms
      by (auto simp: mc_client_send_batch_def act_guard_def act_with_def act_fail_def act_return_def send_all_def
          socket_send_def split: if_splits option.splits prod.splits dest: send_loop_all)
    from batch_loop_frames [OF batch] show
      "\<exists>frames. batch_frames env c (array_elements packets) frames \<and> cl_wire c' = cl_wire c @ concat frames"
      by (auto simp: batch_frames_def wire)
  qed
  show "(\<exists>packet \<in> set (array_elements packets). encode_frame (ce_frame env) (cl_compression_threshold c)
        (op_packet_id packet) (op_payload packet) = None) \<longrightarrow> r = None \<and> c' = c"
  proof
    assume refused: "\<exists>packet \<in> set (array_elements packets). encode_frame (ce_frame env) (cl_compression_threshold c)
        (op_packet_id packet) (op_payload packet) = None"
    show "r = None \<and> c' = c"
      using assms(1) batch_loop_refused [OF refused]
      by (auto simp: mc_client_send_batch_def act_guard_def act_with_def act_fail_def split: if_splits)
  qed
qed

end
