(* ===== verification/Maintenance.thy ===== *)
theory Maintenance
  imports Client_Frames
begin

text \<open>
  The packet identifiers that login, configuration and play write as numbers, against the packet
  catalogs of every release; and the position an old release is answered with.
\<close>

lemmas catalog_rows = packet_catalogs_def list.pred_inject mc_packet_catalog.simps

definition play_ids :: "mc_packet_catalog \<Rightarrow> bool" where
  "play_ids c \<longleftrightarrow>
     table_entry (cat_play_serverbound c) (movement_packet (cat_protocol c)) ''position_look''
     \<and> (player_loaded_packet (cat_protocol c) \<noteq> -1 \<longrightarrow>
          table_entry (cat_play_serverbound c) (player_loaded_packet (cat_protocol c)) ''player_loaded'')"

definition batch_ids :: "mc_packet_catalog \<Rightarrow> bool" where
  "batch_ids c \<longleftrightarrow>
     (batch_response_packet (cat_protocol c) \<noteq> -1 \<longleftrightarrow> batch_finished_packet (cat_protocol c) \<noteq> -1)
     \<and> (batch_response_packet (cat_protocol c) \<noteq> -1 \<longrightarrow>
          table_entry (cat_play_serverbound c) (batch_response_packet (cat_protocol c)) ''chunk_batch_received''
          \<and> table_entry (cat_play_clientbound c) (batch_finished_packet (cat_protocol c)) ''chunk_batch_finished'')"

definition login_ids :: "mc_packet_catalog \<Rightarrow> bool" where
  "login_ids c \<longleftrightarrow>
     table_entry (cat_login_serverbound c) 0 ''login_start''
     \<and> table_entry (cat_login_clientbound c) 0 ''disconnect''
     \<and> table_entry (cat_login_clientbound c) 1 ''encryption_begin''
     \<and> table_entry (cat_login_clientbound c) 2 ''success''
     \<and> (47 \<le> cat_protocol c \<longrightarrow> table_entry (cat_login_clientbound c) 3 ''compress'')"

definition configuration_ids :: "mc_packet_catalog \<Rightarrow> bool" where
  "configuration_ids c \<longleftrightarrow> (764 \<le> cat_protocol c \<longrightarrow>
     table_entry (cat_login_serverbound c) 3 ''login_acknowledged''
     \<and> table_entry (cat_configuration_serverbound c) 0 ''settings''
     \<and> table_entry (cat_configuration_serverbound c) (if cat_protocol c \<ge> 766 then 3 else 2) ''finish_configuration''
     \<and> table_entry (cat_configuration_clientbound c) (if cat_protocol c \<ge> 766 then 3 else 2) ''finish_configuration'')"

definition pack_ids :: "mc_packet_catalog \<Rightarrow> bool" where
  "pack_ids c \<longleftrightarrow>
     (766 \<le> cat_protocol c \<longrightarrow> table_entry (cat_configuration_serverbound c) 7 ''select_known_packs'')
     \<and> (765 \<le> cat_protocol c \<longrightarrow>
          table_entry (cat_configuration_serverbound c) (if cat_protocol c = 765 then 5 else 6) ''resource_pack_receive'')"

lemmas catalog_ids = play_ids_def batch_ids_def login_ids_def configuration_ids_def pack_ids_def

lemmas packet_numbers = movement_packet_def player_loaded_packet_def batch_response_packet_def batch_finished_packet_def

lemma catalogs_play: "list_all play_ids packet_catalogs"
  by (simp only: catalog_rows catalog_ids table_entry_def) (simp add: packet_numbers packet_table_defs)

lemma catalogs_batch: "list_all batch_ids packet_catalogs"
  by (simp only: catalog_rows catalog_ids table_entry_def) (simp add: packet_numbers packet_table_defs)

lemma catalogs_login: "list_all login_ids packet_catalogs"
  by (simp only: catalog_rows catalog_ids table_entry_def) (simp add: packet_numbers packet_table_defs)

lemma catalogs_configuration: "list_all configuration_ids packet_catalogs"
  by (simp only: catalog_rows catalog_ids table_entry_def) (simp add: packet_numbers packet_table_defs)

lemma catalogs_pack: "list_all pack_ids packet_catalogs"
  by (simp only: catalog_rows catalog_ids table_entry_def) (simp add: packet_numbers packet_table_defs)

text \<open>From the tables to \<open>mc_packet_name\<close>.\<close>

lemma supported_catalog:
  assumes "mc_protocol_supported protocol"
  obtains c where "find_packet_catalog protocol = Some c" "cat_protocol c = protocol" "c \<in> set packet_catalogs"
proof -
  obtain c where c: "find_packet_catalog protocol = Some c"
    using assms find_packet_catalog_iff [of protocol] by auto
  then have "cat_protocol c = protocol" by (auto simp: find_packet_catalog_def find_Some_iff)
  then show thesis using that c find_packet_catalog_mem [OF c] by blast
qed

lemma catalog_maps:
  assumes "find_packet_catalog protocol = Some c"
  shows "packet_map (find_packet_catalog protocol) MC_STATE_PLAY MC_PACKET_CLIENTBOUND = Some (cat_play_clientbound c)"
    "packet_map (find_packet_catalog protocol) MC_STATE_PLAY MC_PACKET_SERVERBOUND = Some (cat_play_serverbound c)"
    "packet_map (find_packet_catalog protocol) MC_STATE_LOGIN MC_PACKET_CLIENTBOUND = Some (cat_login_clientbound c)"
    "packet_map (find_packet_catalog protocol) MC_STATE_LOGIN MC_PACKET_SERVERBOUND = Some (cat_login_serverbound c)"
    "packet_map (find_packet_catalog protocol) MC_STATE_CONFIGURATION MC_PACKET_CLIENTBOUND
       = Some (cat_configuration_clientbound c)"
    "packet_map (find_packet_catalog protocol) MC_STATE_CONFIGURATION MC_PACKET_SERVERBOUND
       = Some (cat_configuration_serverbound c)"
  by (simp_all add: packet_map_def assms)

lemma play_numbers:
  assumes "mc_protocol_supported protocol"
  shows "mc_packet_name protocol MC_STATE_PLAY MC_PACKET_SERVERBOUND (word_of_int (movement_packet protocol))
      = Some ''position_look''"
    and "player_loaded_packet protocol \<noteq> -1 \<longrightarrow>
      mc_packet_name protocol MC_STATE_PLAY MC_PACKET_SERVERBOUND (word_of_int (player_loaded_packet protocol))
        = Some ''player_loaded''"
    and "batch_response_packet protocol \<noteq> -1 \<longleftrightarrow> batch_finished_packet protocol \<noteq> -1"
    and "batch_response_packet protocol \<noteq> -1 \<longrightarrow>
      mc_packet_name protocol MC_STATE_PLAY MC_PACKET_SERVERBOUND (word_of_int (batch_response_packet protocol))
        = Some ''chunk_batch_received''
      \<and> mc_packet_name protocol MC_STATE_PLAY MC_PACKET_CLIENTBOUND (word_of_int (batch_finished_packet protocol))
        = Some ''chunk_batch_finished''"
proof -
  obtain c where c: "find_packet_catalog protocol = Some c" "cat_protocol c = protocol" "c \<in> set packet_catalogs"
    using supported_catalog [OF assms] .
  have ids: "play_ids c" "batch_ids c"
    using catalogs_play catalogs_batch c(3) by (auto simp: list_all_iff)
  note entry = table_entry_name [OF _ catalog_maps(1) [OF c(1)]] table_entry_name [OF _ catalog_maps(2) [OF c(1)]]
  show "mc_packet_name protocol MC_STATE_PLAY MC_PACKET_SERVERBOUND (word_of_int (movement_packet protocol))
      = Some ''position_look''"
    using ids(1) entry(2) by (simp add: play_ids_def c(2))
  show "player_loaded_packet protocol \<noteq> -1 \<longrightarrow>
      mc_packet_name protocol MC_STATE_PLAY MC_PACKET_SERVERBOUND (word_of_int (player_loaded_packet protocol))
        = Some ''player_loaded''"
    using ids(1) entry(2) by (simp add: play_ids_def c(2))
  show "batch_response_packet protocol \<noteq> -1 \<longleftrightarrow> batch_finished_packet protocol \<noteq> -1"
    using ids(2) by (simp add: batch_ids_def c(2))
  show "batch_response_packet protocol \<noteq> -1 \<longrightarrow>
      mc_packet_name protocol MC_STATE_PLAY MC_PACKET_SERVERBOUND (word_of_int (batch_response_packet protocol))
        = Some ''chunk_batch_received''
      \<and> mc_packet_name protocol MC_STATE_PLAY MC_PACKET_CLIENTBOUND (word_of_int (batch_finished_packet protocol))
        = Some ''chunk_batch_finished''"
    using ids(2) entry by (simp add: batch_ids_def c(2))
qed

lemma login_numbers:
  assumes "mc_protocol_supported protocol"
  shows "mc_packet_name protocol MC_STATE_LOGIN MC_PACKET_SERVERBOUND 0 = Some ''login_start''
    \<and> mc_packet_name protocol MC_STATE_LOGIN MC_PACKET_CLIENTBOUND 0 = Some ''disconnect''
    \<and> mc_packet_name protocol MC_STATE_LOGIN MC_PACKET_CLIENTBOUND 1 = Some ''encryption_begin''
    \<and> mc_packet_name protocol MC_STATE_LOGIN MC_PACKET_CLIENTBOUND 2 = Some ''success''
    \<and> (47 \<le> protocol \<longrightarrow> mc_packet_name protocol MC_STATE_LOGIN MC_PACKET_CLIENTBOUND 3 = Some ''compress'')"
proof -
  obtain c where c: "find_packet_catalog protocol = Some c" "cat_protocol c = protocol" "c \<in> set packet_catalogs"
    using supported_catalog [OF assms] .
  have "login_ids c" using catalogs_login c(3) by (auto simp: list_all_iff)
  then show ?thesis
    using table_entry_name [OF _ catalog_maps(3) [OF c(1)]] table_entry_name [OF _ catalog_maps(4) [OF c(1)]]
    unfolding login_ids_def c(2) by fastforce
qed

lemma configuration_numbers:
  assumes "mc_protocol_supported protocol" and "764 \<le> protocol"
  shows "mc_packet_name protocol MC_STATE_LOGIN MC_PACKET_SERVERBOUND 3 = Some ''login_acknowledged''
    \<and> mc_packet_name protocol MC_STATE_CONFIGURATION MC_PACKET_SERVERBOUND 0 = Some ''settings''
    \<and> (\<forall>direction \<in> {MC_PACKET_SERVERBOUND, MC_PACKET_CLIENTBOUND}.
         mc_packet_name protocol MC_STATE_CONFIGURATION direction (if protocol \<ge> 766 then 3 else 2)
           = Some ''finish_configuration'')"
proof -
  obtain c where c: "find_packet_catalog protocol = Some c" "cat_protocol c = protocol" "c \<in> set packet_catalogs"
    using supported_catalog [OF assms(1)] .
  have "configuration_ids c" using catalogs_configuration c(3) by (auto simp: list_all_iff)
  then show ?thesis
    using assms(2) table_entry_name [OF _ catalog_maps(4) [OF c(1)]] table_entry_name [OF _ catalog_maps(5) [OF c(1)]]
      table_entry_name [OF _ catalog_maps(6) [OF c(1)]]
    unfolding configuration_ids_def c(2) by (cases "protocol \<ge> 766") fastforce+
qed

subsection \<open>The answer to a position\<close>

lemma send_frame_tracked: "send_frame env packet_id payload c = (r, c') \<Longrightarrow>
    cl_tracked_position c' = cl_tracked_position c \<and> cl_profile c' = cl_profile c"
  by (auto simp: send_frame_def send_all_def socket_send_def split: option.splits if_splits prod.splits)

lemma legacy_position:
  assumes protocol: "pf_protocol (cl_profile c) < 107" "cl_transforms c = None"
    and auto: "automatic c MC_AUTOMATIC_TELEPORT" "\<not> cp_has_teleport_id decoded"
    and known: "cl_tracked_position_valid c" and run: "play_position env decoded c = (Some (), c')"
  shows "cl_tracked_position c' = resolve_position (cp_relative_flags decoded) (cl_tracked_position c) (cp_position decoded)
    \<and> (\<exists>wire. encode_frame (ce_frame env) (cl_compression_threshold c)
         (word_of_int (movement_packet (pf_protocol (cl_profile c))))
         (Buf (pk_buf (pk_body 48 [mc_packet_player_position (pf_protocol (cl_profile c))
            (Some ((cp_position decoded)\<lparr>pp_on_ground := True\<rparr>))]))) = Some wire
       \<and> cl_wire c' = cl_wire c @ wire)"
proof -
  let ?body = "pk_body 48 [mc_packet_player_position (pf_protocol (cl_profile c))
            (Some ((cp_position decoded)\<lparr>pp_on_ground := True\<rparr>))]"
  let ?c = "c\<lparr>cl_tracked_position := resolve_position (cp_relative_flags decoded) (cl_tracked_position c) (cp_position decoded),
      cl_tracked_position_valid := True\<rparr>"
  have loaded: "player_loaded_packet (pf_protocol (cl_profile c)) = -1"
    using protocol by (simp add: player_loaded_packet_def)
  have sent: "send_frame env (word_of_int (movement_packet (pf_protocol (cl_profile c)))) (pk_buf ?body) ?c = (Some (), c')"
    using run protocol auto known loaded
    by (auto simp: play_position_def act_with_def Let_def act_bind_def act_do_def act_when_def act_return_def
        send_builder_def act_fail_def split: if_splits prod.splits option.splits)
  from send_frame_wire [OF sent] send_frame_tracked [OF sent] protocol show ?thesis by auto
qed

end
