(* ===== verification/Action_Codecs.thy ===== *)
theory Action_Codecs
  imports Decode_Laws Maintenance
begin

text \<open>
  More serverbound builders against the decoders of their families: entity actions, abilities and
  the full movement packet; and the generated digging pair of release 776 against both.
\<close>

subsection \<open>Entity actions\<close>

definition action_wire :: "int \<Rightarrow> mc_entity_action \<Rightarrow> i32" where
  "action_wire protocol v = (case entity_action_id protocol (ea_action v) of None \<Rightarrow> 0 | Some k \<Rightarrow> k)"

definition action_bytes :: "int \<Rightarrow> mc_entity_action \<Rightarrow> u8 list" where
  "action_bytes protocol v =
     (if protocol \<le> 5 then
        be_bytes 4 (ea_entity_id v) @ [ucast (action_wire protocol v)] @ be_bytes 4 (ea_jump_boost v)
      else varint_bytes (ea_entity_id v) @ varint_bytes (action_wire protocol v)
        @ varint_bytes (ea_jump_boost v))"

definition action_valid :: "int \<Rightarrow> mc_entity_action \<Rightarrow> bool" where
  "action_valid protocol v \<longleftrightarrow> mc_protocol_supported protocol \<and> 0 \<le> sint (ea_entity_id v)
     \<and> 0 \<le> sint (ea_jump_boost v) \<and> sint (ea_jump_boost v) \<le> 100
     \<and> entity_action_id protocol (ea_action v) \<noteq> None"

lemma action_of_wire:
  "entity_action_id protocol kind = Some k \<Longrightarrow> entity_action_of_wire protocol k = Some kind"
  by (cases kind) (auto simp: entity_action_of_wire_def entity_action_kinds_def split: if_splits)

lemma action_byte:
  "entity_action_id protocol kind = Some k \<Longrightarrow> scast (ucast k :: i8) = k"
  by (cases kind) (auto split: if_splits)

lemma parses_action:
  assumes v: "action_valid protocol v"
  shows "rd_parses (typed_decode_entity_action protocol) (action_bytes protocol v) v"
proof -
  obtain k where k: "entity_action_id protocol (ea_action v) = Some k"
    using v by (auto simp: action_valid_def)
  have fields: "rd_parses
      (if protocol \<le> 5 then
          rd_bind mc_reader_i32 (\<lambda>entity_id. rd_bind mc_reader_i8 (\<lambda>legacy_action.
          rd_bind mc_reader_i32 (\<lambda>jump_boost. rd_return (entity_id, scast legacy_action, jump_boost))))
        else
          rd_bind mc_reader_varint (\<lambda>entity_id. rd_bind mc_reader_varint (\<lambda>action.
          rd_bind mc_reader_varint (\<lambda>jump_boost. rd_return (entity_id, action, jump_boost)))))
      (action_bytes protocol v) (ea_entity_id v, k, ea_jump_boost v)"
  proof (cases "protocol \<le> 5")
    case True
    have "rd_parses (rd_bind mc_reader_i32 (\<lambda>entity_id. rd_bind mc_reader_i8 (\<lambda>legacy_action.
          rd_bind mc_reader_i32 (\<lambda>jump_boost. rd_return (entity_id, scast legacy_action, jump_boost)))))
        (be_bytes 4 (ea_entity_id v) @ [ucast k] @ be_bytes 4 (ea_jump_boost v) @ [])
        (ea_entity_id v, scast (ucast k :: i8) :: i32, ea_jump_boost v)"
      by (rule parses_bind [OF parses_same_width(3)], rule parses_bind [OF parses_same_width(1)],
          rule parses_bind [OF parses_same_width(3)], rule parses_return)
    then show ?thesis
      unfolding action_byte [OF k] using True by (simp add: action_bytes_def action_wire_def k)
  next
    case False
    have "rd_parses (rd_bind mc_reader_varint (\<lambda>entity_id. rd_bind mc_reader_varint (\<lambda>action.
          rd_bind mc_reader_varint (\<lambda>jump_boost. rd_return (entity_id, action, jump_boost)))))
        (varint_bytes (ea_entity_id v) @ varint_bytes k @ varint_bytes (ea_jump_boost v) @ [])
        (ea_entity_id v, k, ea_jump_boost v)"
      by (rule parses_bind [OF parses_varint], rule parses_bind [OF parses_varint],
          rule parses_bind [OF parses_varint], rule parses_return)
    then show ?thesis using False by (simp add: action_bytes_def action_wire_def k)
  qed
  have fold: "\<lparr>ea_entity_id = ea_entity_id v, ea_action = ea_action v, ea_jump_boost = ea_jump_boost v\<rparr> = v"
    by (cases v) simp
  have "rd_parses (typed_decode_entity_action protocol) (action_bytes protocol v @ [] @ []) v"
    unfolding typed_decode_entity_action_def
    by (rule parses_bind [OF fields])
      (use v in \<open>auto simp: action_valid_def action_of_wire [OF k] rd_check_def fold parses_return
        intro!: parses_strict parses_bind_nil [OF parses_return] parses_return\<close>)
  then show ?thesis by simp
qed

lemma contract_action:
  assumes v: "action_valid protocol v"
  shows "pk_contract (mc_packet_entity_action protocol (Some v)) (action_bytes protocol v)"
proof -
  obtain k where k: "entity_action_id protocol (ea_action v) = Some k"
    using v by (auto simp: action_valid_def)
  have legacy: "pk_contract (pk_all [mc_packet_i32 (ea_entity_id v), mc_packet_i8 (ucast k),
      mc_packet_i32 (ea_jump_boost v)])
      (be_bytes 4 (ea_entity_id v) @ [ucast k] @ be_bytes 4 (ea_jump_boost v) @ [])"
    by (intro pk_contract_all_Cons pk_contract_all_Nil pk_contract_i32 pk_contract_i8)
  have modern: "pk_contract (pk_all [mc_packet_varint (ea_entity_id v), mc_packet_varint k,
      mc_packet_varint (ea_jump_boost v)])
      (varint_bytes (ea_entity_id v) @ varint_bytes k @ varint_bytes (ea_jump_boost v) @ [])"
    by (intro pk_contract_all_Cons pk_contract_all_Nil pk_contract_varint)
  show ?thesis
    using v legacy modern
    by (simp add: mc_packet_entity_action_def pk_deref_def pk_guard_def action_valid_def k
        action_bytes_def action_wire_def)
qed

lemma stops_action [rd_sticky]: "rd_stops (typed_decode_entity_action protocol)"
  unfolding typed_decode_entity_action_def by (intro rd_sticky)

interpretation action_codec: wire_codec "typed_decode_entity_action protocol"
  "\<lambda>v. mc_packet_entity_action protocol (Some v)" "action_bytes protocol" "action_valid protocol"
  for protocol
  by (intro wire_codecI rd_checked rd_sticky contract_action parses_action)

subsection \<open>Movement\<close>

text \<open>What a decoder of the full movement packet makes of the values the builder takes.\<close>

definition position_view :: "int \<Rightarrow> mc_player_position \<Rightarrow> mc_player_movement" where
  "position_view protocol v =
     \<lparr>mv_x = pp_x v, mv_y = pp_y v, mv_z = pp_z v,
      mv_wire_y = (if protocol \<le> 5 then f64_add (pp_y v) EYE_HEIGHT else pp_y v),
      mv_yaw = pp_yaw v, mv_pitch = pp_pitch v, mv_on_ground = pp_on_ground v,
      mv_horizontal_collision = False, mv_wire_y_is_stance = protocol \<le> 5,
      mv_presence = MC_MOVE_HAS_POSITION OR MC_MOVE_HAS_ROTATION OR MC_MOVE_HAS_ON_GROUND
        OR (if protocol \<le> 5 then MC_MOVE_HAS_STANCE_Y else 0)
        OR (if protocol \<ge> 768 then MC_MOVE_HAS_HORIZONTAL_COLLISION else 0),
      mv_raw_flags = (if pp_on_ground v then 1 else 0)\<rparr>"

definition position_bytes :: "int \<Rightarrow> mc_player_position \<Rightarrow> u8 list" where
  "position_bytes protocol v =
     be_bytes 8 (pp_x v) @ be_bytes 8 (pp_y v)
     @ (if protocol \<le> 5 then be_bytes 8 (f64_add (pp_y v) EYE_HEIGHT) else [])
     @ be_bytes 8 (pp_z v) @ be_bytes 4 (pp_yaw v) @ be_bytes 4 (pp_pitch v)
     @ [bool_byte (pp_on_ground v)]"

text \<open>
  The builder checks that the numbers are finite. A strict decoder also wants the pitch within 90
  degrees and, through 1.7, the stance near the eye height above the feet.
\<close>

definition position_valid :: "int \<Rightarrow> mc_player_position \<Rightarrow> bool" where
  "position_valid protocol v \<longleftrightarrow> mc_protocol_supported protocol
     \<and> f64_isfinite (pp_x v) \<and> f64_isfinite (pp_y v) \<and> f64_isfinite (pp_z v)
     \<and> f32_isfinite (pp_yaw v) \<and> f32_isfinite (pp_pitch v)
     \<and> \<not> f32_less (pp_pitch v) F32_MINUS_NINETY \<and> \<not> f32_less F32_NINETY (pp_pitch v)
     \<and> (protocol \<le> 5 \<longrightarrow>
          (let stance = f64_minus (f64_add (pp_y v) EYE_HEIGHT) (pp_y v)
           in f64_isfinite (f64_add (pp_y v) EYE_HEIGHT)
              \<and> \<not> f64_less stance STANCE_MINIMUM \<and> \<not> f64_less STANCE_MAXIMUM stance))"

lemma contract_position:
  assumes v: "position_valid protocol v"
  shows "pk_contract (mc_packet_player_position protocol (Some v)) (position_bytes protocol v)"
proof -
  have "pk_contract (pk_all
       [mc_packet_double (pp_x v), mc_packet_double (pp_y v),
        pk_when (\<not> protocol > 5) (mc_packet_double (f64_add (pp_y v) EYE_HEIGHT)),
        mc_packet_double (pp_z v), mc_packet_float (pp_yaw v), mc_packet_float (pp_pitch v),
        mc_packet_bool (pp_on_ground v)])
      (be_bytes 8 (pp_x v) @ be_bytes 8 (pp_y v)
        @ (if \<not> protocol > 5 then be_bytes 8 (f64_add (pp_y v) EYE_HEIGHT) else [])
        @ be_bytes 8 (pp_z v) @ be_bytes 4 (pp_yaw v) @ be_bytes 4 (pp_pitch v)
        @ [bool_byte (pp_on_ground v)] @ [])"
    by (intro pk_contract_all_Cons pk_contract_all_Nil pk_contract_double pk_contract_float
        pk_contract_bool pk_contract_when)
  then show ?thesis
    using v
    by (cases "protocol \<le> 5")
      (simp_all add: mc_packet_player_position_def pk_deref_def pk_guard_def position_valid_def
        position_bytes_def not_less Let_def)
qed

lemma parses_stance:
  assumes v: "position_valid protocol v" and old: "protocol \<le> 5"
  shows "rd_parses (rd_bind mc_reader_double (\<lambda>wire_y. rd_strict (\<lambda>strict.
      let stance = f64_minus wire_y (pp_y v) in
      rd_bind (rd_check (\<not> (\<not> f64_isfinite wire_y
         \<or> (strict \<and> (f64_less stance STANCE_MINIMUM \<or> f64_less STANCE_MAXIMUM stance)))))
        (\<lambda>_. rd_return wire_y))))
    (be_bytes 8 (f64_add (pp_y v) EYE_HEIGHT)) (f64_add (pp_y v) EYE_HEIGHT)"
  by (rule parses_bind_nil [OF parses_same_width(6)], rule parses_strict, unfold Let_def,
      rule parses_bind_nil [OF parses_check parses_return])
    (use v old in \<open>auto simp: position_valid_def Let_def\<close>)

lemma parses_movement_position:
  assumes v: "position_valid protocol v"
  shows "rd_parses (movement_position protocol m)
    (be_bytes 8 (pp_x v) @ be_bytes 8 (pp_y v)
     @ (if protocol \<le> 5 then be_bytes 8 (f64_add (pp_y v) EYE_HEIGHT) else []) @ be_bytes 8 (pp_z v))
    (m\<lparr>mv_x := pp_x v, mv_y := pp_y v, mv_z := pp_z v,
       mv_wire_y := (if protocol \<le> 5 then f64_add (pp_y v) EYE_HEIGHT else pp_y v),
       mv_wire_y_is_stance := protocol \<le> 5,
       mv_presence := mv_presence m OR MC_MOVE_HAS_POSITION
         OR (if protocol \<le> 5 then MC_MOVE_HAS_STANCE_Y else 0)\<rparr>)"
proof -
  let ?wire = "if protocol \<le> 5 then f64_add (pp_y v) EYE_HEIGHT else pp_y v"
  have wire: "rd_parses (if protocol \<le> 5 then
        rd_bind mc_reader_double (\<lambda>wire_y. rd_strict (\<lambda>strict.
        let stance = f64_minus wire_y (pp_y v) in
        rd_bind (rd_check (\<not> (\<not> f64_isfinite wire_y
           \<or> (strict \<and> (f64_less stance STANCE_MINIMUM \<or> f64_less STANCE_MAXIMUM stance)))))
          (\<lambda>_. rd_return wire_y)))
      else rd_return (pp_y v))
    (if protocol \<le> 5 then be_bytes 8 (f64_add (pp_y v) EYE_HEIGHT) else []) ?wire"
    using parses_stance [OF v] by (simp add: parses_return)
  have z: "rd_parses (rd_valid (rd_such mc_reader_double
      (\<lambda>z. f64_isfinite (pp_x v) \<and> f64_isfinite (pp_y v) \<and> f64_isfinite z)))
      (be_bytes 8 (pp_z v)) (pp_z v)"
    by (rule parses_valid, rule parses_such [OF parses_same_width(6)])
      (use v in \<open>simp add: position_valid_def\<close>)
  show ?thesis
    unfolding movement_position_def
    by (rule parses_bind [OF parses_same_width(6)], rule parses_bind [OF parses_same_width(6)],
        rule parses_bind [OF wire], rule parses_bind_nil [OF z], rule parses_return)
qed

lemma parses_movement_rotation:
  assumes v: "position_valid protocol v"
  shows "rd_parses (movement_rotation m) (be_bytes 4 (pp_yaw v) @ be_bytes 4 (pp_pitch v))
    (m\<lparr>mv_yaw := pp_yaw v, mv_pitch := pp_pitch v,
       mv_presence := mv_presence m OR MC_MOVE_HAS_ROTATION\<rparr>)"
proof -
  have finite: "rd_parses (typed_finite_rotation (pp_yaw v) (pp_pitch v)) [] ()"
    unfolding typed_finite_rotation_def
    by (rule parses_strict, rule parses_check) (use v in \<open>auto simp: position_valid_def\<close>)
  show ?thesis
    unfolding movement_rotation_def
    by (rule parses_bind [OF parses_same_width(5)], rule parses_bind_nil [OF parses_same_width(5)],
        rule parses_bind_nil [OF finite], rule parses_return)
qed

lemma parses_movement_ground:
  "rd_parses (movement_ground protocol m) [bool_byte b]
    (m\<lparr>mv_on_ground := b, mv_raw_flags := (if b then 1 else 0),
       mv_horizontal_collision := (if protocol \<ge> 768 then False else mv_horizontal_collision m),
       mv_presence := mv_presence m OR MC_MOVE_HAS_ON_GROUND
         OR (if protocol \<ge> 768 then MC_MOVE_HAS_HORIZONTAL_COLLISION else 0)\<rparr>)"
proof (cases "protocol \<ge> 768")
  case True
  have flags: "rd_parses (rd_valid (rd_such mc_reader_u8 (\<lambda>flags. flags AND 0xfc = 0))) [bool_byte b]
      (bool_byte b)"
    by (rule parses_valid, rule parses_such [OF parses_u8]) (simp add: bool_byte_def)
  show ?thesis
    unfolding movement_ground_def if_P [OF True]
    by (rule parses_bind_nil [OF flags], cases m)
      (use True in \<open>simp add: bool_byte_def parses_return or.assoc\<close>)
next
  case False
  then show ?thesis
    unfolding movement_ground_def if_not_P [OF False]
    by (intro parses_bind_nil [OF parses_bool], cases m) (simp add: parses_return)
qed

lemma position_view_ground:
  "position_view protocol v =
    (let m = movement_start\<lparr>mv_x := pp_x v, mv_y := pp_y v, mv_z := pp_z v,
         mv_wire_y := (if protocol \<le> 5 then f64_add (pp_y v) EYE_HEIGHT else pp_y v),
         mv_wire_y_is_stance := protocol \<le> 5,
         mv_presence := mv_presence movement_start OR MC_MOVE_HAS_POSITION
           OR (if protocol \<le> 5 then MC_MOVE_HAS_STANCE_Y else 0)\<rparr>;
       m' = m\<lparr>mv_yaw := pp_yaw v, mv_pitch := pp_pitch v,
         mv_presence := mv_presence m OR MC_MOVE_HAS_ROTATION\<rparr>
     in m'\<lparr>mv_on_ground := pp_on_ground v, mv_raw_flags := (if pp_on_ground v then 1 else 0),
       mv_horizontal_collision := (if protocol \<ge> 768 then False else mv_horizontal_collision m'),
       mv_presence := mv_presence m' OR MC_MOVE_HAS_ON_GROUND
         OR (if protocol \<ge> 768 then MC_MOVE_HAS_HORIZONTAL_COLLISION else 0)\<rparr>)"
  by (simp add: position_view_def movement_start_def MC_MOVE_HAS_POSITION_def MC_MOVE_HAS_ROTATION_def
      MC_MOVE_HAS_ON_GROUND_def MC_MOVE_HAS_STANCE_Y_def MC_MOVE_HAS_HORIZONTAL_COLLISION_def Let_def)

lemma parses_position:
  assumes v: "position_valid protocol v"
  shows "rd_parses (typed_decode_movement protocol ''position_look'') (position_bytes protocol v)
    (position_view protocol v)"
proof -
  have "rd_parses (rd_bind (movement_position protocol movement_start) (\<lambda>m.
      rd_bind (movement_rotation m) (\<lambda>m'. movement_ground protocol m')))
    ((be_bytes 8 (pp_x v) @ be_bytes 8 (pp_y v)
     @ (if protocol \<le> 5 then be_bytes 8 (f64_add (pp_y v) EYE_HEIGHT) else []) @ be_bytes 8 (pp_z v))
     @ (be_bytes 4 (pp_yaw v) @ be_bytes 4 (pp_pitch v)) @ [bool_byte (pp_on_ground v)])
    (position_view protocol v)"
    by (rule parses_bind [OF parses_movement_position [OF v]],
        rule parses_bind [OF parses_movement_rotation [OF v]])
      (unfold position_view_ground Let_def, rule parses_movement_ground)
  then show ?thesis
    by (simp add: typed_decode_movement_def rd_when_def position_bytes_def)
qed

subsection \<open>The digging pair of release 776\<close>

text \<open>The generated encoder writes what the builder writes, without its checks.\<close>

lemma pk_contract_unfailed: "pk_contract pk_unfailed []"
  by (rule pk_contractI) (simp_all add: pk_unfailed_def pk_append_def)

lemma contract_dig_776:
  assumes "position_in_range (bd_location v)"
  shows "pk_contract (mc776_play_serverbound_block_dig_encode v)
    (varint_bytes (bd_status v) @ be_bytes 8 (position_pack 776 (bd_location v)) @ [bd_face v]
     @ varint_bytes (bd_sequence v))"
proof -
  have "pk_contract (pk_all [mc_packet_varint (bd_status v), mc_packet_position 776 (bd_location v),
      mc_packet_i8 (bd_face v), mc_packet_varint (bd_sequence v)])
    (varint_bytes (bd_status v) @ be_bytes 8 (position_pack 776 (bd_location v)) @ [bd_face v]
     @ varint_bytes (bd_sequence v) @ [])"
    using assms
    by (intro pk_contract_all_Cons pk_contract_all_Nil pk_contract_varint pk_contract_i8
        position_codec.put_wire) (simp add: supported_iff protocol_ids_def)
  from pk_contract_and [OF this pk_contract_unfailed] show ?thesis
    by (simp add: mc776_play_serverbound_block_dig_encode_def)
qed

lemma bind_run: "m r = (Some x, r1) \<Longrightarrow> rd_bind m f r = f x r1"
  by (simp add: rd_bind_def)

text \<open>The generated decoder reads the fields and then wants nothing left.\<close>

lemma decode_dig_776:
  assumes place: "position_in_range (bd_location v)" and mode: "valid_mode mode"
    and bytes: "bs = varint_bytes (bd_status v) @ be_bytes 8 (position_pack 776 (bd_location v)) @ [bd_face v]
      @ varint_bytes (bd_sequence v)"
  shows "fst (mc776_play_serverbound_block_dig_decode (mc_reader_init_mode (Buf bs) mode e)) = Some v"
proof -
  let ?fields = "rd_bind mc_reader_varint (\<lambda>status. rd_bind (mc_reader_position 776) (\<lambda>location.
     rd_bind mc_reader_i8 (\<lambda>face. rd_bind mc_reader_varint (\<lambda>sequence.
     rd_return \<lparr>bd_status = status, bd_location = location, bd_face = face,
       bd_sequence = sequence\<rparr>))))"
  let ?r = "mc_reader_init_mode (Buf bs) mode e"
  have location: "rd_parses (mc_reader_position 776)
      (be_bytes 8 (position_pack 776 (bd_location v))) (bd_location v)"
    using place by (intro position_codec.get_wire) (simp add: supported_iff protocol_ids_def)
  have "rd_parses ?fields (varint_bytes (bd_status v) @ be_bytes 8 (position_pack 776 (bd_location v))
      @ [bd_face v] @ varint_bytes (bd_sequence v) @ [])
      \<lparr>bd_status = bd_status v, bd_location = bd_location v, bd_face = bd_face v,
       bd_sequence = bd_sequence v\<rparr>"
    by (rule parses_bind [OF parses_varint], rule parses_bind [OF location],
        rule parses_bind [OF parses_same_width(1)], rule parses_bind [OF parses_varint], rule parses_return)
  moreover have "\<lparr>bd_status = bd_status v, bd_location = bd_location v, bd_face = bd_face v,
      bd_sequence = bd_sequence v\<rparr> = v" by (cases v) simp
  ultimately have "rd_parses ?fields bs v" by (simp add: bytes)
  then have run: "?fields ?r = (Some v, rd_advance (length bs) ?r)"
    by (rule rd_parsesD [of _ _ _ _ "[]"]) (simp_all add: mc_reader_init_mode_fields [OF mode])
  define fields where "fields = ?fields"
  have eq: "mc776_play_serverbound_block_dig_decode
      = rd_bind fields (\<lambda>v. rd_bind rd_exhausted (\<lambda>_. rd_return v))"
    by (simp add: mc776_play_serverbound_block_dig_decode_def fields_def rd_bind_assoc)
  have "fields ?r = (Some v, rd_advance (length bs) ?r)" unfolding fields_def by (rule run)
  then have "mc776_play_serverbound_block_dig_decode ?r
      = rd_bind rd_exhausted (\<lambda>_. rd_return v) (rd_advance (length bs) ?r)"
    unfolding eq by (rule bind_run)
  then show ?thesis
    by (simp add: rd_bind_def rd_exhausted_def rd_return_def mc_reader_remaining_def
        mc_reader_init_mode_fields [OF mode])
qed

subsection \<open>Through the decoder\<close>

lemma catalogs_actions:
  "list_all (\<lambda>c. list_all (\<lambda>name. name \<in> set (cat_play_serverbound c))
     [''block_dig'', ''entity_action'', ''position_look'']) packet_catalogs"
  by (simp only: catalog_rows) (simp add: packet_table_defs)

lemma action_packet_name:
  assumes supported: "mc_protocol_supported protocol"
    and name: "name \<in> set [''block_dig'', ''entity_action'', ''position_look'']"
  shows "mc_packet_name protocol MC_STATE_PLAY MC_PACKET_SERVERBOUND
    (mc_packet_id protocol MC_STATE_PLAY MC_PACKET_SERVERBOUND (Some name)) = Some name"
proof -
  obtain c where c: "find_packet_catalog protocol = Some c"
    using supported find_packet_catalog_iff by blast
  then have "name \<in> set (cat_play_serverbound c)"
    using catalogs_actions find_packet_catalog_mem [OF c] name by (auto simp: list_all_iff)
  then obtain k where k: "k < length (cat_play_serverbound c)" "cat_play_serverbound c ! k = name"
    by (auto simp: in_set_conv_nth)
  have names: "packet_map (find_packet_catalog protocol) MC_STATE_PLAY MC_PACKET_SERVERBOUND
      = Some (cat_play_serverbound c)"
    by (simp add: c packet_map_def)
  have "k < 256" using packet_map_size [OF names] k(1) by simp
  then have "unat (of_nat k :: i32) = k" using small_id by simp
  then have "mc_packet_name protocol MC_STATE_PLAY MC_PACKET_SERVERBOUND (of_nat k) = Some name"
    using names k by (auto simp: packet_name_Some)
  from packet_id_known [OF this] name_of_packet_id show ?thesis by blast
qed

lemma parses_store: "rd_parses m bs x \<Longrightarrow> rd_parses (rd_store f m) bs (f x)"
  unfolding rd_store_def by (rule parses_bind_nil, assumption, rule parses_return)

lemma decode_built:
  assumes supported: "mc_protocol_supported protocol"
    and name: "name \<in> set [''block_dig'', ''entity_action'', ''position_look'']"
    and family: "packet_family_from_table name serverbound_families = family"
    and mode: "valid_mode mode" and size: "0 < mc_packet_decoded_size sizes family"
    and room: "mc_packet_decoded_size sizes family \<le> room"
    and parses: "rd_parses (typed_decode_dispatch gz zl protocol MC_PACKET_SERVERBOUND name family) bs p"
  defines "packet_id \<equiv> mc_packet_id protocol MC_STATE_PLAY MC_PACKET_SERVERBOUND (Some name)"
  shows "mc_decode_packet gz zl sizes protocol MC_STATE_PLAY MC_PACKET_SERVERBOUND packet_id
      (Buf bs) mode (Some room) True error
    = (Some p, Some family,
       typed_error_init error protocol MC_STATE_PLAY MC_PACKET_SERVERBOUND packet_id)"
proof -
  have n: "mc_packet_name protocol MC_STATE_PLAY MC_PACKET_SERVERBOUND packet_id = Some name"
    unfolding packet_id_def by (rule action_packet_name [OF supported name])
  have f: "mc_packet_family protocol MC_STATE_PLAY MC_PACKET_SERVERBOUND packet_id = family"
    using family by (simp add: mc_packet_family_def n)
  have "decode_granted sizes protocol MC_STATE_PLAY MC_PACKET_SERVERBOUND packet_id (Buf bs) mode
      (Some room) True"
    using supported mode size room by (simp add: decode_granted_def mc_state_listed_def n f)
  from decode_parses [OF this n f parses] show ?thesis .
qed

text \<open>A builder with its bytes, and the decoder on what it has written.\<close>

lemma built_decodes:
  assumes contract: "pk_contract put bs" and fits: "length bs \<le> cap"
    and decodes: "decoded (Buf bs) = result"
  shows "\<exists>p. put (fresh_packet cap) = (True, p) \<and> \<not> pk_failed p \<and> decoded (Buf (pk_buf p)) = result"
proof -
  have "put (fresh_packet cap) = (True, pk_append bs (fresh_packet cap))"
    using fits by (intro pk_contract_fits [OF contract]) (simp_all add: pk_ok_def pk_room_def)
  then show ?thesis using decodes by (simp add: pk_append_def)
qed

end
