(* ===== verification/Chunk_Laws.thy ===== *)
theory Chunk_Laws
  imports Typed_World
begin

text \<open>
  What a decoded chunk section guarantees to the lookup of a block: the words it counts are there, and
  when their number was checked, every one of the 4096 blocks has its bits among them. The reference
  is the stream of the bits of the words, least significant first.
\<close>

subsection \<open>Steps of a reader that succeeded\<close>

lemma bind_someE:
  assumes "rd_bind m f r = (Some y, r')"
  obtains x r1 where "m r = (Some x, r1)" and "f x r1 = (Some y, r')"
  using assms by (auto simp: rd_bind_def split: prod.splits option.splits)

lemma orelse_some: "rd_orelse m h r = (Some x, r') \<longleftrightarrow> m r = (Some x, r')"
  by (auto simp: rd_orelse_def split: prod.splits option.splits)

lemma valid_some: "rd_valid m r = (Some x, r') \<longleftrightarrow> m r = (Some x, r')"
  by (simp add: rd_valid_def orelse_some)

lemma such_some: "rd_such m c r = (Some x, r') \<longleftrightarrow> m r = (Some x, r') \<and> c x"
  by (auto simp: rd_such_def rd_bind_def rd_test_def rd_return_def split: prod.splits option.splits if_splits)

lemma return_some: "rd_return x r = (Some y, r') \<longleftrightarrow> y = x \<and> r' = r"
  by (auto simp: rd_return_def)

lemma check_some: "rd_check c r = (Some y, r') \<longleftrightarrow> c \<and> r' = r"
  by (auto simp: rd_check_def rd_return_def typed_invalid_def rd_here_def reader_fail_def)

lemma capture_some:
  "rd_capture m r = (Some (x, bs), r') \<longleftrightarrow>
     m r = (Some x, r') \<and> bs = take (rd_offset r' - rd_offset r) (drop (rd_offset r) (rd_data r'))"
  by (auto simp: rd_capture_def split: prod.splits option.splits)

lemmas some_simps = valid_some such_some return_some check_some capture_some orelse_some

lemma skip_some:
  assumes "mc_reader_skip n r = (Some u, r')"
  shows "r' = rd_advance n r \<and> rd_offset r + n \<le> rd_size r"
  using assms
  by (auto simp: mc_reader_skip_def mc_reader_bytes_def rd_bind_def rd_return_def rd_advance_def
      mc_reader_remaining_def reader_fail_def split: prod.splits option.splits if_splits)

subsection \<open>Palettes\<close>

lemma long_count_expected:
  assumes run: "palette_long_count expected fixed_storage r = (Some count, r')"
    and checked: "fixed_storage \<or> rd_mode r = MC_DECODE_STRICT" and small: "expected < 2 ^ 32"
  shows "unat count = expected"
proof (cases fixed_storage)
  case True
  then show ?thesis
    using run small by (simp add: palette_long_count_def return_some unat_of_nat take_bit_nat_eq_self)
next
  case False
  from run [unfolded palette_long_count_def if_not_P [OF False]]
  obtain n r1 where n: "mc_reader_varint r = (Some n, r1)"
    and rest: "rd_strict (\<lambda>strict. rd_bind (rd_check (\<not> (strict \<and> unat n \<noteq> expected)))
      (\<lambda>_. rd_return (ucast n))) r1 = (Some count, r')"
    by (auto elim!: bind_someE simp: some_simps)
  have "rd_mode r1 = MC_DECODE_STRICT"
    using reader_op.op_mode [of mc_reader_varint r] checked False n
    by (simp add: checked_reader rd_checked)
  then show ?thesis
    using rest by (auto elim!: bind_someE simp: some_simps rd_strict_def)
qed

lemma palette_shape:
  assumes run: "typed_read_palette n indirect direct padded fixed_storage r = (Some t, r')"
    and small: "\<And>bits. bits \<le> direct \<Longrightarrow> palette_longs n bits padded < 2 ^ 32"
  shows "tp_bits t \<le> direct \<and> length (tp_data t) = 8 * unat (tp_long_count t)
    \<and> (fixed_storage \<or> rd_mode r = MC_DECODE_STRICT
         \<longrightarrow> unat (tp_long_count t) = palette_longs n (tp_bits t) padded)"
proof -
  from run [unfolded typed_read_palette_def] obtain bits r1 where
    head: "rd_valid (rd_such mc_reader_u8 (\<lambda>bits. \<not> bits > direct)) r = (Some bits, r1)"
    and run1: "rd_bind (palette_entries bits indirect) (\<lambda>(palette_count, palette).
       rd_bind (palette_long_count (palette_longs n bits padded) fixed_storage) (\<lambda>long_count.
       rd_bind (rd_capture (rd_orelse (mc_reader_skip (unat long_count * 8))
         (rd_here (\<lambda>off. reader_fail MC_ERROR_INTEGER_OVERFLOW off) :: unit rd))) (\<lambda>(_, bytes).
       rd_return \<lparr>tp_bits = bits, tp_palette_count = palette_count, tp_long_count = long_count,
         tp_palette = palette, tp_data = bytes\<rparr>))) r1 = (Some t, r')"
    by (rule bind_someE)
  from run1 obtain pair r2 where entries: "palette_entries bits indirect r1 = (Some pair, r2)"
    and run2: "rd_bind (palette_long_count (palette_longs n bits padded) fixed_storage) (\<lambda>long_count.
       rd_bind (rd_capture (rd_orelse (mc_reader_skip (unat long_count * 8))
         (rd_here (\<lambda>off. reader_fail MC_ERROR_INTEGER_OVERFLOW off) :: unit rd))) (\<lambda>(_, bytes).
       rd_return \<lparr>tp_bits = bits, tp_palette_count = fst pair, tp_long_count = long_count,
         tp_palette = snd pair, tp_data = bytes\<rparr>)) r2 = (Some t, r')"
    by (elim bind_someE) (simp add: case_prod_unfold)
  from run2 obtain long_count r3 where
    count: "palette_long_count (palette_longs n bits padded) fixed_storage r2 = (Some long_count, r3)"
    and run3: "rd_bind (rd_capture (rd_orelse (mc_reader_skip (unat long_count * 8))
         (rd_here (\<lambda>off. reader_fail MC_ERROR_INTEGER_OVERFLOW off) :: unit rd))) (\<lambda>(_, bytes).
       rd_return \<lparr>tp_bits = bits, tp_palette_count = fst pair, tp_long_count = long_count,
         tp_palette = snd pair, tp_data = bytes\<rparr>) r3 = (Some t, r')"
    by (rule bind_someE)
  from run3 obtain data where skip: "mc_reader_skip (unat long_count * 8) r3 = (Some (), r')"
    and data: "data = take (rd_offset r' - rd_offset r3) (drop (rd_offset r3) (rd_data r'))"
    and t: "t = \<lparr>tp_bits = bits, tp_palette_count = fst pair, tp_long_count = long_count,
       tp_palette = snd pair, tp_data = data\<rparr>"
    by (elim bind_someE) (auto simp: some_simps split: prod.splits)
  have bits: "mc_reader_u8 r = (Some bits, r1)" "\<not> bits > direct"
    using head by (simp_all add: some_simps)
  have "rd_mode r2 = rd_mode r"
  proof -
    have "checked_op (palette_entries bits indirect)"
      unfolding palette_entries_def by (intro rd_checked)
    then have "rd_mode r2 = rd_mode r1"
      using reader_op.op_mode [of "palette_entries bits indirect" r1] entries by (simp add: checked_reader)
    moreover have "rd_mode r1 = rd_mode r"
      using reader_op.op_mode [of mc_reader_u8 r] bits(1) by (simp add: checked_reader rd_checked)
    ultimately show ?thesis by simp
  qed
  moreover have "length data = 8 * unat long_count"
    using skip_some [OF skip] by (auto simp: data min_def)
  ultimately show ?thesis
    using long_count_expected [OF count] small [of bits] bits(2) by (simp add: t)
qed

subsection \<open>Sections\<close>

definition section_shaped :: "mc_chunk_section \<Rightarrow> bool" where
  "section_shaped s \<longleftrightarrow> se_block_bits_per_entry s \<le> 15
     \<and> length (se_block_data s) = 8 * unat (se_block_long_count s)"

definition section_complete :: "mc_chunk_section \<Rightarrow> bool" where
  "section_complete s \<longleftrightarrow> section_shaped s
     \<and> unat (se_block_long_count s)
       = palette_longs 4096 (se_block_bits_per_entry s) (se_block_storage_padded s)"

lemma palette_longs_small: "bits \<le> 15 \<Longrightarrow> palette_longs 4096 bits padded < 2 ^ 32"
proof -
  assume "bits \<le> 15"
  then have b: "unat bits \<le> 15" by (simp add: word_le_nat_alt)
  define v where "v = 64 div unat bits"
  have v: "v \<le> 64" unfolding v_def by (rule div_le_dividend)
  have "(4096 + v - 1) div v \<le> 4096 + v - 1" by (rule div_le_dividend)
  also have "\<dots> < 2 ^ 32" using v by simp
  finally have "(4096 + v - 1) div v < 2 ^ 32" .
  moreover have "(4096 * unat bits + 63) div 64 < 2 ^ 32" using b by auto
  ultimately show ?thesis by (simp add: palette_longs_def Let_def v_def)
qed

lemma section_decoded:
  assumes run: "chunk_section protocol r = (Some s, r')"
  shows "section_shaped s \<and> (protocol \<ge> 770 \<or> rd_mode r = MC_DECODE_STRICT \<longrightarrow> section_complete s)"
proof -
  let ?head = "rd_bind (rd_when (protocol \<ge> 477) 0 (rd_such mc_reader_u16 (\<lambda>n. \<not> n > 4096))) (\<lambda>non_air.
    rd_bind (rd_when (protocol \<ge> 775) 0 (rd_such mc_reader_u16 (\<lambda>n. \<not> n > 4096))) (\<lambda>fluid.
    rd_bind (typed_read_palette 4096 8 15 (protocol \<ge> 735) (protocol \<ge> 770)) (\<lambda>blocks.
    rd_return (non_air, fluid, blocks))))"
  obtain x r1 where head: "?head r = (Some x, r1)"
    and s: "se_block_bits_per_entry s = tp_bits (snd (snd x))"
      "se_block_long_count s = tp_long_count (snd (snd x))" "se_block_data s = tp_data (snd (snd x))"
      "se_block_storage_padded s = (protocol \<ge> 735)"
    using run unfolding chunk_section_def Let_def
    by (elim bind_someE)
      (auto simp: some_simps rd_strict_def case_prod_unfold elim!: bind_someE split: prod.splits)
  from head obtain non_air r2 fluid r3 where
    counts: "rd_when (protocol \<ge> 477) 0 (rd_such mc_reader_u16 (\<lambda>n. \<not> n > 4096)) r = (Some non_air, r2)"
      "rd_when (protocol \<ge> 775) 0 (rd_such mc_reader_u16 (\<lambda>n. \<not> n > 4096)) r2 = (Some fluid, r3)"
    and palette: "typed_read_palette 4096 8 15 (protocol \<ge> 735) (protocol \<ge> 770) r3 = (Some (snd (snd x)), r1)"
    by (elim bind_someE) (auto simp: return_some)
  have "rd_mode r3 = rd_mode r"
  proof -
    have "reader_op (rd_when c (0 :: u16) (rd_such mc_reader_u16 (\<lambda>n. \<not> n > 4096)))" for c
      by (intro rd_ops checked_reader rd_checked)
    from reader_op.op_mode [OF this, of "protocol \<ge> 477" r] reader_op.op_mode [OF this, of "protocol \<ge> 775" r2]
    show ?thesis by (simp add: counts)
  qed
  then show ?thesis
    using palette_shape [OF palette palette_longs_small]
    by (simp add: section_shaped_def section_complete_def s)
qed

subsection \<open>The bits of a block\<close>

definition stream_bit :: "u8 list \<Rightarrow> nat \<Rightarrow> bool" where
  "stream_bit bytes j = bit (section_word bytes (j div 64)) (j mod 64)"

text \<open>Where a block starts: words hold whole blocks from 1.16 on, and before that the stream is dense.\<close>

definition block_start :: "mc_chunk_section \<Rightarrow> nat \<Rightarrow> nat" where
  "block_start s index =
     (let bits = unat (se_block_bits_per_entry s); per_word = 64 div bits in
      if se_block_storage_padded s then 64 * (index div per_word) + (index mod per_word) * bits
      else index * bits)"

definition block_value :: "mc_chunk_section \<Rightarrow> nat \<Rightarrow> nat" where
  "block_value s index =
     horner_sum of_bool 2 (map (\<lambda>k. stream_bit (se_block_data s) (block_start s index + k))
       [0..<unat (se_block_bits_per_entry s)])"

lemma unat_mask_horner:
  fixes w :: u64
  assumes "n \<le> 64" and "\<And>k. k < n \<Longrightarrow> f k = bit w k"
  shows "unat (w AND (push_bit n 1 - 1)) = horner_sum of_bool 2 (map f [0..<n])"
proof -
  have "map f [0..<n] = map (bit (unat w)) [0..<n]"
    using assms by (auto simp: bit_unsigned_iff)
  then have "horner_sum of_bool 2 (map f [0..<n]) = take_bit n (unat w)"
    by (simp only: horner_sum_bit_eq_take_bit)
  moreover have "w AND (push_bit n 1 - 1) = take_bit n w"
    by (simp add: take_bit_eq_mask mask_eq_exp_minus_1 push_bit_eq_mult)
  ultimately show ?thesis by (simp add: unsigned_take_bit_eq)
qed

lemma word_split:
  fixes q j :: nat
  assumes "j < 64"
  shows "(64 * q + j) div 64 = q" "(64 * q + j) mod 64 = j"
  using assms by simp_all

lemma same_word:
  fixes z k :: nat
  assumes "z mod 64 + k < 64"
  shows "(z + k) div 64 = z div 64" "(z + k) mod 64 = z mod 64 + k"
  using word_split [OF assms, of "z div 64"] by (simp_all flip: add.assoc)

lemma next_word:
  fixes z k :: nat
  assumes "\<not> z mod 64 + k < 64" and "k \<le> 64"
  shows "(z + k) div 64 = z div 64 + 1" "(z + k) mod 64 = k - (64 - z mod 64)"
proof -
  have "k - (64 - m) < 64 \<and> 64 * (q + 1) + (k - (64 - m)) = 64 * q + m + k"
    if "\<not> m + k < 64" "k \<le> 64" "m < 64" for q m :: nat
    using that by auto
  from this [OF assms, of "z div 64"]
  have j: "k - (64 - z mod 64) < 64" and eq: "64 * (z div 64 + 1) + (k - (64 - z mod 64)) = z + k"
    by simp_all
  show "(z + k) div 64 = z div 64 + 1" "(z + k) mod 64 = k - (64 - z mod 64)"
    using word_split [OF j, of "z div 64 + 1"] unfolding eq by simp_all
qed

lemma packed_bits:
  assumes complete: "section_complete s" and bits: "se_block_bits_per_entry s \<noteq> 0" and index: "index < 4096"
  shows "\<exists>w. section_packed s index = Some w \<and>
    (\<forall>k < unat (se_block_bits_per_entry s). stream_bit (se_block_data s) (block_start s index + k) = bit w k)"
proof -
  let ?b = "unat (se_block_bits_per_entry s)" and ?n = "unat (se_block_long_count s)"
  let ?word = "section_word (se_block_data s)"
  have b: "0 < ?b" "?b \<le> 15"
    using bits complete by (simp_all add: section_complete_def section_shaped_def unat_gt_0 word_le_nat_alt)
  have words: "length (se_block_data s) div 8 = ?n"
    using complete by (simp add: section_complete_def section_shaped_def)
  have n: "?n = palette_longs 4096 (se_block_bits_per_entry s) (se_block_storage_padded s)"
    using complete by (simp add: section_complete_def)
  show ?thesis
  proof (cases "se_block_storage_padded s")
    case True
    let ?v = "64 div ?b"
    have v: "0 < ?v" "?v * ?b \<le> 64" using b by (simp_all add: div_greater_zero_iff)
    have "?n = (4096 + ?v - 1) div ?v" using n True bits by (simp add: palette_longs_def Let_def)
    moreover have "index div ?v < (4096 + ?v - 1) div ?v"
    proof -
      have "(index + ?v) div ?v \<le> (4096 + ?v - 1) div ?v" using index by (intro div_le_mono) simp
      moreover have "(index + ?v) div ?v = index div ?v + 1" using v(1) by (intro div_add_self2) simp
      ultimately show ?thesis by linarith
    qed
    ultimately have word: "index div ?v < ?n" by simp
    have "stream_bit (se_block_data s) (block_start s index + k)
        = bit (drop_bit ((index mod ?v) * ?b) (?word (index div ?v))) k" if k: "k < ?b" for k
    proof -
      have "index mod ?v + 1 \<le> ?v" using v by (simp add: Suc_leI)
      then have "(index mod ?v + 1) * ?b \<le> ?v * ?b" by (rule mult_le_mono1)
      then have "(index mod ?v + 1) * ?b \<le> 64" using v(2) by (rule le_trans)
      then have "(index mod ?v) * ?b + k < 64" using k by (simp add: add_mult_distrib)
      then have "(64 * (index div ?v) + ((index mod ?v) * ?b + k)) div 64 = index div ?v"
        "(64 * (index div ?v) + ((index mod ?v) * ?b + k)) mod 64 = (index mod ?v) * ?b + k"
        by simp_all
      moreover have "block_start s index + k = 64 * (index div ?v) + ((index mod ?v) * ?b + k)"
        using True by (simp add: block_start_def Let_def)
      ultimately show ?thesis by (simp only: stream_bit_def bit_drop_bit_eq comp_def)
    qed
    then show ?thesis
      using True word words by (simp add: section_packed_def Let_def)
  next
    case False
    define z where "z = index * ?b"
    have n: "?n = 64 * ?b"
      using n False bits by (simp add: palette_longs_def)
    have room: "z + ?b \<le> 64 * (64 * ?b)"
    proof -
      have "(index + 1) * ?b \<le> 4096 * ?b" using index by (intro mult_le_mono1) simp
      then show ?thesis by (simp add: z_def)
    qed
    have first: "z div 64 < ?n" using room b n by linarith
    have second: "z div 64 + 1 < ?n" if carry: "64 < z mod 64 + ?b"
    proof -
      have less: "q + 1 < n" if "64 * q + m = z" "64 < m + b" "z + b \<le> 64 * n" for q m b n :: nat
        using that by linarith
      show ?thesis by (rule less [OF _ carry]) (simp, use room n in simp)
    qed
    define w where "w = (let w1 = drop_bit (z mod 64) (?word (z div 64)) in
      if 64 < z mod 64 + ?b then w1 OR push_bit (64 - z mod 64) (?word (z div 64 + 1)) else w1)"
    have "section_packed s index = Some w"
      using False words first
      by (cases "64 < z mod 64 + ?b")
        (use second in \<open>simp_all add: section_packed_def Let_def w_def flip: z_def\<close>)
    moreover have "stream_bit (se_block_data s) (z + k) = bit w k" if k: "k < ?b" for k
    proof (cases "z mod 64 + k < 64")
      case True
      then have "(z + k) div 64 = z div 64" "(z + k) mod 64 = z mod 64 + k"
        using same_word by blast+
      then show ?thesis
        using True
        by (auto simp: stream_bit_def w_def Let_def bit_drop_bit_eq bit_or_iff bit_push_bit_iff
            add.commute)
    next
      case carry: False
      then have "(z + k) div 64 = z div 64 + 1" "(z + k) mod 64 = k - (64 - z mod 64)"
        using next_word [of z k] k b by simp_all
      then show ?thesis
        using carry k b
        by (auto simp: stream_bit_def w_def Let_def bit_simps not_less dest: bit_imp_le_length)
    qed
    moreover have "block_start s index = z" using False by (simp add: block_start_def Let_def z_def)
    ultimately show ?thesis by simp
  qed
qed

text \<open>The lookup in a complete section: no branch that gives up for lack of data is taken.\<close>

lemma block_state_lookup:
  assumes complete: "section_complete s" and index: "index < 4096"
  shows "mc_chunk_section_block_state s index =
    (if se_block_bits_per_entry s = 0 then
       (if se_block_palette_count s = 1 then typed_palette_entry (se_block_palette s) 0 else None)
     else if se_block_palette_count s = 0 then Some (of_nat (block_value s index))
     else if block_value s index \<ge> unat (se_block_palette_count s) then None
     else typed_palette_entry (se_block_palette s) (block_value s index))"
proof (cases "se_block_bits_per_entry s = 0")
  case True
  then show ?thesis using index by (simp add: mc_chunk_section_block_state_def)
next
  case False
  let ?b = "unat (se_block_bits_per_entry s)"
  have b: "se_block_bits_per_entry s \<le> 15" "?b \<le> 15"
    using complete by (simp_all add: section_complete_def section_shaped_def word_le_nat_alt)
  obtain w where w: "section_packed s index = Some w"
    "\<And>k. k < ?b \<Longrightarrow> stream_bit (se_block_data s) (block_start s index + k) = bit w k"
    using packed_bits [OF complete False index] by blast
  define raw where "raw = w AND (push_bit ?b 1 - 1)"
  have value_raw: "unat raw = block_value s index"
    unfolding block_value_def raw_def by (rule unat_mask_horner) (use b w(2) in auto)
  have "raw = take_bit ?b w"
    by (simp add: raw_def take_bit_eq_mask mask_eq_exp_minus_1 push_bit_eq_mult)
  then have "unat raw < 2 ^ ?b" by (simp add: unsigned_take_bit_eq)
  also have "(2 :: nat) ^ ?b \<le> 2 ^ 15" using b by (intro power_increasing) simp_all
  finally have small: "\<not> unat raw > INT32_MAX" by (simp add: INT32_MAX_def)
  have narrow: "(ucast raw :: i32) = of_nat (unat raw)" by simp
  have "mc_chunk_section_block_state s index =
      (if se_block_palette_count s = 0 then
         (if unat raw > INT32_MAX then None else Some (ucast raw))
       else if unat raw \<ge> unat (se_block_palette_count s) then None
       else typed_palette_entry (se_block_palette s) (unat raw))"
  proof -
    have "\<not> (4096 \<le> index \<or> 15 < se_block_bits_per_entry s)" using index b(1) by (simp add: not_less)
    then show ?thesis
      unfolding mc_chunk_section_block_state_def w option.case Let_def raw_def [symmetric] using False by simp
  qed
  then show ?thesis
    using False small by (simp only: narrow value_raw if_False refl)
qed

end
