(* ===== verification/Replay.thy ===== *)
theory Replay
  imports Typed_Dispatch
begin

text \<open>
  The deterministic replay format of \<open>api.c\<close> (\<open>mc_replay_reader_init\<close>, \<open>mc_replay_reader_next\<close>,
  \<open>mc_replay_reader_finish\<close>): a header with magic, version, flags, protocol and record count, then
  the records. The source's replay reader holds a second pointer to the same error record as its
  body reader; here both are the sink of the body reader. A reference writer of the format is
  defined with it, for the round trip.
\<close>

subsection \<open>The reader\<close>

definition MC_REPLAY_MAGIC_SIZE :: nat where "MC_REPLAY_MAGIC_SIZE = 4"
definition MC_DEFAULT_MAX_FRAME_SIZE :: nat where "MC_DEFAULT_MAX_FRAME_SIZE = 16 * 1024 * 1024"
definition MC_REPLAY_FORMAT_VERSION :: u16 where "MC_REPLAY_FORMAT_VERSION = 1"

text \<open>The literal \<^verbatim>\<open>"MCTR"\<close>.\<close>

definition replay_magic :: "u8 list" where
  "replay_magic = [0x4d, 0x43, 0x54, 0x52]"

record mc_replay_record =
  rr_direction :: mc_direction
  rr_state :: mc_state
  rr_delta_time_ns :: u64
  rr_packet_id :: i32
  rr_payload :: "u8 list"

record mc_replay_reader =
  ry_reader :: mc_reader
  ry_protocol :: int
  ry_record_count :: u32
  ry_record_index :: u32

definition replay_header :: "(u16 \<times> u16 \<times> u32 \<times> u32) rd" where
  "replay_header =
     rd_bind (rd_such (mc_reader_bytes MC_REPLAY_MAGIC_SIZE) (\<lambda>magic. magic = replay_magic)) (\<lambda>_.
     rd_bind mc_reader_u16 (\<lambda>version. rd_bind mc_reader_u16 (\<lambda>flags.
     rd_bind mc_reader_u32 (\<lambda>protocol_bits. rd_bind mc_reader_u32 (\<lambda>count.
     rd_return (version, flags, protocol_bits, count))))))"

text \<open>
  The new reader if the header is accepted, and the error record. \<open>reader_out\<close> tells whether the
  output pointer is set.
\<close>

definition mc_replay_reader_init ::
  "bool \<Rightarrow> buffer \<Rightarrow> mc_error option \<Rightarrow> mc_replay_reader option \<times> mc_error option" where
  "mc_replay_reader_init reader_out data error =
     (let e = map_option (\<lambda>_. mc_error_clear) error in
      if \<not> reader_out \<or> (buf_null data \<and> buf_size data \<noteq> 0)
      then (None, map_option (record_error MC_ERROR_INVALID_ARGUMENT MC_ERROR_OFFSET_UNKNOWN) e)
      else
        (case replay_header (mc_reader_init_mode data MC_DECODE_STRICT e) of
           (None, r) \<Rightarrow>
             (None, map_option (\<lambda>e. if er_code e = MC_ERROR_NONE
                then record_error MC_ERROR_INVALID_PACKET_BODY (rd_offset r) e else e) (rd_error r))
         | (Some (version, flags, protocol_bits, count), r) \<Rightarrow>
             let protocol = sint protocol_bits in
             if version \<noteq> MC_REPLAY_FORMAT_VERSION \<or> flags \<noteq> 0 \<or> \<not> mc_protocol_supported protocol
                \<or> unat count > MC_MAX_PACKET_ARRAY_COUNT
             then (None, map_option (\<lambda>e.
                     (record_error
                        (if \<not> mc_protocol_supported protocol then MC_ERROR_UNSUPPORTED_PROTOCOL
                         else MC_ERROR_INVALID_PACKET_BODY) (rd_offset r) e)
                     \<lparr>er_protocol := protocol\<rparr>) (rd_error r))
             else
               let noted = r\<lparr>rd_error := map_option (\<lambda>e. e\<lparr>er_protocol := protocol\<rparr>) (rd_error r)\<rparr>
               in (Some \<lparr>ry_reader = noted, ry_protocol = protocol, ry_record_count = count,
                     ry_record_index = 0\<rparr>, rd_error noted)))"

text \<open>The fixed fields of a record, and the note of its packet in the error record.\<close>

definition replay_fields :: "(u8 \<times> u8 \<times> u64 \<times> u32 \<times> u32) rd" where
  "replay_fields =
     rd_bind mc_reader_u8 (\<lambda>direction. rd_bind mc_reader_u8 (\<lambda>state.
     rd_bind mc_reader_u64 (\<lambda>delta. rd_bind mc_reader_u32 (\<lambda>packet_bits.
     rd_bind mc_reader_u32 (\<lambda>payload_size.
     rd_return (direction, state, delta, packet_bits, payload_size))))))"

definition replay_note :: "int \<Rightarrow> mc_state \<Rightarrow> mc_direction \<Rightarrow> i32 \<Rightarrow> mc_reader \<Rightarrow> mc_reader" where
  "replay_note protocol state direction packet_id r =
     r\<lparr>rd_error := map_option (error_at protocol state direction packet_id) (rd_error r)\<rparr>"

definition replay_body :: "int \<Rightarrow> u8 \<times> u8 \<times> u64 \<times> u32 \<times> u32 \<Rightarrow> mc_replay_record rd" where
  "replay_body protocol fixed =
     (case fixed of (direction_byte, state_byte, delta, packet_bits, payload_size) \<Rightarrow>
        let direction = mc_direction_of (uint direction_byte);
            state = mc_state_of (uint state_byte)
        in rd_bind (rd_test (\<not> ((direction \<noteq> MC_PACKET_SERVERBOUND \<and> direction \<noteq> MC_PACKET_CLIENTBOUND)
             \<or> \<not> mc_state_listed state \<or> unat payload_size > MC_DEFAULT_MAX_FRAME_SIZE
             \<or> mc_packet_name protocol state direction packet_bits = None))) (\<lambda>_.
           rd_bind (mc_reader_bytes (unat payload_size)) (\<lambda>payload.
           rd_return \<lparr>rr_direction = direction, rr_state = state, rr_delta_time_ns = delta,
             rr_packet_id = packet_bits, rr_payload = payload\<rparr>)))"

text \<open>
  \<open>mc_replay_reader_next\<close> on two set pointers. Past the last record it changes nothing; on a reader
  that has failed with records left, \<open>reader_fail\<close> has no effect either.
\<close>

definition mc_replay_reader_next ::
  "mc_replay_reader \<Rightarrow> mc_replay_record option \<times> mc_replay_reader" where
  "mc_replay_reader_next rp =
     (if ry_record_index rp \<ge> ry_record_count rp then (None, rp)
      else if rd_failed (ry_reader rp)
      then (None, rp\<lparr>ry_reader := snd (reader_fail MC_ERROR_INVALID_ARGUMENT
             (rd_offset (ry_reader rp)) (ry_reader rp) :: unit option \<times> mc_reader)\<rparr>)
      else
        (case replay_fields (ry_reader rp) of
           (None, r) \<Rightarrow> (None, rp\<lparr>ry_reader := r\<rparr>)
         | (Some fixed, r) \<Rightarrow>
             let (direction, state, delta, packet_bits, payload_size) = fixed;
                 note = replay_note (ry_protocol rp) (mc_state_of (uint state))
                          (mc_direction_of (uint direction)) packet_bits
             in (case replay_body (ry_protocol rp) fixed r of
                   (None, r') \<Rightarrow>
                     (None, rp\<lparr>ry_reader := snd (typed_invalid (note r') :: unit option \<times> mc_reader)\<rparr>)
                 | (Some decoded, r') \<Rightarrow>
                     (Some decoded, rp\<lparr>ry_reader := note r',
                        ry_record_index := ry_record_index rp + 1\<rparr>))))"

definition mc_replay_reader_finish :: "mc_replay_reader \<Rightarrow> unit option \<times> mc_replay_reader" where
  "mc_replay_reader_finish rp =
     (let (result, r) =
        (if ry_record_index rp \<noteq> ry_record_count rp
         then reader_fail MC_ERROR_PARTIAL_INPUT (rd_offset (ry_reader rp)) (ry_reader rp)
         else mc_reader_finish (ry_reader rp))
      in (result, rp\<lparr>ry_reader := r\<rparr>))"

subsection \<open>The format\<close>

text \<open>
  The specification: what a replay of some records looks like. \<open>replay_read\<close> is a client of the
  three operations that reads every record.
\<close>

definition direction_byte :: "mc_direction \<Rightarrow> u8" where
  "direction_byte direction = (if direction = MC_PACKET_CLIENTBOUND then 1 else 0)"

definition state_byte :: "mc_state \<Rightarrow> u8" where
  "state_byte state =
     (if state = MC_STATE_LOGIN then 1 else if state = MC_STATE_CONFIGURATION then 2
      else if state = MC_STATE_PLAY then 3 else 4)"

definition replay_fixed :: "mc_replay_record \<Rightarrow> u8 \<times> u8 \<times> u64 \<times> u32 \<times> u32" where
  "replay_fixed x =
     (direction_byte (rr_direction x), state_byte (rr_state x), rr_delta_time_ns x, rr_packet_id x,
      of_nat (length (rr_payload x)))"

fun replay_fixed_bytes :: "u8 \<times> u8 \<times> u64 \<times> u32 \<times> u32 \<Rightarrow> u8 list" where
  "replay_fixed_bytes (direction, state, delta, packet_id, payload_size) =
     [direction, state] @ be_bytes 8 delta @ be_bytes 4 packet_id @ be_bytes 4 payload_size"

definition replay_record_bytes :: "mc_replay_record \<Rightarrow> u8 list" where
  "replay_record_bytes x = replay_fixed_bytes (replay_fixed x) @ rr_payload x"

definition replay_record_valid :: "int \<Rightarrow> mc_replay_record \<Rightarrow> bool" where
  "replay_record_valid protocol x \<longleftrightarrow>
     (rr_direction x = MC_PACKET_SERVERBOUND \<or> rr_direction x = MC_PACKET_CLIENTBOUND)
     \<and> mc_state_listed (rr_state x) \<and> length (rr_payload x) \<le> MC_DEFAULT_MAX_FRAME_SIZE
     \<and> mc_packet_name protocol (rr_state x) (rr_direction x) (rr_packet_id x) \<noteq> None"

definition replay_header_bytes :: "u16 \<times> u16 \<times> u32 \<times> u32 \<Rightarrow> u8 list" where
  "replay_header_bytes h =
     (case h of (version, flags, protocol_bits, count) \<Rightarrow>
        replay_magic @ be_bytes 2 version @ be_bytes 2 flags @ be_bytes 4 protocol_bits
        @ be_bytes 4 count)"

definition replay_bytes :: "int \<Rightarrow> mc_replay_record list \<Rightarrow> u8 list" where
  "replay_bytes protocol records =
     replay_header_bytes (MC_REPLAY_FORMAT_VERSION, 0, of_int protocol, of_nat (length records))
     @ concat (map replay_record_bytes records)"

fun replay_collect ::
  "nat \<Rightarrow> mc_replay_reader \<Rightarrow> (mc_replay_record list \<times> mc_replay_reader) option" where
  "replay_collect 0 rp = Some ([], rp)"
| "replay_collect (Suc n) rp =
     (case mc_replay_reader_next rp of (None, _) \<Rightarrow> None
      | (Some x, rp') \<Rightarrow> map_option (\<lambda>(xs, rp''). (x # xs, rp'')) (replay_collect n rp'))"

definition replay_read :: "buffer \<Rightarrow> mc_error option \<Rightarrow> (int \<times> mc_replay_record list) option" where
  "replay_read data error =
     (case mc_replay_reader_init True data error of (None, _) \<Rightarrow> None
      | (Some rp, _) \<Rightarrow>
          (case replay_collect (unat (ry_record_count rp)) rp of None \<Rightarrow> None
           | Some (records, rp') \<Rightarrow>
               if fst (mc_replay_reader_finish rp') = Some () then Some (ry_protocol rp, records)
               else None))"

subsection \<open>Bytes and fields\<close>

lemma parses_replay_header:
  "rd_parses replay_header (replay_header_bytes (version, flags, protocol_bits, count))
     (version, flags, protocol_bits, count)"
proof -
  have magic: "rd_parses (mc_reader_bytes MC_REPLAY_MAGIC_SIZE) replay_magic replay_magic"
  proof -
    have "length replay_magic = MC_REPLAY_MAGIC_SIZE"
      by (simp add: MC_REPLAY_MAGIC_SIZE_def replay_magic_def)
    then show ?thesis using parses_bytes [of replay_magic] by simp
  qed
  have "rd_parses replay_header
      (replay_magic @ be_bytes 2 version @ be_bytes 2 flags @ be_bytes 4 protocol_bits
        @ be_bytes 4 count @ []) (version, flags, protocol_bits, count)"
    unfolding replay_header_def
    by (rule parses_bind [OF parses_such [OF magic refl]], rule parses_bind [OF parses_u16],
        rule parses_bind [OF parses_u16], rule parses_bind [OF parses_u32],
        rule parses_bind [OF parses_u32], rule parses_return)
  then show ?thesis by (simp add: replay_header_bytes_def)
qed

lemma parses_replay_fields: "rd_parses replay_fields (replay_fixed_bytes fixed) fixed"
proof -
  obtain a b c d e where f: "fixed = (a, b, c, d, e)" by (cases fixed)
  have "rd_parses replay_fields ([a] @ [b] @ be_bytes 8 c @ be_bytes 4 d @ be_bytes 4 e @ []) fixed"
    unfolding replay_fields_def f
    by (rule parses_bind [OF parses_u8], rule parses_bind [OF parses_u8],
        rule parses_bind [OF parses_u64], rule parses_bind [OF parses_u32],
        rule parses_bind [OF parses_u32], rule parses_return)
  then show ?thesis by (simp add: f)
qed

lemma direction_byte_round:
  "direction = MC_PACKET_SERVERBOUND \<or> direction = MC_PACKET_CLIENTBOUND
   \<Longrightarrow> mc_direction_of (uint (direction_byte direction)) = direction"
  by (auto simp: mc_direction_of_def direction_byte_def)

lemma state_byte_round: "mc_state_listed state \<Longrightarrow> mc_state_of (uint (state_byte state)) = state"
  by (auto simp: mc_state_of_def state_byte_def mc_state_listed_def)

lemma byte_of_uint: "uint (b :: u8) = k \<Longrightarrow> b = of_int k"
  by auto

lemma byte_of_direction:
  assumes "mc_direction_of (uint b) = direction"
    and "direction = MC_PACKET_SERVERBOUND \<or> direction = MC_PACKET_CLIENTBOUND"
  shows "direction_byte direction = b"
  using assms by (auto simp: mc_direction_of_def direction_byte_def split: if_splits
      dest: byte_of_uint)

lemma byte_of_state:
  assumes "mc_state_of (uint b) = state" and "mc_state_listed state"
  shows "state_byte state = b"
  using assms by (auto simp: mc_state_of_def state_byte_def mc_state_listed_def split: if_splits
      dest: byte_of_uint)

lemma parses_replay_body:
  assumes "replay_record_valid protocol x"
  shows "rd_parses (replay_body protocol (replay_fixed x)) (rr_payload x) x"
proof -
  have "length (rr_payload x) < 2 ^ 32"
    using assms by (simp add: replay_record_valid_def MC_DEFAULT_MAX_FRAME_SIZE_def)
  then have n: "unat (of_nat (length (rr_payload x)) :: u32) = length (rr_payload x)"
    by (simp add: unat_of_nat take_bit_nat_eq_self)
  have d: "mc_direction_of (uint (direction_byte (rr_direction x))) = rr_direction x"
    and s: "mc_state_of (uint (state_byte (rr_state x))) = rr_state x"
    using assms by (simp_all add: replay_record_valid_def direction_byte_round state_byte_round)
  have "rd_parses (replay_body protocol (replay_fixed x)) (rr_payload x @ []) x"
    unfolding replay_body_def replay_fixed_def prod.case Let_def d s n
  proof (rule parses_bind_test)
    show "rd_parses (rd_bind (mc_reader_bytes (length (rr_payload x)))
        (\<lambda>payload. rd_return \<lparr>rr_direction = rr_direction x, rr_state = rr_state x,
          rr_delta_time_ns = rr_delta_time_ns x, rr_packet_id = rr_packet_id x,
          rr_payload = payload\<rparr>)) (rr_payload x @ []) x"
      by (rule parses_bind [OF parses_bytes]) (cases x, simp add: parses_return)
  qed (use assms in \<open>auto simp: replay_record_valid_def\<close>)
  then show ?thesis by simp
qed

lemma accepts_such: "rd_accepts m P \<Longrightarrow> rd_accepts (rd_such m c) (\<lambda>bs x. P bs x \<and> c x)"
  unfolding rd_such_def
  by (rule accepts_bind, assumption, rule accepts_bind [OF accepts_test], rule accepts_return) simp

lemma accepts_replay_header:
  "rd_accepts replay_header (\<lambda>bs h. bs = replay_header_bytes h)"
  unfolding replay_header_def
  by (intro accepts_bind [OF accepts_such [OF accepts_bytes]] accepts_bind [OF accepts_u16]
      accepts_bind [OF accepts_u32] accepts_return)
    (simp add: replay_header_bytes_def)

lemma accepts_u64: "rd_accepts mc_reader_u64 (\<lambda>bs x. bs = be_bytes 8 x)"
  unfolding mc_reader_u64_def by (rule accepts_be) simp

lemma accepts_replay_fields: "rd_accepts replay_fields (\<lambda>bs f. bs = replay_fixed_bytes f)"
  unfolding replay_fields_def
  by (intro accepts_bind [OF accepts_u8] accepts_bind [OF accepts_u64] accepts_bind [OF accepts_u32]
      accepts_return) simp

lemma accepts_replay_body:
  "rd_accepts (replay_body protocol fixed)
     (\<lambda>bs x. bs = rr_payload x \<and> fixed = replay_fixed x \<and> replay_record_valid protocol x)"
proof -
  obtain a b c d e where f: "fixed = (a, b, c, d, e)" by (cases fixed)
  show ?thesis
    unfolding f replay_body_def prod.case Let_def
    by (rule accepts_bind [OF accepts_test], rule accepts_bind [OF accepts_bytes], rule accepts_return)
      (auto simp: replay_fixed_def replay_record_valid_def byte_of_direction byte_of_state)
qed

subsection \<open>One record\<close>

definition replay_advance :: "mc_replay_reader \<Rightarrow> mc_replay_record \<Rightarrow> mc_replay_reader" where
  "replay_advance rp x =
     rp\<lparr>ry_reader := replay_note (ry_protocol rp) (rr_state x) (rr_direction x) (rr_packet_id x)
          (rd_advance (length (replay_record_bytes x)) (ry_reader rp)),
        ry_record_index := ry_record_index rp + 1\<rparr>"

lemma replay_note_simps [simp]:
  "rd_data (replay_note p s d i r) = rd_data r" "rd_offset (replay_note p s d i r) = rd_offset r"
  "rd_failed (replay_note p s d i r) = rd_failed r" "rd_mode (replay_note p s d i r) = rd_mode r"
  "rd_ok (replay_note p s d i r) = rd_ok r"
  by (simp_all add: replay_note_def rd_ok_def)

lemma replay_advance_simps [simp]:
  "ry_protocol (replay_advance rp x) = ry_protocol rp"
  "ry_record_count (replay_advance rp x) = ry_record_count rp"
  "ry_record_index (replay_advance rp x) = ry_record_index rp + 1"
  "rd_data (ry_reader (replay_advance rp x)) = rd_data (ry_reader rp)"
  "rd_failed (ry_reader (replay_advance rp x)) = rd_failed (ry_reader rp)"
  "rd_mode (ry_reader (replay_advance rp x)) = rd_mode (ry_reader rp)"
  "rd_offset (ry_reader (replay_advance rp x)) = rd_offset (ry_reader rp) + length (replay_record_bytes x)"
  by (simp_all add: replay_advance_def)

abbreviation replay_rest :: "mc_replay_reader \<Rightarrow> u8 list" where
  "replay_rest rp \<equiv> drop (rd_offset (ry_reader rp)) (rd_data (ry_reader rp))"

lemma replay_next_reads:
  assumes live: "\<not> rd_failed (ry_reader rp)" and ok: "rd_ok (ry_reader rp)"
    and left: "ry_record_index rp < ry_record_count rp"
    and valid: "replay_record_valid (ry_protocol rp) x"
    and input: "replay_rest rp = replay_record_bytes x @ more_bytes"
  shows "mc_replay_reader_next rp = (Some x, replay_advance rp x)"
proof -
  let ?r = "ry_reader rp" and ?f = "replay_fixed x"
  have input': "replay_rest rp = replay_fixed_bytes ?f @ rr_payload x @ more_bytes"
    using input by (simp add: replay_record_bytes_def)
  let ?r1 = "rd_advance (length (replay_fixed_bytes ?f)) ?r"
  have 1: "replay_fields ?r = (Some ?f, ?r1)"
    by (rule rd_parsesD [OF parses_replay_fields live ok input'])
  have ok1: "rd_ok ?r1" by (rule rd_ok_advance [OF ok input'])
  have 2: "replay_body (ry_protocol rp) ?f ?r1 = (Some x, rd_advance (length (rr_payload x)) ?r1)"
    by (rule rd_parsesD [OF parses_replay_body [OF valid] _ ok1 drop_advance [OF input']])
      (simp add: live)
  have "mc_direction_of (uint (direction_byte (rr_direction x))) = rr_direction x"
    and "mc_state_of (uint (state_byte (rr_state x))) = rr_state x"
    using valid by (simp_all add: replay_record_valid_def direction_byte_round state_byte_round)
  moreover have f: "?f = (direction_byte (rr_direction x), state_byte (rr_state x),
      rr_delta_time_ns x, rr_packet_id x, of_nat (length (rr_payload x)))"
    by (simp add: replay_fixed_def)
  ultimately show ?thesis
    unfolding mc_replay_reader_next_def using left live 1 2
    by (simp add: f replay_advance_def replay_record_bytes_def Let_def not_le)
qed

lemma replay_next_only:
  assumes run: "mc_replay_reader_next rp = (Some x, rp')" and ok: "rd_ok (ry_reader rp)"
  shows "replay_record_valid (ry_protocol rp) x \<and> rp' = replay_advance rp x
    \<and> rd_ok (ry_reader rp') \<and> ry_record_index rp < ry_record_count rp
    \<and> \<not> rd_failed (ry_reader rp) \<and> replay_rest rp = replay_record_bytes x @ replay_rest rp'"
proof -
  let ?r = "ry_reader rp"
  have left: "ry_record_index rp < ry_record_count rp" and live: "\<not> rd_failed ?r"
    using run by (auto simp: mc_replay_reader_next_def split: if_splits)
  then have started: "\<not> ry_record_count rp \<le> ry_record_index rp" by simp
  note step = run [unfolded mc_replay_reader_next_def, simplified started live, simplified]
  obtain f r1 where 1: "replay_fields ?r = (Some f, r1)"
    using step by (auto split: prod.splits option.splits)
  obtain a b c d e where f: "f = (a, b, c, d, e)" by (cases f)
  obtain r2 where 2: "replay_body (ry_protocol rp) f r1 = (Some x, r2)"
    and rp': "rp' = rp\<lparr>ry_reader := replay_note (ry_protocol rp) (mc_state_of (uint b))
        (mc_direction_of (uint a)) d r2, ry_record_index := ry_record_index rp + 1\<rparr>"
    using step by (auto simp: 1 f Let_def split: prod.splits option.splits)
  obtain bs where bs: "bs = replay_fixed_bytes f" "r1 = rd_advance (length bs) ?r"
      "drop (rd_offset ?r) (rd_data ?r) = bs @ drop (rd_offset r1) (rd_data ?r)"
    using accepts_replay_fields ok 1 unfolding rd_accepts_def by blast
  have ok1: "rd_ok r1" unfolding bs(2) by (rule rd_ok_advance [OF ok bs(3)])
  obtain cs where cs: "cs = rr_payload x \<and> f = replay_fixed x \<and> replay_record_valid (ry_protocol rp) x"
      "r2 = rd_advance (length cs) r1"
      "drop (rd_offset r1) (rd_data r1) = cs @ drop (rd_offset r2) (rd_data r1)"
    using accepts_replay_body ok1 2 unfolding rd_accepts_def by blast
  have ok2: "rd_ok r2" unfolding cs(2) by (rule rd_ok_advance [OF ok1 cs(3)])
  have "mc_state_of (uint b) = rr_state x" "mc_direction_of (uint a) = rr_direction x"
      "d = rr_packet_id x"
    using cs(1) f by (auto simp: replay_fixed_def replay_record_valid_def direction_byte_round
        state_byte_round)
  then have "rp' = replay_advance rp x"
    using bs cs by (simp add: rp' replay_advance_def replay_record_bytes_def)
  moreover have "replay_rest rp = replay_record_bytes x @ replay_rest rp'"
    using bs cs by (simp add: rp' replay_record_bytes_def)
  moreover have "rd_ok (ry_reader rp')" using ok2 by (simp add: rp')
  ultimately show ?thesis using left live cs(1) by blast
qed

subsection \<open>A whole replay\<close>

lemma replay_collect_reads:
  assumes "\<not> rd_failed (ry_reader rp)" and "rd_ok (ry_reader rp)"
    and "unat (ry_record_index rp) + length xs = unat (ry_record_count rp)"
    and "list_all (replay_record_valid (ry_protocol rp)) xs"
    and "replay_rest rp = concat (map replay_record_bytes xs) @ more_bytes"
  shows "replay_collect (length xs) rp = Some (xs, foldl replay_advance rp xs)"
  using assms
proof (induction xs arbitrary: rp)
  case (Cons x xs)
  have less: "ry_record_index rp < ry_record_count rp"
    using Cons.prems(3) by (simp add: word_less_nat_alt)
  have input: "replay_rest rp = replay_record_bytes x @ concat (map replay_record_bytes xs) @ more_bytes"
    using Cons.prems(5) by simp
  have 1: "mc_replay_reader_next rp = (Some x, replay_advance rp x)"
    by (rule replay_next_reads [OF Cons.prems(1,2) less _ input]) (use Cons.prems(4) in simp)
  have "unat (ry_record_index rp + 1) = Suc (unat (ry_record_index rp))"
  proof -
    have "unat (ry_record_index rp) + 1 < 2 ^ LENGTH(32)"
      using less unsigned_less [of "ry_record_count rp", where 'a = nat]
      by (simp add: word_less_nat_alt)
    then show ?thesis by (simp add: unat_word_ariths)
  qed
  then have "replay_collect (length xs) (replay_advance rp x)
      = Some (xs, foldl replay_advance (replay_advance rp x) xs)"
    using Cons.prems rd_ok_advance [OF Cons.prems(2) input] drop_advance [OF input]
    by (intro Cons.IH) (simp_all add: replay_advance_def)
  then show ?case using 1 by simp
qed simp

lemma replay_collect_only:
  assumes "replay_collect n rp = Some (xs, rp')" and "rd_ok (ry_reader rp)"
  shows "length xs = n \<and> list_all (replay_record_valid (ry_protocol rp)) xs
    \<and> rp' = foldl replay_advance rp xs \<and> rd_ok (ry_reader rp')
    \<and> replay_rest rp = concat (map replay_record_bytes xs) @ replay_rest rp'"
  using assms
proof (induction n arbitrary: rp xs)
  case (Suc n)
  obtain x rp1 ys where x: "mc_replay_reader_next rp = (Some x, rp1)"
    and ys: "replay_collect n rp1 = Some (ys, rp')" "xs = x # ys"
    using Suc.prems(1) by (auto split: prod.splits option.splits)
  note head = replay_next_only [OF x Suc.prems(2)]
  then have "rd_ok (ry_reader rp1)" by blast
  from Suc.IH [OF ys(1) this] head show ?case by (auto simp: ys(2))
qed auto

lemma foldl_advance_simps [simp]:
  "ry_protocol (foldl replay_advance rp xs) = ry_protocol rp"
  "ry_record_count (foldl replay_advance rp xs) = ry_record_count rp"
  "ry_record_index (foldl replay_advance rp xs) = ry_record_index rp + of_nat (length xs)"
  "rd_data (ry_reader (foldl replay_advance rp xs)) = rd_data (ry_reader rp)"
  "rd_failed (ry_reader (foldl replay_advance rp xs)) = rd_failed (ry_reader rp)"
  "rd_offset (ry_reader (foldl replay_advance rp xs))
     = rd_offset (ry_reader rp) + length (concat (map replay_record_bytes xs))"
  by (induction xs arbitrary: rp) simp_all

subsection \<open>The header\<close>

definition replay_start :: "int \<Rightarrow> u32 \<Rightarrow> u8 list \<Rightarrow> mc_error option \<Rightarrow> mc_replay_reader" where
  "replay_start protocol count bs error =
     \<lparr>ry_reader = \<lparr>rd_data = bs, rd_offset = 16, rd_failed = False, rd_mode = MC_DECODE_STRICT,
        rd_error = map_option (\<lambda>_. mc_error_clear\<lparr>er_protocol := protocol\<rparr>) error\<rparr>,
      ry_protocol = protocol, ry_record_count = count, ry_record_index = 0\<rparr>"

lemma length_replay_header: "length (replay_header_bytes h) = 16"
  by (cases h) (simp add: replay_header_bytes_def replay_magic_def)

lemma supported_bits: "mc_protocol_supported protocol \<Longrightarrow> sint (of_int protocol :: i32) = protocol"
  using supported_bounds [of protocol] by (simp add: signed_of_int signed_take_bit_int_eq_self)

lemma replay_init_reads:
  assumes "mc_protocol_supported protocol" and "unat count \<le> MC_MAX_PACKET_ARRAY_COUNT"
  shows "mc_replay_reader_init True
      (Buf (replay_header_bytes (MC_REPLAY_FORMAT_VERSION, 0, of_int protocol, count) @ bs)) error
    = (Some (replay_start protocol count
         (replay_header_bytes (MC_REPLAY_FORMAT_VERSION, 0, of_int protocol, count) @ bs) error),
       map_option (\<lambda>_. mc_error_clear\<lparr>er_protocol := protocol\<rparr>) error)"
proof -
  let ?h = "(MC_REPLAY_FORMAT_VERSION, 0 :: u16, of_int protocol :: u32, count)"
  let ?r = "mc_reader_init_mode (Buf (replay_header_bytes ?h @ bs)) MC_DECODE_STRICT
      (map_option (\<lambda>_. mc_error_clear) error)"
  have r: "?r = \<lparr>rd_data = replay_header_bytes ?h @ bs, rd_offset = 0, rd_failed = False,
      rd_mode = MC_DECODE_STRICT, rd_error = map_option (\<lambda>_. mc_error_clear) error\<rparr>"
    by (simp add: mc_reader_init_mode_def Let_def option.map_comp comp_def)
  have "replay_header ?r = (Some ?h, rd_advance (length (replay_header_bytes ?h)) ?r)"
    by (rule rd_parsesD [OF parses_replay_header]) (simp_all add: r rd_ok_def)
  then show ?thesis
    using assms unfolding mc_replay_reader_init_def
    by (simp add: length_replay_header r rd_advance_def replay_start_def supported_bits Let_def
        option.map_comp comp_def)
qed

lemma replay_init_only:
  assumes run: "mc_replay_reader_init True (Buf bs) error = (Some rp, e)"
  shows "\<exists>protocol count. mc_protocol_supported protocol \<and> unat count \<le> MC_MAX_PACKET_ARRAY_COUNT
    \<and> rp = replay_start protocol count bs error
    \<and> bs = replay_header_bytes (MC_REPLAY_FORMAT_VERSION, 0, of_int protocol, count) @ drop 16 bs"
proof -
  let ?r = "mc_reader_init_mode (Buf bs) MC_DECODE_STRICT (map_option (\<lambda>_. mc_error_clear) error)"
  have r: "?r = \<lparr>rd_data = bs, rd_offset = 0, rd_failed = False,
      rd_mode = MC_DECODE_STRICT, rd_error = map_option (\<lambda>_. mc_error_clear) error\<rparr>"
    by (simp add: mc_reader_init_mode_def Let_def option.map_comp comp_def)
  have ok: "rd_ok ?r" by (simp add: r rd_ok_def)
  obtain h r1 where h: "replay_header ?r = (Some h, r1)"
    using run by (auto simp: mc_replay_reader_init_def Let_def split: prod.splits option.splits)
  obtain version flags protocol_bits count where h': "h = (version, flags, protocol_bits, count)"
    by (cases h)
  obtain cs where cs: "cs = replay_header_bytes h" "r1 = rd_advance (length cs) ?r"
      "drop (rd_offset ?r) (rd_data ?r) = cs @ drop (rd_offset r1) (rd_data ?r)"
    using accepts_replay_header ok h unfolding rd_accepts_def by blast
  have sup: "mc_protocol_supported (sint protocol_bits)" and version: "version = MC_REPLAY_FORMAT_VERSION"
    and flags: "flags = 0" and count: "unat count \<le> MC_MAX_PACKET_ARRAY_COUNT"
    using run h by (auto simp: mc_replay_reader_init_def Let_def h' split: if_splits)
  have "rp = replay_start (sint protocol_bits) count bs error"
    using run h sup version flags count cs(1,2)
    by (auto simp: mc_replay_reader_init_def Let_def h' replay_start_def r rd_advance_def
        length_replay_header option.map_comp comp_def)
  moreover have "bs = replay_header_bytes (MC_REPLAY_FORMAT_VERSION, 0, of_int (sint protocol_bits), count)
      @ drop 16 bs"
    using cs by (simp add: r h' version flags length_replay_header)
  ultimately show ?thesis using sup count by blast
qed

lemma replay_start_simps [simp]:
  "ry_protocol (replay_start protocol count bs error) = protocol"
  "ry_record_count (replay_start protocol count bs error) = count"
  "ry_record_index (replay_start protocol count bs error) = 0"
  "rd_data (ry_reader (replay_start protocol count bs error)) = bs"
  "rd_offset (ry_reader (replay_start protocol count bs error)) = 16"
  "\<not> rd_failed (ry_reader (replay_start protocol count bs error))"
  by (simp_all add: replay_start_def)

subsection \<open>Any sequence of calls\<close>

text \<open>
  A replay reader after \<open>mc_replay_reader_init\<close> and any calls of the other two operations, with the
  input and the records returned so far.
\<close>

inductive replay_reachable :: "u8 list \<Rightarrow> mc_replay_reader \<Rightarrow> mc_replay_record list \<Rightarrow> bool" where
  replay_opened: "mc_replay_reader_init True (Buf bs) error = (Some rp, e) \<Longrightarrow> replay_reachable bs rp []"
| replay_returned: "replay_reachable bs rp xs \<Longrightarrow> mc_replay_reader_next rp = (Some x, rp')
    \<Longrightarrow> replay_reachable bs rp' (xs @ [x])"
| replay_stopped: "replay_reachable bs rp xs \<Longrightarrow> mc_replay_reader_next rp = (None, rp')
    \<Longrightarrow> replay_reachable bs rp' xs"
| replay_finished: "replay_reachable bs rp xs \<Longrightarrow> mc_replay_reader_finish rp = (result, rp')
    \<Longrightarrow> replay_reachable bs rp' xs"

definition replay_inv :: "u8 list \<Rightarrow> mc_replay_reader \<Rightarrow> mc_replay_record list \<Rightarrow> bool" where
  "replay_inv bs rp xs \<longleftrightarrow>
     rd_data (ry_reader rp) = bs \<and> rd_ok (ry_reader rp)
     \<and> unat (ry_record_index rp) = length xs \<and> length xs \<le> unat (ry_record_count rp)
     \<and> unat (ry_record_count rp) \<le> MC_MAX_PACKET_ARRAY_COUNT
     \<and> list_all (replay_record_valid (ry_protocol rp)) xs
     \<and> (\<exists>rest. replay_header_bytes
           (MC_REPLAY_FORMAT_VERSION, 0, of_int (ry_protocol rp), ry_record_count rp)
         @ concat (map replay_record_bytes xs) @ rest = bs
         \<and> (\<not> rd_failed (ry_reader rp) \<longrightarrow> replay_rest rp = rest))"

lemma replay_inv_opened:
  assumes "mc_replay_reader_init True (Buf bs) error = (Some rp, e)"
  shows "replay_inv bs rp []"
  using replay_init_only [OF assms]
proof (elim exE conjE)
  fix protocol count
  let ?h = "replay_header_bytes (MC_REPLAY_FORMAT_VERSION, 0, of_int protocol, count)"
  assume count: "unat count \<le> MC_MAX_PACKET_ARRAY_COUNT"
    and rp: "rp = replay_start protocol count bs error" and bs: "bs = ?h @ drop 16 bs"
  have "16 \<le> length bs"
    using arg_cong [OF bs, of length] by (simp add: length_replay_header)
  then show ?thesis
    using count bs by (simp add: replay_inv_def rp rd_ok_def)
qed

lemma replay_inv_returned:
  assumes inv: "replay_inv bs rp xs" and run: "mc_replay_reader_next rp = (Some x, rp')"
  shows "replay_inv bs rp' (xs @ [x])"
proof -
  have ok: "rd_ok (ry_reader rp)" using inv by (simp add: replay_inv_def)
  note step = replay_next_only [OF run ok]
  have "unat (ry_record_index rp) + 1 < 2 ^ LENGTH(32)"
    using step unsigned_less [of "ry_record_count rp", where 'a = nat] by (simp add: word_less_nat_alt)
  then have "unat (ry_record_index rp + 1) = Suc (unat (ry_record_index rp))"
    by (simp add: unat_word_ariths)
  moreover obtain rest where "replay_header_bytes
      (MC_REPLAY_FORMAT_VERSION, 0, of_int (ry_protocol rp), ry_record_count rp)
      @ concat (map replay_record_bytes xs) @ rest = bs" and "replay_rest rp = rest"
    using inv step unfolding replay_inv_def by blast
  then have "replay_header_bytes
      (MC_REPLAY_FORMAT_VERSION, 0, of_int (ry_protocol rp), ry_record_count rp)
      @ concat (map replay_record_bytes (xs @ [x])) @ replay_rest rp' = bs"
    using step by simp
  moreover have "length xs < unat (ry_record_count rp)"
    using inv step by (simp add: replay_inv_def word_less_nat_alt)
  ultimately show ?thesis using inv step unfolding replay_inv_def by auto
qed

lemma replay_inv_change:
  assumes "replay_inv bs rp xs" and "rd_data r = rd_data (ry_reader rp)" and "rd_ok r"
    and "\<not> rd_failed r \<Longrightarrow> \<not> rd_failed (ry_reader rp) \<and> rd_offset r = rd_offset (ry_reader rp)"
  shows "replay_inv bs (rp\<lparr>ry_reader := r\<rparr>) xs"
  using assms unfolding replay_inv_def by simp metis

lemma checked_replay_fields: "checked_op replay_fields"
  unfolding replay_fields_def by (intro rd_checked)

lemma reader_op_replay_body: "reader_op (replay_body protocol fixed)"
  by (cases fixed) (simp add: replay_body_def Let_def, intro rd_ops)

lemma replay_next_none:
  assumes run: "mc_replay_reader_next rp = (None, rp')" and ok: "rd_ok (ry_reader rp)"
  shows "rp' = rp \<or> (\<exists>r. rp' = rp\<lparr>ry_reader := r\<rparr> \<and> rd_data r = rd_data (ry_reader rp) \<and> rd_ok r
           \<and> rd_failed r)"
proof (cases "ry_record_count rp \<le> ry_record_index rp \<or> rd_failed (ry_reader rp)")
  case True
  then show ?thesis
    using run by (auto simp: mc_replay_reader_next_def reader_fail_def reader_fail_state_def split: if_splits)
next
  case False
  then have started: "\<not> ry_record_count rp \<le> ry_record_index rp" and live: "\<not> rd_failed (ry_reader rp)"
    by simp_all
  note step = run [unfolded mc_replay_reader_next_def, simplified started live, simplified]
  note fields_laws = reader_op_laws [OF checked_reader [OF checked_replay_fields]]
  show ?thesis
  proof (cases "replay_fields (ry_reader rp)")
    case (Pair found r1)
    have r1: "rd_data r1 = rd_data (ry_reader rp)" "rd_ok r1" "found = None \<longrightarrow> rd_failed r1"
      using fields_laws(1,4) [of "ry_reader rp"] checked_op.op_none [OF checked_replay_fields, of "ry_reader rp"]
        ok by (simp_all add: Pair)
    show ?thesis
    proof (cases found)
      case None
      then show ?thesis using step Pair r1 by auto
    next
      case (Some fixed)
      obtain a b c d e where f: "fixed = (a, b, c, d, e)" by (cases fixed)
      obtain r2 where r2: "replay_body (ry_protocol rp) fixed r1 = (None, r2)"
        and rp': "rp' = rp\<lparr>ry_reader := snd (typed_invalid (replay_note (ry_protocol rp)
          (mc_state_of (uint b)) (mc_direction_of (uint a)) d r2) :: unit option \<times> mc_reader)\<rparr>"
        using step by (auto simp: Pair Some f Let_def split: prod.splits option.splits)
      have "rd_data r2 = rd_data r1" "rd_ok r2"
        using reader_op_laws(1,4) [OF reader_op_replay_body [of "ry_protocol rp" fixed], of r1] r1
        by (simp_all add: r2)
      then have "rd_data (snd (typed_invalid (replay_note p st d' i r2) :: unit option \<times> mc_reader)) = rd_data r1
          \<and> rd_ok (snd (typed_invalid (replay_note p st d' i r2) :: unit option \<times> mc_reader))
          \<and> rd_failed (snd (typed_invalid (replay_note p st d' i r2) :: unit option \<times> mc_reader))" for p st d' i
        by (simp add: typed_invalid_def rd_here_def reader_fail_def reader_fail_state_def rd_ok_def)
      then show ?thesis using rp' r1(1) by metis
    qed
  qed
qed

lemma replay_inv_stopped:
  assumes inv: "replay_inv bs rp xs" and run: "mc_replay_reader_next rp = (None, rp')"
  shows "replay_inv bs rp' xs"
proof -
  have "rd_ok (ry_reader rp)" using inv by (simp add: replay_inv_def)
  from replay_next_none [OF run this] show ?thesis
    using inv replay_inv_change [OF inv] by auto
qed

lemma replay_inv_finished:
  assumes inv: "replay_inv bs rp xs" and run: "mc_replay_reader_finish rp = (result, rp')"
  shows "replay_inv bs rp' xs"
proof -
  let ?r = "ry_reader rp'"
  have "rp' = rp\<lparr>ry_reader := ?r\<rparr> \<and> rd_data ?r = rd_data (ry_reader rp)
      \<and> rd_offset ?r = rd_offset (ry_reader rp) \<and> (\<not> rd_failed ?r \<longrightarrow> \<not> rd_failed (ry_reader rp))"
    using run by (auto simp: mc_replay_reader_finish_def mc_reader_finish_def reader_fail_def
        reader_fail_state_def split: if_splits)
  moreover have "rd_ok (ry_reader rp)" using inv by (simp add: replay_inv_def)
  ultimately show ?thesis
    using replay_inv_change [OF inv, of ?r] by (simp add: rd_ok_def)
qed

end
