(* ===== verification/Packet_Properties.thy ===== *)
theory Packet_Properties
  imports Action_Codecs Chunk_Laws Replay
begin

text \<open>
  The properties of the packet layer above the field readers: what \<open>mc_decode_packet\<close> reports and
  accepts, the builders against it, the generated pairs of release 776, the canonical views, the
  chunk section lookup and the replay files.
\<close>

section \<open>A concrete packet\<close>

text \<open>The packet the witnesses decode: a block is hit at (1, 64, 2), in release 776.\<close>

definition sample_dig :: mc_block_dig where
  "sample_dig = \<lparr>bd_status = 0, bd_location = \<lparr>pos_x = 1, pos_y = 64, pos_z = 2\<rparr>, bd_face = 1,
     bd_sequence = 5\<rparr>"

lemma supported_776: "mc_protocol_supported 776"
  by (simp add: supported_iff protocol_ids_def)

lemma sample_dig_valid: "dig_valid 776 sample_dig"
  by (simp add: dig_valid_def sample_dig_def supported_776 position_in_range_def)

abbreviation sample_dig_id :: i32 where
  "sample_dig_id \<equiv> mc_packet_id 776 MC_STATE_PLAY MC_PACKET_SERVERBOUND (Some ''block_dig'')"

lemma dig_family: "packet_family_from_table ''block_dig'' serverbound_families = MC_FAMILY_BLOCK_DIG"
  by (simp add: serverbound_families_def)

lemma decode_dig:
  assumes "dig_valid protocol v" and "valid_mode mode" and "0 < sizes Member_dig" and "sizes Member_dig \<le> room"
  defines "packet_id \<equiv> mc_packet_id protocol MC_STATE_PLAY MC_PACKET_SERVERBOUND (Some ''block_dig'')"
  shows "mc_decode_packet gz zl sizes protocol MC_STATE_PLAY MC_PACKET_SERVERBOUND packet_id
      (Buf (dig_bytes protocol v)) mode (Some room) True error
    = (Some (Packet_dig v), Some MC_FAMILY_BLOCK_DIG,
       typed_error_init error protocol MC_STATE_PLAY MC_PACKET_SERVERBOUND packet_id)"
proof -
  have "mc_protocol_supported protocol" using assms(1) by (simp add: dig_valid_def)
  then show ?thesis
    unfolding packet_id_def
    by (rule decode_built [OF _ _ dig_family assms(2)])
      (use assms in \<open>simp_all add: parses_store parses_dig mc_packet_decoded_size_def\<close>)
qed

lemma sample_dig_decodes:
  "mc_decode_packet gz zl (\<lambda>_. 8) 776 MC_STATE_PLAY MC_PACKET_SERVERBOUND sample_dig_id
      (Buf (dig_bytes 776 sample_dig)) MC_DECODE_STRICT (Some 8) True error
    = (Some (Packet_dig sample_dig), Some MC_FAMILY_BLOCK_DIG,
       typed_error_init error 776 MC_STATE_PLAY MC_PACKET_SERVERBOUND sample_dig_id)"
  by (rule decode_dig) (simp_all add: sample_dig_valid valid_mode_def)

section \<open>Decoding a packet\<close>

text \<open>
  C8. A decode that fails says why: with an error record supplied, the record has a code afterwards
  and names the state, the direction and the packet of the request, whether a guard refused it, a
  decoder failed, or bytes were left over. The readers that fail without a code are covered as well.
\<close>

theorem decode_failure_reported:
  assumes "mc_decode_packet gz zl sizes protocol state direction packet_id payload mode out family_out
      (Some e0) = (None, family, error)"
  shows "\<exists>e. error = Some e \<and> er_code e \<noteq> MC_ERROR_NONE \<and> er_state e = state
    \<and> er_direction e = direction \<and> er_packet_id e = packet_id"
proof (cases "decode_granted sizes protocol state direction packet_id payload mode out family_out")
  case True
  let ?e = "typed_error_init (Some e0) protocol state direction packet_id"
  let ?r = "decode_reader protocol state direction packet_id payload mode ?e"
  have run: "fst (decode_granted_body gz zl protocol state direction packet_id payload mode (Some e0)) = None"
    "error = snd (decode_granted_body gz zl protocol state direction packet_id payload mode (Some e0))"
    using assms decode_granted_run [OF True] by simp_all
  have "rd_place ?r = Some (state, direction, packet_id)"
    using True decode_reader_fields(7) [of mode payload protocol state direction packet_id ?e]
    by (simp add: decode_granted_def typed_error_init_def)
  from decode_body_failure [OF _ _ this] show ?thesis
    using True run by (simp add: decode_granted_def decode_granted_body_def)
next
  case False
  obtain code off where "code \<noteq> MC_ERROR_NONE"
    and "error = map_option (record_error code off)
      (typed_error_init (Some e0) protocol state direction packet_id)"
    by (rule decode_refused [OF False, of gz zl "Some e0"]) (use assms in auto)
  then show ?thesis
    by (simp add: typed_error_init_def error_at_def record_error_def mc_error_clear_def)
qed

lemma decode_failure_reported_witness:
  "\<exists>family e. mc_decode_packet (\<lambda>_. None) (\<lambda>_. None) (\<lambda>_. 8) 999 MC_STATE_PLAY MC_PACKET_SERVERBOUND 7
      (Buf [1]) MC_DECODE_STRICT (Some 8) True (Some mc_error_clear) = (None, family, Some e)
    \<and> er_code e \<noteq> MC_ERROR_NONE \<and> er_packet_id e = 7"
proof -
  have "\<not> mc_protocol_supported 999" by (simp add: supported_iff protocol_ids_def)
  then obtain family error where run: "mc_decode_packet (\<lambda>_. None) (\<lambda>_. None) (\<lambda>_. 8) 999 MC_STATE_PLAY
      MC_PACKET_SERVERBOUND 7 (Buf [1]) MC_DECODE_STRICT (Some 8) True (Some mc_error_clear)
    = (None, family, error)"
    by (simp add: mc_decode_packet_def Let_def)
  from decode_failure_reported [OF this] show ?thesis using run by auto
qed

text \<open>
  C23. A decode that succeeds was granted, returns the family the catalogs give, and has written the
  member of that family, which fits the caller's buffer; the error record is as a request begins it:
  clear, but for the names of the protocol, the state, the direction and the packet.
\<close>

theorem decode_success_member:
  assumes "mc_decode_packet gz zl sizes protocol state direction packet_id payload mode (Some room)
      family_out error = (Some p, family, error')"
  shows "family = Some (mc_packet_family protocol state direction packet_id)
    \<and> family_member (mc_packet_family protocol state direction packet_id) = Some (member_of p)
    \<and> 0 < sizes (member_of p) \<and> sizes (member_of p) \<le> room
    \<and> mc_packet_name protocol state direction packet_id \<noteq> None \<and> state = MC_STATE_PLAY
    \<and> error' = typed_error_init error protocol state direction packet_id"
proof -
  let ?e = "typed_error_init error protocol state direction packet_id"
  let ?family = "mc_packet_family protocol state direction packet_id"
  let ?r = "decode_reader protocol state direction packet_id payload mode ?e"
  have granted: "decode_granted sizes protocol state direction packet_id payload mode (Some room) family_out"
  proof (rule ccontr)
    assume refused: "\<not> ?thesis"
    show False by (rule decode_refused [OF refused, of gz zl error]) (use assms in auto)
  qed
  have run: "decode_granted_body gz zl protocol state direction packet_id payload mode error = (Some p, error')"
    and family: "family = Some ?family"
    using assms decode_granted_run [OF granted, of gz zl error] by (simp_all add: prod_eq_iff)
  have g: "mc_protocol_supported protocol" "valid_mode mode" "\<not> (buf_null payload \<and> buf_size payload \<noteq> 0)"
    using granted by (auto simp: decode_granted_def)
  note r = decode_reader_fields [OF g(2,3), of protocol state direction packet_id ?e]
  let ?name = "the (mc_packet_name protocol state direction packet_id)"
  have some: "fst (decode_body gz zl protocol direction ?name ?family ?r) = Some p"
    using run by (simp add: decode_granted_body_def)
  then obtain r' where "typed_decode_dispatch gz zl protocol direction ?name ?family ?r = (Some p, r')"
    using decode_body_success(1) [OF r(5,3) g(1)] by blast
  then have member: "family_member ?family = Some (member_of p)" by (rule dispatch_member)
  have "error' = rd_error ?r"
    using decode_body_success(2) [OF r(5,3) g(1) some] run by (simp add: decode_granted_body_def)
  then have "error' = ?e" by (simp add: r(6))
  moreover have "state = MC_STATE_PLAY"
    using member by (auto simp: mc_packet_family_def split: option.splits if_splits)
  ultimately show ?thesis
    using granted family member by (auto simp: decode_granted_def mc_packet_decoded_size_def)
qed

lemma decode_success_member_witness:
  "mc_packet_family 776 MC_STATE_PLAY MC_PACKET_SERVERBOUND sample_dig_id = MC_FAMILY_BLOCK_DIG
     \<and> family_member MC_FAMILY_BLOCK_DIG = Some (member_of (Packet_dig sample_dig))"
  using decode_success_member [OF sample_dig_decodes] by simp

text \<open>
  C7. A payload that decodes is complete: no payload that continues it decodes. Whatever the family
  and the mode, the longer payload fails with the code for trailing bytes at the offset where the
  shorter one ended, so of two payloads that decode neither is a proper prefix of the other.
\<close>

theorem decode_longer_fails:
  assumes some: "mc_decode_packet gz zl sizes protocol state direction packet_id (Buf bs) mode out
      family_out error = (Some p, family, error')"
    and more: "ext \<noteq> []"
  shows "mc_decode_packet gz zl sizes protocol state direction packet_id (Buf (bs @ ext)) mode out
      family_out error
    = (None, family, map_option (record_error MC_ERROR_TRAILING_BYTES (length bs))
         (typed_error_init error protocol state direction packet_id))"
proof -
  let ?e = "typed_error_init error protocol state direction packet_id"
  let ?family = "mc_packet_family protocol state direction packet_id"
  let ?name = "the (mc_packet_name protocol state direction packet_id)"
  let ?r = "decode_reader protocol state direction packet_id (Buf bs) mode ?e"
  have granted: "decode_granted sizes protocol state direction packet_id (Buf bs) mode out family_out"
  proof (rule ccontr)
    assume refused: "\<not> ?thesis"
    show False by (rule decode_refused [OF refused, of gz zl error]) (use some in auto)
  qed
  then have longer: "decode_granted sizes protocol state direction packet_id (Buf (bs @ ext)) mode out family_out"
    by (simp add: decode_granted_def)
  have g: "mc_protocol_supported protocol" "valid_mode mode"
    using granted by (auto simp: decode_granted_def)
  note r = decode_reader_fields [OF g(2), of "Buf bs" protocol state direction packet_id ?e]
  have family: "family = Some ?family"
    and dec: "fst (decode_body gz zl protocol direction ?name ?family ?r) = Some p"
    using some decode_granted_run [OF granted, of gz zl error]
    by (simp_all add: decode_granted_body_def)
  have ok: "rd_ok ?r" "\<not> rd_failed ?r" by (rule r; simp)+
  have "decode_body gz zl protocol direction ?name ?family (rd_extend ext ?r)
      = (None, map_option (\<lambda>e. if er_code e = MC_ERROR_NONE
           then record_error MC_ERROR_TRAILING_BYTES (length bs) e else e) ?e)"
  proof -
    have size: "rd_size ?r = length bs" and sink: "rd_error ?r = ?e" by (simp_all add: r)
    show ?thesis using decode_body_longer [OF ok g(1) dec more] unfolding size sink .
  qed
  moreover have "map_option (\<lambda>e. if er_code e = MC_ERROR_NONE
           then record_error MC_ERROR_TRAILING_BYTES (length bs) e else e) ?e
      = map_option (record_error MC_ERROR_TRAILING_BYTES (length bs)) ?e"
    by (cases error) (simp_all add: typed_error_init_def error_at_def mc_error_clear_def)
  ultimately show ?thesis
    using decode_granted_run [OF longer, of gz zl error]
    by (simp add: decode_granted_body_def decode_reader_extend family)
qed

lemma decode_longer_fails_witness:
  "fst (mc_decode_packet (\<lambda>_. None) (\<lambda>_. None) (\<lambda>_. 8) 776 MC_STATE_PLAY MC_PACKET_SERVERBOUND sample_dig_id
      (Buf (dig_bytes 776 sample_dig @ [0])) MC_DECODE_STRICT (Some 8) True None) = None"
  using decode_longer_fails [OF sample_dig_decodes, of "[0]"] by simp

section \<open>The builders against the decoder\<close>

text \<open>
  C11. What a client builds to dig a block, a server decodes to the same values, in every release and
  in both modes: the byte fields of 1.7, the packed position, the sequence number from 1.19 on, and
  the shifted status of 26.3. The packet is found under its name, all its bytes are used, and the
  error record stays clear.
\<close>

theorem dig_round_trip:
  assumes v: "dig_valid protocol v" and cap: "length (dig_bytes protocol v) \<le> cap"
    and mode: "valid_mode mode" and size: "0 < sizes Member_dig" "sizes Member_dig \<le> room"
  defines "packet_id \<equiv> mc_packet_id protocol MC_STATE_PLAY MC_PACKET_SERVERBOUND (Some ''block_dig'')"
  shows "\<exists>p. mc_packet_block_dig protocol (Some v) (fresh_packet cap) = (True, p) \<and> \<not> pk_failed p
    \<and> mc_decode_packet gz zl sizes protocol MC_STATE_PLAY MC_PACKET_SERVERBOUND packet_id
        (Buf (pk_buf p)) mode (Some room) True error
      = (Some (Packet_dig v), Some MC_FAMILY_BLOCK_DIG,
         typed_error_init error protocol MC_STATE_PLAY MC_PACKET_SERVERBOUND packet_id)"
  unfolding packet_id_def
  by (rule built_decodes [OF contract_dig [OF v] cap], rule decode_dig) (use assms in simp_all)

lemma dig_round_trip_witness:
  "\<exists>p. mc_packet_block_dig 776 (Some sample_dig) (fresh_packet 19) = (True, p) \<and> \<not> pk_failed p
    \<and> fst (mc_decode_packet (\<lambda>_. None) (\<lambda>_. None) (\<lambda>_. 8) 776 MC_STATE_PLAY MC_PACKET_SERVERBOUND
        sample_dig_id (Buf (pk_buf p)) MC_DECODE_STRICT (Some 8) True None) = Some (Packet_dig sample_dig)"
proof -
  have "length (dig_bytes 776 sample_dig) \<le> 19"
    using varint_bytes_length(2) [of 0] varint_bytes_length(2) [of 5]
    by (simp add: dig_bytes_def dig_wire_status_def sample_dig_def)
  from dig_round_trip [OF sample_dig_valid this, of MC_DECODE_STRICT "\<lambda>_. 8" 8 "\<lambda>_. None" "\<lambda>_. None" None]
  show ?thesis by (auto simp: valid_mode_def)
qed



text \<open>
  C18. The full movement packet: what the builder writes for a position and a rotation decodes, in
  every release, to those numbers bit for bit, with the presence bits of the release: through 1.7 the
  number above the feet is the stance, and from 1.21.2 the ground byte is a flag set with a
  horizontal collision that the builder never sets. The last conditions are the decoder's own, which
  the builder does not check: a strict decoder wants the pitch within 90 degrees and the stance near
  the eyes.
\<close>

theorem movement_round_trip:
  assumes v: "position_valid protocol v" and cap: "length (position_bytes protocol v) \<le> cap"
    and mode: "valid_mode mode" and size: "0 < sizes Member_movement" "sizes Member_movement \<le> room"
  defines "packet_id \<equiv> mc_packet_id protocol MC_STATE_PLAY MC_PACKET_SERVERBOUND (Some ''position_look'')"
  shows "\<exists>p. mc_packet_player_position protocol (Some v) (fresh_packet cap) = (True, p) \<and> \<not> pk_failed p
    \<and> mc_decode_packet gz zl sizes protocol MC_STATE_PLAY MC_PACKET_SERVERBOUND packet_id
        (Buf (pk_buf p)) mode (Some room) True error
      = (Some (Packet_movement (position_view protocol v)), Some MC_FAMILY_PLAYER_MOVEMENT,
         typed_error_init error protocol MC_STATE_PLAY MC_PACKET_SERVERBOUND packet_id)"
proof -
  have supported: "mc_protocol_supported protocol" using v by (simp add: position_valid_def)
  have family: "packet_family_from_table ''position_look'' serverbound_families = MC_FAMILY_PLAYER_MOVEMENT"
    by (simp add: serverbound_families_def)
  show ?thesis
    unfolding packet_id_def
    by (rule built_decodes [OF contract_position [OF v] cap], rule decode_built [OF supported _ family mode])
      (use v size in \<open>simp_all add: parses_store parses_position mc_packet_decoded_size_def\<close>)
qed

lemma movement_round_trip_witness:
  "\<exists>p. mc_packet_player_position 776 (Some \<lparr>pp_x = 0, pp_y = 0, pp_z = 0, pp_yaw = 0, pp_pitch = 0,
        pp_on_ground = True\<rparr>) (fresh_packet 33) = (True, p) \<and> \<not> pk_failed p"
proof -
  let ?v = "\<lparr>pp_x = 0, pp_y = 0, pp_z = 0, pp_yaw = 0, pp_pitch = 0, pp_on_ground = True\<rparr>"
  have v: "position_valid 776 ?v"
    unfolding position_valid_def by (simp add: supported_776, code_simp)
  from movement_round_trip [OF v, of 33 MC_DECODE_STRICT "\<lambda>_. 8" 8 "\<lambda>_. None" "\<lambda>_. None" None] show ?thesis
    by (auto simp: valid_mode_def position_bytes_def)
qed

section \<open>The generated pairs of release 776\<close>

text \<open>
  The generated numbers are the catalog of release 776: in every state and direction the macros
  list all the packets of the table, in its order, each with its index.
\<close>

theorem generated_numbers:
  "find_packet_catalog 776 = Some c \<Longrightarrow>
     macros_number MC776_LOGIN_SERVERBOUND (cat_login_serverbound c)
     \<and> macros_number MC776_LOGIN_CLIENTBOUND (cat_login_clientbound c)
     \<and> macros_number MC776_CONFIGURATION_SERVERBOUND (cat_configuration_serverbound c)
     \<and> macros_number MC776_CONFIGURATION_CLIENTBOUND (cat_configuration_clientbound c)
     \<and> macros_number MC776_PLAY_SERVERBOUND (cat_play_serverbound c)
     \<and> macros_number MC776_PLAY_CLIENTBOUND (cat_play_clientbound c)
     \<and> macros_number MC776_STATUS_SERVERBOUND packet_names_status_serverbound
     \<and> macros_number MC776_STATUS_CLIENTBOUND packet_names_status_clientbound"
  by (auto simp: find_packet_catalog_def packet_catalogs_def mc776_numbers
      mc776_play_serverbound_numbers mc776_play_clientbound_numbers)

lemma generated_numbers_witness:
  "\<exists>c. find_packet_catalog 776 = Some c \<and> macros_number MC776_PLAY_SERVERBOUND (cat_play_serverbound c)"
  using generated_numbers find_packet_catalog_iff [of 776] supported_776 by blast

text \<open>
  C24. The generated digging pair agrees with the library's own: for the values the builder accepts
  at release 776, the generated encoder leaves the same packet as the builder, and the generated
  decoder reads from it the values that \<open>mc_decode_packet\<close> returns.
\<close>

theorem generated_dig_agrees:
  assumes v: "dig_valid 776 v" and cap: "length (dig_bytes 776 v) \<le> cap" and mode: "valid_mode mode"
  shows "mc776_play_serverbound_block_dig_encode v (fresh_packet cap)
      = mc_packet_block_dig 776 (Some v) (fresh_packet cap)
    \<and> pk_buf (snd (mc776_play_serverbound_block_dig_encode v (fresh_packet cap))) = dig_bytes 776 v
    \<and> fst (mc776_play_serverbound_block_dig_decode (mc_reader_init_mode (Buf (dig_bytes 776 v)) mode e))
      = Some v"
proof -
  let ?bs = "dig_bytes 776 v"
  let ?r = "mc_reader_init_mode (Buf ?bs) mode e"
  have bytes: "?bs = varint_bytes (bd_status v) @ be_bytes 8 (position_pack 776 (bd_location v))
      @ [bd_face v] @ varint_bytes (bd_sequence v)"
    by (simp add: dig_bytes_def dig_wire_status_def)
  have "pk_contract (mc776_play_serverbound_block_dig_encode v) ?bs"
    unfolding bytes by (rule contract_dig_776) (use v in \<open>simp add: dig_valid_def\<close>)
  then have "mc776_play_serverbound_block_dig_encode v (fresh_packet cap) = (True, pk_append ?bs (fresh_packet cap))"
    using cap by (intro pk_contract_fits) (simp_all add: pk_ok_def pk_room_def)
  moreover have "mc_packet_block_dig 776 (Some v) (fresh_packet cap) = (True, pk_append ?bs (fresh_packet cap))"
    using cap by (intro pk_contract_fits [OF contract_dig [OF v]]) (simp_all add: pk_ok_def pk_room_def)
  moreover have "fst (mc776_play_serverbound_block_dig_decode ?r) = Some v"
    by (rule decode_dig_776 [OF _ mode bytes]) (use v in \<open>simp add: dig_valid_def\<close>)
  ultimately show ?thesis by (simp add: pk_append_def)
qed

lemma generated_dig_agrees_witness:
  "fst (mc776_play_serverbound_block_dig_decode
      (mc_reader_init_mode (Buf (dig_bytes 776 sample_dig)) MC_DECODE_STRICT None)) = Some sample_dig"
  using generated_dig_agrees [OF sample_dig_valid order_refl, of MC_DECODE_STRICT None]
  by (simp add: valid_mode_def)

section \<open>Canonical views\<close>



section \<open>Chunk sections\<close>

text \<open>
  C13. A block of a chunk section is found where the format says: in a section that was decoded from
  1.21.5 on, or earlier by a strict decoder, the lookup of each of the 4096 blocks finds its words
  among the data of the section and takes from them the bits of the block, which before 1.16 may
  continue in the next word; the number they spell is the state, or the index of the state in the
  palette. No index leads outside the words.
\<close>

theorem block_lookup_reads_stream:
  assumes "chunk_section protocol r = (Some s, r')" and "protocol \<ge> 770 \<or> rd_mode r = MC_DECODE_STRICT"
    and "index < 4096"
  shows "mc_chunk_section_block_state s index =
    (if se_block_bits_per_entry s = 0 then
       (if se_block_palette_count s = 1 then typed_palette_entry (se_block_palette s) 0 else None)
     else if se_block_palette_count s = 0 then Some (of_nat (block_value s index))
     else if block_value s index \<ge> unat (se_block_palette_count s) then None
     else typed_palette_entry (se_block_palette s) (block_value s index))"
  by (rule block_state_lookup [OF _ assms(3)]) (use section_decoded [OF assms(1)] assms(2) in blast)

text \<open>The empty sections of releases 1.21.5 to 1.21.11: a count, one state and one biome.\<close>

lemma block_lookup_reads_stream_witness:
  "\<exists>s r'. chunk_section 773 (mc_reader_init_mode (Buf [0, 0, 0, 9, 0, 1]) MC_DECODE_VANILLA_COMPAT None) = (Some s, r')
    \<and> mc_chunk_section_block_state s 4095 = Some 9"
proof -
  let ?r = "mc_reader_init_mode (Buf [0, 0, 0, 9, 0, 1]) MC_DECODE_VANILLA_COMPAT None"
  have "\<exists>s r'. chunk_section 773 ?r = (Some s, r') \<and> se_block_bits_per_entry s = 0
      \<and> se_block_palette_count s = 1 \<and> se_block_palette s = [9]"
    by (simp add: chunk_section_def typed_read_palette_def palette_entries_def palette_long_count_def
        palette_longs_def rd_when_def rd_capture_def rd_valid_def rd_orelse_def rd_such_def rd_check_def
        rd_test_def rd_strict_def rd_here_def skip_nonnegative_def reader_eval mc_reader_skip_def)
  then obtain s r' where run: "chunk_section 773 ?r = (Some s, r')" and s: "se_block_bits_per_entry s = 0"
    "se_block_palette_count s = 1" "se_block_palette s = [9]" by blast
  have "mc_chunk_section_block_state s 4095 = typed_palette_entry [9] 0"
    using block_lookup_reads_stream [OF run] s by simp
  also have "\<dots> = Some 9"
    by (simp add: typed_palette_entry_def view_reader_def rd_such_def rd_test_def reader_eval)
  finally show ?thesis using run by blast
qed

section \<open>Replay files\<close>

lemma replay_reads_encoding:
  assumes valid: "mc_protocol_supported protocol \<and> length xs \<le> MC_MAX_PACKET_ARRAY_COUNT
     \<and> list_all (replay_record_valid protocol) xs \<and> bs = replay_bytes protocol xs"
  shows "replay_read (Buf bs) error = Some (protocol, xs)"
proof -
  let ?count = "of_nat (length xs) :: u32" and ?body = "concat (map replay_record_bytes xs)"
  have count: "unat ?count = length xs"
    using valid by (simp add: unat_of_nat take_bit_nat_eq_self MC_MAX_PACKET_ARRAY_COUNT_def)
  define rp where "rp = replay_start protocol ?count bs error"
  have bs: "bs = replay_header_bytes (MC_REPLAY_FORMAT_VERSION, 0, of_int protocol, ?count) @ ?body"
    using valid by (simp add: replay_bytes_def)
  have init: "fst (mc_replay_reader_init True (Buf bs) error) = Some rp"
    using replay_init_reads [of protocol ?count ?body error] valid count by (simp add: bs rp_def)
  have len: "length bs = 16 + length ?body" by (simp add: bs length_replay_header)
  have "rd_ok (ry_reader rp)" by (simp add: rp_def rd_ok_def len)
  moreover have "replay_rest rp = ?body @ []" by (simp add: rp_def bs length_replay_header)
  ultimately have collect: "replay_collect (length xs) rp = Some (xs, foldl replay_advance rp xs)"
    by (intro replay_collect_reads) (use valid count in \<open>simp_all add: rp_def\<close>)
  have finish: "fst (mc_replay_reader_finish (foldl replay_advance rp xs)) = Some ()"
    by (simp add: mc_replay_reader_finish_def mc_reader_finish_def rp_def len)
  show "replay_read (Buf bs) error = Some (protocol, xs)"
    using init collect finish count
    by (cases "mc_replay_reader_init True (Buf bs) error") (simp add: replay_read_def rp_def)
qed

lemma replay_reads_only:
  assumes run: "replay_read (Buf bs) error = Some (protocol, xs)"
  shows "mc_protocol_supported protocol \<and> length xs \<le> MC_MAX_PACKET_ARRAY_COUNT
     \<and> list_all (replay_record_valid protocol) xs \<and> bs = replay_bytes protocol xs"
proof -
  from run obtain rp e rp' where init: "mc_replay_reader_init True (Buf bs) error = (Some rp, e)"
    and collect: "replay_collect (unat (ry_record_count rp)) rp = Some (xs, rp')"
    and finish: "fst (mc_replay_reader_finish rp') = Some ()" and protocol: "ry_protocol rp = protocol"
    by (auto simp: replay_read_def split: prod.splits option.splits if_splits)
  obtain q count where start: "mc_protocol_supported q" "unat count \<le> MC_MAX_PACKET_ARRAY_COUNT"
      "rp = replay_start q count bs error"
      "replay_header_bytes (MC_REPLAY_FORMAT_VERSION, 0, of_int q, count) @ drop 16 bs = bs"
    using replay_init_only [OF init] by metis
  have "16 \<le> length bs"
    using arg_cong [OF start(4), of length] by (simp add: length_replay_header)
  then have ok: "rd_ok (ry_reader rp)" by (simp add: start(3) rd_ok_def)
  note only = replay_collect_only [OF collect ok]
  have "rd_offset (ry_reader rp') = rd_size (ry_reader rp')"
    using finish
    by (auto simp: mc_replay_reader_finish_def mc_reader_finish_def reader_fail_def split: if_splits)
  then have "drop 16 bs = concat (map replay_record_bytes xs)"
    using only by (simp add: start(3))
  moreover have "of_nat (length xs) = count" using only by (simp add: start(3))
  ultimately have "bs = replay_bytes q xs"
    using start(4) by (simp add: replay_bytes_def)
  then show "mc_protocol_supported protocol \<and> length xs \<le> MC_MAX_PACKET_ARRAY_COUNT
     \<and> list_all (replay_record_valid protocol) xs \<and> bs = replay_bytes protocol xs"
    using start only protocol by simp
qed

text \<open>
  C10. The replay reader implements the format: a file can be read to its end, record by record, if
  and only if it is the encoding of a supported protocol and of at most as many valid records as an
  array may hold, and the records that are read are those.
\<close>

theorem replay_format_exact:
  "replay_read (Buf bs) error = Some (protocol, xs) \<longleftrightarrow>
     mc_protocol_supported protocol \<and> length xs \<le> MC_MAX_PACKET_ARRAY_COUNT
     \<and> list_all (replay_record_valid protocol) xs \<and> bs = replay_bytes protocol xs"
  using replay_reads_encoding replay_reads_only by blast

text \<open>
  C25. Whatever the order of the calls of \<open>mc_replay_reader_next\<close> and \<open>mc_replay_reader_finish\<close>, and
  whichever of them fail, a replay reader never reads past its data, counts the records it has
  returned, returns no more of them than the header announces, and what it has returned are the valid
  records whose bytes follow the header.
\<close>

theorem replay_reader_invariant:
  assumes "replay_reachable bs rp xs"
  shows "replay_inv bs rp xs"
  using assms
  by (induction rule: replay_reachable.induct)
    (blast intro: replay_inv_opened replay_inv_returned replay_inv_stopped replay_inv_finished)+

lemma replay_reader_invariant_witness:
  "\<exists>rp. replay_reachable (replay_bytes 47 []) rp [] \<and> replay_inv (replay_bytes 47 []) rp []"
proof -
  have "mc_protocol_supported 47" by (simp add: supported_iff protocol_ids_def)
  from replay_init_reads [OF this, of 0 "[]" None]
  obtain rp where "mc_replay_reader_init True (Buf (replay_bytes 47 [])) None
      = (Some rp, None)" by (simp add: replay_bytes_def)
  then have "replay_reachable (replay_bytes 47 []) rp []" by (rule replay_opened)
  with replay_reader_invariant [OF this] show ?thesis by blast
qed

end
