(* ===== verification/Block_Changes.thy ===== *)
theory Block_Changes
  imports Decode_Laws Chunk_Laws
begin

text \<open>
  The records of a multi block change: what a strict decoder accepts is a list of wire records, and
  the iterator over the view returns what they stand for. The wire records and their bytes are the
  reference; the columns of the positions are read as integers.
\<close>

subsection \<open>Wire records\<close>

datatype block_record = Legacy_record u8 u8 u16 | Chunk_record u8 u8 i32 | Section_record u64

definition record_bytes :: "mc_multi_block_record_format \<Rightarrow> block_record \<Rightarrow> u8 list" where
  "record_bytes format w =
     (case w of
        Legacy_record horizontal y state \<Rightarrow> [horizontal, y] @ be_bytes 2 state
      | Chunk_record horizontal y state \<Rightarrow> [horizontal, y] @ varint_bytes state
      | Section_record packed \<Rightarrow>
          if format = MC_MULTI_BLOCK_RECORD_SECTION_VARLONG then varlong_bytes (ucast packed)
          else varint_bytes (ucast packed))"

definition record_fits :: "mc_multi_block_record_format \<Rightarrow> block_record \<Rightarrow> bool" where
  "record_fits format w =
     (case w of
        Legacy_record _ _ _ \<Rightarrow> format = MC_MULTI_BLOCK_RECORD_LEGACY_1_7
      | Chunk_record _ _ state \<Rightarrow> format = MC_MULTI_BLOCK_RECORD_CHUNK \<and> 0 \<le> sint state
      | Section_record packed \<Rightarrow>
          (format = MC_MULTI_BLOCK_RECORD_SECTION_VARLONG \<and> unat packed < 2 ^ 63)
          \<or> (format = MC_MULTI_BLOCK_RECORD_SECTION_VARINT \<and> unat packed < 2 ^ 31))"

text \<open>The state number of a packed record may be wider than the field it is returned in.\<close>

definition record_returned :: "block_record \<Rightarrow> bool" where
  "record_returned w = (case w of Section_record packed \<Rightarrow> unat (drop_bit 12 packed) < 2 ^ 31 | _ \<Rightarrow> True)"

definition record_change :: "mc_multi_block_change \<Rightarrow> block_record \<Rightarrow> mc_block_change_record" where
  "record_change p w =
     (case w of
        Legacy_record horizontal y state \<Rightarrow>
          \<lparr>br_position = block_in_chunk p horizontal y, br_state_id = ucast state,
           br_raw_record = (push_bit 24 (ucast horizontal) OR push_bit 16 (ucast y)) OR ucast state\<rparr>
      | Chunk_record horizontal y state \<Rightarrow>
          \<lparr>br_position = block_in_chunk p horizontal y, br_state_id = state,
           br_raw_record = push_bit 8 (ucast horizontal) OR ucast y\<rparr>
      | Section_record packed \<Rightarrow>
          \<lparr>br_position = block_in_section p packed, br_state_id = ucast (drop_bit 12 packed),
           br_raw_record = packed\<rparr>)"

subsection \<open>Accepted bytes\<close>

definition read_bytes :: "mc_reader \<Rightarrow> mc_reader \<Rightarrow> u8 list \<Rightarrow> bool" where
  "read_bytes r r' bs \<longleftrightarrow> r' = rd_advance (length bs) r \<and> take (length bs) (drop (rd_offset r) (rd_data r)) = bs"

lemma read_bytes_nil: "read_bytes r r []"
  by (simp add: read_bytes_def rd_advance_def)

lemma read_bytes_append:
  assumes "read_bytes r r1 as" and "read_bytes r1 r2 bs"
  shows "read_bytes r r2 (as @ bs)"
  using assms by (simp add: read_bytes_def rd_advance_def take_add ac_simps)

lemma read_bytes_varint:
  "mc_reader_varint r = (Some v, r') \<Longrightarrow> rd_mode r = MC_DECODE_STRICT \<Longrightarrow> read_bytes r r' (varint_bytes v)"
  using varint_accepts by (simp add: read_bytes_def)

lemma read_bytes_varlong:
  "mc_reader_varlong r = (Some v, r') \<Longrightarrow> rd_mode r = MC_DECODE_STRICT \<Longrightarrow> read_bytes r r' (varlong_bytes v)"
  using varlong_accepts by (simp add: read_bytes_def)

lemma read_bytes_skip:
  assumes "mc_reader_skip n r = (Some u, r')"
  obtains bs where "length bs = n" and "read_bytes r r' bs"
proof
  show "length (take n (drop (rd_offset r) (rd_data r))) = n"
    using skip_some [OF assms] by (auto simp: min_def)
  then show "read_bytes r r' (take n (drop (rd_offset r) (rd_data r)))"
    using skip_some [OF assms] by (simp add: read_bytes_def)
qed

lemma read_bytes_mode: "read_bytes r r' bs \<Longrightarrow> rd_mode r' = rd_mode r"
  by (simp add: read_bytes_def)

lemma word_nonnegative:
  fixes v :: "'a::len word"
  assumes "\<not> sint v < 0"
  shows "unat v < 2 ^ (LENGTH('a) - 1)"
proof -
  have less: "sint v < 2 ^ (LENGTH('a) - 1)" by (rule sint_lt)
  also have "\<dots> \<le> 2 ^ LENGTH('a)" by (rule power_increasing) simp_all
  finally have "take_bit LENGTH('a) (sint v) = sint v" using assms by (intro take_bit_int_eq_self) simp_all
  then have "sint v = uint v" using uint_sint [of v] by simp
  then have "int (unat v) < int (2 ^ (LENGTH('a) - 1))" using less by simp
  then show ?thesis unfolding of_nat_less_iff .
qed

lemma word_below:
  fixes v :: "'a::len word"
  assumes "unat v < 2 ^ (LENGTH('a) - 1)"
  shows "\<not> sint v < 0"
proof -
  obtain n where n: "LENGTH('a) = Suc n" using len_gt_0 [where 'a = 'a] gr0_implies_Suc by blast
  have "int (unat v) < int (2 ^ n)" using assms n by (simp only: of_nat_less_iff) simp
  then have "signed_take_bit n (uint v) = uint v"
    by (intro signed_take_bit_int_eq_self) (simp_all add: order_trans [of _ 0])
  then show ?thesis by (simp add: sint_uint n)
qed

lemma record_accepted:
  assumes run: "multi_block_record format r = (Some u, r')" and strict: "rd_mode r = MC_DECODE_STRICT"
  obtains w where "record_fits format w" and "read_bytes r r' (record_bytes format w)"
proof (cases format)
  case MC_MULTI_BLOCK_RECORD_LEGACY_1_7
  then have "mc_reader_skip 4 r = (Some u, r')" using run by (simp add: multi_block_record_def)
  then obtain bs where bs: "length bs = 4" "read_bytes r r' bs" by (rule read_bytes_skip)
  then obtain a b c d where "bs = [a, b, c, d]"
    by (auto simp: length_Suc_conv eval_nat_numeral)
  then have "bs = record_bytes format (Legacy_record a b (be_fold [c, d]))"
    using be_bytes_be_fold [of "[c, d]", where 'a = 16] by (simp add: record_bytes_def numeral_2_eq_2)
  then show ?thesis
    using that [of "Legacy_record a b (be_fold [c, d])"] bs MC_MULTI_BLOCK_RECORD_LEGACY_1_7
    by (simp add: record_fits_def)
next
  case MC_MULTI_BLOCK_RECORD_CHUNK
  with run obtain r1 s where skip: "mc_reader_skip 2 r = (Some (), r1)"
    and state: "mc_reader_varint r1 = (Some s, r')" "\<not> sint s < 0"
    by (auto simp: multi_block_record_def some_simps elim!: bind_someE)
  from skip obtain bs where bs: "length bs = 2" "read_bytes r r1 bs" by (rule read_bytes_skip)
  then obtain a b where ab: "bs = [a, b]" by (auto simp: length_Suc_conv eval_nat_numeral)
  have "read_bytes r r' (bs @ varint_bytes s)"
    using bs(2) read_bytes_varint [OF state(1)] read_bytes_mode [OF bs(2)] strict
    by (auto intro: read_bytes_append)
  then show ?thesis
    using that [of "Chunk_record a b s"] MC_MULTI_BLOCK_RECORD_CHUNK state ab
    by (simp add: record_fits_def record_bytes_def)
next
  case MC_MULTI_BLOCK_RECORD_SECTION_VARLONG
  with run obtain s where state: "mc_reader_varlong r = (Some s, r')" "\<not> sint s < 0"
    by (auto simp: multi_block_record_def some_simps elim!: bind_someE)
  then show ?thesis
    using that [of "Section_record s"] MC_MULTI_BLOCK_RECORD_SECTION_VARLONG strict
      read_bytes_varlong word_nonnegative [OF state(2)] by (simp add: record_fits_def record_bytes_def)
next
  case MC_MULTI_BLOCK_RECORD_SECTION_VARINT
  with run obtain s where state: "mc_reader_varint r = (Some s, r')" "\<not> sint s < 0"
    by (auto simp: multi_block_record_def some_simps elim!: bind_someE)
  moreover have "ucast (ucast s :: u64) = s" by (rule bit_word_eqI) (simp add: bit_simps)
  moreover have "unat (ucast s :: u64) = unat s"
    using unsigned_less [of s, where 'a = nat] by (simp add: unsigned_ucast_eq take_bit_nat_eq_self)
  ultimately show ?thesis
    using that [of "Section_record (ucast s)"] MC_MULTI_BLOCK_RECORD_SECTION_VARINT strict
      read_bytes_varint word_nonnegative [OF state(2)] by (simp add: record_fits_def record_bytes_def)
qed

lemma records_accepted:
  assumes "rd_repeat n (multi_block_record format) r = (Some u, r')" and "rd_mode r = MC_DECODE_STRICT"
  shows "\<exists>ws. length ws = n \<and> list_all (record_fits format) ws
    \<and> read_bytes r r' (concat (map (record_bytes format) ws))"
  using assms
proof (induction n arbitrary: r)
  case 0
  then show ?case by (auto simp: return_some read_bytes_nil)
next
  case (Suc n)
  from Suc.prems(1) obtain u1 r1 where one: "multi_block_record format r = (Some u1, r1)"
    and rest: "rd_repeat n (multi_block_record format) r1 = (Some u, r')"
    by (auto elim!: bind_someE)
  from record_accepted [OF one Suc.prems(2)] obtain w where w: "record_fits format w"
    "read_bytes r r1 (record_bytes format w)" by blast
  from Suc.IH [OF rest] read_bytes_mode [OF w(2)] Suc.prems(2) obtain ws where
    "length ws = n" "list_all (record_fits format) ws"
    "read_bytes r1 r' (concat (map (record_bytes format) ws))" by auto
  with w show ?case by (intro exI [of _ "w # ws"]) (auto intro: read_bytes_append)
qed

subsection \<open>The iterator over the accepted records\<close>

lemma change_body_parses:
  assumes fits: "record_fits (mb_format p) w" and returned: "record_returned w"
  shows "rd_parses (block_change_body p) (record_bytes (mb_format p) w) (record_change p w)"
proof (cases w)
  case (Legacy_record h y s)
  then have format: "mb_format p = MC_MULTI_BLOCK_RECORD_LEGACY_1_7" using fits by (simp add: record_fits_def)
  have bytes: "record_bytes (mb_format p) w = [h] @ [y] @ be_bytes 2 s"
    by (simp add: Legacy_record record_bytes_def)
  show ?thesis
    unfolding bytes unfolding block_change_body_def record_change_def format Legacy_record
      mc_multi_block_record_format.case block_record.case
    by (rule parses_bind [OF parses_u8], rule parses_bind [OF parses_u8],
        rule parses_bind_nil [OF parses_u16 parses_return])
next
  case (Chunk_record h y s)
  then have format: "mb_format p = MC_MULTI_BLOCK_RECORD_CHUNK" and s: "0 \<le> sint s"
    using fits by (simp_all add: record_fits_def)
  have bytes: "record_bytes (mb_format p) w = [h] @ [y] @ varint_bytes s"
    by (simp add: Chunk_record record_bytes_def)
  show ?thesis
    unfolding bytes unfolding block_change_body_def record_change_def format Chunk_record
      mc_multi_block_record_format.case block_record.case
    by (rule parses_bind [OF parses_u8], rule parses_bind [OF parses_u8],
        rule parses_bind_nil [OF parses_such [OF parses_varint] parses_return]) (use s in simp)
next
  case (Section_record packed)
  let ?rest = "\<lambda>packed. rd_bind (rd_check (\<not> unat (drop_bit 12 packed) > INT32_MAX)) (\<lambda>_.
      rd_return \<lparr>br_position = block_in_section p packed, br_state_id = ucast (drop_bit 12 packed),
        br_raw_record = packed\<rparr>)"
  have small: "\<not> unat (drop_bit 12 packed) > INT32_MAX"
    using returned Section_record by (simp add: record_returned_def INT32_MAX_def)
  have rest: "rd_parses (?rest packed) [] (record_change p w)"
    unfolding record_change_def Section_record block_record.case
    by (rule parses_bind_nil [OF parses_check [OF small] parses_return])
  consider (long) "mb_format p = MC_MULTI_BLOCK_RECORD_SECTION_VARLONG" "unat packed < 2 ^ 63"
    | (int) "mb_format p = MC_MULTI_BLOCK_RECORD_SECTION_VARINT" "unat packed < 2 ^ 31"
    using fits Section_record by (auto simp: record_fits_def)
  then show ?thesis
  proof cases
    case long
    have bytes: "record_bytes (mb_format p) w = varlong_bytes packed"
      by (simp add: Section_record record_bytes_def long)
    have "rd_parses (rd_bind (rd_such mc_reader_varlong (\<lambda>block. \<not> sint block < 0)) (\<lambda>block.
        rd_return (ucast block))) (varlong_bytes packed) packed"
      using parses_bind_nil [OF parses_such [OF parses_varlong] parses_return, of "\<lambda>block. \<not> sint block < 0" packed "\<lambda>block. block"]
        word_below [of packed] long by simp
    from parses_bind_nil [where f = ?rest, OF this rest] show ?thesis
      unfolding bytes unfolding block_change_body_def long mc_multi_block_record_format.case by simp
  next
    case int
    let ?v = "ucast packed :: i32"
    have bytes: "record_bytes (mb_format p) w = varint_bytes ?v"
      by (simp add: Section_record record_bytes_def int)
    have v: "ucast ?v = packed" "unat ?v < 2 ^ 31"
      using int by (simp_all add: word_unat_eq_iff unsigned_ucast_eq unsigned_take_bit_eq take_bit_nat_eq_self)
    have "rd_parses (rd_return (ucast ?v)) [] packed" using parses_return [of "ucast ?v :: u64"] v by simp
    then have "rd_parses (rd_bind (rd_such mc_reader_varint (\<lambda>block. \<not> sint block < 0)) (\<lambda>block.
        rd_return (ucast block))) (varint_bytes ?v) packed"
      using word_below [of ?v] v by (intro parses_bind_nil [OF parses_such [OF parses_varint]]) simp_all
    from parses_bind_nil [where f = ?rest, OF this rest] show ?thesis
      unfolding bytes unfolding block_change_body_def int mc_multi_block_record_format.case by simp
  qed
qed

text \<open>What a loop over the iterator sees, for a given number of calls.\<close>

primrec block_changes :: "nat \<Rightarrow> mc_block_change_iterator \<Rightarrow> mc_block_change_record list \<times> mc_block_change_iterator" where
  "block_changes 0 it = ([], it)"
| "block_changes (Suc n) it =
     (case mc_block_change_iterator_next it of
        (None, it') \<Rightarrow> ([], it')
      | (Some c, it') \<Rightarrow> (case block_changes n it' of (cs, it'') \<Rightarrow> (c # cs, it'')))"

definition iterator_at :: "mc_multi_block_change \<Rightarrow> nat \<Rightarrow> nat \<Rightarrow> mc_block_change_iterator" where
  "iterator_at p offset remaining =
     \<lparr>bi_reader = rd_advance offset (view_reader (mb_records p)), bi_packet = p,
      bi_remaining = of_nat remaining\<rparr>"

lemma view_reader_fields [simp]:
  "rd_data (view_reader bs) = bs" "rd_offset (view_reader bs) = 0" "\<not> rd_failed (view_reader bs)"
  "rd_error (view_reader bs) = None"
  by (simp_all add: view_reader_def mc_reader_init_mode_def)

lemma next_returned:
  assumes view: "drop offset (mb_records p) = record_bytes (mb_format p) w @ rest"
    and offset: "offset \<le> length (mb_records p)"
    and fits: "record_fits (mb_format p) w" and returned: "record_returned w"
    and last: "n = 0 \<Longrightarrow> rest = []" and small: "Suc n < 2 ^ 32"
  shows "mc_block_change_iterator_next (iterator_at p offset (Suc n))
    = (Some (record_change p w), iterator_at p (offset + length (record_bytes (mb_format p) w)) n)"
proof -
  let ?r = "rd_advance offset (view_reader (mb_records p))"
  let ?k = "length (record_bytes (mb_format p) w)"
  have body: "block_change_body p ?r = (Some (record_change p w), rd_advance ?k ?r)"
    by (rule rd_parsesD [OF change_body_parses [OF fits returned]]) (simp_all add: view rd_ok_def offset)
  have some: "of_nat (Suc n) \<noteq> (0 :: u32)" 
    using small by (simp add: word_unat_eq_iff unat_of_nat take_bit_nat_eq_self del: of_nat_Suc)
  have minus: "of_nat (Suc n) - 1 = (of_nat n :: u32)" by simp
  have advance: "rd_advance ?k ?r = rd_advance (offset + ?k) (view_reader (mb_records p))"
    by (simp add: rd_advance_def)
  have final: "last_of_view ((of_nat n :: u32) = 0) (rd_advance (offset + ?k) (view_reader (mb_records p)))
      = (Some (), rd_advance (offset + ?k) (view_reader (mb_records p)))"
  proof (cases "n = 0")
    case True
    then have "length (drop offset (mb_records p)) = ?k" using view last by simp
    then show ?thesis by (simp add: last_of_view_def mc_reader_remaining_def)
  next
    case False
    then have "(of_nat n :: u32) \<noteq> 0"
      using small by (simp add: word_unat_eq_iff unat_of_nat take_bit_nat_eq_self)
    then show ?thesis by (simp add: last_of_view_def)
  qed
  show ?thesis
    using some minus final
    by (simp add: mc_block_change_iterator_next_def iterator_at_def body advance Let_def del: of_nat_Suc)
qed

lemma next_too_large:
  assumes view: "drop offset (mb_records p) = record_bytes (mb_format p) w @ rest"
    and offset: "offset \<le> length (mb_records p)"
    and fits: "record_fits (mb_format p) w" and large: "\<not> record_returned w" and small: "Suc n < 2 ^ 32"
  shows "\<exists>it. mc_block_change_iterator_next (iterator_at p offset (Suc n)) = (None, it)
    \<and> bi_remaining it = of_nat (Suc n)"
proof -
  let ?r = "rd_advance offset (view_reader (mb_records p))"
  from large obtain packed where w: "w = Section_record packed" and packed: "\<not> unat (drop_bit 12 packed) < 2 ^ 31"
    by (auto simp: record_returned_def split: block_record.splits)
  have "drop_bit 12 packed = packed div 2 ^ 12" by (simp add: drop_bit_eq_div)
  then have "unat (drop_bit 12 packed) \<le> unat packed" by (simp add: unat_div)
  then have long: "mb_format p = MC_MULTI_BLOCK_RECORD_SECTION_VARLONG" and range: "unat packed < 2 ^ 63"
    using fits w packed by (auto simp: record_fits_def)
  have "mc_reader_varlong ?r = (Some packed, rd_advance (length (varlong_bytes packed)) ?r)"
    by (rule rd_parsesD [OF parses_varlong]) (use view in \<open>simp_all add: w long record_bytes_def rd_ok_def offset\<close>)
  moreover have "\<not> sint packed < 0" using range word_below [of packed] by simp
  ultimately have body: "fst (block_change_body p ?r) = None"
    using packed
    by (simp add: block_change_body_def long rd_such_def rd_bind_def rd_test_def rd_return_def rd_check_def
        typed_invalid_def rd_here_def reader_fail_def INT32_MAX_def)
  have "of_nat (Suc n) \<noteq> (0 :: u32)"
    using small by (simp add: word_unat_eq_iff unat_of_nat take_bit_nat_eq_self del: of_nat_Suc)
  then show ?thesis
    using body by (cases "block_change_body p ?r")
      (simp add: mc_block_change_iterator_next_def iterator_at_def del: of_nat_Suc)
qed

lemma next_exhausted: "mc_block_change_iterator_next (iterator_at p offset 0) = (None, iterator_at p offset 0)"
  by (simp add: mc_block_change_iterator_next_def iterator_at_def)

lemma block_changes_read:
  assumes "drop offset (mb_records p) = concat (map (record_bytes (mb_format p)) ws)"
    and "offset \<le> length (mb_records p)" and "list_all (record_fits (mb_format p)) ws"
    and "length ws < 2 ^ 32"
  shows "\<exists>it. block_changes (Suc (length ws)) (iterator_at p offset (length ws))
      = (map (record_change p) (takeWhile record_returned ws), it)
    \<and> unat (bi_remaining it) = length ws - length (takeWhile record_returned ws)"
  using assms
proof (induction ws arbitrary: offset)
  case Nil
  then show ?case by (simp add: next_exhausted) (simp add: iterator_at_def)
next
  case (Cons w ws)
  let ?k = "length (record_bytes (mb_format p) w)" and ?n = "length ws"
  have view: "drop offset (mb_records p) = record_bytes (mb_format p) w @ concat (map (record_bytes (mb_format p)) ws)"
    using Cons.prems(1) by simp
  have fits: "record_fits (mb_format p) w" using Cons.prems(3) by simp
  have small: "Suc ?n < 2 ^ 32" using Cons.prems(4) by simp
  show ?case
  proof (cases "record_returned w")
    case True
    have "drop (offset + ?k) (mb_records p) = concat (map (record_bytes (mb_format p)) ws)"
      using view by (metis add.commute append_eq_conv_conj drop_drop)
    moreover have "offset + ?k \<le> length (mb_records p)"
      using arg_cong [OF view, of length] Cons.prems(2) by simp
    ultimately obtain it where it: "block_changes (Suc ?n) (iterator_at p (offset + ?k) ?n)
        = (map (record_change p) (takeWhile record_returned ws), it)"
        "unat (bi_remaining it) = ?n - length (takeWhile record_returned ws)"
      using Cons.IH Cons.prems by fastforce
    have "mc_block_change_iterator_next (iterator_at p offset (Suc ?n))
        = (Some (record_change p w), iterator_at p (offset + ?k) ?n)"
      by (rule next_returned [OF view Cons.prems(2) fits True _ small]) simp
    then show ?thesis using it True by (simp del: block_changes.simps(2) add: block_changes.simps(2) [of "Suc ?n"])
  next
    case False
    from next_too_large [OF view Cons.prems(2) fits False small] show ?thesis
      using False small
      by (auto simp: block_changes.simps(2) [of "Suc ?n"] unat_of_nat take_bit_nat_eq_self
          simp del: block_changes.simps(2) of_nat_Suc)
  qed
qed

subsection \<open>Columns\<close>

text \<open>The chunk or section a position is in, read as integers.\<close>

definition in_column :: "mc_multi_block_change \<Rightarrow> mc_position \<Rightarrow> bool" where
  "in_column p position \<longleftrightarrow>
     sint (pos_x position) div 16 = sint (mb_chunk_x p) \<and> sint (pos_z position) div 16 = sint (mb_chunk_z p)"

definition in_section :: "mc_multi_block_change \<Rightarrow> mc_position \<Rightarrow> bool" where
  "in_section p position \<longleftrightarrow> in_column p position \<and> sint (pos_y position) div 16 = sint (mb_section_y p)"

definition chunk_small :: "i32 \<Rightarrow> bool" where
  "chunk_small c \<longleftrightarrow> - (2 ^ 27) \<le> sint c \<and> sint c < 2 ^ 27"

lemma sint_i32:
  assumes "- 2147483648 \<le> i" and "i < 2147483648"
  shows "sint (word_of_int i :: i32) = i"
proof -
  have "sint (word_of_int i :: i32) = signed_take_bit 31 i"
    by (simp add: sint_uint uint_word_of_int_eq signed_take_bit_take_bit)
  then show ?thesis using assms by (simp add: signed_take_bit_int_eq_self)
qed

lemma axis_chunk:
  assumes "chunk_small c" and "uint k < 16"
  shows "sint (c * 16 + k :: i32) div 16 = sint c"
proof -
  have c: "- 134217728 \<le> sint c" "sint c < 134217728" using assms(1) by (simp_all add: chunk_small_def)
  have eq: "c * 16 + k = word_of_int (sint c * 16 + uint k)" by simp
  have "sint (c * 16 + k) = sint c * 16 + uint k"
    unfolding eq by (rule sint_i32) (use c assms(2) uint_ge_0 [of k] in linarith)+
  then show ?thesis using assms(2) uint_ge_0 [of k] by simp
qed

lemma nibble:
  assumes "take_bit 4 w = (w :: i32)"
  shows "uint w < 16"
proof -
  have "uint w = take_bit 4 (uint w)" using assms by (metis unsigned_take_bit_eq)
  then show ?thesis using take_bit_int_less_exp [of 4 "uint w"] by simp
qed

lemma low_nibble: "uint (ucast (w AND 0x0f :: 'a::len word) :: i32) < 16"
proof (rule nibble)
  have "(0x0f :: 'a word) = mask 4" by (simp add: mask_eq_exp_minus_1)
  then show "take_bit 4 (ucast (w AND 0x0f) :: i32) = ucast (w AND 0x0f)"
    by (intro bit_word_eqI) (simp only: bit_simps, blast)
qed

lemma high_nibble: "uint (ucast (drop_bit 4 (h :: u8)) :: i32) < 16"
  by (rule nibble, rule bit_word_eqI) (auto simp: bit_simps dest: bit_imp_le_length)

lemma sign_extend_small:
  assumes "bits = Suc k" and "bits \<le> 22"
  shows "chunk_small (typed_sign_extend v bits)"
proof -
  define m :: u64 where "m = (v AND mask bits) XOR push_bit k 1"
  have "take_bit bits m = m"
    using assms by (intro bit_word_eqI) (auto simp: m_def bit_simps)
  then have m: "uint m < 2 ^ bits"
    by (metis take_bit_int_less_exp unsigned_take_bit_eq)
  have "typed_sign_extend v bits = ucast (m - push_bit k 1)"
    using assms by (simp add: typed_sign_extend_def Let_def m_def mask_eq_exp_minus_1)
  also have "m - push_bit k 1 = word_of_int (uint m - 2 ^ k)" by simp
  also have "ucast (word_of_int i :: u64) = (word_of_int i :: i32)" for i
    by (intro bit_word_eqI) (simp add: bit_simps)
  finally have ext: "typed_sign_extend v bits = word_of_int (uint m - 2 ^ k)" .
  have p: "0 \<le> (2::int) ^ k" "(2::int) ^ k \<le> 2097152" "(2::int) ^ bits \<le> 4194304"
    using assms power_increasing [of k 21 "2 :: int"] power_increasing [of bits 22 "2 :: int"] by simp_all
  have "sint (typed_sign_extend v bits) = uint m - 2 ^ k"
    unfolding ext by (rule sint_i32) (use p m uint_ge_0 [of m] in linarith)+
  moreover have "uint m - 2 ^ k < 134217728" "- 134217728 \<le> uint m - 2 ^ k"
    using p m uint_ge_0 [of m] by linarith+
  ultimately show ?thesis by (simp add: chunk_small_def)
qed

lemma change_in_column:
  assumes "chunk_small (mb_chunk_x p)" and "chunk_small (mb_chunk_z p)"
  shows "in_column p (br_position (record_change p w))"
  using assms
  by (cases w) (simp_all add: in_column_def record_change_def block_in_chunk_def block_in_section_def
      axis_chunk low_nibble high_nibble)

lemma change_in_section:
  assumes "chunk_small (mb_chunk_x p)" and "chunk_small (mb_chunk_z p)" and "chunk_small (mb_section_y p)"
  shows "in_section p (br_position (record_change p (Section_record packed)))"
  using assms change_in_column [of p "Section_record packed"]
  by (simp add: in_section_def record_change_def block_in_section_def axis_chunk low_nibble)

lemma head_sections:
  assumes "multi_block_head protocol r = (Some (count, v), r')" and "751 \<le> protocol"
  shows "mb_format v = (if protocol \<le> 758 then MC_MULTI_BLOCK_RECORD_SECTION_VARLONG
        else MC_MULTI_BLOCK_RECORD_SECTION_VARINT)
    \<and> chunk_small (mb_chunk_x v) \<and> chunk_small (mb_chunk_z v) \<and> chunk_small (mb_section_y v)"
proof -
  from assms obtain s suppress where v: "v = \<lparr>mb_chunk_x = typed_sign_extend (drop_bit 42 s) 22,
      mb_chunk_z = typed_sign_extend (drop_bit 20 s) 22, mb_section_y = typed_sign_extend s 20,
      mb_record_count = 0, mb_records = [],
      mb_format = (if protocol \<le> 758 then MC_MULTI_BLOCK_RECORD_SECTION_VARLONG
        else MC_MULTI_BLOCK_RECORD_SECTION_VARINT),
      mb_suppress_light_updates = suppress, mb_has_light_update_flag = (protocol \<le> 762)\<rparr>"
    by (simp add: multi_block_head_def Let_def) (elim bind_someE, simp add: return_some)
  show ?thesis unfolding v using sign_extend_small [of 22 21] sign_extend_small [of 20 19] by simp
qed

lemma head_chunks:
  assumes "multi_block_head protocol r = (Some (count, v), r')" and "protocol < 751"
  shows "mb_format v \<in> {MC_MULTI_BLOCK_RECORD_LEGACY_1_7, MC_MULTI_BLOCK_RECORD_CHUNK}"
  using assms by (auto simp: multi_block_head_def Let_def some_simps elim!: bind_someE split: if_splits)

lemma checked_head [rd_checked]: "checked_op (multi_block_head protocol)"
  unfolding multi_block_head_def Let_def by (intro rd_checked)

text \<open>What a strict decoder accepts: the records of the format, as many as it counts.\<close>

lemma multi_block_accepted:
  assumes run: "typed_decode_multi_block_change protocol r = (Some p, r')" and strict: "rd_mode r = MC_DECODE_STRICT"
  obtains ws where "length ws = unat (mb_record_count p)" and "list_all (record_fits (mb_format p)) ws"
    and "mb_records p = concat (map (record_bytes (mb_format p)) ws)"
    and "length ws \<le> MC_MAX_PACKET_ARRAY_COUNT"
    and "protocol < 751 \<Longrightarrow> mb_format p \<in> {MC_MULTI_BLOCK_RECORD_LEGACY_1_7, MC_MULTI_BLOCK_RECORD_CHUNK}"
    and "751 \<le> protocol \<Longrightarrow>
      mb_format p = (if protocol \<le> 758 then MC_MULTI_BLOCK_RECORD_SECTION_VARLONG
        else MC_MULTI_BLOCK_RECORD_SECTION_VARINT)
      \<and> chunk_small (mb_chunk_x p) \<and> chunk_small (mb_chunk_z p) \<and> chunk_small (mb_section_y p)"
proof -
  from run obtain count v r1 r2 u records where head: "multi_block_head protocol r = (Some (count, v), r1)"
    and count: "typed_count count MC_MAX_PACKET_ARRAY_COUNT r1 = (Some (), r2)"
    and loop: "rd_repeat (unat count) (multi_block_record (mb_format v)) r2 = (Some u, r')"
    and records: "records = take (rd_offset r' - rd_offset r2) (drop (rd_offset r2) (rd_data r'))"
    and p: "p = v\<lparr>mb_record_count := ucast count, mb_records := records\<rparr>"
    by (auto simp: typed_decode_multi_block_change_def capture_some return_some elim!: bind_someE)
  have "rd_mode r1 = rd_mode r"
    using reader_op.op_mode [of "multi_block_head protocol" r] head by (simp add: checked_reader rd_checked)
  moreover have "r2 = r1" and n: "\<not> sint count < 0" "unat count \<le> MC_MAX_PACKET_ARRAY_COUNT"
    using count by (auto simp: typed_count_def rd_here_def reader_fail_def rd_return_def split: if_splits)
  ultimately have "rd_mode r2 = MC_DECODE_STRICT" using strict by simp
  from records_accepted [OF loop this] obtain ws where ws: "length ws = unat count"
    "list_all (record_fits (mb_format v)) ws" "read_bytes r2 r' (concat (map (record_bytes (mb_format v)) ws))"
    by blast
  have "mb_records p = concat (map (record_bytes (mb_format p)) ws)"
    using ws(3) by (simp add: p records read_bytes_def)
  moreover have "unat (mb_record_count p) = unat count"
    by (simp add: p)
  ultimately show ?thesis
    using that [of ws] ws n head_sections [OF head] head_chunks [OF head] by (simp add: p)
qed

lemma small_records_returned:
  "record_fits format w \<Longrightarrow> format \<noteq> MC_MULTI_BLOCK_RECORD_SECTION_VARLONG \<Longrightarrow> record_returned w"
proof (cases w)
  case (Section_record packed)
  assume "record_fits format w" and "format \<noteq> MC_MULTI_BLOCK_RECORD_SECTION_VARLONG"
  then have "unat packed < 2 ^ 31" using Section_record by (simp add: record_fits_def)
  moreover have "drop_bit 12 packed = packed div 2 ^ 12" by (simp add: drop_bit_eq_div)
  then have "unat (drop_bit 12 packed) \<le> unat packed" by (simp add: unat_div)
  ultimately show ?thesis using Section_record by (simp add: record_returned_def)
qed (simp_all add: record_returned_def)

lemma iterator_starts:
  assumes "unat (mb_record_count p) \<le> MC_MAX_PACKET_ARRAY_COUNT"
  shows "mc_multi_block_change_iterator p = Some (iterator_at p 0 (unat (mb_record_count p)))"
  using assms by (simp add: mc_multi_block_change_iterator_def iterator_at_def rd_advance_def)


text \<open>
  A packet of 1.18 with two records: the first puts state 1 at (1, 3, 2), the second has the state
  number 2147483648.
\<close>

definition sample_records :: "u8 list" where
  "sample_records = [0xa3, 0x22, 0x80, 0x80, 0x80, 0x80, 0x80, 0x80, 0x02]"

definition sample_changes :: mc_multi_block_change where
  "sample_changes = \<lparr>mb_chunk_x = 0, mb_chunk_z = 0, mb_section_y = 0, mb_record_count = 2,
     mb_records = sample_records, mb_format = MC_MULTI_BLOCK_RECORD_SECTION_VARLONG,
     mb_suppress_light_updates = False, mb_has_light_update_flag = True\<rparr>"

lemma sample_changes_decoded:
  "\<exists>r'. typed_decode_multi_block_change 757
      (mc_reader_init_mode (Buf ([0, 0, 0, 0, 0, 0, 0, 0, 0, 2] @ sample_records)) MC_DECODE_STRICT None)
    = (Some sample_changes, r')"
proof -
  have two: "rd_repeat 2 m = rd_bind m (\<lambda>_. rd_bind m (\<lambda>_. rd_return ()))" for m
    by (simp add: numeral_2_eq_2)
  show ?thesis
    by (simp add: typed_decode_multi_block_change_def multi_block_head_def multi_block_record_def reader_eval
      mc_reader_u64_def mc_reader_bool_def mc_reader_varlong_def typed_count_def rd_valid_def rd_capture_def
      sample_records_def sample_changes_def typed_sign_extend_def MC_MAX_PACKET_ARRAY_COUNT_def
      two)
qed

text \<open>The decoder counts two changes, a loop over the iterator sees one.\<close>

lemma block_records_rejected:
  "mb_record_count sample_changes = 2
    \<and> map_option (\<lambda>it. fst (block_changes (Suc (Suc (Suc 0))) it)) (mc_multi_block_change_iterator sample_changes)
      = Some [\<lparr>br_position = \<lparr>pos_x = 1, pos_y = 3, pos_z = 2\<rparr>, br_state_id = 1, br_raw_record = 0x1123\<rparr>]"
  by (simp add: mc_multi_block_change_iterator_def mc_block_change_iterator_next_def
      block_change_body_def last_of_view_def view_reader_def reader_eval mc_reader_varlong_def rd_check_def
      sample_records_def sample_changes_def block_in_section_def MC_MAX_PACKET_ARRAY_COUNT_def
      INT32_MAX_def typed_invalid_def reader_fail_def mc_reader_remaining_def)


end
