(* ===== verification/Rotation_Laws.thy ===== *)
theory Rotation_Laws
  imports Block_Changes
begin

text \<open>
  Rotations that travel as a byte. The decoders read the byte without a sign, so that looking up is an
  angle between 270 and 360 degrees, and a strict decoder accepts a pitch within 90 degrees only.
\<close>

lemma bit_length_exact: "2 ^ l \<le> m \<Longrightarrow> m < 2 ^ Suc l \<Longrightarrow> bit_length m = Suc l"
proof (induction l arbitrary: m)
  case 0
  then have "m = 1" by simp
  then show ?case by (simp add: bit_length.simps [of "Suc 0"] bit_length.simps [of 0])
next
  case (Suc l)
  have "2 ^ l \<le> m div 2" "m div 2 < 2 ^ Suc l" using Suc.prems by simp_all
  then have "bit_length (m div 2) = Suc l" by (rule Suc.IH)
  moreover have "m \<noteq> 0" using Suc.prems by (cases "m = 0") simp_all
  ultimately show ?case by (simp add: bit_length.simps [of m])
qed

text \<open>An angle in units of 1/32 degree is a float, and its bits are ordered as the angles.\<close>

lemma angle_bits:
  assumes m: "2 ^ l \<le> m" "m < 2 ^ Suc l" and l: "l \<le> 23"
  shows "f32_ratio_bits m 32 = (l + 121) * 2 ^ 23 + m * 2 ^ (23 - l)"
proof -
  have div: "m * 2 ^ 149 div 32 = m * (2 :: nat) ^ 144"
    by (simp add: mult.commute flip: div_mult2_eq)
  have len: "bit_length (m * 2 ^ 144) = Suc (l + 144)"
    by (rule bit_length_exact) (use m in \<open>simp_all add: power_add\<close>)
  have shift: "bit_length (m * 2 ^ 149 div 32) - 24 = l + 121" unfolding div len by simp
  have step: "(32 :: nat) * 2 ^ (l + 121) = 2 ^ (l + 126)" by (simp add: power_add)
  have "(2 :: nat) ^ 149 = 2 ^ (23 - l) * 2 ^ (l + 126)" using l by (simp flip: power_add)
  then have whole: "m * 2 ^ 149 = m * 2 ^ (23 - l) * 2 ^ (l + 126)" by (simp only: mult.assoc)
  have "m * 2 ^ 149 div 2 ^ (l + 126) = m * 2 ^ (23 - l)" "m * 2 ^ 149 mod 2 ^ (l + 126) = 0"
    unfolding whole by simp_all
  moreover have "m * 2 ^ (23 - l) < 2 ^ 24"
  proof -
    have "m * 2 ^ (23 - l) < 2 ^ Suc l * 2 ^ (23 - l)" using m(2) by simp
    also have "\<dots> = 2 ^ 24" using l by (simp flip: power_add power_Suc)
    finally show ?thesis .
  qed
  then have "(l + 121) * 2 ^ 23 + m * 2 ^ (23 - l) \<le> F32_INFINITY"
    using l by (simp add: F32_INFINITY_def)
  ultimately show ?thesis
    unfolding f32_ratio_bits_def Let_def shift step by simp
qed

lemma angle_bits_range:
  assumes "2880 < m" and "m < 16384"
  shows "1119092736 < f32_ratio_bits m 32 \<and> f32_ratio_bits m 32 < 0x7f800000"
proof -
  consider "2 ^ 11 \<le> m" "m < 2 ^ Suc 11" | "2 ^ 12 \<le> m" "m < 2 ^ Suc 12" | "2 ^ 13 \<le> m" "m < 2 ^ Suc 13"
    using assms by fastforce
  then show ?thesis
    by cases (use assms in \<open>simp_all add: angle_bits [of 11] angle_bits [of 12] angle_bits [of 13]\<close>)
qed

lemma f32_of_small_bits:
  assumes "b < 0x7f800000"
  shows "f32_order (of_nat b) = int b" and "\<not> f32_isnan (of_nat b)" and "f32_isfinite (of_nat b)"
proof -
  have u: "unat (of_nat b :: f32) = b" using assms by (simp add: unat_of_nat take_bit_nat_eq_self)
  have mask: "(0x7fffffff :: f32) = mask 31" "(0xff :: f32) = mask 8" by (simp_all add: mask_eq_exp_minus_1)
  have "\<not> bit b 31"
    using assms by (simp add: bit_iff_odd)
  then have "\<not> bit (of_nat b :: f32) 31" by (simp add: bit_simps)
  moreover have "(of_nat b :: f32) AND 0x7fffffff = of_nat b"
    unfolding mask(1) take_bit_eq_mask [symmetric]
    using assms by (simp add: word_unat_eq_iff unsigned_take_bit_eq u take_bit_nat_eq_self)
  moreover have "uint (of_nat b :: f32) = int b"
    using u by (metis uint_nat)
  ultimately show "f32_order (of_nat b) = int b" by (simp add: f32_order_def)
  have "drop_bit 23 (of_nat b :: f32) = of_nat b div 2 ^ 23" by (simp add: drop_bit_eq_div)
  then have "unat (drop_bit 23 (of_nat b :: f32)) = b div 2 ^ 23" by (simp add: unat_div u)
  then have "f32_exponent (of_nat b) = b div 2 ^ 23 mod 2 ^ 8"
    unfolding f32_exponent_def mask(2) take_bit_eq_mask [symmetric] unsigned_take_bit_eq
    by (simp only: take_bit_eq_mod)
  then have "f32_exponent (of_nat b) \<noteq> 0xff" using assms by simp
  then show "\<not> f32_isnan (of_nat b)" and "f32_isfinite (of_nat b)"
    by (simp_all add: f32_isnan_def f32_isfinite_def)
qed

lemma pitch_over_ninety:
  assumes "64 < unat raw"
  shows "f32_less F32_NINETY (angle_of_byte raw)"
proof -
  define b where "b = f32_ratio_bits (unat raw * 45) 32"
  have "unat raw < 256" using unsigned_less [of raw, where 'a = nat] by simp
  then have b: "1119092736 < b" "b < 0x7f800000"
    unfolding b_def using angle_bits_range [of "unat raw * 45"] assms by simp_all
  have "nat \<bar>uint raw * 45\<bar> = unat raw * 45" by (simp add: abs_mult nat_mult_distrib nat_uint_eq)
  moreover have "\<not> uint raw * 45 < 0" by (simp add: not_less)
  ultimately have "angle_of_byte raw = of_nat b"
    unfolding angle_of_byte_def f32_quotient_def Let_def b_def by simp
  moreover have "\<not> f32_isnan F32_NINETY" "f32_order F32_NINETY = 1119092736"
    by (simp_all add: f32_isnan_def f32_exponent_def F32_NINETY_def f32_order_def)
  ultimately show ?thesis using b f32_of_small_bits [OF b(2)] by (simp add: f32_less_def)
qed

lemma test_some: "rd_test c r = (Some u, r') \<longleftrightarrow> c \<and> r' = r"
  by (auto simp: rd_test_def)

lemma checked_teleport_fields: "checked_op (teleport_fields protocol name v)"
  unfolding teleport_fields_def teleport_path_def teleport_float_rotation_def teleport_byte_rotation_def
  by (intro rd_checked)

text \<open>
  C38. A strict decoder accepts no entity teleport with the entity looking up: the pitch travels as a
  signed byte in units of 360/256 degrees, the decoder takes it for an angle from 0 to 360 degrees,
  and rejects what is above 90, which is the whole upper half of the range.
\<close>

theorem strict_teleport_looks_down:
  assumes run: "typed_decode_entity_teleport protocol name r = (Some v, r')"
    and strict: "rd_mode r = MC_DECODE_STRICT" and bytes: "name \<noteq> ''sync_entity_position''"
  shows "\<not> sint (et_pitch_raw v) < 0 \<and> unat (et_pitch_raw v) \<le> 64"
proof -
  obtain entity r1 r2 where entity: "read_entity_id protocol r = (Some entity, r1)"
    and fields: "teleport_fields protocol name (entity_teleport_start entity) r1 = (Some v, r2)"
    and checked: "rd_bind (rd_test (\<not> sint entity < 0 \<and> point_finite (et_x v, et_y v, et_z v)
        \<and> point_finite (et_delta_x v, et_delta_y v, et_delta_z v)))
      (\<lambda>_. typed_finite_rotation (et_yaw v) (et_pitch v)) r2 = (Some (), r')"
    using run unfolding typed_decode_entity_teleport_def
    by (elim bind_someE) (simp add: some_simps)
  have "rd_mode r2 = rd_mode r"
    using reader_op.op_mode [of "read_entity_id protocol" r] entity fields
      reader_op.op_mode [of "teleport_fields protocol name (entity_teleport_start entity)" r1]
    by (simp add: checked_reader checked_entity_id checked_teleport_fields)
  moreover have "et_pitch v = angle_of_byte (et_pitch_raw v)"
    using fields bytes
    by (auto simp: teleport_fields_def teleport_byte_rotation_def return_some elim!: bind_someE split: if_splits)
  ultimately have "\<not> f32_less F32_NINETY (angle_of_byte (et_pitch_raw v))"
    using checked strict
    by (auto simp: typed_finite_rotation_def rd_strict_def check_some test_some elim!: bind_someE)
  then have "unat (et_pitch_raw v) \<le> 64" using pitch_over_ninety not_less by blast
  then show ?thesis using word_below [of "et_pitch_raw v"] by simp
qed

text \<open>An entity of 1.8 at the origin that looks straight ahead.\<close>

lemma strict_teleport_looks_down_witness:
  "\<exists>v r'. typed_decode_entity_teleport 47 ''entity_teleport''
      (mc_reader_init_mode (Buf [1, 0, 0, 0, 0, 0, 0, 0, 0, 0, 0, 0, 0, 0, 0, 1]) MC_DECODE_STRICT None) = (Some v, r')
    \<and> \<not> sint (et_pitch_raw v) < 0 \<and> unat (et_pitch_raw v) \<le> 64"
proof -
  let ?r = "mc_reader_init_mode (Buf [1, 0, 0, 0, 0, 0, 0, 0, 0, 0, 0, 0, 0, 0, 0, 1]) MC_DECODE_STRICT None"
  have zero: "angle_of_byte 0 = 0" "f64_quotient 0 32 = 0"
    by (simp_all add: angle_of_byte_def f32_quotient_def f32_ratio_bits_def f64_quotient_def f64_ratio_bits_def
        Let_def bit_length.simps [of 0])
  have "\<exists>v r'. typed_decode_entity_teleport 47 ''entity_teleport'' ?r = (Some v, r')"
    by (simp add: typed_decode_entity_teleport_def teleport_fields_def teleport_byte_rotation_def reader_eval
        read_entity_id_def mc_reader_bool_def rd_valid_def typed_finite_rotation_def rd_check_def
        entity_teleport_start_def point_finite_def zero f64_isfinite_def f64_exponent_def
        f32_isfinite_def f32_exponent_def f32_less_def f32_isnan_def f32_order_def F32_NINETY_def
        F32_MINUS_NINETY_def)
  then obtain v r' where run: "typed_decode_entity_teleport 47 ''entity_teleport'' ?r = (Some v, r')" by blast
  have "rd_mode ?r = MC_DECODE_STRICT" by (simp add: mc_reader_init_mode_def)
  from strict_teleport_looks_down [OF run this] run show ?thesis by simp
qed

end
