(* ===== verification/Divergences.thy ===== *)
theory Divergences
  imports Rotation_Laws
begin

text \<open>Inputs on which two parts of the library disagree.\<close>

subsection \<open>Respawns of 26.3\<close>

text \<open>
  From 26.3 on the game modes of a respawn are integers, the previous one counted from 1 with 0 for
  none. \<open>mc_reader_clientbound_respawn\<close> reads them so; the typed decoder still reads two bytes and
  takes the 0 for survival mode.
\<close>

definition sample_respawn :: "u8 list" where
  "sample_respawn = [0, 1, 97, 0, 0, 0, 0, 0, 0, 0, 0, 1, 0, 0, 0, 0, 0, 0, 0]"

lemma respawn_modes_differ:
  "\<exists>d p r1 r2. mc_reader_clientbound_respawn 777 (mc_reader_init_mode (Buf sample_respawn) MC_DECODE_STRICT None)
        = (Some d, r1)
    \<and> typed_decode_respawn 777 (mc_reader_init_mode (Buf sample_respawn) MC_DECODE_STRICT None) = (Some p, r2)
    \<and> rs_game_mode d = 1 \<and> rp_game_mode p = 1
    \<and> rs_previous_game_mode d = -1 \<and> rp_previous_game_mode p = 0"
proof -
  let ?r = "mc_reader_init_mode (Buf sample_respawn) MC_DECODE_STRICT None"
  have none: "ucast (-1 :: i32) = (-1 :: i8)"
    by (rule bit_word_eqI) (simp add: bit_simps)
  have "\<exists>d r1. mc_reader_clientbound_respawn 777 ?r = (Some d, r1) \<and> rs_game_mode d = 1
      \<and> rs_previous_game_mode d = -1"
    by (simp add: mc_reader_clientbound_respawn_def rd_ready_def supported_iff protocol_ids_def reader_eval
        respawn_typed_def rd_mark_def mc_reader_respawn_identity_tail_def mc_reader_game_modes_def
        mc_reader_respawn_bool_def mc_reader_respawn_last_death_def mc_reader_i64_def mc_reader_u64_def
        mc_reader_bool_def respawn_start_def respawn_flags_def sample_respawn_def none)
  moreover have "\<exists>p r2. typed_decode_respawn 777 ?r = (Some p, r2) \<and> rp_game_mode p = 1
      \<and> rp_previous_game_mode p = 0"
    by (simp add: typed_decode_respawn_def typed_respawn_modern_def typed_respawn_tail_def
        typed_respawn_dimension_def respawn_portal_def typed_read_death_location_def rd_valid_def rd_check_def
        respawn_add_flags_def respawn_packet_start_def reader_eval mc_reader_i64_def mc_reader_u64_def
        mc_reader_bool_def sample_respawn_def)
  ultimately show ?thesis by blast
qed

end
