(* ===== verification/Backends.thy ===== *)
theory Backends
  imports Prelude
begin

text \<open>
  The network backends and the sockets of \<open>api.c\<close> (sections NETWORK BACKENDS and TRANSPORT / TCP) in the
  Linux build: \<open>ring_close\<close> to \<open>mc_client_set_backend\<close>, \<open>connect_tcp\<close>, \<open>bind_tcp\<close> and the operations on
  \<open>McServer\<close>, with the descriptors and the mappings they own.

  Environment. The kernel is the record \<open>os\<close>: the open descriptors, the live mappings, and the
  results of the system calls in their order. A call that creates a descriptor or a mapping gives a
  number that was never used; behind the end of a list every call fails. Name resolution and
  \<open>inet_pton\<close> are parameters. \<open>setsockopt\<close> and \<open>memset\<close> on local records have no effect on this state, the
  text of error messages is not modelled. Of the ring's memory the model keeps what the code reads
  back: the two ends of the submission queue and the completions.
\<close>

subsection \<open>The kernel\<close>

datatype mc_enter = Enter_done "(u64 \<times> i32) list" | Enter_interrupted | Enter_failed

datatype mc_ready = Ready_result int | Ready_interrupted

record os =
  os_next :: int
  os_open :: "int set"
  os_maps :: "int set"
  os_results :: "bool list"
  os_enters :: "mc_enter list"
  os_ready :: "mc_ready list"
  os_completions :: "(u64 \<times> i32) list"
  os_sq_head :: u32
  os_sq_tail :: u32

text \<open>A call that succeeds or fails.\<close>

definition sys_check :: "os \<Rightarrow> bool \<times> os" where
  "sys_check k = (case os_results k of [] \<Rightarrow> (False, k) | ok # rest \<Rightarrow> (ok, k\<lparr>os_results := rest\<rparr>))"

text \<open>A call that gives a descriptor, or -1; and one that gives a mapping.\<close>

definition sys_open :: "os \<Rightarrow> int \<times> os" where
  "sys_open k =
     (case sys_check k of
        (False, k') \<Rightarrow> (-1, k')
      | (True, k') \<Rightarrow> (os_next k', k'\<lparr>os_next := os_next k' + 1, os_open := insert (os_next k') (os_open k')\<rparr>))"

definition sys_close :: "int \<Rightarrow> os \<Rightarrow> os" where
  "sys_close fd k = k\<lparr>os_open := os_open k - {fd}\<rparr>"

definition sys_map :: "os \<Rightarrow> int option \<times> os" where
  "sys_map k =
     (case sys_check k of
        (False, k') \<Rightarrow> (None, k')
      | (True, k') \<Rightarrow> (Some (os_next k'), k'\<lparr>os_next := os_next k' + 1, os_maps := insert (os_next k') (os_maps k')\<rparr>))"

definition sys_unmap :: "int option \<Rightarrow> os \<Rightarrow> os" where
  "sys_unmap m k = (case m of None \<Rightarrow> k | Some i \<Rightarrow> k\<lparr>os_maps := os_maps k - {i}\<rparr>)"

subsection \<open>The ring\<close>

record mc_ring =
  rg_fd :: int
  rg_sq_map :: "int option"
  rg_cq_map :: "int option"
  rg_sqes :: "int option"
  rg_single_map :: bool

definition ring_empty :: mc_ring where
  "ring_empty = \<lparr>rg_fd = -1, rg_sq_map = None, rg_cq_map = None, rg_sqes = None, rg_single_map = False\<rparr>"

definition ring_close :: "mc_ring \<Rightarrow> os \<Rightarrow> mc_ring \<times> os" where
  "ring_close ring k =
     (let k = sys_unmap (rg_sqes ring) k;
          k = sys_unmap (rg_sq_map ring) k;
          k = (if rg_single_map ring then k else sys_unmap (rg_cq_map ring) k);
          k = (if rg_fd ring \<ge> 0 then sys_close (rg_fd ring) k else k)
      in (ring_empty, k))"

definition ring_failed :: "mc_ring \<Rightarrow> os \<Rightarrow> bool \<times> mc_ring \<times> os" where
  "ring_failed ring k = (False, ring_close ring k)"

text \<open>One of the mappings: \<open>ring_close\<close> and -1 when the kernel refuses it.\<close>

definition ring_map :: "(os \<Rightarrow> int option \<times> os) \<Rightarrow> (int \<Rightarrow> mc_ring \<Rightarrow> mc_ring)
    \<Rightarrow> (mc_ring \<Rightarrow> os \<Rightarrow> bool \<times> mc_ring \<times> os) \<Rightarrow> mc_ring \<Rightarrow> os \<Rightarrow> bool \<times> mc_ring \<times> os" where
  "ring_map call store continue ring k =
     (case call k of
        (None, k) \<Rightarrow> ring_failed ring k
      | (Some m, k) \<Rightarrow> continue (store m ring) k)"

text \<open>Whether the kernel has the feature of one mapping for both queues is one of its results.\<close>

definition ring_init :: "os \<Rightarrow> bool \<times> mc_ring \<times> os" where
  "ring_init k =
     (case sys_open k of (fd, k) \<Rightarrow>
      if fd < 0 then (False, ring_empty, k)
      else case sys_check k of (single, k) \<Rightarrow>
        ring_map sys_map (\<lambda>m ring. ring\<lparr>rg_sq_map := Some m\<rparr>) (\<lambda>ring.
        ring_map (if single then (\<lambda>k. (rg_sq_map ring, k)) else sys_map)
          (\<lambda>m ring. ring\<lparr>rg_cq_map := Some m\<rparr>) (
        ring_map sys_map (\<lambda>m ring. ring\<lparr>rg_sqes := Some m\<rparr>) (\<lambda>ring k.
        (True, ring, k\<lparr>os_completions := [], os_sq_head := 0, os_sq_tail := 0\<rparr>))) ring)
          (ring_empty\<lparr>rg_fd := fd, rg_single_map := single\<rparr>) k)"

text \<open>One wait for completions: interrupted calls are repeated, and a failed one ends the wait.\<close>

fun ring_enter :: "mc_enter list \<Rightarrow> (u64 \<times> i32) list option \<times> mc_enter list" where
  "ring_enter [] = (None, [])"
| "ring_enter (Enter_interrupted # enters) = ring_enter enters"
| "ring_enter (Enter_failed # enters) = (None, enters)"
| "ring_enter (Enter_done arrived # enters) = (Some arrived, enters)"

lemma ring_enter_shorter:
  "ring_enter enters = (Some arrived, rest) \<Longrightarrow> length rest < length enters"
  by (induction enters rule: ring_enter.induct) auto

text \<open>
  The loop over the completions: \<open>completed\<close> of the two are counted, and \<open>poll_result\<close> is that of the
  readiness operation, the one with user data 1.
\<close>

definition poll_of :: "i32 \<Rightarrow> (u64 \<times> i32) list \<Rightarrow> i32" where
  "poll_of poll_result seen = foldl (\<lambda>p (user_data, res). if user_data = 1 then res else p) poll_result seen"

function ring_complete :: "nat \<Rightarrow> i32 \<Rightarrow> (u64 \<times> i32) list \<Rightarrow> mc_enter list
    \<Rightarrow> i32 option \<times> (u64 \<times> i32) list \<times> mc_enter list" where
  "ring_complete completed poll_result queue enters =
     (let seen = take (2 - completed) queue;
          poll_result = poll_of poll_result seen;
          queue = drop (2 - completed) queue;
          completed = completed + length seen
      in if \<not> completed < 2 then (Some poll_result, queue, enters)
         else case ring_enter enters of
             (None, rest) \<Rightarrow> (None, queue, rest)
           | (Some arrived, rest) \<Rightarrow> ring_complete completed poll_result (queue @ arrived) rest)"
  by pat_completeness auto
termination
  by (relation "measure (\<lambda>(completed, poll_result, queue, enters). length enters)")
     (auto dest!: sym [THEN ring_enter_shorter])

declare ring_complete.simps [simp del]

definition POLLIN :: i32 where "POLLIN = 1"
definition ECANCELED :: int where "ECANCELED = 125"

text \<open>
  A wait on a ring that is closed reads through null pointers: \<^term>\<open>None\<close>. Otherwise the result is
  1, 0 or -2.
\<close>

definition ring_wait :: "mc_ring \<Rightarrow> os \<Rightarrow> int option \<times> os" where
  "ring_wait ring k =
     (if rg_sq_map ring = None \<or> rg_cq_map ring = None \<or> rg_sqes ring = None then (None, k)
      else if os_sq_tail k - os_sq_head k + 2 > 8 then (Some (-2), k)
      else
        let k = k\<lparr>os_sq_tail := os_sq_tail k + 2\<rparr> in
        case ring_enter (os_enters k) of
          (None, enters) \<Rightarrow> (Some (-2), k\<lparr>os_enters := enters\<rparr>)
        | (Some arrived, enters) \<Rightarrow>
            let k = k\<lparr>os_sq_head := os_sq_tail k\<rparr> in
            case ring_complete 0 (of_int (- ECANCELED)) (os_completions k @ arrived) enters of
              (None, queue, enters) \<Rightarrow> (Some (-2), k\<lparr>os_completions := queue, os_enters := enters\<rparr>)
            | (Some poll_result, queue, enters) \<Rightarrow>
                (Some (if sint poll_result \<ge> 0 then if poll_result AND POLLIN \<noteq> 0 then 1 else 0
                       else if sint poll_result = - ECANCELED then 0
                       else -2),
                 k\<lparr>os_completions := queue, os_enters := enters\<rparr>))"

subsection \<open>The backend of a client\<close>

datatype mc_backend = MC_BACKEND_NONE | MC_BACKEND_IO_URING | MC_BACKEND_KQUEUE | MC_BACKEND_EPOLL
  | MC_BACKEND_POLL

definition mc_backend_of :: "int \<Rightarrow> mc_backend option" where
  "mc_backend_of n =
     (if n < 0 \<or> n > 4 then None
      else Some ([MC_BACKEND_NONE, MC_BACKEND_IO_URING, MC_BACKEND_KQUEUE, MC_BACKEND_EPOLL, MC_BACKEND_POLL]
                 ! nat n))"

text \<open>The fields of \<open>McClient\<close> that these operations use.\<close>

record mc_backend_client =
  bk_socket_fd :: int
  bk_backend :: mc_backend
  bk_preferred_backend :: mc_backend
  bk_event_fd :: int
  bk_ring :: mc_ring
  bk_local_address :: "(int \<times> u8 list) option"

definition mc_backend_name :: "mc_backend \<Rightarrow> string" where
  "mc_backend_name backend =
     (case backend of
        MC_BACKEND_IO_URING \<Rightarrow> ''io_uring''
      | MC_BACKEND_KQUEUE \<Rightarrow> ''kqueue''
      | MC_BACKEND_EPOLL \<Rightarrow> ''epoll''
      | MC_BACKEND_POLL \<Rightarrow> ''poll''
      | MC_BACKEND_NONE \<Rightarrow> ''none'')"

definition mc_client_backend :: "mc_backend_client option \<Rightarrow> mc_backend" where
  "mc_client_backend client = (case client of None \<Rightarrow> MC_BACKEND_NONE | Some c \<Rightarrow> bk_backend c)"

definition mc_client_set_backend :: "int \<Rightarrow> mc_backend_client \<Rightarrow> bool \<times> mc_backend_client" where
  "mc_client_set_backend n c =
     (if bk_socket_fd c \<ge> 0 then (False, c)
      else case mc_backend_of n of
          None \<Rightarrow> (False, c)
        | Some backend \<Rightarrow>
            if backend = MC_BACKEND_KQUEUE then (False, c)
            else (True, c\<lparr>bk_preferred_backend := backend\<rparr>))"

definition backend_close :: "mc_backend_client \<Rightarrow> os \<Rightarrow> mc_backend_client \<times> os" where
  "backend_close c k =
     (case (if bk_backend c = MC_BACKEND_IO_URING then ring_close (bk_ring c) k else (bk_ring c, k)) of
        (ring, k) \<Rightarrow>
          let k = (if bk_event_fd c \<ge> 0 then sys_close (bk_event_fd c) k else k)
          in (c\<lparr>bk_ring := ring, bk_event_fd := -1, bk_backend := MC_BACKEND_NONE\<rparr>, k))"

definition backend_epoll :: "mc_backend_client \<Rightarrow> os \<Rightarrow> bool \<times> mc_backend_client \<times> os" where
  "backend_epoll c k =
     (case sys_open k of (epoll_fd, k) \<Rightarrow>
      if epoll_fd < 0 then (False, c, k)
      else case sys_check k of (added, k) \<Rightarrow>
        if \<not> added then (False, c, sys_close epoll_fd k)
        else (True, c\<lparr>bk_event_fd := epoll_fd, bk_backend := MC_BACKEND_EPOLL\<rparr>, k))"

definition backend_fallback :: "mc_backend_client \<Rightarrow> os \<Rightarrow> bool \<times> mc_backend_client \<times> os" where
  "backend_fallback c k =
     (if bk_preferred_backend c = MC_BACKEND_IO_URING then (False, c, k)
      else case backend_epoll c k of
          (True, c, k) \<Rightarrow> (True, c, k)
        | (False, c, k) \<Rightarrow>
            if bk_preferred_backend c = MC_BACKEND_EPOLL then (False, c, k)
            else (True, c\<lparr>bk_backend := MC_BACKEND_POLL\<rparr>, k))"

definition backend_init :: "mc_backend_client \<Rightarrow> os \<Rightarrow> bool \<times> mc_backend_client \<times> os" where
  "backend_init c k =
     (case backend_close c k of (c, k) \<Rightarrow>
      if bk_preferred_backend c = MC_BACKEND_POLL then (True, c\<lparr>bk_backend := MC_BACKEND_POLL\<rparr>, k)
      else if bk_preferred_backend c \<noteq> MC_BACKEND_EPOLL then
        (case ring_init k of
           (True, ring, k) \<Rightarrow> (True, c\<lparr>bk_ring := ring, bk_backend := MC_BACKEND_IO_URING\<rparr>, k)
         | (False, ring, k) \<Rightarrow> backend_fallback (c\<lparr>bk_ring := ring\<rparr>) k)
      else backend_fallback c k)"

text \<open>\<open>epoll_wait\<close> and \<open>poll\<close>, repeated while a signal interrupts them.\<close>

fun ready_wait :: "mc_ready list \<Rightarrow> int \<times> mc_ready list" where
  "ready_wait [] = (-1, [])"
| "ready_wait (Ready_interrupted # rest) = ready_wait rest"
| "ready_wait (Ready_result n # rest) = (n, rest)"

definition descriptor_wait :: "mc_backend_client \<Rightarrow> os \<Rightarrow> int option \<times> mc_backend_client \<times> os" where
  "descriptor_wait c k =
     (case ready_wait (os_ready k) of (n, rest) \<Rightarrow> (Some n, c, k\<lparr>os_ready := rest\<rparr>))"

text \<open>
  \<open>backend_wait\<close>: a ring that fails is replaced by epoll, or by poll, unless the caller asked for
  the ring. \<open>descriptor_wait\<close> is the wait on the epoll descriptor or on the socket.
\<close>

definition backend_wait_linux :: "mc_backend_client \<Rightarrow> os \<Rightarrow> int option \<times> mc_backend_client \<times> os" where
  "backend_wait_linux c k =
     (if bk_backend c = MC_BACKEND_IO_URING then
        (case ring_wait (bk_ring c) k of
           (None, k) \<Rightarrow> (None, c, k)
         | (Some result, k) \<Rightarrow>
             if result \<noteq> -2 then (Some result, c, k)
             else case ring_close (bk_ring c) k of (ring, k) \<Rightarrow>
               let c = c\<lparr>bk_ring := ring\<rparr> in
               if bk_preferred_backend c = MC_BACKEND_IO_URING then (Some (-1), c, k)
               else case backend_epoll c k of
                   (True, c, k) \<Rightarrow> descriptor_wait c k
                 | (False, c, k) \<Rightarrow> descriptor_wait (c\<lparr>bk_backend := MC_BACKEND_POLL\<rparr>) k)
      else descriptor_wait c k)"

definition AF_INET :: int where "AF_INET = 2"
definition AF_INET6 :: int where "AF_INET6 = 10"

text \<open>\<open>pton\<close> is \<open>inet_pton\<close>: the address in network order, for a text that is one.\<close>

definition mc_client_set_local_address ::
  "(int \<Rightarrow> u8 list \<Rightarrow> u8 list option) \<Rightarrow> u8 list option \<Rightarrow> mc_backend_client \<Rightarrow> bool \<times> mc_backend_client" where
  "mc_client_set_local_address pton address c =
     (case address of
        None \<Rightarrow> (False, c)
      | Some text \<Rightarrow>
          if text = [] \<or> bk_socket_fd c \<ge> 0 then (False, c)
          else case pton AF_INET text of
              Some ipv4 \<Rightarrow> (True, c\<lparr>bk_local_address := Some (AF_INET, ipv4)\<rparr>)
            | None \<Rightarrow>
                (case pton AF_INET6 text of
                   Some ipv6 \<Rightarrow> (True, c\<lparr>bk_local_address := Some (AF_INET6, ipv6)\<rparr>)
                 | None \<Rightarrow> (False, c)))"

subsection \<open>Sockets\<close>

text \<open>The loop over the addresses of a host, of which the family matters, given in their order.\<close>

fun connect_addresses :: "int option \<Rightarrow> int list \<Rightarrow> os \<Rightarrow> int \<times> os" where
  "connect_addresses local_family [] k = (-1, k)"
| "connect_addresses local_family (family # rest) k =
     (case sys_open k of (socket_fd, k) \<Rightarrow>
      if socket_fd < 0 then connect_addresses local_family rest k
      else case (case local_family of
             None \<Rightarrow> (True, k)
           | Some f \<Rightarrow> if f \<noteq> family then (False, k) else sys_check k) of
          (False, k) \<Rightarrow> connect_addresses local_family rest (sys_close socket_fd k)
        | (True, k) \<Rightarrow>
            (case sys_check k of
               (True, k) \<Rightarrow> (socket_fd, k)
             | (False, k) \<Rightarrow> connect_addresses local_family rest (sys_close socket_fd k)))"

definition connect_tcp :: "(u8 list \<Rightarrow> u16 \<Rightarrow> int list option) \<Rightarrow> u8 list \<Rightarrow> u16 \<Rightarrow> (int \<times> u8 list) option
    \<Rightarrow> os \<Rightarrow> int \<times> os" where
  "connect_tcp resolve host port local_address k =
     (case resolve host port of
        None \<Rightarrow> (-1, k)
      | Some addresses \<Rightarrow> connect_addresses (map_option fst local_address) addresses k)"

fun bind_addresses :: "int list \<Rightarrow> os \<Rightarrow> int \<times> os" where
  "bind_addresses [] k = (-1, k)"
| "bind_addresses (family # rest) k =
     (case sys_open k of (candidate, k) \<Rightarrow>
      if candidate < 0 then bind_addresses rest k
      else case sys_check k of
          (False, k) \<Rightarrow> bind_addresses rest (sys_close candidate k)
        | (True, k) \<Rightarrow>
            (case sys_check k of
               (True, k) \<Rightarrow> (candidate, k)
             | (False, k) \<Rightarrow> bind_addresses rest (sys_close candidate k)))"

text \<open>\<open>sockname\<close> is the family and the port that \<open>getsockname\<close> gives for a listener, if it succeeds.\<close>

definition bind_tcp :: "(u8 list option \<Rightarrow> u16 \<Rightarrow> int list option) \<Rightarrow> (int \<Rightarrow> (int \<times> u16) option)
    \<Rightarrow> u8 list option \<Rightarrow> u16 \<Rightarrow> os \<Rightarrow> (int \<times> u16) option \<times> os" where
  "bind_tcp resolve sockname host port k =
     (case resolve (case host of Some h \<Rightarrow> if h \<noteq> [] then Some h else None | None \<Rightarrow> None) port of
        None \<Rightarrow> (None, k)
      | Some addresses \<Rightarrow>
          (case bind_addresses addresses k of (listener, k) \<Rightarrow>
           if listener < 0 then (None, k)
           else case sockname listener of
               None \<Rightarrow> (None, sys_close listener k)
             | Some (family, bound_port) \<Rightarrow>
                 if family = AF_INET \<or> family = AF_INET6 then (Some (listener, bound_port), k)
                 else (None, sys_close listener k)))"

record mc_server =
  sv_socket_fd :: int
  sv_port :: u16

text \<open>\<open>alloc\<close>: whether \<open>calloc\<close> succeeds.\<close>

definition mc_server_create :: "(u8 list option \<Rightarrow> u16 \<Rightarrow> int list option) \<Rightarrow> (int \<Rightarrow> (int \<times> u16) option)
    \<Rightarrow> bool \<Rightarrow> u8 list option \<Rightarrow> u16 \<Rightarrow> int \<Rightarrow> os \<Rightarrow> mc_server option \<times> os" where
  "mc_server_create resolve sockname alloc bind_host port backlog k =
     (if backlog \<le> 0 then (None, k)
      else if \<not> alloc then (None, k)
      else case bind_tcp resolve sockname bind_host port k of
          (None, k) \<Rightarrow> (None, k)
        | (Some (fd, bound_port), k) \<Rightarrow> (Some \<lparr>sv_socket_fd = fd, sv_port = bound_port\<rparr>, k))"

definition mc_server_destroy :: "mc_server option \<Rightarrow> os \<Rightarrow> os" where
  "mc_server_destroy server k =
     (case server of None \<Rightarrow> k
      | Some s \<Rightarrow> if sv_socket_fd s \<ge> 0 then sys_close (sv_socket_fd s) k else k)"

definition mc_server_port :: "mc_server option \<Rightarrow> u16" where
  "mc_server_port server = (case server of None \<Rightarrow> 0 | Some s \<Rightarrow> sv_port s)"

end
