(* ===== verification/Backend_Laws.thy ===== *)
theory Backend_Laws
  imports Backends
begin

text \<open>
  What the network backends keep: every descriptor and mapping that was created is either held by
  the client or was given back, whatever the system calls return and in whatever order the
  operations are called; and the two completions of a wait on the ring.
\<close>

subsection \<open>Descriptors and mappings\<close>

definition ring_fds :: "mc_ring \<Rightarrow> int set" where
  "ring_fds ring = (if rg_fd ring \<ge> 0 then {rg_fd ring} else {})"

definition ring_maps :: "mc_ring \<Rightarrow> int set" where
  "ring_maps ring = set_option (rg_sq_map ring) \<union> set_option (rg_cq_map ring) \<union> set_option (rg_sqes ring)"

definition ring_shaped :: "mc_ring \<Rightarrow> bool" where
  "ring_shaped ring \<longleftrightarrow> (rg_single_map ring \<longrightarrow> set_option (rg_cq_map ring) \<subseteq> set_option (rg_sq_map ring))"

definition ring_open :: "mc_ring \<Rightarrow> bool" where
  "ring_open ring \<longleftrightarrow> rg_fd ring \<ge> 0 \<and> rg_sq_map ring \<noteq> None \<and> rg_cq_map ring \<noteq> None \<and> rg_sqes ring \<noteq> None
     \<and> ring_shaped ring"

text \<open>The kernel's numbers are new, and \<open>fds\<close> and \<open>maps\<close> are what is held beside \<open>B\<close> and \<open>M\<close>.\<close>

definition accounted :: "int set \<Rightarrow> int set \<Rightarrow> int set \<Rightarrow> int set \<Rightarrow> os \<Rightarrow> bool" where
  "accounted B M fds maps k \<longleftrightarrow>
     os_open k = B \<union> fds \<and> B \<inter> fds = {} \<and> os_maps k = M \<union> maps \<and> M \<inter> maps = {}
     \<and> 0 \<le> os_next k \<and> os_open k \<union> os_maps k \<subseteq> {..<os_next k}"

lemma accounted_same:
  "accounted B M fds maps k \<Longrightarrow> os_open k' = os_open k \<Longrightarrow> os_maps k' = os_maps k \<Longrightarrow> os_next k' = os_next k
     \<Longrightarrow> accounted B M fds maps k'"
  unfolding accounted_def by metis

lemma accounted_check: "accounted B M fds maps k \<Longrightarrow> sys_check k = (ok, k') \<Longrightarrow> accounted B M fds maps k'"
  by (auto simp: accounted_def sys_check_def split: list.splits)

lemma below_next: "A \<subseteq> {..<n} \<Longrightarrow> n \<notin> A" "A \<subseteq> {..<n} \<Longrightarrow> insert n A \<subseteq> {..<n + 1}" for n :: int
  by auto

lemma accounted_open:
  assumes "accounted B M fds maps k" and "sys_open k = (fd, k')"
  shows "(fd = -1 \<and> accounted B M fds maps k') \<or> (0 \<le> fd \<and> fd \<notin> B \<union> fds \<and> accounted B M (insert fd fds) maps k')"
proof (cases "sys_check k")
  case (Pair ok k1)
  then have acc: "accounted B M fds maps k1" using accounted_check assms(1) by blast
  then show ?thesis
    using assms(2) Pair below_next [of "os_open k1 \<union> os_maps k1" "os_next k1"]
    by (cases ok) (auto simp: sys_open_def accounted_def)
qed

lemma accounted_map:
  assumes "accounted B M fds maps k" and "sys_map k = (m, k')"
  shows "case m of None \<Rightarrow> accounted B M fds maps k'
    | Some i \<Rightarrow> accounted B M fds (insert i maps) k'"
proof (cases "sys_check k")
  case (Pair ok k1)
  then have "accounted B M fds maps k1" using accounted_check assms(1) by blast
  then show ?thesis
    using assms(2) Pair below_next [of "os_open k1 \<union> os_maps k1" "os_next k1"]
    by (cases ok) (auto simp: sys_map_def accounted_def)
qed

lemma accounted_close:
  "accounted B M fds maps k \<Longrightarrow> fd \<in> fds \<Longrightarrow> accounted B M (fds - {fd}) maps (sys_close fd k)"
  by (auto simp: accounted_def sys_close_def)

lemma accounted_ring_close:
  assumes "accounted B M (fds \<union> ring_fds ring) (ring_maps ring) k" and "ring_shaped ring"
    and "fds \<inter> ring_fds ring = {}"
  shows "fst (ring_close ring k) = ring_empty \<and> accounted B M fds {} (snd (ring_close ring k))"
proof -
  have "os_open (snd (ring_close ring k)) = os_open k - ring_fds ring"
    "os_maps (snd (ring_close ring k)) = os_maps k - ring_maps ring"
    "os_next (snd (ring_close ring k)) = os_next k"
    using assms(2)
    by (auto simp: ring_close_def Let_def sys_unmap_def sys_close_def ring_fds_def ring_maps_def ring_shaped_def
        split: option.splits)
  moreover have "fst (ring_close ring k) = ring_empty" by (simp add: ring_close_def Let_def)
  ultimately show ?thesis using assms(1,3) by (auto simp: accounted_def)
qed

lemma ring_empty_sets [simp]: "ring_fds ring_empty = {}" "ring_maps ring_empty = {}" "ring_shaped ring_empty"
  by (simp_all add: ring_fds_def ring_maps_def ring_shaped_def ring_empty_def)

definition ring_result :: "int set \<Rightarrow> int set \<Rightarrow> bool \<times> mc_ring \<times> os \<Rightarrow> bool" where
  "ring_result B M out = (case out of (ok, ring, k) \<Rightarrow>
     if ok then ring_open ring \<and> accounted B M (ring_fds ring) (ring_maps ring) k
     else ring = ring_empty \<and> accounted B M {} {} k)"

text \<open>A mapping of the ring: what follows keeps the account if it does so with the new mapping.\<close>

lemma ring_map_result:
  assumes acc: "accounted B M (ring_fds ring) (ring_maps ring) k" and shaped: "ring_shaped ring"
    and further: "\<And>m k'. accounted B M (ring_fds ring) (insert m (ring_maps ring)) k'
      \<Longrightarrow> ring_result B M (continue (store m ring) k')"
  shows "ring_result B M (ring_map sys_map store continue ring k)"
proof -
  obtain m k' where m: "sys_map k = (m, k')" by (cases "sys_map k")
  note acc' = accounted_map [OF acc m]
  show ?thesis
  proof (cases m)
    case None
    then show ?thesis
      using accounted_ring_close [of B M "{}" ring k'] acc' shaped
      by (cases "ring_close ring k'") (simp add: ring_map_def m ring_failed_def ring_result_def)
  next
    case (Some i)
    then show ?thesis using acc' further by (simp add: ring_map_def m)
  qed
qed

abbreviation "map_sqes \<equiv> ring_map sys_map (\<lambda>m ring. ring\<lparr>rg_sqes := Some m\<rparr>) (\<lambda>ring k.
  (True, ring, k\<lparr>os_completions := [], os_sq_head := 0, os_sq_tail := 0\<rparr>))"

lemma map_sqes_result:
  assumes acc: "accounted B M (ring_fds ring) (ring_maps ring) k" and shaped: "ring_shaped ring"
    and set: "rg_fd ring \<ge> 0" "rg_sq_map ring \<noteq> None" "rg_cq_map ring \<noteq> None" "rg_sqes ring = None"
  shows "ring_result B M (map_sqes ring k)"
proof (rule ring_map_result [OF acc shaped])
  fix m k' assume acc': "accounted B M (ring_fds ring) (insert m (ring_maps ring)) k'"
  let ?ring = "ring\<lparr>rg_sqes := Some m\<rparr>"
  have "ring_open ?ring" "ring_fds ?ring = ring_fds ring" "ring_maps ?ring = insert m (ring_maps ring)"
    using set shaped by (auto simp: ring_open_def ring_shaped_def ring_fds_def ring_maps_def)
  with accounted_same [OF acc'] show "ring_result B M (True, ?ring,
      k'\<lparr>os_completions := [], os_sq_head := 0, os_sq_tail := 0\<rparr>)"
    by (simp add: ring_result_def)
qed

lemma accounted_ring_init:
  assumes acc: "accounted B M {} {} k"
  shows "ring_result B M (ring_init k)"
proof -
  obtain fd k1 where fd: "sys_open k = (fd, k1)" by (cases "sys_open k")
  obtain single k2 where single: "sys_check k1 = (single, k2)" by (cases "sys_check k1")
  let ?ring = "ring_empty\<lparr>rg_fd := fd, rg_single_map := single\<rparr>"
  show ?thesis
  proof (cases "fd < 0")
    case True
    then show ?thesis using accounted_open [OF acc fd] by (auto simp: ring_init_def fd ring_result_def)
  next
    case False
    then have acc2: "accounted B M (ring_fds ?ring) (ring_maps ?ring) k2"
      using accounted_open [OF acc fd] accounted_check [OF _ single]
      by (auto simp: ring_fds_def ring_maps_def ring_empty_def)
    have shaped: "ring_shaped ?ring" by (simp add: ring_shaped_def ring_empty_def)
    let ?cq = "\<lambda>m ring. ring\<lparr>rg_cq_map := Some m\<rparr>"
    have "ring_result B M (ring_map sys_map (\<lambda>m ring. ring\<lparr>rg_sq_map := Some m\<rparr>) (\<lambda>ring.
        ring_map (if single then (\<lambda>k. (rg_sq_map ring, k)) else sys_map) ?cq map_sqes ring) ?ring k2)"
    proof (rule ring_map_result [OF acc2 shaped])
      fix sq k3 assume acc3: "accounted B M (ring_fds ?ring) (insert sq (ring_maps ?ring)) k3"
      let ?ring3 = "?ring\<lparr>rg_sq_map := Some sq\<rparr>"
      have acc3': "accounted B M (ring_fds ?ring3) (ring_maps ?ring3) k3" and shaped3: "ring_shaped ?ring3"
        using acc3 by (auto simp: ring_fds_def ring_maps_def ring_shaped_def ring_empty_def)
      show "ring_result B M (ring_map (if single then (\<lambda>k. (rg_sq_map ?ring3, k)) else sys_map) ?cq map_sqes ?ring3 k3)"
      proof (cases single)
        case True
        have "ring_result B M (map_sqes (?cq sq ?ring3) k3)"
          using acc3' False by (intro map_sqes_result)
            (auto simp: ring_fds_def ring_maps_def ring_shaped_def ring_empty_def)
        then show ?thesis using True by (simp add: ring_map_def)
      next
        case two: False
        have "ring_result B M (ring_map sys_map ?cq map_sqes ?ring3 k3)"
        proof (rule ring_map_result [OF acc3' shaped3])
          fix cq k4 assume "accounted B M (ring_fds ?ring3) (insert cq (ring_maps ?ring3)) k4"
          then show "ring_result B M (map_sqes (?cq cq ?ring3) k4)"
            using False two by (intro map_sqes_result)
              (auto simp: ring_fds_def ring_maps_def ring_shaped_def ring_empty_def insert_commute)
        qed
        then show ?thesis using two by simp
      qed
    qed
    then show ?thesis using False by (simp add: ring_init_def fd single)
  qed
qed

subsection \<open>The client\<close>

definition client_fds :: "mc_backend_client \<Rightarrow> int set" where
  "client_fds c = (if bk_event_fd c \<ge> 0 then {bk_event_fd c} else {}) \<union> ring_fds (bk_ring c)"

text \<open>
  What a backend has: the ring its ring, unless it was asked for by name and has been lost, and epoll
  its descriptor.
\<close>

definition backend_wf :: "mc_backend_client \<Rightarrow> bool" where
  "backend_wf c \<longleftrightarrow>
     (case bk_backend c of
        MC_BACKEND_IO_URING \<Rightarrow> bk_event_fd c = -1
          \<and> (ring_open (bk_ring c) \<or> bk_ring c = ring_empty \<and> bk_preferred_backend c = MC_BACKEND_IO_URING)
      | MC_BACKEND_EPOLL \<Rightarrow> bk_event_fd c \<ge> 0 \<and> bk_ring c = ring_empty
      | MC_BACKEND_KQUEUE \<Rightarrow> False
      | _ \<Rightarrow> bk_event_fd c = -1 \<and> bk_ring c = ring_empty)"

definition backend_inv :: "int set \<Rightarrow> int set \<Rightarrow> mc_backend_client \<Rightarrow> os \<Rightarrow> bool" where
  "backend_inv B M c k \<longleftrightarrow> backend_wf c \<and> accounted B M (client_fds c) (ring_maps (bk_ring c)) k"

lemma backend_inv_close:
  assumes inv: "backend_inv B M c k" and run: "backend_close c k = (c', k')"
  shows "c' = c\<lparr>bk_backend := MC_BACKEND_NONE, bk_event_fd := -1, bk_ring := ring_empty\<rparr> \<and> accounted B M {} {} k'"
proof -
  have acc: "accounted B M (client_fds c) (ring_maps (bk_ring c)) k" and wf: "backend_wf c"
    using inv by (simp_all add: backend_inv_def)
  show ?thesis
  proof (cases "bk_backend c = MC_BACKEND_IO_URING")
    case True
    then have event: "bk_event_fd c = -1" and shaped: "ring_shaped (bk_ring c)"
      using wf by (auto simp: backend_wf_def ring_open_def)
    then have "accounted B M ({} \<union> ring_fds (bk_ring c)) (ring_maps (bk_ring c)) k"
      using acc by (simp add: client_fds_def)
    from accounted_ring_close [OF this shaped] show ?thesis
      using run True event by (cases "ring_close (bk_ring c) k") (auto simp: backend_close_def Let_def)
  next
    case False
    then have ring: "bk_ring c = ring_empty"
      using wf by (auto simp: backend_wf_def split: mc_backend.splits)
    then show ?thesis
      using run acc False accounted_close [of B M "client_fds c" "{}" k "bk_event_fd c"]
      by (auto simp: backend_close_def Let_def client_fds_def split: if_splits)
  qed
qed

text \<open>From a client without a backend, epoll either is set up or leaves nothing behind.\<close>

lemma epoll_keeps:
  assumes acc: "accounted B M {} {} k" and run: "backend_epoll c k = (ok, c', k')"
  shows "if ok then c' = c\<lparr>bk_event_fd := bk_event_fd c', bk_backend := MC_BACKEND_EPOLL\<rparr> \<and> bk_event_fd c' \<ge> 0
      \<and> accounted B M {bk_event_fd c'} {} k'
    else c' = c \<and> accounted B M {} {} k'"
proof -
  obtain fd k1 where fd: "sys_open k = (fd, k1)" by (cases "sys_open k")
  obtain added k2 where added: "sys_check k1 = (added, k2)" by (cases "sys_check k1")
  from accounted_open [OF acc fd] show ?thesis
  proof (elim disjE conjE)
    assume "fd = -1" "accounted B M {} {} k1"
    then show ?thesis using run by (auto simp: backend_epoll_def fd)
  next
    assume "0 \<le> fd" "accounted B M {fd} {} k1"
    moreover from this have "accounted B M {fd} {} k2" using accounted_check added by blast
    ultimately show ?thesis
      using run accounted_close [of B M "{fd}" "{}" k2 fd]
      by (cases added) (auto simp: backend_epoll_def fd added)
  qed
qed

definition bare :: "mc_backend_client \<Rightarrow> bool" where
  "bare c \<longleftrightarrow> bk_backend c = MC_BACKEND_NONE \<and> bk_event_fd c = -1 \<and> bk_ring c = ring_empty"

lemma bare_inv: "bare c \<Longrightarrow> accounted B M {} {} k \<Longrightarrow> backend_inv B M c k"
  by (simp add: bare_def backend_inv_def backend_wf_def client_fds_def)

text \<open>What \<open>backend_init\<close> promises: the backend that was asked for, or any when none was.\<close>

definition init_result :: "mc_backend_client \<Rightarrow> int set \<Rightarrow> int set \<Rightarrow> bool \<times> mc_backend_client \<times> os \<Rightarrow> bool" where
  "init_result c B M out = (case out of (ok, c', k') \<Rightarrow>
     backend_inv B M c' k' \<and> bk_preferred_backend c' = bk_preferred_backend c
     \<and> (if ok then bk_backend c' \<noteq> MC_BACKEND_NONE
            \<and> (bk_preferred_backend c \<in> {MC_BACKEND_IO_URING, MC_BACKEND_EPOLL, MC_BACKEND_POLL}
                 \<longrightarrow> bk_backend c' = bk_preferred_backend c)
            \<and> (bk_backend c' = MC_BACKEND_IO_URING \<longrightarrow> ring_open (bk_ring c'))
        else bare c' \<and> bk_preferred_backend c \<in> {MC_BACKEND_IO_URING, MC_BACKEND_EPOLL}))"

lemma fallback_result:
  assumes acc: "accounted B M {} {} k" and bare: "bare c"
    and preferred: "bk_preferred_backend c \<noteq> MC_BACKEND_POLL"
  shows "init_result c B M (backend_fallback c k)"
proof (cases "bk_preferred_backend c = MC_BACKEND_IO_URING")
  case True
  then show ?thesis using bare_inv [OF bare acc] bare by (simp add: backend_fallback_def init_result_def)
next
  case False
  obtain ok c1 k1 where run: "backend_epoll c k = (ok, c1, k1)" by (cases "backend_epoll c k")
  note epoll = epoll_keeps [OF acc run]
  show ?thesis
  proof (cases ok)
    case True
    then have "c1 = c\<lparr>bk_event_fd := bk_event_fd c1, bk_backend := MC_BACKEND_EPOLL\<rparr>" using epoll by simp
    then obtain fd where "c1 = c\<lparr>bk_event_fd := fd, bk_backend := MC_BACKEND_EPOLL\<rparr>" by blast
    then show ?thesis
      using epoll True False preferred bare run
      by (auto simp: backend_fallback_def init_result_def backend_inv_def backend_wf_def client_fds_def bare_def)
  next
    case no: False
    then show ?thesis
      using epoll False preferred bare run bare_inv [OF bare, of B M k1]
      by (auto simp: backend_fallback_def init_result_def backend_inv_def backend_wf_def client_fds_def bare_def)
  qed
qed

lemma init_keeps:
  assumes inv: "backend_inv B M c k"
  shows "init_result c B M (backend_init c k)"
proof -
  obtain c1 k1 where close: "backend_close c k = (c1, k1)" by (cases "backend_close c k")
  have c1: "c1 = c\<lparr>bk_backend := MC_BACKEND_NONE, bk_event_fd := -1, bk_ring := ring_empty\<rparr>"
    and acc: "accounted B M {} {} k1"
    using backend_inv_close [OF inv close] by simp_all
  have bare: "bare c1" by (simp add: c1 bare_def)
  have "bk_preferred_backend c1 = bk_preferred_backend c" by (simp add: c1)
  then have same: "init_result c1 = init_result c" by (intro ext) (simp only: init_result_def)
  obtain ok ring k2 where ring: "ring_init k1 = (ok, ring, k2)" by (cases "ring_init k1")
  note made = accounted_ring_init [OF acc, unfolded ring ring_result_def prod.case]
  consider "bk_preferred_backend c1 = MC_BACKEND_POLL" | "bk_preferred_backend c1 = MC_BACKEND_EPOLL"
    | "bk_preferred_backend c1 \<noteq> MC_BACKEND_POLL" "bk_preferred_backend c1 \<noteq> MC_BACKEND_EPOLL" by blast
  then show ?thesis
  proof cases
    case 1
    then show ?thesis
      using acc by (simp add: backend_init_def close init_result_def backend_inv_def backend_wf_def client_fds_def)
        (simp add: c1)
  next
    case 2
    then show ?thesis
      using fallback_result [OF acc bare] same by (simp add: backend_init_def close)
  next
    case 3
    show ?thesis
    proof (cases ok)
      case True
      then show ?thesis
        using 3 made by (simp add: backend_init_def close ring init_result_def backend_inv_def backend_wf_def client_fds_def)
          (auto simp: c1)
    next
      case False
      then have "ring = ring_empty" "accounted B M {} {} k2" using made by simp_all
      moreover have "c1\<lparr>bk_ring := ring_empty\<rparr> = c1" by (simp add: c1)
      ultimately show ?thesis
        using 3 False fallback_result [OF _ bare, of B M k2] same by (simp add: backend_init_def close ring)
    qed
  qed
qed

lemma descriptor_wait_keeps:
  "backend_inv B M c k \<Longrightarrow> descriptor_wait c k = (n, c', k') \<Longrightarrow> n \<noteq> None \<and> c' = c \<and> backend_inv B M c k'"
  by (auto simp: descriptor_wait_def backend_inv_def accounted_def split: prod.splits)

lemma ring_wait_keeps:
  "ring_wait ring k = (n, k') \<Longrightarrow> os_open k' = os_open k \<and> os_maps k' = os_maps k \<and> os_next k' = os_next k"
  by (auto simp: ring_wait_def Let_def split: if_splits prod.splits option.splits)

lemma ring_wait_values:
  "ring_wait ring k = (Some n, k') \<Longrightarrow> n \<in> {1, 0, -2}"
  by (auto simp: ring_wait_def Let_def split: if_splits prod.splits option.splits)

lemma ring_wait_crash: "fst (ring_wait ring k) = None \<longleftrightarrow> rg_sq_map ring = None \<or> rg_cq_map ring = None \<or> rg_sqes ring = None"
  by (auto simp: ring_wait_def Let_def split: prod.splits option.splits)

lemma wait_keeps:
  assumes inv: "backend_inv B M c k" and run: "backend_wait_linux c k = (Some n, c', k')"
  shows "backend_inv B M c' k' \<and> bk_preferred_backend c' = bk_preferred_backend c"
proof (cases "bk_backend c = MC_BACKEND_IO_URING")
  case False
  then show ?thesis using run descriptor_wait_keeps [OF inv] by (auto simp: backend_wait_linux_def)
next
  case True
  obtain result k1 where wait: "ring_wait (bk_ring c) k = (result, k1)" by (cases "ring_wait (bk_ring c) k")
  have acc1: "accounted B M ({} \<union> ring_fds (bk_ring c)) (ring_maps (bk_ring c)) k1"
    using inv True ring_wait_keeps [OF wait]
    by (auto simp: backend_inv_def backend_wf_def client_fds_def intro: accounted_same)
  have event: "bk_event_fd c = -1" using inv True by (simp add: backend_inv_def backend_wf_def)
  have shaped: "ring_shaped (bk_ring c)"
    using inv True by (auto simp: backend_inv_def backend_wf_def ring_open_def)
  show ?thesis
  proof (cases "result = Some (-2)")
    case False
    then have "c' = c" "k' = k1" using run True wait by (auto simp: backend_wait_linux_def split: option.splits if_splits)
    then show ?thesis using inv acc1 event by (simp add: backend_inv_def client_fds_def)
  next
    case lost: True
    obtain ring k2 where close: "ring_close (bk_ring c) k1 = (ring, k2)" by (cases "ring_close (bk_ring c) k1")
    have ring: "ring = ring_empty" and acc2: "accounted B M {} {} k2"
      using accounted_ring_close [OF acc1 shaped] close by simp_all
    let ?c = "c\<lparr>bk_ring := ring_empty\<rparr>"
    show ?thesis
    proof (cases "bk_preferred_backend c = MC_BACKEND_IO_URING")
      case preferred: True
      then have "c' = ?c" "k' = k2"
        using run True wait lost close ring by (auto simp: backend_wait_linux_def)
      then show ?thesis
        using acc2 True preferred event by (simp add: backend_inv_def backend_wf_def client_fds_def)
    next
      case False
      obtain ok c3 k3 where epoll: "backend_epoll ?c k2 = (ok, c3, k3)" by (cases "backend_epoll ?c k2")
      let ?c3 = "if ok then c3 else c3\<lparr>bk_backend := MC_BACKEND_POLL\<rparr>"
      have "bk_preferred_backend ?c3 = bk_preferred_backend c \<and> backend_inv B M ?c3 k3"
      proof (cases ok)
        case True
        then have "c3 = ?c\<lparr>bk_event_fd := bk_event_fd c3, bk_backend := MC_BACKEND_EPOLL\<rparr>"
          and fd: "bk_event_fd c3 \<ge> 0" "accounted B M {bk_event_fd c3} {} k3"
          using epoll_keeps [OF acc2 epoll] by simp_all
        then obtain fd where "c3 = ?c\<lparr>bk_event_fd := fd, bk_backend := MC_BACKEND_EPOLL\<rparr>" by blast
        then show ?thesis using fd True by (simp add: backend_inv_def backend_wf_def client_fds_def)
      next
        case no: False
        then show ?thesis
          using epoll_keeps [OF acc2 epoll] event by (simp add: backend_inv_def backend_wf_def client_fds_def)
      qed
      moreover have "descriptor_wait ?c3 k3 = (Some n, c', k')"
        using run True wait lost close ring False epoll by (cases ok) (simp_all add: backend_wait_linux_def)
      ultimately show ?thesis using descriptor_wait_keeps by blast
    qed
  qed
qed

subsection \<open>Every sequence of operations\<close>

inductive backend_reachable :: "int set \<Rightarrow> int set \<Rightarrow> mc_backend_client \<Rightarrow> os \<Rightarrow> bool" for B M where
  backend_fresh: "bare c \<Longrightarrow> accounted B M {} {} k \<Longrightarrow> backend_reachable B M c k"
| backend_inited: "backend_reachable B M c k \<Longrightarrow> backend_init c k = (ok, c', k') \<Longrightarrow> backend_reachable B M c' k'"
| backend_waited: "backend_reachable B M c k \<Longrightarrow> backend_wait_linux c k = (Some n, c', k')
    \<Longrightarrow> backend_reachable B M c' k'"
| backend_closed: "backend_reachable B M c k \<Longrightarrow> backend_close c k = (c', k') \<Longrightarrow> backend_reachable B M c' k'"
| backend_connected: "backend_reachable B M c k \<Longrightarrow> backend_reachable B M (c\<lparr>bk_socket_fd := fd\<rparr>) k"
| backend_preferred: "backend_reachable B M c k \<Longrightarrow> bk_backend c = MC_BACKEND_NONE
    \<Longrightarrow> mc_client_set_backend n c = (ok, c') \<Longrightarrow> backend_reachable B M c' k"

lemma backend_reachable_inv: "backend_reachable B M c k \<Longrightarrow> backend_inv B M c k"
proof (induction rule: backend_reachable.induct)
  case (backend_fresh c k)
  then show ?case by (rule bare_inv)
next
  case (backend_inited c k ok c' k')
  then show ?case using init_keeps [of B M c k] by (simp add: init_result_def)
next
  case (backend_waited c k n c' k')
  then show ?case using wait_keeps by blast
next
  case (backend_closed c k c' k')
  then show ?case using backend_inv_close [of B M c k c' k'] by (auto intro: bare_inv simp: bare_def)
next
  case (backend_connected c k fd)
  then show ?case
    by (cases "bk_backend c") (auto simp: backend_inv_def backend_wf_def client_fds_def)
next
  case (backend_preferred c k n ok c')
  then show ?case
    by (auto simp: mc_client_set_backend_def backend_inv_def backend_wf_def client_fds_def
        split: if_splits option.splits)
qed

text \<open>A kernel without events, in which nothing is open.\<close>

definition sample_os :: os where
  "sample_os = \<lparr>os_next = 3, os_open = {}, os_maps = {}, os_results = [], os_enters = [], os_ready = [],
     os_completions = [], os_sq_head = 0, os_sq_tail = 0\<rparr>"

definition sample_backend :: "mc_backend \<Rightarrow> mc_backend_client" where
  "sample_backend preferred = \<lparr>bk_socket_fd = -1, bk_backend = MC_BACKEND_NONE, bk_preferred_backend = preferred,
     bk_event_fd = -1, bk_ring = ring_empty, bk_local_address = None\<rparr>"

lemma sample_fresh: "bare (sample_backend preferred)" "accounted {} {} {} {} (sample_os\<lparr>os_results := results\<rparr>)"
  by (simp_all add: bare_def sample_backend_def accounted_def sample_os_def)

text \<open>
  C27. No descriptor and no mapping leaks: in every state that the backend operations can reach,
  whatever the kernel answers, what is open beside the \<open>B\<close> and \<open>M\<close> of the rest of the process is what
  the client's backend holds; and closing the backend gives all of it back and leaves no backend.
\<close>

theorem backend_leaks_nothing:
  assumes "backend_reachable B M c k"
  shows "os_open k = B \<union> client_fds c \<and> B \<inter> client_fds c = {}
    \<and> os_maps k = M \<union> ring_maps (bk_ring c) \<and> M \<inter> ring_maps (bk_ring c) = {}
    \<and> os_open (snd (backend_close c k)) = B \<and> os_maps (snd (backend_close c k)) = M
    \<and> bk_backend (fst (backend_close c k)) = MC_BACKEND_NONE"
proof -
  have inv: "backend_inv B M c k" by (rule backend_reachable_inv [OF assms])
  obtain c' k' where close: "backend_close c k = (c', k')" by (cases "backend_close c k")
  show ?thesis
    using inv backend_inv_close [OF inv close] by (simp add: close backend_inv_def accounted_def)
qed

text \<open>A kernel that refuses the last mapping of the ring and then offers epoll.\<close>

lemma backend_leaks_nothing_witness:
  "\<exists>c k. backend_reachable {} {} c k \<and> bk_backend c = MC_BACKEND_EPOLL \<and> os_open k = client_fds c
    \<and> os_open (snd (backend_close c k)) = {}"
proof -
  let ?k = "sample_os\<lparr>os_results := [True, False, True, True, False, True, True]\<rparr>"
  have "\<exists>c k. backend_init (sample_backend MC_BACKEND_NONE) ?k = (True, c, k) \<and> bk_backend c = MC_BACKEND_EPOLL"
    by (simp add: backend_init_def backend_close_def sample_backend_def sample_os_def Let_def ring_init_def
        sys_open_def sys_check_def sys_map_def ring_map_def ring_failed_def ring_close_def ring_empty_def
        sys_unmap_def sys_close_def backend_fallback_def backend_epoll_def)
  then obtain c k where init: "backend_init (sample_backend MC_BACKEND_NONE) ?k = (True, c, k)"
    and epoll: "bk_backend c = MC_BACKEND_EPOLL" by blast
  have "backend_reachable {} {} c k"
    by (rule backend_inited [OF backend_fresh [OF sample_fresh] init])
  with backend_leaks_nothing [OF this] epoll show ?thesis by auto
qed

text \<open>
  The choice of the backend: in every state that can be reached, initialisation gives the backend
  the caller asked for by name, or any when none was asked for, and fails only when one was; and the
  first wait on what it has set up does not fault.
\<close>

theorem backend_choice:
  assumes "backend_reachable B M c k" and "backend_init c k = (ok, c', k')"
  shows "(ok \<longrightarrow> bk_backend c' \<noteq> MC_BACKEND_NONE
        \<and> (bk_preferred_backend c \<in> {MC_BACKEND_IO_URING, MC_BACKEND_EPOLL, MC_BACKEND_POLL}
             \<longrightarrow> bk_backend c' = bk_preferred_backend c)
        \<and> fst (backend_wait_linux c' k') \<noteq> None)
    \<and> (\<not> ok \<longrightarrow> bk_preferred_backend c \<in> {MC_BACKEND_IO_URING, MC_BACKEND_EPOLL}
        \<and> bk_backend c' = MC_BACKEND_NONE \<and> os_open k' = B \<and> os_maps k' = M)"
proof -
  have result: "init_result c B M (ok, c', k')"
    using init_keeps [OF backend_reachable_inv [OF assms(1)]] assms(2) by simp
  have "fst (backend_wait_linux c' k') \<noteq> None" if ok
  proof (cases "bk_backend c' = MC_BACKEND_IO_URING")
    case True
    then have "fst (ring_wait (bk_ring c') k') \<noteq> None"
      using result that by (auto simp: init_result_def ring_wait_crash ring_open_def)
    then show ?thesis
      using True by (auto simp: backend_wait_linux_def descriptor_wait_def Let_def split: prod.splits option.splits bool.splits)
  next
    case False
    then show ?thesis by (simp add: backend_wait_linux_def descriptor_wait_def split: prod.splits)
  qed
  then show ?thesis
    using result by (auto simp: init_result_def bare_def backend_inv_def accounted_def client_fds_def)
qed

lemma backend_choice_witness:
  "\<exists>c k. backend_init (sample_backend MC_BACKEND_POLL) sample_os = (True, c, k) \<and> bk_backend c = MC_BACKEND_POLL
    \<and> fst (backend_wait_linux c k) \<noteq> None"
proof -
  obtain ok c k where init: "backend_init (sample_backend MC_BACKEND_POLL) sample_os = (ok, c, k)"
    by (cases "backend_init (sample_backend MC_BACKEND_POLL) sample_os")
  have fresh: "backend_reachable {} {} (sample_backend MC_BACKEND_POLL) sample_os"
    using backend_fresh [OF sample_fresh(1) sample_fresh(2) [of "[]"]] by (simp add: sample_os_def)
  have "ok" using init by (simp add: backend_init_def backend_close_def sample_backend_def Let_def)
  with backend_choice [OF fresh init] init show ?thesis by (simp add: sample_backend_def)
qed

text \<open>
  C37. The fallback of the ring has a hole. A client that asked for \<open>io_uring\<close> by name and whose wait
  fails keeps that backend over a ring that was closed: the next wait, in whatever state of the
  kernel, reads through its null pointers.
\<close>

theorem lost_ring_faults:
  assumes uring: "bk_backend c = MC_BACKEND_IO_URING" and run: "backend_wait_linux c k = (Some (-1), c', k')"
    and preferred: "bk_preferred_backend c = MC_BACKEND_IO_URING"
  shows "bk_backend c' = MC_BACKEND_IO_URING \<and> fst (backend_wait_linux c' k'') = None"
proof -
  obtain result k1 where wait: "ring_wait (bk_ring c) k = (result, k1)" by (cases "ring_wait (bk_ring c) k")
  obtain n where "result = Some n" using run uring wait by (cases result) (auto simp: backend_wait_linux_def)
  then have "result = Some (-2)"
    using run uring wait ring_wait_values [of "bk_ring c" k n k1] by (auto simp: backend_wait_linux_def split: if_splits)
  then have "c' = c\<lparr>bk_ring := ring_empty\<rparr>"
    using run uring wait preferred by (auto simp: backend_wait_linux_def ring_close_def Let_def)
  moreover have "fst (ring_wait ring_empty k'') = None" by (simp add: ring_wait_crash ring_empty_def)
  ultimately show ?thesis
    using uring by (cases "ring_wait ring_empty k''") (simp add: backend_wait_linux_def)
qed

text \<open>A kernel that sets the ring up and then refuses to enter it.\<close>

lemma lost_ring_faults_witness:
  "\<exists>c k c' k'. backend_init (sample_backend MC_BACKEND_IO_URING)
        (sample_os\<lparr>os_results := [True, True, True, True], os_enters := [Enter_failed]\<rparr>) = (True, c, k)
    \<and> backend_wait_linux c k = (Some (-1), c', k') \<and> fst (backend_wait_linux c' k') = None"
proof -
  let ?k = "sample_os\<lparr>os_results := [True, True, True, True], os_enters := [Enter_failed]\<rparr>"
  have "\<exists>c k c' k'. backend_init (sample_backend MC_BACKEND_IO_URING) ?k = (True, c, k)
      \<and> backend_wait_linux c k = (Some (-1), c', k') \<and> bk_backend c = MC_BACKEND_IO_URING
      \<and> bk_preferred_backend c = MC_BACKEND_IO_URING"
    by (simp add: backend_init_def backend_close_def sample_backend_def sample_os_def Let_def ring_init_def
        sys_open_def sys_check_def sys_map_def ring_map_def ring_empty_def backend_wait_linux_def ring_wait_def
        ring_close_def)
  then obtain c k c' k' where "backend_init (sample_backend MC_BACKEND_IO_URING) ?k = (True, c, k)"
    and run: "backend_wait_linux c k = (Some (-1), c', k')" and uring: "bk_backend c = MC_BACKEND_IO_URING"
    and preferred: "bk_preferred_backend c = MC_BACKEND_IO_URING" by blast
  moreover have "fst (backend_wait_linux c' k') = None"
    using lost_ring_faults [OF uring run preferred] by blast
  ultimately show ?thesis by blast
qed

subsection \<open>Sockets\<close>

text \<open>One new descriptor, or none: what \<open>connect_tcp\<close> and \<open>bind_tcp\<close> have in common.\<close>

definition one_descriptor :: "int set \<Rightarrow> int set \<Rightarrow> int \<Rightarrow> os \<Rightarrow> bool" where
  "one_descriptor B M fd k \<longleftrightarrow>
     (fd = -1 \<and> accounted B M {} {} k) \<or> (0 \<le> fd \<and> fd \<notin> B \<and> accounted B M {fd} {} k)"

lemma accounted_close_only: "accounted B M {fd} {} k \<Longrightarrow> accounted B M {} {} (sys_close fd k)"
  using accounted_close [of B M "{fd}" "{}" k fd] by simp

lemma connect_addresses_one:
  "accounted B M {} {} k \<Longrightarrow> connect_addresses f addresses k = (fd, k') \<Longrightarrow> one_descriptor B M fd k'"
proof (induction f addresses k arbitrary: fd k' rule: connect_addresses.induct)
  case (1 f k)
  then show ?case by (simp add: one_descriptor_def)
next
  case (2 f family rest k)
  obtain s k1 where s: "sys_open k = (s, k1)" by (cases "sys_open k")
  from accounted_open [OF 2(4) s] show ?case
  proof (elim disjE conjE)
    assume "s = -1" "accounted B M {} {} k1"
    then show ?thesis using 2(1) [OF s [symmetric]] 2(5) s by simp
  next
    assume open': "0 \<le> s" "s \<notin> B \<union> {}" "accounted B M {s} {} k1"
    obtain bound k2 where bound: "(case f of None \<Rightarrow> (True, k1)
        | Some g \<Rightarrow> if g \<noteq> family then (False, k1) else sys_check k1) = (bound, k2)" by force
    have acc2: "accounted B M {s} {} k2"
      using open'(3) bound by (auto split: option.splits if_splits intro: accounted_check)
    obtain ok k3 where ok: "sys_check k2 = (ok, k3)" by (cases "sys_check k2")
    have acc3: "accounted B M {s} {} k3" by (rule accounted_check [OF acc2 ok])
    show ?thesis
      using 2(3) [OF s [symmetric] _ bound [symmetric]] 2(2) [OF s [symmetric] _ bound [symmetric] _ ok [symmetric]]
        2(5) s bound ok open' accounted_close_only [OF acc2] accounted_close_only [OF acc3] acc3
      by (cases bound; cases ok) (auto simp: one_descriptor_def)
  qed
qed

lemma bind_addresses_one:
  "accounted B M {} {} k \<Longrightarrow> bind_addresses addresses k = (fd, k') \<Longrightarrow> one_descriptor B M fd k'"
proof (induction addresses k arbitrary: fd k' rule: bind_addresses.induct)
  case (1 k)
  then show ?case by (simp add: one_descriptor_def)
next
  case (2 family rest k)
  obtain s k1 where s: "sys_open k = (s, k1)" by (cases "sys_open k")
  from accounted_open [OF 2(4) s] show ?case
  proof (elim disjE conjE)
    assume "s = -1" "accounted B M {} {} k1"
    then show ?thesis using 2(1) [OF s [symmetric]] 2(5) s by simp
  next
    assume open': "0 \<le> s" "s \<notin> B \<union> {}" "accounted B M {s} {} k1"
    obtain bound k2 where bound: "sys_check k1 = (bound, k2)" by (cases "sys_check k1")
    have acc2: "accounted B M {s} {} k2" by (rule accounted_check [OF open'(3) bound])
    obtain ok k3 where ok: "sys_check k2 = (ok, k3)" by (cases "sys_check k2")
    have acc3: "accounted B M {s} {} k3" by (rule accounted_check [OF acc2 ok])
    show ?thesis
      using 2(3) [OF s [symmetric] _ bound [symmetric]] 2(2) [OF s [symmetric] _ bound [symmetric] _ ok [symmetric]]
        2(5) s bound ok open' accounted_close_only [OF acc2] accounted_close_only [OF acc3] acc3
      by (cases bound; cases ok) (auto simp: one_descriptor_def)
  qed
qed

lemma bind_tcp_one:
  assumes acc: "accounted B M {} {} k" and run: "bind_tcp resolve sockname host port k = (out, k')"
  shows "case out of None \<Rightarrow> accounted B M {} {} k' | Some (fd, _) \<Rightarrow> 0 \<le> fd \<and> fd \<notin> B \<and> accounted B M {fd} {} k'"
proof -
  let ?host = "case host of Some h \<Rightarrow> if h \<noteq> [] then Some h else None | None \<Rightarrow> None"
  show ?thesis
  proof (cases "resolve ?host port")
    case None
    then show ?thesis using acc run by (auto simp: bind_tcp_def)
  next
    case (Some addresses)
    obtain fd k1 where fd: "bind_addresses addresses k = (fd, k1)" by (cases "bind_addresses addresses k")
    show ?thesis
      using run Some fd bind_addresses_one [OF acc fd]
      by (auto simp: bind_tcp_def one_descriptor_def accounted_close_only split: if_splits option.splits)
  qed
qed

text \<open>
  C33. Sockets do not leak either: a connection attempt over any list of addresses, with or without a
  local address, and the creation of a server leave exactly one new descriptor open when they
  succeed, which is the one they return, and none when they fail, whichever calls failed; and the
  descriptor of a server is closed with it.
\<close>

theorem sockets_leak_nothing:
  assumes "accounted B M {} {} k"
  shows "(case connect_tcp resolve host port local_address k of (fd, k') \<Rightarrow>
      if fd = -1 then os_open k' = B else fd \<notin> B \<and> os_open k' = insert fd B)
    \<and> (case mc_server_create resolve' sockname alloc bind_host port backlog k of (server, k') \<Rightarrow>
      (case server of None \<Rightarrow> os_open k' = B
        | Some s \<Rightarrow> sv_socket_fd s \<notin> B \<and> os_open k' = insert (sv_socket_fd s) B)
      \<and> os_open (mc_server_destroy server k') = B)"
proof
  show "case connect_tcp resolve host port local_address k of (fd, k') \<Rightarrow>
      if fd = -1 then os_open k' = B else fd \<notin> B \<and> os_open k' = insert fd B"
  proof (cases "resolve host port")
    case None
    then show ?thesis using assms by (simp add: connect_tcp_def accounted_def)
  next
    case (Some addresses)
    obtain fd k1 where run: "connect_addresses (map_option fst local_address) addresses k = (fd, k1)" by fastforce
    have "one_descriptor B M fd k1" by (rule connect_addresses_one [OF assms run])
    then show ?thesis using run Some by (auto simp: connect_tcp_def one_descriptor_def accounted_def)
  qed
  show "case mc_server_create resolve' sockname alloc bind_host port backlog k of (server, k') \<Rightarrow>
      (case server of None \<Rightarrow> os_open k' = B
        | Some s \<Rightarrow> sv_socket_fd s \<notin> B \<and> os_open k' = insert (sv_socket_fd s) B)
      \<and> os_open (mc_server_destroy server k') = B"
  proof (cases "backlog \<le> 0 \<or> \<not> alloc")
    case True
    then show ?thesis using assms by (auto simp: mc_server_create_def mc_server_destroy_def accounted_def)
  next
    case False
    obtain out k1 where run: "bind_tcp resolve' sockname bind_host port k = (out, k1)" by fastforce
    note bind_tcp_one [OF assms run]
    then show ?thesis
      using False run
      by (auto simp: mc_server_create_def mc_server_destroy_def accounted_def sys_close_def split: option.splits)
  qed
qed

text \<open>The first address refuses the connection, the second accepts it.\<close>

lemma sockets_leak_nothing_witness:
  "\<exists>k'. connect_tcp (\<lambda>_ _. Some [AF_INET6, AF_INET]) [] 25565 None
      (sample_os\<lparr>os_results := [True, False, True, True]\<rparr>) = (4, k') \<and> os_open k' = {4}"
proof -
  let ?resolve = "\<lambda>_ _. Some [AF_INET6, AF_INET]"
  let ?k = "sample_os\<lparr>os_results := [True, False, True, True]\<rparr>"
  have "\<exists>k'. connect_tcp ?resolve [] 25565 None ?k = (4, k')"
    by (simp add: connect_tcp_def sys_open_def sys_check_def sys_close_def sample_os_def)
  then obtain k' where "connect_tcp ?resolve [] 25565 None ?k = (4, k')" by blast
  moreover have "case connect_tcp ?resolve [] 25565 None ?k of (fd, k') \<Rightarrow>
      if fd = -1 then os_open k' = {} else fd \<notin> {} \<and> os_open k' = insert fd {}"
    by (rule sockets_leak_nothing [OF sample_fresh(2), THEN conjunct1])
  ultimately show ?thesis by simp
qed

subsection \<open>The completions of a wait\<close>

definition arrivals :: "mc_enter list \<Rightarrow> (u64 \<times> i32) list" where
  "arrivals enters = concat (map (\<lambda>e. case e of Enter_done xs \<Rightarrow> xs | _ \<Rightarrow> []) enters)"

lemma enter_arrives:
  "Enter_failed \<notin> set enters \<Longrightarrow> arrivals enters \<noteq> [] \<Longrightarrow>
     \<exists>arrived rest. ring_enter enters = (Some arrived, rest) \<and> arrivals enters = arrived @ arrivals rest
       \<and> Enter_failed \<notin> set rest"
  by (induction enters rule: ring_enter.induct) (auto simp: arrivals_def)

lemma poll_of_append: "poll_of p (xs @ ys) = poll_of (poll_of p xs) ys"
  by (simp add: poll_of_def)

lemma complete_collects:
  "Enter_failed \<notin> set enters \<Longrightarrow> completed \<le> 2 \<Longrightarrow> completed + length (queue @ arrivals enters) = 2 \<Longrightarrow>
     \<exists>rest. ring_complete completed p queue enters = (Some (poll_of p (queue @ arrivals enters)), [], rest)
       \<and> arrivals rest = []"
proof (induction completed p queue enters rule: ring_complete.induct)
  case (1 completed p queue enters)
  then have seen: "take (2 - completed) queue = queue" "drop (2 - completed) queue = []" by simp_all
  show ?case
  proof (cases "completed + length queue < 2")
    case False
    then have "length (arrivals enters) = 0" using 1(4) by (simp del: length_0_conv)
    then have "arrivals enters = []" by simp
    then show ?thesis using False seen by (subst ring_complete.simps) (simp add: Let_def)
  next
    case True
    then have "arrivals enters \<noteq> []" using 1(4) by auto
    from enter_arrives [OF 1(2) this] obtain arrived rest where enter: "ring_enter enters = (Some arrived, rest)"
      and split: "arrivals enters = arrived @ arrivals rest" and rest: "Enter_failed \<notin> set rest" by blast
    have "\<exists>rest'. ring_complete (completed + length queue) (poll_of p queue) ([] @ arrived) rest
        = (Some (poll_of (poll_of p queue) (([] @ arrived) @ arrivals rest)), [], rest') \<and> arrivals rest' = []"
      using 1(1) [OF refl refl refl refl _ enter [symmetric] refl, unfolded seen] True 1(4) split rest by simp
    then show ?thesis
      using True seen enter split
      by (subst ring_complete.simps) (simp add: Let_def poll_of_append)
  qed
qed

text \<open>
  C28. A wait on the ring consumes both of its completions and is decided by one: when the kernel
  completes the readiness operation and its timeout, in either order and over any number of calls,
  interrupted or empty ones included, nothing is left behind for the next wait, and the result is 1
  for a readable socket and 0 for another event or a cancelled operation, else the request to replace
  the ring.
\<close>

theorem ring_wait_consumes:
  assumes open': "ring_open ring" and idle: "os_completions k = []" and space: "os_sq_tail k = os_sq_head k"
    and works: "Enter_failed \<notin> set (os_enters k)"
    and both: "arrivals (os_enters k) = [(1, ready), (2, timeout)] \<or> arrivals (os_enters k) = [(2, timeout), (1, ready)]"
  shows "\<exists>k'. ring_wait ring k =
      (Some (if 0 \<le> sint ready then if ready AND POLLIN \<noteq> 0 then 1 else 0
             else if sint ready = - ECANCELED then 0 else -2), k')
    \<and> os_completions k' = [] \<and> arrivals (os_enters k') = [] \<and> os_sq_tail k' = os_sq_head k'"
proof -
  obtain arrived rest where enter: "ring_enter (os_enters k) = (Some arrived, rest)"
    and split: "arrivals (os_enters k) = arrived @ arrivals rest" and rest: "Enter_failed \<notin> set rest"
    using enter_arrives [OF works] both by fastforce
  let ?p = "of_int (- ECANCELED) :: i32"
  have "poll_of ?p (arrived @ arrivals rest) = ready"
    using both unfolding split [symmetric] by (auto simp: poll_of_def)
  moreover have "0 + length (arrived @ arrivals rest) = 2" using both unfolding split [symmetric] by auto
  ultimately obtain rest' where complete: "ring_complete 0 ?p arrived rest = (Some ready, [], rest')"
    and drained: "arrivals rest' = []"
    using complete_collects [OF rest, of 0 arrived ?p] by auto
  show ?thesis
    using open' drained
    by (simp add: ring_wait_def ring_open_def idle space enter complete [simplified] Let_def)
qed

lemma ring_wait_consumes_witness:
  "\<exists>k'. ring_wait \<lparr>rg_fd = 3, rg_sq_map = Some 4, rg_cq_map = Some 4, rg_sqes = Some 5, rg_single_map = True\<rparr>
      (sample_os\<lparr>os_enters := [Enter_interrupted, Enter_done [(2, 0)], Enter_done [], Enter_done [(1, 1)]]\<rparr>)
    = (Some 1, k') \<and> os_completions k' = []"
proof -
  let ?ring = "\<lparr>rg_fd = 3, rg_sq_map = Some 4, rg_cq_map = Some 4, rg_sqes = Some 5, rg_single_map = True\<rparr>"
  let ?k = "sample_os\<lparr>os_enters := [Enter_interrupted, Enter_done [(2, 0)], Enter_done [], Enter_done [(1, 1)]]\<rparr>"
  have "ring_open ?ring" "os_completions ?k = []" "os_sq_tail ?k = os_sq_head ?k" "Enter_failed \<notin> set (os_enters ?k)"
    "arrivals (os_enters ?k) = [(1, 1), (2, 0)] \<or> arrivals (os_enters ?k) = [(2, 0), (1, 1)]"
    by (simp_all add: ring_open_def ring_shaped_def sample_os_def arrivals_def)
  from ring_wait_consumes [OF this] show ?thesis by (auto simp: POLLIN_def)
qed

end
