(* ===== verification/Spec2Isabelle.thy ===== *)
theory Spec2Isabelle
  imports Registry Item_Laws Stream_Progress Uuid Packet_Properties Divergences Backend_Laws
begin

text \<open>
  This development models \<open>api.c\<close> and \<open>api.h\<close>, the whole of a C11 library for the Minecraft Java
  protocol (52 releases, protocols 4 to 777), and proves what its parts promise to each other and to
  an application.

  \<^bold>\<open>The program and the theories.\<close> From the bytes upwards:

  \<^item> Fields. \<open>Errors\<close> holds \<open>McError\<close>; \<open>Writer\<close> is \<open>McPacket\<close> with the \<open>mc_packet_*\<close> fields, a caller's
    buffer with a sticky failure bit; \<open>Reader\<close> is \<open>McReader\<close> with the \<open>mc_reader_*\<close> fields, a cursor with a
    decode mode and an optional error sink. A reader operation is a function from a reader to an
    optional value and the reader after it (\<open>'a rd\<close>), and the combinators \<open>rd_bind\<close>, \<open>rd_orelse\<close>,
    \<open>rd_such\<close>, \<open>rd_capture\<close> are the early returns of the source. \<open>Reader_Laws\<close> states the interfaces of
    reader operations as locales (\<open>reader_op\<close>, \<open>reporting_op\<close>, \<open>checked_op\<close>, \<open>sticky_op\<close>,
    \<open>field_reader\<close>) and closes them under the combinators; \<open>Codec\<close> and \<open>Primitives\<close> relate writers to
    readers (\<open>wire_codec\<close>, \<open>canonical_codec\<close>).
  \<^item> \<open>Nbt\<close> is the bounded validator \<open>nbt_skip_value\<close> with its public entries, against a grammar.
  \<^item> Releases. \<open>Profiles\<close> is the profile table, \<open>Catalogs\<close> the generated packet names, \<open>Registry\<close> the
    lookups \<open>mc_packet_name\<close>, \<open>mc_packet_id\<close>, \<open>mc_packet_at\<close> and the packet families.
  \<^item> Frames. \<open>Stream\<close> is \<open>McStreamDecoder\<close>, \<open>Stream_Laws\<close> its invariant and its specification,
    \<open>Framing\<close> is \<open>encode_frame\<close>, \<open>read_frame\<close> and \<open>copy_decoded_frame\<close>, \<open>Stream_Progress\<close> their progress.
  \<^item> Bodies. \<open>Builders\<close> has \<open>mc_packet_position\<close> to \<open>mc_packet_command\<close>; \<open>Packet_Readers\<close>,
    \<open>Container_Readers\<close>, \<open>World_Readers\<close>, \<open>Spawn_Readers\<close> and \<open>Player_Readers\<close> have the public body readers;
    \<open>Components\<close> with \<open>Components_766\<close> to \<open>Components_777\<close> the generated validators of slot components, which
    \<open>Items\<close> dispatches for \<open>mc_reader_item_stack\<close>. \<open>Floats\<close> and \<open>Quantities\<close> compute \<open>float\<close> and \<open>double\<close>
    expressions on the IEEE 754 bits, each rounded once to nearest.
  \<^item> Typed packets. \<open>Typed_Serverbound\<close>, \<open>Typed_Entities\<close>, \<open>Typed_Containers\<close>, \<open>Typed_Metadata\<close>,
    \<open>Typed_Effects\<close> and \<open>Typed_World\<close> have the decoders \<open>typed_decode_*\<close> and the iterators over their
    views; \<open>Typed_Dispatch\<close> is \<open>mc_decode_packet\<close>, \<open>Canonical\<close> the four \<open>mc_decode_canonical_*\<close>, \<open>Replay\<close> the
    replay reader and \<open>Generated_776\<close> the generated section of release 776.
  \<^item> Connections. \<open>Connection\<close> is \<open>McClient\<close> with its transport, \<open>Session\<close> its life from
    \<open>mc_client_create\<close> over the handshake, login, configuration and play to \<open>mc_client_run\<close>,
    \<open>Client_Actions\<close> what it sends, \<open>Server\<close> is \<open>mc_server_accept\<close> and the status query, \<open>Uuid\<close> the
    identities, \<open>Backends\<close> the sockets and the readiness interface of the Linux build.

  A packet goes from a builder through \<open>encode_frame\<close> and \<open>send_all\<close> to the peer's socket, there through
  \<open>receive_some\<close> and the stream decoder into a frame, and from it into a body reader or through
  \<open>mc_decode_packet\<close> into a typed and a canonical value; the identifiers come from the registry on both
  sides.

  \<^bold>\<open>What is shown.\<close> Reader and writer operations keep their bounds, do nothing after a failure and
  record it (\<open>rd_ops\<close>, \<open>rd_sticky\<close>, \<open>rd_checked\<close>), and what a builder writes its reader accepts
  (\<open>rd_parses\<close>, \<open>pk_writes\<close>). The NBT validator accepts a grammar and nothing else. The stream
  decoder implements a specification on byte sequences, keeps its limits, and neither the chunks nor
  the calls matter. \<open>Decode_Laws\<close> and \<open>Packet_Properties\<close> are about \<open>mc_decode_packet\<close> as a whole:
  failures are reported, payloads are complete, members fit their family; \<open>Typed_Codecs\<close> and
  \<open>Action_Codecs\<close> bring typed packets back from the builders, \<open>Block_Changes\<close> and \<open>Chunk_Laws\<close> are about
  the views inside decoded packets, \<open>Rotation_Laws\<close> and \<open>Divergences\<close> show inputs on which the code
  contradicts itself. \<open>Client_Laws\<close>, \<open>Client_Invariant\<close>, \<open>Client_Play\<close>, \<open>Client_Frames\<close>, \<open>Handshake\<close> and
  \<open>Maintenance\<close> are about connections: an invariant over every sequence of operations, the outcomes of
  connecting and polling, the delivery of frames, the two ends of a handshake, and the packet numbers
  written in the source. \<open>Item_Laws\<close> is about item stacks, \<open>Backend_Laws\<close> about descriptors.

  \<^bold>\<open>State, integers, errors.\<close> An object behind a pointer is a record that operations return
  updated; a pointer argument that may be null is an option, a flag or a \<open>buffer\<close>; a borrowed view is
  the list of its bytes, but for the payload views of the stream decoder, which keep their allocation and
  offset. Fixed-width integers are words, a \<open>size_t\<close> is a natural number whose guards are kept. The
  result \<open>false\<close> or -1 is \<open>None\<close>. A C expression that overflows a signed integer wraps around here.

  \<^bold>\<open>Bounds and fuel.\<close> The limits are those of the source. NBT recurses on the depth left below 64;
  its compound loop, which the source runs until an end tag, has one unit of fuel more than the bytes
  left, and every round reads a byte (\<open>nbt_compound_loop\<close> shows that this is the loop of the source).
  Slot components, which hold stacks of components, are unrolled for 66 levels, past the depth of 64
  at which the source stops (\<open>component_recursion\<close> shows that its equations hold). Variable-length
  integers have at most 5 or 10 bytes, a login 16 and a configuration 256 packets, a container 4096
  slots, the metadata of an entity 256 entries, profiles, attributes and chunks 1024 properties,
  modifiers and sections, other arrays 1048576 elements. The loops over a socket end with its list of
  events. \<open>mc_client_run\<close>, which need not end, is a \<open>partial_function\<close>.

  \<^bold>\<open>Parameters.\<close> zlib (\<open>inflate\<close>, \<open>compress2\<close> and the gzip form), the success of allocations,
  \<open>sizeof\<close> of the packet members, name resolution, \<open>inet_pton\<close>, the clock, the application's callbacks
  and stream transforms. A socket is the list of the results of its calls, in order; a kernel
  likewise.

  \<^bold>\<open>Not modelled.\<close> The text of error messages; the release of memory other than through what it
  makes unusable; concurrent calls on one client, which the source allows only for disconnecting; the
  layout of the memory of the ring and the kqueue backend of macOS; the benchmarks, the schema
  compiler and the tests, which are not part of the library.
\<close>

section \<open>Concrete inputs\<close>

text \<open>
  The inputs the witnesses below run on: a small strict decoder with compression from two bytes on,
  and an environment in which every allocation succeeds and zlib is the identity.
\<close>

definition sample_config :: mc_stream_decoder_config where
  "sample_config =
     \<lparr>cf_max_frame_size = 10, cf_max_decompressed_size = 10, cf_max_buffered_size = 20,
      cf_max_output_size = 20, cf_mode = MC_DECODE_STRICT\<rparr>"

definition sample_decoder :: mc_stream_decoder where
  "sample_decoder =
     \<lparr>sd_config = sample_config, sd_buffer = [], sd_buffer_capacity = 0, sd_output = [],
      sd_output_capacity = 0, sd_block = 0, sd_stream_offset = 0, sd_compression_threshold = 2,
      sd_transition_ready = False, sd_failed = False, sd_last_error = mc_error_clear\<rparr>"

definition sample_env :: stream_env where
  "sample_env = \<lparr>env_alloc = (\<lambda>_. True), env_inflate = (\<lambda>compressed n. Some (compressed, 0))\<rparr>"

definition sample_frame_env :: frame_env where
  "sample_frame_env = \<lparr>fe_alloc = (\<lambda>_. True), fe_compress2 = Some\<rparr>"

lemmas sample_defs = sample_config_def sample_decoder_def sample_env_def sample_frame_env_def

text \<open>The equations that evaluate the decoder on such an input.\<close>

lemmas stream_eval = mc_stream_decoder_feed_def stream_feed_loop.simps stream_varint_def
  stream_varint_loop.simps varint_size_u32_def leb_size.simps Let_def stream_decode_frame_def
  stream_emit_compressed_def stream_emit_uncompressed_def stream_reserve_def
  stream_reserve_output_def stream_grown_def stream_grow.simps stream_finish_packet_def
  stream_consume_def saturating_add_def stream_absolute_offset_def SIZE_MAX_def UINT_MAX_def
  frame_view_def frame_payload_def

lemmas encode_eval = encode_frame_def Let_def encode_varint_bytes varint_bytes_def leb_bytes_last
  INT32_MAX_def MC_MAX_PACKET_def

lemma sample_wf: "stream_wf sample_decoder"
  by (simp add: stream_wf_def sample_defs stream_config_invalid_def INT32_MAX_def SIZE_MAX_def)

lemma sample_zlib: "zlib_inverse (fe_compress2 sample_frame_env) (env_inflate sample_env)"
  by (simp add: zlib_inverse_def sample_defs)

lemma sample_wires: "encode_frames sample_frame_env 2 [(1, [2, 3])] = Some [[4, 3, 1, 2, 3]]"
  by (simp add: sample_defs encode_eval)

lemma sample_run:
  "\<exists>d'. stream_run sample_env sample_decoder [([4, 3], 5), ([1, 2, 3], 5)] = Some ([(1, True, [2, 3])], d')
     \<and> \<not> stream_decoder_frame_ready d'"
  "\<exists>d'. stream_run sample_env sample_decoder [([4, 3, 1, 2, 3], 5)] = Some ([(1, True, [2, 3])], d')
     \<and> \<not> stream_decoder_frame_ready d'"
  by (simp_all add: sample_defs stream_eval stream_decoder_frame_ready_def)

section \<open>The frame codec\<close>

text \<open>
  C1. Everything that is sent arrives: when memory can be allocated, and the configuration has room
  for one received chunk beside an incomplete frame, reading a packet for each packet encoded
  returns them all, in order and unchanged, whatever the chunks the bytes arrive in and whatever
  follows them, with compression or without.
\<close>

theorem every_packet_delivered:
  assumes "stream_wf d" and "\<not> sd_failed d" and "\<And>n. env_alloc env n" and "\<And>n. fe_alloc fenv n"
    and "reader_room (sd_config d) chunk_size" and "\<forall>chunk \<in> set chunks. length chunk \<le> chunk_size"
    and "encode_frames senv (sd_compression_threshold d) packets = Some wires"
    and "list_all2 (\<lambda>(packet_id, payload) wire.
        frame_fits (sd_config d) (sd_compression_threshold d) packet_id payload wire) packets wires"
    and "zlib_inverse (fe_compress2 senv) (env_inflate env)"
    and "sd_buffer d @ concat chunks = concat wires @ tail"
  shows "read_packets fenv env d chunks (length packets) = Some (map packet_bytes packets)"
  by (rule packets_delivered) fact+

lemma every_packet_delivered_witness:
  "read_packets sample_frame_env sample_env sample_decoder [[4, 3], [1, 2, 3], [4, 3, 7, 8, 9], [9]]
     (length [(1 :: i32, [2, 3 :: u8]), (7, [8, 9])]) = Some (map packet_bytes [(1, [2, 3]), (7, [8, 9])])"
proof (rule every_packet_delivered [OF sample_wf _ _ _ _ _ _ _ sample_zlib])
  show "encode_frames sample_frame_env (sd_compression_threshold sample_decoder) [(1, [2, 3]), (7, [8, 9])]
      = Some [[4, 3, 1, 2, 3], [4, 3, 7, 8, 9]]" by (simp add: sample_defs encode_eval)
  show "list_all2 (\<lambda>(packet_id, payload) wire. frame_fits (sd_config sample_decoder)
      (sd_compression_threshold sample_decoder) packet_id payload wire) [(1, [2, 3]), (7, [8, 9])]
      [[4, 3, 1, 2, 3], [4, 3, 7, 8, 9]]" by (simp add: frame_fits_def sample_defs encode_eval)
  show "reader_room (sd_config sample_decoder) 5" by (simp add: reader_room_def sample_defs SIZE_MAX_def)
  show "sd_buffer sample_decoder @ concat [[4, 3], [1, 2, 3], [4, 3, 7, 8, 9], [9]]
      = concat [[4, 3, 1, 2, 3], [4, 3, 7, 8, 9]] @ [9]" by (simp add: sample_defs)
qed (simp_all add: sample_defs)

text \<open>
  C5. Whatever the chunks the bytes of encoded packets arrive in, with compression or without, the
  decoder whose feeds succeed and that has taken every complete frame returns the packets the
  sender encoded, each with its identifier and payload and marked as compressed exactly when the
  encoder compressed it, and has no byte left over.
\<close>

theorem conversation_round_trip:
  assumes "stream_wf d" and "sd_buffer d = []"
    and "encode_frames fenv (sd_compression_threshold d) packets = Some wires"
    and "list_all2 (\<lambda>(packet_id, payload) wire.
        frame_fits (sd_config d) (sd_compression_threshold d) packet_id payload wire) packets wires"
    and "zlib_inverse (fe_compress2 fenv) (env_inflate env)"
    and "stream_run env d chunks = Some (views, d')"
    and "concat (map fst chunks) = concat wires" and "\<not> stream_decoder_frame_ready d'"
  shows "views = map (packet_view (sd_compression_threshold d)) packets \<and> sd_buffer d' = []"
  by (rule conversation) fact+

lemma conversation_round_trip_witness:
  "\<exists>views d'. stream_run sample_env sample_decoder [([4, 3], 5), ([1, 2, 3], 5)] = Some (views, d')
     \<and> views = map (packet_view 2) [(1, [2, 3])] \<and> sd_buffer d' = []"
proof -
  obtain views d' where run: "stream_run sample_env sample_decoder [([4, 3], 5), ([1, 2, 3], 5)] = Some (views, d')"
    and drained: "\<not> stream_decoder_frame_ready d'" using sample_run(1) by blast
  have "views = map (packet_view (sd_compression_threshold sample_decoder)) [(1, [2, 3])] \<and> sd_buffer d' = []"
  proof (rule conversation_round_trip [OF sample_wf _ _ _ sample_zlib run _ drained])
    show "encode_frames sample_frame_env (sd_compression_threshold sample_decoder) [(1, [2, 3])]
        = Some [[4, 3, 1, 2, 3]]" using sample_wires by (simp add: sample_decoder_def)
    show "list_all2 (\<lambda>(packet_id, payload) wire. frame_fits (sd_config sample_decoder)
        (sd_compression_threshold sample_decoder) packet_id payload wire) [(1, [2, 3])] [[4, 3, 1, 2, 3]]"
      by (simp add: frame_fits_def sample_defs encode_eval)
  qed (simp_all add: sample_defs)
  then show ?thesis using run by (simp add: sample_decoder_def)
qed

text \<open>
  C12. A successful feed implements the specification of the stream: the frames it returns are those
  of the buffered bytes followed by the new ones, in order, what is left in the buffer is the rest,
  and it stops before its frame capacity only in front of an incomplete frame.
\<close>

theorem feed_implements_stream:
  assumes "stream_wf d" and "mc_stream_decoder_feed env d (Buf data) cap = (True, d', frames)"
  shows "\<not> sd_failed d' \<and> length frames \<le> cap
    \<and> decoder_decodes env d (sd_buffer d @ data) (map (frame_view d') frames) (sd_buffer d')
    \<and> (length frames < cap \<longrightarrow> decoder_step env d (sd_buffer d') = Next_Partial)"
  using feed_refines(3,5) [OF assms] by blast

lemma feed_implements_stream_witness:
  "\<exists>d' frames. mc_stream_decoder_feed sample_env sample_decoder (Buf [4, 3, 1, 2, 3, 7]) 5 = (True, d', frames)
     \<and> map (frame_view d') frames = [(1, True, [2, 3])]
     \<and> decoder_decodes sample_env sample_decoder [4, 3, 1, 2, 3, 7] [(1, True, [2, 3])] [7]"
proof -
  obtain d' frames where
    feed: "mc_stream_decoder_feed sample_env sample_decoder (Buf [4, 3, 1, 2, 3, 7]) 5 = (True, d', frames)"
    and v: "map (frame_view d') frames = [(1, True, [2, 3])]" "sd_buffer d' = [7]"
    by (simp add: sample_defs stream_eval)
  from feed_implements_stream [OF sample_wf feed] show ?thesis
    using feed v by (simp add: sample_decoder_def)
qed

text \<open>
  C16. A feed that fails on a live decoder fails for a reason: a limit or an allocation, recorded as
  such, or the input itself, of which it has returned every frame before the malformed one.
\<close>

theorem feed_failure_justified:
  assumes "stream_wf d" and "\<not> sd_failed d"
    and "mc_stream_decoder_feed env d (Buf data) cap = (False, d', frames)"
  shows "sd_failed d' \<and> (resource_code (er_code (sd_last_error d'))
    \<or> decoder_decodes env d (sd_buffer d @ data) (map (frame_view d') frames) (sd_buffer d')
      \<and> decoder_step env d (sd_buffer d') = Next_Bad)"
  using feed_refines(6) [OF assms(1,3)] assms(2) by simp

lemma feed_failure_justified_witness:
  "\<exists>d' frames. mc_stream_decoder_feed sample_env sample_decoder (Buf [4, 3, 1, 2, 3, 0]) 5 = (False, d', frames)
     \<and> er_code (sd_last_error d') = MC_ERROR_INVALID_LENGTH
     \<and> decoder_decodes sample_env sample_decoder [4, 3, 1, 2, 3, 0] (map (frame_view d') frames) (sd_buffer d')
     \<and> decoder_step sample_env sample_decoder (sd_buffer d') = Next_Bad"
proof -
  obtain d' frames where
    feed: "mc_stream_decoder_feed sample_env sample_decoder (Buf [4, 3, 1, 2, 3, 0]) 5 = (False, d', frames)"
    and v: "er_code (sd_last_error d') = MC_ERROR_INVALID_LENGTH"
    by (simp add: sample_defs stream_eval stream_fail_def)
  have "\<not> sd_failed sample_decoder" by (simp add: sample_decoder_def)
  from feed_failure_justified [OF sample_wf this feed] v show ?thesis
    using feed by (simp add: sample_decoder_def resource_code_def)
qed

text \<open>
  C15. Two ways of cutting the same bytes into chunks, with any frame capacities, give the same
  packets and the same rest, once both decoders have taken every complete frame.
\<close>

theorem chunking_independent:
  assumes "stream_wf d" and "stream_run env d chunks_a = Some (views_a, da)"
    and "stream_run env d chunks_b = Some (views_b, db)"
    and "concat (map fst chunks_a) = concat (map fst chunks_b)"
    and "\<not> stream_decoder_frame_ready da" and "\<not> stream_decoder_frame_ready db"
  shows "views_a = views_b \<and> sd_buffer da = sd_buffer db"
  by (rule chunking_irrelevant) fact+

lemma chunking_independent_witness:
  "\<exists>views da db. stream_run sample_env sample_decoder [([4, 3], 5), ([1, 2, 3], 5)] = Some (views, da)
     \<and> stream_run sample_env sample_decoder [([4, 3, 1, 2, 3], 5)] = Some (views, db)
     \<and> sd_buffer da = sd_buffer db"
proof -
  obtain va da where a: "stream_run sample_env sample_decoder [([4, 3], 5), ([1, 2, 3], 5)] = Some (va, da)"
    "\<not> stream_decoder_frame_ready da" using sample_run(1) by blast
  obtain vb db where b: "stream_run sample_env sample_decoder [([4, 3, 1, 2, 3], 5)] = Some (vb, db)"
    "\<not> stream_decoder_frame_ready db" using sample_run(2) by blast
  from chunking_independent [OF sample_wf a(1) b(1) _ a(2) b(2)] a b show ?thesis by simp
qed

text \<open>
  C32. In every state the public operations can reach, whatever the inputs, the environment and the
  order of the calls, the buffers stay within their capacities and the capacities within the
  configured limits, and the decoder is failed exactly when its error record holds a code.
\<close>

theorem reachable_decoder_bounded:
  assumes "stream_reachable d"
  shows "length (sd_buffer d) \<le> sd_buffer_capacity d
    \<and> sd_buffer_capacity d \<le> cf_max_buffered_size (sd_config d)
    \<and> length (sd_output d) \<le> sd_output_capacity d
    \<and> sd_output_capacity d \<le> cf_max_output_size (sd_config d)
    \<and> -1 \<le> sd_compression_threshold d
    \<and> (sd_failed d \<longleftrightarrow> er_code (sd_last_error d) \<noteq> MC_ERROR_NONE)"
  using reachable_wf [OF assms] by (simp add: stream_wf_def)

text \<open>A decoder fresh from \<open>create\<close>, and the compression the sample uses.\<close>

lemma sample_reachable: "stream_reachable sample_decoder"
proof -
  have "mc_stream_decoder_create True (Some sample_config)
      = (Some (sample_decoder\<lparr>sd_compression_threshold := -1\<rparr>), mc_error_clear)"
    by (simp add: mc_stream_decoder_create_def sample_defs stream_config_invalid_def INT32_MAX_def SIZE_MAX_def)
  then have "stream_reachable (sample_decoder\<lparr>sd_compression_threshold := -1\<rparr>)" by (rule reach_create)
  moreover have "mc_stream_decoder_set_compression (sample_decoder\<lparr>sd_compression_threshold := -1\<rparr>) 2
      = (True, sample_decoder, mc_error_clear)"
    by (simp add: mc_stream_decoder_set_compression_def sample_defs)
  ultimately show ?thesis by (rule reach_compression)
qed

lemma reachable_decoder_bounded_witness:
  "length (sd_buffer sample_decoder) \<le> sd_buffer_capacity sample_decoder
   \<and> sd_buffer_capacity sample_decoder \<le> 20"
  using reachable_decoder_bounded [OF sample_reachable] by (simp add: sample_defs)

text \<open>
  C34. Every payload view a feed returns points into the output allocation the decoder holds at that
  moment and inside the bytes written there, although the allocation may have moved during the
  feed, and no two views overlap.
\<close>

theorem frame_views_valid:
  assumes "stream_reachable d" and "mc_stream_decoder_feed env d data cap = (ok, d', frames)"
  shows "list_all (\<lambda>f. df_block f = sd_block d' \<and> df_offset f + df_size f \<le> length (sd_output d')) frames
    \<and> sorted_wrt (\<lambda>f g. df_offset f + df_size f \<le> df_offset g) frames"
  using feed_wf [OF reachable_wf [OF assms(1)] assms(2)] by (auto simp: frames_ok_def list_all_iff)

lemma frame_views_valid_witness:
  "\<exists>d' f. mc_stream_decoder_feed sample_env sample_decoder (Buf [4, 3, 1, 2, 3]) 5 = (True, d', [f])
     \<and> df_block f = sd_block d' \<and> df_offset f + df_size f \<le> length (sd_output d')"
proof -
  obtain d' f where feed: "mc_stream_decoder_feed sample_env sample_decoder (Buf [4, 3, 1, 2, 3]) 5 = (True, d', [f])"
    by (simp add: sample_defs stream_eval)
  from frame_views_valid [OF sample_reachable feed] show ?thesis using feed by simp
qed

text \<open>
  The readiness probe answers what a feed of no bytes would do: it is true exactly when such a
  feed would return a frame or fail.
\<close>

theorem frame_ready_probe:
  assumes "stream_reachable d"
  shows "stream_decoder_frame_ready d
    \<longleftrightarrow> (\<forall>d'. mc_stream_decoder_feed env d (Buf []) 1 \<noteq> (True, d', []))"
  by (rule frame_ready_feed [OF reachable_wf [OF assms]])

lemma frame_ready_probe_witness:
  "\<exists>d'. mc_stream_decoder_feed sample_env sample_decoder (Buf []) 1 = (True, d', [])"
proof -
  have "\<not> stream_decoder_frame_ready sample_decoder"
    by (simp add: stream_decoder_frame_ready_def sample_decoder_def)
  then show ?thesis using frame_ready_probe [OF sample_reachable, of sample_env] by blast
qed

text \<open>
  A failed decoder stays as it is until it is reset: every feed fails, returns no frame and
  leaves the decoder, its buffers and its first error unchanged.
\<close>

theorem failed_decoder_sticky:
  assumes "sd_failed d"
  shows "mc_stream_decoder_feed env d data cap = (False, d, [])
    \<and> mc_stream_decoder_finish d = (False, d)
    \<and> fst (mc_stream_decoder_set_compression d threshold) = False
    \<and> \<not> sd_failed (mc_stream_decoder_reset d)"
  using failed_feed_null [OF assms] assms
  by (simp add: mc_stream_decoder_finish_def mc_stream_decoder_set_compression_def mc_stream_decoder_reset_def)

lemma failed_decoder_sticky_witness:
  "mc_stream_decoder_feed sample_env (sample_decoder\<lparr>sd_failed := True\<rparr>) (Buf [1]) 1
     = (False, sample_decoder\<lparr>sd_failed := True\<rparr>, [])"
  using failed_decoder_sticky [of "sample_decoder\<lparr>sd_failed := True\<rparr>"] by simp

text \<open>
  The integer decoder of the stream agrees with the packet reader on every input and in both
  modes: the value and its size, the code and offset of an invalid one, and an incomplete one.
\<close>

theorem stream_varint_is_reader:
  assumes "valid_mode mode"
  shows "stream_varint data mode
    = varint_report (mc_reader_varint (mc_reader_init_mode (Buf data) mode (Some e)))"
  by (rule stream_varint_reader [OF assms])

lemma stream_varint_is_reader_witness:
  "varint_report (mc_reader_varint (mc_reader_init_mode (Buf [0x80, 0]) MC_DECODE_STRICT (Some mc_error_clear)))
     = MC_VARINT_INVALID MC_ERROR_VARINT_NON_CANONICAL 1"
  by (subst stream_varint_is_reader [symmetric])
     (simp_all add: valid_mode_def stream_varint_def stream_varint_loop.simps varint_size_u32_def leb_size.simps)

text \<open>
  \<open>read_frame\<close> returns the next packet of the stream: it takes a prefix of the chunks and
  returns the identifier, written again, and the payload of the first frame of the buffered bytes
  followed by that prefix; the rest stays in the decoder.
\<close>

theorem read_frame_is_next:
  assumes "stream_wf d" and "read_frame fenv env d chunks = (Some data, d', rest)"
  shows "\<exists>used v. chunks = used @ rest \<and> data = encode_varint (fst v) @ snd (snd v)
    \<and> decoder_decodes env d (sd_buffer d @ concat used) [v] (sd_buffer d') \<and> stream_wf d' \<and> same_settings d d'"
  by (rule read_frame_next [OF assms])

lemma read_frame_is_next_witness:
  "\<exists>d' used v. read_frame sample_frame_env sample_env sample_decoder [[4, 3], [1, 2, 3], [9]]
       = (Some [1, 2, 3], d', [[9]]) \<and> [[4, 3], [1, 2, 3], [9]] = used @ [[9]]
     \<and> [1, 2, 3] = encode_varint (fst v) @ snd (snd v)
     \<and> decoder_decodes sample_env sample_decoder (concat used) [v] (sd_buffer d')"
proof -
  obtain d' where run: "read_frame sample_frame_env sample_env sample_decoder [[4, 3], [1, 2, 3], [9]]
       = (Some [1, 2, 3], d', [[9]])"
    by (simp add: read_frame.simps sample_defs stream_eval copy_decoded_frame_def encode_eval)
  from read_frame_is_next [OF sample_wf run] run show ?thesis by (auto simp: sample_decoder_def)
qed

text \<open>
  The encoder's limit and the decoder's default limit do not meet: a packet whose payload has
  the largest size the encoder accepts is encoded without compression, and a decoder with the
  default configuration rejects the frame as too large.
\<close>

theorem largest_payload_rejected:
  assumes "length payload = MC_MAX_PACKET" and "0 \<le> sint packet_id" and "\<And>n. fe_alloc fenv n"
  shows "\<exists>wire. encode_frame fenv (-1) packet_id (Buf payload) = Some wire
    \<and> stream_step inflate mc_stream_decoder_config_init (-1) wire = Next_Bad"
proof -
  let ?plain = "encode_varint packet_id @ payload"
  have len: "length ?plain \<le> INT32_MAX" "MC_MAX_PACKET < length ?plain"
    using encode_varint_size [of packet_id] assms(1) by (simp_all add: MC_MAX_PACKET_def INT32_MAX_def)
  have "encode_frame fenv (-1) packet_id (Buf payload)
      = Some (encode_varint (of_nat (length ?plain)) @ ?plain)"
    using assms len by (simp add: encode_frame_def Let_def)
  moreover have "stream_varint (encode_varint (of_nat (length ?plain)) @ ?plain) MC_DECODE_VANILLA_COMPAT
      = MC_VARINT_COMPLETE (of_nat (length ?plain)) (length (encode_varint (of_nat (length ?plain))))"
    by (rule stream_varint_encoded) (simp add: valid_mode_def)
  moreover have "unat (of_nat (length ?plain) :: i32) > cf_max_frame_size mc_stream_decoder_config_init"
    using length_word_int [OF len(1)] len(2) by (simp add: mc_stream_decoder_config_init_def MC_MAX_PACKET_def)
  ultimately show ?thesis
    by (simp add: stream_step_def mc_stream_decoder_config_init_def)
qed

lemma largest_payload_rejected_witness:
  "\<exists>wire. encode_frame sample_frame_env (-1) 3 (Buf (replicate MC_MAX_PACKET 7)) = Some wire
    \<and> stream_step (env_inflate sample_env) mc_stream_decoder_config_init (-1) wire = Next_Bad"
  by (rule largest_payload_rejected) (simp_all add: sample_frame_env_def)

section \<open>NBT\<close>

text \<open>
  C6. The NBT reader accepts exactly the grammar: in either mode, whatever bytes it is given, it
  returns a view exactly when the input starts with the encoding of a root whose depth, names,
  array lengths and list types are within the limits, and the view is that encoding.
\<close>

theorem nbt_reader_accepts_grammar:
  assumes "valid_mode mode"
  shows "fst (mc_reader_nbt named (mc_reader_init_mode (Buf bs) mode e)) = Some v \<longleftrightarrow>
    (\<exists>root rest. nbt_root_valid root \<and> v = nbt_root_bytes named root \<and> bs = v @ rest)"
  by (rule nbt_accepts_iff [OF assms])

lemma nbt_reader_accepts_grammar_witness:
  "fst (mc_reader_nbt True (mc_reader_init_mode (Buf [1, 0, 1, 65, 42, 9]) MC_DECODE_STRICT None))
     = Some [1, 0, 1, 65, 42]"
  by (subst nbt_reader_accepts_grammar)
     (auto simp: valid_mode_def nbt_name_bytes_def be_bytes_2
       intro!: exI [of _ "Nbt_Root [65] (Nbt_Byte 42)"])

text \<open>
  The compound loop of the NBT skipper, which the model bounds by the bytes left to read, is
  the unbounded loop of the source: it reads a type, stops at the end marker, and otherwise skips a
  name and a value and goes round again.
\<close>

theorem nbt_compound_loop:
  assumes "rd_ok r"
  shows "rd_fuel (\<lambda>n. nbt_skip_compound n depth) r =
     rd_bind mc_reader_u8 (\<lambda>child. if child = 0 then rd_return ()
       else rd_bind (nbt_skip_child child depth) (\<lambda>_. rd_fuel (\<lambda>n. nbt_skip_compound n depth))) r"
  by (rule nbt_compound_unfold [OF assms])

lemma nbt_compound_loop_witness:
  "rd_fuel (\<lambda>n. nbt_skip_compound n 1) (mc_reader_init (Buf [0, 7]))
     = (Some (), (mc_reader_init (Buf [0, 7]))\<lparr>rd_offset := 1\<rparr>)"
  by (subst nbt_compound_loop)
     (simp_all add: rd_ok_def mc_reader_init_def mc_reader_init_mode_def Let_def rd_bind_def
       rd_return_def mc_reader_u8_def mc_reader_bytes_def)

text \<open>
  The NBT writer lets through exactly well-formed NBT: the encoding of a valid root is
  appended whole, and every other byte string is rejected with the failure bit set and nothing
  written.
\<close>

theorem nbt_writer_gate:
  "if \<exists>root. nbt_root_valid root \<and> bs = nbt_root_bytes named root
   then pk_contract (mc_packet_nbt named (Some (Buf bs))) bs
   else pk_rejects (mc_packet_nbt named (Some (Buf bs)))"
  using nbt_packet_accepts nbt_packet_rejects by auto

section \<open>Packet bodies\<close>

text \<open>
  C14. The sticky failure bit works: after any sequence of calls of the public writers and builders
  whose results the caller ignores, a packet that is not marked as failed holds the bytes of every
  one of them, in order and within its capacity; nothing was dropped or cut.
\<close>

theorem unfailed_packet_complete:
  assumes "list_all writer_call ws" and "pk_ok p" and "\<not> pk_failed (pk_run ws p)"
  shows "\<exists>bss. list_all2 pk_contract ws bss \<and> pk_run ws p = pk_append (concat bss) p
    \<and> pk_ok (pk_run ws p)"
  using assms pk_run_complete [of ws p] writer_call_atomic by (simp add: list_all_iff)

lemma unfailed_packet_complete_witness:
  "\<exists>bss. list_all2 pk_contract [mc_packet_u8 7, mc_packet_bool True] bss
     \<and> pk_run [mc_packet_u8 7, mc_packet_bool True] (fresh_packet 4) = pk_append (concat bss) (fresh_packet 4)
     \<and> pk_ok (pk_run [mc_packet_u8 7, mc_packet_bool True] (fresh_packet 4))"
proof (rule unfailed_packet_complete)
  show "list_all writer_call [mc_packet_u8 7, mc_packet_bool True]" by (simp add: call_u8 call_bool)
qed (simp_all add: pk_ok_def pk_run_def mc_packet_u8_def mc_packet_bool_def mc_packet_bytes_def)

text \<open>
  One call breaks the rule that every write after a failure fails: the arm animation of 1.8
  has an empty body, and its builder reports success on a packet that has failed before. The packet
  stays failed.
\<close>

theorem arm_animation_ignores_failure:
  assumes "pk_failed p"
  shows "mc_packet_arm_animation 47 entity_id hand p = (True, p)
    \<and> mc_packet_arm_animation 777 entity_id 0 p = (True, p)
    \<and> \<not> fst (mc_packet_held_item_slot 47 slot p)"
  using assms
  by (auto simp: mc_packet_arm_animation_def mc_packet_held_item_slot_def pk_guard_def pk_when_def
      pk_done_def pk_reject_def mc_packet_i16_def mc_packet_u16_def mc_packet_bytes_def
      supported_iff protocol_ids_def)

lemma arm_animation_ignores_failure_witness:
  "mc_packet_arm_animation 47 0 0 ((fresh_packet 8)\<lparr>pk_failed := True\<rparr>)
     = (True, (fresh_packet 8)\<lparr>pk_failed := True\<rparr>)"
  using arm_animation_ignores_failure [of "(fresh_packet 8)\<lparr>pk_failed := True\<rparr>"] by simp

text \<open>
  A block position in the range of the wire format comes back from the packed form, in both
  layouts of the three fields, to the last byte.
\<close>

theorem position_round_trip:
  assumes "mc_protocol_supported protocol" and "position_in_range v" and "8 \<le> cap" and "valid_mode mode"
  shows "\<exists>p r. mc_packet_position protocol v (fresh_packet cap) = (True, p) \<and> length (pk_buf p) = 8
    \<and> mc_reader_position protocol (mc_reader_init_mode (Buf (pk_buf p)) mode e) = (Some v, r)
    \<and> mc_reader_finish r = (Some (), r)"
  using position_codec.round_trip [of protocol v cap mode e] assms by auto

lemma position_round_trip_witness:
  "\<exists>p r. mc_packet_position 47 \<lparr>pos_x = -3, pos_y = 64, pos_z = 100\<rparr> (fresh_packet 8) = (True, p)
    \<and> mc_reader_position 47 (mc_reader_init_mode (Buf (pk_buf p)) MC_DECODE_STRICT None)
        = (Some \<lparr>pos_x = -3, pos_y = 64, pos_z = 100\<rparr>, r)"
proof -
  have "\<exists>p r. mc_packet_position 47 \<lparr>pos_x = -3, pos_y = 64, pos_z = 100\<rparr> (fresh_packet 8) = (True, p)
    \<and> length (pk_buf p) = 8
    \<and> mc_reader_position 47 (mc_reader_init_mode (Buf (pk_buf p)) MC_DECODE_STRICT None)
        = (Some \<lparr>pos_x = -3, pos_y = 64, pos_z = 100\<rparr>, r) \<and> mc_reader_finish r = (Some (), r)"
    by (rule position_round_trip)
       (simp_all add: supported_iff protocol_ids_def position_in_range_def valid_mode_def)
  then show ?thesis by blast
qed



text \<open>
  The general item reader and the writer of plain items agree: what \<open>mc_packet_plain_item\<close>
  writes, \<open>mc_reader_item_stack\<close> reads to the last byte as the stack without data, its bytes as
  \<open>encoded\<close>. In the old layouts this needs an identifier of at most 32767.
\<close>

theorem item_reader_reads_plain:
  assumes "plain_item_ok protocol (item_id, count)" and "protocol \<le> 401 \<longrightarrow> sint item_id \<le> 32767"
    and "length (plain_item_bytes protocol (item_id, count)) \<le> cap" and "valid_mode mode"
  shows "\<exists>p r. mc_packet_plain_item protocol item_id count (fresh_packet cap) = (True, p)
    \<and> mc_reader_item_stack gz protocol MC_ITEM_WIRE_FULL (mc_reader_init_mode (Buf (pk_buf p)) mode e)
        = (Some (plain_view protocol (item_id, count)), r)
    \<and> mc_reader_finish r = (Some (), r)"
proof -
  let ?wire = "plain_item_bytes protocol (item_id, count)"
  let ?r = "mc_reader_init_mode (Buf ?wire) mode e"
  note f = mc_reader_init_mode_fields [OF assms(4), of ?wire e]
  have "mc_packet_plain_item protocol item_id count (fresh_packet cap) = (True, pk_append ?wire (fresh_packet cap))"
    using assms(3) by (intro pk_contract_fits [OF contract_plain_item [OF assms(1)]]) (simp_all add: pk_ok_def pk_room_def)
  moreover have "mc_reader_item_stack gz protocol MC_ITEM_WIRE_FULL ?r
      = (Some (plain_view protocol (item_id, count)), rd_advance (length ?wire) ?r)"
    using rd_parsesD [OF parses_plain_stack [OF assms(1,2)], of ?r "[]"] f by simp
  ultimately show ?thesis by (auto simp: pk_append_def mc_reader_finish_def f)
qed

lemma item_reader_reads_plain_witness:
  "\<exists>p r. mc_packet_plain_item 754 5 64 (fresh_packet 16) = (True, p)
    \<and> mc_reader_item_stack (\<lambda>_. None) 754 MC_ITEM_WIRE_FULL
        (mc_reader_init_mode (Buf (pk_buf p)) MC_DECODE_STRICT None) = (Some (plain_view 754 (5, 64)), r)
    \<and> mc_reader_finish r = (Some (), r)"
  by (rule item_reader_reads_plain)
     (simp_all add: plain_item_ok_def supported_iff protocol_ids_def plain_item_bytes_def valid_mode_def
        bool_byte_def varint_bytes_length(2) [THEN order_trans])

text \<open>
  Through 1.13.1 an identifier above 32767 divides the readers: the writer accepts it and
  \<open>mc_reader_plain_item\<close> reads it back, but \<open>mc_reader_item_stack\<close> rejects the same bytes.
\<close>

theorem large_legacy_item_rejected:
  assumes "plain_item_ok protocol (item_id, count)" and "protocol \<le> 401" and "32767 < sint item_id"
    and "length (plain_item_bytes protocol (item_id, count)) \<le> cap" and "valid_mode mode"
  shows "\<exists>p r. mc_packet_plain_item protocol item_id count (fresh_packet cap) = (True, p)
    \<and> mc_reader_plain_item protocol (mc_reader_init_mode (Buf (pk_buf p)) mode e) = (Some (item_id, count), r)
    \<and> fst (mc_reader_item_stack gz protocol MC_ITEM_WIRE_FULL (mc_reader_init_mode (Buf (pk_buf p)) mode e)) = None"
proof -
  let ?wire = "plain_item_bytes protocol (item_id, count)"
  let ?r = "mc_reader_init_mode (Buf ?wire) mode e"
  note f = mc_reader_init_mode_fields [OF assms(5), of ?wire e]
  have item: "count \<noteq> 0" "sint item_id < 65535" "mc_protocol_supported protocol"
    using assms(1-3) by (auto simp: plain_item_ok_def)
  then have wire: "take 2 ?wire = be_bytes 2 (ucast item_id :: u16)"
    using assms(2) by (simp add: plain_item_bytes_def)
  have "mc_packet_plain_item protocol item_id count (fresh_packet cap) = (True, pk_append ?wire (fresh_packet cap))"
    using assms(4) by (intro pk_contract_fits [OF contract_plain_item [OF assms(1)]]) (simp_all add: pk_ok_def pk_room_def)
  moreover have "mc_reader_plain_item protocol ?r = (Some (item_id, count), rd_advance (length ?wire) ?r)"
    using rd_parsesD [OF plain_item_codec.get_wire [OF assms(1)], of ?r "[]"] f by simp
  moreover have "fst (mc_reader_item_stack gz protocol MC_ITEM_WIRE_FULL ?r) = None"
    by (rule large_legacy_stack [OF item(3) assms(2,3) item(2), of _ "drop 2 ?wire"])
       (use wire append_take_drop_id [of 2 ?wire] in \<open>simp_all add: f\<close>)
  ultimately show ?thesis by (auto simp: pk_append_def)
qed

lemma large_legacy_item_rejected_witness:
  "\<exists>p r. mc_packet_plain_item 47 40000 1 (fresh_packet 16) = (True, p)
    \<and> mc_reader_plain_item 47 (mc_reader_init_mode (Buf (pk_buf p)) MC_DECODE_STRICT None) = (Some (40000, 1), r)
    \<and> fst (mc_reader_item_stack (\<lambda>_. None) 47 MC_ITEM_WIRE_FULL
        (mc_reader_init_mode (Buf (pk_buf p)) MC_DECODE_STRICT None)) = None"
  by (rule large_legacy_item_rejected)
     (simp_all add: plain_item_ok_def supported_iff protocol_ids_def plain_item_bytes_def valid_mode_def)

text \<open>
  C35. Whatever the bytes, a stack that \<open>mc_reader_item_stack\<close> returns is in range: it has a
  positive identifier, between 1 and 127 items, and at most 256 components added and removed
  together, and an absent stack carries no data.
\<close>

theorem item_stack_in_range:
  assumes "mc_reader_item_stack gz protocol wire_kind r = (Some v, r')"
  shows "unat (is_added_component_count v) + unat (is_removed_component_count v) \<le> MC_MAX_ITEM_COMPONENT_COUNT
    \<and> (is_present v \<longrightarrow> 0 < sint (is_item_id v) \<and> 0 < sint (is_count v) \<and> sint (is_count v) \<le> 127)
    \<and> (\<not> is_present v \<longrightarrow> is_added_component_count v = 0 \<and> is_removed_component_count v = 0
         \<and> is_nbt v = [] \<and> is_components v = [])"
  using rd_postD [OF item_stack_result assms] unfolding item_stack_bounded_def .

lemma item_stack_in_range_witness:
  "\<exists>v r'. mc_reader_item_stack (\<lambda>_. None) 754 MC_ITEM_WIRE_FULL
      (mc_reader_init_mode (Buf [1, 5, 64, 0]) MC_DECODE_STRICT None) = (Some v, r')
    \<and> 0 < sint (is_item_id v) \<and> sint (is_count v) \<le> 127"
proof -
  let ?r = "mc_reader_init_mode (Buf [1, 5, 64, 0]) MC_DECODE_STRICT None"
  have "rd_parses (mc_reader_item_stack (\<lambda>_. None) 754 MC_ITEM_WIRE_FULL) [1, 5, 64, 0] (plain_view 754 (5, 64))"
    using parses_plain_stack [of 754 5 64 "\<lambda>_. None"]
    by (simp add: plain_item_ok_def supported_iff protocol_ids_def plain_item_bytes_def bool_byte_def single_varint(1))
  from rd_parsesD [OF this, of ?r "[]"] obtain r' where
    run: "mc_reader_item_stack (\<lambda>_. None) 754 MC_ITEM_WIRE_FULL ?r = (Some (plain_view 754 (5, 64)), r')"
    by (simp add: mc_reader_init_mode_fields valid_mode_def)
  from item_stack_in_range [OF run] show ?thesis
    using run by (intro exI [of _ "plain_view 754 (5, 64)"] exI [of _ r']) (simp add: plain_view_def item_stack_start_def)
qed


text \<open>
  C40. Through 1.13.1 the item writer accepts the identifier 65535, whose wire form is the marker of
  the empty slot: the packet is not failed, its reader returns an empty slot, and the count and the
  rest of the stack are left behind as trailing bytes.
\<close>

theorem sentinel_item_misread:
  assumes "mc_protocol_supported protocol" and "protocol \<le> 401"
    and "0 < sint count" and "sint count \<le> 127" and "7 \<le> cap" and "valid_mode mode"
  shows "\<exists>p r. mc_packet_plain_item protocol 65535 count (fresh_packet cap) = (True, p) \<and> \<not> pk_failed p
    \<and> mc_reader_plain_item protocol (mc_reader_init_mode (Buf (pk_buf p)) mode e) = (Some (0, 0), r)
    \<and> fst (mc_reader_finish r) = None"
proof -
  from sentinel_item_bytes [OF assms(1-4)] obtain bs where
    w: "pk_contract (mc_packet_plain_item protocol 65535 count) (be_bytes 2 (0xffff :: u16) @ bs)"
    and bs: "bs \<noteq> []" "length bs \<le> 5" by blast
  let ?wire = "be_bytes 2 (0xffff :: u16) @ bs"
  let ?r = "mc_reader_init_mode (Buf ?wire) mode e"
  note f = mc_reader_init_mode_fields [OF assms(6), of ?wire e]
  have "mc_packet_plain_item protocol 65535 count (fresh_packet cap) = (True, pk_append ?wire (fresh_packet cap))"
    using bs assms(5) by (intro pk_contract_fits [OF w]) (simp_all add: pk_ok_def pk_room_def)
  moreover have "rd_parses (mc_reader_plain_item protocol) (be_bytes 2 (0xffff :: u16)) (0, 0)"
    using parses_empty_slot [OF assms(1)] assms(2) by (simp add: plain_item_bytes_def)
  then have "mc_reader_plain_item protocol ?r = (Some (0, 0), rd_advance 2 ?r)"
    using rd_parsesD [of _ "be_bytes 2 (0xffff :: u16)" "(0, 0)" ?r bs] f by simp
  moreover have "fst (mc_reader_finish (rd_advance 2 ?r)) = None"
    using bs by (simp add: mc_reader_finish_def reader_fail_def f)
  ultimately show ?thesis by (auto simp: pk_append_def)
qed

lemma sentinel_item_misread_witness:
  "\<exists>p r. mc_packet_plain_item 47 65535 1 (fresh_packet 16) = (True, p) \<and> \<not> pk_failed p
    \<and> mc_reader_plain_item 47 (mc_reader_init_mode (Buf (pk_buf p)) MC_DECODE_STRICT None) = (Some (0, 0), r)
    \<and> fst (mc_reader_finish r) = None"
  by (rule sentinel_item_misread) (simp_all add: supported_iff protocol_ids_def valid_mode_def)

text \<open>A parser reads its bytes to the last one.\<close>

lemma parses_whole:
  assumes "rd_parses get bs x" and "valid_mode mode"
  shows "\<exists>r. get (mc_reader_init_mode (Buf bs) mode e) = (Some x, r) \<and> mc_reader_finish r = (Some (), r)"
  using rd_parsesD [OF assms(1), of "mc_reader_init_mode (Buf bs) mode e" "[]"]
  by (simp add: mc_reader_init_mode_fields [OF assms(2)] mc_reader_finish_def)

text \<open>
  C39. A well-formed equipment body decodes to its entries in every protocol, with nothing left:
  one entry with a 16-bit slot through 1.8 or a variable-length slot through 1.15.2, and from 1.16
  a list of up to eight entries whose slots announce the next by their top bit.
\<close>

theorem equipment_body_decodes:
  assumes "equipment_ok protocol d" and "valid_mode mode"
  shows "\<exists>r. mc_reader_entity_equipment protocol (mc_reader_init_mode (Buf (equipment_bytes protocol d)) mode e)
      = (Some d, r) \<and> mc_reader_finish r = (Some (), r)"
  by (rule parses_whole [OF parses_equipment [OF assms(1)] assms(2)])

lemma equipment_body_decodes_witness:
  "\<exists>d r. eq_entries d = [\<lparr>ee_slot = MC_EQUIPMENT_HEAD, ee_item_id = 7, ee_count = 1\<rparr>,
        \<lparr>ee_slot = MC_EQUIPMENT_OFF_HAND, ee_item_id = 8, ee_count = 64\<rparr>]
     \<and> mc_reader_entity_equipment 754 (mc_reader_init_mode (Buf (equipment_bytes 754 d)) MC_DECODE_STRICT None)
         = (Some d, r)"
proof -
  let ?d = "\<lparr>eq_entity_id = 5, eq_entries = [\<lparr>ee_slot = MC_EQUIPMENT_HEAD, ee_item_id = 7, ee_count = 1\<rparr>,
        \<lparr>ee_slot = MC_EQUIPMENT_OFF_HAND, ee_item_id = 8, ee_count = 64\<rparr>]\<rparr>"
  have "equipment_ok 754 ?d"
    by (simp add: equipment_ok_def equipment_entry_ok_def plain_item_ok_def supported_iff protocol_ids_def
        mc_entity_equipment_slot_supported_def less_eq_mc_equipment_slot_def less_mc_equipment_slot_def)
  from equipment_body_decodes [OF this, of MC_DECODE_STRICT None] show ?thesis
    by (intro exI [of _ ?d]) (auto simp: valid_mode_def)
qed

text \<open>
  What an equipment body decodes to, whatever its bytes: between one and eight entries for
  distinct slots, each of which exists in the protocol, and an identifier that is not negative. The
  continuation bit cannot drive the reader past the eight entries of the structure.
\<close>

theorem equipment_slots_distinct:
  assumes "mc_reader_entity_equipment protocol r = (Some d, r')"
  shows "distinct (map ee_slot (eq_entries d)) \<and> eq_entries d \<noteq> []
    \<and> length (eq_entries d) \<le> MC_ENTITY_EQUIPMENT_MAX_ENTRIES \<and> 0 \<le> sint (eq_entity_id d)
    \<and> (\<forall>e \<in> set (eq_entries d). mc_entity_equipment_slot_supported protocol (ee_slot e))"
  using assms by (rule equipment_result)

lemma equipment_slots_distinct_witness:
  "\<exists>d :: mc_entity_equipment. distinct (map ee_slot (eq_entries d)) \<and> eq_entity_id d = 5"
proof -
  let ?r = "mc_reader_init_mode (Buf [5, 4, 0]) MC_DECODE_STRICT None"
  have "\<exists>d r'. mc_reader_entity_equipment 498 ?r = (Some d, r') \<and> eq_entity_id d = 5"
    by (simp add: mc_reader_entity_equipment_def rd_ready_def supported_iff protocol_ids_def reader_eval
        read_equipment_entries_def reader_entity_equipment_entry_def equipment_slot_normalize_def
        equipment_of_index_def mc_entity_equipment_slot_supported_def less_eq_mc_equipment_slot_def
        less_mc_equipment_slot_def MC_ENTITY_EQUIPMENT_MAX_ENTRIES_def slot_bit_def rd_mark_def
        mc_reader_plain_item_def rd_supported_def rd_live_def rd_such_def)
  then obtain d r' where "mc_reader_entity_equipment 498 ?r = (Some d, r')" "eq_entity_id d = 5" by blast
  with equipment_slots_distinct [OF this(1)] show ?thesis by blast
qed

text \<open>
  The readers of containers, equipment and worlds do not report: with an error record supplied,
  they fail on an unsupported protocol, and the container reader on a negative window identifier, and
  the record still says that there was no error.
\<close>

theorem unrecorded_failures:
  assumes "\<not> mc_protocol_supported unknown" and "mc_protocol_supported protocol" and "404 < protocol"
    and "mc_reader_varint r = (Some w, r')" and "sint w < 0"
  shows "mc_reader_container_open protocol r = (None, r'\<lparr>rd_failed := True\<rparr>) \<and> rd_error r' = rd_error r
    \<and> mc_reader_container_open unknown r = (None, r\<lparr>rd_failed := True\<rparr>)
    \<and> mc_reader_container_content unknown r = (None, r\<lparr>rd_failed := True\<rparr>)
    \<and> mc_reader_entity_equipment unknown r = (None, r\<lparr>rd_failed := True\<rparr>)
    \<and> mc_reader_entity_hand_use_metadata unknown r = (None, r\<lparr>rd_failed := True\<rparr>)
    \<and> mc_reader_clientbound_join_game unknown r = (None, r\<lparr>rd_failed := True\<rparr>)
    \<and> mc_reader_clientbound_respawn unknown r = (None, r\<lparr>rd_failed := True\<rparr>)"
  by (intro conjI container_open_negative [OF assms(2-5)] varint_keeps_error [OF assms(4)]
      unsupported_unrecorded [OF assms(1)])

lemma unrecorded_failures_witness:
  "\<exists>r'. mc_reader_container_open 754 (mc_reader_init_mode (Buf [128, 128, 128, 128, 8]) MC_DECODE_STRICT
       (Some mc_error_clear)) = (None, r') \<and> rd_error r' = Some mc_error_clear"
proof -
  let ?r = "mc_reader_init_mode (Buf [128, 128, 128, 128, 8]) MC_DECODE_STRICT (Some mc_error_clear)"
  have "\<exists>w r'. mc_reader_varint ?r = (Some w, r') \<and> sint w < 0" by (simp add: reader_eval)
  then obtain w r' where w: "mc_reader_varint ?r = (Some w, r')" "sint w < 0" by blast
  have "\<not> mc_protocol_supported 1" "mc_protocol_supported 754" "(404 :: int) < 754"
    by (simp_all add: supported_iff protocol_ids_def)
  note unrecorded_failures [OF this w]
  moreover have "rd_error ?r = Some mc_error_clear" by (simp add: mc_reader_init_mode_fields valid_mode_def)
  ultimately show ?thesis by auto
qed

text \<open>
  Whatever its bytes, a join game body that decodes has a game mode of at most 3 and a previous
  one between -1 and 3, at most sixteen worlds, and distances, player limit and cooldown between
  0 and the array limit, in each of the layouts from 1.7 to 26.3.
\<close>

theorem join_game_in_range:
  assumes "mc_reader_clientbound_join_game protocol r = (Some d, r')"
  shows "join_game_bounded d"
  using post_join_game assms by (rule rd_postD)

lemma join_game_in_range_witness:
  "\<exists>d. join_game_bounded d \<and> jg_level_type d = [97]"
proof -
  let ?r = "mc_reader_init_mode (Buf [0, 0, 0, 1, 1, 0, 2, 20, 1, 97, 0]) MC_DECODE_STRICT None"
  have "\<exists>d r'. mc_reader_clientbound_join_game 47 ?r = (Some d, r') \<and> jg_level_type d = [97]"
    by (simp add: mc_reader_clientbound_join_game_def rd_ready_def supported_iff protocol_ids_def reader_eval
        join_game_legacy_def join_game_start_def rd_mark_def mc_reader_join_game_mode_def mc_reader_bool_def)
  then obtain d r' where "mc_reader_clientbound_join_game 47 ?r = (Some d, r')" "jg_level_type d = [97]" by blast
  with join_game_in_range [OF this(1)] show ?thesis by blast
qed

text \<open>
  A respawn body that decodes has modes in range, a mask of at most the two keep bits, and a
  cooldown and dimension type that are not negative.
\<close>

theorem respawn_in_range:
  assumes "mc_reader_clientbound_respawn protocol r = (Some d, r')"
  shows "respawn_bounded d"
  using post_respawn assms by (rule rd_postD)

lemma respawn_in_range_witness:
  "\<exists>d. respawn_bounded d \<and> rs_level_type d = [] \<and> rs_game_mode d = 1"
proof -
  let ?r = "mc_reader_init_mode (Buf [0, 0, 0, 0, 2, 1, 0]) MC_DECODE_STRICT None"
  have "\<exists>d r'. mc_reader_clientbound_respawn 47 ?r = (Some d, r') \<and> rs_level_type d = [] \<and> rs_game_mode d = 1"
    by (simp add: mc_reader_clientbound_respawn_def rd_ready_def supported_iff protocol_ids_def reader_eval
        respawn_legacy_def respawn_start_def rd_mark_def)
  then obtain d r' where "mc_reader_clientbound_respawn 47 ?r = (Some d, r')" "rs_level_type d = []"
    "rs_game_mode d = 1" by blast
  with respawn_in_range [OF this(1)] show ?thesis by blast
qed

section \<open>Primitive fields\<close>

text \<open>
  A variable-length integer comes back in either mode, takes at most five bytes, and the
  encoder of the framing layer produces the same bytes as the packet writer.
\<close>

theorem varint_round_trip:
  assumes "5 \<le> cap" and "valid_mode mode"
  shows "\<exists>p r. mc_packet_varint v (fresh_packet cap) = (True, p) \<and> pk_buf p = encode_varint v
    \<and> 0 < length (pk_buf p) \<and> length (pk_buf p) \<le> 5
    \<and> mc_reader_varint (mc_reader_init_mode (Buf (pk_buf p)) mode e) = (Some v, r)
    \<and> mc_reader_finish r = (Some (), r)"
proof -
  have "length (varint_bytes v) \<le> cap" using varint_bytes_length(2) [of v] assms(1) by simp
  then show ?thesis
    using varint_codec.round_trip [of v cap mode e] varint_bytes_length [of v] assms(2)
    by (fastforce simp: encode_varint_bytes)
qed

lemma varint_round_trip_witness:
  "\<exists>p r. mc_packet_varint 300 (fresh_packet 5) = (True, p) \<and> length (pk_buf p) \<le> 5
    \<and> mc_reader_varint (mc_reader_init_mode (Buf (pk_buf p)) MC_DECODE_STRICT None) = (Some 300, r)"
proof -
  have "\<exists>p r. mc_packet_varint 300 (fresh_packet 5) = (True, p) \<and> pk_buf p = encode_varint 300
    \<and> 0 < length (pk_buf p) \<and> length (pk_buf p) \<le> 5
    \<and> mc_reader_varint (mc_reader_init_mode (Buf (pk_buf p)) MC_DECODE_STRICT None) = (Some 300, r)
    \<and> mc_reader_finish r = (Some (), r)"
    by (rule varint_round_trip) (simp_all add: valid_mode_def)
  then show ?thesis by blast
qed

text \<open>
  A strict reader accepts one spelling of an integer: two inputs it reads as the same value to
  their last byte are the same bytes.
\<close>

theorem strict_varint_unique:
  assumes "mc_reader_varint (mc_reader_init_mode (Buf bs) MC_DECODE_STRICT e) = (Some v, r)"
    and "mc_reader_varint (mc_reader_init_mode (Buf cs) MC_DECODE_STRICT e) = (Some v, s)"
    and "rd_offset r = length bs" and "rd_offset s = length cs"
  shows "bs = cs"
  by (rule varint_codec.strict_unique) fact+

lemma read_seven:
  "mc_reader_varint (mc_reader_init_mode (Buf [7]) MC_DECODE_STRICT None)
     = (Some 7, rd_advance 1 (mc_reader_init_mode (Buf [7]) MC_DECODE_STRICT None))"
  using rd_parsesD [OF parses_varint [of 7], of "mc_reader_init_mode (Buf [7]) MC_DECODE_STRICT None" "[]"]
  by (simp add: mc_reader_init_mode_fields valid_mode_def varint_bytes_def leb_bytes_last)

lemma strict_varint_unique_witness:
  "fst (mc_reader_varint (mc_reader_init_mode (Buf [7]) MC_DECODE_STRICT None)) = Some 7
   \<and> [7] = ([7] :: u8 list)"
proof
  show "[7] = ([7] :: u8 list)"
    by (rule strict_varint_unique [OF read_seven read_seven])
       (simp_all add: mc_reader_init_mode_fields valid_mode_def)
qed (simp add: read_seven)

text \<open>
  A truncated integer is never read as another value: every proper prefix of the encoding
  leaves the reader failed, in either mode.
\<close>

theorem truncated_varint_fails:
  assumes "varint_bytes v = front @ rear" and "rear \<noteq> []" and "valid_mode mode"
  shows "fst (mc_reader_varint (mc_reader_init_mode (Buf front) mode e)) = None
    \<and> rd_failed (snd (mc_reader_varint (mc_reader_init_mode (Buf front) mode e)))"
  by (rule varint_codec.truncation_fails [OF _ assms]) simp

lemma truncated_varint_fails_witness:
  "fst (mc_reader_varint (mc_reader_init_mode (Buf []) MC_DECODE_STRICT None)) = None"
  by (rule truncated_varint_fails [of 7 "[]" "[7]", THEN conjunct1])
     (simp_all add: varint_bytes_def leb_bytes_last valid_mode_def)

text \<open>
  A string of at most a megabyte comes back, and a packet without room for it is marked as
  failed instead of holding a shorter string.
\<close>

theorem string_round_trip:
  assumes "length bs \<le> MC_DEFAULT_MAX_STRING_BYTES" and "valid_mode mode"
  shows "if length (string_bytes bs) \<le> cap
    then \<exists>p r. mc_packet_string_n (Buf bs) (fresh_packet cap) = (True, p)
      \<and> mc_reader_string (mc_reader_init_mode (Buf (pk_buf p)) mode e) = (Some bs, r)
      \<and> mc_reader_finish r = (Some (), r)
    else \<not> fst (mc_packet_string_n (Buf bs) (fresh_packet cap))
      \<and> pk_failed (snd (mc_packet_string_n (Buf bs) (fresh_packet cap)))"
  using string_codec.round_trip [of bs cap mode e] string_codec.overflow_fails [of bs cap] assms by auto

lemma string_round_trip_witness:
  "\<not> fst (mc_packet_string_n (Buf [65, 66]) (fresh_packet 2))"
  using string_round_trip [of "[65, 66]" MC_DECODE_STRICT 2 None]
  by (simp add: string_bytes_def valid_mode_def MC_DEFAULT_MAX_STRING_BYTES_def varint_bytes_def leb_bytes_last)

text \<open>
  The error discipline of the packet readers: on a live reader with an error record, a reader
  that returns nothing has failed and recorded a code, and it has never moved past the input.
\<close>

theorem reader_failure_recorded:
  assumes "rd_error r = Some err" and "\<not> rd_failed r" and "rd_ok r"
    and "fst (mc_reader_clientbound_player_position protocol r) = None"
  shows "\<exists>err'. rd_error (snd (mc_reader_clientbound_player_position protocol r)) = Some err'
    \<and> er_code err' \<noteq> MC_ERROR_NONE
    \<and> rd_offset (snd (mc_reader_clientbound_player_position protocol r)) \<le> length (rd_data r)"
  using clientbound_position_rd.failure_has_code [OF assms(1,2,4)]
    clientbound_position_rd.never_reads_past_end [OF assms(3), of protocol] by blast

lemma reader_failure_recorded_witness:
  "\<exists>err'. rd_error (snd (mc_reader_clientbound_player_position 47
       (mc_reader_init_mode (Buf [1, 2]) MC_DECODE_STRICT (Some mc_error_clear)))) = Some err'
    \<and> er_code err' \<noteq> MC_ERROR_NONE"
proof -
  let ?r = "mc_reader_init_mode (Buf [1, 2]) MC_DECODE_STRICT (Some mc_error_clear)"
  have f: "rd_error ?r = Some mc_error_clear" "\<not> rd_failed ?r" "rd_ok ?r"
    by (simp_all add: mc_reader_init_mode_fields valid_mode_def)
  have "fst (mc_reader_clientbound_player_position 47 ?r) = None"
    by (simp add: mc_reader_clientbound_player_position_def rd_supported_def rd_live_def supported_iff
        protocol_ids_def mc_reader_init_mode_def Let_def mc_protocol_features_def find_profile_def
        profiles_def profile_row_def MC_PROTOCOL_FEATURE_COMPRESSION_def MC_PROTOCOL_FEATURE_POSITION_DELTA_def
        read_legacy_position_def read_position_body_def rd_bind_def rd_orelse_def mc_reader_double_def
        mc_reader_u64_def mc_reader_bytes_def reader_fail_def)
  from reader_failure_recorded [OF f this] show ?thesis by blast
qed

section \<open>The registry\<close>

text \<open>
  The enumeration of a release is sound and complete: the indices below the packet count are
  those that return a packet, and the packets they return are exactly the combinations of state,
  direction, identifier and name the name lookup knows.
\<close>

theorem packet_enumeration:
  "(mc_packet_at protocol index \<noteq> None \<longleftrightarrow> index < mc_packet_count protocol)
   \<and> ((\<exists>i. mc_packet_at protocol i = Some info) \<longleftrightarrow>
       mc_packet_name protocol (pi_state info) (pi_direction info) (pi_id info) = Some (pi_name info))"
  using packet_at_total packet_at_iff by blast

text \<open>
  The identifier lookup inverts the name lookup: an identifier it returns has the name asked
  for, and it returns one for every name of the table.
\<close>

theorem packet_id_has_name:
  "(mc_packet_id protocol state direction (Some name) \<noteq> -1 \<longleftrightarrow>
      (\<exists>packet_id. mc_packet_name protocol state direction packet_id = Some name))
   \<and> (mc_packet_id protocol state direction (Some name) \<noteq> -1 \<longrightarrow>
      mc_packet_name protocol state direction (mc_packet_id protocol state direction (Some name)) = Some name)"
  using name_of_packet_id packet_id_known by blast

lemma packet_id_has_name_witness:
  "mc_packet_name 47 MC_STATE_STATUS MC_PACKET_CLIENTBOUND
     (mc_packet_id 47 MC_STATE_STATUS MC_PACKET_CLIENTBOUND (Some ''ping'')) = Some ''ping''"
proof -
  obtain c where "find_packet_catalog 47 = Some c"
    using find_packet_catalog_iff [of 47] by (auto simp: supported_iff protocol_ids_def)
  then have "mc_packet_id 47 MC_STATE_STATUS MC_PACKET_CLIENTBOUND (Some ''ping'') = 1"
    by (simp add: mc_packet_id_def packet_map_def packet_names_status_clientbound_def)
  then show ?thesis
    using packet_id_has_name [of 47 MC_STATE_STATUS MC_PACKET_CLIENTBOUND "''ping''"] by simp
qed

text \<open>
  The packet identifiers of the connection profiles are those of the catalogs: in every
  supported release the five identifiers the client handles by number belong to the packets of
  those names.
\<close>

theorem profile_identifiers:
  assumes "find_profile protocol = Some p"
  shows "mc_packet_name protocol MC_STATE_PLAY MC_PACKET_CLIENTBOUND (word_of_int (pf_join_game p)) = Some ''login''
    \<and> mc_packet_name protocol MC_STATE_PLAY MC_PACKET_CLIENTBOUND (word_of_int (pf_keep_alive p)) = Some ''keep_alive''
    \<and> mc_packet_name protocol MC_STATE_PLAY MC_PACKET_CLIENTBOUND (word_of_int (pf_player_position p)) = Some ''position''
    \<and> mc_packet_name protocol MC_STATE_PLAY MC_PACKET_SERVERBOUND (word_of_int (pf_keep_alive_response p)) = Some ''keep_alive''
    \<and> (pf_teleport_confirm p \<noteq> -1 \<longrightarrow>
        mc_packet_name protocol MC_STATE_PLAY MC_PACKET_SERVERBOUND (word_of_int (pf_teleport_confirm p)) = Some ''teleport_confirm'')"
proof -
  obtain c where c: "find_packet_catalog protocol = Some c" and m: "profile_matches p c"
    using profile_catalog [OF assms] by blast
  have "packet_map (find_packet_catalog protocol) MC_STATE_PLAY MC_PACKET_CLIENTBOUND = Some (cat_play_clientbound c)"
    "packet_map (find_packet_catalog protocol) MC_STATE_PLAY MC_PACKET_SERVERBOUND = Some (cat_play_serverbound c)"
    by (simp_all add: packet_map_def c)
  then show ?thesis
    using m unfolding profile_matches_def by (blast intro: table_entry_name)
qed

lemma profile_identifiers_witness:
  "mc_packet_name 47 MC_STATE_PLAY MC_PACKET_CLIENTBOUND 8 = Some ''position''"
proof -
  have "find_profile 47 = Some (profile_row 47 1 0 8 (-1) 0 MC_PROTOCOL_FEATURE_COMPRESSION)"
    by (simp add: find_profile_def profiles_def profile_row_def Let_def)
  from profile_identifiers [OF this] show ?thesis by (simp add: profile_row_def)
qed

text \<open>
  Protocol numbers and release names correspond: a number is supported exactly when it has a
  name and a catalog, and its name leads back to it.
\<close>

theorem protocol_names_correspond:
  "(mc_protocol_supported protocol \<longleftrightarrow> mc_protocol_name protocol \<noteq> None)
   \<and> (mc_protocol_supported protocol \<longleftrightarrow> find_packet_catalog protocol \<noteq> None)
   \<and> (mc_protocol_supported protocol \<longrightarrow> mc_protocol_by_name (mc_protocol_name protocol) = protocol)"
  using supported_has_name [of protocol] find_packet_catalog_iff [of protocol]
    protocol_name_by_name [of protocol] by auto

lemma protocol_names_correspond_witness: "mc_protocol_by_name (mc_protocol_name 47) = 47"
  using protocol_names_correspond [of 47] by (simp add: supported_iff protocol_ids_def)

section \<open>Identifiers\<close>

text \<open>The text form of an identifier has 36 characters and parses back to its sixteen bytes.\<close>

theorem uuid_text_round_trip:
  assumes "length bytes = 16"
  shows "length (mc_uuid_format (Some bytes)) = 36 \<and> mc_uuid_parse (Some (mc_uuid_format (Some bytes))) = Some bytes"
  using format_length parse_format [OF assms] by blast

lemma uuid_text_round_trip_witness:
  "mc_uuid_parse (Some (mc_uuid_format (Some (replicate 16 0xab)))) = Some (replicate 16 0xab)"
  using uuid_text_round_trip [of "replicate 16 0xab"] by simp

text \<open>
  An offline identifier has sixteen bytes, version 3 and the RFC variant, whatever the name,
  and the prefixed name it is computed from fits the single MD5 block.
\<close>

theorem offline_uuid_version:
  assumes "mc_offline_uuid (Some name) = Some uuid"
  shows "length uuid = 16 \<and> drop_bit 4 (uuid ! 6) = 3 \<and> drop_bit 6 (uuid ! 8) = 2
    \<and> length (offline_prefix @ name) \<le> 55"
proof -
  have "valid_username (Some name)" using assms by (auto simp: mc_offline_uuid_def split: if_splits)
  then show ?thesis using offline_uuid_shape [OF assms] offline_name_fits [of name] by auto
qed

lemma offline_uuid_version_witness:
  "\<exists>uuid. mc_offline_uuid (Some [0x41, 0x62, 0x5f]) = Some uuid \<and> length uuid = 16 \<and> drop_bit 4 (uuid ! 6) = 3"
proof -
  obtain uuid where "mc_offline_uuid (Some [0x41, 0x62, 0x5f]) = Some uuid"
    by (simp add: mc_offline_uuid_def valid_username_def username_byte_def Let_def)
  from offline_uuid_version [OF this] this show ?thesis by blast
qed

section \<open>The client\<close>

text \<open>
  The client of the witnesses: created for 1.8 in front of a socket on which everything works, with
  callbacks that do nothing.
\<close>

definition sample_client_env :: "unit client_env" where
  "sample_client_env =
     \<lparr>ce_frame = sample_frame_env, ce_stream = sample_env,
      ce_zlib = \<lparr>zg_bound = (\<lambda>n. n), zg_member = (\<lambda>bound bytes. Some bytes)\<rparr>,
      ce_connect = (\<lambda>host port. Some 5), ce_backend_init = (\<lambda>socket_fd. True),
      ce_on_state = (\<lambda>previous current c. c), ce_on_packet = (\<lambda>state packet_id payload c. c)\<rparr>"

definition sample_profile :: mc_profile where
  "sample_profile = profile_row 47 1 0 8 (-1) 0 MC_PROTOCOL_FEATURE_COMPRESSION"

definition sample_client :: "unit mc_client" where
  "sample_client = \<lparr>cl_socket_fd = -1, cl_stop = False, cl_profile = sample_profile, cl_userdata = (),
     cl_state = MC_STATE_DISCONNECTED, cl_compression_threshold = -1, cl_sent_bytes = 0,
     cl_received_bytes = 0, cl_automatic_replies = MC_AUTOMATIC_ALL, cl_read_timeout_ms = 30000,
     cl_transforms = None,
     cl_stream_decoder = sample_decoder\<lparr>sd_config := mc_stream_decoder_config_init, sd_compression_threshold := -1\<rparr>,
     cl_tracked_position = position_zero, cl_tracked_position_valid = False, cl_player_loaded_sent = False,
     cl_server_side = False, cl_waits = [], cl_receives = [], cl_sends = [], cl_wire = []\<rparr>"

lemma sample_find: "find_profile 47 = Some sample_profile"
  by (simp add: find_profile_def profiles_def profile_row_def Let_def sample_profile_def)

lemma sample_created: "mc_client_create True True 47 () = Some sample_client"
  by (simp add: mc_client_create_def sample_find mc_stream_decoder_create_def Let_def config_init_ok
      sample_client_def sample_decoder_def)

lemma sample_callbacks:
  "observing sample_client_env" "callbacks_keep sample_client_env client_inv" "callbacks_within sample_client_env wire_grows"
proof -
  have "\<exists>u. c = c\<lparr>cl_userdata := u\<rparr>" for c :: "unit mc_client" by (rule exI [of _ "cl_userdata c"]) simp
  then show "observing sample_client_env" by (simp add: observing_def callbacks_within_def sample_client_env_def)
qed (simp_all add: callbacks_keep_def callbacks_within_def sample_client_env_def wire_grows_def)

lemma sample_env_fields [simp]:
  "ce_frame sample_client_env = sample_frame_env" "ce_stream sample_client_env = sample_env"
  "ce_backend_init sample_client_env socket_fd"
  by (simp_all add: sample_client_env_def)

lemma sample_client_closed: "client_closed sample_client"
  by (simp add: client_closed_def sample_client_def)

text \<open>
  C4. In every state that a client can reach from its creation or from its acceptance by a server,
  through any of its operations and whatever the sockets do: the decoder is a reachable decoder that
  has the client's compression threshold, the count of sent bytes is the length of what was sent,
  the profile is the one of a supported protocol, and no undefined automatic reply is set. The
  application's callbacks must keep this, as every operation does.
\<close>

theorem client_invariant:
  assumes "callbacks_keep env client_inv" and "client_reachable env c"
  shows "stream_reachable (cl_stream_decoder c)
    \<and> cl_compression_threshold c = sd_compression_threshold (cl_stream_decoder c)
    \<and> cl_sent_bytes c = of_nat (length (cl_wire c))
    \<and> find_profile (pf_protocol (cl_profile c)) = Some (cl_profile c)
    \<and> cl_automatic_replies c AND NOT MC_AUTOMATIC_ALL = 0"
  using reachable_inv [OF assms] by (simp add: client_inv_def)

lemma client_invariant_witness:
  "cl_compression_threshold (snd (mc_client_poll sample_client_env 5 sample_client))
     = sd_compression_threshold (cl_stream_decoder (snd (mc_client_poll sample_client_env 5 sample_client)))"
  by (rule client_invariant [OF sample_callbacks(2), THEN conjunct2, THEN conjunct1])
     (rule reachable_step [OF reachable_create [OF sample_created] step_poll])

text \<open>
  No sequence of operations takes back a byte that was sent, or changes the profile.
\<close>

theorem wire_only_grows:
  assumes "callbacks_within env wire_grows" and "(client_step env)\<^sup>*\<^sup>* c c'"
  shows "(\<exists>sent. cl_wire c' = cl_wire c @ sent) \<and> cl_profile c' = cl_profile c"
  using wire.R_steps [OF assms(2)] assms(1) by (simp add: grows_wire_def wire_grows_def prefix_def)

lemma wire_only_grows_witness:
  "cl_profile (snd (mc_client_open sample_client_env (Some [104]) 0 MC_STATE_LOGIN sample_client)) = sample_profile"
  using wire_only_grows [OF sample_callbacks(3) r_into_rtranclp, OF step_open,
    of "Some [104]" 0 MC_STATE_LOGIN sample_client] by (simp add: sample_client_def)




definition sample_player :: "mc_state \<Rightarrow> mc_recv list \<Rightarrow> unit mc_client" where
  "sample_player state receives =
     sample_client\<lparr>cl_socket_fd := 5, cl_state := state, cl_receives := receives\<rparr>"


text \<open>A server's keep-alive with the payload 7 arrives.\<close>

lemma sample_keep_alive:
  "fst (client_read_frame (sample_client_env\<lparr>ce_on_packet := f\<rparr>)
     (sample_player state [Recv_data [2, 0, 7]]\<lparr>cl_read_timeout_ms := t\<rparr>)) = Some [0, 7]"
  by (subst client_read_frame.simps)
     (simp add: sample_client_env_def feed_client_def sample_defs sample_player_def sample_client_def stream_eval
       receive_some_def copy_frame_def copy_decoded_frame_def encode_eval mc_stream_decoder_config_init_def)

text \<open>
  A poll that does not fail ends with the read timeout it began with, whatever the callbacks
  are: a timeout that the packet callback sets does not last.
\<close>

theorem poll_restores_timeout:
  assumes "mc_client_poll env timeout_ms c = (Some n, c')"
  shows "cl_read_timeout_ms c' = cl_read_timeout_ms c"
  by (rule poll_timeout [OF assms])

lemma poll_restores_timeout_witness:
  "\<exists>c'. mc_client_poll (sample_client_env\<lparr>ce_on_packet := \<lambda>state packet_id payload c. c\<lparr>cl_read_timeout_ms := 1\<rparr>\<rparr>) 5
      (sample_player MC_STATE_LOGIN [Recv_data [2, 0, 7]]) = (Some 1, c')
     \<and> cl_read_timeout_ms c' = 30000"
proof -
  let ?env = "sample_client_env\<lparr>ce_on_packet := \<lambda>state packet_id payload c. c\<lparr>cl_read_timeout_ms := 1\<rparr>\<rparr>"
  let ?c = "sample_player MC_STATE_LOGIN [Recv_data [2, 0, 7]]"
  obtain c1 where read: "client_read_frame ?env (?c\<lparr>cl_read_timeout_ms := 5\<rparr>) = (Some [0, 7], c1)"
    using sample_keep_alive [where f = "\<lambda>state packet_id payload c. c\<lparr>cl_read_timeout_ms := 1\<rparr>" and state = MC_STATE_LOGIN and t = 5]
    by (metis prod.collapse)
  have "\<exists>c'. mc_client_poll ?env 5 ?c = (Some 1, c')"
    by (simp add: mc_client_poll_def act_guard_def sample_player_def sample_client_def sample_defs backend_wait_def
        stream_decoder_frame_ready_def stream_eval poll_packet_def act_with_def act_bind_def act_do_def act_or_fail_def
        act_return_def read_protocol_packet_def read [unfolded sample_player_def sample_client_def sample_defs, simplified]
        reader_eval mc_reader_init_def)
  then obtain c' where poll: "mc_client_poll ?env 5 ?c = (Some 1, c')" by blast
  have "cl_read_timeout_ms ?c = 30000" by (simp add: sample_player_def sample_client_def)
  with poll_restores_timeout [OF poll] poll show ?thesis by simp
qed

text \<open>
  C22. A keep-alive that arrives while the client plays is answered, when the application has left
  the automatic reply on: the poll returns 1, and what it has sent is one frame, that of the
  release's answer with the same payload.
\<close>

theorem keep_alive_answered:
  assumes "observing env" and "playing c" and "cl_transforms c = None" and "cl_sends c = []"
    and "automatic c MC_AUTOMATIC_KEEP_ALIVE"
    and "stream_decoder_frame_ready (cl_stream_decoder c) \<or> cl_waits c = []"
    and "fst (client_read_frame env (c\<lparr>cl_read_timeout_ms := timeout_ms\<rparr>)) = Some frame"
    and "mc_reader_varint (mc_reader_init (Buf frame)) = (Some packet_id, body)"
    and "packet_id = word_of_int (pf_keep_alive (cl_profile c))"
    and "encode_frame (ce_frame env) (cl_compression_threshold c)
        (word_of_int (pf_keep_alive_response (cl_profile c))) (Buf (drop (rd_offset body) (rd_data body))) = Some wire"
  shows "\<exists>c'. mc_client_poll env timeout_ms c = (Some 1, c') \<and> cl_wire c' = cl_wire c @ wire \<and> playing c'"
  by (rule keep_alive_reply) fact+

lemma keep_alive_answered_witness:
  "\<exists>c'. mc_client_poll sample_client_env 5 (sample_player MC_STATE_PLAY [Recv_data [2, 0, 7]]) = (Some 1, c')
     \<and> cl_wire c' = [2, 0, 7]"
proof -
  let ?c = "sample_player MC_STATE_PLAY [Recv_data [2, 0, 7]]"
  let ?body = "rd_advance 1 (mc_reader_init (Buf [0, 7]))"
  have same: "sample_client_env\<lparr>ce_on_packet := \<lambda>state packet_id payload c. c\<rparr> = sample_client_env"
    by (simp add: sample_client_env_def)
  have "\<exists>c'. mc_client_poll sample_client_env 5 ?c = (Some 1, c') \<and> cl_wire c' = cl_wire ?c @ [2, 0, 7] \<and> playing c'"
  proof (rule keep_alive_answered [OF sample_callbacks(1)])
    show "fst (client_read_frame sample_client_env (?c\<lparr>cl_read_timeout_ms := 5\<rparr>)) = Some [0, 7]"
      using sample_keep_alive [where f = "\<lambda>state packet_id payload c. c" and state = MC_STATE_PLAY and t = 5] by (simp only: same)
    show "mc_reader_varint (mc_reader_init (Buf [0, 7])) = (Some 0, ?body)"
      by (simp add: mc_reader_init_def reader_eval rd_advance_def)
    show "encode_frame (ce_frame sample_client_env) (cl_compression_threshold ?c)
        (word_of_int (pf_keep_alive_response (cl_profile ?c))) (Buf (drop (rd_offset ?body) (rd_data ?body))) = Some [2, 0, 7]"
      by (simp add: sample_player_def sample_client_def sample_profile_def profile_row_def sample_defs encode_eval
          mc_reader_init_def mc_reader_init_mode_def Let_def)
    show "automatic ?c MC_AUTOMATIC_KEEP_ALIVE"
      by (simp add: automatic_def sample_player_def sample_client_def MC_AUTOMATIC_ALL_def MC_AUTOMATIC_KEEP_ALIVE_def)
  qed (simp_all add: sample_player_def sample_client_def sample_profile_def profile_row_def playing_def connecting_def)
  then show ?thesis by (auto simp: sample_player_def sample_client_def)
qed


text \<open>
  C3. The two ends agree on the handshake: what \<open>mc_client_open\<close> has written when it succeeds, in
  whatever chunks it arrives at a listening server, makes \<open>mc_server_accept\<close> return the client's
  protocol, host, port and intention, in the state the client asks for, with every byte that follows
  the handshake left to read. The host must be shorter than the server's buffer for it.
\<close>

theorem handshake_accepted:
  assumes "observing env" and "mc_protocol_supported (pf_protocol (cl_profile c))"
    and "mc_client_open env (Some host) port next_state c = (Some (), c')"
    and "length host < MC_HANDSHAKE_HOST_SIZE"
    and "observing server_env" and "0 \<le> accept_fd" and "ce_backend_init server_env accept_fd"
  shows "\<exists>wire. cl_wire c' = cl_wire c @ wire
    \<and> (\<forall>receives later. delivers receives (wire @ later) \<longrightarrow>
        (\<exists>server. mc_server_accept server_env Wait_ready accept_fd True True u receives [] =
            Some (Some (server, \<lparr>hs_protocol = pf_protocol (cl_profile c), hs_host = host,
              hs_port = effective_port port, hs_next_state = next_state\<rparr>))
          \<and> cl_state server = next_state \<and> cl_socket_fd server = accept_fd
          \<and> delivers (cl_receives server) later))"
proof -
  let ?frame = "0 # handshake_bytes (word_of_int (pf_protocol (cl_profile c))) host (effective_port port) (state_code next_state)"
  obtain wire where wire: "cl_wire c' = cl_wire c @ wire" "wire = varint_bytes (of_nat (length ?frame)) @ ?frame"
    and valid: "host \<noteq> []" "next_state = MC_STATE_LOGIN \<or> next_state = MC_STATE_STATUS"
    using open_written [OF assms(1,3)] assms(4) encode_plain by (force simp: MC_HANDSHAKE_HOST_SIZE_def)
  then show ?thesis
    using server_accepts [OF assms(5,2) valid(1) assms(4) valid(2) assms(6,7) _ refl] by auto
qed

lemma sample_open:
  "fst (mc_client_open sample_client_env (Some [104]) 0 MC_STATE_LOGIN sample_client) = Some ()"
  by (simp add: mc_client_open_def sample_client_env_def sample_client_def act_guard_def act_bind_def act_do_def
      Let_def act_or_fail_def act_with_def handshake_written send_builder_def send_frame_def sample_defs
      encode_frame_def handshake_bytes_def string_bytes_def MC_MAX_PACKET_def INT32_MAX_def send_all_def
      socket_send_def sample_profile_def profile_row_def MC_DEFAULT_PORT_def varint_bytes_def leb_bytes_last
      be_bytes_def encode_varint_bytes)

lemma handshake_accepted_witness:
  "\<exists>server. mc_server_accept sample_client_env Wait_ready 7 True True () (map Recv_data
      [drop (length (cl_wire sample_client)) (cl_wire (snd (mc_client_open sample_client_env (Some [104]) 0 MC_STATE_LOGIN sample_client)))]) []
     = Some (Some (server, \<lparr>hs_protocol = 47, hs_host = [104], hs_port = 25565, hs_next_state = MC_STATE_LOGIN\<rparr>))"
proof -
  obtain c' where run: "mc_client_open sample_client_env (Some [104]) 0 MC_STATE_LOGIN sample_client = (Some (), c')"
    using sample_open by (metis prod.collapse)
  have supported: "mc_protocol_supported (pf_protocol (cl_profile sample_client))"
    by (simp add: sample_client_def sample_profile_def profile_row_def supported_iff protocol_ids_def)
  have "length [104 :: u8] < MC_HANDSHAKE_HOST_SIZE" by (simp add: MC_HANDSHAKE_HOST_SIZE_def)
  from handshake_accepted [OF sample_callbacks(1) supported run this sample_callbacks(1), of 7 "()"]
  obtain wire where wire: "cl_wire c' = cl_wire sample_client @ wire"
    and accept: "\<And>receives later. delivers receives (wire @ later) \<Longrightarrow>
        \<exists>server. mc_server_accept sample_client_env Wait_ready 7 True True () receives [] =
            Some (Some (server, \<lparr>hs_protocol = pf_protocol (cl_profile sample_client), hs_host = [104],
              hs_port = effective_port 0, hs_next_state = MC_STATE_LOGIN\<rparr>))"
    by (fastforce simp only: sample_env_fields zero_le_numeral)
  have "wire \<noteq> []"
    using open_written [OF sample_callbacks(1) run] wire encode_plain by force
  then have "delivers (map Recv_data [wire]) (wire @ [])"
    unfolding delivers_def by (intro exI [of _ "[wire]"]) auto
  from accept [OF this] show ?thesis
    using wire run
    by (simp add: sample_client_def sample_profile_def profile_row_def effective_port_def MC_DEFAULT_PORT_def)
qed

text \<open>
  C26. On a socket that delivers chunks of at most a receive's size, between interrupted calls, and
  without transforms, the client's \<open>read_frame\<close> is that of the chunks: same result, same decoder,
  and the chunks not needed are still in the socket.
\<close>

theorem client_read_frame_refines:
  assumes "plain_client c" and "client_read_frame env c = (r, c')"
  shows "read_frame (ce_frame env) (ce_stream env) (cl_stream_decoder c) (socket_chunks (cl_receives c))
      = (r, cl_stream_decoder c', socket_chunks (cl_receives c')) \<and> plain_client c'"
  by (rule client_reads [OF assms])

lemma client_read_frame_refines_witness:
  "fst (read_frame sample_frame_env sample_env (cl_stream_decoder sample_client) [[2, 0, 7]]) = Some [0, 7]"
proof -
  let ?c = "sample_player MC_STATE_PLAY [Recv_interrupted, Recv_data [2, 0, 7]]\<lparr>cl_read_timeout_ms := 5\<rparr>"
  have plain: "plain_client ?c" by (simp add: plain_client_def sample_player_def sample_client_def)
  obtain r c' where run: "client_read_frame sample_client_env ?c = (r, c')"
    by (cases "client_read_frame sample_client_env ?c")
  have "fst (client_read_frame sample_client_env ?c) = Some [0, 7]"
    by (subst client_read_frame.simps)
       (simp add: sample_client_env_def feed_client_def sample_defs sample_player_def sample_client_def stream_eval
         receive_some_def copy_frame_def copy_decoded_frame_def encode_eval mc_stream_decoder_config_init_def)
  with client_read_frame_refines [OF plain run] run show ?thesis
    by (simp add: sample_player_def sample_client_def)
qed

text \<open>
  C2. Everything a peer sends reaches the client: when memory can be allocated and the decoder's
  limits leave room for one receive beside an incomplete frame, reading a packet for each packet the
  peer has encoded returns them all, in order and unchanged, whatever the chunks of the bytes and
  however often the calls are interrupted.
\<close>

theorem client_receives_everything:
  assumes "client_inv c" and "plain_client c" and "\<not> sd_failed (cl_stream_decoder c)"
    and "\<And>n. env_alloc (ce_stream env) n" and "\<And>n. fe_alloc (ce_frame env) n"
    and "reader_room (sd_config (cl_stream_decoder c)) 8192"
    and "encode_frames peer (cl_compression_threshold c) packets = Some wires"
    and "list_all2 (\<lambda>(packet_id, payload) wire. frame_fits (sd_config (cl_stream_decoder c))
        (cl_compression_threshold c) packet_id payload wire) packets wires"
    and "zlib_inverse (fe_compress2 peer) (env_inflate (ce_stream env))"
    and "sd_buffer (cl_stream_decoder c) @ concat (socket_chunks (cl_receives c)) = concat wires @ tail"
  shows "client_packets env (length packets) c = Some (map packet_bytes packets)"
proof -
  have "stream_wf (cl_stream_decoder c)"
    "cl_compression_threshold c = sd_compression_threshold (cl_stream_decoder c)"
    using assms(1) by (simp_all add: client_inv_def reachable_wf)
  then show ?thesis
    unfolding client_packets_read [OF assms(2)]
    using assms(3-10) chunk_sizes [of "cl_receives c"] assms(2)
    by (intro packets_delivered [of _ _ _ 8192]) (simp_all add: plain_client_def)
qed

lemma client_receives_everything_witness:
  "client_packets sample_client_env (length [(1 :: i32, [2, 3 :: u8]), (7, [8, 9])])
     (sample_player MC_STATE_PLAY [Recv_data [3, 1], Recv_interrupted, Recv_data [2, 3, 3, 7], Recv_data [8, 9, 9]])
   = Some (map packet_bytes [(1, [2, 3]), (7, [8, 9])])"
proof (rule client_receives_everything [where tail = "[9]"])
  let ?c = "sample_player MC_STATE_PLAY [Recv_data [3, 1], Recv_interrupted, Recv_data [2, 3, 3, 7], Recv_data [8, 9, 9]]"
  show "client_inv ?c"
    using created_inv [OF sample_created] by (simp add: client_inv_def sample_player_def)
  show "encode_frames sample_frame_env (cl_compression_threshold ?c) [(1, [2, 3]), (7, [8, 9])]
      = Some [[3, 1, 2, 3], [3, 7, 8, 9]]"
    by (simp add: sample_player_def sample_client_def sample_defs encode_eval)
  show "list_all2 (\<lambda>(packet_id, payload) wire. frame_fits (sd_config (cl_stream_decoder ?c)) (cl_compression_threshold ?c)
      packet_id payload wire) [(1, [2, 3]), (7, [8, 9])] [[3, 1, 2, 3], [3, 7, 8, 9]]"
    by (simp add: frame_fits_def sample_player_def sample_client_def sample_defs encode_eval mc_stream_decoder_config_init_def)
  show "reader_room (sd_config (cl_stream_decoder ?c)) 8192"
    by (simp add: reader_room_def sample_player_def sample_client_def mc_stream_decoder_config_init_def SIZE_MAX_def)
qed (use sample_zlib in \<open>simp_all add: plain_client_def sample_player_def sample_client_def sample_defs\<close>)





text \<open>
  Before 1.9 the answer to a position repeats the numbers of the packet, relative axes included,
  while the client tracks the position they lead to.
\<close>

theorem legacy_position_echo:
  assumes "pf_protocol (cl_profile c) < 107" and "cl_transforms c = None"
    and "automatic c MC_AUTOMATIC_TELEPORT" and "\<not> cp_has_teleport_id decoded"
    and "cl_tracked_position_valid c" and "play_position env decoded c = (Some (), c')"
  shows "cl_tracked_position c' = resolve_position (cp_relative_flags decoded) (cl_tracked_position c) (cp_position decoded)
    \<and> (\<exists>wire. encode_frame (ce_frame env) (cl_compression_threshold c)
         (word_of_int (movement_packet (pf_protocol (cl_profile c))))
         (Buf (pk_buf (pk_body 48 [mc_packet_player_position (pf_protocol (cl_profile c))
            (Some ((cp_position decoded)\<lparr>pp_on_ground := True\<rparr>))]))) = Some wire
       \<and> cl_wire c' = cl_wire c @ wire)"
  by (rule legacy_position [OF assms])


lemma legacy_position_echo_witness:
  "cl_tracked_position (snd (play_position sample_client_env
     \<lparr>cp_position = position_zero, cp_delta_x = 0, cp_delta_y = 0, cp_delta_z = 0, cp_relative_flags = 1,
      cp_teleport_id = 0, cp_has_velocity_delta = False, cp_has_teleport_id = False, cp_dismount_vehicle = False\<rparr>
     (sample_player MC_STATE_PLAY []\<lparr>cl_tracked_position_valid := True\<rparr>)))
   = resolve_position 1 position_zero position_zero"
proof -
  let ?decoded = "\<lparr>cp_position = position_zero, cp_delta_x = 0, cp_delta_y = 0, cp_delta_z = 0, cp_relative_flags = 1,
      cp_teleport_id = 0, cp_has_velocity_delta = False, cp_has_teleport_id = False, cp_dismount_vehicle = False\<rparr>"
  let ?c = "sample_player MC_STATE_PLAY []\<lparr>cl_tracked_position_valid := True\<rparr>"
  obtain r c' where run: "play_position sample_client_env ?decoded ?c = (r, c')"
    by (cases "play_position sample_client_env ?decoded ?c")
  have auto: "automatic ?c MC_AUTOMATIC_TELEPORT"
    by (simp add: automatic_def sample_player_def sample_client_def MC_AUTOMATIC_ALL_def MC_AUTOMATIC_TELEPORT_def)
  have body: "\<not> pk_failed (pk_body 48 [mc_packet_player_position 47 (Some (position_zero\<lparr>pp_on_ground := True\<rparr>))])"
    "length (pk_buf (pk_body 48 [mc_packet_player_position 47 (Some (position_zero\<lparr>pp_on_ground := True\<rparr>))])) \<le> 48"
    by (simp_all add: pk_body_def mc_packet_player_position_def pk_deref_def pk_guard_def supported_iff protocol_ids_def
        position_zero_def f64_isfinite_def f32_isfinite_def f64_exponent_def f32_exponent_def pk_all.simps pk_and_def
        pk_when_def pk_done_def mc_packet_double_def mc_packet_u64_def mc_packet_float_def mc_packet_u32_def
        mc_packet_bool_def mc_packet_u8_def mc_packet_bytes_def)
  have "\<exists>wire. encode_frame sample_frame_env (-1) 6 (Buf bs) = Some wire" if "length bs \<le> 48" for bs
    using that by (simp add: encode_frame_def Let_def sample_frame_env_def INT32_MAX_def MC_MAX_PACKET_def encode_eval)
  from this [OF body(2)] obtain wire where wire: "encode_frame sample_frame_env (-1) 6 (Buf (pk_buf (pk_body 48
      [mc_packet_player_position 47 (Some (position_zero\<lparr>pp_on_ground := True\<rparr>))]))) = Some wire" ..
  have number: "(word_of_int (movement_packet 47) :: i32) = 6" by (simp add: movement_packet_def)
  have "r = Some ()"
    using run body(1) auto wire
    by (simp add: number send_frame_def send_all_def socket_send_def play_position_def act_with_def Let_def act_bind_def act_do_def act_when_def act_return_def
        send_builder_def sample_player_def sample_client_def sample_profile_def profile_row_def player_loaded_packet_def)
  then show ?thesis
    using legacy_position_echo [of ?c ?decoded sample_client_env c'] run auto
    by (simp add: sample_player_def sample_client_def sample_profile_def profile_row_def)
qed

end
